(* ===== verification/Prelude.thy ===== *)
theory Prelude
  imports Complex_Main
begin

text \<open>
  Shared vocabulary of the development: instants, identifiers and HTTP errors; the parts of
  the JavaScript run time the server leans on (strings, sets that keep insertion order,
  loosely typed JSON input); and database tables as lists of rows with the Prisma operations
  on them.
\<close>

named_theorems table_simps \<open>how the table operations read back\<close>
named_theorems js_simps \<open>facts about the JavaScript helpers\<close>

section \<open>Instants, identifiers, errors\<close>

text \<open>An instant is a count of milliseconds since the epoch, as \<open>Date.getTime()\<close> gives it.\<close>

type_synonym time = int
type_synonym id = string

abbreviation minute_ms :: int where "minute_ms \<equiv> 60000"
abbreviation hour_ms :: int where "hour_ms \<equiv> 3600000"
abbreviation day_ms :: int where "day_ms \<equiv> 86400000"

text \<open>
  The exceptions of NestJS the services throw, each with its message. Where the source
  interpolates a value into the message, only the fixed part is kept. \<open>ServerError\<close> is an
  exception no handler turns into one of these, which the framework answers with a 500.
\<close>

datatype http_error =
    BadRequest string | Unauthorized string | Forbidden string | NotFound string | Conflict string
  | ServerError string

type_synonym 'a result = "http_error + 'a"

text \<open>Running an operation on a list of inputs stops at the first exception.\<close>

definition is_ok :: "'a result \<Rightarrow> bool" where
  "is_ok r = (case r of Inl _ \<Rightarrow> False | Inr _ \<Rightarrow> True)"

lemma is_ok_simps [simp]: "is_ok (Inr x)" "\<not> is_ok (Inl e)"
  by (simp_all add: is_ok_def)

lemma is_ok_iff: "is_ok r \<longleftrightarrow> (\<exists>x. r = Inr x)"
  by (cases r) auto

lemma map_sum_Inr: "map_sum id f x = Inr y \<longleftrightarrow> (\<exists>z. x = Inr z \<and> y = f z)"
  by (cases x) auto

section \<open>JavaScript helpers\<close>

text \<open>\<open>[...new Set(xs)]\<close>: duplicates go, the first occurrence keeps its place.\<close>

definition js_set :: "'a list \<Rightarrow> 'a list" where
  "js_set xs = rev (remdups (rev xs))"

lemma set_js_set [simp, js_simps]: "set (js_set xs) = set xs"
  by (simp add: js_set_def)

lemma distinct_js_set [simp, js_simps]: "distinct (js_set xs)"
  by (simp add: js_set_def)

lemma js_set_Nil [simp, js_simps]: "js_set [] = []"
  by (simp add: js_set_def)

lemma js_set_eq_Nil [simp, js_simps]: "js_set xs = [] \<longleftrightarrow> xs = []"
  by (simp add: js_set_def)

lemma js_set_distinct [js_simps]: "distinct xs \<Longrightarrow> js_set xs = xs"
  by (simp add: js_set_def distinct_remdups_id)

lemma length_js_set: "length (js_set xs) = card (set xs)"
  by (metis distinct_card distinct_js_set set_js_set)

text \<open>
  Strings are lists of 8-bit characters. A nullable string is falsy when it is
  \<open>null\<close>/\<open>undefined\<close> or empty.
\<close>

fun truthy :: "string option \<Rightarrow> bool" where
  "truthy None = False"
| "truthy (Some s) = (s \<noteq> [])"

lemma truthy_iff: "truthy x \<longleftrightarrow> (\<exists>s. x = Some s \<and> s \<noteq> [])"
  by (cases x) auto

text \<open>\<open>x || null\<close> on a nullable string.\<close>

definition or_null :: "string option \<Rightarrow> string option" where
  "or_null x = (if truthy x then x else None)"

text \<open>\<open>String.prototype.trim\<close> and the class \<open>\s\<close>, on the characters up to 255.\<close>

definition js_space :: "char \<Rightarrow> bool" where
  "js_space c = (c \<in> {CHR '' '', CHR 0x09, CHR 0x0A, CHR 0x0B, CHR 0x0C, CHR 0x0D, CHR 0xA0})"

definition js_trim :: "string \<Rightarrow> string" where
  "js_trim s = rev (dropWhile js_space (rev (dropWhile js_space s)))"

definition is_digit :: "char \<Rightarrow> bool" where
  "is_digit c = (48 \<le> (of_char c :: nat) \<and> (of_char c :: nat) \<le> 57)"

definition digit_val :: "char \<Rightarrow> int" where
  "digit_val c = int (of_char c) - 48"

text \<open>The class \<open>[A-Za-z0-9_-]\<close> of base64url tokens.\<close>

definition is_url_char :: "char \<Rightarrow> bool" where
  "is_url_char c = (is_digit c \<or> (65 \<le> (of_char c :: nat) \<and> (of_char c :: nat) \<le> 90)
     \<or> (97 \<le> (of_char c :: nat) \<and> (of_char c :: nat) \<le> 122) \<or> c = CHR ''_'' \<or> c = CHR ''-'')"

text \<open>\<open>toLowerCase\<close> and \<open>toUpperCase\<close>, on ASCII.\<close>

definition lower :: "char \<Rightarrow> char" where
  "lower c = (if 65 \<le> (of_char c :: nat) \<and> (of_char c :: nat) \<le> 90 then char_of ((of_char c :: nat) + 32) else c)"

definition upper :: "char \<Rightarrow> char" where
  "upper c = (if 97 \<le> (of_char c :: nat) \<and> (of_char c :: nat) \<le> 122 then char_of ((of_char c :: nat) - 32) else c)"

fun starts_with :: "string \<Rightarrow> string \<Rightarrow> bool" where
  "starts_with [] t = True"
| "starts_with (c # cs) [] = False"
| "starts_with (c # cs) (d # ds) = (c = d \<and> starts_with cs ds)"

fun has_substring :: "string \<Rightarrow> string \<Rightarrow> bool" where
  "has_substring p [] = (p = [])"
| "has_substring p (c # cs) = (starts_with p (c # cs) \<or> has_substring p cs)"

text \<open>\<open>parseInt(s, 10)\<close>: leading white space, a sign, then digits; \<open>None\<close> is NaN.\<close>

definition digits_val :: "string \<Rightarrow> int" where
  "digits_val ds = fold (\<lambda>c n. n * 10 + digit_val c) ds 0"

definition js_parseInt :: "string \<Rightarrow> int option" where
  "js_parseInt s =
     (let s1 = dropWhile js_space s;
          neg = (case s1 of c # _ \<Rightarrow> c = CHR ''-'' | [] \<Rightarrow> False);
          s2 = (case s1 of c # t \<Rightarrow> (if c = CHR ''-'' \<or> c = CHR ''+'' then t else s1) | [] \<Rightarrow> []);
          ds = takeWhile is_digit s2
      in if ds = [] then None else Some (if neg then - digits_val ds else digits_val ds))"

text \<open>\<open>s.split(sep)\<close> for a one-character separator: always at least one piece.\<close>

fun split_on :: "char \<Rightarrow> string \<Rightarrow> string list" where
  "split_on c [] = [[]]"
| "split_on c (x # xs) =
     (if x = c then [] # split_on c xs
      else (case split_on c xs of [] \<Rightarrow> [[x]] | p # ps \<Rightarrow> (x # p) # ps))"

lemma split_on_not_Nil [simp]: "split_on c s \<noteq> []"
  by (induction s) (auto split: list.splits)

lemma split_on_none [js_simps]: "c \<notin> set s \<Longrightarrow> split_on c s = [s]"
  by (induction s) auto

lemma split_on_append:
  "c \<notin> set s \<Longrightarrow> split_on c (s @ c # t) = s # split_on c t"
  by (induction s) auto

text \<open>
  Loosely typed input, as it leaves \<open>JSON.parse\<close> or a request body. \<open>JUndefined\<close> is a
  missing property.
\<close>

datatype json =
    JUndefined | JNull | JBool bool | JNum rat | JStr string
  | JArr "json list" | JObj "(string \<times> json) list"

text \<open>\<open>x.name\<close>; reading a property of a primitive other than null/undefined gives undefined.\<close>

definition json_get :: "json \<Rightarrow> string \<Rightarrow> json" where
  "json_get j k = (case j of
       JObj kvs \<Rightarrow> (case map_of kvs k of None \<Rightarrow> JUndefined | Some v \<Rightarrow> v)
     | _ \<Rightarrow> JUndefined)"

definition json_nullish :: "json \<Rightarrow> bool" where
  "json_nullish j = (j = JUndefined \<or> j = JNull)"

definition json_is_integer :: "json \<Rightarrow> bool" where
  "json_is_integer j = (case j of JNum q \<Rightarrow> of_int \<lfloor>q\<rfloor> = q | _ \<Rightarrow> False)"

definition json_int :: "json \<Rightarrow> int" where
  "json_int j = (case j of JNum q \<Rightarrow> \<lfloor>q\<rfloor> | _ \<Rightarrow> 0)"

section \<open>Tables\<close>

text \<open>
  A table is the list of its rows in insertion order. \<open>find_row\<close> is \<open>findFirst\<close> and
  \<open>findUnique\<close>, \<open>List.filter\<close> is \<open>findMany\<close>, \<open>count_rows\<close> is \<open>count\<close>,
  \<open>update_rows\<close> is \<open>update\<close> and \<open>updateMany\<close> (the count an \<open>updateMany\<close> returns is
  \<open>count_rows\<close> of the same condition), \<open>delete_rows\<close> is \<open>deleteMany\<close>.
\<close>

type_synonym 'r table = "'r list"

definition find_row :: "('r \<Rightarrow> bool) \<Rightarrow> 'r table \<Rightarrow> 'r option" where
  "find_row P t = List.find P t"

definition count_rows :: "('r \<Rightarrow> bool) \<Rightarrow> 'r table \<Rightarrow> nat" where
  "count_rows P t = length (filter P t)"

definition update_rows :: "('r \<Rightarrow> bool) \<Rightarrow> ('r \<Rightarrow> 'r) \<Rightarrow> 'r table \<Rightarrow> 'r table" where
  "update_rows P f t = map (\<lambda>r. if P r then f r else r) t"

definition delete_rows :: "('r \<Rightarrow> bool) \<Rightarrow> 'r table \<Rightarrow> 'r table" where
  "delete_rows P t = filter (\<lambda>r. \<not> P r) t"

lemma find_row_simps [simp, table_simps]:
  "find_row P [] = None"
  "find_row P (r # t) = (if P r then Some r else find_row P t)"
  by (simp_all add: find_row_def)

lemma count_rows_simps [simp, table_simps]:
  "count_rows P [] = 0"
  "count_rows P (r # t) = (if P r then Suc (count_rows P t) else count_rows P t)"
  "count_rows P (t @ u) = count_rows P t + count_rows P u"
  by (simp_all add: count_rows_def)

lemma update_rows_simps [simp, table_simps]:
  "update_rows P f [] = []"
  "update_rows P f (r # t) = (if P r then f r else r) # update_rows P f t"
  "update_rows P f (t @ u) = update_rows P f t @ update_rows P f u"
  by (simp_all add: update_rows_def)

lemma delete_rows_simps [simp, table_simps]:
  "delete_rows P [] = []"
  "delete_rows P (r # t) = (if P r then delete_rows P t else r # delete_rows P t)"
  by (simp_all add: delete_rows_def)

lemma find_row_Some: "find_row P t = Some r \<Longrightarrow> r \<in> set t \<and> P r"
  by (induction t) (auto split: if_splits)

lemma find_row_append: "find_row P (t @ t') = (case find_row P t of None \<Rightarrow> find_row P t' | Some r \<Rightarrow> Some r)"
  by (induction t) auto

lemma find_row_None: "find_row P t = None \<longleftrightarrow> (\<forall>r \<in> set t. \<not> P r)"
  by (induction t) auto

lemma find_row_cong: "(\<And>r. r \<in> set t \<Longrightarrow> P r = Q r) \<Longrightarrow> find_row P t = find_row Q t"
  by (induction t) auto

lemma count_rows_zero [simp]: "count_rows P t = 0 \<longleftrightarrow> (\<forall>r \<in> set t. \<not> P r)"
  by (induction t) auto

lemma count_rows_pos [simp]: "0 < count_rows P t \<longleftrightarrow> (\<exists>r \<in> set t. P r)"
  by (metis count_rows_zero neq0_conv)

lemma set_update_rows:
  "set (update_rows P f t) = f ` {r \<in> set t. P r} \<union> {r \<in> set t. \<not> P r}"
  by (induction t) auto

lemma in_update_rows: "r \<in> set (update_rows P f t) \<Longrightarrow> (\<exists>q \<in> set t. r = (if P q then f q else q))"
  by (auto simp: update_rows_def)

lemma length_update_rows [simp]: "length (update_rows P f t) = length t"
  by (simp add: update_rows_def)

lemma update_rows_id: "(\<And>r. r \<in> set t \<Longrightarrow> P r \<Longrightarrow> f r = r) \<Longrightarrow> update_rows P f t = t"
  by (induction t) auto

lemma update_rows_none: "(\<And>r. r \<in> set t \<Longrightarrow> \<not> P r) \<Longrightarrow> update_rows P f t = t"
  by (induction t) auto

lemma update_rows_cong:
  "(\<And>r. r \<in> set t \<Longrightarrow> P r = Q r) \<Longrightarrow> (\<And>r. r \<in> set t \<Longrightarrow> P r \<Longrightarrow> f r = g r) \<Longrightarrow>
   update_rows P f t = update_rows Q g t"
  by (induction t) auto

lemma map_update_rows:
  "(\<And>r. k (f r) = k r) \<Longrightarrow> map k (update_rows P f t) = map k t"
  by (induction t) auto

lemma set_delete_rows [simp]: "set (delete_rows P t) = {r \<in> set t. \<not> P r}"
  by (induction t) auto

text \<open>Looking a row up by a key that the update leaves alone.\<close>

lemma find_row_update:
  assumes "\<And>r. k (f r) = k r"
  shows "find_row (\<lambda>r. k r = i) (update_rows P f t) =
           map_option (\<lambda>r. if P r then f r else r) (find_row (\<lambda>r. k r = i) t)"
  using assms by (induction t) auto

text \<open>With unique keys, looking up a row's key finds the row.\<close>

lemma find_unique:
  "distinct (map k t) \<Longrightarrow> r \<in> set t \<Longrightarrow> find_row (\<lambda>x. k x = k r) t = Some r"
  by (induction t) (auto simp: image_iff)

text \<open>What an update of other rows leaves.\<close>

lemma filter_update_rows:
  "(\<And>r. r \<in> set t \<Longrightarrow> P r \<Longrightarrow> \<not> Q r \<and> \<not> Q (f r)) \<Longrightarrow> filter Q (update_rows P f t) = filter Q t"
  by (induction t) auto

lemma map_update_rows_on:
  "(\<And>r. P r \<Longrightarrow> k (f r) = k r) \<Longrightarrow> map k (update_rows P f t) = map k t"
  by (induction t) auto

lemma updated_in: "r \<in> set t \<Longrightarrow> P r \<Longrightarrow> f r \<in> set (update_rows P f t)"
  by (auto simp: set_update_rows)

section \<open>Stored columns\<close>

text \<open>
  A partial update of text columns: an absent key leaves the column, a present one writes its value or null.
\<close>

type_synonym columns = "string \<rightharpoonup> string option"

definition set_columns :: "string list \<Rightarrow> columns \<Rightarrow> (string \<rightharpoonup> string) \<Rightarrow> (string \<rightharpoonup> string)" where
  "set_columns cols dto m = (\<lambda>k. if k \<in> set cols then (case dto k of None \<Rightarrow> m k | Some v \<Rightarrow> v) else m k)"

definition given_or :: "'a option \<Rightarrow> 'a \<Rightarrow> 'a" where
  "given_or x d = (case x of None \<Rightarrow> d | Some v \<Rightarrow> v)"

end
