(* ===== verification/Contracts.thy ===== *)
theory Contracts
  imports Prelude
begin

text \<open>
  The contracts the components share, each a locale whose laws the components discharge for
  their own definitions:
  \<^item> \<open>single_use\<close>: a row that a conditional update consumes (launcher tokens, enrollment
    tokens, job dispatch, request claims, approvals). Whatever order the attempts come in,
    at most one of them wins.
  \<^item> \<open>machine\<close> and \<open>ranked_machine\<close>: a step function with an invariant, and one that
    also only moves forward and stops in final states.
  \<^item> \<open>pinned_scope\<close>: a scope rule that pins everyone but a platform admin to one
    business; whatever is listed through it stays inside that business.
\<close>

section \<open>Conditional updates that consume a row\<close>

text \<open>
  \<open>updateMany({ where, data })\<close>: the number of rows the condition held for and the table
  after the update. The database evaluates condition and update together.
\<close>

definition claim_rows :: "('r \<Rightarrow> bool) \<Rightarrow> ('r \<Rightarrow> 'r) \<Rightarrow> 'r table \<Rightarrow> nat \<times> 'r table" where
  "claim_rows P f t = (count_rows P t, update_rows P f t)"

text \<open>
  What happens to a table between requests: an attempt to consume row \<open>i\<close>, or a write by
  other code to any of its rows.
\<close>

datatype ('p, 'r) table_event = Attempt 'p | Other "'r \<Rightarrow> 'r"

fun run_claims ::
  "('r \<Rightarrow> id) \<Rightarrow> ('p \<Rightarrow> 'r \<Rightarrow> bool) \<Rightarrow> ('p \<Rightarrow> 'r \<Rightarrow> 'r) \<Rightarrow> id \<Rightarrow>
   ('p, 'r) table_event list \<Rightarrow> 'r table \<Rightarrow> nat list" where
  "run_claims rid live consume i [] t = []"
| "run_claims rid live consume i (Attempt p # es) t =
     (let (n, t') = claim_rows (\<lambda>r. rid r = i \<and> live p r) (consume p) t
      in n # run_claims rid live consume i es t')"
| "run_claims rid live consume i (Other g # es) t =
     run_claims rid live consume i es (map g t)"

locale single_use =
  fixes rid :: "'r \<Rightarrow> id"
    and live :: "'p \<Rightarrow> 'r \<Rightarrow> bool"
    and consume :: "'p \<Rightarrow> 'r \<Rightarrow> 'r"
  assumes consume_rid: "rid (consume p r) = rid r"
    and consume_dead: "live p r \<Longrightarrow> \<not> live q (consume p r)"
begin

definition spent :: "id \<Rightarrow> 'r table \<Rightarrow> bool" where
  "spent i t \<longleftrightarrow> (\<forall>r \<in> set t. rid r = i \<longrightarrow> (\<forall>q. \<not> live q r))"

text \<open>Other code keeps the key and never revives a consumed row.\<close>

definition harmless :: "('r \<Rightarrow> 'r) \<Rightarrow> bool" where
  "harmless g \<longleftrightarrow> (\<forall>r. rid (g r) = rid r \<and> ((\<forall>q. \<not> live q r) \<longrightarrow> (\<forall>q. \<not> live q (g r))))"

fun harmless_run :: "('p, 'r) table_event list \<Rightarrow> bool" where
  "harmless_run [] = True"
| "harmless_run (Attempt p # es) = harmless_run es"
| "harmless_run (Other g # es) = (harmless g \<and> harmless_run es)"

lemma spent_none: "spent i t \<Longrightarrow> count_rows (\<lambda>r. rid r = i \<and> live p r) t = 0"
  by (auto simp: spent_def)

lemma spent_update: "spent i t \<Longrightarrow> spent i (update_rows (\<lambda>r. rid r = i \<and> live p r) (consume p) t)"
  by (auto simp: spent_def set_update_rows)

lemma spent_other: "harmless g \<Longrightarrow> spent i t \<Longrightarrow> spent i (map g t)"
  by (auto simp: spent_def harmless_def)

lemma win_spends:
  assumes "distinct (map rid t)" and "0 < count_rows (\<lambda>r. rid r = i \<and> live p r) t"
  shows "spent i (update_rows (\<lambda>r. rid r = i \<and> live p r) (consume p) t)"
  using assms
proof (induction t)
  case Nil
  then show ?case by simp
next
  case (Cons r t)
  show ?case
  proof (cases "rid r = i \<and> live p r")
    case True
    with Cons.prems(1) have "\<forall>x \<in> set t. rid x \<noteq> i" by (auto simp: image_iff)
    with True show ?thesis
      by (auto simp: spent_def set_update_rows consume_dead consume_rid)
  next
    case False
    with Cons.prems have 0: "0 < count_rows (\<lambda>r. rid r = i \<and> live p r) t" "distinct (map rid t)"
      by auto
    then have "\<exists>x \<in> set t. rid x = i" by (auto simp: count_rows_pos)
    with Cons.prems(1) have "rid r \<noteq> i" by auto
    with False Cons.IH 0 show ?thesis by (simp add: spent_def)
  qed
qed

lemma spent_run:
  "spent i t \<Longrightarrow> harmless_run es \<Longrightarrow>
   \<forall>n \<in> set (run_claims rid live consume i es t). n = 0"
proof (induction es arbitrary: t)
  case Nil
  then show ?case by simp
next
  case (Cons e es)
  show ?case
  proof (cases e)
    case (Attempt p)
    with Cons show ?thesis
      using spent_none[of i t p] spent_update[of i t p]
      by (simp add: claim_rows_def)
  next
    case (Other g)
    with Cons show ?thesis using spent_other[of g i t] by simp
  qed
qed

lemma keys_kept:
  "map rid (update_rows P (consume p) t) = map rid t"
  by (rule map_update_rows) (rule consume_rid)

text \<open>However attempts and other writes interleave, at most one attempt wins.\<close>

lemma at_most_one_wins:
  "distinct (map rid t) \<Longrightarrow> harmless_run es \<Longrightarrow>
   length (filter (\<lambda>n. 0 < n) (run_claims rid live consume i es t)) \<le> 1"
proof (induction es arbitrary: t)
  case Nil
  then show ?case by simp
next
  case (Cons e es)
  show ?case
  proof (cases e)
    case (Attempt p)
    let ?P = "\<lambda>r. rid r = i \<and> live p r"
    let ?t = "update_rows ?P (consume p) t"
    have d: "distinct (map rid ?t)" using Cons.prems(1) by (simp add: keys_kept)
    show ?thesis
    proof (cases "0 < count_rows ?P t")
      case True
      then have "spent i ?t" using Cons.prems(1) win_spends by blast
      then have "\<forall>n \<in> set (run_claims rid live consume i es ?t). n = 0"
        using Cons.prems(2) Attempt spent_run by simp
      then have "filter (\<lambda>n. 0 < n) (run_claims rid live consume i es ?t) = []"
        by (simp add: filter_empty_conv)
      with True Attempt show ?thesis by (simp add: claim_rows_def)
    next
      case False
      then have "length (filter (\<lambda>n. 0 < n) (run_claims rid live consume i es ?t)) \<le> 1"
        using Cons.IH[OF d] Cons.prems(2) Attempt by simp
      with False Attempt show ?thesis by (auto simp: claim_rows_def)
    qed
  next
    case (Other g)
    then have "harmless g" using Cons.prems(2) by simp
    then have eq: "map rid (map g t) = map rid t" by (simp add: harmless_def)
    have "distinct (map rid (map g t))" unfolding eq by (rule Cons.prems(1))
    from Cons.IH[OF this] Cons.prems(2) Other show ?thesis by simp
  qed
qed

end

section \<open>Step functions\<close>

locale machine =
  fixes step :: "'s \<Rightarrow> 'e \<Rightarrow> 's"
    and inv :: "'s \<Rightarrow> bool"
  assumes inv_step: "inv s \<Longrightarrow> inv (step s e)"
begin

lemma inv_run: "inv s \<Longrightarrow> inv (foldl step s es)"
  by (induction es arbitrary: s) (simp_all add: inv_step)

end

locale ranked_machine = machine +
  fixes rank :: "'s \<Rightarrow> nat"
    and final :: "'s \<Rightarrow> bool"
  assumes rank_step: "inv s \<Longrightarrow> rank s \<le> rank (step s e)"
    and final_step: "inv s \<Longrightarrow> final s \<Longrightarrow> step s e = s"
begin

lemma rank_run: "inv s \<Longrightarrow> rank s \<le> rank (foldl step s es)"
proof (induction es arbitrary: s)
  case Nil
  then show ?case by simp
next
  case (Cons e es)
  then have "rank (step s e) \<le> rank (foldl step (step s e) es)" by (simp add: inv_step)
  with rank_step[OF Cons.prems, of e] show ?case by simp
qed

lemma final_run: "inv s \<Longrightarrow> final s \<Longrightarrow> foldl step s es = s"
  by (induction es) (simp_all add: final_step)

end

section \<open>Scopes\<close>

text \<open>
  The fragment \<open>...(scope ? { customerId: scope } : {})\<close> of a query: a null or empty scope
  constrains nothing.
\<close>

definition scope_where :: "('r \<Rightarrow> id option) \<Rightarrow> id option \<Rightarrow> 'r \<Rightarrow> bool" where
  "scope_where key sc r = (if truthy sc then key r = sc else True)"

locale pinned_scope =
  fixes scope_of :: "'a \<Rightarrow> id option \<Rightarrow> id option result"
    and admin :: "'a \<Rightarrow> bool"
    and own :: "'a \<Rightarrow> id option"
  assumes pinned: "\<not> admin a \<Longrightarrow> scope_of a rq = Inr sc \<Longrightarrow> truthy (own a) \<and> sc = own a"
begin

lemma listed_in_own:
  assumes "\<not> admin a" and "scope_of a rq = Inr sc" and "x \<in> set (filter (scope_where key sc) t)"
  shows "key x = own a"
  using pinned[OF assms(1,2)] assms(3) by (simp add: scope_where_def)

lemma listed_disjoint:
  assumes "\<not> admin a" and "\<not> admin b" and "own a \<noteq> own b"
    and "scope_of a rq = Inr sc" and "scope_of b rq' = Inr sc'"
  shows "set (filter (scope_where key sc) t) \<inter> set (filter (scope_where key sc') t) = {}"
  using listed_in_own[of a rq sc _ key t] listed_in_own[of b rq' sc' _ key t] assms by fastforce

end

end
