(* ===== verification/Capabilities.thy ===== *)
theory Capabilities
  imports Prelude
begin

text \<open>
  The authorization vocabulary: \<open>rbac/capabilities.ts\<close>, \<open>rbac/platform-permissions.ts\<close> and
  \<open>rbac/permissions.map.ts\<close>. A capability is its string, as in the source, because the
  sanitizers filter strings that come from outside.
\<close>

section \<open>Role types and capabilities (rbac/capabilities.ts)\<close>

datatype role_type =
    PLATFORM_ADMIN | BUSINESS_OWNER | BUSINESS_USER
  | TENANT_OWNER | TENANT_ADMIN | TECHNICIAN | BILLING_ADMIN | READ_ONLY | CUSTOMER

type_synonym capability = string

definition CAP_COMPUTERS_VIEW :: capability where "CAP_COMPUTERS_VIEW = ''computers:view''"
definition CAP_COMPUTERS_CONNECT :: capability where "CAP_COMPUTERS_CONNECT = ''computers:connect''"
definition CAP_COMPUTERS_ADD :: capability where "CAP_COMPUTERS_ADD = ''computers:add''"
definition CAP_COMPUTERS_REMOVE :: capability where "CAP_COMPUTERS_REMOVE = ''computers:remove''"
definition CAP_COMPUTERS_EDIT :: capability where "CAP_COMPUTERS_EDIT = ''computers:edit''"
definition CAP_COMPUTERS_EVENT_LOGS :: capability where "CAP_COMPUTERS_EVENT_LOGS = ''computers:event_logs''"
definition CAP_QUICK_CONNECT :: capability where "CAP_QUICK_CONNECT = ''support:quick_connect''"
definition CAP_SESSIONS_VIEW :: capability where "CAP_SESSIONS_VIEW = ''support:sessions_view''"
definition CAP_HISTORY_VIEW :: capability where "CAP_HISTORY_VIEW = ''support:history_view''"
definition CAP_SUPPORT_REQUESTS :: capability where "CAP_SUPPORT_REQUESTS = ''support:requests''"
definition CAP_USERS_VIEW :: capability where "CAP_USERS_VIEW = ''users:view''"
definition CAP_USERS_MANAGE :: capability where "CAP_USERS_MANAGE = ''users:manage''"
definition CAP_AUDIT_VIEW :: capability where "CAP_AUDIT_VIEW = ''audit:view''"

lemmas cap_defs =
  CAP_COMPUTERS_VIEW_def CAP_COMPUTERS_CONNECT_def CAP_COMPUTERS_ADD_def CAP_COMPUTERS_REMOVE_def
  CAP_COMPUTERS_EDIT_def CAP_COMPUTERS_EVENT_LOGS_def CAP_QUICK_CONNECT_def CAP_SESSIONS_VIEW_def
  CAP_HISTORY_VIEW_def CAP_SUPPORT_REQUESTS_def CAP_USERS_VIEW_def CAP_USERS_MANAGE_def
  CAP_AUDIT_VIEW_def

definition ALL_BUSINESS_CAPABILITIES :: "capability list" where
  "ALL_BUSINESS_CAPABILITIES =
    [CAP_COMPUTERS_VIEW, CAP_COMPUTERS_CONNECT, CAP_COMPUTERS_ADD, CAP_COMPUTERS_REMOVE,
     CAP_COMPUTERS_EDIT, CAP_COMPUTERS_EVENT_LOGS, CAP_QUICK_CONNECT, CAP_SESSIONS_VIEW,
     CAP_HISTORY_VIEW, CAP_SUPPORT_REQUESTS, CAP_USERS_VIEW, CAP_USERS_MANAGE, CAP_AUDIT_VIEW]"

definition DEFAULT_BUSINESS_USER_CAPABILITIES :: "capability list" where
  "DEFAULT_BUSINESS_USER_CAPABILITIES = [CAP_COMPUTERS_VIEW, CAP_COMPUTERS_CONNECT]"

text \<open>A partial record: roles not listed have no entry.\<close>

fun LEGACY_ROLE_CAPABILITIES :: "role_type \<Rightarrow> capability list option" where
  "LEGACY_ROLE_CAPABILITIES TECHNICIAN =
     Some [CAP_COMPUTERS_VIEW, CAP_COMPUTERS_CONNECT, CAP_SESSIONS_VIEW, CAP_HISTORY_VIEW]"
| "LEGACY_ROLE_CAPABILITIES BILLING_ADMIN = Some [CAP_USERS_VIEW, CAP_AUDIT_VIEW]"
| "LEGACY_ROLE_CAPABILITIES READ_ONLY =
     Some [CAP_COMPUTERS_VIEW, CAP_SESSIONS_VIEW, CAP_HISTORY_VIEW, CAP_AUDIT_VIEW]"
| "LEGACY_ROLE_CAPABILITIES CUSTOMER =
     Some [CAP_COMPUTERS_VIEW, CAP_COMPUTERS_CONNECT, CAP_SESSIONS_VIEW, CAP_HISTORY_VIEW]"
| "LEGACY_ROLE_CAPABILITIES _ = None"

definition LEGACY_OWNER_ROLES :: "role_type list" where
  "LEGACY_OWNER_ROLES = [TENANT_OWNER, TENANT_ADMIN]"

definition isOwnerRole :: "role_type option \<Rightarrow> bool" where
  "isOwnerRole r = (case r of
       None \<Rightarrow> False
     | Some rt \<Rightarrow> rt = BUSINESS_OWNER \<or> rt \<in> set LEGACY_OWNER_ROLES)"

definition TECHNICIAN_ASSIGNABLE_CAPABILITIES :: "capability list" where
  "TECHNICIAN_ASSIGNABLE_CAPABILITIES = filter (\<lambda>c. c \<noteq> CAP_USERS_MANAGE) ALL_BUSINESS_CAPABILITIES"

text \<open>
  \<open>input: unknown\<close>: anything that is not an array gives the empty list; entries that are not
  known capability strings are dropped and duplicates keep their first place.
\<close>

definition sanitizeCapabilities :: "json \<Rightarrow> capability list" where
  "sanitizeCapabilities input = (case input of
       JArr raws \<Rightarrow> js_set (concat (map (\<lambda>raw. case raw of
           JStr s \<Rightarrow> if s \<in> set ALL_BUSINESS_CAPABILITIES then [s] else []
         | _ \<Rightarrow> []) raws))
     | _ \<Rightarrow> [])"

definition sanitizeTechnicianCapabilities :: "json \<Rightarrow> capability list" where
  "sanitizeTechnicianCapabilities input =
     filter (\<lambda>c. c \<in> set TECHNICIAN_ASSIGNABLE_CAPABILITIES) (sanitizeCapabilities input)"

text \<open>A database column of type \<open>String[]\<close>, or null, handed to a sanitizer.\<close>

definition json_strings :: "string list option \<Rightarrow> json" where
  "json_strings xs = (case xs of None \<Rightarrow> JNull | Some ys \<Rightarrow> JArr (map JStr ys))"

text \<open>What the permission functions read of an actor; an absent role is \<open>None\<close>.\<close>

record principal =
  p_isPlatformAdmin :: bool
  p_roleType :: "role_type option"
  p_capabilities :: "string list option"

definition effectiveCapabilities :: "principal \<Rightarrow> capability list" where
  "effectiveCapabilities a =
     (if p_isPlatformAdmin a then ALL_BUSINESS_CAPABILITIES
      else if isOwnerRole (p_roleType a) then ALL_BUSINESS_CAPABILITIES
      else let stored = sanitizeCapabilities (json_strings (p_capabilities a)) in
        if length stored > 0 then stored
        else case p_roleType a of
            None \<Rightarrow> []
          | Some rt \<Rightarrow> (case LEGACY_ROLE_CAPABILITIES rt of None \<Rightarrow> [] | Some cs \<Rightarrow> cs))"

definition hasCapability :: "principal \<Rightarrow> capability \<Rightarrow> bool" where
  "hasCapability a c = (p_isPlatformAdmin a \<or> c \<in> set (effectiveCapabilities a))"

datatype access_level = PlatformAdminLevel | BusinessOwnerLevel | BusinessUserLevel

definition accessLevelLabel :: "bool \<Rightarrow> role_type option \<Rightarrow> access_level" where
  "accessLevelLabel isPlatformAdmin roleType =
     (if isPlatformAdmin then PlatformAdminLevel
      else if isOwnerRole roleType then BusinessOwnerLevel else BusinessUserLevel)"

section \<open>Platform permissions (rbac/platform-permissions.ts)\<close>

definition TECHNICIANS_MANAGE :: string where "TECHNICIANS_MANAGE = ''technicians:manage''"

definition ALL_PLATFORM_PERMISSIONS :: "string list" where
  "ALL_PLATFORM_PERMISSIONS = [TECHNICIANS_MANAGE]"

definition sanitizePlatformPermissions :: "json \<Rightarrow> string list" where
  "sanitizePlatformPermissions input = (case input of
       JArr xs \<Rightarrow> js_set (concat (map (\<lambda>p. case p of
           JStr s \<Rightarrow> if s \<in> set ALL_PLATFORM_PERMISSIONS then [s] else []
         | _ \<Rightarrow> []) xs))
     | _ \<Rightarrow> [])"

section \<open>Legacy permission strings (rbac/permissions.map.ts)\<close>

datatype permission_rule = PLATFORM_ONLY | OWNER_ONLY | MEMBER | Needs capability

definition PERMISSION_RULES :: "(string \<times> permission_rule) list" where
  "PERMISSION_RULES =
    [(''platform:admin'', PLATFORM_ONLY), (''platform:read'', PLATFORM_ONLY),
     (''tenant:read'', MEMBER), (''tenant:write'', OWNER_ONLY),
     (''settings:write'', OWNER_ONLY), (''branding:write'', OWNER_ONLY),
     (''customers:read'', Needs CAP_COMPUTERS_VIEW), (''customers:write'', OWNER_ONLY),
     (''dashboard:read'', MEMBER), (''portal:read'', MEMBER),
     (''endpoints:read'', Needs CAP_COMPUTERS_VIEW), (''endpoints:write'', Needs CAP_COMPUTERS_EDIT),
     (''endpoints:update'', Needs CAP_COMPUTERS_EDIT), (''endpoints:create'', Needs CAP_COMPUTERS_ADD),
     (''endpoints:delete'', Needs CAP_COMPUTERS_REMOVE),
     (''sessions:read'', Needs CAP_SESSIONS_VIEW), (''sessions:write'', Needs CAP_COMPUTERS_CONNECT),
     (''sessions:create'', Needs CAP_COMPUTERS_CONNECT), (''sessions:update'', Needs CAP_COMPUTERS_CONNECT),
     (''sessions:launch'', Needs CAP_COMPUTERS_CONNECT),
     (''notes:read'', Needs CAP_COMPUTERS_VIEW), (''notes:write'', Needs CAP_COMPUTERS_EDIT),
     (''users:read'', Needs CAP_USERS_VIEW), (''users:write'', Needs CAP_USERS_MANAGE),
     (''roles:read'', Needs CAP_USERS_VIEW), (''roles:write'', Needs CAP_USERS_MANAGE),
     (''audit:read'', Needs CAP_AUDIT_VIEW),
     (''api_keys:read'', OWNER_ONLY), (''api_keys:write'', OWNER_ONLY)]"

text \<open>
  \<open>const [resource, action] = permission.split(':')\<close>: further pieces are ignored, a missing
  or empty piece gives null.
\<close>

definition resolveWildcard :: "string \<Rightarrow> permission_rule option" where
  "resolveWildcard permission = (case split_on (CHR '':'') permission of
       resource # action # _ \<Rightarrow>
         if resource = [] \<or> action = [] then None
         else if action \<in> {''create'', ''update'', ''delete'', ''launch''}
         then map_of PERMISSION_RULES (resource @ '':write'')
         else None
     | _ \<Rightarrow> None)"

definition actorHasPermission :: "principal \<Rightarrow> string \<Rightarrow> bool" where
  "actorHasPermission a permission =
     (if p_isPlatformAdmin a then True
      else case (case map_of PERMISSION_RULES permission of
                    Some r \<Rightarrow> Some r | None \<Rightarrow> resolveWildcard permission) of
          None \<Rightarrow> False
        | Some PLATFORM_ONLY \<Rightarrow> False
        | Some OWNER_ONLY \<Rightarrow> isOwnerRole (p_roleType a)
        | Some MEMBER \<Rightarrow> isOwnerRole (p_roleType a) \<or> p_roleType a \<noteq> None
        | Some (Needs c) \<Rightarrow> isOwnerRole (p_roleType a) \<or> c \<in> set (effectiveCapabilities a))"

definition roleHasPermission :: "role_type \<Rightarrow> string \<Rightarrow> bool" where
  "roleHasPermission rt permission =
     actorHasPermission \<lparr>p_isPlatformAdmin = False, p_roleType = Some rt, p_capabilities = None\<rparr> permission"

definition SYSTEM_ROLE_PERMISSIONS :: "role_type \<Rightarrow> string list option" where
  "SYSTEM_ROLE_PERMISSIONS rt = (case rt of
       PLATFORM_ADMIN \<Rightarrow> Some [''*'']
     | BUSINESS_OWNER \<Rightarrow> Some (map fst (filter (\<lambda>(p, r). r \<noteq> PLATFORM_ONLY) PERMISSION_RULES))
     | BUSINESS_USER \<Rightarrow> Some [''dashboard:read'', ''endpoints:read'', ''sessions:create'']
     | _ \<Rightarrow> None)"

section \<open>Lemmas\<close>

lemma distinct_ALL [simp]: "distinct ALL_BUSINESS_CAPABILITIES"
  by (simp add: ALL_BUSINESS_CAPABILITIES_def cap_defs)

lemma isOwnerRole_None [simp]: "\<not> isOwnerRole None"
  by (simp add: isOwnerRole_def)

lemma isOwnerRole_Some: "isOwnerRole (Some r) \<longleftrightarrow> r = BUSINESS_OWNER \<or> r = TENANT_OWNER \<or> r = TENANT_ADMIN"
  by (auto simp: isOwnerRole_def LEGACY_OWNER_ROLES_def)

lemma sanitize_known: "set (sanitizeCapabilities j) \<subseteq> set ALL_BUSINESS_CAPABILITIES"
  by (cases j) (auto simp: sanitizeCapabilities_def split: json.splits if_splits)

lemma sanitize_distinct [simp]: "distinct (sanitizeCapabilities j)"
  by (cases j) (auto simp: sanitizeCapabilities_def)

lemma sanitize_given: "c \<in> set (sanitizeCapabilities (JArr js)) \<Longrightarrow> JStr c \<in> set js"
  by (auto simp: sanitizeCapabilities_def split: json.splits if_splits)

lemma set_sanitize_strings:
  "set (sanitizeCapabilities (JArr (map JStr cs))) = set cs \<inter> set ALL_BUSINESS_CAPABILITIES"
  by (auto simp: sanitizeCapabilities_def)

lemma concat_known: "set cs \<subseteq> A \<Longrightarrow> concat (map (\<lambda>c. if c \<in> A then [c] else []) cs) = cs"
  by (induction cs) auto

lemma sanitize_id:
  "set cs \<subseteq> set ALL_BUSINESS_CAPABILITIES \<Longrightarrow> distinct cs \<Longrightarrow>
   sanitizeCapabilities (JArr (map JStr cs)) = cs"
  by (simp add: sanitizeCapabilities_def comp_def concat_known js_set_distinct)

lemma sanitize_idem:
  "sanitizeCapabilities (JArr (map JStr (sanitizeCapabilities j))) = sanitizeCapabilities j"
  by (rule sanitize_id) (simp_all add: sanitize_known)

lemma technician_sanitize:
  "set (sanitizeTechnicianCapabilities j) \<subseteq> set ALL_BUSINESS_CAPABILITIES - {CAP_USERS_MANAGE}"
  using sanitize_known by (auto simp: sanitizeTechnicianCapabilities_def TECHNICIAN_ASSIGNABLE_CAPABILITIES_def)

lemma technician_sanitize_distinct [simp]: "distinct (sanitizeTechnicianCapabilities j)"
  by (simp add: sanitizeTechnicianCapabilities_def)

lemma legacy_known:
  "LEGACY_ROLE_CAPABILITIES r = Some cs \<Longrightarrow> set cs \<subseteq> set ALL_BUSINESS_CAPABILITIES"
  by (cases r) (auto simp: ALL_BUSINESS_CAPABILITIES_def)

lemma effective_known: "set (effectiveCapabilities a) \<subseteq> set ALL_BUSINESS_CAPABILITIES"
  by (auto simp: effectiveCapabilities_def Let_def split: option.splits
      dest: subsetD[OF sanitize_known] subsetD[OF legacy_known[OF sym]])

lemma effective_no_role:
  "\<not> p_isPlatformAdmin a \<Longrightarrow> p_roleType a = None \<Longrightarrow>
   effectiveCapabilities a = sanitizeCapabilities (json_strings (p_capabilities a))"
  by (simp add: effectiveCapabilities_def Let_def)

lemma effective_business_user:
  "\<not> p_isPlatformAdmin a \<Longrightarrow> p_roleType a = Some BUSINESS_USER \<Longrightarrow>
   effectiveCapabilities a = sanitizeCapabilities (json_strings (p_capabilities a))"
  by (simp add: effectiveCapabilities_def isOwnerRole_Some Let_def)

lemma platform_sanitize: "set (sanitizePlatformPermissions j) \<subseteq> set ALL_PLATFORM_PERMISSIONS"
  by (cases j) (auto simp: sanitizePlatformPermissions_def split: json.splits if_splits)

end
