(* ===== verification/Schedule.thy ===== *)
theory Schedule
  imports Prelude
begin

text \<open>
  Weekly access and maintenance windows (\<open>rbac/schedule.ts\<close>): validation of untrusted
  input, the check of an instant, and the fail-closed read of a stored column. The time-zone
  database (\<open>Intl.DateTimeFormat\<close>) is a parameter: for a zone name it accepts, the
  formatted weekday, hour and minute of an instant.
\<close>

type_synonym zone_db = "string \<Rightarrow> (time \<Rightarrow> string \<times> int \<times> int) option"

record schedule_window =
  sw_days :: "int list"
  sw_start :: string
  sw_end :: string

record access_schedule =
  as_timeZone :: string
  as_windows :: "schedule_window list"

section \<open>Validation\<close>

text \<open>The regular expression \<open>HHMM\<close>: \<open>([01]\d|2[0-3]):([0-5]\d)\<close>, anchored at both ends.\<close>

definition HHMM :: "string \<Rightarrow> bool" where
  "HHMM s = (case s of [a, b, c, d, e] \<Rightarrow>
       ((a = CHR ''0'' \<or> a = CHR ''1'') \<and> is_digit b \<or> a = CHR ''2'' \<and> is_digit b \<and> digit_val b \<le> 3)
       \<and> c = CHR '':'' \<and> is_digit d \<and> digit_val d \<le> 5 \<and> is_digit e
     | _ \<Rightarrow> False)"

definition isValidTimeZone :: "zone_db \<Rightarrow> json \<Rightarrow> bool" where
  "isValidTimeZone tz j = (case j of
       JStr s \<Rightarrow> s \<noteq> [] \<and> length s \<le> 64 \<and> tz s \<noteq> None
     | _ \<Rightarrow> False)"

fun json_is_array :: "json \<Rightarrow> bool" where
  "json_is_array (JArr _) = True"
| "json_is_array _ = False"

fun json_elems :: "json \<Rightarrow> json list" where
  "json_elems (JArr xs) = xs"
| "json_elems _ = []"

text \<open>One window of the input, with the checks in the order the code has them.\<close>

definition parse_window :: "json \<Rightarrow> string + schedule_window" where
  "parse_window w =
     (if json_nullish w then Inl ''TypeError: cannot read a property of null''
      else let days = json_get w ''days''; st = json_get w ''start''; en = json_get w ''end'' in
        if \<not> json_is_array days \<or> json_elems days = []
           \<or> \<not> list_all (\<lambda>d. json_is_integer d \<and> 0 \<le> json_int d \<and> json_int d \<le> 6) (json_elems days)
        then Inl ''days must be integers 0 (Sunday) to 6 (Saturday)''
        else (case (st, en) of
            (JStr s, JStr e) \<Rightarrow>
              if \<not> HHMM s \<or> \<not> HHMM e then Inl ''start and end must be HH:MM (24-hour)''
              else if s = e then Inl ''start and end are the same''
              else Inr \<lparr>sw_days = sort (js_set (map json_int (json_elems days))), sw_start = s, sw_end = e\<rparr>
          | _ \<Rightarrow> Inl ''start and end must be HH:MM (24-hour)''))"

fun parse_windows :: "json list \<Rightarrow> string + schedule_window list" where
  "parse_windows [] = Inr []"
| "parse_windows (w # ws) = (case parse_window w of
       Inl e \<Rightarrow> Inl e
     | Inr x \<Rightarrow> (case parse_windows ws of Inl e \<Rightarrow> Inl e | Inr xs \<Rightarrow> Inr (x # xs)))"

fun json_is_object :: "json \<Rightarrow> bool" where
  "json_is_object (JArr _) = True"
| "json_is_object (JObj _) = True"
| "json_is_object _ = False"

fun json_str :: "json \<Rightarrow> string" where
  "json_str (JStr s) = s"
| "json_str _ = []"

definition parseSchedule :: "zone_db \<Rightarrow> json \<Rightarrow> string + access_schedule option" where
  "parseSchedule tz input =
     (if json_nullish input then Inr None
      else if \<not> json_is_object input then Inl ''Schedule must be an object''
      else let zone = json_get input ''timeZone''; ws = json_get input ''windows'' in
        if \<not> isValidTimeZone tz zone then Inl ''Schedule needs a valid IANA time zone''
        else if \<not> json_is_array ws \<or> length (json_elems ws) = 0 \<or> 14 < length (json_elems ws)
        then Inl ''Schedule needs between 1 and 14 windows''
        else (case parse_windows (json_elems ws) of
            Inl e \<Rightarrow> Inl e
          | Inr windows \<Rightarrow> Inr (Some \<lparr>as_timeZone = json_str zone, as_windows = windows\<rparr>)))"

section \<open>Checking an instant\<close>

definition DAY_INDEX :: "(string \<times> int) list" where
  "DAY_INDEX = [(''Sun'', 0), (''Mon'', 1), (''Tue'', 2), (''Wed'', 3), (''Thu'', 4), (''Fri'', 5), (''Sat'', 6)]"

text \<open>
  The code formats with a zone its caller has validated; a zone the formatter refuses would
  throw, which is the \<open>None\<close> result.
\<close>

definition localClock :: "zone_db \<Rightarrow> time \<Rightarrow> string \<Rightarrow> (int \<times> int) option" where
  "localClock tz now zone = (case tz zone of
       None \<Rightarrow> None
     | Some fmt \<Rightarrow> (case fmt now of (weekday, h, minute) \<Rightarrow>
         Some (case map_of DAY_INDEX weekday of None \<Rightarrow> 0 | Some d \<Rightarrow> d, (h mod 24) * 60 + minute)))"

definition toMinutes :: "string \<Rightarrow> int" where
  "toMinutes hhmm = (case map js_parseInt (split_on (CHR '':'') hhmm) of
       Some h # Some m # _ \<Rightarrow> h * 60 + m
     | _ \<Rightarrow> 0)"

definition window_open :: "int \<Rightarrow> int \<Rightarrow> schedule_window \<Rightarrow> bool" where
  "window_open day minutes w =
     (let yesterday = (day + 6) mod 7; s = toMinutes (sw_start w); e = toMinutes (sw_end w) in
      if s < e then day \<in> set (sw_days w) \<and> s \<le> minutes \<and> minutes < e
      else (day \<in> set (sw_days w) \<and> s \<le> minutes) \<or> (yesterday \<in> set (sw_days w) \<and> minutes < e))"

text \<open>\<open>None\<close> when formatting throws.\<close>

definition isWithinSchedule :: "zone_db \<Rightarrow> access_schedule option \<Rightarrow> time \<Rightarrow> bool option" where
  "isWithinSchedule tz schedule now = (case schedule of
       None \<Rightarrow> Some True
     | Some sc \<Rightarrow> (case localClock tz now (as_timeZone sc) of
         None \<Rightarrow> None
       | Some (day, minutes) \<Rightarrow> Some (list_ex (window_open day minutes) (as_windows sc))))"

text \<open>Every exception of the parse or the check is caught and denies.\<close>

definition storedScheduleAllows :: "zone_db \<Rightarrow> json \<Rightarrow> time \<Rightarrow> bool" where
  "storedScheduleAllows tz stored now =
     (if json_nullish stored then True
      else (case parseSchedule tz stored of
          Inl _ \<Rightarrow> False
        | Inr sc \<Rightarrow> (case isWithinSchedule tz sc now of None \<Rightarrow> False | Some b \<Rightarrow> b)))"

definition isWithinDates :: "time option \<Rightarrow> time option \<Rightarrow> time \<Rightarrow> bool" where
  "isWithinDates startsAt expiresAt now =
     (\<not> (case startsAt of Some s \<Rightarrow> now < s | None \<Rightarrow> False)
      \<and> \<not> (case expiresAt of Some e \<Rightarrow> e \<le> now | None \<Rightarrow> False))"

section \<open>Lemmas\<close>

lemma isWithinDates_iff:
  "isWithinDates s e now \<longleftrightarrow> (\<forall>x. s = Some x \<longrightarrow> x \<le> now) \<and> (\<forall>x. e = Some x \<longrightarrow> now < x)"
  by (auto simp: isWithinDates_def split: option.splits)

lemma is_digit_val: "is_digit c \<Longrightarrow> 0 \<le> digit_val c \<and> digit_val c \<le> 9"
  by (auto simp: is_digit_def digit_val_def)

lemma digit_not_space: "is_digit c \<Longrightarrow> \<not> js_space c"
  by (auto simp: is_digit_def js_space_def)

lemma digit_not_sign: "is_digit c \<Longrightarrow> c \<noteq> CHR ''-'' \<and> c \<noteq> CHR ''+'' \<and> c \<noteq> CHR '':''"
  by (auto simp: is_digit_def)

lemma parseInt_two: "is_digit a \<Longrightarrow> is_digit b \<Longrightarrow> js_parseInt [a, b] = Some (digit_val a * 10 + digit_val b)"
  by (simp add: js_parseInt_def digit_not_space digit_not_sign digits_val_def)

lemma HHMM_shape:
  assumes "HHMM s"
  obtains a b d e where "s = [a, b, CHR '':'', d, e]" "is_digit a" "is_digit b" "is_digit d" "is_digit e"
    "digit_val a * 10 + digit_val b \<le> 23" "digit_val d \<le> 5"
proof -
  from assms obtain a b c d e where s: "s = [a, b, c, d, e]"
    by (auto simp: HHMM_def split: list.splits)
  from assms have h: "((a = CHR ''0'' \<or> a = CHR ''1'') \<and> is_digit b \<or> a = CHR ''2'' \<and> is_digit b \<and> digit_val b \<le> 3)"
    and rest: "c = CHR '':''" "is_digit d" "digit_val d \<le> 5" "is_digit e"
    by (simp_all add: HHMM_def s)
  from h have "is_digit a" "is_digit b" "digit_val a * 10 + digit_val b \<le> 23"
    using is_digit_val[of b] by (auto simp: is_digit_def digit_val_def)
  with rest show ?thesis by (intro that[of a b d e]) (simp_all add: s)
qed

lemma two_digits_inj:
  fixes x y x' y' :: int
  assumes "0 \<le> y" "y \<le> 9" "0 \<le> y'" "y' \<le> 9" "x * 10 + y = x' * 10 + y'"
  shows "x = x' \<and> y = y'"
proof -
  have "(x * 10 + y) div 10 = x" "(x' * 10 + y') div 10 = x'"
    using assms(1-4) by simp_all
  with assms(5) show ?thesis by simp
qed

lemma hour_minute_inj:
  fixes h m h' m' :: int
  assumes "0 \<le> m" "m < 60" "0 \<le> m'" "m' < 60" "h * 60 + m = h' * 60 + m'"
  shows "h = h' \<and> m = m'"
proof -
  have "(h * 60 + m) div 60 = h" "(h' * 60 + m') div 60 = h'"
    using assms(1-4) by simp_all
  with assms(5) show ?thesis by simp
qed

lemma HHMM_minutes:
  assumes "HHMM s"
  obtains a b d e where "s = [a, b, CHR '':'', d, e]"
    "toMinutes s = (digit_val a * 10 + digit_val b) * 60 + (digit_val d * 10 + digit_val e)"
    "0 \<le> digit_val a * 10 + digit_val b" "digit_val a * 10 + digit_val b \<le> 23"
    "0 \<le> digit_val d * 10 + digit_val e" "digit_val d * 10 + digit_val e < 60"
    "0 \<le> digit_val b" "digit_val b \<le> 9" "0 \<le> digit_val e" "digit_val e \<le> 9"
proof -
  from assms obtain a b d e where s: "s = [a, b, CHR '':'', d, e]"
    and dig: "is_digit a" "is_digit b" "is_digit d" "is_digit e"
    and le: "digit_val a * 10 + digit_val b \<le> 23" "digit_val d \<le> 5"
    by (rule HHMM_shape)
  have "split_on (CHR '':'') s = [[a, b], [d, e]]"
    using digit_not_sign[OF dig(1)] digit_not_sign[OF dig(2)] digit_not_sign[OF dig(3)] digit_not_sign[OF dig(4)]
    by (simp add: s)
  then have m: "toMinutes s = (digit_val a * 10 + digit_val b) * 60 + (digit_val d * 10 + digit_val e)"
    using dig by (simp add: toMinutes_def parseInt_two)
  show ?thesis
    using that[OF s m] le is_digit_val[OF dig(1)] is_digit_val[OF dig(2)] is_digit_val[OF dig(3)] is_digit_val[OF dig(4)]
    by simp
qed

lemma toMinutes_HHMM: "HHMM s \<Longrightarrow> 0 \<le> toMinutes s \<and> toMinutes s < 1440"
  by (erule HHMM_minutes) simp

lemma toMinutes_inj:
  assumes "HHMM s" and "HHMM t" and eq: "toMinutes s = toMinutes t"
  shows "s = t"
proof -
  obtain a b d e where s: "s = [a, b, CHR '':'', d, e]"
    and ms: "toMinutes s = (digit_val a * 10 + digit_val b) * 60 + (digit_val d * 10 + digit_val e)"
    and rs: "0 \<le> digit_val d * 10 + digit_val e" "digit_val d * 10 + digit_val e < 60"
      "0 \<le> digit_val b" "digit_val b \<le> 9" "0 \<le> digit_val e" "digit_val e \<le> 9"
    using HHMM_minutes[OF assms(1)] by metis
  obtain a' b' d' e' where t: "t = [a', b', CHR '':'', d', e']"
    and mt: "toMinutes t = (digit_val a' * 10 + digit_val b') * 60 + (digit_val d' * 10 + digit_val e')"
    and rt: "0 \<le> digit_val d' * 10 + digit_val e'" "digit_val d' * 10 + digit_val e' < 60"
      "0 \<le> digit_val b'" "digit_val b' \<le> 9" "0 \<le> digit_val e'" "digit_val e' \<le> 9"
    using HHMM_minutes[OF assms(2)] by metis
  have hm: "digit_val a * 10 + digit_val b = digit_val a' * 10 + digit_val b'
            \<and> digit_val d * 10 + digit_val e = digit_val d' * 10 + digit_val e'"
    using eq rs(1,2) rt(1,2) unfolding ms mt by (intro hour_minute_inj)
  have "digit_val a = digit_val a' \<and> digit_val b = digit_val b'"
    using hm rs rt by (intro two_digits_inj) simp_all
  moreover have "digit_val d = digit_val d' \<and> digit_val e = digit_val e'"
    using hm rs rt by (intro two_digits_inj) simp_all
  ultimately show "s = t" by (simp add: s t digit_val_def)
qed

text \<open>What validation guarantees of a schedule.\<close>

definition wf_window :: "schedule_window \<Rightarrow> bool" where
  "wf_window w \<longleftrightarrow> sw_days w \<noteq> [] \<and> distinct (sw_days w) \<and> sorted (sw_days w) \<and>
     set (sw_days w) \<subseteq> {0..6} \<and> HHMM (sw_start w) \<and> HHMM (sw_end w) \<and> sw_start w \<noteq> sw_end w"

definition wf_schedule :: "zone_db \<Rightarrow> access_schedule \<Rightarrow> bool" where
  "wf_schedule tz s \<longleftrightarrow> isValidTimeZone tz (JStr (as_timeZone s)) \<and>
     as_windows s \<noteq> [] \<and> length (as_windows s) \<le> 14 \<and> list_all wf_window (as_windows s)"

lemma parse_window_wf: "parse_window j = Inr w \<Longrightarrow> wf_window w"
proof -
  assume eq: "parse_window j = Inr w"
  then obtain s e where
    days: "json_elems (json_get j ''days'') \<noteq> []"
      "list_all (\<lambda>d. json_is_integer d \<and> 0 \<le> json_int d \<and> json_int d \<le> 6) (json_elems (json_get j ''days''))"
    and hh: "HHMM s" "HHMM e" "s \<noteq> e"
    and w: "w = \<lparr>sw_days = sort (js_set (map json_int (json_elems (json_get j ''days'')))), sw_start = s, sw_end = e\<rparr>"
    by (auto simp: parse_window_def Let_def split: if_splits json.splits)
  from days(2) have "set (map json_int (json_elems (json_get j ''days''))) \<subseteq> {0..6}"
    by (auto simp: list_all_iff)
  with days hh show "wf_window w"
    by (auto simp: wf_window_def w simp flip: set_empty)
qed

lemma parse_windows_wf:
  "parse_windows js = Inr ws \<Longrightarrow> list_all wf_window ws \<and> length ws = length js"
  by (induction js arbitrary: ws) (auto split: sum.splits dest: parse_window_wf)

lemma parseSchedule_wf: "parseSchedule tz j = Inr (Some s) \<Longrightarrow> wf_schedule tz s"
proof -
  assume eq: "parseSchedule tz j = Inr (Some s)"
  then obtain ws where z: "isValidTimeZone tz (json_get j ''timeZone'')"
    and len: "json_elems (json_get j ''windows'') \<noteq> []" "length (json_elems (json_get j ''windows'')) \<le> 14"
    and p: "parse_windows (json_elems (json_get j ''windows'')) = Inr ws"
    and s: "s = \<lparr>as_timeZone = json_str (json_get j ''timeZone''), as_windows = ws\<rparr>"
    by (auto simp: parseSchedule_def Let_def split: if_splits sum.splits)
  from z have "JStr (json_str (json_get j ''timeZone'')) = json_get j ''timeZone''"
    by (cases "json_get j ''timeZone''") (auto simp: isValidTimeZone_def)
  with z len parse_windows_wf[OF p] show "wf_schedule tz s" by (auto simp: wf_schedule_def s)
qed

text \<open>A schedule written back to JSON, as the \<open>schedule\<close> column stores it.\<close>

definition window_json :: "schedule_window \<Rightarrow> json" where
  "window_json w = JObj [(''days'', JArr (map (\<lambda>d. JNum (of_int d)) (sw_days w))),
     (''start'', JStr (sw_start w)), (''end'', JStr (sw_end w))]"

definition schedule_json :: "access_schedule \<Rightarrow> json" where
  "schedule_json s = JObj [(''timeZone'', JStr (as_timeZone s)), (''windows'', JArr (map window_json (as_windows s)))]"

lemma parse_window_json: "wf_window w \<Longrightarrow> parse_window (window_json w) = Inr w"
  by (auto simp: parse_window_def window_json_def wf_window_def json_get_def json_nullish_def Let_def
      comp_def list_all_iff json_is_integer_def json_int_def js_set_distinct sorted_sort_id)

lemma parse_windows_json: "list_all wf_window ws \<Longrightarrow> parse_windows (map window_json ws) = Inr ws"
  by (induction ws) (simp_all add: parse_window_json)

lemma parseSchedule_json: "wf_schedule tz s \<Longrightarrow> parseSchedule tz (schedule_json s) = Inr (Some s)"
  by (auto simp: parseSchedule_def schedule_json_def wf_schedule_def json_nullish_def json_get_def Let_def
      parse_windows_json)

text \<open>
  A reference reading of a schedule: minutes of the week. A window opened on day \<open>d\<close> covers
  the minutes from its start for \<open>(end - start) mod 1440\<close> minutes, running on into the next
  day, and from Saturday night into Sunday.
\<close>

definition week_minute :: "int \<Rightarrow> int \<Rightarrow> int" where
  "week_minute day minutes = day * 1440 + minutes"

definition covers :: "schedule_window \<Rightarrow> int \<Rightarrow> bool" where
  "covers w m \<longleftrightarrow> (\<exists>d \<in> set (sw_days w).
     (m - week_minute d (toMinutes (sw_start w))) mod 10080
       < (toMinutes (sw_end w) - toMinutes (sw_start w)) mod 1440)"

lemma covers_day:
  fixes d day minutes s e :: int
  assumes "0 \<le> d" "d \<le> 6" "0 \<le> day" "day \<le> 6" "0 \<le> minutes" "minutes < 1440"
    "0 \<le> s" "s < 1440" "0 \<le> e" "e < 1440" "s \<noteq> e"
  shows "((day * 1440 + minutes) - (d * 1440 + s)) mod 10080 < (e - s) mod 1440 \<longleftrightarrow>
    (if s < e then d = day \<and> s \<le> minutes \<and> minutes < e
     else (d = day \<and> s \<le> minutes) \<or> (d = (day + 6) mod 7 \<and> minutes < e))"
proof -
  define k where "k = (if d \<le> day then day - d else day - d + 7)"
  have y: "(day + 6) mod 7 = (if day = 0 then 6 else day - 1)"
  proof (cases "day = 0")
    case False
    have "(day + 6) mod 7 = (day - 1 + 7) mod 7" by (rule arg_cong[where f = "\<lambda>x. x mod 7"]) simp
    also have "\<dots> = (day - 1) mod 7" by (rule mod_add_self2)
    also have "\<dots> = day - 1" using False assms(3,4) by (intro mod_pos_pos_trivial) auto
    finally show ?thesis using False by simp
  qed simp
  have k: "0 \<le> k" "k \<le> 6" "k = 0 \<longleftrightarrow> d = day" "k = 1 \<longleftrightarrow> d = (day + 6) mod 7"
    using assms(1-4) unfolding y by (auto simp: k_def)
  have "(day * 1440 + minutes) - (d * 1440 + s) = (if d \<le> day then 0 else - 1) * 10080 + (k * 1440 + (minutes - s))"
    by (simp add: k_def algebra_simps)
  then have eq: "((day * 1440 + minutes) - (d * 1440 + s)) mod 10080 = (k * 1440 + (minutes - s)) mod 10080"
    by (simp only: mod_mult_self3)
  have mod1: "(e - s) mod 1440 = (if s < e then e - s else e - s + 1440)"
  proof (cases "s < e")
    case True
    then show ?thesis using assms(7-10) by (simp add: mod_pos_pos_trivial)
  next
    case False
    have "(e - s) mod 1440 = (e - s + 1440) mod 1440" by simp
    also have "\<dots> = e - s + 1440" using False assms(7-11) by (intro mod_pos_pos_trivial) auto
    finally show ?thesis using False by simp
  qed
  have mod2: "(k * 1440 + (minutes - s)) mod 10080 =
      (if 0 \<le> k * 1440 + (minutes - s) then k * 1440 + (minutes - s) else 10080 + (minutes - s))"
  proof (cases "0 \<le> k * 1440 + (minutes - s)")
    case True
    then show ?thesis using k(1,2) assms(5-8) by (simp add: mod_pos_pos_trivial)
  next
    case False
    then have "\<not> 1 \<le> k" using assms(5-8) by linarith
    then have "k = 0" using k(1) by simp
    have "(minutes - s) mod 10080 = (minutes - s + 10080) mod 10080" by simp
    also have "\<dots> = minutes - s + 10080" using False \<open>k = 0\<close> assms(5-8) by (intro mod_pos_pos_trivial) auto
    finally show ?thesis using False \<open>k = 0\<close> by simp
  qed
  consider "k = 0" | "k = 1" | "2 \<le> k" using k(1) by linarith
  then show ?thesis
    unfolding eq mod1 mod2 k(3)[symmetric] k(4)[symmetric]
    by cases (use assms(5-11) in auto)
qed

lemma window_open_covers:
  assumes "wf_window w" "0 \<le> day" "day \<le> 6" "0 \<le> minutes" "minutes < 1440"
  shows "window_open day minutes w \<longleftrightarrow> covers w (week_minute day minutes)"
proof -
  let ?s = "toMinutes (sw_start w)" and ?e = "toMinutes (sw_end w)"
  have se: "0 \<le> ?s" "?s < 1440" "0 \<le> ?e" "?e < 1440" "?s \<noteq> ?e" and days: "set (sw_days w) \<subseteq> {0..6}"
    using assms(1) toMinutes_HHMM toMinutes_inj by (auto simp: wf_window_def)
  have "covers w (week_minute day minutes) \<longleftrightarrow> (\<exists>d \<in> set (sw_days w).
      if ?s < ?e then d = day \<and> ?s \<le> minutes \<and> minutes < ?e
      else (d = day \<and> ?s \<le> minutes) \<or> (d = (day + 6) mod 7 \<and> minutes < ?e))"
    unfolding covers_def week_minute_def
    by (rule bex_cong[OF refl], rule covers_day[OF _ _ assms(2-5) se]) (use days in auto)
  also have "\<dots> \<longleftrightarrow> window_open day minutes w"
    by (auto simp: window_open_def Let_def)
  finally show ?thesis by simp
qed

section \<open>Properties\<close>

text \<open>
  C39: For a stored schedule that parses, access is allowed exactly when the local minute of
  the week lies in a window of the reference reading: a window runs from its start on each
  listed day for its length, over midnight and over the end of the week. The time-zone
  database is trusted for a minute between 0 and 59.
\<close>

theorem schedule_allows_iff_covered:
  assumes "parseSchedule tz stored = Inr (Some sc)"
    and "tz (as_timeZone sc) = Some fmt" "fmt now = (weekday, h, minute)" "0 \<le> minute" "minute < 60"
    and "localClock tz now (as_timeZone sc) = Some (day, m)"
  shows "storedScheduleAllows tz stored now \<longleftrightarrow> (\<exists>w \<in> set (as_windows sc). covers w (week_minute day m))"
proof -
  have d: "0 \<le> day" "day \<le> 6" and m: "0 \<le> m" "m < 1440"
    using assms(2-6) by (auto simp: localClock_def DAY_INDEX_def split: if_splits option.splits)
  have wf: "\<forall>w \<in> set (as_windows sc). wf_window w"
    using parseSchedule_wf[OF assms(1)] by (simp add: wf_schedule_def list_all_iff)
  have "\<not> json_nullish stored" using assms(1) by (auto simp: parseSchedule_def)
  then show ?thesis
    using assms(1,6) wf window_open_covers[OF _ d m]
    by (auto simp: storedScheduleAllows_def isWithinSchedule_def list_ex_iff)
qed

definition night_shift :: access_schedule where
  "night_shift = \<lparr>as_timeZone = ''UTC'',
     as_windows = [\<lparr>sw_days = [6], sw_start = ''22:00'', sw_end = ''02:00''\<rparr>]\<rparr>"

definition clock_of :: "string \<Rightarrow> int \<Rightarrow> int \<Rightarrow> zone_db" where
  "clock_of weekday h minute = (\<lambda>z. if z = ''UTC'' then Some (\<lambda>t. (weekday, h, minute)) else None)"

lemma night_shift_parses: "parseSchedule (clock_of d h m) (schedule_json night_shift) = Inr (Some night_shift)"
  by (rule parseSchedule_json)
    (simp add: wf_schedule_def wf_window_def night_shift_def clock_of_def isValidTimeZone_def HHMM_def is_digit_def
      digit_val_def)

theorem schedule_allows_iff_covered_witness:
  "storedScheduleAllows (clock_of ''Sun'' 1 30) (schedule_json night_shift) 0
     = (\<exists>w \<in> set (as_windows night_shift). covers w (week_minute 0 90))"
  by (rule schedule_allows_iff_covered[where fmt = "\<lambda>t. (''Sun'', 1, 30)" and h = 1 and minute = 30, OF night_shift_parses])
    (simp_all add: night_shift_def clock_of_def localClock_def DAY_INDEX_def)

text \<open>
  A schedule accepted once is normalised: written back to JSON and read again it is
  accepted and is the same schedule.
\<close>

theorem schedule_round_trip:
  assumes "parseSchedule tz input = Inr (Some sc)"
  shows "parseSchedule tz (schedule_json sc) = Inr (Some sc)"
  using parseSchedule_json[OF parseSchedule_wf[OF assms]] .

theorem schedule_round_trip_witness:
  "parseSchedule (clock_of ''Mon'' 0 0) (schedule_json night_shift) = Inr (Some night_shift)"
  by (rule schedule_round_trip[OF night_shift_parses])

end
