(* ===== verification/Database.thy ===== *)
theory Database
  imports Contracts Capabilities Schedule
begin

text \<open>
  The rows of \<open>prisma/schema.prisma\<close> the services read and write, and the database as a
  record of tables. Columns nothing modelled here reads are left out. A relation the code
  follows through a foreign key is a lookup by that key. A joined role is kept on the
  membership as its type (\<open>m_roleType\<close>) beside the foreign key.
\<close>

section \<open>Enumerations\<close>

datatype user_status = U_ACTIVE | U_INVITED | U_SUSPENDED | U_DELETED

datatype endpoint_status = EP_ACTIVE | EP_OFFLINE | EP_ARCHIVED | EP_PENDING_ENROLLMENT

datatype access_mode = ASSIGNED_USERS | COMPANY_WIDE

datatype session_status =
    S_PENDING | LAUNCH_REQUESTED | LAUNCHER_ACKNOWLEDGED | CLIENT_OPENED | SESSION_STARTED
  | SESSION_COMPLETED | S_FAILED | S_CANCELED | STATUS_UNKNOWN

datatype approval = AP_NOT_REQUIRED | AP_PENDING | AP_APPROVED | AP_DENIED

datatype request_status =
    RQ_WAITING | RQ_CLAIMED | RQ_CONNECTING | RQ_COMPLETED | RQ_CANCELED | RQ_EXPIRED

datatype rollout_status = RO_DRAFT | RO_RUNNING | RO_PAUSED | RO_COMPLETED | RO_CANCELED

datatype job_status =
    JOB_REQUESTED | JOB_DISPATCHED | JOB_INSTALLING | JOB_AWAITING_VERIFICATION
  | JOB_SUCCEEDED | JOB_FAILED | JOB_CANCELED | JOB_SKIPPED

datatype update_component = RUSTDESK | AGENT

datatype request_origin = ORIGIN_PUBLIC | ORIGIN_PORTAL

datatype command_type = INVENTORY_REFRESH | UPDATE_SCAN | EVENT_LOG_QUERY

datatype command_status = CMD_PENDING | CMD_DISPATCHED | CMD_SUCCEEDED | CMD_FAILED | CMD_EXPIRED

datatype mfa_type = TOTP | RECOVERY_CODE | WEBAUTHN

section \<open>Rows\<close>

text \<open>
  Nullable text columns that are only stored and shown (addresses, telephone numbers) are a map from the column's name:
  \<open>u_profile\<close>, \<open>c_profile\<close>, \<open>st_profile\<close>.
\<close>

record user_row =
  u_id :: id
  u_email :: string
  u_passwordHash :: string
  u_firstName :: string
  u_lastName :: string
  u_status :: user_status
  u_isPlatformAdmin :: bool
  u_sessionsValidAfter :: "time option"
  u_platformPermissions :: "string list"
  u_profile :: "string \<rightharpoonup> string"

record membership_row =
  m_id :: id
  m_userId :: id
  m_tenantId :: id
  m_roleId :: id
  m_roleType :: role_type
  m_isActive :: bool
  m_customerId :: "id option"
  m_capabilities :: "string list"

record role_row =
  rl_id :: id
  rl_tenantId :: id
  rl_type :: role_type

text \<open>A stored value of a table whose columns are addressed by name.\<close>

datatype cell = C_null | C_string string | C_int int | C_bool bool | C_date time | C_json json

text \<open>The container of the platform, with its settings row (without one, no second factor is required) and its branding.\<close>

record tenant_row =
  t_id :: id
  t_isActive :: bool
  t_requireMfa :: bool
  t_createdAt :: time
  t_name :: string
  t_slug :: string
  t_settings :: "(string \<rightharpoonup> cell) option"
  t_branding :: "(string \<rightharpoonup> string) option"

record business_row =
  c_id :: id
  c_tenantId :: id
  c_name :: string
  c_isActive :: bool
  c_isArchived :: bool
  c_quickConnectEnabled :: bool
  c_technicianApprovalRequired :: bool
  c_supportIntakeEnabled :: bool
  c_supportIntakeSlug :: "string option"
  c_profile :: "string \<rightharpoonup> string"

record site_row =
  st_id :: id
  st_tenantId :: id
  st_customerId :: id
  st_name :: string
  st_isActive :: bool
  st_profile :: "string \<rightharpoonup> string"

record endpoint_row =
  e_id :: id
  e_tenantId :: "id option"
  e_customerId :: "id option"
  e_endpointGroupId :: "id option"
  e_siteId :: "id option"
  e_name :: string
  e_status :: endpoint_status
  e_hostname :: "string option"
  e_platform :: "string option"
  e_osVersion :: "string option"
  e_ipAddress :: "string option"
  e_agentVersion :: "string option"
  e_isManaged :: bool
  e_isOnline :: bool
  e_lastSeenAt :: "time option"
  e_accessMode :: access_mode

record access_row =
  ca_id :: id
  ca_tenantId :: id
  ca_endpointId :: id
  ca_userId :: id
  ca_grantedBy :: "id option"
  ca_startsAt :: "time option"
  ca_expiresAt :: "time option"
  ca_schedule :: json
  ca_expiryAuditedAt :: "time option"

record node_row =
  n_id :: id
  n_tenantId :: "id option"
  n_endpointId :: id
  n_rustdeskId :: string
  n_lastSeenAt :: "time option"
  n_platform :: "string option"
  n_version :: "string option"
  n_hostname :: "string option"
  n_permanentPassword :: "string option"
  n_agentSecretHash :: "string option"
  n_agentSecretSetAt :: "time option"
  n_candidateSecretHash :: "string option"
  n_candidateSecretSeenAt :: "time option"
  n_candidateSecretFirstAt :: "time option"
  n_candidateSecretIp :: "string option"
  n_candidateSecretConflict :: bool
  n_candidatePassword :: "string option"
  n_pendingPassword :: "string option"
  n_pendingPasswordAt :: "time option"
  n_updateRequestedAt :: "time option"
  n_updateTargetVersion :: "string option"
  n_reinstallRequestedAt :: "time option"
  n_reinstallRequestedBy :: "id option"
  n_reinstallDispatchedAt :: "time option"
  n_rdSessionsActive :: "int option"
  n_rdSessionsObservedAt :: "time option"

record assignment_row =
  ta_id :: id
  ta_tenantId :: id
  ta_customerId :: id
  ta_userId :: "id option"
  ta_groupId :: "id option"
  ta_capabilities :: "string list"
  ta_endpointIds :: "id list"
  ta_startsAt :: "time option"
  ta_expiresAt :: "time option"
  ta_schedule :: json
  ta_reason :: "string option"
  ta_approvalStatus :: approval
  ta_requestedById :: "id option"
  ta_decidedById :: "id option"
  ta_decidedAt :: "time option"
  ta_decisionNote :: "string option"
  ta_createdById :: "id option"
  ta_createdAt :: time
  ta_revokedAt :: "time option"
  ta_revokedById :: "id option"
  ta_revokeReason :: "string option"
  ta_expiryAuditedAt :: "time option"

record tech_group_row =
  tg_id :: id
  tg_tenantId :: id
  tg_name :: string
  tg_description :: "string option"
  tg_capabilities :: "string list"
  tg_createdById :: "id option"

record group_member_row =
  gm_groupId :: id
  gm_userId :: id
  gm_addedById :: "id option"

record session_row =
  ss_id :: id
  ss_tenantId :: id
  ss_customerId :: "id option"
  ss_technicianId :: id
  ss_endpointId :: "id option"
  ss_contactName :: "string option"
  ss_contactEmail :: "string option"
  ss_isAdHoc :: bool
  ss_adHocRustdeskId :: "string option"
  ss_issueDescription :: "string option"
  ss_status :: session_status
  ss_startedAt :: "time option"
  ss_completedAt :: "time option"
  ss_duration :: "int option"
  ss_launchRequestedAt :: "time option"
  ss_launcherAckAt :: "time option"
  ss_clientOpenedAt :: "time option"
  ss_connectionConfirmedAt :: "time option"
  ss_endedAt :: "time option"
  ss_endReason :: "string option"
  ss_endInferred :: bool
  ss_statusSource :: "string option"
  ss_statusChangedAt :: "time option"
  ss_lastSignalAt :: "time option"
  ss_timingQuality :: string
  ss_manualWorkMinutes :: "int option"
  ss_telemetryTokenHash :: "string option"
  ss_supportRequestId :: "id option"
  ss_notes :: "string option"
  ss_disposition :: "string option"
  ss_createdAt :: time

record session_event_row =
  se_sessionId :: id
  se_event :: string
  se_source :: string
  se_occurredAt :: "time option"
  se_dedupeKey :: "string option"
  se_applied :: bool

record launcher_token_row =
  lt_id :: id
  lt_tenantId :: id
  lt_userId :: id
  lt_supportSessionId :: "id option"
  lt_token :: string
  lt_expiresAt :: time
  lt_usedAt :: "time option"
  lt_revokedAt :: "time option"
  lt_targetEndpointId :: "id option"
  lt_targetRustdeskId :: "string option"

record claim_token_row =
  ct_id :: id
  ct_tenantId :: id
  ct_endpointId :: "id option"
  ct_token :: string
  ct_expiresAt :: time
  ct_claimedAt :: "time option"
  ct_claimedByIp :: "string option"
  ct_customerName :: "string option"
  ct_siteName :: "string option"
  ct_description :: "string option"
  ct_customerId :: "id option"
  ct_accessMode :: access_mode
  ct_assignedUserIds :: "id list"
  ct_endpointGroupId :: "id option"
  ct_createdById :: "id option"

record connection_grant_row =
  cg_id :: id
  cg_tokenHash :: string
  cg_tenantId :: id
  cg_userId :: id
  cg_endpointId :: id
  cg_expiresAt :: time
  cg_createdByIp :: "string option"
  cg_usedAt :: "time option"
  cg_usedByIp :: "string option"

record request_row =
  rq_id :: id
  rq_tenantId :: id
  rq_customerId :: id
  rq_origin :: request_origin
  rq_submittedById :: "id option"
  rq_contactName :: "string option"
  rq_contactEmail :: "string option"
  rq_contactPhone :: "string option"
  rq_description :: "string option"
  rq_endpointId :: "id option"
  rq_reportedRustdeskId :: "string option"
  rq_unmanaged :: bool
  rq_status :: request_status
  rq_version :: int
  rq_claimedById :: "id option"
  rq_claimedAt :: "time option"
  rq_closedAt :: "time option"
  rq_outcome :: "string option"
  rq_statusTokenHash :: string
  rq_statusExpiresAt :: time
  rq_submitIpHash :: "string option"
  rq_anonymizedAt :: "time option"
  rq_createdAt :: time

record request_event_row =
  re_requestId :: id
  re_actorId :: "id option"
  re_event :: string
  re_detail :: "(string \<times> string option) list option"

record rollout_row =
  ro_id :: id
  ro_name :: string
  ro_component :: update_component
  ro_targetVersion :: string
  ro_artifactName :: "string option"
  ro_artifactSha256 :: "string option"
  ro_status :: rollout_status
  ro_pilotGroupId :: "id option"
  ro_batchSize :: int
  ro_currentBatch :: int
  ro_failureThreshold :: int
  ro_maxAttempts :: int
  ro_backoffMinutes :: int
  ro_verifyTimeoutMinutes :: int
  ro_maintenanceWindow :: json
  ro_deferOnUnknownSession :: bool
  ro_pausedReason :: "string option"
  ro_createdById :: "id option"
  ro_startedAt :: "time option"
  ro_completedAt :: "time option"
  ro_canceledAt :: "time option"

record job_row =
  uj_id :: id
  uj_rolloutId :: id
  uj_endpointId :: id
  uj_customerId :: "id option"
  uj_batch :: int
  uj_status :: job_status
  uj_attempts :: int
  uj_nextAttemptAt :: "time option"
  uj_dispatchedAt :: "time option"
  uj_dispatchNonce :: "string option"
  uj_installStartedAt :: "time option"
  uj_verifiedAt :: "time option"
  uj_completedAt :: "time option"
  uj_fromVersion :: "string option"
  uj_installedVersion :: "string option"
  uj_failureReason :: "string option"
  uj_deferReason :: "string option"
  uj_credentialSync :: "string option"
  uj_createdAt :: time

record job_event_row =
  je_jobId :: id
  je_event :: string
  je_status :: "job_status option"

record pilot_member_row =
  pm_groupId :: id
  pm_endpointId :: id

record api_key_row =
  ak_id :: id
  ak_tenantId :: id
  ak_customerId :: "id option"
  ak_createdById :: id
  ak_name :: string
  ak_keyHash :: string
  ak_keyPrefix :: string
  ak_lastUsedAt :: "time option"
  ak_expiresAt :: "time option"
  ak_revokedAt :: "time option"
  ak_scopes :: "string list"

record mfa_row =
  mm_id :: id
  mm_userId :: id
  mm_type :: mfa_type
  mm_isActive :: bool
  mm_totpSecret :: "string option"
  mm_lastTotpStep :: "int option"
  mm_codeHash :: "string option"
  mm_usedAt :: "time option"
  mm_credentialId :: "string option"
  mm_publicKey :: "string option"
  mm_signCount :: "int option"
  mm_name :: "string option"
  mm_lastUsedAt :: "time option"

record invitation_row =
  iv_tenantId :: id
  iv_invitedById :: id
  iv_email :: string
  iv_roleId :: id
  iv_token :: string
  iv_expiresAt :: time
  iv_acceptedAt :: "time option"

record command_row =
  cm_id :: id
  cm_endpointId :: id
  cm_tenantId :: "id option"
  cm_customerId :: "id option"
  cm_type :: command_type
  cm_params :: "json option"
  cm_status :: command_status
  cm_requestedById :: "id option"
  cm_result :: "json option"
  cm_error :: "string option"
  cm_dispatchCount :: nat
  cm_createdAt :: time
  cm_dispatchedAt :: "time option"
  cm_completedAt :: "time option"
  cm_expiresAt :: time

text \<open>
  What a computer reports about itself: one row per computer, its nullable columns by name.
\<close>

record inventory_row =
  in_endpointId :: id
  in_columns :: "string \<rightharpoonup> cell"

text \<open>An offboarding case: its steps with their states, and the computers whose rotation was staged or failed.\<close>

datatype step_state = step_done | step_pending | step_skipped | step_failed

record offboarding_row =
  ob_id :: id
  ob_tenantId :: "id option"
  ob_subjectUserId :: id
  ob_customerId :: "id option"
  ob_startedById :: id
  ob_startedAt :: time
  ob_completedAt :: "time option"
  ob_steps :: "(string \<times> step_state) list"
  ob_rotations :: "(id \<times> bool) list"

record note_row =
  nt_id :: id
  nt_tenantId :: id
  nt_authorId :: id
  nt_endpointId :: "id option"
  nt_customerId :: "id option"
  nt_sessionId :: "id option"
  nt_content :: string
  nt_isInternal :: bool
  nt_isPinned :: bool

record comment_row =
  nc_id :: id
  nc_noteId :: id
  nc_authorId :: id
  nc_content :: string

record tag_row =
  et_endpointId :: id
  et_tag :: string

record alias_row =
  ea_id :: id
  ea_endpointId :: id
  ea_alias :: string
  ea_isPrimary :: bool

record provider_row =
  op_id :: id
  op_name :: string
  op_issuer :: string
  op_clientId :: string
  op_clientSecretEnc :: "string option"
  op_redirectUri :: string
  op_scopes :: string
  op_enabled :: bool
  op_allowProvisioning :: bool
  op_groupsClaim :: "string option"

record mapping_row =
  gp_id :: id
  gp_providerId :: id
  gp_groupValue :: string
  gp_customerId :: id
  gp_capabilities :: "string list"

record identity_row =
  xi_id :: id
  xi_userId :: id
  xi_providerId :: id
  xi_issuer :: string
  xi_subject :: string
  xi_email :: "string option"
  xi_lastLoginAt :: "time option"

datatype login_purpose = SSO_LOGIN | SSO_LINK

record login_state_row =
  ls_id :: id
  ls_stateHash :: string
  ls_providerId :: id
  ls_nonce :: string
  ls_codeVerifier :: string
  ls_purpose :: login_purpose
  ls_userId :: "id option"
  ls_returnTo :: "string option"
  ls_expiresAt :: time

datatype ceremony = REGISTER | LOGIN | STEP_UP

record challenge_row =
  wc_challenge :: string
  wc_purpose :: ceremony
  wc_userId :: "id option"
  wc_expiresAt :: time

record diagnostic_row =
  td_id :: id
  td_userId :: id
  td_endpointId :: "id option"
  td_tokenHash :: string
  td_expiresAt :: time
  td_submittedAt :: "time option"
  td_submittedIp :: "string option"
  td_report :: "json option"

record audit_row =
  al_action :: string
  al_actorId :: "id option"
  al_tenantId :: "id option"
  al_customerId :: "id option"
  al_actorIp :: "string option"
  al_resource :: "string option"
  al_resourceId :: "id option"
  al_denied :: bool

text \<open>The single row of platform settings, without the Quick Connect switch.\<close>

record platform_row =
  ps_quickConnectWindows :: bool
  ps_quickConnectMacos :: bool
  ps_quickConnectLinux :: bool
  ps_publicUrl :: "string option"
  ps_rustdeskPinnedVersion :: "string option"

section \<open>The database\<close>

record db =
  users :: "user_row table"
  memberships :: "membership_row table"
  roles :: "role_row table"
  tenants :: "tenant_row table"
  businesses :: "business_row table"
  endpoints :: "endpoint_row table"
  accesses :: "access_row table"
  nodes :: "node_row table"
  assignments :: "assignment_row table"
  techGroups :: "tech_group_row table"
  groupMembers :: "group_member_row table"
  sessions :: "session_row table"
  sessionEvents :: "session_event_row table"
  launcherTokens :: "launcher_token_row table"
  claimTokens :: "claim_token_row table"
  connectionGrants :: "connection_grant_row table"
  requests :: "request_row table"
  requestEvents :: "request_event_row table"
  rollouts :: "rollout_row table"
  jobs :: "job_row table"
  jobEvents :: "job_event_row table"
  pilotGroups :: "id table"
  pilotMembers :: "pilot_member_row table"
  apiKeys :: "api_key_row table"
  mfaMethods :: "mfa_row table"
  invitations :: "invitation_row table"
  activityLog :: "audit_row table"
  quickConnectPlatform :: bool
  endpointGroups :: "(id \<times> id) table"
  sites :: "site_row table"
  commands :: "command_row table"
  inventories :: "inventory_row table"
  offboardings :: "offboarding_row table"
  noteRows :: "note_row table"
  noteComments :: "comment_row table"
  endpointTags :: "tag_row table"
  endpointAliases :: "alias_row table"
  oidcProviders :: "provider_row table"
  groupMappings :: "mapping_row table"
  identities :: "identity_row table"
  loginStates :: "login_state_row table"
  challenges :: "challenge_row table"
  diagnostics :: "diagnostic_row table"
  platform :: platform_row

text \<open>The empty database, from which examples are built.\<close>

definition empty_db :: db where
  "empty_db = \<lparr>users = [], memberships = [], roles = [], tenants = [], businesses = [],
     endpoints = [], accesses = [], nodes = [], assignments = [], techGroups = [],
     groupMembers = [], sessions = [], sessionEvents = [], launcherTokens = [], claimTokens = [],
     connectionGrants = [], requests = [], requestEvents = [], rollouts = [], jobs = [],
     jobEvents = [], pilotGroups = [], pilotMembers = [], apiKeys = [], mfaMethods = [],
     invitations = [], activityLog = [], quickConnectPlatform = True, endpointGroups = [], sites = [],
     commands = [], inventories = [], offboardings = [],
     noteRows = [], noteComments = [], endpointTags = [], endpointAliases = [], oidcProviders = [], groupMappings = [],
     identities = [], loginStates = [], challenges = [], diagnostics = [],
     platform = \<lparr>ps_quickConnectWindows = True, ps_quickConnectMacos = False, ps_quickConnectLinux = False, ps_publicUrl = None,
       ps_rustdeskPinnedVersion = None\<rparr>\<rparr>"

text \<open>The RustDesk node of a computer (\<open>endpointId\<close> is unique in its table).\<close>

definition node_of :: "db \<Rightarrow> id \<Rightarrow> node_row option" where
  "node_of s endpointId = find_row (\<lambda>n. n_endpointId n = endpointId) (nodes s)"

text \<open>
  \<open>AuditService.log\<close>: one row appended; a failure to write it is swallowed by the service,
  so the caller always goes on. Of the metadata only the flag \<open>denied\<close> is kept, which the
  offboarding code reads back.
\<close>

definition audit_log ::
  "string \<Rightarrow> id option \<Rightarrow> id option \<Rightarrow> id option \<Rightarrow> string option \<Rightarrow> string option \<Rightarrow> id option \<Rightarrow> bool \<Rightarrow> db \<Rightarrow> db" where
  "audit_log action actorId tenantId customerId ip resource resourceId denied s =
     s\<lparr>activityLog := activityLog s @ [\<lparr>al_action = action, al_actorId = actorId, al_tenantId = tenantId,
        al_customerId = customerId, al_actorIp = ip, al_resource = resource, al_resourceId = resourceId,
        al_denied = denied\<rparr>]\<rparr>"

lemma audit_log_activityLog [simp]:
  "activityLog (audit_log a u t c ip r i d s) = activityLog s @ [\<lparr>al_action = a, al_actorId = u,
     al_tenantId = t, al_customerId = c, al_actorIp = ip, al_resource = r, al_resourceId = i, al_denied = d\<rparr>]"
  by (simp add: audit_log_def)

lemma audit_log_tables [simp]:
  "users (audit_log a u t c ip r i d s) = users s"
  "memberships (audit_log a u t c ip r i d s) = memberships s"
  "roles (audit_log a u t c ip r i d s) = roles s"
  "tenants (audit_log a u t c ip r i d s) = tenants s"
  "businesses (audit_log a u t c ip r i d s) = businesses s"
  "endpoints (audit_log a u t c ip r i d s) = endpoints s"
  "accesses (audit_log a u t c ip r i d s) = accesses s"
  "nodes (audit_log a u t c ip r i d s) = nodes s"
  "assignments (audit_log a u t c ip r i d s) = assignments s"
  "techGroups (audit_log a u t c ip r i d s) = techGroups s"
  "groupMembers (audit_log a u t c ip r i d s) = groupMembers s"
  "sessions (audit_log a u t c ip r i d s) = sessions s"
  "sessionEvents (audit_log a u t c ip r i d s) = sessionEvents s"
  "launcherTokens (audit_log a u t c ip r i d s) = launcherTokens s"
  "claimTokens (audit_log a u t c ip r i d s) = claimTokens s"
  "connectionGrants (audit_log a u t c ip r i d s) = connectionGrants s"
  "requests (audit_log a u t c ip r i d s) = requests s"
  "requestEvents (audit_log a u t c ip r i d s) = requestEvents s"
  "rollouts (audit_log a u t c ip r i d s) = rollouts s"
  "jobs (audit_log a u t c ip r i d s) = jobs s"
  "jobEvents (audit_log a u t c ip r i d s) = jobEvents s"
  "pilotGroups (audit_log a u t c ip r i d s) = pilotGroups s"
  "pilotMembers (audit_log a u t c ip r i d s) = pilotMembers s"
  "apiKeys (audit_log a u t c ip r i d s) = apiKeys s"
  "mfaMethods (audit_log a u t c ip r i d s) = mfaMethods s"
  "invitations (audit_log a u t c ip r i d s) = invitations s"
  "quickConnectPlatform (audit_log a u t c ip r i d s) = quickConnectPlatform s"
  "endpointGroups (audit_log a u t c ip r i d s) = endpointGroups s"
  "sites (audit_log a u t c ip r i d s) = sites s"
  "commands (audit_log a u t c ip r i d s) = commands s"
  "inventories (audit_log a u t c ip r i d s) = inventories s"
  "offboardings (audit_log a u t c ip r i d s) = offboardings s"
  "noteRows (audit_log a u t c ip r i d s) = noteRows s"
  "noteComments (audit_log a u t c ip r i d s) = noteComments s"
  "endpointTags (audit_log a u t c ip r i d s) = endpointTags s"
  "endpointAliases (audit_log a u t c ip r i d s) = endpointAliases s"
  "oidcProviders (audit_log a u t c ip r i d s) = oidcProviders s"
  "groupMappings (audit_log a u t c ip r i d s) = groupMappings s"
  "identities (audit_log a u t c ip r i d s) = identities s"
  "loginStates (audit_log a u t c ip r i d s) = loginStates s"
  "challenges (audit_log a u t c ip r i d s) = challenges s"
  "diagnostics (audit_log a u t c ip r i d s) = diagnostics s"
  "platform (audit_log a u t c ip r i d s) = platform s"
  by (simp_all add: audit_log_def)

end
