(* ===== verification/TechnicianAccess.thy ===== *)
theory TechnicianAccess
  imports Database "HOL-Library.AList"
begin

text \<open>
  Technician access (\<open>rbac/technician-access.service.ts\<close>): which businesses a user reaches
  through assignments at an instant, why, and which assignments do not count. A JavaScript
  \<open>Map\<close> is an association list in insertion order (\<open>AList.update\<close> overwrites in place).
\<close>

datatype grant_via = DIRECT | GROUP

datatype inactive_reason =
  not_started | expired | outside_schedule | pending_approval | denied | business_disabled

text \<open>
  The field \<open>schedule\<close> of the source is a text for the screen; here it is the schedule that
  text renders: none, a valid one, or an invalid one (which denies access).
\<close>

datatype schedule_view = NoSchedule | ValidSchedule access_schedule | InvalidSchedule

record grant_source =
  gs_assignmentId :: id
  gs_via :: grant_via
  gs_temporary :: bool
  gs_groupId :: "id option"
  gs_groupName :: "string option"
  gs_capabilities :: "capability list"
  gs_endpointIds :: "id list option"
  gs_startsAt :: "time option"
  gs_expiresAt :: "time option"
  gs_schedule :: schedule_view
  gs_approval :: approval

record inactive_grant =
  ig_source :: grant_source
  ig_businessId :: id
  ig_businessName :: string
  ig_reason :: inactive_reason

record business_scope =
  bs_businessId :: id
  bs_businessName :: string
  bs_capabilities :: "capability list"
  bs_endpointIds :: "id list option"
  bs_sources :: "grant_source list"

section \<open>Loading the grants\<close>

definition group_of :: "db \<Rightarrow> assignment_row \<Rightarrow> tech_group_row option" where
  "group_of s a = (case ta_groupId a of
       None \<Rightarrow> None
     | Some g \<Rightarrow> find_row (\<lambda>r. tg_id r = g) (techGroups s))"

definition is_member :: "db \<Rightarrow> id \<Rightarrow> id \<Rightarrow> bool" where
  "is_member s g userId = list_ex (\<lambda>m. gm_groupId m = g \<and> gm_userId m = userId) (groupMembers s)"

definition business_of :: "db \<Rightarrow> id \<Rightarrow> business_row option" where
  "business_of s b = find_row (\<lambda>c. c_id c = b) (businesses s)"

text \<open>
  Assignments that are not revoked, made to the user or to a group the user is in, oldest
  first, each with its business. The foreign key makes the business exist; an assignment
  without one is not returned.
\<close>

definition holds_assignment :: "db \<Rightarrow> id \<Rightarrow> assignment_row \<Rightarrow> bool" where
  "holds_assignment s userId a =
     (ta_userId a = Some userId \<or> (case ta_groupId a of None \<Rightarrow> False | Some g \<Rightarrow> is_member s g userId))"

definition loadGrants :: "db \<Rightarrow> id \<Rightarrow> (assignment_row \<times> business_row) list" where
  "loadGrants s userId =
     concat (map (\<lambda>a. case business_of s (ta_customerId a) of None \<Rightarrow> [] | Some c \<Rightarrow> [(a, c)])
       (sort_key ta_createdAt
         (filter (\<lambda>a. ta_revokedAt a = None \<and> holds_assignment s userId a) (assignments s))))"

definition grant_capabilities :: "db \<Rightarrow> assignment_row \<Rightarrow> capability list" where
  "grant_capabilities s a = sanitizeTechnicianCapabilities (json_strings (Some
     (if length (ta_capabilities a) > 0 then ta_capabilities a
      else (case group_of s a of None \<Rightarrow> [] | Some g \<Rightarrow> tg_capabilities g))))"

definition toSource :: "zone_db \<Rightarrow> db \<Rightarrow> assignment_row \<Rightarrow> grant_source" where
  "toSource tz s a =
     \<lparr>gs_assignmentId = ta_id a,
      gs_via = (if truthy (ta_userId a) then DIRECT else GROUP),
      gs_temporary = (ta_expiresAt a \<noteq> None),
      gs_groupId = ta_groupId a,
      gs_groupName = map_option tg_name (group_of s a),
      gs_capabilities = grant_capabilities s a,
      gs_endpointIds = (if length (ta_endpointIds a) > 0 then Some (ta_endpointIds a) else None),
      gs_startsAt = ta_startsAt a,
      gs_expiresAt = ta_expiresAt a,
      gs_schedule = (case parseSchedule tz (ta_schedule a) of
          Inl _ \<Rightarrow> InvalidSchedule | Inr None \<Rightarrow> NoSchedule | Inr (Some sc) \<Rightarrow> ValidSchedule sc),
      gs_approval = ta_approvalStatus a\<rparr>"

section \<open>Resolving\<close>

definition inactive_because :: "zone_db \<Rightarrow> assignment_row \<Rightarrow> business_row \<Rightarrow> time \<Rightarrow> inactive_reason option" where
  "inactive_because tz a c now =
     (if ta_approvalStatus a = AP_PENDING then Some pending_approval
      else if ta_approvalStatus a = AP_DENIED then Some denied
      else if \<not> c_isActive c \<or> c_isArchived c then Some business_disabled
      else if (case ta_startsAt a of Some t \<Rightarrow> now < t | None \<Rightarrow> False) then Some not_started
      else if (case ta_expiresAt a of Some t \<Rightarrow> t \<le> now | None \<Rightarrow> False) then Some expired
      else if \<not> storedScheduleAllows tz (ta_schedule a) now then Some outside_schedule
      else None)"

definition merge_endpoints :: "id list option \<Rightarrow> id list option \<Rightarrow> id list option" where
  "merge_endpoints x y = (case (x, y) of (Some xs, Some ys) \<Rightarrow> Some (js_set (xs @ ys)) | _ \<Rightarrow> None)"

type_synonym scope_map = "(id \<times> business_scope) list"

definition add_source :: "business_row \<Rightarrow> id \<Rightarrow> grant_source \<Rightarrow> scope_map \<Rightarrow> scope_map" where
  "add_source c b src scopes = (case map_of scopes b of
       None \<Rightarrow> AList.update b \<lparr>bs_businessId = b, bs_businessName = c_name c,
          bs_capabilities = gs_capabilities src, bs_endpointIds = gs_endpointIds src, bs_sources = [src]\<rparr> scopes
     | Some ex \<Rightarrow> AList.update b (ex\<lparr>bs_capabilities := js_set (bs_capabilities ex @ gs_capabilities src),
          bs_endpointIds := merge_endpoints (bs_endpointIds ex) (gs_endpointIds src),
          bs_sources := bs_sources ex @ [src]\<rparr>) scopes)"

definition resolve_step ::
  "zone_db \<Rightarrow> db \<Rightarrow> time \<Rightarrow> scope_map \<times> inactive_grant list \<Rightarrow> assignment_row \<times> business_row \<Rightarrow>
   scope_map \<times> inactive_grant list" where
  "resolve_step tz s now acc ac = (case acc of (scopes, inactive) \<Rightarrow> (case ac of (a, c) \<Rightarrow>
     (case inactive_because tz a c now of
        Some reason \<Rightarrow> (scopes, inactive @ [\<lparr>ig_source = toSource tz s a, ig_businessId = ta_customerId a,
           ig_businessName = c_name c, ig_reason = reason\<rparr>])
      | None \<Rightarrow> if \<not> isWithinDates (ta_startsAt a) (ta_expiresAt a) now then (scopes, inactive)
                else (add_source c (ta_customerId a) (toSource tz s a) scopes, inactive))))"

definition resolve :: "zone_db \<Rightarrow> db \<Rightarrow> id \<Rightarrow> time \<Rightarrow> scope_map \<times> inactive_grant list" where
  "resolve tz s userId now = foldl (resolve_step tz s now) ([], []) (loadGrants s userId)"

definition scopeFor :: "zone_db \<Rightarrow> db \<Rightarrow> id \<Rightarrow> id \<Rightarrow> time \<Rightarrow> business_scope option" where
  "scopeFor tz s userId businessId now = map_of (fst (resolve tz s userId now)) businessId"

text \<open>\<open>computerAccessActive\<close>: a per-computer grant, with the same window and schedule rules.\<close>

definition computerAccessActive :: "zone_db \<Rightarrow> access_row option \<Rightarrow> time \<Rightarrow> bool" where
  "computerAccessActive tz row now = (case row of
       None \<Rightarrow> False
     | Some r \<Rightarrow> isWithinDates (ca_startsAt r) (ca_expiresAt r) now \<and> storedScheduleAllows tz (ca_schedule r) now)"

section \<open>The expiry sweep\<close>

text \<open>
  One loop body: claim the row while its audit mark is still empty, and log only when the
  claim won. \<open>take: 200\<close> bounds one sweep.
\<close>

definition audit_assignment_expiry :: "time \<Rightarrow> db \<Rightarrow> assignment_row \<Rightarrow> db" where
  "audit_assignment_expiry now s a =
     (let P = (\<lambda>r. ta_id r = ta_id a \<and> ta_expiryAuditedAt r = None);
          n = count_rows P (assignments s);
          s1 = s\<lparr>assignments := update_rows P (\<lambda>r. r\<lparr>ta_expiryAuditedAt := Some now\<rparr>) (assignments s)\<rparr>
      in if n = 0 then s1
         else audit_log ''TECHNICIAN_ASSIGNMENT_EXPIRED'' None (Some (ta_tenantId a)) (Some (ta_customerId a)) None
                (Some ''technician_assignment'') (Some (ta_id a)) False s1)"

definition audit_access_expiry :: "time \<Rightarrow> db \<Rightarrow> access_row \<Rightarrow> db" where
  "audit_access_expiry now s c =
     (let P = (\<lambda>r. ca_id r = ca_id c \<and> ca_expiryAuditedAt r = None);
          n = count_rows P (accesses s);
          s1 = s\<lparr>accesses := update_rows P (\<lambda>r. r\<lparr>ca_expiryAuditedAt := Some now\<rparr>) (accesses s)\<rparr>
      in if n = 0 then s1
         else audit_log ''COMPUTER_ACCESS_EXPIRED'' None (Some (ca_tenantId c))
                (Option.bind (find_row (\<lambda>e. e_id e = ca_endpointId c) (endpoints s)) e_customerId) None
                (Some ''endpoint'') (Some (ca_endpointId c)) False s1)"

text \<open>The conditions the sweep selects with.\<close>

definition assignment_lapsed :: "time \<Rightarrow> assignment_row \<Rightarrow> bool" where
  "assignment_lapsed now a = ((case ta_expiresAt a of Some t \<Rightarrow> t \<le> now | None \<Rightarrow> False)
     \<and> ta_expiryAuditedAt a = None \<and> ta_revokedAt a = None)"

definition access_lapsed :: "time \<Rightarrow> access_row \<Rightarrow> bool" where
  "access_lapsed now c = ((case ca_expiresAt c of Some t \<Rightarrow> t \<le> now | None \<Rightarrow> False) \<and> ca_expiryAuditedAt c = None)"

definition auditExpiries :: "time \<Rightarrow> db \<Rightarrow> (nat \<times> nat) \<times> db" where
  "auditExpiries now s =
     (let lapsed = take 200 (filter (assignment_lapsed now) (assignments s));
          s1 = foldl (audit_assignment_expiry now) s lapsed;
          lapsedAccess = take 200 (filter (access_lapsed now) (accesses s1));
          s2 = foldl (audit_access_expiry now) s1 lapsedAccess
      in ((length lapsed, length lapsedAccess), s2))"

section \<open>What resolving means\<close>

text \<open>
  The abstract reading: a grant counts for a business at an instant, and the scope of a
  business is the union of its counting grants.
\<close>

definition counts :: "zone_db \<Rightarrow> db \<Rightarrow> id \<Rightarrow> id \<Rightarrow> time \<Rightarrow> assignment_row \<Rightarrow> bool" where
  "counts tz s userId b now a \<longleftrightarrow>
     a \<in> set (assignments s) \<and> ta_revokedAt a = None \<and> holds_assignment s userId a \<and> ta_customerId a = b
     \<and> (ta_approvalStatus a = AP_NOT_REQUIRED \<or> ta_approvalStatus a = AP_APPROVED)
     \<and> (\<exists>c. business_of s b = Some c \<and> c_isActive c \<and> \<not> c_isArchived c)
     \<and> isWithinDates (ta_startsAt a) (ta_expiresAt a) now
     \<and> storedScheduleAllows tz (ta_schedule a) now"

definition live_grants :: "zone_db \<Rightarrow> time \<Rightarrow> (assignment_row \<times> business_row) list \<Rightarrow> assignment_row set" where
  "live_grants tz now gs = {a. \<exists>c. (a, c) \<in> set gs \<and> inactive_because tz a c now = None}"

lemma inactive_None_iff:
  "inactive_because tz a c now = None \<longleftrightarrow>
     (ta_approvalStatus a = AP_NOT_REQUIRED \<or> ta_approvalStatus a = AP_APPROVED)
     \<and> c_isActive c \<and> \<not> c_isArchived c
     \<and> isWithinDates (ta_startsAt a) (ta_expiresAt a) now \<and> storedScheduleAllows tz (ta_schedule a) now"
  by (cases "ta_approvalStatus a") (auto simp: inactive_because_def isWithinDates_def split: option.splits)

lemma loadGrants_iff:
  "(a, c) \<in> set (loadGrants s userId) \<longleftrightarrow>
     a \<in> set (assignments s) \<and> ta_revokedAt a = None \<and> holds_assignment s userId a
     \<and> business_of s (ta_customerId a) = Some c"
  by (auto simp: loadGrants_def split: option.splits)

lemma counts_iff:
  "counts tz s userId b now a \<longleftrightarrow> a \<in> live_grants tz now (loadGrants s userId) \<and> ta_customerId a = b"
  by (auto simp: counts_def live_grants_def loadGrants_iff inactive_None_iff)

text \<open>The scope map an invariant of the loop describes.\<close>

definition scope_of_grants :: "db \<Rightarrow> assignment_row set \<Rightarrow> id \<Rightarrow> business_scope option \<Rightarrow> bool" where
  "scope_of_grants s G b sc \<longleftrightarrow> (case sc of
       None \<Rightarrow> (\<forall>a \<in> G. ta_customerId a \<noteq> b)
     | Some x \<Rightarrow> bs_businessId x = b \<and> (\<exists>a \<in> G. ta_customerId a = b)
         \<and> set (bs_capabilities x) = (\<Union>a \<in> {a \<in> G. ta_customerId a = b}. set (grant_capabilities s a))
         \<and> distinct (bs_capabilities x)
         \<and> (case bs_endpointIds x of
              None \<Rightarrow> \<exists>a \<in> G. ta_customerId a = b \<and> ta_endpointIds a = []
            | Some es \<Rightarrow> (\<forall>a \<in> G. ta_customerId a = b \<longrightarrow> ta_endpointIds a \<noteq> [])
                \<and> set es = (\<Union>a \<in> {a \<in> G. ta_customerId a = b}. set (ta_endpointIds a))))"

definition scopes_ok :: "db \<Rightarrow> assignment_row set \<Rightarrow> scope_map \<Rightarrow> bool" where
  "scopes_ok s G m \<longleftrightarrow> (\<forall>b. scope_of_grants s G b (map_of m b))"

lemma gs_toSource [simp]:
  "gs_capabilities (toSource tz s a) = grant_capabilities s a"
  "gs_endpointIds (toSource tz s a) = (if ta_endpointIds a = [] then None else Some (ta_endpointIds a))"
  by (simp_all add: toSource_def)

lemma grant_capabilities_distinct [simp]: "distinct (grant_capabilities s a)"
  by (simp add: grant_capabilities_def)

lemma map_of_update: "map_of (AList.update k v m) b = (if b = k then Some v else map_of m b)"
  by (simp add: update_conv')

lemma Collect_insert_same: "ta_customerId a = b \<Longrightarrow>
  {x \<in> insert a G. ta_customerId x = b} = insert a {x \<in> G. ta_customerId x = b}"
  by auto

lemma Collect_insert_other: "ta_customerId a \<noteq> b \<Longrightarrow>
  {x \<in> insert a G. ta_customerId x = b} = {x \<in> G. ta_customerId x = b}"
  by auto

lemma scope_of_grants_other:
  assumes "ta_customerId a \<noteq> b"
  shows "scope_of_grants s (insert a G) b sc = scope_of_grants s G b sc"
  unfolding scope_of_grants_def Collect_insert_other[OF assms]
  using assms by (auto split: option.splits)

lemma add_source_here:
  assumes "scope_of_grants s G (ta_customerId a) (map_of m (ta_customerId a))"
  shows "scope_of_grants s (insert a G) (ta_customerId a)
    (map_of (add_source c (ta_customerId a) (toSource tz s a) m) (ta_customerId a))"
proof (cases "map_of m (ta_customerId a)")
  case None
  with assms have no: "{x \<in> G. ta_customerId x = ta_customerId a} = {}" by (auto simp: scope_of_grants_def)
  with None assms show ?thesis
    unfolding scope_of_grants_def Collect_insert_same[OF refl] no
    by (auto simp: add_source_def map_of_update)
next
  case (Some x)
  let ?b = "ta_customerId a"
  have x: "bs_businessId x = ?b" "set (bs_capabilities x) = (\<Union>a \<in> {a \<in> G. ta_customerId a = ?b}. set (grant_capabilities s a))"
    using assms Some by (auto simp: scope_of_grants_def)
  show ?thesis
  proof (cases "bs_endpointIds x")
    case None
    with Some x assms show ?thesis
      unfolding scope_of_grants_def Collect_insert_same[OF refl]
      by (auto simp: add_source_def map_of_update merge_endpoints_def)
  next
    case (Some es)
    with \<open>map_of m ?b = Some x\<close> x assms show ?thesis
      unfolding scope_of_grants_def Collect_insert_same[OF refl]
      by (auto simp: add_source_def map_of_update merge_endpoints_def)
  qed
qed

lemma add_source_ok:
  assumes "scopes_ok s G m"
  shows "scopes_ok s (insert a G) (add_source c (ta_customerId a) (toSource tz s a) m)"
  unfolding scopes_ok_def
proof
  fix b
  show "scope_of_grants s (insert a G) b (map_of (add_source c (ta_customerId a) (toSource tz s a) m) b)"
  proof (cases "b = ta_customerId a")
    case True
    with assms show ?thesis using add_source_here by (simp add: scopes_ok_def)
  next
    case False
    then have "map_of (add_source c (ta_customerId a) (toSource tz s a) m) b = map_of m b"
      by (simp add: add_source_def map_of_update split: option.splits)
    with False assms show ?thesis by (simp add: scopes_ok_def scope_of_grants_other)
  qed
qed

lemma resolve_step_scopes:
  "fst (resolve_step tz s now (m, ig) (a, c)) =
     (if inactive_because tz a c now = None then add_source c (ta_customerId a) (toSource tz s a) m else m)"
proof (cases "inactive_because tz a c now")
  case None
  then have "isWithinDates (ta_startsAt a) (ta_expiresAt a) now"
    by (simp add: inactive_None_iff)
  with None show ?thesis by (simp add: resolve_step_def)
next
  case (Some r)
  then show ?thesis by (simp add: resolve_step_def)
qed

lemma resolve_fold_ok:
  "scopes_ok s G (fst acc) \<Longrightarrow>
   scopes_ok s (G \<union> live_grants tz now gs) (fst (foldl (resolve_step tz s now) acc gs))"
proof (induction gs arbitrary: acc G)
  case Nil
  then show ?case by (simp add: live_grants_def)
next
  case (Cons ac gs)
  obtain a c where ac: "ac = (a, c)" by (cases ac)
  obtain m ig where acc: "acc = (m, ig)" by (cases acc)
  show ?case
  proof (cases "inactive_because tz a c now")
    case None
    then have g: "live_grants tz now (ac # gs) = insert a (live_grants tz now gs)"
      by (auto simp: live_grants_def ac)
    have "scopes_ok s (insert a G) (fst (resolve_step tz s now acc ac))"
      using Cons.prems None by (simp add: ac acc resolve_step_scopes add_source_ok)
    from Cons.IH[OF this] show ?thesis by (simp add: g)
  next
    case (Some r)
    then have g: "live_grants tz now (ac # gs) = live_grants tz now gs"
      by (auto simp: live_grants_def ac)
    have "scopes_ok s G (fst (resolve_step tz s now acc ac))"
      using Cons.prems Some by (simp add: ac acc resolve_step_scopes)
    from Cons.IH[OF this] show ?thesis by (simp add: g)
  qed
qed

lemma resolve_ok: "scopes_ok s (live_grants tz now (loadGrants s userId)) (fst (resolve tz s userId now))"
proof -
  have "scopes_ok s {} (fst ([] :: scope_map, [] :: inactive_grant list))"
    by (simp add: scopes_ok_def scope_of_grants_def)
  from resolve_fold_ok[OF this] show ?thesis by (simp add: resolve_def)
qed

lemma resolve_scope_of_grants:
  "scope_of_grants s (live_grants tz now (loadGrants s userId)) b (scopeFor tz s userId b now)"
  using resolve_ok by (simp add: scopes_ok_def scopeFor_def)

lemma scopeFor_None_iff:
  "scopeFor tz s userId b now = None \<longleftrightarrow> (\<forall>a. \<not> counts tz s userId b now a)"
  using resolve_scope_of_grants[of s tz now userId b]
  by (auto simp: scope_of_grants_def counts_iff split: option.splits)

lemma scopeFor_capabilities:
  "scopeFor tz s userId b now = Some x \<Longrightarrow>
   set (bs_capabilities x) = (\<Union>a \<in> {a. counts tz s userId b now a}. set (grant_capabilities s a))"
  using resolve_scope_of_grants[of s tz now userId b] by (simp add: scope_of_grants_def counts_iff)

lemma scopeFor_endpoints:
  "scopeFor tz s userId b now = Some x \<Longrightarrow>
   (case bs_endpointIds x of
      None \<Rightarrow> \<exists>a. counts tz s userId b now a \<and> ta_endpointIds a = []
    | Some es \<Rightarrow> (\<forall>a. counts tz s userId b now a \<longrightarrow> ta_endpointIds a \<noteq> [])
        \<and> set es = (\<Union>a \<in> {a. counts tz s userId b now a}. set (ta_endpointIds a)))"
  using resolve_scope_of_grants[of s tz now userId b]
  by (auto simp: scope_of_grants_def counts_iff split: option.splits)

lemma scopeFor_businessId: "scopeFor tz s userId b now = Some x \<Longrightarrow> bs_businessId x = b"
  using resolve_scope_of_grants[of s tz now userId b] by (simp add: scope_of_grants_def)

lemma grant_capabilities_bound: "set (grant_capabilities s a) \<subseteq> set ALL_BUSINESS_CAPABILITIES - {CAP_USERS_MANAGE}"
  unfolding grant_capabilities_def by (rule technician_sanitize)

lemma scopeFor_capability_bound:
  "scopeFor tz s userId b now = Some x \<Longrightarrow>
   set (bs_capabilities x) \<subseteq> set ALL_BUSINESS_CAPABILITIES - {CAP_USERS_MANAGE}"
  using grant_capabilities_bound by (fastforce simp: scopeFor_capabilities)

section \<open>The sweep marks what it logs\<close>

interpretation expiry_mark:
  single_use ta_id "\<lambda>(p::time) r. ta_expiryAuditedAt r = None" "\<lambda>p r. r\<lparr>ta_expiryAuditedAt := Some p\<rparr>"
  by unfold_locales simp_all

lemma audit_assignment_tables [simp]:
  "assignments (audit_assignment_expiry now s a) = update_rows (\<lambda>r. ta_id r = ta_id a \<and> ta_expiryAuditedAt r = None)
     (\<lambda>r. r\<lparr>ta_expiryAuditedAt := Some now\<rparr>) (assignments s)"
  "accesses (audit_assignment_expiry now s a) = accesses s"
  by (simp_all add: audit_assignment_expiry_def Let_def)

lemma audit_access_tables [simp]:
  "accesses (audit_access_expiry now s c) = update_rows (\<lambda>r. ca_id r = ca_id c \<and> ca_expiryAuditedAt r = None)
     (\<lambda>r. r\<lparr>ca_expiryAuditedAt := Some now\<rparr>) (accesses s)"
  "assignments (audit_access_expiry now s c) = assignments s"
  by (simp_all add: audit_access_expiry_def Let_def)

lemma assignment_fold_marks:
  "r \<in> set (assignments (foldl (audit_assignment_expiry now) s as)) \<Longrightarrow> ta_expiryAuditedAt r = None \<Longrightarrow>
   r \<in> set (assignments s) \<and> ta_id r \<notin> ta_id ` set as"
proof (induction as arbitrary: s)
  case Nil
  then show ?case by auto
next
  case (Cons a as)
  from Cons.IH[of "audit_assignment_expiry now s a"] Cons.prems
  have "r \<in> set (assignments (audit_assignment_expiry now s a)) \<and> ta_id r \<notin> ta_id ` set as" by simp
  with Cons.prems(2) show ?case by (auto simp: set_update_rows)
qed

lemma access_fold_marks:
  "r \<in> set (accesses (foldl (audit_access_expiry now) s as)) \<Longrightarrow> ca_expiryAuditedAt r = None \<Longrightarrow>
   r \<in> set (accesses s) \<and> ca_id r \<notin> ca_id ` set as"
proof (induction as arbitrary: s)
  case Nil
  then show ?case by auto
next
  case (Cons a as)
  from Cons.IH[of "audit_access_expiry now s a"] Cons.prems
  have "r \<in> set (accesses (audit_access_expiry now s a)) \<and> ca_id r \<notin> ca_id ` set as" by simp
  with Cons.prems(2) show ?case by (auto simp: set_update_rows)
qed

lemma assignment_fold_accesses [simp]: "accesses (foldl (audit_assignment_expiry now) s as) = accesses s"
  by (induction as arbitrary: s) simp_all

lemma access_fold_assignments [simp]: "assignments (foldl (audit_access_expiry now) s as) = assignments s"
  by (induction as arbitrary: s) simp_all

lemma sweep_leaves_none:
  assumes "count_rows (assignment_lapsed now) (assignments s) \<le> 200"
    and "count_rows (access_lapsed now) (accesses s) \<le> 200"
  shows "filter (assignment_lapsed now) (assignments (snd (auditExpiries now s))) = []
       \<and> filter (access_lapsed now) (accesses (snd (auditExpiries now s))) = []"
proof -
  have a: "snd (auditExpiries now s) = foldl (audit_access_expiry now)
      (foldl (audit_assignment_expiry now) s (filter (assignment_lapsed now) (assignments s)))
      (filter (access_lapsed now) (accesses s))"
    using assms by (simp add: auditExpiries_def Let_def count_rows_def)
  have "\<not> assignment_lapsed now r"
    if r: "r \<in> set (assignments (foldl (audit_assignment_expiry now) s (filter (assignment_lapsed now) (assignments s))))" for r
  proof
    assume l: "assignment_lapsed now r"
    then have "ta_expiryAuditedAt r = None" by (simp add: assignment_lapsed_def)
    from assignment_fold_marks[OF r this] l show False by auto
  qed
  moreover have "\<not> access_lapsed now r"
    if r: "r \<in> set (accesses (foldl (audit_access_expiry now) (foldl (audit_assignment_expiry now) s
        (filter (assignment_lapsed now) (assignments s))) (filter (access_lapsed now) (accesses s))))" for r
  proof
    assume l: "access_lapsed now r"
    then have "ca_expiryAuditedAt r = None" by (simp add: access_lapsed_def)
    note m = access_fold_marks[OF r this, unfolded assignment_fold_accesses]
    have "ca_id r \<in> ca_id ` set (filter (access_lapsed now) (accesses s))"
      using m[THEN conjunct1] l by (intro imageI) simp
    with m[THEN conjunct2] show False by contradiction
  qed
  ultimately show ?thesis unfolding a access_fold_assignments filter_empty_conv by blast
qed

section \<open>Properties\<close>

text \<open>
  C5: A technician reaches a business exactly while some grant counts (not revoked, direct or
  through a group, approved or needing no approval, inside its dates and schedule, business
  active); the capabilities are the union over the counting grants and never include user
  management; the computers are all of them when one counting grant names none, and the
  union of the named ones otherwise.
\<close>

theorem technician_scope_is_union:
  "case scopeFor tz s userId b now of
     None \<Rightarrow> \<not> (\<exists>a. counts tz s userId b now a)
   | Some sc \<Rightarrow> (\<exists>a. counts tz s userId b now a) \<and> bs_businessId sc = b
       \<and> set (bs_capabilities sc) = (\<Union>a \<in> {a. counts tz s userId b now a}. set (grant_capabilities s a))
       \<and> CAP_USERS_MANAGE \<notin> set (bs_capabilities sc)
       \<and> (case bs_endpointIds sc of
            None \<Rightarrow> \<exists>a. counts tz s userId b now a \<and> ta_endpointIds a = []
          | Some es \<Rightarrow> \<not> (\<exists>a. counts tz s userId b now a \<and> ta_endpointIds a = [])
              \<and> set es = (\<Union>a \<in> {a. counts tz s userId b now a}. set (ta_endpointIds a)))"
proof (cases "scopeFor tz s userId b now")
  case None
  then have "\<not> (\<exists>a. counts tz s userId b now a)" using scopeFor_None_iff[of tz s userId b now] by blast
  with None show ?thesis by simp
next
  case (Some sc)
  have "\<exists>a. counts tz s userId b now a" using Some scopeFor_None_iff[of tz s userId b now] by auto
  moreover have "CAP_USERS_MANAGE \<notin> set (bs_capabilities sc)" using scopeFor_capability_bound[OF Some] by blast
  ultimately show ?thesis
    using Some scopeFor_capabilities[OF Some] scopeFor_endpoints[OF Some] scopeFor_businessId[OF Some]
    by (cases "bs_endpointIds sc") simp_all
qed

text \<open>
  The expiry sweep writes each audit entry once: when nothing was left over by its limit,
  a second sweep at the same instant finds nothing and changes nothing.
\<close>

theorem expiry_sweep_logs_once:
  assumes "count_rows (assignment_lapsed now) (assignments s) \<le> 200"
    and "count_rows (access_lapsed now) (accesses s) \<le> 200"
  shows "auditExpiries now (snd (auditExpiries now s)) = ((0, 0), snd (auditExpiries now s))"
  using sweep_leaves_none[OF assms] by (simp add: auditExpiries_def[of now "snd (auditExpiries now s)"] Let_def)

definition lapsed_db :: db where
  "lapsed_db = empty_db\<lparr>accesses := [\<lparr>ca_id = ''ca1'', ca_tenantId = ''t1'', ca_endpointId = ''e1'', ca_userId = ''u1'',
     ca_grantedBy = None, ca_startsAt = None, ca_expiresAt = Some 100, ca_schedule = JNull,
     ca_expiryAuditedAt = None\<rparr>]\<rparr>"

theorem expiry_sweep_logs_once_witness:
  "auditExpiries 100 (snd (auditExpiries 100 lapsed_db)) = ((0, 0), snd (auditExpiries 100 lapsed_db))
   \<and> fst (auditExpiries 100 lapsed_db) = (0, 1)"
proof
  show "auditExpiries 100 (snd (auditExpiries 100 lapsed_db)) = ((0, 0), snd (auditExpiries 100 lapsed_db))"
    by (rule expiry_sweep_logs_once) (simp_all add: lapsed_db_def empty_db_def access_lapsed_def)
  show "fst (auditExpiries 100 lapsed_db) = (0, 1)"
    by (simp add: auditExpiries_def lapsed_db_def empty_db_def access_lapsed_def Let_def)
qed

end
