(* ===== verification/AccessControl.thy ===== *)
theory AccessControl
  imports TechnicianAccess
begin

text \<open>
  The actor of a request and every access decision about it
  (\<open>rbac/access-control.service.ts\<close>): the business scope, the computers an actor may see and
  reach, capabilities and the object-level checks. A check that throws returns \<open>Inl\<close>; one
  that reads the database takes it as an argument and leaves it alone.
\<close>

section \<open>Actors\<close>

record technician_context =
  tc_businessId :: id
  tc_businessName :: string
  tc_capabilities :: "capability list"
  tc_endpointIds :: "id list option"
  tc_sources :: "grant_source list"

record actor =
  a_userId :: id
  a_email :: string
  a_tenantId :: "id option"
  a_businessId :: "id option"
  a_isPlatformAdmin :: bool
  a_roleType :: "role_type option"
  a_capabilities :: "capability list"
  a_ip :: "string option"
  a_ownBusinessId :: "id option"
  a_technician :: "technician_context option"
  a_assignedBusinessIds :: "id list"
  a_platformPermissions :: "string list"

text \<open>The validated token payload (\<open>JwtPayload\<close>), after the strategy filled it in.\<close>

record jwt_payload =
  jp_sub :: id
  jp_email :: string
  jp_tenantId :: "id option"
  jp_businessId :: "id option"
  jp_roleType :: "role_type option"
  jp_isPlatformAdmin :: bool
  jp_mfaVerified :: bool
  jp_capabilities :: "string list option"
  jp_customerId :: "id option"
  jp_partial :: bool
  jp_iat :: "int option"
  jp_ownBusinessId :: "id option"
  jp_technician :: "technician_context option"
  jp_assignedBusinessIds :: "id list option"
  jp_platformPermissions :: "string list option"

text \<open>\<open>a ?? b\<close> on nullable values.\<close>

definition nullish :: "'a option \<Rightarrow> 'a option \<Rightarrow> 'a option" where
  "nullish a b = (case a of Some x \<Rightarrow> Some x | None \<Rightarrow> b)"

definition buildActorContext :: "jwt_payload \<Rightarrow> string option \<Rightarrow> actor" where
  "buildActorContext user ip =
     \<lparr>a_userId = jp_sub user, a_email = jp_email user, a_tenantId = jp_tenantId user,
      a_businessId = nullish (jp_businessId user) (jp_customerId user),
      a_isPlatformAdmin = jp_isPlatformAdmin user, a_roleType = jp_roleType user,
      a_capabilities = effectiveCapabilities \<lparr>p_isPlatformAdmin = jp_isPlatformAdmin user,
         p_roleType = jp_roleType user, p_capabilities = jp_capabilities user\<rparr>,
      a_ip = ip, a_ownBusinessId = jp_ownBusinessId user, a_technician = jp_technician user,
      a_assignedBusinessIds = (case jp_assignedBusinessIds user of None \<Rightarrow> [] | Some xs \<Rightarrow> xs),
      a_platformPermissions = (case jp_platformPermissions user of None \<Rightarrow> [] | Some xs \<Rightarrow> xs)\<rparr>"

section \<open>Scope\<close>

definition trimmed :: "string option \<Rightarrow> string option" where
  "trimmed r = or_null (map_option js_trim r)"

definition resolveScope :: "actor \<Rightarrow> id option \<Rightarrow> id option result" where
  "resolveScope actor requestedBusinessId =
     (let requested = trimmed requestedBusinessId in
      if a_isPlatformAdmin actor then Inr requested
      else if \<not> truthy (a_businessId actor) then
        Inl (Forbidden ''Your account is not linked to a business. Ask your Rem0te administrator to assign one.'')
      else if requested \<noteq> None \<and> requested \<noteq> a_businessId actor then
        Inl (Forbidden ''You do not have access to that business'')
      else Inr (a_businessId actor))"

definition requireScope :: "actor \<Rightarrow> id option \<Rightarrow> id result" where
  "requireScope actor requestedBusinessId = (case resolveScope actor requestedBusinessId of
       Inl e \<Rightarrow> Inl e
     | Inr None \<Rightarrow> Inl (Forbidden ''A business must be selected for this action'')
     | Inr (Some sc) \<Rightarrow> if sc = [] then Inl (Forbidden ''A business must be selected for this action'')
                        else Inr sc)"

definition isBusinessOwner :: "actor \<Rightarrow> bool" where
  "isBusinessOwner actor = (a_isPlatformAdmin actor \<or> isOwnerRole (a_roleType actor))"

definition endpointRestrictionWhere :: "actor \<Rightarrow> endpoint_row \<Rightarrow> bool" where
  "endpointRestrictionWhere actor e = (case a_technician actor of
       None \<Rightarrow> True
     | Some t \<Rightarrow> (case tc_endpointIds t of None \<Rightarrow> True | Some ids \<Rightarrow> e_id e \<in> set ids))"

definition businessWhere :: "actor \<Rightarrow> id option \<Rightarrow> ('r \<Rightarrow> id option) \<Rightarrow> ('r \<Rightarrow> bool) result" where
  "businessWhere actor requestedBusinessId key = (case resolveScope actor requestedBusinessId of
       Inl e \<Rightarrow> Inl e | Inr sc \<Rightarrow> Inr (scope_where key sc))"

text \<open>
  A Prisma condition is the predicate on rows it stands for; the grants it joins are read from
  the database. A weekly schedule is not part of it (\<open>canReachEndpoint\<close> checks that).
\<close>

definition visible_grant :: "time \<Rightarrow> db \<Rightarrow> id \<Rightarrow> id \<Rightarrow> bool" where
  "visible_grant now s userId endpointId =
     list_ex (\<lambda>r. ca_endpointId r = endpointId \<and> ca_userId r = userId
        \<and> (case ca_startsAt r of None \<Rightarrow> True | Some t \<Rightarrow> t \<le> now)
        \<and> (case ca_expiresAt r of None \<Rightarrow> True | Some t \<Rightarrow> t > now)) (accesses s)"

definition endpointVisibilityWhere ::
  "time \<Rightarrow> db \<Rightarrow> actor \<Rightarrow> id option \<Rightarrow> (endpoint_row \<Rightarrow> bool) result" where
  "endpointVisibilityWhere now s actor requestedBusinessId =
     (case resolveScope actor requestedBusinessId of
        Inl e \<Rightarrow> Inl e
      | Inr sc \<Rightarrow> Inr (\<lambda>e.
          if isBusinessOwner actor then scope_where e_customerId sc e
          else case a_technician actor of
              Some t \<Rightarrow> e_customerId e = Some (tc_businessId t) \<and> endpointRestrictionWhere actor e
            | None \<Rightarrow> scope_where e_customerId sc e
                \<and> (visible_grant now s (a_userId actor) (e_id e)
                   \<or> truthy (a_businessId actor) \<and> e_accessMode e = COMPANY_WIDE
                     \<and> e_customerId e = a_businessId actor)))"

definition canReachEndpoint :: "zone_db \<Rightarrow> db \<Rightarrow> actor \<Rightarrow> endpoint_row \<Rightarrow> time \<Rightarrow> bool" where
  "canReachEndpoint tz s actor e now =
     (if isBusinessOwner actor then True
      else case a_technician actor of
          Some t \<Rightarrow>
            if e_customerId e \<noteq> Some (tc_businessId t) then False
            else (case tc_endpointIds t of None \<Rightarrow> True | Some ids \<Rightarrow> e_id e \<in> set ids)
        | None \<Rightarrow>
            if e_accessMode e = COMPANY_WIDE \<and> e_customerId e = a_businessId actor then True
            else computerAccessActive tz
                   (find_row (\<lambda>r. ca_endpointId r = e_id e \<and> ca_userId r = a_userId actor) (accesses s)) now)"

section \<open>Permissions and capabilities\<close>

definition hasPlatformPermission :: "actor \<Rightarrow> string \<Rightarrow> bool" where
  "hasPlatformPermission actor perm = (a_isPlatformAdmin actor \<or> perm \<in> set (a_platformPermissions actor))"

definition assertPlatformPermission :: "actor \<Rightarrow> string \<Rightarrow> unit result" where
  "assertPlatformPermission actor perm =
     (if \<not> hasPlatformPermission actor perm then Inl (Forbidden
        (if perm = TECHNICIANS_MANAGE
         then ''Managing technician access needs the \"Manage technician access\" platform permission''
         else ''Platform permission required''))
      else Inr ())"

definition can :: "actor \<Rightarrow> capability \<Rightarrow> bool" where
  "can actor c = (if a_isPlatformAdmin actor then True else c \<in> set (a_capabilities actor))"

definition assertCapability :: "actor \<Rightarrow> capability list \<Rightarrow> unit result" where
  "assertCapability actor capabilities =
     (if a_isPlatformAdmin actor then Inr ()
      else let missing = filter (\<lambda>c. c \<notin> set (a_capabilities actor)) capabilities in
        if length missing > 0 then Inl (Forbidden ''You do not have permission to do that'') else Inr ())"

definition assertBusinessOwner :: "actor \<Rightarrow> unit result" where
  "assertBusinessOwner actor =
     (if \<not> isBusinessOwner actor then Inl (Forbidden ''Business Owner access required'') else Inr ())"

definition assertPlatformAdmin :: "actor \<Rightarrow> unit result" where
  "assertPlatformAdmin actor =
     (if \<not> a_isPlatformAdmin actor then Inl (Forbidden ''Platform Admin access required'') else Inr ())"

section \<open>Object-level checks\<close>

definition assertEndpointInScope :: "db \<Rightarrow> actor \<Rightarrow> id \<Rightarrow> endpoint_row result" where
  "assertEndpointInScope s actor endpointId =
     (case find_row (\<lambda>e. e_id e = endpointId) (endpoints s) of
        None \<Rightarrow> Inl (NotFound ''Computer not found'')
      | Some e \<Rightarrow>
          if \<not> a_isPlatformAdmin actor
             \<and> (\<not> truthy (a_businessId actor) \<or> e_customerId e \<noteq> a_businessId actor)
          then Inl (NotFound ''Computer not found'')
          else if \<not> a_isPlatformAdmin actor
             \<and> (case Option.bind (a_technician actor) tc_endpointIds of
                  None \<Rightarrow> False | Some ids \<Rightarrow> e_id e \<notin> set ids)
          then Inl (NotFound ''Computer not found'')
          else Inr e)"

text \<open>The spread \<open>...(scope ? { id: scope } : {})\<close> overrides the requested id.\<close>

definition assertBusinessInScope :: "db \<Rightarrow> actor \<Rightarrow> id \<Rightarrow> business_row result" where
  "assertBusinessInScope s actor businessId =
     (case resolveScope actor (Some businessId) of
        Inl e \<Rightarrow> Inl e
      | Inr sc \<Rightarrow>
          (case find_row (\<lambda>c. c_id c = (if truthy sc then the sc else businessId)) (businesses s) of
             None \<Rightarrow> Inl (NotFound ''Business not found'')
           | Some c \<Rightarrow> Inr c))"

definition assertUserInScope :: "db \<Rightarrow> actor \<Rightarrow> id \<Rightarrow> membership_row result" where
  "assertUserInScope s actor targetUserId =
     (case find_row (\<lambda>m. m_userId m = targetUserId
          \<and> (a_isPlatformAdmin actor
             \<or> m_customerId m = Some (case a_businessId actor of Some b \<Rightarrow> b | None \<Rightarrow> ''__none__'')))
        (memberships s) of
        None \<Rightarrow> Inl (NotFound ''User not found in this business'')
      | Some m \<Rightarrow> Inr m)"

record manage_target =
  mt_roleType :: "role_type option"
  mt_isPlatformAdmin :: bool
  mt_userId :: id

definition assertMayManage :: "actor \<Rightarrow> manage_target \<Rightarrow> unit result" where
  "assertMayManage actor target =
     (if a_isPlatformAdmin actor then Inr ()
      else if mt_isPlatformAdmin target then
        Inl (Forbidden ''Only a Platform Admin can manage a Platform Admin'')
      else if \<not> isBusinessOwner actor then Inl (Forbidden ''Business Owner access required'')
      else if isOwnerRole (mt_roleType target) \<and> mt_userId target \<noteq> a_userId actor then
        Inl (Forbidden ''A Business Owner cannot manage another Business Owner'')
      else Inr ())"

section \<open>Lemmas\<close>

lemma trimmed_not_empty [simp]: "trimmed r \<noteq> Some []"
  by (auto simp: trimmed_def or_null_def)

lemma trimmed_None [simp]: "trimmed None = None"
  by (simp add: trimmed_def or_null_def)

lemma resolveScope_pinned:
  "\<not> a_isPlatformAdmin a \<Longrightarrow> resolveScope a rq = Inr sc \<Longrightarrow> truthy (a_businessId a) \<and> sc = a_businessId a"
  by (auto simp: resolveScope_def Let_def split: if_splits)

lemma resolveScope_admin [simp]: "a_isPlatformAdmin a \<Longrightarrow> resolveScope a rq = Inr (trimmed rq)"
  by (simp add: resolveScope_def)

interpretation actor_scope: pinned_scope resolveScope a_isPlatformAdmin a_businessId
  by unfold_locales (rule resolveScope_pinned)

lemma resolveScope_foreign:
  "\<not> a_isPlatformAdmin a \<Longrightarrow> trimmed rq \<noteq> None \<Longrightarrow> trimmed rq \<noteq> a_businessId a \<Longrightarrow>
   \<exists>m. resolveScope a rq = Inl (Forbidden m)"
  by (auto simp: resolveScope_def Let_def)

lemma resolveScope_forbids: "resolveScope a rq = Inl e \<Longrightarrow> \<exists>m. e = Forbidden m"
  by (auto simp: resolveScope_def Let_def split: if_splits)

lemma requireScope_Inr:
  "requireScope a rq = Inr b \<longleftrightarrow> resolveScope a rq = Inr (Some b) \<and> b \<noteq> []"
  by (auto simp: requireScope_def split: sum.splits option.splits)

lemma requireScope_own:
  "\<not> a_isPlatformAdmin a \<Longrightarrow> requireScope a rq = Inr b \<Longrightarrow> a_businessId a = Some b \<and> b \<noteq> []"
  using resolveScope_pinned by (fastforce simp: requireScope_Inr)

lemma assertEndpointInScope_Inr:
  "assertEndpointInScope s a i = Inr e \<Longrightarrow> e \<in> set (endpoints s) \<and> e_id e = i"
  by (auto simp: assertEndpointInScope_def split: option.splits if_splits dest: find_row_Some)

lemma assertEndpointInScope_own:
  "\<not> a_isPlatformAdmin a \<Longrightarrow> assertEndpointInScope s a i = Inr e \<Longrightarrow>
   e_customerId e = a_businessId a \<and> truthy (a_businessId a) \<and> endpointRestrictionWhere a e"
  by (auto simp: assertEndpointInScope_def endpointRestrictionWhere_def split: option.splits if_splits)

lemma assertCapability_Inr:
  "assertCapability a cs = Inr () \<longleftrightarrow> (\<forall>c \<in> set cs. can a c)"
  by (auto simp: assertCapability_def can_def Let_def filter_empty_conv)

text \<open>
  Connecting never goes beyond seeing: in the business scope that holds for the actor, a
  computer the actor reaches is one of those the actor's listings may show, unless a
  technician context points outside the scope (the guard builds no such context).
\<close>

definition coherent :: "actor \<Rightarrow> bool" where
  "coherent a \<longleftrightarrow> (\<forall>t. a_technician a = Some t \<longrightarrow> a_businessId a = Some (tc_businessId t))"

lemma computerAccessActive_visible:
  assumes "computerAccessActive tz (find_row (\<lambda>r. ca_endpointId r = i \<and> ca_userId r = u) (accesses s)) now"
  shows "visible_grant now s u i"
proof -
  obtain r where r: "find_row (\<lambda>r. ca_endpointId r = i \<and> ca_userId r = u) (accesses s) = Some r"
    and act: "isWithinDates (ca_startsAt r) (ca_expiresAt r) now"
    using assms by (auto simp: computerAccessActive_def split: option.splits)
  from find_row_Some[OF r] act show ?thesis
    by (fastforce simp: visible_grant_def list_ex_iff isWithinDates_def split: option.splits)
qed

lemma canReach_visible:
  assumes "canReachEndpoint tz s a e now" "assertEndpointInScope s a i = Inr e" "coherent a"
  shows "\<exists>P. endpointVisibilityWhere now s a None = Inr P \<and> P e"
proof (cases "a_isPlatformAdmin a")
  case True
  then show ?thesis
    by (simp add: endpointVisibilityWhere_def isBusinessOwner_def scope_where_def)
next
  case False
  note own = assertEndpointInScope_own[OF False assms(2)]
  then have sc: "resolveScope a None = Inr (a_businessId a)"
    using False by (simp add: resolveScope_def)
  show ?thesis
  proof (cases "isBusinessOwner a \<or> a_technician a \<noteq> None")
    case True
    then show ?thesis using sc own assms(1,3)
      by (auto simp: endpointVisibilityWhere_def scope_where_def canReachEndpoint_def coherent_def
          endpointRestrictionWhere_def split: if_splits)
  next
    case False
    then show ?thesis using sc own assms(1) computerAccessActive_visible
      by (auto simp: endpointVisibilityWhere_def scope_where_def canReachEndpoint_def split: if_splits)
  qed
qed

lemma assertMayManage_owner:
  "assertMayManage a t = Inr () \<Longrightarrow> \<not> a_isPlatformAdmin a \<Longrightarrow>
   \<not> mt_isPlatformAdmin t \<and> isOwnerRole (a_roleType a) \<and> (isOwnerRole (mt_roleType t) \<longrightarrow> mt_userId t = a_userId a)"
  by (auto simp: assertMayManage_def isBusinessOwner_def split: if_splits)

section \<open>Properties\<close>

text \<open>
  Two users of different businesses, neither a platform admin, never list the same row of
  any table filtered through the business scope, whatever businesses they ask for.
\<close>

theorem business_listings_disjoint:
  assumes "\<not> a_isPlatformAdmin a" "\<not> a_isPlatformAdmin b" "a_businessId a \<noteq> a_businessId b"
    and "businessWhere a rq key = Inr P" "businessWhere b rq' key = Inr Q"
  shows "set (filter P t) \<inter> set (filter Q t) = {}"
proof -
  obtain sc sc' where sc: "resolveScope a rq = Inr sc" "resolveScope b rq' = Inr sc'"
    and pq: "P = scope_where key sc" "Q = scope_where key sc'"
    using assms(4,5) by (auto simp: businessWhere_def split: sum.splits)
  show ?thesis unfolding pq by (rule actor_scope.listed_disjoint[OF assms(1-3) sc])
qed

definition plain_actor :: "id \<Rightarrow> id option \<Rightarrow> role_type option \<Rightarrow> capability list \<Rightarrow> actor" where
  "plain_actor u b r caps = \<lparr>a_userId = u, a_email = u, a_tenantId = Some ''t1'', a_businessId = b,
     a_isPlatformAdmin = False, a_roleType = r, a_capabilities = caps, a_ip = None, a_ownBusinessId = b,
     a_technician = None, a_assignedBusinessIds = [], a_platformPermissions = []\<rparr>"

theorem business_listings_disjoint_witness:
  "set (filter (scope_where (\<lambda>x. Some x) (Some ''b1'')) [''b1'', ''b2''])
     \<inter> set (filter (scope_where (\<lambda>x. Some x) (Some ''b2'')) [''b1'', ''b2'']) = {}"
  by (rule business_listings_disjoint[of "plain_actor ''u1'' (Some ''b1'') None []"
        "plain_actor ''u2'' (Some ''b2'') None []" None _ _ None])
    (simp_all add: plain_actor_def businessWhere_def resolveScope_def Let_def)

text \<open>
  Connecting never goes beyond seeing: a computer that passed the scope check and that the
  actor may reach now is one the actor's listings show.
\<close>

theorem reachable_is_visible:
  assumes "coherent a" "assertEndpointInScope s a i = Inr e" "canReachEndpoint tz s a e now"
  shows "\<exists>P. endpointVisibilityWhere now s a None = Inr P \<and> P e"
  using canReach_visible[OF assms(3,2,1)] .

definition shared_pc :: endpoint_row where
  "shared_pc = \<lparr>e_id = ''e1'', e_tenantId = Some ''t1'', e_customerId = Some ''b1'', e_endpointGroupId = None, e_siteId = None,
     e_name = ''pc'', e_status = EP_ACTIVE, e_hostname = None, e_platform = None, e_osVersion = None,
     e_ipAddress = None, e_agentVersion = None, e_isManaged = True, e_isOnline = True, e_lastSeenAt = None,
     e_accessMode = COMPANY_WIDE\<rparr>"

theorem reachable_is_visible_witness:
  "\<exists>P. endpointVisibilityWhere 0 (empty_db\<lparr>endpoints := [shared_pc]\<rparr>)
        (plain_actor ''u1'' (Some ''b1'') (Some BUSINESS_USER) []) None = Inr P \<and> P shared_pc"
  by (rule reachable_is_visible[of _ _ "''e1''" _ "\<lambda>z. None"])
    (simp_all add: coherent_def plain_actor_def assertEndpointInScope_def shared_pc_def empty_db_def
      canReachEndpoint_def)

end
