(* ===== verification/Identity.thy ===== *)
theory Identity
  imports AccessControl
begin

text \<open>
  From a token to an actor: session revocation (\<open>auth/session-revocation.ts\<close>), the live parts
  of an identity (\<open>rbac/actor-resolver.service.ts\<close>), the check every request goes through
  (\<open>auth/strategies/jwt.strategy.ts\<close>) and the route guards (\<open>common/guards\<close>). The signature
  and expiry of a token are checked by the JWT library before \<open>validate\<close> runs.
\<close>

section \<open>Session revocation\<close>

text \<open>Rounding up to whole seconds; a token's \<open>iat\<close> counts seconds.\<close>

definition ceil_sec :: "time \<Rightarrow> int" where
  "ceil_sec t = - ((- t) div 1000)"

definition revocationInstant :: "time \<Rightarrow> time" where
  "revocationInstant now = ceil_sec now * 1000"

definition isRevoked :: "int option \<Rightarrow> time option \<Rightarrow> bool" where
  "isRevoked iat validAfter = (case validAfter of
       None \<Rightarrow> False
     | Some v \<Rightarrow> (case iat of None \<Rightarrow> 0 | Some i \<Rightarrow> i) * 1000 < v)"

definition issueAt :: "time option \<Rightarrow> time \<Rightarrow> int" where
  "issueAt validAfter now = (let nowSec = now div 1000 in
     case validAfter of None \<Rightarrow> nowSec | Some v \<Rightarrow> max nowSec (ceil_sec v))"

section \<open>Resolving an identity\<close>

record extras =
  ex_technician :: "technician_context option"
  ex_assignedBusinessIds :: "id list"
  ex_platformPermissions :: "string list"

definition user_by_id :: "db \<Rightarrow> id \<Rightarrow> user_row option" where
  "user_by_id s i = find_row (\<lambda>u. u_id u = i) (users s)"

definition to_context :: "business_scope \<Rightarrow> technician_context" where
  "to_context sc = \<lparr>tc_businessId = bs_businessId sc, tc_businessName = bs_businessName sc,
     tc_capabilities = bs_capabilities sc, tc_endpointIds = bs_endpointIds sc, tc_sources = bs_sources sc\<rparr>"

definition resolveExtras ::
  "zone_db \<Rightarrow> db \<Rightarrow> id \<Rightarrow> id option \<Rightarrow> string option \<Rightarrow> time \<Rightarrow> extras" where
  "resolveExtras tz s userId ownBusinessId requested now =
     (let scopes = fst (resolve tz s userId now);
          perms = sanitizePlatformPermissions (json_strings (Some
             (case user_by_id s userId of None \<Rightarrow> [] | Some u \<Rightarrow> u_platformPermissions u)));
          assigned = map fst scopes;
          want = (case requested of None \<Rightarrow> [] | Some r \<Rightarrow> js_trim r);
          technician =
            (if want \<noteq> [] \<and> Some want \<noteq> ownBusinessId \<and> map_of scopes want \<noteq> None
             then map_option to_context (map_of scopes want)
             else if want = [] \<and> \<not> truthy ownBusinessId \<and> length scopes = 1
             then map_option to_context (map_of scopes (hd assigned))
             else None)
      in \<lparr>ex_technician = technician, ex_assignedBusinessIds = assigned, ex_platformPermissions = perms\<rparr>)"

record rebuilt_identity =
  ri_user :: user_row
  ri_ownBusinessId :: "id option"
  ri_roleType :: "role_type option"
  ri_capabilities :: "string list"
  ri_businessId :: "id option"
  ri_tenantId :: id
  ri_ip :: "string option"
  ri_extras :: extras

definition business_closed :: "db \<Rightarrow> id option \<Rightarrow> bool" where
  "business_closed s b = (case Option.bind b (business_of s) of
       None \<Rightarrow> False | Some c \<Rightarrow> \<not> c_isActive c \<or> c_isArchived c)"

definition active_membership :: "db \<Rightarrow> id \<Rightarrow> membership_row option" where
  "active_membership s userId = find_row (\<lambda>m. m_userId m = userId \<and> m_isActive m) (memberships s)"

definition actorForBusiness ::
  "zone_db \<Rightarrow> db \<Rightarrow> id \<Rightarrow> id \<Rightarrow> id option \<Rightarrow> string option \<Rightarrow> time \<Rightarrow> rebuilt_identity option" where
  "actorForBusiness tz s userId tenantId businessId ip now =
     (case user_by_id s userId of
        None \<Rightarrow> None
      | Some user \<Rightarrow>
          if u_status user \<noteq> U_ACTIVE then None
          else
            let membership = active_membership s userId;
                ownDisabled = business_closed s (Option.bind membership m_customerId);
                ownBusinessId = (if ownDisabled then None else Option.bind membership m_customerId);
                ex = resolveExtras tz s userId ownBusinessId businessId now
            in Some \<lparr>ri_user = user, ri_ownBusinessId = ownBusinessId,
                 ri_roleType = (if ex_technician ex \<noteq> None \<or> ownDisabled then None
                                else map_option m_roleType membership),
                 ri_capabilities = (case ex_technician ex of
                     Some t \<Rightarrow> tc_capabilities t
                   | None \<Rightarrow> if ownDisabled then []
                             else (case membership of None \<Rightarrow> [] | Some m \<Rightarrow> m_capabilities m)),
                 ri_businessId = (case ex_technician ex of
                     Some t \<Rightarrow> Some (tc_businessId t) | None \<Rightarrow> ownBusinessId),
                 ri_tenantId = tenantId, ri_ip = ip, ri_extras = ex\<rparr>)"

section \<open>Validating a token\<close>

text \<open>Role, business and capabilities a membership gives, as the strategy's local variables.\<close>

type_synonym standing = "role_type option \<times> id option \<times> string list option \<times> bool"

definition standing_without_tenant :: "db \<Rightarrow> jwt_payload \<Rightarrow> bool \<Rightarrow> standing result" where
  "standing_without_tenant s p isPlatformAdmin =
     (case active_membership s (jp_sub p) of
        Some m \<Rightarrow>
          if \<not> isPlatformAdmin \<and> business_closed s (m_customerId m)
          then Inl (Unauthorized ''This business is disabled'')
          else Inr (Some (m_roleType m), m_customerId m, Some (m_capabilities m), False)
      | None \<Rightarrow>
          if \<not> isPlatformAdmin then Inr (None, None, Some [], False)
          else Inr (jp_roleType p, nullish (jp_businessId p) (jp_customerId p), jp_capabilities p, False))"

definition standing_in_tenant :: "db \<Rightarrow> jwt_payload \<Rightarrow> bool \<Rightarrow> id \<Rightarrow> standing result" where
  "standing_in_tenant s p isPlatformAdmin tenantId =
     (case find_row (\<lambda>t. t_id t = tenantId) (tenants s) of
        None \<Rightarrow> Inl (Unauthorized ''Platform container no longer exists'')
      | Some t \<Rightarrow>
          if \<not> t_isActive t then Inl (Unauthorized ''Account is disabled'')
          else (case find_row (\<lambda>m. m_userId m = jp_sub p \<and> m_tenantId m = tenantId) (memberships s) of
              None \<Rightarrow> Inr (None, None, Some [], True)
            | Some m \<Rightarrow>
                if \<not> m_isActive m then Inr (None, None, Some [], True)
                else if \<not> isPlatformAdmin \<and> business_closed s (m_customerId m)
                then Inl (Unauthorized ''This business is disabled'')
                else Inr (Some (m_roleType m), m_customerId m, Some (m_capabilities m), False)))"

text \<open>
  The request gives its active-business header (an array when repeated) and its cookie.
\<close>

definition requested_business :: "string list option \<Rightarrow> string option \<Rightarrow> string option" where
  "requested_business header cookie =
     nullish (case header of None \<Rightarrow> None | Some [] \<Rightarrow> None | Some (h # _) \<Rightarrow> Some h) cookie"

text \<open>
  The payload the request goes on with. Through an assignment the business, capabilities and
  computers are the assignment's and nothing of the user's own role carries over.
\<close>

definition acting :: "jwt_payload \<Rightarrow> bool \<Rightarrow> role_type option \<Rightarrow> id option \<Rightarrow> string list option \<Rightarrow> extras \<Rightarrow> jwt_payload" where
  "acting p isPlatformAdmin roleType ownBusinessId capabilities ex =
     (let businessId = (case ex_technician ex of
            Some t \<Rightarrow> Some (tc_businessId t) | None \<Rightarrow> ownBusinessId)
      in p\<lparr>jp_isPlatformAdmin := isPlatformAdmin,
           jp_roleType := (if ex_technician ex = None then roleType else None),
           jp_businessId := businessId,
           jp_customerId := businessId,
           jp_capabilities := (case ex_technician ex of
               Some t \<Rightarrow> Some (tc_capabilities t) | None \<Rightarrow> capabilities),
           jp_ownBusinessId := ownBusinessId,
           jp_technician := ex_technician ex,
           jp_assignedBusinessIds := Some (ex_assignedBusinessIds ex),
           jp_platformPermissions := Some (ex_platformPermissions ex)\<rparr>)"

definition validate ::
  "zone_db \<Rightarrow> db \<Rightarrow> time \<Rightarrow> string list option \<Rightarrow> string option \<Rightarrow> jwt_payload \<Rightarrow> jwt_payload result" where
  "validate tz s now header cookie p =
     (if jp_partial p then Inl (Unauthorized ''Multi-factor authentication is not complete'')
      else case user_by_id s (jp_sub p) of
          None \<Rightarrow> Inl (Unauthorized ''Account not found'')
        | Some user \<Rightarrow>
            if u_status user = U_DELETED then Inl (Unauthorized ''Account not found'')
            else if isRevoked (jp_iat p) (u_sessionsValidAfter user)
            then Inl (Unauthorized ''This session has ended. Sign in again.'')
            else if u_status user = U_SUSPENDED then Inl (Unauthorized ''Account suspended'')
            else
              (case (case or_null (jp_tenantId p) of
                       None \<Rightarrow> standing_without_tenant s p (u_isPlatformAdmin user)
                     | Some t \<Rightarrow> standing_in_tenant s p (u_isPlatformAdmin user) t) of
                 Inl e \<Rightarrow> Inl e
               | Inr (roleType, ownBusinessId, capabilities, noMembership) \<Rightarrow>
                   let ex = resolveExtras tz s (jp_sub p) ownBusinessId (requested_business header cookie) now in
                   if noMembership \<and> \<not> u_isPlatformAdmin user \<and> ex_assignedBusinessIds ex = []
                      \<and> ex_platformPermissions ex = []
                   then Inl (Unauthorized ''Your access to this business is no longer active'')
                   else Inr (acting p (u_isPlatformAdmin user) roleType ownBusinessId capabilities ex)))"

section \<open>Route guards\<close>

text \<open>The metadata of a route is \<open>None\<close> when the decorator is absent.\<close>

definition capabilities_guard :: "capability list option \<Rightarrow> jwt_payload option \<Rightarrow> unit result" where
  "capabilities_guard required user = (case required of
       None \<Rightarrow> Inr ()
     | Some req \<Rightarrow>
         if length req = 0 then Inr ()
         else (case user of
             None \<Rightarrow> Inl (Forbidden ''Not authenticated'')
           | Some u \<Rightarrow>
               let actor = buildActorContext u None in
               if a_isPlatformAdmin actor then Inr ()
               else if filter (\<lambda>c. c \<notin> set (a_capabilities actor)) req \<noteq> []
               then Inl (Forbidden ''You do not have permission to do that'')
               else Inr ()))"

definition permissions_guard :: "string list option \<Rightarrow> jwt_payload option \<Rightarrow> unit result" where
  "permissions_guard required user = (case required of
       None \<Rightarrow> Inr ()
     | Some req \<Rightarrow>
         if length req = 0 then Inr ()
         else (case user of
             None \<Rightarrow> Inl (Forbidden ''Not authenticated'')
           | Some u \<Rightarrow>
               if jp_isPlatformAdmin u then Inr ()
               else (case jp_roleType u of
                   None \<Rightarrow> Inl (Forbidden ''No business context on this account'')
                 | Some rt \<Rightarrow>
                     if filter (\<lambda>p. \<not> actorHasPermission \<lparr>p_isPlatformAdmin = False,
                          p_roleType = Some rt, p_capabilities = jp_capabilities u\<rparr> p) req \<noteq> []
                     then Inl (Forbidden ''Missing permissions'')
                     else Inr ())))"

definition platform_admin_guard :: "jwt_payload option \<Rightarrow> unit result" where
  "platform_admin_guard user = (case user of
       Some u \<Rightarrow> if jp_isPlatformAdmin u then Inr () else Inl (Forbidden ''Platform admin access required'')
     | None \<Rightarrow> Inl (Forbidden ''Platform admin access required''))"

section \<open>Lemmas: revocation\<close>

lemma ceil_sec_bounds: "t \<le> ceil_sec t * 1000" "ceil_sec t * 1000 < t + 1000"
  by (simp_all add: ceil_sec_def)

lemma ceil_sec_exact [simp]: "ceil_sec (k * 1000) = k"
  by (simp add: ceil_sec_def)

lemma revocationInstant_bounds: "now \<le> revocationInstant now" "revocationInstant now < now + 1000"
  using ceil_sec_bounds by (simp_all add: revocationInstant_def)

lemma issueAt_not_revoked: "\<not> isRevoked (Some (issueAt v now)) v"
proof (cases v)
  case None
  then show ?thesis by (simp add: isRevoked_def)
next
  case (Some t)
  then show ?thesis using ceil_sec_bounds(1)[of t] by (auto simp: isRevoked_def issueAt_def Let_def max_def)
qed

lemma earlier_token_revoked:
  assumes "minted < revoked" and "\<And>v. validAfter = Some v \<Longrightarrow> v \<le> (minted div 1000) * 1000"
  shows "isRevoked (Some (issueAt validAfter minted)) (Some (revocationInstant revoked))"
proof -
  have iat: "issueAt validAfter minted = minted div 1000"
  proof (cases validAfter)
    case None
    then show ?thesis by (simp add: issueAt_def)
  next
    case (Some v)
    then have "ceil_sec v \<le> minted div 1000" using assms(2) ceil_sec_bounds(2)[of v] by fastforce
    with Some show ?thesis by (simp add: issueAt_def)
  qed
  have "minted div 1000 * 1000 \<le> minted" by simp
  then have "minted div 1000 * 1000 < revoked" using assms(1) by linarith
  then have "minted div 1000 * 1000 < revocationInstant revoked"
    using revocationInstant_bounds(1)[of revoked] by linarith
  with iat show ?thesis by (simp add: isRevoked_def)
qed

section \<open>Lemmas: the resolved identity\<close>

lemma resolveExtras_technician:
  assumes "ex_technician (resolveExtras tz s u own rq now) = Some t"
  shows "\<exists>sc. scopeFor tz s u (tc_businessId t) now = Some sc \<and> t = to_context sc"
proof -
  let ?m = "fst (resolve tz s u now)"
  obtain b where "map_option to_context (map_of ?m b) = Some t"
    using assms by (auto simp: resolveExtras_def Let_def split: if_splits)
  then obtain sc where sc: "map_of ?m b = Some sc" "t = to_context sc" by auto
  then have "scopeFor tz s u b now = Some sc" by (simp add: scopeFor_def)
  with sc scopeFor_businessId[OF this] show ?thesis by (simp add: to_context_def)
qed

lemma resolveExtras_technician_asked:
  "ex_technician (resolveExtras tz s u own rq now) = Some t \<Longrightarrow> truthy own \<Longrightarrow>
   \<exists>r. rq = Some r \<and> Some (js_trim r) \<noteq> own \<and> tc_businessId t = js_trim r"
proof -
  assume a: "ex_technician (resolveExtras tz s u own rq now) = Some t" and o: "truthy own"
  then obtain r sc where r: "rq = Some r" "Some (js_trim r) \<noteq> own"
      "map_of (fst (resolve tz s u now)) (js_trim r) = Some sc" "t = to_context sc"
    by (auto simp: resolveExtras_def Let_def split: if_splits option.splits)
  then have "scopeFor tz s u (js_trim r) now = Some sc" by (simp add: scopeFor_def)
  from scopeFor_businessId[OF this] r show ?thesis by (simp add: to_context_def)
qed

lemma standing_no_claims:
  "standing_without_tenant s (p\<lparr>jp_roleType := r, jp_businessId := b, jp_customerId := c, jp_capabilities := cs\<rparr>) False
     = standing_without_tenant s p False"
  "standing_in_tenant s (p\<lparr>jp_roleType := r, jp_businessId := b, jp_customerId := c, jp_capabilities := cs\<rparr>) adm t
     = standing_in_tenant s p adm t"
  by (simp_all add: standing_without_tenant_def standing_in_tenant_def split: option.splits)

lemma acting_simps [simp]:
  "jp_sub (acting p adm r b cs ex) = jp_sub p"
  "jp_isPlatformAdmin (acting p adm r b cs ex) = adm"
  "jp_ownBusinessId (acting p adm r b cs ex) = b"
  "jp_technician (acting p adm r b cs ex) = ex_technician ex"
  "jp_roleType (acting p adm r b cs ex) = (if ex_technician ex = None then r else None)"
  "jp_businessId (acting p adm r b cs ex) =
     (case ex_technician ex of Some t \<Rightarrow> Some (tc_businessId t) | None \<Rightarrow> b)"
  "jp_customerId (acting p adm r b cs ex) = jp_businessId (acting p adm r b cs ex)"
  "jp_capabilities (acting p adm r b cs ex) =
     (case ex_technician ex of Some t \<Rightarrow> Some (tc_capabilities t) | None \<Rightarrow> cs)"
  by (simp_all add: acting_def Let_def split: option.splits)

lemma validate_Inr:
  assumes "validate tz s now header cookie p = Inr q"
  obtains user r b cs where "user_by_id s (jp_sub p) = Some user"
    "u_status user \<noteq> U_DELETED" "u_status user \<noteq> U_SUSPENDED"
    "\<not> isRevoked (jp_iat p) (u_sessionsValidAfter user)" "\<not> jp_partial p"
    "q = acting p (u_isPlatformAdmin user) r b cs
           (resolveExtras tz s (jp_sub p) b (requested_business header cookie) now)"
  using assms
  by (auto simp: validate_def Let_def split: if_splits option.splits sum.splits)

lemma validate_technician_scope:
  assumes "validate tz s now header cookie p = Inr q" and "jp_technician q = Some t"
  shows "\<exists>sc. scopeFor tz s (jp_sub p) (tc_businessId t) now = Some sc \<and> t = to_context sc"
  using assms(1)
proof (cases rule: validate_Inr)
  case (1 user r b cs)
  with assms(2) show ?thesis using resolveExtras_technician by simp
qed

lemma technician_capability_bound:
  assumes "validate tz s now header cookie p = Inr q" and "jp_technician q = Some t"
  shows "set (tc_capabilities t) \<subseteq> set ALL_BUSINESS_CAPABILITIES - {CAP_USERS_MANAGE}"
  using validate_technician_scope[OF assms] scopeFor_capability_bound by (fastforce simp: to_context_def)

lemma validate_coherent:
  assumes "validate tz s now header cookie p = Inr q"
  shows "coherent (buildActorContext q ip)"
  using assms
proof (cases rule: validate_Inr)
  case (1 user r b cs)
  then show ?thesis by (auto simp: coherent_def buildActorContext_def nullish_def)
qed

section \<open>Properties\<close>

text \<open>
  C1: Nothing a token claims about role, business, capabilities, platform rights or technician
  assignments has any effect for a user who is not a platform admin in the database: the
  request is validated exactly as with any other claims.
\<close>

theorem claims_have_no_effect:
  assumes "user_by_id s (jp_sub p) = Some u" "\<not> u_isPlatformAdmin u"
  shows "validate tz s now header cookie
           (p\<lparr>jp_isPlatformAdmin := adm, jp_roleType := r, jp_businessId := b, jp_customerId := c,
              jp_capabilities := cs, jp_ownBusinessId := ob, jp_technician := t,
              jp_assignedBusinessIds := asg, jp_platformPermissions := pp\<rparr>)
         = validate tz s now header cookie p"
proof -
  let ?q = "p\<lparr>jp_isPlatformAdmin := adm, jp_roleType := r, jp_businessId := b, jp_customerId := c,
              jp_capabilities := cs, jp_ownBusinessId := ob, jp_technician := t,
              jp_assignedBusinessIds := asg, jp_platformPermissions := pp\<rparr>"
  have a: "acting ?q x y z w e = acting p x y z w e" for x y z w e
    by (simp add: acting_def Let_def)
  have st: "standing_without_tenant s ?q False = standing_without_tenant s p False"
    "standing_in_tenant s ?q False i = standing_in_tenant s p False i" for i
    by (simp_all add: standing_without_tenant_def standing_in_tenant_def split: option.splits)
  show ?thesis using assms by (simp add: validate_def a st Let_def cong: option.case_cong sum.case_cong prod.case_cong if_cong)
qed

definition plain_user :: "id \<Rightarrow> user_row" where
  "plain_user i = \<lparr>u_id = i, u_email = i, u_passwordHash = [], u_firstName = [], u_lastName = [],
     u_status = U_ACTIVE, u_isPlatformAdmin = False, u_sessionsValidAfter = None, u_platformPermissions = [],
     u_profile = Map.empty\<rparr>"

definition plain_payload :: "id \<Rightarrow> jwt_payload" where
  "plain_payload i = \<lparr>jp_sub = i, jp_email = i, jp_tenantId = None, jp_businessId = None, jp_roleType = None,
     jp_isPlatformAdmin = False, jp_mfaVerified = True, jp_capabilities = None, jp_customerId = None,
     jp_partial = False, jp_iat = Some 10, jp_ownBusinessId = None, jp_technician = None,
     jp_assignedBusinessIds = None, jp_platformPermissions = None\<rparr>"

theorem claims_have_no_effect_witness:
  "validate (\<lambda>z. None) (empty_db\<lparr>users := [plain_user ''u1'']\<rparr>) 0 None None
     ((plain_payload ''u1'')\<lparr>jp_isPlatformAdmin := True, jp_roleType := Some BUSINESS_OWNER,
        jp_businessId := Some ''b1'', jp_customerId := Some ''b1'', jp_capabilities := Some [CAP_USERS_MANAGE],
        jp_ownBusinessId := None, jp_technician := None, jp_assignedBusinessIds := None,
        jp_platformPermissions := Some [TECHNICIANS_MANAGE]\<rparr>)
   = validate (\<lambda>z. None) (empty_db\<lparr>users := [plain_user ''u1'']\<rparr>) 0 None None (plain_payload ''u1'')"
  by (rule claims_have_no_effect[where u = "plain_user ''u1''"])
    (simp_all add: plain_user_def plain_payload_def user_by_id_def)

text \<open>
  C4: A request of a user who is no platform admin, acting through a technician assignment, is confined to it: some grant
  counts now for that business, the scope is that business and no other, no capability is user management, and the actor
  is no owner, whatever the user is at home.
\<close>

theorem technician_confined:
  assumes "validate tz s now header cookie p = Inr q" "jp_technician q = Some t" "\<not> jp_isPlatformAdmin q"
  shows "(\<exists>a. counts tz s (jp_sub p) (tc_businessId t) now a)
    \<and> \<not> isBusinessOwner (buildActorContext q ip)
    \<and> \<not> can (buildActorContext q ip) CAP_USERS_MANAGE
    \<and> (\<forall>rq. resolveScope (buildActorContext q ip) rq \<in> {Inr (Some (tc_businessId t))} \<union> range (Inl :: http_error \<Rightarrow> _))"
proof -
  obtain sc where sc: "scopeFor tz s (jp_sub p) (tc_businessId t) now = Some sc"
    using validate_technician_scope[OF assms(1,2)] by blast
  have f: "jp_roleType q = None" "jp_businessId q = Some (tc_businessId t)" "jp_capabilities q = Some (tc_capabilities t)"
    using assms(1,2) by (auto elim!: validate_Inr)
  let ?a = "buildActorContext q ip"
  have a: "\<not> a_isPlatformAdmin ?a" "a_roleType ?a = None" "a_businessId ?a = Some (tc_businessId t)"
    using assms(3) f by (simp_all add: buildActorContext_def nullish_def)
  have "set (a_capabilities ?a) \<subseteq> set (tc_capabilities t)"
    using assms(3) f by (auto simp: buildActorContext_def effective_no_role json_strings_def set_sanitize_strings)
  with technician_capability_bound[OF assms(1,2)] have "\<not> can ?a CAP_USERS_MANAGE" using a by (auto simp: can_def)
  moreover have "\<not> isBusinessOwner ?a" using a by (simp add: isBusinessOwner_def)
  moreover have "resolveScope ?a rq \<in> {Inr (Some (tc_businessId t))} \<union> range Inl" for rq
    using resolveScope_pinned[OF a(1)] a(3) by (cases "resolveScope ?a rq") auto
  moreover have "\<exists>a. counts tz s (jp_sub p) (tc_businessId t) now a"
    using sc scopeFor_None_iff[of tz s "jp_sub p" "tc_businessId t" now] by auto
  ultimately show ?thesis by blast
qed

definition one_assignment :: assignment_row where
  "one_assignment = \<lparr>ta_id = ''a1'', ta_tenantId = ''t1'', ta_customerId = ''b1'', ta_userId = Some ''u1'',
     ta_groupId = None, ta_capabilities = [CAP_COMPUTERS_CONNECT], ta_endpointIds = [], ta_startsAt = None,
     ta_expiresAt = None, ta_schedule = JNull, ta_reason = None, ta_approvalStatus = AP_NOT_REQUIRED,
     ta_requestedById = None, ta_decidedById = None, ta_decidedAt = None, ta_decisionNote = None,
     ta_createdById = None, ta_createdAt = 0, ta_revokedAt = None, ta_revokedById = None,
     ta_revokeReason = None, ta_expiryAuditedAt = None\<rparr>"

definition one_business :: "id \<Rightarrow> business_row" where
  "one_business i = \<lparr>c_id = i, c_tenantId = ''t1'', c_name = i, c_isActive = True, c_isArchived = False,
     c_quickConnectEnabled = True, c_technicianApprovalRequired = False, c_supportIntakeEnabled = True,
     c_supportIntakeSlug = Some i, c_profile = Map.empty\<rparr>"

definition technician_db :: db where
  "technician_db = empty_db\<lparr>users := [plain_user ''u1''], businesses := [one_business ''b1''],
     assignments := [one_assignment]\<rparr>"

lemma technician_db_scope:
  "\<exists>sc. resolve (\<lambda>z. None) technician_db ''u1'' 0 = ([(''b1'', sc)], []) \<and> bs_businessId sc = ''b1''"
  by (simp add: resolve_def loadGrants_def technician_db_def empty_db_def one_assignment_def holds_assignment_def
      business_of_def one_business_def resolve_step_def inactive_because_def storedScheduleAllows_def
      json_nullish_def isWithinDates_def add_source_def)

lemma technician_db_acts:
  "\<exists>q t. validate (\<lambda>z. None) technician_db 0 None None (plain_payload ''u1'') = Inr q \<and> jp_technician q = Some t
     \<and> \<not> jp_isPlatformAdmin q \<and> tc_businessId t = ''b1''"
proof -
  obtain sc where sc: "resolve (\<lambda>z. None) technician_db ''u1'' 0 = ([(''b1'', sc)], [])" "bs_businessId sc = ''b1''"
    using technician_db_scope by blast
  have u: "user_by_id technician_db ''u1'' = Some (plain_user ''u1'')" "memberships technician_db = []"
    by (simp_all add: user_by_id_def technician_db_def plain_user_def empty_db_def)
  have ex: "ex_technician (resolveExtras (\<lambda>z. None) technician_db ''u1'' None None 0) = Some (to_context sc)"
    by (simp add: resolveExtras_def sc(1))
  show ?thesis using sc(2) u ex
    by (auto simp: validate_def plain_payload_def plain_user_def isRevoked_def or_null_def
        standing_without_tenant_def active_membership_def requested_business_def nullish_def to_context_def
        Let_def)
qed

theorem technician_confined_witness:
  "\<exists>q t. validate (\<lambda>z. None) technician_db 0 None None (plain_payload ''u1'') = Inr q \<and> jp_technician q = Some t
     \<and> \<not> can (buildActorContext q None) CAP_USERS_MANAGE"
  using technician_db_acts technician_confined by blast

text \<open>
  C38: Signing out works, even within one second: a token minted before the user's current revocation instant is refused
  from then on, provided that no earlier revocation reached beyond the second in which it was minted, that is, no earlier
  revocation was pending then.
\<close>

theorem revoked_token_refused:
  assumes "user_by_id s (jp_sub p) = Some u" "u_sessionsValidAfter u = Some (revocationInstant revoked)"
    and "jp_iat p = Some (issueAt earlier minted)" "minted < revoked"
    and "\<forall>v. earlier = Some v \<longrightarrow> v \<le> (minted div 1000) * 1000"
  shows "\<exists>e. validate tz s now header cookie p = Inl (Unauthorized e)"
proof -
  have "isRevoked (jp_iat p) (u_sessionsValidAfter u)"
    unfolding assms(2,3) using assms(4,5) by (intro earlier_token_revoked) blast+
  then show ?thesis using assms(1) by (simp add: validate_def)
qed

theorem revoked_token_refused_witness:
  "\<exists>e. validate (\<lambda>z. None) (empty_db\<lparr>users := [(plain_user ''u1'')\<lparr>u_sessionsValidAfter := Some (revocationInstant 1700)\<rparr>]\<rparr>)
      1800 None None ((plain_payload ''u1'')\<lparr>jp_iat := Some (issueAt None 1200)\<rparr>) = Inl (Unauthorized e)"
  by (rule revoked_token_refused[where u = "(plain_user ''u1'')\<lparr>u_sessionsValidAfter := Some (revocationInstant 1700)\<rparr>"
        and revoked = 1700 and minted = 1200 and earlier = None])
    (simp_all add: user_by_id_def plain_user_def plain_payload_def)

text \<open>
  The exception set aside there (an earlier revocation still pending) is real: after a sign-out, a token minted within the same
  second is stamped with the next second, so a second sign-out before that second begins does
  not revoke it.
\<close>

theorem second_revocation_misses:
  assumes "revoked1 \<le> minted" "minted < revoked2" "revoked2 \<le> revocationInstant revoked1"
  shows "\<not> isRevoked (Some (issueAt (Some (revocationInstant revoked1)) minted)) (Some (revocationInstant revoked2))"
proof -
  have "ceil_sec revoked2 \<le> ceil_sec revoked1"
    using assms(3) ceil_sec_bounds[of revoked2] by (simp add: revocationInstant_def)
  then have "revocationInstant revoked2 \<le> issueAt (Some (revocationInstant revoked1)) minted * 1000"
    by (simp add: revocationInstant_def issueAt_def Let_def)
  then show ?thesis by (simp add: isRevoked_def)
qed

theorem second_revocation_misses_witness:
  "\<not> isRevoked (Some (issueAt (Some (revocationInstant 1200)) 1300)) (Some (revocationInstant 1400))"
  by (rule second_revocation_misses) (simp_all add: revocationInstant_def ceil_sec_def)

end
