(* ===== verification/Lockout.thy ===== *)
theory Lockout
  imports Prelude
begin

text \<open>
  The contract of a failure counter in front of a secret that judges one code after another, as the TOTP verifier does
  (sign-in, whose comparisons overlap, has a bound of its own in \<open>Auth\<close>). A code is either compared with the secret or refused unseen. A counter that
  obeys the laws of the locale below lets at most \<open>bound\<close> codes through to the secret in one window for each
  accepted one, and \<open>bound\<close> more.
\<close>

text \<open>How many attempts of a list were compared with the secret, and how many were accepted.\<close>

fun guesses :: "('x \<Rightarrow> 's \<Rightarrow> bool \<times> 's) \<Rightarrow> ('x \<Rightarrow> 's \<Rightarrow> bool) \<Rightarrow> 'x list \<Rightarrow> 's \<Rightarrow> nat \<times> nat" where
  "guesses attempt compared [] s = (0, 0)"
| "guesses attempt compared (x # xs) s =
     (case attempt x s of (ok, s1) \<Rightarrow>
        (case guesses attempt compared xs s1 of (n, a) \<Rightarrow>
           ((if compared x s then n + 1 else n), (if ok then a + 1 else a))))"

locale lockout =
  fixes attempt :: "'x \<Rightarrow> 's \<Rightarrow> bool \<times> 's"
    and compared :: "'x \<Rightarrow> 's \<Rightarrow> bool"
    and in_window :: "time \<Rightarrow> 'x \<Rightarrow> bool"
    and stands :: "time \<Rightarrow> nat \<Rightarrow> 's \<Rightarrow> bool"
    and bound :: nat
  assumes stands_bound: "stands t0 n s \<Longrightarrow> n \<le> bound"
    and unseen: "\<not> compared x s \<Longrightarrow> stands t0 n s \<Longrightarrow>
      \<not> fst (attempt x s) \<and> stands t0 n (snd (attempt x s))"
    and open_below: "compared x s \<Longrightarrow> in_window t0 x \<Longrightarrow> stands t0 n s \<Longrightarrow> n < bound"
    and accepted: "compared x s \<Longrightarrow> in_window t0 x \<Longrightarrow> stands t0 n s \<Longrightarrow> fst (attempt x s) \<Longrightarrow>
      stands t0 0 (snd (attempt x s))"
    and counted: "compared x s \<Longrightarrow> in_window t0 x \<Longrightarrow> stands t0 n s \<Longrightarrow> \<not> fst (attempt x s) \<Longrightarrow>
      stands t0 (Suc n) (snd (attempt x s))"
begin

lemma guesses_from:
  "stands t0 n s \<Longrightarrow> list_all (in_window t0) xs \<Longrightarrow>
   fst (guesses attempt compared xs s) + n \<le> bound * (snd (guesses attempt compared xs s) + 1)"
proof (induction xs arbitrary: s n)
  case Nil
  then show ?case by (simp add: stands_bound)
next
  case (Cons x xs)
  obtain ok s1 where v: "attempt x s = (ok, s1)" by fastforce
  obtain g a where ga: "guesses attempt compared xs s1 = (g, a)" by fastforce
  have w: "in_window t0 x" "list_all (in_window t0) xs" using Cons.prems(2) by simp_all
  show ?case
  proof (cases "compared x s")
    case False
    with unseen[OF False Cons.prems(1)] Cons.IH[OF _ w(2), of n s1] show ?thesis by (simp add: v ga)
  next
    case True
    note n = open_below[OF True w(1) Cons.prems(1)]
    show ?thesis
    proof (cases ok)
      case True
      with accepted[OF \<open>compared x s\<close> w(1) Cons.prems(1)] have "stands t0 0 s1" by (simp add: v)
      from Cons.IH[OF this w(2)] True \<open>compared x s\<close> n show ?thesis by (simp add: v ga)
    next
      case False
      with counted[OF True w(1) Cons.prems(1)] have "stands t0 (Suc n) s1" by (simp add: v)
      from Cons.IH[OF this w(2)] False True show ?thesis by (simp add: v ga)
    qed
  qed
qed

lemma guesses_bounded:
  "stands t0 0 s \<Longrightarrow> list_all (in_window t0) xs \<Longrightarrow>
   fst (guesses attempt compared xs s) \<le> bound * (snd (guesses attempt compared xs s) + 1)"
  using guesses_from[of t0 0 s xs] by simp

end

end
