(* ===== verification/Mfa.thy ===== *)
theory Mfa
  imports Identity Lockout
begin

text \<open>
  Second factors (\<open>mfa/mfa.service.ts\<close>): TOTP set-up and verification with its lockout and
  single use, recovery codes, and turning the factor off. The state is the database and the
  counters the process keeps. The cryptographic libraries are the record \<open>crypto\<close>:
  \<open>cr_delta\<close> is \<open>authenticator.checkDelta\<close> at an instant, \<open>cr_verify\<close> is
  \<open>argon2.verify\<close> (false when it throws).
\<close>

record crypto =
  cr_delta :: "time \<Rightarrow> string \<Rightarrow> string \<Rightarrow> int option"
  cr_verify :: "string \<Rightarrow> string \<Rightarrow> bool"
  cr_hash :: "string \<Rightarrow> string"
  cr_encrypt :: "string \<Rightarrow> string"
  cr_decrypt :: "string \<Rightarrow> string"

record attempts =
  at_count :: nat
  at_blockedUntil :: time

record auth_state =
  as_db :: db
  as_failures :: "id \<rightharpoonup> attempts"
  as_totp :: "id \<rightharpoonup> attempts"
  as_recovery :: "id \<rightharpoonup> attempts"

definition TOTP_MAX_FAILURES :: nat where "TOTP_MAX_FAILURES = 5"
definition TOTP_LOCKOUT_MS :: int where "TOTP_LOCKOUT_MS = 15 * minute_ms"

definition set_db :: "(db \<Rightarrow> db) \<Rightarrow> auth_state \<Rightarrow> auth_state" where
  "set_db f st = st\<lparr>as_db := f (as_db st)\<rparr>"

text \<open>An audit entry about a user, by an actor.\<close>

definition mfa_audit :: "string \<Rightarrow> id \<Rightarrow> id \<Rightarrow> db \<Rightarrow> db" where
  "mfa_audit action actorId userId = audit_log action (Some actorId) None None None (Some ''user'') (Some userId) False"

section \<open>Set-up\<close>

definition totp_method :: "db \<Rightarrow> id \<Rightarrow> mfa_row option" where
  "totp_method s userId = find_row (\<lambda>m. mm_userId m = userId \<and> mm_type m = TOTP) (mfaMethods s)"

definition active_totp :: "db \<Rightarrow> id \<Rightarrow> mfa_row option" where
  "active_totp s userId = find_row (\<lambda>m. mm_userId m = userId \<and> mm_type m = TOTP \<and> mm_isActive m) (mfaMethods s)"

definition new_method :: "id \<Rightarrow> id \<Rightarrow> mfa_type \<Rightarrow> mfa_row" where
  "new_method i userId ty = \<lparr>mm_id = i, mm_userId = userId, mm_type = ty, mm_isActive = False, mm_totpSecret = None,
     mm_lastTotpStep = None, mm_codeHash = None, mm_usedAt = None, mm_credentialId = None,
     mm_publicKey = None, mm_signCount = None, mm_name = None, mm_lastUsedAt = None\<rparr>"

text \<open>The answer is the secret; the QR code and the URL render it.\<close>

definition generateTotpSetup :: "crypto \<Rightarrow> id \<Rightarrow> string \<Rightarrow> id \<Rightarrow> db \<Rightarrow> string result \<times> db" where
  "generateTotpSetup c i secret userId s = (case user_by_id s userId of
     None \<Rightarrow> (Inl (NotFound ''User not found''), s)
   | Some _ \<Rightarrow>
     if active_totp s userId \<noteq> None
     then (Inl (BadRequest ''Two-factor authentication is already on. Turn it off with a current code before setting up a new authenticator.''), s)
     else (case totp_method s userId of
         Some existing \<Rightarrow> (Inr secret, s\<lparr>mfaMethods := update_rows (\<lambda>m. mm_id m = mm_id existing)
             (\<lambda>m. m\<lparr>mm_totpSecret := Some (cr_encrypt c secret), mm_isActive := False\<rparr>) (mfaMethods s)\<rparr>)
       | None \<Rightarrow> (Inr secret, s\<lparr>mfaMethods := mfaMethods s
             @ [(new_method i userId TOTP)\<lparr>mm_totpSecret := Some (cr_encrypt c secret)\<rparr>]\<rparr>)))"

text \<open>The TOTP time step a code is valid for.\<close>

definition matchingStep :: "crypto \<Rightarrow> time \<Rightarrow> string \<Rightarrow> string \<Rightarrow> int option" where
  "matchingStep c now code secret = map_option (\<lambda>delta. now div 30000 + delta) (cr_delta c now code secret)"

text \<open>The generated codes with their ids; the stored rows hold hashes.\<close>

definition storeRecoveryCodes :: "crypto \<Rightarrow> id \<Rightarrow> (id \<times> string) list \<Rightarrow> db \<Rightarrow> db" where
  "storeRecoveryCodes c userId codes s =
     s\<lparr>mfaMethods := delete_rows (\<lambda>m. mm_userId m = userId \<and> mm_type m = RECOVERY_CODE) (mfaMethods s)
       @ map (\<lambda>(i, code). (new_method i userId RECOVERY_CODE)\<lparr>mm_codeHash := Some (cr_hash c code), mm_isActive := True\<rparr>) codes\<rparr>"

definition confirmTotpEnrollment ::
  "crypto \<Rightarrow> time \<Rightarrow> (id \<times> string) list \<Rightarrow> id \<Rightarrow> string \<Rightarrow> db \<Rightarrow> string list result \<times> db" where
  "confirmTotpEnrollment c now codes userId code s = (case totp_method s userId of
     None \<Rightarrow> (Inl (BadRequest ''TOTP setup not initiated''), s)
   | Some m \<Rightarrow>
     if \<not> truthy (mm_totpSecret m) then (Inl (BadRequest ''TOTP setup not initiated''), s)
     else if mm_isActive m then (Inl (BadRequest ''Two-factor authentication is already on''), s)
     else (case matchingStep c now code (cr_decrypt c (the (mm_totpSecret m))) of
         None \<Rightarrow> (Inl (BadRequest ''Invalid TOTP code''), s)
       | Some step \<Rightarrow> (Inr (map snd codes), mfa_audit ''MFA_ENROLLED'' userId userId
           (storeRecoveryCodes c userId codes (s\<lparr>mfaMethods := update_rows (\<lambda>q. mm_id q = mm_id m)
              (\<lambda>q. q\<lparr>mm_isActive := True, mm_lastTotpStep := Some step\<rparr>) (mfaMethods s)\<rparr>)))))"

section \<open>Verifying a TOTP code\<close>

definition step_unused :: "int \<Rightarrow> mfa_row \<Rightarrow> bool" where
  "step_unused k m = (case mm_lastTotpStep m of None \<Rightarrow> True | Some l \<Rightarrow> l < k)"

definition use_step :: "int \<Rightarrow> mfa_row \<Rightarrow> mfa_row" where
  "use_step k m = m\<lparr>mm_lastTotpStep := Some k\<rparr>"

definition totp_locked :: "attempts option \<Rightarrow> time \<Rightarrow> bool" where
  "totp_locked state now = (case state of
     None \<Rightarrow> False | Some a \<Rightarrow> at_count a \<ge> TOTP_MAX_FAILURES \<and> at_blockedUntil a > now)"

definition totp_failure :: "attempts option \<Rightarrow> time \<Rightarrow> attempts" where
  "totp_failure state now =
     (let next = (case state of
            None \<Rightarrow> \<lparr>at_count = 1, at_blockedUntil = now + TOTP_LOCKOUT_MS\<rparr>
          | Some a \<Rightarrow> if at_blockedUntil a \<le> now then \<lparr>at_count = 1, at_blockedUntil = now + TOTP_LOCKOUT_MS\<rparr>
                      else a\<lparr>at_count := at_count a + 1\<rparr>)
      in if at_count next \<ge> TOTP_MAX_FAILURES then next\<lparr>at_blockedUntil := now + TOTP_LOCKOUT_MS\<rparr> else next)"

text \<open>The conditional update of the method: whether exactly one row took the step.\<close>

definition take_step :: "mfa_row \<Rightarrow> int option \<Rightarrow> db \<Rightarrow> bool \<times> db" where
  "take_step m step s = (case step of
     None \<Rightarrow> (False, s)
   | Some k \<Rightarrow> (case claim_rows (\<lambda>q. mm_id q = mm_id m \<and> step_unused k q) (use_step k) (mfaMethods s) of
       (n, t) \<Rightarrow> (n = 1, s\<lparr>mfaMethods := t\<rparr>)))"

definition verifyTotp :: "crypto \<Rightarrow> time \<Rightarrow> id \<Rightarrow> string \<Rightarrow> auth_state \<Rightarrow> bool \<times> auth_state" where
  "verifyTotp c now userId code st =
     (let state = as_totp st userId in
      if totp_locked state now then (False, set_db (mfa_audit ''LOGIN_FAILURE'' userId userId) st)
      else case active_totp (as_db st) userId of
        None \<Rightarrow> (False, st)
      | Some m \<Rightarrow>
        if \<not> truthy (mm_totpSecret m) then (False, st)
        else (case take_step m (matchingStep c now code (cr_decrypt c (the (mm_totpSecret m)))) (as_db st) of
          (accepted, s1) \<Rightarrow>
            if accepted then (True, st\<lparr>as_db := s1, as_totp := (as_totp st)(userId := None)\<rparr>)
            else
              let next = totp_failure state now;
                  st1 = st\<lparr>as_db := s1, as_totp := (as_totp st)(userId \<mapsto> next)\<rparr>
              in (False, if at_count next \<ge> TOTP_MAX_FAILURES
                         then set_db (mfa_audit ''LOGIN_FAILURE'' userId userId) st1 else st1)))"

section \<open>Recovery codes\<close>

definition revokeSessions :: "time \<Rightarrow> id \<Rightarrow> db \<Rightarrow> db" where
  "revokeSessions now userId s = s\<lparr>users := update_rows (\<lambda>u. u_id u = userId)
     (\<lambda>u. u\<lparr>u_sessionsValidAfter := Some (revocationInstant now)\<rparr>) (users s)\<rparr>"

definition matching_recovery :: "crypto \<Rightarrow> db \<Rightarrow> id \<Rightarrow> string \<Rightarrow> mfa_row option" where
  "matching_recovery c s userId code = find_row (\<lambda>m. mm_userId m = userId \<and> mm_type m = RECOVERY_CODE \<and> mm_isActive m
     \<and> mm_usedAt m = None \<and> truthy (mm_codeHash m) \<and> cr_verify c (the (mm_codeHash m)) (map upper code)) (mfaMethods s)"

definition recovery_failure :: "attempts option \<Rightarrow> time \<Rightarrow> attempts" where
  "recovery_failure state now =
     (let next = (case state of
            None \<Rightarrow> \<lparr>at_count = 1, at_blockedUntil = now + 15 * minute_ms\<rparr>
          | Some a \<Rightarrow> if at_blockedUntil a > now - 15 * minute_ms then a\<lparr>at_count := at_count a + 1\<rparr>
                      else \<lparr>at_count = 1, at_blockedUntil = now + 15 * minute_ms\<rparr>)
      in if at_count next \<ge> 5 then next\<lparr>at_blockedUntil := now + 15 * minute_ms\<rparr> else next)"

definition verifyRecoveryCode :: "crypto \<Rightarrow> time \<Rightarrow> id \<Rightarrow> string \<Rightarrow> auth_state \<Rightarrow> bool \<times> auth_state" where
  "verifyRecoveryCode c now userId code st =
     (let state = as_recovery st userId in
      if (case state of None \<Rightarrow> False | Some a \<Rightarrow> at_blockedUntil a > now)
      then (False, set_db (mfa_audit ''RECOVERY_CODE_BLOCKED'' userId userId) st)
      else case matching_recovery c (as_db st) userId code of
        Some m \<Rightarrow> (True, set_db (\<lambda>s. mfa_audit ''RECOVERY_CODE_USED'' userId userId
            (s\<lparr>mfaMethods := update_rows (\<lambda>q. mm_id q = mm_id m)
               (\<lambda>q. q\<lparr>mm_usedAt := Some now, mm_isActive := False\<rparr>) (mfaMethods s)\<rparr>))
            (st\<lparr>as_recovery := (as_recovery st)(userId := None)\<rparr>))
      | None \<Rightarrow>
        let next = recovery_failure state now;
            st1 = st\<lparr>as_recovery := (as_recovery st)(userId \<mapsto> next)\<rparr>
        in (False, if at_count next \<ge> 5 then set_db (mfa_audit ''RECOVERY_CODE_LOCKOUT'' userId userId) st1 else st1))"

section \<open>Turning it off\<close>

definition resetTotp :: "time \<Rightarrow> id \<Rightarrow> id \<Rightarrow> db \<Rightarrow> db" where
  "resetTotp now userId actorId s = mfa_audit ''MFA_RESET'' actorId userId
     (revokeSessions now userId (s\<lparr>mfaMethods := delete_rows (\<lambda>m. mm_userId m = userId) (mfaMethods s)\<rparr>))"

definition getTotpStatus :: "db \<Rightarrow> id \<Rightarrow> bool \<times> nat" where
  "getTotpStatus s userId = (active_totp s userId \<noteq> None,
     count_rows (\<lambda>m. mm_userId m = userId \<and> mm_type m = RECOVERY_CODE \<and> mm_isActive m \<and> mm_usedAt m = None) (mfaMethods s))"

definition disableTotp :: "crypto \<Rightarrow> time \<Rightarrow> id \<Rightarrow> string \<Rightarrow> auth_state \<Rightarrow> unit result \<times> auth_state" where
  "disableTotp c now userId code st = (case active_totp (as_db st) userId of
     None \<Rightarrow> (Inl (BadRequest ''TOTP is not enabled''), st)
   | Some m \<Rightarrow>
     if \<not> truthy (mm_totpSecret m) then (Inl (BadRequest ''TOTP is not enabled''), st)
     else (case verifyTotp c now userId code st of
        (ok, st1) \<Rightarrow>
          if \<not> ok then (Inl (BadRequest ''Invalid TOTP code''), st1)
          else (Inr (), set_db (\<lambda>s. mfa_audit ''MFA_RESET'' userId userId (revokeSessions now userId
                 (s\<lparr>mfaMethods := update_rows (\<lambda>q. mm_id q = mm_id m) (\<lambda>q. q\<lparr>mm_isActive := False\<rparr>) (mfaMethods s)\<rparr>))) st1)))"

section \<open>A run of operations\<close>

datatype mfa_event =
    Setup id string id | Confirm time "(id \<times> string) list" id string | Verify time id string
  | Recovery time id string | Disable time id string | Reset time id id

fun mfa_step :: "crypto \<Rightarrow> auth_state \<Rightarrow> mfa_event \<Rightarrow> auth_state" where
  "mfa_step c st (Setup i secret u) = set_db (\<lambda>s. snd (generateTotpSetup c i secret u s)) st"
| "mfa_step c st (Confirm now codes u code) = set_db (\<lambda>s. snd (confirmTotpEnrollment c now codes u code s)) st"
| "mfa_step c st (Verify now u code) = snd (verifyTotp c now u code st)"
| "mfa_step c st (Recovery now u code) = snd (verifyRecoveryCode c now u code st)"
| "mfa_step c st (Disable now u code) = snd (disableTotp c now u code st)"
| "mfa_step c st (Reset now u actor) = set_db (resetTotp now u actor) st"

definition method_ids :: "auth_state \<Rightarrow> id list" where
  "method_ids st = map mm_id (mfaMethods (as_db st))"

text \<open>New rows get new ids, and user \<open>u\<close> does not enrol an authenticator again.\<close>

fun event_ok :: "id \<Rightarrow> auth_state \<Rightarrow> mfa_event \<Rightarrow> bool" where
  "event_ok u st (Setup i secret v) = (i \<notin> set (method_ids st))"
| "event_ok u st (Confirm now codes v code) =
     (v \<noteq> u \<and> distinct (map fst codes) \<and> list_all (\<lambda>i. i \<notin> set (method_ids st)) (map fst codes))"
| "event_ok u st _ = True"

fun run_ok :: "crypto \<Rightarrow> id \<Rightarrow> auth_state \<Rightarrow> mfa_event list \<Rightarrow> bool" where
  "run_ok c u st [] = True"
| "run_ok c u st (e # es) = (event_ok u st e \<and> run_ok c u (mfa_step c st e) es)"

section \<open>Lemmas\<close>

interpretation one_step: single_use mm_id "\<lambda>(_::unit) m. step_unused k m" "\<lambda>_ m. use_step k m" for k
  by unfold_locales (auto simp: use_step_def step_unused_def)

text \<open>Racing requests with one code: at most one of them wins.\<close>

lemma racing_codes_one_wins:
  "distinct (map mm_id t) \<Longrightarrow> one_step.harmless_run k es \<Longrightarrow>
   length (filter (\<lambda>n. 0 < n) (run_claims mm_id (\<lambda>(_::unit) m. step_unused k m) (\<lambda>_ m. use_step k m) i es t)) \<le> 1"
  by (rule one_step.at_most_one_wins)

definition is_active_totp :: "id \<Rightarrow> mfa_row \<Rightarrow> bool" where
  "is_active_totp u m = (mm_userId m = u \<and> mm_type m = TOTP \<and> mm_isActive m)"

text \<open>Every active authenticator of the user is past step \<open>k\<close>, and ids are unique.\<close>

definition past_step :: "id \<Rightarrow> int \<Rightarrow> mfa_row table \<Rightarrow> bool" where
  "past_step u k t = (distinct (map mm_id t) \<and> (\<forall>m\<in>set t. is_active_totp u m \<longrightarrow> \<not> step_unused k m))"

lemma active_totp_active: "active_totp s u = find_row (is_active_totp u) (mfaMethods s)"
  by (simp add: active_totp_def is_active_totp_def cong: find_row_cong)

lemma mfa_methods_simps [simp]:
  "mfaMethods (mfa_audit a b d s) = mfaMethods s"
  "mfaMethods (revokeSessions now u s) = mfaMethods s"
  "as_db (set_db f st) = f (as_db st)"
  "as_totp (set_db f st) = as_totp st"
  "as_recovery (set_db f st) = as_recovery st"
  "as_failures (set_db f st) = as_failures st"
  by (simp_all add: mfa_audit_def revokeSessions_def set_db_def)

lemma past_step_update:
  assumes "past_step u k t"
    and "\<And>m. mm_id (f m) = mm_id m"
    and "\<And>m. m \<in> set t \<Longrightarrow> P m \<Longrightarrow> is_active_totp u (f m) \<Longrightarrow> \<not> step_unused k (f m)"
  shows "past_step u k (update_rows P f t)"
  using assms by (auto simp: past_step_def set_update_rows map_update_rows)

lemma past_step_delete: "past_step u k t \<Longrightarrow> past_step u k (delete_rows P t)"
  by (auto simp: past_step_def delete_rows_def distinct_map_filter)

lemma past_step_append:
  assumes "past_step u k t" and "distinct (map mm_id new)" and "\<And>m. m \<in> set new \<Longrightarrow> mm_id m \<notin> mm_id ` set t"
    and "\<And>m. m \<in> set new \<Longrightarrow> \<not> is_active_totp u m"
  shows "past_step u k (t @ new)"
  using assms unfolding past_step_def by (auto simp: image_iff) metis

lemma take_step_past:
  "past_step u k (mfaMethods s) \<Longrightarrow> past_step u k (mfaMethods (snd (take_step m step s)))"
  by (auto simp: take_step_def claim_rows_def split: option.split
      intro!: past_step_update) (auto simp: use_step_def step_unused_def past_step_def is_active_totp_def split: option.splits)

text \<open>A call compares the code unless the user is locked out or has no authenticator.\<close>

definition compared_with :: "time \<Rightarrow> id \<Rightarrow> auth_state \<Rightarrow> mfa_row option" where
  "compared_with now u st = (if totp_locked (as_totp st u) now then None
     else (case active_totp (as_db st) u of
         None \<Rightarrow> None | Some m \<Rightarrow> if truthy (mm_totpSecret m) then Some m else None))"

definition step_taken :: "crypto \<Rightarrow> time \<Rightarrow> string \<Rightarrow> mfa_row \<Rightarrow> db \<Rightarrow> bool \<times> db" where
  "step_taken c now code m s = take_step m (matchingStep c now code (cr_decrypt c (the (mm_totpSecret m)))) s"

lemma verifyTotp_not_compared:
  assumes "compared_with now u st = None"
  shows "fst (verifyTotp c now u code st) = False"
    and "mfaMethods (as_db (snd (verifyTotp c now u code st))) = mfaMethods (as_db st)"
    and "as_totp (snd (verifyTotp c now u code st)) = as_totp st"
  using assms by (auto simp: verifyTotp_def compared_with_def Let_def split: option.splits if_splits)

lemma verifyTotp_compared:
  assumes "compared_with now u st = Some m"
  shows "fst (verifyTotp c now u code st) = fst (step_taken c now code m (as_db st))"
    and "mfaMethods (as_db (snd (verifyTotp c now u code st))) = mfaMethods (snd (step_taken c now code m (as_db st)))"
    and "as_totp (snd (verifyTotp c now u code st)) = (as_totp st)(u :=
           if fst (step_taken c now code m (as_db st)) then None else Some (totp_failure (as_totp st u) now))"
  using assms by (auto simp: verifyTotp_def compared_with_def step_taken_def Let_def split: option.splits if_splits prod.splits)

lemma verifyTotp_past:
  assumes "past_step u k (mfaMethods (as_db st))"
  shows "past_step u k (mfaMethods (as_db (snd (verifyTotp c now v code st))))"
proof (cases "compared_with now v st")
  case None
  from verifyTotp_not_compared(2)[OF this] assms show ?thesis by simp
next
  case (Some m)
  from verifyTotp_compared(2)[OF this] take_step_past[OF assms] show ?thesis by (simp add: step_taken_def)
qed

lemma setup_past:
  assumes "past_step u k (mfaMethods s)" and "i \<notin> mm_id ` set (mfaMethods s)"
  shows "past_step u k (mfaMethods (snd (generateTotpSetup c i secret v s)))"
  using assms
  by (auto simp: generateTotpSetup_def split: option.split intro!: past_step_update past_step_append)
    (auto simp: is_active_totp_def new_method_def)

lemma recovery_past:
  "past_step u k (mfaMethods (as_db st)) \<Longrightarrow> past_step u k (mfaMethods (as_db (snd (verifyRecoveryCode c now v code st))))"
  by (auto simp: verifyRecoveryCode_def Let_def split: option.split intro!: past_step_update)
    (auto simp: is_active_totp_def)

lemma disable_past:
  assumes "past_step u k (mfaMethods (as_db st))"
  shows "past_step u k (mfaMethods (as_db (snd (disableTotp c now v code st))))"
proof -
  have "past_step u k (update_rows P (\<lambda>q. q\<lparr>mm_isActive := False\<rparr>) (mfaMethods (as_db (snd (verifyTotp c now v code st)))))" for P
    by (rule past_step_update[OF verifyTotp_past[OF assms]]) (auto simp: is_active_totp_def)
  with assms verifyTotp_past[OF assms, of c now v code] show ?thesis
    by (auto simp: disableTotp_def split: option.split prod.split if_splits)
qed

lemma confirm_past:
  assumes p: "past_step u k (mfaMethods s)" and "v \<noteq> u" and d: "distinct (map fst codes)"
    and fresh: "list_all (\<lambda>i. i \<notin> mm_id ` set (mfaMethods s)) (map fst codes)"
  shows "past_step u k (mfaMethods (snd (confirmTotpEnrollment c now codes v code s)))"
proof (cases "totp_method s v")
  case None
  with p show ?thesis by (simp add: confirmTotpEnrollment_def)
next
  case (Some m)
  then have m: "m \<in> set (mfaMethods s)" "mm_userId m = v" by (auto simp: totp_method_def dest: find_row_Some)
  let ?f = "\<lambda>step q. q\<lparr>mm_isActive := True, mm_lastTotpStep := Some step\<rparr>"
  have "past_step u k (update_rows (\<lambda>q. mm_id q = mm_id m) (?f step) (mfaMethods s))" for step
  proof (rule past_step_update[OF p])
    fix q assume "q \<in> set (mfaMethods s)" "mm_id q = mm_id m" "is_active_totp u (?f step q)"
    moreover from this m p have "q = m" by (auto simp: past_step_def distinct_map inj_on_def)
    ultimately show "\<not> step_unused k (?f step q)" using m(2) assms(2) by (simp add: is_active_totp_def)
  qed simp
  moreover have new_id: "i \<noteq> mm_id r" if "(i, b) \<in> set codes" "r \<in> set (mfaMethods s)" for i b r
    using fresh that by (force simp: list_all_iff)
  ultimately have "past_step u k (mfaMethods (storeRecoveryCodes c v codes
      (s\<lparr>mfaMethods := update_rows (\<lambda>q. mm_id q = mm_id m) (?f step) (mfaMethods s)\<rparr>)))" for step
    unfolding storeRecoveryCodes_def using d new_id m(1)
    by (simp, intro past_step_append past_step_delete)
      (auto simp: o_def new_method_def is_active_totp_def set_update_rows case_prod_unfold)
  with p Some show ?thesis by (simp add: confirmTotpEnrollment_def split: option.split)
qed

lemma reset_past: "past_step u k (mfaMethods s) \<Longrightarrow> past_step u k (mfaMethods (resetTotp now v a s))"
  by (simp add: resetTotp_def past_step_delete)

lemma mfa_step_past:
  assumes "past_step u k (mfaMethods (as_db st))" and "event_ok u st e"
  shows "past_step u k (mfaMethods (as_db (mfa_step c st e)))"
  using assms
  by (cases e) (simp_all add: method_ids_def setup_past confirm_past verifyTotp_past recovery_past disable_past reset_past)

lemma mfa_run_past:
  "past_step u k (mfaMethods (as_db st)) \<Longrightarrow> run_ok c u st es \<Longrightarrow>
   past_step u k (mfaMethods (as_db (foldl (mfa_step c) st es)))"
  by (induction es arbitrary: st) (auto dest: mfa_step_past)

lemma single_row:
  assumes "filter P t = [m]"
  shows "find_row P t = Some m" and "\<And>r. r \<in> set t \<Longrightarrow> P r \<Longrightarrow> r = m"
proof -
  show "find_row P t = Some m" using assms by (induction t) (auto split: if_splits)
  fix r assume "r \<in> set t" "P r"
  then have "r \<in> set (filter P t)" by simp
  with assms show "r = m" by simp
qed

text \<open>An accepted code leaves its step behind; a step left behind is refused.\<close>

lemma accepted_past:
  assumes one: "filter (is_active_totp u) (mfaMethods (as_db st)) = [m]"
    and d: "distinct (map mm_id (mfaMethods (as_db st)))"
    and k: "matchingStep c now code (cr_decrypt c (the (mm_totpSecret m))) = Some k"
    and ok: "fst (verifyTotp c now u code st)"
  shows "past_step u k (mfaMethods (as_db (snd (verifyTotp c now u code st))))"
proof -
  have "active_totp (as_db st) u = Some m" using single_row(1)[OF one] by (simp add: active_totp_active)
  then have cmp: "compared_with now u st = Some m"
    using ok verifyTotp_not_compared(1)[of now u st c code]
    by (cases "compared_with now u st") (auto simp: compared_with_def split: if_splits)
  let ?P = "\<lambda>q. mm_id q = mm_id m \<and> step_unused k q"
  have "past_step u k (update_rows ?P (use_step k) (mfaMethods (as_db st)))"
    unfolding past_step_def
  proof (intro conjI ballI impI)
    show "distinct (map mm_id (update_rows ?P (use_step k) (mfaMethods (as_db st))))"
      using d by (simp add: map_update_rows use_step_def)
    fix q assume q: "q \<in> set (update_rows ?P (use_step k) (mfaMethods (as_db st)))" "is_active_totp u q"
    then obtain r where r: "r \<in> set (mfaMethods (as_db st))" "q = (if ?P r then use_step k r else r)"
      using in_update_rows[OF q(1)] by blast
    with q(2) have "is_active_totp u r" by (auto simp: is_active_totp_def use_step_def split: if_splits)
    with r(1) have "r = m" by (rule single_row(2)[OF one])
    with r(2) show "\<not> step_unused k q" by (cases "step_unused k m") (simp_all add: use_step_def step_unused_def)
  qed
  then show ?thesis
    by (simp add: verifyTotp_compared(2)[OF cmp] step_taken_def k take_step_def claim_rows_def)
qed

lemma past_refused:
  assumes p: "past_step u k (mfaMethods (as_db st))" and m: "active_totp (as_db st) u = Some m"
    and k': "matchingStep c now code (cr_decrypt c (the (mm_totpSecret m))) = Some k'" and "k' \<le> k"
  shows "\<not> fst (verifyTotp c now u code st)"
proof (cases "compared_with now u st")
  case None
  from verifyTotp_not_compared(1)[OF this] show ?thesis by simp
next
  case (Some n)
  with m have n: "compared_with now u st = Some m" by (auto simp: compared_with_def split: if_splits)
  have in_set: "m \<in> set (mfaMethods (as_db st))" "is_active_totp u m"
    using m by (auto simp: active_totp_active dest: find_row_Some)
  have "\<not> (mm_id q = mm_id m \<and> step_unused k' q)" if "q \<in> set (mfaMethods (as_db st))" for q
  proof
    assume a: "mm_id q = mm_id m \<and> step_unused k' q"
    with that in_set p have "q = m" by (auto simp: past_step_def distinct_map inj_on_def)
    with a in_set p assms(4) show False by (auto simp: past_step_def step_unused_def split: option.splits)
  qed
  then have "count_rows (\<lambda>q. mm_id q = mm_id m \<and> step_unused k' q) (mfaMethods (as_db st)) = 0" by simp
  then show ?thesis
    by (simp add: verifyTotp_compared(1)[OF n] step_taken_def k' take_step_def claim_rows_def del: count_rows_zero)
qed

section \<open>The lockout\<close>

text \<open>One code for user \<open>u\<close> at an instant, and the window of a lockout that starts at \<open>t0\<close>.\<close>

definition totp_attempt :: "crypto \<Rightarrow> id \<Rightarrow> time \<times> string \<Rightarrow> auth_state \<Rightarrow> bool \<times> auth_state" where
  "totp_attempt c u x st = verifyTotp c (fst x) u (snd x) st"

definition totp_compared :: "id \<Rightarrow> time \<times> string \<Rightarrow> auth_state \<Rightarrow> bool" where
  "totp_compared u x st = (compared_with (fst x) u st \<noteq> None)"

definition in_totp_window :: "time \<Rightarrow> time \<times> string \<Rightarrow> bool" where
  "in_totp_window t0 x = (t0 \<le> fst x \<and> fst x < t0 + TOTP_LOCKOUT_MS)"

text \<open>The counter stands at \<open>n\<close> failures, all of them in the window.\<close>

definition totp_stands :: "id \<Rightarrow> time \<Rightarrow> nat \<Rightarrow> auth_state \<Rightarrow> bool" where
  "totp_stands u t0 n st = (case as_totp st u of None \<Rightarrow> n = 0
     | Some b \<Rightarrow> at_count b = n \<and> 0 < n \<and> n \<le> TOTP_MAX_FAILURES \<and> t0 + TOTP_LOCKOUT_MS \<le> at_blockedUntil b)"

lemma failure_counts:
  assumes "totp_stands u t0 n st" and "t0 \<le> now" "now < t0 + TOTP_LOCKOUT_MS" and "\<not> totp_locked (as_totp st u) now"
    and "as_totp st1 u = Some (totp_failure (as_totp st u) now)"
  shows "totp_stands u t0 (Suc n) st1"
  using assms
  by (auto simp: totp_stands_def totp_failure_def totp_locked_def TOTP_MAX_FAILURES_def TOTP_LOCKOUT_MS_def Let_def
      split: option.splits)

lemma compared_unlocked: "compared_with now u st = Some m \<Longrightarrow> \<not> totp_locked (as_totp st u) now"
  by (auto simp: compared_with_def)

interpretation totp: lockout "totp_attempt c u" "totp_compared u" in_totp_window "totp_stands u" TOTP_MAX_FAILURES
  for c u
proof unfold_locales
  fix t0 n st
  show "totp_stands u t0 n st \<Longrightarrow> n \<le> TOTP_MAX_FAILURES"
    by (auto simp: totp_stands_def split: option.splits)
  fix x
  show "\<not> fst (totp_attempt c u x st) \<and> totp_stands u t0 n (snd (totp_attempt c u x st))"
    if "\<not> totp_compared u x st" "totp_stands u t0 n st"
    using that verifyTotp_not_compared(1,3)[of "fst x" u st c "snd x"]
    by (simp add: totp_compared_def totp_attempt_def totp_stands_def)
  assume cmp: "totp_compared u x st" and w: "in_totp_window t0 x" and s: "totp_stands u t0 n st"
  then obtain m where m: "compared_with (fst x) u st = Some m" by (auto simp: totp_compared_def)
  note nl = compared_unlocked[OF m]
  show "n < TOTP_MAX_FAILURES"
    using nl s w by (auto simp: totp_stands_def totp_locked_def in_totp_window_def TOTP_MAX_FAILURES_def split: option.splits)
  show "totp_stands u t0 0 (snd (totp_attempt c u x st))" if "fst (totp_attempt c u x st)"
    using that verifyTotp_compared(1,3)[OF m, of c "snd x"] by (simp add: totp_attempt_def totp_stands_def)
  show "totp_stands u t0 (Suc n) (snd (totp_attempt c u x st))" if "\<not> fst (totp_attempt c u x st)"
    using that verifyTotp_compared(1,3)[OF m, of c "snd x"] w
    by (intro failure_counts[OF s _ _ nl]) (simp_all add: totp_attempt_def in_totp_window_def)
qed

section \<open>Properties\<close>

text \<open>An example: code c is valid in every step, the step following the clock.\<close>

definition sample_crypto :: crypto where
  "sample_crypto = \<lparr>cr_delta = (\<lambda>now code secret. if code = ''c'' then Some 0 else None),
     cr_verify = (\<lambda>h p. h = p), cr_hash = (\<lambda>p. p), cr_encrypt = (\<lambda>p. p), cr_decrypt = (\<lambda>p. p)\<rparr>"

definition one_totp :: mfa_row where
  "one_totp = (new_method ''m'' ''u'' TOTP)\<lparr>mm_isActive := True, mm_totpSecret := Some ''s''\<rparr>"

definition one_recovery :: mfa_row where
  "one_recovery = (new_method ''r'' ''u'' RECOVERY_CODE)\<lparr>mm_isActive := True, mm_codeHash := Some ''GOOD''\<rparr>"

definition mfa_state :: auth_state where
  "mfa_state = \<lparr>as_db = empty_db\<lparr>mfaMethods := [one_totp, one_recovery]\<rparr>, as_failures = Map.empty,
     as_totp = Map.empty, as_recovery = Map.empty\<rparr>"

text \<open>
  A TOTP code works once: after it was accepted at time step \<open>k\<close>, no code of that step or
  an earlier one is accepted for the user again, whatever operations on second factors (of any user, in any
  order) come in between, as long as the user does not enrol an authenticator anew.
\<close>

theorem totp_code_single_use:
  assumes "filter (is_active_totp u) (mfaMethods (as_db st)) = [m]"
    and "distinct (map mm_id (mfaMethods (as_db st)))"
    and "matchingStep c now code (cr_decrypt c (the (mm_totpSecret m))) = Some k"
    and "verifyTotp c now u code st = (True, st1)"
    and "run_ok c u st1 es" and "st2 = foldl (mfa_step c) st1 es"
    and "active_totp (as_db st2) u = Some m2"
    and "matchingStep c now2 code2 (cr_decrypt c (the (mm_totpSecret m2))) = Some k2" and "k2 \<le> k"
  shows "\<not> fst (verifyTotp c now2 u code2 st2)"
proof -
  have "past_step u k (mfaMethods (as_db st1))"
    using accepted_past[OF assms(1-3)] assms(4) by simp
  then have "past_step u k (mfaMethods (as_db st2))"
    unfolding assms(6) by (rule mfa_run_past[OF _ assms(5)])
  from past_refused[OF this assms(7-9)] show ?thesis .
qed

theorem totp_code_single_use_witness:
  "\<not> fst (verifyTotp sample_crypto 100 ''u'' ''c'' (foldl (mfa_step sample_crypto)
      (snd (verifyTotp sample_crypto 0 ''u'' ''c'' mfa_state)) [Verify 50 ''u'' ''x'', Recovery 60 ''u'' ''GOOD'']))"
  by (rule totp_code_single_use[where st = mfa_state and now = 0 and code = "''c''" and m = one_totp and k = 0 and ?k2.0 = 0
        and es = "[Verify 50 ''u'' ''x'', Recovery 60 ''u'' ''GOOD'']" and ?m2.0 = "use_step 0 one_totp"
        and ?st1.0 = "snd (verifyTotp sample_crypto 0 ''u'' ''c'' mfa_state)"])
    (simp_all add: mfa_state_def sample_crypto_def one_totp_def one_recovery_def new_method_def is_active_totp_def matchingStep_def
      verifyTotp_def totp_locked_def active_totp_def take_step_def claim_rows_def step_unused_def use_step_def
      totp_failure_def TOTP_MAX_FAILURES_def verifyRecoveryCode_def matching_recovery_def empty_db_def upper_def
      set_db_def mfa_audit_def Let_def)

text \<open>
  Guessing is bounded: of however many codes come in for an account within fifteen minutes, at most five
  are compared with the secret for each one that is accepted, plus five.
\<close>

theorem totp_guesses_bounded:
  assumes "as_totp st u = None" and "list_all (in_totp_window t0) attempts"
    and "guesses (totp_attempt c u) (totp_compared u) attempts st = (compared, accepted)"
  shows "compared \<le> 5 * (accepted + 1)"
  using totp.guesses_bounded[of u t0 st attempts c] assms by (simp add: totp_stands_def TOTP_MAX_FAILURES_def)

theorem totp_guesses_bounded_witness:
  "\<exists>compared accepted. guesses (totp_attempt sample_crypto ''u'') (totp_compared ''u'')
     [(1, ''x''), (2, ''y''), (3, ''z'')] mfa_state = (compared, accepted) \<and> compared \<le> 5 * (accepted + 1)"
proof -
  have "list_all (in_totp_window 0) [(1, ''x''), (2, ''y''), (3, ''z'')]"
    by (simp add: in_totp_window_def TOTP_LOCKOUT_MS_def)
  moreover have "as_totp mfa_state ''u'' = None" by (simp add: mfa_state_def)
  moreover obtain n a where "guesses (totp_attempt sample_crypto ''u'') (totp_compared ''u'')
      [(1, ''x''), (2, ''y''), (3, ''z'')] mfa_state = (n, a)" by (rule prod.exhaust)
  ultimately show ?thesis using totp_guesses_bounded by blast
qed

text \<open>
  One wrong recovery code closes the recovery path: from the first failure on, every
  attempt of the next fifteen minutes is refused, a correct code included.
\<close>

theorem recovery_blocked_after_first_failure:
  assumes "as_recovery st u = None" and "matching_recovery c (as_db st) u code = None"
    and "now2 < now + 15 * minute_ms"
  shows "\<not> fst (verifyRecoveryCode c now2 u code2 (snd (verifyRecoveryCode c now u code st)))"
  using assms by (simp add: verifyRecoveryCode_def recovery_failure_def Let_def)

theorem recovery_blocked_after_first_failure_witness:
  "\<not> fst (verifyRecoveryCode sample_crypto 60000 ''u'' ''good'' (snd (verifyRecoveryCode sample_crypto 0 ''u'' ''bad'' mfa_state)))"
  by (rule recovery_blocked_after_first_failure)
    (simp_all add: mfa_state_def matching_recovery_def sample_crypto_def one_totp_def one_recovery_def new_method_def upper_def)

end
