(* ===== verification/Auth.thy ===== *)
theory Auth
  imports Mfa
begin

text \<open>
  Signing in (\<open>auth/auth.service.ts\<close>): the lockout, the password and its second factor, the
  tokens, registration, profile, password change and step-up. A token is its payload;
  signing it, and checking signature and expiry, is the JWT library's, so a presented partial token is
  \<open>None\<close> where \<open>verify\<close> throws. The lockout policy row is an argument.
\<close>

section \<open>Lockout\<close>

type_synonym policy = "(int \<times> int) option"

definition lockoutPolicy :: "policy \<Rightarrow> int \<times> int" where
  "lockoutPolicy cfg = (case cfg of None \<Rightarrow> (5, 15) | Some p \<Rightarrow> p)"

text \<open>Whole seconds left, rounded up.\<close>

definition lockedFor :: "time \<Rightarrow> id \<Rightarrow> auth_state \<Rightarrow> int" where
  "lockedFor now userId st = (case as_failures st userId of
       None \<Rightarrow> 0
     | Some a \<Rightarrow> if at_blockedUntil a \<le> now then 0 else - ((now - at_blockedUntil a) div 1000))"

definition login_audit :: "string \<Rightarrow> id option \<Rightarrow> string \<Rightarrow> db \<Rightarrow> db" where
  "login_audit action actorId ip = audit_log action actorId None None (Some ip) None None False"

definition recordLoginFailure :: "policy \<Rightarrow> time \<Rightarrow> id \<Rightarrow> string \<Rightarrow> auth_state \<Rightarrow> auth_state" where
  "recordLoginFailure cfg now userId ip st = (case lockoutPolicy cfg of (maxi, minutes) \<Rightarrow>
     if maxi \<le> 0 then st
     else
       let count = (case as_failures st userId of
               None \<Rightarrow> 0
             | Some a \<Rightarrow> if at_blockedUntil a > now - minutes * minute_ms then at_count a else 0) + 1;
           lockedUntil = (if int count \<ge> maxi then now + minutes * minute_ms else now);
           st1 = st\<lparr>as_failures := (as_failures st)(userId \<mapsto> \<lparr>at_count = count, at_blockedUntil = lockedUntil\<rparr>)\<rparr>
       in if int count \<ge> maxi then set_db (login_audit ''LOGIN_FAILURE'' (Some userId) ip) st1 else st1)"

definition clearLoginFailures :: "id \<Rightarrow> auth_state \<Rightarrow> auth_state" where
  "clearLoginFailures userId st = st\<lparr>as_failures := (as_failures st)(userId := None)\<rparr>"

section \<open>Tokens\<close>

text \<open>A session token's payload; the other fields are absent.\<close>

definition issueFullToken ::
  "time \<Rightarrow> user_row \<Rightarrow> id option \<Rightarrow> role_type option \<Rightarrow> id option \<Rightarrow> string list \<Rightarrow> jwt_payload" where
  "issueFullToken now user tenantId roleType businessId capabilities =
     \<lparr>jp_sub = u_id user, jp_email = u_email user, jp_tenantId = tenantId, jp_businessId = businessId,
      jp_roleType = roleType, jp_isPlatformAdmin = u_isPlatformAdmin user, jp_mfaVerified = True,
      jp_capabilities = Some capabilities, jp_customerId = businessId, jp_partial = False,
      jp_iat = Some (issueAt (u_sessionsValidAfter user) now), jp_ownBusinessId = None, jp_technician = None,
      jp_assignedBusinessIds = None, jp_platformPermissions = None\<rparr>"

text \<open>The pre-MFA token, signed with its own key; the library stamps the time.\<close>

definition partial_token :: "time \<Rightarrow> user_row \<Rightarrow> id option \<Rightarrow> role_type option \<Rightarrow> jwt_payload" where
  "partial_token now user tenantId roleType =
     \<lparr>jp_sub = u_id user, jp_email = u_email user, jp_tenantId = tenantId, jp_businessId = None,
      jp_roleType = roleType, jp_isPlatformAdmin = u_isPlatformAdmin user, jp_mfaVerified = False,
      jp_capabilities = None, jp_customerId = None, jp_partial = True,
      jp_iat = Some (now div 1000), jp_ownBusinessId = None, jp_technician = None,
      jp_assignedBusinessIds = None, jp_platformPermissions = None\<rparr>"

text \<open>A started sign-in needs its second factor (was one enrolled?), or is complete.\<close>

datatype sign_in = NeedsMfa bool jwt_payload | SignedIn jwt_payload

definition active_memberships :: "db \<Rightarrow> id \<Rightarrow> membership_row list" where
  "active_memberships s userId = filter (\<lambda>m. m_userId m = userId \<and> m_isActive m) (memberships s)"

definition oldest_tenant :: "db \<Rightarrow> tenant_row option" where
  "oldest_tenant s = (case filter t_isActive (tenants s) of
       [] \<Rightarrow> None
     | t # ts \<Rightarrow> Some (foldl (\<lambda>best x. if t_createdAt x < t_createdAt best then x else best) t ts))"

definition requires_mfa :: "db \<Rightarrow> id option \<Rightarrow> bool" where
  "requires_mfa s tenantId = (if truthy tenantId
     then (case find_row (\<lambda>t. Some (t_id t) = tenantId) (tenants s) of None \<Rightarrow> False | Some t \<Rightarrow> t_requireMfa t)
     else False)"

text \<open>The container, role, business and capabilities of a new session.\<close>

definition standing_from :: "membership_row list \<Rightarrow> db \<Rightarrow> id option \<times> role_type option \<times> id option \<times> string list" where
  "standing_from ms s = (case ms of
       [m] \<Rightarrow> (Some (m_tenantId m), Some (m_roleType m), m_customerId m, m_capabilities m)
     | [] \<Rightarrow> (map_option t_id (oldest_tenant s), None, None, [])
     | _ \<Rightarrow> (None, None, None, []))"

definition session_standing :: "db \<Rightarrow> user_row \<Rightarrow> id option \<times> role_type option \<times> id option \<times> string list" where
  "session_standing s user = standing_from (active_memberships s (u_id user)) s"

text \<open>
  The memberships and the authenticator are those that were read with the user; the container and its settings are read
  here.
\<close>

definition startSession_for ::
  "time \<Rightarrow> user_row \<Rightarrow> membership_row list \<Rightarrow> bool \<Rightarrow> string \<Rightarrow> bool \<Rightarrow> db \<Rightarrow> sign_in \<times> db" where
  "startSession_for now user ms hasTotpMethod ip mfaSatisfied s = (case standing_from ms s of
     (tenantId, roleType, businessId, capabilities) \<Rightarrow>
       if \<not> mfaSatisfied \<and> (hasTotpMethod \<or> requires_mfa s tenantId)
       then (NeedsMfa hasTotpMethod (partial_token now user tenantId roleType), s)
       else (SignedIn (issueFullToken now user tenantId roleType businessId capabilities),
             audit_log ''LOGIN_SUCCESS'' (Some (u_id user)) tenantId businessId (Some ip) None None False s))"

definition startSession :: "time \<Rightarrow> user_row \<Rightarrow> string \<Rightarrow> bool \<Rightarrow> db \<Rightarrow> sign_in \<times> db" where
  "startSession now user ip mfaSatisfied s =
     startSession_for now user (active_memberships s (u_id user)) (active_totp s (u_id user) \<noteq> None) ip mfaSatisfied s"

lemma startSession_eq:
  "startSession now user ip mfaSatisfied s = (case session_standing s user of
     (tenantId, roleType, businessId, capabilities) \<Rightarrow>
       let hasTotpMethod = (active_totp s (u_id user) \<noteq> None) in
       if \<not> mfaSatisfied \<and> (hasTotpMethod \<or> requires_mfa s tenantId)
       then (NeedsMfa hasTotpMethod (partial_token now user tenantId roleType), s)
       else (SignedIn (issueFullToken now user tenantId roleType businessId capabilities),
             audit_log ''LOGIN_SUCCESS'' (Some (u_id user)) tenantId businessId (Some ip) None None False s))"
  by (simp add: startSession_def startSession_for_def session_standing_def Let_def)

section \<open>Signing in\<close>

definition user_by_email :: "db \<Rightarrow> string \<Rightarrow> user_row option" where
  "user_by_email s email = find_row (\<lambda>u. u_email u = map lower email) (users s)"

text \<open>No password at all: empty, or the mark of an account provisioned through SSO.\<close>

definition has_password :: "user_row \<Rightarrow> bool" where
  "has_password u = (case u_passwordHash u of [] \<Rightarrow> False | ch # _ \<Rightarrow> ch \<noteq> CHR ''!'')"

text \<open>
  A sign-in by password has two parts, with the comparison of the password (awaited) between them: other requests run in
  the meantime. What the first part read of the account goes into the second.
\<close>

record sign_in_read =
  sr_user :: user_row
  sr_memberships :: "membership_row list"
  sr_hasTotp :: bool

definition login_gate :: "time \<Rightarrow> string \<Rightarrow> string \<Rightarrow> auth_state \<Rightarrow> sign_in_read result \<times> auth_state" where
  "login_gate now email ip st = (case user_by_email (as_db st) email of
     None \<Rightarrow> (Inl (Unauthorized ''Invalid credentials''), set_db (login_audit ''LOGIN_FAILURE'' None ip) st)
   | Some user \<Rightarrow>
     if u_status user = U_SUSPENDED then (Inl (Unauthorized ''Account is suspended''), st)
     else if u_status user = U_INVITED
     then (Inl (Unauthorized ''Account setup not complete. Check your invitation email.''), st)
     else if u_status user = U_DELETED then (Inl (Unauthorized ''Invalid credentials''), st)
     else if lockedFor now (u_id user) st > 0
     then (Inl (Unauthorized ''Too many failed sign-in attempts.''), set_db (login_audit ''LOGIN_FAILURE'' (Some (u_id user)) ip) st)
     else if \<not> has_password user
     then (Inl (Unauthorized ''Invalid credentials''), set_db (login_audit ''LOGIN_FAILURE'' (Some (u_id user)) ip) st)
     else (Inr \<lparr>sr_user = user, sr_memberships = active_memberships (as_db st) (u_id user),
                sr_hasTotp = (active_totp (as_db st) (u_id user) \<noteq> None)\<rparr>, st))"

definition login_judge ::
  "crypto \<Rightarrow> policy \<Rightarrow> time \<Rightarrow> sign_in_read \<Rightarrow> string \<Rightarrow> string \<Rightarrow> auth_state \<Rightarrow> sign_in result \<times> auth_state" where
  "login_judge c cfg now r password ip st = (let user = sr_user r in
     if \<not> cr_verify c (u_passwordHash user) password
     then (Inl (Unauthorized ''Invalid credentials''),
           recordLoginFailure cfg now (u_id user) ip (set_db (login_audit ''LOGIN_FAILURE'' (Some (u_id user)) ip) st))
     else let st1 = clearLoginFailures (u_id user) st in
          (case startSession_for now user (sr_memberships r) (sr_hasTotp r) ip False (as_db st1) of
             (ans, s2) \<Rightarrow> (Inr ans, st1\<lparr>as_db := s2\<rparr>)))"

text \<open>\<open>f\<close> is what the rest of the program does during the comparison.\<close>

definition login ::
  "(auth_state \<Rightarrow> auth_state) \<Rightarrow> crypto \<Rightarrow> policy \<Rightarrow> time \<Rightarrow> string \<Rightarrow> string \<Rightarrow> string \<Rightarrow> auth_state \<Rightarrow> sign_in result \<times> auth_state" where
  "login f c cfg now email password ip st = (case login_gate now email ip st of
     (Inl e, st1) \<Rightarrow> (Inl e, st1)
   | (Inr r, st1) \<Rightarrow> login_judge c cfg now r password ip (f st1))"

definition assertMaySignIn :: "user_row \<Rightarrow> unit result" where
  "assertMaySignIn u =
     (if u_status u = U_SUSPENDED then Inl (Unauthorized ''Account is suspended'')
      else if u_status u = U_INVITED then Inl (Unauthorized ''Account setup not complete. Check your invitation email.'')
      else if u_status u \<noteq> U_ACTIVE then Inl (Unauthorized ''Invalid credentials'')
      else Inr ())"

text \<open>After single sign-on or a passkey proved who the user is.\<close>

definition signInVerifiedUser ::
  "time \<Rightarrow> id \<Rightarrow> string \<Rightarrow> bool \<Rightarrow> auth_state \<Rightarrow> sign_in result \<times> auth_state" where
  "signInVerifiedUser now userId ip mfaSatisfied st = (case user_by_id (as_db st) userId of
     None \<Rightarrow> (Inl (Unauthorized ''Invalid credentials''), st)
   | Some user \<Rightarrow> (case assertMaySignIn user of
       Inl e \<Rightarrow> (Inl e, st)
     | Inr _ \<Rightarrow>
       if lockedFor now (u_id user) st > 0 then (Inl (Unauthorized ''Too many failed sign-in attempts.''), st)
       else (case startSession now user ip mfaSatisfied (as_db st) of (ans, s2) \<Rightarrow> (Inr ans, st\<lparr>as_db := s2\<rparr>))))"

definition verifyMfaAndLogin ::
  "crypto \<Rightarrow> time \<Rightarrow> jwt_payload option \<Rightarrow> string \<Rightarrow> string \<Rightarrow> auth_state \<Rightarrow> jwt_payload result \<times> auth_state" where
  "verifyMfaAndLogin c now partialToken code ip st = (case partialToken of
     None \<Rightarrow> (Inl (Unauthorized ''Invalid or expired partial token''), st)
   | Some p \<Rightarrow>
     if \<not> jp_partial p then (Inl (BadRequest ''Token is not a partial token''), st)
     else (case user_by_id (as_db st) (jp_sub p) of
       None \<Rightarrow> (Inl (Unauthorized ''Unauthorized''), st)
     | Some user \<Rightarrow>
       (case verifyTotp c now (u_id user) code st of (verified, st1) \<Rightarrow>
         if \<not> verified
         then (Inl (Unauthorized ''Invalid MFA code''), set_db (login_audit ''LOGIN_FAILURE'' (Some (u_id user)) ip) st1)
         else
           let mships = active_memberships (as_db st) (u_id user);
               matching = (if truthy (jp_tenantId p) then find_row (\<lambda>m. Some (m_tenantId m) = jp_tenantId p) mships
                           else find_row (\<lambda>m. True) mships)
           in (Inr (issueFullToken now user (jp_tenantId p)
                 (nullish (map_option m_roleType matching) (jp_roleType p))
                 (Option.bind matching m_customerId)
                 (case matching of None \<Rightarrow> [] | Some m \<Rightarrow> m_capabilities m)),
               set_db (\<lambda>s. audit_log ''LOGIN_SUCCESS'' (Some (u_id user)) (jp_tenantId p) None (Some ip) None None False
                 (audit_log ''MFA_VERIFIED'' (Some (u_id user)) (jp_tenantId p) None (Some ip) None None False s)) st1))))"

section \<open>Accounts\<close>

definition register :: "crypto \<Rightarrow> id \<Rightarrow> string \<Rightarrow> string \<Rightarrow> string \<Rightarrow> string \<Rightarrow> db \<Rightarrow> unit result \<times> db" where
  "register c i email password firstName lastName s =
     (if user_by_email s email \<noteq> None then (Inl (Conflict ''Email already registered''), s)
      else (Inr (), s\<lparr>users := users s @ [\<lparr>u_id = i, u_email = map lower email, u_passwordHash = cr_hash c password,
              u_firstName = firstName, u_lastName = lastName, u_status = U_ACTIVE, u_isPlatformAdmin = False,
              u_sessionsValidAfter = None, u_platformPermissions = [], u_profile = Map.empty\<rparr>]\<rparr>))"

text \<open>A profile: name, address, and the contact columns.\<close>

definition USER_COLUMNS :: "string list" where
  "USER_COLUMNS = [''phone'', ''jobTitle'', ''address'', ''city'', ''state'', ''country'', ''postalCode'', ''timeZone'']"

definition getProfile :: "db \<Rightarrow> id \<Rightarrow> user_row option" where
  "getProfile s userId = user_by_id s userId"

record profile_input =
  pi_firstName :: "string option"
  pi_lastName :: "string option"
  pi_email :: "string option"
  pi_columns :: columns
  pi_currentPassword :: "string option"

definition checked_email :: "crypto \<Rightarrow> db \<Rightarrow> id \<Rightarrow> string \<Rightarrow> string option \<Rightarrow> unit result" where
  "checked_email c s userId email currentPassword =
     (let current = user_by_id s userId;
          changes = (case current of None \<Rightarrow> False | Some u \<Rightarrow> map lower email \<noteq> map lower (u_email u));
          ok = truthy currentPassword \<and> (case current of None \<Rightarrow> False
                 | Some u \<Rightarrow> u_passwordHash u \<noteq> [] \<and> cr_verify c (u_passwordHash u) (the currentPassword))
      in if changes \<and> \<not> ok then Inl (BadRequest ''Enter your current password to change your email address'')
         else if find_row (\<lambda>u. u_email u = map lower email \<and> u_id u \<noteq> userId) (users s) \<noteq> None
         then Inl (BadRequest ''Email already in use'')
         else Inr ())"

definition updated_profile :: "profile_input \<Rightarrow> user_row \<Rightarrow> user_row" where
  "updated_profile inp u = u\<lparr>u_firstName := given_or (pi_firstName inp) (u_firstName u), u_lastName := given_or (pi_lastName inp) (u_lastName u),
     u_email := given_or (map_option (map lower) (pi_email inp)) (u_email u),
     u_profile := set_columns USER_COLUMNS (\<lambda>k. map_option or_null (pi_columns inp k)) (u_profile u)\<rparr>"

definition updateProfile :: "crypto \<Rightarrow> id \<Rightarrow> profile_input \<Rightarrow> db \<Rightarrow> unit result \<times> db" where
  "updateProfile c userId inp s =
     (case (if truthy (pi_email inp) then checked_email c s userId (the (pi_email inp)) (pi_currentPassword inp) else Inr ()) of
        Inl e \<Rightarrow> (Inl e, s)
      | Inr _ \<Rightarrow>
        if user_by_id s userId = None then (Inl (ServerError ''Record to update not found''), s)
        else (Inr (), mfa_audit ''USER_UPDATED'' userId userId (s\<lparr>users := update_rows (\<lambda>u. u_id u = userId)
          (updated_profile inp) (users s)\<rparr>)))"

definition changePassword ::
  "crypto \<Rightarrow> time \<Rightarrow> id \<Rightarrow> string \<Rightarrow> string \<Rightarrow> db \<Rightarrow> jwt_payload result \<times> db" where
  "changePassword c now userId currentPassword newPassword s =
     (if length newPassword < 12 then (Inl (BadRequest ''Password must be at least 12 characters''), s)
      else (case user_by_id s userId of
        None \<Rightarrow> (Inl (Unauthorized ''User not found''), s)
      | Some user \<Rightarrow>
        if \<not> has_password user then (Inl (BadRequest ''No password set on this account''), s)
        else if \<not> cr_verify c (u_passwordHash user) currentPassword
        then (Inl (Unauthorized ''Current password is incorrect''), s)
        else
          let validAfter = revocationInstant now;
              s1 = mfa_audit ''PASSWORD_CHANGED'' userId userId (s\<lparr>users := update_rows (\<lambda>u. u_id u = userId)
                (\<lambda>u. u\<lparr>u_passwordHash := cr_hash c newPassword, u_sessionsValidAfter := Some validAfter\<rparr>) (users s)\<rparr>);
              membership = active_membership s1 userId;
              tenantId = (case membership of
                  Some m \<Rightarrow> (if m_tenantId m = [] \<and> u_isPlatformAdmin user then map_option t_id (oldest_tenant s1) else Some (m_tenantId m))
                | None \<Rightarrow> if u_isPlatformAdmin user then map_option t_id (oldest_tenant s1) else None)
          in (Inr (issueFullToken now (user\<lparr>u_sessionsValidAfter := Some validAfter\<rparr>) tenantId
                (map_option m_roleType membership) (Option.bind membership m_customerId)
                (case membership of None \<Rightarrow> [] | Some m \<Rightarrow> m_capabilities m)), s1)))"

text \<open>Re-authentication for a sensitive action: a TOTP code when given, else the password.\<close>

definition stepup_gate :: "time \<Rightarrow> id \<Rightarrow> auth_state \<Rightarrow> user_row result" where
  "stepup_gate now userId st = (case user_by_id (as_db st) userId of
     None \<Rightarrow> Inl (Unauthorized ''Account is not active'')
   | Some user \<Rightarrow>
     if u_status user \<noteq> U_ACTIVE then Inl (Unauthorized ''Account is not active'')
     else if lockedFor now (u_id user) st > 0 then Inl (Unauthorized ''Too many failed attempts.'')
     else Inr user)"

definition stepup_judge ::
  "crypto \<Rightarrow> policy \<Rightarrow> time \<Rightarrow> user_row \<Rightarrow> string option \<Rightarrow> string option \<Rightarrow> string \<Rightarrow> auth_state \<Rightarrow> string result \<times> auth_state" where
  "stepup_judge c cfg now user password totpCode ip st =
     (case (if truthy totpCode
            then (case verifyTotp c now (u_id user) (the totpCode) st of (ok, st1) \<Rightarrow> (ok, ''totp'', st1))
            else if truthy password
            then (u_passwordHash user \<noteq> [] \<and> cr_verify c (u_passwordHash user) (the password), ''password'', st)
            else (False, [], st)) of
       (ok, method, st1) \<Rightarrow>
         if \<not> ok then (Inl (Unauthorized ''That did not match. Try again.''),
              set_db (login_audit ''STEP_UP_FAILED'' (Some (u_id user)) ip) (recordLoginFailure cfg now (u_id user) ip st1))
         else (Inr method, set_db (login_audit ''STEP_UP_VERIFIED'' (Some (u_id user)) ip) (clearLoginFailures (u_id user) st1)))"

definition verifyStepUp ::
  "(auth_state \<Rightarrow> auth_state) \<Rightarrow> crypto \<Rightarrow> policy \<Rightarrow> time \<Rightarrow> id \<Rightarrow> string option \<Rightarrow> string option \<Rightarrow> string \<Rightarrow> auth_state \<Rightarrow> string result \<times> auth_state" where
  "verifyStepUp f c cfg now userId password totpCode ip st = (case stepup_gate now userId st of
     Inl e \<Rightarrow> (Inl e, st)
   | Inr user \<Rightarrow> stepup_judge c cfg now user password totpCode ip (f st))"

section \<open>Lemmas: what a sign-in touches\<close>

lemma recordLoginFailure_users [simp]: "users (as_db (recordLoginFailure cfg now u ip st)) = users (as_db st)"
  by (simp add: recordLoginFailure_def Let_def login_audit_def split: prod.split)

lemma login_audit_users [simp]: "users (login_audit a u ip s) = users s"
  by (simp add: login_audit_def)

lemma clearLoginFailures_simps [simp]:
  "as_db (clearLoginFailures u st) = as_db st"
  "as_failures (clearLoginFailures u st) = (as_failures st)(u := None)"
  by (simp_all add: clearLoginFailures_def)

lemma startSession_users [simp]: "users (snd (startSession now user ip b s)) = users s"
  by (simp add: startSession_eq Let_def split: prod.split)

lemma verifyTotp_frame [simp]:
  "users (as_db (snd (verifyTotp c now u code st))) = users (as_db st)"
  "as_failures (snd (verifyTotp c now u code st)) = as_failures st"
  by (simp_all add: verifyTotp_def take_step_def claim_rows_def mfa_audit_def Let_def split: option.split prod.split)

lemma lockedFor_pos: "lockedFor now u st > 0 \<longleftrightarrow> (\<exists>a. as_failures st u = Some a \<and> at_blockedUntil a > now)"
proof (cases "as_failures st u")
  case None
  then show ?thesis by (simp add: lockedFor_def)
next
  case (Some a)
  have "now < at_blockedUntil a \<Longrightarrow> (now - at_blockedUntil a) div 1000 < 0" by (simp add: div_neg_pos_less0)
  with Some show ?thesis by (auto simp: lockedFor_def)
qed

section \<open>The sign-in lockout\<close>

text \<open>
  An attempt on an account that passed the gate and whose comparison is still running: by password at
  sign-in, or by a step-up in a (stolen) session. Any number of them may be in flight; they are judged in any order.
\<close>

datatype account_flight = FlightPassword sign_in_read string | FlightStepUp user_row "string option" "string option"

primrec flight_user :: "account_flight \<Rightarrow> id" where
  "flight_user (FlightPassword r _) = u_id (sr_user r)"
| "flight_user (FlightStepUp u _ _) = u_id u"

primrec judge_flight :: "crypto \<Rightarrow> policy \<Rightarrow> string \<Rightarrow> time \<Rightarrow> account_flight \<Rightarrow> auth_state \<Rightarrow> bool \<times> auth_state" where
  "judge_flight c cfg ip now (FlightPassword r password) st =
     (case login_judge c cfg now r password ip st of (ans, st1) \<Rightarrow> (is_ok ans, st1))"
| "judge_flight c cfg ip now (FlightStepUp u password code) st =
     (case stepup_judge c cfg now u password code ip st of (ans, st1) \<Rightarrow> (is_ok ans, st1))"

text \<open>
  \<open>Elsewhere\<close> is any other request: it changes what it likes but the counters, which only the two kinds of
  attempt write.
\<close>

datatype account_event = SignInSent time string string | StepUpSent time id "string option" "string option"
  | Judged time nat | Elsewhere "auth_state \<Rightarrow> auth_state"

type_synonym account_world = "account_flight list \<times> auth_state"

fun account_step :: "crypto \<Rightarrow> policy \<Rightarrow> string \<Rightarrow> account_event \<Rightarrow> account_world \<Rightarrow> account_world" where
  "account_step c cfg ip (SignInSent now email password) (fs, st) = (case login_gate now email ip st of
     (Inl _, st1) \<Rightarrow> (fs, st1) | (Inr r, st1) \<Rightarrow> (fs @ [FlightPassword r password], st1))"
| "account_step c cfg ip (StepUpSent now userId password code) (fs, st) = (case stepup_gate now userId st of
     Inl _ \<Rightarrow> (fs, st) | Inr u \<Rightarrow> (fs @ [FlightStepUp u password code], st))"
| "account_step c cfg ip (Judged now k) (fs, st) = (if k < length fs
     then (take k fs @ drop (Suc k) fs, snd (judge_flight c cfg ip now (fs ! k) st)) else (fs, st))"
| "account_step c cfg ip (Elsewhere g) (fs, st) = (fs, (g st)\<lparr>as_failures := as_failures st\<rparr>)"

text \<open>How many attempts on the account are in flight, and whether a step is a success of one.\<close>

definition flying :: "id \<Rightarrow> account_flight list \<Rightarrow> nat" where
  "flying i fs = length (filter (\<lambda>fl. flight_user fl = i) fs)"

fun succeeds :: "crypto \<Rightarrow> policy \<Rightarrow> string \<Rightarrow> id \<Rightarrow> account_event \<Rightarrow> account_world \<Rightarrow> bool" where
  "succeeds c cfg ip i (Judged now k) (fs, st) =
     (k < length fs \<and> flight_user (fs ! k) = i \<and> fst (judge_flight c cfg ip now (fs ! k) st))"
| "succeeds c cfg ip i _ _ = False"

text \<open>Of a run: the attempts on the account that reached a comparison, those that succeeded, and the most in flight at once.\<close>

fun account_run :: "crypto \<Rightarrow> policy \<Rightarrow> string \<Rightarrow> id \<Rightarrow> account_event list \<Rightarrow> account_world \<Rightarrow> nat \<times> nat \<times> nat" where
  "account_run c cfg ip i [] w = (0, 0, flying i (fst w))"
| "account_run c cfg ip i (x # xs) w = (let w1 = account_step c cfg ip x w in
     case account_run c cfg ip i xs w1 of (compared, succeeded, most) \<Rightarrow>
       (if flying i (fst w) < flying i (fst w1) then Suc compared else compared,
        if succeeds c cfg ip i x w then Suc succeeded else succeeded,
        max (flying i (fst w)) most))"

primrec in_lockout_window :: "policy \<Rightarrow> time \<Rightarrow> account_event \<Rightarrow> bool" where
  "in_lockout_window cfg t0 (SignInSent now _ _) = (t0 \<le> now \<and> now < t0 + snd (lockoutPolicy cfg) * minute_ms)"
| "in_lockout_window cfg t0 (StepUpSent now _ _ _) = (t0 \<le> now \<and> now < t0 + snd (lockoutPolicy cfg) * minute_ms)"
| "in_lockout_window cfg t0 (Judged now _) = (t0 \<le> now \<and> now < t0 + snd (lockoutPolicy cfg) * minute_ms)"
| "in_lockout_window cfg t0 (Elsewhere _) = True"

text \<open>The counter knows of at least \<open>n\<close> failures since the window opened, or since the last success in it.\<close>

definition counter_stands :: "policy \<Rightarrow> time \<Rightarrow> nat \<Rightarrow> attempts option \<Rightarrow> bool" where
  "counter_stands cfg t0 n a = (n = 0 \<or> (case a of
     None \<Rightarrow> False
   | Some b \<Rightarrow> n \<le> at_count b \<and> t0 \<le> at_blockedUntil b
       \<and> (fst (lockoutPolicy cfg) \<le> int (at_count b) \<longrightarrow> t0 + snd (lockoutPolicy cfg) * minute_ms \<le> at_blockedUntil b)))"

lemma counter_open:
  assumes "counter_stands cfg t0 n (as_failures st u)" and "now < t0 + snd (lockoutPolicy cfg) * minute_ms"
    and "\<not> lockedFor now u st > 0" and "0 < fst (lockoutPolicy cfg)"
  shows "n < nat (fst (lockoutPolicy cfg))"
  using assms unfolding lockedFor_pos by (auto simp: counter_stands_def split: option.splits)

lemma counter_counts:
  assumes s: "counter_stands cfg t0 n (as_failures st u)" and "0 < fst (lockoutPolicy cfg)"
    and w: "t0 \<le> now" "now < t0 + snd (lockoutPolicy cfg) * minute_ms"
  shows "counter_stands cfg t0 (Suc n) (as_failures (recordLoginFailure cfg now u ip st) u)"
proof -
  obtain maxi minutes where p: "lockoutPolicy cfg = (maxi, minutes)" by fastforce
  have cnt: "n \<le> (case as_failures st u of None \<Rightarrow> 0
      | Some a \<Rightarrow> if at_blockedUntil a > now - minutes * minute_ms then at_count a else 0)"
    using s w by (auto simp: counter_stands_def p split: option.splits)
  show ?thesis using cnt w assms(2)
    by (simp add: recordLoginFailure_def p Let_def counter_stands_def set_db_def)
qed

lemma recordLoginFailure_other [simp]: "v \<noteq> u \<Longrightarrow> as_failures (recordLoginFailure cfg now u ip st) v = as_failures st v"
  by (simp add: recordLoginFailure_def Let_def set_db_def split: prod.split)

lemma recordLoginFailure_cong:
  "as_failures st = as_failures st1 \<Longrightarrow>
   as_failures (recordLoginFailure cfg now u ip st) = as_failures (recordLoginFailure cfg now u ip st1)"
  by (simp add: recordLoginFailure_def Let_def set_db_def split: prod.split)

lemma set_db_failures [simp]: "as_failures (set_db f st) = as_failures st"
  by (simp add: set_db_def)

text \<open>A judged attempt clears the counter of its account, or adds to it.\<close>

lemma judged_counter:
  "as_failures (snd (judge_flight c cfg ip now fl st)) =
     (if fst (judge_flight c cfg ip now fl st) then (as_failures st)(flight_user fl := None)
      else as_failures (recordLoginFailure cfg now (flight_user fl) ip st))"
proof (cases fl)
  case (FlightPassword r password)
  then show ?thesis
    by (simp add: login_judge_def Let_def case_prod_unfold recordLoginFailure_cong[of "set_db f st" st for f])
next
  case (FlightStepUp u password code)
  then show ?thesis
    by (simp add: stepup_judge_def case_prod_unfold recordLoginFailure_cong[of "snd (verifyTotp c now x y st)" st for x y])
qed

lemma login_gate_cases:
  assumes "login_gate now email ip st = (r, st1)"
  shows "as_failures st1 = as_failures st"
    and "r = Inr q \<Longrightarrow> st1 = st \<and> user_by_email (as_db st) email = Some (sr_user q) \<and> u_status (sr_user q) = U_ACTIVE
      \<and> \<not> lockedFor now (u_id (sr_user q)) st > 0 \<and> has_password (sr_user q)
      \<and> sr_memberships q = active_memberships (as_db st) (u_id (sr_user q))
      \<and> sr_hasTotp q = (active_totp (as_db st) (u_id (sr_user q)) \<noteq> None)"
proof -
  have "as_failures st1 = as_failures st \<and> (r = Inr q \<longrightarrow> st1 = st \<and> user_by_email (as_db st) email = Some (sr_user q)
      \<and> u_status (sr_user q) = U_ACTIVE \<and> \<not> lockedFor now (u_id (sr_user q)) st > 0 \<and> has_password (sr_user q)
      \<and> sr_memberships q = active_memberships (as_db st) (u_id (sr_user q))
      \<and> sr_hasTotp q = (active_totp (as_db st) (u_id (sr_user q)) \<noteq> None))"
  proof (cases "user_by_email (as_db st) email")
    case (Some u)
    with assms show ?thesis
      by (cases "u_status u") (auto simp: login_gate_def split: if_splits)
  qed (use assms in \<open>auto simp: login_gate_def\<close>)
  then show "as_failures st1 = as_failures st"
    and "r = Inr q \<Longrightarrow> st1 = st \<and> user_by_email (as_db st) email = Some (sr_user q) \<and> u_status (sr_user q) = U_ACTIVE
      \<and> \<not> lockedFor now (u_id (sr_user q)) st > 0 \<and> has_password (sr_user q)
      \<and> sr_memberships q = active_memberships (as_db st) (u_id (sr_user q))
      \<and> sr_hasTotp q = (active_totp (as_db st) (u_id (sr_user q)) \<noteq> None)" by auto
qed

lemma stepup_gate_open:
  assumes "stepup_gate now userId st = Inr u"
  shows "\<not> lockedFor now (u_id u) st > 0"
  using assms by (auto simp: stepup_gate_def split: option.splits if_splits)

lemma flying_append [simp]: "flying i (fs @ gs) = flying i fs + flying i gs"
  by (simp add: flying_def)

lemma flying_Cons [simp]: "flying i (fl # fs) = (if flight_user fl = i then 1 else 0) + flying i fs" "flying i [] = 0"
  by (simp_all add: flying_def)

lemma flying_removed:
  assumes "k < length fs"
  shows "flying i fs = flying i (take k fs @ drop (Suc k) fs) + (if flight_user (fs ! k) = i then 1 else 0)"
proof -
  have "fs = take k fs @ [fs ! k] @ drop (Suc k) fs" using assms by (simp add: Cons_nth_drop_Suc)
  then have "flying i fs = flying i (take k fs @ [fs ! k] @ drop (Suc k) fs)" by simp
  then show ?thesis by simp
qed

text \<open>What one event does to the account: nothing, one more in flight past an open lock, a success or a counted failure.\<close>

lemma account_step_cases:
  assumes w: "in_lockout_window cfg t0 x" and on: "0 < fst (lockoutPolicy cfg)"
    and s: "counter_stands cfg t0 n (as_failures st i)" and step: "account_step c cfg ip x (fs, st) = (fs1, st1)"
  shows "flying i fs1 = flying i fs \<and> \<not> succeeds c cfg ip i x (fs, st) \<and> counter_stands cfg t0 n (as_failures st1 i)
    \<or> flying i fs1 = Suc (flying i fs) \<and> \<not> succeeds c cfg ip i x (fs, st) \<and> n < nat (fst (lockoutPolicy cfg))
        \<and> counter_stands cfg t0 n (as_failures st1 i)
    \<or> flying i fs = Suc (flying i fs1) \<and> succeeds c cfg ip i x (fs, st) \<and> counter_stands cfg t0 0 (as_failures st1 i)
    \<or> flying i fs = Suc (flying i fs1) \<and> \<not> succeeds c cfg ip i x (fs, st) \<and> counter_stands cfg t0 (Suc n) (as_failures st1 i)"
proof (cases x)
  case (SignInSent now email password)
  obtain r st2 where g: "login_gate now email ip st = (r, st2)" by fastforce
  show ?thesis
  proof (cases r)
    case (Inl e)
    with SignInSent g step s login_gate_cases(1)[OF g] show ?thesis by simp
  next
    case (Inr q)
    note o = login_gate_cases(2)[OF g Inr]
    show ?thesis
    proof (cases "u_id (sr_user q) = i")
      case True
      have "n < nat (fst (lockoutPolicy cfg))"
        by (rule counter_open[OF s _ _ on, of now]) (use w o True SignInSent in auto)
      with True SignInSent g step s o Inr show ?thesis by auto
    next
      case False
      with SignInSent g step s o Inr show ?thesis by auto
    qed
  qed
next
  case (StepUpSent now userId password code)
  show ?thesis
  proof (cases "stepup_gate now userId st")
    case (Inl e)
    with StepUpSent step s show ?thesis by simp
  next
    case (Inr u)
    show ?thesis
    proof (cases "u_id u = i")
      case True
      have "n < nat (fst (lockoutPolicy cfg))"
        by (rule counter_open[OF s _ _ on, of now]) (use w stepup_gate_open[OF Inr] True StepUpSent in auto)
      with True StepUpSent step s Inr show ?thesis by auto
    next
      case False
      with StepUpSent step s Inr show ?thesis by auto
    qed
  qed
next
  case (Judged now k)
  show ?thesis
  proof (cases "k < length fs")
    case True
    let ?j = "judge_flight c cfg ip now (fs ! k) st"
    have fs1: "fs1 = take k fs @ drop (Suc k) fs" "st1 = snd ?j" using Judged step True by simp_all
    note f = flying_removed[OF True, of i, folded fs1(1)]
    have sc: "succeeds c cfg ip i x (fs, st) \<longleftrightarrow> flight_user (fs ! k) = i \<and> fst ?j" using Judged True by simp
    note jc = judged_counter[of c cfg ip now "fs ! k" st, folded fs1(2)]
    show ?thesis
    proof (cases "flight_user (fs ! k) = i")
      case i: True
      have "counter_stands cfg t0 (Suc n) (as_failures (recordLoginFailure cfg now i ip st) i)"
        by (rule counter_counts[OF s on]) (use w Judged in auto)
      then show ?thesis using f sc jc i by (cases "fst ?j") (simp_all add: counter_stands_def)
    next
      case False
      then have "as_failures st1 i = as_failures st i" using jc by (cases "fst ?j") simp_all
      with f sc False s show ?thesis by simp
    qed
  qed (use Judged step s in simp)
next
  case (Elsewhere g)
  with step s show ?thesis by auto
qed

lemma account_run_bounded:
  assumes on: "0 < fst (lockoutPolicy cfg)"
  shows "list_all (in_lockout_window cfg t0) xs \<Longrightarrow> counter_stands cfg t0 n (as_failures (snd w) i) \<Longrightarrow>
    account_run c cfg ip i xs w = (compared, succeeded, most) \<Longrightarrow> most \<le> m \<Longrightarrow>
    n + flying i (fst w) \<le> nat (fst (lockoutPolicy cfg)) - 1 + m \<Longrightarrow>
    compared + flying i (fst w) + n \<le> (nat (fst (lockoutPolicy cfg)) - 1 + m) * (succeeded + 1)"
proof (induction xs arbitrary: n w compared succeeded most)
  case Nil
  then show ?case by auto
next
  case (Cons x xs)
  let ?b = "nat (fst (lockoutPolicy cfg)) - 1 + m"
  obtain fs st where w: "w = (fs, st)" by fastforce
  obtain fs1 st1 where w1: "account_step c cfg ip x w = (fs1, st1)" by fastforce
  obtain c1 a1 m1 where r: "account_run c cfg ip i xs (fs1, st1) = (c1, a1, m1)" by (metis prod_cases3)
  have win: "in_lockout_window cfg t0 x" "list_all (in_lockout_window cfg t0) xs" using Cons.prems(1) by simp_all
  have cmp: "compared = (if flying i fs < flying i fs1 then Suc c1 else c1)"
    and suc: "succeeded = (if succeeds c cfg ip i x (fs, st) then Suc a1 else a1)"
    and mst: "m1 \<le> m" "flying i fs \<le> m"
    using Cons.prems(3,4) w w1 r by (auto simp: Let_def)
  have low: "flying i fs1 \<le> m1" using r by (cases xs) (auto simp: Let_def split: prod.splits)
  note IH = Cons.IH[OF win(2) _ r mst(1), simplified]
  have s: "counter_stands cfg t0 n (as_failures st i)" using Cons.prems(2) by (simp add: w)
  have nk: "n + flying i fs \<le> ?b" using Cons.prems(5) by (simp add: w)
  from account_step_cases[OF win(1) on s w1[unfolded w]]
  consider (same) "flying i fs1 = flying i fs" "\<not> succeeds c cfg ip i x (fs, st)" "counter_stands cfg t0 n (as_failures st1 i)"
    | (sent) "flying i fs1 = Suc (flying i fs)" "\<not> succeeds c cfg ip i x (fs, st)" "n < nat (fst (lockoutPolicy cfg))"
        "counter_stands cfg t0 n (as_failures st1 i)"
    | (success) "flying i fs = Suc (flying i fs1)" "succeeds c cfg ip i x (fs, st)" "counter_stands cfg t0 0 (as_failures st1 i)"
    | (failure) "flying i fs = Suc (flying i fs1)" "\<not> succeeds c cfg ip i x (fs, st)" "counter_stands cfg t0 (Suc n) (as_failures st1 i)"
    by blast
  then have "compared + flying i fs + n \<le> ?b * (succeeded + 1)"
  proof cases
    case same
    with IH[of n] nk cmp suc show ?thesis by simp
  next
    case sent
    then have "n + flying i fs1 \<le> ?b" using low mst(1) by linarith
    with IH[of n] sent cmp suc show ?thesis by simp
  next
    case success
    have "flying i fs1 \<le> ?b" using nk success(1) by linarith
    with IH[of 0] success(3) have "c1 + flying i fs1 \<le> ?b * (a1 + 1)" by simp
    moreover have "Suc n \<le> ?b" using nk success(1) by linarith
    moreover have "?b * (succeeded + 1) = ?b * (a1 + 1) + ?b" using suc success(2) by simp
    moreover have "compared = c1" using cmp success(1) by simp
    ultimately show ?thesis using success(1) by linarith
  next
    case failure
    with IH[of "Suc n"] nk cmp suc show ?thesis by simp
  qed
  then show ?case by (simp add: w)
qed

section \<open>Lemmas: what a session says\<close>

lemma login_done:
  assumes "login f c cfg now email password ip st = (Inr ans, st1)"
  obtains user where "user_by_email (as_db st) email = Some user" "u_status user = U_ACTIVE"
    "\<not> lockedFor now (u_id user) st > 0" "has_password user" "cr_verify c (u_passwordHash user) password"
    "(ans, as_db st1) = startSession_for now user (active_memberships (as_db st) (u_id user))
        (active_totp (as_db st) (u_id user) \<noteq> None) ip False (as_db (f st))"
proof -
  obtain r st2 where g: "login_gate now email ip st = (r, st2)" by fastforce
  with assms obtain q where r: "r = Inr q" by (cases r) (auto simp: login_def)
  note o = login_gate_cases(2)[OF g r]
  show thesis
    by (rule that[of "sr_user q"])
      (use o assms g r in \<open>auto simp: login_def login_judge_def Let_def case_prod_unfold split: if_splits\<close>)
qed

lemma SignedIn_login:
  assumes "login (\<lambda>x. x) c cfg now email password ip st = (Inr ans, st1)"
  obtains user where "user_by_email (as_db st) email = Some user" "u_status user = U_ACTIVE"
    "\<not> lockedFor now (u_id user) st > 0" "has_password user" "cr_verify c (u_passwordHash user) password"
    "ans = fst (startSession now user ip False (as_db st))" "as_db st1 = snd (startSession now user ip False (as_db st))"
  using assms
proof (cases rule: login_done)
  case (1 user)
  from 1(6) have "startSession now user ip False (as_db st) = (ans, as_db st1)" by (simp only: startSession_def)
  then show thesis by (intro that[OF 1(1-5)]) (simp_all only: fst_conv snd_conv)
qed

lemma startSession_SignedIn:
  assumes "fst (startSession now user ip b s) = SignedIn p"
  shows "b \<or> (active_totp s (u_id user) = None \<and> \<not> requires_mfa s (jp_tenantId p))"
    and "case session_standing s user of (t, r, bu, cs) \<Rightarrow> p = issueFullToken now user t r bu cs"
  using assms by (auto simp: startSession_eq Let_def issueFullToken_def split: prod.splits if_splits)

lemma startSession_NeedsMfa:
  assumes "fst (startSession now user ip b s) = NeedsMfa enrolled p"
  shows "jp_partial p" "jp_sub p = u_id user" "enrolled = (active_totp s (u_id user) \<noteq> None)" "\<not> b"
  using assms by (auto simp: startSession_eq Let_def partial_token_def split: prod.splits if_splits)

lemma partial_refused: "jp_partial p \<Longrightarrow> validate tz s now header cookie p = Inl (Unauthorized ''Multi-factor authentication is not complete'')"
  by (simp add: validate_def)

text \<open>A session of a user with one membership, in an active container and an open business, is accepted.\<close>

lemma session_accepted:
  assumes u: "user_by_id s (u_id user) = Some user" and act: "u_status user = U_ACTIVE" and "\<not> u_isPlatformAdmin user"
    and m: "active_memberships s (u_id user) = [m]"
    and uniq: "distinct (map (\<lambda>q. (m_userId q, m_tenantId q)) (memberships s))"
    and t: "find_row (\<lambda>t. t_id t = m_tenantId m) (tenants s) = Some t" "t_isActive t"
    and open_business: "\<not> business_closed s (m_customerId m)" and "m_tenantId m \<noteq> []"
  shows "\<exists>q. validate tz s now2 header cookie
      (issueFullToken now user (Some (m_tenantId m)) r b cs) = Inr q
      \<and> jp_sub q = u_id user \<and> jp_ownBusinessId q = m_customerId m \<and> \<not> jp_isPlatformAdmin q"
proof -
  have mm: "m \<in> set (memberships s)" "m_userId m = u_id user" "m_isActive m"
  proof -
    have "m \<in> set (active_memberships s (u_id user))" using m by simp
    then show "m \<in> set (memberships s)" "m_userId m = u_id user" "m_isActive m"
      by (simp_all add: active_memberships_def)
  qed
  have "find_row (\<lambda>q. (m_userId q, m_tenantId q) = (m_userId m, m_tenantId m)) (memberships s) = Some m"
    by (rule find_unique[OF uniq mm(1)])
  then have f: "find_row (\<lambda>q. m_userId q = u_id user \<and> m_tenantId q = m_tenantId m) (memberships s) = Some m"
    by (simp add: mm(2))
  show ?thesis
    using u act assms(3) t f mm(3) open_business assms(9) issueAt_not_revoked[of "u_sessionsValidAfter user" now]
    by (simp add: validate_def issueFullToken_def or_null_def standing_in_tenant_def Let_def)
qed

section \<open>Properties\<close>

text \<open>A user with a password and an authenticator, in a container.\<close>

definition u1 :: user_row where
  "u1 = (plain_user ''u'')\<lparr>u_email := ''u@x'', u_passwordHash := ''pw''\<rparr>"

definition auth_sample :: auth_state where
  "auth_sample = mfa_state\<lparr>as_db := (as_db mfa_state)\<lparr>users := [u1]\<rparr>\<rparr>"

lemma u1_simps: "u_id u1 = ''u''" "u_status u1 = U_ACTIVE" "u_email u1 = ''u@x''" "u_passwordHash u1 = ''pw''"
  "\<not> u_isPlatformAdmin u1" "u_sessionsValidAfter u1 = None" "has_password u1"
  by (simp_all add: u1_def plain_user_def has_password_def)

lemma lower_sample: "lower (CHR ''U'') = CHR ''u''" "lower (CHR ''@'') = CHR ''@''" "lower (CHR ''x'') = CHR ''x''"
  by code_simp+

lemma auth_sample_simps:
  "user_by_email (as_db auth_sample) ''U@x'' = Some u1" "user_by_id (as_db auth_sample) ''u'' = Some u1"
  "as_failures auth_sample = Map.empty" "active_totp (as_db auth_sample) ''u'' = Some one_totp"
  "as_totp auth_sample = Map.empty" "memberships (as_db auth_sample) = []" "tenants (as_db auth_sample) = []"
  by (simp_all add: auth_sample_def mfa_state_def user_by_email_def user_by_id_def u1_def plain_user_def lower_sample
      active_totp_def one_totp_def new_method_def empty_db_def)

text \<open>
  C29: Passwords are not guessable at speed. Of all the attempts on one account within one lockout period of an enabled policy, by
  sign-in and by step-up, in any order and however they overlap, whatever failures were on record before and whatever else
  the program does, at most \<open>max - 1 + m\<close> are compared for each that succeeds, and as many again, where \<open>m\<close> is the
  largest number of them in flight at once (one after another: \<open>max\<close>).
\<close>

theorem sign_in_guesses_bounded:
  assumes "0 < fst (lockoutPolicy cfg)" "list_all (in_lockout_window cfg t0) evs"
    and "account_run c cfg ip i evs w = (compared, succeeded, most)"
  shows "compared \<le> (nat (fst (lockoutPolicy cfg)) - 1 + most) * (succeeded + 1)"
proof -
  have "flying i (fst w) \<le> most" using assms(3) by (cases evs) (auto simp: Let_def split: prod.splits)
  moreover have "1 \<le> nat (fst (lockoutPolicy cfg))" using assms(1) by simp
  ultimately have "0 + flying i (fst w) \<le> nat (fst (lockoutPolicy cfg)) - 1 + most" by linarith
  from account_run_bounded[OF assms(1,2) _ assms(3) order_refl this] show ?thesis by (simp add: counter_stands_def)
qed

theorem sign_in_guesses_bounded_witness:
  "\<exists>compared succeeded most. account_run sample_crypto None ''ip'' ''u''
     [SignInSent 0 ''U@x'' ''a'', StepUpSent 5 ''u'' (Some ''b'') None, Judged 7 0, Elsewhere (\<lambda>st. auth_sample),
      SignInSent 9 ''U@x'' ''pw'', Judged 9 0, Judged 9 0] ([], auth_sample) = (compared, succeeded, most)
     \<and> compared \<le> (nat (fst (lockoutPolicy None)) - 1 + most) * (succeeded + 1)"
proof -
  let ?evs = "[SignInSent 0 ''U@x'' ''a'', StepUpSent 5 ''u'' (Some ''b'') None, Judged 7 0, Elsewhere (\<lambda>st. auth_sample),
      SignInSent 9 ''U@x'' ''pw'', Judged 9 0, Judged 9 0]"
  have "list_all (in_lockout_window None 0) ?evs" by (simp add: lockoutPolicy_def)
  moreover have "0 < fst (lockoutPolicy None)" by (simp add: lockoutPolicy_def)
  moreover obtain n a m where "account_run sample_crypto None ''ip'' ''u'' ?evs ([], auth_sample) = (n, a, m)"
    by (metis prod_cases3)
  ultimately show ?thesis using sign_in_guesses_bounded by blast
qed

text \<open>
  The bound is not the policy's number: guesses sent together all pass the gate before the first is counted, so a burst of any
  size reaches the comparison, although the per-account half is said to make a distributed attack worthless.
\<close>

theorem parallel_guesses_pass_the_gate:
  assumes "login_gate now email ip st = (Inr r, st)"
  shows "account_run c cfg ip (u_id (sr_user r)) (replicate n (SignInSent now email password)) ([], st) = (n, 0, n)"
proof -
  have "account_run c cfg ip (u_id (sr_user r)) (replicate n (SignInSent now email password)) (fs, st)
      = (n, 0, flying (u_id (sr_user r)) fs + n)" for fs
    by (induction n arbitrary: fs) (simp_all add: assms Let_def)
  then show ?thesis by simp
qed

theorem parallel_guesses_pass_the_gate_witness:
  "account_run sample_crypto None ''ip'' ''u'' (replicate 50 (SignInSent 0 ''U@x'' ''a'')) ([], auth_sample) = (50, 0, 50)"
proof -
  let ?r = "\<lparr>sr_user = u1, sr_memberships = [], sr_hasTotp = True\<rparr>"
  have "login_gate 0 ''U@x'' ''ip'' auth_sample = (Inr ?r, auth_sample)"
    by (simp add: login_gate_def auth_sample_simps u1_simps lockedFor_def active_memberships_def)
  from parallel_guesses_pass_the_gate[OF this, of sample_crypto None 50] show ?thesis by (simp add: u1_simps)
qed

text \<open>
  C26: The second factor cannot be skipped: when the account has an active authenticator, or the container the sign-in goes
  to requires a second factor (the one of its only active membership; without any membership, the oldest active one),
  the right password only gives a partial token, whatever happens during the comparison; no route accepts that token, and
  exchanging it for a session takes a TOTP code that the verifier accepted at that moment.
\<close>

theorem second_factor_enforced:
  assumes "login f c cfg now email password ip st = (Inr ans, st1)" "user_by_email (as_db st) email = Some user"
    and "active_totp (as_db st) (u_id user) \<noteq> None
      \<or> requires_mfa (as_db (f st)) (fst (standing_from (active_memberships (as_db st) (u_id user)) (as_db (f st))))"
  shows "\<exists>p. ans = NeedsMfa (active_totp (as_db st) (u_id user) \<noteq> None) p \<and> jp_sub p = u_id user
    \<and> (\<forall>tz s now2 header cookie. \<not> is_ok (validate tz s now2 header cookie p))
    \<and> (\<forall>now2 code ip2 st2. is_ok (fst (verifyMfaAndLogin c now2 (Some p) code ip2 st2)) \<longrightarrow>
         fst (verifyTotp c now2 (u_id user) code st2))"
  using assms(1)
proof (cases rule: login_done)
  case (1 u)
  then have u: "u = user" using assms(2) by simp
  obtain t r b cs where std: "standing_from (active_memberships (as_db st) (u_id user)) (as_db (f st)) = (t, r, b, cs)"
    by (metis prod_cases4)
  let ?p = "partial_token now user t r"
  have ans: "ans = NeedsMfa (active_totp (as_db st) (u_id user) \<noteq> None) ?p"
    using 1(6) assms(3) unfolding u startSession_for_def std by (simp split: if_splits)
  have s: "jp_partial ?p" "jp_sub ?p = u_id user" by (simp_all add: partial_token_def)
  have "is_ok (fst (verifyMfaAndLogin c now2 (Some ?p) code ip2 st2)) \<Longrightarrow> fst (verifyTotp c now2 (u_id user) code st2)"
    for now2 code ip2 st2
  proof -
    assume ok: "is_ok (fst (verifyMfaAndLogin c now2 (Some ?p) code ip2 st2))"
    then obtain w where w: "user_by_id (as_db st2) (u_id user) = Some w"
      using s by (cases "user_by_id (as_db st2) (u_id user)") (simp_all add: verifyMfaAndLogin_def)
    then have "u_id w = u_id user" by (auto simp: user_by_id_def dest: find_row_Some)
    with ok w s show ?thesis by (auto simp: verifyMfaAndLogin_def case_prod_unfold split: if_splits)
  qed
  with ans s partial_refused show ?thesis by auto
qed

lemma auth_sample_login:
  "\<exists>p st1. login (\<lambda>x. x) sample_crypto None 0 ''U@x'' ''pw'' ''ip'' auth_sample = (Inr (NeedsMfa True p), st1)"
proof -
  have std: "session_standing (as_db auth_sample) u1 = (None, None, None, [])"
    by (simp add: session_standing_def standing_from_def active_memberships_def oldest_tenant_def auth_sample_simps)
  have "startSession_for 0 u1 (active_memberships (as_db auth_sample) ''u'') True ''ip'' False (as_db auth_sample) =
      (NeedsMfa True (partial_token 0 u1 None None), as_db auth_sample)"
    using std by (simp add: startSession_for_def session_standing_def u1_simps)
  then show ?thesis
    by (simp add: login_def login_gate_def login_judge_def auth_sample_simps u1_simps lockedFor_def sample_crypto_def Let_def)
qed

theorem second_factor_enforced_witness:
  "\<exists>p st1. login (\<lambda>x. x) sample_crypto None 0 ''U@x'' ''pw'' ''ip'' auth_sample = (Inr (NeedsMfa True p), st1)
     \<and> (\<forall>tz s now2 header cookie. \<not> is_ok (validate tz s now2 header cookie p))"
proof -
  obtain p st1 where l: "login (\<lambda>x. x) sample_crypto None 0 ''U@x'' ''pw'' ''ip'' auth_sample = (Inr (NeedsMfa True p), st1)"
    using auth_sample_login by blast
  have "active_totp (as_db auth_sample) (u_id u1) \<noteq> None" by (simp add: auth_sample_simps u1_simps)
  from second_factor_enforced[OF l auth_sample_simps(1) disjI1, OF this] l show ?thesis by auto
qed

text \<open>
  A sign-in leads somewhere: the session a password sign-in hands out to a member of one open business is
  accepted by the next request, in that business and without platform rights, even right after a
  sign-out in the same second.
\<close>

theorem fresh_session_is_accepted:
  assumes "login (\<lambda>x. x) c cfg now email password ip st = (Inr (SignedIn p), st1)"
    and "user_by_email (as_db st) email = Some user" "user_by_id (as_db st) (u_id user) = Some user"
    and "\<not> u_isPlatformAdmin user" "active_memberships (as_db st) (u_id user) = [m]" "m_tenantId m \<noteq> []"
    and "distinct (map (\<lambda>q. (m_userId q, m_tenantId q)) (memberships (as_db st)))"
    and "find_row (\<lambda>t. t_id t = m_tenantId m) (tenants (as_db st)) = Some t" "t_isActive t"
    and "\<not> business_closed (as_db st) (m_customerId m)"
  shows "\<exists>q. validate tz (as_db st1) now2 header cookie p = Inr q \<and> jp_sub q = u_id user
    \<and> jp_ownBusinessId q = m_customerId m \<and> \<not> jp_isPlatformAdmin q"
  using assms(1)
proof (cases rule: SignedIn_login)
  case (1 w)
  then have w: "w = user" using assms(2) by simp
  let ?s = "as_db st1"
  have same: "users ?s = users (as_db st)" "memberships ?s = memberships (as_db st)" "tenants ?s = tenants (as_db st)"
    "businesses ?s = businesses (as_db st)"
    unfolding 1(7) by (simp_all add: startSession_eq Let_def split: prod.split)
  have std: "session_standing (as_db st) user = (Some (m_tenantId m), Some (m_roleType m), m_customerId m, m_capabilities m)"
    by (simp add: session_standing_def standing_from_def assms(5))
  have p: "p = issueFullToken now user (Some (m_tenantId m)) (Some (m_roleType m)) (m_customerId m) (m_capabilities m)"
    using startSession_SignedIn(2)[of now user ip False "as_db st" p] 1(6) std by (simp add: w)
  have bc: "business_closed ?s b = business_closed (as_db st) b" for b
    by (cases b) (simp_all add: business_closed_def business_of_def same)
  show ?thesis unfolding p
    by (rule session_accepted[OF _ _ assms(4), where t = t])
      (use assms 1(2) w in \<open>simp_all add: user_by_id_def active_memberships_def same bc\<close>)
qed

definition u1_member :: membership_row where
  "u1_member = \<lparr>m_id = ''mb'', m_userId = ''u'', m_tenantId = ''t1'', m_roleId = ''r'', m_roleType = BUSINESS_USER,
     m_isActive = True, m_customerId = Some ''b1'', m_capabilities = []\<rparr>"

definition t1_row :: "bool \<Rightarrow> tenant_row" where
  "t1_row mfa = \<lparr>t_id = ''t1'', t_isActive = True, t_requireMfa = mfa, t_createdAt = 0, t_name = ''t1'', t_slug = ''t1'',
     t_settings = None, t_branding = None\<rparr>"

definition member_sample :: "bool \<Rightarrow> auth_state" where
  "member_sample mfa = mfa_state\<lparr>as_db := empty_db\<lparr>users := [u1], memberships := [u1_member], tenants := [t1_row mfa],
     businesses := [one_business ''b1'']\<rparr>\<rparr>"

lemma member_sample_simps:
  "user_by_email (as_db (member_sample mfa)) ''U@x'' = Some u1" "user_by_id (as_db (member_sample mfa)) ''u'' = Some u1"
  "as_failures (member_sample mfa) = Map.empty" "active_totp (as_db (member_sample mfa)) ''u'' = None"
  "active_memberships (as_db (member_sample mfa)) ''u'' = [u1_member]" "tenants (as_db (member_sample mfa)) = [t1_row mfa]"
  "memberships (as_db (member_sample mfa)) = [u1_member]" "m_tenantId u1_member = ''t1''" "m_customerId u1_member = Some ''b1''"
  "business_closed (as_db (member_sample mfa)) (Some ''b1'') = False"
  "t_id (t1_row mfa) = ''t1''" "t_isActive (t1_row mfa)" "t_requireMfa (t1_row mfa) = mfa"
  by (simp_all add: member_sample_def mfa_state_def user_by_email_def user_by_id_def u1_def plain_user_def lower_sample
      active_totp_def empty_db_def active_memberships_def u1_member_def t1_row_def business_closed_def business_of_def one_business_def)

lemma member_sample_standing:
  "session_standing (as_db (member_sample mfa)) u1 = (Some ''t1'', Some (m_roleType u1_member), Some ''b1'', m_capabilities u1_member)"
  by (simp add: session_standing_def standing_from_def member_sample_simps u1_simps)

lemma member_sample_login:
  "\<exists>ans st1. login (\<lambda>x. x) sample_crypto None 0 ''U@x'' ''pw'' ''ip'' (member_sample mfa) = (Inr ans, st1)
     \<and> (\<exists>p. ans = (if mfa then NeedsMfa False p else SignedIn p))"
  by (simp add: login_def login_gate_def login_judge_def member_sample_simps u1_simps lockedFor_def sample_crypto_def Let_def
      startSession_for_def standing_from_def requires_mfa_def)

theorem fresh_session_is_accepted_witness:
  "\<exists>p st1 q. login (\<lambda>x. x) sample_crypto None 0 ''U@x'' ''pw'' ''ip'' (member_sample False) = (Inr (SignedIn p), st1)
     \<and> validate (\<lambda>z. None) (as_db st1) 5 None None p = Inr q \<and> jp_ownBusinessId q = Some ''b1''"
proof -
  obtain p st1 where l: "login (\<lambda>x. x) sample_crypto None 0 ''U@x'' ''pw'' ''ip'' (member_sample False) = (Inr (SignedIn p), st1)"
    using member_sample_login[of False] by auto
  have "\<exists>q. validate (\<lambda>z. None) (as_db st1) 5 None None p = Inr q \<and> jp_sub q = u_id u1
      \<and> jp_ownBusinessId q = m_customerId u1_member \<and> \<not> jp_isPlatformAdmin q"
    by (rule fresh_session_is_accepted[OF l member_sample_simps(1), where t = "t1_row False"])
      (simp_all add: u1_simps member_sample_simps)
  with l show ?thesis by (auto simp: member_sample_simps)
qed

text \<open>
  Changing the password takes the current one, stores the new one, ends every session minted before (no earlier
  revocation still pending in the second it was minted in), and hands out one that outlives the change.
\<close>

theorem password_change_ends_sessions:
  assumes "changePassword c now userId currentPassword newPassword s = (Inr p, s1)"
  shows "\<exists>u w. user_by_id s userId = Some u \<and> cr_verify c (u_passwordHash u) currentPassword
    \<and> user_by_id s1 userId = Some w \<and> u_passwordHash w = cr_hash c newPassword
    \<and> \<not> isRevoked (jp_iat p) (u_sessionsValidAfter w)
    \<and> (\<forall>old earlier minted tz now2 header cookie.
         jp_sub old = userId \<and> jp_iat old = Some (issueAt earlier minted) \<and> minted < now
         \<and> (case earlier of None \<Rightarrow> True | Some v \<Rightarrow> v \<le> (minted div 1000) * 1000)
         \<longrightarrow> \<not> is_ok (validate tz s1 now2 header cookie old))"
proof -
  obtain u where u: "user_by_id s userId = Some u" "cr_verify c (u_passwordHash u) currentPassword" "has_password u"
      "\<not> length newPassword < 12"
    using assms by (auto simp: changePassword_def split: option.splits if_splits)
  let ?f = "\<lambda>u. u\<lparr>u_passwordHash := cr_hash c newPassword, u_sessionsValidAfter := Some (revocationInstant now)\<rparr>"
  have s1: "users s1 = update_rows (\<lambda>u. u_id u = userId) ?f (users s)"
    and p: "jp_iat p = Some (issueAt (Some (revocationInstant now)) now)"
    using assms u by (auto simp: changePassword_def Let_def issueFullToken_def mfa_audit_def)
  have w: "user_by_id s1 userId = Some (?f u)"
    using u(1) find_row_update[of u_id ?f userId "\<lambda>u. u_id u = userId" "users s"]
    by (auto simp: user_by_id_def s1 dest: find_row_Some)
  have "\<not> is_ok (validate tz s1 now2 header cookie old)"
    if "jp_sub old = userId" "jp_iat old = Some (issueAt earlier minted)" "minted < now"
      "case earlier of None \<Rightarrow> True | Some v \<Rightarrow> v \<le> (minted div 1000) * 1000" for old earlier minted tz now2 header cookie
  proof -
    have "isRevoked (jp_iat old) (Some (revocationInstant now))"
      unfolding that(2) by (rule earlier_token_revoked[OF that(3)]) (use that(4) in auto)
    with w that(1) show ?thesis by (simp add: validate_def)
  qed
  moreover have "\<not> isRevoked (jp_iat p) (u_sessionsValidAfter (?f u))"
    using issueAt_not_revoked[of "Some (revocationInstant now)" now] by (simp add: p)
  ultimately show ?thesis using u(1,2) w by (intro exI[of _ u] exI[of _ "?f u"]) auto
qed

lemma member_sample_change:
  "\<exists>p s1. changePassword sample_crypto 1500 ''u'' ''pw'' ''correct horse'' (as_db (member_sample False)) = (Inr p, s1)"
  by (simp add: changePassword_def member_sample_simps u1_simps sample_crypto_def Let_def)

theorem password_change_ends_sessions_witness:
  "\<exists>p s1. changePassword sample_crypto 1500 ''u'' ''pw'' ''correct horse'' (as_db (member_sample False)) = (Inr p, s1)
     \<and> \<not> is_ok (validate (\<lambda>z. None) s1 1600 None None ((plain_payload ''u'')\<lparr>jp_iat := Some (issueAt None 1200)\<rparr>))"
proof -
  obtain p s1 where ch: "changePassword sample_crypto 1500 ''u'' ''pw'' ''correct horse'' (as_db (member_sample False)) = (Inr p, s1)"
    using member_sample_change by blast
  let ?old = "(plain_payload ''u'')\<lparr>jp_iat := Some (issueAt None 1200)\<rparr>"
  have "jp_sub ?old = ''u'' \<and> jp_iat ?old = Some (issueAt None 1200) \<and> (1200::int) < 1500
      \<and> (case None of None \<Rightarrow> True | Some v \<Rightarrow> v \<le> (1200 div 1000) * 1000)"
    by (simp add: plain_payload_def)
  with password_change_ends_sessions[OF ch] ch show ?thesis by blast
qed

text \<open>
  Requiring a second factor of a whole container strands who has not enrolled one: the right
  password gives a partial token only, with which no route answers, enrolment included, and which no code
  turns into a session as long as the account has no authenticator.
\<close>

theorem required_mfa_strands_unenrolled:
  assumes "login (\<lambda>x. x) c cfg now email password ip st = (Inr ans, st1)"
    and "user_by_email (as_db st) email = Some user" "active_totp (as_db st) (u_id user) = None"
    and "session_standing (as_db st) user = (tenantId, r, b, cs)" "requires_mfa (as_db st) tenantId"
  shows "\<exists>p. ans = NeedsMfa False p
    \<and> (\<forall>tz s now2 header cookie. \<not> is_ok (validate tz s now2 header cookie p))
    \<and> (\<forall>now2 code ip2 st2. active_totp (as_db st2) (u_id user) = None \<longrightarrow>
         \<not> is_ok (fst (verifyMfaAndLogin c now2 (Some p) code ip2 st2)))"
  using assms(1)
proof (cases rule: SignedIn_login)
  case (1 w)
  then have w: "w = user" using assms(2) by simp
  have p: "ans = NeedsMfa False (partial_token now user tenantId r)"
    using 1(6) assms(3,5) unfolding w startSession_eq assms(4) by simp
  let ?p = "partial_token now user tenantId r"
  have pp: "jp_partial ?p" "jp_sub ?p = u_id user" by (simp_all add: partial_token_def)
  have "\<not> is_ok (fst (verifyMfaAndLogin c now2 (Some ?p) code ip2 st2))"
    if n: "active_totp (as_db st2) (u_id user) = None" for now2 code ip2 st2
  proof (cases "user_by_id (as_db st2) (u_id user)")
    case None
    then show ?thesis using pp by (simp add: verifyMfaAndLogin_def)
  next
    case (Some v)
    then have v: "u_id v = u_id user" by (auto simp: user_by_id_def dest: find_row_Some)
    have "compared_with now2 (u_id user) st2 = None" using n by (simp add: compared_with_def)
    from verifyTotp_not_compared(1)[OF this, of c code] Some pp v show ?thesis
      by (simp add: verifyMfaAndLogin_def case_prod_unfold)
  qed
  with p partial_refused[OF pp(1)] show ?thesis by auto
qed

theorem required_mfa_strands_unenrolled_witness:
  "\<exists>p st1. login (\<lambda>x. x) sample_crypto None 0 ''U@x'' ''pw'' ''ip'' (member_sample True) = (Inr (NeedsMfa False p), st1)
     \<and> \<not> is_ok (fst (verifyMfaAndLogin sample_crypto 5 (Some p) ''c'' ''ip'' st1))"
proof -
  obtain ans st1 where l: "login (\<lambda>x. x) sample_crypto None 0 ''U@x'' ''pw'' ''ip'' (member_sample True) = (Inr ans, st1)"
    using member_sample_login[of True] by auto
  have n: "active_totp (as_db (member_sample True)) (u_id u1) = None" by (simp add: member_sample_simps u1_simps)
  have q: "requires_mfa (as_db (member_sample True)) (Some ''t1'')" by (simp add: requires_mfa_def member_sample_simps)
  from l have "as_db st1 = snd (startSession 0 u1 ''ip'' False (as_db (member_sample True)))"
    by (cases rule: SignedIn_login) (simp add: member_sample_simps)
  then have "active_totp (as_db st1) (u_id u1) = None"
    using n by (simp add: startSession_eq active_totp_def Let_def split: prod.splits if_splits)
  with required_mfa_strands_unenrolled[OF l member_sample_simps(1) n member_sample_standing q] l show ?thesis by blast
qed

text \<open>
  With memberships in two containers no container is chosen, so none is asked whether it requires a second factor: without an
  authenticator the right password gives a full session, even when every one of them requires it.
\<close>

theorem two_memberships_skip_required_mfa:
  assumes "login f c cfg now email password ip st = (Inr ans, st1)" "user_by_email (as_db st) email = Some user"
    and "active_totp (as_db st) (u_id user) = None" "active_memberships (as_db st) (u_id user) = m # m2 # ms"
  shows "\<exists>p. ans = SignedIn p \<and> jp_sub p = u_id user \<and> jp_mfaVerified p"
  using assms(1)
proof (cases rule: login_done)
  case (1 u)
  then show ?thesis
    using assms(2-4) by (simp add: startSession_for_def standing_from_def requires_mfa_def issueFullToken_def)
qed

theorem two_memberships_skip_required_mfa_witness:
  "\<exists>p st1. login (\<lambda>x. x) sample_crypto None 0 ''U@x'' ''pw'' ''ip'' (auth_sample\<lparr>as_db := empty_db\<lparr>users := [u1],
       memberships := [u1_member, u1_member\<lparr>m_id := ''m2'', m_tenantId := ''t2''\<rparr>],
       tenants := [t1_row True, (t1_row True)\<lparr>t_id := ''t2''\<rparr>]\<rparr>\<rparr>) = (Inr (SignedIn p), st1) \<and> jp_mfaVerified p"
proof -
  let ?m2 = "u1_member\<lparr>m_id := ''m2'', m_tenantId := ''t2''\<rparr>"
  let ?st = "auth_sample\<lparr>as_db := empty_db\<lparr>users := [u1], memberships := [u1_member, ?m2],
       tenants := [t1_row True, (t1_row True)\<lparr>t_id := ''t2''\<rparr>]\<rparr>\<rparr>"
  have u: "user_by_email (as_db ?st) ''U@x'' = Some u1"
    using auth_sample_simps(1) by (simp add: user_by_email_def auth_sample_def mfa_state_def)
  have m: "active_memberships (as_db ?st) (u_id u1) = u1_member # ?m2 # []"
    by (simp add: active_memberships_def u1_member_def u1_simps)
  have t: "active_totp (as_db ?st) (u_id u1) = None" by (simp add: active_totp_def empty_db_def)
  have "\<exists>r. login_gate 0 ''U@x'' ''ip'' ?st = (Inr r, ?st) \<and> sr_user r = u1"
    using u by (simp add: login_gate_def u1_simps lockedFor_def auth_sample_simps)
  then have "is_ok (fst (login (\<lambda>x. x) sample_crypto None 0 ''U@x'' ''pw'' ''ip'' ?st))"
    by (auto simp: login_def login_judge_def u1_simps sample_crypto_def Let_def case_prod_unfold)
  then obtain ans st1 where l: "login (\<lambda>x. x) sample_crypto None 0 ''U@x'' ''pw'' ''ip'' ?st = (Inr ans, st1)"
    by (metis is_ok_iff prod.collapse)
  from two_memberships_skip_required_mfa[OF l u t m] l show ?thesis by blast
qed

text \<open>
  The second step of a sign-in does not look at the account's status: an account suspended after its password check
  still gets a session token for a right code, and the sign-in is logged as a success, although no sign-in is
  open to it.
\<close>

theorem second_step_ignores_status:
  assumes "jp_partial p" "user_by_id (as_db st) (jp_sub p) = Some user" "u_status user = U_SUSPENDED"
    and "fst (verifyTotp c now (u_id user) code st)"
  shows "\<exists>q st1. verifyMfaAndLogin c now (Some p) code ip st = (Inr q, st1) \<and> jp_sub q = u_id user
    \<and> al_action (last (activityLog (as_db st1))) = ''LOGIN_SUCCESS'' \<and> \<not> is_ok (assertMaySignIn user)"
  using assms
  by (simp add: verifyMfaAndLogin_def case_prod_unfold Let_def issueFullToken_def assertMaySignIn_def)

theorem second_step_ignores_status_witness:
  "\<exists>q st1. verifyMfaAndLogin sample_crypto 0 (Some (partial_token 0 u1 None None)) ''c'' ''ip''
     (auth_sample\<lparr>as_db := (as_db auth_sample)\<lparr>users := [u1\<lparr>u_status := U_SUSPENDED\<rparr>]\<rparr>\<rparr>) = (Inr q, st1)"
proof -
  let ?st = "auth_sample\<lparr>as_db := (as_db auth_sample)\<lparr>users := [u1\<lparr>u_status := U_SUSPENDED\<rparr>]\<rparr>\<rparr>"
  let ?u = "u1\<lparr>u_status := U_SUSPENDED\<rparr>"
  have a: "active_totp (as_db ?st) ''u'' = Some one_totp" using auth_sample_simps(4) by (simp add: active_totp_def)
  have m: "mfaMethods (as_db ?st) = [one_totp, one_recovery]" by (simp add: auth_sample_def mfa_state_def)
  have "fst (verifyTotp sample_crypto 0 (u_id ?u) ''c'' ?st)"
    using a by (simp add: verifyTotp_def u1_simps auth_sample_simps totp_locked_def one_totp_def new_method_def
      take_step_def matchingStep_def sample_crypto_def m[unfolded one_totp_def] auth_sample_def mfa_state_def claim_rows_def
      step_unused_def one_recovery_def)
  with second_step_ignores_status[of "partial_token 0 u1 None None" ?st ?u] show ?thesis
    by (force simp: partial_token_def user_by_id_def u1_simps)
qed

end
