(* ===== verification/StepUp.thy ===== *)
theory StepUp
  imports Identity
begin

text \<open>
  Step-up authentication (\<open>auth/step-up.service.ts\<close>): a short-lived proof of a recent
  re-authentication, bound to a user and a session. The codec (JSON in base64url) and the
  HMAC are the parameters of \<open>proof_codec\<close>; decoding is \<open>None\<close> where the parser throws.
\<close>

record proof_claims =
  pc_sub :: id
  pc_sid :: int
  pc_exp :: time
  pc_method :: string

record proof_codec =
  co_encode :: "proof_claims \<Rightarrow> string"
  co_decode :: "string \<Rightarrow> proof_claims option"
  co_sign :: "string \<Rightarrow> string"

definition STEP_UP_ACTIONS :: "string list" where
  "STEP_UP_ACTIONS = [''credential.reveal'', ''permissions.change'', ''technicians.manage'', ''sso.configure'',
     ''passkey.manage'', ''platform.configure'']"

definition STEP_UP_TTL_MS :: int where "STEP_UP_TTL_MS = 10 * minute_ms"

text \<open>The cookie that is set and the instant it expires.\<close>

definition issue :: "proof_codec \<Rightarrow> time \<Rightarrow> id \<Rightarrow> int option \<Rightarrow> string \<Rightarrow> string \<times> time" where
  "issue c now userId sessionIat method =
     (let expiry = now + STEP_UP_TTL_MS;
          body = co_encode c \<lparr>pc_sub = userId, pc_sid = (case sessionIat of None \<Rightarrow> 0 | Some i \<Rightarrow> i),
                   pc_exp = expiry, pc_method = method\<rparr>
      in (body @ CHR ''.'' # co_sign c body, expiry))"

text \<open>What a request presents: the cookie, else the header.\<close>

definition presented :: "string option \<Rightarrow> string option \<Rightarrow> string option" where
  "presented cookie header = nullish cookie header"

definition read_proof ::
  "proof_codec \<Rightarrow> time \<Rightarrow> string option \<Rightarrow> id \<Rightarrow> int option \<Rightarrow> (time \<times> string) option" where
  "read_proof c now raw userId sessionIat =
     (if \<not> truthy raw then None
      else (case split_on (CHR ''.'') (the raw) of
          body # mac # _ \<Rightarrow>
            if body = [] \<or> mac = [] then None
            else if mac \<noteq> co_sign c body then None
            else (case co_decode c body of
                None \<Rightarrow> None
              | Some p \<Rightarrow>
                  if pc_sub p \<noteq> userId then None
                  else if pc_sid p \<noteq> (case sessionIat of None \<Rightarrow> 0 | Some i \<Rightarrow> i) then None
                  else if pc_exp p < now then None
                  else Some (pc_exp p, pc_method p))
        | _ \<Rightarrow> None))"

text \<open>The configured actions; without a settings row, all of them.\<close>

definition enabledActions :: "string list option \<Rightarrow> string list" where
  "enabledActions settings = (case settings of None \<Rightarrow> STEP_UP_ACTIONS | Some xs \<Rightarrow> xs)"

definition assert_step_up ::
  "proof_codec \<Rightarrow> string list option \<Rightarrow> time \<Rightarrow> string option \<Rightarrow> jwt_payload option \<Rightarrow> string \<Rightarrow> unit result" where
  "assert_step_up c settings now raw user action =
     (if action \<notin> set (enabledActions settings) then Inr ()
      else (case user of
          None \<Rightarrow> Inl (Forbidden ''Not authenticated'')
        | Some u \<Rightarrow>
            if jp_sub u = [] then Inl (Forbidden ''Not authenticated'')
            else if read_proof c now raw (jp_sub u) (jp_iat u) \<noteq> None then Inr ()
            else Inl (Forbidden ''Confirm it is you to continue: re-enter your password, an authenticator code, or use a passkey.'')))"

section \<open>Lemmas\<close>

definition issued_claims :: "time \<Rightarrow> id \<Rightarrow> int option \<Rightarrow> string \<Rightarrow> proof_claims" where
  "issued_claims t0 u0 i0 method = \<lparr>pc_sub = u0, pc_sid = (case i0 of None \<Rightarrow> 0 | Some i \<Rightarrow> i),
     pc_exp = t0 + STEP_UP_TTL_MS, pc_method = method\<rparr>"

text \<open>What the codec is relied on for: decoding undoes encoding, and neither part is empty or holds the separator.\<close>

definition carries :: "proof_codec \<Rightarrow> proof_claims \<Rightarrow> bool" where
  "carries c p = (let b = co_encode c p; m = co_sign c b in
     co_decode c b = Some p \<and> CHR ''.'' \<notin> set b \<and> b \<noteq> [] \<and> CHR ''.'' \<notin> set m \<and> m \<noteq> [])"

lemma read_issued:
  assumes "carries c (issued_claims t0 u0 i0 method)" and "issue c t0 u0 i0 method = (raw, expiry)"
  shows "read_proof c now (Some raw) u i =
    (if u0 = u \<and> (case i0 of None \<Rightarrow> 0 | Some i \<Rightarrow> i) = (case i of None \<Rightarrow> 0 | Some i \<Rightarrow> i) \<and> now \<le> t0 + STEP_UP_TTL_MS
     then Some (expiry, method) else None)"
proof -
  let ?p = "issued_claims t0 u0 i0 method"
  have raw: "raw = co_encode c ?p @ CHR ''.'' # co_sign c (co_encode c ?p)" "expiry = t0 + STEP_UP_TTL_MS"
    using assms(2) by (auto simp: issue_def issued_claims_def Let_def)
  have g: "co_decode c (co_encode c ?p) = Some ?p" "CHR ''.'' \<notin> set (co_encode c ?p)" "co_encode c ?p \<noteq> []"
      "co_sign c (co_encode c ?p) \<noteq> []" "CHR ''.'' \<notin> set (co_sign c (co_encode c ?p))"
    using assms(1) by (simp_all add: carries_def Let_def)
  have sp: "split_on (CHR ''.'') raw = [co_encode c ?p, co_sign c (co_encode c ?p)]"
    unfolding raw split_on_append[OF g(2)] split_on_none[OF g(5)] by (rule refl)
  have "truthy (Some raw)" unfolding raw by simp
  then show ?thesis unfolding read_proof_def option.sel sp using g raw(2) by (simp add: issued_claims_def)
qed

text \<open>Without the signature of the server's key a proof is worth nothing.\<close>

lemma read_signed:
  assumes "read_proof c now raw u i \<noteq> None"
  shows "\<exists>body rest. raw = Some (body @ CHR ''.'' # co_sign c body @ rest) \<and> CHR ''.'' \<notin> set body"
proof -
  obtain r where r: "raw = Some r" using assms by (cases raw) (simp_all add: read_proof_def)
  have "split_on (CHR ''.'') s = b # m # ms \<Longrightarrow> \<exists>rest. s = b @ CHR ''.'' # m @ rest \<and> CHR ''.'' \<notin> set b" for s b m ms
  proof (induction s arbitrary: b)
    case Nil
    then show ?case by simp
  next
    case (Cons x s)
    show ?case
    proof (cases "x = CHR ''.''")
      case True
      with Cons.prems have b: "b = []" and s: "split_on (CHR ''.'') s = m # ms" by simp_all
      have "split_on (CHR ''.'') t = n # ns \<Longrightarrow> \<exists>rest. t = n @ rest" for t n ns
        by (induction t arbitrary: n ns) (auto split: if_splits list.splits)
      from this[OF s] b True show ?thesis by auto
    next
      case False
      with Cons.prems obtain b' where "b = x # b'" "split_on (CHR ''.'') s = b' # m # ms"
        by (auto split: list.splits)
      with Cons.IH[of b'] False show ?thesis by auto
    qed
  qed
  with assms r show ?thesis
    by (fastforce simp: read_proof_def split: if_splits list.splits)
qed

section \<open>Properties\<close>

text \<open>
  A step-up proof is good for exactly the user and the session it was earned in, and for ten minutes: presented to an
  action that asks for one, it lets that user and session through until it expires, and nobody
  else at any time.
\<close>

theorem proof_is_bound:
  assumes "carries c (issued_claims t0 u0 (Some i0) method)" "issue c t0 u0 (Some i0) method = (raw, expiry)"
    and "action \<in> set (enabledActions settings)" "jp_iat u = Some i" "jp_sub u \<noteq> []"
  shows "is_ok (assert_step_up c settings now (Some raw) (Some u) action)
    \<longleftrightarrow> jp_sub u = u0 \<and> i = i0 \<and> now \<le> t0 + STEP_UP_TTL_MS"
  using assms by (auto simp: assert_step_up_def read_issued)

definition sample_codec :: "proof_claims \<Rightarrow> proof_codec" where
  "sample_codec p = \<lparr>co_encode = (\<lambda>q. pc_sub q @ pc_method q), co_decode = (\<lambda>b. if b = pc_sub p @ pc_method p then Some p else None),
     co_sign = (\<lambda>b. ''mac'' @ b)\<rparr>"

theorem proof_is_bound_witness:
  "\<not> is_ok (assert_step_up (sample_codec (issued_claims 0 ''u'' (Some 7) ''pw'')) None 5
     (Some (fst (issue (sample_codec (issued_claims 0 ''u'' (Some 7) ''pw'')) 0 ''u'' (Some 7) ''pw'')))
     (Some (plain_payload ''v'')) ''sso.configure'')"
proof -
  let ?c = "sample_codec (issued_claims 0 ''u'' (Some 7) ''pw'')"
  have "carries ?c (issued_claims 0 ''u'' (Some 7) ''pw'')"
    by (simp add: carries_def sample_codec_def issued_claims_def)
  from proof_is_bound[OF this, of _ _ "''sso.configure''" None "plain_payload ''v''" 10 5] show ?thesis
    by (simp add: plain_payload_def enabledActions_def STEP_UP_ACTIONS_def) (metis prod.collapse)
qed

end
