(* ===== verification/ApiKeys.thy ===== *)
theory ApiKeys
  imports Identity
begin

text \<open>
  API keys (\<open>apikeys/apikeys.service.ts\<close>) and the guard of the public API
  (\<open>apikeys/apikey-auth.guard.ts\<close>). SHA-256 in hex is the parameter \<open>sha\<close>; the random hex digits of a
  new key are an argument.
\<close>

definition API_SCOPES :: "string list" where
  "API_SCOPES = [''companies:read'', ''companies:write'', ''users:read'', ''users:write'', ''computers:read'',
     ''computers:write'', ''sessions:read'', ''enrollment:write'', ''audit:read'']"

text \<open>The raw key, its displayed prefix and its stored hash.\<close>

definition generateKey :: "(string \<Rightarrow> string) \<Rightarrow> string \<Rightarrow> string \<times> string \<times> string" where
  "generateKey sha rand = (let raw = ''rk_'' @ rand in (raw, take 12 raw, sha raw))"

definition list_keys :: "db \<Rightarrow> actor \<Rightarrow> id option \<Rightarrow> api_key_row list result" where
  "list_keys s actor businessId = (case resolveScope actor businessId of
     Inl e \<Rightarrow> Inl e | Inr sc \<Rightarrow> Inr (filter (scope_where ak_customerId sc) (apiKeys s)))"

record key_input =
  ki_name :: string
  ki_scopes :: "string list"
  ki_expiresInDays :: "int option"
  ki_businessId :: "id option"

definition create_key ::
  "(string \<Rightarrow> string) \<Rightarrow> time \<Rightarrow> id \<Rightarrow> string \<Rightarrow> actor \<Rightarrow> key_input \<Rightarrow> db \<Rightarrow> (api_key_row \<times> string) result \<times> db" where
  "create_key sha now i rand actor inp s = (case requireScope actor (ki_businessId inp) of
     Inl e \<Rightarrow> (Inl e, s)
   | Inr businessId \<Rightarrow> (case business_of s businessId of
       None \<Rightarrow> (Inl (NotFound ''Business not found''), s)
     | Some business \<Rightarrow>
         if length (ki_name inp) < 1 then (Inl (BadRequest ''name required''), s)
         else let validScopes = filter (\<lambda>x. x \<in> set API_SCOPES) (ki_scopes inp) in
           if length validScopes = 0 then (Inl (BadRequest ''at least one valid scope required''), s)
           else (case generateKey sha rand of (raw, prefix, h) \<Rightarrow>
             let row = \<lparr>ak_id = i, ak_tenantId = c_tenantId business, ak_customerId = Some businessId,
                   ak_createdById = a_userId actor, ak_name = js_trim (ki_name inp), ak_keyHash = h, ak_keyPrefix = prefix,
                   ak_lastUsedAt = None,
                   ak_expiresAt = (case ki_expiresInDays inp of None \<Rightarrow> None
                      | Some d \<Rightarrow> if d > 0 then Some (now + d * day_ms) else None),
                   ak_revokedAt = None, ak_scopes = validScopes\<rparr>
             in (Inr (row, raw), audit_log ''API_KEY_CREATED'' (Some (a_userId actor)) (Some (c_tenantId business)) (Some businessId)
                   (a_ip actor) (Some ''api_key'') (Some i) False (s\<lparr>apiKeys := apiKeys s @ [row]\<rparr>)))))"

text \<open>The answer: was the key revoked already?\<close>

definition revoke_key :: "time \<Rightarrow> actor \<Rightarrow> id \<Rightarrow> db \<Rightarrow> bool result \<times> db" where
  "revoke_key now actor i s = (case resolveScope actor None of
     Inl e \<Rightarrow> (Inl e, s)
   | Inr sc \<Rightarrow> (case find_row (\<lambda>k. ak_id k = i \<and> scope_where ak_customerId sc k) (apiKeys s) of
       None \<Rightarrow> (Inl (NotFound ''API key not found''), s)
     | Some row \<Rightarrow>
         if ak_revokedAt row \<noteq> None then (Inr True, s)
         else (Inr False, audit_log ''API_KEY_REVOKED'' (Some (a_userId actor)) (Some (ak_tenantId row)) (ak_customerId row)
                (a_ip actor) (Some ''api_key'') (Some i) False
                (s\<lparr>apiKeys := update_rows (\<lambda>k. ak_id k = i) (\<lambda>k. k\<lparr>ak_revokedAt := Some now\<rparr>) (apiKeys s)\<rparr>))))"

text \<open>The creator still may act as an owner of the business.\<close>

definition creator_stands :: "db \<Rightarrow> id \<Rightarrow> id \<Rightarrow> bool" where
  "creator_stands s userId businessId = (case user_by_id s userId of
     None \<Rightarrow> False
   | Some u \<Rightarrow> u_status u = U_ACTIVE \<and> (u_isPlatformAdmin u
       \<or> list_ex (\<lambda>m. m_userId m = userId \<and> m_customerId m = Some businessId \<and> m_isActive m \<and> isOwnerRole (Some (m_roleType m)))
           (memberships s)))"

record key_identity =
  kx_id :: id
  kx_tenantId :: id
  kx_businessId :: id
  kx_scopes :: "string list"
  kx_createdById :: id

definition resolveBearer ::
  "(string \<Rightarrow> string) \<Rightarrow> time \<Rightarrow> string \<Rightarrow> db \<Rightarrow> key_identity option \<times> db" where
  "resolveBearer sha now rawKey s =
     (if \<not> starts_with ''rk_'' rawKey then (None, s)
      else (case find_row (\<lambda>k. ak_keyHash k = sha rawKey) (apiKeys s) of
        None \<Rightarrow> (None, s)
      | Some row \<Rightarrow>
          if ak_revokedAt row \<noteq> None then (None, s)
          else if (case ak_expiresAt row of None \<Rightarrow> False | Some t \<Rightarrow> t < now) then (None, s)
          else if \<not> truthy (ak_customerId row) then (None, s)
          else (case business_of s (the (ak_customerId row)) of
            None \<Rightarrow> (None, s)
          | Some customer \<Rightarrow>
              if \<not> c_isActive customer \<or> c_isArchived customer then (None, s)
              else if \<not> creator_stands s (ak_createdById row) (the (ak_customerId row)) then (None, s)
              else (Some \<lparr>kx_id = ak_id row, kx_tenantId = ak_tenantId row, kx_businessId = the (ak_customerId row),
                      kx_scopes = ak_scopes row, kx_createdById = ak_createdById row\<rparr>,
                    s\<lparr>apiKeys := update_rows (\<lambda>k. ak_id k = ak_id row) (\<lambda>k. k\<lparr>ak_lastUsedAt := Some now\<rparr>) (apiKeys s)\<rparr>))))"

section \<open>The guard\<close>

text \<open>\<open>/^Bearer\s+(rk_[a-f0-9]{40,64})$/i\<close> and its group.\<close>

definition is_hex_i :: "char \<Rightarrow> bool" where
  "is_hex_i ch = (let x = lower ch in is_digit x \<or> x \<in> set ''abcdef'')"

definition bearer_key :: "string \<Rightarrow> string option" where
  "bearer_key header =
     (let rest = drop 6 header; key = dropWhile js_space rest; digits = drop 3 key in
      if map lower (take 6 header) = ''bearer'' \<and> rest \<noteq> key \<and> map lower (take 3 key) = ''rk_''
         \<and> 40 \<le> length digits \<and> length digits \<le> 64 \<and> list_all is_hex_i digits
      then Some key else None)"

definition key_payload :: "key_identity \<Rightarrow> jwt_payload" where
  "key_payload k = \<lparr>jp_sub = kx_createdById k, jp_email = ''api-key'', jp_tenantId = Some (kx_tenantId k),
     jp_businessId = Some (kx_businessId k), jp_roleType = Some BUSINESS_OWNER, jp_isPlatformAdmin = False,
     jp_mfaVerified = True, jp_capabilities = Some [], jp_customerId = Some (kx_businessId k), jp_partial = False,
     jp_iat = None, jp_ownBusinessId = None, jp_technician = None, jp_assignedBusinessIds = None,
     jp_platformPermissions = None\<rparr>"

definition api_key_guard ::
  "(string \<Rightarrow> string) \<Rightarrow> time \<Rightarrow> string list option \<Rightarrow> string \<Rightarrow> db \<Rightarrow> (jwt_payload \<times> key_identity) result \<times> db" where
  "api_key_guard sha now required header s = (case bearer_key header of
     None \<Rightarrow> (Inl (Unauthorized ''Missing or malformed API key''), s)
   | Some key \<Rightarrow> (case resolveBearer sha now key s of
       (None, s1) \<Rightarrow> (Inl (Unauthorized ''API key invalid, revoked, or expired''), s1)
     | (Some resolved, s1) \<Rightarrow>
         if (case required of None \<Rightarrow> False | Some req \<Rightarrow> filter (\<lambda>x. x \<notin> set (kx_scopes resolved)) req \<noteq> [])
         then (Inl (Unauthorized ''Missing required scopes''), s1)
         else (Inr (key_payload resolved, resolved), s1)))"

section \<open>Lemmas\<close>

lemma resolveBearer_Some:
  assumes "resolveBearer sha now key s = (Some k, s1)"
  obtains row customer where "find_row (\<lambda>r. ak_keyHash r = sha key) (apiKeys s) = Some row" "ak_revokedAt row = None"
    "\<And>t. ak_expiresAt row = Some t \<Longrightarrow> now \<le> t" "ak_customerId row = Some (kx_businessId k)" "kx_businessId k \<noteq> []"
    "business_of s (kx_businessId k) = Some customer" "c_isActive customer" "\<not> c_isArchived customer"
    "creator_stands s (ak_createdById row) (kx_businessId k)"
    "k = \<lparr>kx_id = ak_id row, kx_tenantId = ak_tenantId row, kx_businessId = kx_businessId k,
           kx_scopes = ak_scopes row, kx_createdById = ak_createdById row\<rparr>"
proof -
  obtain row where row: "find_row (\<lambda>r. ak_keyHash r = sha key) (apiKeys s) = Some row"
    using assms by (auto simp: resolveBearer_def split: if_splits option.splits)
  moreover obtain b where b: "ak_customerId row = Some b" "b \<noteq> []"
    using assms row by (auto simp: resolveBearer_def truthy_iff split: if_splits)
  moreover obtain customer where "business_of s b = Some customer" "c_isActive customer" "\<not> c_isArchived customer"
      "creator_stands s (ak_createdById row) b" "ak_revokedAt row = None" "\<forall>t. ak_expiresAt row = Some t \<longrightarrow> now \<le> t"
      "k = \<lparr>kx_id = ak_id row, kx_tenantId = ak_tenantId row, kx_businessId = b,
           kx_scopes = ak_scopes row, kx_createdById = ak_createdById row\<rparr>"
    using assms row b by (auto simp: resolveBearer_def split: if_splits option.splits)
  ultimately show thesis using that by auto
qed

lemma key_actor:
  "a_isPlatformAdmin (buildActorContext (key_payload k) ip) = False"
  "a_businessId (buildActorContext (key_payload k) ip) = Some (kx_businessId k)"
  "a_roleType (buildActorContext (key_payload k) ip) = Some BUSINESS_OWNER"
  by (simp_all add: buildActorContext_def key_payload_def nullish_def)

lemma find_append_unmatched: "\<forall>x\<in>set xs. \<not> P x \<Longrightarrow> List.find P (xs @ ys) = List.find P ys"
  by (induction xs) auto

section \<open>Properties\<close>

lemma bearer_sample:
  "bearer_key ''Bearer rk_0123456789012345678901234567890123456789'' = Some ''rk_0123456789012345678901234567890123456789''"
  by code_simp

text \<open>An owner of an open business, and the database behind it.\<close>

definition key_db :: db where
  "key_db = empty_db\<lparr>users := [plain_user ''u1''], businesses := [one_business ''b1''],
     memberships := [\<lparr>m_id = ''m1'', m_userId = ''u1'', m_tenantId = ''t1'', m_roleId = ''r1'', m_roleType = BUSINESS_OWNER,
       m_isActive = True, m_customerId = Some ''b1'', m_capabilities = []\<rparr>]\<rparr>"

definition key_owner :: actor where
  "key_owner = plain_actor ''u1'' (Some ''b1'') (Some BUSINESS_OWNER) []"

definition key_request :: key_input where
  "key_request = \<lparr>ki_name = ''ci'', ki_scopes = [''users:read'', ''root''], ki_expiresInDays = None, ki_businessId = None\<rparr>"

lemma key_db_creates:
  "\<exists>row s1 raw. create_key (\<lambda>x. x) 0 ''k1'' ''0123456789012345678901234567890123456789'' key_owner key_request key_db = (Inr (row, raw), s1)
     \<and> ak_customerId row = Some ''b1'' \<and> raw = ''rk_0123456789012345678901234567890123456789'' \<and> apiKeys key_db = []
     \<and> creator_stands key_db (a_userId key_owner) ''b1'' \<and> \<not> business_closed key_db (Some ''b1'')
     \<and> is_ok (fst (revoke_key 5 key_owner ''k1'' s1)) \<and> fst (revoke_key 5 key_owner ''k1'' s1) = Inr False
     \<and> is_ok (fst (api_key_guard (\<lambda>x. x) 1 (Some [''users:read'']) (''Bearer '' @ raw) s1))"
  by (simp add: create_key_def key_owner_def plain_actor_def key_request_def key_db_def requireScope_def resolveScope_def Let_def
      business_of_def one_business_def empty_db_def API_SCOPES_def generateKey_def creator_stands_def user_by_id_def
      plain_user_def isOwnerRole_Some business_closed_def revoke_key_def scope_where_def api_key_guard_def bearer_sample
      resolveBearer_def)

text \<open>
  C30: An API key acts as an owner of its own business and nowhere else: whoever passes the guard is pinned to the key's business,
  which is open, holds every scope the route asks for, is no platform admin, and the key's creator is
  active and at this instant still an owner there (or a platform admin); the key is neither revoked nor expired.
\<close>

theorem api_key_confined:
  assumes "api_key_guard sha now required header s = (Inr (p, k), s1)"
  shows "(\<exists>row. row \<in> set (apiKeys s) \<and> ak_id row = kx_id k \<and> ak_customerId row = Some (kx_businessId k) \<and> ak_revokedAt row = None
        \<and> (\<forall>t. ak_expiresAt row = Some t \<longrightarrow> now \<le> t) \<and> set (case required of None \<Rightarrow> [] | Some req \<Rightarrow> req) \<subseteq> set (ak_scopes row))
    \<and> creator_stands s (jp_sub p) (kx_businessId k) \<and> \<not> business_closed s (Some (kx_businessId k))
    \<and> \<not> a_isPlatformAdmin (buildActorContext p ip)
    \<and> (\<forall>rq. resolveScope (buildActorContext p ip) rq \<in> {Inr (Some (kx_businessId k))} \<union> range (Inl :: http_error \<Rightarrow> _))"
proof -
  obtain key where r: "resolveBearer sha now key s = (Some k, s1)" and p: "p = key_payload k"
    and req: "\<And>req. required = Some req \<Longrightarrow> set req \<subseteq> set (kx_scopes k)"
    using assms by (auto simp: api_key_guard_def filter_empty_conv split: option.splits prod.splits if_splits)
  from r show ?thesis
  proof (cases rule: resolveBearer_Some)
    case (1 row customer)
    have "resolveScope (buildActorContext p ip) rq \<in> {Inr (Some (kx_businessId k))} \<union> range Inl" for rq
      using resolveScope_pinned[of "buildActorContext p ip" rq] key_actor[of k ip] unfolding p
      by (cases "resolveScope (buildActorContext (key_payload k) ip) rq") auto
    moreover have "jp_sub p = ak_createdById row" unfolding p key_payload_def by (subst 1(10)) simp
    moreover have "kx_id k = ak_id row" "kx_scopes k = ak_scopes row" by (subst 1(10), simp)+
    moreover have "set (case required of None \<Rightarrow> [] | Some req \<Rightarrow> req) \<subseteq> set (ak_scopes row)"
      using req \<open>kx_scopes k = ak_scopes row\<close> by (cases required) auto
    ultimately show ?thesis
      using 1(2-9) find_row_Some[OF 1(1)] key_actor(1)[of k ip]
      unfolding p by (auto simp: business_closed_def)
  qed
qed

theorem api_key_confined_witness:
  "\<exists>s p k s1. api_key_guard (\<lambda>x. x) 1 (Some [''users:read'']) ''Bearer rk_0123456789012345678901234567890123456789'' s = (Inr (p, k), s1)
     \<and> creator_stands s (jp_sub p) (kx_businessId k)"
proof -
  obtain s where "is_ok (fst (api_key_guard (\<lambda>x. x) 1 (Some [''users:read'']) ''Bearer rk_0123456789012345678901234567890123456789'' s))"
    using key_db_creates by auto
  then obtain p k s1 where "api_key_guard (\<lambda>x. x) 1 (Some [''users:read'']) ''Bearer rk_0123456789012345678901234567890123456789'' s = (Inr (p, k), s1)"
    by (auto simp: is_ok_iff) (metis prod.collapse)
  with api_key_confined show ?thesis by blast
qed

text \<open>
  A key works until it is revoked: the key an owner just created, with its raw form as the credential, resolves to the owner's business and its
  scopes at once, and never again after it was revoked (the hashes of other keys being different).
\<close>

theorem key_lifecycle:
  assumes "create_key sha now i rand actor inp s = (Inr (row, raw), s1)"
    and "list_all (\<lambda>k. ak_keyHash k \<noteq> sha raw \<and> ak_id k \<noteq> i) (apiKeys s)"
    and "creator_stands s (a_userId actor) b" "ak_customerId row = Some b" "\<not> business_closed s (Some b)"
    and "revoke_key t2 admin i s1 = (Inr False, s2)"
  shows "\<exists>k. fst (resolveBearer sha now raw s1) = Some k \<and> kx_businessId k = b \<and> kx_scopes k = ak_scopes row
    \<and> set (kx_scopes k) \<subseteq> set API_SCOPES \<and> (\<forall>t. fst (resolveBearer sha t raw s2) = None)"
proof -
  obtain business where c: "requireScope actor (ki_businessId inp) = Inr b" "business_of s b = Some business"
      "raw = ''rk_'' @ rand" "ak_keyHash row = sha raw" "ak_id row = i" "ak_revokedAt row = None"
      "\<And>t. ak_expiresAt row = Some t \<Longrightarrow> now \<le> t" "ak_createdById row = a_userId actor"
      "apiKeys s1 = apiKeys s @ [row]" "users s1 = users s" "memberships s1 = memberships s" "businesses s1 = businesses s"
    using assms(1,4)
    by (auto simp: create_key_def generateKey_def Let_def split: sum.splits option.splits if_splits)
  have b: "b \<noteq> []" using c(1) by (simp add: requireScope_Inr)
  have fr: "find_row (\<lambda>k. ak_keyHash k = sha raw) (apiKeys s1) = Some row"
    using assms(2) unfolding c(9) by (simp add: find_row_def find_append_unmatched c(4) list_all_iff)
  have st: "creator_stands s1 u x = creator_stands s u x" for u x
    by (simp add: creator_stands_def user_by_id_def c(10,11) cong: option.case_cong)
  have bo: "business_of s1 x = business_of s x" for x by (simp add: business_of_def c(12))
  have open_b: "c_isActive business" "\<not> c_isArchived business" using assms(5) c(2) by (auto simp: business_closed_def)
  have rk: "starts_with ''rk_'' raw" unfolding c(3) by simp
  have ex: "\<not> (case ak_expiresAt row of None \<Rightarrow> False | Some t \<Rightarrow> t < now)"
    using c(7) by (cases "ak_expiresAt row") (auto simp: not_less)
  have "\<exists>k. fst (resolveBearer sha now raw s1) = Some k \<and> kx_businessId k = b \<and> kx_scopes k = ak_scopes row"
    using rk fr c(6,8) ex assms(3,4) b open_b c(2) by (simp add: resolveBearer_def st bo)
  moreover have "fst (resolveBearer sha t raw s2) = None" for t
  proof -
    have s2: "apiKeys s2 = update_rows (\<lambda>k. ak_id k = i) (\<lambda>k. k\<lparr>ak_revokedAt := Some t2\<rparr>) (apiKeys s1)"
      using assms(6) by (auto simp: revoke_key_def split: sum.splits option.splits if_splits)
    have "find_row (\<lambda>k. ak_keyHash k = sha raw) (apiKeys s2) = Some (row\<lparr>ak_revokedAt := Some t2\<rparr>)"
      unfolding s2 using find_row_update[of ak_keyHash "\<lambda>k. k\<lparr>ak_revokedAt := Some t2\<rparr>" "sha raw" "\<lambda>k. ak_id k = i" "apiKeys s1"]
      by (simp add: fr c(5))
    then show ?thesis by (simp add: resolveBearer_def)
  qed
  moreover have "set (ak_scopes row) \<subseteq> set API_SCOPES"
    using assms(1) by (auto simp: create_key_def generateKey_def Let_def split: sum.splits option.splits if_splits)
  ultimately show ?thesis by auto
qed

theorem key_lifecycle_witness:
  "\<exists>row raw s1 s2. create_key (\<lambda>x. x) 0 ''k1'' ''0123456789012345678901234567890123456789'' key_owner key_request key_db = (Inr (row, raw), s1)
     \<and> revoke_key 5 key_owner ''k1'' s1 = (Inr False, s2) \<and> fst (resolveBearer (\<lambda>x. x) 9 raw s2) = None"
proof -
  obtain row s1 raw where c: "create_key (\<lambda>x. x) 0 ''k1'' ''0123456789012345678901234567890123456789'' key_owner key_request key_db = (Inr (row, raw), s1)"
      "ak_customerId row = Some ''b1''" "apiKeys key_db = []" "creator_stands key_db (a_userId key_owner) ''b1''"
      "\<not> business_closed key_db (Some ''b1'')" "fst (revoke_key 5 key_owner ''k1'' s1) = Inr False"
    using key_db_creates by blast
  obtain s2 where "revoke_key 5 key_owner ''k1'' s1 = (Inr False, s2)" using c(6) by (metis prod.collapse)
  with key_lifecycle[OF c(1) _ c(4,2,5) this] c(1,3) show ?thesis by auto
qed

end
