(* ===== verification/SessionState.thy ===== *)
theory SessionState
  imports Database
begin

text \<open>
  The support-session state machine (\<open>sessions/session-state.ts\<close>): which event may move a
  session into which state, what it writes, and what it must not write. The result carries
  the column updates the code calls the patch; \<open>apply_patch\<close> is the row after them.
\<close>

datatype session_event_type =
    launch_requested | launcher_acknowledged | client_opened | client_launch_failed
  | connection_confirmed | disconnected | technician_completed | technician_canceled
  | technician_failed | timeout_unknown | timeout_ended

datatype event_source = server | launcher | connect_script | endpoint_agent | technician | timeout

text \<open>The strings the database keeps of an event name and a source.\<close>

fun event_name :: "session_event_type \<Rightarrow> string" where
  "event_name launch_requested = ''launch_requested''"
| "event_name launcher_acknowledged = ''launcher_acknowledged''"
| "event_name client_opened = ''client_opened''"
| "event_name client_launch_failed = ''client_launch_failed''"
| "event_name connection_confirmed = ''connection_confirmed''"
| "event_name disconnected = ''disconnected''"
| "event_name technician_completed = ''technician_completed''"
| "event_name technician_canceled = ''technician_canceled''"
| "event_name technician_failed = ''technician_failed''"
| "event_name timeout_unknown = ''timeout_unknown''"
| "event_name timeout_ended = ''timeout_ended''"

fun source_name :: "event_source \<Rightarrow> string" where
  "source_name server = ''server''"
| "source_name launcher = ''launcher''"
| "source_name connect_script = ''connect_script''"
| "source_name endpoint_agent = ''endpoint_agent''"
| "source_name technician = ''technician''"
| "source_name timeout = ''timeout''"

fun ALLOWED_SOURCES :: "session_event_type \<Rightarrow> event_source list" where
  "ALLOWED_SOURCES launch_requested = [server]"
| "ALLOWED_SOURCES launcher_acknowledged = [server, launcher, connect_script]"
| "ALLOWED_SOURCES client_opened = [launcher, connect_script]"
| "ALLOWED_SOURCES client_launch_failed = [launcher, connect_script]"
| "ALLOWED_SOURCES connection_confirmed = [endpoint_agent, technician]"
| "ALLOWED_SOURCES disconnected = [endpoint_agent]"
| "ALLOWED_SOURCES technician_completed = [technician]"
| "ALLOWED_SOURCES technician_canceled = [technician]"
| "ALLOWED_SOURCES technician_failed = [technician]"
| "ALLOWED_SOURCES timeout_unknown = [timeout]"
| "ALLOWED_SOURCES timeout_ended = [timeout]"

definition TERMINAL :: "session_status list" where
  "TERMINAL = [SESSION_COMPLETED, S_FAILED, S_CANCELED, STATUS_UNKNOWN]"

fun RANK :: "session_status \<Rightarrow> nat" where
  "RANK S_PENDING = 0"
| "RANK LAUNCH_REQUESTED = 1"
| "RANK LAUNCHER_ACKNOWLEDGED = 2"
| "RANK CLIENT_OPENED = 3"
| "RANK SESSION_STARTED = 4"
| "RANK SESSION_COMPLETED = 9"
| "RANK S_FAILED = 9"
| "RANK S_CANCELED = 9"
| "RANK STATUS_UNKNOWN = 9"

definition OPEN_STATUSES :: "session_status list" where
  "OPEN_STATUSES = [S_PENDING, LAUNCH_REQUESTED, LAUNCHER_ACKNOWLEDGED, CLIENT_OPENED, SESSION_STARTED]"

definition PRE_CLIENT_STATUSES :: "session_status list" where
  "PRE_CLIENT_STATUSES = [S_PENDING, LAUNCH_REQUESTED, LAUNCHER_ACKNOWLEDGED]"

record session_event =
  ev_type :: session_event_type
  ev_source :: event_source
  ev_occurredAt :: "time option"
  ev_receivedAt :: time

section \<open>Patches\<close>

text \<open>A column update; in a patch a later update of a column overrides an earlier one.\<close>

datatype column =
    Status session_status | StatusSource string | StatusChangedAt time | LastSignalAt "time option"
  | LaunchRequestedAt time | LauncherAckAt time | ClientOpenedAt time | ConnectionConfirmedAt time
  | StartedAt time | EndedAt "time option" | CompletedAt time | EndReason string | EndInferred bool
  | Duration "int option" | TimingQuality string

fun set_column :: "session_row \<Rightarrow> column \<Rightarrow> session_row" where
  "set_column r (Status x) = r\<lparr>ss_status := x\<rparr>"
| "set_column r (StatusSource x) = r\<lparr>ss_statusSource := Some x\<rparr>"
| "set_column r (StatusChangedAt x) = r\<lparr>ss_statusChangedAt := Some x\<rparr>"
| "set_column r (LastSignalAt x) = r\<lparr>ss_lastSignalAt := x\<rparr>"
| "set_column r (LaunchRequestedAt x) = r\<lparr>ss_launchRequestedAt := Some x\<rparr>"
| "set_column r (LauncherAckAt x) = r\<lparr>ss_launcherAckAt := Some x\<rparr>"
| "set_column r (ClientOpenedAt x) = r\<lparr>ss_clientOpenedAt := Some x\<rparr>"
| "set_column r (ConnectionConfirmedAt x) = r\<lparr>ss_connectionConfirmedAt := Some x\<rparr>"
| "set_column r (StartedAt x) = r\<lparr>ss_startedAt := Some x\<rparr>"
| "set_column r (EndedAt x) = r\<lparr>ss_endedAt := x\<rparr>"
| "set_column r (CompletedAt x) = r\<lparr>ss_completedAt := Some x\<rparr>"
| "set_column r (EndReason x) = r\<lparr>ss_endReason := Some x\<rparr>"
| "set_column r (EndInferred x) = r\<lparr>ss_endInferred := x\<rparr>"
| "set_column r (Duration x) = r\<lparr>ss_duration := x\<rparr>"
| "set_column r (TimingQuality x) = r\<lparr>ss_timingQuality := x\<rparr>"

definition apply_patch :: "column list \<Rightarrow> session_row \<Rightarrow> session_row" where
  "apply_patch p r = foldl set_column r p"

datatype not_applied =
  session_closed | not_a_forward_step | source_not_allowed | not_confirmed | already_confirmed

record transition =
  tr_applied :: bool
  tr_reason :: "not_applied option"
  tr_patch :: "column list"

definition refused :: "not_applied \<Rightarrow> column list \<Rightarrow> transition" where
  "refused why p = \<lparr>tr_applied = False, tr_reason = Some why, tr_patch = p\<rparr>"

definition applied_with :: "column list \<Rightarrow> transition" where
  "applied_with p = \<lparr>tr_applied = True, tr_reason = None, tr_patch = p\<rparr>"

section \<open>The machine\<close>

definition clamp_time :: "time option \<Rightarrow> time \<Rightarrow> time \<Rightarrow> time" where
  "clamp_time t0 lo hi = (let t = (case t0 of Some t \<Rightarrow> t | None \<Rightarrow> hi) in
     if t < lo then lo else if t > hi then hi else t)"

definition or_else :: "time option \<Rightarrow> time \<Rightarrow> time" where
  "or_else x d = (case x of Some t \<Rightarrow> t | None \<Rightarrow> d)"

text \<open>\<open>Math.round\<close> rounds halves up.\<close>

definition round_sec :: "int \<Rightarrow> int" where
  "round_sec ms = (ms + 500) div 1000"

definition backfill :: "session_row \<Rightarrow> session_event_type \<Rightarrow> time \<Rightarrow> column list" where
  "backfill s ty t =
     (if ty = launch_requested \<and> ss_launchRequestedAt s = None then [LaunchRequestedAt t]
      else if ty = launcher_acknowledged \<and> ss_launcherAckAt s = None then [LauncherAckAt t]
      else if ty = client_opened \<and> ss_clientOpenedAt s = None then [ClientOpenedAt t]
      else [])"

definition end_session :: "session_row \<Rightarrow> session_event \<Rightarrow> time \<Rightarrow> string \<Rightarrow> string \<Rightarrow> transition" where
  "end_session s ev t reason quality =
     (let start = ss_connectionConfirmedAt s;
          endAt = (case start of Some b \<Rightarrow> if t < b then b else t | None \<Rightarrow> t);
          measured = (quality = ''MEASURED'' \<and> ss_statusSource s = Some ''endpoint_agent'' \<and> start \<noteq> None)
      in applied_with
          [Status SESSION_COMPLETED, StatusSource (source_name (ev_source ev)), StatusChangedAt (ev_receivedAt ev),
           LastSignalAt (Some endAt), EndedAt (Some endAt), CompletedAt endAt, EndReason reason, EndInferred False,
           Duration (if measured then (case start of Some b \<Rightarrow> Some (max 0 (round_sec (endAt - b))) | None \<Rightarrow> None)
                     else None),
           TimingQuality (if measured then ''MEASURED''
                          else if quality = ''MEASURED'' then ''REPORTED'' else quality)])"

definition applySessionEvent :: "session_row \<Rightarrow> session_event \<Rightarrow> transition" where
  "applySessionEvent s ev =
     (if ev_source ev \<notin> set (ALLOWED_SOURCES (ev_type ev)) then refused source_not_allowed []
      else
        let t = clamp_time (ev_occurredAt ev) (ss_createdAt s) (ev_receivedAt ev);
            signal = LastSignalAt (case ss_lastSignalAt s of
                None \<Rightarrow> Some t | Some l \<Rightarrow> Some (if t > l then t else l));
            confirmed = (ss_status s = SESSION_STARTED);
            src = source_name (ev_source ev);
            forward = (\<lambda>target extra.
              if RANK target \<le> RANK (ss_status s) then refused not_a_forward_step (backfill s (ev_type ev) t)
              else applied_with ([Status target, StatusSource src, StatusChangedAt (ev_receivedAt ev), signal] @ extra))
        in if ss_status s \<in> set TERMINAL then refused session_closed []
        else (case ev_type ev of
            launch_requested \<Rightarrow>
              forward LAUNCH_REQUESTED [LaunchRequestedAt (or_else (ss_launchRequestedAt s) t)]
          | launcher_acknowledged \<Rightarrow>
              forward LAUNCHER_ACKNOWLEDGED [LauncherAckAt (or_else (ss_launcherAckAt s) t)]
          | client_opened \<Rightarrow>
              forward CLIENT_OPENED [ClientOpenedAt (or_else (ss_clientOpenedAt s) t)]
          | connection_confirmed \<Rightarrow>
              if confirmed then refused already_confirmed [signal]
              else forward SESSION_STARTED [ConnectionConfirmedAt t, StartedAt t,
                     TimingQuality (if ev_source ev = endpoint_agent then ''UNKNOWN'' else ''REPORTED'')]
          | client_launch_failed \<Rightarrow>
              if confirmed
              then end_session s ev t ''failed_after_connect'' (if ev_source ev = technician then ''REPORTED'' else ''UNKNOWN'')
              else applied_with [Status S_FAILED, StatusSource src, StatusChangedAt (ev_receivedAt ev), signal,
                     EndedAt (Some t), CompletedAt t, EndReason (event_name (ev_type ev)), EndInferred False,
                     Duration None, TimingQuality ''UNKNOWN'']
          | technician_failed \<Rightarrow>
              if confirmed
              then end_session s ev t ''failed_after_connect'' (if ev_source ev = technician then ''REPORTED'' else ''UNKNOWN'')
              else applied_with [Status S_FAILED, StatusSource src, StatusChangedAt (ev_receivedAt ev), signal,
                     EndedAt (Some t), CompletedAt t, EndReason (event_name (ev_type ev)), EndInferred False,
                     Duration None, TimingQuality ''UNKNOWN'']
          | disconnected \<Rightarrow>
              if \<not> confirmed then refused not_confirmed []
              else end_session s ev t ''endpoint_reported_disconnect'' ''MEASURED''
          | technician_completed \<Rightarrow>
              if confirmed then end_session s ev t ''technician_completed'' ''REPORTED''
              else applied_with [Status SESSION_COMPLETED, StatusSource ''technician'', StatusChangedAt (ev_receivedAt ev),
                     signal, EndedAt (Some t), CompletedAt t, EndReason ''technician_completed_unconfirmed'',
                     EndInferred False, Duration None, TimingQuality ''UNKNOWN'']
          | technician_canceled \<Rightarrow>
              applied_with [Status S_CANCELED, StatusSource ''technician'', StatusChangedAt (ev_receivedAt ev), signal,
                     EndedAt (Some t), CompletedAt t, EndReason ''canceled'', EndInferred False, Duration None,
                     TimingQuality (if confirmed then ''REPORTED'' else ''UNKNOWN'')]
          | timeout_unknown \<Rightarrow>
              if confirmed then refused already_confirmed []
              else applied_with [Status STATUS_UNKNOWN, StatusSource ''timeout'', StatusChangedAt (ev_receivedAt ev),
                     EndedAt None, CompletedAt (ev_receivedAt ev), EndReason ''no_signal_timeout'', EndInferred True,
                     Duration None, TimingQuality ''UNKNOWN'']
          | timeout_ended \<Rightarrow>
              if \<not> confirmed then refused not_confirmed []
              else applied_with [Status SESSION_COMPLETED, StatusSource ''timeout'', StatusChangedAt (ev_receivedAt ev),
                     EndedAt (case ss_lastSignalAt s of Some l \<Rightarrow> Some l | None \<Rightarrow> ss_connectionConfirmedAt s),
                     CompletedAt (ev_receivedAt ev), EndReason ''no_end_signal_timeout'', EndInferred True,
                     Duration None, TimingQuality ''INFERRED'']))"

text \<open>The status a patch sets, as \<open>patch.status\<close>.\<close>

fun patch_status :: "column list \<Rightarrow> session_status option" where
  "patch_status [] = None"
| "patch_status (Status x # p) = (case patch_status p of None \<Rightarrow> Some x | Some y \<Rightarrow> Some y)"
| "patch_status (_ # p) = patch_status p"

section \<open>The machine as a step on rows\<close>

definition session_step :: "session_row \<Rightarrow> session_event \<Rightarrow> session_row" where
  "session_step s ev = apply_patch (tr_patch (applySessionEvent s ev)) s"

text \<open>
  What every reachable row satisfies: a confirmed row has its confirmation time, a source
  that may confirm and a signal not older than it; a duration is only there when it was
  measured between two reports of the endpoint agent; a confirmation never disappears.
\<close>

definition session_inv :: "session_row \<Rightarrow> bool" where
  "session_inv s \<longleftrightarrow>
     (ss_status s = SESSION_STARTED \<longrightarrow>
        (\<exists>c l. ss_connectionConfirmedAt s = Some c \<and> ss_lastSignalAt s = Some l \<and> c \<le> l)
        \<and> ss_statusSource s \<in> {Some ''endpoint_agent'', Some ''technician''})
     \<and> (ss_connectionConfirmedAt s \<noteq> None \<longrightarrow> 4 \<le> RANK (ss_status s))
     \<and> (ss_duration s \<noteq> None \<longrightarrow> ss_timingQuality s = ''MEASURED'')
     \<and> (ss_timingQuality s = ''MEASURED'' \<longrightarrow> ss_status s = SESSION_COMPLETED
          \<and> ss_statusSource s = Some ''endpoint_agent''
          \<and> (\<exists>c e. ss_connectionConfirmedAt s = Some c \<and> ss_endedAt s = Some e \<and> c \<le> e
               \<and> ss_duration s = Some (round_sec (e - c))))
     \<and> (ss_status s \<notin> set TERMINAL \<longrightarrow> ss_endedAt s = None \<and> ss_completedAt s = None)"

lemma terminal_simps [simp]:
  "SESSION_STARTED \<notin> set TERMINAL" "S_PENDING \<notin> set TERMINAL" "LAUNCH_REQUESTED \<notin> set TERMINAL"
  "LAUNCHER_ACKNOWLEDGED \<notin> set TERMINAL" "CLIENT_OPENED \<notin> set TERMINAL"
  "SESSION_COMPLETED \<in> set TERMINAL" "S_FAILED \<in> set TERMINAL" "S_CANCELED \<in> set TERMINAL"
  "STATUS_UNKNOWN \<in> set TERMINAL"
  by (simp_all add: TERMINAL_def)

lemma terminal_rank: "st \<in> set TERMINAL \<longleftrightarrow> RANK st = 9"
  by (cases st) simp_all

lemma open_iff: "st \<in> set OPEN_STATUSES \<longleftrightarrow> st \<notin> set TERMINAL"
  by (cases st) (simp_all add: OPEN_STATUSES_def)

lemma not_terminal_rank: "st \<notin> set TERMINAL \<Longrightarrow> RANK st \<le> 4"
  by (cases st) simp_all

lemma transition_simps [simp]:
  "tr_applied (refused w p) = False" "tr_patch (refused w p) = p" "tr_reason (refused w p) = Some w"
  "tr_applied (applied_with p) = True" "tr_patch (applied_with p) = p" "tr_reason (applied_with p) = None"
  by (simp_all add: refused_def applied_with_def)

lemma apply_patch_simps [simp]:
  "apply_patch [] r = r" "apply_patch (c # p) r = apply_patch p (set_column r c)"
  by (simp_all add: apply_patch_def)

lemma clamp_bounds: "lo \<le> hi \<Longrightarrow> lo \<le> clamp_time t lo hi \<and> clamp_time t lo hi \<le> hi"
  by (auto simp: clamp_time_def Let_def split: option.splits)

lemma clamp_lo: "lo \<le> clamp_time t lo hi \<or> clamp_time t lo hi = hi"
  by (auto simp: clamp_time_def Let_def split: option.splits)

text \<open>A refused event changes no status; it can only fill an empty evidence column or a signal time.\<close>

lemmas session_cases = applySessionEvent_def end_session_def backfill_def Let_def

lemma terminal_refused: "ss_status s \<in> set TERMINAL \<Longrightarrow> tr_patch (applySessionEvent s ev) = []"
  by (simp add: applySessionEvent_def Let_def)

lemma source_refused:
  "ev_source ev \<notin> set (ALLOWED_SOURCES (ev_type ev)) \<Longrightarrow> applySessionEvent s ev = refused source_not_allowed []"
  by (simp add: applySessionEvent_def)

lemma terminal_step: "ss_status s \<in> set TERMINAL \<Longrightarrow> session_step s ev = s"
  by (simp add: session_step_def terminal_refused)

lemma refused_status:
  "\<not> tr_applied (applySessionEvent s ev) \<Longrightarrow> ss_status (session_step s ev) = ss_status s"
  by (cases "ev_type ev") (auto simp: session_step_def session_cases)

lemma applied_not_terminal:
  "tr_applied (applySessionEvent s ev) \<Longrightarrow> ss_status s \<notin> set TERMINAL"
  by (auto simp: applySessionEvent_def Let_def split: if_splits)

lemma applied_allowed:
  "tr_applied (applySessionEvent s ev) \<Longrightarrow> ev_source ev \<in> set (ALLOWED_SOURCES (ev_type ev))"
  by (auto simp: applySessionEvent_def split: if_splits)

lemma applied_rank:
  assumes "tr_applied (applySessionEvent s ev)"
  shows "RANK (ss_status s) < RANK (ss_status (session_step s ev))"
proof -
  have "RANK (ss_status s) \<le> 4" using applied_not_terminal[OF assms] not_terminal_rank by blast
  with assms show ?thesis
    by (cases "ev_type ev") (auto simp: session_step_def session_cases split: if_splits)
qed

lemma patch_status_step:
  "ss_status (session_step s ev) =
     (case patch_status (tr_patch (applySessionEvent s ev)) of None \<Rightarrow> ss_status s | Some x \<Rightarrow> x)"
  by (cases "ev_type ev") (auto simp: session_step_def session_cases)

lemma step_rank: "RANK (ss_status s) \<le> RANK (ss_status (session_step s ev))"
  using applied_rank[of s ev] refused_status[of s ev] by (cases "tr_applied (applySessionEvent s ev)") auto

section \<open>The invariant and the machine contract\<close>

lemma round_sec_nonneg: "0 \<le> x \<Longrightarrow> 0 \<le> round_sec x"
  by (simp add: round_sec_def)

text \<open>
  Three shapes of row keep the invariant: one with only its evidence filled in, one still
  before confirmation, and one closed without claiming a duration.
\<close>

lemma inv_same:
  assumes "session_inv s" "ss_status s' = ss_status s" "ss_statusSource s' = ss_statusSource s"
    "ss_connectionConfirmedAt s' = ss_connectionConfirmedAt s" "ss_duration s' = ss_duration s"
    "ss_timingQuality s' = ss_timingQuality s" "ss_endedAt s' = ss_endedAt s"
    "ss_completedAt s' = ss_completedAt s" "ss_lastSignalAt s' = ss_lastSignalAt s"
  shows "session_inv s'"
  using assms by (simp add: session_inv_def)

lemma inv_early:
  assumes "session_inv s" "RANK (ss_status s) < 4" "RANK (ss_status s') < 4"
    "ss_connectionConfirmedAt s' = ss_connectionConfirmedAt s" "ss_duration s' = ss_duration s"
    "ss_timingQuality s' = ss_timingQuality s" "ss_endedAt s' = ss_endedAt s" "ss_completedAt s' = ss_completedAt s"
  shows "session_inv s'"
proof -
  have s: "ss_status s \<notin> set TERMINAL" "ss_status s \<noteq> SESSION_STARTED" "ss_status s \<noteq> SESSION_COMPLETED"
    "ss_status s' \<noteq> SESSION_STARTED"
    using assms(2,3) by (auto simp: terminal_rank)
  have "ss_connectionConfirmedAt s = None" "ss_duration s = None" "ss_timingQuality s \<noteq> ''MEASURED''"
    "ss_endedAt s = None" "ss_completedAt s = None"
    using assms(1,2) s by (auto simp: session_inv_def)
  with assms s show ?thesis by (simp add: session_inv_def)
qed

lemma inv_closed:
  "ss_status s' \<in> set TERMINAL \<Longrightarrow> ss_duration s' = None \<Longrightarrow> ss_timingQuality s' \<noteq> ''MEASURED'' \<Longrightarrow> session_inv s'"
  by (auto simp: session_inv_def terminal_rank)

lemma inv_backfill: "session_inv s \<Longrightarrow> session_inv (apply_patch (backfill s ty t) s)"
  by (erule inv_same) (simp_all add: backfill_def)

text \<open>Each event from a row that is not terminal, one lemma for each way it can go.\<close>

lemma forward_fields:
  assumes "ev_type ev \<in> {launch_requested, launcher_acknowledged, client_opened}"
  shows "ss_connectionConfirmedAt (session_step s ev) = ss_connectionConfirmedAt s"
    "ss_duration (session_step s ev) = ss_duration s"
    "ss_timingQuality (session_step s ev) = ss_timingQuality s"
    "ss_endedAt (session_step s ev) = ss_endedAt s"
    "ss_completedAt (session_step s ev) = ss_completedAt s"
  using assms by (auto simp: session_step_def session_cases)

lemma inv_forward:
  assumes "session_inv s" "ss_status s \<notin> set TERMINAL" "ev_type ev \<in> {launch_requested, launcher_acknowledged, client_opened}"
    and "ev_source ev \<in> set (ALLOWED_SOURCES (ev_type ev))"
  shows "session_inv (session_step s ev)"
proof (cases "tr_applied (applySessionEvent s ev)")
  case True
  note r = applied_rank[OF True]
  from assms(3) have "RANK (ss_status (session_step s ev)) < 4"
    using True assms(2,4) by (auto simp: session_step_def applySessionEvent_def Let_def split: if_splits)
  moreover from this r have "RANK (ss_status s) < 4" by simp
  ultimately show ?thesis
    using inv_early[OF assms(1)] forward_fields[OF assms(3)] by blast
next
  case False
  then have "tr_patch (applySessionEvent s ev) =
      backfill s (ev_type ev) (clamp_time (ev_occurredAt ev) (ss_createdAt s) (ev_receivedAt ev))"
    using assms by (auto simp: applySessionEvent_def Let_def split: if_splits)
  with assms(1) show ?thesis by (simp add: session_step_def inv_backfill)
qed

lemma inv_confirm:
  assumes "session_inv s" "ss_status s \<notin> set TERMINAL" "ev_type ev = connection_confirmed"
    and "ev_source ev \<in> set (ALLOWED_SOURCES (ev_type ev))"
  shows "session_inv (session_step s ev)"
proof (cases "ss_status s = SESSION_STARTED")
  case True
  with assms show ?thesis
    by (auto simp: session_step_def applySessionEvent_def Let_def session_inv_def split: option.splits)
next
  case False
  then have r: "RANK (ss_status s) < 4" using assms(2) by (cases "ss_status s") simp_all
  have "ss_duration s = None" "ss_endedAt s = None" "ss_completedAt s = None"
    using assms(1,2) by (auto simp: session_inv_def)
  with r assms(2,3,4) show ?thesis
    by (auto simp: session_step_def applySessionEvent_def Let_def session_inv_def split: option.splits)
qed

lemma inv_end:
  assumes "session_inv s" "ss_status s = SESSION_STARTED" "ev_source ev \<in> set (ALLOWED_SOURCES (ev_type ev))"
    and "q = ''MEASURED'' \<longrightarrow> ev_source ev = endpoint_agent"
  shows "session_inv (apply_patch (tr_patch (end_session s ev t reason q)) s)"
proof -
  obtain c where c: "ss_connectionConfirmedAt s = Some c" using assms(1,2) by (auto simp: session_inv_def)
  show ?thesis
    using assms c round_sec_nonneg by (auto simp: end_session_def session_inv_def Let_def)
qed

lemma inv_close:
  assumes "session_inv s" "ss_status s \<notin> set TERMINAL"
    and "ev_type ev \<in> {client_launch_failed, disconnected, technician_completed, technician_canceled,
           technician_failed, timeout_unknown, timeout_ended}"
    and "ev_source ev \<in> set (ALLOWED_SOURCES (ev_type ev))"
  shows "session_inv (session_step s ev)"
proof (cases "ss_status s = SESSION_STARTED")
  case True
  note e = inv_end[OF assms(1) True assms(4)]
  from assms(3) consider
      "ev_type ev \<in> {client_launch_failed, disconnected, technician_completed, technician_failed}"
    | "ev_type ev \<in> {technician_canceled, timeout_ended}" | "ev_type ev = timeout_unknown" by auto
  then show ?thesis
  proof cases
    case 1
    then show ?thesis using assms(4) True
      by (auto simp: session_step_def applySessionEvent_def Let_def intro!: e)
  next
    case 2
    then show ?thesis using assms(4) True
      by (intro inv_closed) (auto simp: session_step_def applySessionEvent_def Let_def)
  next
    case 3
    then show ?thesis using assms(1,4) True
      by (simp add: session_step_def applySessionEvent_def)
  qed
next
  case False
  from assms(3) consider "ev_type ev \<in> {disconnected, timeout_ended}"
    | "ev_type ev \<in> {client_launch_failed, technician_completed, technician_canceled, technician_failed, timeout_unknown}"
    by auto
  then show ?thesis
  proof cases
    case 1
    then show ?thesis using assms(1,2,4) False
      by (auto simp: session_step_def applySessionEvent_def)
  next
    case 2
    then show ?thesis using assms(2,4) False
      by (intro inv_closed) (auto simp: session_step_def applySessionEvent_def Let_def)
  qed
qed

lemma session_inv_step: "session_inv s \<Longrightarrow> session_inv (session_step s ev)"
proof -
  assume i: "session_inv s"
  show ?thesis
  proof (cases "ss_status s \<in> set TERMINAL \<or> ev_source ev \<notin> set (ALLOWED_SOURCES (ev_type ev))")
    case True
    then show ?thesis
    proof
      assume "ss_status s \<in> set TERMINAL"
      with i show ?thesis by (simp add: terminal_step)
    next
      assume "ev_source ev \<notin> set (ALLOWED_SOURCES (ev_type ev))"
      with i show ?thesis by (simp add: session_step_def source_refused)
    qed
  next
    case False
    with i show ?thesis
      using inv_forward[of s ev] inv_confirm[of s ev] inv_close[of s ev] by (cases "ev_type ev") simp_all
  qed
qed

interpretation session_machine:
  ranked_machine session_step session_inv "\<lambda>s. RANK (ss_status s)" "\<lambda>s. ss_status s \<in> set TERMINAL"
  by unfold_locales (simp_all add: session_inv_step step_rank terminal_step)

section \<open>Who can confirm, and what a measured duration rests on\<close>

lemma started_by_confirmation:
  "ss_status (session_step s ev) = SESSION_STARTED \<Longrightarrow> ss_status s \<noteq> SESSION_STARTED \<Longrightarrow>
   ev_type ev = connection_confirmed \<and> ev_source ev \<in> {endpoint_agent, technician}
   \<and> ss_statusSource (session_step s ev) = Some (source_name (ev_source ev))"
  by (cases "ev_type ev") (auto simp: session_step_def session_cases split: if_splits)

lemma started_stays_sourced:
  "ss_status (session_step s ev) = SESSION_STARTED \<Longrightarrow> ss_status s = SESSION_STARTED \<Longrightarrow>
   ss_statusSource (session_step s ev) = ss_statusSource s"
  by (cases "ev_type ev") (auto simp: session_step_def session_cases split: if_splits)

lemma source_agent: "source_name x = ''endpoint_agent'' \<longleftrightarrow> x = endpoint_agent"
  by (cases x) simp_all

lemma measured_by_disconnect:
  "ss_timingQuality (session_step s ev) = ''MEASURED'' \<Longrightarrow> ss_timingQuality s \<noteq> ''MEASURED'' \<Longrightarrow>
   ev_type ev = disconnected \<and> ev_source ev = endpoint_agent \<and> ss_status s = SESSION_STARTED
   \<and> ss_statusSource s = Some ''endpoint_agent''"
  by (cases "ev_type ev") (auto simp: session_step_def session_cases split: if_splits)

lemma confirmation_kept:
  "session_inv s \<Longrightarrow> ss_connectionConfirmedAt s = Some c \<Longrightarrow> ss_connectionConfirmedAt (session_step s ev) = Some c"
  by (cases "ss_status s"; cases "ev_type ev") (auto simp: session_step_def session_cases session_inv_def)

definition agent_event :: "session_event_type \<Rightarrow> session_event \<Rightarrow> bool" where
  "agent_event ty ev = (ev_type ev = ty \<and> ev_source ev = endpoint_agent)"

lemma run_evidence:
  assumes "ss_status s \<noteq> SESSION_STARTED" "ss_timingQuality s \<noteq> ''MEASURED''"
  shows "(ss_status (foldl session_step s es) = SESSION_STARTED
            \<and> ss_statusSource (foldl session_step s es) = Some ''endpoint_agent''
          \<longrightarrow> list_ex (agent_event connection_confirmed) es)
       \<and> (ss_timingQuality (foldl session_step s es) = ''MEASURED''
          \<longrightarrow> list_ex (agent_event connection_confirmed) es \<and> list_ex (agent_event disconnected) es)"
proof (induction es rule: rev_induct)
  case Nil
  then show ?case using assms by simp
next
  case (snoc ev es)
  let ?r = "foldl session_step s es"
  have "ss_status (session_step ?r ev) = SESSION_STARTED \<and> ss_statusSource (session_step ?r ev) = Some ''endpoint_agent''
      \<longrightarrow> list_ex (agent_event connection_confirmed) (es @ [ev])"
    using snoc started_by_confirmation[of ?r ev] started_stays_sourced[of ?r ev]
    by (cases "ss_status ?r = SESSION_STARTED")
      (auto simp: agent_event_def[of connection_confirmed ev] source_agent)
  moreover have "ss_timingQuality (session_step ?r ev) = ''MEASURED''
      \<longrightarrow> list_ex (agent_event connection_confirmed) (es @ [ev]) \<and> list_ex (agent_event disconnected) (es @ [ev])"
    using snoc measured_by_disconnect[of ?r ev]
    by (cases "ss_timingQuality ?r = ''MEASURED''") (auto simp: agent_event_def[of disconnected ev])
  ultimately show ?case by simp
qed

section \<open>Properties\<close>

text \<open>
  C32: Whatever events arrive, in whatever order, late or repeated: a session row keeps its
  invariant, its status never goes back, and once closed the row never changes again.
\<close>

theorem session_run_safe:
  assumes "session_inv s"
  shows "session_inv (foldl session_step s es)
    \<and> RANK (ss_status s) \<le> RANK (ss_status (foldl session_step s es))
    \<and> (ss_status s \<in> set TERMINAL \<longrightarrow> foldl session_step s es = s)"
  using session_machine.inv_run[OF assms] session_machine.rank_run[OF assms] session_machine.final_run[OF assms]
  by blast

definition fresh_row :: "id \<Rightarrow> session_row" where
  "fresh_row i = \<lparr>ss_id = i, ss_tenantId = ''t1'', ss_customerId = Some ''b1'', ss_technicianId = ''u1'',
      ss_endpointId = Some ''e1'', ss_contactName = None, ss_contactEmail = None, ss_isAdHoc = False,
      ss_adHocRustdeskId = None, ss_issueDescription = None, ss_status = S_PENDING, ss_startedAt = None,
      ss_completedAt = None, ss_duration = None, ss_launchRequestedAt = None, ss_launcherAckAt = None,
      ss_clientOpenedAt = None, ss_connectionConfirmedAt = None, ss_endedAt = None, ss_endReason = None,
      ss_endInferred = False, ss_statusSource = None, ss_statusChangedAt = None, ss_lastSignalAt = None,
      ss_timingQuality = ''UNKNOWN'', ss_manualWorkMinutes = None, ss_telemetryTokenHash = None,
      ss_supportRequestId = None, ss_notes = None, ss_disposition = None, ss_createdAt = 0\<rparr>"

definition at_event :: "session_event_type \<Rightarrow> event_source \<Rightarrow> time \<Rightarrow> session_event" where
  "at_event ty src t = \<lparr>ev_type = ty, ev_source = src, ev_occurredAt = Some t, ev_receivedAt = t\<rparr>"

definition measured_run :: "session_event list" where
  "measured_run = [at_event launch_requested server 1000, at_event connection_confirmed endpoint_agent 5000,
     at_event client_opened launcher 6000, at_event disconnected endpoint_agent 65400,
     at_event technician_failed technician 70000]"

theorem session_run_safe_witness:
  "session_inv (foldl session_step (fresh_row ''s1'') measured_run)
   \<and> ss_duration (foldl session_step (fresh_row ''s1'') measured_run) = Some 60"
proof
  have "session_inv (fresh_row ''s1'')" by (simp add: fresh_row_def session_inv_def)
  from session_run_safe[OF this] show "session_inv (foldl session_step (fresh_row ''s1'') measured_run)" by blast
  show "ss_duration (foldl session_step (fresh_row ''s1'') measured_run) = Some 60"
    by (simp add: measured_run_def at_event_def fresh_row_def session_step_def session_cases clamp_time_def
        or_else_def round_sec_def)
qed

text \<open>
  A measured duration rests on the endpoint's own evidence: on a row that never was
  confirmed, a run can end measured only if it contains a confirmation and a disconnection
  both reported by the endpoint agent, and only then does the row carry a duration, the
  rounded time between the two.
\<close>

theorem measured_needs_agent_evidence:
  assumes "session_inv s" "ss_status s \<noteq> SESSION_STARTED" "ss_timingQuality s \<noteq> ''MEASURED''"
    and "ss_duration (foldl session_step s es) = Some d"
  shows "list_ex (agent_event connection_confirmed) es \<and> list_ex (agent_event disconnected) es
    \<and> (\<exists>c e. ss_connectionConfirmedAt (foldl session_step s es) = Some c
         \<and> ss_endedAt (foldl session_step s es) = Some e \<and> c \<le> e \<and> d = round_sec (e - c))"
proof -
  have i: "session_inv (foldl session_step s es)" using session_machine.inv_run[OF assms(1)] .
  then have m: "ss_timingQuality (foldl session_step s es) = ''MEASURED''"
    using assms(4) unfolding session_inv_def by blast
  with i obtain c e where "ss_connectionConfirmedAt (foldl session_step s es) = Some c"
    "ss_endedAt (foldl session_step s es) = Some e" "c \<le> e"
    "ss_duration (foldl session_step s es) = Some (round_sec (e - c))"
    unfolding session_inv_def by blast
  with m run_evidence[OF assms(2,3), of es] assms(4) show ?thesis by auto
qed

theorem measured_needs_agent_evidence_witness:
  "list_ex (agent_event connection_confirmed) measured_run \<and> list_ex (agent_event disconnected) measured_run"
proof -
  have "session_inv (fresh_row ''s1'')" "ss_status (fresh_row ''s1'') \<noteq> SESSION_STARTED"
    "ss_timingQuality (fresh_row ''s1'') \<noteq> ''MEASURED''" by (simp_all add: fresh_row_def session_inv_def)
  moreover have "ss_duration (foldl session_step (fresh_row ''s1'') measured_run) = Some 60"
    by (simp add: measured_run_def at_event_def fresh_row_def session_step_def session_cases clamp_time_def
        or_else_def round_sec_def)
  ultimately show ?thesis using measured_needs_agent_evidence by blast
qed

text \<open>
  Only a confirmation by the endpoint agent or the technician ever makes a session
  started, and what made it so is what the row says; a client opening never does. A
  confirmation, once there, stays.
\<close>

theorem only_confirmation_starts:
  assumes "session_inv s"
  shows "(ss_status s \<noteq> SESSION_STARTED \<and> ss_status (session_step s ev) = SESSION_STARTED \<longrightarrow>
            ev_type ev = connection_confirmed \<and> ev_source ev \<in> {endpoint_agent, technician}
            \<and> ss_statusSource (session_step s ev) = Some (source_name (ev_source ev)))
       \<and> (\<forall>c. ss_connectionConfirmedAt s = Some c \<longrightarrow> ss_connectionConfirmedAt (session_step s ev) = Some c)"
  using started_by_confirmation confirmation_kept[OF assms] by blast

theorem only_confirmation_starts_witness:
  "ss_status (session_step (fresh_row ''s1'') (at_event client_opened launcher 5)) = CLIENT_OPENED
   \<and> ss_connectionConfirmedAt (session_step (session_step (fresh_row ''s1'')
        (at_event connection_confirmed technician 5)) (at_event technician_canceled technician 9)) = Some 5"
proof
  show "ss_status (session_step (fresh_row ''s1'') (at_event client_opened launcher 5)) = CLIENT_OPENED"
    by (simp add: at_event_def fresh_row_def session_step_def session_cases)
  let ?r = "session_step (fresh_row ''s1'') (at_event connection_confirmed technician 5)"
  have "session_inv (fresh_row ''s1'')" by (simp add: fresh_row_def session_inv_def)
  then have "session_inv ?r" by (rule session_inv_step)
  moreover have "ss_connectionConfirmedAt ?r = Some 5"
    by (simp add: at_event_def fresh_row_def session_step_def session_cases clamp_time_def)
  ultimately show "ss_connectionConfirmedAt (session_step ?r (at_event technician_canceled technician 9)) = Some 5"
    using only_confirmation_starts by blast
qed

end
