(* ===== verification/SessionEvents.thy ===== *)
theory SessionEvents
  imports SessionState
begin

text \<open>
  Persisting session events (\<open>sessions/session-events.service.ts\<close>): the event row under its
  unique key, the conditional update of the session, the bounded retry when another request
  got there first; the telemetry of a Connect script and the endpoint agent's signal.
  Between reading a session and writing it anything may happen to the database: that is the
  parameter \<open>f\<close>, indexed by the attempts left; \<open>quiet\<close> is the run with nobody else there.
\<close>

type_synonym interference = "nat \<Rightarrow> db \<Rightarrow> db"

definition quiet :: interference where
  "quiet = (\<lambda>k d. d)"

section \<open>Recording one event\<close>

record record_opts =
  op_dedupeKey :: "string option"
  op_actorId :: "id option"
  op_requireApplied :: bool

record record_result =
  rr_applied :: bool
  rr_reason :: "not_applied option"
  rr_patch :: "column list"
  rr_duplicate :: bool
  rr_status :: "session_status option"

datatype txn = Committed | Stale | Duplicate

definition session_by_id :: "db \<Rightarrow> id \<Rightarrow> session_row option" where
  "session_by_id s i = find_row (\<lambda>r. ss_id r = i) (sessions s)"

text \<open>The unique index on (session, dedupeKey); rows without a key never collide.\<close>

definition dedupe_taken :: "db \<Rightarrow> id \<Rightarrow> string option \<Rightarrow> bool" where
  "dedupe_taken s i key = (case key of
       None \<Rightarrow> False
     | Some k \<Rightarrow> list_ex (\<lambda>e. se_sessionId e = i \<and> se_dedupeKey e = Some k) (sessionEvents s))"

definition insert_event ::
  "id \<Rightarrow> string \<Rightarrow> event_source \<Rightarrow> time \<Rightarrow> string option \<Rightarrow> bool \<Rightarrow> db \<Rightarrow> db" where
  "insert_event i name src occurred key applied s =
     s\<lparr>sessionEvents := sessionEvents s @ [\<lparr>se_sessionId = i, se_event = name, se_source = source_name src,
        se_occurredAt = Some occurred, se_dedupeKey = key, se_applied = applied\<rparr>]\<rparr>"

text \<open>
  The transaction: the event row, then the update conditional on the status and change time
  that were read. A failure of either leaves nothing behind.
\<close>

definition write_event :: "session_row \<Rightarrow> session_event \<Rightarrow> record_opts \<Rightarrow> transition \<Rightarrow> db \<Rightarrow> txn \<times> db" where
  "write_event r ev opts res s =
     (if dedupe_taken s (ss_id r) (op_dedupeKey opts) then (Duplicate, s)
      else
        let s1 = insert_event (ss_id r) (event_name (ev_type ev)) (ev_source ev)
                   (case ev_occurredAt ev of Some t \<Rightarrow> t | None \<Rightarrow> ev_receivedAt ev)
                   (op_dedupeKey opts) (tr_applied res) s
        in if length (tr_patch res) > 0 then
          let P = (\<lambda>q. ss_id q = ss_id r \<and> ss_status q = ss_status r \<and> ss_statusChangedAt q = ss_statusChangedAt r)
          in if count_rows P (sessions s1) = 0 then (Stale, s)
             else (Committed, s1\<lparr>sessions := update_rows P (apply_patch (tr_patch res)) (sessions s1)\<rparr>)
        else (Committed, s1))"

text \<open>At most three attempts: the number left is the fuel, so the loop always ends.\<close>

fun record_tries ::
  "nat \<Rightarrow> interference \<Rightarrow> id \<Rightarrow> session_event \<Rightarrow> record_opts \<Rightarrow> db \<Rightarrow> record_result \<times> db" where
  "record_tries 0 f i ev opts s =
     (\<lparr>rr_applied = False, rr_reason = Some not_a_forward_step, rr_patch = [], rr_duplicate = False,
       rr_status = None\<rparr>, s)"
| "record_tries (Suc k) f i ev opts s =
     (case session_by_id s i of
        None \<Rightarrow> (\<lparr>rr_applied = False, rr_reason = Some session_closed, rr_patch = [], rr_duplicate = False,
                  rr_status = None\<rparr>, s)
      | Some r \<Rightarrow>
          let res = applySessionEvent r ev in
          if op_requireApplied opts \<and> \<not> tr_applied res then
            (\<lparr>rr_applied = False, rr_reason = tr_reason res, rr_patch = tr_patch res, rr_duplicate = False,
              rr_status = Some (ss_status r)\<rparr>, s)
          else (case write_event r ev opts res (f k s) of
              (Stale, s1) \<Rightarrow> record_tries k f i ev opts s1
            | (Duplicate, s1) \<Rightarrow>
                (\<lparr>rr_applied = False, rr_reason = Some not_a_forward_step, rr_patch = [], rr_duplicate = True,
                  rr_status = Some (ss_status r)\<rparr>, s1)
            | (Committed, s1) \<Rightarrow>
                (\<lparr>rr_applied = tr_applied res, rr_reason = tr_reason res, rr_patch = tr_patch res,
                  rr_duplicate = False,
                  rr_status = (case patch_status (tr_patch res) of Some x \<Rightarrow> Some x | None \<Rightarrow> Some (ss_status r))\<rparr>,
                 if tr_applied res
                 then audit_log ''SESSION_STATE_CHANGED'' (op_actorId opts) (Some (ss_tenantId r)) (ss_customerId r)
                        None (Some ''support_session'') (Some (ss_id r)) False s1
                 else s1)))"

definition record_event :: "interference \<Rightarrow> id \<Rightarrow> session_event \<Rightarrow> record_opts \<Rightarrow> db \<Rightarrow> record_result \<times> db" where
  "record_event f i ev opts s = record_tries 3 f i ev opts s"

section \<open>Telemetry tokens\<close>

text \<open>
  The random token and its SHA-256 digest come from the crypto library: the token is an
  argument, the digest the parameter \<open>sha\<close>. Updating a missing row throws.
\<close>

definition issueTelemetryToken :: "(string \<Rightarrow> string) \<Rightarrow> string \<Rightarrow> id \<Rightarrow> db \<Rightarrow> string result \<times> db" where
  "issueTelemetryToken sha token i s =
     (if session_by_id s i = None then (Inl (ServerError ''Record to update not found''), s)
      else (Inr token, s\<lparr>sessions := update_rows (\<lambda>r. ss_id r = i)
              (\<lambda>r. r\<lparr>ss_telemetryTokenHash := Some (sha token)\<rparr>) (sessions s)\<rparr>))"

definition is_lower_hex :: "char \<Rightarrow> bool" where
  "is_lower_hex c = (is_digit c \<or> (97 \<le> (of_char c :: nat) \<and> (of_char c :: nat) \<le> 102))"

definition recordScriptTelemetry ::
  "interference \<Rightarrow> (string \<Rightarrow> string) \<Rightarrow> time \<Rightarrow> string \<Rightarrow> session_event_type \<Rightarrow> db \<Rightarrow> record_result option \<times> db" where
  "recordScriptTelemetry f sha now token ty s =
     (if \<not> (length token = 48 \<and> list_all is_lower_hex token) then (None, s)
      else (case find_row (\<lambda>r. ss_telemetryTokenHash r = Some (sha token)) (sessions s) of
          None \<Rightarrow> (None, s)
        | Some r \<Rightarrow>
            if now - ss_createdAt r > 12 * hour_ms then (None, s)
            else (case record_event f (ss_id r)
                    \<lparr>ev_type = ty, ev_source = connect_script, ev_occurredAt = None, ev_receivedAt = now\<rparr>
                    \<lparr>op_dedupeKey = Some (''script:'' @ event_name ty), op_actorId = None, op_requireApplied = False\<rparr> s of
                (res, s1) \<Rightarrow> (Some res, s1))))"

section \<open>The endpoint agent's signal\<close>

text \<open>
  \<open>dec\<close> renders the minute bucket in the key of an ambiguous observation; the template
  literal of the source does that.
\<close>

definition agent_event_at :: "session_event_type \<Rightarrow> time \<Rightarrow> time \<Rightarrow> session_event" where
  "agent_event_at ty observedAt now =
     \<lparr>ev_type = ty, ev_source = endpoint_agent, ev_occurredAt = Some observedAt, ev_receivedAt = now\<rparr>"

definition agent_opts :: "string \<Rightarrow> record_opts" where
  "agent_opts key = \<lparr>op_dedupeKey = Some key, op_actorId = None, op_requireApplied = False\<rparr>"

text \<open>The insert whose unique-key failure the code swallows.\<close>

definition observe_ambiguous :: "time \<Rightarrow> string \<Rightarrow> db \<Rightarrow> session_row \<Rightarrow> db" where
  "observe_ambiguous observedAt key s c =
     (if dedupe_taken s (ss_id c) (Some key) then s
      else insert_event (ss_id c) ''connection_observed_ambiguous'' endpoint_agent observedAt (Some key) False s)"

definition open_on_endpoint :: "db \<Rightarrow> id \<Rightarrow> session_row list" where
  "open_on_endpoint s endpointId =
     take 20 (rev (sort_key ss_createdAt (rev (filter (\<lambda>r. ss_endpointId r = Some endpointId \<and> \<not> ss_isAdHoc r
        \<and> ss_status r \<in> set OPEN_STATUSES) (sessions s)))))"

definition recent_unconfirmed :: "time \<Rightarrow> session_row list \<Rightarrow> session_row list" where
  "recent_unconfirmed observedAt rows = filter (\<lambda>r. ss_status r \<noteq> SESSION_STARTED
     \<and> (case ss_launchRequestedAt r of Some t \<Rightarrow> t | None \<Rightarrow> ss_createdAt r) \<ge> observedAt - 30 * minute_ms) rows"

definition reconcileEndpointSignal ::
  "(int \<Rightarrow> string) \<Rightarrow> interference \<Rightarrow> id \<Rightarrow> int \<Rightarrow> time \<Rightarrow> time \<Rightarrow> db \<Rightarrow> db" where
  "reconcileEndpointSignal dec f endpointId activeCount observedAt now s =
     (let bucket = observedAt div minute_ms;
          opened = open_on_endpoint s endpointId;
          confirmed = filter (\<lambda>r. ss_status r = SESSION_STARTED) opened
      in if activeCount > 0 then
        let s1 = foldl (\<lambda>d r. d\<lparr>sessions := update_rows (\<lambda>q. ss_id q = ss_id r \<and> ss_status q = SESSION_STARTED)
                     (\<lambda>q. q\<lparr>ss_lastSignalAt := Some observedAt\<rparr>) (sessions d)\<rparr>) s confirmed;
            unexplained = activeCount - int (length confirmed)
        in if unexplained \<le> 0 then s1
        else (case recent_unconfirmed observedAt opened of
            [] \<Rightarrow> s1
          | [c] \<Rightarrow> snd (record_event f (ss_id c) (agent_event_at connection_confirmed observedAt now)
                     (agent_opts ''agent:confirm'') s1)
          | cs \<Rightarrow> foldl (observe_ambiguous observedAt (''agent:ambiguous:'' @ dec bucket)) s1 cs)
      else foldl (\<lambda>d r. snd (record_event f (ss_id r) (agent_event_at disconnected observedAt now)
             (agent_opts ''agent:disconnect'') d)) s confirmed)"

section \<open>Lemmas\<close>

lemma insert_event_sessions [simp]: "sessions (insert_event i n src t k ap s) = sessions s"
  by (simp add: insert_event_def)

text \<open>A closed session: the only row with its id is a terminal one.\<close>

definition closed_as :: "id \<Rightarrow> session_row \<Rightarrow> db \<Rightarrow> bool" where
  "closed_as i q s \<longleftrightarrow> q \<in> set (sessions s) \<and> (\<forall>r \<in> set (sessions s). ss_id r = i \<longrightarrow> r = q)
     \<and> ss_id q = i \<and> ss_status q \<in> set TERMINAL"

lemma set_column_id [simp]: "ss_id (set_column r c) = ss_id r"
  by (cases c) simp_all

lemma apply_patch_id [simp]: "ss_id (apply_patch p r) = ss_id r"
  by (induction p arbitrary: r) simp_all

lemma session_by_id_Some: "session_by_id s i = Some r \<Longrightarrow> r \<in> set (sessions s) \<and> ss_id r = i"
  by (auto simp: session_by_id_def dest: find_row_Some)

lemma closed_as_found:
  assumes "closed_as i q s"
  shows "session_by_id s i = Some q"
proof (cases "session_by_id s i")
  case None
  with assms show ?thesis by (auto simp: closed_as_def session_by_id_def find_row_None)
next
  case (Some r)
  from session_by_id_Some[OF this] assms have "r = q" by (simp add: closed_as_def)
  with Some show ?thesis by simp
qed

lemma closed_as_audit [simp]: "closed_as i q (audit_log a u t c ip r j d s) = closed_as i q s"
  by (simp add: closed_as_def)

lemma closed_as_insert [simp]: "closed_as i q (insert_event j n src t k ap s) = closed_as i q s"
  by (simp add: closed_as_def)

lemma applied_patch: "tr_applied (applySessionEvent s ev) \<Longrightarrow> tr_patch (applySessionEvent s ev) \<noteq> []"
  by (cases "ev_type ev") (auto simp: session_cases split: if_splits)

text \<open>Writing on a database where the session is already closed never applies and never touches it.\<close>

lemma write_event_closed:
  assumes "closed_as (ss_id r) q s"
    and "write_event r ev opts (applySessionEvent r ev) s = (out, s')"
  shows "closed_as (ss_id r) q s' \<and> (out = Committed \<longrightarrow> \<not> tr_applied (applySessionEvent r ev))"
proof (cases "tr_patch (applySessionEvent r ev) = []")
  case True
  then have "\<not> tr_applied (applySessionEvent r ev)" using applied_patch by blast
  with True assms show ?thesis by (auto simp: write_event_def Let_def split: if_splits)
next
  case False
  then have "ss_status r \<notin> set TERMINAL" using terminal_refused by blast
  with assms(1) have "\<forall>x \<in> set (sessions s). \<not> (ss_id x = ss_id r \<and> ss_status x = ss_status r
      \<and> ss_statusChangedAt x = ss_statusChangedAt r)" by (auto simp: closed_as_def)
  then have "count_rows (\<lambda>x. ss_id x = ss_id r \<and> ss_status x = ss_status r
      \<and> ss_statusChangedAt x = ss_statusChangedAt r) (sessions s) = 0" by simp
  with False assms show ?thesis by (auto simp: write_event_def Let_def split: if_splits)
qed

lemma record_tries_race:
  assumes "\<And>j d. closed_as i q (f j d)"
  shows "\<not> rr_applied (fst (record_tries k f i ev opts s)) \<and>
     (snd (record_tries k f i ev opts s) = s \<or> closed_as i q (snd (record_tries k f i ev opts s)))"
proof (induction k arbitrary: s)
  case 0
  then show ?case by simp
next
  case (Suc k)
  show ?case
  proof (cases "session_by_id s i")
    case None
    then show ?thesis by simp
  next
    case (Some r)
    then have r: "ss_id r = i" using session_by_id_Some by blast
    obtain out s1 where w: "write_event r ev opts (applySessionEvent r ev) (f k s) = (out, s1)" by fastforce
    have c: "closed_as i q s1" "out = Committed \<Longrightarrow> \<not> tr_applied (applySessionEvent r ev)"
      using write_event_closed[of r q "f k s", OF _ w] assms r by auto
    show ?thesis
      using Some w c Suc.IH[of s1] by (cases out) (auto simp: Let_def)
  qed
qed

text \<open>With nobody else there one attempt is enough: the row becomes what the machine says.\<close>

lemma write_event_quiet:
  assumes "session_by_id s i = Some r" "\<not> dedupe_taken s i (op_dedupeKey opts)"
  shows "\<exists>s'. write_event r ev opts (applySessionEvent r ev) s = (Committed, s')
     \<and> session_by_id s' i = Some (session_step r ev)
     \<and> (\<forall>j. j \<noteq> i \<longrightarrow> session_by_id s' j = session_by_id s j)"
proof -
  have r: "r \<in> set (sessions s)" "ss_id r = i" using session_by_id_Some[OF assms(1)] by auto
  let ?P = "\<lambda>q. ss_id q = ss_id r \<and> ss_status q = ss_status r \<and> ss_statusChangedAt q = ss_statusChangedAt r"
  let ?p = "apply_patch (tr_patch (applySessionEvent r ev))"
  have upd: "find_row (\<lambda>q. ss_id q = j) (update_rows ?P ?p (sessions s)) =
      map_option (\<lambda>q. if ?P q then ?p q else q) (session_by_id s j)" for j
    unfolding session_by_id_def by (rule find_row_update) simp
  have other: "map_option (\<lambda>q. if ?P q then ?p q else q) (session_by_id s j) = session_by_id s j" if "j \<noteq> i" for j
    using that r(2) session_by_id_Some[of s j] by (cases "session_by_id s j") auto
  have "count_rows ?P (sessions s) \<noteq> 0" using r(1) by auto
  then show ?thesis
    using assms r upd other
    by (auto simp: write_event_def Let_def session_step_def session_by_id_def)
qed

text \<open>An undisturbed write leaves the row the machine's next one; the key is looked at when the transaction runs.\<close>

lemma record_undisturbed:
  assumes "session_by_id s i = Some r" "session_by_id (f 2 s) i = Some r" "\<not> dedupe_taken (f 2 s) i (op_dedupeKey opts)"
    and "op_requireApplied opts \<longrightarrow> tr_applied (applySessionEvent r ev)"
  shows "rr_applied (fst (record_event f i ev opts s)) = tr_applied (applySessionEvent r ev)
     \<and> session_by_id (snd (record_event f i ev opts s)) i = Some (session_step r ev)
     \<and> rr_status (fst (record_event f i ev opts s)) = Some (ss_status (session_step r ev))
     \<and> (\<forall>j. j \<noteq> i \<longrightarrow> session_by_id (snd (record_event f i ev opts s)) j = session_by_id (f 2 s) j)"
proof -
  obtain s' where w: "write_event r ev opts (applySessionEvent r ev) (f 2 s) = (Committed, s')"
    "session_by_id s' i = Some (session_step r ev)" "\<forall>j. j \<noteq> i \<longrightarrow> session_by_id s' j = session_by_id (f 2 s) j"
    using write_event_quiet[OF assms(2,3)] by blast
  have st: "(case patch_status (tr_patch (applySessionEvent r ev)) of None \<Rightarrow> Some (ss_status r) | Some x \<Rightarrow> Some x)
      = Some (ss_status (session_step r ev))"
    by (simp add: patch_status_step split: option.splits)
  show ?thesis
    using assms(1,4) w st by (auto simp: record_event_def numeral_3_eq_3 numeral_2_eq_2 Let_def session_by_id_def)
qed

lemma record_repeated:
  assumes "session_by_id s i = Some r" "dedupe_taken (f 2 s) i (op_dedupeKey opts)"
    and "op_requireApplied opts \<longrightarrow> tr_applied (applySessionEvent r ev)"
  shows "snd (record_event f i ev opts s) = f 2 s \<and> \<not> rr_applied (fst (record_event f i ev opts s))
     \<and> rr_status (fst (record_event f i ev opts s)) = Some (ss_status r)"
proof -
  have "ss_id r = i" using session_by_id_Some[OF assms(1)] by simp
  with assms have "write_event r ev opts (applySessionEvent r ev) (f 2 s) = (Duplicate, f 2 s)"
    by (simp add: write_event_def)
  with assms(1,3) show ?thesis by (auto simp: record_event_def numeral_3_eq_3 numeral_2_eq_2 Let_def)
qed

lemma record_quiet:
  assumes "session_by_id s i = Some r" "\<not> dedupe_taken s i (op_dedupeKey opts)"
    and "op_requireApplied opts \<longrightarrow> tr_applied (applySessionEvent r ev)"
  shows "rr_applied (fst (record_event quiet i ev opts s)) = tr_applied (applySessionEvent r ev)
     \<and> session_by_id (snd (record_event quiet i ev opts s)) i = Some (session_step r ev)"
  using record_undisturbed[of s i r quiet opts ev] assms by (simp add: quiet_def)

text \<open>A second delivery of an event under the same key changes nothing.\<close>

lemma record_duplicate:
  assumes "session_by_id s i = Some r" "dedupe_taken s i (op_dedupeKey opts)"
  shows "snd (record_event quiet i ev opts s) = s \<and> \<not> rr_applied (fst (record_event quiet i ev opts s))"
proof (cases "op_requireApplied opts \<and> \<not> tr_applied (applySessionEvent r ev)")
  case True
  with assms(1) show ?thesis by (simp add: record_event_def numeral_3_eq_3 Let_def)
next
  case False
  with record_repeated[of s i r quiet opts ev] assms show ?thesis by (auto simp: quiet_def)
qed

text \<open>Recording leaves the key behind, so the next delivery is a duplicate.\<close>

lemma write_event_key:
  "write_event r ev opts res s = (Committed, s') \<Longrightarrow> op_dedupeKey opts \<noteq> None \<Longrightarrow>
   dedupe_taken s' (ss_id r) (op_dedupeKey opts)"
  by (auto simp: write_event_def Let_def dedupe_taken_def insert_event_def split: if_splits)

lemma dedupe_audit [simp]: "dedupe_taken (audit_log a u t c ip r j d s) i k = dedupe_taken s i k"
  by (simp add: dedupe_taken_def split: option.splits)

lemma record_leaves_key:
  assumes "session_by_id s i = Some r" "op_dedupeKey opts \<noteq> None"
    and "op_requireApplied opts \<longrightarrow> tr_applied (applySessionEvent r ev)"
  shows "dedupe_taken (snd (record_event quiet i ev opts s)) i (op_dedupeKey opts)"
proof (cases "dedupe_taken s i (op_dedupeKey opts)")
  case True
  with record_duplicate[OF assms(1)] show ?thesis by simp
next
  case False
  have r: "ss_id r = i" using session_by_id_Some[OF assms(1)] by simp
  obtain s' where w: "write_event r ev opts (applySessionEvent r ev) s = (Committed, s')"
    using write_event_quiet[OF assms(1) False] by blast
  have w': "write_event r ev opts (applySessionEvent r ev) (quiet 2 s) = (Committed, s')"
    using w by (simp add: quiet_def)
  have "dedupe_taken s' i (op_dedupeKey opts)" using write_event_key[OF w assms(2)] r by simp
  with assms(1,3) w' show ?thesis by (auto simp: record_event_def numeral_3_eq_3 numeral_2_eq_2 Let_def)
qed

section \<open>Attribution of the endpoint's signal\<close>

text \<open>The statuses of all sessions, which the signal-time updates and ambiguous marks leave alone.\<close>

definition statuses :: "db \<Rightarrow> (id \<times> session_status) list" where
  "statuses s = map (\<lambda>r. (ss_id r, ss_status r)) (sessions s)"

lemma statuses_touch [simp]:
  "statuses (d\<lparr>sessions := update_rows P (\<lambda>q. q\<lparr>ss_lastSignalAt := x\<rparr>) (sessions d)\<rparr>) = statuses d"
  by (simp add: statuses_def map_update_rows)

lemma statuses_touch_fold [simp]:
  "statuses (foldl (\<lambda>d r. d\<lparr>sessions := update_rows (P r) (\<lambda>q. q\<lparr>ss_lastSignalAt := x\<rparr>) (sessions d)\<rparr>) s rows)
     = statuses s"
  by (induction rows arbitrary: s) simp_all

lemma statuses_ambiguous [simp]: "statuses (observe_ambiguous t k d c) = statuses d"
  by (simp add: observe_ambiguous_def statuses_def)

lemma statuses_ambiguous_fold [simp]: "statuses (foldl (observe_ambiguous t k) d cs) = statuses d"
  by (induction cs arbitrary: d) simp_all

lemma reconcile_ambiguous:
  assumes "0 < activeCount" and "length (recent_unconfirmed observedAt (open_on_endpoint s e)) \<noteq> 1"
  shows "statuses (reconcileEndpointSignal dec f e activeCount observedAt now s) = statuses s"
proof -
  from assms(2) consider "recent_unconfirmed observedAt (open_on_endpoint s e) = []"
    | c c' cs where "recent_unconfirmed observedAt (open_on_endpoint s e) = c # c' # cs"
    by (cases "recent_unconfirmed observedAt (open_on_endpoint s e)" rule: remdups_adj.cases) auto
  then show ?thesis using assms(1) by cases (simp_all add: reconcileEndpointSignal_def Let_def)
qed

section \<open>Properties\<close>

text \<open>
  The race with another request: if the session is closed by somebody else between every
  read and the write that follows, the event is not applied, and either nothing at all was
  written or the closed row stands unchanged.
\<close>

theorem race_with_close_is_refused:
  assumes "\<And>j d. closed_as i q (f j d)"
  shows "\<not> rr_applied (fst (record_event f i ev opts s))
    \<and> (snd (record_event f i ev opts s) = s \<or> closed_as i q (snd (record_event f i ev opts s)))"
  unfolding record_event_def using record_tries_race[OF assms] .

definition close_it :: interference where
  "close_it = (\<lambda>k d. d\<lparr>sessions := [(fresh_row ''s1'')\<lparr>ss_status := S_CANCELED\<rparr>]\<rparr>)"

theorem race_with_close_is_refused_witness:
  "\<not> rr_applied (fst (record_event close_it ''s1'' (at_event connection_confirmed technician 5)
       (agent_opts ''k'') (empty_db\<lparr>sessions := [fresh_row ''s1'']\<rparr>)))"
proof -
  have "closed_as ''s1'' ((fresh_row ''s1'')\<lparr>ss_status := S_CANCELED\<rparr>) (close_it j d)" for j d
    by (simp add: closed_as_def close_it_def fresh_row_def)
  then show ?thesis using race_with_close_is_refused[where f = close_it] by blast
qed

text \<open>
  C33: Recording does what the state machine says, whatever other requests do to other rows between the read and the
  write: the row becomes the machine's next row, the reported status is its status, and recording changes no other session.
  Only an event whose key is on record by then, or a refused transition where an applied one is required, changes
  nothing, and the answer says so.
\<close>

theorem recording_refines_machine:
  assumes "session_by_id s i = Some r" "session_by_id (f 2 s) i = Some r"
  shows "if op_requireApplied opts \<and> \<not> tr_applied (applySessionEvent r ev)
       then snd (record_event f i ev opts s) = s \<and> \<not> rr_applied (fst (record_event f i ev opts s))
         \<and> rr_status (fst (record_event f i ev opts s)) = Some (ss_status r)
     else if dedupe_taken (f 2 s) i (op_dedupeKey opts)
       then snd (record_event f i ev opts s) = f 2 s \<and> \<not> rr_applied (fst (record_event f i ev opts s))
         \<and> rr_status (fst (record_event f i ev opts s)) = Some (ss_status r)
     else rr_applied (fst (record_event f i ev opts s)) = tr_applied (applySessionEvent r ev)
         \<and> session_by_id (snd (record_event f i ev opts s)) i = Some (session_step r ev)
         \<and> rr_status (fst (record_event f i ev opts s)) = Some (ss_status (session_step r ev))
         \<and> (\<forall>j. j \<noteq> i \<longrightarrow> session_by_id (snd (record_event f i ev opts s)) j = session_by_id (f 2 s) j)"
proof (cases "op_requireApplied opts \<and> \<not> tr_applied (applySessionEvent r ev)")
  case True
  then show ?thesis using assms(1) by (simp add: record_event_def numeral_3_eq_3 Let_def)
next
  case False
  then show ?thesis
    using record_undisturbed[of s i r f opts ev] record_repeated[of s i r f opts ev] assms by auto
qed

theorem recording_refines_machine_witness:
  "rr_applied (fst (record_event quiet ''s1'' (at_event connection_confirmed technician 5)
       (agent_opts ''k'') (empty_db\<lparr>sessions := [fresh_row ''s1'']\<rparr>)))"
  using recording_refines_machine[of "empty_db\<lparr>sessions := [fresh_row ''s1'']\<rparr>" "''s1''" "fresh_row ''s1''" quiet
      "agent_opts ''k''" "at_event connection_confirmed technician 5"]
  by (simp add: session_by_id_def fresh_row_def dedupe_taken_def agent_opts_def empty_db_def at_event_def
      applySessionEvent_def Let_def quiet_def)

text \<open>
  Delivering an event twice under one key is delivering it once: the second delivery
  changes nothing and reports that it was not applied.
\<close>

theorem second_delivery_is_noop:
  assumes "session_by_id s i = Some r" "op_dedupeKey opts \<noteq> None" "\<not> op_requireApplied opts"
  shows "snd (record_event quiet i ev' opts (snd (record_event quiet i ev opts s))) = snd (record_event quiet i ev opts s)
    \<and> \<not> rr_applied (fst (record_event quiet i ev' opts (snd (record_event quiet i ev opts s))))"
proof -
  have k: "dedupe_taken (snd (record_event quiet i ev opts s)) i (op_dedupeKey opts)"
    using record_leaves_key[OF assms(1,2)] assms(3) by blast
  have "session_by_id (snd (record_event quiet i ev opts s)) i \<noteq> None"
  proof (cases "dedupe_taken s i (op_dedupeKey opts)")
    case True
    then show ?thesis using record_duplicate[OF assms(1)] assms(1) by simp
  next
    case False
    then show ?thesis using record_quiet[OF assms(1) False, of ev] assms(3) by simp
  qed
  then show ?thesis using record_duplicate[OF _ k] by blast
qed

theorem second_delivery_is_noop_witness:
  "\<not> rr_applied (fst (record_event quiet ''s1'' (at_event disconnected endpoint_agent 9) (agent_opts ''k'')
       (snd (record_event quiet ''s1'' (at_event connection_confirmed endpoint_agent 5) (agent_opts ''k'')
          (empty_db\<lparr>sessions := [fresh_row ''s1'']\<rparr>)))))"
  using second_delivery_is_noop[of "empty_db\<lparr>sessions := [fresh_row ''s1'']\<rparr>" "''s1''" "fresh_row ''s1''" "agent_opts ''k''"]
  by (simp add: session_by_id_def fresh_row_def agent_opts_def empty_db_def)

text \<open>
  The endpoint agent's signal is attributed conservatively: unless exactly one recent
  unconfirmed launch exists for the computer, a running connection changes the status of no
  session at all.
\<close>

theorem ambiguous_signal_confirms_nothing:
  assumes "0 < activeCount" "length (recent_unconfirmed observedAt (open_on_endpoint s e)) \<noteq> 1"
  shows "statuses (reconcileEndpointSignal dec f e activeCount observedAt now s) = statuses s"
  using reconcile_ambiguous[OF assms] .

theorem ambiguous_signal_confirms_nothing_witness:
  "statuses (reconcileEndpointSignal (\<lambda>n. ''n'') quiet ''e1'' 1 10 10
      (empty_db\<lparr>sessions := [fresh_row ''s1'', fresh_row ''s2'']\<rparr>)) = [(''s1'', S_PENDING), (''s2'', S_PENDING)]"
proof -
  have "length (recent_unconfirmed 10 (open_on_endpoint (empty_db\<lparr>sessions := [fresh_row ''s1'', fresh_row ''s2'']\<rparr>) ''e1'')) \<noteq> 1"
    by (simp add: recent_unconfirmed_def open_on_endpoint_def empty_db_def fresh_row_def OPEN_STATUSES_def)
  from ambiguous_signal_confirms_nothing[OF _ this, of 1]
  show ?thesis by (simp add: statuses_def empty_db_def fresh_row_def)
qed

end
