(* ===== verification/Sessions.thy ===== *)
theory Sessions
  imports AccessControl SessionEvents
begin

text \<open>
  Support sessions as the API offers them (\<open>sessions/sessions.service.ts\<close>): who may read and
  who may change one, opening, closing, reporting, statistics and the two sweepers.
\<close>

section \<open>Read scope\<close>

text \<open>
  A \<open>where\<close> object: an absent key constrains nothing, and a key written again by a later
  spread replaces the earlier one.
\<close>

record session_where =
  wh_customerId :: "id option"
  wh_technicianId :: "id option"
  wh_status :: "session_status option"
  wh_endpointId :: "id option"

definition where_holds :: "session_where \<Rightarrow> session_row \<Rightarrow> bool" where
  "where_holds w r =
     ((case wh_customerId w of None \<Rightarrow> True | Some c \<Rightarrow> ss_customerId r = Some c)
      \<and> (case wh_technicianId w of None \<Rightarrow> True | Some t \<Rightarrow> ss_technicianId r = t)
      \<and> (case wh_status w of None \<Rightarrow> True | Some st \<Rightarrow> ss_status r = st)
      \<and> (case wh_endpointId w of None \<Rightarrow> True | Some e \<Rightarrow> ss_endpointId r = Some e))"

definition sessionScope :: "actor \<Rightarrow> id option \<Rightarrow> session_where result" where
  "sessionScope actor businessId = (case resolveScope actor businessId of
       Inl e \<Rightarrow> Inl e
     | Inr scope \<Rightarrow>
         let canSeeOthers = (isBusinessOwner actor \<or> can actor CAP_HISTORY_VIEW) in
         Inr \<lparr>wh_customerId = or_null scope,
              wh_technicianId = (if canSeeOthers then None else Some (a_userId actor)),
              wh_status = None, wh_endpointId = None\<rparr>)"

definition loadForMutation :: "db \<Rightarrow> actor \<Rightarrow> id \<Rightarrow> session_row result" where
  "loadForMutation s actor i = (case sessionScope actor None of
       Inl e \<Rightarrow> Inl e
     | Inr w \<Rightarrow> (case find_row (\<lambda>r. ss_id r = i \<and> where_holds w r) (sessions s) of
         None \<Rightarrow> Inl (NotFound ''Session not found'')
       | Some r \<Rightarrow>
           if ss_technicianId r \<noteq> a_userId actor \<and> \<not> isBusinessOwner actor
           then Inl (Forbidden ''Only the technician who ran this session, or a Business Owner, can change it'')
           else Inr r))"

record find_opts =
  fo_status :: "session_status option"
  fo_technicianId :: "id option"
  fo_endpointId :: "id option"
  fo_businessId :: "id option"
  fo_page :: "int option"
  fo_limit :: "nat option"

record session_page =
  sp_sessions :: "session_row list"
  sp_total :: nat
  sp_page :: int
  sp_limit :: nat

text \<open>
  The spread of \<open>technicianId\<close> after \<open>sessionScope\<close> replaces the scope's own
  \<open>technicianId\<close>. A negative offset is refused by the database client; a negative limit is
  not modelled.
\<close>

definition session_filter :: "actor \<Rightarrow> find_opts \<Rightarrow> session_where result" where
  "session_filter actor opts = (case sessionScope actor (fo_businessId opts) of
       Inl e \<Rightarrow> Inl e
     | Inr w \<Rightarrow> Inr (w\<lparr>wh_status := fo_status opts,
          wh_technicianId := (if truthy (fo_technicianId opts) then fo_technicianId opts else wh_technicianId w),
          wh_endpointId := or_null (fo_endpointId opts)\<rparr>))"

definition findAll :: "db \<Rightarrow> actor \<Rightarrow> find_opts \<Rightarrow> session_page result" where
  "findAll s actor opts =
     (let page = (case fo_page opts of None \<Rightarrow> 1 | Some p \<Rightarrow> p);
          limit = min (case fo_limit opts of None \<Rightarrow> 50 | Some l \<Rightarrow> l) 200;
          skip = (page - 1) * int limit
      in (case session_filter actor opts of
            Inl e \<Rightarrow> Inl e
          | Inr w \<Rightarrow>
              if skip < 0 then Inl (ServerError ''Invalid value for skip argument'')
              else Inr \<lparr>sp_sessions = take limit (drop (nat skip)
                        (rev (sort_key ss_createdAt (rev (filter (where_holds w) (sessions s)))))),
                   sp_total = count_rows (where_holds w) (sessions s),
                   sp_page = page, sp_limit = limit\<rparr>))"

definition findOne :: "db \<Rightarrow> actor \<Rightarrow> id \<Rightarrow> session_row result" where
  "findOne s actor i = (case sessionScope actor None of
       Inl e \<Rightarrow> Inl e
     | Inr w \<Rightarrow> (case find_row (\<lambda>r. ss_id r = i \<and> where_holds w r) (sessions s) of
         None \<Rightarrow> Inl (NotFound ''Session not found'')
       | Some r \<Rightarrow> Inr r))"

section \<open>Opening a session\<close>

record create_session_dto =
  cs_endpointId :: "id option"
  cs_adHocRustdeskId :: "string option"
  cs_contactName :: "string option"
  cs_contactEmail :: "string option"
  cs_issueDescription :: "string option"

text \<open>A new row with the schema's defaults.\<close>

definition new_session :: "id \<Rightarrow> time \<Rightarrow> id \<Rightarrow> id option \<Rightarrow> id \<Rightarrow> session_row" where
  "new_session i now tenantId customerId technicianId =
     \<lparr>ss_id = i, ss_tenantId = tenantId, ss_customerId = customerId, ss_technicianId = technicianId,
      ss_endpointId = None, ss_contactName = None, ss_contactEmail = None, ss_isAdHoc = False,
      ss_adHocRustdeskId = None, ss_issueDescription = None, ss_status = S_PENDING, ss_startedAt = None,
      ss_completedAt = None, ss_duration = None, ss_launchRequestedAt = None, ss_launcherAckAt = None,
      ss_clientOpenedAt = None, ss_connectionConfirmedAt = None, ss_endedAt = None, ss_endReason = None,
      ss_endInferred = False, ss_statusSource = None, ss_statusChangedAt = None, ss_lastSignalAt = None,
      ss_timingQuality = ''UNKNOWN'', ss_manualWorkMinutes = None, ss_telemetryTokenHash = None,
      ss_supportRequestId = None, ss_notes = None, ss_disposition = None, ss_createdAt = now\<rparr>"

text \<open>\<open>endpoint.tenantId!\<close>: a computer without a tenant makes the insert fail.\<close>

definition create_session ::
  "zone_db \<Rightarrow> time \<Rightarrow> id \<Rightarrow> actor \<Rightarrow> create_session_dto \<Rightarrow> db \<Rightarrow> session_row result \<times> db" where
  "create_session tz now newId actor dto s =
     (if \<not> truthy (cs_endpointId dto) \<and> \<not> truthy (cs_adHocRustdeskId dto)
      then (Inl (BadRequest ''Either endpointId or adHocRustdeskId is required''), s)
      else if truthy (cs_adHocRustdeskId dto)
      then (Inl (BadRequest ''Use Quick Connect for ad-hoc support sessions''), s)
      else (case assertCapability actor [CAP_COMPUTERS_CONNECT] of
          Inl e \<Rightarrow> (Inl e, s)
        | Inr _ \<Rightarrow> (case assertEndpointInScope s actor (the (cs_endpointId dto)) of
            Inl e \<Rightarrow> (Inl e, s)
          | Inr ep \<Rightarrow>
              if \<not> canReachEndpoint tz s actor ep now then
                (Inl (Forbidden ''You do not have access to this computer''),
                 audit_log ''SESSION_LAUNCHED'' (Some (a_userId actor)) (e_tenantId ep) (e_customerId ep) (a_ip actor)
                   (Some ''support_session'') None True s)
              else (case e_tenantId ep of
                  None \<Rightarrow> (Inl (ServerError ''tenantId must not be null''), s)
                | Some t \<Rightarrow>
                    let r = (new_session newId now t (e_customerId ep) (a_userId actor))
                              \<lparr>ss_endpointId := Some (e_id ep), ss_contactName := cs_contactName dto,
                               ss_contactEmail := cs_contactEmail dto,
                               ss_issueDescription := cs_issueDescription dto\<rparr>
                    in (Inr r, audit_log ''SESSION_LAUNCHED'' (Some (a_userId actor)) (Some t) (e_customerId ep)
                          (a_ip actor) (Some ''support_session'') (Some newId) False
                          (s\<lparr>sessions := sessions s @ [r]\<rparr>))))))"

section \<open>Changing a session\<close>

definition technician_event :: "session_event_type \<Rightarrow> time \<Rightarrow> session_event" where
  "technician_event ty now =
     \<lparr>ev_type = ty, ev_source = technician, ev_occurredAt = None, ev_receivedAt = now\<rparr>"

definition technician_opts :: "actor \<Rightarrow> string \<Rightarrow> record_opts" where
  "technician_opts actor key =
     \<lparr>op_dedupeKey = Some key, op_actorId = Some (a_userId actor), op_requireApplied = True\<rparr>"

record complete_dto =
  cd_notes :: "string option"
  cd_disposition :: "string option"
  cd_manualWorkMinutes :: "int option"

definition close_out :: "id \<Rightarrow> complete_dto \<Rightarrow> db \<Rightarrow> db" where
  "close_out i dto s = s\<lparr>sessions := update_rows (\<lambda>r. ss_id r = i)
     (\<lambda>r. r\<lparr>ss_notes := (case cd_notes dto of None \<Rightarrow> ss_notes r | Some x \<Rightarrow> Some x),
            ss_disposition := (case cd_disposition dto of None \<Rightarrow> ss_disposition r | Some x \<Rightarrow> Some x),
            ss_manualWorkMinutes := (case cd_manualWorkMinutes dto of None \<Rightarrow> ss_manualWorkMinutes r | Some x \<Rightarrow> Some x)\<rparr>)
     (sessions s)\<rparr>"

definition complete_session ::
  "interference \<Rightarrow> time \<Rightarrow> actor \<Rightarrow> id \<Rightarrow> complete_dto \<Rightarrow> db \<Rightarrow> session_row option result \<times> db" where
  "complete_session f now actor i dto s = (case loadForMutation s actor i of
       Inl e \<Rightarrow> (Inl e, s)
     | Inr r \<Rightarrow>
         if ss_status r \<in> set TERMINAL then (Inl (Conflict ''Session is already closed''), s)
         else (case record_event f i (technician_event technician_completed now)
                 (technician_opts actor ''technician:completed'') s of
             (res, s1) \<Rightarrow>
               if \<not> rr_applied res then (Inl (Conflict ''Session was closed by another request''), s1)
               else
                 let s2 = audit_log ''SESSION_COMPLETED'' (Some (a_userId actor)) (Some (ss_tenantId r)) (ss_customerId r)
                            (a_ip actor) (Some ''support_session'') (Some i) False (close_out i dto s1)
                 in (Inr (session_by_id s2 i), s2)))"

definition cancel_session ::
  "interference \<Rightarrow> time \<Rightarrow> actor \<Rightarrow> id \<Rightarrow> db \<Rightarrow> session_row option result \<times> db" where
  "cancel_session f now actor i s = (case loadForMutation s actor i of
       Inl e \<Rightarrow> (Inl e, s)
     | Inr r \<Rightarrow>
         if ss_status r \<in> set TERMINAL then (Inl (Conflict ''Session is already closed''), s)
         else (case record_event f i (technician_event technician_canceled now)
                 (technician_opts actor ''technician:canceled'') s of
             (res, s1) \<Rightarrow>
               if \<not> rr_applied res then (Inl (Conflict ''Session was closed by another request''), s1)
               else
                 let s2 = audit_log ''SESSION_CANCELED'' (Some (a_userId actor)) (Some (ss_tenantId r)) (ss_customerId r)
                            (a_ip actor) (Some ''support_session'') (Some i) False s1
                 in (Inr (session_by_id s2 i), s2)))"

text \<open>\<open>EVENT_NAME_RE\<close>: \<open>[a-z][a-z0-9_]{0,63}\<close>, anchored.\<close>

definition is_lower :: "char \<Rightarrow> bool" where
  "is_lower c = (97 \<le> (of_char c :: nat) \<and> (of_char c :: nat) \<le> 122)"

definition EVENT_NAME_RE :: "string \<Rightarrow> bool" where
  "EVENT_NAME_RE s = (case s of [] \<Rightarrow> False
     | c # cs \<Rightarrow> is_lower c \<and> length cs \<le> 63 \<and> list_all (\<lambda>x. is_lower x \<or> is_digit x \<or> x = CHR ''_'') cs)"

definition reported_event :: "string \<Rightarrow> session_event_type option" where
  "reported_event name = (if name = ''connected'' then Some connection_confirmed
     else if name = ''failed'' then Some technician_failed else None)"

definition addEvent ::
  "interference \<Rightarrow> time \<Rightarrow> actor \<Rightarrow> id \<Rightarrow> json \<Rightarrow> db \<Rightarrow> record_result result \<times> db" where
  "addEvent f now actor i event s = (case event of
       JStr name \<Rightarrow>
         if \<not> EVENT_NAME_RE name then (Inl (BadRequest ''event must be a lower-case identifier''), s)
         else (case loadForMutation s actor i of
             Inl e \<Rightarrow> (Inl e, s)
           | Inr r \<Rightarrow>
               if ss_status r \<in> set TERMINAL then (Inl (Conflict ''Session is already closed''), s)
               else (case reported_event name of
                   None \<Rightarrow> (Inl (BadRequest ''Unsupported event''), s)
                 | Some ty \<Rightarrow> (case record_event f i (technician_event ty now)
                       (technician_opts actor (''technician:'' @ event_name ty)) s of
                     (res, s1) \<Rightarrow>
                       if \<not> rr_applied res
                       then (Inl (Conflict ''does not apply to this session in its current state''), s1)
                       else (Inr res, s1))))
     | _ \<Rightarrow> (Inl (BadRequest ''event must be a lower-case identifier''), s))"

section \<open>Statistics\<close>

record session_stats =
  st_total :: nat
  st_completed :: nat
  st_confirmedActive :: nat
  st_launchedUnconfirmed :: nat
  st_canceled :: nat
  st_unknown :: nat
  st_failed :: nat
  st_avgDurationSeconds :: "int option"
  st_measuredSessions :: nat

text \<open>The average of a column of integers, rounded: halves go up.\<close>

definition average_rounded :: "int list \<Rightarrow> int" where
  "average_rounded xs = (2 * sum_list xs + int (length xs)) div (2 * int (length xs))"

definition getStats :: "db \<Rightarrow> time \<Rightarrow> actor \<Rightarrow> int \<Rightarrow> id option \<Rightarrow> session_stats result" where
  "getStats s now actor days businessId = (case sessionScope actor businessId of
       Inl e \<Rightarrow> Inl e
     | Inr w \<Rightarrow>
         let since = now - days * day_ms;
             cnt = (\<lambda>P. count_rows (\<lambda>r. where_holds w r \<and> P r) (sessions s));
             recent = (\<lambda>r. ss_createdAt r \<ge> since);
             durations = concat (map (\<lambda>r. case ss_duration r of None \<Rightarrow> [] | Some d \<Rightarrow> [d])
               (filter (\<lambda>r. where_holds w r \<and> ss_timingQuality r = ''MEASURED'' \<and> recent r) (sessions s)))
         in Inr \<lparr>st_total = cnt recent,
              st_completed = cnt (\<lambda>r. ss_status r = SESSION_COMPLETED \<and> recent r),
              st_confirmedActive = cnt (\<lambda>r. ss_status r = SESSION_STARTED),
              st_launchedUnconfirmed =
                cnt (\<lambda>r. ss_status r \<in> {LAUNCH_REQUESTED, LAUNCHER_ACKNOWLEDGED, CLIENT_OPENED}),
              st_canceled = cnt (\<lambda>r. ss_status r = S_CANCELED \<and> recent r),
              st_unknown = cnt (\<lambda>r. ss_status r = STATUS_UNKNOWN \<and> recent r),
              st_failed = cnt (\<lambda>r. ss_status r = S_FAILED \<and> recent r),
              st_avgDurationSeconds = (if length durations > 0 then Some (average_rounded durations) else None),
              st_measuredSessions = length durations\<rparr>)"

section \<open>Sweepers\<close>

text \<open>One swept row: the event, and the count of those that applied.\<close>

definition sweep_one ::
  "interference \<Rightarrow> session_event_type \<Rightarrow> string \<Rightarrow> time \<Rightarrow> nat \<times> db \<Rightarrow> session_row \<Rightarrow> nat \<times> db" where
  "sweep_one f ty key now acc r = (case acc of (n, d) \<Rightarrow>
     (case record_event f (ss_id r)
          \<lparr>ev_type = ty, ev_source = timeout, ev_occurredAt = None, ev_receivedAt = now\<rparr>
          \<lparr>op_dedupeKey = Some key, op_actorId = None, op_requireApplied = False\<rparr> d of
        (res, d1) \<Rightarrow> (if rr_applied res then n + 1 else n, d1)))"

definition expireStaleSessions :: "interference \<Rightarrow> time \<Rightarrow> int \<Rightarrow> db \<Rightarrow> nat \<times> db" where
  "expireStaleSessions f now thresholdMinutes s =
     (let early = take 500 (filter (\<lambda>r. \<not> ss_isAdHoc r
              \<and> ss_status r \<in> {S_PENDING, LAUNCH_REQUESTED, LAUNCHER_ACKNOWLEDGED}
              \<and> ss_createdAt r < now - thresholdMinutes * minute_ms) (sessions s));
          opened = take 500 (filter (\<lambda>r. ss_status r = CLIENT_OPENED \<and> ss_createdAt r < now - 12 * hour_ms) (sessions s))
      in foldl (sweep_one f timeout_unknown ''timeout:unknown'' now) (0, s) (early @ opened))"

text \<open>Comparisons with a null column are not true, also under \<open>NOT\<close>.\<close>

definition older :: "time option \<Rightarrow> time \<Rightarrow> bool" where
  "older x t = (case x of None \<Rightarrow> False | Some v \<Rightarrow> v < t)"

definition abandoned :: "time \<Rightarrow> int \<Rightarrow> session_row \<Rightarrow> bool" where
  "abandoned now thresholdHours r =
     (ss_status r = SESSION_STARTED \<and>
      (ss_statusSource r = Some ''endpoint_agent'' \<and> older (ss_lastSignalAt r) (now - 60 * minute_ms)
       \<or> (ss_statusSource r \<noteq> None \<and> ss_statusSource r \<noteq> Some ''endpoint_agent'')
          \<and> older (ss_lastSignalAt r) (now - thresholdHours * hour_ms)
       \<or> ss_lastSignalAt r = None \<and> older (ss_connectionConfirmedAt r) (now - thresholdHours * hour_ms)))"

definition closeAbandonedSessions :: "interference \<Rightarrow> time \<Rightarrow> int \<Rightarrow> db \<Rightarrow> nat \<times> db" where
  "closeAbandonedSessions f now thresholdHours s =
     foldl (sweep_one f timeout_ended ''timeout:ended'' now) (0, s)
       (take 500 (filter (abandoned now thresholdHours) (sessions s)))"

section \<open>Lemmas\<close>

lemma new_session_inv [simp]: "session_inv (new_session i now t c u)"
  by (simp add: new_session_def session_inv_def)

lemma sessionScope_Inr:
  assumes "sessionScope a b = Inr w" "\<not> a_isPlatformAdmin a"
  shows "wh_customerId w = a_businessId a \<and> truthy (a_businessId a)"
proof -
  obtain sc where sc: "resolveScope a b = Inr sc"
    using assms(1) by (auto simp: sessionScope_def split: sum.splits)
  from resolveScope_pinned[OF assms(2) sc] assms(1) sc show ?thesis
    by (auto simp: sessionScope_def Let_def or_null_def)
qed

lemma where_business:
  "where_holds w r \<Longrightarrow> wh_customerId w = b \<Longrightarrow> truthy b \<Longrightarrow> ss_customerId r = b"
  by (auto simp: where_holds_def truthy_iff)

lemma loadForMutation_Inr:
  assumes "loadForMutation s a i = Inr r"
  shows "r \<in> set (sessions s) \<and> ss_id r = i
     \<and> (ss_technicianId r = a_userId a \<or> isBusinessOwner a)
     \<and> (\<not> a_isPlatformAdmin a \<longrightarrow> ss_customerId r = a_businessId a)"
proof -
  obtain w where w: "sessionScope a None = Inr w"
    and f: "find_row (\<lambda>r. ss_id r = i \<and> where_holds w r) (sessions s) = Some r"
    and o: "ss_technicianId r = a_userId a \<or> isBusinessOwner a"
    using assms by (auto simp: loadForMutation_def split: sum.splits option.splits if_splits)
  have "ss_customerId r = a_businessId a" if "\<not> a_isPlatformAdmin a"
    using where_business sessionScope_Inr[OF w that] find_row_Some[OF f] by blast
  with find_row_Some[OF f] o show ?thesis by blast
qed

lemma loadForMutation_denied:
  "ss_technicianId r \<noteq> a_userId a \<Longrightarrow> \<not> isBusinessOwner a \<Longrightarrow> loadForMutation s a i \<noteq> Inr r"
  using loadForMutation_Inr by blast

lemma session_filter_business:
  assumes "session_filter a opts = Inr w" "\<not> a_isPlatformAdmin a" "where_holds w r"
  shows "ss_customerId r = a_businessId a"
proof -
  obtain w0 where w0: "sessionScope a (fo_businessId opts) = Inr w0" "wh_customerId w = wh_customerId w0"
    using assms(1) by (auto simp: session_filter_def split: sum.splits)
  from sessionScope_Inr[OF w0(1) assms(2)] w0(2) assms(3) show ?thesis using where_business by simp
qed

lemma findAll_rows:
  assumes "findAll s a opts = Inr p" and "r \<in> set (sp_sessions p)"
  obtains w where "session_filter a opts = Inr w" "where_holds w r" "r \<in> set (sessions s)"
proof -
  from assms(1) obtain w where w: "session_filter a opts = Inr w"
    and p: "sp_sessions p = take (sp_limit p) (drop (nat ((sp_page p - 1) * int (sp_limit p)))
                (rev (sort_key ss_createdAt (rev (filter (where_holds w) (sessions s))))))"
    by (auto simp: findAll_def Let_def split: sum.splits if_splits)
  from assms(2) have "r \<in> set (rev (sort_key ss_createdAt (rev (filter (where_holds w) (sessions s)))))"
    unfolding p by (meson in_set_dropD in_set_takeD)
  with w that show ?thesis by simp
qed

lemma complete_outcome:
  assumes "complete_session f now a i dto s = (Inl e, s')"
  shows "s' = s \<or> s' = snd (record_event f i (technician_event technician_completed now)
                 (technician_opts a ''technician:completed'') s)"
  using assms by (auto simp: complete_session_def Let_def split: sum.splits prod.splits if_splits)

section \<open>Properties\<close>

text \<open>
  Only the technician who ran a session, a Business Owner of its business or a platform
  admin can change it: for anybody else completing, cancelling and reporting on it is an
  error that leaves the database as it was.
\<close>

theorem others_cannot_change_session:
  assumes "\<forall>r \<in> set (sessions s). ss_id r = i \<longrightarrow> ss_technicianId r \<noteq> a_userId a" "\<not> isBusinessOwner a"
  shows "(\<exists>e. complete_session f now a i dto s = (Inl e, s)) \<and> (\<exists>e. cancel_session f now a i s = (Inl e, s))
    \<and> (\<exists>e. addEvent f now a i ev s = (Inl e, s))"
proof -
  obtain e where "loadForMutation s a i = Inl e"
    using assms loadForMutation_Inr[of s a i] by (cases "loadForMutation s a i") auto
  then show ?thesis
    by (cases ev) (simp_all add: complete_session_def cancel_session_def addEvent_def)
qed

theorem others_cannot_change_session_witness:
  "\<exists>e. cancel_session quiet 5 (plain_actor ''u2'' (Some ''b1'') (Some BUSINESS_USER) [CAP_HISTORY_VIEW]) ''s1''
     (empty_db\<lparr>sessions := [fresh_row ''s1'']\<rparr>) = (Inl e, empty_db\<lparr>sessions := [fresh_row ''s1'']\<rparr>)"
proof -
  let ?s = "empty_db\<lparr>sessions := [fresh_row ''s1'']\<rparr>"
  let ?a = "plain_actor ''u2'' (Some ''b1'') (Some BUSINESS_USER) [CAP_HISTORY_VIEW]"
  have "\<forall>r \<in> set (sessions ?s). ss_id r = ''s1'' \<longrightarrow> ss_technicianId r \<noteq> a_userId ?a" "\<not> isBusinessOwner ?a"
    by (simp_all add: empty_db_def fresh_row_def plain_actor_def isBusinessOwner_def isOwnerRole_Some)
  from others_cannot_change_session[OF this] show ?thesis by blast
qed

text \<open>
  The session list never leaves the business: every row a user who is not a platform
  admin gets is a session of that user's business.
\<close>

theorem listed_sessions_in_business:
  assumes "findAll s a opts = Inr p" "\<not> a_isPlatformAdmin a" "r \<in> set (sp_sessions p)"
  shows "ss_customerId r = a_businessId a \<and> r \<in> set (sessions s)"
  using findAll_rows[OF assms(1,3)] session_filter_business[OF _ assms(2)] by metis

definition list_as_user :: "db \<Rightarrow> id option \<Rightarrow> session_page result" where
  "list_as_user s t = findAll s (plain_actor ''u2'' (Some ''b1'') (Some BUSINESS_USER) [CAP_SESSIONS_VIEW])
     \<lparr>fo_status = None, fo_technicianId = t, fo_endpointId = None, fo_businessId = None, fo_page = None, fo_limit = None\<rparr>"

lemma list_as_user_eval:
  "list_as_user (empty_db\<lparr>sessions := [fresh_row ''s1'']\<rparr>) t =
     Inr \<lparr>sp_sessions = (if truthy t \<and> t \<noteq> Some ''u1'' \<or> \<not> truthy t then [] else [fresh_row ''s1'']),
          sp_total = (if truthy t \<and> t \<noteq> Some ''u1'' \<or> \<not> truthy t then 0 else 1), sp_page = 1, sp_limit = 50\<rparr>"
  by (auto simp: list_as_user_def findAll_def session_filter_def sessionScope_def resolveScope_def plain_actor_def
      isBusinessOwner_def isOwnerRole_Some can_def cap_defs where_holds_def or_null_def empty_db_def fresh_row_def
      Let_def truthy_iff)

theorem listed_sessions_in_business_witness:
  "\<exists>p. list_as_user (empty_db\<lparr>sessions := [fresh_row ''s1'']\<rparr>) (Some ''u1'') = Inr p
     \<and> (\<forall>r \<in> set (sp_sessions p). ss_customerId r = Some ''b1'')"
proof -
  obtain p where p: "list_as_user (empty_db\<lparr>sessions := [fresh_row ''s1'']\<rparr>) (Some ''u1'') = Inr p"
    by (simp add: list_as_user_eval)
  have "ss_customerId r = Some ''b1''" if "r \<in> set (sp_sessions p)" for r
    using listed_sessions_in_business[OF p[unfolded list_as_user_def] _ that] by (simp add: plain_actor_def fresh_row_def)
  with p show ?thesis by blast
qed

text \<open>
  The rule that a user without history rights only lists sessions of their own does not
  hold: naming a colleague in the query replaces the user's own id in the filter, so every
  session of that colleague in the business matches.
\<close>

theorem colleague_filter_replaces_own:
  assumes "\<not> isBusinessOwner a" "\<not> can a CAP_HISTORY_VIEW" "truthy (a_businessId a)"
    and "fo_technicianId opts = Some t" "t \<noteq> []" "fo_businessId opts = None" "fo_status opts = None"
    and "fo_endpointId opts = None"
  shows "\<exists>w. session_filter a opts = Inr w
    \<and> (\<forall>r. ss_technicianId r = t \<and> ss_customerId r = a_businessId a \<longrightarrow> where_holds w r)"
proof -
  have "\<not> a_isPlatformAdmin a" using assms(1) by (simp add: isBusinessOwner_def)
  then have "resolveScope a (fo_businessId opts) = Inr (a_businessId a)"
    using assms(3,6) by (simp add: resolveScope_def)
  then show ?thesis using assms
    by (auto simp: session_filter_def sessionScope_def where_holds_def or_null_def truthy_iff)
qed

theorem colleague_filter_replaces_own_witness:
  "\<exists>w. session_filter (plain_actor ''u2'' (Some ''b1'') (Some BUSINESS_USER) [CAP_SESSIONS_VIEW])
       \<lparr>fo_status = None, fo_technicianId = Some ''u1'', fo_endpointId = None, fo_businessId = None,
        fo_page = None, fo_limit = None\<rparr> = Inr w \<and> where_holds w (fresh_row ''s1'')"
proof -
  have "\<exists>w. session_filter (plain_actor ''u2'' (Some ''b1'') (Some BUSINESS_USER) [CAP_SESSIONS_VIEW])
       \<lparr>fo_status = None, fo_technicianId = Some ''u1'', fo_endpointId = None, fo_businessId = None,
        fo_page = None, fo_limit = None\<rparr> = Inr w
       \<and> (\<forall>r. ss_technicianId r = ''u1'' \<and> ss_customerId r = Some ''b1'' \<longrightarrow> where_holds w r)"
    using colleague_filter_replaces_own[of "plain_actor ''u2'' (Some ''b1'') (Some BUSINESS_USER) [CAP_SESSIONS_VIEW]"
        "\<lparr>fo_status = None, fo_technicianId = Some ''u1'', fo_endpointId = None, fo_businessId = None,
        fo_page = None, fo_limit = None\<rparr>" "''u1''"]
    by (simp add: plain_actor_def isBusinessOwner_def isOwnerRole_Some can_def cap_defs)
  then show ?thesis by (auto simp: fresh_row_def)
qed

end
