(* ===== verification/Endpoints.thy ===== *)
theory Endpoints
  imports Sessions Identity
begin

text \<open>
  Computers (\<open>endpoints/endpoints.service.ts\<close>): creating and changing them, their credentials and
  device secrets, the decision behind every remote connection, connection grants, the
  one-click Connect, and access grants to single computers. Encryption, SHA-256 and date parsing are parameters;
  descriptive columns no decision reads (description, serial numbers, tags, aliases) are left out.
\<close>

section \<open>Reads\<close>

definition myComputers :: "time \<Rightarrow> db \<Rightarrow> actor \<Rightarrow> endpoint_row list result" where
  "myComputers now s actor =
     (if \<not> can actor CAP_COMPUTERS_VIEW then Inr []
      else (case endpointVisibilityWhere now s actor None of
          Inl e \<Rightarrow> Inl e
        | Inr P \<Rightarrow> Inr (filter (\<lambda>e. e_status e = EP_ACTIVE \<and> P e) (endpoints s))))"

definition findConnected :: "db \<Rightarrow> actor \<Rightarrow> endpoint_row list result" where
  "findConnected s actor = (case resolveScope actor None of
     Inl e \<Rightarrow> Inl e
   | Inr sc \<Rightarrow> Inr (filter (\<lambda>e. e_isOnline e \<and> e_status e = EP_ACTIVE \<and> scope_where e_customerId sc e
       \<and> endpointRestrictionWhere actor e) (endpoints s)))"

text \<open>The scope part of the search; the text filters of the query are the predicate \<open>matches\<close>.\<close>

definition find_endpoints :: "db \<Rightarrow> actor \<Rightarrow> id option \<Rightarrow> (endpoint_row \<Rightarrow> bool) \<Rightarrow> endpoint_row list result" where
  "find_endpoints s actor businessId matches = (case resolveScope actor businessId of
     Inl e \<Rightarrow> Inl e
   | Inr sc \<Rightarrow> Inr (filter (\<lambda>e. (if \<not> truthy sc \<and> businessId = Some ''null'' then e_customerId e = None else scope_where e_customerId sc e)
       \<and> endpointRestrictionWhere actor e \<and> matches e) (endpoints s)))"

section \<open>Writes\<close>

record endpoint_input =
  ei_businessId :: "id option"
  ei_customerId :: "id option"
  ei_siteId :: "id option"
  ei_endpointGroupId :: "id option"
  ei_name :: string
  ei_hostname :: "string option"
  ei_platform :: "string option"
  ei_osVersion :: "string option"
  ei_ipAddress :: "string option"
  ei_isManaged :: "bool option"
  ei_rustdeskId :: "string option"

definition new_endpoint :: "id \<Rightarrow> id option \<Rightarrow> string \<Rightarrow> endpoint_row" where
  "new_endpoint i tenantId name = \<lparr>e_id = i, e_tenantId = tenantId, e_customerId = None, e_endpointGroupId = None,
     e_siteId = None, e_name = name, e_status = EP_PENDING_ENROLLMENT, e_hostname = None, e_platform = None,
     e_osVersion = None, e_ipAddress = None, e_agentVersion = None, e_isManaged = False, e_isOnline = False,
     e_lastSeenAt = None, e_accessMode = ASSIGNED_USERS\<rparr>"

definition new_node :: "id \<Rightarrow> id option \<Rightarrow> id \<Rightarrow> string \<Rightarrow> node_row" where
  "new_node i tenantId endpointId rustdeskId = \<lparr>n_id = i, n_tenantId = tenantId, n_endpointId = endpointId,
     n_rustdeskId = rustdeskId, n_lastSeenAt = None, n_platform = None, n_version = None, n_hostname = None,
     n_permanentPassword = None, n_agentSecretHash = None, n_agentSecretSetAt = None, n_candidateSecretHash = None,
     n_candidateSecretSeenAt = None, n_candidateSecretFirstAt = None, n_candidateSecretIp = None,
     n_candidateSecretConflict = False, n_candidatePassword = None, n_pendingPassword = None, n_pendingPasswordAt = None,
     n_updateRequestedAt = None, n_updateTargetVersion = None, n_reinstallRequestedAt = None, n_reinstallRequestedBy = None,
     n_reinstallDispatchedAt = None, n_rdSessionsActive = None, n_rdSessionsObservedAt = None\<rparr>"

definition node_by_rustdesk :: "db \<Rightarrow> string \<Rightarrow> node_row option" where
  "node_by_rustdesk s rid = find_row (\<lambda>n. n_rustdeskId n = rid) (nodes s)"

definition endpoint_by_id :: "db \<Rightarrow> id \<Rightarrow> endpoint_row option" where
  "endpoint_by_id s i = find_row (\<lambda>e. e_id e = i) (endpoints s)"

definition rustdesk_id_ok :: "string \<Rightarrow> bool" where
  "rustdesk_id_ok r = (6 \<le> length r \<and> length r \<le> 15 \<and> list_all is_digit r)"

definition site_in :: "db \<Rightarrow> id option \<Rightarrow> id \<Rightarrow> bool" where
  "site_in s siteId businessId = (\<not> truthy siteId
     \<or> list_ex (\<lambda>r. st_id r = the siteId \<and> st_customerId r = businessId) (sites s))"

text \<open>A typed-in RustDesk ID: a platform admin's, well-formed and free.\<close>

definition checked_rustdesk_id :: "db \<Rightarrow> actor \<Rightarrow> string option \<Rightarrow> unit result" where
  "checked_rustdesk_id s actor r =
     (if \<not> truthy r then Inr ()
      else (case assertPlatformAdmin actor of
          Inl e \<Rightarrow> Inl e
        | Inr _ \<Rightarrow>
            if \<not> rustdesk_id_ok (the r) then Inl (BadRequest ''A RustDesk ID is 6 to 15 digits'')
            else if node_by_rustdesk s (the r) \<noteq> None then Inl (Conflict ''That RustDesk ID cannot be added'')
            else Inr ()))"

definition create_endpoint ::
  "id \<Rightarrow> id \<Rightarrow> actor \<Rightarrow> endpoint_input \<Rightarrow> db \<Rightarrow> endpoint_row result \<times> db" where
  "create_endpoint i nid actor inp s = (case assertCapability actor [CAP_COMPUTERS_ADD] of
     Inl e \<Rightarrow> (Inl e, s)
   | Inr _ \<Rightarrow> (case requireScope actor (nullish (ei_businessId inp) (ei_customerId inp)) of
       Inl e \<Rightarrow> (Inl e, s)
     | Inr businessId \<Rightarrow> (case business_of s businessId of
         None \<Rightarrow> (Inl (NotFound ''Business not found''), s)
       | Some business \<Rightarrow>
           if \<not> site_in s (ei_siteId inp) businessId
           then (Inl (BadRequest ''That site does not belong to this business''), s)
           else (case checked_rustdesk_id s actor (ei_rustdeskId inp) of
               Inl e \<Rightarrow> (Inl e, s)
             | Inr _ \<Rightarrow>
                 let e = (new_endpoint i (Some (c_tenantId business)) (ei_name inp))\<lparr>e_customerId := Some businessId,
                       e_siteId := ei_siteId inp, e_endpointGroupId := ei_endpointGroupId inp,
                       e_hostname := ei_hostname inp, e_platform := ei_platform inp, e_osVersion := ei_osVersion inp,
                       e_ipAddress := ei_ipAddress inp,
                       e_isManaged := (case ei_isManaged inp of None \<Rightarrow> False | Some b \<Rightarrow> b)\<rparr>;
                     ns = (if truthy (ei_rustdeskId inp)
                           then [(new_node nid (Some (c_tenantId business)) i (the (ei_rustdeskId inp)))\<lparr>n_platform := ei_platform inp\<rparr>]
                           else [])
                 in (Inr e, audit_log ''ENDPOINT_CREATED'' (Some (a_userId actor)) (Some (c_tenantId business)) (Some businessId)
                       (a_ip actor) (Some ''endpoint'') (Some i) False
                       (s\<lparr>endpoints := endpoints s @ [e], nodes := nodes s @ ns\<rparr>))))))"

text \<open>An update's fields: \<open>None\<close> is an absent key; a nullable column's value is an option itself.\<close>

record endpoint_update =
  eu_name :: "string option"
  eu_customerId :: "id option option"
  eu_siteId :: "id option option"
  eu_hostname :: "string option option"
  eu_platform :: "string option option"
  eu_osVersion :: "string option option"
  eu_ipAddress :: "string option option"
  eu_isManaged :: "bool option"

definition given :: "'a option \<Rightarrow> 'a \<Rightarrow> 'a" where
  "given x old = (case x of None \<Rightarrow> old | Some v \<Rightarrow> v)"

definition moves_business :: "endpoint_update \<Rightarrow> endpoint_row \<Rightarrow> bool" where
  "moves_business inp e = (case eu_customerId inp of None \<Rightarrow> False | Some c \<Rightarrow> c \<noteq> e_customerId e)"

definition audit_endpoint :: "string \<Rightarrow> actor \<Rightarrow> endpoint_row \<Rightarrow> db \<Rightarrow> db" where
  "audit_endpoint action actor e = audit_log action (Some (a_userId actor)) (e_tenantId e) (e_customerId e) (a_ip actor)
     (Some ''endpoint'') (Some (e_id e)) False"

definition write_endpoint :: "id \<Rightarrow> (endpoint_row \<Rightarrow> endpoint_row) \<Rightarrow> db \<Rightarrow> db" where
  "write_endpoint i f s = s\<lparr>endpoints := update_rows (\<lambda>e. e_id e = i) f (endpoints s)\<rparr>"

definition write_node :: "id \<Rightarrow> (node_row \<Rightarrow> node_row) \<Rightarrow> db \<Rightarrow> db" where
  "write_node i f s = s\<lparr>nodes := update_rows (\<lambda>n. n_id n = i) f (nodes s)\<rparr>"

definition checked_move :: "db \<Rightarrow> actor \<Rightarrow> endpoint_update \<Rightarrow> endpoint_row \<Rightarrow> unit result" where
  "checked_move s actor inp e =
     (if \<not> moves_business inp e then Inr ()
      else (case assertPlatformAdmin actor of
          Inl err \<Rightarrow> Inl err
        | Inr _ \<Rightarrow>
            let target = the (eu_customerId inp) in
            if truthy target \<and> business_of s (the target) = None then Inl (NotFound ''Target business not found'')
            else Inr ()))"

definition update_endpoint :: "actor \<Rightarrow> id \<Rightarrow> endpoint_update \<Rightarrow> db \<Rightarrow> unit result \<times> db" where
  "update_endpoint actor i inp s = (case assertEndpointInScope s actor i of
     Inl e \<Rightarrow> (Inl e, s)
   | Inr existing \<Rightarrow> (case assertCapability actor [CAP_COMPUTERS_EDIT] of
       Inl e \<Rightarrow> (Inl e, s)
     | Inr _ \<Rightarrow> (case checked_move s actor inp existing of
         Inl e \<Rightarrow> (Inl e, s)
       | Inr _ \<Rightarrow>
           if \<not> site_in s (case eu_siteId inp of None \<Rightarrow> None | Some x \<Rightarrow> x)
                (case given (eu_customerId inp) (e_customerId existing) of None \<Rightarrow> ''__none__'' | Some b \<Rightarrow> b)
           then (Inl (BadRequest ''That site does not belong to this business''), s)
           else (Inr (), audit_endpoint ''ENDPOINT_UPDATED'' actor existing (write_endpoint i (\<lambda>e.
               e\<lparr>e_name := given (eu_name inp) (e_name e), e_customerId := given (eu_customerId inp) (e_customerId e),
                 e_siteId := given (eu_siteId inp) (e_siteId e), e_hostname := given (eu_hostname inp) (e_hostname e),
                 e_platform := given (eu_platform inp) (e_platform e), e_osVersion := given (eu_osVersion inp) (e_osVersion e),
                 e_ipAddress := given (eu_ipAddress inp) (e_ipAddress e),
                 e_isManaged := given (eu_isManaged inp) (e_isManaged e)\<rparr>) s)))))"

definition archive :: "actor \<Rightarrow> id \<Rightarrow> db \<Rightarrow> unit result \<times> db" where
  "archive actor i s = (case assertEndpointInScope s actor i of
     Inl e \<Rightarrow> (Inl e, s)
   | Inr existing \<Rightarrow> (case assertCapability actor [CAP_COMPUTERS_REMOVE] of
       Inl e \<Rightarrow> (Inl e, s)
     | Inr _ \<Rightarrow>
         let s1 = write_endpoint i (\<lambda>e. e\<lparr>e_status := EP_ARCHIVED\<rparr>) s;
             s2 = s1\<lparr>accesses := delete_rows (\<lambda>r. ca_endpointId r = i) (accesses s1)\<rparr>
         in (Inr (), audit_endpoint ''ENDPOINT_ARCHIVED'' actor existing s2)))"

definition restore :: "actor \<Rightarrow> id \<Rightarrow> db \<Rightarrow> unit result \<times> db" where
  "restore actor i s = (case assertEndpointInScope s actor i of
     Inl e \<Rightarrow> (Inl e, s)
   | Inr existing \<Rightarrow> (case assertCapability actor [CAP_COMPUTERS_REMOVE] of
       Inl e \<Rightarrow> (Inl e, s)
     | Inr _ \<Rightarrow>
         if e_status existing \<noteq> EP_ARCHIVED then (Inl (BadRequest ''This computer is not archived''), s)
         else let status = (if truthy (e_customerId existing) then EP_ACTIVE else EP_PENDING_ENROLLMENT)
           in (Inr (), audit_endpoint ''ENDPOINT_RESTORED'' actor existing (write_endpoint i (\<lambda>e. e\<lparr>e_status := status\<rparr>) s))))"

section \<open>Device secrets\<close>

definition CANDIDATE_LIVE_MS :: int where "CANDIDATE_LIVE_MS = 15 * minute_ms"
definition CANDIDATE_SETTLE_MS :: int where "CANDIDATE_SETTLE_MS = 60 * minute_ms"

definition clear_candidate :: "node_row \<Rightarrow> node_row" where
  "clear_candidate n = n\<lparr>n_candidateSecretHash := None, n_candidateSecretSeenAt := None, n_candidateSecretFirstAt := None,
     n_candidateSecretIp := None, n_candidateSecretConflict := False, n_candidatePassword := None\<rparr>"

text \<open>
  The node is read, checked, and written only if it still offers what was checked; \<open>f\<close> is what other requests do
  to the database in between.
\<close>

definition adopt_candidate :: "time \<Rightarrow> node_row \<Rightarrow> node_row \<Rightarrow> node_row" where
  "adopt_candidate now checked n = (clear_candidate n)\<lparr>n_agentSecretHash := n_candidateSecretHash checked,
     n_agentSecretSetAt := Some now,
     n_permanentPassword := (if truthy (n_candidatePassword checked) then n_candidatePassword checked else n_permanentPassword n)\<rparr>"

definition acceptable :: "time \<Rightarrow> node_row option \<Rightarrow> node_row result" where
  "acceptable now node = (case node of
     None \<Rightarrow> Inl (BadRequest ''This computer is not offering a new device secret'')
   | Some n \<Rightarrow>
       (case n_candidateSecretSeenAt n of
          None \<Rightarrow> Inl (BadRequest ''This computer is not offering a new device secret'')
        | Some seen \<Rightarrow>
            if \<not> truthy (n_candidateSecretHash n) then Inl (BadRequest ''This computer is not offering a new device secret'')
            else if now - seen \<ge> CANDIDATE_LIVE_MS then Inl (BadRequest ''The new device secret has not been seen recently.'')
            else if n_candidateSecretConflict n
            then Inl (Conflict ''More than one new device secret has been offered for this RustDesk ID, so it is not safe to accept either.'')
            else Inr n))"

definition acceptDeviceSecret :: "(db \<Rightarrow> db) \<Rightarrow> time \<Rightarrow> actor \<Rightarrow> id \<Rightarrow> db \<Rightarrow> unit result \<times> db" where
  "acceptDeviceSecret f now actor i s = (case assertEndpointInScope s actor i of
     Inl e \<Rightarrow> (Inl e, s)
   | Inr endpoint \<Rightarrow> (case assertCapability actor [CAP_COMPUTERS_EDIT] of
       Inl e \<Rightarrow> (Inl e, s)
     | Inr _ \<Rightarrow> (case acceptable now (node_of s i) of
         Inl e \<Rightarrow> (Inl e, s)
       | Inr node \<Rightarrow>
           (case claim_rows (\<lambda>n. n_id n = n_id node \<and> n_candidateSecretHash n = n_candidateSecretHash node
                 \<and> \<not> n_candidateSecretConflict n) (adopt_candidate now node) (nodes (f s)) of
             (n, t) \<Rightarrow>
               if n \<noteq> 1 then (Inl (Conflict ''The offered secret changed while accepting it. Reload and try again.''), (f s)\<lparr>nodes := t\<rparr>)
               else (Inr (), audit_endpoint ''ENDPOINT_DEVICE_SECRET_ACCEPTED'' actor endpoint ((f s)\<lparr>nodes := t\<rparr>))))))"

section \<open>Credentials\<close>

record cipher =
  ci_enc :: "string \<Rightarrow> string"
  ci_dec :: "string \<Rightarrow> string"
  ci_sha :: "string \<Rightarrow> string"

definition assertComputerReachable :: "zone_db \<Rightarrow> time \<Rightarrow> db \<Rightarrow> actor \<Rightarrow> id \<Rightarrow> unit result" where
  "assertComputerReachable tz now s actor endpointId = (case endpoint_by_id s endpointId of
     None \<Rightarrow> Inl (Forbidden ''You have not been given access to this computer'')
   | Some e \<Rightarrow> if canReachEndpoint tz s actor e now then Inr ()
       else Inl (Forbidden ''You have not been given access to this computer''))"

definition assertPasswordAccess :: "zone_db \<Rightarrow> time \<Rightarrow> db \<Rightarrow> actor \<Rightarrow> id \<Rightarrow> endpoint_row result" where
  "assertPasswordAccess tz now s actor i = (case assertEndpointInScope s actor i of
     Inl e \<Rightarrow> Inl e
   | Inr endpoint \<Rightarrow> (case assertCapability actor [CAP_COMPUTERS_EDIT] of
       Inl e \<Rightarrow> Inl e
     | Inr _ \<Rightarrow> (case assertComputerReachable tz now s actor i of Inl e \<Rightarrow> Inl e | Inr _ \<Rightarrow> Inr endpoint)))"

definition setPassword :: "cipher \<Rightarrow> zone_db \<Rightarrow> time \<Rightarrow> actor \<Rightarrow> id \<Rightarrow> string option \<Rightarrow> db \<Rightarrow> unit result \<times> db" where
  "setPassword c tz now actor i password s = (case assertPasswordAccess tz now s actor i of
     Inl e \<Rightarrow> (Inl e, s)
   | Inr _ \<Rightarrow> (case node_of s i of
       None \<Rightarrow> (Inl (NotFound ''No RustDesk node linked to this computer''), s)
     | Some node \<Rightarrow> (Inr (), write_node (n_id node)
         (\<lambda>n. n\<lparr>n_permanentPassword := (if truthy password then Some (ci_enc c (the password)) else None)\<rparr>) s)))"

definition getPassword :: "cipher \<Rightarrow> zone_db \<Rightarrow> time \<Rightarrow> actor \<Rightarrow> id \<Rightarrow> db \<Rightarrow> string option result \<times> db" where
  "getPassword c tz now actor i s = (case assertPasswordAccess tz now s actor i of
     Inl e \<Rightarrow> (Inl e, s)
   | Inr endpoint \<Rightarrow> (case Option.bind (node_of s i) (\<lambda>n. or_null (n_permanentPassword n)) of
       None \<Rightarrow> (Inr None, s)
     | Some p \<Rightarrow> (Inr (Some (ci_dec c p)), audit_endpoint ''ENDPOINT_PASSWORD_REVEALED'' actor endpoint s)))"

definition rotateCredential :: "cipher \<Rightarrow> zone_db \<Rightarrow> time \<Rightarrow> string \<Rightarrow> actor \<Rightarrow> id \<Rightarrow> db \<Rightarrow> unit result \<times> db" where
  "rotateCredential c tz now rnd actor i s = (case assertPasswordAccess tz now s actor i of
     Inl e \<Rightarrow> (Inl e, s)
   | Inr endpoint \<Rightarrow> (case node_of s i of
       None \<Rightarrow> (Inl (NotFound ''No RustDesk node linked to this computer''), s)
     | Some node \<Rightarrow>
         if \<not> truthy (n_agentSecretHash node)
         then (Inl (BadRequest ''This computer has no device secret yet. Re-run its installer before rotating its password.''), s)
         else (Inr (), audit_endpoint ''ENDPOINT_CREDENTIAL_ROTATION_STAGED'' actor endpoint (write_node (n_id node)
             (\<lambda>n. n\<lparr>n_pendingPassword := Some (ci_enc c rnd), n_pendingPasswordAt := Some now\<rparr>) s))))"

section \<open>The decision behind every connection\<close>

datatype refusal = endpoint_not_found | wrong_business | business_disabled | endpoint_archived
  | missing_connect_permission | outside_technician_assignment | no_access

definition authorizeConnect :: "zone_db \<Rightarrow> time \<Rightarrow> db \<Rightarrow> actor \<Rightarrow> id \<Rightarrow> refusal + unit" where
  "authorizeConnect tz now s actor endpointId = (case endpoint_by_id s endpointId of
     None \<Rightarrow> Inl endpoint_not_found
   | Some endpoint \<Rightarrow>
       if \<not> a_isPlatformAdmin actor
          \<and> (\<not> truthy (a_businessId actor) \<or> e_customerId endpoint \<noteq> a_businessId actor) then Inl wrong_business
       else if \<not> a_isPlatformAdmin actor
          \<and> (case Option.bind (e_customerId endpoint) (business_of s) of
               None \<Rightarrow> True | Some b \<Rightarrow> \<not> c_isActive b \<or> c_isArchived b) then Inl business_disabled
       else if e_status endpoint = EP_ARCHIVED then Inl endpoint_archived
       else if \<not> can actor CAP_COMPUTERS_CONNECT then Inl missing_connect_permission
       else if canReachEndpoint tz s actor endpoint now then Inr ()
       else Inl (if a_technician actor \<noteq> None then outside_technician_assignment else no_access))"

definition canConnect :: "zone_db \<Rightarrow> time \<Rightarrow> db \<Rightarrow> actor \<Rightarrow> id \<Rightarrow> bool" where
  "canConnect tz now s actor endpointId = (case authorizeConnect tz now s actor endpointId of Inl _ \<Rightarrow> False | Inr _ \<Rightarrow> True)"

definition liveActor :: "zone_db \<Rightarrow> db \<Rightarrow> id \<Rightarrow> id \<Rightarrow> id option \<Rightarrow> string option \<Rightarrow> time \<Rightarrow> actor option" where
  "liveActor tz s userId tenantId businessId ip now =
     (case actorForBusiness tz s userId tenantId businessId ip now of
        None \<Rightarrow> None
      | Some r \<Rightarrow> Some \<lparr>a_userId = u_id (ri_user r), a_email = u_email (ri_user r), a_tenantId = Some (ri_tenantId r),
          a_businessId = ri_businessId r, a_isPlatformAdmin = u_isPlatformAdmin (ri_user r), a_roleType = ri_roleType r,
          a_capabilities = effectiveCapabilities \<lparr>p_isPlatformAdmin = u_isPlatformAdmin (ri_user r),
             p_roleType = ri_roleType r, p_capabilities = Some (ri_capabilities r)\<rparr>,
          a_ip = ip, a_ownBusinessId = ri_ownBusinessId r, a_technician = ex_technician (ri_extras r),
          a_assignedBusinessIds = ex_assignedBusinessIds (ri_extras r),
          a_platformPermissions = ex_platformPermissions (ri_extras r)\<rparr>)"

section \<open>Connection grants\<close>

definition grant_ttl :: int where "grant_ttl = 90000"

definition audit_denied :: "string \<Rightarrow> actor \<Rightarrow> id \<Rightarrow> db \<Rightarrow> db" where
  "audit_denied action actor endpointId = audit_log action (Some (a_userId actor)) (a_tenantId actor) (a_businessId actor)
     (a_ip actor) (Some ''endpoint'') (Some endpointId) True"

text \<open>The answer is the grant's id, the raw token and its expiry.\<close>

definition createConnectionGrant ::
  "cipher \<Rightarrow> zone_db \<Rightarrow> time \<Rightarrow> id \<Rightarrow> string \<Rightarrow> actor \<Rightarrow> id \<Rightarrow> db \<Rightarrow> (id \<times> string \<times> time) result \<times> db" where
  "createConnectionGrant c tz now i token actor endpointId s = (case authorizeConnect tz now s actor endpointId of
     Inl _ \<Rightarrow> (Inl (NotFound ''Computer not found''), audit_denied ''CONNECTION_GRANT_DENIED'' actor endpointId s)
   | Inr _ \<Rightarrow>
       (case nullish (Option.bind (endpoint_by_id s endpointId) e_tenantId) (a_tenantId actor) of
          None \<Rightarrow> (Inl (ServerError ''tenantId must not be null''), s)
        | Some t \<Rightarrow>
            (Inr (i, token, now + grant_ttl),
             audit_log ''CONNECTION_GRANT_CREATED'' (Some (a_userId actor)) (Option.bind (endpoint_by_id s endpointId) e_tenantId)
               (Option.bind (endpoint_by_id s endpointId) e_customerId) (a_ip actor) (Some ''connection_grant'') (Some i) False
               (s\<lparr>connectionGrants := connectionGrants s @ [\<lparr>cg_id = i, cg_tokenHash = ci_sha c token, cg_tenantId = t,
                  cg_userId = a_userId actor, cg_endpointId = endpointId, cg_expiresAt = now + grant_ttl,
                  cg_createdByIp = a_ip actor, cg_usedAt = None, cg_usedByIp = None\<rparr>]\<rparr>))))"

record released =
  rl_rustdeskId :: string
  rl_password :: "string option"
  rl_endpointId :: id

definition grant_unused :: "connection_grant_row \<Rightarrow> bool" where
  "grant_unused g = (cg_usedAt g = None)"

definition use_grant :: "time \<times> string option \<Rightarrow> connection_grant_row \<Rightarrow> connection_grant_row" where
  "use_grant p g = g\<lparr>cg_usedAt := Some (fst p), cg_usedByIp := snd p\<rparr>"

text \<open>
  Between the checks and the conditional update other requests may write: \<open>f\<close>. A grant whose computer or
  user row is gone was deleted with it.
\<close>

definition redeemConnectionGrant ::
  "cipher \<Rightarrow> zone_db \<Rightarrow> (db \<Rightarrow> db) \<Rightarrow> time \<Rightarrow> string \<Rightarrow> string option \<Rightarrow> db \<Rightarrow> released result \<times> db" where
  "redeemConnectionGrant c tz f now rawToken ip s =
     (case find_row (\<lambda>g. cg_tokenHash g = ci_sha c rawToken) (connectionGrants s) of
        None \<Rightarrow> (Inl (NotFound ''Grant not found''), s)
      | Some g \<Rightarrow>
        if cg_usedAt g \<noteq> None then (Inl (NotFound ''Grant already used''), s)
        else if cg_expiresAt g < now then (Inl (NotFound ''Grant expired''), s)
        else (case (user_by_id s (cg_userId g), endpoint_by_id s (cg_endpointId g)) of
          (Some user, Some endpoint) \<Rightarrow>
            if u_status user \<noteq> U_ACTIVE then (Inl (NotFound ''Authorization no longer valid''), s)
            else (case liveActor tz s (cg_userId g) (cg_tenantId g) (e_customerId endpoint) ip now of
              None \<Rightarrow> (Inl (NotFound ''Authorization no longer valid''), s)
            | Some granteeActor \<Rightarrow>
              (case authorizeConnect tz now s granteeActor (cg_endpointId g) of
                Inl _ \<Rightarrow> (Inl (NotFound ''Authorization no longer valid''),
                  audit_log ''CONNECTION_GRANT_DENIED'' (Some (cg_userId g)) (Some (cg_tenantId g)) (e_customerId endpoint) ip
                    (Some ''connection_grant'') (Some (cg_id g)) False s)
              | Inr _ \<Rightarrow>
                (case node_of s (cg_endpointId g) of
                  None \<Rightarrow> (Inl (NotFound ''Computer is not enrolled''), s)
                | Some node \<Rightarrow>
                  if n_rustdeskId node = [] then (Inl (NotFound ''Computer is not enrolled''), s)
                  else (case claim_rows (\<lambda>r. cg_id r = cg_id g \<and> grant_unused r) (use_grant (now, ip)) (connectionGrants (f s)) of
                    (n, t) \<Rightarrow>
                      if n = 0 then (Inl (NotFound ''Grant already used''), (f s)\<lparr>connectionGrants := t\<rparr>)
                      else (Inr \<lparr>rl_rustdeskId = n_rustdeskId node,
                               rl_password = map_option (ci_dec c) (or_null (n_permanentPassword node)),
                               rl_endpointId = e_id endpoint\<rparr>,
                             audit_log ''CONNECTION_GRANT_REDEEMED'' (Some (cg_userId g)) (Some (cg_tenantId g)) (e_customerId endpoint) ip
                               (Some ''connection_grant'') (Some (cg_id g)) False ((f s)\<lparr>connectionGrants := t\<rparr>))))))
        | _ \<Rightarrow> (Inl (NotFound ''Grant not found''), s)))"

section \<open>One-click Connect\<close>

definition reusable_session :: "time \<Rightarrow> actor \<Rightarrow> id \<Rightarrow> id option \<Rightarrow> db \<Rightarrow> id option" where
  "reusable_session now actor endpointId reuse s =
     (if \<not> truthy reuse then None
      else map_option ss_id (find_row (\<lambda>r. ss_id r = the reuse \<and> ss_endpointId r = Some endpointId
        \<and> ss_technicianId r = a_userId actor \<and> ss_status r = LAUNCH_REQUESTED \<and> ss_createdAt r > now - 10 * minute_ms) (sessions s)))"

definition launch_session :: "id \<Rightarrow> time \<Rightarrow> id \<Rightarrow> actor \<Rightarrow> endpoint_row \<Rightarrow> id option \<Rightarrow> session_row" where
  "launch_session i now tenantId actor endpoint supportRequestId =
     (new_session i now tenantId (e_customerId endpoint) (a_userId actor))
       \<lparr>ss_endpointId := Some (e_id endpoint), ss_status := LAUNCH_REQUESTED, ss_launchRequestedAt := Some now,
        ss_statusSource := Some ''server'', ss_statusChangedAt := Some now, ss_supportRequestId := supportRequestId\<rparr>"

text \<open>Recording the launch is best effort: a computer without a tenant gets no session.\<close>

definition record_launch ::
  "time \<Rightarrow> id \<Rightarrow> actor \<Rightarrow> endpoint_row \<Rightarrow> id option \<Rightarrow> id option \<Rightarrow> db \<Rightarrow> id option \<times> db" where
  "record_launch now i actor endpoint reuse supportRequestId s =
     (case reusable_session now actor (e_id endpoint) reuse s of
        Some x \<Rightarrow> (Some x, s)
      | None \<Rightarrow> (case e_tenantId endpoint of
          None \<Rightarrow> (None, s)
        | Some t \<Rightarrow> (Some i, insert_event i ''launch_requested'' server now (Some ''server:launch'') True
            (s\<lparr>sessions := sessions s @ [launch_session i now t actor endpoint supportRequestId]\<rparr>))))"

definition connectInfo ::
  "cipher \<Rightarrow> zone_db \<Rightarrow> time \<Rightarrow> id \<Rightarrow> actor \<Rightarrow> id \<Rightarrow> id option \<Rightarrow> id option \<Rightarrow> db \<Rightarrow> (released \<times> id option) result \<times> db" where
  "connectInfo c tz now i actor endpointId reuse supportRequestId s = (case authorizeConnect tz now s actor endpointId of
     Inl _ \<Rightarrow> (Inl (NotFound ''Computer not found''), audit_denied ''ENDPOINT_PASSWORD_REVEALED'' actor endpointId s)
   | Inr _ \<Rightarrow>
     (case (endpoint_by_id s endpointId, node_of s endpointId) of
        (Some endpoint, Some node) \<Rightarrow>
          if n_rustdeskId node = [] then (Inl (NotFound ''Computer is not yet enrolled to accept connections''), s)
          else (case record_launch now i actor endpoint reuse supportRequestId
                  (audit_endpoint ''ENDPOINT_PASSWORD_REVEALED'' actor endpoint s) of
              (sessionId, s1) \<Rightarrow> (Inr (\<lparr>rl_rustdeskId = n_rustdeskId node,
                 rl_password = map_option (ci_dec c) (or_null (n_permanentPassword node)), rl_endpointId = e_id endpoint\<rparr>, sessionId), s1))
      | _ \<Rightarrow> (Inl (NotFound ''Computer is not yet enrolled to accept connections''), s)))"

definition supportRequestForConnect :: "actor \<Rightarrow> id \<Rightarrow> id \<Rightarrow> db \<Rightarrow> id result \<times> db" where
  "supportRequestForConnect actor requestId endpointId s = (case assertEndpointInScope s actor endpointId of
     Inl e \<Rightarrow> (Inl e, s)
   | Inr ep \<Rightarrow>
     (case find_row (\<lambda>r. rq_id r = requestId \<and> rq_customerId r = (case e_customerId ep of None \<Rightarrow> ''__none__'' | Some b \<Rightarrow> b)
         \<and> rq_claimedById r = Some (a_userId actor) \<and> rq_status r \<in> {RQ_CLAIMED, RQ_CONNECTING}) (requests s) of
        None \<Rightarrow> (Inl (NotFound ''Support request not found or not claimed by you''), s)
      | Some r \<Rightarrow> (Inr (rq_id r), s\<lparr>requests := update_rows (\<lambda>q. rq_id q = rq_id r \<and> rq_status q = RQ_CLAIMED)
          (\<lambda>q. q\<lparr>rq_status := RQ_CONNECTING, rq_endpointId := Some endpointId\<rparr>) (requests s)\<rparr>)))"

section \<open>Access to single computers\<close>

definition listAccess :: "db \<Rightarrow> actor \<Rightarrow> id \<Rightarrow> access_row list result" where
  "listAccess s actor endpointId = (case assertEndpointInScope s actor endpointId of
     Inl e \<Rightarrow> Inl e
   | Inr _ \<Rightarrow> (case assertCapability actor [CAP_USERS_VIEW] of
       Inl e \<Rightarrow> Inl e | Inr _ \<Rightarrow> Inr (filter (\<lambda>r. ca_endpointId r = endpointId) (accesses s))))"

record access_window =
  aw_startsAt :: "string option"
  aw_expiresAt :: "string option"
  aw_schedule :: json

definition access_dates :: "(string \<Rightarrow> time option) \<Rightarrow> access_window \<Rightarrow> (time option \<times> time option) result" where
  "access_dates date_of w =
     (let st = (if truthy (aw_startsAt w) then date_of (the (aw_startsAt w)) else None);
          ex = (if truthy (aw_expiresAt w) then date_of (the (aw_expiresAt w)) else None)
      in if truthy (aw_startsAt w) \<and> st = None \<or> truthy (aw_expiresAt w) \<and> ex = None
         then Inl (BadRequest ''Access window dates are not valid'')
         else if (case (st, ex) of (Some a, Some b) \<Rightarrow> b \<le> a | _ \<Rightarrow> False)
         then Inl (BadRequest ''The end must be after the start'')
         else Inr (st, ex))"

text \<open>The grant of a user on a computer, replaced when there is one (\<open>upsert\<close>).\<close>

definition put_access :: "access_row \<Rightarrow> access_row table \<Rightarrow> access_row table" where
  "put_access r t =
     (let P = (\<lambda>q. ca_userId q = ca_userId r \<and> ca_endpointId q = ca_endpointId r) in
      if find_row P t \<noteq> None
      then update_rows P (\<lambda>q. r\<lparr>ca_id := ca_id q, ca_tenantId := ca_tenantId q\<rparr>) t
      else t @ [r])"

definition member_of_business :: "db \<Rightarrow> id \<Rightarrow> id option \<Rightarrow> membership_row option" where
  "member_of_business s userId businessId = find_row (\<lambda>m. m_userId m = userId \<and> m_isActive m
     \<and> m_customerId m = Some (case businessId of None \<Rightarrow> ''__none__'' | Some b \<Rightarrow> b)) (memberships s)"

definition grantAccess ::
  "zone_db \<Rightarrow> (string \<Rightarrow> time option) \<Rightarrow> id \<Rightarrow> actor \<Rightarrow> id \<Rightarrow> id \<Rightarrow> access_window \<Rightarrow> db \<Rightarrow> access_row result \<times> db" where
  "grantAccess tz date_of i actor endpointId userId w s = (case assertEndpointInScope s actor endpointId of
     Inl e \<Rightarrow> (Inl e, s)
   | Inr endpoint \<Rightarrow> (case assertCapability actor [CAP_USERS_MANAGE] of
       Inl e \<Rightarrow> (Inl e, s)
     | Inr _ \<Rightarrow> (case member_of_business s userId (e_customerId endpoint) of
         None \<Rightarrow> (Inl (NotFound ''That user is not an active member of this business''), s)
       | Some m \<Rightarrow> (case access_dates date_of w of
           Inl e \<Rightarrow> (Inl e, s)
         | Inr (st, ex) \<Rightarrow> (case parseSchedule tz (aw_schedule w) of
             Inl e \<Rightarrow> (Inl (BadRequest e), s)
           | Inr sc \<Rightarrow>
               let r = \<lparr>ca_id = i, ca_tenantId = m_tenantId m, ca_endpointId = endpointId, ca_userId = userId,
                     ca_grantedBy = Some (a_userId actor), ca_startsAt = st, ca_expiresAt = ex,
                     ca_schedule = (case sc of None \<Rightarrow> JNull | Some x \<Rightarrow> schedule_json x), ca_expiryAuditedAt = None\<rparr>
               in (Inr r, audit_endpoint ''ENDPOINT_ACCESS_GRANTED'' actor endpoint (s\<lparr>accesses := put_access r (accesses s)\<rparr>)))))))"

definition revokeAccess :: "actor \<Rightarrow> id \<Rightarrow> id \<Rightarrow> db \<Rightarrow> unit result \<times> db" where
  "revokeAccess actor endpointId userId s = (case assertEndpointInScope s actor endpointId of
     Inl e \<Rightarrow> (Inl e, s)
   | Inr endpoint \<Rightarrow> (case assertCapability actor [CAP_USERS_MANAGE] of
       Inl e \<Rightarrow> (Inl e, s)
     | Inr _ \<Rightarrow> (Inr (), audit_endpoint ''ENDPOINT_ACCESS_REVOKED'' actor endpoint
         (s\<lparr>accesses := delete_rows (\<lambda>r. ca_endpointId r = endpointId \<and> ca_userId r = userId) (accesses s)\<rparr>))))"

definition setAccessMode :: "actor \<Rightarrow> id \<Rightarrow> access_mode \<Rightarrow> db \<Rightarrow> unit result \<times> db" where
  "setAccessMode actor endpointId mode s = (case assertEndpointInScope s actor endpointId of
     Inl e \<Rightarrow> (Inl e, s)
   | Inr endpoint \<Rightarrow> (case assertCapability actor [CAP_COMPUTERS_EDIT] of
       Inl e \<Rightarrow> (Inl e, s)
     | Inr _ \<Rightarrow> (case assertCapability actor [CAP_USERS_MANAGE] of
         Inl e \<Rightarrow> (Inl e, s)
       | Inr _ \<Rightarrow> (Inr (), audit_endpoint ''ENDPOINT_UPDATED'' actor endpoint
           (write_endpoint endpointId (\<lambda>e. e\<lparr>e_accessMode := mode\<rparr>) s)))))"

section \<open>Nodes and agents\<close>

definition setRustdeskNode :: "time \<Rightarrow> id \<Rightarrow> id \<Rightarrow> id \<Rightarrow> string \<Rightarrow> db \<Rightarrow> unit result \<times> db" where
  "setRustdeskNode now i tenantId endpointId rustdeskId s =
     (if find_row (\<lambda>n. n_rustdeskId n = rustdeskId \<and> n_endpointId n \<noteq> endpointId) (nodes s) \<noteq> None
      then (Inl (Conflict ''That RustDesk ID is already assigned to another computer''), s)
      else (case node_of s endpointId of
          None \<Rightarrow> (Inr (), s\<lparr>nodes := nodes s @ [new_node i (Some tenantId) endpointId rustdeskId]\<rparr>)
        | Some n \<Rightarrow>
            if truthy (n_tenantId n) \<and> n_tenantId n \<noteq> Some tenantId
            then (Inl (Conflict ''RustDesk node is bound to a different account''), s)
            else (Inr (), write_node (n_id n) (\<lambda>q. q\<lparr>n_rustdeskId := rustdeskId, n_lastSeenAt := Some now\<rparr>) s)))"

definition requestAgentReinstall :: "time \<Rightarrow> actor \<Rightarrow> id \<Rightarrow> db \<Rightarrow> unit result \<times> db" where
  "requestAgentReinstall now actor i s = (case assertEndpointInScope s actor i of
     Inl e \<Rightarrow> (Inl e, s)
   | Inr endpoint \<Rightarrow> (case assertCapability actor [CAP_COMPUTERS_EDIT] of
       Inl e \<Rightarrow> (Inl e, s)
     | Inr _ \<Rightarrow> (case node_of s i of
         None \<Rightarrow> (Inl (NotFound ''No RustDesk node linked to this computer''), s)
       | Some node \<Rightarrow>
           if \<not> truthy (n_agentSecretHash node)
           then (Inl (BadRequest ''This computer has never authenticated with a device secret, so the server cannot ask it to do anything.''), s)
           else (Inr (), audit_endpoint ''ENDPOINT_AGENT_REINSTALL_REQUESTED'' actor endpoint (write_node (n_id node)
               (\<lambda>n. n\<lparr>n_reinstallRequestedAt := Some now, n_reinstallRequestedBy := Some (a_userId actor),
                      n_reinstallDispatchedAt := None\<rparr>) s)))))"

section \<open>Lemmas: who may connect\<close>

text \<open>
  What the database must say at an instant for a user to connect to a computer: platform admin, or the
  computer's business is open and the user is a member there with the connect capability and access to
  the computer, or the grants that count now give both.
\<close>

definition member_may_connect :: "zone_db \<Rightarrow> db \<Rightarrow> time \<Rightarrow> user_row \<Rightarrow> endpoint_row \<Rightarrow> bool" where
  "member_may_connect tz s now u e = (case active_membership s (u_id u) of
     None \<Rightarrow> False
   | Some m \<Rightarrow> m_customerId m = e_customerId e
       \<and> CAP_COMPUTERS_CONNECT \<in> set (effectiveCapabilities \<lparr>p_isPlatformAdmin = False, p_roleType = Some (m_roleType m),
            p_capabilities = Some (m_capabilities m)\<rparr>)
       \<and> (isOwnerRole (Some (m_roleType m)) \<or> e_accessMode e = COMPANY_WIDE
          \<or> computerAccessActive tz (find_row (\<lambda>r. ca_endpointId r = e_id e \<and> ca_userId r = u_id u) (accesses s)) now))"

definition technician_may_connect :: "zone_db \<Rightarrow> db \<Rightarrow> time \<Rightarrow> user_row \<Rightarrow> endpoint_row \<Rightarrow> bool" where
  "technician_may_connect tz s now u e = (case Option.bind (e_customerId e) (\<lambda>b. scopeFor tz s (u_id u) b now) of
     None \<Rightarrow> False
   | Some sc \<Rightarrow> CAP_COMPUTERS_CONNECT \<in> set (bs_capabilities sc)
       \<and> (case bs_endpointIds sc of None \<Rightarrow> True | Some ids \<Rightarrow> e_id e \<in> set ids))"

definition may_connect :: "zone_db \<Rightarrow> db \<Rightarrow> time \<Rightarrow> user_row \<Rightarrow> endpoint_row \<Rightarrow> bool" where
  "may_connect tz s now u e = (u_status u = U_ACTIVE \<and> e_status e \<noteq> EP_ARCHIVED
     \<and> (u_isPlatformAdmin u
        \<or> \<not> business_closed s (e_customerId e) \<and> (member_may_connect tz s now u e \<or> technician_may_connect tz s now u e)))"

lemma authorizeConnect_Inr:
  assumes "authorizeConnect tz now s a i = Inr x"
  obtains e where "endpoint_by_id s i = Some e" "e_status e \<noteq> EP_ARCHIVED" "can a CAP_COMPUTERS_CONNECT"
    "canReachEndpoint tz s a e now"
    "a_isPlatformAdmin a \<or> truthy (a_businessId a) \<and> e_customerId e = a_businessId a \<and> \<not> business_closed s (e_customerId e)"
  using assms
  by (auto simp: authorizeConnect_def business_closed_def split: option.splits if_splits)

lemma liveActor_Some:
  assumes "liveActor tz s userId tenantId businessId ip now = Some a"
  obtains u where "user_by_id s userId = Some u" "u_status u = U_ACTIVE" "a_userId a = u_id u"
    "a_isPlatformAdmin a = u_isPlatformAdmin u"
  using assms by (auto simp: liveActor_def actorForBusiness_def Let_def split: option.splits if_splits)

lemma liveActor_technician:
  assumes "liveActor tz s userId tenantId businessId ip now = Some a" "a_technician a = Some t" "\<not> a_isPlatformAdmin a"
  shows "\<exists>sc. scopeFor tz s userId (tc_businessId t) now = Some sc \<and> t = to_context sc" "a_roleType a = None"
    "a_businessId a = Some (tc_businessId t)" "set (a_capabilities a) \<subseteq> set (tc_capabilities t)"
proof -
  let ?own = "if business_closed s (Option.bind (active_membership s userId) m_customerId) then None
      else Option.bind (active_membership s userId) m_customerId"
  let ?ex = "resolveExtras tz s userId ?own businessId now"
  have f: "ex_technician ?ex = Some t" "a_roleType a = None" "a_businessId a = Some (tc_businessId t)"
    "a_capabilities a = effectiveCapabilities \<lparr>p_isPlatformAdmin = False, p_roleType = None, p_capabilities = Some (tc_capabilities t)\<rparr>"
    using assms by (auto simp: liveActor_def actorForBusiness_def Let_def split: option.splits if_splits)
  from resolveExtras_technician[OF f(1)] show "\<exists>sc. scopeFor tz s userId (tc_businessId t) now = Some sc \<and> t = to_context sc" .
  show "a_roleType a = None" "a_businessId a = Some (tc_businessId t)" by fact+
  show "set (a_capabilities a) \<subseteq> set (tc_capabilities t)"
    by (auto simp: f(4) effective_no_role json_strings_def set_sanitize_strings)
qed

lemma liveActor_member:
  assumes "liveActor tz s userId tenantId businessId ip now = Some a" "a_technician a = None" "truthy (a_businessId a)"
    "\<not> a_isPlatformAdmin a"
  obtains m where "active_membership s userId = Some m" "a_businessId a = m_customerId m" "a_roleType a = Some (m_roleType m)"
    "a_capabilities a = effectiveCapabilities \<lparr>p_isPlatformAdmin = False, p_roleType = Some (m_roleType m), p_capabilities = Some (m_capabilities m)\<rparr>"
  using assms by (auto simp: liveActor_def actorForBusiness_def Let_def split: option.splits if_splits)

lemma live_may_connect:
  assumes live: "liveActor tz s userId tenantId businessId ip now = Some a"
    and u: "user_by_id s userId = Some u" and ok: "authorizeConnect tz now s a i = Inr x" and e: "endpoint_by_id s i = Some e"
  shows "may_connect tz s now u e"
proof -
  have id: "u_id u = userId" using u by (auto simp: user_by_id_def dest: find_row_Some)
  from live obtain v where v: "user_by_id s userId = Some v" "u_status v = U_ACTIVE" "a_userId a = u_id v"
      "a_isPlatformAdmin a = u_isPlatformAdmin v" by (rule liveActor_Some)
  have uv: "v = u" using u v(1) by simp
  from ok obtain e' where e': "endpoint_by_id s i = Some e'" "e_status e' \<noteq> EP_ARCHIVED" "can a CAP_COMPUTERS_CONNECT"
      "canReachEndpoint tz s a e' now"
      "a_isPlatformAdmin a \<or> truthy (a_businessId a) \<and> e_customerId e' = a_businessId a \<and> \<not> business_closed s (e_customerId e')"
    by (rule authorizeConnect_Inr)
  have ee: "e' = e" using e e'(1) by simp
  show ?thesis
  proof (cases "u_isPlatformAdmin u")
    case True
    with v e' show ?thesis by (simp add: may_connect_def uv ee)
  next
    case False
    then have na: "\<not> a_isPlatformAdmin a" using v(4) by (simp add: uv)
    have b: "truthy (a_businessId a) \<and> e_customerId e' = a_businessId a \<and> \<not> business_closed s (e_customerId e')"
      using e'(5) na by blast
    have cap: "CAP_COMPUTERS_CONNECT \<in> set (a_capabilities a)" using e'(3) na by (simp add: can_def)
    have "member_may_connect tz s now u e \<or> technician_may_connect tz s now u e"
    proof (cases "a_technician a")
      case (Some t)
      note t = liveActor_technician[OF live Some na]
      from t(1) obtain sc where sc: "scopeFor tz s userId (tc_businessId t) now = Some sc" "t = to_context sc" by blast
      have "CAP_COMPUTERS_CONNECT \<in> set (bs_capabilities sc)" using cap t(4) sc(2) by (auto simp: to_context_def)
      moreover have "case tc_endpointIds t of None \<Rightarrow> True | Some ids \<Rightarrow> e_id e \<in> set ids"
        using e'(4) Some t(2) na by (auto simp: canReachEndpoint_def isBusinessOwner_def ee split: if_splits option.splits)
      moreover have "e_customerId e = Some (tc_businessId t)" using b t(3) by (simp add: ee)
      ultimately show ?thesis using sc by (simp add: technician_may_connect_def to_context_def id)
    next
      case None
      obtain m where m: "active_membership s userId = Some m" "a_businessId a = m_customerId m" "a_roleType a = Some (m_roleType m)"
        "a_capabilities a = effectiveCapabilities \<lparr>p_isPlatformAdmin = False, p_roleType = Some (m_roleType m), p_capabilities = Some (m_capabilities m)\<rparr>"
        using liveActor_member[OF live None _ na] b by blast
      have "isOwnerRole (Some (m_roleType m)) \<or> e_accessMode e = COMPANY_WIDE
          \<or> computerAccessActive tz (find_row (\<lambda>r. ca_endpointId r = e_id e \<and> ca_userId r = u_id u) (accesses s)) now"
        using e'(4) None m(3) na v(3) by (auto simp: canReachEndpoint_def isBusinessOwner_def ee uv split: if_splits)
      with m cap b show ?thesis by (simp add: member_may_connect_def id ee)
    qed
    moreover have "u_status u = U_ACTIVE" "e_status e \<noteq> EP_ARCHIVED" using v(2) e'(2) uv ee by auto
    moreover have "\<not> business_closed s (e_customerId e)" using b ee by blast
    ultimately show ?thesis unfolding may_connect_def by blast
  qed
qed

lemma redeem_Inr:
  assumes "redeemConnectionGrant c tz f now raw ip s = (Inr r, s1)"
  obtains g u e a where "find_row (\<lambda>g. cg_tokenHash g = ci_sha c raw) (connectionGrants s) = Some g" "cg_usedAt g = None"
    "now \<le> cg_expiresAt g" "user_by_id s (cg_userId g) = Some u" "endpoint_by_id s (cg_endpointId g) = Some e"
    "liveActor tz s (cg_userId g) (cg_tenantId g) (e_customerId e) ip now = Some a"
    "authorizeConnect tz now s a (cg_endpointId g) = Inr ()" "rl_endpointId r = e_id e"
    "count_rows (\<lambda>r. cg_id r = cg_id g \<and> grant_unused r) (connectionGrants (f s)) > 0"
    "connectionGrants s1 = update_rows (\<lambda>r. cg_id r = cg_id g \<and> grant_unused r) (use_grant (now, ip)) (connectionGrants (f s))"
proof -
  obtain g where g: "find_row (\<lambda>g. cg_tokenHash g = ci_sha c raw) (connectionGrants s) = Some g" "cg_usedAt g = None" "now \<le> cg_expiresAt g"
    using assms by (auto simp: redeemConnectionGrant_def split: option.splits if_splits)
  moreover obtain u e where ue: "user_by_id s (cg_userId g) = Some u" "endpoint_by_id s (cg_endpointId g) = Some e" "u_status u = U_ACTIVE"
    using assms g by (auto simp: redeemConnectionGrant_def split: option.splits if_splits)
  moreover obtain a where a: "liveActor tz s (cg_userId g) (cg_tenantId g) (e_customerId e) ip now = Some a"
      "authorizeConnect tz now s a (cg_endpointId g) = Inr ()"
    using assms g ue by (auto simp: redeemConnectionGrant_def split: option.splits sum.splits)
  ultimately show thesis using that assms
    by (auto simp: redeemConnectionGrant_def claim_rows_def Let_def split: option.splits if_splits simp del: count_rows_pos count_rows_zero)
qed

interpretation grants: single_use cg_id "\<lambda>(_::time \<times> string option) g. grant_unused g" use_grant
  by unfold_locales (simp_all add: use_grant_def grant_unused_def)

text \<open>After a redemption the grant's row is used.\<close>

lemma redeemed_used:
  assumes "redeemConnectionGrant c tz f now raw ip s = (Inr r, s1)"
    and "find_row (\<lambda>g. cg_tokenHash g = ci_sha c raw) (connectionGrants s) = Some g"
  shows "list_all (\<lambda>q. cg_id q = cg_id g \<longrightarrow> cg_usedAt q \<noteq> None) (connectionGrants s1)"
  using assms(1)
proof (cases rule: redeem_Inr)
  case (1 g' u e a)
  then have "g' = g" using assms(2) by simp
  with 1(10) show ?thesis by (auto simp: list_all_iff set_update_rows use_grant_def grant_unused_def)
qed

definition connect_db :: db where
  "connect_db = technician_db\<lparr>endpoints := [shared_pc], nodes := [new_node ''n1'' (Some ''t1'') ''e1'' ''123456789''],
     connectionGrants := [\<lparr>cg_id = ''g1'', cg_tokenHash = ''tok'', cg_tenantId = ''t1'', cg_userId = ''u1'', cg_endpointId = ''e1'',
       cg_expiresAt = 90000, cg_createdByIp = None, cg_usedAt = None, cg_usedByIp = None\<rparr>],
     launcherTokens := [\<lparr>lt_id = ''l1'', lt_tenantId = ''t1'', lt_userId = ''u1'', lt_supportSessionId = None, lt_token = ''tok'',
       lt_expiresAt = 90000, lt_usedAt = None, lt_revokedAt = None, lt_targetEndpointId = Some ''e1'',
       lt_targetRustdeskId = Some ''123456789''\<rparr>]\<rparr>"

definition plain_cipher :: cipher where
  "plain_cipher = \<lparr>ci_enc = (\<lambda>x. x), ci_dec = (\<lambda>x. x), ci_sha = (\<lambda>x. x)\<rparr>"

lemma connect_capability:
  "sanitizeTechnicianCapabilities (json_strings (Some [CAP_COMPUTERS_CONNECT])) = [CAP_COMPUTERS_CONNECT]"
  "effectiveCapabilities \<lparr>p_isPlatformAdmin = False, p_roleType = None, p_capabilities = Some [CAP_COMPUTERS_CONNECT]\<rparr> = [CAP_COMPUTERS_CONNECT]"
  by code_simp+

lemma connect_db_scope:
  "\<exists>sc. resolve (\<lambda>z. None) connect_db ''u1'' 0 = ([(''b1'', sc)], []) \<and> bs_businessId sc = ''b1''
     \<and> bs_capabilities sc = [CAP_COMPUTERS_CONNECT] \<and> bs_endpointIds sc = None"
  by (simp add: resolve_def loadGrants_def connect_db_def technician_db_def empty_db_def one_assignment_def holds_assignment_def
      business_of_def one_business_def resolve_step_def inactive_because_def storedScheduleAllows_def
      json_nullish_def isWithinDates_def add_source_def grant_capabilities_def connect_capability)

lemma connect_db_simps:
  "user_by_id connect_db ''u1'' = Some (plain_user ''u1'')" "active_membership connect_db ''u1'' = None"
  "endpoint_by_id connect_db ''e1'' = Some shared_pc" "business_of connect_db ''b1'' = Some (one_business ''b1'')"
  "node_of connect_db ''e1'' = Some (new_node ''n1'' (Some ''t1'') ''e1'' ''123456789'')"
  "u_status (plain_user ''u1'') = U_ACTIVE" "u_isPlatformAdmin (plain_user ''u1'') = False" "u_id (plain_user ''u1'') = ''u1''"
  "e_customerId shared_pc = Some ''b1''" "e_status shared_pc = EP_ACTIVE" "e_id shared_pc = ''e1''"
  by (simp_all add: connect_db_def technician_db_def empty_db_def user_by_id_def active_membership_def endpoint_by_id_def
      business_of_def node_of_def plain_user_def one_business_def shared_pc_def new_node_def)

lemma connect_db_actor:
  "\<exists>a. liveActor (\<lambda>z. None) connect_db ''u1'' ''t1'' (Some ''b1'') None 0 = Some a
     \<and> authorizeConnect (\<lambda>z. None) 0 connect_db a ''e1'' = Inr ()"
proof -
  obtain sc where sc: "resolve (\<lambda>z. None) connect_db ''u1'' 0 = ([(''b1'', sc)], [])" "bs_businessId sc = ''b1''"
      "bs_capabilities sc = [CAP_COMPUTERS_CONNECT]" "bs_endpointIds sc = None"
    using connect_db_scope by blast
  have tr: "js_trim ''b1'' = ''b1''" by code_simp
  have ex: "ex_technician (resolveExtras (\<lambda>z. None) connect_db ''u1'' None (Some ''b1'') 0) = Some (to_context sc)"
    by (simp add: resolveExtras_def sc tr)
  show ?thesis
    by (simp add: liveActor_def actorForBusiness_def connect_db_simps ex business_closed_def Let_def authorizeConnect_def
        to_context_def sc connect_capability can_def canReachEndpoint_def isBusinessOwner_def one_business_def)
qed

lemma connect_db_redeems:
  "\<exists>r s1. redeemConnectionGrant plain_cipher (\<lambda>z. None) id 0 ''tok'' None connect_db = (Inr r, s1)"
proof -
  obtain a where a: "liveActor (\<lambda>z. None) connect_db ''u1'' ''t1'' (Some ''b1'') None 0 = Some a"
      "authorizeConnect (\<lambda>z. None) 0 connect_db a ''e1'' = Inr ()"
    using connect_db_actor by blast
  have g: "connectionGrants connect_db = [\<lparr>cg_id = ''g1'', cg_tokenHash = ''tok'', cg_tenantId = ''t1'', cg_userId = ''u1'',
      cg_endpointId = ''e1'', cg_expiresAt = 90000, cg_createdByIp = None, cg_usedAt = None, cg_usedByIp = None\<rparr>]"
    by (simp add: connect_db_def)
  show ?thesis
    by (simp add: redeemConnectionGrant_def g plain_cipher_def connect_db_simps a claim_rows_def grant_unused_def new_node_def)
qed

section \<open>Properties\<close>

text \<open>
  A connection grant releases a computer's credentials only on the strength of what the database says at that
  instant, not at minting: the grant is unused and unexpired, and its user may connect to that
  computer now: an active platform admin, a member of the open business with the capability and access, or
  a technician through grants that count now and include the computer.
\<close>

theorem redeemed_only_with_standing:
  assumes "redeemConnectionGrant c tz f now raw ip s = (Inr r, s1)"
  shows "\<exists>g u e. g \<in> set (connectionGrants s) \<and> cg_tokenHash g = ci_sha c raw \<and> cg_usedAt g = None \<and> now \<le> cg_expiresAt g
    \<and> user_by_id s (cg_userId g) = Some u \<and> endpoint_by_id s (cg_endpointId g) = Some e \<and> rl_endpointId r = e_id e
    \<and> may_connect tz s now u e"
  using assms
proof (cases rule: redeem_Inr)
  case (1 g u e a)
  from live_may_connect[OF 1(6,4,7,5)] 1 find_row_Some[OF 1(1)] show ?thesis by blast
qed

theorem redeemed_only_with_standing_witness:
  "\<exists>u e. may_connect (\<lambda>z. None) connect_db 0 u e \<and> u_id u = ''u1'' \<and> e_id e = ''e1''"
proof -
  obtain r s1 where "redeemConnectionGrant plain_cipher (\<lambda>z. None) id 0 ''tok'' None connect_db = (Inr r, s1)"
    using connect_db_redeems by blast
  from redeemed_only_with_standing[OF this] obtain g u e where g: "g \<in> set (connectionGrants connect_db)"
      "user_by_id connect_db (cg_userId g) = Some u" "endpoint_by_id connect_db (cg_endpointId g) = Some e"
      "may_connect (\<lambda>z. None) connect_db 0 u e" by blast
  then have "cg_userId g = ''u1''" "cg_endpointId g = ''e1''" by (simp_all add: connect_db_def)
  with g have "u = plain_user ''u1''" "e = shared_pc" by (simp_all add: connect_db_simps)
  with g(4) show ?thesis by (intro exI[of _ u] exI[of _ e]) (simp add: connect_db_simps)
qed

text \<open>
  A connection grant is good for one redemption, also when two race: a redemption that succeeded while another one
  was between its checks and its write makes that one fail.
\<close>

theorem racing_redemptions:
  assumes "is_ok (fst (redeemConnectionGrant c tz id now1 raw ip1 s))"
  shows "\<not> is_ok (fst (redeemConnectionGrant c tz (\<lambda>d. snd (redeemConnectionGrant c tz id now1 raw ip1 d)) now2 raw ip2 s))"
proof
  let ?f = "\<lambda>d. snd (redeemConnectionGrant c tz id now1 raw ip1 d)"
  assume "is_ok (fst (redeemConnectionGrant c tz ?f now2 raw ip2 s))"
  then obtain r s2 where "redeemConnectionGrant c tz ?f now2 raw ip2 s = (Inr r, s2)"
    by (metis is_ok_iff prod.collapse)
  then show False
  proof (cases rule: redeem_Inr)
    case (1 g u e a)
    obtain r1 where "redeemConnectionGrant c tz id now1 raw ip1 s = (Inr r1, ?f s)"
      using assms by (metis is_ok_iff prod.collapse)
    from redeemed_used[OF this 1(1)] 1(9) show False by (auto simp: grant_unused_def list_all_iff)
  qed
qed

theorem racing_redemptions_witness:
  "\<not> is_ok (fst (redeemConnectionGrant plain_cipher (\<lambda>z. None)
     (\<lambda>d. snd (redeemConnectionGrant plain_cipher (\<lambda>z. None) id 0 ''tok'' None d)) 1 ''tok'' (Some ''ip'') connect_db))"
proof -
  have "is_ok (fst (redeemConnectionGrant plain_cipher (\<lambda>z. None) id 0 ''tok'' None connect_db))"
    using connect_db_redeems by (auto simp: is_ok_iff)
  then show ?thesis by (rule racing_redemptions)
qed

end
