(* ===== verification/SupportRequests.thy ===== *)
theory SupportRequests
  imports Identity
begin

text \<open>
  Customer support requests (\<open>support-requests/support-requests.service.ts\<close>): the public
  intake, the portal, the technicians' queue with its optimistic claims, and retention.
  \<open>sha\<close> is SHA-256, \<open>key\<close> the server's encryption key, \<open>base\<close> the configured public URL;
  random tokens and generated ids are arguments.
\<close>

section \<open>Constants and cleaning\<close>

definition OPEN :: "request_status list" where
  "OPEN = [RQ_WAITING, RQ_CLAIMED, RQ_CONNECTING]"

definition STATUS_TTL_MS :: int where "STATUS_TTL_MS = 7 * 24 * hour_ms"
definition WAITING_EXPIRY_MS :: int where "WAITING_EXPIRY_MS = 24 * hour_ms"
definition ANONYMIZE_AFTER_MS :: int where "ANONYMIZE_AFTER_MS = 30 * 24 * hour_ms"
definition PUBLIC_OPEN_CAP :: nat where "PUBLIC_OPEN_CAP = 25"
definition PER_IP_OPEN_CAP :: nat where "PER_IP_OPEN_CAP = 3"
definition MIN_FILL_MS :: rat where "MIN_FILL_MS = 2500"

fun CUSTOMER_STATUS :: "request_status \<Rightarrow> string" where
  "CUSTOMER_STATUS RQ_WAITING = ''Waiting for a technician''"
| "CUSTOMER_STATUS RQ_CLAIMED = ''A technician has picked up your request''"
| "CUSTOMER_STATUS RQ_CONNECTING = ''A technician is connecting to your computer''"
| "CUSTOMER_STATUS RQ_COMPLETED = ''Your request has been closed''"
| "CUSTOMER_STATUS RQ_CANCELED = ''This request was canceled''"
| "CUSTOMER_STATUS RQ_EXPIRED = ''This request expired without being picked up''"

text \<open>The status values as the query parameter spells them.\<close>

definition status_named :: "string \<Rightarrow> request_status option" where
  "status_named n = map_of [(''WAITING'', RQ_WAITING), (''CLAIMED'', RQ_CLAIMED), (''CONNECTING'', RQ_CONNECTING),
     (''COMPLETED'', RQ_COMPLETED), (''CANCELED'', RQ_CANCELED), (''EXPIRED'', RQ_EXPIRED)] n"

definition inert :: "char \<Rightarrow> char" where
  "inert c = (if (of_char c :: nat) < 32 \<or> (of_char c :: nat) = 127 then CHR '' '' else c)"

definition clean :: "string option \<Rightarrow> nat \<Rightarrow> string option" where
  "clean v n = or_null (map_option (\<lambda>s. take n (js_trim (map inert s))) v)"

definition ipHash :: "(string \<Rightarrow> string) \<Rightarrow> string \<Rightarrow> string option \<Rightarrow> string option" where
  "ipHash sha key ip = (if truthy ip then Some (sha (key @ '':'' @ the ip)) else None)"

text \<open>\<open>/^[^\s@]+@[^\s@]+\.[^\s@]+$/\<close>.\<close>

definition email_ok :: "string \<Rightarrow> bool" where
  "email_ok e = (case split_on (CHR ''@'') e of
       [local, domain] \<Rightarrow> local \<noteq> [] \<and> \<not> list_ex js_space e
          \<and> list_ex (\<lambda>i. domain ! i = CHR ''.'') [1..<length domain - 1]
     | _ \<Rightarrow> False)"

definition tidy_rustdesk_id :: "string option \<Rightarrow> string" where
  "tidy_rustdesk_id r = filter (\<lambda>c. \<not> js_space c \<and> c \<noteq> CHR ''-'') (case r of None \<Rightarrow> [] | Some x \<Rightarrow> x)"

section \<open>Intake settings\<close>

definition assertOwnerOf :: "actor \<Rightarrow> id \<Rightarrow> unit result" where
  "assertOwnerOf actor businessId =
     (if a_technician actor \<noteq> None then Inl (Forbidden ''Switch back to your own business to change its settings'')
      else if a_isPlatformAdmin actor then Inr ()
      else if \<not> isBusinessOwner actor \<or> a_businessId actor \<noteq> Some businessId
      then Inl (Forbidden ''Only a Business Owner can change the support intake'')
      else Inr ())"

record intake_view =
  iw_businessId :: id
  iw_businessName :: string
  iw_enabled :: bool
  iw_slug :: "string option"
  iw_url :: "string option"

definition intakeView :: "string option \<Rightarrow> business_row \<Rightarrow> intake_view" where
  "intakeView base c = \<lparr>iw_businessId = c_id c, iw_businessName = c_name c, iw_enabled = c_supportIntakeEnabled c,
     iw_slug = c_supportIntakeSlug c,
     iw_url = (if truthy (c_supportIntakeSlug c)
               then Some ((case base of None \<Rightarrow> [] | Some b \<Rightarrow> b) @ ''/support/'' @ the (c_supportIntakeSlug c)) else None)\<rparr>"

definition getIntake :: "string option \<Rightarrow> db \<Rightarrow> actor \<Rightarrow> id option \<Rightarrow> intake_view result" where
  "getIntake base s actor businessId = (case requireScope actor businessId of
       Inl e \<Rightarrow> Inl e
     | Inr i \<Rightarrow> (case assertOwnerOf actor i of
          Inl e \<Rightarrow> Inl e
        | Inr _ \<Rightarrow> (case business_of s i of
             None \<Rightarrow> Inl (ServerError ''No Customer found'')
           | Some c \<Rightarrow> Inr (intakeView base c))))"

definition setIntake ::
  "string option \<Rightarrow> string \<Rightarrow> actor \<Rightarrow> id option \<Rightarrow> bool \<Rightarrow> bool \<Rightarrow> db \<Rightarrow> intake_view result \<times> db" where
  "setIntake base fresh actor businessId enabled regenerate s = (case requireScope actor businessId of
       Inl e \<Rightarrow> (Inl e, s)
     | Inr i \<Rightarrow> (case assertOwnerOf actor i of
          Inl e \<Rightarrow> (Inl e, s)
        | Inr _ \<Rightarrow> (case business_of s i of
             None \<Rightarrow> (Inl (ServerError ''No Customer found''), s)
           | Some cur \<Rightarrow>
               let slug = (if regenerate \<or> \<not> truthy (c_supportIntakeSlug cur) then Some fresh
                           else c_supportIntakeSlug cur);
                   c = cur\<lparr>c_supportIntakeEnabled := enabled, c_supportIntakeSlug := slug\<rparr>;
                   s1 = s\<lparr>businesses := update_rows (\<lambda>b. c_id b = i)
                     (\<lambda>b. b\<lparr>c_supportIntakeEnabled := enabled, c_supportIntakeSlug := slug\<rparr>) (businesses s)\<rparr>
               in (Inr (intakeView base c),
                   audit_log ''SUPPORT_INTAKE_CHANGED'' (Some (a_userId actor)) (Some (c_tenantId c)) (Some i) (a_ip actor)
                     (Some ''customer'') (Some i) False s1))))"

section \<open>Public side\<close>

definition intakeBusiness :: "db \<Rightarrow> string \<Rightarrow> business_row result" where
  "intakeBusiness s slug =
     (if \<not> (length slug = 16 \<and> list_all is_url_char slug) then Inl (NotFound ''This support link is not active'')
      else case find_row (\<lambda>c. c_supportIntakeSlug c = Some slug \<and> c_supportIntakeEnabled c \<and> c_isActive c) (businesses s) of
          None \<Rightarrow> Inl (NotFound ''This support link is not active'')
        | Some c \<Rightarrow> Inr c)"

definition publicIntake :: "db \<Rightarrow> string \<Rightarrow> string result" where
  "publicIntake s slug = map_sum id c_name (intakeBusiness s slug)"

record public_submission =
  ps_name :: "string option"
  ps_email :: "string option"
  ps_phone :: "string option"
  ps_description :: "string option"
  ps_rustdeskId :: "string option"
  ps_website :: "string option"
  ps_elapsedMs :: "rat option"

text \<open>The row \<open>supportRequest.create\<close> writes, with the defaults of the schema.\<close>

definition new_request :: "id \<Rightarrow> time \<Rightarrow> id \<Rightarrow> id \<Rightarrow> request_origin \<Rightarrow> string \<Rightarrow> request_row" where
  "new_request i now tenantId customerId origin tokenHash =
     \<lparr>rq_id = i, rq_tenantId = tenantId, rq_customerId = customerId, rq_origin = origin, rq_submittedById = None,
      rq_contactName = None, rq_contactEmail = None, rq_contactPhone = None, rq_description = None,
      rq_endpointId = None, rq_reportedRustdeskId = None, rq_unmanaged = False, rq_status = RQ_WAITING,
      rq_version = 0, rq_claimedById = None, rq_claimedAt = None, rq_closedAt = None, rq_outcome = None,
      rq_statusTokenHash = tokenHash, rq_statusExpiresAt = now + STATUS_TTL_MS, rq_submitIpHash = None,
      rq_anonymizedAt = None, rq_createdAt = now\<rparr>"

definition insert_request :: "request_row \<Rightarrow> id option \<Rightarrow> string \<Rightarrow> db \<Rightarrow> db" where
  "insert_request r by origin s =
     s\<lparr>requests := requests s @ [r],
       requestEvents := requestEvents s @ [\<lparr>re_requestId = rq_id r, re_actorId = by, re_event = ''submitted'',
         re_detail = Some [(''origin'', Some origin)]\<rparr>]\<rparr>"

text \<open>
  \<open>publicSubmit\<close>: the checks and the two counts first, then, after awaiting them, the row: other requests run in
  between. The answer is always \<open>accepted: true\<close> with a status token, which for a
  suspected bot (\<open>None\<close>) leads nowhere.
\<close>

record checked_submission =
  cs_business :: business_row
  cs_name :: "string option"
  cs_email :: "string option"
  cs_phone :: "string option"
  cs_description :: "string option"
  cs_rustdeskId :: string
  cs_ipHash :: "string option"

definition publicSubmit_check ::
  "(string \<Rightarrow> string) \<Rightarrow> string \<Rightarrow> string \<Rightarrow> public_submission \<Rightarrow> string option \<Rightarrow> db \<Rightarrow> checked_submission option result" where
  "publicSubmit_check sha key slug body ip s = (case intakeBusiness s slug of
     Inl e \<Rightarrow> Inl e
   | Inr c \<Rightarrow>
     if js_trim (case ps_website body of None \<Rightarrow> [] | Some w \<Rightarrow> w) \<noteq> []
        \<or> (case ps_elapsedMs body of None \<Rightarrow> False | Some t \<Rightarrow> t < MIN_FILL_MS) then Inr None
     else
       let name = clean (ps_name body) 120;
           description = clean (ps_description body) 2000;
           email = clean (ps_email body) 254;
           rid = tidy_rustdesk_id (ps_rustdeskId body);
           hash = ipHash sha key ip
       in if name = None then Inl (BadRequest ''Please enter your name'')
       else if description = None then Inl (BadRequest ''Please describe what you need help with'')
       else if email \<noteq> None \<and> \<not> email_ok (the email) then Inl (BadRequest ''That email address does not look right'')
       else if rid \<noteq> [] \<and> \<not> (6 \<le> length rid \<and> length rid \<le> 15 \<and> list_all is_digit rid)
       then Inl (BadRequest ''The remote ID should be the number shown by the support app'')
       else if count_rows (\<lambda>r. rq_customerId r = c_id c \<and> rq_origin r = ORIGIN_PUBLIC \<and> rq_status r \<in> set OPEN) (requests s)
               \<ge> PUBLIC_OPEN_CAP
       then Inl (Conflict ''This support desk has too many waiting requests right now. Please call them instead.'')
       else if hash \<noteq> None
          \<and> count_rows (\<lambda>r. rq_customerId r = c_id c \<and> rq_submitIpHash r = hash \<and> rq_status r \<in> set OPEN) (requests s)
               \<ge> PER_IP_OPEN_CAP
       then Inl (Conflict ''You already have requests waiting. A technician will pick them up.'')
       else Inr (Some \<lparr>cs_business = c, cs_name = name, cs_email = email, cs_phone = clean (ps_phone body) 40,
              cs_description = description, cs_rustdeskId = rid, cs_ipHash = hash\<rparr>))"

definition publicSubmit_store ::
  "(string \<Rightarrow> string) \<Rightarrow> time \<Rightarrow> id \<Rightarrow> string \<Rightarrow> checked_submission \<Rightarrow> string option \<Rightarrow> db \<Rightarrow> db" where
  "publicSubmit_store sha now i token cs ip s =
     (let c = cs_business cs;
          r = (new_request i now (c_tenantId c) (c_id c) ORIGIN_PUBLIC (sha token))\<lparr>
               rq_contactName := cs_name cs, rq_contactEmail := cs_email cs, rq_contactPhone := cs_phone cs,
               rq_description := cs_description cs, rq_reportedRustdeskId := or_null (Some (cs_rustdeskId cs)), rq_unmanaged := True,
               rq_submitIpHash := cs_ipHash cs\<rparr>
      in audit_log ''SUPPORT_REQUEST_SUBMITTED'' None (Some (c_tenantId c)) (Some (c_id c)) ip
           (Some ''support_request'') (Some i) False (insert_request r None ''PUBLIC'' s))"

definition publicSubmit ::
  "(db \<Rightarrow> db) \<Rightarrow> (string \<Rightarrow> string) \<Rightarrow> string \<Rightarrow> time \<Rightarrow> id \<Rightarrow> string \<Rightarrow> string \<Rightarrow> public_submission \<Rightarrow> string option \<Rightarrow> db \<Rightarrow>
   string result \<times> db" where
  "publicSubmit f sha key now i token slug body ip s = (case publicSubmit_check sha key slug body ip s of
     Inl e \<Rightarrow> (Inl e, s)
   | Inr None \<Rightarrow> (Inr token, s)
   | Inr (Some cs) \<Rightarrow> (Inr token, publicSubmit_store sha now i token cs ip (f s)))"

definition byStatusToken :: "(string \<Rightarrow> string) \<Rightarrow> time \<Rightarrow> db \<Rightarrow> string \<Rightarrow> request_row result" where
  "byStatusToken sha now s token =
     (if \<not> (length token = 43 \<and> list_all is_url_char token) then Inl (NotFound ''This status link is not valid'')
      else case find_row (\<lambda>r. rq_statusTokenHash r = sha token) (requests s) of
          None \<Rightarrow> Inl (NotFound ''This status link is not valid'')
        | Some r \<Rightarrow>
            if rq_anonymizedAt r \<noteq> None \<or> rq_statusExpiresAt r < now
            then Inl (NotFound ''This status link is not valid'') else Inr r)"

record status_view =
  sw_businessName :: string
  sw_status :: request_status
  sw_statusText :: string
  sw_technician :: "string option"
  sw_submittedAt :: time
  sw_open :: bool

definition publicStatus :: "(string \<Rightarrow> string) \<Rightarrow> time \<Rightarrow> db \<Rightarrow> string \<Rightarrow> status_view result" where
  "publicStatus sha now s token = (case byStatusToken sha now s token of
     Inl e \<Rightarrow> Inl e
   | Inr r \<Rightarrow> Inr \<lparr>
       sw_businessName = (case business_of s (rq_customerId r) of None \<Rightarrow> [] | Some c \<Rightarrow> c_name c),
       sw_status = rq_status r, sw_statusText = CUSTOMER_STATUS (rq_status r),
       sw_technician = (if rq_status r = RQ_CLAIMED \<or> rq_status r = RQ_CONNECTING
          then Some (case Option.bind (rq_claimedById r) (user_by_id s) of
                 None \<Rightarrow> ''A technician'' | Some u \<Rightarrow> u_firstName u)
          else None),
       sw_submittedAt = rq_createdAt r, sw_open = (rq_status r \<in> set OPEN)\<rparr>)"

text \<open>A conditional update of one request: how many rows it hit, and the new state.\<close>

definition claim_request :: "id \<Rightarrow> (request_row \<Rightarrow> bool) \<Rightarrow> (request_row \<Rightarrow> request_row) \<Rightarrow> db \<Rightarrow> nat \<times> db" where
  "claim_request i P f s = (case claim_rows (\<lambda>r. rq_id r = i \<and> P r) f (requests s) of (n, t) \<Rightarrow> (n, s\<lparr>requests := t\<rparr>))"

definition publicCancel ::
  "(string \<Rightarrow> string) \<Rightarrow> time \<Rightarrow> string \<Rightarrow> string option \<Rightarrow> db \<Rightarrow> status_view result \<times> db" where
  "publicCancel sha now token ip s = (case byStatusToken sha now s token of
     Inl e \<Rightarrow> (Inl e, s)
   | Inr r \<Rightarrow>
     (case claim_request (rq_id r) (\<lambda>q. rq_status q \<in> {RQ_WAITING, RQ_CLAIMED})
         (\<lambda>q. q\<lparr>rq_status := RQ_CANCELED, rq_closedAt := Some now, rq_outcome := Some ''canceled_by_customer'',
            rq_version := rq_version q + 1\<rparr>) s of
        (n, s1) \<Rightarrow>
          if n = 0 then (Inl (Conflict ''This request can no longer be canceled here''), s1)
          else
            let s2 = s1\<lparr>requestEvents := requestEvents s1 @ [\<lparr>re_requestId = rq_id r, re_actorId = None,
                  re_event = ''canceled'', re_detail = Some [(''by'', Some ''customer'')]\<rparr>]\<rparr>;
                s3 = audit_log ''SUPPORT_REQUEST_CANCELED'' None (Some (rq_tenantId r)) (Some (rq_customerId r)) ip
                  (Some ''support_request'') (Some (rq_id r)) False s2
            in (publicStatus sha now s3 token, s3)))"

section \<open>Portal\<close>

record portal_request =
  pq_description :: "string option"
  pq_endpointId :: "id option"
  pq_phone :: "string option"

text \<open>\<open>[first, last].filter(Boolean).join(' ') || email\<close>.\<close>

definition full_name :: "user_row \<Rightarrow> string" where
  "full_name u = (case filter (\<lambda>n. n \<noteq> []) [u_firstName u, u_lastName u] of
       [] \<Rightarrow> u_email u | [n] \<Rightarrow> n | n # m # _ \<Rightarrow> n @ '' '' @ m)"

definition own_computer :: "time \<Rightarrow> db \<Rightarrow> actor \<Rightarrow> id \<Rightarrow> id option result" where
  "own_computer now s actor i = (case endpointVisibilityWhere now s actor None of
       Inl e \<Rightarrow> Inl e
     | Inr vis \<Rightarrow> (case find_row (\<lambda>e. e_id e = i \<and> vis e) (endpoints s) of
          None \<Rightarrow> Inl (NotFound ''Computer not found'')
        | Some e \<Rightarrow> if e_customerId e \<noteq> a_businessId actor then Inl (NotFound ''Computer not found'')
                    else Inr (Some (e_id e))))"

definition portalSubmit ::
  "(string \<Rightarrow> string) \<Rightarrow> time \<Rightarrow> id \<Rightarrow> string \<Rightarrow> actor \<Rightarrow> portal_request \<Rightarrow> db \<Rightarrow> (id \<times> string) result \<times> db" where
  "portalSubmit sha now i token actor dto s =
     (if a_technician actor \<noteq> None \<or> \<not> truthy (a_businessId actor) \<or> a_isPlatformAdmin actor
      then (Inl (Forbidden ''Support requests are raised by people in the business that needs help''), s)
      else
        let description = clean (pq_description dto) 2000 in
        if description = None then (Inl (BadRequest ''Please describe what you need help with''), s)
        else (case (if truthy (pq_endpointId dto) then own_computer now s actor (the (pq_endpointId dto)) else Inr None) of
            Inl e \<Rightarrow> (Inl e, s)
          | Inr endpointId \<Rightarrow>
              let user = user_by_id s (a_userId actor) in
              if count_rows (\<lambda>r. rq_submittedById r = Some (a_userId actor) \<and> rq_status r \<in> set OPEN) (requests s)
                   \<ge> PER_IP_OPEN_CAP
              then (Inl (Conflict ''You already have requests waiting. A technician will pick them up.''), s)
              else (case a_tenantId actor of
                  None \<Rightarrow> (Inl (ServerError ''Argument tenantId is missing''), s)
                | Some t \<Rightarrow>
                    let r = (new_request i now t (the (a_businessId actor)) ORIGIN_PORTAL (sha token))\<lparr>
                          rq_submittedById := Some (a_userId actor),
                          rq_contactName := Option.bind user (\<lambda>u. or_null (Some (full_name u))),
                          rq_contactEmail := map_option u_email user, rq_contactPhone := clean (pq_phone dto) 40,
                          rq_description := description, rq_endpointId := endpointId,
                          rq_unmanaged := (endpointId = None)\<rparr>
                    in (Inr (i, token),
                        audit_log ''SUPPORT_REQUEST_SUBMITTED'' (Some (a_userId actor)) (a_tenantId actor)
                          (a_businessId actor) (a_ip actor) (Some ''support_request'') (Some i) False
                          (insert_request r (Some (a_userId actor)) ''PORTAL'' s)))))"

section \<open>Queue\<close>

definition queueScope :: "actor \<Rightarrow> id option \<Rightarrow> (request_row \<Rightarrow> bool) result" where
  "queueScope actor businessId = (case assertCapability actor [CAP_SUPPORT_REQUESTS] of
       Inl e \<Rightarrow> Inl e
     | Inr _ \<Rightarrow> (case resolveScope actor businessId of
          Inl e \<Rightarrow> Inl e | Inr sc \<Rightarrow> Inr (scope_where (\<lambda>r. Some (rq_customerId r)) sc)))"

text \<open>A computer of the queue: its id and name, under the keys \<open>ep:<id>\<close> and \<open>rd:<rustdeskId>\<close>.\<close>

type_synonym computer_map = "string \<rightharpoonup> id \<times> string"

definition offer_computer :: "zone_db \<Rightarrow> time \<Rightarrow> db \<Rightarrow> actor \<Rightarrow> computer_map \<Rightarrow> endpoint_row \<Rightarrow> computer_map" where
  "offer_computer tz now s actor m e =
     (if \<not> canReachEndpoint tz s actor e now then m
      else
        let m1 = m(''ep:'' @ e_id e \<mapsto> (e_id e, e_name e)) in
        (case node_of s (e_id e) of
           None \<Rightarrow> m1
         | Some n \<Rightarrow> if n_rustdeskId n = [] then m1 else m1(''rd:'' @ n_rustdeskId n \<mapsto> (e_id e, e_name e))))"

definition matchComputers ::
  "zone_db \<Rightarrow> time \<Rightarrow> db \<Rightarrow> actor \<Rightarrow> request_row list \<Rightarrow> computer_map result" where
  "matchComputers tz now s actor rows =
     (let ids = js_set (map the (filter truthy (map rq_reportedRustdeskId rows)));
          epIds = js_set (map the (filter truthy (map rq_endpointId rows)))
      in if ids = [] \<and> epIds = [] then Inr Map.empty
      else (case endpointVisibilityWhere now s actor None of
          Inl e \<Rightarrow> Inl e
        | Inr vis \<Rightarrow> Inr (foldl (offer_computer tz now s actor) Map.empty
            (filter (\<lambda>e. vis e \<and> (e_id e \<in> set epIds
               \<or> (case node_of s (e_id e) of None \<Rightarrow> False | Some n \<Rightarrow> n_rustdeskId n \<in> set ids))) (endpoints s)))))"

text \<open>\<open>(r.endpointId && match.get(..)) || (r.reportedRustdeskId && match.get(..)) || null\<close>.\<close>

definition computer_for :: "computer_map \<Rightarrow> request_row \<Rightarrow> (id \<times> string) option" where
  "computer_for m r =
     nullish (if truthy (rq_endpointId r) then m (''ep:'' @ the (rq_endpointId r)) else None)
             (if truthy (rq_reportedRustdeskId r) then m (''rd:'' @ the (rq_reportedRustdeskId r)) else None)"

record queue_opts =
  qo_businessId :: "id option"
  qo_status :: "string option"
  qo_mine :: bool

record request_view =
  rv_row :: request_row
  rv_computer :: "(id \<times> string) option"
  rv_claimedByMe :: bool

definition status_filter :: "string option \<Rightarrow> (request_row \<Rightarrow> bool) result" where
  "status_filter st =
     (if st = Some ''open'' \<or> \<not> truthy st then Inr (\<lambda>r. rq_status r \<in> set OPEN)
      else if st = Some ''closed'' then Inr (\<lambda>r. rq_status r \<notin> set OPEN)
      else case status_named (the st) of
          None \<Rightarrow> Inl (ServerError ''Invalid value for argument status'')
        | Some x \<Rightarrow> Inr (\<lambda>r. rq_status r = x))"

definition list_requests :: "zone_db \<Rightarrow> time \<Rightarrow> db \<Rightarrow> actor \<Rightarrow> queue_opts \<Rightarrow> request_view list result" where
  "list_requests tz now s actor opts = (case queueScope actor (qo_businessId opts) of
     Inl e \<Rightarrow> Inl e
   | Inr inScope \<Rightarrow> (case status_filter (qo_status opts) of
       Inl e \<Rightarrow> Inl e
     | Inr inStatus \<Rightarrow>
         let rows = take 200 (sort_key rq_createdAt (filter (\<lambda>r. inScope r \<and> inStatus r
               \<and> (qo_mine opts \<longrightarrow> rq_claimedById r = Some (a_userId actor)) \<and> rq_anonymizedAt r = None) (requests s)))
         in (case matchComputers tz now s actor rows of
             Inl e \<Rightarrow> Inl e
           | Inr m \<Rightarrow> Inr (map (\<lambda>r. \<lparr>rv_row = r, rv_computer = computer_for m r,
               rv_claimedByMe = (rq_claimedById r = Some (a_userId actor))\<rparr>) rows))))"

text \<open>The private \<open>load\<close> of the queue.\<close>

definition load_request :: "db \<Rightarrow> actor \<Rightarrow> id \<Rightarrow> request_row result" where
  "load_request s actor i = (case queueScope actor None of
       Inl e \<Rightarrow> Inl e
     | Inr inScope \<Rightarrow> (case find_row (\<lambda>r. rq_id r = i \<and> inScope r \<and> rq_anonymizedAt r = None) (requests s) of
          None \<Rightarrow> Inl (NotFound ''Support request not found'') | Some r \<Rightarrow> Inr r))"

definition request_detail :: "zone_db \<Rightarrow> time \<Rightarrow> db \<Rightarrow> actor \<Rightarrow> id \<Rightarrow> request_view result" where
  "request_detail tz now s actor i = (case load_request s actor i of
       Inl e \<Rightarrow> Inl e
     | Inr _ \<Rightarrow> (case find_row (\<lambda>r. rq_id r = i) (requests s) of
          None \<Rightarrow> Inl (ServerError ''No SupportRequest found'')
        | Some r \<Rightarrow> (case matchComputers tz now s actor [r] of
             Inl e \<Rightarrow> Inl e
           | Inr m \<Rightarrow> Inr \<lparr>rv_row = r, rv_computer = computer_for m r,
               rv_claimedByMe = (rq_claimedById r = Some (a_userId actor))\<rparr>)))"

section \<open>Claiming, handing off, closing\<close>

definition canManage :: "actor \<Rightarrow> request_row \<Rightarrow> bool" where
  "canManage actor r =
     (rq_claimedById r = Some (a_userId actor) \<or> isBusinessOwner actor \<and> a_technician actor = None)"

definition who :: "user_row option \<Rightarrow> string" where
  "who u = (case u of None \<Rightarrow> ''someone'' | Some x \<Rightarrow> full_name x)"

text \<open>The private \<open>event\<close>: the request's own history, and the audit log for most actions.\<close>

definition request_event ::
  "request_row \<Rightarrow> actor \<Rightarrow> string \<Rightarrow> (string \<times> string option) list \<Rightarrow> string option \<Rightarrow> db \<Rightarrow> db" where
  "request_event r actor event detail action s =
     (let s1 = s\<lparr>requestEvents := requestEvents s @ [\<lparr>re_requestId = rq_id r, re_actorId = Some (a_userId actor),
            re_event = event, re_detail = Some detail\<rparr>]\<rparr>
      in case action of
           None \<Rightarrow> s1
         | Some a \<Rightarrow> audit_log a (Some (a_userId actor)) (Some (rq_tenantId r)) (Some (rq_customerId r)) (a_ip actor)
             (Some ''support_request'') (Some (rq_id r)) False s1)"

definition changed_meanwhile :: http_error where
  "changed_meanwhile = Conflict ''This request changed since you loaded it. Refresh and try again.''"

text \<open>The answer to a claim that lost, from the row as it is now.\<close>

definition lost_claim :: "db \<Rightarrow> actor \<Rightarrow> request_row \<Rightarrow> http_error" where
  "lost_claim s actor cur =
     (if rq_claimedById cur = Some (a_userId actor) then Conflict ''You have already claimed this request''
      else if rq_status cur = RQ_WAITING then changed_meanwhile
      else if truthy (rq_claimedById cur)
      then Conflict (''Already claimed by '' @ who (Option.bind (rq_claimedById cur) (user_by_id s)))
      else Conflict ''This request is '')"

definition claim ::
  "zone_db \<Rightarrow> time \<Rightarrow> actor \<Rightarrow> id \<Rightarrow> int \<Rightarrow> db \<Rightarrow> request_view result \<times> db" where
  "claim tz now actor i version s = (case load_request s actor i of
     Inl e \<Rightarrow> (Inl e, s)
   | Inr r \<Rightarrow>
     (case claim_request i (\<lambda>q. rq_status q = RQ_WAITING \<and> rq_version q = version)
         (\<lambda>q. q\<lparr>rq_status := RQ_CLAIMED, rq_claimedById := Some (a_userId actor), rq_claimedAt := Some now,
            rq_version := rq_version q + 1\<rparr>) s of
        (n, s1) \<Rightarrow>
          if n = 0 then (case load_request s1 actor i of
              Inl e \<Rightarrow> (Inl e, s1) | Inr cur \<Rightarrow> (Inl (lost_claim s1 actor cur), s1))
          else
            let s2 = request_event r actor ''claimed'' [] (Some ''SUPPORT_REQUEST_CLAIMED'') s1
            in (request_detail tz now s2 actor i, s2)))"

text \<open>Can \<open>userId\<close> handle support requests in \<open>businessId\<close> right now?\<close>

definition canHandle :: "zone_db \<Rightarrow> db \<Rightarrow> time \<Rightarrow> id \<Rightarrow> id \<Rightarrow> bool" where
  "canHandle tz s now userId businessId = (case user_by_id s userId of
     None \<Rightarrow> False
   | Some user \<Rightarrow>
       if u_status user \<noteq> U_ACTIVE then False
       else if u_isPlatformAdmin user then True
       else if (case find_row (\<lambda>m. m_userId m = userId \<and> m_isActive m \<and> m_customerId m = Some businessId) (memberships s) of
           None \<Rightarrow> False
         | Some m \<Rightarrow> CAP_SUPPORT_REQUESTS \<in> set (effectiveCapabilities \<lparr>p_isPlatformAdmin = False,
             p_roleType = Some (m_roleType m), p_capabilities = Some (m_capabilities m)\<rparr>)) then True
       else (case scopeFor tz s userId businessId now of
           None \<Rightarrow> False | Some sc \<Rightarrow> CAP_SUPPORT_REQUESTS \<in> set (bs_capabilities sc)))"

definition handoff ::
  "zone_db \<Rightarrow> time \<Rightarrow> actor \<Rightarrow> id \<Rightarrow> id \<Rightarrow> int \<Rightarrow> string option \<Rightarrow> db \<Rightarrow> request_view result \<times> db" where
  "handoff tz now actor i toUserId version note s = (case load_request s actor i of
     Inl e \<Rightarrow> (Inl e, s)
   | Inr r \<Rightarrow>
     if rq_status r \<notin> {RQ_CLAIMED, RQ_CONNECTING} then (Inl (Conflict ''Only a claimed request can be handed off''), s)
     else if \<not> canManage actor r
     then (Inl (Forbidden ''Only the technician who claimed it, or a Business Owner, can hand it off''), s)
     else if Some toUserId = rq_claimedById r then (Inl (BadRequest ''That person already has it''), s)
     else if \<not> canHandle tz s now toUserId (rq_customerId r)
     then (Inl (Forbidden ''That person cannot handle support requests for this business''), s)
     else (case claim_request i (\<lambda>q. rq_status q \<in> {RQ_CLAIMED, RQ_CONNECTING} \<and> rq_version q = version
             \<and> rq_claimedById q = rq_claimedById r)
         (\<lambda>q. q\<lparr>rq_status := RQ_CLAIMED, rq_claimedById := Some toUserId, rq_claimedAt := Some now,
            rq_version := rq_version q + 1\<rparr>) s of
        (n, s1) \<Rightarrow>
          if n = 0 then (Inl changed_meanwhile, s1)
          else
            let s2 = request_event r actor ''handed_off'' [(''from'', rq_claimedById r), (''to'', Some toUserId),
                   (''note'', clean note 300)] (Some ''SUPPORT_REQUEST_HANDED_OFF'') s1
            in (request_detail tz now s2 actor i, s2)))"

definition release ::
  "zone_db \<Rightarrow> time \<Rightarrow> actor \<Rightarrow> id \<Rightarrow> int \<Rightarrow> db \<Rightarrow> request_view result \<times> db" where
  "release tz now actor i version s = (case load_request s actor i of
     Inl e \<Rightarrow> (Inl e, s)
   | Inr r \<Rightarrow>
     if \<not> canManage actor r
     then (Inl (Forbidden ''Only the technician who claimed it, or a Business Owner, can release it''), s)
     else (case claim_request i (\<lambda>q. rq_status q \<in> {RQ_CLAIMED, RQ_CONNECTING} \<and> rq_version q = version)
         (\<lambda>q. q\<lparr>rq_status := RQ_WAITING, rq_claimedById := None, rq_claimedAt := None,
            rq_version := rq_version q + 1\<rparr>) s of
        (n, s1) \<Rightarrow>
          if n = 0 then (Inl changed_meanwhile, s1)
          else let s2 = request_event r actor ''released'' [] None s1 in (request_detail tz now s2 actor i, s2)))"

datatype close_kind = CompleteRequest | CancelRequest

definition close_status :: "close_kind \<Rightarrow> request_status" where
  "close_status k = (case k of CompleteRequest \<Rightarrow> RQ_COMPLETED | CancelRequest \<Rightarrow> RQ_CANCELED)"

definition close_request ::
  "zone_db \<Rightarrow> time \<Rightarrow> actor \<Rightarrow> id \<Rightarrow> close_kind \<Rightarrow> int \<Rightarrow> string option \<Rightarrow> db \<Rightarrow> request_view result \<times> db" where
  "close_request tz now actor i kind version outcome s = (case load_request s actor i of
     Inl e \<Rightarrow> (Inl e, s)
   | Inr r \<Rightarrow>
     if \<not> (canManage actor r \<or> kind = CancelRequest \<and> rq_status r = RQ_WAITING \<and> isBusinessOwner actor)
     then (Inl (Forbidden ''Only the technician who claimed it, or a Business Owner, can close it''), s)
     else (case claim_request i (\<lambda>q. rq_status q \<in> (if kind = CompleteRequest then {RQ_CLAIMED, RQ_CONNECTING} else set OPEN)
             \<and> rq_version q = version)
         (\<lambda>q. q\<lparr>rq_status := close_status kind, rq_closedAt := Some now, rq_outcome := clean outcome 300,
            rq_version := rq_version q + 1\<rparr>) s of
        (n, s1) \<Rightarrow>
          if n = 0 then (Inl changed_meanwhile, s1)
          else
            let s2 = request_event r actor (if kind = CompleteRequest then ''completed'' else ''canceled'')
                   [(''outcome'', clean outcome 300)]
                   (Some (if kind = CompleteRequest then ''SUPPORT_REQUEST_COMPLETED'' else ''SUPPORT_REQUEST_CANCELED'')) s1
            in (request_detail tz now s2 actor i, s2)))"

record handoff_candidate =
  hc_userId :: id
  hc_name :: string
  hc_email :: string

text \<open>
  The people a request could go to, in the order a JavaScript map keeps: members of the
  business, then its technicians, direct or through a group.
\<close>

definition known_user :: "db \<Rightarrow> id \<Rightarrow> (id \<times> user_row) list" where
  "known_user s i = (case user_by_id s i of None \<Rightarrow> [] | Some u \<Rightarrow> [(i, u)])"

definition people_of :: "db \<Rightarrow> id \<Rightarrow> (id \<times> user_row) list" where
  "people_of s b =
     concat (map (\<lambda>m. filter (\<lambda>(i, u). u_status u = U_ACTIVE) (known_user s (m_userId m)))
        (filter (\<lambda>m. m_customerId m = Some b \<and> m_isActive m) (memberships s)))
     @ concat (map (\<lambda>a.
         (case ta_userId a of None \<Rightarrow> [] | Some i \<Rightarrow> known_user s i)
         @ (case ta_groupId a of None \<Rightarrow> []
            | Some g \<Rightarrow> concat (map (\<lambda>gm. known_user s (gm_userId gm))
                (filter (\<lambda>gm. gm_groupId gm = g) (groupMembers s)))))
        (filter (\<lambda>a. ta_customerId a = b \<and> ta_revokedAt a = None) (assignments s)))"

definition handoffCandidates ::
  "zone_db \<Rightarrow> time \<Rightarrow> db \<Rightarrow> actor \<Rightarrow> id \<Rightarrow> handoff_candidate list result" where
  "handoffCandidates tz now s actor i = (case load_request s actor i of
     Inl e \<Rightarrow> Inl e
   | Inr r \<Rightarrow>
       let people = foldl (\<lambda>m (k, u). AList.update k u m) [] (people_of s (rq_customerId r))
       in Inr (map (\<lambda>(k, u). \<lparr>hc_userId = k, hc_name = who (Some u), hc_email = u_email u\<rparr>)
            (filter (\<lambda>(k, u). Some k \<noteq> rq_claimedById r \<and> canHandle tz s now k (rq_customerId r)) people)))"

section \<open>Connecting and retention\<close>

definition forQuickConnect :: "actor \<Rightarrow> id \<Rightarrow> db \<Rightarrow> id result \<times> db" where
  "forQuickConnect actor requestId s =
     (case find_row (\<lambda>r. rq_id r = requestId
          \<and> rq_customerId r = (case a_businessId actor of None \<Rightarrow> ''__none__'' | Some b \<Rightarrow> b)
          \<and> rq_claimedById r = Some (a_userId actor) \<and> rq_status r \<in> {RQ_CLAIMED, RQ_CONNECTING}) (requests s) of
        None \<Rightarrow> (Inl (NotFound ''Support request not found or not claimed by you''), s)
      | Some r \<Rightarrow> (Inr (rq_id r),
          snd (claim_request (rq_id r) (\<lambda>q. rq_status q = RQ_CLAIMED) (\<lambda>q. q\<lparr>rq_status := RQ_CONNECTING\<rparr>) s)))"

definition expired_row :: "time \<Rightarrow> request_row \<Rightarrow> bool" where
  "expired_row now r = (rq_status r = RQ_WAITING \<and> rq_createdAt r < now - WAITING_EXPIRY_MS)"

definition expire_request :: "time \<Rightarrow> request_row \<Rightarrow> request_row" where
  "expire_request now r = r\<lparr>rq_status := RQ_EXPIRED, rq_closedAt := Some now,
     rq_outcome := Some ''expired_unclaimed'', rq_version := rq_version r + 1\<rparr>"

definition due_for_erasure :: "time \<Rightarrow> request_row \<Rightarrow> bool" where
  "due_for_erasure now r = (rq_status r \<notin> set OPEN \<and> rq_anonymizedAt r = None
     \<and> (case rq_closedAt r of None \<Rightarrow> False | Some t \<Rightarrow> t < now - ANONYMIZE_AFTER_MS))"

definition erased :: "time \<Rightarrow> string \<Rightarrow> request_row \<Rightarrow> request_row" where
  "erased now hash r = r\<lparr>rq_contactName := None, rq_contactEmail := None, rq_contactPhone := None,
     rq_description := None, rq_reportedRustdeskId := None, rq_submitIpHash := None,
     rq_anonymizedAt := Some now, rq_statusTokenHash := hash\<rparr>"

definition erase_one :: "time \<Rightarrow> (id \<Rightarrow> string) \<Rightarrow> db \<Rightarrow> id \<Rightarrow> db" where
  "erase_one now fresh_hash s i =
     s\<lparr>requests := update_rows (\<lambda>r. rq_id r = i) (erased now (fresh_hash i)) (requests s),
       requestEvents := update_rows (\<lambda>e. re_requestId e = i) (\<lambda>e. e\<lparr>re_detail := None\<rparr>) (requestEvents s)\<rparr>"

text \<open>How many requests expired and how many were erased; \<open>fresh_hash\<close> gives the unusable hashes.\<close>

definition retention :: "(id \<Rightarrow> string) \<Rightarrow> time \<Rightarrow> db \<Rightarrow> (nat \<times> nat) \<times> db" where
  "retention fresh_hash now s =
     (let n = count_rows (expired_row now) (requests s);
          s1 = s\<lparr>requests := update_rows (expired_row now) (expire_request now) (requests s)\<rparr>;
          old = map rq_id (take 500 (filter (due_for_erasure now) (requests s1)))
      in ((n, length old), foldl (erase_one now fresh_hash) s1 old))"

end
