(* ===== verification/QuickConnect.thy ===== *)
theory QuickConnect
  imports SupportRequests Sessions
begin

text \<open>
  Quick Connect (\<open>quick-connect/quick-connect.service.ts\<close>): its three switches, starting and ending a
  session with a machine that is not enrolled, and the history. The downloads shown with the status
  are left out.
\<close>

record qc_status =
  qs_platformEnabled :: bool
  qs_businessEnabled :: bool
  qs_hasCapability :: bool
  qs_canUse :: bool
  qs_reason :: "string option"
  qs_businessName :: "string option"

definition quick_status :: "db \<Rightarrow> actor \<Rightarrow> qc_status" where
  "quick_status s actor =
     (let platformEnabled = quickConnectPlatform s;
          business = (if truthy (a_businessId actor) then business_of s (the (a_businessId actor)) else None);
          businessEnabled = (if truthy (a_businessId actor)
             then (case business of None \<Rightarrow> False | Some b \<Rightarrow> c_quickConnectEnabled b \<and> c_isActive b) else True);
          hasCapability = can actor CAP_QUICK_CONNECT
      in \<lparr>qs_platformEnabled = platformEnabled, qs_businessEnabled = businessEnabled, qs_hasCapability = hasCapability,
          qs_canUse = (platformEnabled \<and> businessEnabled \<and> hasCapability),
          qs_reason = (if \<not> platformEnabled then Some ''Quick Connect is turned off for this Rem0te platform.''
             else if \<not> businessEnabled then Some ''Quick Connect is turned off for your business.''
             else if \<not> hasCapability then Some ''You do not have the Use Quick Connect permission.'' else None),
          qs_businessName = map_option c_name business\<rparr>)"

definition assertUsable :: "actor \<Rightarrow> db \<Rightarrow> qc_status result \<times> db" where
  "assertUsable actor s =
     (let status = quick_status s actor in
      if \<not> qs_canUse status
      then (Inl (Forbidden (case qs_reason status of None \<Rightarrow> ''Quick Connect is not available'' | Some r \<Rightarrow> r)),
            audit_log ''QUICK_CONNECT_DENIED'' (Some (a_userId actor)) (a_tenantId actor) (a_businessId actor) (a_ip actor)
              (Some ''quick_connect'') None False s)
      else (Inr status, s))"

definition RUSTDESK_ID_RE :: "string \<Rightarrow> bool" where
  "RUSTDESK_ID_RE r = (6 \<le> length r \<and> length r \<le> 16 \<and> list_all is_digit r)"

record quick_request =
  qr_rustdeskId :: string
  qr_password :: string
  qr_contactName :: "string option"
  qr_issueDescription :: "string option"
  qr_supportRequestId :: "id option"

definition quick_session :: "id \<Rightarrow> time \<Rightarrow> id \<Rightarrow> actor \<Rightarrow> string \<Rightarrow> quick_request \<Rightarrow> id option \<Rightarrow> session_row" where
  "quick_session i now tenantId actor rustdeskId dto supportRequestId =
     (new_session i now tenantId (a_businessId actor) (a_userId actor))
       \<lparr>ss_isAdHoc := True, ss_adHocRustdeskId := Some rustdeskId, ss_contactName := qr_contactName dto,
        ss_issueDescription := qr_issueDescription dto, ss_status := LAUNCH_REQUESTED, ss_launchRequestedAt := Some now,
        ss_statusSource := Some ''server'', ss_statusChangedAt := Some now, ss_supportRequestId := supportRequestId\<rparr>"

text \<open>The answer: the session and the ID to dial; the password passes through.\<close>

definition connect :: "time \<Rightarrow> id \<Rightarrow> actor \<Rightarrow> quick_request \<Rightarrow> db \<Rightarrow> (id \<times> string) result \<times> db" where
  "connect now i actor dto s = (case assertUsable actor s of
     (Inl e, s1) \<Rightarrow> (Inl e, s1)
   | (Inr _, s1) \<Rightarrow>
     let rustdeskId = tidy_rustdesk_id (Some (qr_rustdeskId dto)) in
     if \<not> RUSTDESK_ID_RE rustdeskId
     then (Inl (BadRequest ''That does not look like a Remote ID. It should be the 9-digit number shown by the Quick Connect client.''), s1)
     else if length (qr_password dto) < 4 \<or> length (qr_password dto) > 128
     then (Inl (BadRequest ''Enter the password shown by the Quick Connect client.''), s1)
     else if \<not> truthy (a_tenantId actor) then (Inl (BadRequest ''No platform context''), s1)
     else (case (if truthy (qr_supportRequestId dto)
                 then (case forQuickConnect actor (the (qr_supportRequestId dto)) s1 of
                     (Inl e, s2) \<Rightarrow> (Inl e, s2) | (Inr r, s2) \<Rightarrow> (Inr (Some r), s2))
                 else (Inr None, s1)) of
         (Inl e, s2) \<Rightarrow> (Inl e, s2)
       | (Inr supportRequestId, s2) \<Rightarrow>
           (Inr (i, rustdeskId),
            audit_log ''QUICK_CONNECT_INITIATED'' (Some (a_userId actor)) (a_tenantId actor) (a_businessId actor) (a_ip actor)
              (Some ''support_session'') (Some i) False
              (insert_event i ''launch_requested'' server now (Some ''server:launch'') True
                (s2\<lparr>sessions := sessions s2 @ [quick_session i now (the (a_tenantId actor)) actor rustdeskId dto supportRequestId]\<rparr>)))))"

datatype quick_result = Quick_completed | Quick_failed | Quick_cancelled

fun quick_event :: "quick_result \<Rightarrow> session_event_type" where
  "quick_event Quick_completed = technician_completed"
| "quick_event Quick_failed = technician_failed"
| "quick_event Quick_cancelled = technician_canceled"

definition end_quick :: "interference \<Rightarrow> time \<Rightarrow> actor \<Rightarrow> id \<Rightarrow> quick_result \<Rightarrow> db \<Rightarrow> session_row result \<times> db" where
  "end_quick f now actor sessionId outcome s = (case resolveScope actor None of
     Inl e \<Rightarrow> (Inl e, s)
   | Inr sc \<Rightarrow> (case find_row (\<lambda>r. ss_id r = sessionId \<and> ss_isAdHoc r \<and> scope_where ss_customerId sc r) (sessions s) of
       None \<Rightarrow> (Inl (NotFound ''Session not found''), s)
     | Some r \<Rightarrow>
         if \<not> isBusinessOwner actor \<and> ss_technicianId r \<noteq> a_userId actor
         then (Inl (Forbidden ''That is not your session''), s)
         else (case record_event f sessionId (technician_event (quick_event outcome) now)
                 (technician_opts actor (''technician:'' @ event_name (quick_event outcome))) s of
             (res, s1) \<Rightarrow>
               if \<not> rr_applied res then (Inl (Conflict ''Session is already closed''), s1)
               else (case session_by_id s1 sessionId of
                   None \<Rightarrow> (Inl (ServerError ''No SupportSession found''), s1)
                 | Some u \<Rightarrow> (Inr u, audit_log ''QUICK_CONNECT_ENDED'' (Some (a_userId actor)) (Some (ss_tenantId r)) (ss_customerId r)
                       (a_ip actor) (Some ''support_session'') (Some sessionId) False s1)))))"

definition quick_history :: "db \<Rightarrow> actor \<Rightarrow> id option \<Rightarrow> session_row list result" where
  "quick_history s actor businessId = (case resolveScope actor businessId of
     Inl e \<Rightarrow> Inl e
   | Inr sc \<Rightarrow> Inr (filter (\<lambda>r. ss_isAdHoc r \<and> scope_where ss_customerId sc r
       \<and> (isBusinessOwner actor \<or> can actor CAP_HISTORY_VIEW \<or> ss_technicianId r = a_userId actor)) (sessions s)))"

section \<open>Lemmas\<close>

lemma quick_status_switches:
  "qs_canUse (quick_status s actor) \<longleftrightarrow> quickConnectPlatform s \<and> can actor CAP_QUICK_CONNECT
     \<and> (truthy (a_businessId actor) \<longrightarrow>
          (\<exists>b. business_of s (the (a_businessId actor)) = Some b \<and> c_quickConnectEnabled b \<and> c_isActive b))"
  by (auto simp: quick_status_def Let_def split: option.splits)

lemma assertUsable_Inr:
  "assertUsable actor s = (Inr st, s1) \<Longrightarrow> s1 = s \<and> qs_canUse (quick_status s actor)"
  by (auto simp: assertUsable_def Let_def split: if_splits)

lemma forQuickConnect_tables:
  "endpoints (snd (forQuickConnect actor q s)) = endpoints s" "nodes (snd (forQuickConnect actor q s)) = nodes s"
  "accesses (snd (forQuickConnect actor q s)) = accesses s" "sessions (snd (forQuickConnect actor q s)) = sessions s"
  by (auto simp: forQuickConnect_def claim_request_def claim_rows_def split: option.splits)

lemma connect_Inr:
  assumes "connect now i actor dto s = (Inr r, s1)"
  obtains s2 rid sr where "qs_canUse (quick_status s actor)" "RUSTDESK_ID_RE rid" "r = (i, rid)"
    "s2 = s \<or> s2 = snd (forQuickConnect actor (the (qr_supportRequestId dto)) s)"
    "s1 = audit_log ''QUICK_CONNECT_INITIATED'' (Some (a_userId actor)) (a_tenantId actor) (a_businessId actor) (a_ip actor)
              (Some ''support_session'') (Some i) False
              (insert_event i ''launch_requested'' server now (Some ''server:launch'') True
                (s2\<lparr>sessions := sessions s2 @ [quick_session i now (the (a_tenantId actor)) actor rid dto sr]\<rparr>))"
proof -
  obtain st s0 where u: "assertUsable actor s = (Inr st, s0)"
    using assms by (cases "assertUsable actor s"; cases "fst (assertUsable actor s)") (auto simp: connect_def)
  note [simp] = assertUsable_Inr[OF u]
  show thesis
  proof (cases "truthy (qr_supportRequestId dto)")
    case False
    with assms u show thesis
      by (intro that) (auto simp: connect_def Let_def split: if_splits)
  next
    case True
    obtain x s2 where f: "forQuickConnect actor (the (qr_supportRequestId dto)) s = (x, s2)" by (rule prod.exhaust)
    show thesis
    proof (cases x)
      case (Inl e)
      with True assms u f show thesis by (auto simp: connect_def Let_def split: if_splits)
    next
      case (Inr b)
      let ?rid = "tidy_rustdesk_id (Some (qr_rustdeskId dto))"
      from True assms u f Inr have res: "RUSTDESK_ID_RE ?rid" "r = (i, ?rid)"
        "s1 = audit_log ''QUICK_CONNECT_INITIATED'' (Some (a_userId actor)) (a_tenantId actor) (a_businessId actor) (a_ip actor)
              (Some ''support_session'') (Some i) False
              (insert_event i ''launch_requested'' server now (Some ''server:launch'') True
                (s2\<lparr>sessions := sessions s2 @ [quick_session i now (the (a_tenantId actor)) actor ?rid dto (Some b)]\<rparr>))"
        by (auto simp: connect_def Let_def split: if_splits)
      have "s2 = snd (forQuickConnect actor (the (qr_supportRequestId dto)) s)" by (simp add: f)
      then show thesis using that[OF conjunct2[OF assertUsable_Inr[OF u]] res(1,2) _ res(3)] by blast
    qed
  qed
qed

lemma connect_ignores_password:
  assumes "4 \<le> length p" "length p \<le> 128" "4 \<le> length (qr_password dto)" "length (qr_password dto) \<le> 128"
  shows "connect now i actor (dto\<lparr>qr_password := p\<rparr>) s = connect now i actor dto s"
proof (cases dto)
  case (fields rid pw name issue req)
  have q: "(length p < 4 \<or> 128 < length p) = False" "(length pw < 4 \<or> 128 < length pw) = False"
    using assms by (simp_all add: fields)
  show ?thesis
    unfolding fields connect_def quick_session_def quick_request.simps quick_request.update_convs q by (rule refl)
qed

text \<open>
  Quick Connect open to an actor: the platform switch is on, the actor has the capability and the
  business of the actor, if any, is active with Quick Connect enabled.
\<close>

definition quick_open :: "db \<Rightarrow> actor \<Rightarrow> bool" where
  "quick_open s actor \<longleftrightarrow> quickConnectPlatform s \<and> can actor CAP_QUICK_CONNECT
     \<and> (truthy (a_businessId actor) \<longrightarrow>
          (\<exists>b. business_of s (the (a_businessId actor)) = Some b \<and> c_quickConnectEnabled b \<and> c_isActive b))"

definition quick_request_sample :: quick_request where
  "quick_request_sample = \<lparr>qr_rustdeskId = ''123 456 789'', qr_password = ''secret'', qr_contactName = None,
     qr_issueDescription = None, qr_supportRequestId = None\<rparr>"

definition quick_db :: db where
  "quick_db = empty_db\<lparr>businesses := [one_business ''b1'']\<rparr>"

section \<open>Properties\<close>

text \<open>
  Quick Connect never enrolls a machine. A connection that starts had all three switches on, adds exactly one
  session, an ad-hoc one of the caller in the caller's business without a computer, leaves computers, nodes and
  access grants alone, and writes nothing of the password: any other acceptable password gives the same
  database and answer.
\<close>

theorem quick_connect_never_enrolls:
  assumes "connect now i actor dto s = (Inr r, s1)" and "4 \<le> length p" "length p \<le> 128"
  shows "quick_open s actor \<and> endpoints s1 = endpoints s \<and> nodes s1 = nodes s \<and> accesses s1 = accesses s
    \<and> (\<exists>x. sessions s1 = sessions s @ [x] \<and> ss_isAdHoc x \<and> ss_endpointId x = None \<and> ss_technicianId x = a_userId actor
         \<and> ss_customerId x = a_businessId actor \<and> ss_adHocRustdeskId x = Some (snd r))
    \<and> connect now i actor (dto\<lparr>qr_password := p\<rparr>) s = (Inr r, s1)"
proof -
  obtain s2 rid sr where c: "qs_canUse (quick_status s actor)" "r = (i, rid)"
    "s2 = s \<or> s2 = snd (forQuickConnect actor (the (qr_supportRequestId dto)) s)"
    "s1 = audit_log ''QUICK_CONNECT_INITIATED'' (Some (a_userId actor)) (a_tenantId actor) (a_businessId actor) (a_ip actor)
              (Some ''support_session'') (Some i) False
              (insert_event i ''launch_requested'' server now (Some ''server:launch'') True
                (s2\<lparr>sessions := sessions s2 @ [quick_session i now (the (a_tenantId actor)) actor rid dto sr]\<rparr>))"
    using assms(1) by (rule connect_Inr)
  have o: "quick_open s actor" using c(1) by (simp add: quick_open_def quick_status_switches)
  have t: "endpoints s2 = endpoints s" "nodes s2 = nodes s" "accesses s2 = accesses s" "sessions s2 = sessions s"
    using c(3) by (auto simp: forQuickConnect_tables)
  have e: "endpoints s1 = endpoints s \<and> nodes s1 = nodes s \<and> accesses s1 = accesses s"
    by (simp add: c(4) t insert_event_def)
  have x: "\<exists>x. sessions s1 = sessions s @ [x] \<and> ss_isAdHoc x \<and> ss_endpointId x = None \<and> ss_technicianId x = a_userId actor
       \<and> ss_customerId x = a_businessId actor \<and> ss_adHocRustdeskId x = Some (snd r)"
    by (simp add: c(2,4) t quick_session_def new_session_def)
  have "4 \<le> length (qr_password dto) \<and> length (qr_password dto) \<le> 128"
    using assms(1) by (auto simp: connect_def Let_def split: sum.splits prod.splits if_splits)
  then have "connect now i actor (dto\<lparr>qr_password := p\<rparr>) s = (Inr r, s1)"
    using connect_ignores_password assms by simp
  with o e x show ?thesis by blast
qed

lemma quick_connect_sample:
  "\<exists>r s1. connect 0 ''s1'' (plain_actor ''u1'' (Some ''b1'') None [CAP_QUICK_CONNECT]) quick_request_sample quick_db = (Inr r, s1)"
proof -
  have rid: "tidy_rustdesk_id (Some ''123 456 789'') = ''123456789''" by code_simp
  have ok: "RUSTDESK_ID_RE ''123456789''" by code_simp
  show ?thesis
    by (simp add: connect_def assertUsable_def quick_status_def plain_actor_def quick_db_def empty_db_def business_of_def
        one_business_def can_def quick_request_sample_def rid ok Let_def)
qed

theorem quick_connect_never_enrolls_witness:
  "\<exists>s1 x. sessions s1 = [x] \<and> ss_isAdHoc x \<and> endpoints s1 = []
     \<and> connect 0 ''s1'' (plain_actor ''u1'' (Some ''b1'') None [CAP_QUICK_CONNECT])
         (quick_request_sample\<lparr>qr_password := ''other''\<rparr>) quick_db = (Inr (''s1'', ''123456789''), s1)"
proof -
  obtain r s1 where c: "connect 0 ''s1'' (plain_actor ''u1'' (Some ''b1'') None [CAP_QUICK_CONNECT]) quick_request_sample quick_db
      = (Inr r, s1)" using quick_connect_sample by blast
  have "4 \<le> length ''other''" "length ''other'' \<le> 128" by simp_all
  note q = quick_connect_never_enrolls[OF c this]
  have "sessions quick_db = []" "endpoints quick_db = []" by (simp_all add: quick_db_def empty_db_def)
  with q obtain x where "sessions s1 = [x]" "ss_isAdHoc x" "endpoints s1 = []" by auto
  moreover have "connect 0 ''s1'' (plain_actor ''u1'' (Some ''b1'') None [CAP_QUICK_CONNECT])
      (quick_request_sample\<lparr>qr_password := ''other''\<rparr>) quick_db = (Inr r, s1)" using q by blast
  moreover have "r = (''s1'', ''123456789'')"
  proof -
    have rid: "tidy_rustdesk_id (Some ''123 456 789'') = ''123456789''" by code_simp
    show ?thesis using c by (auto simp: connect_def quick_request_sample_def rid Let_def split: sum.splits prod.splits if_splits)
  qed
  ultimately show ?thesis by blast
qed

end
