(* ===== verification/Launcher.thy ===== *)
theory Launcher
  imports Endpoints QuickConnect
begin

text \<open>
  Launcher tokens (\<open>launcher/launcher.service.ts\<close>): minting a short-lived token for one computer or one Quick Connect ID,
  redeeming it once after a fresh authorization, and revoking it. Signing and verifying the JWT and SHA-256 are the
  libraries': \<open>sign\<close>, the payload (\<open>None\<close> where \<open>verify\<close> throws) and \<open>sha\<close>. The RustDesk configuration that
  travels with the answer is left out.
\<close>

record launcher_payload =
  lp_sub :: id
  lp_tenantId :: id
  lp_sessionId :: "id option"
  lp_targetEndpointId :: "id option"
  lp_targetRustdeskId :: "string option"
  lp_businessId :: "id option"
  lp_type :: string

record launch_request =
  lr_endpointId :: "id option"
  lr_adHocRustdeskId :: "string option"
  lr_sessionId :: "id option"

definition tokenTtlSeconds :: int where "tokenTtlSeconds = 120"

section \<open>Minting\<close>

text \<open>The target: a computer the actor may connect to, or an ad-hoc ID under the Quick Connect switches.\<close>

definition launch_target ::
  "zone_db \<Rightarrow> time \<Rightarrow> actor \<Rightarrow> launch_request \<Rightarrow> db \<Rightarrow> string option result \<times> db" where
  "launch_target tz now actor dto s =
     (if truthy (lr_endpointId dto)
      then (case assertEndpointInScope s actor (the (lr_endpointId dto)) of
          Inl e \<Rightarrow> (Inl e, s)
        | Inr _ \<Rightarrow>
            if \<not> canConnect tz now s actor (the (lr_endpointId dto)) then (Inl (NotFound ''Computer not found''), s)
            else (case node_of s (the (lr_endpointId dto)) of
                None \<Rightarrow> (Inl (BadRequest ''That computer has no RustDesk ID assigned''), s)
              | Some n \<Rightarrow> if n_rustdeskId n = [] then (Inl (BadRequest ''That computer has no RustDesk ID assigned''), s)
                          else (Inr (Some (n_rustdeskId n)), s)))
      else if truthy (lr_adHocRustdeskId dto)
      then (case assertUsable actor s of (Inl e, s1) \<Rightarrow> (Inl e, s1) | (Inr _, s1) \<Rightarrow> (Inr (lr_adHocRustdeskId dto), s1))
      else (Inr (lr_adHocRustdeskId dto), s))"

text \<open>The session a token is bound to: the caller's own, before its client opened, for the same target.\<close>

definition session_for_launch :: "actor \<Rightarrow> launch_request \<Rightarrow> db \<Rightarrow> unit result" where
  "session_for_launch actor dto s =
     (if \<not> truthy (lr_sessionId dto) then Inr ()
      else (case resolveScope actor None of
          Inl e \<Rightarrow> Inl e
        | Inr sc \<Rightarrow>
            if find_row (\<lambda>r. ss_id r = the (lr_sessionId dto) \<and> ss_technicianId r = a_userId actor
                \<and> ss_status r \<in> set PRE_CLIENT_STATUSES \<and> scope_where ss_customerId sc r
                \<and> (if truthy (lr_endpointId dto) then ss_endpointId r = lr_endpointId dto
                   else ss_isAdHoc r \<and> ss_adHocRustdeskId r = lr_adHocRustdeskId dto)) (sessions s) = None
            then Inl (NotFound ''Session not found'') else Inr ()))"

text \<open>
  The insert: hash and session of a token are unique in its table, and a duplicate makes the
  database refuse.
\<close>

definition insert_token :: "launcher_token_row \<Rightarrow> db \<Rightarrow> unit result \<times> db" where
  "insert_token r s =
     (if find_row (\<lambda>q. lt_token q = lt_token r \<or> (lt_supportSessionId r \<noteq> None \<and> lt_supportSessionId q = lt_supportSessionId r))
           (launcherTokens s) \<noteq> None
      then (Inl (ServerError ''Unique constraint failed''), s)
      else (Inr (), s\<lparr>launcherTokens := launcherTokens s @ [r]\<rparr>))"

definition issueToken ::
  "(time \<Rightarrow> launcher_payload \<Rightarrow> string) \<Rightarrow> (string \<Rightarrow> string) \<Rightarrow> zone_db \<Rightarrow> time \<Rightarrow> id \<Rightarrow> actor \<Rightarrow> launch_request \<Rightarrow> db \<Rightarrow>
   (string \<times> time) result \<times> db" where
  "issueToken sign sha tz now i actor dto s =
     (if \<not> truthy (lr_endpointId dto) \<and> \<not> truthy (lr_adHocRustdeskId dto)
      then (Inl (BadRequest ''Either endpointId or adHocRustdeskId is required''), s)
      else (case assertCapability actor [CAP_COMPUTERS_CONNECT] of
        Inl e \<Rightarrow> (Inl e, s)
      | Inr _ \<Rightarrow> (case launch_target tz now actor dto s of
          (Inl e, s1) \<Rightarrow> (Inl e, s1)
        | (Inr targetRustdeskId, s1) \<Rightarrow> (case session_for_launch actor dto s1 of
            Inl e \<Rightarrow> (Inl e, s1)
          | Inr _ \<Rightarrow>
              if \<not> truthy (a_tenantId actor) then (Inl (BadRequest ''No platform context''), s1)
              else
                let tenantId = the (a_tenantId actor);
                    signedToken = sign now \<lparr>lp_sub = a_userId actor, lp_tenantId = tenantId, lp_sessionId = or_null (lr_sessionId dto),
                      lp_targetEndpointId = or_null (lr_endpointId dto), lp_targetRustdeskId = or_null targetRustdeskId,
                      lp_businessId = or_null (a_businessId actor), lp_type = ''launcher''\<rparr>;
                    expiresAt = now + tokenTtlSeconds * 1000;
                    row = \<lparr>lt_id = i, lt_tenantId = tenantId, lt_userId = a_userId actor, lt_supportSessionId = lr_sessionId dto,
                      lt_token = sha signedToken, lt_expiresAt = expiresAt, lt_usedAt = None, lt_revokedAt = None,
                      lt_targetEndpointId = lr_endpointId dto, lt_targetRustdeskId = targetRustdeskId\<rparr>
                in (case insert_token row s1 of
                    (Inl e, s2) \<Rightarrow> (Inl e, s2)
                  | (Inr _, s2) \<Rightarrow> (Inr (signedToken, expiresAt),
                      audit_log ''LAUNCHER_TOKEN_ISSUED'' (Some (a_userId actor)) (Some tenantId) (a_businessId actor) (a_ip actor)
                        (Some ''launcher_token'') (Some i) False s2))))))"

section \<open>Redeeming\<close>

definition recheckAuthorization ::
  "zone_db \<Rightarrow> time \<Rightarrow> launcher_token_row \<Rightarrow> launcher_payload \<Rightarrow> db \<Rightarrow> bool \<times> db" where
  "recheckAuthorization tz now r payload s =
     (if truthy (lt_targetEndpointId r)
      then (case endpoint_by_id s (the (lt_targetEndpointId r)) of
          None \<Rightarrow> (False, s)
        | Some endpoint \<Rightarrow> (case liveActor tz s (lt_userId r) (lt_tenantId r) (e_customerId endpoint) None now of
            None \<Rightarrow> (False, s)
          | Some actor \<Rightarrow> (canConnect tz now s actor (the (lt_targetEndpointId r)), s)))
      else (case liveActor tz s (lt_userId r) (lt_tenantId r) (lp_businessId payload) None now of
          None \<Rightarrow> (False, s)
        | Some actor \<Rightarrow> (case assertUsable actor s of (Inl _, s1) \<Rightarrow> (False, s1) | (Inr _, s1) \<Rightarrow> (True, s1))))"

definition token_unused :: "launcher_token_row \<Rightarrow> bool" where
  "token_unused r = (lt_usedAt r = None \<and> lt_revokedAt r = None)"

definition use_token :: "time \<Rightarrow> launcher_token_row \<Rightarrow> launcher_token_row" where
  "use_token now r = r\<lparr>lt_usedAt := Some now\<rparr>"

definition acknowledge :: "interference \<Rightarrow> time \<Rightarrow> launcher_token_row \<Rightarrow> db \<Rightarrow> db" where
  "acknowledge f now r s =
     (if \<not> truthy (lt_supportSessionId r) then s
      else snd (record_event f (the (lt_supportSessionId r))
        \<lparr>ev_type = launcher_acknowledged, ev_source = server, ev_occurredAt = None, ev_receivedAt = now\<rparr>
        \<lparr>op_dedupeKey = Some (''launcher:'' @ lt_id r), op_actorId = None, op_requireApplied = False\<rparr> s))"

record launch =
  la_userId :: id
  la_tenantId :: id
  la_targetRustdeskId :: "string option"
  la_targetEndpointId :: "id option"
  la_sessionId :: "id option"

text \<open>
  \<open>g\<close> is what other requests write between the check and the conditional update; \<open>f\<close> interferes with
  the recording of the acknowledgement.
\<close>

definition validateToken ::
  "(string \<Rightarrow> string) \<Rightarrow> zone_db \<Rightarrow> (db \<Rightarrow> db) \<Rightarrow> interference \<Rightarrow> time \<Rightarrow> launcher_payload option \<Rightarrow> string \<Rightarrow> string option \<Rightarrow>
   db \<Rightarrow> launch result \<times> db" where
  "validateToken sha tz g f now verified rawToken clientIp s = (case verified of
     None \<Rightarrow> (Inl (Unauthorized ''Invalid or expired launcher token''), s)
   | Some payload \<Rightarrow>
     if lp_type payload \<noteq> ''launcher'' then (Inl (Unauthorized ''Invalid token type''), s)
     else (case find_row (\<lambda>r. lt_token r = sha rawToken) (launcherTokens s) of
       None \<Rightarrow> (Inl (Unauthorized ''Token not found''), s)
     | Some r \<Rightarrow>
       if lt_revokedAt r \<noteq> None then (Inl (Unauthorized ''Token has been revoked''), s)
       else if lt_usedAt r \<noteq> None then (Inl (Unauthorized ''Token has already been used''), s)
       else if lt_expiresAt r < now then (Inl (Unauthorized ''Token has expired''), s)
       else (case recheckAuthorization tz now r payload s of (ok, s1) \<Rightarrow>
         if \<not> ok
         then (Inl (Unauthorized ''Authorization is no longer valid for this connection''),
               audit_log ''CONNECTION_GRANT_DENIED'' (Some (lt_userId r)) (Some (lt_tenantId r)) None clientIp
                 (Some ''launcher_token'') (Some (lt_id r)) False
                 (s1\<lparr>launcherTokens := update_rows (\<lambda>q. lt_id q = lt_id r \<and> lt_usedAt q = None)
                    (\<lambda>q. q\<lparr>lt_revokedAt := Some now\<rparr>) (launcherTokens s1)\<rparr>))
         else (case claim_rows (\<lambda>q. lt_id q = lt_id r \<and> token_unused q) (use_token now) (launcherTokens (g s1)) of (n, t) \<Rightarrow>
           if n = 0 then (Inl (Unauthorized ''Token has already been used''), (g s1)\<lparr>launcherTokens := t\<rparr>)
           else (Inr \<lparr>la_userId = lt_userId r, la_tenantId = lt_tenantId r, la_targetRustdeskId = lt_targetRustdeskId r,
                    la_targetEndpointId = lt_targetEndpointId r, la_sessionId = lt_supportSessionId r\<rparr>,
                 audit_log ''LAUNCHER_TOKEN_USED'' (Some (lt_userId r)) (Some (lt_tenantId r)) None clientIp
                   (Some ''launcher_token'') (Some (lt_id r)) False
                   (acknowledge f now r ((g s1)\<lparr>launcherTokens := t\<rparr>))))))) "

definition revokeToken :: "time \<Rightarrow> actor \<Rightarrow> id \<Rightarrow> db \<Rightarrow> unit result \<times> db" where
  "revokeToken now actor tokenId s =
     (case find_row (\<lambda>r. lt_id r = tokenId \<and> (a_isPlatformAdmin actor \<or> lt_userId r = a_userId actor
          \<or> list_ex (\<lambda>m. m_userId m = lt_userId r
               \<and> m_customerId m = Some (case a_businessId actor of None \<Rightarrow> ''__none__'' | Some b \<Rightarrow> b)) (memberships s)))
        (launcherTokens s) of
        None \<Rightarrow> (Inl (NotFound ''Token not found''), s)
      | Some _ \<Rightarrow> (Inr (), s\<lparr>launcherTokens := update_rows (\<lambda>r. lt_id r = tokenId)
          (\<lambda>r. r\<lparr>lt_revokedAt := Some now\<rparr>) (launcherTokens s)\<rparr>))"

section \<open>Lemmas\<close>

text \<open>Recording an event without interference leaves the tokens alone.\<close>

lemma write_event_tokens: "launcherTokens (snd (write_event r ev opts res s)) = launcherTokens s"
  by (simp add: write_event_def Let_def insert_event_def)

lemma record_tries_tokens: "launcherTokens (snd (record_tries k (\<lambda>_ d. d) i ev opts s)) = launcherTokens s"
proof (induction k arbitrary: s)
  case 0
  show ?case by simp
next
  case (Suc k)
  show ?case
  proof (cases "session_by_id s i")
    case None
    then show ?thesis by simp
  next
    case (Some r)
    obtain t s1 where w: "write_event r ev opts (applySessionEvent r ev) s = (t, s1)" by (rule prod.exhaust)
    have "launcherTokens s1 = launcherTokens s" using write_event_tokens[of r ev opts "applySessionEvent r ev" s] by (simp add: w)
    with Suc[of s1] Some w show ?thesis by (cases t) (simp_all add: Let_def)
  qed
qed

lemma acknowledge_tokens: "launcherTokens (acknowledge (\<lambda>_ d. d) now r s) = launcherTokens s"
  by (simp add: acknowledge_def record_event_def record_tries_tokens)

lemma launch_target_tokens: "launcherTokens (snd (launch_target tz now actor dto s)) = launcherTokens s"
  by (simp add: launch_target_def assertUsable_def Let_def split: sum.split option.split)

text \<open>What a recheck that passes says of the database.\<close>

definition may_launch :: "zone_db \<Rightarrow> db \<Rightarrow> time \<Rightarrow> launcher_token_row \<Rightarrow> id option \<Rightarrow> bool" where
  "may_launch tz s now r businessId =
     (if truthy (lt_targetEndpointId r)
      then (\<exists>u e. user_by_id s (lt_userId r) = Some u \<and> endpoint_by_id s (the (lt_targetEndpointId r)) = Some e
              \<and> may_connect tz s now u e)
      else (\<exists>a. liveActor tz s (lt_userId r) (lt_tenantId r) businessId None now = Some a \<and> quick_open s a))"

lemma recheck_ok:
  assumes "recheckAuthorization tz now r payload s = (True, s1)"
  shows "s1 = s" "may_launch tz s now r (lp_businessId payload)"
proof -
  have "s1 = s \<and> may_launch tz s now r (lp_businessId payload)"
  proof (cases "truthy (lt_targetEndpointId r)")
    case True
    let ?i = "the (lt_targetEndpointId r)"
    obtain e where e: "endpoint_by_id s ?i = Some e"
      using assms True by (cases "endpoint_by_id s ?i") (simp_all add: recheckAuthorization_def)
    obtain a where a: "liveActor tz s (lt_userId r) (lt_tenantId r) (e_customerId e) None now = Some a"
      using assms True e
      by (cases "liveActor tz s (lt_userId r) (lt_tenantId r) (e_customerId e) None now") (simp_all add: recheckAuthorization_def)
    have "recheckAuthorization tz now r payload s = (canConnect tz now s a ?i, s)"
      using True e a by (simp add: recheckAuthorization_def)
    then have c: "canConnect tz now s a ?i" and s1: "s1 = s" using assms by simp_all
    from c obtain x where x: "authorizeConnect tz now s a ?i = Inr x" by (auto simp: canConnect_def split: sum.splits)
    from a obtain u where u: "user_by_id s (lt_userId r) = Some u" by (rule liveActor_Some)
    from live_may_connect[OF a u x e] True u e s1 show ?thesis by (auto simp: may_launch_def)
  next
    case False
    obtain a where a: "liveActor tz s (lt_userId r) (lt_tenantId r) (lp_businessId payload) None now = Some a"
      using assms False by (cases "liveActor tz s (lt_userId r) (lt_tenantId r) (lp_businessId payload) None now")
        (simp_all add: recheckAuthorization_def)
    have q: "\<exists>st. assertUsable a s = (Inr st, s1)"
      using assms False a by (cases "assertUsable a s"; cases "fst (assertUsable a s)") (simp_all add: recheckAuthorization_def)
    from q obtain st where "assertUsable a s = (Inr st, s1)" by blast
    from assertUsable_Inr[OF this] have "s1 = s" "quick_open s a" by (simp_all add: quick_open_def quick_status_switches)
    with a False show ?thesis by (auto simp: may_launch_def)
  qed
  then show "s1 = s" "may_launch tz s now r (lp_businessId payload)" by blast+
qed

lemma launch_Inr:
  assumes "validateToken sha tz g f now v raw ip s = (Inr l, s2)"
  obtains r payload where "v = Some payload" "lp_type payload = ''launcher''"
    "find_row (\<lambda>r. lt_token r = sha raw) (launcherTokens s) = Some r" "token_unused r" "now \<le> lt_expiresAt r"
    "may_launch tz s now r (lp_businessId payload)" "la_userId l = lt_userId r" "la_targetEndpointId l = lt_targetEndpointId r"
    "count_rows (\<lambda>q. lt_id q = lt_id r \<and> token_unused q) (launcherTokens (g s)) > 0"
    "launcherTokens s2 = launcherTokens (acknowledge f now r ((g s)\<lparr>launcherTokens :=
        update_rows (\<lambda>q. lt_id q = lt_id r \<and> token_unused q) (use_token now) (launcherTokens (g s))\<rparr>))"
proof -
  obtain payload r where p: "v = Some payload" "lp_type payload = ''launcher''"
      "find_row (\<lambda>r. lt_token r = sha raw) (launcherTokens s) = Some r" "token_unused r" "now \<le> lt_expiresAt r"
    using assms by (auto simp: validateToken_def token_unused_def split: option.splits if_splits)
  obtain ok s1 where rc: "recheckAuthorization tz now r payload s = (ok, s1)" by (rule prod.exhaust)
  then have ok: "ok" using assms p by (auto simp: validateToken_def token_unused_def split: if_splits)
  then have rc': "recheckAuthorization tz now r payload s = (True, s)" and ml: "may_launch tz s now r (lp_businessId payload)"
    using recheck_ok rc by auto
  let ?n = "count_rows (\<lambda>q. lt_id q = lt_id r \<and> token_unused q) (launcherTokens (g s))"
  have "?n \<noteq> 0" using assms p rc' by (auto simp: validateToken_def token_unused_def claim_rows_def simp del: count_rows_zero split: if_splits)
  then show thesis using that[OF p ml] assms p rc'
    by (auto simp: validateToken_def token_unused_def claim_rows_def simp del: count_rows_zero count_rows_pos)
qed

interpretation tokens: single_use lt_id "\<lambda>_. token_unused" use_token
  by unfold_locales (simp_all add: use_token_def token_unused_def)

lemma issue_Inr:
  assumes "issueToken sign sha tz now i actor dto s = (Inr r, s1)"
  obtains row s0 where "launcherTokens s0 = launcherTokens s" "insert_token row s0 = (Inr (), s0\<lparr>launcherTokens := launcherTokens s0 @ [row]\<rparr>)"
    "launcherTokens s1 = launcherTokens s @ [row]" "lt_supportSessionId row = lr_sessionId dto" "lt_id row = i"
proof -
  obtain t s0 where t: "launch_target tz now actor dto s = (t, s0)" by (rule prod.exhaust)
  have s0: "launcherTokens s0 = launcherTokens s" using launch_target_tokens[of tz now actor dto s] by (simp add: t)
  obtain rid where rid: "t = Inr rid" using assms by (cases t) (auto simp: issueToken_def t split: sum.splits if_splits)
  obtain c where c: "assertCapability actor [CAP_COMPUTERS_CONNECT] = Inr c"
    using assms by (cases "assertCapability actor [CAP_COMPUTERS_CONNECT]") (simp_all add: issueToken_def split: if_splits)
  obtain d where d: "session_for_launch actor dto s0 = Inr d"
    using assms by (cases "session_for_launch actor dto s0") (simp_all add: issueToken_def t rid c split: if_splits)
  from assms show thesis
    by (auto simp: issueToken_def t rid c d Let_def insert_token_def s0 split: if_splits intro!: that[OF s0])
qed

text \<open>A session bound to a token before is refused by the insert.\<close>

lemma bound_session_refused:
  assumes "truthy (lr_sessionId dto)" and "q \<in> set (launcherTokens s)" and "lt_supportSessionId q = lr_sessionId dto"
  shows "\<not> is_ok (fst (issueToken sign sha tz now i actor dto s))"
proof
  assume "is_ok (fst (issueToken sign sha tz now i actor dto s))"
  then obtain r s1 where "issueToken sign sha tz now i actor dto s = (Inr r, s1)" by (metis is_ok_iff prod.collapse)
  then show False
  proof (cases rule: issue_Inr)
    case (1 row s0)
    from 1(2) have "find_row (\<lambda>q. lt_token q = lt_token row \<or> lt_supportSessionId row \<noteq> None
        \<and> lt_supportSessionId q = lt_supportSessionId row) (launcherTokens s0) = None"
      by (auto simp: insert_token_def split: if_splits)
    with assms 1(1,4) show False by (auto simp: find_row_None truthy_iff)
  qed
qed

lemma redeemed_token_used:
  assumes "validateToken sha tz g (\<lambda>_ d. d) now v raw ip s = (Inr l, s2)"
    and "find_row (\<lambda>r. lt_token r = sha raw) (launcherTokens s) = Some r"
  shows "list_all (\<lambda>q. lt_id q = lt_id r \<longrightarrow> \<not> token_unused q) (launcherTokens s2)"
  using assms(1)
proof (cases rule: launch_Inr)
  case (1 r' payload)
  then have "r' = r" using assms(2) by simp
  with 1(10) show ?thesis by (auto simp: acknowledge_tokens list_all_iff set_update_rows use_token_def token_unused_def)
qed

section \<open>A sample\<close>

definition sample_payload :: launcher_payload where
  "sample_payload = \<lparr>lp_sub = ''u1'', lp_tenantId = ''t1'', lp_sessionId = None, lp_targetEndpointId = Some ''e1'',
     lp_targetRustdeskId = Some ''123456789'', lp_businessId = Some ''b1'', lp_type = ''launcher''\<rparr>"

lemma sample_launch:
  "\<exists>l s2. validateToken (\<lambda>x. x) (\<lambda>z. None) id (\<lambda>_ d. d) 0 (Some sample_payload) ''tok'' None connect_db = (Inr l, s2)"
proof -
  obtain a where a: "liveActor (\<lambda>z. None) connect_db ''u1'' ''t1'' (Some ''b1'') None 0 = Some a"
      "authorizeConnect (\<lambda>z. None) 0 connect_db a ''e1'' = Inr ()"
    using connect_db_actor by blast
  have t: "launcherTokens connect_db = [\<lparr>lt_id = ''l1'', lt_tenantId = ''t1'', lt_userId = ''u1'', lt_supportSessionId = None, lt_token = ''tok'',
       lt_expiresAt = 90000, lt_usedAt = None, lt_revokedAt = None, lt_targetEndpointId = Some ''e1'',
       lt_targetRustdeskId = Some ''123456789''\<rparr>]"
    by (simp add: connect_db_def)
  show ?thesis
    by (simp add: validateToken_def sample_payload_def t recheckAuthorization_def connect_db_simps a canConnect_def
        claim_rows_def token_unused_def)
qed

section \<open>Properties\<close>

text \<open>
  C31: A launcher token opens a computer only on the strength of what the database says at that instant, not at
  minting: the token is unused, not revoked and unexpired, and its user may connect to the computer now, or,
  for a Quick Connect token, Quick Connect is open now to the user in the business the token was minted in.
\<close>

theorem launch_needs_standing_now:
  assumes "validateToken sha tz g f now v raw ip s = (Inr l, s2)"
  shows "\<exists>r payload. v = Some payload \<and> r \<in> set (launcherTokens s) \<and> lt_token r = sha raw \<and> token_unused r \<and> now \<le> lt_expiresAt r
    \<and> la_userId l = lt_userId r \<and> la_targetEndpointId l = lt_targetEndpointId r
    \<and> may_launch tz s now r (lp_businessId payload)"
  using assms
proof (cases rule: launch_Inr)
  case (1 r payload)
  with find_row_Some[OF 1(3)] show ?thesis by blast
qed

theorem launch_needs_standing_now_witness:
  "\<exists>u e. may_connect (\<lambda>z. None) connect_db 0 u e \<and> u_id u = ''u1'' \<and> e_id e = ''e1''"
proof -
  obtain l s2 where "validateToken (\<lambda>x. x) (\<lambda>z. None) id (\<lambda>_ d. d) 0 (Some sample_payload) ''tok'' None connect_db = (Inr l, s2)"
    using sample_launch by blast
  from launch_needs_standing_now[OF this] obtain r and payload :: launcher_payload
    where r: "r \<in> set (launcherTokens connect_db)" "may_launch (\<lambda>z. None) connect_db 0 r (lp_businessId payload)" by blast
  from r(1) have "lt_userId r = ''u1''" "lt_targetEndpointId r = Some ''e1''" by (simp_all add: connect_db_def)
  with r(2) have "may_connect (\<lambda>z. None) connect_db 0 (plain_user ''u1'') shared_pc"
    by (auto simp: may_launch_def connect_db_simps)
  then show ?thesis by (intro exI[of _ "plain_user ''u1''"] exI[of _ shared_pc]) (simp add: connect_db_simps)
qed

text \<open>
  A launcher token is good for one launch, also when two redemptions race: one that succeeds while another is
  between its checks and its write makes that one fail.
\<close>

theorem racing_launches:
  assumes "is_ok (fst (validateToken sha tz id (\<lambda>_ d. d) now1 v raw ip1 s))"
  shows "\<not> is_ok (fst (validateToken sha tz (\<lambda>d. snd (validateToken sha tz id (\<lambda>_ d. d) now1 v raw ip1 d)) f now2 v raw ip2 s))"
proof
  let ?g = "\<lambda>d. snd (validateToken sha tz id (\<lambda>_ d. d) now1 v raw ip1 d)"
  assume "is_ok (fst (validateToken sha tz ?g f now2 v raw ip2 s))"
  then obtain l s2 where "validateToken sha tz ?g f now2 v raw ip2 s = (Inr l, s2)" by (metis is_ok_iff prod.collapse)
  then show False
  proof (cases rule: launch_Inr)
    case (1 r payload)
    obtain l1 where "validateToken sha tz id (\<lambda>_ d. d) now1 v raw ip1 s = (Inr l1, ?g s)"
      using assms by (metis is_ok_iff prod.collapse)
    from redeemed_token_used[OF this 1(3)] 1(9) show False by (auto simp: list_all_iff)
  qed
qed

theorem racing_launches_witness:
  "\<not> is_ok (fst (validateToken (\<lambda>x. x) (\<lambda>z. None)
     (\<lambda>d. snd (validateToken (\<lambda>x. x) (\<lambda>z. None) id (\<lambda>_ d. d) 0 (Some sample_payload) ''tok'' None d)) (\<lambda>_ d. d)
     1 (Some sample_payload) ''tok'' (Some ''ip'') connect_db))"
proof -
  have "is_ok (fst (validateToken (\<lambda>x. x) (\<lambda>z. None) id (\<lambda>_ d. d) 0 (Some sample_payload) ''tok'' None connect_db))"
    using sample_launch by (auto simp: is_ok_iff)
  then show ?thesis by (rule racing_launches)
qed

text \<open>
  A session gets one launcher token, ever: after a token was minted for it, every later request for the same session
  fails, whoever makes it, although the session may still be waiting for its launch. The insert violates
  the unique session column, which no handler turns into an answer.
\<close>

theorem second_token_for_session_fails:
  assumes "issueToken sign sha tz now i actor dto s = (Inr r, s1)" and "truthy (lr_sessionId dto)"
    and "lr_sessionId dto2 = lr_sessionId dto"
  shows "\<not> is_ok (fst (issueToken sign sha tz now2 i2 actor2 dto2 s1))"
  using assms(1)
proof (cases rule: issue_Inr)
  case (1 row s0)
  have "truthy (lr_sessionId dto2)" "row \<in> set (launcherTokens s1)" "lt_supportSessionId row = lr_sessionId dto2"
    using assms(2,3) 1 by simp_all
  then show ?thesis by (rule bound_session_refused)
qed

definition bound_request :: launch_request where
  "bound_request = \<lparr>lr_endpointId = Some ''e1'', lr_adHocRustdeskId = None, lr_sessionId = Some ''s1''\<rparr>"

definition sample_sign :: "time \<Rightarrow> launcher_payload \<Rightarrow> string" where
  "sample_sign now p = (if now = 0 then ''jwt'' else ''later'')"

definition bound_db :: db where
  "bound_db = connect_db\<lparr>sessions := [fresh_row ''s1'']\<rparr>"

lemma bound_request_minted:
  "\<exists>r s1. issueToken sample_sign (\<lambda>x. x) (\<lambda>z. None) 0 ''l2''
     (plain_actor ''u1'' (Some ''b1'') None [CAP_COMPUTERS_CONNECT]) bound_request bound_db = (Inr r, s1)"
proof -
  have d: "find_row (\<lambda>e. e_id e = ''e1'') (endpoints bound_db) = Some shared_pc" "endpoint_by_id bound_db ''e1'' = Some shared_pc"
    "business_of bound_db ''b1'' = Some (one_business ''b1'')" "node_of bound_db ''e1'' = Some (new_node ''n1'' (Some ''t1'') ''e1'' ''123456789'')"
    "sessions bound_db = [fresh_row ''s1'']" "launcherTokens bound_db = launcherTokens connect_db"
    by (simp_all add: bound_db_def connect_db_def technician_db_def empty_db_def endpoint_by_id_def shared_pc_def business_of_def
        one_business_def node_of_def new_node_def)
  have t: "find_row (\<lambda>q. lt_token q = ''jwt'' \<or> lt_supportSessionId q = Some ''s1'') (launcherTokens connect_db) = None"
    by (simp add: connect_db_def)
  have l: "launch_target (\<lambda>z. None) 0 (plain_actor ''u1'' (Some ''b1'') None [CAP_COMPUTERS_CONNECT]) bound_request bound_db
      = (Inr (Some ''123456789''), bound_db)"
    by (simp add: launch_target_def bound_request_def assertEndpointInScope_def d plain_actor_def shared_pc_def canConnect_def
        authorizeConnect_def one_business_def can_def canReachEndpoint_def isBusinessOwner_def isOwnerRole_def new_node_def)
  have u: "session_for_launch (plain_actor ''u1'' (Some ''b1'') None [CAP_COMPUTERS_CONNECT]) bound_request bound_db = Inr ()"
    by (simp add: session_for_launch_def bound_request_def resolveScope_def plain_actor_def d fresh_row_def
        PRE_CLIENT_STATUSES_def scope_where_def)
  show ?thesis
    by (simp add: issueToken_def l u assertCapability_def Let_def insert_token_def d t) (simp add: bound_request_def plain_actor_def sample_sign_def t)
qed

theorem second_token_for_session_fails_witness:
  "\<exists>r s1. issueToken sample_sign (\<lambda>x. x) (\<lambda>z. None) 0 ''l2''
       (plain_actor ''u1'' (Some ''b1'') None [CAP_COMPUTERS_CONNECT]) bound_request bound_db = (Inr r, s1)
     \<and> \<not> is_ok (fst (issueToken sample_sign (\<lambda>x. x) (\<lambda>z. None) 1000 ''l3''
       (plain_actor ''u1'' (Some ''b1'') None [CAP_COMPUTERS_CONNECT]) bound_request s1))"
proof -
  obtain r s1 where i: "issueToken sample_sign (\<lambda>x. x) (\<lambda>z. None) 0 ''l2''
     (plain_actor ''u1'' (Some ''b1'') None [CAP_COMPUTERS_CONNECT]) bound_request bound_db = (Inr r, s1)"
    using bound_request_minted by blast
  have "truthy (lr_sessionId bound_request)" by (simp add: bound_request_def)
  note second_token_for_session_fails[OF i this refl, of 1000 "''l3''"
    "plain_actor ''u1'' (Some ''b1'') None [CAP_COMPUTERS_CONNECT]"]
  with i show ?thesis by blast
qed

end
