(* ===== verification/Versions.thy ===== *)
theory Versions
  imports Prelude
begin

text \<open>
  Version strings (\<open>common/agent-contract.ts\<close>). A version is the list of its numeric segments;
  missing segments count as zero, so comparing is a total preorder, not an order:
  \<open>1.4\<close> and \<open>1.4.0\<close> are different strings of the same version.
\<close>

datatype version = Version (segments: "int list")

text \<open>\<open>parseInt(x, 10) || 0\<close> for each piece, after one leading \<open>v\<close>.\<close>

definition strip_v :: "string \<Rightarrow> string" where
  "strip_v s = (case s of c # t \<Rightarrow> if c = CHR ''v'' then t else s | [] \<Rightarrow> [])"

definition segment_val :: "string \<Rightarrow> int" where
  "segment_val x = (case js_parseInt x of None \<Rightarrow> 0 | Some n \<Rightarrow> n)"

definition parse_version :: "string \<Rightarrow> version" where
  "parse_version s = Version (map segment_val (split_on (CHR ''.'') (strip_v s)))"

text \<open>The loop over the longer of the two lists, \<open>?? 0\<close> past the end of the shorter.\<close>

fun cmp_segments :: "int list \<Rightarrow> int list \<Rightarrow> int" where
  "cmp_segments [] [] = 0"
| "cmp_segments (x # xs) [] = (if x - 0 \<noteq> 0 then (if x - 0 < 0 then -1 else 1) else cmp_segments xs [])"
| "cmp_segments [] (y # ys) = (if 0 - y \<noteq> 0 then (if 0 - y < 0 then -1 else 1) else cmp_segments [] ys)"
| "cmp_segments (x # xs) (y # ys) =
     (if x - y \<noteq> 0 then (if x - y < 0 then -1 else 1) else cmp_segments xs ys)"

definition compareVersions :: "string \<Rightarrow> string \<Rightarrow> int" where
  "compareVersions a b = cmp_segments (segments (parse_version a)) (segments (parse_version b))"

definition AGENT_CONTRACT_VERSION :: string where
  "AGENT_CONTRACT_VERSION = ''0.20.0''"

definition agentMeetsContract :: "string option \<Rightarrow> bool" where
  "agentMeetsContract reported =
     (if \<not> truthy reported then False else compareVersions (the reported) AGENT_CONTRACT_VERSION \<ge> 0)"

section \<open>The order of versions\<close>

text \<open>Segment \<open>i\<close> of a version, zero past its end.\<close>

definition seg :: "int list \<Rightarrow> nat \<Rightarrow> int" where
  "seg xs i = (if i < length xs then xs ! i else 0)"

lemma seg_simps [simp]: "seg [] i = 0" "seg (x # xs) 0 = x" "seg (x # xs) (Suc i) = seg xs i"
  by (simp_all add: seg_def)

lemma cmp_values: "cmp_segments xs ys \<in> {-1, 0, 1}"
  by (induction xs ys rule: cmp_segments.induct) auto

lemma cmp_antisym: "cmp_segments ys xs = - cmp_segments xs ys"
  by (induction xs ys rule: cmp_segments.induct) auto

lemma cmp_zero: "cmp_segments xs ys = 0 \<longleftrightarrow> (\<forall>i. seg xs i = seg ys i)"
proof (induction xs ys rule: cmp_segments.induct)
  case 1
  then show ?case by simp
next
  case (2 x xs)
  have "(\<forall>i. seg (x # xs) i = 0) \<longleftrightarrow> x = 0 \<and> (\<forall>i. seg xs i = 0)"
    by (metis not0_implies_Suc seg_simps(2,3))
  with 2 show ?case by auto
next
  case (3 y ys)
  have "(\<forall>i. 0 = seg (y # ys) i) \<longleftrightarrow> y = 0 \<and> (\<forall>i. 0 = seg ys i)"
    by (metis not0_implies_Suc seg_simps(2,3))
  with 3 show ?case by auto
next
  case (4 x xs y ys)
  have "(\<forall>i. seg (x # xs) i = seg (y # ys) i) \<longleftrightarrow> x = y \<and> (\<forall>i. seg xs i = seg ys i)"
    by (metis not0_implies_Suc seg_simps(2,3))
  with 4 show ?case by auto
qed

text \<open>Older means smaller at the first segment that differs.\<close>

lemma cmp_neg_step:
  "(\<exists>i. a i < b i \<and> (\<forall>j < i. a j = b j)) \<longleftrightarrow>
   a 0 < b 0 \<or> a 0 = b 0 \<and> (\<exists>i. a (Suc i) < b (Suc i) \<and> (\<forall>j < i. a (Suc j) = b (Suc j)))"
  for a b :: "nat \<Rightarrow> int"
proof
  assume "\<exists>i. a i < b i \<and> (\<forall>j < i. a j = b j)"
  then obtain i where i: "a i < b i" "\<forall>j < i. a j = b j" by blast
  show "a 0 < b 0 \<or> a 0 = b 0 \<and> (\<exists>i. a (Suc i) < b (Suc i) \<and> (\<forall>j < i. a (Suc j) = b (Suc j)))"
    using i by (cases i) auto
next
  assume "a 0 < b 0 \<or> a 0 = b 0 \<and> (\<exists>i. a (Suc i) < b (Suc i) \<and> (\<forall>j < i. a (Suc j) = b (Suc j)))"
  then show "\<exists>i. a i < b i \<and> (\<forall>j < i. a j = b j)"
  proof
    assume "a 0 < b 0"
    then show ?thesis by auto
  next
    assume "a 0 = b 0 \<and> (\<exists>i. a (Suc i) < b (Suc i) \<and> (\<forall>j < i. a (Suc j) = b (Suc j)))"
    then obtain i where "a 0 = b 0" "a (Suc i) < b (Suc i)" "\<forall>j < i. a (Suc j) = b (Suc j)" by blast
    then have "\<forall>j < Suc i. a j = b j" by (metis less_Suc_eq_0_disj)
    with \<open>a (Suc i) < b (Suc i)\<close> show ?thesis by blast
  qed
qed

lemma cmp_neg: "cmp_segments xs ys < 0 \<longleftrightarrow> (\<exists>i. seg xs i < seg ys i \<and> (\<forall>j < i. seg xs j = seg ys j))"
proof (induction xs ys rule: cmp_segments.induct)
  case 1
  then show ?case by simp
next
  case (2 x xs)
  then show ?case by (subst cmp_neg_step) auto
next
  case (3 y ys)
  then show ?case by (subst cmp_neg_step) auto
next
  case (4 x xs y ys)
  then show ?case by (subst cmp_neg_step) auto
qed

lemma cmp_trans:
  assumes "cmp_segments xs ys \<le> 0" "cmp_segments ys zs \<le> 0"
  shows "cmp_segments xs zs \<le> 0"
proof (rule ccontr)
  assume "\<not> cmp_segments xs zs \<le> 0"
  then have "cmp_segments zs xs < 0" using cmp_antisym[of xs zs] by simp
  then obtain k where k: "seg zs k < seg xs k" "\<forall>j < k. seg zs j = seg xs j" by (auto simp: cmp_neg)
  define m where "m = (LEAST j. seg xs j \<noteq> seg ys j \<or> seg ys j \<noteq> seg zs j)"
  have ex: "seg xs k \<noteq> seg ys k \<or> seg ys k \<noteq> seg zs k" using k(1) by auto
  have mk: "m \<le> k" unfolding m_def using ex by (rule Least_le)
  have m: "seg xs m \<noteq> seg ys m \<or> seg ys m \<noteq> seg zs m"
    unfolding m_def by (rule LeastI[of _ k]) (rule ex)
  have before: "seg xs j = seg ys j" "seg ys j = seg zs j" if "j < m" for j
    using not_less_Least[of j] that unfolding m_def by blast+
  have "seg xs m \<le> seg ys m"
  proof (rule ccontr)
    assume "\<not> seg xs m \<le> seg ys m"
    then have "cmp_segments ys xs < 0" unfolding cmp_neg using before by (intro exI[of _ m]) auto
    with assms(1) show False using cmp_antisym[of xs ys] by simp
  qed
  moreover have "seg ys m \<le> seg zs m"
  proof (rule ccontr)
    assume "\<not> seg ys m \<le> seg zs m"
    then have "cmp_segments zs ys < 0" unfolding cmp_neg using before by (intro exI[of _ m]) auto
    with assms(2) show False using cmp_antisym[of ys zs] by simp
  qed
  ultimately have "seg xs m < seg zs m" using m by auto
  with k mk show False by (cases "m = k") auto
qed

text \<open>Versions are preordered, so the library's order lemmas apply to them.\<close>

instantiation version :: preorder
begin

definition less_eq_version :: "version \<Rightarrow> version \<Rightarrow> bool" where
  "less_eq_version v w = (cmp_segments (segments v) (segments w) \<le> 0)"

definition less_version :: "version \<Rightarrow> version \<Rightarrow> bool" where
  "less_version v w = (cmp_segments (segments v) (segments w) < 0)"

instance
proof
  fix u v w :: version
  show "(v < w) = (v \<le> w \<and> \<not> w \<le> v)"
    using cmp_antisym[of "segments v" "segments w"] by (auto simp: less_eq_version_def less_version_def)
  show "v \<le> v" by (simp add: less_eq_version_def cmp_zero[THEN iffD2])
  show "u \<le> v \<Longrightarrow> v \<le> w \<Longrightarrow> u \<le> w" unfolding less_eq_version_def by (rule cmp_trans)
qed

end

lemma version_linear: "(v::version) \<le> w \<or> w < v"
  using cmp_antisym[of "segments v" "segments w"] by (auto simp: less_eq_version_def less_version_def)

lemma compareVersions_less: "compareVersions a b < 0 \<longleftrightarrow> parse_version a < parse_version b"
  by (simp add: compareVersions_def less_version_def)

lemma compareVersions_le: "compareVersions a b \<le> 0 \<longleftrightarrow> parse_version a \<le> parse_version b"
  by (simp add: compareVersions_def less_eq_version_def)

lemma compareVersions_refl [simp]: "compareVersions a a = 0"
  by (simp add: compareVersions_def cmp_zero)

section \<open>Properties\<close>

text \<open>
  Comparing version strings is a total preorder decided by the first numeric segment that
  differs, missing segments counting as zero: the sign flips with the arguments, equality is
  equality of all segments, and being no newer is transitive.
\<close>

theorem compare_is_segment_order:
  "compareVersions b a = - compareVersions a b
   \<and> (compareVersions a b = 0 \<longleftrightarrow> (\<forall>i. seg (segments (parse_version a)) i = seg (segments (parse_version b)) i))
   \<and> (compareVersions a b < 0 \<longleftrightarrow> (\<exists>i. seg (segments (parse_version a)) i < seg (segments (parse_version b)) i
        \<and> \<not> (\<exists>j < i. seg (segments (parse_version a)) j \<noteq> seg (segments (parse_version b)) j)))
   \<and> \<not> (compareVersions a b \<le> 0 \<and> compareVersions b c \<le> 0 \<and> 0 < compareVersions a c)"
proof (intro conjI)
  show "compareVersions b a = - compareVersions a b" unfolding compareVersions_def by (rule cmp_antisym)
  show "compareVersions a b = 0 \<longleftrightarrow> (\<forall>i. seg (segments (parse_version a)) i = seg (segments (parse_version b)) i)"
    unfolding compareVersions_def by (rule cmp_zero)
  show "compareVersions a b < 0 \<longleftrightarrow> (\<exists>i. seg (segments (parse_version a)) i < seg (segments (parse_version b)) i
        \<and> \<not> (\<exists>j < i. seg (segments (parse_version a)) j \<noteq> seg (segments (parse_version b)) j))"
    unfolding compareVersions_def cmp_neg by blast
  show "\<not> (compareVersions a b \<le> 0 \<and> compareVersions b c \<le> 0 \<and> 0 < compareVersions a c)"
    using order_trans[of "parse_version a" "parse_version b" "parse_version c"]
    by (fastforce simp flip: compareVersions_le)
qed

end
