(* ===== verification/Rollout.thy ===== *)
theory Rollout
  imports AccessControl Versions
begin

text \<open>
  Controlled updates of managed computers (\<open>admin/update-rollout.service.ts\<close>): creating a
  rollout, starting, pausing and canceling it, the engine that times out and advances it, and
  the heartbeat that dispatches jobs and records evidence. Rows of this part are never
  deleted by it, so an update by id of a row just read finds the row. Parameters: the digest
  GitHub publishes for an asset, the version of this server, the presence answer of hbbs,
  new ids and the random nonce.
\<close>

section \<open>Shared helpers\<close>

definition TAG_RE :: "string \<Rightarrow> bool" where
  "TAG_RE s = (length (split_on (CHR ''.'') s) = 3
     \<and> list_all (\<lambda>p. p \<noteq> [] \<and> list_all is_digit p) (split_on (CHR ''.'') s))"

definition ACTIVE :: "job_status list" where
  "ACTIVE = [JOB_DISPATCHED, JOB_INSTALLING, JOB_AWAITING_VERIFICATION]"

definition NOT_DONE :: "job_status list" where
  "NOT_DONE = JOB_REQUESTED # ACTIVE"

definition DONE :: "job_status list" where
  "DONE = [JOB_SUCCEEDED, JOB_FAILED, JOB_CANCELED, JOB_SKIPPED]"

definition rollout_by_id :: "db \<Rightarrow> id \<Rightarrow> rollout_row option" where
  "rollout_by_id s i = find_row (\<lambda>r. ro_id r = i) (rollouts s)"

definition job_by_id :: "db \<Rightarrow> id \<Rightarrow> job_row option" where
  "job_by_id s i = find_row (\<lambda>j. uj_id j = i) (jobs s)"

definition job_event :: "id \<Rightarrow> string \<Rightarrow> job_status option \<Rightarrow> db \<Rightarrow> db" where
  "job_event i name st s = s\<lparr>jobEvents := jobEvents s @ [\<lparr>je_jobId = i, je_event = name, je_status = st\<rparr>]\<rparr>"

definition set_job :: "id \<Rightarrow> (job_row \<Rightarrow> job_row) \<Rightarrow> db \<Rightarrow> db" where
  "set_job i g s = s\<lparr>jobs := update_rows (\<lambda>j. uj_id j = i) g (jobs s)\<rparr>"

definition set_rollout :: "id \<Rightarrow> (rollout_row \<Rightarrow> rollout_row) \<Rightarrow> db \<Rightarrow> db" where
  "set_rollout i g s = s\<lparr>rollouts := update_rows (\<lambda>r. ro_id r = i) g (rollouts s)\<rparr>"

definition rollout_audit :: "actor option \<Rightarrow> string \<Rightarrow> string \<Rightarrow> id \<Rightarrow> db \<Rightarrow> db" where
  "rollout_audit actor action resource i s =
     audit_log action (map_option a_userId actor) None None (Option.bind actor a_ip) (Some resource) (Some i) False s"

text \<open>\<open>Math.max(lo, Math.min(hi, x ?? d))\<close>.\<close>

definition bounded :: "int \<Rightarrow> int \<Rightarrow> int \<Rightarrow> int option \<Rightarrow> int" where
  "bounded lo hi d x = max lo (min hi (case x of None \<Rightarrow> d | Some v \<Rightarrow> v))"

section \<open>Pilot groups\<close>

definition savePilotGroup :: "id \<Rightarrow> id option \<Rightarrow> id list \<Rightarrow> db \<Rightarrow> id result \<times> db" where
  "savePilotGroup newId given endpointIds s =
     (let ids = js_set endpointIds;
          found = count_rows (\<lambda>e. e_id e \<in> set ids) (endpoints s)
      in if found \<noteq> length ids then (Inl (BadRequest ''Unknown computer in pilot group''), s)
      else if truthy given \<and> the given \<notin> set (pilotGroups s)
      then (Inl (ServerError ''Record to update not found''), s)
      else
        let g = (if truthy given then the given else newId);
            s1 = (if truthy given then s else s\<lparr>pilotGroups := pilotGroups s @ [newId]\<rparr>)
        in (Inr g, s1\<lparr>pilotMembers := delete_rows (\<lambda>m. pm_groupId m = g) (pilotMembers s1)
              @ map (\<lambda>e. \<lparr>pm_groupId = g, pm_endpointId = e\<rparr>) ids\<rparr>))"

section \<open>Creating a rollout\<close>

record rollout_input =
  ri_name :: string
  ri_component :: update_component
  ri_targetVersion :: "string option"
  ri_endpointIds :: "id list option"
  ri_businessIds :: "id list option"
  ri_pilotGroupId :: "id option"
  ri_batchSize :: "int option"
  ri_failureThreshold :: "int option"
  ri_maxAttempts :: "int option"
  ri_backoffMinutes :: "int option"
  ri_verifyTimeoutMinutes :: "int option"
  ri_maintenanceWindow :: json
  ri_deferOnUnknownSession :: "bool option"
  ri_allowSignatureOnly :: bool

text \<open>The artifact of a rollout: its name and digest, or the reason it is refused.\<close>

definition choose_artifact ::
  "(string \<Rightarrow> string \<Rightarrow> string option) \<Rightarrow> string \<Rightarrow> rollout_input \<Rightarrow> string \<Rightarrow> (string option \<times> string option) result" where
  "choose_artifact assetSha platformVersion inp target =
     (case ri_component inp of
        RUSTDESK \<Rightarrow>
          (let artifact = ''rustdesk-'' @ target @ ''-x86_64.exe'';
               sha = assetSha target artifact
           in if \<not> truthy sha \<and> \<not> ri_allowSignatureOnly inp
              then Inl (BadRequest ''GitHub did not return a SHA-256, so the exact artifact cannot be pinned'')
              else Inr (Some artifact, sha))
      | AGENT \<Rightarrow>
          if target \<noteq> platformVersion
          then Inl (BadRequest ''Agent rollouts can only target this server's version'')
          else Inr (None, None))"

text \<open>\<open>/windows/i.test(platform)\<close>.\<close>

definition is_windows :: "string option \<Rightarrow> bool" where
  "is_windows p = has_substring ''windows'' (map lower (case p of None \<Rightarrow> [] | Some x \<Rightarrow> x))"

definition skip_reason ::
  "update_component \<Rightarrow> string \<Rightarrow> bool \<Rightarrow> endpoint_row \<Rightarrow> node_row option \<Rightarrow> string option \<Rightarrow> string option" where
  "skip_reason component target busy e node from =
     (if busy then Some ''already_in_another_rollout''
      else if \<not> is_windows (e_platform e) then Some ''platform_not_supported (staged updates are Windows-only)''
      else if \<not> truthy (Option.bind node n_agentSecretHash)
      then Some ''device_not_authenticated (re-run installer first)''
      else if truthy from \<and> compareVersions (the from) target = 0 then Some ''already_on_target''
      else if component = RUSTDESK \<and> truthy from \<and> compareVersions (the from) target > 0
      then Some ''newer_than_target (downgrade not supported)''
      else None)"

definition new_job ::
  "id \<Rightarrow> time \<Rightarrow> id \<Rightarrow> endpoint_row \<Rightarrow> int \<Rightarrow> string option \<Rightarrow> string option \<Rightarrow> job_row" where
  "new_job i now rolloutId e batch skip from =
     \<lparr>uj_id = i, uj_rolloutId = rolloutId, uj_endpointId = e_id e, uj_customerId = e_customerId e,
      uj_batch = batch, uj_status = (if skip = None then JOB_REQUESTED else JOB_SKIPPED), uj_attempts = 0,
      uj_nextAttemptAt = None, uj_dispatchedAt = None, uj_dispatchNonce = None, uj_installStartedAt = None,
      uj_verifiedAt = None, uj_completedAt = None, uj_fromVersion = from, uj_installedVersion = None,
      uj_failureReason = skip, uj_deferReason = None, uj_credentialSync = None, uj_createdAt = now\<rparr>"

text \<open>The loop over the selected computers: \<open>idx\<close> counts those outside the pilot group.\<close>

fun build_jobs ::
  "(nat \<Rightarrow> id) \<Rightarrow> time \<Rightarrow> id \<Rightarrow> update_component \<Rightarrow> string \<Rightarrow> id list \<Rightarrow> id list \<Rightarrow> int \<Rightarrow> db \<Rightarrow>
   nat \<Rightarrow> int \<Rightarrow> endpoint_row list \<Rightarrow> job_row list" where
  "build_jobs newIds now rolloutId component target busyIds pilotIds batchSize s k idx [] = []"
| "build_jobs newIds now rolloutId component target busyIds pilotIds batchSize s k idx (e # es) =
     (let node = node_of s (e_id e);
          from = (if component = RUSTDESK then Option.bind node n_version else e_agentVersion e);
          skip = skip_reason component target (e_id e \<in> set busyIds) e node from;
          pilot = (e_id e \<in> set pilotIds);
          batch = (if pilot then 0 else 1 + idx div batchSize)
      in new_job (newIds k) now rolloutId e batch skip from
         # build_jobs newIds now rolloutId component target busyIds pilotIds batchSize s (k + 1)
             (if pilot then idx else idx + 1) es)"

definition some_of :: "'a list option \<Rightarrow> 'a list option" where
  "some_of x = (case x of None \<Rightarrow> None | Some [] \<Rightarrow> None | Some (y # ys) \<Rightarrow> Some (y # ys))"

definition selected_endpoints :: "db \<Rightarrow> rollout_input \<Rightarrow> endpoint_row list" where
  "selected_endpoints s inp = filter (\<lambda>e. e_status e \<noteq> EP_ARCHIVED \<and> node_of s (e_id e) \<noteq> None
     \<and> (case some_of (ri_endpointIds inp) of None \<Rightarrow> True | Some is \<Rightarrow> e_id e \<in> set is)
     \<and> (case some_of (ri_businessIds inp) of None \<Rightarrow> True
        | Some bs \<Rightarrow> (case e_customerId e of None \<Rightarrow> False | Some b \<Rightarrow> b \<in> set bs))) (endpoints s)"

definition busy_endpoints :: "db \<Rightarrow> update_component \<Rightarrow> endpoint_row list \<Rightarrow> id list" where
  "busy_endpoints s component es = map uj_endpointId (filter (\<lambda>j. uj_endpointId j \<in> set (map e_id es)
     \<and> uj_status j \<in> set NOT_DONE
     \<and> (case rollout_by_id s (uj_rolloutId j) of None \<Rightarrow> False | Some r \<Rightarrow> ro_component r = component)) (jobs s))"

definition new_rollout ::
  "id \<Rightarrow> actor \<Rightarrow> rollout_input \<Rightarrow> string \<Rightarrow> string option \<Rightarrow> string option \<Rightarrow> access_schedule option \<Rightarrow> int \<Rightarrow> rollout_row" where
  "new_rollout newId actor inp target artifactName artifactSha window batchSize =
     \<lparr>ro_id = newId, ro_name = take 120 (ri_name inp), ro_component = ri_component inp,
      ro_targetVersion = target, ro_artifactName = artifactName, ro_artifactSha256 = artifactSha,
      ro_status = RO_DRAFT, ro_pilotGroupId = ri_pilotGroupId inp, ro_batchSize = batchSize,
      ro_currentBatch = 0,
      ro_failureThreshold = bounded 0 1000 1 (ri_failureThreshold inp),
      ro_maxAttempts = bounded 1 10 3 (ri_maxAttempts inp),
      ro_backoffMinutes = bounded 5 (24 * 60) 30 (ri_backoffMinutes inp),
      ro_verifyTimeoutMinutes = bounded 15 (24 * 60) 60 (ri_verifyTimeoutMinutes inp),
      ro_maintenanceWindow = (case window of None \<Rightarrow> JNull | Some w \<Rightarrow> schedule_json w),
      ro_deferOnUnknownSession = (case ri_deferOnUnknownSession inp of None \<Rightarrow> True | Some b \<Rightarrow> b),
      ro_pausedReason = None, ro_createdById = Some (a_userId actor), ro_startedAt = None,
      ro_completedAt = None, ro_canceledAt = None\<rparr>"

definition create_rollout ::
  "zone_db \<Rightarrow> (string \<Rightarrow> string \<Rightarrow> string option) \<Rightarrow> string \<Rightarrow> id \<Rightarrow> (nat \<Rightarrow> id) \<Rightarrow> time \<Rightarrow> actor \<Rightarrow>
   rollout_input \<Rightarrow> db \<Rightarrow> rollout_row result \<times> db" where
  "create_rollout tz assetSha platformVersion newId newIds now actor inp s =
     (let target = js_trim (case ri_targetVersion inp of None \<Rightarrow> [] | Some t \<Rightarrow> t);
          component = ri_component inp
      in if \<not> TAG_RE target then (Inl (BadRequest ''targetVersion must be an exact version such as 1.4.4''), s)
      else (case choose_artifact assetSha platformVersion inp target of
          Inl e \<Rightarrow> (Inl e, s)
        | Inr (artifactName, artifactSha) \<Rightarrow> (case parseSchedule tz (ri_maintenanceWindow inp) of
            Inl m \<Rightarrow> (Inl (BadRequest m), s)
          | Inr window \<Rightarrow>
              let es = selected_endpoints s inp in
              if length es = 0 then (Inl (NotFound ''No matching computers''), s)
              else if truthy (ri_pilotGroupId inp) \<and> the (ri_pilotGroupId inp) \<notin> set (pilotGroups s)
              then (Inl (NotFound ''Pilot group not found''), s)
              else
                let pilotIds = (if truthy (ri_pilotGroupId inp)
                      then map pm_endpointId (filter (\<lambda>m. pm_groupId m = the (ri_pilotGroupId inp)) (pilotMembers s))
                      else []);
                    batchSize = bounded 1 500 10 (ri_batchSize inp);
                    js = build_jobs newIds now newId component target (busy_endpoints s component es) pilotIds
                           batchSize s 0 0 es;
                    r = new_rollout newId actor inp target artifactName artifactSha window batchSize;
                    s1 = s\<lparr>rollouts := rollouts s @ [r], jobs := jobs s @ js\<rparr>
                in (Inr r, rollout_audit (Some actor) ''UPDATE_ROLLOUT_CREATED'' ''update_rollout'' newId s1))))"

section \<open>Pausing, failing, the threshold\<close>

definition pause_rollout :: "actor option \<Rightarrow> id \<Rightarrow> string \<Rightarrow> db \<Rightarrow> bool \<times> db" where
  "pause_rollout actor i reason s =
     (let P = (\<lambda>r. ro_id r = i \<and> ro_status r = RO_RUNNING);
          n = count_rows P (rollouts s);
          s1 = s\<lparr>rollouts := update_rows P (\<lambda>r. r\<lparr>ro_status := RO_PAUSED, ro_pausedReason := Some (take 300 reason)\<rparr>)
                 (rollouts s)\<rparr>
      in (0 < n, if 0 < n then rollout_audit actor ''UPDATE_ROLLOUT_PAUSED'' ''update_rollout'' i s1 else s1))"

definition checkThreshold :: "id \<Rightarrow> db \<Rightarrow> db" where
  "checkThreshold rolloutId s = (case rollout_by_id s rolloutId of
       None \<Rightarrow> s
     | Some r \<Rightarrow>
         if ro_status r \<noteq> RO_RUNNING \<or> ro_failureThreshold r \<le> 0 then s
         else
           let failed = count_rows (\<lambda>j. uj_rolloutId j = rolloutId \<and> uj_status j = JOB_FAILED) (jobs s) in
           if int failed \<ge> ro_failureThreshold r
           then snd (pause_rollout None rolloutId ''Paused automatically: failed updates reached the threshold'' s)
           else s)"

definition fail_job :: "time \<Rightarrow> id \<Rightarrow> id \<Rightarrow> string \<Rightarrow> db \<Rightarrow> db" where
  "fail_job now jobId rolloutId reason s =
     checkThreshold rolloutId
       (rollout_audit None ''UPDATE_JOB_FAILED'' ''update_job'' jobId
         (job_event jobId ''failed'' (Some JOB_FAILED)
           (set_job jobId (\<lambda>j. j\<lparr>uj_status := JOB_FAILED, uj_completedAt := Some now,
              uj_failureReason := Some reason, uj_dispatchNonce := None\<rparr>) s)))"

definition backoff_delay :: "int \<Rightarrow> int \<Rightarrow> int" where
  "backoff_delay backoffMinutes attempts = backoffMinutes * 2 ^ nat (max 0 (attempts - 1))"

text \<open>The job is the row the caller read, which may be older than the stored one.\<close>

definition failAttempt :: "time \<Rightarrow> job_row \<Rightarrow> int \<Rightarrow> int \<Rightarrow> string \<Rightarrow> db \<Rightarrow> db" where
  "failAttempt now job maxAttempts backoffMinutes reason s =
     (if uj_attempts job \<ge> maxAttempts then fail_job now (uj_id job) (uj_rolloutId job) reason s
      else job_event (uj_id job) ''retry_scheduled'' (Some JOB_REQUESTED)
        (set_job (uj_id job) (\<lambda>j. j\<lparr>uj_status := JOB_REQUESTED, uj_failureReason := Some reason,
           uj_dispatchNonce := None,
           uj_nextAttemptAt := Some (now + backoff_delay backoffMinutes (uj_attempts job) * minute_ms)\<rparr>) s))"

section \<open>The engine\<close>

definition timeout_reason :: "node_row option \<Rightarrow> job_row \<Rightarrow> string" where
  "timeout_reason node j =
     (let after = (\<lambda>x. case (x, uj_dispatchedAt j) of (Some a, Some d) \<Rightarrow> a > d | _ \<Rightarrow> False) in
      if after (Option.bind node n_candidateSecretSeenAt)
      then ''device_secret_changed (accept the new device secret on the computer page)''
      else if uj_status j = JOB_DISPATCHED then
        (if after (Option.bind node n_lastSeenAt)
         then ''installer_not_fetched (endpoint kept heartbeating but did not run the update)''
         else ''no_heartbeat_after_dispatch (endpoint went offline or the install interrupted it)'')
      else if uj_status j = JOB_INSTALLING
      then ''install_not_completed (installer fetched, approved version never reported)''
      else ''not_registered_with_hbbs (version is correct but RustDesk did not re-register)'')"

definition stale_jobs :: "time \<Rightarrow> rollout_row \<Rightarrow> db \<Rightarrow> job_row list" where
  "stale_jobs now r s = filter (\<lambda>j. uj_rolloutId j = ro_id r \<and> uj_status j \<in> set ACTIVE
     \<and> (case uj_dispatchedAt j of None \<Rightarrow> False | Some d \<Rightarrow> d < now - ro_verifyTimeoutMinutes r * minute_ms)) (jobs s)"

definition time_out_job :: "time \<Rightarrow> rollout_row \<Rightarrow> db \<Rightarrow> job_row \<Rightarrow> db" where
  "time_out_job now r s j =
     failAttempt now j (ro_maxAttempts r) (ro_backoffMinutes r) (timeout_reason (node_of s (uj_endpointId j)) j) s"

text \<open>Batch advancement and completion of one rollout, \<open>r\<close> being the row read at the start.\<close>

definition advance_rollout :: "time \<Rightarrow> rollout_row \<Rightarrow> db \<Rightarrow> db" where
  "advance_rollout now r s =
     (let js = filter (\<lambda>j. uj_rolloutId j = ro_id r) (jobs s);
          inBatch = filter (\<lambda>j. uj_batch j \<le> ro_currentBatch r) js;
          later = map uj_batch (filter (\<lambda>j. uj_batch j > ro_currentBatch r \<and> uj_status j = JOB_REQUESTED) js)
      in if list_ex (\<lambda>j. uj_status j \<in> set NOT_DONE) inBatch then s
      else if later = [] then
        s\<lparr>rollouts := update_rows (\<lambda>q. ro_id q = ro_id r \<and> ro_status q = RO_RUNNING)
            (\<lambda>q. q\<lparr>ro_status := RO_COMPLETED, ro_completedAt := Some now\<rparr>) (rollouts s)\<rparr>
      else
        let s1 = checkThreshold (ro_id r) s in
        (case rollout_by_id s1 (ro_id r) of
           None \<Rightarrow> s1
         | Some still \<Rightarrow>
             if ro_status still \<noteq> RO_RUNNING then s1
             else set_rollout (ro_id r) (\<lambda>q. q\<lparr>ro_currentBatch := Min (set later)\<rparr>) s1))"

definition tick_rollout :: "time \<Rightarrow> db \<Rightarrow> rollout_row \<Rightarrow> db" where
  "tick_rollout now s r =
     (let s1 = foldl (time_out_job now r) s (stale_jobs now r s) in
      if ro_status r \<noteq> RO_RUNNING then s1 else advance_rollout now r s1)"

definition tick :: "time \<Rightarrow> db \<Rightarrow> db" where
  "tick now s = foldl (tick_rollout now) s (filter (\<lambda>r. ro_status r \<in> {RO_RUNNING, RO_PAUSED}) (rollouts s))"

section \<open>Operator actions\<close>

definition start_rollout :: "time \<Rightarrow> actor \<Rightarrow> id \<Rightarrow> db \<Rightarrow> rollout_row option result \<times> db" where
  "start_rollout now actor i s = (case rollout_by_id s i of
       None \<Rightarrow> (Inl (NotFound ''Rollout not found''), s)
     | Some r \<Rightarrow>
         if ro_status r \<noteq> RO_DRAFT \<and> ro_status r \<noteq> RO_PAUSED then (Inl (Conflict ''Rollout is not startable''), s)
         else
           let pending = map uj_batch (filter (\<lambda>j. uj_rolloutId j = i \<and> uj_status j = JOB_REQUESTED) (jobs s));
               first = (if ro_status r = RO_DRAFT then (if pending = [] then 0 else Min (set pending))
                        else ro_currentBatch r);
               s1 = set_rollout i (\<lambda>q. q\<lparr>ro_status := RO_RUNNING, ro_currentBatch := first, ro_pausedReason := None,
                      ro_startedAt := (case ro_startedAt r of Some t \<Rightarrow> Some t | None \<Rightarrow> Some now)\<rparr>) s;
               s2 = tick now (rollout_audit (Some actor)
                      (if ro_status r = RO_PAUSED then ''UPDATE_ROLLOUT_RESUMED'' else ''UPDATE_ROLLOUT_STARTED'')
                      ''update_rollout'' i s1)
           in (Inr (rollout_by_id s2 i), s2))"

definition cancel_one :: "time \<Rightarrow> db \<Rightarrow> job_row \<Rightarrow> db" where
  "cancel_one now s j = job_event (uj_id j) ''canceled'' (Some JOB_CANCELED)
     (set_job (uj_id j) (\<lambda>q. q\<lparr>uj_status := JOB_CANCELED, uj_completedAt := Some now,
        uj_failureReason := Some (if uj_status j = JOB_REQUESTED then ''rollout_canceled''
          else ''rollout_canceled_after_dispatch (install may still complete)'')\<rparr>) s)"

definition cancel_rollout :: "time \<Rightarrow> actor \<Rightarrow> id \<Rightarrow> db \<Rightarrow> rollout_row option result \<times> db" where
  "cancel_rollout now actor i s = (case rollout_by_id s i of
       None \<Rightarrow> (Inl (NotFound ''Rollout not found''), s)
     | Some r \<Rightarrow>
         if ro_status r = RO_COMPLETED \<or> ro_status r = RO_CANCELED then (Inl (Conflict ''Rollout is closed''), s)
         else
           let s1 = set_rollout i (\<lambda>q. q\<lparr>ro_status := RO_CANCELED, ro_canceledAt := Some now\<rparr>) s;
               s2 = foldl (cancel_one now) s1
                      (filter (\<lambda>j. uj_rolloutId j = i \<and> uj_status j \<in> set NOT_DONE) (jobs s1));
               s3 = rollout_audit (Some actor) ''UPDATE_ROLLOUT_CANCELED'' ''update_rollout'' i s2
           in (Inr (rollout_by_id s3 i), s3))"

definition cancelJob :: "time \<Rightarrow> id \<Rightarrow> db \<Rightarrow> unit result \<times> db" where
  "cancelJob now jobId s = (case job_by_id s jobId of
       None \<Rightarrow> (Inl (NotFound ''Job not found''), s)
     | Some j \<Rightarrow>
         if uj_status j \<in> set DONE then (Inl (Conflict ''Job is closed''), s)
         else (Inr (), job_event jobId ''canceled'' (Some JOB_CANCELED)
            (set_job jobId (\<lambda>q. q\<lparr>uj_status := JOB_CANCELED, uj_completedAt := Some now,
               uj_failureReason := Some ''canceled_by_operator''\<rparr>) s)))"

end
