(* ===== verification/RolloutHeartbeat.thy ===== *)
theory RolloutHeartbeat
  imports Rollout
begin

text \<open>
  The device side of updates (\<open>admin/update-rollout.service.ts\<close>): what an authenticated
  heartbeat proves about jobs in flight, when a job is handed out, and what the installer
  download does. \<open>hbbs\<close> is the presence answer (\<open>None\<close> when it could not be queried).
\<close>

record heartbeat_facts =
  hf_endpointId :: id
  hf_rustdeskId :: string
  hf_authenticated :: bool
  hf_rustdeskVersion :: "string option"
  hf_agentVersion :: "string option"
  hf_updateNonce :: "string option"
  hf_reportedPassword :: bool
  hf_rdSessionsActive :: "int option"

record dispatch_payload =
  dp_targetVersion :: string
  dp_nonce :: string

record heartbeat_answer =
  ha_managed :: bool
  ha_updateRustdesk :: "dispatch_payload option"
  ha_reinstallAgent :: "dispatch_payload option"

definition nothing_to_do :: heartbeat_answer where
  "nothing_to_do = \<lparr>ha_managed = True, ha_updateRustdesk = None, ha_reinstallAgent = None\<rparr>"

definition not_managed :: heartbeat_answer where
  "not_managed = \<lparr>ha_managed = False, ha_updateRustdesk = None, ha_reinstallAgent = None\<rparr>"

section \<open>Deferring\<close>

fun json_truthy :: "json \<Rightarrow> bool" where
  "json_truthy JUndefined = False"
| "json_truthy JNull = False"
| "json_truthy (JBool b) = b"
| "json_truthy (JNum q) = (q \<noteq> 0)"
| "json_truthy (JStr s) = (s \<noteq> [])"
| "json_truthy (JArr _) = True"
| "json_truthy (JObj _) = True"

definition window_closed :: "zone_db \<Rightarrow> json \<Rightarrow> time \<Rightarrow> bool" where
  "window_closed tz window now = (json_truthy window \<and>
     \<not> (case parseSchedule tz window of
          Inl _ \<Rightarrow> False
        | Inr sc \<Rightarrow> (case isWithinSchedule tz sc now of None \<Rightarrow> False | Some b \<Rightarrow> b)))"

definition endpoint_sessions :: "db \<Rightarrow> id \<Rightarrow> session_row list" where
  "endpoint_sessions s endpointId = filter (\<lambda>r. ss_endpointId r = Some endpointId
     \<and> ss_status r \<in> {SESSION_STARTED, LAUNCH_REQUESTED, LAUNCHER_ACKNOWLEDGED, CLIENT_OPENED}) (sessions s)"

definition deferReason :: "zone_db \<Rightarrow> db \<Rightarrow> heartbeat_facts \<Rightarrow> bool \<Rightarrow> json \<Rightarrow> time \<Rightarrow> string option" where
  "deferReason tz s f deferOnUnknown window now =
     (if window_closed tz window now then Some ''outside_maintenance_window''
      else if (case hf_rdSessionsActive f of None \<Rightarrow> 0 | Some n \<Rightarrow> n) > 0
      then Some ''active_session_reported_by_endpoint''
      else if list_ex (\<lambda>r. ss_status r = SESSION_STARTED) (endpoint_sessions s (hf_endpointId f))
      then Some ''active_session_confirmed''
      else if deferOnUnknown \<and> list_ex (\<lambda>r. now - ss_createdAt r < 2 * hour_ms) (endpoint_sessions s (hf_endpointId f))
      then Some ''session_state_unknown (a recent launch has not been confirmed or closed)''
      else None)"

section \<open>Evidence\<close>

definition reported_version :: "rollout_row \<Rightarrow> heartbeat_facts \<Rightarrow> string option" where
  "reported_version r f = (if ro_component r = RUSTDESK then hf_rustdeskVersion f else hf_agentVersion f)"

definition nonce_matches :: "heartbeat_facts \<Rightarrow> job_row \<Rightarrow> bool" where
  "nonce_matches f j = (truthy (hf_updateNonce f) \<and> hf_updateNonce f = uj_dispatchNonce j)"

definition credential_sync :: "heartbeat_facts \<Rightarrow> string" where
  "credential_sync f = (if hf_reportedPassword f then ''reported'' else ''unchanged'')"

definition verify_job :: "(string list \<Rightarrow> string list option) \<Rightarrow> time \<Rightarrow> heartbeat_facts \<Rightarrow> job_row \<Rightarrow> db \<Rightarrow> db" where
  "verify_job hbbs now f j s =
     (if (case hbbs [hf_rustdeskId f] of Some online \<Rightarrow> hf_rustdeskId f \<notin> set online | None \<Rightarrow> False) then s
      else rollout_audit None ''UPDATE_JOB_SUCCEEDED'' ''update_job'' (uj_id j)
        (job_event (uj_id j) ''verified'' (Some JOB_SUCCEEDED)
          (set_job (uj_id j) (\<lambda>q. q\<lparr>uj_status := JOB_SUCCEEDED, uj_verifiedAt := Some now, uj_completedAt := Some now,
             uj_dispatchNonce := None, uj_failureReason := None, uj_credentialSync := Some (credential_sync f)\<rparr>) s)))"

text \<open>\<open>j\<close> and its rollout \<open>r\<close> are the rows the heartbeat read at its start.\<close>

definition recordEvidence ::
  "(string list \<Rightarrow> string list option) \<Rightarrow> time \<Rightarrow> heartbeat_facts \<Rightarrow> rollout_row \<Rightarrow> job_row \<Rightarrow> db \<Rightarrow> db" where
  "recordEvidence hbbs now f r j s =
     (if \<not> truthy (reported_version r f) then s
      else
        let reported = the (reported_version r f);
            cmp = compareVersions reported (ro_targetVersion r)
        in if ro_component r = RUSTDESK \<and> cmp > 0 then
          fail_job now (uj_id j) (uj_rolloutId j) ''installed_newer_than_approved''
            (set_job (uj_id j) (\<lambda>q. q\<lparr>uj_installedVersion := Some reported,
               uj_credentialSync := Some (credential_sync f)\<rparr>) s)
        else if cmp < 0 then
          if nonce_matches f j \<and> uj_status j \<in> {JOB_INSTALLING, JOB_DISPATCHED} then
            failAttempt now j (ro_maxAttempts r) (ro_backoffMinutes r) ''version_not_reached''
              (set_job (uj_id j) (\<lambda>q. q\<lparr>uj_installedVersion := Some reported\<rparr>) s)
          else s
        else
          verify_job hbbs now f j
            (if uj_status j \<noteq> JOB_AWAITING_VERIFICATION
             then job_event (uj_id j) ''version_reported'' (Some JOB_AWAITING_VERIFICATION)
                (set_job (uj_id j) (\<lambda>q. q\<lparr>uj_status := JOB_AWAITING_VERIFICATION, uj_installedVersion := Some reported,
                   uj_credentialSync := Some (credential_sync f)\<rparr>) s)
             else s))"

text \<open>\<open>include: { rollout: true }\<close>: the foreign key makes the rollout exist.\<close>

definition with_rollout :: "db \<Rightarrow> job_row list \<Rightarrow> (job_row \<times> rollout_row) list" where
  "with_rollout s js = concat (map (\<lambda>j. case rollout_by_id s (uj_rolloutId j) of None \<Rightarrow> [] | Some r \<Rightarrow> [(j, r)]) js)"

definition open_jobs :: "db \<Rightarrow> id \<Rightarrow> (job_row \<times> rollout_row) list" where
  "open_jobs s endpointId = with_rollout s
     (sort_key uj_createdAt (filter (\<lambda>j. uj_endpointId j = endpointId \<and> uj_status j \<in> set NOT_DONE) (jobs s)))"

section \<open>Dispatching\<close>

definition dispatched :: "time \<times> string \<Rightarrow> job_row \<Rightarrow> job_row" where
  "dispatched p q = q\<lparr>uj_status := JOB_DISPATCHED, uj_dispatchNonce := Some (snd p), uj_dispatchedAt := Some (fst p),
     uj_attempts := uj_attempts q + 1, uj_deferReason := None, uj_installStartedAt := None\<rparr>"

definition claim_dispatch :: "time \<Rightarrow> string \<Rightarrow> job_row \<Rightarrow> db \<Rightarrow> nat \<times> db" where
  "claim_dispatch now nonce j s =
     (case claim_rows (\<lambda>q. uj_id q = uj_id j \<and> uj_status q = JOB_REQUESTED) (dispatched (now, nonce)) (jobs s) of
        (n, js) \<Rightarrow> (n, s\<lparr>jobs := js\<rparr>))"

fun dispatch_loop ::
  "zone_db \<Rightarrow> time \<Rightarrow> heartbeat_facts \<Rightarrow> string \<Rightarrow> (job_row \<times> rollout_row) list \<Rightarrow> db \<Rightarrow> heartbeat_answer \<times> db" where
  "dispatch_loop tz now f nonce [] s = (nothing_to_do, s)"
| "dispatch_loop tz now f nonce ((j, r) # rest) s =
     (if ro_status r \<noteq> RO_RUNNING \<or> uj_batch j > ro_currentBatch r then dispatch_loop tz now f nonce rest s
      else if (case uj_nextAttemptAt j of None \<Rightarrow> False | Some t \<Rightarrow> t > now) then dispatch_loop tz now f nonce rest s
      else (case deferReason tz s f (ro_deferOnUnknownSession r) (ro_maintenanceWindow r) now of
          Some reason \<Rightarrow> (nothing_to_do,
            if uj_deferReason j \<noteq> Some reason
            then job_event (uj_id j) ''deferred'' (Some JOB_REQUESTED)
                   (set_job (uj_id j) (\<lambda>q. q\<lparr>uj_deferReason := Some reason\<rparr>) s)
            else s)
        | None \<Rightarrow> (case claim_dispatch now nonce j s of
            (n, s1) \<Rightarrow>
              if n = 0 then (nothing_to_do, s1)
              else
                let s2 = job_event (uj_id j) ''dispatched'' (Some JOB_DISPATCHED) s1;
                    payload = \<lparr>dp_targetVersion = ro_targetVersion r, dp_nonce = nonce\<rparr>
                in (if ro_component r = RUSTDESK
                    then (nothing_to_do\<lparr>ha_updateRustdesk := Some payload\<rparr>, s2)
                    else (nothing_to_do\<lparr>ha_reinstallAgent := Some payload\<rparr>, s2)))))"

definition record_all_evidence :: "(string list \<Rightarrow> string list option) \<Rightarrow> time \<Rightarrow> heartbeat_facts \<Rightarrow> db \<Rightarrow> db" where
  "record_all_evidence hbbs now f s = foldl (\<lambda>d (j, r). recordEvidence hbbs now f r j d) s
     (filter (\<lambda>(j, r). uj_status j \<in> set ACTIVE) (open_jobs s (hf_endpointId f)))"

definition onHeartbeat ::
  "zone_db \<Rightarrow> (string list \<Rightarrow> string list option) \<Rightarrow> time \<Rightarrow> string \<Rightarrow> heartbeat_facts \<Rightarrow> db \<Rightarrow>
   heartbeat_answer \<times> db" where
  "onHeartbeat tz hbbs now nonce f s =
     (if \<not> hf_authenticated f then (not_managed, s)
      else if open_jobs s (hf_endpointId f) = [] then (not_managed, s)
      else
        let s1 = record_all_evidence hbbs now f s;
            fresh = open_jobs s1 (hf_endpointId f)
        in if fresh = [] then (nothing_to_do, s1)
        else if list_ex (\<lambda>(j, r). uj_status j \<in> set ACTIVE) fresh then (nothing_to_do, s1)
        else dispatch_loop tz now f nonce fresh s1)"

section \<open>The installer download\<close>

record installer_pin =
  ip_version :: string
  ip_sha256 :: "string option"
  ip_component :: update_component

definition installerFetched :: "time \<Rightarrow> string option \<Rightarrow> db \<Rightarrow> installer_pin option \<times> db" where
  "installerFetched now nonce s = (case nonce of
       None \<Rightarrow> (None, s)
     | Some n \<Rightarrow>
         if \<not> (16 \<le> length n \<and> length n \<le> 64 \<and> list_all is_url_char n) then (None, s)
         else (case find_row (\<lambda>j. uj_dispatchNonce j = Some n) (jobs s) of
             None \<Rightarrow> (None, s)
           | Some j \<Rightarrow>
               if uj_status j \<notin> set ACTIVE then (None, s)
               else (case rollout_by_id s (uj_rolloutId j) of
                   None \<Rightarrow> (None, s)
                 | Some r \<Rightarrow>
                     (Some \<lparr>ip_version = ro_targetVersion r, ip_sha256 = ro_artifactSha256 r, ip_component = ro_component r\<rparr>,
                      if uj_status j = JOB_DISPATCHED
                      then job_event (uj_id j) ''installer_fetched'' (Some JOB_INSTALLING)
                        (s\<lparr>jobs := update_rows (\<lambda>q. uj_id q = uj_id j \<and> uj_status q = JOB_DISPATCHED)
                           (\<lambda>q. q\<lparr>uj_status := JOB_INSTALLING, uj_installStartedAt := Some now\<rparr>) (jobs s)\<rparr>)
                      else s))))"

end
