(* ===== verification/RolloutProofs.thy ===== *)
theory RolloutProofs
  imports RolloutHeartbeat
begin

text \<open>
  What holds of updates: attempts stay within the limit of their rollout whatever happens in
  whatever order, a threshold reached stops a running rollout, and a job is handed out and
  counted as done only under the conditions the code states.
\<close>

section \<open>What each step leaves alone\<close>

text \<open>The attempt limits of the rollouts, which no step but creation changes.\<close>

definition max_of :: "db \<Rightarrow> id \<Rightarrow> int option" where
  "max_of s i = map_option ro_maxAttempts (rollout_by_id s i)"

definition job_ok :: "(id \<Rightarrow> int option) \<Rightarrow> job_row \<Rightarrow> bool" where
  "job_ok mx j = (case mx (uj_rolloutId j) of
       None \<Rightarrow> False
     | Some m \<Rightarrow> uj_attempts j \<le> m \<and> (uj_status j = JOB_REQUESTED \<longrightarrow> uj_attempts j < m))"

definition rollout_inv :: "db \<Rightarrow> bool" where
  "rollout_inv s \<longleftrightarrow> distinct (map ro_id (rollouts s)) \<and> distinct (map uj_id (jobs s))
     \<and> (\<forall>j \<in> set (jobs s). job_ok (max_of s) j)"

text \<open>A row as read is current in what the engine relies on: its attempts and its rollout.\<close>

definition current :: "job_row \<Rightarrow> db \<Rightarrow> bool" where
  "current j s \<longleftrightarrow> (\<forall>q \<in> set (jobs s). uj_id q = uj_id j \<longrightarrow>
     uj_attempts q = uj_attempts j \<and> uj_rolloutId q = uj_rolloutId j)"

named_theorems rollout_simps \<open>tables after the helper steps\<close>

lemma tables_simps [simp, rollout_simps]:
  "jobs (job_event i n st s) = jobs s" "rollouts (job_event i n st s) = rollouts s"
  "sessions (job_event i n st s) = sessions s"
  "jobs (rollout_audit a x y i s) = jobs s" "rollouts (rollout_audit a x y i s) = rollouts s"
  "sessions (rollout_audit a x y i s) = sessions s"
  "jobs (set_job i g s) = update_rows (\<lambda>j. uj_id j = i) g (jobs s)" "rollouts (set_job i g s) = rollouts s"
  "jobs (set_rollout i h s) = jobs s" "rollouts (set_rollout i h s) = update_rows (\<lambda>r. ro_id r = i) h (rollouts s)"
  "jobs (snd (pause_rollout a i reason s)) = jobs s"
  "jobs (checkThreshold i s) = jobs s"
  by (simp_all add: job_event_def rollout_audit_def set_job_def set_rollout_def pause_rollout_def checkThreshold_def
      Let_def split: option.splits)

lemma max_of_cong: "rollouts s' = rollouts s \<Longrightarrow> max_of s' = max_of s"
  by (simp add: max_of_def rollout_by_id_def fun_eq_iff)

lemma max_of_update:
  assumes "rollouts s' = update_rows P h (rollouts s)" "\<And>r. ro_id (h r) = ro_id r" "\<And>r. ro_maxAttempts (h r) = ro_maxAttempts r"
  shows "max_of s' = max_of s"
proof
  fix i
  have "rollout_by_id s' i = map_option (\<lambda>r. if P r then h r else r) (rollout_by_id s i)"
    unfolding rollout_by_id_def assms(1) using assms(2) by (rule find_row_update)
  then show "max_of s' i = max_of s i" using assms(3) by (cases "rollout_by_id s i") (simp_all add: max_of_def)
qed

lemma pause_rollouts:
  "rollouts (snd (pause_rollout a i reason s)) = update_rows (\<lambda>r. ro_id r = i \<and> ro_status r = RO_RUNNING)
     (\<lambda>r. r\<lparr>ro_status := RO_PAUSED, ro_pausedReason := Some (take 300 reason)\<rparr>) (rollouts s)"
  by (simp add: pause_rollout_def Let_def)

lemma max_of_simps [simp]:
  "max_of (job_event i n st s) = max_of s" "max_of (rollout_audit a x y i s) = max_of s"
  "max_of (set_job i g s) = max_of s"
  by (rule max_of_cong; simp)+

lemma max_of_pause [simp]: "max_of (snd (pause_rollout a i reason s)) = max_of s"
  by (rule max_of_update[OF pause_rollouts]) simp_all

lemma ids_pause [simp]: "map ro_id (rollouts (snd (pause_rollout a i reason s))) = map ro_id (rollouts s)"
  by (simp add: pause_rollouts map_update_rows)

lemma checkThreshold_cases: "checkThreshold i s = s \<or> (\<exists>reason. checkThreshold i s = snd (pause_rollout None i reason s))"
  by (auto simp: checkThreshold_def Let_def split: option.splits)

lemma max_of_checkThreshold [simp]: "max_of (checkThreshold i s) = max_of s"
  using checkThreshold_cases[of i s] by auto

lemma ids_checkThreshold [simp]: "map ro_id (rollouts (checkThreshold i s)) = map ro_id (rollouts s)"
  using checkThreshold_cases[of i s] by auto

lemma max_of_fail [simp]: "max_of (fail_job now i ro reason s) = max_of s"
  by (simp add: fail_job_def)

lemma max_of_failAttempt [simp]: "max_of (failAttempt now j m b reason s) = max_of s"
  by (simp add: failAttempt_def)

lemma ids_fail [simp]: "map ro_id (rollouts (fail_job now i ro reason s)) = map ro_id (rollouts s)"
  by (simp add: fail_job_def)

lemma ids_failAttempt [simp]: "map ro_id (rollouts (failAttempt now j m b reason s)) = map ro_id (rollouts s)"
  by (simp add: failAttempt_def)

lemma jobs_fail:
  "jobs (fail_job now i ro reason s) = update_rows (\<lambda>j. uj_id j = i)
     (\<lambda>j. j\<lparr>uj_status := JOB_FAILED, uj_completedAt := Some now, uj_failureReason := Some reason, uj_dispatchNonce := None\<rparr>)
     (jobs s)"
  by (simp add: fail_job_def)

section \<open>One job updated\<close>

text \<open>
  A job update that keeps the key, the rollout and the attempts keeps the invariant, as long
  as it does not put a job back that has used up its attempts.
\<close>

definition tame :: "(job_row \<Rightarrow> job_row) \<Rightarrow> bool" where
  "tame g \<longleftrightarrow> (\<forall>j. uj_id (g j) = uj_id j \<and> uj_rolloutId (g j) = uj_rolloutId j \<and> uj_attempts (g j) = uj_attempts j)"

lemma tame_current: "tame g \<Longrightarrow> jobs s' = update_rows P g (jobs s) \<Longrightarrow> current j s \<Longrightarrow> current j s'"
  by (auto simp: current_def tame_def set_update_rows)

lemma tame_ids: "tame g \<Longrightarrow> map uj_id (update_rows P g t) = map uj_id t"
  by (rule map_update_rows) (simp add: tame_def)

lemma inv_jobs_update:
  assumes "rollout_inv s" "tame g" "jobs s' = update_rows P g (jobs s)" "max_of s' = max_of s"
    and "map ro_id (rollouts s') = map ro_id (rollouts s)"
    and "\<And>j m. j \<in> set (jobs s) \<Longrightarrow> P j \<Longrightarrow> uj_status (g j) = JOB_REQUESTED \<Longrightarrow> uj_status j = JOB_REQUESTED
           \<or> (max_of s (uj_rolloutId j) = Some m \<longrightarrow> uj_attempts j < m)"
  shows "rollout_inv s'"
proof -
  have "job_ok (max_of s) (g j)" if "j \<in> set (jobs s)" "P j" for j
  proof -
    have ok: "job_ok (max_of s) j" using assms(1) that(1) by (simp add: rollout_inv_def)
    then obtain m where m: "max_of s (uj_rolloutId j) = Some m" by (auto simp: job_ok_def split: option.splits)
    with ok assms(2) assms(6)[OF that, of m] show ?thesis by (auto simp: job_ok_def tame_def)
  qed
  with assms show ?thesis by (auto simp: rollout_inv_def tame_ids set_update_rows)
qed

lemma inv_same_jobs:
  "rollout_inv s \<Longrightarrow> jobs s' = jobs s \<Longrightarrow> max_of s' = max_of s \<Longrightarrow>
   map ro_id (rollouts s') = map ro_id (rollouts s) \<Longrightarrow> rollout_inv s'"
  by (simp add: rollout_inv_def)

lemma inv_set_job:
  assumes "rollout_inv s" "tame g" "\<And>j. uj_status (g j) = JOB_REQUESTED \<Longrightarrow> uj_status j = JOB_REQUESTED"
  shows "rollout_inv (set_job i g s)"
  by (rule inv_jobs_update[OF assms(1,2)]) (use assms(3) in auto)

lemma inv_event [simp]: "rollout_inv (job_event i n st s) = rollout_inv s"
  by (simp add: rollout_inv_def)

lemma inv_audit [simp]: "rollout_inv (rollout_audit a x y i s) = rollout_inv s"
  by (simp add: rollout_inv_def)

lemma current_simps [simp]:
  "current j (job_event i n st s) = current j s" "current j (rollout_audit a x y i s) = current j s"
  "current j (checkThreshold i s) = current j s"
  by (simp_all add: current_def)

lemma current_set_job: "tame g \<Longrightarrow> current j s \<Longrightarrow> current j (set_job i g s)"
  by (rule tame_current) simp_all

lemma inv_checkThreshold: "rollout_inv s \<Longrightarrow> rollout_inv (checkThreshold i s)"
  by (rule inv_same_jobs) simp_all

lemma inv_fail: "rollout_inv s \<Longrightarrow> rollout_inv (fail_job now i ro reason s)"
  by (rule inv_jobs_update[where g = "\<lambda>j. j\<lparr>uj_status := JOB_FAILED, uj_completedAt := Some now,
        uj_failureReason := Some reason, uj_dispatchNonce := None\<rparr>", OF _ _ jobs_fail]) (simp_all add: tame_def)

lemma current_fail: "current j s \<Longrightarrow> current j (fail_job now i ro reason s)"
  by (rule tame_current[where g = "\<lambda>j. j\<lparr>uj_status := JOB_FAILED, uj_completedAt := Some now,
        uj_failureReason := Some reason, uj_dispatchNonce := None\<rparr>", OF _ jobs_fail]) (simp_all add: tame_def)

lemma inv_failAttempt:
  assumes "rollout_inv s" "current j s" "max_of s (uj_rolloutId j) = Some m"
  shows "rollout_inv (failAttempt now j m b reason s)"
proof (cases "uj_attempts j \<ge> m")
  case True
  with assms(1) show ?thesis by (simp add: failAttempt_def inv_fail)
next
  case False
  let ?g = "\<lambda>q. q\<lparr>uj_status := JOB_REQUESTED, uj_failureReason := Some reason, uj_dispatchNonce := None,
      uj_nextAttemptAt := Some (now + backoff_delay b (uj_attempts j) * minute_ms)\<rparr>"
  have "rollout_inv (set_job (uj_id j) ?g s)"
  proof (rule inv_jobs_update[OF assms(1), of ?g _ "\<lambda>q. uj_id q = uj_id j"])
    show "tame ?g" by (simp add: tame_def)
    show "uj_status q = JOB_REQUESTED \<or> (max_of s (uj_rolloutId q) = Some n \<longrightarrow> uj_attempts q < n)"
      if "q \<in> set (jobs s)" "uj_id q = uj_id j" for q n
      using that assms(2,3) False by (auto simp: current_def)
  qed simp_all
  with False show ?thesis by (simp add: failAttempt_def)
qed

lemma current_failAttempt: "current k s \<Longrightarrow> current k (failAttempt now j m b reason s)"
  by (simp add: failAttempt_def current_fail current_set_job tame_def)

lemma current_row: "rollout_inv s \<Longrightarrow> j \<in> set (jobs s) \<Longrightarrow> current j s"
  by (auto simp: rollout_inv_def current_def inj_on_def distinct_map)

lemma max_of_row: "rollout_inv s \<Longrightarrow> r \<in> set (rollouts s) \<Longrightarrow> max_of s (ro_id r) = Some (ro_maxAttempts r)"
proof -
  assume i: "rollout_inv s" and r: "r \<in> set (rollouts s)"
  have "find_row (\<lambda>x. ro_id x = ro_id r) (rollouts s) = Some r"
    using find_unique[of ro_id "rollouts s" r] i r by (simp add: rollout_inv_def)
  then show ?thesis by (simp add: max_of_def rollout_by_id_def)
qed

section \<open>The engine keeps the invariant\<close>

lemma time_out_fold:
  assumes "rollout_inv s" "max_of s (ro_id r) = Some (ro_maxAttempts r)"
    and "\<And>j. j \<in> set js \<Longrightarrow> current j s \<and> uj_rolloutId j = ro_id r"
  shows "rollout_inv (foldl (time_out_job now r) s js) \<and> max_of (foldl (time_out_job now r) s js) = max_of s
    \<and> map ro_id (rollouts (foldl (time_out_job now r) s js)) = map ro_id (rollouts s)"
  using assms
proof (induction js arbitrary: s)
  case Nil
  then show ?case by simp
next
  case (Cons j js)
  let ?s = "time_out_job now r s j"
  have "rollout_inv ?s"
    unfolding time_out_job_def by (rule inv_failAttempt) (use Cons.prems in auto)
  moreover have "max_of ?s = max_of s" "map ro_id (rollouts ?s) = map ro_id (rollouts s)"
    by (simp_all add: time_out_job_def)
  moreover have "current k ?s" if "k \<in> set js" for k
    using Cons.prems(3)[of k] that by (simp add: time_out_job_def current_failAttempt)
  ultimately show ?case using Cons.IH[of ?s] Cons.prems by simp
qed

lemma advance_keeps:
  "jobs (advance_rollout now r s) = jobs s \<and> max_of (advance_rollout now r s) = max_of s
   \<and> map ro_id (rollouts (advance_rollout now r s)) = map ro_id (rollouts s)"
proof -
  have set: "max_of (set_rollout i (\<lambda>q. q\<lparr>ro_currentBatch := n\<rparr>) d) = max_of d" for i n d
    by (rule max_of_update[where P = "\<lambda>r. ro_id r = i" and h = "\<lambda>q. q\<lparr>ro_currentBatch := n\<rparr>"]) simp_all
  have completed: "max_of (s\<lparr>rollouts := update_rows P (\<lambda>q. q\<lparr>ro_status := RO_COMPLETED, ro_completedAt := Some now\<rparr>)
      (rollouts s)\<rparr>) = max_of s" for P
    by (rule max_of_update[where P = P and h = "\<lambda>q. q\<lparr>ro_status := RO_COMPLETED, ro_completedAt := Some now\<rparr>"])
      simp_all
  show ?thesis
    unfolding advance_rollout_def Let_def
    by (auto simp: set completed map_update_rows split: option.splits)
qed

lemma tick_rollout_inv:
  assumes "rollout_inv s" "max_of s (ro_id r) = Some (ro_maxAttempts r)"
  shows "rollout_inv (tick_rollout now s r) \<and> max_of (tick_rollout now s r) = max_of s"
proof -
  let ?s = "foldl (time_out_job now r) s (stale_jobs now r s)"
  have f: "rollout_inv ?s" "max_of ?s = max_of s"
    using time_out_fold[OF assms, of "stale_jobs now r s" now] current_row[OF assms(1)]
    by (auto simp: stale_jobs_def)
  then have "rollout_inv (advance_rollout now r ?s)" "max_of (advance_rollout now r ?s) = max_of s"
    using inv_same_jobs[of ?s "advance_rollout now r ?s"] advance_keeps[of now r ?s] by simp_all
  with f show ?thesis by (simp add: tick_rollout_def Let_def)
qed

lemma tick_inv: "rollout_inv s \<Longrightarrow> rollout_inv (tick now s) \<and> max_of (tick now s) = max_of s"
proof -
  have fold: "rollout_inv (foldl (tick_rollout now) d rs) \<and> max_of (foldl (tick_rollout now) d rs) = max_of d"
    if "rollout_inv d" "\<forall>r \<in> set rs. max_of d (ro_id r) = Some (ro_maxAttempts r)" for d rs
    using that by (induction rs arbitrary: d) (simp_all add: tick_rollout_inv)
  assume i: "rollout_inv s"
  then show ?thesis unfolding tick_def by (intro fold) (auto simp: max_of_row)
qed

section \<open>Heartbeats keep the invariant\<close>

lemma recordEvidence_inv:
  assumes "rollout_inv s" "current j s" "max_of s (uj_rolloutId j) = Some (ro_maxAttempts r)"
  shows "rollout_inv (recordEvidence hbbs now f r j s) \<and> max_of (recordEvidence hbbs now f r j s) = max_of s"
proof -
  have set: "rollout_inv (set_job i g s)" if "tame g" "\<And>j. uj_status (g j) = JOB_REQUESTED \<Longrightarrow> uj_status j = JOB_REQUESTED" for i g
    using assms(1) that by (rule inv_set_job)
  have keep: "rollout_inv (set_job i (\<lambda>q. q\<lparr>uj_installedVersion := Some v\<rparr>) s)"
    "rollout_inv (set_job i (\<lambda>q. q\<lparr>uj_installedVersion := Some v, uj_credentialSync := Some w\<rparr>) s)"
    "rollout_inv (set_job i (\<lambda>q. q\<lparr>uj_status := JOB_AWAITING_VERIFICATION, uj_installedVersion := Some v,
        uj_credentialSync := Some w\<rparr>) s)" for i v w
    by (rule set; simp add: tame_def)+
  have cur: "current j (set_job i (\<lambda>q. q\<lparr>uj_installedVersion := Some v\<rparr>) s)" for i v
    using assms(2) by (rule current_set_job[rotated]) (simp add: tame_def)
  have ver: "rollout_inv (verify_job hbbs now f j d) \<and> max_of (verify_job hbbs now f j d) = max_of d" if "rollout_inv d" for d
    using that by (auto simp: verify_job_def tame_def intro!: inv_set_job)
  show ?thesis
    by (simp add: recordEvidence_def Let_def assms keep cur ver inv_fail inv_failAttempt)
qed

lemma recordEvidence_current:
  assumes "current k s"
  shows "current k (recordEvidence hbbs now f r j s)"
proof -
  have ver: "current k (verify_job hbbs now f j d)" if "current k d" for d
    using that by (simp add: verify_job_def current_set_job tame_def)
  have set: "current k (set_job i (\<lambda>q. q\<lparr>uj_installedVersion := Some v\<rparr>) s)"
    "current k (set_job i (\<lambda>q. q\<lparr>uj_installedVersion := Some v, uj_credentialSync := Some w\<rparr>) s)"
    "current k (set_job i (\<lambda>q. q\<lparr>uj_status := JOB_AWAITING_VERIFICATION, uj_installedVersion := Some v,
        uj_credentialSync := Some w\<rparr>) s)" for i v w
    using assms by (simp_all add: current_set_job tame_def)
  show ?thesis
    by (simp add: recordEvidence_def Let_def assms set ver current_fail current_failAttempt)
qed

lemma recordEvidence_fold:
  assumes "rollout_inv s"
    and "\<And>j r. (j, r) \<in> set jrs \<Longrightarrow> current j s \<and> max_of s (uj_rolloutId j) = Some (ro_maxAttempts r)"
  shows "rollout_inv (foldl (\<lambda>d (j, r). recordEvidence hbbs now f r j d) s jrs)
    \<and> max_of (foldl (\<lambda>d (j, r). recordEvidence hbbs now f r j d) s jrs) = max_of s"
  using assms
proof (induction jrs arbitrary: s)
  case Nil
  then show ?case by simp
next
  case (Cons jr jrs)
  obtain j r where jr: "jr = (j, r)" by (cases jr)
  let ?s = "recordEvidence hbbs now f r j s"
  have s: "rollout_inv ?s" "max_of ?s = max_of s"
    using recordEvidence_inv[of s j r] Cons.prems(1) Cons.prems(2)[of j r] by (simp_all add: jr)
  have "rollout_inv (foldl (\<lambda>d (j, r). recordEvidence hbbs now f r j d) ?s jrs)
    \<and> max_of (foldl (\<lambda>d (j, r). recordEvidence hbbs now f r j d) ?s jrs) = max_of ?s"
    by (rule Cons.IH[OF s(1)]) (use Cons.prems(2) s(2) in \<open>auto intro: recordEvidence_current\<close>)
  with s(2) show ?case by (simp add: jr)
qed

lemma open_jobs_rows:
  "(j, r) \<in> set (open_jobs s e) \<Longrightarrow> j \<in> set (jobs s) \<and> uj_endpointId j = e \<and> uj_status j \<in> set NOT_DONE
     \<and> rollout_by_id s (uj_rolloutId j) = Some r"
  by (auto simp: open_jobs_def with_rollout_def split: option.splits)

lemma claim_dispatch_inv:
  assumes "rollout_inv s"
  shows "rollout_inv (snd (claim_dispatch now nonce j s)) \<and> max_of (snd (claim_dispatch now nonce j s)) = max_of s"
proof -
  let ?g = "dispatched (now, nonce)"
  let ?P = "\<lambda>q. uj_id q = uj_id j \<and> uj_status q = JOB_REQUESTED"
  have j: "jobs (snd (claim_dispatch now nonce j s)) = update_rows ?P ?g (jobs s)"
    "rollouts (snd (claim_dispatch now nonce j s)) = rollouts s"
    by (simp_all add: claim_dispatch_def claim_rows_def)
  have mx: "max_of (snd (claim_dispatch now nonce j s)) = max_of s" using j(2) by (rule max_of_cong)
  have "job_ok (max_of s) (?g q)" if "q \<in> set (jobs s)" "?P q" for q
    using assms that by (auto simp: rollout_inv_def job_ok_def dispatched_def split: option.splits)
  moreover have "map uj_id (update_rows ?P ?g (jobs s)) = map uj_id (jobs s)"
    by (rule map_update_rows) (simp add: dispatched_def)
  ultimately show ?thesis using assms mx j by (auto simp: rollout_inv_def set_update_rows)
qed

lemma dispatch_loop_inv:
  "rollout_inv s \<Longrightarrow> rollout_inv (snd (dispatch_loop tz now f nonce jrs s))
     \<and> max_of (snd (dispatch_loop tz now f nonce jrs s)) = max_of s"
proof (induction tz now f nonce jrs s rule: dispatch_loop.induct)
  case (1 tz now f nonce s)
  then show ?case by simp
next
  case (2 tz now f nonce j r rest s)
  have d: "rollout_inv (set_job i (\<lambda>q. q\<lparr>uj_deferReason := Some reason\<rparr>) s)" for i reason
    using 2(3) by (intro inv_set_job) (simp_all add: tame_def)
  show ?case
    using 2 d claim_dispatch_inv[OF 2(3), of now nonce j]
    by (auto simp: Let_def split: option.splits prod.splits)
qed

lemma onHeartbeat_inv:
  assumes "rollout_inv s"
  shows "rollout_inv (snd (onHeartbeat tz hbbs now nonce f s)) \<and> max_of (snd (onHeartbeat tz hbbs now nonce f s)) = max_of s"
proof -
  let ?s = "record_all_evidence hbbs now f s"
  have "rollout_inv ?s \<and> max_of ?s = max_of s"
    unfolding record_all_evidence_def by (rule recordEvidence_fold[OF assms])
      (auto dest!: open_jobs_rows simp: current_row[OF assms] max_of_def)
  then show ?thesis
    using assms dispatch_loop_inv[of ?s tz now f nonce] by (auto simp: onHeartbeat_def Let_def)
qed

lemma installerFetched_inv:
  assumes "rollout_inv s"
  shows "rollout_inv (snd (installerFetched now nonce s)) \<and> max_of (snd (installerFetched now nonce s)) = max_of s"
proof -
  have "rollout_inv (s\<lparr>jobs := update_rows P (\<lambda>q. q\<lparr>uj_status := JOB_INSTALLING, uj_installStartedAt := Some now\<rparr>) (jobs s)\<rparr>)"
    "max_of (s\<lparr>jobs := update_rows P (\<lambda>q. q\<lparr>uj_status := JOB_INSTALLING, uj_installStartedAt := Some now\<rparr>) (jobs s)\<rparr>) = max_of s" for P
  proof -
    show mx: "max_of (s\<lparr>jobs := update_rows P (\<lambda>q. q\<lparr>uj_status := JOB_INSTALLING, uj_installStartedAt := Some now\<rparr>) (jobs s)\<rparr>) = max_of s"
      by (rule max_of_cong) simp
    show "rollout_inv (s\<lparr>jobs := update_rows P (\<lambda>q. q\<lparr>uj_status := JOB_INSTALLING, uj_installStartedAt := Some now\<rparr>) (jobs s)\<rparr>)"
      by (rule inv_jobs_update[where g = "\<lambda>q. q\<lparr>uj_status := JOB_INSTALLING, uj_installStartedAt := Some now\<rparr>"
            and P = P, OF assms _ _ mx]) (simp_all add: tame_def)
  qed
  with assms show ?thesis by (auto simp: installerFetched_def split: option.splits)
qed

section \<open>Operators keep the invariant\<close>

lemma set_rollout_inv:
  assumes "rollout_inv s" "\<And>r. ro_id (h r) = ro_id r" "\<And>r. ro_maxAttempts (h r) = ro_maxAttempts r"
  shows "rollout_inv (set_rollout i h s) \<and> max_of (set_rollout i h s) = max_of s"
proof -
  have mx: "max_of (set_rollout i h s) = max_of s"
    by (rule max_of_update[where P = "\<lambda>r. ro_id r = i" and h = h]) (simp_all add: assms)
  moreover have "rollout_inv (set_rollout i h s)"
    by (rule inv_same_jobs[OF assms(1) _ mx]) (simp_all add: map_update_rows assms(2))
  ultimately show ?thesis by simp
qed

lemma start_inv: "rollout_inv s \<Longrightarrow> rollout_inv (snd (start_rollout now a i s))"
proof -
  assume inv: "rollout_inv s"
  have "rollout_inv (snd (start_rollout now a i s))" if r: "rollout_by_id s i = Some r" for r
  proof -
    have "rollout_inv (set_rollout i (\<lambda>q. q\<lparr>ro_status := RO_RUNNING, ro_currentBatch := b, ro_pausedReason := None,
        ro_startedAt := t\<rparr>) s)" for b t
      using set_rollout_inv[OF inv] by simp
    then show ?thesis using inv r by (auto simp: start_rollout_def Let_def tick_inv)
  qed
  then show ?thesis using inv by (cases "rollout_by_id s i") (simp_all add: start_rollout_def)
qed

lemma pause_inv: "rollout_inv s \<Longrightarrow> rollout_inv (snd (pause_rollout a i reason s))"
  by (rule inv_same_jobs) simp_all

lemma cancel_one_inv: "rollout_inv s \<Longrightarrow> rollout_inv (cancel_one now s j)"
  by (auto simp: cancel_one_def tame_def intro!: inv_set_job)

lemma cancel_fold_inv: "rollout_inv s \<Longrightarrow> rollout_inv (foldl (cancel_one now) s js)"
  by (induction js arbitrary: s) (simp_all add: cancel_one_inv)

lemma cancel_inv: "rollout_inv s \<Longrightarrow> rollout_inv (snd (cancel_rollout now a i s))"
  using set_rollout_inv[of s "\<lambda>q. q\<lparr>ro_status := RO_CANCELED, ro_canceledAt := Some now\<rparr>" i]
  by (auto simp: cancel_rollout_def Let_def cancel_fold_inv split: option.splits)

lemma cancelJob_inv: "rollout_inv s \<Longrightarrow> rollout_inv (snd (cancelJob now i s))"
  by (auto simp: cancelJob_def tame_def intro!: inv_set_job split: option.splits)

section \<open>Creating keeps the invariant\<close>

lemma build_jobs_rows:
  assumes "j \<in> set (build_jobs newIds now ro cp target busy pilot bs s k idx es)"
  shows "uj_rolloutId j = ro \<and> uj_attempts j = 0 \<and> (\<exists>n < length es. uj_id j = newIds (k + n))"
  using assms
proof (induction es arbitrary: k idx)
  case Nil
  then show ?case by simp
next
  case (Cons e es)
  from Cons.prems consider (here) skip fv batch where "j = new_job (newIds k) now ro e batch skip fv"
    | (there) idx' where "j \<in> set (build_jobs newIds now ro cp target busy pilot bs s (k + 1) idx' es)"
    by (auto simp: Let_def)
  then show ?case
  proof cases
    case here
    then show ?thesis by (auto simp: new_job_def intro!: exI[of _ 0])
  next
    case there
    from Cons.IH[OF this] obtain n where "uj_rolloutId j = ro" "uj_attempts j = 0" "n < length es" "uj_id j = newIds (k + 1 + n)"
      by blast
    then show ?thesis by (auto intro!: exI[of _ "Suc n"])
  qed
qed

lemma build_jobs_distinct:
  assumes "inj newIds"
  shows "distinct (map uj_id (build_jobs newIds now ro cp target busy pilot bs s k idx es))"
proof (induction es arbitrary: k idx)
  case Nil
  then show ?case by simp
next
  case (Cons e es)
  have "newIds k \<notin> uj_id ` set (build_jobs newIds now ro cp target busy pilot bs s (k + 1) idx' es)" for idx'
    using build_jobs_rows[of _ newIds now ro cp target busy pilot bs s "k + 1" idx' es] assms
    by (fastforce simp: inj_def)
  with Cons.IH show ?case by (simp add: Let_def new_job_def)
qed

text \<open>The identifiers of a creation are new, as the id generator makes them.\<close>

definition fresh_ids :: "id \<Rightarrow> (nat \<Rightarrow> id) \<Rightarrow> db \<Rightarrow> bool" where
  "fresh_ids newId newIds s \<longleftrightarrow> newId \<notin> ro_id ` set (rollouts s) \<and> inj newIds \<and> range newIds \<inter> uj_id ` set (jobs s) = {}"

lemma new_rollout_simps [simp]:
  "ro_id (new_rollout i a inp t n sh w b) = i" "1 \<le> ro_maxAttempts (new_rollout i a inp t n sh w b)"
  by (simp_all add: new_rollout_def bounded_def)

lemma create_inv:
  assumes "rollout_inv s" "fresh_ids newId newIds s"
  shows "rollout_inv (snd (create_rollout tz sha pv newId newIds now a inp s))"
proof (cases "snd (create_rollout tz sha pv newId newIds now a inp s) = s")
  case True
  with assms(1) show ?thesis by simp
next
  case False
  obtain r cp target busy pilot bs es where c: "rollouts (snd (create_rollout tz sha pv newId newIds now a inp s)) = rollouts s @ [r]"
    "jobs (snd (create_rollout tz sha pv newId newIds now a inp s)) =
       jobs s @ build_jobs newIds now newId cp target busy pilot bs s 0 0 es"
    "ro_id r = newId" "1 \<le> ro_maxAttempts r"
    using False by (auto simp: create_rollout_def Let_def split: if_splits sum.splits prod.splits)
  let ?s = "snd (create_rollout tz sha pv newId newIds now a inp s)"
  let ?js = "build_jobs newIds now newId cp target busy pilot bs s 0 0 es"
  have find: "find_row P (xs @ [y]) = (case find_row P xs of None \<Rightarrow> if P y then Some y else None | Some x \<Rightarrow> Some x)"
    for P and xs :: "rollout_row list" and y by (induction xs) auto
  have new: "max_of s newId = None" using assms(2)
    by (auto simp: fresh_ids_def max_of_def rollout_by_id_def find_row_None)
  have mx: "max_of ?s i = (if i = newId then Some (ro_maxAttempts r) else max_of s i)" for i
    using new c(1,3) by (auto simp: max_of_def rollout_by_id_def find split: option.splits)
  have "job_ok (max_of ?s) j" if "j \<in> set (jobs s)" for j
  proof -
    have ok: "job_ok (max_of s) j" using assms(1) that by (simp add: rollout_inv_def)
    then have "uj_rolloutId j \<noteq> newId" using new by (auto simp: job_ok_def)
    with ok show ?thesis by (simp add: job_ok_def mx)
  qed
  moreover have "job_ok (max_of ?s) j" if "j \<in> set ?js" for j
    using build_jobs_rows[OF that] c(4) by (simp add: job_ok_def mx)
  moreover have "distinct (map uj_id (jobs s @ ?js))"
    using assms build_jobs_distinct[of newIds] build_jobs_rows[of _ newIds now newId cp target busy pilot bs s 0 0 es]
    by (fastforce simp: rollout_inv_def fresh_ids_def)
  moreover have "distinct (map ro_id (rollouts s @ [r]))" using assms c(3) by (auto simp: rollout_inv_def fresh_ids_def)
  ultimately show ?thesis using c(1,2) by (auto simp: rollout_inv_def)
qed

section \<open>Updates as a machine\<close>

datatype rollout_op =
    Create id "nat \<Rightarrow> id" actor rollout_input
  | Start actor id | Pause "actor option" id string | Cancel actor id | CancelJob id | Tick
  | Heartbeat string heartbeat_facts | Fetched "string option"

text \<open>One operation at an instant; a creation uses identifiers that are new.\<close>

fun rollout_step ::
  "zone_db \<Rightarrow> (string \<Rightarrow> string \<Rightarrow> string option) \<Rightarrow> string \<Rightarrow> (string list \<Rightarrow> string list option) \<Rightarrow>
   db \<Rightarrow> time \<times> rollout_op \<Rightarrow> db" where
  "rollout_step tz sha pv hbbs s (now, Create newId newIds a inp) =
     (if fresh_ids newId newIds s then snd (create_rollout tz sha pv newId newIds now a inp s) else s)"
| "rollout_step tz sha pv hbbs s (now, Start a i) = snd (start_rollout now a i s)"
| "rollout_step tz sha pv hbbs s (now, Pause a i reason) = snd (pause_rollout a i reason s)"
| "rollout_step tz sha pv hbbs s (now, Cancel a i) = snd (cancel_rollout now a i s)"
| "rollout_step tz sha pv hbbs s (now, CancelJob i) = snd (cancelJob now i s)"
| "rollout_step tz sha pv hbbs s (now, Tick) = tick now s"
| "rollout_step tz sha pv hbbs s (now, Heartbeat nonce f) = snd (onHeartbeat tz hbbs now nonce f s)"
| "rollout_step tz sha pv hbbs s (now, Fetched nonce) = snd (installerFetched now nonce s)"

lemma rollout_step_inv: "rollout_inv s \<Longrightarrow> rollout_inv (rollout_step tz sha pv hbbs s e)"
  by (cases "(tz, sha, pv, hbbs, s, e)" rule: rollout_step.cases)
    (simp_all add: create_inv start_inv pause_inv cancel_inv cancelJob_inv tick_inv onHeartbeat_inv installerFetched_inv)

interpretation rollout_machine: machine "rollout_step tz sha pv hbbs" rollout_inv
  by unfold_locales (rule rollout_step_inv)

section \<open>Handing out a job\<close>

text \<open>
  Job \<open>j\<close> of rollout \<open>r\<close> was handed out: the rollout runs, the batch is released, the backoff
  is over, nothing defers it; the stored job was still requested and is now dispatched, and
  the answer names the target and the nonce.
\<close>

definition handed_out ::
  "zone_db \<Rightarrow> time \<Rightarrow> heartbeat_facts \<Rightarrow> string \<Rightarrow> db \<Rightarrow> job_row \<Rightarrow> rollout_row \<Rightarrow> heartbeat_answer \<Rightarrow> db \<Rightarrow> bool" where
  "handed_out tz now f nonce s j r ans s' \<longleftrightarrow> ro_status r = RO_RUNNING \<and> uj_batch j \<le> ro_currentBatch r
     \<and> (\<forall>t. uj_nextAttemptAt j = Some t \<longrightarrow> t \<le> now)
     \<and> deferReason tz s f (ro_deferOnUnknownSession r) (ro_maintenanceWindow r) now = None
     \<and> (\<exists>q \<in> set (jobs s). uj_id q = uj_id j \<and> uj_status q = JOB_REQUESTED)
     \<and> jobs s' = update_rows (\<lambda>q. uj_id q = uj_id j \<and> uj_status q = JOB_REQUESTED) (dispatched (now, nonce)) (jobs s)
     \<and> ans = (if ro_component r = RUSTDESK
              then nothing_to_do\<lparr>ha_updateRustdesk := Some \<lparr>dp_targetVersion = ro_targetVersion r, dp_nonce = nonce\<rparr>\<rparr>
              else nothing_to_do\<lparr>ha_reinstallAgent := Some \<lparr>dp_targetVersion = ro_targetVersion r, dp_nonce = nonce\<rparr>\<rparr>)"

lemma dispatch_loop_payload:
  assumes "dispatch_loop tz now f nonce jrs s = (ans, s')"
    and "ha_updateRustdesk ans \<noteq> None \<or> ha_reinstallAgent ans \<noteq> None"
  shows "\<exists>(j, r) \<in> set jrs. handed_out tz now f nonce s j r ans s'"
  using assms
proof (induction tz now f nonce jrs s rule: dispatch_loop.induct)
  case (1 tz now f nonce s)
  then show ?case by (auto simp: nothing_to_do_def)
next
  case (2 tz now f nonce j r rest s)
  consider (skip) "ro_status r \<noteq> RO_RUNNING \<or> uj_batch j > ro_currentBatch r"
    | (wait) t where "\<not> (ro_status r \<noteq> RO_RUNNING \<or> uj_batch j > ro_currentBatch r)" "uj_nextAttemptAt j = Some t" "t > now"
    | (go) "ro_status r = RO_RUNNING" "uj_batch j \<le> ro_currentBatch r" "\<forall>t. uj_nextAttemptAt j = Some t \<longrightarrow> t \<le> now"
    by force
  then show ?case
  proof cases
    case skip
    then have "dispatch_loop tz now f nonce rest s = (ans, s')" using 2(3) by auto
    from 2(1)[OF skip this 2(4)] show ?thesis by simp
  next
    case wait
    then have w: "case uj_nextAttemptAt j of None \<Rightarrow> False | Some t \<Rightarrow> now < t" by simp
    have "dispatch_loop tz now f nonce rest s = (ans, s')" using 2(3) wait(1) w by auto
    from 2(2)[OF wait(1) w this 2(4)] show ?thesis by simp
  next
    case go
    then have n: "\<not> (case uj_nextAttemptAt j of None \<Rightarrow> False | Some t \<Rightarrow> now < t)"
      by (auto split: option.splits)
    let ?d = "deferReason tz s f (ro_deferOnUnknownSession r) (ro_maintenanceWindow r) now"
    have d: "?d = None" using 2(3,4) go n by (cases ?d) (auto simp: nothing_to_do_def)
    have c: "claim_dispatch now nonce j s =
        (count_rows (\<lambda>q. uj_id q = uj_id j \<and> uj_status q = JOB_REQUESTED) (jobs s),
         s\<lparr>jobs := update_rows (\<lambda>q. uj_id q = uj_id j \<and> uj_status q = JOB_REQUESTED) (dispatched (now, nonce)) (jobs s)\<rparr>)"
      by (simp add: claim_dispatch_def claim_rows_def)
    let ?n = "count_rows (\<lambda>q. uj_id q = uj_id j \<and> uj_status q = JOB_REQUESTED) (jobs s)"
    have pos: "?n \<noteq> 0"
    proof
      assume "?n = 0"
      then have "ans = nothing_to_do" using 2(3) go n d c by (auto simp: Let_def)
      with 2(4) show False by (simp add: nothing_to_do_def)
    qed
    then have "\<exists>q \<in> set (jobs s). uj_id q = uj_id j \<and> uj_status q = JOB_REQUESTED" by simp
    moreover have "jobs s' = update_rows (\<lambda>q. uj_id q = uj_id j \<and> uj_status q = JOB_REQUESTED) (dispatched (now, nonce)) (jobs s)
       \<and> ans = (if ro_component r = RUSTDESK
              then nothing_to_do\<lparr>ha_updateRustdesk := Some \<lparr>dp_targetVersion = ro_targetVersion r, dp_nonce = nonce\<rparr>\<rparr>
              else nothing_to_do\<lparr>ha_reinstallAgent := Some \<lparr>dp_targetVersion = ro_targetVersion r, dp_nonce = nonce\<rparr>\<rparr>)"
      using 2(3) go n d c pos by (auto simp: Let_def simp del: count_rows_zero)
    ultimately have "handed_out tz now f nonce s j r ans s'" using go d by (simp add: handed_out_def)
    then show ?thesis by simp
  qed
qed

interpretation dispatch_claim: single_use uj_id "\<lambda>(p::time \<times> string) j. uj_status j = JOB_REQUESTED" dispatched
  by unfold_locales (simp_all add: dispatched_def)

section \<open>Failures and the threshold\<close>

definition failed_of :: "db \<Rightarrow> id \<Rightarrow> nat" where
  "failed_of s i = count_rows (\<lambda>j. uj_rolloutId j = i \<and> uj_status j = JOB_FAILED) (jobs s)"

lemma pause_found:
  "rollout_by_id (snd (pause_rollout a i reason s)) i =
     map_option (\<lambda>r. if ro_status r = RO_RUNNING then r\<lparr>ro_status := RO_PAUSED, ro_pausedReason := Some (take 300 reason)\<rparr> else r)
       (rollout_by_id s i)"
proof -
  have "find_row (\<lambda>x. ro_id x = i) (update_rows (\<lambda>r. ro_id r = i \<and> ro_status r = RO_RUNNING)
      (\<lambda>r. r\<lparr>ro_status := RO_PAUSED, ro_pausedReason := Some (take 300 reason)\<rparr>) (rollouts s))
    = map_option (\<lambda>r. if ro_id r = i \<and> ro_status r = RO_RUNNING
        then r\<lparr>ro_status := RO_PAUSED, ro_pausedReason := Some (take 300 reason)\<rparr> else r)
       (find_row (\<lambda>x. ro_id x = i) (rollouts s))"
    by (rule find_row_update) simp
  then show ?thesis
    by (cases "find_row (\<lambda>x. ro_id x = i) (rollouts s)")
      (auto simp: rollout_by_id_def pause_rollouts dest: find_row_Some)
qed

lemma checkThreshold_stops:
  "rollout_by_id (checkThreshold i s) i = Some r \<Longrightarrow> ro_status r = RO_RUNNING \<Longrightarrow> 0 < ro_failureThreshold r \<Longrightarrow>
   int (failed_of (checkThreshold i s) i) < ro_failureThreshold r"
  by (cases "rollout_by_id s i")
    (auto simp: checkThreshold_def Let_def pause_found failed_of_def split: if_splits)

lemma checkThreshold_pauses:
  "rollout_by_id s i = Some r \<Longrightarrow> ro_status r = RO_RUNNING \<Longrightarrow> 0 < ro_failureThreshold r \<Longrightarrow>
   ro_failureThreshold r \<le> int (failed_of s i) \<Longrightarrow>
   \<exists>q. rollout_by_id (checkThreshold i s) i = Some q \<and> ro_status q = RO_PAUSED \<and> ro_currentBatch q = ro_currentBatch r"
  by (simp add: checkThreshold_def Let_def pause_found failed_of_def)

lemma job_set_job:
  assumes "\<And>q. uj_id (g q) = uj_id q"
  shows "job_by_id (set_job i g s) k = map_option (\<lambda>q. if uj_id q = i then g q else q) (job_by_id s k)"
  unfolding job_by_id_def tables_simps by (rule find_row_update) (rule assms)

lemma job_by_id_same: "jobs s' = jobs s \<Longrightarrow> job_by_id s' k = job_by_id s k"
  by (simp add: job_by_id_def)

lemma job_by_id_logged [simp]:
  "job_by_id (job_event i t st s) k = job_by_id s k" "job_by_id (rollout_audit a act r i s) k = job_by_id s k"
  by (simp_all add: job_by_id_def)

lemma job_by_id_id: "job_by_id s k = Some q \<Longrightarrow> uj_id q = k"
  by (auto simp: job_by_id_def dest: find_row_Some)

section \<open>Properties\<close>

text \<open>
  C34: Retries are bounded by construction: whatever operators, heartbeats, installer downloads
  and ticks come in whatever order, every job belongs to a rollout, has been attempted at most
  as often as that rollout allows, and one waiting to be handed out again has an attempt left.
\<close>

theorem attempts_stay_bounded:
  assumes "rollout_inv s"
  shows "\<forall>j \<in> set (jobs (foldl (rollout_step tz sha pv hbbs) s es)).
    \<exists>m. max_of (foldl (rollout_step tz sha pv hbbs) s es) (uj_rolloutId j) = Some m
      \<and> uj_attempts j \<le> m \<and> (uj_status j = JOB_REQUESTED \<longrightarrow> uj_attempts j < m)"
proof -
  have "rollout_inv (foldl (rollout_step tz sha pv hbbs) s es)" using rollout_machine.inv_run[OF assms] .
  then show ?thesis by (force simp: rollout_inv_def job_ok_def split: option.splits)
qed

definition demo_rollout :: rollout_row where
  "demo_rollout = \<lparr>ro_id = ''r1'', ro_name = ''r'', ro_component = RUSTDESK, ro_targetVersion = ''1.4.4'',
     ro_artifactName = None, ro_artifactSha256 = None, ro_status = RO_RUNNING, ro_pilotGroupId = None,
     ro_batchSize = 10, ro_currentBatch = 1, ro_failureThreshold = 1, ro_maxAttempts = 2, ro_backoffMinutes = 5,
     ro_verifyTimeoutMinutes = 15, ro_maintenanceWindow = JNull, ro_deferOnUnknownSession = True,
     ro_pausedReason = None, ro_createdById = None, ro_startedAt = None, ro_completedAt = None, ro_canceledAt = None\<rparr>"

definition demo_job :: "id \<Rightarrow> job_status \<Rightarrow> int \<Rightarrow> job_row" where
  "demo_job i st batch = \<lparr>uj_id = i, uj_rolloutId = ''r1'', uj_endpointId = i, uj_customerId = None,
      uj_batch = batch, uj_status = st, uj_attempts = 1, uj_nextAttemptAt = None, uj_dispatchedAt = None,
      uj_dispatchNonce = None, uj_installStartedAt = None, uj_verifiedAt = None, uj_completedAt = None,
      uj_fromVersion = None, uj_installedVersion = None, uj_failureReason = None, uj_deferReason = None,
      uj_credentialSync = None, uj_createdAt = 0\<rparr>"

definition demo_db :: "job_row list \<Rightarrow> db" where
  "demo_db js = empty_db\<lparr>rollouts := [demo_rollout], jobs := js\<rparr>"

definition demo_facts :: "string option \<Rightarrow> heartbeat_facts" where
  "demo_facts v = \<lparr>hf_endpointId = ''j1'', hf_rustdeskId = ''9'', hf_authenticated = True, hf_rustdeskVersion = v,
     hf_agentVersion = None, hf_updateNonce = None, hf_reportedPassword = False, hf_rdSessionsActive = None\<rparr>"

lemma demo_rollout_inv: "rollout_inv (demo_db [demo_job ''j1'' st 1, demo_job ''j2'' st' 2])"
  by (simp add: rollout_inv_def demo_db_def demo_job_def demo_rollout_def empty_db_def job_ok_def max_of_def
      rollout_by_id_def)

theorem attempts_stay_bounded_witness:
  "let s = foldl (rollout_step (\<lambda>z. None) (\<lambda>a b. None) ''1'' (\<lambda>x. None))
        (demo_db [demo_job ''j1'' JOB_REQUESTED 1, demo_job ''j2'' JOB_REQUESTED 2])
        [(5, Heartbeat ''n'' (demo_facts None)), (6, Tick), (7, CancelJob ''j2'')]
   in list_all (\<lambda>j. \<exists>m. max_of s (uj_rolloutId j) = Some m \<and> uj_attempts j \<le> m) (jobs s)"
  unfolding Let_def list_all_iff using attempts_stay_bounded[OF demo_rollout_inv] by fast

text \<open>
  C35: An update is handed out only in order: the heartbeat authenticated, no other update of the
  computer is in flight, and the job handed out was still requested, in a released batch of a
  running rollout, past its backoff and with nothing to defer it; it is then dispatched under
  the nonce of the answer. A second heartbeat cannot do it again.
\<close>

theorem dispatch_only_in_order:
  assumes "onHeartbeat tz hbbs now nonce f s = (ans, s')"
    and "ha_updateRustdesk ans \<noteq> None \<or> ha_reinstallAgent ans \<noteq> None"
  shows "hf_authenticated f
    \<and> (\<exists>(j, r) \<in> set (open_jobs (record_all_evidence hbbs now f s) (hf_endpointId f)).
         handed_out tz now f nonce (record_all_evidence hbbs now f s) j r ans s')
    \<and> \<not> (\<exists>(j, r) \<in> set (open_jobs (record_all_evidence hbbs now f s) (hf_endpointId f)). uj_status j \<in> set ACTIVE)"
proof -
  let ?s = "record_all_evidence hbbs now f s"
  have no: "ans \<noteq> not_managed" "ans \<noteq> nothing_to_do" using assms(2) by (auto simp: not_managed_def nothing_to_do_def)
  have auth: "hf_authenticated f" and act: "\<not> list_ex (\<lambda>(j, r). uj_status j \<in> set ACTIVE) (open_jobs ?s (hf_endpointId f))"
    and d: "dispatch_loop tz now f nonce (open_jobs ?s (hf_endpointId f)) ?s = (ans, s')"
    using assms(1) no by (auto simp: onHeartbeat_def Let_def split: if_splits)
  from act have "\<not> (\<exists>(j, r) \<in> set (open_jobs ?s (hf_endpointId f)). uj_status j \<in> set ACTIVE)"
    by (auto simp: list_ex_iff)
  with auth dispatch_loop_payload[OF d assms(2)] show ?thesis by blast
qed

lemma demo_dispatch:
  "\<exists>s'. onHeartbeat (\<lambda>z. None) (\<lambda>x. None) 5 ''nonce'' (demo_facts None) (demo_db [demo_job ''j1'' JOB_REQUESTED 1])
     = (nothing_to_do\<lparr>ha_updateRustdesk := Some \<lparr>dp_targetVersion = ''1.4.4'', dp_nonce = ''nonce''\<rparr>\<rparr>, s')"
  by (simp add: onHeartbeat_def demo_facts_def demo_db_def demo_job_def demo_rollout_def empty_db_def open_jobs_def
      with_rollout_def rollout_by_id_def record_all_evidence_def NOT_DONE_def ACTIVE_def deferReason_def window_closed_def
      endpoint_sessions_def claim_dispatch_def claim_rows_def nothing_to_do_def Let_def)

theorem dispatch_only_in_order_witness:
  "\<exists>s' ans. onHeartbeat (\<lambda>z. None) (\<lambda>x. None) 5 ''nonce'' (demo_facts None) (demo_db [demo_job ''j1'' JOB_REQUESTED 1]) = (ans, s')
    \<and> (\<exists>(j, r) \<in> set (open_jobs (record_all_evidence (\<lambda>x. None) 5 (demo_facts None) (demo_db [demo_job ''j1'' JOB_REQUESTED 1])) ''j1'').
         ro_status r = RO_RUNNING)"
proof -
  obtain s' where h: "onHeartbeat (\<lambda>z. None) (\<lambda>x. None) 5 ''nonce'' (demo_facts None) (demo_db [demo_job ''j1'' JOB_REQUESTED 1])
     = (nothing_to_do\<lparr>ha_updateRustdesk := Some \<lparr>dp_targetVersion = ''1.4.4'', dp_nonce = ''nonce''\<rparr>\<rparr>, s')"
    using demo_dispatch by blast
  from dispatch_only_in_order[OF h] h show ?thesis by (auto simp: handed_out_def demo_facts_def)
qed

text \<open>
  However heartbeats race, a requested job is dispatched once: in any interleaving of
  dispatch attempts with writes that do not put the job back, at most one attempt wins.
\<close>

theorem dispatched_at_most_once:
  assumes "distinct (map uj_id t)" "dispatch_claim.harmless_run es"
  shows "length (filter (\<lambda>n. 0 < n)
    (run_claims uj_id (\<lambda>p j. uj_status j = JOB_REQUESTED) dispatched i es t)) \<le> 1"
  using dispatch_claim.at_most_one_wins[OF assms] .

theorem dispatched_at_most_once_witness:
  "length (filter (\<lambda>n. 0 < n) (run_claims uj_id (\<lambda>p j. uj_status j = JOB_REQUESTED) dispatched ''j1''
     [Attempt (5, ''a''), Other (\<lambda>j. j\<lparr>uj_status := JOB_CANCELED\<rparr>), Attempt (6, ''b'')] [demo_job ''j1'' JOB_REQUESTED 1])) \<le> 1"
  by (rule dispatched_at_most_once) (simp_all add: dispatch_claim.harmless_def)

lemma job_fail:
  "job_by_id (fail_job now i ro reason s) k = map_option (\<lambda>q. if uj_id q = i then q\<lparr>uj_status := JOB_FAILED,
     uj_completedAt := Some now, uj_failureReason := Some reason, uj_dispatchNonce := None\<rparr> else q) (job_by_id s k)"
  unfolding job_by_id_def jobs_fail by (rule find_row_update) simp

lemma job_failAttempt_not_succeeded:
  "job_by_id (failAttempt now j m b reason s) k = Some q' \<Longrightarrow> uj_status q' = JOB_SUCCEEDED \<Longrightarrow>
   \<exists>q. job_by_id s k = Some q \<and> uj_status q = JOB_SUCCEEDED"
  by (auto simp: failAttempt_def job_fail job_set_job split: if_splits)

lemma verify_job_succeeded:
  assumes "job_by_id (verify_job hbbs now f j s) k = Some q'" "uj_status q' = JOB_SUCCEEDED"
  shows "(\<exists>q. job_by_id s k = Some q \<and> uj_status q = JOB_SUCCEEDED) \<or> k = uj_id j
     \<and> (\<forall>online. hbbs [hf_rustdeskId f] = Some online \<longrightarrow> hf_rustdeskId f \<in> set online)"
proof (cases "case hbbs [hf_rustdeskId f] of Some online \<Rightarrow> hf_rustdeskId f \<notin> set online | None \<Rightarrow> False")
  case True
  with assms show ?thesis by (simp add: verify_job_def)
next
  case False
  then have "\<forall>online. hbbs [hf_rustdeskId f] = Some online \<longrightarrow> hf_rustdeskId f \<in> set online"
    by (auto split: option.splits)
  with assms False show ?thesis
    by (auto simp: verify_job_def job_set_job dest: job_by_id_id split: if_splits)
qed

text \<open>
  A job counts as done only on evidence: after a heartbeat's evidence a job is newly
  succeeded only if it is the job looked at, the heartbeat reported a version at least the
  target (exactly the target for RustDesk), and the presence service did not say the
  computer is missing.
\<close>

theorem success_needs_evidence:
  assumes "job_by_id (recordEvidence hbbs now f r j s) k = Some q'" "uj_status q' = JOB_SUCCEEDED"
    and "job_by_id s k = Some q" "uj_status q \<noteq> JOB_SUCCEEDED"
  shows "k = uj_id j \<and> (\<exists>v. reported_version r f = Some v \<and> 0 \<le> compareVersions v (ro_targetVersion r)
      \<and> (ro_component r = RUSTDESK \<longrightarrow> compareVersions v (ro_targetVersion r) = 0))
    \<and> (\<forall>online. hbbs [hf_rustdeskId f] = Some online \<longrightarrow> hf_rustdeskId f \<in> set online)"
proof -
  let ?v = "the (reported_version r f)" and ?c = "compareVersions (the (reported_version r f)) (ro_targetVersion r)"
  have t: "truthy (reported_version r f)"
  proof (rule ccontr)
    assume "\<not> truthy (reported_version r f)"
    then have "recordEvidence hbbs now f r j s = s" by (simp add: recordEvidence_def)
    with assms show False by simp
  qed
  have a: "\<not> (ro_component r = RUSTDESK \<and> ?c > 0)"
  proof
    assume c: "ro_component r = RUSTDESK \<and> ?c > 0"
    then have "recordEvidence hbbs now f r j s =
        fail_job now (uj_id j) (uj_rolloutId j) ''installed_newer_than_approved''
            (set_job (uj_id j) (\<lambda>q. q\<lparr>uj_installedVersion := Some ?v, uj_credentialSync := Some (credential_sync f)\<rparr>) s)"
      using t by (simp add: recordEvidence_def Let_def)
    with assms show False by (auto simp: job_fail job_set_job split: if_splits)
  qed
  have b: "\<not> ?c < 0"
  proof
    assume c: "?c < 0"
    show False
    proof (cases "nonce_matches f j \<and> uj_status j \<in> {JOB_INSTALLING, JOB_DISPATCHED}")
      case True
      have "recordEvidence hbbs now f r j s = failAttempt now j (ro_maxAttempts r) (ro_backoffMinutes r) ''version_not_reached''
          (set_job (uj_id j) (\<lambda>q. q\<lparr>uj_installedVersion := Some ?v\<rparr>) s)"
        using t c True a by (simp add: recordEvidence_def Let_def)
      with job_failAttempt_not_succeeded assms show False by (fastforce simp: job_set_job split: if_splits)
    next
      case False
      then have "recordEvidence hbbs now f r j s = s" using t c a by (auto simp: recordEvidence_def Let_def)
      with assms show False by simp
    qed
  qed
  define d where "d = (if uj_status j \<noteq> JOB_AWAITING_VERIFICATION
             then job_event (uj_id j) ''version_reported'' (Some JOB_AWAITING_VERIFICATION)
                (set_job (uj_id j) (\<lambda>q. q\<lparr>uj_status := JOB_AWAITING_VERIFICATION, uj_installedVersion := Some ?v,
                   uj_credentialSync := Some (credential_sync f)\<rparr>) s)
             else s)"
  have "recordEvidence hbbs now f r j s = verify_job hbbs now f j d"
    by (simp only: recordEvidence_def Let_def d_def if_not_P[OF a] if_not_P[OF b] t not_True_eq_False if_False)
  moreover have "\<not> (\<exists>q. job_by_id d k = Some q \<and> uj_status q = JOB_SUCCEEDED)"
    using assms(3,4) by (auto simp: d_def job_set_job split: if_splits)
  ultimately have "k = uj_id j \<and> (\<forall>online. hbbs [hf_rustdeskId f] = Some online \<longrightarrow> hf_rustdeskId f \<in> set online)"
    using verify_job_succeeded[of hbbs now f j d k q'] assms(1,2) by metis
  moreover obtain v where "reported_version r f = Some v" using t by (auto simp: truthy_iff)
  moreover have "ro_component r = RUSTDESK \<longrightarrow> ?c = 0" "0 \<le> ?c" using a b by auto
  ultimately show ?thesis by simp
qed

theorem success_needs_evidence_witness:
  "0 \<le> compareVersions ''1.4.4'' (ro_targetVersion demo_rollout)"
proof -
  let ?j = "demo_job ''j1'' JOB_AWAITING_VERIFICATION 1"
  have v: "compareVersions ''1.4.4'' ''1.4.4'' = 0" by simp
  have e: "recordEvidence (\<lambda>x. Some x) 5 (demo_facts (Some ''1.4.4'')) demo_rollout ?j (demo_db [?j])
      = verify_job (\<lambda>x. Some x) 5 (demo_facts (Some ''1.4.4'')) ?j (demo_db [?j])"
    using v by (simp add: recordEvidence_def reported_version_def demo_facts_def demo_rollout_def demo_job_def)
  have "\<exists>q'. job_by_id (verify_job (\<lambda>x. Some x) 5 (demo_facts (Some ''1.4.4'')) ?j (demo_db [?j])) ''j1'' = Some q'
      \<and> uj_status q' = JOB_SUCCEEDED"
    by (simp add: verify_job_def job_by_id_def demo_db_def demo_job_def demo_facts_def)
  then obtain q' where q: "job_by_id (recordEvidence (\<lambda>x. Some x) 5 (demo_facts (Some ''1.4.4'')) demo_rollout ?j (demo_db [?j])) ''j1'' = Some q'"
    "uj_status q' = JOB_SUCCEEDED" unfolding e by blast
  have "job_by_id (demo_db [?j]) ''j1'' = Some ?j" "uj_status ?j \<noteq> JOB_SUCCEEDED"
    by (simp_all add: job_by_id_def demo_db_def demo_job_def)
  from success_needs_evidence[OF q this] show ?thesis
    by (auto simp: reported_version_def demo_facts_def demo_rollout_def)
qed

text \<open>
  A failed pilot stops the fleet: right after a job is marked failed, its rollout is not
  running any more if the failures have reached a positive threshold.
\<close>

theorem threshold_stops_rollout:
  assumes "rollout_by_id (fail_job now i ro reason s) ro = Some r" "0 < ro_failureThreshold r"
    and "ro_failureThreshold r \<le> int (failed_of (fail_job now i ro reason s) ro)"
  shows "ro_status r \<noteq> RO_RUNNING"
  using assms checkThreshold_stops unfolding fail_job_def by fastforce

theorem threshold_stops_rollout_witness:
  "\<exists>r. rollout_by_id (fail_job 5 ''j1'' ''r1'' ''x'' (demo_db [demo_job ''j1'' JOB_DISPATCHED 1])) ''r1'' = Some r
     \<and> ro_status r \<noteq> RO_RUNNING"
proof -
  let ?s = "fail_job 5 ''j1'' ''r1'' ''x'' (demo_db [demo_job ''j1'' JOB_DISPATCHED 1])"
  have f: "failed_of ?s ''r1'' = 1"
    by (simp add: failed_of_def jobs_fail demo_db_def demo_job_def)
  have "\<exists>r. rollout_by_id ?s ''r1'' = Some r \<and> ro_failureThreshold r = 1"
    by (simp add: fail_job_def checkThreshold_def rollout_by_id_def demo_db_def demo_rollout_def demo_job_def empty_db_def
        Let_def pause_rollouts)
  then obtain r where r: "rollout_by_id ?s ''r1'' = Some r" "ro_failureThreshold r = 1" by blast
  with threshold_stops_rollout[OF r(1)] f show ?thesis by auto
qed

text \<open>
  Resuming a rollout that a threshold paused does not get it past the next batch boundary:
  failures are counted over the whole rollout, so when the current batch is finished and jobs
  wait in later ones, the engine pauses it again and releases nothing.
\<close>

theorem resumed_rollout_pauses_again:
  assumes "rollout_by_id s (ro_id r) = Some r" "ro_status r = RO_RUNNING" "0 < ro_failureThreshold r"
    and "ro_failureThreshold r \<le> int (failed_of s (ro_id r))"
    and "\<not> (\<exists>j \<in> set (jobs s). uj_rolloutId j = ro_id r \<and> uj_batch j \<le> ro_currentBatch r \<and> uj_status j \<in> set NOT_DONE)"
    and "\<exists>j \<in> set (jobs s). uj_rolloutId j = ro_id r \<and> ro_currentBatch r < uj_batch j \<and> uj_status j = JOB_REQUESTED"
  shows "\<exists>q. rollout_by_id (advance_rollout now r s) (ro_id r) = Some q \<and> ro_status q = RO_PAUSED
    \<and> ro_currentBatch q = ro_currentBatch r"
proof -
  obtain q where q: "rollout_by_id (checkThreshold (ro_id r) s) (ro_id r) = Some q" "ro_status q = RO_PAUSED"
    "ro_currentBatch q = ro_currentBatch r"
    using checkThreshold_pauses[OF assms(1-4)] by blast
  have later: "map uj_batch (filter (\<lambda>j. uj_batch j > ro_currentBatch r \<and> uj_status j = JOB_REQUESTED)
      (filter (\<lambda>j. uj_rolloutId j = ro_id r) (jobs s))) \<noteq> []"
    using assms(6) by (auto simp: filter_empty_conv)
  have none: "\<not> list_ex (\<lambda>j. uj_status j \<in> set NOT_DONE) (filter (\<lambda>j. uj_batch j \<le> ro_currentBatch r)
      (filter (\<lambda>j. uj_rolloutId j = ro_id r) (jobs s)))"
    using assms(5) by (auto simp: list_ex_iff)
  have "advance_rollout now r s = checkThreshold (ro_id r) s"
    unfolding advance_rollout_def Let_def using none later q by simp
  with q show ?thesis by simp
qed

theorem resumed_rollout_pauses_again_witness:
  "\<exists>q. rollout_by_id (advance_rollout 9 demo_rollout (demo_db [demo_job ''j1'' JOB_FAILED 1, demo_job ''j2'' JOB_REQUESTED 2])) ''r1''
      = Some q \<and> ro_status q = RO_PAUSED"
proof -
  let ?s = "demo_db [demo_job ''j1'' JOB_FAILED 1, demo_job ''j2'' JOB_REQUESTED 2]"
  have "rollout_by_id ?s (ro_id demo_rollout) = Some demo_rollout" "ro_status demo_rollout = RO_RUNNING"
    "0 < ro_failureThreshold demo_rollout" "ro_failureThreshold demo_rollout \<le> int (failed_of ?s (ro_id demo_rollout))"
    "\<not> (\<exists>j \<in> set (jobs ?s). uj_rolloutId j = ro_id demo_rollout \<and> uj_batch j \<le> ro_currentBatch demo_rollout
       \<and> uj_status j \<in> set NOT_DONE)"
    "\<exists>j \<in> set (jobs ?s). uj_rolloutId j = ro_id demo_rollout \<and> ro_currentBatch demo_rollout < uj_batch j
       \<and> uj_status j = JOB_REQUESTED"
    by (simp_all add: demo_db_def demo_rollout_def demo_job_def rollout_by_id_def failed_of_def NOT_DONE_def ACTIVE_def)
  from resumed_rollout_pauses_again[OF this, of 9] show ?thesis by (auto simp: demo_rollout_def)
qed

text \<open>
  Canceling can be undone by a race: a failed attempt writes back the row the engine read
  before, whatever the stored job has become, so a job an operator canceled in between is
  requested again and will be dispatched.
\<close>

theorem cancel_lost_to_retry:
  assumes "job_by_id s (uj_id j) = Some q" "uj_status q = JOB_CANCELED" "uj_attempts j < m"
  shows "\<exists>q'. job_by_id (failAttempt now j m b reason s) (uj_id j) = Some q' \<and> uj_status q' = JOB_REQUESTED"
  using assms job_by_id_id[OF assms(1)]
  by (simp add: failAttempt_def job_set_job)

theorem cancel_lost_to_retry_witness:
  "\<exists>q'. job_by_id (failAttempt 9 (demo_job ''j1'' JOB_DISPATCHED 1) 2 5 ''timeout''
       (snd (cancelJob 8 ''j1'' (demo_db [demo_job ''j1'' JOB_DISPATCHED 1])))) ''j1'' = Some q' \<and> uj_status q' = JOB_REQUESTED"
proof -
  have "\<exists>q. job_by_id (snd (cancelJob 8 ''j1'' (demo_db [demo_job ''j1'' JOB_DISPATCHED 1]))) ''j1'' = Some q
      \<and> uj_status q = JOB_CANCELED"
    by (simp add: cancelJob_def demo_db_def demo_job_def job_by_id_def DONE_def)
  then show ?thesis
    using cancel_lost_to_retry[of _ "demo_job ''j1'' JOB_DISPATCHED 1" _ 2] by (auto simp: demo_job_def)
qed

end
