(* ===== verification/SupportRequestProofs.thy ===== *)
theory SupportRequestProofs
  imports SupportRequests
begin

text \<open>
  Support requests over time: the life cycle every operation refines, the invariant of the
  table, and what follows for claims, closing, hand-offs and retention.
\<close>

section \<open>The life cycle\<close>

text \<open>Which status may follow which, with a new version.\<close>

fun may_become :: "request_status \<Rightarrow> request_status \<Rightarrow> bool" where
  "may_become RQ_WAITING x = (x \<in> {RQ_CLAIMED, RQ_CANCELED, RQ_EXPIRED})"
| "may_become RQ_CLAIMED x = (x \<in> {RQ_CLAIMED, RQ_WAITING, RQ_COMPLETED, RQ_CANCELED})"
| "may_become RQ_CONNECTING x = (x \<in> {RQ_CLAIMED, RQ_WAITING, RQ_COMPLETED, RQ_CANCELED})"
| "may_become _ x = False"

definition request_is_open :: "request_row \<Rightarrow> bool" where
  "request_is_open r \<longleftrightarrow> rq_status r \<in> set OPEN"

definition no_contact :: "request_row \<Rightarrow> bool" where
  "no_contact r \<longleftrightarrow> rq_contactName r = None \<and> rq_contactEmail r = None \<and> rq_contactPhone r = None
     \<and> rq_description r = None \<and> rq_reportedRustdeskId r = None \<and> rq_submitIpHash r = None"

text \<open>
  One write to a row: a step of the life cycle under a new version, the start of a connection
  under the same version and owner, or the erasure of a closed request.
\<close>

definition lifecycle :: "request_row \<Rightarrow> request_row \<Rightarrow> bool" where
  "lifecycle r r' \<longleftrightarrow>
     rq_id r' = rq_id r \<and> rq_customerId r' = rq_customerId r \<and> rq_origin r' = rq_origin r
     \<and> rq_createdAt r' = rq_createdAt r
     \<and> (may_become (rq_status r) (rq_status r') \<and> rq_version r' = rq_version r + 1
          \<and> rq_anonymizedAt r' = rq_anonymizedAt r
        \<or> rq_status r = RQ_CLAIMED \<and> r' = r\<lparr>rq_status := RQ_CONNECTING\<rparr>
        \<or> \<not> request_is_open r \<and> rq_status r' = rq_status r \<and> rq_version r' = rq_version r
          \<and> rq_claimedById r' = rq_claimedById r \<and> rq_closedAt r' = rq_closedAt r
          \<and> rq_anonymizedAt r' \<noteq> None)"

definition row_ok :: "request_row \<Rightarrow> bool" where
  "row_ok r \<longleftrightarrow>
     (rq_status r = RQ_WAITING \<longrightarrow> rq_claimedById r = None)
     \<and> (rq_status r \<in> {RQ_CLAIMED, RQ_CONNECTING} \<longrightarrow> rq_claimedById r \<noteq> None)
     \<and> (request_is_open r \<longleftrightarrow> rq_closedAt r = None)
     \<and> (request_is_open r \<longrightarrow> rq_anonymizedAt r = None)
     \<and> (rq_anonymizedAt r \<noteq> None \<longrightarrow> no_contact r)"

definition open_public :: "id \<Rightarrow> request_row table \<Rightarrow> nat" where
  "open_public b t = count_rows (\<lambda>r. rq_customerId r = b \<and> rq_origin r = ORIGIN_PUBLIC \<and> rq_status r \<in> set OPEN) t"

definition table_ok :: "request_row table \<Rightarrow> bool" where
  "table_ok t \<longleftrightarrow> distinct (map rq_id t) \<and> (\<forall>r \<in> set t. row_ok r)"

text \<open>What the operations may do to the table; the flag allows the insertion of a public request.\<close>

inductive request_writes :: "bool \<Rightarrow> request_row table \<Rightarrow> request_row table \<Rightarrow> bool" for p where
  unchanged: "request_writes p t t"
| inserted: "rq_id r \<notin> rq_id ` set t \<Longrightarrow> row_ok r \<Longrightarrow> rq_status r = RQ_WAITING \<Longrightarrow>
    (rq_origin r = ORIGIN_PUBLIC \<Longrightarrow> p) \<Longrightarrow> request_writes p t (t @ [r])"
| written: "(\<And>r. r \<in> set t \<Longrightarrow> P r \<Longrightarrow> row_ok r \<Longrightarrow> lifecycle r (f r) \<and> row_ok (f r)) \<Longrightarrow>
    request_writes p t (update_rows P f t)"
| sequenced: "request_writes p t u \<Longrightarrow> request_writes p u v \<Longrightarrow> request_writes p t v"

lemma may_become_open: "may_become x y \<Longrightarrow> x \<in> set OPEN"
  by (cases x) (auto simp: OPEN_def)


lemma lifecycle_ids: "lifecycle r r' \<Longrightarrow> rq_id r' = rq_id r \<and> rq_customerId r' = rq_customerId r \<and> rq_origin r' = rq_origin r"
  by (simp add: lifecycle_def)


lemma table_ok_writes: "request_writes p t u \<Longrightarrow> table_ok t \<Longrightarrow> table_ok u"
proof (induction rule: request_writes.induct)
  case (unchanged t)
  then show ?case .
next
  case (inserted r t)
  then show ?case by (auto simp: table_ok_def)
next
  case (written t P f)
  have l: "lifecycle r (f r) \<and> row_ok (f r)" if "r \<in> set t" "P r" for r
    using written that by (simp add: table_ok_def)
  then have "map rq_id (update_rows P f t) = map rq_id t"
    by (auto simp: update_rows_def dest: lifecycle_ids)
  moreover have "\<forall>r \<in> set (update_rows P f t). row_ok r"
    using l written.prems by (auto simp: set_update_rows table_ok_def)
  ultimately show ?case using written.prems by (simp add: table_ok_def)
next
  case (sequenced t u v)
  then show ?case by simp
qed


section \<open>What a row can become\<close>

definition evolves :: "request_row \<Rightarrow> request_row \<Rightarrow> bool" where
  "evolves r r' \<longleftrightarrow> rq_id r' = rq_id r \<and> rq_customerId r' = rq_customerId r \<and> rq_version r \<le> rq_version r'
     \<and> (rq_version r' = rq_version r \<longrightarrow> rq_claimedById r' = rq_claimedById r)
     \<and> (\<not> request_is_open r \<longrightarrow> rq_status r' = rq_status r \<and> rq_closedAt r' = rq_closedAt r
          \<and> rq_version r' = rq_version r)
     \<and> (rq_anonymizedAt r \<noteq> None \<and> \<not> request_is_open r \<longrightarrow> rq_anonymizedAt r' \<noteq> None)"

lemma evolves_refl [simp]: "evolves r r"
  by (simp add: evolves_def)

lemma evolves_trans: "evolves a b \<Longrightarrow> evolves b c \<Longrightarrow> evolves a c"
  by (auto simp: evolves_def request_is_open_def)

lemma lifecycle_evolves: "lifecycle r r' \<Longrightarrow> evolves r r'"
  by (auto simp: lifecycle_def evolves_def request_is_open_def OPEN_def dest: may_become_open)

lemma writes_evolve:
  "request_writes p t u \<Longrightarrow> table_ok t \<Longrightarrow> r \<in> set t \<Longrightarrow> \<exists>r' \<in> set u. evolves r r'"
proof (induction arbitrary: r rule: request_writes.induct)
  case (written t P f)
  then have "P r \<Longrightarrow> evolves r (f r)" by (auto simp: table_ok_def intro: lifecycle_evolves)
  moreover have "(if P r then f r else r) \<in> set (update_rows P f t)"
    unfolding update_rows_def set_map by (rule imageI) (rule written.prems)
  ultimately show ?case by (intro bexI[of _ "if P r then f r else r"]) auto
next
  case (sequenced t u v)
  then show ?case by (meson evolves_trans table_ok_writes)
qed (auto intro: evolves_refl)

section \<open>Every operation is such a write\<close>

lemma requests_request_event [simp]: "requests (request_event r a e d act s) = requests s"
  by (simp add: request_event_def Let_def split: option.splits)

lemma claim_request_requests [simp]:
  "requests (snd (claim_request i P f s)) = update_rows (\<lambda>r. rq_id r = i \<and> P r) f (requests s)"
  "fst (claim_request i P f s) = count_rows (\<lambda>r. rq_id r = i \<and> P r) (requests s)"
  by (simp_all add: claim_request_def claim_rows_def)

lemma claim_request_writes:
  "(\<And>r. P r \<Longrightarrow> row_ok r \<Longrightarrow> lifecycle r (f r) \<and> row_ok (f r)) \<Longrightarrow>
   request_writes False (requests s) (requests (snd (claim_request i P f s)))"
  unfolding claim_request_requests by (rule request_writes.written) blast

lemma lifecycle_step:
  "may_become (rq_status r) (rq_status r') \<Longrightarrow> rq_version r' = rq_version r + 1 \<Longrightarrow> rq_id r' = rq_id r \<Longrightarrow>
   rq_customerId r' = rq_customerId r \<Longrightarrow> rq_origin r' = rq_origin r \<Longrightarrow> rq_createdAt r' = rq_createdAt r \<Longrightarrow>
   rq_anonymizedAt r' = rq_anonymizedAt r \<Longrightarrow> lifecycle r r'"
  unfolding lifecycle_def by blast

lemma lifecycle_connect: "rq_status r = RQ_CLAIMED \<Longrightarrow> lifecycle r (r\<lparr>rq_status := RQ_CONNECTING\<rparr>)"
  unfolding lifecycle_def by simp

lemma row_ok_simps:
  "row_ok r \<Longrightarrow> rq_status r = RQ_WAITING \<Longrightarrow>
    rq_claimedById r = None \<and> rq_closedAt r = None \<and> rq_anonymizedAt r = None"
  "row_ok r \<Longrightarrow> rq_status r = RQ_CLAIMED \<Longrightarrow>
    rq_claimedById r \<noteq> None \<and> rq_closedAt r = None \<and> rq_anonymizedAt r = None"
  "row_ok r \<Longrightarrow> rq_status r = RQ_CONNECTING \<Longrightarrow>
    rq_claimedById r \<noteq> None \<and> rq_closedAt r = None \<and> rq_anonymizedAt r = None"
  by (simp_all add: row_ok_def request_is_open_def OPEN_def)

text \<open>Rows after a write, by the status it sets.\<close>

lemma row_ok_open:
  "rq_status r \<in> {RQ_CLAIMED, RQ_CONNECTING} \<Longrightarrow> rq_claimedById r \<noteq> None \<Longrightarrow> rq_closedAt r = None \<Longrightarrow>
   rq_anonymizedAt r = None \<Longrightarrow> row_ok r"
  "rq_status r = RQ_WAITING \<Longrightarrow> rq_claimedById r = None \<Longrightarrow> rq_closedAt r = None \<Longrightarrow>
   rq_anonymizedAt r = None \<Longrightarrow> row_ok r"
  "rq_status r \<in> {RQ_COMPLETED, RQ_CANCELED, RQ_EXPIRED} \<Longrightarrow> rq_closedAt r \<noteq> None \<Longrightarrow>
   rq_anonymizedAt r = None \<Longrightarrow> row_ok r"
  by (auto simp: row_ok_def request_is_open_def OPEN_def)

lemma publicCancel_writes: "request_writes False (requests s) (requests (snd (publicCancel sha now token ip s)))"
proof (cases "byStatusToken sha now s token")
  case (Inl e)
  then show ?thesis by (simp add: publicCancel_def request_writes.unchanged)
next
  case (Inr r)
  let ?P = "\<lambda>q. rq_status q \<in> {RQ_WAITING, RQ_CLAIMED}"
  let ?f = "\<lambda>q. q\<lparr>rq_status := RQ_CANCELED, rq_closedAt := Some now, rq_outcome := Some ''canceled_by_customer'',
            rq_version := rq_version q + 1\<rparr>"
  have "requests (snd (publicCancel sha now token ip s)) = requests (snd (claim_request (rq_id r) ?P ?f s))"
    by (cases "claim_request (rq_id r) ?P ?f s") (simp add: publicCancel_def Inr Let_def)
  moreover have "request_writes False (requests s) (requests (snd (claim_request (rq_id r) ?P ?f s)))"
    by (rule claim_request_writes, rule conjI, rule lifecycle_step)
      (auto dest: row_ok_simps intro!: row_ok_open(3))
  ultimately show ?thesis by simp
qed

lemma claim_writes: "request_writes False (requests s) (requests (snd (claim tz now actor i version s)))"
proof (cases "load_request s actor i")
  case (Inl e)
  then show ?thesis by (simp add: claim_def request_writes.unchanged)
next
  case (Inr r)
  let ?P = "\<lambda>q. rq_status q = RQ_WAITING \<and> rq_version q = version"
  let ?f = "\<lambda>q. q\<lparr>rq_status := RQ_CLAIMED, rq_claimedById := Some (a_userId actor), rq_claimedAt := Some now,
            rq_version := rq_version q + 1\<rparr>"
  have "requests (snd (claim tz now actor i version s)) = requests (snd (claim_request i ?P ?f s))"
    by (cases "claim_request i ?P ?f s") (simp add: claim_def Inr Let_def split: sum.split)
  moreover have "request_writes False (requests s) (requests (snd (claim_request i ?P ?f s)))"
    by (rule claim_request_writes, rule conjI, rule lifecycle_step)
      (auto dest: row_ok_simps intro!: row_ok_open(1))
  ultimately show ?thesis by simp
qed

lemma handoff_writes: "request_writes False (requests s) (requests (snd (handoff tz now actor i to version note s)))"
proof (cases "load_request s actor i")
  case (Inl e)
  then show ?thesis by (simp add: handoff_def request_writes.unchanged)
next
  case (Inr r)
  let ?P = "\<lambda>q. rq_status q \<in> {RQ_CLAIMED, RQ_CONNECTING} \<and> rq_version q = version \<and> rq_claimedById q = rq_claimedById r"
  let ?f = "\<lambda>q. q\<lparr>rq_status := RQ_CLAIMED, rq_claimedById := Some to, rq_claimedAt := Some now,
            rq_version := rq_version q + 1\<rparr>"
  have "requests (snd (handoff tz now actor i to version note s)) \<in>
      {requests s, requests (snd (claim_request i ?P ?f s))}"
    by (cases "claim_request i ?P ?f s") (simp add: handoff_def Inr Let_def)
  moreover have "request_writes False (requests s) (requests (snd (claim_request i ?P ?f s)))"
    by (rule claim_request_writes, rule conjI, rule lifecycle_step)
      (auto dest: row_ok_simps intro!: row_ok_open(1))
  ultimately show ?thesis using request_writes.unchanged by auto
qed

lemma release_writes: "request_writes False (requests s) (requests (snd (release tz now actor i version s)))"
proof (cases "load_request s actor i")
  case (Inl e)
  then show ?thesis by (simp add: release_def request_writes.unchanged)
next
  case (Inr r)
  let ?P = "\<lambda>q. rq_status q \<in> {RQ_CLAIMED, RQ_CONNECTING} \<and> rq_version q = version"
  let ?f = "\<lambda>q. q\<lparr>rq_status := RQ_WAITING, rq_claimedById := None, rq_claimedAt := None,
            rq_version := rq_version q + 1\<rparr>"
  have "requests (snd (release tz now actor i version s)) \<in>
      {requests s, requests (snd (claim_request i ?P ?f s))}"
    by (cases "claim_request i ?P ?f s") (simp add: release_def Inr Let_def)
  moreover have "request_writes False (requests s) (requests (snd (claim_request i ?P ?f s)))"
    by (rule claim_request_writes, rule conjI, rule lifecycle_step)
      (auto dest: row_ok_simps intro!: row_ok_open(2))
  ultimately show ?thesis using request_writes.unchanged by auto
qed

lemma close_writes: "request_writes False (requests s) (requests (snd (close_request tz now actor i kind version outcome s)))"
proof (cases "load_request s actor i")
  case (Inl e)
  then show ?thesis by (simp add: close_request_def request_writes.unchanged)
next
  case (Inr r)
  let ?P = "\<lambda>q. rq_status q \<in> (if kind = CompleteRequest then {RQ_CLAIMED, RQ_CONNECTING} else set OPEN)
             \<and> rq_version q = version"
  let ?f = "\<lambda>q. q\<lparr>rq_status := close_status kind, rq_closedAt := Some now, rq_outcome := clean outcome 300,
            rq_version := rq_version q + 1\<rparr>"
  have "requests (snd (close_request tz now actor i kind version outcome s)) \<in>
      {requests s, requests (snd (claim_request i ?P ?f s))}"
    by (cases "claim_request i ?P ?f s") (simp add: close_request_def Inr Let_def)
  moreover have "request_writes False (requests s) (requests (snd (claim_request i ?P ?f s)))"
    by (rule claim_request_writes, rule conjI, rule lifecycle_step)
      (cases kind; auto simp: OPEN_def close_status_def dest: row_ok_simps intro!: row_ok_open(3))+
  ultimately show ?thesis using request_writes.unchanged by auto
qed

lemma forQuickConnect_writes: "request_writes False (requests s) (requests (snd (forQuickConnect actor i s)))"
proof (cases "snd (forQuickConnect actor i s) = s")
  case True
  then show ?thesis by (simp add: request_writes.unchanged)
next
  case False
  then obtain k where "snd (forQuickConnect actor i s)
      = snd (claim_request k (\<lambda>q. rq_status q = RQ_CLAIMED) (\<lambda>q. q\<lparr>rq_status := RQ_CONNECTING\<rparr>) s)"
    unfolding forQuickConnect_def by (force split: option.splits)
  moreover have "request_writes False (requests s) (requests (snd (claim_request k (\<lambda>q. rq_status q = RQ_CLAIMED)
      (\<lambda>q. q\<lparr>rq_status := RQ_CONNECTING\<rparr>) s)))"
    by (rule claim_request_writes, rule conjI, rule lifecycle_connect)
      (auto dest: row_ok_simps intro!: row_ok_open(1))
  ultimately show ?thesis by simp
qed

lemma insert_request_writes:
  assumes "rq_id r \<notin> rq_id ` set (requests s)" "rq_status r = RQ_WAITING" "rq_claimedById r = None"
    "rq_closedAt r = None" "rq_anonymizedAt r = None"
    and "rq_origin r = ORIGIN_PUBLIC \<Longrightarrow> p"
  shows "request_writes p (requests s) (requests s @ [r])"
  using assms by (intro request_writes.inserted row_ok_open(2))

lemma requests_insert_request [simp]: "requests (insert_request r by o' s) = requests s @ [r]"
  by (simp add: insert_request_def)

lemma new_request_simps [simp]:
  "rq_id (new_request i now t c o' h) = i" "rq_status (new_request i now t c o' h) = RQ_WAITING"
  "rq_claimedById (new_request i now t c o' h) = None" "rq_closedAt (new_request i now t c o' h) = None"
  "rq_anonymizedAt (new_request i now t c o' h) = None" "rq_origin (new_request i now t c o' h) = o'"
  "rq_customerId (new_request i now t c o' h) = c" "rq_createdAt (new_request i now t c o' h) = now"
  by (simp_all add: new_request_def)

lemma publicSubmit_store_row:
  "\<exists>r. requests (publicSubmit_store sha now i token cs ip s) = requests s @ [r] \<and> rq_id r = i \<and> rq_status r = RQ_WAITING
     \<and> rq_claimedById r = None \<and> rq_closedAt r = None \<and> rq_anonymizedAt r = None \<and> rq_origin r = ORIGIN_PUBLIC
     \<and> rq_customerId r = c_id (cs_business cs)"
  by (simp add: publicSubmit_store_def Let_def)

lemma publicSubmit_writes:
  assumes "i \<notin> rq_id ` set (requests s)"
  shows "request_writes True (requests s) (requests (publicSubmit_store sha now i token cs ip s))"
  using publicSubmit_store_row[of sha now i token cs ip s] assms insert_request_writes by metis


lemma portalSubmit_writes:
  assumes "i \<notin> rq_id ` set (requests s)"
  shows "request_writes False (requests s) (requests (snd (portalSubmit sha now i token actor dto s)))"
proof (cases "snd (portalSubmit sha now i token actor dto s) = s")
  case True
  then show ?thesis by (simp add: request_writes.unchanged)
next
  case False
  have "\<exists>r. requests (snd (portalSubmit sha now i token actor dto s)) = requests s @ [r]
      \<and> rq_id r = i \<and> rq_status r = RQ_WAITING \<and> rq_claimedById r = None \<and> rq_closedAt r = None
      \<and> rq_anonymizedAt r = None \<and> rq_origin r = ORIGIN_PORTAL"
    using False unfolding portalSubmit_def
    by (simp add: Let_def split: if_split_asm sum.split_asm option.split_asm)
  with assms show ?thesis using insert_request_writes request_origin.distinct by metis
qed

section \<open>Retention\<close>

lemma lifecycle_erased: "due_for_erasure now r \<Longrightarrow> lifecycle r (erased now h r)"
  by (simp add: lifecycle_def erased_def due_for_erasure_def request_is_open_def)

lemma row_ok_erased: "row_ok r \<Longrightarrow> due_for_erasure now r \<Longrightarrow> row_ok (erased now h r)"
  by (simp add: row_ok_def erased_def due_for_erasure_def request_is_open_def no_contact_def OPEN_def)

lemma requests_erase_one [simp]:
  "requests (erase_one now fh s i) = update_rows (\<lambda>r. rq_id r = i) (erased now (fh i)) (requests s)"
  by (simp add: erase_one_def)

lemma erased_simps [simp]: "rq_id (erased now h r) = rq_id r" "\<not> due_for_erasure t (erased now h r)"
  by (simp_all add: erased_def due_for_erasure_def)

lemma due_filter_erase:
  "distinct (map rq_id t) \<Longrightarrow>
   filter (due_for_erasure now) (update_rows (\<lambda>r. rq_id r = i) (erased now h) t)
     = filter (\<lambda>r. rq_id r \<noteq> i) (filter (due_for_erasure now) t)"
  by (induction t) auto

lemma map_rq_id_erase [simp]:
  "map rq_id (update_rows (\<lambda>r. rq_id r = i) (erased now h) t) = map rq_id t"
  by (simp add: update_rows_def)

lemma erase_writes:
  "distinct (map rq_id (requests s)) \<Longrightarrow> distinct is \<Longrightarrow>
   (\<And>r. r \<in> set (requests s) \<Longrightarrow> rq_id r \<in> set is \<Longrightarrow> due_for_erasure now r) \<Longrightarrow>
   request_writes False (requests s) (requests (foldl (erase_one now fh) s is))
   \<and> filter (due_for_erasure now) (requests (foldl (erase_one now fh) s is))
       = filter (\<lambda>r. rq_id r \<notin> set is) (filter (due_for_erasure now) (requests s))"
proof (induction "is" arbitrary: s)
  case Nil
  then show ?case by (simp add: request_writes.unchanged)
next
  case (Cons i "is")
  let ?s = "erase_one now fh s i"
  have w: "request_writes False (requests s) (requests ?s)"
    unfolding requests_erase_one
    using Cons.prems(3) by (intro request_writes.written conjI lifecycle_erased row_ok_erased) auto
  have d: "distinct (map rq_id (requests ?s))" using Cons.prems(1) by simp
  have p: "due_for_erasure now r" if "r \<in> set (requests ?s)" "rq_id r \<in> set is" for r
    using that Cons.prems(2,3) by (auto simp: set_update_rows)
  have "filter (due_for_erasure now) (requests (foldl (erase_one now fh) ?s is))
      = filter (\<lambda>r. rq_id r \<notin> set (i # is)) (filter (due_for_erasure now) (requests s))"
  proof -
    have "filter (due_for_erasure now) (requests (foldl (erase_one now fh) ?s is))
        = filter (\<lambda>r. rq_id r \<notin> set is) (filter (due_for_erasure now) (requests ?s))"
      using Cons.IH[OF d _ p] Cons.prems(2) by simp
    also have "\<dots> = filter (\<lambda>r. rq_id r \<notin> set is) (filter (\<lambda>r. rq_id r \<noteq> i) (filter (due_for_erasure now) (requests s)))"
      using due_filter_erase[OF Cons.prems(1)] by simp
    finally show ?thesis by (simp only: filter_filter) (rule filter_cong, auto)
  qed
  moreover have "request_writes False (requests ?s) (requests (foldl (erase_one now fh) ?s is))"
    using Cons.IH[OF d _ p] Cons.prems(2) by simp
  ultimately show ?case using request_writes.sequenced[OF w] by (simp only: foldl_Cons)
qed

lemma expire_writes: "request_writes False t (update_rows (expired_row now) (expire_request now) t)"
  by (intro request_writes.written conjI lifecycle_step row_ok_open(3))
    (auto simp: expired_row_def expire_request_def dest: row_ok_simps)

definition expired_rows :: "time \<Rightarrow> db \<Rightarrow> db" where
  "expired_rows now s = s\<lparr>requests := update_rows (expired_row now) (expire_request now) (requests s)\<rparr>"

lemma requests_expired_rows:
  "requests (expired_rows now s) = update_rows (expired_row now) (expire_request now) (requests s)"
  by (simp add: expired_rows_def)

lemma snd_retention:
  "snd (retention fh now s) = foldl (erase_one now fh) (expired_rows now s)
     (map rq_id (take 500 (filter (due_for_erasure now) (requests (expired_rows now s)))))"
  by (simp add: retention_def Let_def expired_rows_def)

lemma due_after_expiry:
  "filter (due_for_erasure now) (requests (expired_rows now s)) = filter (due_for_erasure now) (requests s)"
proof -
  have "due_for_erasure now (expire_request now r) = False" for r
    by (simp add: due_for_erasure_def expire_request_def ANONYMIZE_AFTER_MS_def)
  moreover have "expired_row now r \<Longrightarrow> due_for_erasure now r = False" for r
    by (simp add: expired_row_def due_for_erasure_def OPEN_def)
  ultimately have "filter (due_for_erasure now) (update_rows (expired_row now) (expire_request now) t)
      = filter (due_for_erasure now) t" for t
    by (induction t) auto
  then show ?thesis by (simp add: requests_expired_rows)
qed

lemma distinct_take_filter:
  "distinct (map k t) \<Longrightarrow> distinct (map k (take n (filter P t)))"
  by (simp add: take_map[symmetric] distinct_map_filter distinct_take)

lemma filter_not_taken:
  "distinct (map k xs) \<Longrightarrow> filter (\<lambda>r. k r \<notin> set (map k (take n xs))) xs = drop n xs"
proof (induction xs arbitrary: n)
  case Nil
  then show ?case by simp
next
  case (Cons x xs)
  show ?case
  proof (cases n)
    case 0
    then show ?thesis by simp
  next
    case (Suc m)
    have "filter (\<lambda>r. k r \<notin> set (map k (take n (x # xs)))) (x # xs)
        = filter (\<lambda>r. k r \<notin> set (map k (take m xs))) xs"
      using Cons.prems Suc by (auto intro!: filter_cong simp: image_iff)
    with Cons Suc show ?thesis by simp
  qed
qed

lemma retention_step:
  assumes "table_ok (requests s)"
  shows "request_writes False (requests s) (requests (snd (retention fh now s)))"
    "filter (due_for_erasure now) (requests (snd (retention fh now s)))
       = drop 500 (filter (due_for_erasure now) (requests s))"
proof -
  let ?s = "expired_rows now s"
  let ?old = "take 500 (filter (due_for_erasure now) (requests ?s))"
  have ok: "table_ok (requests ?s)"
    using table_ok_writes[OF expire_writes assms] unfolding requests_expired_rows .
  then have d: "distinct (map rq_id (requests ?s))" by (simp add: table_ok_def)
  have dd: "distinct (map rq_id (filter (due_for_erasure now) (requests ?s)))"
    using d by (rule distinct_map_filter)
  have p: "due_for_erasure now r" if "r \<in> set (requests ?s)" "rq_id r \<in> set (map rq_id ?old)" for r
  proof -
    from that(2) obtain q where q: "q \<in> set ?old" "rq_id q = rq_id r" by auto
    have "q \<in> set (requests ?s)" "due_for_erasure now q"
      using in_set_takeD[OF q(1)] by simp_all
    moreover from d have "inj_on rq_id (set (requests ?s))" unfolding distinct_map by blast
    ultimately have "q = r" using q(2) that(1) by (simp only: inj_on_eq_iff)
    with \<open>due_for_erasure now q\<close> show ?thesis by simp
  qed
  have e: "request_writes False (requests ?s) (requests (foldl (erase_one now fh) ?s (map rq_id ?old)))
      \<and> filter (due_for_erasure now) (requests (foldl (erase_one now fh) ?s (map rq_id ?old)))
        = filter (\<lambda>r. rq_id r \<notin> set (map rq_id ?old)) (filter (due_for_erasure now) (requests ?s))"
    by (rule erase_writes[OF d distinct_take_filter[OF d]]) (rule p)
  show "request_writes False (requests s) (requests (snd (retention fh now s)))"
    unfolding snd_retention
  proof (rule request_writes.sequenced)
    show "request_writes False (requests s) (requests ?s)" unfolding requests_expired_rows by (rule expire_writes)
  qed (rule conjunct1[OF e])
  from filter_not_taken[OF dd, of 500] show "filter (due_for_erasure now) (requests (snd (retention fh now s)))
       = drop 500 (filter (due_for_erasure now) (requests s))"
    unfolding snd_retention using e by (simp only: due_after_expiry)
qed

section \<open>Any sequence of operations\<close>

text \<open>
  Everything that happens to requests; of a public submission its second half, the storing. \<open>Elsewhere\<close> is any write of the rest of the program,
  which leaves the table of requests alone. The database never gives out an id twice.
\<close>

datatype request_op =
    PublicStore id string checked_submission "string option"
  | PublicCancel string "string option"
  | PortalSubmit id string actor portal_request
  | ClaimIt actor id int
  | HandOff actor id id int "string option"
  | ReleaseIt actor id int
  | CloseIt actor id close_kind int "string option"
  | QuickConnect actor id
  | Retention "id \<Rightarrow> string"
  | Elsewhere "db \<Rightarrow> db"

fun request_step :: "zone_db \<Rightarrow> (string \<Rightarrow> string) \<Rightarrow> db \<Rightarrow> time \<times> request_op \<Rightarrow> db" where
  "request_step tz sha s (now, PublicStore i token cs ip) =
     (if i \<in> rq_id ` set (requests s) then s else publicSubmit_store sha now i token cs ip s)"
| "request_step tz sha s (now, PublicCancel token ip) = snd (publicCancel sha now token ip s)"
| "request_step tz sha s (now, PortalSubmit i token actor dto) =
     (if i \<in> rq_id ` set (requests s) then s else snd (portalSubmit sha now i token actor dto s))"
| "request_step tz sha s (now, ClaimIt actor i version) = snd (claim tz now actor i version s)"
| "request_step tz sha s (now, HandOff actor i to version note) = snd (handoff tz now actor i to version note s)"
| "request_step tz sha s (now, ReleaseIt actor i version) = snd (release tz now actor i version s)"
| "request_step tz sha s (now, CloseIt actor i kind version outcome) =
     snd (close_request tz now actor i kind version outcome s)"
| "request_step tz sha s (now, QuickConnect actor i) = snd (forQuickConnect actor i s)"
| "request_step tz sha s (now, Retention fh) = snd (retention fh now s)"
| "request_step tz sha s (now, Elsewhere g) = (g s)\<lparr>requests := requests s\<rparr>"

definition requests_inv :: "db \<Rightarrow> bool" where
  "requests_inv s \<longleftrightarrow> table_ok (requests s)"

fun stores_public :: "request_op \<Rightarrow> bool" where
  "stores_public (PublicStore _ _ _ _) = True"
| "stores_public _ = False"

lemma request_writes_mono: "request_writes p t u \<Longrightarrow> p \<le> q \<Longrightarrow> request_writes q t u"
  by (induction rule: request_writes.induct) (auto intro: request_writes.intros)

lemma step_writes:
  assumes "requests_inv s"
  shows "request_writes (stores_public (snd e)) (requests s) (requests (request_step tz sha s e))"
proof -
  obtain now oper where e: "e = (now, oper)" by (cases e)
  show ?thesis
    unfolding e
    by (cases oper)
      (simp_all add: request_writes.unchanged publicSubmit_writes publicCancel_writes portalSubmit_writes claim_writes
        handoff_writes release_writes close_writes forQuickConnect_writes retention_step(1) assms[unfolded requests_inv_def])
qed

interpretation request_machine: machine "request_step tz sha" requests_inv for tz sha
  by unfold_locales (metis requests_inv_def step_writes table_ok_writes)

lemma run_evolves:
  "requests_inv s \<Longrightarrow> r \<in> set (requests s) \<Longrightarrow>
   \<exists>r' \<in> set (requests (foldl (request_step tz sha) s es)). evolves r r'"
proof (induction es arbitrary: s r)
  case Nil
  then show ?case using evolves_refl by force
next
  case (Cons e es)
  from writes_evolve[OF step_writes[OF Cons.prems(1)]] Cons.prems
  obtain q where q: "q \<in> set (requests (request_step tz sha s e))" "evolves r q"
    unfolding requests_inv_def by blast
  from Cons.IH[OF request_machine.inv_step[OF Cons.prems(1)] q(1)] q(2)
  show ?case unfolding foldl_Cons by (meson evolves_trans)
qed

lemma same_row:
  "requests_inv s \<Longrightarrow> r \<in> set (requests s) \<Longrightarrow> q \<in> set (requests s) \<Longrightarrow> rq_id r = rq_id q \<Longrightarrow> r = q"
  unfolding requests_inv_def table_ok_def distinct_map inj_on_def by blast

lemma load_request_Inr:
  "load_request s actor i = Inr r \<Longrightarrow> r \<in> set (requests s) \<and> rq_id r = i \<and> rq_anonymizedAt r = None
    \<and> can actor CAP_SUPPORT_REQUESTS
    \<and> (\<exists>sc. resolveScope actor None = Inr sc \<and> scope_where (\<lambda>r. Some (rq_customerId r)) sc r)"
  unfolding load_request_def queueScope_def
  by (auto simp: assertCapability_Inr split: sum.split_asm option.split_asm dest: find_row_Some)

text \<open>A claim that is not answered with a conflict or a refusal took the row.\<close>

lemma claim_took:
  assumes "claim tz now actor i version s = (Inr v, s')"
  shows "\<exists>r \<in> set (requests s). rq_id r = i \<and> rq_status r = RQ_WAITING \<and> rq_version r = version
    \<and> r\<lparr>rq_status := RQ_CLAIMED, rq_claimedById := Some (a_userId actor), rq_claimedAt := Some now,
        rq_version := version + 1\<rparr> \<in> set (requests s')"
proof -
  obtain r0 where l: "load_request s actor i = Inr r0"
    using assms by (cases "load_request s actor i") (simp_all add: claim_def)
  let ?P = "\<lambda>q. rq_status q = RQ_WAITING \<and> rq_version q = version"
  let ?f = "\<lambda>q. q\<lparr>rq_status := RQ_CLAIMED, rq_claimedById := Some (a_userId actor), rq_claimedAt := Some now,
            rq_version := rq_version q + 1\<rparr>"
  obtain n s1 where c: "claim_request i ?P ?f s = (n, s1)" by fastforce
  have n: "n \<noteq> 0"
  proof
    assume "n = 0"
    with assms l c show False by (simp add: claim_def split: sum.split_asm)
  qed
  have "n = count_rows (\<lambda>r. rq_id r = i \<and> ?P r) (requests s)" using claim_request_requests(2)[of i ?P ?f s] c by simp
  with n obtain r where r: "r \<in> set (requests s)" "rq_id r = i" "?P r" by auto
  have "requests s' = update_rows (\<lambda>r. rq_id r = i \<and> ?P r) ?f (requests s)"
    using assms l c n claim_request_requests(1)[of i ?P ?f s] by (auto simp: claim_def Let_def)
  then have "?f r \<in> set (requests s')" using r by (auto simp: set_update_rows)
  with r show ?thesis by auto
qed

section \<open>Properties\<close>




definition waiting_for :: "id \<Rightarrow> checked_submission list \<Rightarrow> nat" where
  "waiting_for b cs = length (filter (\<lambda>c. c_id (cs_business c) = b) cs)"


lemma waiting_for_simps [simp]:
  "waiting_for b (cs @ ds) = waiting_for b cs + waiting_for b ds" "waiting_for b [] = 0"
  "waiting_for b (c # cs) = (if c_id (cs_business c) = b then 1 else 0) + waiting_for b cs"
  by (simp_all add: waiting_for_def)







definition demo_business :: business_row where
  "demo_business = \<lparr>c_id = ''b1'', c_tenantId = ''t1'', c_name = ''Shop'', c_isActive = True, c_isArchived = False,
     c_quickConnectEnabled = True, c_technicianApprovalRequired = False, c_supportIntakeEnabled = True,
     c_supportIntakeSlug = Some ''abcdefghijklmnop'', c_profile = Map.empty\<rparr>"

definition demo_request :: "id \<Rightarrow> request_status \<Rightarrow> id option \<Rightarrow> time option \<Rightarrow> request_row" where
  "demo_request i st claimer closing = (new_request i 0 ''t1'' ''b1'' ORIGIN_PUBLIC i)\<lparr>rq_status := st,
     rq_claimedById := claimer, rq_closedAt := closing, rq_contactName := Some ''Ann''\<rparr>"

definition queue_db :: "request_row list \<Rightarrow> db" where
  "queue_db rs = empty_db\<lparr>businesses := [demo_business], requests := rs\<rparr>"

definition queue_actor :: "id \<Rightarrow> actor" where
  "queue_actor i = \<lparr>a_userId = i, a_email = i, a_tenantId = Some ''t1'', a_businessId = Some ''b1'',
     a_isPlatformAdmin = False, a_roleType = None, a_capabilities = [CAP_SUPPORT_REQUESTS], a_ip = None,
     a_ownBusinessId = Some ''b1'', a_technician = None, a_assignedBusinessIds = [], a_platformPermissions = []\<rparr>"

lemmas demo_simps = demo_request_def new_request_def queue_db_def empty_db_def queue_actor_def demo_business_def

lemma demo_request_inv:
  "requests_inv (queue_db [])"
  "requests_inv (queue_db [demo_request ''q1'' RQ_WAITING None None])"
  "requests_inv (queue_db [demo_request ''q1'' RQ_CLAIMED (Some u) None])"
  "requests_inv (queue_db [demo_request ''q1'' RQ_COMPLETED (Some u) (Some c)])"
  by (simp_all add: requests_inv_def table_ok_def open_public_def row_ok_def request_is_open_def OPEN_def PUBLIC_OPEN_CAP_def
      demo_simps)

definition demo_submission :: public_submission where
  "demo_submission = \<lparr>ps_name = Some ''Ann'', ps_email = None, ps_phone = None,
     ps_description = Some ''Help'', ps_rustdeskId = None, ps_website = None, ps_elapsedMs = None\<rparr>"


text \<open>
  Two submissions that count at the same time both see the last free place: the cap of 25 is passed. The count is not part of the
  write.
\<close>

theorem racing_submissions_pass_the_cap:
  assumes "publicSubmit_check sha key slug body ip s = Inr (Some c1)" "publicSubmit_check sha key slug body2 ip2 s = Inr (Some c2)"
    and "open_public (c_id (cs_business c1)) (requests s) = 24"
  shows "open_public (c_id (cs_business c1)) (requests (snd (publicSubmit
     (\<lambda>d. snd (publicSubmit (\<lambda>x. x) sha key now2 j token2 slug body2 ip2 d)) sha key now i token slug body ip s))) = 26"
proof -
  have "cs_business c2 = cs_business c1"
    using assms(1,2) by (auto simp: publicSubmit_check_def Let_def split: sum.splits if_split_asm)
  then show ?thesis
    using publicSubmit_store_row[of sha now2 j token2 c2 ip2 s] assms
      publicSubmit_store_row[of sha now i token c1 ip "publicSubmit_store sha now2 j token2 c2 ip2 s"]
    by (auto simp: publicSubmit_def open_public_def OPEN_def)
qed

theorem racing_submissions_pass_the_cap_witness:
  "open_public ''b1'' (requests (snd (publicSubmit
     (\<lambda>d. snd (publicSubmit (\<lambda>x. x) id [] 2 ''y'' ''u'' ''abcdefghijklmnop'' demo_submission None d)) id [] 1 ''x'' ''t'' ''abcdefghijklmnop''
       demo_submission None (queue_db (replicate 24 (demo_request ''q'' RQ_WAITING None None)))))) = 26"
proof -
  let ?s = "queue_db (replicate 24 (demo_request ''q'' RQ_WAITING None None))"
  let ?c = "publicSubmit_check id [] ''abcdefghijklmnop'' demo_submission None ?s"
  have "case ?c of Inr (Some c) \<Rightarrow> c_id (cs_business c) = ''b1'' | _ \<Rightarrow> False" by code_simp
  then obtain c where c: "?c = Inr (Some c)" "c_id (cs_business c) = ''b1''" by (auto split: sum.splits option.splits)
  have "open_public ''b1'' (requests ?s) = 24" by code_simp
  with racing_submissions_pass_the_cap[OF c(1) c(1)] c(2) show ?thesis by simp
qed

text \<open>
  A closed request is final: no sequence of operations changes the status, the closing time
  or the version of a completed, canceled or expired request.
\<close>

theorem closed_requests_are_final:
  assumes "requests_inv s" "r \<in> set (requests s)" "rq_status r \<notin> set OPEN"
  shows "\<exists>r' \<in> set (requests (foldl (request_step tz sha) s es)). rq_id r' = rq_id r
    \<and> rq_status r' = rq_status r \<and> rq_closedAt r' = rq_closedAt r \<and> rq_version r' = rq_version r"
  using run_evolves[OF assms(1,2), of tz sha es] assms(3) by (auto simp: evolves_def request_is_open_def)

theorem closed_requests_are_final_witness:
  "\<exists>r' \<in> set (requests (foldl (request_step (\<lambda>z. None) id)
       (queue_db [demo_request ''q1'' RQ_COMPLETED (Some ''u1'') (Some 5)])
       [(6, ReleaseIt (queue_actor ''u1'') ''q1'' 0), (7, ClaimIt (queue_actor ''u2'') ''q1'' 0)])). rq_status r' = RQ_COMPLETED"
  using closed_requests_are_final[OF demo_request_inv(4), of "demo_request ''q1'' RQ_COMPLETED (Some ''u1'') (Some 5)" "''u1''" 5]
  by (fastforce simp: demo_simps OPEN_def)

text \<open>
  Of the claims made on one version of a request, one wins: once a claim succeeded, nobody
  ever claims the request under that version again, whatever happens in between, a release
  included.
\<close>

theorem claim_wins_once:
  assumes "requests_inv s" "claim tz now actor i version s = (Inr v, s')"
  shows "\<exists>e. fst (claim tz' now' actor' i version (foldl (request_step tz sha) s' es)) = Inl e"
proof -
  let ?t = "foldl (request_step tz sha) s' es"
  have inv': "requests_inv s'"
    using table_ok_writes[OF claim_writes] assms unfolding requests_inv_def by (metis snd_conv)
  have invt: "requests_inv ?t" by (rule request_machine.inv_run[OF inv'])
  obtain r where r: "r \<in> set (requests s')" "rq_id r = i" "rq_version r = version + 1"
    using claim_took[OF assms(2)] by fastforce
  then obtain q where q: "q \<in> set (requests ?t)" "rq_id q = i" "version < rq_version q"
    using run_evolves[OF inv' r(1), of tz sha es] by (fastforce simp: evolves_def)
  show ?thesis
  proof (rule ccontr)
    assume "\<not> ?thesis"
    then obtain w u where "claim tz' now' actor' i version ?t = (Inr w, u)"
      by (cases "claim tz' now' actor' i version ?t"; cases "fst (claim tz' now' actor' i version ?t)") auto
    from claim_took[OF this] obtain p where "p \<in> set (requests ?t)" "rq_id p = i" "rq_version p = version" by blast
    with same_row[OF invt] q show False by fastforce
  qed
qed

lemma demo_claim:
  "\<exists>v s'. claim (\<lambda>z. None) 3 (queue_actor ''u1'') ''q1'' 0 (queue_db [demo_request ''q1'' RQ_WAITING None None]) = (Inr v, s')"
  by (simp add: claim_def load_request_def queueScope_def assertCapability_def resolveScope_def scope_where_def
      claim_request_def claim_rows_def request_detail_def request_event_def matchComputers_def demo_simps Let_def)

theorem claim_wins_once_witness:
  "\<exists>v s' e. claim (\<lambda>z. None) 3 (queue_actor ''u1'') ''q1'' 0 (queue_db [demo_request ''q1'' RQ_WAITING None None]) = (Inr v, s')
     \<and> fst (claim (\<lambda>z. None) 9 (queue_actor ''u2'') ''q1'' 0 (foldl (request_step (\<lambda>z. None) id) s'
         [(4, ReleaseIt (queue_actor ''u1'') ''q1'' 1)])) = Inl e"
  using demo_claim claim_wins_once[OF demo_request_inv(2)] by blast

lemma load_request_unique:
  "requests_inv s \<Longrightarrow> load_request s actor i = Inr r \<Longrightarrow> q \<in> set (requests s) \<Longrightarrow> rq_id q = i \<Longrightarrow> q = r"
  using load_request_Inr same_row by blast

text \<open>
  A hand-off goes only to someone who can handle support requests of that business at that
  instant, only from the technician who holds the request or an owner acting at home, and only
  on the version that was shown.
\<close>

theorem handoff_to_a_handler:
  assumes "requests_inv s" "handoff tz now actor i to version note s = (Inr v, s')"
  shows "\<exists>r \<in> set (requests s). rq_id r = i \<and> canManage actor r \<and> rq_version r = version
    \<and> canHandle tz s now to (rq_customerId r) \<and> rq_claimedById r \<noteq> Some to
    \<and> r\<lparr>rq_status := RQ_CLAIMED, rq_claimedById := Some to, rq_claimedAt := Some now,
        rq_version := version + 1\<rparr> \<in> set (requests s')"
proof -
  obtain r where l: "load_request s actor i = Inr r"
    using assms(2) by (cases "load_request s actor i") (simp_all add: handoff_def)
  let ?P = "\<lambda>q. rq_status q \<in> {RQ_CLAIMED, RQ_CONNECTING} \<and> rq_version q = version \<and> rq_claimedById q = rq_claimedById r"
  let ?f = "\<lambda>q. q\<lparr>rq_status := RQ_CLAIMED, rq_claimedById := Some to, rq_claimedAt := Some now,
            rq_version := rq_version q + 1\<rparr>"
  obtain n s1 where c: "claim_request i ?P ?f s = (n, s1)" by fastforce
  have ok: "canManage actor r" "canHandle tz s now to (rq_customerId r)" "Some to \<noteq> rq_claimedById r" "n \<noteq> 0"
    using assms(2) l c by (auto simp: handoff_def split: if_split_asm)
  have "fst (claim_request i ?P ?f s) = n" unfolding c by simp
  then have "n = count_rows (\<lambda>q. rq_id q = i \<and> ?P q) (requests s)" unfolding claim_request_requests by simp
  with ok(4) obtain q where q: "q \<in> set (requests s)" "rq_id q = i" "?P q" by auto
  then have "q = r" using load_request_unique[OF assms(1) l] by blast
  have "snd (claim_request i ?P ?f s) = s1" unfolding c by simp
  then have "requests s1 = update_rows (\<lambda>q. rq_id q = i \<and> ?P q) ?f (requests s)" using claim_request_requests(1) by metis
  moreover have "requests s' = requests s1"
    using assms(2) l c by (auto simp: handoff_def Let_def split: if_split_asm)
  ultimately have "requests s' = update_rows (\<lambda>q. rq_id q = i \<and> ?P q) ?f (requests s)" by simp
  then have "?f r \<in> set (requests s')" using q \<open>q = r\<close> by (auto simp: set_update_rows)
  with q ok \<open>q = r\<close> show ?thesis by auto
qed

definition handoff_db :: db where
  "handoff_db = (queue_db [demo_request ''q1'' RQ_CLAIMED (Some ''u1'') None])\<lparr>users := [plain_user ''u2''],
     memberships := [\<lparr>m_id = ''m'', m_userId = ''u2'', m_tenantId = ''t1'', m_roleId = ''r'',
       m_roleType = BUSINESS_OWNER, m_isActive = True, m_customerId = Some ''b1'', m_capabilities = []\<rparr>]\<rparr>"

lemma demo_detail:
  "requests u = [r] \<Longrightarrow> rq_id r = i \<Longrightarrow> rq_customerId r = ''b1'' \<Longrightarrow> rq_anonymizedAt r = None \<Longrightarrow>
   rq_endpointId r = None \<Longrightarrow> rq_reportedRustdeskId r = None \<Longrightarrow>
   \<exists>v. request_detail tz now u (queue_actor j) i = Inr v"
  by (simp add: request_detail_def load_request_def queueScope_def assertCapability_def resolveScope_def
        scope_where_def queue_actor_def matchComputers_def Let_def)

lemma demo_handoff:
  "\<exists>v s'. handoff (\<lambda>z. None) 3 (queue_actor ''u1'') ''q1'' ''u2'' 0 None handoff_db = (Inr v, s')"
proof -
  let ?r = "demo_request ''q1'' RQ_CLAIMED (Some ''u1'') None"
  let ?r' = "?r\<lparr>rq_status := RQ_CLAIMED, rq_claimedById := Some ''u2'', rq_claimedAt := Some 3, rq_version := 1\<rparr>"
  have h: "canHandle (\<lambda>z. None) handoff_db 3 ''u2'' ''b1''"
    by (simp add: canHandle_def handoff_db_def user_by_id_def plain_user_def queue_db_def empty_db_def
        effectiveCapabilities_def isOwnerRole_def LEGACY_OWNER_ROLES_def ALL_BUSINESS_CAPABILITIES_def)
  have l: "load_request handoff_db (queue_actor ''u1'') ''q1'' = Inr ?r"
    by (simp add: load_request_def queueScope_def assertCapability_def resolveScope_def scope_where_def handoff_db_def
        demo_simps)
  have r: "rq_status ?r = RQ_CLAIMED" "rq_claimedById ?r = Some ''u1''" "rq_customerId ?r = ''b1''" "rq_version ?r = 0"
    "rq_id ?r = ''q1''" "requests handoff_db = [?r]"
    by (simp_all add: demo_request_def new_request_def handoff_db_def queue_db_def)
  have m: "canManage (queue_actor ''u1'') ?r" by (simp add: canManage_def r queue_actor_def)
  let ?s2 = "request_event ?r (queue_actor ''u1'') ''handed_off'' [(''from'', Some ''u1''), (''to'', Some ''u2''),
       (''note'', clean None 300)] (Some ''SUPPORT_REQUEST_HANDED_OFF'') (handoff_db\<lparr>requests := [?r']\<rparr>)"
  have "handoff (\<lambda>z. None) 3 (queue_actor ''u1'') ''q1'' ''u2'' 0 None handoff_db
      = (request_detail (\<lambda>z. None) 3 ?s2 (queue_actor ''u1'') ''q1'', ?s2)"
    by (simp add: handoff_def l h r m claim_request_def claim_rows_def Let_def)
  moreover have "\<exists>v. request_detail (\<lambda>z. None) 3 ?s2 (queue_actor ''u1'') ''q1'' = Inr v"
    by (rule demo_detail[where r = ?r']) (simp_all add: demo_request_def new_request_def)
  ultimately show ?thesis by (elim exE) (intro exI, simp)
qed

theorem handoff_to_a_handler_witness:
  "\<exists>v s'. handoff (\<lambda>z. None) 3 (queue_actor ''u1'') ''q1'' ''u2'' 0 None handoff_db = (Inr v, s')
    \<and> (\<exists>r \<in> set (requests s'). rq_claimedById r = Some ''u2'' \<and> rq_version r = 1)"
proof -
  have "requests_inv handoff_db"
    using demo_request_inv(3)[of "''u1''"] by (simp add: requests_inv_def handoff_db_def queue_db_def)
  moreover obtain v s' where h: "handoff (\<lambda>z. None) 3 (queue_actor ''u1'') ''q1'' ''u2'' 0 None handoff_db = (Inr v, s')"
    using demo_handoff by blast
  ultimately obtain r where "r\<lparr>rq_status := RQ_CLAIMED, rq_claimedById := Some ''u2'', rq_claimedAt := Some 3,
      rq_version := 0 + 1\<rparr> \<in> set (requests s')"
    using handoff_to_a_handler by blast
  then show ?thesis using h by (intro exI conjI bexI) simp_all
qed

text \<open>
  Nobody takes a request out of a colleague's hands: whoever neither holds it nor is an
  owner acting at home cannot hand it off, release or close it; every row stays as it is.
\<close>

theorem others_cannot_move_request:
  assumes "requests_inv s" "r \<in> set (requests s)" "rq_id r = i" "\<not> canManage actor r" "rq_status r \<noteq> RQ_WAITING"
  shows "requests (snd (handoff tz now actor i to version note s)) = requests s
    \<and> requests (snd (release tz now actor i version s)) = requests s
    \<and> requests (snd (close_request tz now actor i kind version outcome s)) = requests s"
proof (cases "load_request s actor i")
  case (Inl e)
  then show ?thesis by (simp add: handoff_def release_def close_request_def)
next
  case (Inr q)
  then have "q = r" using load_request_unique[OF assms(1) Inr assms(2,3)] by simp
  with Inr assms(4,5) show ?thesis by (simp add: handoff_def release_def close_request_def)
qed

theorem others_cannot_move_request_witness:
  "requests (snd (release (\<lambda>z. None) 3 (queue_actor ''u2'') ''q1'' 0 (queue_db [demo_request ''q1'' RQ_CLAIMED (Some ''u1'') None])))
     = [demo_request ''q1'' RQ_CLAIMED (Some ''u1'') None]"
  using others_cannot_move_request[OF demo_request_inv(3)[of "''u1''"], of "demo_request ''q1'' RQ_CLAIMED (Some ''u1'') None" "''q1''" "queue_actor ''u2''"]
  by (simp add: demo_simps canManage_def isBusinessOwner_def isOwnerRole_def)

lemma retention_runs:
  "requests_inv s \<Longrightarrow> requests_inv (((\<lambda>s. snd (retention fh now s)) ^^ k) s)
     \<and> filter (due_for_erasure now) (requests (((\<lambda>s. snd (retention fh now s)) ^^ k) s))
         = drop (500 * k) (filter (due_for_erasure now) (requests s))"
proof (induction k)
  case 0
  then show ?case by simp
next
  case (Suc k)
  let ?u = "((\<lambda>s. snd (retention fh now s)) ^^ k) s"
  have ih: "requests_inv ?u"
    "filter (due_for_erasure now) (requests ?u) = drop (500 * k) (filter (due_for_erasure now) (requests s))"
    using Suc by auto
  have "requests_inv (snd (retention fh now ?u))"
    using request_machine.inv_step[OF ih(1), of "\<lambda>z. None" id "(now, Retention fh)"] by simp
  moreover have "filter (due_for_erasure now) (requests (snd (retention fh now ?u)))
      = drop (500 * Suc k) (filter (due_for_erasure now) (requests s))"
    using retention_step(2)[OF ih(1)[unfolded requests_inv_def]] ih(2) by (simp add: add.commute)
  ultimately show ?case by simp
qed

text \<open>
  Contact details are erased in the end: with at most 500 times \<open>k\<close> requests closed more than
  30 days before an instant, \<open>k\<close> retention runs leave none of those with a name, an address, a
  telephone number, a description, a reported id or an address hash.
\<close>

theorem retention_erases_contacts:
  assumes "requests_inv s" "length (filter (due_for_erasure now) (requests s)) \<le> 500 * k"
  shows "\<forall>r \<in> set (requests (((\<lambda>s. snd (retention fh now s)) ^^ k) s)).
    (\<exists>t. rq_closedAt r = Some t \<and> t < now - 30 * 24 * hour_ms) \<longrightarrow> no_contact r"
proof (intro ballI impI)
  let ?u = "((\<lambda>s. snd (retention fh now s)) ^^ k) s"
  fix r assume r: "r \<in> set (requests ?u)" "\<exists>t. rq_closedAt r = Some t \<and> t < now - 30 * 24 * hour_ms"
  have inv: "requests_inv ?u" and "filter (due_for_erasure now) (requests ?u) = []"
    using retention_runs[OF assms(1), where fh = fh and now = now and k = k] assms(2) by auto
  then have "\<not> due_for_erasure now r" using r(1) by (simp add: filter_empty_conv)
  moreover have ok: "row_ok r" using inv r(1) by (simp add: requests_inv_def table_ok_def)
  ultimately have "rq_anonymizedAt r \<noteq> None"
    using r(2) by (auto simp: due_for_erasure_def ANONYMIZE_AFTER_MS_def row_ok_def request_is_open_def)
  with ok show "no_contact r" by (simp add: row_ok_def)
qed

theorem retention_erases_contacts_witness:
  "list_all no_contact (requests (snd (retention (\<lambda>i. i) (40 * day_ms)
     (queue_db [demo_request ''q1'' RQ_COMPLETED (Some ''u1'') (Some 5)]))))"
proof -
  let ?s = "queue_db [demo_request ''q1'' RQ_COMPLETED (Some ''u1'') (Some 5)]"
  have "length (filter (due_for_erasure (40 * day_ms)) (requests ?s)) \<le> 500 * 1" by (simp add: demo_simps)
  from retention_erases_contacts[OF demo_request_inv(4) this, of "\<lambda>i. i"]
  have *: "\<forall>r \<in> set (requests (snd (retention (\<lambda>i. i) (40 * day_ms) ?s))).
    (\<exists>t. rq_closedAt r = Some t \<and> t < 40 * day_ms - 30 * 24 * hour_ms) \<longrightarrow> no_contact r"
    by simp
  have "requests (snd (retention (\<lambda>i. i) (40 * day_ms) ?s))
      = [erased (40 * day_ms) ''q1'' (demo_request ''q1'' RQ_COMPLETED (Some ''u1'') (Some 5))]"
    by (simp add: retention_def demo_simps expired_row_def due_for_erasure_def OPEN_def ANONYMIZE_AFTER_MS_def)
  with * show ?thesis by (auto simp: erased_def demo_simps)
qed

text \<open>
  The queue of a user who is no platform admin shows only requests of the user's business,
  whatever business, status or filter the query asks for.
\<close>

theorem queue_stays_in_business:
  assumes "list_requests tz now s actor opts = Inr vs" "v \<in> set vs" "\<not> a_isPlatformAdmin actor"
  shows "Some (rq_customerId (rv_row v)) = a_businessId actor \<and> can actor CAP_SUPPORT_REQUESTS
    \<and> rq_anonymizedAt (rv_row v) = None"
proof -
  obtain sc where sc: "resolveScope actor (qo_businessId opts) = Inr sc" "can actor CAP_SUPPORT_REQUESTS"
    and q: "queueScope actor (qo_businessId opts) = Inr (scope_where (\<lambda>r. Some (rq_customerId r)) sc)"
    using assms(1) by (auto simp: list_requests_def queueScope_def assertCapability_Inr split: sum.split_asm)
  obtain inStatus where st: "status_filter (qo_status opts) = Inr inStatus"
    using assms(1) q by (auto simp: list_requests_def split: sum.split_asm)
  have "rv_row v \<in> set (take 200 (sort_key rq_createdAt (filter (\<lambda>r. scope_where (\<lambda>r. Some (rq_customerId r)) sc r
      \<and> inStatus r \<and> (qo_mine opts \<longrightarrow> rq_claimedById r = Some (a_userId actor)) \<and> rq_anonymizedAt r = None) (requests s))))"
    using assms(1,2) unfolding list_requests_def q st by (auto simp: Let_def split: sum.split_asm)
  from in_set_takeD[OF this] have "rv_row v \<in> set (filter (scope_where (\<lambda>r. Some (rq_customerId r)) sc) (requests s))"
    "rq_anonymizedAt (rv_row v) = None" by auto
  with actor_scope.listed_in_own[OF assms(3) sc(1) this(1)] sc(2) show ?thesis by simp
qed

theorem queue_stays_in_business_witness:
  "\<exists>v. list_requests (\<lambda>z. None) 3 (queue_db [demo_request ''q1'' RQ_WAITING None None]) (queue_actor ''u1'')
      \<lparr>qo_businessId = None, qo_status = None, qo_mine = False\<rparr> = Inr [v] \<and> rq_customerId (rv_row v) = ''b1''"
proof -
  have "\<exists>v. list_requests (\<lambda>z. None) 3 (queue_db [demo_request ''q1'' RQ_WAITING None None]) (queue_actor ''u1'')
      \<lparr>qo_businessId = None, qo_status = None, qo_mine = False\<rparr> = Inr [v]"
    by (simp add: list_requests_def queueScope_def assertCapability_def resolveScope_def scope_where_def status_filter_def
        matchComputers_def demo_simps Let_def OPEN_def)
  then obtain v where v: "list_requests (\<lambda>z. None) 3 (queue_db [demo_request ''q1'' RQ_WAITING None None]) (queue_actor ''u1'')
      \<lparr>qo_businessId = None, qo_status = None, qo_mine = False\<rparr> = Inr [v]" by blast
  from queue_stays_in_business[OF this, of v] v show ?thesis by (auto simp: queue_actor_def)
qed

end
