(* ===== verification/Technicians.thy ===== *)
theory Technicians
  imports Identity
begin

text \<open>
  Technician assignments and groups (\<open>technicians/technicians.service.ts\<close>): who may create,
  request, decide and revoke technician access, and what an approval may change.
  \<open>date_of\<close> is \<open>new Date(text)\<close> (\<open>None\<close> for an invalid date), \<open>collate\<close> the order of
  \<open>localeCompare\<close>; generated ids are arguments.
\<close>

section \<open>Self\<close>

record my_access =
  ma_activeBusinessId :: "id option"
  ma_ownBusinessId :: "id option"
  ma_businesses :: "business_scope list"
  ma_inactive :: "inactive_grant list"

definition by_name :: "(string \<Rightarrow> int) \<Rightarrow> scope_map \<Rightarrow> business_scope list" where
  "by_name collate scopes = sort_key (\<lambda>b. collate (bs_businessName b)) (map snd scopes)"

definition mine :: "(string \<Rightarrow> int) \<Rightarrow> zone_db \<Rightarrow> db \<Rightarrow> time \<Rightarrow> actor \<Rightarrow> my_access" where
  "mine collate tz s now actor = (case resolve tz s (a_userId actor) now of
     (scopes, inactive) \<Rightarrow>
       \<lparr>ma_activeBusinessId = nullish (map_option tc_businessId (a_technician actor)) (a_businessId actor),
        ma_ownBusinessId = a_ownBusinessId actor, ma_businesses = by_name collate scopes, ma_inactive = inactive\<rparr>)"

record overview_row =
  ov_businessId :: id
  ov_businessName :: string
  ov_capabilities :: "capability list"
  ov_computerCount :: "nat option"
  ov_sources :: "grant_source list"
  ov_computers :: "nat option"
  ov_online :: "nat option"
  ov_openSessions :: "nat option"
  ov_waitingRequests :: "nat option"
  ov_recentSessions :: "session_row list"

definition overview_endpoints :: "business_scope \<Rightarrow> endpoint_row \<Rightarrow> bool" where
  "overview_endpoints b e = (e_customerId e = Some (bs_businessId b) \<and> e_status e = EP_ACTIVE
     \<and> (case bs_endpointIds b of None \<Rightarrow> True | Some ids \<Rightarrow> e_id e \<in> set ids))"

definition overview_sessions :: "id \<Rightarrow> business_scope \<Rightarrow> session_row \<Rightarrow> bool" where
  "overview_sessions userId b r =
     (ss_customerId r = Some (bs_businessId b)
      \<and> (CAP_HISTORY_VIEW \<in> set (bs_capabilities b) \<or> ss_technicianId r = userId)
      \<and> (case bs_endpointIds b of None \<Rightarrow> True
         | Some ids \<Rightarrow> (\<exists>e \<in> set ids. ss_endpointId r = Some e) \<or> ss_endpointId r = None \<and> ss_technicianId r = userId))"

definition overview_of :: "db \<Rightarrow> id \<Rightarrow> business_scope \<Rightarrow> overview_row" where
  "overview_of s userId b =
     (let caps = set (bs_capabilities b) in
      \<lparr>ov_businessId = bs_businessId b, ov_businessName = bs_businessName b, ov_capabilities = bs_capabilities b,
       ov_computerCount = map_option length (bs_endpointIds b), ov_sources = bs_sources b,
       ov_computers = (if CAP_COMPUTERS_VIEW \<in> caps then Some (count_rows (overview_endpoints b) (endpoints s)) else None),
       ov_online = (if CAP_COMPUTERS_VIEW \<in> caps
          then Some (count_rows (\<lambda>e. overview_endpoints b e \<and> e_isOnline e) (endpoints s)) else None),
       ov_openSessions = (if CAP_SESSIONS_VIEW \<in> caps
          then Some (count_rows (\<lambda>r. overview_sessions userId b r
             \<and> ss_status r \<in> {LAUNCH_REQUESTED, LAUNCHER_ACKNOWLEDGED, CLIENT_OPENED, SESSION_STARTED}) (sessions s)) else None),
       ov_waitingRequests = (if CAP_SUPPORT_REQUESTS \<in> caps
          then Some (count_rows (\<lambda>r. rq_customerId r = bs_businessId b
             \<and> rq_status r \<in> {RQ_WAITING, RQ_CLAIMED, RQ_CONNECTING}) (requests s)) else None),
       ov_recentSessions = (if CAP_SESSIONS_VIEW \<in> caps
          then take 5 (sort_key (\<lambda>r. - ss_createdAt r) (filter (overview_sessions userId b) (sessions s))) else [])\<rparr>)"

definition overview :: "(string \<Rightarrow> int) \<Rightarrow> zone_db \<Rightarrow> db \<Rightarrow> time \<Rightarrow> actor \<Rightarrow> overview_row list" where
  "overview collate tz s now actor =
     map (overview_of s (a_userId actor)) (by_name collate (fst (resolve tz s (a_userId actor) now)))"

section \<open>Checks\<close>

definition assertManager :: "actor \<Rightarrow> unit result" where
  "assertManager actor = (case assertPlatformPermission actor TECHNICIANS_MANAGE of
       Inl e \<Rightarrow> Inl e
     | Inr _ \<Rightarrow> if a_technician actor \<noteq> None
         then Inl (Forbidden ''Switch back to your own account context to manage technician access'') else Inr ())"

definition parseDates ::
  "(string \<Rightarrow> time option) \<Rightarrow> string option \<Rightarrow> string option \<Rightarrow> (time option \<times> time option) result" where
  "parseDates date_of startsAt expiresAt =
     (let st = (if truthy startsAt then date_of (the startsAt) else None);
          ex = (if truthy expiresAt then date_of (the expiresAt) else None)
      in if truthy startsAt \<and> st = None then Inl (BadRequest ''startsAt is not a valid date'')
      else if truthy expiresAt \<and> ex = None then Inl (BadRequest ''expiresAt is not a valid date'')
      else if (case (st, ex) of (Some a, Some b) \<Rightarrow> b \<le> a | _ \<Rightarrow> False)
      then Inl (BadRequest ''expiresAt must be after startsAt'')
      else Inr (st, ex))"

definition parseScheduleOr400 :: "zone_db \<Rightarrow> json \<Rightarrow> access_schedule option result" where
  "parseScheduleOr400 tz input = (case parseSchedule tz input of Inl e \<Rightarrow> Inl (BadRequest e) | Inr sc \<Rightarrow> Inr sc)"

definition assertEndpointsInBusiness :: "db \<Rightarrow> id \<Rightarrow> id list \<Rightarrow> unit result" where
  "assertEndpointsInBusiness s businessId endpointIds =
     (if length endpointIds = 0 then Inr ()
      else if count_rows (\<lambda>e. e_id e \<in> set endpointIds \<and> e_customerId e = Some businessId) (endpoints s)
              \<noteq> length (js_set endpointIds)
      then Inl (BadRequest ''Every selected computer must belong to the selected business'')
      else Inr ())"

section \<open>Assignments\<close>

record assignment_filter =
  af_userId :: "id option"
  af_groupId :: "id option"
  af_businessId :: "id option"
  af_includeRevoked :: bool

definition listAssignments :: "db \<Rightarrow> actor \<Rightarrow> assignment_filter \<Rightarrow> assignment_row list result" where
  "listAssignments s actor f = (case assertManager actor of
     Inl e \<Rightarrow> Inl e
   | Inr _ \<Rightarrow> Inr (take 500 (sort_key (\<lambda>a. - ta_createdAt a) (filter (\<lambda>a.
        (truthy (af_userId f) \<longrightarrow> ta_userId a = af_userId f)
        \<and> (truthy (af_groupId f) \<longrightarrow> ta_groupId a = af_groupId f)
        \<and> (truthy (af_businessId f) \<longrightarrow> Some (ta_customerId a) = af_businessId f)
        \<and> (af_includeRevoked f \<or> ta_revokedAt a = None)) (assignments s)))))"

record assignment_input =
  ai_userId :: "id option"
  ai_groupId :: "id option"
  ai_businessId :: id
  ai_capabilities :: "string list option"
  ai_endpointIds :: "id list option"
  ai_startsAt :: "string option"
  ai_expiresAt :: "string option"
  ai_schedule :: json
  ai_reason :: "string option"

text \<open>The user an assignment names must exist and not be a platform admin.\<close>

definition check_assignee :: "db \<Rightarrow> id option \<Rightarrow> unit result" where
  "check_assignee s u =
     (if \<not> truthy u then Inr ()
      else case user_by_id s (the u) of
          None \<Rightarrow> Inl (NotFound ''User not found'')
        | Some x \<Rightarrow>
            if u_status x = U_DELETED then Inl (NotFound ''User not found'')
            else if u_isPlatformAdmin x
            then Inl (BadRequest ''Platform Admins already reach every business; they do not need assignments'')
            else Inr ())"

definition group_defaults :: "db \<Rightarrow> id option \<Rightarrow> string list result" where
  "group_defaults s g =
     (if \<not> truthy g then Inr []
      else case find_row (\<lambda>r. tg_id r = the g) (techGroups s) of
          None \<Rightarrow> Inl (NotFound ''Group not found'') | Some r \<Rightarrow> Inr (tg_capabilities r))"

definition sanitized :: "string list option \<Rightarrow> capability list" where
  "sanitized xs = sanitizeTechnicianCapabilities (JArr (map JStr (case xs of None \<Rightarrow> [] | Some ys \<Rightarrow> ys)))"

definition chosen_capabilities :: "string list option \<Rightarrow> string list \<Rightarrow> capability list" where
  "chosen_capabilities given groupCaps = (if length (sanitized given) > 0 then sanitized given else sanitized (Some groupCaps))"

definition schedule_column :: "access_schedule option \<Rightarrow> json" where
  "schedule_column sc = (case sc of None \<Rightarrow> JNull | Some x \<Rightarrow> schedule_json x)"

definition new_assignment ::
  "id \<Rightarrow> time \<Rightarrow> actor \<Rightarrow> business_row \<Rightarrow> assignment_input \<Rightarrow> bool \<Rightarrow> capability list \<Rightarrow> id list \<Rightarrow>
   time option \<times> time option \<Rightarrow> access_schedule option \<Rightarrow> assignment_row" where
  "new_assignment i now actor business inp selfRequest caps eps dates sc =
     \<lparr>ta_id = i, ta_tenantId = c_tenantId business, ta_customerId = c_id business, ta_userId = ai_userId inp,
      ta_groupId = ai_groupId inp, ta_capabilities = caps, ta_endpointIds = eps, ta_startsAt = fst dates,
      ta_expiresAt = snd dates, ta_schedule = schedule_column sc, ta_reason = map_option (take 500) (ai_reason inp),
      ta_approvalStatus = (if selfRequest \<or> c_technicianApprovalRequired business then AP_PENDING else AP_NOT_REQUIRED),
      ta_requestedById = (if selfRequest then Some (a_userId actor) else None), ta_decidedById = None,
      ta_decidedAt = None, ta_decisionNote = None, ta_createdById = Some (a_userId actor), ta_createdAt = now,
      ta_revokedAt = None, ta_revokedById = None, ta_revokeReason = None, ta_expiryAuditedAt = None\<rparr>"

text \<open>The checks of \<open>createAssignment\<close> after the caller's, up to the row to insert.\<close>

definition checked_assignment ::
  "(string \<Rightarrow> time option) \<Rightarrow> zone_db \<Rightarrow> time \<Rightarrow> id \<Rightarrow> actor \<Rightarrow> assignment_input \<Rightarrow> bool \<Rightarrow> db \<Rightarrow> assignment_row result" where
  "checked_assignment date_of tz now i actor inp selfRequest s =
     (if truthy (ai_userId inp) = truthy (ai_groupId inp)
      then Inl (BadRequest ''Assign to exactly one of a user or a group'')
      else case business_of s (ai_businessId inp) of
        None \<Rightarrow> Inl (NotFound ''Business not found'')
      | Some business \<Rightarrow>
        if c_isArchived business then Inl (NotFound ''Business not found'')
        else (case check_assignee s (ai_userId inp) of
          Inl e \<Rightarrow> Inl e
        | Inr _ \<Rightarrow> (case group_defaults s (ai_groupId inp) of
          Inl e \<Rightarrow> Inl e
        | Inr groupCaps \<Rightarrow>
            let caps = chosen_capabilities (ai_capabilities inp) groupCaps;
                eps = js_set (case ai_endpointIds inp of None \<Rightarrow> [] | Some xs \<Rightarrow> xs)
            in if length caps = 0 then Inl (BadRequest ''Choose at least one capability. Assignable: '')
            else (case assertEndpointsInBusiness s (c_id business) eps of
              Inl e \<Rightarrow> Inl e
            | Inr _ \<Rightarrow> (case parseDates date_of (ai_startsAt inp) (ai_expiresAt inp) of
              Inl e \<Rightarrow> Inl e
            | Inr dates \<Rightarrow> (case parseScheduleOr400 tz (ai_schedule inp) of
              Inl e \<Rightarrow> Inl e
            | Inr sc \<Rightarrow> Inr (new_assignment i now actor business inp selfRequest caps eps dates sc)))))))"

definition createAssignment ::
  "(string \<Rightarrow> time option) \<Rightarrow> zone_db \<Rightarrow> time \<Rightarrow> id \<Rightarrow> actor \<Rightarrow> assignment_input \<Rightarrow> bool \<Rightarrow> db \<Rightarrow> assignment_row result \<times> db" where
  "createAssignment date_of tz now i actor inp selfRequest s =
     (case (if selfRequest then Inr () else assertManager actor) of
        Inl e \<Rightarrow> (Inl e, s)
      | Inr _ \<Rightarrow> (case checked_assignment date_of tz now i actor inp selfRequest s of
          Inl e \<Rightarrow> (Inl e, s)
        | Inr row \<Rightarrow> (Inr row,
            audit_log (if selfRequest then ''TECHNICIAN_ASSIGNMENT_REQUESTED'' else ''TECHNICIAN_ASSIGNMENT_CREATED'')
              (Some (a_userId actor)) (Some (ta_tenantId row)) (Some (ta_customerId row)) (a_ip actor)
              (Some ''technician_assignment'') (Some i) False (s\<lparr>assignments := assignments s @ [row]\<rparr>))))"

text \<open>Launcher tokens of the given users that could still be redeemed are revoked.\<close>

definition revoke_tokens :: "time \<Rightarrow> id list \<Rightarrow> db \<Rightarrow> db" where
  "revoke_tokens now userIds s = s\<lparr>launcherTokens := update_rows (\<lambda>t. lt_userId t \<in> set userIds \<and> lt_usedAt t = None
     \<and> lt_revokedAt t = None \<and> lt_expiresAt t > now) (\<lambda>t. t\<lparr>lt_revokedAt := Some now\<rparr>) (launcherTokens s)\<rparr>"

definition assignees :: "db \<Rightarrow> assignment_row \<Rightarrow> id list" where
  "assignees s a = (case or_null (ta_userId a) of
       Some u \<Rightarrow> [u]
     | None \<Rightarrow> map gm_userId (filter (\<lambda>m. Some (gm_groupId m) = ta_groupId a) (groupMembers s)))"

definition revokeAssignment :: "time \<Rightarrow> actor \<Rightarrow> id \<Rightarrow> string option \<Rightarrow> db \<Rightarrow> assignment_row result \<times> db" where
  "revokeAssignment now actor i reason s = (case find_row (\<lambda>a. ta_id a = i) (assignments s) of
     None \<Rightarrow> (Inl (NotFound ''Assignment not found''), s)
   | Some a \<Rightarrow>
     let ownPending = (ta_requestedById a = Some (a_userId actor) \<and> ta_approvalStatus a = AP_PENDING) in
     (case (if ownPending then Inr () else assertManager actor) of
        Inl e \<Rightarrow> (Inl e, s)
      | Inr _ \<Rightarrow>
        if ta_revokedAt a \<noteq> None then (Inr a, s)
        else
          let upd = (\<lambda>q. q\<lparr>ta_revokedAt := Some now, ta_revokedById := Some (a_userId actor),
                 ta_revokeReason := map_option (take 500) reason\<rparr>);
              s1 = s\<lparr>assignments := update_rows (\<lambda>q. ta_id q = i) upd (assignments s)\<rparr>
          in (Inr (upd a),
              audit_log ''TECHNICIAN_ASSIGNMENT_REVOKED'' (Some (a_userId actor)) (Some (ta_tenantId a))
                (Some (ta_customerId a)) (a_ip actor) (Some ''technician_assignment'') (Some i) False
                (revoke_tokens now (assignees s1 a) s1))))"

section \<open>Requests and approval\<close>

definition requestAccess ::
  "(string \<Rightarrow> time option) \<Rightarrow> zone_db \<Rightarrow> time \<Rightarrow> id \<Rightarrow> actor \<Rightarrow> assignment_input \<Rightarrow> db \<Rightarrow> assignment_row result \<times> db" where
  "requestAccess date_of tz now i actor inp s =
     (let recognised = count_rows (\<lambda>m. gm_userId m = a_userId actor) (groupMembers s)
            + count_rows (\<lambda>a. ta_userId a = Some (a_userId actor)) (assignments s)
      in if recognised = 0 \<and> \<not> hasPlatformPermission actor TECHNICIANS_MANAGE
      then (Inl (Forbidden ''Only MSP technicians can request access to a business''), s)
      else if \<not> truthy (ai_expiresAt inp) then (Inl (BadRequest ''An access request must have an end time''), s)
      else createAssignment date_of tz now i actor (inp\<lparr>ai_userId := Some (a_userId actor), ai_groupId := None\<rparr>) True s)"

definition pendingApprovals :: "db \<Rightarrow> actor \<Rightarrow> assignment_row list" where
  "pendingApprovals s actor =
     (if \<not> a_isPlatformAdmin actor
         \<and> (a_technician actor \<noteq> None \<or> \<not> isOwnerRole (a_roleType actor) \<or> \<not> truthy (a_businessId actor)) then []
      else sort_key ta_createdAt (filter (\<lambda>a. ta_approvalStatus a = AP_PENDING \<and> ta_revokedAt a = None
        \<and> (a_isPlatformAdmin actor \<or> Some (ta_customerId a) = a_businessId actor)) (assignments s)))"

record decision_input =
  di_approve :: bool
  di_note :: "string option"
  di_capabilities :: "string list option"
  di_endpointIds :: "id list option"
  di_expiresAt :: "string option"

text \<open>
  The three columns an approval may narrow, from the request and the approver's input; \<open>None\<close>
  is a column the update does not mention.
\<close>

definition narrowed_capabilities :: "assignment_row \<Rightarrow> string list option \<Rightarrow> string list option result" where
  "narrowed_capabilities a given = (case given of
     None \<Rightarrow> Inr None
   | Some xs \<Rightarrow>
       let narrowed = sanitized (Some xs) in
       if length (ta_capabilities a) > 0 \<and> list_ex (\<lambda>c. c \<notin> set (ta_capabilities a)) narrowed
       then Inl (BadRequest ''Approval can only remove capabilities from a request, not add them'')
       else if length narrowed = 0 then Inl (BadRequest ''Approving with no capabilities grants nothing; deny instead'')
       else Inr (Some narrowed))"

definition narrowed_endpoints :: "db \<Rightarrow> assignment_row \<Rightarrow> id list option \<Rightarrow> id list option result" where
  "narrowed_endpoints s a given = (case given of
     None \<Rightarrow> Inr None
   | Some xs \<Rightarrow>
       let narrowed = js_set xs in
       if length (ta_endpointIds a) > 0 \<and> list_ex (\<lambda>e. e \<notin> set (ta_endpointIds a)) narrowed
       then Inl (BadRequest ''Approval can only remove computers from a request, not add them'')
       else if length (ta_endpointIds a) = 0 \<and> length narrowed = 0 then Inr None
       else (case assertEndpointsInBusiness s (ta_customerId a) narrowed of
           Inl e \<Rightarrow> Inl e | Inr _ \<Rightarrow> Inr (Some narrowed)))"

definition narrowed_expiry :: "(string \<Rightarrow> time option) \<Rightarrow> assignment_row \<Rightarrow> string option \<Rightarrow> time option result" where
  "narrowed_expiry date_of a given = (case given of
     None \<Rightarrow> Inr None
   | Some x \<Rightarrow> (case date_of x of
       None \<Rightarrow> Inl (BadRequest ''expiresAt is not a valid date'')
     | Some e \<Rightarrow> (if (case ta_expiresAt a of None \<Rightarrow> False | Some t \<Rightarrow> e > t)
         then Inl (BadRequest ''Approval can only shorten the requested window'') else Inr (Some e))))"

record narrowing =
  nw_capabilities :: "string list option"
  nw_endpointIds :: "id list option"
  nw_expiresAt :: "time option"

definition decided_columns ::
  "(string \<Rightarrow> time option) \<Rightarrow> db \<Rightarrow> assignment_row \<Rightarrow> decision_input \<Rightarrow> narrowing result" where
  "decided_columns date_of s a inp =
     (if \<not> di_approve inp then Inr \<lparr>nw_capabilities = None, nw_endpointIds = None, nw_expiresAt = None\<rparr>
      else case narrowed_capabilities a (di_capabilities inp) of
        Inl e \<Rightarrow> Inl e
      | Inr caps \<Rightarrow> (case narrowed_endpoints s a (di_endpointIds inp) of
          Inl e \<Rightarrow> Inl e
        | Inr eps \<Rightarrow> (case narrowed_expiry date_of a (di_expiresAt inp) of
            Inl e \<Rightarrow> Inl e
          | Inr ex \<Rightarrow> Inr \<lparr>nw_capabilities = caps, nw_endpointIds = eps, nw_expiresAt = ex\<rparr>)))"

definition decided_row :: "time \<Rightarrow> actor \<Rightarrow> decision_input \<Rightarrow> narrowing \<Rightarrow> assignment_row \<Rightarrow> assignment_row" where
  "decided_row now actor inp cols q =
     q\<lparr>ta_approvalStatus := (if di_approve inp then AP_APPROVED else AP_DENIED), ta_decidedById := Some (a_userId actor),
       ta_decidedAt := Some now, ta_decisionNote := map_option (take 500) (di_note inp),
       ta_capabilities := (case nw_capabilities cols of None \<Rightarrow> ta_capabilities q | Some caps \<Rightarrow> caps),
       ta_endpointIds := (case nw_endpointIds cols of None \<Rightarrow> ta_endpointIds q | Some eps \<Rightarrow> eps),
       ta_expiresAt := (case nw_expiresAt cols of None \<Rightarrow> ta_expiresAt q | Some e \<Rightarrow> Some e)\<rparr>"

definition decide ::
  "(string \<Rightarrow> time option) \<Rightarrow> time \<Rightarrow> actor \<Rightarrow> id \<Rightarrow> decision_input \<Rightarrow> db \<Rightarrow> assignment_row option result \<times> db" where
  "decide date_of now actor i inp s = (case find_row (\<lambda>a. ta_id a = i) (assignments s) of
     None \<Rightarrow> (Inl (NotFound ''Request not found''), s)
   | Some a \<Rightarrow>
     if ta_revokedAt a \<noteq> None then (Inl (NotFound ''Request not found''), s)
     else if \<not> a_isPlatformAdmin actor \<and> (a_technician actor \<noteq> None \<or> \<not> isOwnerRole (a_roleType actor)
        \<or> a_businessId actor \<noteq> Some (ta_customerId a)) then (Inl (NotFound ''Request not found''), s)
     else if ta_approvalStatus a \<noteq> AP_PENDING then (Inl (Conflict ''This request was already ''), s)
     else if ta_requestedById a = Some (a_userId actor) \<or> truthy (ta_userId a) \<and> ta_userId a = Some (a_userId actor)
     then (Inl (Forbidden ''You cannot approve access for yourself''), s)
     else (case decided_columns date_of s a inp of
        Inl e \<Rightarrow> (Inl e, s)
      | Inr cols \<Rightarrow>
        (case claim_rows (\<lambda>q. ta_id q = i \<and> ta_approvalStatus q = AP_PENDING) (decided_row now actor inp cols) (assignments s) of
           (n, t) \<Rightarrow>
             if n = 0 then (Inl (Conflict ''This request was decided by someone else just now''), s\<lparr>assignments := t\<rparr>)
             else
               let s1 = audit_log (if di_approve inp then ''TECHNICIAN_ASSIGNMENT_APPROVED'' else ''TECHNICIAN_ASSIGNMENT_DENIED'')
                     (Some (a_userId actor)) (Some (ta_tenantId a)) (Some (ta_customerId a)) (a_ip actor)
                     (Some ''technician_assignment'') (Some i) False (s\<lparr>assignments := t\<rparr>)
               in (Inr (find_row (\<lambda>q. ta_id q = i) (assignments s1)), s1))))"

definition setApprovalRequired :: "actor \<Rightarrow> id \<Rightarrow> bool \<Rightarrow> db \<Rightarrow> bool result \<times> db" where
  "setApprovalRequired actor businessId required s =
     (if \<not> a_isPlatformAdmin actor \<and> (a_technician actor \<noteq> None \<or> \<not> isOwnerRole (a_roleType actor)
         \<or> a_businessId actor \<noteq> Some businessId)
      then (Inl (Forbidden ''Only this business's Business Owner can change that''), s)
      else case business_of s businessId of
          None \<Rightarrow> (Inl (ServerError ''Record to update not found''), s)
        | Some b \<Rightarrow> (Inr required,
            audit_log ''BUSINESS_UPDATED'' (Some (a_userId actor)) (Some (c_tenantId b)) (Some (c_id b)) (a_ip actor)
              (Some ''business'') (Some (c_id b)) False
              (s\<lparr>businesses := update_rows (\<lambda>c. c_id c = businessId) (\<lambda>c. c\<lparr>c_technicianApprovalRequired := required\<rparr>)
                 (businesses s)\<rparr>)))"

section \<open>Groups\<close>

definition listGroups :: "(string \<Rightarrow> int) \<Rightarrow> db \<Rightarrow> actor \<Rightarrow> (tech_group_row \<times> group_member_row list \<times> assignment_row list) list result" where
  "listGroups collate s actor = (case assertManager actor of
     Inl e \<Rightarrow> Inl e
   | Inr _ \<Rightarrow> Inr (map (\<lambda>g. (g, filter (\<lambda>m. gm_groupId m = tg_id g) (groupMembers s),
       filter (\<lambda>a. ta_groupId a = Some (tg_id g) \<and> ta_revokedAt a = None) (assignments s)))
       (sort_key (\<lambda>g. collate (tg_name g)) (techGroups s))))"

text \<open>The oldest tenant, which is the platform's container.\<close>

definition platform_tenant :: "db \<Rightarrow> id result" where
  "platform_tenant s = (case sort_key t_createdAt (tenants s) of
     [] \<Rightarrow> Inl (BadRequest ''No platform container'') | t # _ \<Rightarrow> Inr (t_id t))"

record group_input =
  gi_name :: string
  gi_description :: "string option"
  gi_capabilities :: "string list option"

definition createGroup :: "id \<Rightarrow> actor \<Rightarrow> group_input \<Rightarrow> db \<Rightarrow> tech_group_row result \<times> db" where
  "createGroup i actor inp s = (case assertManager actor of
     Inl e \<Rightarrow> (Inl e, s)
   | Inr _ \<Rightarrow> (case platform_tenant s of
       Inl e \<Rightarrow> (Inl e, s)
     | Inr t \<Rightarrow>
         let g = \<lparr>tg_id = i, tg_tenantId = t, tg_name = take 100 (js_trim (gi_name inp)),
               tg_description = map_option (take 500) (gi_description inp),
               tg_capabilities = sanitized (gi_capabilities inp), tg_createdById = Some (a_userId actor)\<rparr>
         in if list_ex (\<lambda>q. tg_tenantId q = t \<and> tg_name q = tg_name g) (techGroups s)
         then (Inl (ServerError ''Unique constraint failed''), s)
         else (Inr g, audit_log ''TECHNICIAN_GROUP_CREATED'' (Some (a_userId actor)) (Some t) None (a_ip actor)
           (Some ''technician_group'') (Some i) False (s\<lparr>techGroups := techGroups s @ [g]\<rparr>))))"

record group_update =
  gu_name :: "string option"
  gu_description :: "string option"
  gu_capabilities :: "string list option"

definition updated_group :: "group_update \<Rightarrow> tech_group_row \<Rightarrow> tech_group_row" where
  "updated_group inp g = g\<lparr>
     tg_name := (if truthy (gu_name inp) then take 100 (js_trim (the (gu_name inp))) else tg_name g),
     tg_description := (case gu_description inp of None \<Rightarrow> tg_description g | Some d \<Rightarrow> Some (take 500 d)),
     tg_capabilities := (case gu_capabilities inp of None \<Rightarrow> tg_capabilities g | Some cs \<Rightarrow> sanitized (Some cs))\<rparr>"

definition updateGroup :: "actor \<Rightarrow> id \<Rightarrow> group_update \<Rightarrow> db \<Rightarrow> tech_group_row result \<times> db" where
  "updateGroup actor i inp s = (case assertManager actor of
     Inl e \<Rightarrow> (Inl e, s)
   | Inr _ \<Rightarrow> (case find_row (\<lambda>g. tg_id g = i) (techGroups s) of
       None \<Rightarrow> (Inl (ServerError ''Record to update not found''), s)
     | Some g0 \<Rightarrow>
         let g = updated_group inp g0 in
         if list_ex (\<lambda>q. tg_id q \<noteq> i \<and> tg_tenantId q = tg_tenantId g \<and> tg_name q = tg_name g) (techGroups s)
         then (Inl (ServerError ''Unique constraint failed''), s)
         else (Inr g, audit_log ''TECHNICIAN_GROUP_UPDATED'' (Some (a_userId actor)) (Some (tg_tenantId g)) None (a_ip actor)
           (Some ''technician_group'') (Some (tg_id g)) False
           (s\<lparr>techGroups := update_rows (\<lambda>q. tg_id q = i) (updated_group inp) (techGroups s)\<rparr>))))"

text \<open>Deleting a group takes its members and assignments with it (\<open>onDelete: Cascade\<close>).\<close>

definition deleteGroup :: "actor \<Rightarrow> id \<Rightarrow> db \<Rightarrow> unit result \<times> db" where
  "deleteGroup actor i s = (case assertManager actor of
     Inl e \<Rightarrow> (Inl e, s)
   | Inr _ \<Rightarrow> (case find_row (\<lambda>g. tg_id g = i) (techGroups s) of
       None \<Rightarrow> (Inl (ServerError ''Record to delete does not exist''), s)
     | Some g \<Rightarrow> (Inr (),
         audit_log ''TECHNICIAN_GROUP_DELETED'' (Some (a_userId actor)) (Some (tg_tenantId g)) None (a_ip actor)
           (Some ''technician_group'') (Some i) False
           (s\<lparr>techGroups := delete_rows (\<lambda>q. tg_id q = i) (techGroups s),
              groupMembers := delete_rows (\<lambda>m. gm_groupId m = i) (groupMembers s),
              assignments := delete_rows (\<lambda>a. ta_groupId a = Some i) (assignments s)\<rparr>))))"

definition addMember :: "actor \<Rightarrow> id \<Rightarrow> id \<Rightarrow> db \<Rightarrow> group_member_row result \<times> db" where
  "addMember actor groupId userId s = (case assertManager actor of
     Inl e \<Rightarrow> (Inl e, s)
   | Inr _ \<Rightarrow> (case user_by_id s userId of
       None \<Rightarrow> (Inl (NotFound ''User not found''), s)
     | Some u \<Rightarrow>
         if u_status u = U_DELETED then (Inl (NotFound ''User not found''), s)
         else if find_row (\<lambda>g. tg_id g = groupId) (techGroups s) = None
         then (Inl (ServerError ''Foreign key constraint violated''), s)
         else
           let old = find_row (\<lambda>m. gm_groupId m = groupId \<and> gm_userId m = userId) (groupMembers s);
               m = (case old of Some x \<Rightarrow> x
                    | None \<Rightarrow> \<lparr>gm_groupId = groupId, gm_userId = userId, gm_addedById = Some (a_userId actor)\<rparr>)
           in (Inr m, audit_log ''TECHNICIAN_GROUP_MEMBER_ADDED'' (Some (a_userId actor)) None None (a_ip actor)
                 (Some ''technician_group'') (Some groupId) False
                 (if old = None then s\<lparr>groupMembers := groupMembers s @ [m]\<rparr> else s))))"

definition removeMember :: "time \<Rightarrow> actor \<Rightarrow> id \<Rightarrow> id \<Rightarrow> db \<Rightarrow> unit result \<times> db" where
  "removeMember now actor groupId userId s = (case assertManager actor of
     Inl e \<Rightarrow> (Inl e, s)
   | Inr _ \<Rightarrow> (Inr (),
       audit_log ''TECHNICIAN_GROUP_MEMBER_REMOVED'' (Some (a_userId actor)) None None (a_ip actor)
         (Some ''technician_group'') (Some groupId) False
         (revoke_tokens now [userId]
           (s\<lparr>groupMembers := delete_rows (\<lambda>m. gm_groupId m = groupId \<and> gm_userId m = userId) (groupMembers s)\<rparr>))))"

section \<open>People\<close>

record technician_row =
  tr_user :: user_row
  tr_ownBusiness :: "id option"
  tr_ownRole :: "role_type option"
  tr_groups :: "id list"

definition technician_of :: "db \<Rightarrow> user_row \<Rightarrow> technician_row" where
  "technician_of s u =
     (let m = active_membership s (u_id u) in
      \<lparr>tr_user = u, tr_ownBusiness = Option.bind m m_customerId, tr_ownRole = map_option m_roleType m,
       tr_groups = map gm_groupId (filter (\<lambda>g. gm_userId g = u_id u) (groupMembers s))\<rparr>)"

definition listTechnicians :: "(string \<Rightarrow> int) \<Rightarrow> db \<Rightarrow> actor \<Rightarrow> technician_row list result" where
  "listTechnicians collate s actor = (case assertManager actor of
     Inl e \<Rightarrow> Inl e
   | Inr _ \<Rightarrow> Inr (map (technician_of s) (take 1000 (sort_key (\<lambda>u. collate (u_email u))
       (filter (\<lambda>u. u_status u \<in> {U_ACTIVE, U_SUSPENDED} \<and> \<not> u_isPlatformAdmin u) (users s))))))"

definition effectiveFor ::
  "zone_db \<Rightarrow> db \<Rightarrow> time \<Rightarrow> actor \<Rightarrow> id \<Rightarrow> (business_scope list \<times> inactive_grant list) result" where
  "effectiveFor tz s now actor userId = (case assertManager actor of
     Inl e \<Rightarrow> Inl e
   | Inr _ \<Rightarrow> (case resolve tz s userId now of (scopes, inactive) \<Rightarrow> Inr (map snd scopes, inactive)))"

definition setPlatformPermissions :: "actor \<Rightarrow> id \<Rightarrow> json \<Rightarrow> db \<Rightarrow> string list result \<times> db" where
  "setPlatformPermissions actor userId perms s = (case assertPlatformAdmin actor of
     Inl e \<Rightarrow> (Inl e, s)
   | Inr _ \<Rightarrow>
     let clean = sanitizePlatformPermissions perms in
     (case user_by_id s userId of
        None \<Rightarrow> (Inl (NotFound ''User not found''), s)
      | Some before \<Rightarrow> (Inr clean,
          audit_log ''PLATFORM_PERMISSIONS_CHANGED'' (Some (a_userId actor)) None None (a_ip actor) (Some ''user'')
            (Some userId) False
            (s\<lparr>users := update_rows (\<lambda>u. u_id u = userId) (\<lambda>u. u\<lparr>u_platformPermissions := clean\<rparr>) (users s)\<rparr>))))"

section \<open>What an approval may change\<close>

text \<open>\<open>q\<close> grants no more than \<open>a\<close>: capabilities, computers and end time only shrink.\<close>

definition no_wider :: "assignment_row \<Rightarrow> assignment_row \<Rightarrow> bool" where
  "no_wider q a \<longleftrightarrow>
     (ta_capabilities a = [] \<or> set (ta_capabilities q) \<subseteq> set (ta_capabilities a))
     \<and> (ta_endpointIds a = [] \<or> ta_endpointIds q \<noteq> [] \<and> set (ta_endpointIds q) \<subseteq> set (ta_endpointIds a))
     \<and> (\<forall>t. ta_expiresAt a = Some t \<longrightarrow> (\<exists>e \<le> t. ta_expiresAt q = Some e))
     \<and> ta_startsAt q = ta_startsAt a \<and> ta_schedule q = ta_schedule a \<and> ta_customerId q = ta_customerId a
     \<and> ta_userId q = ta_userId a \<and> ta_groupId q = ta_groupId a"

lemma no_wider_refl [simp]: "no_wider a a"
  by (auto simp: no_wider_def)

lemma narrowed_capabilities_subset:
  "narrowed_capabilities a g = Inr (Some cs) \<Longrightarrow> ta_capabilities a = [] \<or> set cs \<subseteq> set (ta_capabilities a)"
  by (auto simp: narrowed_capabilities_def Let_def list_ex_iff split: option.split_asm if_split_asm)

lemma narrowed_endpoints_subset:
  "narrowed_endpoints s a g = Inr (Some es) \<Longrightarrow> g \<noteq> Some [] \<Longrightarrow>
   ta_endpointIds a = [] \<or> es \<noteq> [] \<and> set es \<subseteq> set (ta_endpointIds a)"
  by (auto simp: narrowed_endpoints_def Let_def list_ex_iff split: option.split_asm if_split_asm sum.split_asm)

lemma narrowed_expiry_earlier:
  "narrowed_expiry date_of a g = Inr (Some e) \<Longrightarrow> ta_expiresAt a = Some t \<Longrightarrow> e \<le> t"
  by (auto simp: narrowed_expiry_def split: option.split_asm if_split_asm)

lemma decided_columns_cases:
  assumes "decided_columns date_of s a inp = Inr cols"
  shows "(\<forall>cs. nw_capabilities cols = Some cs \<longrightarrow> narrowed_capabilities a (di_capabilities inp) = Inr (Some cs))
    \<and> (\<forall>es. nw_endpointIds cols = Some es \<longrightarrow> narrowed_endpoints s a (di_endpointIds inp) = Inr (Some es))
    \<and> (\<forall>e. nw_expiresAt cols = Some e \<longrightarrow> narrowed_expiry date_of a (di_expiresAt inp) = Inr (Some e))"
  using assms by (auto simp: decided_columns_def split: sum.split_asm if_split_asm)

lemma decided_row_no_wider:
  assumes "decided_columns date_of s a inp = Inr cols" "di_endpointIds inp \<noteq> Some []"
  shows "no_wider (decided_row now actor inp cols a) a"
proof -
  note c = decided_columns_cases[OF assms(1)]
  show ?thesis
    using c narrowed_capabilities_subset[of a "di_capabilities inp"]
      narrowed_endpoints_subset[of s a "di_endpointIds inp", OF _ assms(2)]
      narrowed_expiry_earlier[of date_of a "di_expiresAt inp"]
    by (cases "nw_capabilities cols"; cases "nw_endpointIds cols"; cases "nw_expiresAt cols")
      (auto simp: no_wider_def decided_row_def)
qed

text \<open>A decision that is answered: who made it, and the one row it wrote.\<close>

lemma decide_Inr:
  assumes "decide date_of now actor i inp s = (Inr r, s')"
  shows "\<exists>a cols. find_row (\<lambda>a. ta_id a = i) (assignments s) = Some a
    \<and> ta_approvalStatus a = AP_PENDING \<and> ta_revokedAt a = None
    \<and> (a_isPlatformAdmin actor \<or> a_technician actor = None \<and> isOwnerRole (a_roleType actor)
        \<and> a_businessId actor = Some (ta_customerId a))
    \<and> ta_requestedById a \<noteq> Some (a_userId actor)
    \<and> decided_columns date_of s a inp = Inr cols
    \<and> assignments s' = update_rows (\<lambda>q. ta_id q = i \<and> ta_approvalStatus q = AP_PENDING)
        (decided_row now actor inp cols) (assignments s)"
proof -
  obtain a where a: "find_row (\<lambda>a. ta_id a = i) (assignments s) = Some a"
    using assms by (auto simp: decide_def split: option.split_asm)
  obtain cols where c: "decided_columns date_of s a inp = Inr cols"
    using assms a by (auto simp: decide_def split: if_split_asm sum.split_asm)
  have "assignments s' = update_rows (\<lambda>q. ta_id q = i \<and> ta_approvalStatus q = AP_PENDING)
        (decided_row now actor inp cols) (assignments s)"
    using assms a c by (auto simp: decide_def claim_rows_def Let_def split: if_split_asm)
  with a c assms show ?thesis by (auto simp: decide_def split: if_split_asm)
qed

interpretation decision: single_use ta_id "\<lambda>(p :: time \<times> actor \<times> decision_input \<times> narrowing) a. ta_approvalStatus a = AP_PENDING"
  "\<lambda>(now, actor, inp, cols). decided_row now actor inp cols"
  by unfold_locales (auto simp: decided_row_def split: if_split_asm)

section \<open>Pending requests and the scope of a technician\<close>

lemma resolve_step_pending:
  "ta_approvalStatus a = AP_PENDING \<Longrightarrow> fst (resolve_step tz s now (sc, ina) (a, c)) = sc"
  by (simp add: resolve_step_def inactive_because_def)

lemma resolve_step_fst:
  "fst (resolve_step tz s now (sc, ina) x) = fst (resolve_step tz s now (sc, ina') x)"
  by (auto simp: resolve_step_def split: prod.split option.split)

lemma foldl_resolve_pending:
  "fst (foldl (resolve_step tz s now) acc gs)
   = fst (foldl (resolve_step tz s now) acc (filter (\<lambda>(a, c). ta_approvalStatus a \<noteq> AP_PENDING) gs))"
proof (induction gs arbitrary: acc)
  case Nil
  then show ?case by simp
next
  case (Cons g gs)
  obtain a c where g: "g = (a, c)" by (cases g)
  obtain sc ina where acc: "acc = (sc, ina)" by (cases acc)
  have eq: "fst (foldl (resolve_step tz s now) (x, i) hs) = fst (foldl (resolve_step tz s now) (x, j) hs)" for x i j hs
  proof (induction hs arbitrary: x i j)
    case Nil
    then show ?case by simp
  next
    case (Cons h hs)
    have "fst (resolve_step tz s now (x, i) h) = fst (resolve_step tz s now (x, j) h)" by (rule resolve_step_fst)
    then show ?case using Cons by (metis foldl_Cons prod.collapse)
  qed
  show ?case
  proof (cases "ta_approvalStatus a = AP_PENDING")
    case True
    then have "fst (resolve_step tz s now (sc, ina) (a, c)) = sc" by (rule resolve_step_pending)
    then have "fst (foldl (resolve_step tz s now) acc (g # gs)) = fst (foldl (resolve_step tz s now) acc gs)"
      unfolding g acc foldl_Cons using eq by (metis prod.collapse)
    with Cons True g show ?thesis by simp
  next
    case False
    with Cons g show ?thesis by simp
  qed
qed

definition live_grants :: "db \<Rightarrow> id \<Rightarrow> (assignment_row \<times> business_row) list" where
  "live_grants s u = filter (\<lambda>(a, c). ta_approvalStatus a \<noteq> AP_PENDING) (loadGrants s u)"

lemma live_grants_eq:
  "live_grants s u = concat (map (\<lambda>a. case business_of s (ta_customerId a) of None \<Rightarrow> [] | Some c \<Rightarrow> [(a, c)])
     (sort_key ta_createdAt (filter (\<lambda>a. ta_approvalStatus a \<noteq> AP_PENDING)
        (filter (\<lambda>a. ta_revokedAt a = None \<and> holds_assignment s u a) (assignments s)))))"
proof -
  have "filter (\<lambda>(a, c). ta_approvalStatus a \<noteq> AP_PENDING)
        (concat (map (\<lambda>a. case business_of s (ta_customerId a) of None \<Rightarrow> [] | Some c \<Rightarrow> [(a, c)]) xs))
      = concat (map (\<lambda>a. case business_of s (ta_customerId a) of None \<Rightarrow> [] | Some c \<Rightarrow> [(a, c)])
          (filter (\<lambda>a. ta_approvalStatus a \<noteq> AP_PENDING) xs))" for xs
    by (induction xs) (auto split: option.splits)
  then show ?thesis by (simp only: live_grants_def loadGrants_def filter_sort[symmetric])
qed

lemma resolve_live: "fst (resolve tz s u now) = fst (foldl (resolve_step tz s now) ([], []) (live_grants s u))"
  unfolding resolve_def live_grants_def by (rule foldl_resolve_pending)

lemma resolve_cong:
  assumes "live_grants s' u = live_grants s u" "techGroups s' = techGroups s"
  shows "fst (resolve tz s' u now) = fst (resolve tz s u now)"
proof -
  have g: "group_of s' a = group_of s a" for a
    by (simp add: group_of_def assms(2) split: option.split)
  then have "grant_capabilities s' a = grant_capabilities s a" for a
    by (simp add: grant_capabilities_def)
  with g have "toSource tz s' a = toSource tz s a" for a
    by (simp add: toSource_def)
  then have "resolve_step tz s' now = resolve_step tz s now"
    by (intro ext) (simp add: resolve_step_def split: prod.split option.split)
  then show ?thesis by (simp add: resolve_live assms(1))
qed

lemma checked_assignment_row:
  assumes "checked_assignment date_of tz now i actor inp selfRequest s = Inr row"
  shows "\<exists>business groupCaps dates sc. business_of s (ai_businessId inp) = Some business \<and> \<not> c_isArchived business
    \<and> chosen_capabilities (ai_capabilities inp) groupCaps \<noteq> []
    \<and> assertEndpointsInBusiness s (c_id business)
        (js_set (case ai_endpointIds inp of None \<Rightarrow> [] | Some xs \<Rightarrow> xs)) = Inr ()
    \<and> row = new_assignment i now actor business inp selfRequest (chosen_capabilities (ai_capabilities inp) groupCaps)
        (js_set (case ai_endpointIds inp of None \<Rightarrow> [] | Some xs \<Rightarrow> xs)) dates sc"
  using assms unfolding checked_assignment_def
  by (auto simp: Let_def split: if_split_asm option.split_asm sum.split_asm)

lemma createAssignment_Inr:
  assumes "createAssignment date_of tz now i actor inp selfRequest s = (Inr row, s')"
  shows "checked_assignment date_of tz now i actor inp selfRequest s = Inr row
    \<and> (\<not> selfRequest \<longrightarrow> assertManager actor = Inr ())
    \<and> assignments s' = assignments s @ [row] \<and> techGroups s' = techGroups s \<and> groupMembers s' = groupMembers s
    \<and> businesses s' = businesses s"
  using assms by (auto simp: createAssignment_def split: sum.split_asm if_split_asm)

section \<open>Properties\<close>

text \<open>
  Approval never widens: whoever decides a pending request is a platform admin or an owner
  of that business acting at home, and not the requester; no assignment ends up with more
  capabilities, more computers or a later end than it had, unless the approver sends an empty
  list of computers.
\<close>

theorem approval_never_widens:
  assumes "decide date_of now actor i inp s = (Inr r, s')" "distinct (map ta_id (assignments s))"
    and "di_endpointIds inp \<noteq> Some []"
  shows "(\<exists>a. find_row (\<lambda>a. ta_id a = i) (assignments s) = Some a \<and> ta_requestedById a \<noteq> Some (a_userId actor)
      \<and> (a_isPlatformAdmin actor \<or> a_technician actor = None \<and> isOwnerRole (a_roleType actor)
          \<and> a_businessId actor = Some (ta_customerId a)))
    \<and> list_all2 no_wider (assignments s') (assignments s)"
proof -
  obtain a cols where a: "find_row (\<lambda>a. ta_id a = i) (assignments s) = Some a"
    and auth: "a_isPlatformAdmin actor \<or> a_technician actor = None \<and> isOwnerRole (a_roleType actor)
        \<and> a_businessId actor = Some (ta_customerId a)" "ta_requestedById a \<noteq> Some (a_userId actor)"
    and c: "decided_columns date_of s a inp = Inr cols"
    and w: "assignments s' = update_rows (\<lambda>q. ta_id q = i \<and> ta_approvalStatus q = AP_PENDING)
        (decided_row now actor inp cols) (assignments s)"
    using decide_Inr[OF assms(1)] by blast
  have "q = a" if "q \<in> set (assignments s)" "ta_id q = i" for q
    using find_unique[OF assms(2) that(1)] that(2) a by simp
  then have "list_all2 no_wider (assignments s') (assignments s)"
    unfolding w update_rows_def list.rel_map
    using decided_row_no_wider[OF c assms(3)] by (intro list.rel_refl_strong) auto
  with a auth show ?thesis by blast
qed

definition pending_assignment :: "id list \<Rightarrow> assignment_row" where
  "pending_assignment eps = \<lparr>ta_id = ''a1'', ta_tenantId = ''t1'', ta_customerId = ''b1'', ta_userId = Some ''u1'',
     ta_groupId = None, ta_capabilities = [CAP_COMPUTERS_VIEW, CAP_COMPUTERS_CONNECT], ta_endpointIds = eps,
     ta_startsAt = None, ta_expiresAt = Some 100, ta_schedule = JNull, ta_reason = None, ta_approvalStatus = AP_PENDING,
     ta_requestedById = Some ''u1'', ta_decidedById = None, ta_decidedAt = None, ta_decisionNote = None,
     ta_createdById = Some ''u1'', ta_createdAt = 0, ta_revokedAt = None, ta_revokedById = None,
     ta_revokeReason = None, ta_expiryAuditedAt = None\<rparr>"

definition owner_actor :: actor where
  "owner_actor = \<lparr>a_userId = ''u2'', a_email = [], a_tenantId = Some ''t1'', a_businessId = Some ''b1'',
     a_isPlatformAdmin = False, a_roleType = Some BUSINESS_OWNER, a_capabilities = ALL_BUSINESS_CAPABILITIES, a_ip = None,
     a_ownBusinessId = Some ''b1'', a_technician = None, a_assignedBusinessIds = [], a_platformPermissions = []\<rparr>"

definition approve :: "id list option \<Rightarrow> decision_input" where
  "approve eps = \<lparr>di_approve = True, di_note = None, di_capabilities = None, di_endpointIds = eps, di_expiresAt = None\<rparr>"

lemma demo_decide:
  "\<exists>r s'. decide (\<lambda>d. None) 5 owner_actor ''a1'' (approve None) (empty_db\<lparr>assignments := [pending_assignment [''e1'']]\<rparr>) = (Inr r, s')"
  by (simp add: decide_def owner_actor_def approve_def pending_assignment_def empty_db_def decided_columns_def
      narrowed_capabilities_def narrowed_endpoints_def narrowed_expiry_def claim_rows_def isOwnerRole_def
      LEGACY_OWNER_ROLES_def Let_def)

theorem approval_never_widens_witness:
  "\<exists>r s'. decide (\<lambda>d. None) 5 owner_actor ''a1'' (approve None) (empty_db\<lparr>assignments := [pending_assignment [''e1'']]\<rparr>) = (Inr r, s')
     \<and> list_all2 no_wider (assignments s') [pending_assignment [''e1'']]"
proof -
  obtain r s' where d: "decide (\<lambda>d. None) 5 owner_actor ''a1'' (approve None)
      (empty_db\<lparr>assignments := [pending_assignment [''e1'']]\<rparr>) = (Inr r, s')" using demo_decide by blast
  from approval_never_widens[OF d] d show ?thesis by (auto simp: approve_def)
qed

text \<open>
  With an empty list of computers it does widen: an owner who approves a request limited to
  some computers and sends an empty list turns it into access to every computer of the
  business.
\<close>

theorem empty_selection_widens:
  assumes "find_row (\<lambda>a. ta_id a = i) (assignments s) = Some a" "ta_approvalStatus a = AP_PENDING" "ta_revokedAt a = None"
    and "a_technician actor = None" "isOwnerRole (a_roleType actor)" "a_businessId actor = Some (ta_customerId a)"
    and "ta_requestedById a \<noteq> Some (a_userId actor)" "ta_userId a \<noteq> Some (a_userId actor)"
    and "ta_endpointIds a \<noteq> []"
  shows "\<exists>q s'. decide date_of now actor i (approve (Some [])) s = (Inr (Some q), s')
    \<and> ta_approvalStatus q = AP_APPROVED \<and> ta_endpointIds q = [] \<and> ta_customerId q = ta_customerId a"
proof -
  let ?c = "\<lparr>nw_capabilities = None, nw_endpointIds = Some [], nw_expiresAt = None\<rparr>"
  let ?f = "decided_row now actor (approve (Some [])) ?c"
  have c: "decided_columns date_of s a (approve (Some [])) = Inr ?c"
    using assms(9) by (simp add: decided_columns_def approve_def narrowed_capabilities_def narrowed_endpoints_def
        narrowed_expiry_def assertEndpointsInBusiness_def)
  have m: "a \<in> set (assignments s)" "ta_id a = i" using find_row_Some[OF assms(1)] by auto
  have n: "count_rows (\<lambda>q. ta_id q = i \<and> ta_approvalStatus q = AP_PENDING) (assignments s) \<noteq> 0"
    using m assms(2) by auto
  have f: "find_row (\<lambda>q. ta_id q = i) (update_rows (\<lambda>q. ta_id q = i \<and> ta_approvalStatus q = AP_PENDING) ?f (assignments s))
      = Some (?f a)"
    using find_row_update[of ta_id ?f i "\<lambda>q. ta_id q = i \<and> ta_approvalStatus q = AP_PENDING" "assignments s"] assms(1,2) m(2)
    by (simp add: decided_row_def)
  have "\<exists>s'. decide date_of now actor i (approve (Some [])) s = (Inr (find_row (\<lambda>q. ta_id q = i)
      (update_rows (\<lambda>q. ta_id q = i \<and> ta_approvalStatus q = AP_PENDING) ?f (assignments s))), s')"
    unfolding decide_def assms(1) using assms(2-8) n
    by (simp add: c claim_rows_def Let_def del: count_rows_zero)
  then have "\<exists>s'. decide date_of now actor i (approve (Some [])) s = (Inr (Some (?f a)), s')" unfolding f .
  then show ?thesis by (auto simp: decided_row_def approve_def)
qed

theorem empty_selection_widens_witness:
  "\<exists>q s'. decide (\<lambda>d. None) 5 owner_actor ''a1'' (approve (Some [])) (empty_db\<lparr>assignments := [pending_assignment [''e1'']]\<rparr>)
     = (Inr (Some q), s') \<and> ta_endpointIds q = []"
  using empty_selection_widens[of "''a1''" "empty_db\<lparr>assignments := [pending_assignment [''e1'']]\<rparr>"
      "pending_assignment [''e1'']" owner_actor "\<lambda>d. None" 5]
  by (auto simp: pending_assignment_def owner_actor_def isOwnerRole_def LEGACY_OWNER_ROLES_def)

text \<open>
  Asking for access gives nothing: after a request for access to a business, everybody's
  technician scopes are at every instant what they were before, until somebody decides.
\<close>

theorem request_grants_nothing:
  assumes "requestAccess date_of tz now i actor inp s = (Inr row, s')"
  shows "scopeFor tz' s' u b t = scopeFor tz' s u b t"
proof -
  have c: "createAssignment date_of tz now i actor (inp\<lparr>ai_userId := Some (a_userId actor), ai_groupId := None\<rparr>) True s = (Inr row, s')"
    using assms by (auto simp: requestAccess_def Let_def split: if_split_asm)
  note k = createAssignment_Inr[OF c]
  have p: "ta_approvalStatus row = AP_PENDING"
    using checked_assignment_row[OF conjunct1[OF k]] by (auto simp: new_assignment_def)
  have h: "holds_assignment s' u = holds_assignment s u" "business_of s' = business_of s"
    using k by (simp_all add: fun_eq_iff holds_assignment_def is_member_def business_of_def cong: option.case_cong)
  have "live_grants s' u = live_grants s u"
    unfolding live_grants_eq h using k p by simp
  with k show ?thesis unfolding scopeFor_def using resolve_cong by metis
qed

definition demo_ask :: assignment_input where
  "demo_ask = \<lparr>ai_userId = None, ai_groupId = None, ai_businessId = ''b1'', ai_capabilities = Some [CAP_COMPUTERS_VIEW],
     ai_endpointIds = None, ai_startsAt = None, ai_expiresAt = Some ''d'', ai_schedule = JNull, ai_reason = None\<rparr>"

lemma demo_ask_caps: "sanitized (Some [CAP_COMPUTERS_VIEW]) = [CAP_COMPUTERS_VIEW]"
  by code_simp

lemma demo_ask_checked:
  "\<exists>row. checked_assignment (\<lambda>d. Some 100) (\<lambda>z. None) 5 ''a2'' who' (demo_ask\<lparr>ai_userId := Some ''u1'', ai_groupId := None\<rparr>)
     self technician_db = Inr row"
proof -
  have b: "business_of technician_db ''b1'' = Some (one_business ''b1'')" "\<not> c_isArchived (one_business ''b1'')"
    by (simp_all add: technician_db_def one_business_def business_of_def)
  have u: "check_assignee technician_db (Some ''u1'') = Inr ()"
    by (simp add: check_assignee_def technician_db_def user_by_id_def plain_user_def)
  show ?thesis
    by (simp add: checked_assignment_def demo_ask_def b u group_defaults_def chosen_capabilities_def demo_ask_caps
        assertEndpointsInBusiness_def parseDates_def parseScheduleOr400_def parseSchedule_def json_nullish_def Let_def)
qed

theorem request_grants_nothing_witness:
  "\<exists>row s'. requestAccess (\<lambda>d. Some 100) (\<lambda>z. None) 5 ''a2'' (owner_actor\<lparr>a_userId := ''u1''\<rparr>) demo_ask technician_db = (Inr row, s')
     \<and> scopeFor (\<lambda>z. None) s' ''u1'' ''b1'' 0 = scopeFor (\<lambda>z. None) technician_db ''u1'' ''b1'' 0"
proof -
  have "count_rows (\<lambda>a. ta_userId a = Some ''u1'') (assignments technician_db) \<noteq> 0"
    by (simp add: technician_db_def one_assignment_def)
  moreover have "truthy (ai_expiresAt demo_ask)" by (simp add: demo_ask_def)
  moreover have "a_userId (owner_actor\<lparr>a_userId := ''u1''\<rparr>) = ''u1''" by simp
  ultimately have "\<exists>row s'. requestAccess (\<lambda>d. Some 100) (\<lambda>z. None) 5 ''a2'' (owner_actor\<lparr>a_userId := ''u1''\<rparr>) demo_ask technician_db
      = (Inr row, s')"
    using demo_ask_checked[of "owner_actor\<lparr>a_userId := ''u1''\<rparr>" True]
    by (auto simp: requestAccess_def createAssignment_def Let_def simp del: count_rows_zero)
  with request_grants_nothing show ?thesis by blast
qed

lemma assertEndpointsInBusiness_found:
  assumes "assertEndpointsInBusiness s b es = Inr ()" "distinct (map e_id (endpoints s))" "e \<in> set es"
  shows "\<exists>r \<in> set (endpoints s). e_id r = e \<and> e_customerId r = Some b"
proof -
  let ?hits = "filter (\<lambda>r. e_id r \<in> set es \<and> e_customerId r = Some b) (endpoints s)"
  have "length ?hits = card (set es)"
    using assms(1,3) by (auto simp: assertEndpointsInBusiness_def count_rows_def length_js_set split: if_split_asm)
  moreover have "card (e_id ` set ?hits) = length ?hits"
    using distinct_card[OF distinct_map_filter[OF assms(2)], of "\<lambda>r. e_id r \<in> set es \<and> e_customerId r = Some b"]
    by (simp only: set_map length_map)
  moreover have "e_id ` set ?hits \<subseteq> set es" by auto
  ultimately have "e_id ` set ?hits = set es" by (metis List.finite_set card_subset_eq)
  with assms(3) have "e \<in> e_id ` set ?hits" by simp
  then show ?thesis by auto
qed

lemma sanitized_bound: "CAP_USERS_MANAGE \<notin> set (sanitized xs)"
  using technician_sanitize unfolding sanitized_def by blast

text \<open>
  An assignment a manager creates is sound: the manager holds the platform permission and
  acts in their own context; the assignment goes to exactly one user or group, carries at least
  one capability and never user management, names only computers of its business, and waits
  for approval where the business wants that.
\<close>

theorem created_assignment_is_sound:
  assumes "createAssignment date_of tz now i actor inp False s = (Inr row, s')" "distinct (map e_id (endpoints s))"
  shows "hasPlatformPermission actor TECHNICIANS_MANAGE \<and> a_technician actor = None
    \<and> truthy (ta_userId row) \<noteq> truthy (ta_groupId row)
    \<and> ta_capabilities row \<noteq> [] \<and> CAP_USERS_MANAGE \<notin> set (ta_capabilities row)
    \<and> (\<forall>e \<in> set (ta_endpointIds row). \<exists>r \<in> set (endpoints s). e_id r = e \<and> e_customerId r = Some (ta_customerId row))
    \<and> (\<exists>c. business_of s (ta_customerId row) = Some c \<and> \<not> c_isArchived c
        \<and> ta_approvalStatus row = (if c_technicianApprovalRequired c then AP_PENDING else AP_NOT_REQUIRED))
    \<and> assignments s' = assignments s @ [row]"
proof -
  note k = createAssignment_Inr[OF assms(1)]
  obtain business groupCaps dates sc where r: "business_of s (ai_businessId inp) = Some business" "\<not> c_isArchived business"
    "chosen_capabilities (ai_capabilities inp) groupCaps \<noteq> []"
    "assertEndpointsInBusiness s (c_id business) (js_set (case ai_endpointIds inp of None \<Rightarrow> [] | Some xs \<Rightarrow> xs)) = Inr ()"
    "row = new_assignment i now actor business inp False (chosen_capabilities (ai_capabilities inp) groupCaps)
        (js_set (case ai_endpointIds inp of None \<Rightarrow> [] | Some xs \<Rightarrow> xs)) dates sc"
    using checked_assignment_row[OF conjunct1[OF k]] by blast
  have b: "c_id business = ai_businessId inp" using r(1) by (auto simp: business_of_def dest: find_row_Some)
  have "assertManager actor = Inr ()" using k by simp
  then have m: "hasPlatformPermission actor TECHNICIANS_MANAGE" "a_technician actor = None"
    by (auto simp: assertManager_def assertPlatformPermission_def split: sum.split_asm if_split_asm)
  have one: "truthy (ta_userId row) \<noteq> truthy (ta_groupId row)"
    using k r(5) by (auto simp: checked_assignment_def new_assignment_def split: if_split_asm)
  have caps: "CAP_USERS_MANAGE \<notin> set (ta_capabilities row)"
    using sanitized_bound by (simp add: r(5) new_assignment_def chosen_capabilities_def)
  have eps: "\<exists>x \<in> set (endpoints s). e_id x = e \<and> e_customerId x = Some (ta_customerId row)"
    if "e \<in> set (ta_endpointIds row)" for e
    using assertEndpointsInBusiness_found[OF r(4) assms(2), of e] that by (simp add: r(5) new_assignment_def)
  have ap: "business_of s (ta_customerId row) = Some business"
    "ta_approvalStatus row = (if c_technicianApprovalRequired business then AP_PENDING else AP_NOT_REQUIRED)"
    "ta_capabilities row \<noteq> []"
    using r(1,3) b by (simp_all add: r(5) new_assignment_def)
  have "assignments s' = assignments s @ [row]" using k by simp
  with m one caps ap r(2) eps show ?thesis by blast
qed

theorem created_assignment_is_sound_witness:
  "\<exists>row s'. createAssignment (\<lambda>d. Some 100) (\<lambda>z. None) 5 ''a2'' (owner_actor\<lparr>a_platformPermissions := [TECHNICIANS_MANAGE]\<rparr>)
      (demo_ask\<lparr>ai_userId := Some ''u1'', ai_groupId := None\<rparr>) False technician_db = (Inr row, s')
    \<and> CAP_USERS_MANAGE \<notin> set (ta_capabilities row)"
proof -
  let ?a = "owner_actor\<lparr>a_platformPermissions := [TECHNICIANS_MANAGE]\<rparr>"
  have m: "assertManager ?a = Inr ()"
    by (simp add: assertManager_def assertPlatformPermission_def hasPlatformPermission_def owner_actor_def)
  have "\<exists>row s'. createAssignment (\<lambda>d. Some 100) (\<lambda>z. None) 5 ''a2'' ?a
      (demo_ask\<lparr>ai_userId := Some ''u1'', ai_groupId := None\<rparr>) False technician_db = (Inr row, s')"
    using demo_ask_checked[of ?a False] by (auto simp: createAssignment_def m)
  moreover have "distinct (map e_id (endpoints technician_db))" by (simp add: technician_db_def empty_db_def)
  ultimately show ?thesis using created_assignment_is_sound by blast
qed

end
