(* ===== verification/Presence.thy ===== *)
theory Presence
  imports Prelude "HOL-Library.Word"
begin

unbundle bit_operations_syntax

text \<open>
  The presence query (\<open>enrollment/hbbs-presence.ts\<close>): the protobuf and framing codec, the
  reassembly of a reply that arrives in pieces, and the reading of the bit mask. The network
  is a parameter: the pieces that come back for the bytes sent; a time-out, an error or a
  closed connection is the end of the pieces. A varint is exact here; the code keeps it in a
  double, so the two agree on values below \<open>2 ^ 53\<close>.
\<close>

type_synonym byte = "8 word"

section \<open>Encoding\<close>

text \<open>\<open>n >>>= 7\<close> works on 32 bits.\<close>

function varint :: "32 word \<Rightarrow> byte list" where
  "varint n = (if n > 0x7f then (ucast (n AND 0x7f) OR 0x80) # varint (drop_bit 7 n) else [ucast n])"
  by auto

termination varint
proof (relation "measure unat")
  fix n :: "32 word" assume "n > 0x7f"
  then have "127 < unat n" by (simp add: word_less_nat_alt)
  then show "(drop_bit 7 n, n) \<in> measure unat" by (simp add: unat_drop_bit_eq drop_bit_eq_div unat_div)
qed simp

declare varint.simps [simp del]

definition field :: "32 word \<Rightarrow> byte list \<Rightarrow> byte list" where
  "field num payload = varint (push_bit 3 num OR 2) @ varint (of_nat (length payload)) @ payload"

text \<open>The \<open>k\<close> low bytes of a number, little-endian.\<close>

definition le_bytes :: "nat \<Rightarrow> nat \<Rightarrow> byte list" where
  "le_bytes k w = map (\<lambda>i. of_nat (w div 256 ^ i)) [0..<k]"

definition frame :: "byte list \<Rightarrow> byte list" where
  "frame msg =
     (let n = length msg in
      (if n \<le> 0x3f then le_bytes 1 (n * 4)
       else if n \<le> 0x3fff then le_bytes 2 (n * 4 + 1)
       else if n \<le> 0x3fffff then le_bytes 3 (n * 4 + 2)
       else le_bytes 4 ((n * 4 + 3) mod 2 ^ 32)) @ msg)"

section \<open>Decoding\<close>

text \<open>\<open>readVarint\<close> on the rest of the buffer: \<open>None\<close> is the exception.\<close>

fun readVarint :: "byte list \<Rightarrow> nat \<Rightarrow> nat \<Rightarrow> (nat \<times> byte list) option" where
  "readVarint [] v shift = None"
| "readVarint (c # b) v shift =
     (let v' = v + unat (c AND 0x7f) * 2 ^ shift in
      if c AND 0x80 = 0 then Some (v', b) else readVarint b v' (shift + 7))"

lemma readVarint_shorter: "readVarint b v sh = Some (x, b') \<Longrightarrow> length b' < length b"
  by (induction b v sh rule: readVarint.induct) (auto simp: Let_def split: if_split_asm dest: less_SucI)

text \<open>
  \<open>getField\<close>: \<open>None\<close> is the exception, \<open>Some None\<close> the answer null. \<open>tag & 7\<close> and
  \<open>tag >>> 3\<close> work on the low 32 bits of the tag.
\<close>

function getField :: "byte list \<Rightarrow> nat \<Rightarrow> byte list option option" where
  "getField b num =
     (if b = [] then Some None
      else case readVarint b 0 0 of
          None \<Rightarrow> None
        | Some (tag, b1) \<Rightarrow>
            if tag mod 8 = 2 then
              (case readVarint b1 0 0 of
                 None \<Rightarrow> None
               | Some (len, b2) \<Rightarrow>
                   if tag mod 2 ^ 32 div 8 = num then Some (Some (take len b2)) else getField (drop len b2) num)
            else if tag mod 8 = 0 then
              (case readVarint b1 0 0 of None \<Rightarrow> None | Some (_, b2) \<Rightarrow> getField b2 num)
            else Some None)"
  by auto

termination getField
  by (relation "measure (\<lambda>(b, num). length b)")
    (auto dest!: readVarint_shorter simp: less_diff_conv2)

declare getField.simps [simp del]

text \<open>
  The loop of \<open>getField\<close> as it is written, with the position in the buffer, for a number of rounds: \<open>None\<close> when they do
  not suffice.
\<close>

fun getField_rounds :: "nat \<Rightarrow> byte list \<Rightarrow> nat \<Rightarrow> nat \<Rightarrow> byte list option option option" where
  "getField_rounds k b pos num =
     (if pos \<ge> length b then Some (Some None)
      else case k of
          0 \<Rightarrow> None
        | Suc k' \<Rightarrow>
            (case readVarint (drop pos b) 0 0 of
               None \<Rightarrow> Some None
             | Some (tag, r1) \<Rightarrow>
                 if tag mod 8 = 2 then
                   (case readVarint r1 0 0 of
                      None \<Rightarrow> Some None
                    | Some (len, r2) \<Rightarrow>
                        if tag mod 2 ^ 32 div 8 = num then Some (Some (Some (take len r2)))
                        else getField_rounds k' b (length b - length r2 + len) num)
                 else if tag mod 8 = 0 then
                   (case readVarint r1 0 0 of None \<Rightarrow> Some None | Some (_, r2) \<Rightarrow> getField_rounds k' b (length b - length r2) num)
                 else Some (Some None)))"

declare getField_rounds.simps [simp del]

section \<open>One question\<close>

definition request :: "byte list list \<Rightarrow> byte list" where
  "request ids = frame (field 23 (field 1 (map of_char ''rem0te'') @ concat (map (field 2) ids)))"

text \<open>What a buffer means: \<open>None\<close> when more must come, else the answer.\<close>

definition on_data :: "byte list \<Rightarrow> byte list option option" where
  "on_data buf =
     (if buf = [] then None
      else
        let hl = unat (hd buf AND 3) + 1 in
        if length buf < hl then None
        else
          let n = (\<Sum>i<hl. unat (buf ! i) * 2 ^ (8 * i)) div 4 in
          if length buf < hl + n then None
          else Some (case getField (take n (drop hl buf)) 24 of
              None \<Rightarrow> None
            | Some None \<Rightarrow> None
            | Some (Some resp) \<Rightarrow>
                (case getField resp 1 of
                   None \<Rightarrow> None | Some None \<Rightarrow> Some [] | Some (Some states) \<Rightarrow> Some states)))"

fun listen :: "byte list list \<Rightarrow> byte list \<Rightarrow> byte list option" where
  "listen [] buf = None"
| "listen (d # ds) buf = (case on_data (buf @ d) of Some v \<Rightarrow> v | None \<Rightarrow> listen ds (buf @ d))"

definition ask :: "(byte list \<Rightarrow> byte list list) \<Rightarrow> string list \<Rightarrow> byte list option" where
  "ask net ids = listen (net (request (map (map of_char) ids))) []"

section \<open>The query\<close>

definition valid_rustdesk_id :: "string \<Rightarrow> bool" where
  "valid_rustdesk_id i = (list_all is_digit i \<and> 6 \<le> length i \<and> length i \<le> 15)"

definition state_bit :: "byte list \<Rightarrow> nat \<Rightarrow> bool" where
  "state_bit states k = ((if k div 8 < length states then states ! (k div 8) else 0) AND drop_bit (k mod 8) 0x80 \<noteq> 0)"

definition online_of :: "string list \<Rightarrow> byte list \<Rightarrow> string list" where
  "online_of chunk states = map fst (filter (\<lambda>(i, k). state_bit states k) (zip chunk [0..<length chunk]))"

text \<open>500 ids per question; the first one that fails ends the query.\<close>

function ask_all :: "(byte list \<Rightarrow> byte list list) \<Rightarrow> string list \<Rightarrow> string list option" where
  "ask_all net ids =
     (if ids = [] then Some []
      else case ask net (take 500 ids) of
          None \<Rightarrow> None
        | Some states \<Rightarrow> (case ask_all net (drop 500 ids) of
            None \<Rightarrow> None | Some out \<Rightarrow> Some (online_of (take 500 ids) states @ out)))"
  by auto

termination ask_all
  by (relation "measure (\<lambda>(net, ids). length ids)") auto

declare ask_all.simps [simp del]

definition queryHbbsOnline ::
  "(string \<Rightarrow> byte list \<Rightarrow> byte list list) \<Rightarrow> string option \<Rightarrow> string option \<Rightarrow> string list \<Rightarrow> string list option" where
  "queryHbbsOnline net default_host host ids =
     (let valid = filter valid_rustdesk_id ids in
      if valid = [] then Some []
      else case (if truthy host then host else default_host) of
          None \<Rightarrow> None
        | Some h \<Rightarrow> map_option js_set (ask_all (net h) valid))"

section \<open>Every reply is read to its end\<close>

lemma readVarint_rest: "readVarint b v sh = Some (x, b') \<Longrightarrow> \<exists>u. u \<noteq> [] \<and> b = u @ b'"
proof (induction b v sh rule: readVarint.induct)
  case (2 c b v sh)
  show ?case
  proof (cases "c AND 0x80 = 0")
    case True
    with 2(2) show ?thesis by (intro exI[of _ "[c]"]) (simp add: Let_def)
  next
    case False
    with 2 obtain u where "b = u @ b'" by (auto simp: Let_def)
    then show ?thesis by (intro exI[of _ "c # u"]) simp
  qed
qed simp

text \<open>A rest of the buffer starts where its length says.\<close>

lemma drop_rest:
  assumes "pos < length b" "drop pos b = u @ r"
  shows "drop (length b - length r) b = r" "length b - length r = pos + length u"
proof -
  have "length (drop pos b) = length (u @ r)" using assms(2) by (rule arg_cong)
  then show l: "length b - length r = pos + length u" using assms(1) by simp
  have "drop (pos + length u) b = drop (length u) (drop pos b)" by (simp add: add.commute)
  then show "drop (length b - length r) b = r" unfolding l assms(2) by simp
qed

lemma getField_rounds_enough:
  "length b - pos \<le> k \<Longrightarrow> getField_rounds k b pos num = Some (getField (drop pos b) num)"
proof (induction k arbitrary: pos)
  case 0
  then show ?case by (simp add: getField_rounds.simps getField.simps)
next
  case (Suc k)
  show ?case
  proof (cases "pos < length b")
    case False
    then show ?thesis by (simp add: getField_rounds.simps getField.simps)
  next
    case True
    then have ne: "drop pos b \<noteq> []" by simp
    show ?thesis
    proof (cases "readVarint (drop pos b) 0 0")
      case None
      then show ?thesis using True ne by (subst getField_rounds.simps, subst getField.simps) simp
    next
      case (Some p)
      then obtain tag r1 where p: "readVarint (drop pos b) 0 0 = Some (tag, r1)" by (cases p) auto
      show ?thesis
      proof (cases "readVarint r1 0 0")
        case None
        then show ?thesis using True ne p by (subst getField_rounds.simps, subst getField.simps) simp
      next
        case (Some q)
        then obtain len r2 where q: "readVarint r1 0 0 = Some (len, r2)" by (cases q) auto
        obtain u where u: "u \<noteq> []" "drop pos b = u @ r1" using readVarint_rest[OF p] by blast
        obtain w where w: "r1 = w @ r2" using readVarint_rest[OF q] by blast
        have "drop pos b = (u @ w) @ r2" using u(2) w by simp
        note r = drop_rest[OF True this]
        have "length (u @ w) \<ge> 1" using u(1) by (simp add: Suc_le_eq)
        then have f: "length b - (length b - length r2 + j) \<le> k" for j using Suc.prems r(2) by linarith
        have d: "drop (length b - length r2 + j) b = drop j r2" for j
          using r(1) by (metis add.commute drop_drop)
        show ?thesis using True ne p q Suc.IH[OF f] Suc.IH[OF f[of 0]] d d[of 0]
          by (subst getField_rounds.simps, subst getField.simps) simp
      qed
    qed
  qed
qed

text \<open>
  C22: Reading a reply always ends: for any bytes a server sends back, also malformed ones, the loop that looks for a field
  stops after at most as many rounds as there are bytes, with the field, with nothing or with the exception.
\<close>

theorem reply_loop_ends: "getField_rounds (length b) b 0 num = Some (getField b num)"
  using getField_rounds_enough[of b 0 "length b" num] by simp

section \<open>Varints\<close>

lemma low_seven: "0x7f = (mask 7 :: 'a :: len word)"
  by (simp add: mask_eq_exp_minus_1)

lemma high_bit: "0x80 = (push_bit 7 1 :: byte)"
  by (simp add: push_bit_eq_mult)

lemma unat_7f: "unat (c AND 0x7f) = unat c mod 128" for c :: "'a :: len word"
  unfolding low_seven take_bit_eq_mask[symmetric] unsigned_take_bit_eq by (simp add: take_bit_eq_mod)

lemma varint_byte:
  "(ucast (n AND 0x7f) OR 0x80 :: byte) AND 0x7f = ucast (n AND 0x7f)"
  "(ucast (n AND 0x7f) OR 0x80 :: byte) AND 0x80 \<noteq> 0" for n :: "32 word"
proof -
  show "(ucast (n AND 0x7f) OR 0x80 :: byte) AND 0x7f = ucast (n AND 0x7f)"
    unfolding low_seven high_bit by (rule bit_word_eqI) (auto simp: bit_simps simp del: push_bit_of_1)
  have "bit (ucast (n AND 0x7f) OR 0x80 :: byte) 7" unfolding high_bit by (simp add: bit_simps)
  then show "(ucast (n AND 0x7f) OR 0x80 :: byte) AND 0x80 \<noteq> 0"
    unfolding high_bit by (simp add: bit_iff_and_push_bit_not_eq_0)
qed

lemma small_byte:
  fixes n :: "32 word" assumes "\<not> n > 0x7f"
  shows "(ucast n :: byte) AND 0x80 = 0" "unat ((ucast n :: byte) AND 0x7f) = unat n"
proof -
  have "n \<le> 0x7f" using assms by simp
  then have u: "unat n < 128" by (simp add: word_le_nat_alt)
  then have n: "take_bit 7 n = n"
    unfolding word_unat_eq_iff unsigned_take_bit_eq by (simp add: take_bit_eq_mod)
  have "(ucast n :: byte) = ucast (take_bit 7 n)" by (simp add: n)
  then have "\<not> bit (ucast n :: byte) 7" by (simp add: bit_simps)
  then show "(ucast n :: byte) AND 0x80 = 0" unfolding high_bit by (simp add: bit_iff_and_push_bit_not_eq_0)
  have "unat (ucast n :: byte) = unat n mod 256" by (simp add: unsigned_ucast_eq take_bit_eq_mod)
  then show "unat ((ucast n :: byte) AND 0x7f) = unat n" using u by (simp add: unat_7f)
qed

text \<open>Reading back what was written.\<close>

lemma readVarint_varint: "readVarint (varint n @ rest) v sh = Some (v + unat n * 2 ^ sh, rest)"
proof (induction n arbitrary: v sh rule: varint.induct)
  case (1 n)
  show ?case
  proof (cases "n > 0x7f")
    case True
    have d: "unat (drop_bit 7 n) = unat n div 128" unfolding unat_drop_bit_eq by (simp add: drop_bit_eq_div)
    have "unat (ucast (n AND 0x7f) :: byte) = unat n mod 128"
      by (simp add: unsigned_ucast_eq take_bit_eq_mod unat_7f)
    then have "readVarint (varint n @ rest) v sh
        = readVarint (varint (drop_bit 7 n) @ rest) (v + unat n mod 128 * 2 ^ sh) (sh + 7)"
      using True by (subst varint.simps) (simp add: Let_def varint_byte)
    also have "\<dots> = Some (v + unat n mod 128 * 2 ^ sh + unat n div 128 * 2 ^ (sh + 7), rest)"
      using 1[OF True] d by simp
    also have "v + unat n mod 128 * 2 ^ sh + unat n div 128 * 2 ^ (sh + 7) = v + unat n * 2 ^ sh"
    proof -
      have "unat n mod 128 * 2 ^ sh + unat n div 128 * 2 ^ (sh + 7) = (unat n div 128 * 128 + unat n mod 128) * 2 ^ sh"
        unfolding power_add add_mult_distrib by (simp only: mult.assoc mult.commute mult.left_commute) simp
      then show ?thesis unfolding div_mult_mod_eq by (simp only: add.assoc)
    qed
    finally show ?thesis by simp
  next
    case False
    then show ?thesis by (subst varint.simps) (simp add: Let_def small_byte)
  qed
qed

lemma getField_field:
  assumes "unat (num :: 32 word) < 2 ^ 29" "length p < 2 ^ 32"
  shows "getField (field num p @ rest) (unat num) = Some (Some p)"
proof -
  have t: "unat (push_bit 3 num OR 2) = 8 * unat num + 2"
  proof -
    have "push_bit 3 num AND 2 = 0" by (rule bit_word_eqI) (auto simp: bit_simps)
    then have "push_bit 3 num OR 2 = push_bit 3 num + 2" using disjunctive_add_eq_or by metis
    moreover have "unat (push_bit 3 num) = 8 * unat num"
      using assms(1) unfolding unsigned_push_bit_eq by (simp add: take_bit_eq_mod push_bit_eq_mult)
    ultimately show ?thesis using assms(1) by (simp add: unat_word_ariths)
  qed
  have l: "unat (of_nat (length p) :: 32 word) = length p" using assms(2) by (simp add: unsigned_of_nat take_bit_nat_eq_self)
  have "field num p @ rest \<noteq> []" unfolding field_def by (subst varint.simps) simp
  moreover have "readVarint (field num p @ rest) 0 0
      = Some (8 * unat num + 2, varint (of_nat (length p)) @ p @ rest)"
    by (simp add: field_def readVarint_varint t)
  moreover have "(8 * unat num + 2) mod 8 = 2" by presburger
  moreover have "(8 * unat num + 2) mod 2 ^ 32 div 8 = unat num" using assms(1) by simp
  ultimately show ?thesis by (subst getField.simps) (simp add: readVarint_varint l)
qed

section \<open>Frames\<close>

lemma length_le_bytes [simp]: "length (le_bytes k w) = k"
  by (simp add: le_bytes_def)

lemma nth_le_bytes: "i < k \<Longrightarrow> unat (le_bytes k w ! i) = w div 256 ^ i mod 256"
  by (simp add: le_bytes_def unsigned_of_nat take_bit_eq_mod)

lemma sum_le_bytes: "(\<Sum>i<k. w div 256 ^ i mod 256 * 256 ^ i) = w mod 256 ^ k" for w :: nat
proof (induction k)
  case 0
  then show ?case by simp
next
  case (Suc k)
  have "w mod 256 ^ Suc k = 256 ^ k * (w div 256 ^ k mod 256) + w mod 256 ^ k"
    unfolding power_Suc2 by (rule mod_mult2_eq)
  with Suc show ?case by (simp add: mult.commute)
qed

definition header :: "nat \<Rightarrow> byte list" where
  "header n =
     (if n \<le> 0x3f then le_bytes 1 (n * 4)
      else if n \<le> 0x3fff then le_bytes 2 (n * 4 + 1)
      else if n \<le> 0x3fffff then le_bytes 3 (n * 4 + 2)
      else le_bytes 4 ((n * 4 + 3) mod 2 ^ 32))"

lemma frame_header: "frame msg = header (length msg) @ msg"
  by (simp add: frame_def header_def Let_def)

text \<open>A header tells its own length and that of the message, for messages below one gibibyte.\<close>

lemma header_le_bytes:
  assumes "n < 2 ^ 30"
  obtains k where "1 \<le> k" "k \<le> 4" "header n = le_bytes k (n * 4 + (k - 1))" "n * 4 + (k - 1) < 256 ^ k"
proof -
  consider "n \<le> 0x3f" | "0x3f < n" "n \<le> 0x3fff" | "0x3fff < n" "n \<le> 0x3fffff" | "0x3fffff < n" by linarith
  then show ?thesis
  proof cases
    case 1
    then show ?thesis using that[of 1] by (simp add: header_def)
  next
    case 2
    then show ?thesis using that[of 2] by (simp add: header_def)
  next
    case 3
    then show ?thesis using that[of 3] by (simp add: header_def)
  next
    case 4
    then show ?thesis using that[of 4] assms by (simp add: header_def)
  qed
qed

lemma header_reads:
  assumes "n < 2 ^ 30"
  shows "header n \<noteq> []" "unat (hd (header n) AND 3) + 1 = length (header n)"
    "(\<Sum>i<length (header n). unat ((header n @ b) ! i) * 2 ^ (8 * i)) div 4 = n"
proof -
  obtain k where k: "1 \<le> k" "k \<le> 4" "header n = le_bytes k (n * 4 + (k - 1))" "n * 4 + (k - 1) < 256 ^ k"
    using header_le_bytes[OF assms] .
  let ?w = "n * 4 + (k - 1)"
  have l: "length (header n) = k" by (simp add: k(3))
  show "header n \<noteq> []" using l k(1) by auto
  then have "hd (header n) = le_bytes k ?w ! 0" by (simp add: hd_conv_nth k(3))
  then have h: "unat (hd (header n)) = ?w mod 256" using nth_le_bytes[of 0 k ?w] k(1) by simp
  have "(3 :: byte) = mask 2" by (simp add: mask_eq_exp_minus_1)
  then have "unat (hd (header n) AND 3) = take_bit 2 (unat (hd (header n)))"
    by (simp only: take_bit_eq_mask[symmetric] unsigned_take_bit_eq)
  then have "unat (hd (header n) AND 3) = ?w mod 256 mod 4" by (simp add: h take_bit_eq_mod)
  also have "\<dots> = k - 1"
  proof -
    have "?w mod 256 mod 4 = ?w mod 4" by (simp add: mod_mod_cancel)
    then show ?thesis using k(2) by simp
  qed
  finally show "unat (hd (header n) AND 3) + 1 = length (header n)" using k(1) l by simp
  have "(\<Sum>i<k. unat ((header n @ b) ! i) * 2 ^ (8 * i)) = (\<Sum>i<k. ?w div 256 ^ i mod 256 * 256 ^ i)"
    by (rule sum.cong) (simp_all add: nth_append k(3) nth_le_bytes power_mult)
  also have "\<dots> = ?w" unfolding sum_le_bytes using k(4) by (rule mod_less)
  also have "?w div 4 = n" using k(2) by simp
  finally show "(\<Sum>i<length (header n). unat ((header n @ b) ! i) * 2 ^ (8 * i)) div 4 = n" by (simp add: l)
qed

definition answer_of :: "byte list \<Rightarrow> byte list option" where
  "answer_of m = (case getField m 24 of
      None \<Rightarrow> None
    | Some None \<Rightarrow> None
    | Some (Some resp) \<Rightarrow> (case getField resp 1 of None \<Rightarrow> None | Some None \<Rightarrow> Some [] | Some (Some states) \<Rightarrow> Some states))"

lemma on_data_frame: "length m < 2 ^ 30 \<Longrightarrow> on_data (frame m @ rest) = Some (answer_of m)"
  using header_reads(1,2)[of "length m"] header_reads(3)[of "length m" "m @ rest"]
  by (simp add: on_data_def frame_header Let_def answer_of_def del: One_nat_def)

text \<open>A proper prefix of a frame is never taken for a reply.\<close>

lemma on_data_prefix:
  assumes "length m < 2 ^ 30" "frame m = buf @ more" "more \<noteq> []"
  shows "on_data buf = None"
proof (cases "length buf < length (header (length m))")
  case True
  show ?thesis
  proof (cases buf)
    case Nil
    then show ?thesis by (simp add: on_data_def)
  next
    case (Cons c cs)
    then have "hd (header (length m)) = c" using assms(2) header_reads(1)[OF assms(1)]
      by (metis append_Cons frame_header hd_append2 list.sel(1))
    then show ?thesis using True Cons header_reads(2)[OF assms(1)] by (simp add: on_data_def Let_def)
  qed
next
  case False
  let ?h = "header (length m)"
  have "buf = take (length buf) (frame m)" using assms(2) by simp
  with False obtain b where b: "buf = ?h @ b" by (metis frame_header append_take_drop_id linorder_not_less take_all_iff take_append)
  have "length buf < length ?h + length m" using assms(2,3) by (metis frame_header length_append length_greater_0_conv less_add_same_cancel1)
  then show ?thesis
    using header_reads(1,2)[OF assms(1)] header_reads(3)[OF assms(1), of b] by (simp add: on_data_def b Let_def del: One_nat_def)
qed

text \<open>However the network cuts a frame into pieces, it is read as one.\<close>

lemma listen_frame:
  "length m < 2 ^ 30 \<Longrightarrow> buf @ concat ds = frame m \<Longrightarrow> buf \<noteq> frame m \<Longrightarrow> listen ds buf = answer_of m"
proof (induction ds arbitrary: buf)
  case Nil
  then show ?case by simp
next
  case (Cons d ds)
  show ?case
  proof (cases "concat ds = []")
    case True
    then have "buf @ d = frame m" using Cons.prems(2) by (simp only: concat.simps append_Nil2)
    then show ?thesis using on_data_frame[OF Cons.prems(1), of "[]"] by simp
  next
    case False
    have e: "(buf @ d) @ concat ds = frame m" using Cons.prems(2) by simp
    with False have n: "buf @ d \<noteq> frame m" by (metis self_append_conv)
    have "on_data (buf @ d) = None" using on_data_prefix[OF Cons.prems(1) e[symmetric] False] .
    then show ?thesis using Cons.IH[OF Cons.prems(1) e n] by simp
  qed
qed

section \<open>The answer\<close>

lemma length_varint: "length (varint n) \<le> unat n + 1"
proof (induction n rule: varint.induct)
  case (1 n)
  show ?case
  proof (cases "n > 0x7f")
    case True
    then have "127 < unat n" by (simp add: word_less_nat_alt)
    moreover have "unat (drop_bit 7 n) = unat n div 128" unfolding unat_drop_bit_eq by (simp add: drop_bit_eq_div)
    ultimately show ?thesis using 1[OF True] True by (subst varint.simps) simp
  next
    case False
    then show ?thesis by (subst varint.simps) simp
  qed
qed

lemma answer_of_reply:
  assumes "length states \<le> 1000"
  shows "answer_of (field 24 (field 1 states)) = Some states" "length (field 24 (field 1 states)) < 2 ^ 30"
proof -
  have v: "length (varint (of_nat n)) \<le> n + 1" if "n \<le> 100000" for n
    using length_varint[of "of_nat n"] that by (simp add: unsigned_of_nat take_bit_nat_eq_self)
  have "push_bit 3 1 OR 2 = (10 :: 32 word)" "push_bit 3 24 OR 2 = (194 :: 32 word)" by simp_all
  then have h: "length (varint (push_bit 3 1 OR 2 :: 32 word)) \<le> 11" "length (varint (push_bit 3 24 OR 2 :: 32 word)) \<le> 195"
    using length_varint[of 10] length_varint[of 194] by simp_all
  then have 1: "length (field 1 states) \<le> 2100"
    using v[of "length states"] assms by (simp add: field_def)
  with h show "length (field 24 (field 1 states)) < 2 ^ 30"
    using v[of "length (field 1 states)"] unfolding field_def[of 24] by simp
  have "getField (field 24 (field 1 states) @ []) (unat (24 :: 32 word)) = Some (Some (field 1 states))"
    by (rule getField_field) (use 1 in simp_all)
  moreover have "getField (field 1 states @ []) (unat (1 :: 32 word)) = Some (Some states)"
    by (rule getField_field) (use assms in simp_all)
  ultimately show "answer_of (field 24 (field 1 states)) = Some states" by (simp add: answer_of_def)
qed

lemma state_bit_iff: "state_bit states k \<longleftrightarrow> k div 8 < length states \<and> bit (states ! (k div 8)) (7 - k mod 8)"
proof -
  have "drop_bit (k mod 8) (push_bit 7 1 :: byte) = push_bit (7 - k mod 8) 1"
  proof -
    have "k mod 8 \<in> {0, 1, 2, 3, 4, 5, 6, 7}" by (simp add: mod_less_divisor) presburger
    then show ?thesis by auto
  qed
  then show ?thesis unfolding state_bit_def high_bit by (simp add: bit_iff_and_push_bit_not_eq_0)
qed

lemma zip_filter:
  "(\<And>k. k < length xs \<Longrightarrow> P k = Q (xs ! k)) \<Longrightarrow>
   map fst (filter (\<lambda>(i, k). P k) (zip xs [0..<length xs])) = filter Q xs"
proof -
  assume *: "\<And>k. k < length xs \<Longrightarrow> P k = Q (xs ! k)"
  have "filter (\<lambda>(i, k). P k) (zip xs [0..<length xs]) = filter (Q \<circ> fst) (zip xs [0..<length xs])"
    by (rule filter_cong) (auto simp: set_zip *)
  then show ?thesis by (simp add: filter_map[symmetric])
qed

text \<open>
  What hbbs documents: one bit per id asked for, most significant first, set when the id is
  registered; sent as one framed message.
\<close>

definition hbbs_answers :: "(byte list \<Rightarrow> byte list list) \<Rightarrow> string set \<Rightarrow> bool" where
  "hbbs_answers net online \<longleftrightarrow> (\<forall>ids. length ids \<le> 500 \<longrightarrow>
     (\<exists>states. concat (net (request (map (map of_char) ids))) = frame (field 24 (field 1 states))
        \<and> length states \<le> 63
        \<and> (\<forall>k < length ids. (k div 8 < length states \<and> bit (states ! (k div 8)) (7 - k mod 8)) \<longleftrightarrow> ids ! k \<in> online)))"

lemma ask_answered:
  assumes "hbbs_answers net online" "length ids \<le> 500"
  shows "\<exists>states. ask net ids = Some states \<and> online_of ids states = filter (\<lambda>i. i \<in> online) ids"
proof -
  obtain states where s: "concat (net (request (map (map of_char) ids))) = frame (field 24 (field 1 states))"
    "length states \<le> 63"
    "\<And>k. k < length ids \<Longrightarrow> (k div 8 < length states \<and> bit (states ! (k div 8)) (7 - k mod 8)) \<longleftrightarrow> ids ! k \<in> online"
    using assms unfolding hbbs_answers_def by blast
  have len: "length states \<le> 1000" using s(2) by simp
  have ne: "[] \<noteq> frame (field 24 (field 1 states))"
    using header_reads(1)[OF answer_of_reply(2)[OF len]] by (simp add: frame_header)
  have "ask net ids = Some states"
    unfolding ask_def using listen_frame[OF answer_of_reply(2)[OF len], of "[]"] s(1) ne answer_of_reply(1)[OF len] by simp
  moreover have "state_bit states k = (ids ! k \<in> online)" if "k < length ids" for k
    using s(3)[OF that] by (simp add: state_bit_iff)
  then have "online_of ids states = filter (\<lambda>i. i \<in> online) ids"
    unfolding online_of_def by (rule zip_filter)
  ultimately show ?thesis by blast
qed

lemma ask_all_answered:
  "hbbs_answers net online \<Longrightarrow> ask_all net ids = Some (filter (\<lambda>i. i \<in> online) ids)"
proof (induction net ids rule: ask_all.induct)
  case (1 net ids)
  show ?case
  proof (cases "ids = []")
    case True
    then show ?thesis by (simp add: ask_all.simps)
  next
    case False
    obtain states where s: "ask net (take 500 ids) = Some states"
      "online_of (take 500 ids) states = filter (\<lambda>i. i \<in> online) (take 500 ids)"
      using ask_answered[OF 1(2), of "take 500 ids"] by auto
    have "ask_all net (drop 500 ids) = Some (filter (\<lambda>i. i \<in> online) (drop 500 ids))"
      by (rule 1(1)[OF False s(1) 1(2)])
    then have "ask_all net ids = Some (filter (\<lambda>i. i \<in> online) (take 500 ids) @ filter (\<lambda>i. i \<in> online) (drop 500 ids))"
      using s False by (subst ask_all.simps) simp
    then show ?thesis by (simp add: filter_append[symmetric] del: filter_append)
  qed
qed

text \<open>
  C37: The presence query tells the truth whatever the network does to the reply: if the service
  answers every question with its bit mask, in one frame cut into any pieces, the result is
  exactly the well-formed ids asked for that are registered, each once, also for more than 500.
\<close>

theorem presence_reports_registered:
  assumes "hbbs_answers (net host) online" "host \<noteq> []"
  shows "queryHbbsOnline net d (Some host) ids
    = Some (js_set (filter (\<lambda>i. i \<in> online) (filter valid_rustdesk_id ids)))"
proof (cases "filter valid_rustdesk_id ids = []")
  case True
  then show ?thesis by (simp add: queryHbbsOnline_def del: filter_filter)
next
  case False
  with assms show ?thesis by (simp add: queryHbbsOnline_def Let_def ask_all_answered del: filter_filter)
qed

theorem presence_reports_registered_witness:
  "queryHbbsOnline (\<lambda>h m. [take 3 (frame (field 24 (field 1 (replicate 63 255)))),
      drop 3 (frame (field 24 (field 1 (replicate 63 255))))]) None (Some ''h'') [''123456789'', ''x'', ''123456789'']
    = Some [''123456789'']"
proof -
  have "hbbs_answers (\<lambda>m. [take 3 (frame (field 24 (field 1 (replicate 63 255)))),
      drop 3 (frame (field 24 (field 1 (replicate 63 255))))]) UNIV"
    unfolding hbbs_answers_def
  proof (intro allI impI exI conjI)
    fix ids :: "string list" and k assume a: "length ids \<le> 500" "k < length ids"
    have "(255 :: byte) = mask 8" by (simp add: mask_eq_exp_minus_1)
    then have "bit (255 :: byte) (7 - k mod 8)" by (simp only: bit_mask_iff) simp
    then show "(k div 8 < length (replicate 63 (255 :: byte)) \<and> bit (replicate 63 (255 :: byte) ! (k div 8)) (7 - k mod 8))
        = (ids ! k \<in> UNIV)" using a by simp
  qed simp_all
  from presence_reports_registered[where net = "\<lambda>h. _" and host = "''h''", OF this]
  show ?thesis by (simp add: valid_rustdesk_id_def is_digit_def js_set_def)
qed

end
