(* ===== verification/Inventory.thy ===== *)
theory Inventory
  imports Database "HOL-Library.List_Lexorder" "HOL-Library.Char_ord" "HOL-Library.Option_ord"
begin

text \<open>
  What a managed computer reports about itself and the queue that asks it
  (\<open>endpoint-inventory/endpoint-inventory.service.ts\<close>): the sanitisers every field passes, the stored
  report, and the commands staged for a computer, handed out with its heartbeats and answered by it.
  A report is loosely typed JSON. Parsing and printing of dates are parameters (\<open>date_lib\<close>).
\<close>

section \<open>Limits\<close>

definition ALLOWED_EVENT_LOGS :: "string list" where
  "ALLOWED_EVENT_LOGS = [''Application'', ''System'', ''Security'', ''Setup'', ''Windows PowerShell'']"

definition EVENT_LEVELS :: "int \<Rightarrow> string option" where
  "EVENT_LEVELS l = map_of [(0, ''Information''), (1, ''Critical''), (2, ''Error''), (3, ''Warning''), (4, ''Information''),
     (5, ''Verbose'')] l"

definition MAX_EVENTS :: nat where "MAX_EVENTS = 200"
definition MAX_SINCE_HOURS :: int where "MAX_SINCE_HOURS = 24 * 14"
definition MAX_MESSAGE_CHARS :: nat where "MAX_MESSAGE_CHARS = 2000"
definition COMMAND_TTL_MINUTES :: int where "COMMAND_TTL_MINUTES = 30"
definition MAX_DISPATCHES :: nat where "MAX_DISPATCHES = 4"
definition COMMANDS_PER_HEARTBEAT :: nat where "COMMANDS_PER_HEARTBEAT = 2"
definition INVENTORY_STALE_HOURS :: int where "INVENTORY_STALE_HOURS = 6"
definition UPDATE_SCAN_STALE_HOURS :: int where "UPDATE_SCAN_STALE_HOURS = 12"
definition MAX_SAFE_INTEGER :: int where "MAX_SAFE_INTEGER = 9007199254740991"

section \<open>Sanitisers\<close>

definition is_control :: "char \<Rightarrow> bool" where
  "is_control c = ((of_char c :: nat) < 32 \<or> (of_char c :: nat) = 127)"

definition clean_str :: "json \<Rightarrow> nat \<Rightarrow> string option" where
  "clean_str v n = (case v of
     JStr s \<Rightarrow> (let clean = js_trim (map (\<lambda>c. if is_control c then CHR '' '' else c) s)
                in if clean = [] then None else Some (take n clean))
   | _ \<Rightarrow> None)"

text \<open>
  \<open>Number(s)\<close> on a string, \<open>None\<close> where the result is not finite: white space around, the empty string is 0,
  hexadecimal, octal and binary literals, decimal literals with fraction and exponent. Values are exact here,
  where doubles round.
\<close>

definition radix_value :: "nat \<Rightarrow> string \<Rightarrow> int option" where
  "radix_value b ds = (let vals = map (\<lambda>c. if is_digit c then Some (digit_val c)
         else if 97 \<le> (of_char (lower c) :: nat) \<and> (of_char (lower c) :: nat) \<le> 102 then Some (int (of_char (lower c)) - 87) else None) ds
     in if ds = [] \<or> list_ex (\<lambda>x. case x of None \<Rightarrow> True | Some v \<Rightarrow> v \<ge> int b) vals then None
        else Some (foldl (\<lambda>n x. n * int b + the x) 0 vals))"

definition exponent_value :: "string \<Rightarrow> int option" where
  "exponent_value s = (case s of
     [] \<Rightarrow> Some 0
   | c # t \<Rightarrow> if c \<noteq> CHR ''e'' \<and> c \<noteq> CHR ''E'' then None
       else (let neg = (t \<noteq> [] \<and> hd t = CHR ''-''); ds = (if t \<noteq> [] \<and> hd t \<in> {CHR ''-'', CHR ''+''} then tl t else t)
         in if ds = [] \<or> \<not> list_all is_digit ds then None else Some (if neg then - digits_val ds else digits_val ds)))"

definition decimal_value :: "string \<Rightarrow> rat option" where
  "decimal_value s = (let i = takeWhile is_digit s; r = dropWhile is_digit s;
       f = (case r of c # t \<Rightarrow> if c = CHR ''.'' then takeWhile is_digit t else [] | [] \<Rightarrow> []);
       e = (case r of c # t \<Rightarrow> if c = CHR ''.'' then dropWhile is_digit t else r | [] \<Rightarrow> [])
     in if i = [] \<and> f = [] then None
        else map_option (\<lambda>x. of_int (digits_val (i @ f)) / 10 ^ length f * (if x \<ge> 0 then 10 ^ nat x else 1 / 10 ^ nat (- x)))
               (exponent_value e))"

definition js_number :: "string \<Rightarrow> rat option" where
  "js_number s = (let t = js_trim s in
     if t = [] then Some 0
     else if take 2 t \<in> {''0x'', ''0X''} then map_option of_int (radix_value 16 (drop 2 t))
     else if take 2 t \<in> {''0o'', ''0O''} then map_option of_int (radix_value 8 (drop 2 t))
     else if take 2 t \<in> {''0b'', ''0B''} then map_option of_int (radix_value 2 (drop 2 t))
     else if hd t = CHR ''-'' then map_option uminus (decimal_value (tl t))
     else if hd t = CHR ''+'' then decimal_value (tl t)
     else decimal_value t)"

definition clean_int :: "json \<Rightarrow> int \<Rightarrow> int \<Rightarrow> int option" where
  "clean_int v lo hi = (case (case v of JNum q \<Rightarrow> Some q | JStr s \<Rightarrow> js_number s | _ \<Rightarrow> None) of
     None \<Rightarrow> None
   | Some q \<Rightarrow> (let r = \<lfloor>q + 1 / 2\<rfloor> in if r < lo \<or> r > hi then None else Some r))"

definition clean_bool :: "json \<Rightarrow> bool option" where
  "clean_bool v = (case v of JBool b \<Rightarrow> Some b
     | JStr s \<Rightarrow> if s = ''true'' then Some True else if s = ''false'' then Some False else None | _ \<Rightarrow> None)"

record date_lib =
  dl_parse :: "string \<Rightarrow> time option"
  dl_iso :: "time \<Rightarrow> string"

text \<open>The UTC years 1990 to 2100, in milliseconds.\<close>

definition clean_date :: "date_lib \<Rightarrow> json \<Rightarrow> time option" where
  "clean_date L v = (case v of
     JStr s \<Rightarrow> if s = [] then None
       else (case dl_parse L s of None \<Rightarrow> None
         | Some t \<Rightarrow> if t < 631152000000 \<or> t \<ge> 4133980800000 then None else Some t)
   | _ \<Rightarrow> None)"

definition clean_arr :: "json \<Rightarrow> nat \<Rightarrow> json list" where
  "clean_arr v n = (case v of JArr xs \<Rightarrow> take n xs | _ \<Rightarrow> [])"

definition jstr :: "string option \<Rightarrow> json" where
  "jstr x = (case x of None \<Rightarrow> JNull | Some s \<Rightarrow> JStr s)"

definition jint :: "int option \<Rightarrow> json" where
  "jint x = (case x of None \<Rightarrow> JNull | Some i \<Rightarrow> JNum (of_int i))"

definition jbool :: "bool option \<Rightarrow> json" where
  "jbool x = (case x of None \<Rightarrow> JNull | Some b \<Rightarrow> JBool b)"

section \<open>The stored report\<close>

text \<open>Keys whose value is undefined are dropped.\<close>

definition defined :: "(string \<times> cell option) list \<Rightarrow> (string \<times> cell) list" where
  "defined data = concat (map (\<lambda>(k, v). case v of None \<Rightarrow> [] | Some c \<Rightarrow> [(k, c)]) data)"

definition upsert :: "id \<Rightarrow> (string \<times> cell option) list \<Rightarrow> db \<Rightarrow> db" where
  "upsert endpointId data s =
     (if find_row (\<lambda>r. in_endpointId r = endpointId) (inventories s) = None
      then s\<lparr>inventories := inventories s @ [\<lparr>in_endpointId = endpointId, in_columns = map_of (defined data)\<rparr>]\<rparr>
      else s\<lparr>inventories := update_rows (\<lambda>r. in_endpointId r = endpointId)
               (\<lambda>r. r\<lparr>in_columns := in_columns r ++ map_of (defined data)\<rparr>) (inventories s)\<rparr>)"

abbreviation c_str :: "json \<Rightarrow> string \<Rightarrow> nat \<Rightarrow> string \<times> cell option" where
  "c_str r k n \<equiv> (k, map_option C_string (clean_str (json_get r k) n))"

abbreviation c_int :: "json \<Rightarrow> string \<Rightarrow> int \<Rightarrow> int \<Rightarrow> string \<times> cell option" where
  "c_int r k lo hi \<equiv> (k, map_option C_int (clean_int (json_get r k) lo hi))"

abbreviation c_date :: "date_lib \<Rightarrow> json \<Rightarrow> string \<Rightarrow> string \<times> cell option" where
  "c_date L r k \<equiv> (k, map_option C_date (clean_date L (json_get r k)))"

definition signed_out :: "json \<Rightarrow> bool" where
  "signed_out r = (case json_get r ''loggedOnUser'' of JStr s \<Rightarrow> js_trim s = [] | _ \<Rightarrow> False)"

definition live_columns :: "date_lib \<Rightarrow> json \<Rightarrow> (string \<times> cell option) list" where
  "live_columns L r = [
     (if signed_out r then (''loggedOnUser'', Some C_null) else c_str r ''loggedOnUser'' 128),
     c_int r ''uptimeSeconds'' 0 (60 * 60 * 24 * 3650), c_date L r ''lastBootAt'', c_int r ''cpuLoadPercent'' 0 100,
     c_int r ''memoryTotalMb'' 0 (64 * 1024 * 1024), c_int r ''memoryFreeMb'' 0 (64 * 1024 * 1024),
     c_int r ''systemDiskTotalMb'' 0 (1024 * 1024 * 1024), c_int r ''systemDiskFreeMb'' 0 (1024 * 1024 * 1024)]"

definition recordLiveState :: "date_lib \<Rightarrow> time \<Rightarrow> id \<Rightarrow> json \<Rightarrow> db \<Rightarrow> db" where
  "recordLiveState L now endpointId report s =
     (if list_all (\<lambda>(k, v). v = None) (live_columns L report) then s
      else upsert endpointId (live_columns L report @ [(''liveSampledAt'', Some (C_date now))]) s)"

definition sanitizeDisks :: "json \<Rightarrow> json list" where
  "sanitizeDisks v = concat (map (\<lambda>d. case clean_str (json_get d ''drive'') 16 of
       None \<Rightarrow> []
     | Some drive \<Rightarrow> [JObj [(''drive'', JStr drive), (''label'', jstr (clean_str (json_get d ''label'') 64)),
         (''fsType'', jstr (clean_str (json_get d ''fsType'') 32)),
         (''totalBytes'', jint (clean_int (json_get d ''totalBytes'') 0 MAX_SAFE_INTEGER)),
         (''freeBytes'', jint (clean_int (json_get d ''freeBytes'') 0 MAX_SAFE_INTEGER))]]) (clean_arr v 32))"

definition sanitizeGpus :: "json \<Rightarrow> json list" where
  "sanitizeGpus v = concat (map (\<lambda>g. case clean_str (json_get g ''name'') 128 of
       None \<Rightarrow> []
     | Some name \<Rightarrow> [JObj [(''name'', JStr name), (''driverVersion'', jstr (clean_str (json_get g ''driverVersion'') 64)),
         (''resolution'', jstr (clean_str (json_get g ''resolution'') 32))]]) (clean_arr v 8))"

definition sanitizeNetworks :: "json \<Rightarrow> json list" where
  "sanitizeNetworks v = concat (map (\<lambda>n. case clean_str (json_get n ''name'') 128 of
       None \<Rightarrow> []
     | Some name \<Rightarrow> [JObj [(''name'', JStr name), (''mac'', jstr (clean_str (json_get n ''mac'') 32)),
         (''ipv4'', jstr (clean_str (json_get n ''ipv4'') 64)), (''gateway'', jstr (clean_str (json_get n ''gateway'') 64)),
         (''dhcp'', jbool (clean_bool (json_get n ''dhcp'')))]]) (clean_arr v 16))"

definition is_object :: "json \<Rightarrow> bool" where
  "is_object v = (case v of JObj _ \<Rightarrow> True | JArr _ \<Rightarrow> True | _ \<Rightarrow> False)"

definition inventory_columns :: "date_lib \<Rightarrow> json \<Rightarrow> (string \<times> cell option) list" where
  "inventory_columns L r = [
     c_str r ''manufacturer'' 128, c_str r ''model'' 128, c_str r ''serialNumber'' 128, c_str r ''chassisType'' 64,
     c_str r ''biosVersion'' 128, c_date L r ''biosDate'', c_str r ''osCaption'' 128, c_str r ''osBuild'' 64,
     c_str r ''osArch'' 32, c_date L r ''osInstalledAt'', c_str r ''domain'' 128, c_str r ''timezone'' 64,
     c_str r ''cpuModel'' 128, c_int r ''cpuCores'' 1 1024, c_int r ''cpuThreads'' 1 4096, c_int r ''cpuMhz'' 1 100000,
     c_int r ''memoryTotalMb'' 0 (64 * 1024 * 1024), c_int r ''memoryFreeMb'' 0 (64 * 1024 * 1024),
     (''disks'', Some (C_json (JArr (sanitizeDisks (json_get r ''disks''))))),
     (''gpus'', Some (C_json (JArr (sanitizeGpus (json_get r ''gpus''))))),
     (''networks'', Some (C_json (JArr (sanitizeNetworks (json_get r ''networks'')))))]"

definition recordInventory :: "date_lib \<Rightarrow> time \<Rightarrow> id \<Rightarrow> json \<Rightarrow> db \<Rightarrow> db" where
  "recordInventory L now endpointId raw s =
     (if \<not> is_object raw then s
      else upsert endpointId (inventory_columns L raw @ [(''collectedAt'', Some (C_date now))]) s)"

definition sanitize_updates :: "json \<Rightarrow> json list" where
  "sanitize_updates v = concat (map (\<lambda>u. case clean_str (json_get u ''title'') 300 of
       None \<Rightarrow> []
     | Some title \<Rightarrow> [JObj [(''title'', JStr title), (''kb'', jstr (clean_str (json_get u ''kb'') 32)),
         (''severity'', jstr (clean_str (json_get u ''severity'') 32)),
         (''sizeBytes'', jint (clean_int (json_get u ''sizeBytes'') 0 MAX_SAFE_INTEGER))]]) (clean_arr v 100))"

definition recordUpdateScan :: "time \<Rightarrow> id \<Rightarrow> json \<Rightarrow> db \<Rightarrow> db" where
  "recordUpdateScan now endpointId raw s =
     (if \<not> is_object raw then s
      else let pending = sanitize_updates (json_get raw ''pending'') in
        upsert endpointId [(''pendingUpdates'', Some (C_json (JArr pending))),
          (''pendingUpdateCount'', Some (C_int (int (length pending)))),
          (''rebootRequired'', map_option C_bool (clean_bool (json_get raw ''rebootRequired''))),
          (''updatesCheckedAt'', Some (C_date now))] s)"

definition get_inventory :: "db \<Rightarrow> id \<Rightarrow> inventory_row option" where
  "get_inventory s endpointId = find_row (\<lambda>r. in_endpointId r = endpointId) (inventories s)"

section \<open>The command queue\<close>

text \<open>The stored form of a command's parameters; \<open>None\<close> is undefined.\<close>

definition validateParams :: "command_type \<Rightarrow> json \<Rightarrow> json option result" where
  "validateParams ty p =
     (if ty \<noteq> EVENT_LOG_QUERY then Inr None
      else
        let logName = (case json_get p ''logName'' of JStr s \<Rightarrow> s | _ \<Rightarrow> []);
            levels = concat (map (\<lambda>l. case clean_int l 0 5 of None \<Rightarrow> [] | Some i \<Rightarrow> [i]) (clean_arr (json_get p ''levels'') 8))
        in if logName \<notin> set ALLOWED_EVENT_LOGS then Inl (BadRequest ''logName must be one of the allowed logs'')
        else Inr (Some (JObj [(''logName'', JStr logName), (''levels'', JArr (map (\<lambda>i. JNum (of_int i)) levels)),
          (''maxEvents'', JNum (of_int (case clean_int (json_get p ''maxEvents'') 1 (int MAX_EVENTS) of None \<Rightarrow> 50 | Some i \<Rightarrow> i))),
          (''sinceHours'', JNum (of_int (case clean_int (json_get p ''sinceHours'') 1 MAX_SINCE_HOURS of None \<Rightarrow> 24 | Some i \<Rightarrow> i))),
          (''providerName'', jstr (clean_str (json_get p ''providerName'') 128))])))"

record stage_args =
  sg_endpointId :: id
  sg_tenantId :: "id option"
  sg_customerId :: "id option"
  sg_type :: command_type
  sg_params :: json
  sg_requestedById :: "id option"

definition is_open :: "command_row \<Rightarrow> bool" where
  "is_open c = (cm_status c \<in> {CMD_PENDING, CMD_DISPATCHED})"

definition new_command :: "time \<Rightarrow> id \<Rightarrow> stage_args \<Rightarrow> json option \<Rightarrow> command_row" where
  "new_command now i a params = \<lparr>cm_id = i, cm_endpointId = sg_endpointId a, cm_tenantId = sg_tenantId a,
     cm_customerId = sg_customerId a, cm_type = sg_type a, cm_params = params, cm_status = CMD_PENDING,
     cm_requestedById = sg_requestedById a, cm_result = None, cm_error = None, cm_dispatchCount = 0, cm_createdAt = now,
     cm_dispatchedAt = None, cm_completedAt = None, cm_expiresAt = now + COMMAND_TTL_MINUTES * 60000\<rparr>"

definition stage :: "time \<Rightarrow> id \<Rightarrow> stage_args \<Rightarrow> db \<Rightarrow> command_row option result \<times> db" where
  "stage now i a s = (case validateParams (sg_type a) (sg_params a) of
     Inl e \<Rightarrow> (Inl e, s)
   | Inr params \<Rightarrow>
       if \<not> truthy (sg_requestedById a)
          \<and> find_row (\<lambda>c. cm_endpointId c = sg_endpointId a \<and> cm_type c = sg_type a \<and> is_open c) (commands s) \<noteq> None
       then (Inr None, s)
       else (Inr (Some (new_command now i a params)), s\<lparr>commands := commands s @ [new_command now i a params]\<rparr>))"

definition expireStale :: "time \<Rightarrow> id \<Rightarrow> db \<Rightarrow> db" where
  "expireStale now endpointId s = s\<lparr>commands := update_rows
     (\<lambda>c. cm_endpointId c = endpointId \<and> is_open c \<and> cm_expiresAt c < now)
     (\<lambda>c. c\<lparr>cm_status := CMD_EXPIRED, cm_completedAt := Some now\<rparr>) (commands s)\<rparr>"

definition is_stale :: "time \<Rightarrow> cell option \<Rightarrow> int \<Rightarrow> bool" where
  "is_stale now stamp hours = (case stamp of Some (C_date t) \<Rightarrow> now - t > hours * 3600000 | _ \<Rightarrow> True)"

definition automatic :: "db \<Rightarrow> id \<Rightarrow> command_type \<Rightarrow> stage_args" where
  "automatic s endpointId ty = (let ep = find_row (\<lambda>e. e_id e = endpointId) (endpoints s) in
     \<lparr>sg_endpointId = endpointId, sg_tenantId = Option.bind ep e_tenantId, sg_customerId = Option.bind ep e_customerId,
      sg_type = ty, sg_params = JUndefined, sg_requestedById = None\<rparr>)"

definition stageAutomaticCollections :: "time \<Rightarrow> id \<times> id \<Rightarrow> id \<Rightarrow> db \<Rightarrow> db" where
  "stageAutomaticCollections now ids endpointId s =
     (let inv = get_inventory s endpointId;
          invStale = is_stale now (Option.bind inv (\<lambda>r. in_columns r ''collectedAt'')) INVENTORY_STALE_HOURS;
          updStale = is_stale now (Option.bind inv (\<lambda>r. in_columns r ''updatesCheckedAt'')) UPDATE_SCAN_STALE_HOURS;
          s1 = (if invStale then snd (stage now (fst ids) (automatic s endpointId INVENTORY_REFRESH) s) else s)
      in if updStale then snd (stage now (snd ids) (automatic s endpointId UPDATE_SCAN) s1) else s1)"

text \<open>Requester descending with nulls last, then the creation time ascending.\<close>

definition queue_order :: "command_row list \<Rightarrow> command_row list" where
  "queue_order cs = rev (sort_key cm_requestedById (rev (sort_key cm_createdAt cs)))"

definition due_commands :: "db \<Rightarrow> id \<Rightarrow> command_row list" where
  "due_commands s endpointId = take COMMANDS_PER_HEARTBEAT
     (queue_order (filter (\<lambda>c. cm_endpointId c = endpointId \<and> is_open c) (commands s)))"

definition set_command :: "id \<Rightarrow> (command_row \<Rightarrow> command_row) \<Rightarrow> db \<Rightarrow> db" where
  "set_command i f s = s\<lparr>commands := update_rows (\<lambda>c. cm_id c = i) f (commands s)\<rparr>"

definition hand_out :: "time \<Rightarrow> command_row \<Rightarrow> command_row" where
  "hand_out now c = c\<lparr>cm_status := CMD_DISPATCHED, cm_dispatchedAt := Some now, cm_dispatchCount := cm_dispatchCount c + 1\<rparr>"

definition give_up :: "time \<Rightarrow> command_row \<Rightarrow> command_row" where
  "give_up now c = c\<lparr>cm_status := CMD_FAILED, cm_error := Some ''Handed to this computer several times without a result.'',
     cm_completedAt := Some now\<rparr>"

text \<open>One row that was read: its count is the one of the reading, the write goes to whatever row has its id by then.\<close>

definition hand_out_one :: "time \<Rightarrow> command_row \<Rightarrow> db \<Rightarrow> command_row list \<times> db" where
  "hand_out_one now c s =
     (if cm_dispatchCount c \<ge> MAX_DISPATCHES then ([], set_command (cm_id c) (give_up now) s)
      else ([c], set_command (cm_id c) (hand_out now) s))"

text \<open>\<open>g\<close> is what the rest of the program does before each write, which is awaited.\<close>

fun hand_out_all :: "(db \<Rightarrow> db) \<Rightarrow> time \<Rightarrow> command_row list \<Rightarrow> db \<Rightarrow> command_row list \<times> db" where
  "hand_out_all g now [] s = ([], s)"
| "hand_out_all g now (c # cs) s = (case hand_out_one now c (g s) of
     (o1, s1) \<Rightarrow> (case hand_out_all g now cs s1 of (o2, s2) \<Rightarrow> (o1 @ o2, s2)))"

text \<open>\<open>ids\<close> are the ids the database gives the commands staged on the way.\<close>

definition collectForHeartbeat :: "(db \<Rightarrow> db) \<Rightarrow> time \<Rightarrow> id \<times> id \<Rightarrow> id \<Rightarrow> db \<Rightarrow> command_row list \<times> db" where
  "collectForHeartbeat g now ids endpointId s =
     (let s1 = expireStale now endpointId (g (stageAutomaticCollections now ids endpointId s))
      in hand_out_all g now (due_commands s1 endpointId) s1)"

section \<open>Answers\<close>

definition sanitize_event :: "date_lib \<Rightarrow> json \<Rightarrow> json" where
  "sanitize_event L e = (let level = clean_int (json_get e ''level'') 0 5 in
     JObj [(''timeCreated'', jstr (map_option (dl_iso L) (clean_date L (json_get e ''timeCreated'')))),
       (''eventId'', jint (clean_int (json_get e ''eventId'') 0 4294967295)), (''level'', jint level),
       (''levelName'', jstr (Option.bind level EVENT_LEVELS)), (''provider'', jstr (clean_str (json_get e ''provider'') 128)),
       (''message'', jstr (clean_str (json_get e ''message'') MAX_MESSAGE_CHARS))])"

definition sanitizeEvents :: "date_lib \<Rightarrow> json \<Rightarrow> json list" where
  "sanitizeEvents L v = filter (\<lambda>e. json_get e ''eventId'' \<noteq> JNull \<or> json_get e ''message'' \<noteq> JNull)
     (map (sanitize_event L) (clean_arr v MAX_EVENTS))"

datatype command_answer = answer_accepted | unknown_command | already_complete

definition command_result :: "date_lib \<Rightarrow> command_type \<Rightarrow> json \<Rightarrow> json" where
  "command_result L ty payload = (case ty of
     EVENT_LOG_QUERY \<Rightarrow> JObj [(''events'', JArr (sanitizeEvents L (json_get payload ''events'')))]
   | _ \<Rightarrow> JObj [(''collected'', JBool True)])"

definition record_answer :: "date_lib \<Rightarrow> time \<Rightarrow> id \<Rightarrow> command_type \<Rightarrow> json \<Rightarrow> db \<Rightarrow> db" where
  "record_answer L now endpointId ty payload s = (case ty of
     INVENTORY_REFRESH \<Rightarrow> recordInventory L now endpointId (json_get payload ''inventory'') s
   | UPDATE_SCAN \<Rightarrow> recordUpdateScan now endpointId (json_get payload ''updates'') s
   | EVENT_LOG_QUERY \<Rightarrow> s)"

definition completeCommand :: "date_lib \<Rightarrow> time \<Rightarrow> id \<Rightarrow> id \<Rightarrow> json \<Rightarrow> db \<Rightarrow> command_answer \<times> db" where
  "completeCommand L now endpointId commandId payload s =
     (case find_row (\<lambda>c. cm_id c = commandId \<and> cm_endpointId c = endpointId) (commands s) of
        None \<Rightarrow> (unknown_command, s)
      | Some c \<Rightarrow>
          if cm_status c \<in> {CMD_SUCCEEDED, CMD_FAILED} then (already_complete, s)
          else if clean_bool (json_get payload ''ok'') \<noteq> Some True
          then (answer_accepted, set_command (cm_id c) (\<lambda>q. q\<lparr>cm_status := CMD_FAILED,
                 cm_error := Some (case clean_str (json_get payload ''error'') 1000 of
                   None \<Rightarrow> ''The agent reported a failure with no detail.'' | Some e \<Rightarrow> e),
                 cm_completedAt := Some now\<rparr>) s)
          else (answer_accepted, set_command (cm_id c) (\<lambda>q. q\<lparr>cm_status := CMD_SUCCEEDED,
                 cm_result := Some (command_result L (cm_type c) payload), cm_error := None, cm_completedAt := Some now\<rparr>)
                 (record_answer L now endpointId (cm_type c) payload s)))"

definition newest_first :: "command_row list \<Rightarrow> command_row list" where
  "newest_first cs = rev (sort_key cm_createdAt (rev cs))"

text \<open>The columns of a listed command: not its parameters and not its result.\<close>

record command_summary =
  sm_id :: id
  sm_type :: command_type
  sm_status :: command_status
  sm_error :: "string option"
  sm_requestedById :: "id option"
  sm_createdAt :: time
  sm_completedAt :: "time option"

definition command_view :: "command_row \<Rightarrow> command_summary" where
  "command_view c = \<lparr>sm_id = cm_id c, sm_type = cm_type c, sm_status = cm_status c, sm_error = cm_error c,
     sm_requestedById = cm_requestedById c, sm_createdAt = cm_createdAt c, sm_completedAt = cm_completedAt c\<rparr>"

definition listCommands :: "time \<Rightarrow> id \<Rightarrow> nat \<Rightarrow> db \<Rightarrow> command_summary list \<times> db" where
  "listCommands now endpointId limit s = (let s1 = expireStale now endpointId s in
     (map command_view (take (min limit 100) (newest_first (filter (\<lambda>c. cm_endpointId c = endpointId) (commands s1)))), s1))"

definition latestEventLog :: "time \<Rightarrow> id \<Rightarrow> db \<Rightarrow> command_row option \<times> db" where
  "latestEventLog now endpointId s = (let s1 = expireStale now endpointId s in
     (find_row (\<lambda>c. cm_endpointId c = endpointId \<and> cm_type c = EVENT_LOG_QUERY) (newest_first (commands s1)), s1))"

definition getCommand :: "time \<Rightarrow> id \<Rightarrow> id \<Rightarrow> db \<Rightarrow> command_row option \<times> db" where
  "getCommand now endpointId commandId s = (let s1 = expireStale now endpointId s in
     (find_row (\<lambda>c. cm_id c = commandId \<and> cm_endpointId c = endpointId) (commands s1), s1))"

section \<open>Shapes of what is stored\<close>

text \<open>What a column may hold: bounded text without control characters, numbers in a range, dates, lists of objects.\<close>

datatype shape = Text nat | Range int int | Bool

definition clean_text :: "nat \<Rightarrow> string \<Rightarrow> bool" where
  "clean_text n s = (s \<noteq> [] \<and> length s \<le> n \<and> list_all (\<lambda>c. \<not> is_control c) s)"

fun fits :: "shape \<Rightarrow> json \<Rightarrow> bool" where
  "fits (Text n) j = (case j of JStr s \<Rightarrow> clean_text n s | _ \<Rightarrow> False)"
| "fits (Range lo hi) j = (case j of JNum q \<Rightarrow> q = of_int \<lfloor>q\<rfloor> \<and> lo \<le> \<lfloor>q\<rfloor> \<and> \<lfloor>q\<rfloor> \<le> hi | _ \<Rightarrow> False)"
| "fits Bool j = (case j of JBool b \<Rightarrow> True | _ \<Rightarrow> False)"

text \<open>A field: its name, whether it may be null, and its shape.\<close>

type_synonym field_spec = "string \<times> bool \<times> shape"

definition field_fits :: "bool \<Rightarrow> shape \<Rightarrow> json \<Rightarrow> bool" where
  "field_fits nullable sh v = (nullable \<and> v = JNull \<or> fits sh v)"

fun fields_fit :: "field_spec list \<Rightarrow> (string \<times> json) list \<Rightarrow> bool" where
  "fields_fit [] kvs = (kvs = [])"
| "fields_fit ((k, nullable, sh) # fs) kvs =
     (case kvs of [] \<Rightarrow> False | (k', v) # rest \<Rightarrow> k' = k \<and> field_fits nullable sh v \<and> fields_fit fs rest)"

definition object_fits :: "field_spec list \<Rightarrow> json \<Rightarrow> bool" where
  "object_fits fs j = (case j of JObj kvs \<Rightarrow> fields_fit fs kvs | _ \<Rightarrow> False)"

definition list_fits :: "nat \<Rightarrow> field_spec list \<Rightarrow> json \<Rightarrow> bool" where
  "list_fits n fs j = (case j of JArr xs \<Rightarrow> length xs \<le> n \<and> list_all (object_fits fs) xs | _ \<Rightarrow> False)"

datatype column_shape = Scalar shape | Date | Stamp | Objects nat "field_spec list"

definition DISK :: "field_spec list" where
  "DISK = [(''drive'', False, Text 16), (''label'', True, Text 64), (''fsType'', True, Text 32),
     (''totalBytes'', True, Range 0 MAX_SAFE_INTEGER), (''freeBytes'', True, Range 0 MAX_SAFE_INTEGER)]"

definition GPU :: "field_spec list" where
  "GPU = [(''name'', False, Text 128), (''driverVersion'', True, Text 64), (''resolution'', True, Text 32)]"

definition NETWORK :: "field_spec list" where
  "NETWORK = [(''name'', False, Text 128), (''mac'', True, Text 32), (''ipv4'', True, Text 64), (''gateway'', True, Text 64),
     (''dhcp'', True, Bool)]"

definition UPDATE :: "field_spec list" where
  "UPDATE = [(''title'', False, Text 300), (''kb'', True, Text 32), (''severity'', True, Text 32),
     (''sizeBytes'', True, Range 0 MAX_SAFE_INTEGER)]"

definition INVENTORY :: "(string \<times> column_shape) list" where
  "INVENTORY = [(''loggedOnUser'', Scalar (Text 128)), (''uptimeSeconds'', Scalar (Range 0 315360000)), (''lastBootAt'', Date),
     (''cpuLoadPercent'', Scalar (Range 0 100)), (''memoryTotalMb'', Scalar (Range 0 67108864)),
     (''memoryFreeMb'', Scalar (Range 0 67108864)), (''systemDiskTotalMb'', Scalar (Range 0 1073741824)),
     (''systemDiskFreeMb'', Scalar (Range 0 1073741824)), (''liveSampledAt'', Stamp), (''collectedAt'', Stamp),
     (''updatesCheckedAt'', Stamp), (''manufacturer'', Scalar (Text 128)), (''model'', Scalar (Text 128)),
     (''serialNumber'', Scalar (Text 128)), (''chassisType'', Scalar (Text 64)), (''biosVersion'', Scalar (Text 128)),
     (''biosDate'', Date), (''osCaption'', Scalar (Text 128)), (''osBuild'', Scalar (Text 64)), (''osArch'', Scalar (Text 32)),
     (''osInstalledAt'', Date), (''domain'', Scalar (Text 128)), (''timezone'', Scalar (Text 64)),
     (''cpuModel'', Scalar (Text 128)), (''cpuCores'', Scalar (Range 1 1024)), (''cpuThreads'', Scalar (Range 1 4096)),
     (''cpuMhz'', Scalar (Range 1 100000)), (''disks'', Objects 32 DISK), (''gpus'', Objects 8 GPU),
     (''networks'', Objects 16 NETWORK), (''pendingUpdates'', Objects 100 UPDATE),
     (''pendingUpdateCount'', Scalar (Range 0 100)), (''rebootRequired'', Scalar Bool)]"

fun column_fits :: "column_shape \<Rightarrow> cell \<Rightarrow> bool" where
  "column_fits sh C_null = True"
| "column_fits sh (C_string s) = (case sh of Scalar (Text n) \<Rightarrow> clean_text n s | _ \<Rightarrow> False)"
| "column_fits sh (C_int i) = (case sh of Scalar (Range lo hi) \<Rightarrow> lo \<le> i \<and> i \<le> hi | _ \<Rightarrow> False)"
| "column_fits sh (C_bool b) = (sh = Scalar Bool)"
| "column_fits sh (C_date t) = (sh = Stamp \<or> sh = Date \<and> 631152000000 \<le> t \<and> t < 4133980800000)"
| "column_fits sh (C_json j) = (case sh of Objects n fs \<Rightarrow> list_fits n fs j | _ \<Rightarrow> False)"

definition column_ok :: "string \<Rightarrow> cell \<Rightarrow> bool" where
  "column_ok k v = (case map_of INVENTORY k of None \<Rightarrow> False | Some sh \<Rightarrow> column_fits sh v)"

definition EVENT :: "field_spec list" where
  "EVENT = [(''eventId'', True, Range 0 4294967295), (''level'', True, Range 0 5), (''levelName'', True, Text 11),
     (''provider'', True, Text 128), (''message'', True, Text 2000)]"

text \<open>An event record is its time, printed by the server, and the rest.\<close>

definition event_fits :: "json \<Rightarrow> bool" where
  "event_fits j = (case j of JObj ((k, t) # rest) \<Rightarrow> k = ''timeCreated'' \<and> fields_fit EVENT rest | _ \<Rightarrow> False)"

definition result_ok :: "json \<Rightarrow> bool" where
  "result_ok j = (j = JObj [(''collected'', JBool True)]
     \<or> (\<exists>xs. j = JObj [(''events'', JArr xs)] \<and> length xs \<le> 200 \<and> list_all event_fits xs))"

definition params_ok :: "json \<Rightarrow> bool" where
  "params_ok j = (\<exists>log levels rest. j = JObj ((''logName'', JStr log) # (''levels'', JArr levels) # rest)
     \<and> log \<in> set ALLOWED_EVENT_LOGS \<and> length levels \<le> 8 \<and> list_all (fits (Range 0 5)) levels
     \<and> fields_fit [(''maxEvents'', False, Range 1 200), (''sinceHours'', False, Range 1 336), (''providerName'', True, Text 128)] rest)"

definition command_ok :: "command_row \<Rightarrow> bool" where
  "command_ok c = ((cm_params c = None) = (cm_type c \<noteq> EVENT_LOG_QUERY) \<and> (case cm_params c of None \<Rightarrow> True | Some j \<Rightarrow> params_ok j)
     \<and> (case cm_result c of None \<Rightarrow> True | Some j \<Rightarrow> result_ok j)
     \<and> (case cm_error c of None \<Rightarrow> True | Some e \<Rightarrow> length e \<le> 1000))"

definition report_ok :: "inventory_row \<Rightarrow> bool" where
  "report_ok r = (\<forall>k v. in_columns r k = Some v \<longrightarrow> column_ok k v)"

definition reports_ok :: "db \<Rightarrow> bool" where
  "reports_ok s = ((\<forall>r \<in> set (inventories s). report_ok r) \<and> (\<forall>c \<in> set (commands s). command_ok c))"

section \<open>Runs\<close>

text \<open>What happens to the queue and the reports, whatever the computers send.\<close>

datatype queue_event =
    Live time id json
  | Stage time id stage_args
  | Collect time "id \<times> id" id
  | Answer time id id json
  | Look time id

fun queue_step :: "date_lib \<Rightarrow> queue_event \<Rightarrow> db \<Rightarrow> command_row list \<times> db" where
  "queue_step L (Live now e r) s = ([], recordLiveState L now e r s)"
| "queue_step L (Stage now i a) s = ([], snd (stage now i a s))"
| "queue_step L (Collect now ids e) s = collectForHeartbeat (\<lambda>d. d) now ids e s"
| "queue_step L (Answer now e i p) s = ([], snd (completeCommand L now e i p s))"
| "queue_step L (Look now e) s = ([], expireStale now e s)"

section \<open>Lemmas: what is stored\<close>

lemma set_js_trim: "set (js_trim s) \<subseteq> set s"
  unfolding js_trim_def set_rev using set_dropWhileD by (metis set_rev subsetI)

lemma clean_str_text:
  assumes "clean_str v n = Some s" "0 < n"
  shows "clean_text n s"
proof -
  obtain t where t: "v = JStr t" using assms(1) by (cases v) (simp_all add: clean_str_def)
  define m where "m = map (\<lambda>c. if is_control c then CHR '' '' else c) t"
  have s: "s = take n (js_trim m)" "js_trim m \<noteq> []"
    using assms(1) by (simp_all add: clean_str_def t m_def Let_def split: if_splits)
  have "set s \<subseteq> set m" using set_js_trim[of m] set_take_subset[of n "js_trim m"] unfolding s(1) by blast
  moreover have "\<not> is_control c" if "c \<in> set m" for c using that by (auto simp: m_def is_control_def)
  ultimately have "list_all (\<lambda>c. \<not> is_control c) s" by (auto simp: list_all_iff)
  moreover have "s \<noteq> []" "length s \<le> n" using s(2) assms(2) unfolding s(1) by simp_all
  ultimately show ?thesis by (simp add: clean_text_def)
qed

lemma clean_int_range: "clean_int v lo hi = Some i \<Longrightarrow> lo \<le> i \<and> i \<le> hi"
  by (auto simp: clean_int_def Let_def split: option.splits if_splits)

lemma clean_date_range: "clean_date L v = Some t \<Longrightarrow> 631152000000 \<le> t \<and> t < 4133980800000"
  by (auto simp: clean_date_def split: json.splits option.splits if_splits)

lemma length_clean_arr: "length (clean_arr v n) \<le> n"
  by (simp add: clean_arr_def split: json.split)

lemma fits_jint: "clean_int v lo hi = Some i \<Longrightarrow> fits (Range lo hi) (JNum (of_int i))"
  by (auto dest: clean_int_range)

lemma field_texts [simp]:
  "0 < n \<Longrightarrow> field_fits True (Text n) (jstr (clean_str v n))"
  "0 < n \<Longrightarrow> clean_str v n = Some s \<Longrightarrow> field_fits b (Text n) (JStr s)"
  by (cases "clean_str v n"; simp add: field_fits_def jstr_def clean_str_text) (simp add: field_fits_def clean_str_text)

lemma field_int [simp]: "field_fits True (Range lo hi) (jint (clean_int v lo hi))"
  by (cases "clean_int v lo hi") (simp_all add: field_fits_def jint_def clean_int_range)

lemma field_bool [simp]: "field_fits True Bool (jbool x)"
  by (cases x) (simp_all add: field_fits_def jbool_def)

lemma length_concat_singletons: "(\<And>x. length (f x) \<le> 1) \<Longrightarrow> length (concat (map f xs)) \<le> length xs"
proof (induction xs)
  case Nil
  show ?case by simp
next
  case (Cons x xs)
  have "length (f x) \<le> 1" "length (concat (map f xs)) \<le> length xs" using Cons by blast+
  then show ?case by simp
qed

lemma objects_fit:
  assumes "\<And>x j. j \<in> set (f x) \<Longrightarrow> object_fits fs j" and "\<And>x. length (f x) \<le> 1"
  shows "list_fits n fs (JArr (concat (map f (clean_arr v n))))"
proof -
  have "length (concat (map f (clean_arr v n))) \<le> n"
    using length_concat_singletons[of f, OF assms(2)] length_clean_arr[of v n] le_trans by blast
  then show ?thesis using assms(1) by (auto simp: list_fits_def list_all_iff)
qed

lemma disks_fit: "list_fits 32 DISK (JArr (sanitizeDisks v))"
  unfolding sanitizeDisks_def
  by (rule objects_fit) (auto simp: DISK_def object_fits_def split: option.splits)

lemma gpus_fit: "list_fits 8 GPU (JArr (sanitizeGpus v))"
  unfolding sanitizeGpus_def
  by (rule objects_fit) (auto simp: GPU_def object_fits_def split: option.splits)

lemma networks_fit: "list_fits 16 NETWORK (JArr (sanitizeNetworks v))"
  unfolding sanitizeNetworks_def
  by (rule objects_fit) (auto simp: NETWORK_def object_fits_def split: option.splits)

lemma updates_fit: "list_fits 100 UPDATE (JArr (sanitize_updates v))"
  unfolding sanitize_updates_def
  by (rule objects_fit) (auto simp: UPDATE_def object_fits_def split: option.splits)

definition slot_ok :: "string \<times> cell option \<Rightarrow> bool" where
  "slot_ok kv = (case snd kv of None \<Rightarrow> True | Some c \<Rightarrow> column_ok (fst kv) c)"

lemma slot_text: "map_of INVENTORY k = Some (Scalar (Text n)) \<Longrightarrow> 0 < n \<Longrightarrow> slot_ok (c_str r k n)"
  by (cases "clean_str (json_get r k) n") (simp_all add: slot_ok_def column_ok_def clean_str_text)

lemma slot_int: "map_of INVENTORY k = Some (Scalar (Range lo hi)) \<Longrightarrow> slot_ok (c_int r k lo hi)"
  by (cases "clean_int (json_get r k) lo hi") (simp_all add: slot_ok_def column_ok_def clean_int_range)

lemma slot_date: "map_of INVENTORY k = Some Date \<Longrightarrow> slot_ok (c_date L r k)"
  by (cases "clean_date L (json_get r k)") (auto simp: slot_ok_def column_ok_def dest: clean_date_range)

lemma slot_stamp: "map_of INVENTORY k = Some Stamp \<Longrightarrow> slot_ok (k, Some (C_date t))"
  by (simp add: slot_ok_def column_ok_def)

lemma slot_objects: "map_of INVENTORY k = Some (Objects n fs) \<Longrightarrow> list_fits n fs j \<Longrightarrow> slot_ok (k, Some (C_json j))"
  by (simp add: slot_ok_def column_ok_def)

lemma slot_null: "map_of INVENTORY k = Some sh \<Longrightarrow> slot_ok (k, Some C_null)"
  by (simp add: slot_ok_def column_ok_def)

lemma live_slots: "list_all slot_ok (live_columns L r)"
  unfolding live_columns_def list.pred_inject
  by (intro conjI TrueI slot_int slot_date) (simp_all add: INVENTORY_def slot_text slot_null)

lemma inventory_slots: "list_all slot_ok (inventory_columns L r)"
  unfolding inventory_columns_def list.pred_inject
  by (intro conjI TrueI slot_int slot_date slot_text slot_objects[OF _ disks_fit]
      slot_objects[OF _ gpus_fit] slot_objects[OF _ networks_fit]) (simp_all add: INVENTORY_def)

lemma defined_ok: "list_all slot_ok data \<Longrightarrow> (k, v) \<in> set (defined data) \<Longrightarrow> column_ok k v"
  by (auto simp: defined_def list_all_iff slot_ok_def split: option.splits)

lemma upsert_ok:
  assumes "reports_ok s" and "list_all slot_ok data"
  shows "reports_ok (upsert e data s)"
proof -
  have "column_ok k v" if "map_of (defined data) k = Some v" for k v
    using defined_ok[OF assms(2)] map_of_SomeD[OF that] by blast
  then have added: "report_ok (r\<lparr>in_columns := in_columns r ++ map_of (defined data)\<rparr>)" if "report_ok r" for r
    using that by (auto simp: report_ok_def map_add_Some_iff)
  have "report_ok \<lparr>in_endpointId = e, in_columns = map_of (defined data)\<rparr>"
    using added[of "\<lparr>in_endpointId = e, in_columns = Map.empty\<rparr>"] by (simp add: report_ok_def)
  with added assms(1) show ?thesis by (auto simp: upsert_def reports_ok_def set_update_rows)
qed

lemma recordLiveState_ok: "reports_ok s \<Longrightarrow> reports_ok (recordLiveState L now e r s)"
  by (simp add: recordLiveState_def upsert_ok live_slots slot_stamp INVENTORY_def)

lemma recordInventory_ok: "reports_ok s \<Longrightarrow> reports_ok (recordInventory L now e r s)"
  by (simp add: recordInventory_def upsert_ok inventory_slots slot_stamp INVENTORY_def)

lemma length_updates: "length (sanitize_updates v) \<le> 100"
  using updates_fit[of v] by (simp add: list_fits_def)

lemma recordUpdateScan_ok:
  assumes "reports_ok s"
  shows "reports_ok (recordUpdateScan now e r s)"
proof -
  have "slot_ok (''pendingUpdates'', Some (C_json (JArr (sanitize_updates v))))" for v
    by (rule slot_objects[OF _ updates_fit]) (simp add: INVENTORY_def)
  moreover have "slot_ok (''pendingUpdateCount'', Some (C_int (int (length (sanitize_updates v)))))" for v
    using length_updates[of v] by (simp add: slot_ok_def column_ok_def INVENTORY_def)
  moreover have "slot_ok (''rebootRequired'', map_option C_bool (clean_bool v))" for v
    by (cases "clean_bool v") (simp_all add: slot_ok_def column_ok_def INVENTORY_def)
  moreover have "slot_ok (''updatesCheckedAt'', Some (C_date now))" by (rule slot_stamp) (simp add: INVENTORY_def)
  ultimately show ?thesis using assms by (simp add: recordUpdateScan_def Let_def upsert_ok)
qed

lemma event_fits_sanitized: "event_fits (sanitize_event L e)"
proof -
  have "field_fits True (Text 11) (jstr (Option.bind (clean_int v 0 5) EVENT_LEVELS))" for v
  proof (cases "clean_int v 0 5")
    case None
    then show ?thesis by (simp add: field_fits_def jstr_def)
  next
    case (Some l)
    with clean_int_range[of v 0 5 l] have "l \<in> {0, 1, 2, 3, 4, 5}" by auto
    with Some show ?thesis
      by (auto simp: EVENT_LEVELS_def field_fits_def jstr_def clean_text_def is_control_def)
  qed
  then show ?thesis by (simp add: event_fits_def sanitize_event_def Let_def EVENT_def MAX_MESSAGE_CHARS_def)
qed

lemma command_result_ok: "result_ok (command_result L ty p)"
proof (cases ty)
  case EVENT_LOG_QUERY
  have "length (sanitizeEvents L v) \<le> 200" for v
    unfolding sanitizeEvents_def
    by (rule order.trans[OF length_filter_le]) (use length_clean_arr[of v MAX_EVENTS] in \<open>simp add: MAX_EVENTS_def\<close>)
  moreover have "list_all event_fits (sanitizeEvents L v)" for v
    by (auto simp: sanitizeEvents_def list_all_iff event_fits_sanitized)
  ultimately show ?thesis by (simp add: EVENT_LOG_QUERY command_result_def result_ok_def)
qed (simp_all add: command_result_def result_ok_def)

lemma validated_params:
  assumes "validateParams ty p = Inr params"
  shows "(params = None) = (ty \<noteq> EVENT_LOG_QUERY)" "case params of None \<Rightarrow> True | Some j \<Rightarrow> params_ok j"
proof -
  have "(params = None) = (ty \<noteq> EVENT_LOG_QUERY) \<and> (case params of None \<Rightarrow> True | Some j \<Rightarrow> params_ok j)"
proof (cases "ty = EVENT_LOG_QUERY")
  case False
  with assms show ?thesis by (simp add: validateParams_def)
next
  case True
  let ?levels = "concat (map (\<lambda>l. case clean_int l 0 5 of None \<Rightarrow> [] | Some i \<Rightarrow> [i]) (clean_arr (json_get p ''levels'') 8))"
  have "length ?levels \<le> length (clean_arr (json_get p ''levels'') 8)"
    by (rule length_concat_singletons) (simp split: option.split)
  then have 8: "length ?levels \<le> 8" using length_clean_arr le_trans by blast
  have lv: "list_all (fits (Range 0 5)) (map (\<lambda>i. JNum (of_int i)) ?levels)"
    by (auto simp: list_all_iff dest!: clean_int_range[OF sym] split: option.splits)
  have mx: "field_fits False (Range 1 200) (JNum (of_int (case clean_int v 1 (int MAX_EVENTS) of None \<Rightarrow> 50 | Some i \<Rightarrow> i)))" for v
    using clean_int_range[of v 1 200] by (auto simp: field_fits_def MAX_EVENTS_def split: option.split)
  have sh: "field_fits False (Range 1 336) (JNum (of_int (case clean_int v 1 MAX_SINCE_HOURS of None \<Rightarrow> 24 | Some i \<Rightarrow> i)))" for v
    using clean_int_range[of v 1 336] by (auto simp: field_fits_def MAX_SINCE_HOURS_def split: option.split)
  from assms True have "(case json_get p ''logName'' of JStr s \<Rightarrow> s | _ \<Rightarrow> []) \<in> set ALLOWED_EVENT_LOGS"
    by (simp add: validateParams_def Let_def split: if_splits)
  with assms True 8 lv mx sh show ?thesis
    by (auto simp: validateParams_def Let_def params_ok_def)
qed
  then show "(params = None) = (ty \<noteq> EVENT_LOG_QUERY)" "case params of None \<Rightarrow> True | Some j \<Rightarrow> params_ok j" by blast+
qed

lemma set_command_ok:
  "reports_ok s \<Longrightarrow> (\<And>c. command_ok c \<Longrightarrow> command_ok (f c)) \<Longrightarrow> reports_ok (set_command i f s)"
  by (auto simp: reports_ok_def set_command_def set_update_rows)

lemma stage_ok: "reports_ok s \<Longrightarrow> reports_ok (snd (stage now i a s))"
proof (cases "validateParams (sg_type a) (sg_params a)")
  case (Inr params)
  assume s: "reports_ok s"
  have "command_ok (new_command now i a params)"
    using validated_params[OF Inr] by (simp add: command_ok_def new_command_def)
  with s Inr show ?thesis by (auto simp: stage_def reports_ok_def)
qed (simp add: stage_def)

lemma expireStale_ok: "reports_ok s \<Longrightarrow> reports_ok (expireStale now e s)"
  by (auto simp: reports_ok_def expireStale_def set_update_rows command_ok_def)

lemma hand_out_one_ok: "reports_ok s \<Longrightarrow> reports_ok (snd (hand_out_one now c s))"
proof -
  assume "reports_ok s"
  moreover have "command_ok (hand_out now x)" "command_ok (give_up now x)" if "command_ok x" for x
    using that by (simp_all add: command_ok_def hand_out_def give_up_def)
  ultimately have "reports_ok (set_command (cm_id c) (hand_out now) s)" "reports_ok (set_command (cm_id c) (give_up now) s)"
    using set_command_ok by blast+
  then show ?thesis by (simp add: hand_out_one_def)
qed

lemma hand_out_all_ok:
  "(\<And>d. reports_ok d \<Longrightarrow> reports_ok (g d)) \<Longrightarrow> reports_ok s \<Longrightarrow> reports_ok (snd (hand_out_all g now cs s))"
proof (induction cs arbitrary: s)
  case (Cons c cs)
  have "reports_ok (snd (hand_out_one now c (g s)))" by (rule hand_out_one_ok) (rule Cons.prems(1)[OF Cons.prems(2)])
  with Cons.IH Cons.prems(1) show ?case by (simp add: case_prod_unfold)
qed simp

lemma collect_ok:
  "(\<And>d. reports_ok d \<Longrightarrow> reports_ok (g d)) \<Longrightarrow> reports_ok s \<Longrightarrow> reports_ok (snd (collectForHeartbeat g now ids e s))"
  by (simp add: collectForHeartbeat_def Let_def stageAutomaticCollections_def hand_out_all_ok expireStale_ok stage_ok)

lemma record_answer_ok: "reports_ok s \<Longrightarrow> reports_ok (record_answer L now e ty p s)"
  by (cases ty) (simp_all add: record_answer_def recordInventory_ok recordUpdateScan_ok)

lemma complete_ok:
  assumes "reports_ok s"
  shows "reports_ok (snd (completeCommand L now e i p s))"
proof -
  have 1: "length x \<le> 1000" if "clean_str v 1000 = Some x" for v x
    using clean_str_text[OF that] by (simp add: clean_text_def)
  have f: "reports_ok (set_command j (\<lambda>q. q\<lparr>cm_status := CMD_FAILED,
      cm_error := Some (case clean_str v 1000 of None \<Rightarrow> ''The agent reported a failure with no detail.'' | Some x \<Rightarrow> x),
      cm_completedAt := Some now\<rparr>) s)" for j v
    by (rule set_command_ok[OF assms]) (auto simp: command_ok_def dest: 1 split: option.splits)
  have g: "reports_ok (set_command j (\<lambda>q. q\<lparr>cm_status := CMD_SUCCEEDED, cm_result := Some (command_result L ty p),
      cm_error := None, cm_completedAt := Some now\<rparr>) (record_answer L now e ty p s))" for j ty
    by (rule set_command_ok[OF record_answer_ok[OF assms]]) (simp add: command_ok_def command_result_ok)
  show ?thesis
    using f g assms by (cases "find_row (\<lambda>c. cm_id c = i \<and> cm_endpointId c = e) (commands s)") (simp_all add: completeCommand_def)
qed

lemma queue_step_ok: "reports_ok s \<Longrightarrow> reports_ok (snd (queue_step L ev s))"
  by (cases ev) (simp_all add: recordLiveState_ok stage_ok collect_ok complete_ok expireStale_ok)

interpretation queue: machine "\<lambda>s ev. snd (queue_step L ev s)" reports_ok
  by unfold_locales (rule queue_step_ok)

end
