(* ===== verification/CommandQueue.thy ===== *)
theory CommandQueue
  imports Inventory
begin

text \<open>
  Properties of reports and command queue: nothing a computer sends makes an ill-typed row, no command is
  handed out more often than the limit, and the order in which waiting commands are handed out.
\<close>

section \<open>How often a command is handed out\<close>

definition times_in :: "id \<Rightarrow> command_row list \<Rightarrow> nat" where
  "times_in i cs = length (filter (\<lambda>c. cm_id c = i) cs)"

text \<open>
  A heartbeat stages, expires, reads the due commands and then writes them one by one, each step awaited. The rows that were
  read and are not written yet are kept per heartbeat; any number of heartbeats may be in flight, their steps in any
  order, with the other operations of the queue in between.
\<close>

type_synonym delivery = "command_row list list \<times> db"

datatype delivery_event =
    HeartbeatStages time "id \<times> id" id
  | HeartbeatReads id
  | HandsOut time nat
  | QueueOp queue_event

fun delivery_step :: "date_lib \<Rightarrow> delivery_event \<Rightarrow> delivery \<Rightarrow> command_row list \<times> delivery" where
  "delivery_step L (HeartbeatStages now ids e) (fls, s) = ([], fls, stageAutomaticCollections now ids e s)"
| "delivery_step L (HeartbeatReads e) (fls, s) = ([], fls @ [due_commands s e], s)"
| "delivery_step L (HandsOut now k) (fls, s) =
     (if k < length fls
      then (case fls ! k of
          [] \<Rightarrow> ([], fls, s)
        | c # cs \<Rightarrow> (case hand_out_one now c s of (out, s1) \<Rightarrow> (out, fls[k := cs], s1)))
      else ([], fls, s))"
| "delivery_step L (QueueOp ev) (fls, s) = (case ev of
     Collect now ids e \<Rightarrow> ([], fls, s)
   | _ \<Rightarrow> ([], fls, snd (queue_step L ev s)))"

text \<open>How many heartbeats read the command as one to hand out and have not done so yet.\<close>

definition pending_for :: "id \<Rightarrow> command_row list list \<Rightarrow> nat" where
  "pending_for i fls = length (filter (list_ex (\<lambda>c. cm_id c = i \<and> cm_dispatchCount c < MAX_DISPATCHES)) fls)"

text \<open>Of a run: how often the command was handed out, and the most heartbeats that were about to do so at once.\<close>

fun delivery_run :: "date_lib \<Rightarrow> id \<Rightarrow> delivery_event list \<Rightarrow> delivery \<Rightarrow> nat \<times> nat" where
  "delivery_run L i [] w = (0, pending_for i (fst w))"
| "delivery_run L i (ev # evs) w = (case delivery_step L ev w of
     (out, w1) \<Rightarrow> (case delivery_run L i evs w1 of
       (handed, most) \<Rightarrow> (times_in i out + handed, max (pending_for i (fst w)) most)))"

text \<open>The ids the database gives to new commands are new.\<close>

definition new_ids :: "db \<Rightarrow> id list \<Rightarrow> bool" where
  "new_ids s is = (distinct is \<and> set is \<inter> cm_id ` set (commands s) = {})"

fun ids_fresh :: "date_lib \<Rightarrow> delivery_event list \<Rightarrow> delivery \<Rightarrow> bool" where
  "ids_fresh L [] w = True"
| "ids_fresh L (ev # evs) w = ((case ev of
       QueueOp (Stage now i a) \<Rightarrow> new_ids (snd w) [i]
     | HeartbeatStages now ids e \<Rightarrow> new_ids (snd w) [fst ids, snd ids]
     | _ \<Rightarrow> True)
     \<and> ids_fresh L evs (snd (delivery_step L ev w)))"

definition uses :: "db \<Rightarrow> id \<Rightarrow> nat" where
  "uses s i = (case find_row (\<lambda>c. cm_id c = i) (commands s) of None \<Rightarrow> 0 | Some c \<Rightarrow> cm_dispatchCount c)"

definition queue_inv :: "db \<Rightarrow> bool" where
  "queue_inv s = distinct (map cm_id (commands s))"

definition delivery_inv :: "delivery \<Rightarrow> bool" where
  "delivery_inv w = (queue_inv (snd w)
     \<and> (\<forall>cs \<in> set (fst w). distinct (map cm_id cs) \<and> cm_id ` set cs \<subseteq> cm_id ` set (commands (snd w))))"

text \<open>An update that keeps ids and counts.\<close>

definition keeps_counts :: "(command_row \<Rightarrow> command_row) \<Rightarrow> bool" where
  "keeps_counts f = (\<forall>c. cm_id (f c) = cm_id c \<and> cm_dispatchCount (f c) = cm_dispatchCount c)"

text \<open>What an operation other than handing out does: no row goes, and no count changes.\<close>

definition counts_stay :: "db \<Rightarrow> db \<Rightarrow> bool" where
  "counts_stay s s1 = (queue_inv s1 \<and> cm_id ` set (commands s) \<subseteq> cm_id ` set (commands s1) \<and> (\<forall>i. uses s1 i = uses s i))"

lemma counts_stay_refl: "queue_inv s \<Longrightarrow> counts_stay s s"
  by (simp add: counts_stay_def)

lemma counts_stay_trans: "counts_stay s t \<Longrightarrow> counts_stay t u \<Longrightarrow> counts_stay s u"
  unfolding counts_stay_def by (metis subset_trans)

lemma counts_kept:
  assumes "keeps_counts f" and "commands s1 = update_rows P f (commands s)" and "queue_inv s"
  shows "counts_stay s s1"
proof -
  have k: "cm_id (f c) = cm_id c" "cm_dispatchCount (f c) = cm_dispatchCount c" for c
    using assms(1) by (auto simp: keeps_counts_def)
  have m: "map cm_id (commands s1) = map cm_id (commands s)" unfolding assms(2) by (rule map_update_rows) (rule k)
  then have "cm_id ` set (commands s1) = cm_id ` set (commands s)" by (metis set_map)
  moreover have "find_row (\<lambda>c. cm_id c = i) (update_rows P f (commands s))
      = map_option (\<lambda>r. if P r then f r else r) (find_row (\<lambda>c. cm_id c = i) (commands s))" for i
    by (rule find_row_update) (rule k)
  then have "uses s1 i = uses s i" for i by (simp add: uses_def assms(2) k split: option.split)
  ultimately show ?thesis using assms(3) m by (simp add: counts_stay_def queue_inv_def)
qed

lemma commands_kept: "commands s1 = commands s \<Longrightarrow> queue_inv s \<Longrightarrow> counts_stay s s1"
  by (simp add: counts_stay_def queue_inv_def uses_def)

lemma staged_counts:
  assumes "queue_inv s" and "new_ids s [i]"
  shows "counts_stay s (snd (stage now i a s))"
proof -
  have "find_row (\<lambda>c. cm_id c = i) (commands s) = None" using assms(2) by (auto simp: find_row_None new_ids_def)
  with assms show ?thesis
    by (auto simp: counts_stay_def stage_def queue_inv_def uses_def find_row_append new_command_def new_ids_def split: sum.split option.split)
qed

lemma stage_ids: "cm_id ` set (commands (snd (stage now i a s))) \<subseteq> insert i (cm_id ` set (commands s))"
  by (auto simp: stage_def new_command_def split: sum.split)

lemma automatic_counts:
  assumes "queue_inv s" and "new_ids s [fst ids, snd ids]"
  shows "counts_stay s (stageAutomaticCollections now ids e s)"
proof -
  have n: "new_ids s [fst ids]" "new_ids s [snd ids]" using assms(2) by (auto simp: new_ids_def)
  have n2: "new_ids (snd (stage now (fst ids) a s)) [snd ids]" for a
    using assms(2) stage_ids[of now "fst ids" a s] by (auto simp: new_ids_def)
  have one: "counts_stay s (snd (stage now j a s))" if "new_ids s [j]" for j a by (rule staged_counts[OF assms(1) that])
  have "queue_inv (snd (stage now (fst ids) a s))" for a using one[OF n(1)] by (simp add: counts_stay_def)
  then have two: "counts_stay (snd (stage now (fst ids) a s)) (snd (stage now (snd ids) b (snd (stage now (fst ids) a s))))" for a b
    using n2 by (rule staged_counts)
  show ?thesis
    using counts_stay_refl[OF assms(1)] one[OF n(1)] one[OF n(2)] counts_stay_trans[OF one[OF n(1)] two]
    by (simp add: stageAutomaticCollections_def Let_def)
qed

lemma expired_counts: "queue_inv s \<Longrightarrow> counts_stay s (expireStale now e s)"
  by (rule counts_kept[of "\<lambda>c. c\<lparr>cm_status := CMD_EXPIRED, cm_completedAt := Some now\<rparr>"])
    (simp_all add: expireStale_def keeps_counts_def)

lemma set_command_counts: "keeps_counts f \<Longrightarrow> commands t = commands s \<Longrightarrow> queue_inv s \<Longrightarrow> counts_stay s (set_command k f t)"
  by (rule counts_kept[of f]) (simp_all add: set_command_def)

lemma given_up_counts: "queue_inv s \<Longrightarrow> counts_stay s (set_command i (give_up now) s)"
  by (rule set_command_counts) (simp_all add: keeps_counts_def give_up_def)

lemma queue_op_counts:
  assumes "queue_inv s" and "case ev of Stage now i a \<Rightarrow> new_ids s [i] | Collect now ids e \<Rightarrow> False | _ \<Rightarrow> True"
  shows "counts_stay s (snd (queue_step L ev s))"
proof (cases ev)
  case (Live now e r)
  have "commands (recordLiveState L now e r s) = commands s" by (simp add: recordLiveState_def upsert_def)
  from commands_kept[OF this assms(1)] show ?thesis by (simp add: Live)
next
  case (Answer now e j p)
  have r: "commands (record_answer L now e ty p s) = commands s" for ty
    by (cases ty) (simp_all add: record_answer_def recordInventory_def recordUpdateScan_def upsert_def Let_def)
  have "counts_stay s (snd (completeCommand L now e j p s))"
    using assms(1) counts_stay_refl[OF assms(1)]
    by (simp add: completeCommand_def keeps_counts_def set_command_counts r split: option.split)
  then show ?thesis by (simp add: Answer)
qed (use assms staged_counts expired_counts in auto)

lemma handed_counts:
  assumes "queue_inv s" and "cm_id c \<in> cm_id ` set (commands s)"
  shows "queue_inv (set_command (cm_id c) (hand_out now) s)"
    "cm_id ` set (commands (set_command (cm_id c) (hand_out now) s)) = cm_id ` set (commands s)"
    "uses (set_command (cm_id c) (hand_out now) s) j = uses s j + (if cm_id c = j then 1 else 0)"
proof -
  have m: "map cm_id (update_rows (\<lambda>x. cm_id x = cm_id c) (hand_out now) (commands s)) = map cm_id (commands s)"
    by (rule map_update_rows) (simp add: hand_out_def)
  then show "queue_inv (set_command (cm_id c) (hand_out now) s)" using assms(1) by (simp add: queue_inv_def set_command_def)
  show "cm_id ` set (commands (set_command (cm_id c) (hand_out now) s)) = cm_id ` set (commands s)"
    using m unfolding set_command_def by simp (metis set_map)
  have f: "find_row (\<lambda>x. cm_id x = j) (update_rows (\<lambda>x. cm_id x = cm_id c) (hand_out now) (commands s))
      = map_option (\<lambda>r. if cm_id r = cm_id c then hand_out now r else r) (find_row (\<lambda>x. cm_id x = j) (commands s))"
    by (rule find_row_update) (simp add: hand_out_def)
  show "uses (set_command (cm_id c) (hand_out now) s) j = uses s j + (if cm_id c = j then 1 else 0)"
  proof (cases "find_row (\<lambda>x. cm_id x = j) (commands s)")
    case None
    then have "cm_id c \<noteq> j" using assms(2) by (auto simp: find_row_None)
    with None f show ?thesis by (simp add: uses_def set_command_def)
  next
    case (Some r)
    then have "cm_id r = j" using find_row_Some[OF Some] by simp
    with Some f show ?thesis by (simp add: uses_def set_command_def hand_out_def)
  qed
qed

lemma queue_order_set: "set (queue_order cs) = set cs"
  by (simp add: queue_order_def)

lemma queue_order_ids: "distinct (map cm_id cs) \<Longrightarrow> distinct (map cm_id (queue_order cs))"
  by (simp add: queue_order_def distinct_map)

lemma due_counts:
  assumes "queue_inv s"
  shows "set (due_commands s e) \<subseteq> set (commands s)" "distinct (map cm_id (due_commands s e))"
proof -
  let ?f = "filter (\<lambda>c. cm_endpointId c = e \<and> is_open c) (commands s)"
  show "set (due_commands s e) \<subseteq> set (commands s)"
    using set_take_subset[of COMMANDS_PER_HEARTBEAT "queue_order ?f"] by (auto simp: due_commands_def queue_order_set)
  have "distinct (map cm_id ?f)" using assms by (simp add: queue_inv_def distinct_map inj_on_def)
  from distinct_take[OF queue_order_ids[OF this], of COMMANDS_PER_HEARTBEAT]
  show "distinct (map cm_id (due_commands s e))" by (simp add: due_commands_def take_map)
qed

lemma due_count_is_uses:
  assumes "queue_inv s" "c \<in> set (due_commands s e)"
  shows "cm_dispatchCount c = uses s (cm_id c)"
proof -
  have d: "distinct (map cm_id (commands s))" using assms(1) by (simp add: queue_inv_def)
  have "c \<in> set (commands s)" using due_counts(1)[OF assms(1)] assms(2) by blast
  from find_unique[OF d this] show ?thesis by (simp add: uses_def)
qed

lemma pending_for_simps [simp]:
  "pending_for i [] = 0" "pending_for i (fls @ gls) = pending_for i fls + pending_for i gls"
  "pending_for i (cs # fls) = (if list_ex (\<lambda>c. cm_id c = i \<and> cm_dispatchCount c < MAX_DISPATCHES) cs then 1 else 0) + pending_for i fls"
  by (simp_all add: pending_for_def)

lemma pending_for_update:
  "k < length fls \<Longrightarrow> pending_for i fls + pending_for i [cs] = pending_for i (fls[k := cs]) + pending_for i [fls ! k]"
proof (induction fls arbitrary: k)
  case (Cons x fls)
  then show ?case by (cases k) simp_all
qed simp

lemma delivery_inv_stay:
  assumes "delivery_inv (fls, s)" "counts_stay s s1"
  shows "delivery_inv (fls, s1)"
  using assms unfolding delivery_inv_def counts_stay_def fst_conv snd_conv by (meson subset_trans)

text \<open>One step keeps the invariant, and a command gains a use for each time it is handed out.\<close>

lemma delivery_step_counts:
  assumes inv: "delivery_inv w" and "ids_fresh L [ev] w" and step: "delivery_step L ev w = (out, w1)"
    and room: "pending_for i (fst w) \<le> 3 + m - uses (snd w) i" and m: "pending_for i (fst w1) \<le> m"
  shows "delivery_inv w1 \<and> pending_for i (fst w1) \<le> 3 + m - uses (snd w1) i
    \<and> times_in i out + (3 + m - uses (snd w1) i) \<le> 3 + m - uses (snd w) i"
proof -
  obtain fls s where w: "w = (fls, s)" by (cases w)
  have q: "queue_inv s" using inv by (simp add: w delivery_inv_def)
  have stay: "?thesis" if "counts_stay s s1" "out = []" "w1 = (fls, s1)" for s1
    using delivery_inv_stay[OF inv[unfolded w] that(1)] that room by (simp add: w counts_stay_def times_in_def)
  show ?thesis
  proof (cases ev)
    case (HeartbeatStages now ids e)
    have "counts_stay s (stageAutomaticCollections now ids e s)"
      using assms(2) by (intro automatic_counts[OF q]) (simp add: HeartbeatStages w)
    then show ?thesis using step by (intro stay) (auto simp: HeartbeatStages w)
  next
    case (HeartbeatReads e)
    have o: "out = []" "w1 = (fls @ [due_commands s e], s)" using step by (auto simp: HeartbeatReads w)
    have "delivery_inv w1" using inv due_counts[OF q, of e] by (auto simp: o w delivery_inv_def)
    moreover have "pending_for i (fst w1) \<le> 3 + m - uses s i"
    proof (cases "list_ex (\<lambda>c. cm_id c = i \<and> cm_dispatchCount c < MAX_DISPATCHES) (due_commands s e)")
      case True
      then have "uses s i \<le> 3" using due_count_is_uses[OF q, of _ e] by (auto simp: list_ex_iff MAX_DISPATCHES_def)
      then show ?thesis using m by simp
    next
      case False
      then show ?thesis using room by (simp add: o w)
    qed
    ultimately show ?thesis by (simp add: o w times_in_def)
  next
    case (HandsOut now k)
    show ?thesis
    proof (cases "k < length fls \<and> fls ! k \<noteq> []")
      case False
      then have "out = []" "w1 = (fls, s)" using step by (auto simp: HandsOut w split: list.splits if_splits)
      then show ?thesis by (intro stay[OF counts_stay_refl[OF q]])
    next
      case True
      then obtain c cs where c: "fls ! k = c # cs" by (cases "fls ! k") auto
      then have mem: "c # cs \<in> set fls" using True nth_mem[of k fls] by simp
      have ids: "cm_id c \<in> cm_id ` set (commands s)" "cm_id c \<notin> cm_id ` set cs" "distinct (map cm_id cs)"
        "cm_id ` set cs \<subseteq> cm_id ` set (commands s)"
      proof -
        have "distinct (map cm_id (c # cs))" "cm_id ` set (c # cs) \<subseteq> cm_id ` set (commands s)"
          using inv mem unfolding w delivery_inv_def fst_conv snd_conv by blast+
        then show "cm_id c \<in> cm_id ` set (commands s)" "cm_id c \<notin> cm_id ` set cs" "distinct (map cm_id cs)"
          "cm_id ` set cs \<subseteq> cm_id ` set (commands s)" by simp_all
      qed
      obtain s1 where h: "hand_out_one now c s = (out, s1)" "w1 = (fls[k := cs], s1)"
        using step True c by (auto simp: HandsOut w split: prod.splits)
      have p: "pending_for i fls + pending_for i [cs] = pending_for i (fls[k := cs]) + pending_for i [c # cs]"
        using pending_for_update[of k fls i cs] True c by simp
      have none: "\<not> list_ex (\<lambda>x. cm_id x = i \<and> cm_dispatchCount x < MAX_DISPATCHES) cs" if "cm_id c = i"
      proof
        assume "list_ex (\<lambda>x. cm_id x = i \<and> cm_dispatchCount x < MAX_DISPATCHES) cs"
        then obtain x where "x \<in> set cs" "cm_id x = i" by (auto simp: list_ex_iff)
        then have "i \<in> cm_id ` set cs" by blast
        with ids(2) that show False by blast
      qed
      have sub: "set (fls[k := cs]) \<subseteq> insert cs (set fls)" by (rule set_update_subset_insert)
      have inv1: "delivery_inv w1" if "queue_inv s1" "cm_id ` set (commands s) \<subseteq> cm_id ` set (commands s1)"
        unfolding h(2) w delivery_inv_def fst_conv snd_conv
      proof (intro conjI ballI)
        show "queue_inv s1" by (rule that(1))
        fix x assume "x \<in> set (fls[k := cs])"
        then have "distinct (map cm_id x) \<and> cm_id ` set x \<subseteq> cm_id ` set (commands s)"
          using sub ids(3,4) inv unfolding w delivery_inv_def fst_conv snd_conv by blast
        then show "distinct (map cm_id x)" "cm_id ` set x \<subseteq> cm_id ` set (commands s1)" using that(2) by (blast, blast)
      qed
      show ?thesis
      proof (cases "cm_dispatchCount c \<ge> MAX_DISPATCHES")
        case True
        then have o: "out = []" "s1 = set_command (cm_id c) (give_up now) s" using h(1) by (auto simp: hand_out_one_def)
        have st: "counts_stay s s1" unfolding o(2) by (rule given_up_counts[OF q])
        have "pending_for i (fls[k := cs]) = pending_for i fls" using p True by simp
        with inv1 st room show ?thesis by (simp add: h(2) w o(1) times_in_def counts_stay_def)
      next
        case False
        then have o: "out = [c]" "s1 = set_command (cm_id c) (hand_out now) s" using h(1) by (auto simp: hand_out_one_def)
        note hc = handed_counts[OF q ids(1), of now, folded o(2)]
        have u: "uses s1 i = uses s i + (if cm_id c = i then 1 else 0)" by (rule hc(3))
        have "pending_for i fls = pending_for i (fls[k := cs]) + (if cm_id c = i then 1 else 0)"
          using p none False by (cases "cm_id c = i") auto
        with u room inv1 hc(1,2) show ?thesis by (auto simp: h(2) w o(1) times_in_def)
      qed
    qed
  next
    case (QueueOp qe)
    show ?thesis
    proof (cases "\<exists>now ids e. qe = Collect now ids e")
      case True
      then have "out = []" "w1 = (fls, s)" using step by (auto simp: QueueOp w)
      then show ?thesis by (intro stay[OF counts_stay_refl[OF q]])
    next
      case False
      then have o: "out = []" "w1 = (fls, snd (queue_step L qe s))" using step by (cases qe; auto simp: QueueOp w)+
      have "counts_stay s (snd (queue_step L qe s))"
        using assms(2) False by (intro queue_op_counts[OF q]) (cases qe; simp add: QueueOp w)
      then show ?thesis using o by (intro stay)
    qed
  qed
qed

lemma delivery_run_bounded:
  "delivery_inv w \<Longrightarrow> ids_fresh L evs w \<Longrightarrow> pending_for i (fst w) \<le> 3 + m - uses (snd w) i \<Longrightarrow>
   delivery_run L i evs w = (handed, most) \<Longrightarrow> most \<le> m \<Longrightarrow> handed \<le> 3 + m - uses (snd w) i"
proof (induction evs arbitrary: w handed most)
  case (Cons ev evs)
  obtain out w1 where st: "delivery_step L ev w = (out, w1)" by (rule prod.exhaust)
  obtain h1 m1 where r: "delivery_run L i evs w1 = (h1, m1)" by (rule prod.exhaust)
  have f: "ids_fresh L [ev] w" "ids_fresh L evs w1" using Cons.prems(2) by (simp_all add: st)
  have hm: "handed = times_in i out + h1" "m1 \<le> m" using Cons.prems(4,5) by (auto simp: st r)
  have "pending_for i (fst w1) \<le> m1" using r by (cases evs) (auto split: prod.splits)
  then have "pending_for i (fst w1) \<le> m" using hm(2) by simp
  from delivery_step_counts[OF Cons.prems(1) f(1) st Cons.prems(3) this]
  have n: "delivery_inv w1" "pending_for i (fst w1) \<le> 3 + m - uses (snd w1) i"
    "times_in i out + (3 + m - uses (snd w1) i) \<le> 3 + m - uses (snd w) i" by auto
  from Cons.IH[OF n(1) f(2) n(2) r hm(2)] n(3) hm(1) show ?case by linarith
qed simp

section \<open>Who is served first\<close>

lemma queue_order_sorted:
  assumes "i < j" "j < length cs"
  shows "cm_requestedById (queue_order cs ! j) \<le> cm_requestedById (queue_order cs ! i)"
proof -
  let ?q = "rev (queue_order cs)"
  have s: "sorted (map cm_requestedById ?q)" by (simp add: queue_order_def)
  have len: "length (queue_order cs) = length cs" by (simp add: queue_order_def)
  from sorted_nth_mono[OF s, of "length cs - Suc j" "length cs - Suc i"] assms len
  show ?thesis by (simp add: rev_nth)
qed

lemma served_before:
  assumes "a \<in> set cs" "c \<in> set cs" "cm_requestedById c < cm_requestedById a" "queue_order cs ! i = c" "i < length cs"
  shows "\<exists>j < i. queue_order cs ! j = a"
proof -
  have len: "length (queue_order cs) = length cs" by (simp add: queue_order_def)
  have "a \<in> set (queue_order cs)" using assms(1) by (simp add: queue_order_set)
  then obtain j where j: "j < length cs" "queue_order cs ! j = a" unfolding in_set_conv_nth len by blast
  have "\<not> i < j" using queue_order_sorted[of i j cs] j assms(3,4) by auto
  moreover have "i \<noteq> j" using j(2) assms(3,4) by auto
  ultimately show ?thesis using j by (intro exI[of _ j]) auto
qed

lemma not_due:
  assumes "{a, b, c} \<subseteq> {x \<in> set (commands s). cm_endpointId x = e \<and> is_open x}" and "a \<noteq> b"
    and "cm_requestedById c < cm_requestedById a" "cm_requestedById c < cm_requestedById b"
  shows "c \<notin> set (due_commands s e)"
proof
  let ?cs = "filter (\<lambda>x. cm_endpointId x = e \<and> is_open x) (commands s)"
  assume "c \<in> set (due_commands s e)"
  then obtain i where i: "i < 2" "i < length ?cs" "queue_order ?cs ! i = c"
    by (auto simp: due_commands_def COMMANDS_PER_HEARTBEAT_def in_set_conv_nth queue_order_def)
  have "a \<in> set ?cs" "b \<in> set ?cs" "c \<in> set ?cs" using assms(1) by auto
  with served_before[of a ?cs c i] served_before[of b ?cs c i] i assms(3,4)
  obtain j k where "j < i" "queue_order ?cs ! j = a" "k < i" "queue_order ?cs ! k = b" by blast
  with i(1) have "j = k" by simp
  with \<open>queue_order ?cs ! j = a\<close> \<open>queue_order ?cs ! k = b\<close> assms(2) show False by simp
qed

section \<open>Samples\<close>

definition queue_dates :: date_lib where
  "queue_dates = \<lparr>dl_parse = (\<lambda>_. None), dl_iso = (\<lambda>_. ''now'')\<rparr>"

definition asked :: "id \<Rightarrow> time \<Rightarrow> id \<Rightarrow> command_row" where
  "asked i created requester = (new_command created i \<lparr>sg_endpointId = ''e1'', sg_tenantId = None, sg_customerId = None,
     sg_type = INVENTORY_REFRESH, sg_params = JUndefined, sg_requestedById = Some requester\<rparr> None)"

definition queue_db :: db where
  "queue_db = empty_db\<lparr>commands := [asked ''c1'' 0 ''ua'', asked ''c2'' 10 ''ub'', asked ''c3'' 20 ''ub'']\<rparr>"

definition hostile_report :: json where
  "hostile_report = JObj [(''manufacturer'', JStr (CHR 0x0D # ''ACME'')), (''cpuCores'', JNum 1000000), (''disks'', JNull)]"

definition queue_run :: "queue_event list" where
  "queue_run = [Collect 100 (''c4'', ''c5'') ''e1'', Answer 200 ''e1'' ''c2'' (JObj [(''ok'', JBool True), (''inventory'', hostile_report)]),
     Collect 300 (''c6'', ''c7'') ''e1'', Live 400 ''e1'' (JObj [(''cpuLoadPercent'', JStr '' 250 '')])]"

section \<open>Properties\<close>

text \<open>
  C25: Whatever computers send and in whatever order, the stored reports and commands stay well typed: text is bounded and free
  of control characters, numbers and dates lie in their ranges, lists and their objects have the fixed shape,
  parameters name an allowed log, and a command's result is one of two forms of bounded size.
\<close>

theorem stored_reports_well_typed:
  assumes "reports_ok s"
  shows "reports_ok (foldl (\<lambda>d ev. snd (queue_step L ev d)) s evs)"
  using assms by (rule queue.inv_run)

theorem stored_reports_well_typed_witness:
  "reports_ok (foldl (\<lambda>d ev. snd (queue_step queue_dates ev d)) queue_db queue_run)"
proof -
  have "reports_ok queue_db"
    by (simp add: reports_ok_def queue_db_def empty_db_def asked_def new_command_def command_ok_def)
  then show ?thesis by (rule stored_reports_well_typed)
qed

text \<open>
  C24: No command is handed to a computer more often than three times and once for each heartbeat that had read it and not yet
  handed it out at the same time: four times when heartbeats do not overlap, in any run of staged commands,
  heartbeats, answers, reads and reports, in any order of their steps and whatever their times. Ids of commands are unique.
\<close>

theorem handed_out_at_most_four_times:
  assumes "queue_inv s" and "ids_fresh L evs ([], s)" and "delivery_run L i evs ([], s) = (handed, most)"
  shows "handed \<le> 3 + most"
proof -
  have "delivery_inv ([], s)" using assms(1) by (simp add: delivery_inv_def)
  from delivery_run_bounded[OF this assms(2) _ assms(3) order_refl] show ?thesis by simp
qed

definition delivery_sample :: "delivery_event list" where
  "delivery_sample = [HeartbeatStages 100 (''c4'', ''c5'') ''e1'', QueueOp (Look 100 ''e1''), HeartbeatReads ''e1'', HandsOut 100 0, HandsOut 100 0,
     QueueOp (Answer 200 ''e1'' ''c2'' (JObj [(''ok'', JBool True), (''inventory'', hostile_report)])),
     HeartbeatReads ''e1'', HandsOut 300 1, HandsOut 300 1]"

lemma queue_db_inv: "queue_inv queue_db"
  by (simp add: queue_inv_def queue_db_def empty_db_def asked_def new_command_def)

theorem handed_out_at_most_four_times_witness:
  "\<exists>handed most. delivery_run queue_dates ''c3'' delivery_sample ([], queue_db) = (handed, most) \<and> handed \<le> 3 + most
     \<and> handed = 2 \<and> most = 1"
proof -
  have f: "ids_fresh queue_dates delivery_sample ([], queue_db)" by code_simp
  have r: "delivery_run queue_dates ''c3'' delivery_sample ([], queue_db) = (2, 1)" by code_simp
  from handed_out_at_most_four_times[OF queue_db_inv f r] r show ?thesis by blast
qed

text \<open>
  The limit of four is not kept when heartbeats of one computer overlap: two that read a command handed out three times
  already both hand it out, and it has been handed out five times.
\<close>

theorem overlapping_heartbeats_pass_the_limit:
  "let s = queue_db\<lparr>commands := [(asked ''c1'' 0 ''ua'')\<lparr>cm_dispatchCount := 3\<rparr>]\<rparr>;
       evs = [HeartbeatReads ''e1'', HeartbeatReads ''e1'', HandsOut 5 0, HandsOut 6 1]
   in delivery_run queue_dates ''c1'' evs ([], s) = (2, 2)
      \<and> uses (snd (foldl (\<lambda>w ev. snd (delivery_step queue_dates ev w)) ([], s) evs)) ''c1'' = 5"
  by code_simp

text \<open>A command answered between the reading and the writing of another heartbeat is open again afterwards.\<close>

theorem answered_command_reopened:
  "let s = queue_db\<lparr>commands := [asked ''c1'' 0 ''ua'']\<rparr>;
       w = foldl (\<lambda>w ev. snd (delivery_step queue_dates ev w)) ([], s)
         [HeartbeatReads ''e1'', HeartbeatReads ''e1'', HandsOut 5 0, QueueOp (Answer 6 ''e1'' ''c1'' (JObj [(''ok'', JBool True)]))]
   in map cm_status (commands (snd w)) = [CMD_SUCCEEDED]
      \<and> map cm_status (commands (snd (snd (delivery_step queue_dates (HandsOut 7 1) w)))) = [CMD_DISPATCHED]"
  by code_simp

text \<open>
  Operators are not served oldest first. Two commands of people whose ids sort higher keep a waiting command back
  at a heartbeat, however much older it is: the queue orders by requester before it orders by time.
\<close>

theorem later_requests_overtake:
  assumes "a \<noteq> b" and "{a, b, c} \<subseteq> {x \<in> set (commands s). cm_endpointId x = e \<and> is_open x}"
    and "cm_requestedById c < cm_requestedById a" "cm_requestedById c < cm_requestedById b"
    and "cm_createdAt c < cm_createdAt a" "cm_createdAt c < cm_createdAt b"
  shows "c \<notin> set (due_commands s e)"
  by (rule not_due[OF assms(2,1,3,4)])

theorem later_requests_overtake_witness:
  "asked ''c1'' 0 ''ua'' \<notin> set (due_commands queue_db ''e1'')"
proof -
  have a: "asked ''c2'' 10 ''ub'' \<noteq> asked ''c3'' 20 ''ub''" by (simp add: asked_def new_command_def)
  have b: "{asked ''c2'' 10 ''ub'', asked ''c3'' 20 ''ub'', asked ''c1'' 0 ''ua''}
      \<subseteq> {x \<in> set (commands queue_db). cm_endpointId x = ''e1'' \<and> is_open x}"
    by (simp add: queue_db_def asked_def new_command_def is_open_def)
  have c: "cm_requestedById (asked ''c1'' 0 ''ua'') < cm_requestedById (asked i t ''ub'')" for i t
    by (simp add: asked_def new_command_def)
  show ?thesis by (rule later_requests_overtake[OF a b c c]) (simp_all add: asked_def new_command_def)
qed

end
