(* ===== verification/Enrollment.thy ===== *)
theory Enrollment
  imports Endpoints CommandQueue RolloutHeartbeat Presence
begin

text \<open>
  Enrollment (\<open>enrollment/enrollment.service.ts\<close>): claim tokens, claiming a computer with one, heartbeats,
  command results, offered device secrets, password rotation and the offline sweep. Encryption (decryption may fail),
  SHA-256, the version file, the two ways of asking hbbs and date handling are parameters, bundled in \<open>environment\<close>.
\<close>

record environment =
  en_enc :: "string \<Rightarrow> string"
  en_dec :: "string \<Rightarrow> string option"
  en_sha :: "string \<Rightarrow> string"
  en_platformVersion :: string
  en_hbbs :: "string list \<Rightarrow> string list option"
  en_peer :: "string \<Rightarrow> bool option"
  en_dates :: date_lib
  en_zones :: zone_db
  en_minute :: "int \<Rightarrow> string"

definition secretMatches :: "environment \<Rightarrow> string \<Rightarrow> string \<Rightarrow> bool" where
  "secretMatches env stored offered = (stored = en_sha env offered)"

text \<open>The secret check every device request passes: a stored hash and an offered secret that matches it.\<close>

definition device_ok :: "environment \<Rightarrow> node_row \<Rightarrow> string option \<Rightarrow> bool" where
  "device_ok env n secret = (truthy (n_agentSecretHash n) \<and> truthy secret
     \<and> secretMatches env (the (n_agentSecretHash n)) (the secret))"

section \<open>Claim tokens\<close>

definition tokenTtlHours :: int where "tokenTtlHours = 24"

record claim_input =
  cin_businessId :: "id option"
  cin_customerId :: "id option"
  cin_endpointId :: "id option"
  cin_assignedUserIds :: "id list option"
  cin_endpointGroupId :: "id option"
  cin_siteName :: "string option"
  cin_description :: "string option"
  cin_accessMode :: "access_mode option"

definition active_member_ids :: "db \<Rightarrow> id \<Rightarrow> id list \<Rightarrow> id list" where
  "active_member_ids s businessId ids = map m_userId (filter (\<lambda>m. m_customerId m = Some businessId \<and> m_isActive m
     \<and> m_userId m \<in> set ids) (memberships s))"

definition checked_assignees :: "db \<Rightarrow> id \<Rightarrow> id list option \<Rightarrow> id list result" where
  "checked_assignees s businessId ids = (case ids of
     None \<Rightarrow> Inr []
   | Some us \<Rightarrow>
       if list_ex (\<lambda>u. u \<notin> set (active_member_ids s businessId us)) us
       then Inl (BadRequest ''These users are not active members of the business'') else Inr us)"

definition createClaimToken ::
  "(string \<Rightarrow> string) \<Rightarrow> time \<Rightarrow> string \<Rightarrow> id \<Rightarrow> actor \<Rightarrow> claim_input \<Rightarrow> db \<Rightarrow> (string \<times> claim_token_row) result \<times> db" where
  "createClaimToken sha now rnd i actor dto s = (case assertCapability actor [CAP_COMPUTERS_ADD] of
     Inl e \<Rightarrow> (Inl e, s)
   | Inr _ \<Rightarrow> (case requireScope actor (nullish (cin_businessId dto) (cin_customerId dto)) of
       Inl e \<Rightarrow> (Inl e, s)
     | Inr businessId \<Rightarrow> (case find_row (\<lambda>b. c_id b = businessId \<and> \<not> c_isArchived b) (businesses s) of
         None \<Rightarrow> (Inl (NotFound ''Business not found''), s)
       | Some business \<Rightarrow>
           (case (if truthy (cin_endpointId dto) then map_sum id (\<lambda>_. ()) (assertEndpointInScope s actor (the (cin_endpointId dto))) else Inr ()) of
              Inl e \<Rightarrow> (Inl e, s)
            | Inr _ \<Rightarrow> (case checked_assignees s businessId (cin_assignedUserIds dto) of
                Inl e \<Rightarrow> (Inl e, s)
              | Inr assigned \<Rightarrow>
                  if truthy (cin_endpointGroupId dto) \<and> (the (cin_endpointGroupId dto), c_tenantId business) \<notin> set (endpointGroups s)
                  then (Inl (BadRequest ''Unknown computer group''), s)
                  else
                    let row = \<lparr>ct_id = i, ct_tenantId = c_tenantId business, ct_endpointId = cin_endpointId dto, ct_token = sha rnd,
                          ct_expiresAt = now + tokenTtlHours * 60 * 60 * 1000, ct_claimedAt = None, ct_claimedByIp = None,
                          ct_customerName = Some (c_name business), ct_siteName = cin_siteName dto,
                          ct_description = cin_description dto, ct_customerId = Some businessId,
                          ct_accessMode = (case cin_accessMode dto of None \<Rightarrow> ASSIGNED_USERS | Some m \<Rightarrow> m),
                          ct_assignedUserIds = assigned, ct_endpointGroupId = cin_endpointGroupId dto,
                          ct_createdById = Some (a_userId actor)\<rparr>
                    in (Inr (rnd, row), audit_log ''CLAIM_TOKEN_CREATED'' (Some (a_userId actor)) (Some (c_tenantId business))
                          (Some businessId) (a_ip actor) (Some ''device_claim_token'') (Some i) False
                          (s\<lparr>claimTokens := claimTokens s @ [row]\<rparr>)))))))"

text \<open>The table holds tokens in order of creation; the listing is newest first.\<close>

definition listClaimTokens :: "db \<Rightarrow> actor \<Rightarrow> id option \<Rightarrow> claim_token_row list result" where
  "listClaimTokens s actor businessId = (case assertCapability actor [CAP_COMPUTERS_VIEW] of
     Inl e \<Rightarrow> Inl e
   | Inr _ \<Rightarrow> map_sum id (\<lambda>sc. rev (filter (scope_where ct_customerId sc) (claimTokens s))) (resolveScope actor businessId))"

definition revokeClaimToken :: "actor \<Rightarrow> id \<Rightarrow> db \<Rightarrow> unit result \<times> db" where
  "revokeClaimToken actor tokenId s = (case assertCapability actor [CAP_COMPUTERS_REMOVE] of
     Inl e \<Rightarrow> (Inl e, s)
   | Inr _ \<Rightarrow> (case resolveScope actor None of
       Inl e \<Rightarrow> (Inl e, s)
     | Inr sc \<Rightarrow> (case find_row (\<lambda>r. ct_id r = tokenId \<and> scope_where ct_customerId sc r) (claimTokens s) of
         None \<Rightarrow> (Inl (NotFound ''Token not found''), s)
       | Some r \<Rightarrow>
           if ct_claimedAt r \<noteq> None then (Inl (BadRequest ''Cannot revoke an already-claimed token''), s)
           else (Inr (), audit_log ''ENDPOINT_UNASSIGNED'' (Some (a_userId actor)) (Some (ct_tenantId r)) (ct_customerId r) (a_ip actor)
                   (Some ''device_claim_token'') (Some tokenId) False
                   (s\<lparr>claimTokens := delete_rows (\<lambda>q. ct_id q = tokenId) (claimTokens s)\<rparr>)))))"

section \<open>Claiming a computer\<close>

record claim_dto =
  cq_token :: string
  cq_rustdeskId :: string
  cq_hostname :: "string option"
  cq_platform :: "string option"
  cq_osVersion :: "string option"
  cq_password :: "string option"
  cq_agentSecret :: "string option"

text \<open>Ids the database gives to rows created on the way.\<close>

record claim_ids =
  ci_endpoint :: id
  ci_node :: id
  ci_access :: "id \<Rightarrow> id"

text \<open>Deleting a computer cascades to what hangs off it; sessions, notes and claim tokens lose the reference.\<close>

definition delete_endpoint :: "id \<Rightarrow> db \<Rightarrow> db" where
  "delete_endpoint i s = s\<lparr>endpoints := delete_rows (\<lambda>e. e_id e = i) (endpoints s),
     nodes := delete_rows (\<lambda>n. n_endpointId n = i) (nodes s), accesses := delete_rows (\<lambda>a. ca_endpointId a = i) (accesses s),
     connectionGrants := delete_rows (\<lambda>g. cg_endpointId g = i) (connectionGrants s),
     commands := delete_rows (\<lambda>c. cm_endpointId c = i) (commands s),
     inventories := delete_rows (\<lambda>r. in_endpointId r = i) (inventories s),
     sessions := update_rows (\<lambda>r. ss_endpointId r = Some i) (\<lambda>r. r\<lparr>ss_endpointId := None\<rparr>) (sessions s),
     noteRows := update_rows (\<lambda>r. nt_endpointId r = Some i) (\<lambda>r. r\<lparr>nt_endpointId := None\<rparr>) (noteRows s),
     endpointTags := delete_rows (\<lambda>t. et_endpointId t = i) (endpointTags s),
     endpointAliases := delete_rows (\<lambda>a. ea_endpointId a = i) (endpointAliases s),
     claimTokens := update_rows (\<lambda>r. ct_endpointId r = Some i) (\<lambda>r. r\<lparr>ct_endpointId := None\<rparr>) (claimTokens s)\<rparr>"

definition bind_secret :: "environment \<Rightarrow> time \<Rightarrow> string option \<Rightarrow> node_row \<Rightarrow> node_row" where
  "bind_secret env now secret n = (if truthy secret
     then n\<lparr>n_agentSecretHash := Some (en_sha env (the secret)), n_agentSecretSetAt := Some now\<rparr> else n)"

definition audit_claimed :: "claim_token_row \<Rightarrow> id \<Rightarrow> string option \<Rightarrow> db \<Rightarrow> db" where
  "audit_claimed tok endpointId ip = audit_log ''ENDPOINT_CLAIMED'' None (Some (ct_tenantId tok)) None ip (Some ''endpoint'') (Some endpointId) False"

text \<open>The path that takes over a machine that checked in on its own.\<close>

definition adopt_pending :: "environment \<Rightarrow> time \<Rightarrow> claim_dto \<Rightarrow> claim_token_row \<Rightarrow> string option \<Rightarrow> node_row \<Rightarrow> db \<Rightarrow> db" where
  "adopt_pending env now dto tok ip node s =
     (let s1 = write_node (n_id node) (\<lambda>n. bind_secret env now (cq_agentSecret dto) (n\<lparr>n_tenantId := Some (ct_tenantId tok)\<rparr>)) s;
          s2 = write_endpoint (n_endpointId node) (\<lambda>e. e\<lparr>e_tenantId := Some (ct_tenantId tok), e_status := EP_ACTIVE\<rparr>) s1;
          s3 = s2\<lparr>claimTokens := update_rows (\<lambda>r. ct_id r = ct_id tok) (\<lambda>r. r\<lparr>ct_endpointId := Some (n_endpointId node)\<rparr>) (claimTokens s2)\<rparr>
      in audit_claimed tok (n_endpointId node) ip s3)"

text \<open>The computer a token names, brought up to date, or a new one; \<open>e\<close> is the row that was read.\<close>

definition re_enrolled :: "time \<Rightarrow> claim_dto \<Rightarrow> claim_token_row \<Rightarrow> endpoint_row \<Rightarrow> endpoint_row \<Rightarrow> endpoint_row" where
  "re_enrolled now dto tok e q = q\<lparr>e_hostname := nullish (cq_hostname dto) (e_hostname e),
     e_platform := nullish (cq_platform dto) (e_platform e), e_osVersion := nullish (cq_osVersion dto) (e_osVersion e),
     e_lastSeenAt := Some now, e_isOnline := True, e_status := EP_ACTIVE,
     e_customerId := (if truthy (ct_customerId tok) then ct_customerId tok else e_customerId q),
     e_endpointGroupId := (if truthy (ct_endpointGroupId tok) then ct_endpointGroupId tok else e_endpointGroupId q),
     e_accessMode := ct_accessMode tok\<rparr>"

definition enrolled_endpoint :: "time \<Rightarrow> claim_ids \<Rightarrow> claim_dto \<Rightarrow> claim_token_row \<Rightarrow> db \<Rightarrow> id \<times> db" where
  "enrolled_endpoint now ids dto tok s =
     (case (if truthy (ct_endpointId tok) then endpoint_by_id s (the (ct_endpointId tok)) else None) of
        Some e \<Rightarrow> (e_id e, write_endpoint (e_id e) (re_enrolled now dto tok e) s)
      | None \<Rightarrow> (ci_endpoint ids, s\<lparr>endpoints := endpoints s @
          [(new_endpoint (ci_endpoint ids) (Some (ct_tenantId tok)) (case cq_hostname dto of None \<Rightarrow> cq_rustdeskId dto | Some h \<Rightarrow> h))
             \<lparr>e_customerId := ct_customerId tok, e_endpointGroupId := ct_endpointGroupId tok, e_accessMode := ct_accessMode tok,
              e_hostname := cq_hostname dto, e_platform := cq_platform dto, e_osVersion := cq_osVersion dto, e_isManaged := True,
              e_lastSeenAt := Some now, e_isOnline := True, e_status := EP_ACTIVE\<rparr>]\<rparr>))"

definition claimed_node :: "environment \<Rightarrow> time \<Rightarrow> claim_dto \<Rightarrow> node_row \<Rightarrow> node_row" where
  "claimed_node env now dto n = (bind_secret env now (cq_agentSecret dto) n)\<lparr>n_rustdeskId := cq_rustdeskId dto,
     n_hostname := nullish (cq_hostname dto) (n_hostname n), n_platform := nullish (cq_platform dto) (n_platform n),
     n_lastSeenAt := Some now,
     n_permanentPassword := (if truthy (cq_password dto) then Some (en_enc env (the (cq_password dto))) else n_permanentPassword n)\<rparr>"

definition upsert_node :: "environment \<Rightarrow> time \<Rightarrow> id \<Rightarrow> claim_dto \<Rightarrow> claim_token_row \<Rightarrow> id \<Rightarrow> db \<Rightarrow> db" where
  "upsert_node env now nid dto tok endpointId s =
     (if node_of s endpointId = None
      then s\<lparr>nodes := nodes s @ [claimed_node env now dto (new_node nid (Some (ct_tenantId tok)) endpointId (cq_rustdeskId dto))]\<rparr>
      else s\<lparr>nodes := update_rows (\<lambda>n. n_endpointId n = endpointId) (claimed_node env now dto) (nodes s)\<rparr>)"

definition token_access :: "(id \<Rightarrow> id) \<Rightarrow> claim_token_row \<Rightarrow> id \<Rightarrow> id \<Rightarrow> access_row" where
  "token_access aid tok endpointId u = \<lparr>ca_id = aid u, ca_tenantId = ct_tenantId tok, ca_endpointId = endpointId, ca_userId = u,
     ca_grantedBy = ct_createdById tok, ca_startsAt = None, ca_expiresAt = None, ca_schedule = JNull, ca_expiryAuditedAt = None\<rparr>"

text \<open>The token's users become the access list of the computer; a token without users leaves it alone.\<close>

definition apply_assignees :: "(id \<Rightarrow> id) \<Rightarrow> claim_token_row \<Rightarrow> id \<Rightarrow> db \<Rightarrow> db" where
  "apply_assignees aid tok endpointId s =
     (if ct_assignedUserIds tok = [] then s
      else
        let current = map ca_userId (filter (\<lambda>a. ca_endpointId a = endpointId) (accesses s));
            toAdd = js_set (filter (\<lambda>u. u \<notin> set current) (ct_assignedUserIds tok))
        in s\<lparr>accesses := delete_rows (\<lambda>a. ca_endpointId a = endpointId \<and> ca_userId a \<in> set current
                 \<and> ca_userId a \<notin> set (ct_assignedUserIds tok))
               (accesses s @ map (token_access aid tok endpointId) toAdd)\<rparr>)"

definition claimWithConsumedToken ::
  "environment \<Rightarrow> time \<Rightarrow> claim_ids \<Rightarrow> claim_dto \<Rightarrow> claim_token_row \<Rightarrow> string option \<Rightarrow> db \<Rightarrow> id result \<times> db" where
  "claimWithConsumedToken env now ids dto tok ip s =
     (let existing = node_by_rustdesk s (cq_rustdeskId dto);
          refused = Inl (BadRequest ''That RustDesk ID cannot be enrolled with this token'');
          enroll = (\<lambda>s0. case enrolled_endpoint now ids dto tok s0 of (endpointId, s1) \<Rightarrow>
             let s2 = apply_assignees (ci_access ids) tok endpointId (upsert_node env now (ci_node ids) dto tok endpointId s1)
             in (Inr endpointId, audit_claimed tok endpointId ip (s2\<lparr>claimTokens :=
                   update_rows (\<lambda>r. ct_id r = ct_id tok) (\<lambda>r. r\<lparr>ct_endpointId := Some endpointId\<rparr>) (claimTokens s2)\<rparr>)))
      in case existing of
           None \<Rightarrow> enroll s
         | Some node \<Rightarrow>
             if truthy (ct_endpointId tok) \<and> Some (n_endpointId node) = ct_endpointId tok then enroll s
             else if truthy (n_tenantId node) then (refused, s)
             else if truthy (n_agentSecretHash node) \<and> \<not> device_ok env node (cq_agentSecret dto) then (refused, s)
             else if \<not> truthy (ct_endpointId tok) then (Inr (n_endpointId node), adopt_pending env now dto tok ip node s)
             else enroll (delete_endpoint (n_endpointId node) s))"

definition token_live :: "time \<times> string option \<Rightarrow> claim_token_row \<Rightarrow> bool" where
  "token_live p r = (ct_claimedAt r = None \<and> ct_expiresAt r \<ge> fst p)"

definition consume_token :: "time \<times> string option \<Rightarrow> claim_token_row \<Rightarrow> claim_token_row" where
  "consume_token p r = r\<lparr>ct_claimedAt := Some (fst p), ct_claimedByIp := snd p\<rparr>"

definition hand_back :: "id \<Rightarrow> db \<Rightarrow> db" where
  "hand_back i s = s\<lparr>claimTokens := update_rows (\<lambda>r. ct_id r = i)
     (\<lambda>r. r\<lparr>ct_claimedAt := None, ct_claimedByIp := None\<rparr>) (claimTokens s)\<rparr>"

text \<open>\<open>f\<close> is what other requests write between the checks and the conditional update.\<close>

definition claimEndpoint ::
  "environment \<Rightarrow> (db \<Rightarrow> db) \<Rightarrow> time \<Rightarrow> claim_ids \<Rightarrow> claim_dto \<Rightarrow> string option \<Rightarrow> db \<Rightarrow> id result \<times> db" where
  "claimEndpoint env f now ids dto ip s =
     (case find_row (\<lambda>r. ct_token r = en_sha env (cq_token dto)) (claimTokens s) of
        None \<Rightarrow> (Inl (NotFound ''Claim token not found''), s)
      | Some tok \<Rightarrow>
          if ct_claimedAt tok \<noteq> None then (Inl (BadRequest ''Token has already been used''), s)
          else if ct_expiresAt tok < now then (Inl (BadRequest ''Token has expired''), s)
          else (case claim_rows (\<lambda>r. ct_id r = ct_id tok \<and> token_live (now, ip) r) (consume_token (now, ip)) (claimTokens (f s)) of
            (n, t) \<Rightarrow>
              if n \<noteq> 1 then (Inl (BadRequest ''Token has already been used''), (f s)\<lparr>claimTokens := t\<rparr>)
              else (case claimWithConsumedToken env now ids dto tok ip ((f s)\<lparr>claimTokens := t\<rparr>) of
                  (Inl e, s1) \<Rightarrow> (Inl e, hand_back (ct_id tok) s1)
                | (Inr i, s1) \<Rightarrow> (Inr i, s1))))"

section \<open>Offered device secrets\<close>

text \<open>What an offer writes to the row; \<open>node\<close> is the row that was read.\<close>

definition offered_row :: "environment \<Rightarrow> time \<Rightarrow> node_row \<Rightarrow> string \<Rightarrow> string option \<Rightarrow> string option \<Rightarrow> node_row \<Rightarrow> node_row" where
  "offered_row env now node offered remoteIp password n =
     (let same = (truthy (n_candidateSecretHash node) \<and> secretMatches env (the (n_candidateSecretHash node)) offered);
          live = (case n_candidateSecretSeenAt node of None \<Rightarrow> False | Some t \<Rightarrow> now - t < CANDIDATE_LIVE_MS);
          settled = (n_candidateSecretConflict node
             \<and> (case n_candidateSecretFirstAt node of None \<Rightarrow> False | Some t \<Rightarrow> now - t \<ge> CANDIDATE_SETTLE_MS));
          pw = (if truthy password then Some (en_enc env (the password)) else None)
      in if same
         then n\<lparr>n_candidateSecretSeenAt := Some now, n_candidateSecretIp := remoteIp,
                n_candidatePassword := (if pw = None then n_candidatePassword n else pw),
                n_candidateSecretConflict := (if settled then False else n_candidateSecretConflict n)\<rparr>
         else n\<lparr>n_candidateSecretHash := Some (en_sha env offered), n_candidateSecretSeenAt := Some now,
                n_candidateSecretFirstAt := Some now, n_candidateSecretIp := remoteIp,
                n_candidateSecretConflict := (truthy (n_candidateSecretHash node) \<and> live), n_candidatePassword := pw\<rparr>)"

definition recordCandidateSecret :: "environment \<Rightarrow> time \<Rightarrow> node_row \<Rightarrow> string \<Rightarrow> string option \<Rightarrow> string option \<Rightarrow> db \<Rightarrow> db" where
  "recordCandidateSecret env now node offered remoteIp password s =
     write_node (n_id node) (offered_row env now node offered remoteIp password) s"

section \<open>Heartbeats\<close>

record heartbeat_dto =
  hb_rustdeskId :: string
  hb_hostname :: "string option"
  hb_platform :: "string option"
  hb_osVersion :: "string option"
  hb_agentVersion :: "string option"
  hb_rustdeskVersion :: "string option"
  hb_ipAddress :: "string option"
  hb_password :: "string option"
  hb_agentSecret :: "string option"
  hb_live :: json
  hb_rustdeskSessions :: "int option"
  hb_updateNonce :: "string option"

record update_order =
  uo_targetVersion :: string
  uo_nonce :: "string option"

record heartbeat_reply =
  hr_found :: bool
  hr_authenticated :: bool
  hr_endpointId :: "id option"
  hr_rotate :: "(string \<times> string) option"
  hr_updateRustdesk :: "update_order option"
  hr_reinstallAgent :: "update_order option"
  hr_commands :: "command_row list"
  hr_rustdeskRegistered :: "bool option"

definition peerRegisteredWithHbbs :: "environment \<Rightarrow> string \<Rightarrow> bool option" where
  "peerRegisteredWithHbbs env r = (if rustdesk_id_ok r then en_peer env r else None)"

text \<open>A computer no one enrolled: it waits in the pending pool under the secret it brought.\<close>

definition first_heartbeat :: "environment \<Rightarrow> time \<Rightarrow> id \<times> id \<Rightarrow> heartbeat_dto \<Rightarrow> db \<Rightarrow> heartbeat_reply result \<times> db" where
  "first_heartbeat env now ids dto s =
     (if \<not> truthy (hb_agentSecret dto) then (Inl (Unauthorized ''This device is not recognised''), s)
      else
        let e = (new_endpoint (fst ids) None (case hb_hostname dto of None \<Rightarrow> hb_rustdeskId dto | Some h \<Rightarrow> h))\<lparr>
              e_hostname := hb_hostname dto, e_platform := hb_platform dto, e_osVersion := hb_osVersion dto,
              e_agentVersion := hb_agentVersion dto, e_ipAddress := hb_ipAddress dto, e_lastSeenAt := Some now, e_isOnline := True\<rparr>;
            n = bind_secret env now (hb_agentSecret dto) ((new_node (snd ids) None (fst ids) (hb_rustdeskId dto))\<lparr>
              n_hostname := hb_hostname dto, n_platform := hb_platform dto, n_lastSeenAt := Some now\<rparr>)
        in (Inr \<lparr>hr_found = False, hr_authenticated = True, hr_endpointId = None, hr_rotate = None, hr_updateRustdesk = None,
               hr_reinstallAgent = None, hr_commands = [], hr_rustdeskRegistered = peerRegisteredWithHbbs env (hb_rustdeskId dto)\<rparr>,
            s\<lparr>endpoints := endpoints s @ [e], nodes := nodes s @ [n]\<rparr>))"

definition at_least :: "string option \<Rightarrow> string option \<Rightarrow> bool" where
  "at_least v target = (truthy v \<and> truthy target \<and> compareVersions (the v) (the target) \<ge> 0)"

definition update_reached :: "heartbeat_dto \<Rightarrow> node_row \<Rightarrow> bool" where
  "update_reached dto node = (n_updateRequestedAt node \<noteq> None \<and> at_least (hb_rustdeskVersion dto) (n_updateTargetVersion node))"

definition reinstall_reached :: "environment \<Rightarrow> heartbeat_dto \<Rightarrow> node_row \<Rightarrow> bool" where
  "reinstall_reached env dto node = (n_reinstallRequestedAt node \<noteq> None \<and> n_reinstallDispatchedAt node \<noteq> None
     \<and> hb_agentVersion dto = Some (en_platformVersion env))"

text \<open>What an authenticated heartbeat writes to the node; \<open>node\<close> is the row read at its start.\<close>

definition reported_node :: "environment \<Rightarrow> time \<Rightarrow> heartbeat_dto \<Rightarrow> node_row \<Rightarrow> node_row \<Rightarrow> node_row" where
  "reported_node env now dto node n0 =
     (let n = (if truthy (n_candidateSecretHash node) then clear_candidate n0 else n0);
          upd = update_reached dto node; rei = reinstall_reached env dto node
      in n\<lparr>n_lastSeenAt := Some now, n_hostname := nullish (hb_hostname dto) (n_hostname n),
           n_platform := nullish (hb_platform dto) (n_platform n), n_version := nullish (hb_rustdeskVersion dto) (n_version n),
           n_rdSessionsActive := nullish (hb_rustdeskSessions dto) (n_rdSessionsActive n),
           n_rdSessionsObservedAt := (if hb_rustdeskSessions dto = None then n_rdSessionsObservedAt n else Some now),
           n_permanentPassword := (if truthy (hb_password dto) then Some (en_enc env (the (hb_password dto))) else n_permanentPassword n),
           n_updateRequestedAt := (if upd then None else n_updateRequestedAt n),
           n_updateTargetVersion := (if upd then None else n_updateTargetVersion n),
           n_reinstallRequestedAt := (if rei then None else n_reinstallRequestedAt n),
           n_reinstallRequestedBy := (if rei then None else n_reinstallRequestedBy n),
           n_reinstallDispatchedAt := (if rei then None else n_reinstallDispatchedAt n)\<rparr>)"

definition reported_endpoint :: "time \<Rightarrow> heartbeat_dto \<Rightarrow> endpoint_row \<Rightarrow> endpoint_row" where
  "reported_endpoint now dto e = e\<lparr>e_lastSeenAt := Some now, e_isOnline := True, e_hostname := nullish (hb_hostname dto) (e_hostname e),
     e_platform := nullish (hb_platform dto) (e_platform e), e_osVersion := nullish (hb_osVersion dto) (e_osVersion e),
     e_agentVersion := nullish (hb_agentVersion dto) (e_agentVersion e), e_ipAddress := nullish (hb_ipAddress dto) (e_ipAddress e)\<rparr>"

text \<open>A caller that knows only the ID moves two timestamps and the online flag.\<close>

definition liveness :: "time \<Rightarrow> node_row \<Rightarrow> db \<Rightarrow> db" where
  "liveness now node s = write_endpoint (n_endpointId node) (\<lambda>e. e\<lparr>e_lastSeenAt := Some now, e_isOnline := True\<rparr>)
     (write_node (n_id node) (\<lambda>n. n\<lparr>n_lastSeenAt := Some now\<rparr>) s)"

definition pending_rotation :: "environment \<Rightarrow> node_row \<Rightarrow> (string \<times> string) option" where
  "pending_rotation env n = (if \<not> truthy (n_pendingPassword n) then None
     else map_option (\<lambda>plain. (plain, en_sha env plain)) (en_dec env (the (n_pendingPassword n))))"

definition staged_update :: "heartbeat_dto \<Rightarrow> node_row \<Rightarrow> update_order option" where
  "staged_update dto node = (if n_updateRequestedAt node \<noteq> None \<and> truthy (n_updateTargetVersion node)
     \<and> \<not> at_least (hb_rustdeskVersion dto) (n_updateTargetVersion node)
     then Some \<lparr>uo_targetVersion = the (n_updateTargetVersion node), uo_nonce = None\<rparr> else None)"

definition staged_reinstall :: "environment \<Rightarrow> node_row \<Rightarrow> update_order option" where
  "staged_reinstall env node = (if n_reinstallRequestedAt node \<noteq> None
     then Some \<lparr>uo_targetVersion = en_platformVersion env, uo_nonce = None\<rparr> else None)"

definition mark_dispatched :: "time \<Rightarrow> node_row \<Rightarrow> db \<Rightarrow> db" where
  "mark_dispatched now node s =
     (if n_reinstallRequestedAt node \<noteq> None \<and> n_reinstallDispatchedAt node = None
      then write_node (n_id node) (\<lambda>n. n\<lparr>n_reinstallDispatchedAt := Some now\<rparr>) s else s)"

definition heartbeat_facts_of :: "heartbeat_dto \<Rightarrow> node_row \<Rightarrow> heartbeat_facts" where
  "heartbeat_facts_of dto node = \<lparr>hf_endpointId = n_endpointId node, hf_rustdeskId = hb_rustdeskId dto, hf_authenticated = True,
     hf_rustdeskVersion = hb_rustdeskVersion dto, hf_agentVersion = hb_agentVersion dto, hf_updateNonce = hb_updateNonce dto,
     hf_reportedPassword = truthy (hb_password dto), hf_rdSessionsActive = hb_rustdeskSessions dto\<rparr>"

definition ordered :: "dispatch_payload option \<Rightarrow> update_order option" where
  "ordered p = map_option (\<lambda>d. \<lparr>uo_targetVersion = dp_targetVersion d, uo_nonce = Some (dp_nonce d)\<rparr>) p"

text \<open>The rest of an authenticated heartbeat: orders, live state, queued commands and session evidence.\<close>

definition device_heartbeat ::
  "environment \<Rightarrow> interference \<Rightarrow> time \<Rightarrow> string \<Rightarrow> id \<times> id \<Rightarrow> heartbeat_dto \<Rightarrow> node_row \<Rightarrow> db \<Rightarrow> heartbeat_reply \<times> db" where
  "device_heartbeat env f now nonce ids dto node s =
     (let s1 = write_node (n_id node) (reported_node env now dto node) s;
          s2 = write_endpoint (n_endpointId node) (reported_endpoint now dto) s1;
          rotate = Option.bind (find_row (\<lambda>n. n_id n = n_id node) (nodes s2)) (pending_rotation env);
          s3 = mark_dispatched now node s2;
          hm = onHeartbeat (en_zones env) (en_hbbs env) now nonce (heartbeat_facts_of dto node) s3;
          s4 = recordLiveState (en_dates env) now (n_endpointId node) (hb_live dto) (snd hm);
          cs = collectForHeartbeat (f 3) now ids (n_endpointId node) s4;
          s6 = (case hb_rustdeskSessions dto of None \<Rightarrow> snd cs
             | Some k \<Rightarrow> reconcileEndpointSignal (en_minute env) f (n_endpointId node) k now now (snd cs))
      in (\<lparr>hr_found = True, hr_authenticated = True, hr_endpointId = Some (n_endpointId node), hr_rotate = rotate,
           hr_updateRustdesk = (if ha_managed (fst hm) then ordered (ha_updateRustdesk (fst hm)) else staged_update dto node),
           hr_reinstallAgent = (if ha_managed (fst hm) then ordered (ha_reinstallAgent (fst hm)) else staged_reinstall env node),
           hr_commands = fst cs, hr_rustdeskRegistered = peerRegisteredWithHbbs env (hb_rustdeskId dto)\<rparr>, s6))"

text \<open>
  \<open>ids\<close> are the ids of rows created on the way (a new computer and its node, or two staged commands), \<open>nonce\<close> the
  random nonce of a dispatch; \<open>f\<close> interferes with handing out commands and with recording session evidence.
\<close>

definition heartbeat ::
  "environment \<Rightarrow> interference \<Rightarrow> time \<Rightarrow> string \<Rightarrow> id \<times> id \<Rightarrow> heartbeat_dto \<Rightarrow> string option \<Rightarrow> db \<Rightarrow> heartbeat_reply result \<times> db" where
  "heartbeat env f now nonce ids dto remoteIp s = (case node_by_rustdesk s (hb_rustdeskId dto) of
     None \<Rightarrow> first_heartbeat env now ids dto s
   | Some node \<Rightarrow>
       if truthy (n_agentSecretHash node) then
         if \<not> device_ok env node (hb_agentSecret dto) then
           (Inl (Unauthorized ''This device is not recognised''),
            audit_log ''ENDPOINT_HEARTBEAT_REJECTED'' None (n_tenantId node) None None (Some ''endpoint'') (Some (n_endpointId node)) False
              (if truthy (hb_agentSecret dto)
               then recordCandidateSecret env now node (the (hb_agentSecret dto)) remoteIp (hb_password dto) s else s))
         else (case device_heartbeat env f now nonce ids dto node s of (r, s1) \<Rightarrow> (Inr r, s1))
       else
         (Inr \<lparr>hr_found = True, hr_authenticated = False, hr_endpointId = None, hr_rotate = None, hr_updateRustdesk = None,
            hr_reinstallAgent = None, hr_commands = [], hr_rustdeskRegistered = None\<rparr>, liveness now node s))"

section \<open>Command results, rotation, offline sweep\<close>

definition commandResult :: "environment \<Rightarrow> time \<Rightarrow> string \<Rightarrow> string \<Rightarrow> id \<Rightarrow> json \<Rightarrow> db \<Rightarrow> command_answer result \<times> db" where
  "commandResult env now rustdeskId secret commandId payload s =
     (let node = node_by_rustdesk s rustdeskId in
      case node of
        Some n \<Rightarrow> if truthy (n_agentSecretHash n) \<and> secretMatches env (the (n_agentSecretHash n)) secret
          then (case completeCommand (en_dates env) now (n_endpointId n) commandId payload s of (a, s1) \<Rightarrow> (Inr a, s1))
          else (Inl (Unauthorized ''This device is not recognised''),
                audit_log ''ENDPOINT_HEARTBEAT_REJECTED'' None (n_tenantId n) None None (Some ''endpoint'') (Some (n_endpointId n)) False s)
      | None \<Rightarrow> (Inl (Unauthorized ''This device is not recognised''),
          audit_log ''ENDPOINT_HEARTBEAT_REJECTED'' None None None None (Some ''endpoint'') None False s))"

datatype rotation_answer = rotation_confirmed | no_pending | decrypt_failed | digest_mismatch

definition confirmRotation :: "environment \<Rightarrow> string \<Rightarrow> string \<Rightarrow> string option \<Rightarrow> db \<Rightarrow> rotation_answer result \<times> db" where
  "confirmRotation env rustdeskId digest secret s = (case node_by_rustdesk s rustdeskId of
     None \<Rightarrow> (Inr no_pending, s)
   | Some n \<Rightarrow>
       if \<not> truthy (n_pendingPassword n) then (Inr no_pending, s)
       else if \<not> device_ok env n secret then (Inl (Unauthorized ''This device is not recognised''), s)
       else (case en_dec env (the (n_pendingPassword n)) of
           None \<Rightarrow> (Inr decrypt_failed, s)
         | Some plain \<Rightarrow>
             if en_sha env plain \<noteq> digest then (Inr digest_mismatch, s)
             else (Inr rotation_confirmed,
               audit_log ''ENDPOINT_CREDENTIAL_ROTATED'' None (n_tenantId n) None None (Some ''endpoint'') (Some (n_endpointId n)) False
                 (write_node (n_id n) (\<lambda>q. q\<lparr>n_permanentPassword := n_pendingPassword n, n_pendingPassword := None,
                    n_pendingPasswordAt := None\<rparr>) s))))"

definition reachable_ids :: "environment \<Rightarrow> db \<Rightarrow> id list" where
  "reachable_ids env s = (case en_hbbs env (map n_rustdeskId (nodes s)) of
     None \<Rightarrow> []
   | Some online \<Rightarrow> map n_endpointId (filter (\<lambda>n. n_rustdeskId n \<in> set online) (nodes s)))"

definition markStaleEndpointsOffline :: "environment \<Rightarrow> time \<Rightarrow> int \<Rightarrow> db \<Rightarrow> db" where
  "markStaleEndpointsOffline env now thresholdMinutes s =
     (let cutoff = now - thresholdMinutes * 60 * 1000;
          reachable = reachable_ids env s;
          es = update_rows (\<lambda>e. e_id e \<in> set reachable \<and> \<not> e_isOnline e) (\<lambda>e. e\<lparr>e_isOnline := True\<rparr>) (endpoints s)
      in s\<lparr>endpoints := update_rows (\<lambda>e. e_isOnline e \<and> e_id e \<notin> set reachable
             \<and> (case e_lastSeenAt e of None \<Rightarrow> False | Some t \<Rightarrow> t < cutoff)) (\<lambda>e. e\<lparr>e_isOnline := False\<rparr>) es\<rparr>)"

end
