(* ===== verification/EnrollmentProofs.thy ===== *)
theory EnrollmentProofs
  imports Enrollment
begin

text \<open>
  Properties of enrollment: what a caller without the device secret can do, what a claim token enrolls and how
  often, when an offered secret can be accepted, and what a computer's answers can touch.
\<close>

section \<open>Frames\<close>

text \<open>Everything but computers, nodes and the audit log.\<close>

definition rest :: "db \<Rightarrow> db" where
  "rest s = s\<lparr>endpoints := [], nodes := [], activityLog := []\<rparr>"

text \<open>A node and a computer up to liveness and the secret on offer.\<close>

definition node_core :: "node_row \<Rightarrow> node_row" where
  "node_core n = (clear_candidate n)\<lparr>n_lastSeenAt := None\<rparr>"

definition endpoint_core :: "endpoint_row \<Rightarrow> endpoint_row" where
  "endpoint_core e = e\<lparr>e_lastSeenAt := None, e_isOnline := False\<rparr>"

definition only_liveness :: "db \<Rightarrow> db \<Rightarrow> bool" where
  "only_liveness s1 s = (rest s1 = rest s \<and> map node_core (nodes s1) = map node_core (nodes s)
     \<and> map endpoint_core (endpoints s1) = map endpoint_core (endpoints s))"

lemma liveness_only: "only_liveness (liveness now n s) s"
  by (simp add: only_liveness_def liveness_def write_node_def write_endpoint_def rest_def map_update_rows_on
      node_core_def endpoint_core_def clear_candidate_def)

lemma candidate_only: "only_liveness (recordCandidateSecret env now n offered ip pw s) s"
  by (simp add: only_liveness_def recordCandidateSecret_def offered_row_def Let_def write_node_def rest_def map_update_rows_on
      node_core_def clear_candidate_def)

lemma audit_only: "only_liveness s1 s \<Longrightarrow> only_liveness (audit_log a u t c ip r i d s1) s"
  by (simp add: only_liveness_def rest_def audit_log_def)

lemma only_liveness_refl: "only_liveness s s"
  by (simp add: only_liveness_def)

text \<open>An answer that orders nothing and discloses nothing.\<close>

definition bare_reply :: "heartbeat_reply \<Rightarrow> bool" where
  "bare_reply r = (\<not> hr_authenticated r \<and> hr_endpointId r = None \<and> hr_rotate r = None \<and> hr_updateRustdesk r = None
     \<and> hr_reinstallAgent r = None \<and> hr_commands r = [])"

section \<open>Claim tokens\<close>

interpretation claims: single_use ct_id token_live consume_token
  by unfold_locales (simp_all add: consume_token_def token_live_def)

lemma delete_endpoint_claims: "map (\<lambda>r. (ct_id r, ct_claimedAt r)) (claimTokens (delete_endpoint i s)) = map (\<lambda>r. (ct_id r, ct_claimedAt r)) (claimTokens s)"
  by (simp add: delete_endpoint_def map_update_rows_on)

lemma consumed_claims:
  "map (\<lambda>r. (ct_id r, ct_claimedAt r)) (claimTokens (snd (claimWithConsumedToken env now ids dto tok ip s)))
     = map (\<lambda>r. (ct_id r, ct_claimedAt r)) (claimTokens s)"
proof -
  have e: "claimTokens (snd (enrolled_endpoint now ids dto tok s0)) = claimTokens s0" for s0
    by (simp add: enrolled_endpoint_def write_endpoint_def split: option.split)
  show ?thesis
    by (simp add: claimWithConsumedToken_def Let_def case_prod_unfold e audit_claimed_def apply_assignees_def upsert_node_def
        adopt_pending_def write_node_def write_endpoint_def map_update_rows_on delete_endpoint_claims split: option.split)
qed

lemma claim_Inr:
  assumes "claimEndpoint env f now ids dto ip s = (Inr i, s1)"
  obtains tok where "find_row (\<lambda>r. ct_token r = en_sha env (cq_token dto)) (claimTokens s) = Some tok"
    "ct_claimedAt tok = None" "now \<le> ct_expiresAt tok"
    "count_rows (\<lambda>r. ct_id r = ct_id tok \<and> token_live (now, ip) r) (claimTokens (f s)) = 1"
    "claimWithConsumedToken env now ids dto tok ip ((f s)\<lparr>claimTokens :=
       update_rows (\<lambda>r. ct_id r = ct_id tok \<and> token_live (now, ip) r) (consume_token (now, ip)) (claimTokens (f s))\<rparr>) = (Inr i, s1)"
proof -
  obtain tok where tok: "find_row (\<lambda>r. ct_token r = en_sha env (cq_token dto)) (claimTokens s) = Some tok"
    using assms by (cases "find_row (\<lambda>r. ct_token r = en_sha env (cq_token dto)) (claimTokens s)") (simp_all add: claimEndpoint_def)
  let ?n = "count_rows (\<lambda>r. ct_id r = ct_id tok \<and> token_live (now, ip) r) (claimTokens (f s))"
  let ?d = "(f s)\<lparr>claimTokens := update_rows (\<lambda>r. ct_id r = ct_id tok \<and> token_live (now, ip) r)
       (consume_token (now, ip)) (claimTokens (f s))\<rparr>"
  have c: "ct_claimedAt tok = None" "\<not> ct_expiresAt tok < now" "?n = 1"
    using assms by (auto simp: claimEndpoint_def tok claim_rows_def split: if_splits)
  obtain r d where r: "claimWithConsumedToken env now ids dto tok ip ?d = (r, d)" by (rule prod.exhaust)
  with assms c have "r = Inr i" "d = s1" by (cases r; simp add: claimEndpoint_def tok claim_rows_def)+
  with tok c r show thesis by (intro that[of tok]) simp_all
qed

lemma spent_iff: "claims.spent i t \<longleftrightarrow> (\<forall>p \<in> set (map (\<lambda>r. (ct_id r, ct_claimedAt r)) t). fst p = i \<longrightarrow> snd p \<noteq> None)"
proof -
  have "(\<forall>q. \<not> token_live q r) = (ct_claimedAt r \<noteq> None)" for r
    by (auto simp: token_live_def)
  then show ?thesis by (simp add: claims.spent_def)
qed

lemma claimed_spent:
  assumes "claimEndpoint env id now ids dto ip s = (Inr i, s1)" and "distinct (map ct_id (claimTokens s))"
    and "find_row (\<lambda>r. ct_token r = en_sha env (cq_token dto)) (claimTokens s) = Some tok"
  shows "claims.spent (ct_id tok) (claimTokens s1)"
  using assms(1)
proof (cases rule: claim_Inr)
  case (1 tok')
  then have [simp]: "tok' = tok" using assms(3) by simp
  have "claims.spent (ct_id tok) (update_rows (\<lambda>r. ct_id r = ct_id tok \<and> token_live (now, ip) r) (consume_token (now, ip)) (claimTokens s))"
    by (rule claims.win_spends[OF assms(2)]) (use 1(4) in simp)
  then show ?thesis
    using consumed_claims[of env now ids dto tok ip "s\<lparr>claimTokens := update_rows (\<lambda>r. ct_id r = ct_id tok \<and> token_live (now, ip) r)
       (consume_token (now, ip)) (claimTokens s)\<rparr>"] 1(5)
    by (simp add: spent_iff del: set_map)
qed

text \<open>Where a claim that is no adoption leaves the computer and its users.\<close>

lemma assignees_applied:
  assumes "ct_assignedUserIds tok \<noteq> []"
  shows "ca_userId ` {a \<in> set (accesses (apply_assignees aid tok i s)). ca_endpointId a = i} = set (ct_assignedUserIds tok)"
proof -
  let ?old = "ca_userId ` {a \<in> set (accesses s). ca_endpointId a = i}"
  let ?new = "token_access aid tok i ` {u \<in> set (ct_assignedUserIds tok). u \<notin> ?old}"
  have "{a \<in> set (accesses (apply_assignees aid tok i s)). ca_endpointId a = i}
      = {a \<in> set (accesses s). ca_endpointId a = i \<and> ca_userId a \<in> set (ct_assignedUserIds tok)} \<union> ?new"
    using assms by (auto simp: apply_assignees_def Let_def token_access_def)
  moreover have "ca_userId ` ?new = {u \<in> set (ct_assignedUserIds tok). u \<notin> ?old}"
    by (auto simp: token_access_def image_image)
  ultimately show ?thesis by (auto simp: image_Un image_iff)
qed

lemma enrolled_row:
  assumes "enrolled_endpoint now ids dto tok s = (i, s1)" and "truthy (ct_customerId tok)"
  shows "\<exists>e \<in> set (endpoints s1). e_id e = i \<and> e_customerId e = ct_customerId tok \<and> e_accessMode e = ct_accessMode tok \<and> e_status e = EP_ACTIVE"
proof (cases "if truthy (ct_endpointId tok) then endpoint_by_id s (the (ct_endpointId tok)) else None")
  case None
  with assms(1) show ?thesis by (auto simp: enrolled_endpoint_def new_endpoint_def)
next
  case (Some e)
  then have e: "e \<in> set (endpoints s)" by (auto simp: endpoint_by_id_def dest: find_row_Some split: if_splits)
  have g: "endpoints s1 = update_rows (\<lambda>q. e_id q = e_id e) (re_enrolled now dto tok e) (endpoints s)" "i = e_id e"
    using Some assms(1) by (auto simp: enrolled_endpoint_def write_endpoint_def)
  from updated_in[OF e, of "\<lambda>q. e_id q = e_id e" "re_enrolled now dto tok e"] show ?thesis
    unfolding g by (rule bexI[rotated, of "re_enrolled now dto tok e e"]) (simp_all add: re_enrolled_def assms(2))
qed

text \<open>A successful claim takes one of two paths: it adopts a pending machine, or it enrolls.\<close>

definition adopts :: "claim_token_row \<Rightarrow> string \<Rightarrow> db \<Rightarrow> bool" where
  "adopts tok rustdeskId s = (\<not> truthy (ct_endpointId tok) \<and> node_by_rustdesk s rustdeskId \<noteq> None)"

lemma enrolled_by_claim:
  assumes "claimWithConsumedToken env now ids dto tok ip s = (Inr i, s1)" and "\<not> adopts tok (cq_rustdeskId dto) s"
  obtains s0 s2 where "enrolled_endpoint now ids dto tok s0 = (i, s2)" "endpoints s1 = endpoints s2"
    "accesses s1 = accesses (apply_assignees (ci_access ids) tok i (upsert_node env now (ci_node ids) dto tok i s2))"
proof -
  have enroll: "\<exists>s2. enrolled_endpoint now ids dto tok s0 = (i, s2) \<and> endpoints s1 = endpoints s2
      \<and> accesses s1 = accesses (apply_assignees (ci_access ids) tok i (upsert_node env now (ci_node ids) dto tok i s2))"
    if "(case enrolled_endpoint now ids dto tok s0 of (endpointId, s1) \<Rightarrow>
             let s2 = apply_assignees (ci_access ids) tok endpointId (upsert_node env now (ci_node ids) dto tok endpointId s1)
             in (Inr endpointId, audit_claimed tok endpointId ip (s2\<lparr>claimTokens :=
                   update_rows (\<lambda>r. ct_id r = ct_id tok) (\<lambda>r. r\<lparr>ct_endpointId := Some endpointId\<rparr>) (claimTokens s2)\<rparr>)))
        = ((Inr i, s1) :: id result \<times> db)" for s0
  proof -
    obtain j s2 where e: "enrolled_endpoint now ids dto tok s0 = (j, s2)" by (rule prod.exhaust)
    with that show ?thesis
      by (auto simp: Let_def audit_claimed_def apply_assignees_def upsert_node_def)
  qed
  show thesis
    using assms that enroll
    by (auto simp: claimWithConsumedToken_def adopts_def Let_def split: option.splits if_splits) blast+
qed

section \<open>Offered secrets\<close>







lemma node_after_write:
  assumes "node_by_rustdesk s rid = Some n" and "\<And>q. n_rustdeskId (g q) = n_rustdeskId q"
  shows "node_by_rustdesk (write_node (n_id n) g s) rid = Some (g n)"
  using assms(1) find_row_update[of n_rustdeskId g rid "\<lambda>q. n_id q = n_id n" "nodes s", OF assms(2)]
  by (simp add: node_by_rustdesk_def write_node_def)






section \<open>What answers and heartbeats leave alone\<close>

text \<open>A database without commands and reports.\<close>

definition outside_queue :: "db \<Rightarrow> db" where
  "outside_queue s = s\<lparr>commands := [], inventories := []\<rparr>"

definition is_complete :: "command_row \<Rightarrow> bool" where
  "is_complete c = (cm_status c \<in> {CMD_SUCCEEDED, CMD_FAILED})"

lemma upsert_frame:
  "outside_queue (upsert e data s) = outside_queue s" "commands (upsert e data s) = commands s"
  "filter (\<lambda>r. in_endpointId r \<noteq> e) (inventories (upsert e data s)) = filter (\<lambda>r. in_endpointId r \<noteq> e) (inventories s)"
  by (simp_all add: upsert_def outside_queue_def filter_update_rows)

lemma record_answer_frame:
  "outside_queue (record_answer L now e ty p s) = outside_queue s" "commands (record_answer L now e ty p s) = commands s"
  "filter (\<lambda>r. in_endpointId r \<noteq> e) (inventories (record_answer L now e ty p s)) = filter (\<lambda>r. in_endpointId r \<noteq> e) (inventories s)"
  by (cases ty; simp add: record_answer_def recordInventory_def recordUpdateScan_def Let_def upsert_frame)+

text \<open>Nothing but the open commands and the report of computer \<open>e\<close> changes.\<close>

definition confined :: "id \<Rightarrow> db \<Rightarrow> db \<Rightarrow> bool" where
  "confined e s s1 = (outside_queue s1 = outside_queue s
     \<and> filter (\<lambda>c. cm_endpointId c \<noteq> e) (commands s1) = filter (\<lambda>c. cm_endpointId c \<noteq> e) (commands s)
     \<and> list_all (\<lambda>c. c \<in> set (commands s1)) (filter is_complete (commands s))
     \<and> filter (\<lambda>r. in_endpointId r \<noteq> e) (inventories s1) = filter (\<lambda>r. in_endpointId r \<noteq> e) (inventories s))"

lemma confined_refl: "confined e s s"
  by (simp add: confined_def list_all_iff)

lemma set_command_confined:
  assumes "distinct (map cm_id (commands s))" "c \<in> set (commands s)" "cm_endpointId c = e" "\<not> is_complete c"
    and "\<And>q. cm_endpointId (f q) = cm_endpointId q" "commands t = commands s" "outside_queue t = outside_queue s"
    "filter (\<lambda>r. in_endpointId r \<noteq> e) (inventories t) = filter (\<lambda>r. in_endpointId r \<noteq> e) (inventories s)"
  shows "confined e s (set_command (cm_id c) f t)"
proof -
  have u: "q = c" if "q \<in> set (commands s)" "cm_id q = cm_id c" for q
    by (rule inj_onD[OF conjunct2[OF assms(1)[unfolded distinct_map]] that(2) that(1) assms(2)])
  have "filter (\<lambda>q. cm_endpointId q \<noteq> e) (update_rows (\<lambda>q. cm_id q = cm_id c) f (commands s))
      = filter (\<lambda>q. cm_endpointId q \<noteq> e) (commands s)"
  proof (rule filter_update_rows)
    fix q assume "q \<in> set (commands s)" "cm_id q = cm_id c"
    from u[OF this] show "\<not> cm_endpointId q \<noteq> e \<and> \<not> cm_endpointId (f q) \<noteq> e" by (simp add: assms(3,5))
  qed
  moreover have "x \<in> set (update_rows (\<lambda>q. cm_id q = cm_id c) f (commands s))" if "x \<in> set (commands s)" "is_complete x" for x
  proof -
    have "cm_id x \<noteq> cm_id c" using u[OF that(1)] that(2) assms(4) by blast
    with that(1) show ?thesis by (simp add: set_update_rows)
  qed
  ultimately show ?thesis using assms(6-8)
    by (auto simp: confined_def set_command_def list_all_iff outside_queue_def)
qed

lemma complete_confined:
  assumes "distinct (map cm_id (commands s))"
  shows "confined e s (snd (completeCommand L now e i p s))"
proof (cases "find_row (\<lambda>c. cm_id c = i \<and> cm_endpointId c = e) (commands s)")
  case None
  then show ?thesis by (simp add: completeCommand_def confined_refl)
next
  case (Some c)
  from find_row_Some[OF Some] have c: "c \<in> set (commands s)" "cm_endpointId c = e" by auto
  show ?thesis
  proof (cases "is_complete c")
    case True
    with Some show ?thesis by (simp add: completeCommand_def confined_refl is_complete_def)
  next
    case False
    then have nc: "\<not> (cm_status c = CMD_SUCCEEDED \<or> cm_status c = CMD_FAILED)" by (simp add: is_complete_def)
    show ?thesis
      by (simp add: completeCommand_def Some nc set_command_confined[OF assms c False] record_answer_frame)
  qed
qed

text \<open>Nodes and update jobs under the rest of a heartbeat.\<close>

lemma hand_out_all_nodes: "nodes (snd (hand_out_all (\<lambda>d. d) now cs s)) = nodes s"
proof (induction cs arbitrary: s)
  case (Cons c cs)
  then show ?case by (simp add: case_prod_unfold hand_out_one_def set_command_def)
qed simp

lemma collect_nodes: "nodes (snd (collectForHeartbeat (\<lambda>d. d) now ids e s)) = nodes s"
proof -
  have st: "nodes (snd (stage now i a d)) = nodes d" for i a d by (simp add: stage_def split: sum.split)
  show ?thesis by (simp add: collectForHeartbeat_def Let_def hand_out_all_nodes expireStale_def stageAutomaticCollections_def st)
qed

lemma live_nodes: "nodes (recordLiveState L now e r s) = nodes s"
  by (simp add: recordLiveState_def upsert_def)

lemma record_tries_nodes: "nodes (snd (record_tries k (\<lambda>_ d. d) i ev opts s)) = nodes s"
proof (induction k arbitrary: s)
  case 0
  show ?case by simp
next
  case (Suc k)
  show ?case
  proof (cases "session_by_id s i")
    case None
    then show ?thesis by simp
  next
    case (Some r)
    obtain t s1 where w: "write_event r ev opts (applySessionEvent r ev) s = (t, s1)" by (rule prod.exhaust)
    have "nodes (snd (write_event r ev opts (applySessionEvent r ev) s)) = nodes s"
      by (simp add: write_event_def Let_def insert_event_def)
    then have "nodes s1 = nodes s" by (simp add: w)
    with Suc[of s1] Some w show ?thesis by (cases t) (simp_all add: Let_def)
  qed
qed

lemma foldl_nodes: "(\<And>d r. nodes (g d r) = nodes d) \<Longrightarrow> nodes (foldl g s rs) = nodes s"
  by (induction rs arbitrary: s) simp_all

lemma reconcile_nodes: "nodes (reconcileEndpointSignal dec (\<lambda>_ d. d) e k t now s) = nodes s"
  by (simp add: reconcileEndpointSignal_def Let_def foldl_nodes record_event_def record_tries_nodes observe_ambiguous_def
      insert_event_def split: list.split)

lemma unmanaged: "open_jobs s (hf_endpointId f) = [] \<Longrightarrow> onHeartbeat tz hbbs now nonce f s = (not_managed, s)"
  by (simp add: onHeartbeat_def)

section \<open>Samples\<close>

definition sample_env :: environment where
  "sample_env = \<lparr>en_enc = (\<lambda>x. x), en_dec = Some, en_sha = (\<lambda>x. CHR ''h'' # x), en_platformVersion = ''1.0.0'', en_hbbs = (\<lambda>_. None),
     en_peer = (\<lambda>_. None), en_dates = queue_dates, en_zones = (\<lambda>z. None), en_minute = (\<lambda>_. ''m'')\<rparr>"

definition sample_node :: node_row where
  "sample_node = (new_node ''n1'' (Some ''t1'') ''e1'' ''123456789'')\<lparr>n_agentSecretHash := Some ''hkey''\<rparr>"

definition sample_claim_token :: claim_token_row where
  "sample_claim_token = \<lparr>ct_id = ''k1'', ct_tenantId = ''t1'', ct_endpointId = None, ct_token = ''hraw'', ct_expiresAt = 1000,
     ct_claimedAt = None, ct_claimedByIp = None, ct_customerName = None, ct_siteName = None, ct_description = None,
     ct_customerId = Some ''b1'', ct_accessMode = ASSIGNED_USERS, ct_assignedUserIds = [''u1''], ct_endpointGroupId = None,
     ct_createdById = None\<rparr>"

definition enroll_db :: db where
  "enroll_db = empty_db\<lparr>endpoints := [shared_pc], nodes := [sample_node], claimTokens := [sample_claim_token]\<rparr>"

definition sample_beat :: heartbeat_dto where
  "sample_beat = \<lparr>hb_rustdeskId = ''123456789'', hb_hostname = Some ''evil'', hb_platform = None, hb_osVersion = None,
     hb_agentVersion = None, hb_rustdeskVersion = None, hb_ipAddress = None, hb_password = Some ''pw'', hb_agentSecret = Some ''guess'',
     hb_live = JNull, hb_rustdeskSessions = None, hb_updateNonce = None\<rparr>"

definition sample_claim :: claim_dto where
  "sample_claim = \<lparr>cq_token = ''raw'', cq_rustdeskId = ''987654321'', cq_hostname = None, cq_platform = None, cq_osVersion = None,
     cq_password = None, cq_agentSecret = Some ''new''\<rparr>"

definition sample_claim_ids :: claim_ids where
  "sample_claim_ids = \<lparr>ci_endpoint = ''e2'', ci_node = ''n2'', ci_access = (\<lambda>u. ''a'' @ u)\<rparr>"

lemma enroll_db_simps:
  "node_by_rustdesk enroll_db ''123456789'' = Some sample_node" "nodes enroll_db = [sample_node]"
  "claimTokens enroll_db = [sample_claim_token]" "endpoints enroll_db = [shared_pc]" "accesses enroll_db = []"
  "node_by_rustdesk enroll_db ''987654321'' = None"
  by (simp_all add: enroll_db_def empty_db_def node_by_rustdesk_def sample_node_def new_node_def)

section \<open>Properties\<close>

text \<open>
  C6: A heartbeat that does not prove the device secret of a known computer changes nothing but liveness, the secret on
  offer and the audit log, and learns nothing: it is refused, or answered without the computer's id, a
  rotation, an update, a reinstall or a command.
\<close>

theorem anonymous_heartbeat_is_liveness:
  assumes "node_by_rustdesk s (hb_rustdeskId dto) = Some n" and "\<not> device_ok env n (hb_agentSecret dto)"
    and "heartbeat env f now nonce ids dto ip s = (r, s1)"
  shows "only_liveness s1 s \<and> (case r of Inl e \<Rightarrow> e = Unauthorized ''This device is not recognised'' | Inr a \<Rightarrow> bare_reply a)"
  using assms
  by (auto simp: heartbeat_def liveness_only candidate_only audit_only only_liveness_refl bare_reply_def split: if_splits)

theorem anonymous_heartbeat_is_liveness_witness:
  "only_liveness (snd (heartbeat sample_env (\<lambda>_ d. d) 5 ''nonce'' (''c1'', ''c2'') sample_beat None enroll_db)) enroll_db"
proof -
  obtain r s1 where h: "heartbeat sample_env (\<lambda>_ d. d) 5 ''nonce'' (''c1'', ''c2'') sample_beat None enroll_db = (r, s1)"
    by (rule prod.exhaust)
  have "node_by_rustdesk enroll_db (hb_rustdeskId sample_beat) = Some sample_node" by (simp add: sample_beat_def enroll_db_simps)
  moreover have "\<not> device_ok sample_env sample_node (hb_agentSecret sample_beat)"
    by (simp add: device_ok_def sample_env_def sample_beat_def sample_node_def secretMatches_def)
  ultimately show ?thesis using anonymous_heartbeat_is_liveness[OF _ _ h] h by simp
qed

text \<open>
  C8: A claim with a token of a business that names its users enrolls the computer where the token says: unless it adopts a
  machine of the pending pool, the computer it returns is active in the token's business with the token's access mode, and
  its access list is exactly the token's users. (A token that names no users leaves the list of a computer that is enrolled
  again as it was.)
\<close>

theorem claim_binds_as_minted:
  assumes "claimEndpoint env f now ids dto ip s = (Inr i, s1)"
    and "find_row (\<lambda>r. ct_token r = en_sha env (cq_token dto)) (claimTokens s) = Some tok"
    and "\<not> adopts tok (cq_rustdeskId dto) (f s)" and "truthy (ct_customerId tok)" and "ct_assignedUserIds tok \<noteq> []"
  shows "(\<exists>e. e \<in> set (endpoints s1) \<and> e_id e = i \<and> e_customerId e = ct_customerId tok \<and> e_accessMode e = ct_accessMode tok
      \<and> e_status e = EP_ACTIVE)
    \<and> ca_userId ` {a \<in> set (accesses s1). ca_endpointId a = i} = set (ct_assignedUserIds tok)"
  using assms(1)
proof (cases rule: claim_Inr)
  case (1 tok')
  then have t: "tok' = tok" using assms(2) by simp
  have "\<not> adopts tok (cq_rustdeskId dto) ((f s)\<lparr>claimTokens := c\<rparr>)" for c
    using assms(3) by (simp add: adopts_def node_by_rustdesk_def)
  from enrolled_by_claim[OF 1(5)[unfolded t] this] obtain s0 s2 where e: "enrolled_endpoint now ids dto tok s0 = (i, s2)"
      "endpoints s1 = endpoints s2"
      "accesses s1 = accesses (apply_assignees (ci_access ids) tok i (upsert_node env now (ci_node ids) dto tok i s2))"
    by blast
  from enrolled_row[OF e(1) assms(4)] assignees_applied[OF assms(5)] show ?thesis unfolding e(2,3) by blast
qed

lemma sample_claimed:
  "\<exists>s1. claimEndpoint sample_env id 5 sample_claim_ids sample_claim None enroll_db = (Inr ''e2'', s1)"
  by (simp add: claimEndpoint_def sample_claim_def sample_env_def enroll_db_simps sample_claim_token_def claim_rows_def token_live_def
      claimWithConsumedToken_def Let_def node_by_rustdesk_def sample_node_def new_node_def enrolled_endpoint_def sample_claim_ids_def)

theorem claim_binds_as_minted_witness:
  "\<exists>s1 e. claimEndpoint sample_env id 5 sample_claim_ids sample_claim None enroll_db = (Inr ''e2'', s1)
     \<and> e \<in> set (endpoints s1) \<and> e_id e = ''e2'' \<and> e_customerId e = Some ''b1''
     \<and> ca_userId ` {a \<in> set (accesses s1). ca_endpointId a = ''e2''} = {''u1''}"
proof -
  obtain s1 where c: "claimEndpoint sample_env id 5 sample_claim_ids sample_claim None enroll_db = (Inr ''e2'', s1)"
    using sample_claimed by blast
  have t: "find_row (\<lambda>r. ct_token r = en_sha sample_env (cq_token sample_claim)) (claimTokens enroll_db) = Some sample_claim_token"
    by (simp add: enroll_db_simps sample_env_def sample_claim_def sample_claim_token_def)
  have a: "\<not> adopts sample_claim_token (cq_rustdeskId sample_claim) (id enroll_db)"
    by (simp add: adopts_def sample_claim_def enroll_db_simps)
  have b: "truthy (ct_customerId sample_claim_token)" "ct_assignedUserIds sample_claim_token \<noteq> []"
    by (simp_all add: sample_claim_token_def)
  from claim_binds_as_minted[OF c t a b] c show ?thesis by (auto simp: sample_claim_token_def)
qed

text \<open>
  A claim token enrolls once, also when two installers race: a claim that succeeds while another one with the same token
  is between its checks and its write makes that one fail.
\<close>

theorem racing_claims:
  assumes "is_ok (fst (claimEndpoint env id now1 ids1 dto1 ip1 s))" and "cq_token dto2 = cq_token dto1"
    and "distinct (map ct_id (claimTokens s))"
  shows "\<not> is_ok (fst (claimEndpoint env (\<lambda>d. snd (claimEndpoint env id now1 ids1 dto1 ip1 d)) now2 ids2 dto2 ip2 s))"
proof
  let ?f = "\<lambda>d. snd (claimEndpoint env id now1 ids1 dto1 ip1 d)"
  assume "is_ok (fst (claimEndpoint env ?f now2 ids2 dto2 ip2 s))"
  then obtain i2 s2 where "claimEndpoint env ?f now2 ids2 dto2 ip2 s = (Inr i2, s2)" by (metis is_ok_iff prod.collapse)
  then show False
  proof (cases rule: claim_Inr)
    case (1 tok)
    obtain i1 where "claimEndpoint env id now1 ids1 dto1 ip1 s = (Inr i1, ?f s)" using assms(1) by (metis is_ok_iff prod.collapse)
    from claimed_spent[OF this assms(3)] 1(1) assms(2) have "claims.spent (ct_id tok) (claimTokens (?f s))" by simp
    then have "count_rows (\<lambda>r. ct_id r = ct_id tok \<and> token_live (now2, ip2) r) (claimTokens (?f s)) = 0" by (rule claims.spent_none)
    with 1(4) show False by (simp only: zero_neq_one)
  qed
qed

theorem racing_claims_witness:
  "\<not> is_ok (fst (claimEndpoint sample_env (\<lambda>d. snd (claimEndpoint sample_env id 5 sample_claim_ids sample_claim None d)) 6
     \<lparr>ci_endpoint = ''e3'', ci_node = ''n3'', ci_access = (\<lambda>u. u)\<rparr> (sample_claim\<lparr>cq_rustdeskId := ''555555555''\<rparr>) None enroll_db))"
proof -
  have "is_ok (fst (claimEndpoint sample_env id 5 sample_claim_ids sample_claim None enroll_db))"
    using sample_claimed by (auto simp: is_ok_iff)
  then show ?thesis by (rule racing_claims) (simp_all add: enroll_db_simps)
qed






text \<open>
  A computer's answer to a command changes its own open commands and its own report, and nothing else of the database.
\<close>

theorem device_answers_confined:
  assumes "node_by_rustdesk s rid = Some n" "truthy (n_agentSecretHash n)" "secretMatches env (the (n_agentSecretHash n)) secret"
    and "distinct (map cm_id (commands s))"
  shows "confined (n_endpointId n) s (snd (commandResult env now rid secret i payload s))"
  using complete_confined[OF assms(4), of "n_endpointId n" "en_dates env" now i payload]
  by (simp add: commandResult_def Let_def assms(1-3) case_prod_unfold)

theorem device_answers_confined_witness:
  "confined ''e1'' enroll_db (snd (commandResult sample_env 5 ''123456789'' ''key'' ''c1'' JNull enroll_db))"
proof -
  have e: "n_endpointId sample_node = ''e1''" "commands enroll_db = []"
    by (simp_all add: sample_node_def new_node_def enroll_db_def empty_db_def)
  have "confined (n_endpointId sample_node) enroll_db (snd (commandResult sample_env 5 ''123456789'' ''key'' ''c1'' JNull enroll_db))"
    by (rule device_answers_confined[OF enroll_db_simps(1)]) (simp_all add: sample_node_def secretMatches_def sample_env_def e)
  then show ?thesis by (simp only: e)
qed

text \<open>
  Taking over a machine of the pending pool ignores most of the token: no computer changes its business or its access
  mode and no user gets access, whatever the token names.
\<close>

theorem adoption_ignores_business:
  assumes "claimEndpoint env f now ids dto ip s = (Inr i, s1)"
    and "find_row (\<lambda>r. ct_token r = en_sha env (cq_token dto)) (claimTokens s) = Some tok"
    and "adopts tok (cq_rustdeskId dto) (f s)"
  shows "map (\<lambda>e. (e_id e, e_customerId e, e_accessMode e)) (endpoints s1) = map (\<lambda>e. (e_id e, e_customerId e, e_accessMode e)) (endpoints (f s))
    \<and> accesses s1 = accesses (f s)"
  using assms(1)
proof (cases rule: claim_Inr)
  case (1 tok')
  then have t: "tok' = tok" using assms(2) by simp
  obtain node where n: "node_by_rustdesk (f s) (cq_rustdeskId dto) = Some node" "\<not> truthy (ct_endpointId tok)"
    using assms(3) by (auto simp: adopts_def)
  then have "node_by_rustdesk ((f s)\<lparr>claimTokens := c\<rparr>) (cq_rustdeskId dto) = Some node" for c
    by (simp add: node_by_rustdesk_def)
  with 1(5)[unfolded t] n(2) have "s1 = adopt_pending env now dto tok ip node ((f s)\<lparr>claimTokens :=
       update_rows (\<lambda>r. ct_id r = ct_id tok \<and> token_live (now, ip) r) (consume_token (now, ip)) (claimTokens (f s))\<rparr>)"
    by (simp add: claimWithConsumedToken_def Let_def split: if_splits)
  then show ?thesis
    by (simp add: adopt_pending_def Let_def audit_claimed_def audit_log_def write_endpoint_def write_node_def map_update_rows_on)
qed

definition pending_db :: db where
  "pending_db = empty_db\<lparr>endpoints := [new_endpoint ''e9'' None ''pc''], nodes := [new_node ''n9'' None ''e9'' ''987654321''],
     claimTokens := [sample_claim_token]\<rparr>"

lemma pending_db_simps:
  "claimTokens pending_db = [sample_claim_token]" "endpoints pending_db = [new_endpoint ''e9'' None ''pc'']"
  "node_by_rustdesk pending_db ''987654321'' = Some (new_node ''n9'' None ''e9'' ''987654321'')" "accesses pending_db = []"
  by (simp_all add: pending_db_def empty_db_def node_by_rustdesk_def new_node_def)

theorem adoption_ignores_business_witness:
  "\<exists>s1. claimEndpoint sample_env id 5 sample_claim_ids sample_claim None pending_db = (Inr ''e9'', s1)
     \<and> map (\<lambda>e. (e_id e, e_customerId e)) (endpoints s1) = [(''e9'', None)] \<and> accesses s1 = []"
proof -
  have "\<exists>s1. claimEndpoint sample_env id 5 sample_claim_ids sample_claim None pending_db = (Inr ''e9'', s1)"
    by (simp add: claimEndpoint_def sample_claim_def sample_env_def pending_db_simps sample_claim_token_def claim_rows_def token_live_def
        claimWithConsumedToken_def Let_def node_by_rustdesk_def) (simp add: pending_db_def new_node_def)
  then obtain s1 where c: "claimEndpoint sample_env id 5 sample_claim_ids sample_claim None pending_db = (Inr ''e9'', s1)" by blast
  have t: "find_row (\<lambda>r. ct_token r = en_sha sample_env (cq_token sample_claim)) (claimTokens pending_db) = Some sample_claim_token"
    by (simp add: pending_db_simps sample_env_def sample_claim_def sample_claim_token_def)
  have a: "adopts sample_claim_token (cq_rustdeskId sample_claim) (id pending_db)"
    by (simp add: adopts_def sample_claim_def pending_db_simps sample_claim_token_def)
  from adoption_ignores_business[OF c t a] have r:
      "map (\<lambda>e. (e_id e, e_customerId e, e_accessMode e)) (endpoints s1) = [(''e9'', None, e_accessMode (new_endpoint ''e9'' None ''pc''))]"
      "accesses s1 = []"
    by (simp_all add: pending_db_simps new_endpoint_def)
  have "map (\<lambda>e. (e_id e, e_customerId e)) (endpoints s1) = map (\<lambda>(i, c, m). (i, c)) (map (\<lambda>e. (e_id e, e_customerId e, e_accessMode e)) (endpoints s1))"
    by simp
  with c r show ?thesis by (simp only: list.map prod.case) simp
qed

text \<open>
  The heartbeat that reports a finished reinstall clears the request and is answered with the same order again, because the
  answer is computed from the row read before the update: every reinstall outside a rollout runs at least once more.
\<close>

theorem finished_reinstall_ordered_again:
  assumes "node_by_rustdesk s (hb_rustdeskId dto) = Some n" "device_ok env n (hb_agentSecret dto)"
    and "n_reinstallRequestedAt n \<noteq> None" "n_reinstallDispatchedAt n \<noteq> None"
    and "hb_agentVersion dto = Some (en_platformVersion env)" "open_jobs s (n_endpointId n) = []"
    and "heartbeat env (\<lambda>_ d. d) now nonce ids dto ip s = (Inr r, s1)"
  shows "hr_reinstallAgent r = Some \<lparr>uo_targetVersion = en_platformVersion env, uo_nonce = None\<rparr>
    \<and> map_option n_reinstallRequestedAt (node_by_rustdesk s1 (hb_rustdeskId dto)) = Some None"
proof -
  have h: "device_heartbeat env (\<lambda>_ d. d) now nonce ids dto n s = (r, s1)"
    using assms(1,2,7) by (auto simp: heartbeat_def device_ok_def split: prod.splits)
  have "reinstall_reached env dto n" by (simp add: reinstall_reached_def assms(3-5))
  then have rep: "n_reinstallRequestedAt (reported_node env now dto n q) = None" "n_rustdeskId (reported_node env now dto n q) = n_rustdeskId q" for q
    by (simp_all add: reported_node_def Let_def clear_candidate_def)
  have m: "mark_dispatched now n d = d" for d using assms(4) by (auto simp: mark_dispatched_def)
  have jobs: "open_jobs (write_endpoint i g (write_node k w s)) (hf_endpointId (heartbeat_facts_of dto n)) = []" for i g k w
    using assms(6) by (simp add: open_jobs_def with_rollout_def rollout_by_id_def write_endpoint_def write_node_def heartbeat_facts_of_def)
  note un = unmanaged[OF jobs]
  have we: "nodes (write_endpoint i g d) = nodes d" for i g d by (simp add: write_endpoint_def)
  have "nodes s1 = nodes (write_node (n_id n) (reported_node env now dto n) s)"
    using h by (auto simp: device_heartbeat_def Let_def un m collect_nodes live_nodes reconcile_nodes we split: option.splits)
  then have "node_by_rustdesk s1 (hb_rustdeskId dto) = Some (reported_node env now dto n n)"
    using node_after_write[OF assms(1), of "reported_node env now dto n"] by (simp add: node_by_rustdesk_def rep(2))
  moreover have "hr_reinstallAgent r = staged_reinstall env n"
    using h by (auto simp: device_heartbeat_def Let_def un m not_managed_def)
  ultimately show ?thesis using assms(3) by (simp add: staged_reinstall_def rep(1))
qed

definition finished_beat :: heartbeat_dto where
  "finished_beat = sample_beat\<lparr>hb_agentVersion := Some ''1.0.0'', hb_agentSecret := Some ''key''\<rparr>"

definition reinstalling_node :: node_row where
  "reinstalling_node = sample_node\<lparr>n_reinstallRequestedAt := Some 1, n_reinstallDispatchedAt := Some 2\<rparr>"

theorem finished_reinstall_ordered_again_witness:
  "\<exists>r s1. heartbeat sample_env (\<lambda>_ d. d) 5 ''nonce'' (''c1'', ''c2'') finished_beat None (enroll_db\<lparr>nodes := [reinstalling_node]\<rparr>) = (Inr r, s1)
     \<and> hr_reinstallAgent r \<noteq> None \<and> map_option n_reinstallRequestedAt (node_by_rustdesk s1 ''123456789'') = Some None"
proof -
  let ?s = "enroll_db\<lparr>nodes := [reinstalling_node]\<rparr>"
  have n: "node_by_rustdesk ?s (hb_rustdeskId finished_beat) = Some reinstalling_node"
    by (simp add: node_by_rustdesk_def finished_beat_def sample_beat_def reinstalling_node_def sample_node_def new_node_def)
  have ok: "device_ok sample_env reinstalling_node (hb_agentSecret finished_beat)"
    by (simp add: device_ok_def secretMatches_def sample_env_def finished_beat_def reinstalling_node_def sample_node_def)
  obtain r s1 where d: "device_heartbeat sample_env (\<lambda>_ d. d) 5 ''nonce'' (''c1'', ''c2'') finished_beat reinstalling_node ?s = (r, s1)"
    by (rule prod.exhaust)
  have h: "heartbeat sample_env (\<lambda>_ d. d) 5 ''nonce'' (''c1'', ''c2'') finished_beat None ?s = (Inr r, s1)"
    using ok by (simp add: heartbeat_def n device_ok_def d)
  have e: "n_reinstallRequestedAt reinstalling_node \<noteq> None" "n_reinstallDispatchedAt reinstalling_node \<noteq> None"
      "hb_agentVersion finished_beat = Some (en_platformVersion sample_env)" "open_jobs ?s (n_endpointId reinstalling_node) = []"
    by (simp_all add: reinstalling_node_def finished_beat_def sample_env_def open_jobs_def with_rollout_def enroll_db_def empty_db_def)
  have i: "hb_rustdeskId finished_beat = ''123456789''" by (simp add: finished_beat_def sample_beat_def)
  from finished_reinstall_ordered_again[OF n ok e h] h show ?thesis by (auto simp: i)
qed

end
