(* ===== verification/People.thy ===== *)
theory People
  imports Auth Endpoints "HOL-Library.Sublist"
begin

text \<open>
  What the services that manage businesses and people share: the member a caller may manage, and the writes to users and
  memberships.
\<close>

section \<open>Users and memberships\<close>

definition write_user :: "id \<Rightarrow> (user_row \<Rightarrow> user_row) \<Rightarrow> db \<Rightarrow> db" where
  "write_user i f s = s\<lparr>users := update_rows (\<lambda>u. u_id u = i) f (users s)\<rparr>"

definition write_membership :: "id \<Rightarrow> (membership_row \<Rightarrow> membership_row) \<Rightarrow> db \<Rightarrow> db" where
  "write_membership i f s = s\<lparr>memberships := update_rows (\<lambda>m. m_id m = i) f (memberships s)\<rparr>"

definition delete_membership :: "id \<Rightarrow> db \<Rightarrow> db" where
  "delete_membership i s = s\<lparr>memberships := delete_rows (\<lambda>m. m_id m = i) (memberships s)\<rparr>"

definition is_platform_admin :: "db \<Rightarrow> id \<Rightarrow> bool" where
  "is_platform_admin s i = (case user_by_id s i of None \<Rightarrow> False | Some u \<Rightarrow> u_isPlatformAdmin u)"

text \<open>The person behind a membership, as \<open>assertMayManage\<close> asks for it.\<close>

definition manage_target_of :: "db \<Rightarrow> membership_row \<Rightarrow> manage_target" where
  "manage_target_of s m = \<lparr>mt_roleType = Some (m_roleType m), mt_isPlatformAdmin = is_platform_admin s (m_userId m), mt_userId = m_userId m\<rparr>"

text \<open>The membership of a user in the caller's scope, which the caller may manage.\<close>

definition managed_user :: "db \<Rightarrow> actor \<Rightarrow> id \<Rightarrow> membership_row result" where
  "managed_user s actor userId = (case assertUserInScope s actor userId of
     Inl e \<Rightarrow> Inl e
   | Inr m \<Rightarrow> map_sum id (\<lambda>_. m) (assertMayManage actor (manage_target_of s m)))"

text \<open>Per-computer grants of a user on the computers of a business.\<close>

definition endpoint_business :: "db \<Rightarrow> id \<Rightarrow> id option" where
  "endpoint_business s i = Option.bind (endpoint_by_id s i) e_customerId"

definition drop_grants_in :: "id \<Rightarrow> id \<Rightarrow> db \<Rightarrow> db" where
  "drop_grants_in userId businessId s = s\<lparr>accesses :=
     delete_rows (\<lambda>a. ca_userId a = userId \<and> endpoint_business s (ca_endpointId a) = Some businessId) (accesses s)\<rparr>"

text \<open>An account without any membership left is deleted, unless it is a platform admin.\<close>

definition close_account :: "id \<Rightarrow> bool \<Rightarrow> db \<Rightarrow> db" where
  "close_account userId admin s =
     (if count_rows (\<lambda>m. m_userId m = userId) (memberships s) = 0 \<and> \<not> admin
      then write_user userId (\<lambda>u. u\<lparr>u_status := U_DELETED\<rparr>) s else s)"

definition role_of_type :: "db \<Rightarrow> id \<Rightarrow> role_type \<Rightarrow> role_row option" where
  "role_of_type s tenantId ty = find_row (\<lambda>r. rl_tenantId r = tenantId \<and> rl_type r = ty) (roles s)"

datatype member_level = level_owner | level_user

definition level_role :: "member_level \<Rightarrow> role_type" where
  "level_role l = (case l of level_owner \<Rightarrow> BUSINESS_OWNER | level_user \<Rightarrow> BUSINESS_USER)"

definition audit_people :: "string \<Rightarrow> actor \<Rightarrow> id option \<Rightarrow> id option \<Rightarrow> string \<Rightarrow> id \<Rightarrow> db \<Rightarrow> db" where
  "audit_people action actor tenantId customerId resource i =
     audit_log action (Some (a_userId actor)) tenantId customerId (a_ip actor) (Some resource) (Some i) False"

text \<open>\<open>contains\<close> with \<open>mode: 'insensitive'\<close>.\<close>

definition contains_ci :: "string \<Rightarrow> string \<Rightarrow> bool" where
  "contains_ci needle hay = sublist (map lower needle) (map lower hay)"

end
