(* ===== verification/Businesses.thy ===== *)
theory Businesses
  imports People
begin

text \<open>
  Businesses (\<open>businesses/businesses.service.ts\<close>): the customer organisations and the people in them. SHA-256
  and random bytes are the caller's: a fresh id and an invitation token are arguments, the placeholder password of a
  new account is one too.
\<close>

section \<open>Business profiles\<close>

definition BUSINESS_COLUMNS :: "string list" where
  "BUSINESS_COLUMNS = [''code'', ''email'', ''phone'', ''address'', ''city'', ''state'', ''country'', ''postalCode'', ''notes'']"

record business_input =
  bd_name :: "string option"
  bd_columns :: columns
  bd_isActive :: "bool option"
  bd_quickConnectEnabled :: "bool option"

definition platformTenantId :: "db \<Rightarrow> actor \<Rightarrow> id result" where
  "platformTenantId s actor = (if truthy (a_tenantId actor) then Inr (the (a_tenantId actor))
     else case oldest_tenant s of None \<Rightarrow> Inl (BadRequest ''Platform is not initialised'') | Some t \<Rightarrow> Inr (t_id t))"

definition matches_search :: "string option \<Rightarrow> business_row \<Rightarrow> bool" where
  "matches_search search b = (\<not> truthy search \<or> contains_ci (the search) (c_name b)
     \<or> list_ex (\<lambda>k. case c_profile b k of None \<Rightarrow> False | Some v \<Rightarrow> contains_ci (the search) v) [''code'', ''email'', ''city''])"

definition findAll_businesses :: "(string \<Rightarrow> 'k::linorder) \<Rightarrow> db \<Rightarrow> actor \<Rightarrow> string option \<Rightarrow> business_row list result" where
  "findAll_businesses collate s actor search = (case resolveScope actor None of
     Inl e \<Rightarrow> Inl e
   | Inr sc \<Rightarrow> Inr (sort_key (\<lambda>b. collate (c_name b)) (filter (\<lambda>b. scope_where (\<lambda>b. Some (c_id b)) sc b
       \<and> \<not> c_isArchived b \<and> matches_search search b) (businesses s))))"

record business_view =
  bv_business :: business_row
  bv_sites :: "site_row list"
  bv_endpoints :: "endpoint_row list option"

text \<open>The computers come along only with the capability to see them; online ones first, then by name.\<close>

definition findOne_business :: "(string \<Rightarrow> 'k::linorder) \<Rightarrow> db \<Rightarrow> actor \<Rightarrow> id \<Rightarrow> business_view result" where
  "findOne_business collate s actor i = (case assertBusinessInScope s actor i of
     Inl e \<Rightarrow> Inl e
   | Inr _ \<Rightarrow> (case find_row (\<lambda>b. c_id b = i \<and> \<not> c_isArchived b) (businesses s) of
       None \<Rightarrow> Inl (NotFound ''Business not found'')
     | Some b \<Rightarrow> Inr \<lparr>bv_business = b, bv_sites = filter (\<lambda>r. st_customerId r = i \<and> st_isActive r) (sites s),
         bv_endpoints = (if can actor CAP_COMPUTERS_VIEW
           then (let es = sort_key (\<lambda>e. collate (e_name e)) (filter (\<lambda>e. e_customerId e = Some i \<and> e_status e \<noteq> EP_ARCHIVED) (endpoints s))
                 in Some (filter e_isOnline es @ filter (\<lambda>e. \<not> e_isOnline e) es))
           else None)\<rparr>))"

definition new_business :: "id \<Rightarrow> id \<Rightarrow> business_input \<Rightarrow> business_row" where
  "new_business i tenantId dto = \<lparr>c_id = i, c_tenantId = tenantId, c_name = given_or (bd_name dto) [], c_isActive = True,
     c_isArchived = False, c_quickConnectEnabled = True, c_technicianApprovalRequired = False, c_supportIntakeEnabled = False,
     c_supportIntakeSlug = None, c_profile = set_columns BUSINESS_COLUMNS (bd_columns dto) Map.empty\<rparr>"

definition create_business :: "actor \<Rightarrow> id \<Rightarrow> business_input \<Rightarrow> db \<Rightarrow> business_row result \<times> db" where
  "create_business actor i dto s = (case assertPlatformAdmin actor of
     Inl e \<Rightarrow> (Inl e, s)
   | Inr _ \<Rightarrow> (case platformTenantId s actor of
       Inl e \<Rightarrow> (Inl e, s)
     | Inr tenantId \<Rightarrow>
         let b = new_business i tenantId dto
         in (Inr b, audit_people ''BUSINESS_CREATED'' actor (Some tenantId) (Some i) ''business'' i (s\<lparr>businesses := businesses s @ [b]\<rparr>))))"

definition updated_business :: "business_input \<Rightarrow> business_row \<Rightarrow> business_row" where
  "updated_business dto b = b\<lparr>c_name := given_or (bd_name dto) (c_name b), c_profile := set_columns BUSINESS_COLUMNS (bd_columns dto) (c_profile b),
     c_isActive := given_or (bd_isActive dto) (c_isActive b),
     c_quickConnectEnabled := given_or (bd_quickConnectEnabled dto) (c_quickConnectEnabled b)\<rparr>"

definition write_business :: "id \<Rightarrow> (business_row \<Rightarrow> business_row) \<Rightarrow> db \<Rightarrow> db" where
  "write_business i f s = s\<lparr>businesses := update_rows (\<lambda>b. c_id b = i) f (businesses s)\<rparr>"

definition may_update_business :: "actor \<Rightarrow> business_input \<Rightarrow> unit result" where
  "may_update_business actor dto =
     (if bd_isActive dto \<noteq> None \<and> \<not> a_isPlatformAdmin actor
      then Inl (BadRequest ''Only a Platform Admin can enable or disable a business'')
      else if bd_quickConnectEnabled dto \<noteq> None \<and> \<not> a_isPlatformAdmin actor
      then Inl (BadRequest ''Only a Platform Admin can change the Quick Connect setting for a business'')
      else if \<not> a_isPlatformAdmin actor then assertBusinessOwner actor else Inr ())"

definition update_business :: "actor \<Rightarrow> id \<Rightarrow> business_input \<Rightarrow> db \<Rightarrow> unit result \<times> db" where
  "update_business actor i dto s = (case assertBusinessInScope s actor i of
     Inl e \<Rightarrow> (Inl e, s)
   | Inr existing \<Rightarrow> (case may_update_business actor dto of
       Inl e \<Rightarrow> (Inl e, s)
     | Inr _ \<Rightarrow>
         let s1 = write_business i (updated_business dto) s;
             audit = (\<lambda>action. audit_people action actor (Some (c_tenantId existing)) (Some i) ''business'' i);
             s2 = (if bd_isActive dto = Some False then audit ''BUSINESS_DISABLED'' s1 else s1);
             s3 = (if bd_quickConnectEnabled dto \<noteq> None then audit ''QUICK_CONNECT_SETTING_CHANGED'' s2 else s2)
         in (Inr (), audit ''BUSINESS_UPDATED'' s3)))"

definition archive_business :: "actor \<Rightarrow> id \<Rightarrow> db \<Rightarrow> unit result \<times> db" where
  "archive_business actor i s = (case assertPlatformAdmin actor of
     Inl e \<Rightarrow> (Inl e, s)
   | Inr _ \<Rightarrow> (case assertBusinessInScope s actor i of
       Inl e \<Rightarrow> (Inl e, s)
     | Inr existing \<Rightarrow> (Inr (), audit_people ''BUSINESS_DISABLED'' actor (Some (c_tenantId existing)) (Some i) ''business'' i
         (write_business i (\<lambda>b. b\<lparr>c_isArchived := True, c_isActive := False\<rparr>) s))))"

definition business_is_empty :: "db \<Rightarrow> id \<Rightarrow> bool" where
  "business_is_empty s i = (count_rows (\<lambda>e. e_customerId e = Some i) (endpoints s) = 0
     \<and> count_rows (\<lambda>m. m_customerId m = Some i) (memberships s) = 0
     \<and> count_rows (\<lambda>r. ss_customerId r = Some i) (sessions s) = 0
     \<and> count_rows (\<lambda>r. st_customerId r = i) (sites s) = 0)"

text \<open>Deleting a business cascades to its assignments, API keys and requests; notes lose the reference.\<close>

definition delete_business :: "id \<Rightarrow> db \<Rightarrow> db" where
  "delete_business i s = (let gone = map rq_id (filter (\<lambda>r. rq_customerId r = i) (requests s)) in
     s\<lparr>businesses := delete_rows (\<lambda>b. c_id b = i) (businesses s),
       assignments := delete_rows (\<lambda>a. ta_customerId a = i) (assignments s),
       apiKeys := delete_rows (\<lambda>k. ak_customerId k = Some i) (apiKeys s),
       requests := delete_rows (\<lambda>r. rq_customerId r = i) (requests s),
       requestEvents := delete_rows (\<lambda>e. re_requestId e \<in> set gone) (requestEvents s),
       noteRows := update_rows (\<lambda>n. nt_customerId n = Some i) (\<lambda>n. n\<lparr>nt_customerId := None\<rparr>) (noteRows s)\<rparr>)"

definition remove_business :: "actor \<Rightarrow> id \<Rightarrow> db \<Rightarrow> unit result \<times> db" where
  "remove_business actor i s = (case assertPlatformAdmin actor of
     Inl e \<Rightarrow> (Inl e, s)
   | Inr _ \<Rightarrow> (case assertBusinessInScope s actor i of
       Inl e \<Rightarrow> (Inl e, s)
     | Inr existing \<Rightarrow>
         if \<not> business_is_empty s i then (Inl (Conflict ''Move or remove them first, or disable the business instead.''), s)
         else (Inr (), audit_people ''BUSINESS_DELETED'' actor (Some (c_tenantId existing)) None ''business'' i
           (delete_business i (s\<lparr>activityLog := update_rows (\<lambda>a. al_customerId a = Some i)
              (\<lambda>a. a\<lparr>al_customerId := None\<rparr>) (activityLog s)\<rparr>)))))"

section \<open>People\<close>

definition listUsers :: "db \<Rightarrow> actor \<Rightarrow> id \<Rightarrow> membership_row list result" where
  "listUsers s actor businessId = map_sum id (\<lambda>_. filter (\<lambda>m. m_customerId m = Some businessId) (memberships s))
     (assertBusinessInScope s actor businessId)"

text \<open>The business, for a platform admin or its owner.\<close>

definition owned_business :: "db \<Rightarrow> actor \<Rightarrow> id \<Rightarrow> business_row result" where
  "owned_business s actor businessId = (case assertBusinessInScope s actor businessId of
     Inl e \<Rightarrow> Inl e
   | Inr b \<Rightarrow> (if a_isPlatformAdmin actor then Inr b else map_sum id (\<lambda>_. b) (assertBusinessOwner actor)))"

text \<open>A member of the business the caller may manage.\<close>

definition managed_member :: "db \<Rightarrow> actor \<Rightarrow> id \<Rightarrow> id \<Rightarrow> membership_row result" where
  "managed_member s actor businessId userId =
     (case find_row (\<lambda>m. m_userId m = userId \<and> m_customerId m = Some businessId) (memberships s) of
        None \<Rightarrow> Inl (NotFound ''User not found in this business'')
      | Some m \<Rightarrow> map_sum id (\<lambda>_. m) (assertMayManage actor (manage_target_of s m)))"

record add_user_input =
  au_email :: string
  au_firstName :: "string option"
  au_lastName :: "string option"
  au_level :: member_level
  au_capabilities :: "string list option"

record add_user_ids =
  ai_user :: id
  ai_membership :: id
  ai_token :: string
  ai_passwordHash :: string

definition added_user :: "db \<Rightarrow> id \<Rightarrow> add_user_ids \<Rightarrow> string \<Rightarrow> add_user_input \<Rightarrow> (id \<times> db) result" where
  "added_user s businessId ids email dto = (case find_row (\<lambda>u. u_email u = email) (users s) of
     Some u \<Rightarrow> (case find_row (\<lambda>m. m_userId m = u_id u) (memberships s) of
         Some clash \<Rightarrow> Inl (Conflict (if m_customerId clash = Some businessId then ''That person is already in this business''
                                     else ''That email already belongs to another business''))
       | None \<Rightarrow> Inr (u_id u, s))
   | None \<Rightarrow> Inr (ai_user ids, s\<lparr>users := users s @ [\<lparr>u_id = ai_user ids, u_email = email, u_passwordHash = ai_passwordHash ids,
         u_firstName = given_or (au_firstName dto) [], u_lastName = given_or (au_lastName dto) [], u_status = U_INVITED,
         u_isPlatformAdmin = False, u_sessionsValidAfter = None, u_platformPermissions = [], u_profile = Map.empty\<rparr>]\<rparr>))"

definition invitation :: "time \<Rightarrow> actor \<Rightarrow> id \<Rightarrow> string \<Rightarrow> id \<Rightarrow> string \<Rightarrow> invitation_row" where
  "invitation now actor tenantId email roleId token = \<lparr>iv_tenantId = tenantId, iv_invitedById = a_userId actor, iv_email = email,
     iv_roleId = roleId, iv_token = token, iv_expiresAt = now + 7 * 24 * 60 * 60 * 1000, iv_acceptedAt = None\<rparr>"

definition addUser :: "time \<Rightarrow> actor \<Rightarrow> id \<Rightarrow> add_user_ids \<Rightarrow> add_user_input \<Rightarrow> db \<Rightarrow> membership_row result \<times> db" where
  "addUser now actor businessId ids dto s = (case assertBusinessInScope s actor businessId of
     Inl e \<Rightarrow> (Inl e, s)
   | Inr business \<Rightarrow>
       if au_level dto = level_owner \<and> \<not> a_isPlatformAdmin actor
       then (Inl (BadRequest ''Only a Platform Admin can create a Business Owner''), s)
       else (case (if a_isPlatformAdmin actor then Inr () else assertBusinessOwner actor) of
           Inl e \<Rightarrow> (Inl e, s)
         | Inr _ \<Rightarrow>
             let email = js_trim (map lower (au_email dto)); ty = level_role (au_level dto)
             in (case role_of_type s (c_tenantId business) ty of
                 None \<Rightarrow> (Inl (BadRequest ''System role is missing''), s)
               | Some role \<Rightarrow> (case added_user s businessId ids email dto of
                   Inl e \<Rightarrow> (Inl e, s)
                 | Inr (userId, s1) \<Rightarrow>
                     let caps = (if ty = BUSINESS_OWNER then []
                           else case au_capabilities dto of None \<Rightarrow> DEFAULT_BUSINESS_USER_CAPABILITIES
                              | Some cs \<Rightarrow> sanitizeCapabilities (json_strings (Some cs)));
                         m = \<lparr>m_id = ai_membership ids, m_userId = userId, m_tenantId = c_tenantId business, m_roleId = rl_id role,
                              m_roleType = ty, m_isActive = True, m_customerId = Some businessId, m_capabilities = caps\<rparr>
                     in (Inr m, audit_people ''USER_INVITED'' actor (Some (c_tenantId business)) (Some businessId) ''membership'' (m_id m)
                           (s1\<lparr>memberships := memberships s1 @ [m],
                               invitations := invitations s1 @ [invitation now actor (c_tenantId business) email (rl_id role) (ai_token ids)]\<rparr>))))))"

definition setUserCapabilities :: "actor \<Rightarrow> id \<Rightarrow> id \<Rightarrow> string list \<Rightarrow> db \<Rightarrow> unit result \<times> db" where
  "setUserCapabilities actor businessId userId caps s = (case owned_business s actor businessId of
     Inl e \<Rightarrow> (Inl e, s)
   | Inr business \<Rightarrow> (case managed_member s actor businessId userId of
       Inl e \<Rightarrow> (Inl e, s)
     | Inr m \<Rightarrow>
         if m_roleType m = BUSINESS_OWNER
         then (Inl (BadRequest ''A Business Owner already holds every business permission''), s)
         else if userId = a_userId actor then (Inl (BadRequest ''You cannot change your own permissions''), s)
         else (Inr (), audit_people ''USER_CAPABILITIES_UPDATED'' actor (Some (c_tenantId business)) (Some businessId) ''membership'' (m_id m)
           (write_membership (m_id m) (\<lambda>q. q\<lparr>m_capabilities := sanitizeCapabilities (json_strings (Some caps))\<rparr>) s))))"

definition setUserActive :: "actor \<Rightarrow> id \<Rightarrow> id \<Rightarrow> bool \<Rightarrow> db \<Rightarrow> unit result \<times> db" where
  "setUserActive actor businessId userId active s = (case owned_business s actor businessId of
     Inl e \<Rightarrow> (Inl e, s)
   | Inr business \<Rightarrow>
       if userId = a_userId actor then (Inl (BadRequest ''You cannot disable your own account''), s)
       else (case managed_member s actor businessId userId of
           Inl e \<Rightarrow> (Inl e, s)
         | Inr m \<Rightarrow> (Inr (), audit_people (if active then ''USER_UPDATED'' else ''USER_SUSPENDED'') actor (Some (c_tenantId business))
             (Some businessId) ''membership'' (m_id m)
             (write_user userId (\<lambda>u. u\<lparr>u_status := (if active then U_ACTIVE else U_SUSPENDED)\<rparr>)
               (write_membership (m_id m) (\<lambda>q. q\<lparr>m_isActive := active\<rparr>) s)))))"

definition removeUser :: "actor \<Rightarrow> id \<Rightarrow> id \<Rightarrow> db \<Rightarrow> unit result \<times> db" where
  "removeUser actor businessId userId s = (case owned_business s actor businessId of
     Inl e \<Rightarrow> (Inl e, s)
   | Inr business \<Rightarrow>
       if userId = a_userId actor then (Inl (BadRequest ''You cannot remove your own account''), s)
       else (case managed_member s actor businessId userId of
           Inl e \<Rightarrow> (Inl e, s)
         | Inr m \<Rightarrow> (Inr (), audit_people ''USER_DELETED'' actor (Some (c_tenantId business)) (Some businessId) ''membership'' (m_id m)
             (close_account userId (is_platform_admin s userId) (delete_membership (m_id m) (drop_grants_in userId businessId s))))))"

definition email_of :: "db \<Rightarrow> id \<Rightarrow> string" where
  "email_of s i = (case user_by_id s i of None \<Rightarrow> [] | Some u \<Rightarrow> u_email u)"

definition resetUserAccess :: "time \<Rightarrow> actor \<Rightarrow> id \<Rightarrow> id \<Rightarrow> string \<Rightarrow> db \<Rightarrow> unit result \<times> db" where
  "resetUserAccess now actor businessId userId token s = (case owned_business s actor businessId of
     Inl e \<Rightarrow> (Inl e, s)
   | Inr business \<Rightarrow> (case managed_member s actor businessId userId of
       Inl e \<Rightarrow> (Inl e, s)
     | Inr m \<Rightarrow>
         let email = email_of s userId;
             s1 = s\<lparr>invitations := delete_rows (\<lambda>v. iv_email v = email \<and> iv_acceptedAt v = None) (invitations s)
                    @ [invitation now actor (c_tenantId business) email (m_roleId m) token]\<rparr>;
             s2 = write_user userId (\<lambda>u. u\<lparr>u_passwordHash := [], u_status := U_INVITED, u_sessionsValidAfter := Some (revocationInstant now)\<rparr>) s1;
             s3 = s2\<lparr>mfaMethods := update_rows (\<lambda>q. mm_userId q = userId) (\<lambda>q. q\<lparr>mm_isActive := False\<rparr>) (mfaMethods s2)\<rparr>
         in (Inr (), audit_people ''MFA_RESET'' actor (Some (c_tenantId business)) (Some businessId) ''user'' userId s3)))"

end
