(* ===== verification/Users.thy ===== *)
theory Users
  imports Businesses
begin

text \<open>
  People (\<open>users/users.service.ts\<close>): profiles, credentials, status, level, business and platform rights. Hashing is
  the parameter of \<open>Auth\<close>. Each operation is the body of one method; \<open>f\<close> in \<open>setPlatformAdmin\<close> is what other
  requests write between its check and its write.
\<close>

record user_input =
  ui_firstName :: "string option"
  ui_lastName :: "string option"
  ui_email :: "string option"
  ui_columns :: columns

section \<open>Reading\<close>

record member_view =
  mv_membership :: membership_row
  mv_user :: "user_row option"
  mv_accessLevel :: access_level

definition listMembers :: "db \<Rightarrow> actor \<Rightarrow> id option \<Rightarrow> member_view list result" where
  "listMembers s actor businessId = map_sum id (\<lambda>sc. map (\<lambda>m. \<lparr>mv_membership = m, mv_user = user_by_id s (m_userId m),
        mv_accessLevel = accessLevelLabel (is_platform_admin s (m_userId m)) (Some (m_roleType m))\<rparr>)
      (filter (scope_where m_customerId sc) (memberships s))) (resolveScope actor businessId)"

definition listPlatformAdmins :: "db \<Rightarrow> actor \<Rightarrow> user_row list result" where
  "listPlatformAdmins s actor = map_sum id (\<lambda>_. filter u_isPlatformAdmin (users s)) (assertPlatformAdmin actor)"

definition findUserByEmail :: "db \<Rightarrow> actor \<Rightarrow> string \<Rightarrow> user_row option result" where
  "findUserByEmail s actor email = map_sum id (\<lambda>_. find_row (\<lambda>u. u_email u = map lower email) (users s)) (assertPlatformAdmin actor)"

definition getMfaStatus :: "db \<Rightarrow> id \<Rightarrow> bool result" where
  "getMfaStatus s userId = (case user_by_id s userId of
     None \<Rightarrow> Inl (NotFound ''User not found'')
   | Some u \<Rightarrow> Inr (filter (\<lambda>q. mm_userId q = userId \<and> mm_type q = TOTP \<and> mm_isActive q) (mfaMethods s) \<noteq> []))"

section \<open>Profile and credentials\<close>

definition email_clash :: "db \<Rightarrow> id \<Rightarrow> string option \<Rightarrow> bool" where
  "email_clash s userId email = (truthy email \<and> find_row (\<lambda>u. u_email u = map lower (the email) \<and> u_id u \<noteq> userId) (users s) \<noteq> None)"

definition updated_user :: "user_input \<Rightarrow> user_row \<Rightarrow> user_row" where
  "updated_user dto u = u\<lparr>u_firstName := given_or (ui_firstName dto) (u_firstName u), u_lastName := given_or (ui_lastName dto) (u_lastName u),
     u_email := given_or (map_option (map lower) (ui_email dto)) (u_email u),
     u_profile := set_columns USER_COLUMNS (\<lambda>k. map_option or_null (ui_columns dto k)) (u_profile u)\<rparr>"

definition update_person :: "actor \<Rightarrow> id \<Rightarrow> user_input \<Rightarrow> db \<Rightarrow> unit result \<times> db" where
  "update_person actor userId dto s =
     (case (if a_userId actor = userId then assertUserInScope s actor userId else managed_user s actor userId) of
        Inl e \<Rightarrow> (Inl e, s)
      | Inr m \<Rightarrow>
          if email_clash s userId (ui_email dto) then (Inl (BadRequest ''Email already in use''), s)
          else (Inr (), audit_people ''USER_UPDATED'' actor (Some (m_tenantId m)) (m_customerId m) ''user'' userId
            (write_user userId (updated_user dto) s)))"

definition resetPassword :: "crypto \<Rightarrow> time \<Rightarrow> actor \<Rightarrow> id \<Rightarrow> string \<Rightarrow> db \<Rightarrow> unit result \<times> db" where
  "resetPassword c now actor userId newPassword s = (case managed_user s actor userId of
     Inl e \<Rightarrow> (Inl e, s)
   | Inr m \<Rightarrow>
       if length newPassword < 12 then (Inl (BadRequest ''Password must be at least 12 characters''), s)
       else (Inr (), audit_people ''PASSWORD_CHANGED'' actor (Some (m_tenantId m)) (m_customerId m) ''user'' userId
         (write_user userId (\<lambda>u. u\<lparr>u_passwordHash := cr_hash c newPassword, u_status := U_ACTIVE,
            u_sessionsValidAfter := Some (revocationInstant now)\<rparr>) s)))"

definition resetMfa :: "time \<Rightarrow> actor \<Rightarrow> id \<Rightarrow> db \<Rightarrow> unit result \<times> db" where
  "resetMfa now actor userId s =
     (if a_userId actor = userId
      then (Inl (Forbidden ''Turn off your own two-factor authentication from your account page, with a current code.''), s)
      else (case managed_user s actor userId of
          Inl e \<Rightarrow> (Inl e, s)
        | Inr m \<Rightarrow> (Inr (), audit_people ''MFA_RESET'' actor (Some (m_tenantId m)) (m_customerId m) ''user'' userId
            (write_user userId (\<lambda>u. u\<lparr>u_sessionsValidAfter := Some (revocationInstant now)\<rparr>)
              (s\<lparr>mfaMethods := update_rows (\<lambda>q. mm_userId q = userId \<and> mm_type q = TOTP) (\<lambda>q. q\<lparr>mm_isActive := False\<rparr>) (mfaMethods s)\<rparr>)))))"

section \<open>Status, level, business\<close>

definition set_status :: "user_status \<Rightarrow> bool \<Rightarrow> id \<Rightarrow> membership_row \<Rightarrow> db \<Rightarrow> db" where
  "set_status st active userId m s = write_membership (m_id m) (\<lambda>q. q\<lparr>m_isActive := active\<rparr>) (write_user userId (\<lambda>u. u\<lparr>u_status := st\<rparr>) s)"

definition suspend :: "actor \<Rightarrow> id \<Rightarrow> db \<Rightarrow> unit result \<times> db" where
  "suspend actor userId s =
     (if a_userId actor = userId then (Inl (Forbidden ''You cannot suspend your own account''), s)
      else (case managed_user s actor userId of
          Inl e \<Rightarrow> (Inl e, s)
        | Inr m \<Rightarrow> (Inr (), audit_people ''USER_SUSPENDED'' actor (Some (m_tenantId m)) (m_customerId m) ''user'' userId
            (set_status U_SUSPENDED False userId m s))))"

definition activate :: "actor \<Rightarrow> id \<Rightarrow> db \<Rightarrow> unit result \<times> db" where
  "activate actor userId s = (case managed_user s actor userId of
     Inl e \<Rightarrow> (Inl e, s)
   | Inr m \<Rightarrow> (Inr (), audit_people ''USER_UPDATED'' actor (Some (m_tenantId m)) (m_customerId m) ''user'' userId
       (set_status U_ACTIVE True userId m s)))"

definition leveled :: "role_row \<Rightarrow> member_level \<Rightarrow> membership_row \<Rightarrow> membership_row" where
  "leveled role level q = q\<lparr>m_roleId := rl_id role, m_roleType := rl_type role,
     m_capabilities := (if level = level_owner then [] else DEFAULT_BUSINESS_USER_CAPABILITIES)\<rparr>"

definition setLevel :: "actor \<Rightarrow> id \<Rightarrow> member_level \<Rightarrow> db \<Rightarrow> unit result \<times> db" where
  "setLevel actor userId level s =
     (if a_userId actor = userId then (Inl (Forbidden ''You cannot change your own access level''), s)
      else (case managed_user s actor userId of
          Inl e \<Rightarrow> (Inl e, s)
        | Inr m \<Rightarrow>
            if level = level_owner \<and> \<not> a_isPlatformAdmin actor
            then (Inl (Forbidden ''Only a Platform Admin can promote someone to Business Owner''), s)
            else (case role_of_type s (m_tenantId m) (level_role level) of
                None \<Rightarrow> (Inl (BadRequest ''System role is missing''), s)
              | Some role \<Rightarrow> (Inr (), audit_people ''ROLE_CHANGED'' actor (Some (m_tenantId m)) (m_customerId m) ''membership'' (m_id m)
                  (write_membership (m_id m) (leveled role level) s)))))"

definition setCapabilities :: "actor \<Rightarrow> id \<Rightarrow> string list \<Rightarrow> db \<Rightarrow> unit result \<times> db" where
  "setCapabilities actor userId caps s =
     (if a_userId actor = userId then (Inl (Forbidden ''You cannot change your own permissions''), s)
      else (case managed_user s actor userId of
          Inl e \<Rightarrow> (Inl e, s)
        | Inr m \<Rightarrow>
            if m_roleType m = BUSINESS_OWNER
            then (Inl (BadRequest ''A Business Owner already holds every business permission''), s)
            else (Inr (), audit_people ''USER_CAPABILITIES_UPDATED'' actor (Some (m_tenantId m)) (m_customerId m) ''membership'' (m_id m)
              (write_membership (m_id m) (\<lambda>q. q\<lparr>m_capabilities := sanitizeCapabilities (json_strings (Some caps))\<rparr>) s))))"

definition setBusiness :: "actor \<Rightarrow> id \<Rightarrow> id option \<Rightarrow> db \<Rightarrow> unit result \<times> db" where
  "setBusiness actor userId businessId s = (case assertPlatformAdmin actor of
     Inl e \<Rightarrow> (Inl e, s)
   | Inr _ \<Rightarrow> (case find_row (\<lambda>m. m_userId m = userId) (memberships s) of
       None \<Rightarrow> (Inl (NotFound ''That user has no membership''), s)
     | Some m \<Rightarrow>
         if truthy businessId \<and> business_of s (the businessId) = None then (Inl (NotFound ''Business not found''), s)
         else
           let s1 = (if truthy (m_customerId m) \<and> m_customerId m \<noteq> businessId then drop_grants_in userId (the (m_customerId m)) s else s)
           in (Inr (), audit_people ''USER_UPDATED'' actor (Some (m_tenantId m)) businessId ''membership'' (m_id m)
                 (write_membership (m_id m) (\<lambda>q. q\<lparr>m_customerId := businessId\<rparr>) s1))))"

definition remove_person :: "actor \<Rightarrow> id \<Rightarrow> db \<Rightarrow> unit result \<times> db" where
  "remove_person actor userId s =
     (if a_userId actor = userId then (Inl (Forbidden ''You cannot remove your own account''), s)
      else (case managed_user s actor userId of
          Inl e \<Rightarrow> (Inl e, s)
        | Inr m \<Rightarrow> (Inr (), audit_people ''USER_DELETED'' actor (Some (m_tenantId m)) (m_customerId m) ''membership'' (m_id m)
            (close_account userId (is_platform_admin s userId) (delete_membership (m_id m)
              (s\<lparr>accesses := delete_rows (\<lambda>a. ca_userId a = userId) (accesses s)\<rparr>))))))"

section \<open>Platform admins\<close>

definition is_operator :: "user_row \<Rightarrow> bool" where
  "is_operator u = (u_isPlatformAdmin u \<and> u_status u = U_ACTIVE)"

definition setPlatformAdmin :: "(db \<Rightarrow> db) \<Rightarrow> actor \<Rightarrow> id \<Rightarrow> bool \<Rightarrow> db \<Rightarrow> unit result \<times> db" where
  "setPlatformAdmin f actor userId enabled s = (case assertPlatformAdmin actor of
     Inl e \<Rightarrow> (Inl e, s)
   | Inr _ \<Rightarrow>
       if a_userId actor = userId \<and> \<not> enabled then (Inl (Forbidden ''You cannot revoke your own Platform Admin access''), s)
       else if \<not> enabled \<and> count_rows (\<lambda>u. is_operator u \<and> u_id u \<noteq> userId) (users s) = 0
       then (Inl (BadRequest ''There must be at least one active Platform Admin''), s)
       else if user_by_id s userId = None then (Inl (NotFound ''User not found''), s)
       else (Inr (), audit_log ''USER_UPDATED'' (Some (a_userId actor)) None None (a_ip actor) (Some ''user'') (Some userId) False
         (write_user userId (\<lambda>u. u\<lparr>u_isPlatformAdmin := enabled\<rparr>) (f s))))"

end
