(* ===== verification/UserProofs.thy ===== *)
theory UserProofs
  imports Users
begin

text \<open>
  Properties of people management: the platform keeps an operator, a Business Owner changes nothing outside the own
  business and no other owner, an invited account cannot sign in, and removal and moving leave no grants behind.
\<close>

section \<open>Operations as events\<close>

datatype people_op =
    Create_business id business_input
  | Update_business id business_input
  | Archive_business id
  | Remove_business id
  | Add_user id add_user_ids add_user_input
  | Member_capabilities id id "string list"
  | Member_active id id bool
  | Member_remove id id
  | Member_reset id id string
  | User_profile id user_input
  | User_password id string
  | User_mfa id
  | User_suspend id
  | User_activate id
  | User_level id member_level
  | User_capabilities id "string list"
  | User_business id "id option"
  | User_remove id
  | User_admin id bool

fun people_run :: "crypto \<Rightarrow> time \<Rightarrow> actor \<Rightarrow> people_op \<Rightarrow> db \<Rightarrow> db" where
  "people_run c now a (Create_business i d) s = snd (create_business a i d s)"
| "people_run c now a (Update_business i d) s = snd (update_business a i d s)"
| "people_run c now a (Archive_business i) s = snd (archive_business a i s)"
| "people_run c now a (Remove_business i) s = snd (remove_business a i s)"
| "people_run c now a (Add_user b ids d) s = snd (addUser now a b ids d s)"
| "people_run c now a (Member_capabilities b u cs) s = snd (setUserCapabilities a b u cs s)"
| "people_run c now a (Member_active b u v) s = snd (setUserActive a b u v s)"
| "people_run c now a (Member_remove b u) s = snd (removeUser a b u s)"
| "people_run c now a (Member_reset b u t) s = snd (resetUserAccess now a b u t s)"
| "people_run c now a (User_profile u d) s = snd (update_person a u d s)"
| "people_run c now a (User_password u p) s = snd (resetPassword c now a u p s)"
| "people_run c now a (User_mfa u) s = snd (resetMfa now a u s)"
| "people_run c now a (User_suspend u) s = snd (suspend a u s)"
| "people_run c now a (User_activate u) s = snd (activate a u s)"
| "people_run c now a (User_level u l) s = snd (setLevel a u l s)"
| "people_run c now a (User_capabilities u cs) s = snd (setCapabilities a u cs s)"
| "people_run c now a (User_business u b) s = snd (setBusiness a u b s)"
| "people_run c now a (User_remove u) s = snd (remove_person a u s)"
| "people_run c now a (User_admin u v) s = snd (setPlatformAdmin (\<lambda>d. d) a u v s)"

text \<open>A request reaches an operation only from an active account, whose platform right is read with it.\<close>

definition signed_in :: "db \<Rightarrow> actor \<Rightarrow> bool" where
  "signed_in s a = (case user_by_id s (a_userId a) of None \<Rightarrow> False
     | Some u \<Rightarrow> u_status u = U_ACTIVE \<and> u_isPlatformAdmin u = a_isPlatformAdmin a)"

type_synonym people_event = "time \<times> actor \<times> people_op"

definition people_step :: "crypto \<Rightarrow> db \<Rightarrow> people_event \<Rightarrow> db" where
  "people_step c s e = (case e of (now, a, x) \<Rightarrow> if signed_in s a then people_run c now a x s else s)"

definition has_operator :: "db \<Rightarrow> bool" where
  "has_operator s = list_ex (\<lambda>u. user_by_id s (u_id u) = Some u \<and> is_operator u) (users s)"

text \<open>Resetting one's own access is the one way to lock oneself out.\<close>

definition resets_self :: "actor \<Rightarrow> people_op \<Rightarrow> bool" where
  "resets_self a x = (case x of Member_reset b u t \<Rightarrow> u = a_userId a | _ \<Rightarrow> False)"

lemma has_operator_iff: "has_operator s \<longleftrightarrow> (\<exists>i u. user_by_id s i = Some u \<and> is_operator u)"
  by (auto simp: has_operator_def list_ex_iff user_by_id_def dest: find_row_Some)

section \<open>Writes to users\<close>

text \<open>
  What an operation may do to the users: add one, or write one whom the actor may manage, without taking the actor's own
  standing as an operator.
\<close>

definition user_write :: "actor \<Rightarrow> db \<Rightarrow> db \<Rightarrow> bool" where
  "user_write a s s1 = ((\<exists>new. users s1 = users s @ new)
     \<or> (\<exists>j f. users s1 = update_rows (\<lambda>u. u_id u = j) f (users s) \<and> (\<forall>u. u_id (f u) = u_id u)
         \<and> (a_isPlatformAdmin a \<or> \<not> is_platform_admin s j \<or> j = a_userId a)
         \<and> (j = a_userId a \<longrightarrow> (\<forall>u. is_operator u \<longrightarrow> is_operator (f u)))))"

lemma user_write_refl: "users s1 = users s \<Longrightarrow> user_write a s s1"
  unfolding user_write_def by (intro disjI1 exI[of _ "[]"]) simp

lemma user_write_new: "users s1 = users s @ new \<Longrightarrow> user_write a s s1"
  unfolding user_write_def by blast

lemma user_write_update:
  assumes "users s1 = update_rows (\<lambda>u. u_id u = j) f (users s)" "\<And>u. u_id (f u) = u_id u"
    and "a_isPlatformAdmin a \<or> \<not> is_platform_admin s j \<or> j = a_userId a"
    and "j = a_userId a \<Longrightarrow> (\<And>u. is_operator u \<Longrightarrow> is_operator (f u))"
  shows "user_write a s s1"
  using assms unfolding user_write_def by blast

lemma user_by_id_update:
  assumes "users s1 = update_rows (\<lambda>u. u_id u = j) f (users s)" "\<And>u. u_id (f u) = u_id u" "user_by_id s i = Some u"
  shows "user_by_id s1 i = Some (if i = j then f u else u)"
proof -
  have "u_id u = i" using find_row_Some[OF assms(3)[unfolded user_by_id_def]] by simp
  then show ?thesis
    using find_row_update[of u_id f i "\<lambda>u. u_id u = j" "users s", OF assms(2)] assms(3)
    by (simp add: user_by_id_def assms(1))
qed

lemma user_by_id_append: "users s1 = users s @ new \<Longrightarrow> user_by_id s i = Some u \<Longrightarrow> user_by_id s1 i = Some u"
  by (simp add: user_by_id_def find_row_append)

lemma operator_kept:
  assumes "user_write a s s1" "signed_in s a" "has_operator s"
  shows "has_operator s1"
proof -
  obtain u where u: "user_by_id s (a_userId a) = Some u" "u_status u = U_ACTIVE" "u_isPlatformAdmin u = a_isPlatformAdmin a"
    using assms(2) by (auto simp: signed_in_def split: option.splits)
  obtain i v where v: "user_by_id s i = Some v" "is_operator v" using assms(3) by (auto simp: has_operator_iff)
  from assms(1) consider (new) new where "users s1 = users s @ new"
    | (upd) j f where "users s1 = update_rows (\<lambda>u. u_id u = j) f (users s)" "\<forall>u. u_id (f u) = u_id u"
        "a_isPlatformAdmin a \<or> \<not> is_platform_admin s j \<or> j = a_userId a" "j = a_userId a \<longrightarrow> (\<forall>u. is_operator u \<longrightarrow> is_operator (f u))"
    unfolding user_write_def by blast
  then show ?thesis
  proof cases
    case new
    from user_by_id_append[OF this v(1)] v(2) show ?thesis by (auto simp: has_operator_iff)
  next
    case w: (upd j f)
    note upd = user_by_id_update[OF w(1) w(2)[rule_format]]
    show ?thesis
    proof (cases "a_isPlatformAdmin a")
      case True
      then have "is_operator (if a_userId a = j then f u else u)" using u w(4) by (simp add: is_operator_def)
      with upd[OF u(1)] show ?thesis by (auto simp: has_operator_iff)
    next
      case False
      have "i \<noteq> j"
      proof
        assume "i = j"
        then have "is_platform_admin s j" using v by (simp add: is_platform_admin_def is_operator_def)
        with w(3) False have "i = a_userId a" using \<open>i = j\<close> by simp
        with u v False show False by (simp add: is_operator_def)
      qed
      with upd[OF v(1)] v(2) show ?thesis by (auto simp: has_operator_iff)
    qed
  qed
qed


lemma managed_user_facts:
  assumes "managed_user s a u = Inr m"
  shows "m_userId m = u" "a_isPlatformAdmin a \<or> \<not> is_platform_admin s u"
  using assms
  by (auto simp: managed_user_def assertUserInScope_def assertMayManage_def manage_target_of_def map_sum_def
      split: sum.splits option.splits if_splits dest!: find_row_Some)

lemma managed_member_facts:
  assumes "managed_member s a b u = Inr m"
  shows "m_userId m = u" "m_customerId m = Some b" "a_isPlatformAdmin a \<or> \<not> is_platform_admin s u"
  using assms
  by (auto simp: managed_member_def assertMayManage_def manage_target_of_def
      split: sum.splits option.splits if_splits dest!: find_row_Some)

lemmas people_writes = write_user_def write_membership_def delete_membership_def drop_grants_in_def set_status_def audit_people_def

lemma managed_write:
  assumes "managed_user s a u = Inr m" "users s1 = update_rows (\<lambda>q. u_id q = u) f (users s)" "\<And>q. u_id (f q) = u_id q"
    and "\<And>q. u = a_userId a \<Longrightarrow> is_operator q \<Longrightarrow> is_operator (f q)"
  shows "user_write a s s1"
  using managed_user_facts(2)[OF assms(1)] by (intro user_write_update[OF assms(2,3)] assms(4)) auto

lemma member_write:
  assumes "managed_member s a b u = Inr m" "users s1 = update_rows (\<lambda>q. u_id q = u) f (users s)" "\<And>q. u_id (f q) = u_id q"
    and "u \<noteq> a_userId a"
  shows "user_write a s s1"
  using managed_member_facts(3)[OF assms(1)] assms(4) by (intro user_write_update[OF assms(2,3)]) auto

lemma closing_write:
  assumes "a_isPlatformAdmin a \<or> \<not> is_platform_admin s u" "u \<noteq> a_userId a" "users d = users s"
  shows "user_write a s (audit_people x y t c r i (close_account u v d))"
proof (cases "count_rows (\<lambda>m. m_userId m = u) (memberships d) = 0 \<and> \<not> v")
  case True
  show ?thesis
    by (rule user_write_update[where j = u and f = "\<lambda>q. q\<lparr>u_status := U_DELETED\<rparr>"])
      (use assms True in \<open>simp_all add: close_account_def people_writes del: count_rows_zero\<close>)
next
  case False
  then have "close_account u v d = d" by (simp only: close_account_def if_False)
  then show ?thesis using assms(3) by (intro user_write_refl) (simp add: people_writes)
qed

text \<open>Each operation on an existing account.\<close>

lemma active_write: "user_write a s (snd (setUserActive a b u v s))"
  by (cases "owned_business s a b"; cases "u = a_userId a"; cases "managed_member s a b u"; simp add: setUserActive_def user_write_refl split del: if_split;
      rule member_write[where b = b and u = u and f = "\<lambda>q. q\<lparr>u_status := (if v then U_ACTIVE else U_SUSPENDED)\<rparr>"]; simp add: people_writes)

lemma removal_write: "user_write a s (snd (removeUser a b u s))"
  by (cases "owned_business s a b"; cases "u = a_userId a"; cases "managed_member s a b u"; simp add: removeUser_def user_write_refl;
      rule closing_write; simp add: people_writes managed_member_facts(3))

lemma reset_write: "u \<noteq> a_userId a \<Longrightarrow> user_write a s (snd (resetUserAccess now a b u t s))"
  by (cases "owned_business s a b"; cases "managed_member s a b u"; simp add: resetUserAccess_def Let_def user_write_refl;
      rule member_write[where b = b and u = u and f = "\<lambda>q. q\<lparr>u_passwordHash := [], u_status := U_INVITED, u_sessionsValidAfter := Some (revocationInstant now)\<rparr>"];
      simp add: people_writes)

lemma profile_write: "user_write a s (snd (update_person a u d s))"
proof (cases "is_ok (fst (update_person a u d s))")
  case True
  then have "users (snd (update_person a u d s)) = update_rows (\<lambda>q. u_id q = u) (updated_user d) (users s)"
      "a_userId a = u \<or> (\<exists>m. managed_user s a u = Inr m)"
    by (auto simp: update_person_def people_writes split: sum.splits if_splits)
  with managed_user_facts(2) show ?thesis
    by (intro user_write_update[where f = "updated_user d"]) (auto simp: updated_user_def is_operator_def)
next
  case False
  then have "snd (update_person a u d s) = s" by (auto simp: update_person_def split: sum.splits if_splits)
  then show ?thesis by (simp add: user_write_refl)
qed

lemma password_write: "user_write a s (snd (resetPassword c now a u p s))"
  by (cases "managed_user s a u"; cases "length p < 12"; simp add: resetPassword_def user_write_refl;
      rule managed_write[where u = u and f = "\<lambda>q. q\<lparr>u_passwordHash := cr_hash c p, u_status := U_ACTIVE, u_sessionsValidAfter := Some (revocationInstant now)\<rparr>"];
      simp add: people_writes is_operator_def)

lemma mfa_write: "user_write a s (snd (resetMfa now a u s))"
  by (cases "managed_user s a u"; cases "a_userId a = u"; simp add: resetMfa_def user_write_refl;
      rule managed_write[where u = u and f = "\<lambda>q. q\<lparr>u_sessionsValidAfter := Some (revocationInstant now)\<rparr>"];
      simp add: people_writes is_operator_def)

lemma suspend_write: "user_write a s (snd (suspend a u s))"
  by (cases "managed_user s a u"; cases "a_userId a = u"; simp add: suspend_def user_write_refl;
      rule managed_write[where u = u and f = "\<lambda>q. q\<lparr>u_status := U_SUSPENDED\<rparr>"]; simp add: people_writes)

lemma activate_write: "user_write a s (snd (activate a u s))"
  by (cases "managed_user s a u"; simp add: activate_def user_write_refl;
      rule managed_write[where u = u and f = "\<lambda>q. q\<lparr>u_status := U_ACTIVE\<rparr>"]; simp add: people_writes is_operator_def)

lemma person_removal_write: "user_write a s (snd (remove_person a u s))"
  by (cases "managed_user s a u"; cases "a_userId a = u"; simp add: remove_person_def user_write_refl;
      rule closing_write; simp add: people_writes managed_user_facts(2))

lemma admin_write: "user_write a s (snd (setPlatformAdmin (\<lambda>d. d) a u v s))"
proof (cases "is_ok (fst (setPlatformAdmin (\<lambda>d. d) a u v s))")
  case True
  then have "a_isPlatformAdmin a" "\<not> (a_userId a = u \<and> \<not> v)"
      "users (snd (setPlatformAdmin (\<lambda>d. d) a u v s)) = update_rows (\<lambda>q. u_id q = u) (\<lambda>q. q\<lparr>u_isPlatformAdmin := v\<rparr>) (users s)"
    by (auto simp: setPlatformAdmin_def people_writes assertPlatformAdmin_def split: sum.splits if_splits)
  then show ?thesis
    by (intro user_write_update[where f = "\<lambda>q. q\<lparr>u_isPlatformAdmin := v\<rparr>"]) (auto simp: is_operator_def)
next
  case False
  then have "snd (setPlatformAdmin (\<lambda>d. d) a u v s) = s" by (auto simp: setPlatformAdmin_def split: sum.splits if_splits)
  then show ?thesis by (simp add: user_write_refl)
qed

lemma add_write: "user_write a s (snd (addUser now a b ids d s))"
proof (cases "is_ok (fst (addUser now a b ids d s))")
  case True
  then obtain uid s1 where "added_user s b ids (js_trim (map lower (au_email d))) d = Inr (uid, s1)"
      "users (snd (addUser now a b ids d s)) = users s1"
    by (auto simp: addUser_def Let_def audit_people_def split: sum.splits if_splits option.splits)
  moreover from this(1) have "\<exists>new. users s1 = users s @ new"
    by (auto simp: added_user_def split: option.splits)
  ultimately show ?thesis by (auto intro: user_write_new)
next
  case False
  then have "snd (addUser now a b ids d s) = s" by (auto simp: addUser_def Let_def split: sum.splits if_splits option.splits)
  then show ?thesis by (simp add: user_write_refl)
qed

text \<open>The others leave the users alone.\<close>

lemma users_untouched:
  "users (snd (create_business a i bd s)) = users s" "users (snd (update_business a i bd s)) = users s"
  "users (snd (archive_business a i s)) = users s" "users (snd (remove_business a i s)) = users s"
  "users (snd (setUserCapabilities a b u cs s)) = users s" "users (snd (setLevel a u l s)) = users s"
  "users (snd (setCapabilities a u cs s)) = users s" "users (snd (setBusiness a u bo s)) = users s"
  by (simp_all add: create_business_def update_business_def archive_business_def remove_business_def setUserCapabilities_def setLevel_def
      setCapabilities_def setBusiness_def write_business_def delete_business_def Let_def people_writes split: sum.split option.split)

lemma people_user_write: "\<not> resets_self a x \<Longrightarrow> user_write a s (people_run c now a x s)"
  by (cases x) (simp_all add: resets_self_def active_write removal_write reset_write profile_write password_write mfa_write suspend_write
      activate_write person_removal_write admin_write add_write users_untouched user_write_refl)

interpretation people: machine "\<lambda>s e. if resets_self (fst (snd e)) (snd (snd e)) then s else people_step c s e" has_operator for c
  by unfold_locales (auto simp: people_step_def split: prod.splits intro: operator_kept people_user_write)

section \<open>Writes to memberships\<close>

text \<open>What a caller who is no platform admin must not touch: members of other businesses, and other owners.\<close>

definition off_limits :: "actor \<Rightarrow> membership_row \<Rightarrow> bool" where
  "off_limits a m = (m_customerId m \<noteq> a_businessId a \<or> isOwnerRole (Some (m_roleType m)) \<and> m_userId m \<noteq> a_userId a)"

definition membership_write :: "actor \<Rightarrow> db \<Rightarrow> db \<Rightarrow> bool" where
  "membership_write a s s1 = (memberships s1 = memberships s
     \<or> (\<exists>m. memberships s1 = memberships s @ [m] \<and> \<not> off_limits a m)
     \<or> (\<exists>m \<in> set (memberships s). \<not> off_limits a m
         \<and> (memberships s1 = delete_rows (\<lambda>q. m_id q = m_id m) (memberships s)
           \<or> (\<exists>g. memberships s1 = update_rows (\<lambda>q. m_id q = m_id m) g (memberships s) \<and> \<not> off_limits a (g m)))))"

lemma off_limits_kept:
  assumes "membership_write a s s1" "distinct (map m_id (memberships s))"
  shows "filter (off_limits a) (memberships s1) = filter (off_limits a) (memberships s)"
proof -
  have same: "q = m" if "m \<in> set (memberships s)" "q \<in> set (memberships s)" "m_id q = m_id m" for q m
    by (rule inj_onD[OF conjunct2[OF assms(2)[unfolded distinct_map]] that(3,2,1)])
  from assms(1) consider (none) "memberships s1 = memberships s"
    | (add) m where "memberships s1 = memberships s @ [m]" "\<not> off_limits a m"
    | (del) m where "m \<in> set (memberships s)" "\<not> off_limits a m" "memberships s1 = delete_rows (\<lambda>q. m_id q = m_id m) (memberships s)"
    | (upd) m g where "m \<in> set (memberships s)" "\<not> off_limits a m" "\<not> off_limits a (g m)"
        "memberships s1 = update_rows (\<lambda>q. m_id q = m_id m) g (memberships s)"
    unfolding membership_write_def by blast
  then show ?thesis
  proof cases
    case (del m)
    have "filter (off_limits a) (delete_rows (\<lambda>q. m_id q = m_id m) (memberships s)) = filter (off_limits a) (memberships s)"
      unfolding delete_rows_def filter_filter by (rule filter_cong[OF refl]) (use same[OF del(1)] del(2) in blast)
    with del(3) show ?thesis by simp
  next
    case (upd m g)
    show ?thesis unfolding upd(4)
    proof (rule filter_update_rows)
      fix q assume q: "q \<in> set (memberships s)" "m_id q = m_id m"
      show "\<not> off_limits a q \<and> \<not> off_limits a (g q)" unfolding same[OF upd(1) q] using upd(2,3) by blast
    qed
  qed simp_all
qed

text \<open>The members a Business Owner may manage are not off limits.\<close>

lemma owned_is_own:
  assumes "owned_business s a b = Inr x" "\<not> a_isPlatformAdmin a" "js_trim b = b" "b \<noteq> []"
  shows "a_businessId a = Some b"
  using assms
  by (auto simp: owned_business_def assertBusinessInScope_def resolveScope_def trimmed_def or_null_def truthy_iff Let_def
      split: sum.splits option.splits if_splits)

lemma managed_user_in_reach:
  assumes "managed_user s a u = Inr m" "\<not> a_isPlatformAdmin a" "truthy (a_businessId a)"
  shows "m \<in> set (memberships s)" "\<not> off_limits a m"
proof -
  obtain b where "a_businessId a = Some b" using assms(3) by (auto simp: truthy_iff)
  then have "m \<in> set (memberships s) \<and> \<not> off_limits a m"
    using assms(1,2)
    by (auto simp: managed_user_def assertUserInScope_def assertMayManage_def manage_target_of_def off_limits_def isBusinessOwner_def
        split: sum.splits option.splits if_splits dest!: find_row_Some)
  then show "m \<in> set (memberships s)" "\<not> off_limits a m" by blast+
qed

lemma managed_member_in_reach:
  assumes "managed_member s a b u = Inr m" "\<not> a_isPlatformAdmin a" "a_businessId a = Some b"
  shows "m \<in> set (memberships s)" "\<not> off_limits a m"
proof -
  have "m \<in> set (memberships s) \<and> \<not> off_limits a m"
    using assms
    by (auto simp: managed_member_def assertMayManage_def manage_target_of_def off_limits_def isBusinessOwner_def
        split: sum.splits option.splits if_splits dest!: find_row_Some)
  then show "m \<in> set (memberships s)" "\<not> off_limits a m" by blast+
qed

lemma membership_write_refl: "memberships s1 = memberships s \<Longrightarrow> membership_write a s s1"
  by (simp add: membership_write_def)

lemma membership_write_update:
  "m \<in> set (memberships s) \<Longrightarrow> \<not> off_limits a m \<Longrightarrow> memberships s1 = update_rows (\<lambda>q. m_id q = m_id m) g (memberships s)
    \<Longrightarrow> \<not> off_limits a (g m) \<Longrightarrow> membership_write a s s1"
  unfolding membership_write_def by blast

lemma membership_write_delete:
  "m \<in> set (memberships s) \<Longrightarrow> \<not> off_limits a m \<Longrightarrow> memberships s1 = delete_rows (\<lambda>q. m_id q = m_id m) (memberships s)
    \<Longrightarrow> membership_write a s s1"
  unfolding membership_write_def by blast

lemma membership_write_add:
  "memberships s1 = memberships s @ [m] \<Longrightarrow> \<not> off_limits a m \<Longrightarrow> membership_write a s s1"
  unfolding membership_write_def by blast

lemma memberships_close: "memberships (close_account u v s) = memberships s"
  by (simp add: close_account_def write_user_def)

definition op_business :: "people_op \<Rightarrow> id option" where
  "op_business x = (case x of Add_user b _ _ \<Rightarrow> Some b | Member_capabilities b _ _ \<Rightarrow> Some b | Member_active b _ _ \<Rightarrow> Some b
     | Member_remove b _ \<Rightarrow> Some b | Member_reset b _ _ \<Rightarrow> Some b | _ \<Rightarrow> None)"

text \<open>Ids as the database has them: not empty, no white space around.\<close>

definition is_id :: "id \<Rightarrow> bool" where
  "is_id b = (b \<noteq> [] \<and> js_trim b = b)"

lemma managed_membership_update:
  assumes plain: "\<not> a_isPlatformAdmin a" and home: "truthy (a_businessId a)" and m: "managed_user s a u = Inr m" and "memberships s1 = update_rows (\<lambda>q. m_id q = m_id m) g (memberships s)" "\<not> off_limits a m \<Longrightarrow> \<not> off_limits a (g m)"
  shows "membership_write a s s1"
  using managed_user_in_reach[OF m plain home] assms(4,5) by (auto intro: membership_write_update)

lemma member_membership_update:
  assumes plain: "\<not> a_isPlatformAdmin a" and o: "owned_business s a b = Inr x" and "managed_member s a b u = Inr m" "is_id b"
    "memberships s1 = update_rows (\<lambda>q. m_id q = m_id m) g (memberships s)" "\<not> off_limits a m \<Longrightarrow> \<not> off_limits a (g m)"
  shows "membership_write a s s1"
proof -
  have "a_businessId a = Some b" using owned_is_own[OF o plain] assms(4) by (simp add: is_id_def)
  from managed_member_in_reach[OF assms(3) plain this] assms(5,6) show ?thesis by (auto intro: membership_write_update)
qed

lemma business_ops_memberships:
  assumes plain: "\<not> a_isPlatformAdmin a"
  shows
  "memberships (snd (create_business a i bd s)) = memberships s" "memberships (snd (update_business a i bd s)) = memberships s"
  "memberships (snd (archive_business a i s)) = memberships s" "memberships (snd (remove_business a i s)) = memberships s"
  "memberships (snd (resetUserAccess now a b u t s)) = memberships s" "memberships (snd (update_person a u d s)) = memberships s"
  "memberships (snd (resetPassword c now a u p s)) = memberships s" "memberships (snd (resetMfa now a u s)) = memberships s"
  "memberships (snd (setPlatformAdmin (\<lambda>d. d) a u v s)) = memberships s"
  using plain
  by (simp_all add: create_business_def update_business_def archive_business_def remove_business_def resetUserAccess_def update_person_def
      resetPassword_def resetMfa_def setPlatformAdmin_def assertPlatformAdmin_def write_business_def Let_def people_writes split: sum.split)

lemma member_capabilities_memberships: "\<not> a_isPlatformAdmin a \<Longrightarrow> is_id b \<Longrightarrow> membership_write a s (snd (setUserCapabilities a b u cs s))"
  by (cases "owned_business s a b"; cases "managed_member s a b u"; simp add: setUserCapabilities_def membership_write_refl;
      clarify; rule member_membership_update[where b = b and u = u and g = "\<lambda>q. q\<lparr>m_capabilities := sanitizeCapabilities (json_strings (Some cs))\<rparr>"];
      simp add: people_writes off_limits_def)

lemma member_active_memberships: "\<not> a_isPlatformAdmin a \<Longrightarrow> is_id b \<Longrightarrow> membership_write a s (snd (setUserActive a b u v s))"
  by (cases "owned_business s a b"; cases "u = a_userId a"; cases "managed_member s a b u"; simp add: setUserActive_def membership_write_refl split del: if_split;
      rule member_membership_update[where b = b and u = u and g = "\<lambda>q. q\<lparr>m_isActive := v\<rparr>"];
      simp add: people_writes off_limits_def)

lemma member_remove_memberships:
  assumes plain: "\<not> a_isPlatformAdmin a" and "is_id b"
  shows "membership_write a s (snd (removeUser a b u s))"
proof (cases "is_ok (fst (removeUser a b u s))")
  case True
  then obtain x m where m: "owned_business s a b = Inr x" "managed_member s a b u = Inr m"
      "memberships (snd (removeUser a b u s)) = delete_rows (\<lambda>q. m_id q = m_id m) (memberships s)"
    by (auto simp: removeUser_def audit_people_def memberships_close delete_membership_def drop_grants_in_def split: sum.splits if_splits)
  have "a_businessId a = Some b" using owned_is_own[OF m(1) plain] assms(2) by (simp add: is_id_def)
  from managed_member_in_reach[OF m(2) plain this] m(3) show ?thesis by (rule membership_write_delete)
next
  case False
  then have "snd (removeUser a b u s) = s" by (auto simp: removeUser_def split: sum.splits if_splits)
  then show ?thesis by (simp add: membership_write_refl)
qed

lemma add_memberships:
  assumes plain: "\<not> a_isPlatformAdmin a" and "is_id b"
  shows "membership_write a s (snd (addUser now a b ids d s))"
proof (cases "is_ok (fst (addUser now a b ids d s))")
  case True
  obtain x where x: "assertBusinessInScope s a b = Inr x" using True by (auto simp: addUser_def split: sum.splits)
  have l: "au_level d = level_user" using True plain x by (cases "au_level d") (simp_all add: addUser_def)
  obtain e where e: "assertBusinessOwner a = Inr e" using True plain x l by (auto simp: addUser_def split: sum.splits)
  obtain role where role: "role_of_type s (c_tenantId x) BUSINESS_USER = Some role"
    using True plain x l e by (cases "role_of_type s (c_tenantId x) BUSINESS_USER") (simp_all add: addUser_def level_role_def Let_def)
  obtain uid s1 where added: "added_user s b ids (js_trim (map lower (au_email d))) d = Inr (uid, s1)"
    using True plain x l e role by (cases "added_user s b ids (js_trim (map lower (au_email d))) d")
      (auto simp: addUser_def level_role_def Let_def)
  obtain m where m: "memberships (snd (addUser now a b ids d s)) = memberships s1 @ [m]" "m_customerId m = Some b" "m_roleType m = BUSINESS_USER"
    using plain x l e role added by (simp add: addUser_def level_role_def Let_def audit_people_def)
  have "owned_business s a b = Inr x" using x e plain by (simp add: owned_business_def)
  then have b: "a_businessId a = Some b" using owned_is_own[OF _ plain] assms(2) by (simp add: is_id_def)
  have "memberships s1 = memberships s" using added by (auto simp: added_user_def split: option.splits)
  with m show ?thesis by (intro membership_write_add[of _ _ m]) (auto simp: off_limits_def b isOwnerRole_def LEGACY_OWNER_ROLES_def)
next
  case False
  then have "snd (addUser now a b ids d s) = s" by (auto simp: addUser_def Let_def split: sum.splits if_splits option.splits)
  then show ?thesis by (simp add: membership_write_refl)
qed

lemma suspend_memberships: "\<not> a_isPlatformAdmin a \<Longrightarrow> truthy (a_businessId a) \<Longrightarrow> membership_write a s (snd (suspend a u s))"
  by (cases "managed_user s a u"; cases "a_userId a = u"; simp add: suspend_def membership_write_refl;
      rule managed_membership_update[where u = u and g = "\<lambda>q. q\<lparr>m_isActive := False\<rparr>"]; simp add: people_writes off_limits_def)

lemma activate_memberships: "\<not> a_isPlatformAdmin a \<Longrightarrow> truthy (a_businessId a) \<Longrightarrow> membership_write a s (snd (activate a u s))"
  by (cases "managed_user s a u"; simp add: activate_def membership_write_refl;
      rule managed_membership_update[where u = u and g = "\<lambda>q. q\<lparr>m_isActive := True\<rparr>"]; simp add: people_writes off_limits_def)

lemma level_memberships:
  assumes plain: "\<not> a_isPlatformAdmin a" and home: "truthy (a_businessId a)"
  shows "membership_write a s (snd (setLevel a u l s))"
proof (cases "is_ok (fst (setLevel a u l s))")
  case True
  then obtain m role where m: "managed_user s a u = Inr m" "l = level_user" "role_of_type s (m_tenantId m) BUSINESS_USER = Some role"
      "memberships (snd (setLevel a u l s)) = update_rows (\<lambda>q. m_id q = m_id m) (leveled role l) (memberships s)"
    using plain by (cases l) (auto simp: setLevel_def people_writes level_role_def split: sum.splits if_splits option.splits)
  have "rl_type role = BUSINESS_USER" using m(3) by (auto simp: role_of_type_def dest: find_row_Some)
  then have "\<not> off_limits a m \<Longrightarrow> \<not> off_limits a (leveled role l m)" by (simp add: off_limits_def leveled_def isOwnerRole_def LEGACY_OWNER_ROLES_def)
  with plain home m(1,4) show ?thesis by (rule managed_membership_update)
next
  case False
  then have "snd (setLevel a u l s) = s" by (auto simp: setLevel_def split: sum.splits if_splits option.splits)
  then show ?thesis by (simp add: membership_write_refl)
qed

lemma capabilities_memberships: "\<not> a_isPlatformAdmin a \<Longrightarrow> truthy (a_businessId a) \<Longrightarrow> membership_write a s (snd (setCapabilities a u cs s))"
  by (cases "managed_user s a u"; cases "a_userId a = u"; simp add: setCapabilities_def membership_write_refl;
      clarify; rule managed_membership_update[where u = u and g = "\<lambda>q. q\<lparr>m_capabilities := sanitizeCapabilities (json_strings (Some cs))\<rparr>"];
      simp add: people_writes off_limits_def)

lemma business_move_memberships: "\<not> a_isPlatformAdmin a \<Longrightarrow> membership_write a s (snd (setBusiness a u bo s))"
  by (intro membership_write_refl) (simp add: setBusiness_def assertPlatformAdmin_def)

lemma person_remove_memberships:
  assumes plain: "\<not> a_isPlatformAdmin a" and home: "truthy (a_businessId a)"
  shows "membership_write a s (snd (remove_person a u s))"
proof (cases "is_ok (fst (remove_person a u s))")
  case True
  then obtain m where m: "managed_user s a u = Inr m"
      "memberships (snd (remove_person a u s)) = delete_rows (\<lambda>q. m_id q = m_id m) (memberships s)"
    by (cases "managed_user s a u"; cases "a_userId a = u")
      (simp_all add: remove_person_def audit_people_def memberships_close delete_membership_def)
  from managed_user_in_reach[OF m(1) plain home] m(2) show ?thesis by (rule membership_write_delete)
next
  case False
  then have "snd (remove_person a u s) = s" by (auto simp: remove_person_def split: sum.splits if_splits)
  then show ?thesis by (simp add: membership_write_refl)
qed

lemma people_membership_write:
  assumes "\<not> a_isPlatformAdmin a" "truthy (a_businessId a)" "\<And>b. op_business x = Some b \<Longrightarrow> is_id b"
  shows "membership_write a s (people_run c now a x s)"
  using assms
  by (cases x) (simp_all add: op_business_def business_ops_memberships member_capabilities_memberships member_active_memberships
      member_remove_memberships add_memberships suspend_memberships activate_memberships level_memberships capabilities_memberships
      business_move_memberships person_remove_memberships membership_write_refl)

end
