(* ===== verification/PeopleProperties.thy ===== *)
theory PeopleProperties
  imports UserProofs
begin

text \<open>
  The properties of people management, over the events of \<open>UserProofs\<close>.
\<close>

section \<open>Places\<close>

text \<open>Which businesses a user is a member of.\<close>

definition place :: "membership_row \<Rightarrow> id \<times> id option" where
  "place m = (m_userId m, m_customerId m)"

lemma update_places: "(\<And>q. place (g q) = place q) \<Longrightarrow> map place (update_rows P g t) = map place t"
  by (rule map_update_rows)

lemma places_kept:
  assumes "\<And>b u. x \<noteq> Member_remove b u" "\<And>u. x \<noteq> User_remove u" "\<And>u b. x \<noteq> User_business u b"
  shows "set (map place (memberships s)) \<subseteq> set (map place (memberships (people_run c now a x s)))"
proof (cases x)
  case (Add_user b ids d)
  have "\<exists>new. memberships (snd (addUser now a b ids d s)) = memberships s @ new"
  proof (cases "is_ok (fst (addUser now a b ids d s))")
    case True
    then obtain uid s1 m where "added_user s b ids (js_trim (map lower (au_email d))) d = Inr (uid, s1)"
        "memberships (snd (addUser now a b ids d s)) = memberships s1 @ [m]"
      by (auto simp: addUser_def Let_def audit_people_def split: sum.splits if_splits option.splits)
    moreover from this(1) have "memberships s1 = memberships s" by (auto simp: added_user_def split: option.splits)
    ultimately show ?thesis by auto
  next
    case False
    then have "snd (addUser now a b ids d s) = s" by (auto simp: addUser_def Let_def split: sum.splits if_splits option.splits)
    then show ?thesis by simp
  qed
  then obtain new where "memberships (snd (addUser now a b ids d s)) = memberships s @ new" by blast
  with Add_user show ?thesis by simp
next
  case (Create_business i d)
  then show ?thesis by (simp add: create_business_def Let_def people_writes split: sum.split)
next
  case (Update_business i d)
  then show ?thesis by (simp add: update_business_def write_business_def Let_def people_writes split: sum.split)
next
  case (Archive_business i)
  then show ?thesis by (simp add: archive_business_def write_business_def people_writes split: sum.split)
next
  case (Remove_business i)
  then show ?thesis by (simp add: remove_business_def delete_business_def Let_def people_writes split: sum.split)
next
  case (Member_capabilities b u cs)
  then have "map place (memberships (people_run c now a x s)) = map place (memberships s)"
    by (simp add: setUserCapabilities_def people_writes update_places place_def del: set_map split: sum.split)
  then show ?thesis by (simp only: order_refl)
next
  case (Member_active b u v)
  then have "map place (memberships (people_run c now a x s)) = map place (memberships s)"
    by (simp add: setUserActive_def people_writes update_places place_def del: set_map split: sum.split)
  then show ?thesis by (simp only: order_refl)
next
  case (Member_reset b u t)
  then show ?thesis by (simp add: resetUserAccess_def Let_def people_writes split: sum.split)
next
  case (User_profile u d)
  then show ?thesis by (simp add: update_person_def people_writes split: sum.split)
next
  case (User_password u p)
  then show ?thesis by (simp add: resetPassword_def people_writes split: sum.split)
next
  case (User_mfa u)
  then show ?thesis by (simp add: resetMfa_def people_writes split: sum.split)
next
  case (User_suspend u)
  then have "map place (memberships (people_run c now a x s)) = map place (memberships s)"
    by (simp add: suspend_def people_writes update_places place_def del: set_map split: sum.split)
  then show ?thesis by (simp only: order_refl)
next
  case (User_activate u)
  then have "map place (memberships (people_run c now a x s)) = map place (memberships s)"
    by (simp add: activate_def people_writes update_places place_def del: set_map split: sum.split)
  then show ?thesis by (simp only: order_refl)
next
  case (User_level u l)
  then have "map place (memberships (people_run c now a x s)) = map place (memberships s)"
    by (simp add: setLevel_def people_writes update_places place_def leveled_def del: set_map split: sum.split option.split)
  then show ?thesis by (simp only: order_refl)
next
  case (User_capabilities u cs)
  then have "map place (memberships (people_run c now a x s)) = map place (memberships s)"
    by (simp add: setCapabilities_def people_writes update_places place_def del: set_map split: sum.split)
  then show ?thesis by (simp only: order_refl)
next
  case (User_admin u v)
  then show ?thesis by (simp add: setPlatformAdmin_def people_writes split: sum.split)
qed (use assms in auto)

text \<open>A user's grants on the computers of a business.\<close>

definition has_grants_in :: "db \<Rightarrow> id \<Rightarrow> id \<Rightarrow> bool" where
  "has_grants_in s u b = list_ex (\<lambda>g. ca_userId g = u \<and> endpoint_business s (ca_endpointId g) = Some b) (accesses s)"

lemma business_of_computer: "endpoints s1 = endpoints s \<Longrightarrow> endpoint_business s1 i = endpoint_business s i"
  by (simp add: endpoint_business_def endpoint_by_id_def)

lemma dropped_grants: "\<not> has_grants_in (drop_grants_in u b s) u b"
proof -
  have "endpoint_business (drop_grants_in u b s) i = endpoint_business s i" for i
    by (rule business_of_computer) (simp add: drop_grants_in_def)
  then show ?thesis by (auto simp: has_grants_in_def list_ex_iff) (simp add: drop_grants_in_def)
qed

lemma grants_frame: "accesses s1 = accesses s \<Longrightarrow> endpoints s1 = endpoints s \<Longrightarrow> has_grants_in s1 u b = has_grants_in s u b"
  by (simp add: has_grants_in_def business_of_computer[of s1 s])

lemma close_account_frame: "accesses (close_account u v s) = accesses s" "endpoints (close_account u v s) = endpoints s"
  by (simp_all add: close_account_def write_user_def)

text \<open>With unique ids, writing one membership changes the place of that one only.\<close>

lemma only_place_lost:
  assumes "distinct (map m_id (memberships s))" "m \<in> set (memberships s)" "p \<in> set (map place (memberships s))" "p \<notin> set (map place t)"
    and "\<And>q. q \<in> set (memberships s) \<Longrightarrow> m_id q \<noteq> m_id m \<Longrightarrow> place q \<in> set (map place t)"
  shows "p = place m"
proof -
  obtain q where q: "q \<in> set (memberships s)" "p = place q" using assms(3) by auto
  have "m_id q = m_id m" using assms(4,5) q by blast
  then have "q = m" using inj_onD[OF conjunct2[OF assms(1)[unfolded distinct_map]]] q(1) assms(2) by blast
  with q show ?thesis by simp
qed

lemma delete_keeps_others: "q \<in> set (memberships s) \<Longrightarrow> m_id q \<noteq> i \<Longrightarrow> place q \<in> set (map place (delete_rows (\<lambda>r. m_id r = i) (memberships s)))"
  by auto

lemma update_keeps_others: "q \<in> set (memberships s) \<Longrightarrow> m_id q \<noteq> i \<Longrightarrow> place q \<in> set (map place (update_rows (\<lambda>r. m_id r = i) g (memberships s)))"
  by (force simp: set_update_rows)

lemma removal_drops:
  assumes "(u, Some b) \<in> set (map place (memberships s))" "(u, Some b) \<notin> set (map place (memberships (snd (removeUser a b' u' s))))"
    and "distinct (map m_id (memberships s))"
  shows "\<not> has_grants_in (snd (removeUser a b' u' s)) u b"
proof (cases "is_ok (fst (removeUser a b' u' s))")
  case True
  then obtain m where m: "managed_member s a b' u' = Inr m"
    and r: "memberships (snd (removeUser a b' u' s)) = delete_rows (\<lambda>q. m_id q = m_id m) (memberships s)"
      "accesses (snd (removeUser a b' u' s)) = accesses (drop_grants_in u' b' s)" "endpoints (snd (removeUser a b' u' s)) = endpoints (drop_grants_in u' b' s)"
    by (auto simp: removeUser_def audit_people_def memberships_close close_account_frame delete_membership_def drop_grants_in_def split: sum.splits if_splits)
  have "m \<in> set (memberships s)" using m
    by (auto simp: managed_member_def assertMayManage_def split: option.splits if_splits dest: find_row_Some)
  from only_place_lost[OF assms(3) this assms(1) assms(2)] delete_keeps_others[of _ s "m_id m"]
  have "(u, Some b) = place m" unfolding r(1) by blast
  then have "u = u'" "b = b'" using managed_member_facts[OF m] by (simp_all add: place_def)
  then show ?thesis using dropped_grants grants_frame[OF r(2,3)] by simp
next
  case False
  then have "snd (removeUser a b' u' s) = s" by (auto simp: removeUser_def split: sum.splits if_splits)
  with assms(1,2) show ?thesis by simp
qed

lemma person_removal_drops:
  assumes "(u, Some b) \<in> set (map place (memberships s))" "(u, Some b) \<notin> set (map place (memberships (snd (remove_person a u' s))))"
    and "distinct (map m_id (memberships s))"
  shows "\<not> has_grants_in (snd (remove_person a u' s)) u b"
proof (cases "is_ok (fst (remove_person a u' s))")
  case True
  then obtain m where m: "managed_user s a u' = Inr m"
    and r: "memberships (snd (remove_person a u' s)) = delete_rows (\<lambda>q. m_id q = m_id m) (memberships s)"
      "accesses (snd (remove_person a u' s)) = delete_rows (\<lambda>g. ca_userId g = u') (accesses s)"
    by (cases "managed_user s a u'"; cases "a_userId a = u'")
      (simp_all add: remove_person_def audit_people_def memberships_close close_account_frame delete_membership_def)
  have "m \<in> set (memberships s)" using m
    by (auto simp: managed_user_def assertUserInScope_def assertMayManage_def split: sum.splits option.splits if_splits dest: find_row_Some)
  from only_place_lost[OF assms(3) this assms(1) assms(2)] delete_keeps_others[of _ s "m_id m"]
  have "(u, Some b) = place m" unfolding r(1) by blast
  then have "u = u'" using managed_user_facts(1)[OF m] by (simp add: place_def)
  then show ?thesis by (auto simp: has_grants_in_def r(2) list_ex_iff)
next
  case False
  then have "snd (remove_person a u' s) = s" by (auto simp: remove_person_def split: sum.splits if_splits)
  with assms(1,2) show ?thesis by simp
qed

lemma move_drops:
  assumes "(u, Some b) \<in> set (map place (memberships s))" "(u, Some b) \<notin> set (map place (memberships (snd (setBusiness a u' bo s))))"
    and "distinct (map m_id (memberships s))" "b \<noteq> []"
  shows "\<not> has_grants_in (snd (setBusiness a u' bo s)) u b"
proof (cases "is_ok (fst (setBusiness a u' bo s))")
  case True
  let ?g = "\<lambda>q. q\<lparr>m_customerId := bo\<rparr>"
  obtain m where m: "find_row (\<lambda>m. m_userId m = u') (memberships s) = Some m"
    using True by (auto simp: setBusiness_def split: sum.splits option.splits)
  let ?s1 = "if truthy (m_customerId m) \<and> m_customerId m \<noteq> bo then drop_grants_in u' (the (m_customerId m)) s else s"
  have r: "memberships (snd (setBusiness a u' bo s)) = update_rows (\<lambda>q. m_id q = m_id m) ?g (memberships s)"
      "accesses (snd (setBusiness a u' bo s)) = accesses ?s1" "endpoints (snd (setBusiness a u' bo s)) = endpoints ?s1"
    using True m by (auto simp: setBusiness_def Let_def people_writes split: sum.splits if_splits)
  have mem: "m \<in> set (memberships s)" "m_userId m = u'" using find_row_Some[OF m] by auto
  from only_place_lost[OF assms(3) mem(1) assms(1) assms(2)] update_keeps_others[of _ s "m_id m" ?g]
  have p: "(u, Some b) = place m" unfolding r(1) by blast
  have "?g m \<in> set (update_rows (\<lambda>q. m_id q = m_id m) ?g (memberships s))" by (rule updated_in[OF mem(1)]) simp
  then have "place (?g m) \<in> set (map place (memberships (snd (setBusiness a u' bo s))))" unfolding r(1) by simp
  then have "bo \<noteq> Some b" using assms(2) p by (auto simp: place_def)
  moreover have "m_customerId m = Some b" "u = u'" using p mem(2) by (simp_all add: place_def)
  ultimately have "?s1 = drop_grants_in u b s" using assms(4) by (simp add: truthy_iff)
  then show ?thesis using dropped_grants[of u b s] grants_frame[OF r(2,3)] by simp
next
  case False
  then have "snd (setBusiness a u' bo s) = s" by (auto simp: setBusiness_def Let_def split: sum.splits if_splits option.splits)
  with assms(1,2) show ?thesis by simp
qed

section \<open>Samples\<close>

definition one_membership :: "id \<Rightarrow> id \<Rightarrow> role_type \<Rightarrow> membership_row" where
  "one_membership i u ty = \<lparr>m_id = i, m_userId = u, m_tenantId = ''t1'', m_roleId = ''r1'', m_roleType = ty, m_isActive = True,
     m_customerId = Some ''b1'', m_capabilities = []\<rparr>"

definition one_grant :: access_row where
  "one_grant = \<lparr>ca_id = ''g1'', ca_tenantId = ''t1'', ca_endpointId = ''e1'', ca_userId = ''u2'', ca_grantedBy = None,
     ca_startsAt = None, ca_expiresAt = None, ca_schedule = JNull, ca_expiryAuditedAt = None\<rparr>"

text \<open>An operator, a Business Owner and a member who holds a grant.\<close>

definition people_db :: db where
  "people_db = empty_db\<lparr>users := [(plain_user ''a1'')\<lparr>u_isPlatformAdmin := True\<rparr>, plain_user ''u1'', plain_user ''u2''],
     memberships := [one_membership ''m1'' ''u1'' BUSINESS_OWNER, one_membership ''m2'' ''u2'' BUSINESS_USER],
     roles := [\<lparr>rl_id = ''r1'', rl_tenantId = ''t1'', rl_type = BUSINESS_USER\<rparr>],
     businesses := [one_business ''b1''], endpoints := [shared_pc], accesses := [one_grant]\<rparr>"

definition owner_of_b1 :: actor where
  "owner_of_b1 = plain_actor ''u1'' (Some ''b1'') (Some BUSINESS_OWNER) []"

definition operator_row :: "id \<Rightarrow> actor" where
  "operator_row i = (plain_actor i None None [])\<lparr>a_isPlatformAdmin := True\<rparr>"

lemma sample_actor_simps:
  "a_userId owner_of_b1 = ''u1''" "a_businessId owner_of_b1 = Some ''b1''" "\<not> a_isPlatformAdmin owner_of_b1"
  "a_roleType owner_of_b1 = Some BUSINESS_OWNER" "a_ip owner_of_b1 = None"
  "a_userId (operator_row i) = i" "a_isPlatformAdmin (operator_row i)"
  by (simp_all add: owner_of_b1_def operator_row_def plain_actor_def)

lemma people_db_simps:
  "memberships people_db = [one_membership ''m1'' ''u1'' BUSINESS_OWNER, one_membership ''m2'' ''u2'' BUSINESS_USER]"
  "users people_db = [(plain_user ''a1'')\<lparr>u_isPlatformAdmin := True\<rparr>, plain_user ''u1'', plain_user ''u2'']"
  "accesses people_db = [one_grant]" "endpoints people_db = [shared_pc]" "businesses people_db = [one_business ''b1'']"
  "roles people_db = [\<lparr>rl_id = ''r1'', rl_tenantId = ''t1'', rl_type = BUSINESS_USER\<rparr>]"
  by (simp_all add: people_db_def empty_db_def)

lemma owner_in_b1: "assertBusinessInScope people_db owner_of_b1 ''b1'' = Inr (one_business ''b1'')"
proof -
  have "js_trim ''b1'' = ''b1''" by code_simp
  then show ?thesis
    by (simp add: assertBusinessInScope_def resolveScope_def trimmed_def or_null_def sample_actor_simps Let_def people_db_simps one_business_def)
qed

lemma owner_scope: "owned_business people_db owner_of_b1 ''b1'' = Inr (one_business ''b1'')"
  by (simp add: owned_business_def owner_in_b1 sample_actor_simps assertBusinessOwner_def isBusinessOwner_def isOwnerRole_def)

lemma owner_manages_u2: "managed_member people_db owner_of_b1 ''b1'' ''u2'' = Inr (one_membership ''m2'' ''u2'' BUSINESS_USER)"
  by (simp add: managed_member_def people_db_simps one_membership_def assertMayManage_def manage_target_of_def is_platform_admin_def user_by_id_def
      plain_user_def sample_actor_simps isBusinessOwner_def isOwnerRole_def LEGACY_OWNER_ROLES_def)

section \<open>Properties\<close>

text \<open>
  Someone who loses a place in a business, by removal or by moving, keeps no grant on its computers, whatever operation
  it was.
\<close>

theorem leaving_drops_grants:
  assumes "(u, Some b) \<in> set (map place (memberships s))" "(u, Some b) \<notin> set (map place (memberships (people_run c now a x s)))"
    and "distinct (map m_id (memberships s))" "b \<noteq> []"
  shows "\<not> has_grants_in (people_run c now a x s) u b"
proof (cases "(\<exists>b u. x = Member_remove b u) \<or> (\<exists>u. x = User_remove u) \<or> (\<exists>u b. x = User_business u b)")
  case True
  with assms show ?thesis by (elim disjE exE) (simp_all only: people_run.simps removal_drops person_removal_drops move_drops not_False_eq_True)
next
  case False
  then have "set (map place (memberships s)) \<subseteq> set (map place (memberships (people_run c now a x s)))" by (intro places_kept) blast+
  with assms(1,2) show ?thesis by blast
qed

theorem leaving_drops_grants_witness:
  "\<not> has_grants_in (people_run sample_crypto 0 owner_of_b1 (Member_remove ''b1'' ''u2'') people_db) ''u2'' ''b1''"
proof (rule leaving_drops_grants)
  show "(''u2'', Some ''b1'') \<in> set (map place (memberships people_db))" by (simp add: people_db_simps place_def one_membership_def)
  show "(''u2'', Some ''b1'') \<notin> set (map place (memberships (people_run sample_crypto 0 owner_of_b1 (Member_remove ''b1'' ''u2'') people_db)))"
    by (simp add: removeUser_def owner_scope owner_manages_u2 sample_actor_simps audit_people_def memberships_close delete_membership_def
        drop_grants_in_def people_db_simps)
      (simp add: place_def one_membership_def)
  show "distinct (map m_id (memberships people_db))" by (simp add: people_db_simps one_membership_def)
qed simp

text \<open>
  C9: Whatever platform admins, Business Owners and others do to businesses and people, in any order, the platform keeps an
  active operator, unless somebody resets the own access.
\<close>

theorem platform_keeps_operator:
  assumes "has_operator s" and "list_all (\<lambda>e. \<not> resets_self (fst (snd e)) (snd (snd e))) es"
  shows "has_operator (foldl (people_step c) s es)"
proof -
  have "foldl (people_step c) s es = foldl (\<lambda>s e. if resets_self (fst (snd e)) (snd (snd e)) then s else people_step c s e) s es"
    using assms(2) by (induction es arbitrary: s) simp_all
  then show ?thesis using people.inv_run[OF assms(1)] by simp
qed

theorem platform_keeps_operator_witness:
  "has_operator (foldl (people_step sample_crypto) people_db
     [(0, operator_row ''a1'', User_admin ''u1'' True), (1, owner_of_b1, User_suspend ''a1'')])"
  by (rule platform_keeps_operator)
    (simp_all add: resets_self_def has_operator_def user_by_id_def people_db_simps is_operator_def plain_user_def)

text \<open>
  A Business Owner changes no membership of another business and none of another owner, makes nobody an owner, and
  nor does anyone else who is no platform admin.
\<close>

theorem owners_confined:
  assumes "\<not> a_isPlatformAdmin a" "truthy (a_businessId a)" "distinct (map m_id (memberships s))"
    and "\<And>b. op_business x = Some b \<Longrightarrow> is_id b"
  shows "filter (off_limits a) (memberships (people_run c now a x s)) = filter (off_limits a) (memberships s)"
  by (rule off_limits_kept[OF people_membership_write[OF assms(1,2,4)] assms(3)])

theorem owners_confined_witness:
  "filter (off_limits owner_of_b1) (memberships (people_run sample_crypto 0 owner_of_b1 (User_level ''u2'' level_owner) people_db)) = []"
proof -
  have "filter (off_limits owner_of_b1) (memberships (people_run sample_crypto 0 owner_of_b1 (User_level ''u2'' level_owner) people_db))
      = filter (off_limits owner_of_b1) (memberships people_db)"
    by (rule owners_confined) (simp_all add: sample_actor_simps people_db_simps one_membership_def op_business_def)
  also have "\<dots> = []"
    by (simp add: people_db_simps one_membership_def off_limits_def sample_actor_simps isOwnerRole_def LEGACY_OWNER_ROLES_def)
  finally show ?thesis .
qed

text \<open>
  C40: Two platform admins who are the only two active platform admins and who revoke each other at the same time both
  succeed: the check for a remaining one is not part of the write, and the platform is left without an operator.
\<close>

theorem mutual_demotion_leaves_no_operator:
  assumes "a_isPlatformAdmin a" "a_isPlatformAdmin b" "a_userId a \<noteq> a_userId b"
    and "user_by_id s (a_userId a) = Some u" "is_operator u" "user_by_id s (a_userId b) = Some v" "is_operator v"
    and "list_all (\<lambda>q. is_operator q \<longrightarrow> u_id q = a_userId a \<or> u_id q = a_userId b) (users s)"
  shows "\<not> has_operator (snd (setPlatformAdmin (\<lambda>d. snd (setPlatformAdmin (\<lambda>d. d) b (a_userId a) False d)) a (a_userId b) False s))"
proof -
  have row: "u \<in> set (users s)" "u_id u = a_userId a" "v \<in> set (users s)" "u_id v = a_userId b"
    using find_row_Some assms(4,6) by (fastforce simp: user_by_id_def)+
  have n: "count_rows (\<lambda>q. is_operator q \<and> u_id q \<noteq> a_userId b) (users s) \<noteq> 0"
      "count_rows (\<lambda>q. is_operator q \<and> u_id q \<noteq> a_userId a) (users s) \<noteq> 0"
    using row assms(3,5,7) by auto
  let ?off = "\<lambda>i. update_rows (\<lambda>q. u_id q = i) (\<lambda>q. q\<lparr>u_isPlatformAdmin := False\<rparr>)"
  have "users (snd (setPlatformAdmin (\<lambda>d. snd (setPlatformAdmin (\<lambda>d. d) b (a_userId a) False d)) a (a_userId b) False s))
      = ?off (a_userId b) (?off (a_userId a) (users s))"
    using assms(1-4,6)
    by (simp add: n setPlatformAdmin_def assertPlatformAdmin_def write_user_def del: count_rows_zero)
  then show ?thesis using assms(8)
    by (auto simp: has_operator_def list_ex_iff list_all_iff set_update_rows is_operator_def split: if_splits)
qed

definition two_operators :: db where
  "two_operators = empty_db\<lparr>users := [(plain_user ''a1'')\<lparr>u_isPlatformAdmin := True\<rparr>, (plain_user ''a2'')\<lparr>u_isPlatformAdmin := True\<rparr>]\<rparr>"

theorem mutual_demotion_leaves_no_operator_witness:
  "\<not> has_operator (snd (setPlatformAdmin (\<lambda>d. snd (setPlatformAdmin (\<lambda>d. d) (operator_row ''a2'') ''a1'' False d)) (operator_row ''a1'') ''a2'' False two_operators))"
  using mutual_demotion_leaves_no_operator[of "operator_row ''a1''" "operator_row ''a2''" two_operators]
  by (simp add: sample_actor_simps two_operators_def user_by_id_def plain_user_def is_operator_def)

text \<open>
  An invitation lets nobody in: an account made for an invited person is refused at sign-in, by password or by a
  verified identity, whatever the password.
\<close>

theorem invited_person_is_refused:
  assumes "addUser now a b ids d s = (Inr m, s1)" "find_row (\<lambda>u. u_email u = js_trim (map lower (au_email d))) (users s) = None"
    and "map lower email = js_trim (map lower (au_email d))" "as_db st = s1"
  shows "\<not> is_ok (fst (login f c cfg later email password ip st))"
proof -
  obtain uid s0 where "added_user s b ids (js_trim (map lower (au_email d))) d = Inr (uid, s0)" "users s1 = users s0"
    using assms(1) by (auto simp: addUser_def Let_def audit_people_def split: sum.splits if_splits option.splits)
  then obtain u where "users s1 = users s @ [u]" "u_email u = map lower email" "u_status u = U_INVITED"
    using assms(2,3) by (auto simp: added_user_def)
  then have "user_by_email s1 email = Some u"
    using assms(2,3) by (simp add: user_by_email_def find_row_append)
  with \<open>u_status u = U_INVITED\<close> assms(4) show ?thesis by (simp add: login_def login_gate_def)
qed

definition new_person :: add_user_input where
  "new_person = \<lparr>au_email = ''n@x'', au_firstName = None, au_lastName = None, au_level = level_user, au_capabilities = None\<rparr>"

lemma new_email: "js_trim ''n@x'' = ''n@x''" "map lower ''n@x'' = ''n@x''"
  by code_simp+

theorem invited_person_is_refused_witness:
  "\<not> is_ok (fst (login (\<lambda>x. x) sample_crypto None 5 ''n@x'' ''secret'' ''ip''
     (mfa_state\<lparr>as_db := snd (addUser 0 owner_of_b1 ''b1'' \<lparr>ai_user = ''u3'', ai_membership = ''m3'', ai_token = ''k'', ai_passwordHash = ''h''\<rparr> new_person people_db)\<rparr>)))"
proof -
  let ?r = "addUser 0 owner_of_b1 ''b1'' \<lparr>ai_user = ''u3'', ai_membership = ''m3'', ai_token = ''k'', ai_passwordHash = ''h''\<rparr> new_person people_db"
  have free: "find_row (\<lambda>u. u_email u = js_trim (map lower (au_email new_person))) (users people_db) = None"
    by (simp add: new_person_def new_email people_db_simps plain_user_def del: list.map)
  have "is_ok (fst ?r)"
    using free
    by (simp add: addUser_def owner_in_b1 sample_actor_simps assertBusinessOwner_def isBusinessOwner_def isOwnerRole_def Let_def new_person_def level_role_def
        role_of_type_def one_business_def added_user_def people_db_simps(6) del: list.map)
  then obtain m where r: "?r = (Inr m, snd ?r)" by (metis is_ok_iff prod.collapse)
  show ?thesis
    by (rule invited_person_is_refused[OF r free]) (simp_all add: new_person_def new_email del: list.map)
qed

text \<open>
  A Business Owner sets a new password for the own account without the current one.
\<close>

theorem own_password_without_proof:
  assumes "isOwnerRole (a_roleType a)" "\<not> is_platform_admin s (a_userId a)"
    and "assertUserInScope s a (a_userId a) = Inr m" "12 \<le> length password" "user_by_id s (a_userId a) = Some u"
  shows "is_ok (fst (resetPassword c now a (a_userId a) password s))
    \<and> map_option u_passwordHash (user_by_id (snd (resetPassword c now a (a_userId a) password s)) (a_userId a)) = Some (cr_hash c password)"
proof -
  let ?f = "\<lambda>u. u\<lparr>u_passwordHash := cr_hash c password, u_status := U_ACTIVE, u_sessionsValidAfter := Some (revocationInstant now)\<rparr>"
  have uid: "m_userId m = a_userId a" using assms(3) by (auto simp: assertUserInScope_def split: option.splits dest: find_row_Some)
  have m: "managed_user s a (a_userId a) = Inr m"
    using assms(1-3) uid by (simp add: managed_user_def assertMayManage_def manage_target_of_def isBusinessOwner_def)
  then have r: "fst (resetPassword c now a (a_userId a) password s) = Inr ()"
      "users (snd (resetPassword c now a (a_userId a) password s)) = update_rows (\<lambda>u. u_id u = a_userId a) ?f (users s)"
    using assms(4) by (simp_all add: resetPassword_def people_writes)
  have "user_by_id (snd (resetPassword c now a (a_userId a) password s)) (a_userId a) = Some (if a_userId a = a_userId a then ?f u else u)"
    by (rule user_by_id_update[OF r(2) _ assms(5)]) simp
  then show ?thesis by (simp add: r(1))
qed

theorem own_password_without_proof_witness:
  "is_ok (fst (resetPassword sample_crypto 0 owner_of_b1 ''u1'' ''a new password'' people_db))"
proof -
  have "is_ok (fst (resetPassword sample_crypto 0 owner_of_b1 (a_userId owner_of_b1) ''a new password'' people_db))"
    by (rule conjunct1[OF own_password_without_proof])
      (simp_all add: sample_actor_simps isOwnerRole_def is_platform_admin_def user_by_id_def people_db_simps plain_user_def
        assertUserInScope_def one_membership_def)
  then show ?thesis by (simp only: sample_actor_simps)
qed

end
