(* ===== verification/Sso.thy ===== *)
theory Sso
  imports Auth
begin

text \<open>
  Sign-in through OpenID Connect (\<open>sso/sso.service.ts\<close>): providers and group mappings, the round trip, and the
  identities of a user. What is not in the repository is the parameter \<open>sso_env\<close>: the URL parser, SHA-256, encryption of
  the client secret, discovery (does it succeed?), and the code exchange of \<open>openid-client\<close>, which answers \<open>None\<close> when it
  throws, and else the verified ID token, if there is one. The cache of discovery results is left out.
\<close>

record url =
  ur_protocol :: string
  ur_hostname :: string
  ur_username :: string
  ur_password :: string
  ur_hash :: string

record id_token =
  it_sub :: string
  it_iss :: string
  it_claims :: "string \<Rightarrow> json"

type_synonym query = "string \<rightharpoonup> string"

record sso_env =
  se_url :: "string \<Rightarrow> url option"
  se_insecure :: bool
  se_sha :: "string \<Rightarrow> string"
  se_enc :: "string \<Rightarrow> string"
  se_challenge :: "string \<Rightarrow> string"
  se_discovery :: "provider_row \<Rightarrow> bool"
  se_exchange :: "provider_row \<Rightarrow> query \<Rightarrow> string \<Rightarrow> string \<Rightarrow> string \<Rightarrow> id_token option option"

definition STATE_TTL_MS :: int where "STATE_TTL_MS = 10 * minute_ms"

text \<open>\<open>SsoError\<close>, with its mark for a linking round trip, or any other error.\<close>

datatype sso_failure = Sso string bool | Sso_other http_error

section \<open>Checks on input\<close>

definition isLoopback :: "url \<Rightarrow> bool" where
  "isLoopback u = (ur_hostname u \<in> {''127.0.0.1'', ''localhost'', ''[::1]''})"

definition insecureAllowed :: "sso_env \<Rightarrow> url \<Rightarrow> bool" where
  "insecureAllowed env u = (se_insecure env \<and> isLoopback u)"

definition checkUrl :: "sso_env \<Rightarrow> string \<Rightarrow> string \<Rightarrow> url result" where
  "checkUrl env label v = (case se_url env v of
     None \<Rightarrow> Inl (BadRequest (label @ '' is not a URL''))
   | Some u \<Rightarrow>
       if ur_protocol u \<noteq> ''https:'' \<and> \<not> (ur_protocol u = ''http:'' \<and> insecureAllowed env u)
       then Inl (BadRequest (label @ '' must use https://''))
       else if ur_username u \<noteq> [] \<or> ur_password u \<noteq> [] \<or> ur_hash u \<noteq> []
       then Inl (BadRequest (label @ '' must not contain credentials or a fragment''))
       else Inr u)"

definition sso_admin :: "actor \<Rightarrow> unit result" where
  "sso_admin actor = (if \<not> a_isPlatformAdmin actor \<or> a_technician actor \<noteq> None
     then Inl (Forbidden ''Only a Platform Admin can configure sign-in providers'') else Inr ())"

text \<open>\<open>/^[\x21-\x7e]{1,64}$/\<close>\<close>

definition scope_word :: "string \<Rightarrow> bool" where
  "scope_word x = (x \<noteq> [] \<and> length x \<le> 64 \<and> list_all (\<lambda>c. 33 \<le> (of_char c :: nat) \<and> (of_char c :: nat) \<le> 126) x)"

fun join_words :: "string list \<Rightarrow> string" where
  "join_words [] = []"
| "join_words [x] = x"
| "join_words (x # xs) = x @ CHR '' '' # join_words xs"

definition scope_list :: "string \<Rightarrow> string list" where
  "scope_list v = (let ws = take 20 (filter scope_word (split_on CHR '' '' (map (\<lambda>c. if js_space c then CHR '' '' else c) v)))
     in js_set (if ''openid'' \<in> set ws then ws else ''openid'' # ws))"

definition oidc_scopes :: "string option \<Rightarrow> string" where
  "oidc_scopes v = join_words (scope_list (case v of None \<Rightarrow> ''openid email profile'' | Some x \<Rightarrow> x))"

text \<open>A same-origin path to land on (\<open>auth/cookies.ts\<close>); a path that is no string is \<open>None\<close>.\<close>

definition safeReturnTo :: "string option \<Rightarrow> string" where
  "safeReturnTo v = (case v of
     None \<Rightarrow> ''/dashboard''
   | Some s \<Rightarrow>
       if length s > 300 then ''/dashboard''
       else if \<not> starts_with ''/'' s \<or> starts_with ''//'' s \<or> starts_with [CHR ''/'', CHR 0x5C] s \<or> CHR 0x0D \<in> set s \<or> CHR 0x0A \<in> set s
       then ''/dashboard''
       else s)"

section \<open>Providers and mappings\<close>

record provider_input =
  pr_name :: "string option"
  pr_issuer :: "string option"
  pr_clientId :: "string option"
  pr_clientSecret :: "string option option"
  pr_redirectUri :: "string option"
  pr_scopes :: "string option"
  pr_enabled :: "bool option"
  pr_allowProvisioning :: "bool option"
  pr_groupsClaim :: "string option option"

record provider_view =
  pv_id :: id
  pv_name :: string
  pv_issuer :: string
  pv_clientId :: string
  pv_hasClientSecret :: bool
  pv_redirectUri :: string
  pv_scopes :: string
  pv_enabled :: bool
  pv_allowProvisioning :: bool
  pv_groupsClaim :: "string option"
  pv_groupMappings :: "mapping_row list"
  pv_linkedAccounts :: nat

definition view_provider :: "db \<Rightarrow> provider_row \<Rightarrow> provider_view" where
  "view_provider s p = \<lparr>pv_id = op_id p, pv_name = op_name p, pv_issuer = op_issuer p, pv_clientId = op_clientId p,
     pv_hasClientSecret = truthy (op_clientSecretEnc p), pv_redirectUri = op_redirectUri p, pv_scopes = op_scopes p,
     pv_enabled = op_enabled p, pv_allowProvisioning = op_allowProvisioning p, pv_groupsClaim = op_groupsClaim p,
     pv_groupMappings = filter (\<lambda>g. gp_providerId g = op_id p) (groupMappings s),
     pv_linkedAccounts = count_rows (\<lambda>x. xi_providerId x = op_id p) (identities s)\<rparr>"

definition provider_by_id :: "db \<Rightarrow> id \<Rightarrow> provider_row option" where
  "provider_by_id s i = find_row (\<lambda>p. op_id p = i) (oidcProviders s)"

definition provider_audit :: "actor \<Rightarrow> id \<Rightarrow> db \<Rightarrow> db" where
  "provider_audit actor i = audit_log ''SSO_PROVIDER_CHANGED'' (Some (a_userId actor)) None None (a_ip actor) (Some ''oidc_provider'') (Some i) False"

definition listProviders :: "(string \<Rightarrow> 'k::linorder) \<Rightarrow> db \<Rightarrow> actor \<Rightarrow> provider_view list result" where
  "listProviders key s actor = map_sum id (\<lambda>_. map (view_provider s) (sort_key (\<lambda>p. key (op_name p)) (oidcProviders s))) (sso_admin actor)"

definition new_provider :: "sso_env \<Rightarrow> id \<Rightarrow> provider_input \<Rightarrow> provider_row" where
  "new_provider env i dto = \<lparr>op_id = i, op_name = take 80 (js_trim (the (pr_name dto))), op_issuer = the (pr_issuer dto),
     op_clientId = the (pr_clientId dto),
     op_clientSecretEnc = (case pr_clientSecret dto of Some sec \<Rightarrow> map_option (se_enc env) (or_null sec) | None \<Rightarrow> None),
     op_redirectUri = the (pr_redirectUri dto), op_scopes = oidc_scopes (pr_scopes dto), op_enabled = False,
     op_allowProvisioning = (pr_allowProvisioning dto = Some True),
     op_groupsClaim = or_null (map_option js_trim (Option.bind (pr_groupsClaim dto) id))\<rparr>"

definition createProvider :: "sso_env \<Rightarrow> id \<Rightarrow> actor \<Rightarrow> provider_input \<Rightarrow> db \<Rightarrow> provider_view result \<times> db" where
  "createProvider env i actor dto s = (case sso_admin actor of
     Inl e \<Rightarrow> (Inl e, s)
   | Inr _ \<Rightarrow>
       if \<not> truthy (map_option js_trim (pr_name dto)) \<or> \<not> truthy (pr_issuer dto) \<or> \<not> truthy (pr_clientId dto) \<or> \<not> truthy (pr_redirectUri dto)
       then (Inl (BadRequest ''name, issuer, clientId and redirectUri are required''), s)
       else (case checkUrl env ''Issuer'' (the (pr_issuer dto)) of
           Inl e \<Rightarrow> (Inl e, s)
         | Inr _ \<Rightarrow> (case checkUrl env ''Redirect URI'' (the (pr_redirectUri dto)) of
             Inl e \<Rightarrow> (Inl e, s)
           | Inr _ \<Rightarrow>
               if find_row (\<lambda>p. Some (op_issuer p) = pr_issuer dto) (oidcProviders s) \<noteq> None
               then (Inl (Conflict ''A provider with this issuer already exists''), s)
               else let p = new_provider env i dto; s1 = s\<lparr>oidcProviders := oidcProviders s @ [p]\<rparr>
                    in (Inr (view_provider s1 p), provider_audit actor i s1))))"

text \<open>A given field replaces the column, an absent one keeps it.\<close>

definition updated_provider :: "sso_env \<Rightarrow> provider_input \<Rightarrow> provider_row \<Rightarrow> provider_row" where
  "updated_provider env dto p = p\<lparr>
     op_name := (case pr_name dto of None \<Rightarrow> op_name p | Some n \<Rightarrow> take 80 (js_trim n)),
     op_clientId := (case pr_clientId dto of None \<Rightarrow> op_clientId p | Some c \<Rightarrow> c),
     op_clientSecretEnc := (case pr_clientSecret dto of None \<Rightarrow> op_clientSecretEnc p | Some sec \<Rightarrow> map_option (se_enc env) (or_null sec)),
     op_redirectUri := (case pr_redirectUri dto of None \<Rightarrow> op_redirectUri p | Some r \<Rightarrow> r),
     op_scopes := (case pr_scopes dto of None \<Rightarrow> op_scopes p | Some x \<Rightarrow> oidc_scopes (Some x)),
     op_enabled := (case pr_enabled dto of None \<Rightarrow> op_enabled p | Some b \<Rightarrow> b),
     op_allowProvisioning := (case pr_allowProvisioning dto of None \<Rightarrow> op_allowProvisioning p | Some b \<Rightarrow> b),
     op_groupsClaim := (case pr_groupsClaim dto of None \<Rightarrow> op_groupsClaim p | Some g \<Rightarrow> or_null (map_option js_trim g))\<rparr>"

definition updateProvider :: "sso_env \<Rightarrow> actor \<Rightarrow> id \<Rightarrow> provider_input \<Rightarrow> db \<Rightarrow> unit result \<times> db" where
  "updateProvider env actor i dto s = (case sso_admin actor of
     Inl e \<Rightarrow> (Inl e, s)
   | Inr _ \<Rightarrow> (case provider_by_id s i of
       None \<Rightarrow> (Inl (NotFound ''Provider not found''), s)
     | Some cur \<Rightarrow>
         if truthy (pr_issuer dto) \<and> pr_issuer dto \<noteq> Some (op_issuer cur)
         then (Inl (BadRequest ''The issuer cannot be changed. Add a new provider instead.''), s)
         else (case (if truthy (pr_redirectUri dto) then map_sum id (\<lambda>_. ()) (checkUrl env ''Redirect URI'' (the (pr_redirectUri dto))) else Inr ()) of
             Inl e \<Rightarrow> (Inl e, s)
           | Inr _ \<Rightarrow> (Inr (), provider_audit actor i (s\<lparr>oidcProviders := update_rows (\<lambda>p. op_id p = i) (updated_provider env dto) (oidcProviders s)\<rparr>)))))"

text \<open>Deleting a provider cascades to its identities and mappings.\<close>

definition deleteProvider :: "actor \<Rightarrow> id \<Rightarrow> db \<Rightarrow> unit result \<times> db" where
  "deleteProvider actor i s = (case sso_admin actor of
     Inl e \<Rightarrow> (Inl e, s)
   | Inr _ \<Rightarrow>
       if count_rows (\<lambda>p. op_id p = i) (oidcProviders s) = 0 then (Inl (NotFound ''Provider not found''), s)
       else (Inr (), provider_audit actor i (s\<lparr>oidcProviders := delete_rows (\<lambda>p. op_id p = i) (oidcProviders s),
               identities := delete_rows (\<lambda>x. xi_providerId x = i) (identities s),
               groupMappings := delete_rows (\<lambda>g. gp_providerId g = i) (groupMappings s)\<rparr>)))"

record mapping_input =
  mi_groupValue :: string
  mi_businessId :: id
  mi_capabilities :: "string list option"

definition addMapping :: "id \<Rightarrow> actor \<Rightarrow> id \<Rightarrow> mapping_input \<Rightarrow> db \<Rightarrow> mapping_row result \<times> db" where
  "addMapping i actor providerId dto s = (case sso_admin actor of
     Inl e \<Rightarrow> (Inl e, s)
   | Inr _ \<Rightarrow>
       if provider_by_id s providerId = None then (Inl (NotFound ''Provider not found''), s)
       else (case business_of s (mi_businessId dto) of
           None \<Rightarrow> (Inl (NotFound ''Business not found''), s)
         | Some biz \<Rightarrow>
             let v = js_trim (mi_groupValue dto) in
             if v = [] \<or> length v > 256 then (Inl (BadRequest ''groupValue is required''), s)
             else if find_row (\<lambda>g. gp_providerId g = providerId \<and> gp_groupValue g = v) (groupMappings s) \<noteq> None
             then (Inl (Conflict ''That group is already mapped''), s)
             else let m = \<lparr>gp_id = i, gp_providerId = providerId, gp_groupValue = v, gp_customerId = c_id biz,
                        gp_capabilities = sanitizeCapabilities (json_strings (Some (case mi_capabilities dto of None \<Rightarrow> [] | Some cs \<Rightarrow> cs)))\<rparr>
                  in (Inr m, provider_audit actor providerId (s\<lparr>groupMappings := groupMappings s @ [m]\<rparr>))))"

definition removeMapping :: "actor \<Rightarrow> id \<Rightarrow> id \<Rightarrow> db \<Rightarrow> unit result \<times> db" where
  "removeMapping actor providerId mappingId s = (case sso_admin actor of
     Inl e \<Rightarrow> (Inl e, s)
   | Inr _ \<Rightarrow>
       let P = (\<lambda>g. gp_id g = mappingId \<and> gp_providerId g = providerId) in
       if count_rows P (groupMappings s) = 0 then (Inl (NotFound ''Mapping not found''), s)
       else (Inr (), provider_audit actor providerId (s\<lparr>groupMappings := delete_rows P (groupMappings s)\<rparr>)))"

text \<open>Discovery, behind the check of the stored issuer.\<close>

definition configuration :: "sso_env \<Rightarrow> provider_row \<Rightarrow> unit result" where
  "configuration env p = (case checkUrl env ''Issuer'' (op_issuer p) of
     Inl e \<Rightarrow> Inl e
   | Inr _ \<Rightarrow> if se_discovery env p then Inr () else Inl (ServerError ''discovery failed''))"

definition testProvider :: "sso_env \<Rightarrow> db \<Rightarrow> actor \<Rightarrow> id \<Rightarrow> bool result" where
  "testProvider env s actor i = (case sso_admin actor of
     Inl e \<Rightarrow> Inl e
   | Inr _ \<Rightarrow> (case provider_by_id s i of
       None \<Rightarrow> Inl (NotFound ''Provider not found'')
     | Some p \<Rightarrow> Inr (is_ok (configuration env p))))"

definition enabledProviders :: "(string \<Rightarrow> 'k::linorder) \<Rightarrow> db \<Rightarrow> (id \<times> string) list" where
  "enabledProviders key s = map (\<lambda>p. (op_id p, op_name p)) (sort_key (\<lambda>p. key (op_name p)) (filter op_enabled (oidcProviders s)))"

section \<open>The round trip\<close>

text \<open>What is sent to the provider, and the state to bind to this browser.\<close>

record auth_request =
  rq_provider :: id
  rq_redirectUri :: string
  rq_scope :: string
  rq_state :: string
  rq_nonce :: string
  rq_challenge :: string

record sso_random =
  sr_id :: id
  sr_state :: string
  sr_nonce :: string
  sr_verifier :: string

definition start_sso ::
  "sso_env \<Rightarrow> time \<Rightarrow> sso_random \<Rightarrow> id \<Rightarrow> login_purpose \<Rightarrow> id option \<Rightarrow> string option \<Rightarrow> db \<Rightarrow> auth_request result \<times> db" where
  "start_sso env now rnd providerId purpose userId returnTo s = (case provider_by_id s providerId of
     None \<Rightarrow> (Inl (NotFound ''Sign-in provider not available''), s)
   | Some p \<Rightarrow>
       if \<not> op_enabled p then (Inl (NotFound ''Sign-in provider not available''), s)
       else (case configuration env p of
           Inl e \<Rightarrow> (Inl e, s)
         | Inr _ \<Rightarrow>
             let row = \<lparr>ls_id = sr_id rnd, ls_stateHash = se_sha env (sr_state rnd), ls_providerId = op_id p, ls_nonce = sr_nonce rnd,
                   ls_codeVerifier = sr_verifier rnd, ls_purpose = purpose, ls_userId = (if purpose = SSO_LINK then userId else None),
                   ls_returnTo = Some (safeReturnTo returnTo), ls_expiresAt = now + STATE_TTL_MS\<rparr>
             in (Inr \<lparr>rq_provider = op_id p, rq_redirectUri = op_redirectUri p, rq_scope = op_scopes p, rq_state = sr_state rnd,
                      rq_nonce = sr_nonce rnd, rq_challenge = se_challenge env (sr_verifier rnd)\<rparr>,
                 s\<lparr>loginStates := loginStates s @ [row]\<rparr>)))"

text \<open>The sweep of expired states.\<close>

definition expire_states :: "time \<Rightarrow> db \<Rightarrow> db" where
  "expire_states now s = s\<lparr>loginStates := delete_rows (\<lambda>r. ls_expiresAt r < now) (loginStates s)\<rparr>"

definition sso_audit :: "string \<Rightarrow> id option \<Rightarrow> id option \<Rightarrow> string option \<Rightarrow> id \<Rightarrow> db \<Rightarrow> db" where
  "sso_audit action actorId customerId ip i = audit_log action actorId None customerId ip (Some ''oidc_provider'') (Some i) False"

definition identity_for :: "db \<Rightarrow> string \<Rightarrow> string \<Rightarrow> identity_row option" where
  "identity_for s issuer subject = find_row (\<lambda>x. xi_issuer x = issuer \<and> xi_subject x = subject) (identities s)"

definition new_identity :: "id \<Rightarrow> id \<Rightarrow> provider_row \<Rightarrow> string \<Rightarrow> string option \<Rightarrow> identity_row" where
  "new_identity i userId p subject email = \<lparr>xi_id = i, xi_userId = userId, xi_providerId = op_id p, xi_issuer = op_issuer p,
     xi_subject = subject, xi_email = email, xi_lastLoginAt = None\<rparr>"

text \<open>Where a round trip ends: linked, or signed in (with the second factor still to come, perhaps).\<close>

datatype sso_answer = Sso_linked string | Sso_session sign_in string

definition return_or :: "string \<Rightarrow> string option \<Rightarrow> string" where
  "return_or d r = (case r of None \<Rightarrow> d | Some x \<Rightarrow> x)"

text \<open>Ids and random text of the rows a round trip may create.\<close>

record sso_ids =
  si_user :: id
  si_identity :: id
  si_membership :: id
  si_random :: string

definition finishLink ::
  "sso_ids \<Rightarrow> provider_row \<Rightarrow> id option \<Rightarrow> string \<Rightarrow> string option \<Rightarrow> string \<Rightarrow> string option \<Rightarrow> db \<Rightarrow> (sso_failure + sso_answer) \<times> db" where
  "finishLink ids p userId subject email ip returnTo s =
     (if \<not> truthy userId then (Inl (Sso ''expired'' False), s)
      else (case identity_for s (op_issuer p) subject of
          Some x \<Rightarrow>
            if Some (xi_userId x) \<noteq> userId
            then (Inl (Sso ''linked_elsewhere'' False), sso_audit ''SSO_LOGIN_DENIED'' userId None (Some ip) (op_id p) s)
            else (Inr (Sso_linked (return_or ''/account'' returnTo)), s)
        | None \<Rightarrow>
            if count_rows (\<lambda>x. Some (xi_userId x) = userId \<and> xi_providerId x = op_id p) (identities s) \<noteq> 0
            then (Inl (Sso ''already_linked'' False), s)
            else (Inr (Sso_linked (return_or ''/account'' returnTo)),
                  sso_audit ''SSO_LINKED'' userId None (Some ip) (op_id p)
                    (s\<lparr>identities := identities s @ [new_identity (si_identity ids) (the userId) p subject email]\<rparr>))))"

definition claim_str :: "id_token \<Rightarrow> string \<Rightarrow> string option" where
  "claim_str t k = (case it_claims t k of JStr v \<Rightarrow> Some (take 80 v) | _ \<Rightarrow> None)"

definition token_groups :: "provider_row \<Rightarrow> id_token \<Rightarrow> string list" where
  "token_groups p t = (if truthy (op_groupsClaim p)
     then (case it_claims t (the (op_groupsClaim p)) of
         JArr xs \<Rightarrow> concat (map (\<lambda>x. case x of JStr g \<Rightarrow> [g] | _ \<Rightarrow> []) xs)
       | _ \<Rightarrow> [])
     else [])"

definition mapping_for :: "db \<Rightarrow> provider_row \<Rightarrow> id_token \<Rightarrow> mapping_row option" where
  "mapping_for s p t = find_row (\<lambda>g. gp_providerId g = op_id p \<and> gp_groupValue g \<in> set (token_groups p t)) (groupMappings s)"

text \<open>The business and role a mapping leads to, where both still exist.\<close>

definition mapped_place :: "db \<Rightarrow> mapping_row option \<Rightarrow> (business_row \<times> role_row \<times> mapping_row) option" where
  "mapped_place s mapping = (case mapping of
     None \<Rightarrow> None
   | Some g \<Rightarrow> (case business_of s (gp_customerId g) of
       None \<Rightarrow> None
     | Some biz \<Rightarrow> map_option (\<lambda>role. (biz, role, g))
         (find_row (\<lambda>r. rl_tenantId r = c_tenantId biz \<and> rl_type r = BUSINESS_USER) (roles s))))"

definition mapped_membership :: "sso_ids \<Rightarrow> business_row \<times> role_row \<times> mapping_row \<Rightarrow> membership_row" where
  "mapped_membership ids place = (case place of (biz, role, g) \<Rightarrow>
     \<lparr>m_id = si_membership ids, m_userId = si_user ids, m_tenantId = c_tenantId biz, m_roleId = rl_id role, m_roleType = rl_type role,
      m_isActive = True, m_customerId = Some (c_id biz), m_capabilities = sanitizeCapabilities (json_strings (Some (gp_capabilities g)))\<rparr>)"

definition provisioned_user :: "sso_ids \<Rightarrow> id_token \<Rightarrow> string \<Rightarrow> user_row" where
  "provisioned_user ids t email = \<lparr>u_id = si_user ids, u_email = email, u_passwordHash = ''!sso-only:'' @ si_random ids,
     u_firstName = return_or [] (claim_str t ''given_name''), u_lastName = return_or [] (claim_str t ''family_name''),
     u_status = U_ACTIVE, u_isPlatformAdmin = False, u_sessionsValidAfter = None, u_platformPermissions = [], u_profile = Map.empty\<rparr>"

text \<open>The answer is the new identity where a mapping gave the account a membership.\<close>

definition provision :: "sso_ids \<Rightarrow> provider_row \<Rightarrow> id_token \<Rightarrow> string \<Rightarrow> db \<Rightarrow> identity_row option \<times> db" where
  "provision ids p t email s =
     (let mapping = mapping_for s p t;
          identity = new_identity (si_identity ids) (si_user ids) p (it_sub t) (Some email);
          place = mapped_place s mapping;
          s1 = s\<lparr>users := users s @ [provisioned_user ids t email], identities := identities s @ [identity],
                 memberships := memberships s @ (case place of None \<Rightarrow> [] | Some x \<Rightarrow> [mapped_membership ids x])\<rparr>
      in (if place = None then None else Some identity,
          sso_audit ''SSO_LINKED'' (Some (si_user ids)) (map_option gp_customerId mapping) None (op_id p) s1))"

text \<open>The identity to sign in with: the linked one, or that of a new account.\<close>

definition login_identity :: "sso_ids \<Rightarrow> provider_row \<Rightarrow> id_token \<Rightarrow> string option \<Rightarrow> string \<Rightarrow> db \<Rightarrow> (sso_failure + identity_row) \<times> db" where
  "login_identity ids p t email ip s = (case identity_for s (op_issuer p) (it_sub t) of
     Some x \<Rightarrow> (Inr x, s)
   | None \<Rightarrow>
       let denied = sso_audit ''SSO_LOGIN_DENIED'' None None (Some ip) (op_id p) s in
       if \<not> op_allowProvisioning p then (Inl (Sso ''not_linked'' False), denied)
       else if \<not> truthy email \<or> it_claims t ''email_verified'' \<noteq> JBool True then (Inl (Sso ''email_unverified'' False), denied)
       else if find_row (\<lambda>u. u_email u = the email) (users s) \<noteq> None then (Inl (Sso ''email_in_use'' False), denied)
       else (case provision ids p t (the email) s of
           (None, s1) \<Rightarrow> (Inl (Sso ''provisioned_no_access'' False), s1)
         | (Some x, s1) \<Rightarrow> (Inr x, s1)))"

definition touch_identity :: "time \<Rightarrow> string option \<Rightarrow> id \<Rightarrow> db \<Rightarrow> db" where
  "touch_identity now email i s = s\<lparr>identities := update_rows (\<lambda>x. xi_id x = i) (\<lambda>x. x\<lparr>xi_lastLoginAt := Some now, xi_email := email\<rparr>) (identities s)\<rparr>"

definition finishLogin ::
  "time \<Rightarrow> sso_ids \<Rightarrow> provider_row \<Rightarrow> id_token \<Rightarrow> string option \<Rightarrow> string \<Rightarrow> string option \<Rightarrow> auth_state \<Rightarrow> (sso_failure + sso_answer) \<times> auth_state" where
  "finishLogin now ids p t email ip returnTo st = (case login_identity ids p t email ip (as_db st) of
     (Inl e, s1) \<Rightarrow> (Inl e, st\<lparr>as_db := s1\<rparr>)
   | (Inr x, s1) \<Rightarrow> (case signInVerifiedUser now (xi_userId x) ip False (st\<lparr>as_db := touch_identity now email (xi_id x) s1\<rparr>) of
         (Inl e, st2) \<Rightarrow> (Inl (Sso ''account'' False), set_db (sso_audit ''SSO_LOGIN_DENIED'' (Some (xi_userId x)) None (Some ip) (op_id p)) st2)
       | (Inr ans, st2) \<Rightarrow> (Inr (Sso_session ans (return_or ''/dashboard'' returnTo)),
           set_db (sso_audit ''SSO_LOGIN'' (Some (xi_userId x)) None (Some ip) (op_id p)) st2)))"

definition claimed_email :: "id_token \<Rightarrow> string option" where
  "claimed_email t = (case it_claims t ''email'' of JStr e \<Rightarrow> Some (take 254 (map lower e)) | _ \<Rightarrow> None)"

text \<open>A verified token of this provider, or how the exchange failed.\<close>

definition verified_token :: "sso_env \<Rightarrow> provider_row \<Rightarrow> login_state_row \<Rightarrow> query \<Rightarrow> string \<Rightarrow> id_token option" where
  "verified_token env p row q state = (case se_exchange env p q (ls_codeVerifier row) state (ls_nonce row) of
     Some (Some t) \<Rightarrow> if it_sub t \<noteq> [] \<and> it_iss t = op_issuer p then Some t else None
   | _ \<Rightarrow> None)"

definition finish ::
  "sso_env \<Rightarrow> time \<Rightarrow> sso_ids \<Rightarrow> login_state_row \<Rightarrow> query \<Rightarrow> string \<Rightarrow> string \<Rightarrow> auth_state \<Rightarrow> (sso_failure + sso_answer) \<times> auth_state" where
  "finish env now ids row q state ip st = (case provider_by_id (as_db st) (ls_providerId row) of
     None \<Rightarrow> (Inl (Sso ''disabled'' False), st)
   | Some p \<Rightarrow>
       let denied = set_db (sso_audit ''SSO_LOGIN_DENIED'' None None (Some ip) (op_id p)) st in
       if \<not> op_enabled p then (Inl (Sso ''disabled'' False), st)
       else if truthy (q ''error'') then (Inl (Sso ''provider_error'' False), denied)
       else (case configuration env p of
           Inl e \<Rightarrow> (Inl (Sso_other e), st)
         | Inr _ \<Rightarrow>
             if se_url env (op_redirectUri p) = None then (Inl (Sso_other (ServerError ''Invalid URL'')), st)
             else (case verified_token env p row q state of
                 None \<Rightarrow> (Inl (Sso ''exchange_failed'' False), denied)
               | Some t \<Rightarrow>
                   if ls_purpose row = SSO_LINK
                   then (case finishLink ids p (ls_userId row) (it_sub t) (claimed_email t) ip (ls_returnTo row) (as_db st) of
                       (ans, s1) \<Rightarrow> (ans, st\<lparr>as_db := s1\<rparr>))
                   else finishLogin now ids p t (claimed_email t) ip (ls_returnTo row) st)))"

text \<open>In a linking round trip every failure carries the mark that leads back to the account page.\<close>

definition linking_failure :: "login_purpose \<Rightarrow> sso_failure \<Rightarrow> sso_failure" where
  "linking_failure purpose e = (if purpose = SSO_LINK then (case e of Sso c _ \<Rightarrow> Sso c True | Sso_other _ \<Rightarrow> Sso ''failed'' True) else e)"

text \<open>
  Finishing a round trip. \<open>f\<close> is what other requests write between the lookup of the state and the conditional
  delete that consumes it.
\<close>

definition callback ::
  "sso_env \<Rightarrow> time \<Rightarrow> (db \<Rightarrow> db) \<Rightarrow> sso_ids \<Rightarrow> query \<Rightarrow> string option \<Rightarrow> string \<Rightarrow> auth_state \<Rightarrow> (sso_failure + sso_answer) \<times> auth_state" where
  "callback env now f ids q cookieState ip st =
     (if \<not> truthy (q ''state'') \<or> \<not> truthy cookieState \<or> q ''state'' \<noteq> cookieState then (Inl (Sso ''state_mismatch'' False), st)
      else (case find_row (\<lambda>r. ls_stateHash r = se_sha env (the (q ''state''))) (loginStates (as_db st)) of
          None \<Rightarrow> (Inl (Sso ''expired'' False), st)
        | Some row \<Rightarrow>
            let s1 = f (as_db st); P = (\<lambda>r. ls_id r = ls_id row \<and> ls_expiresAt r > now);
                st1 = st\<lparr>as_db := s1\<lparr>loginStates := delete_rows P (loginStates s1)\<rparr>\<rparr>
            in if count_rows P (loginStates s1) \<noteq> 1 then (Inl (Sso ''expired'' False), st1)
               else (case finish env now ids row q (the (q ''state'')) ip st1 of
                   (Inl e, st2) \<Rightarrow> (Inl (linking_failure (ls_purpose row) e), st2)
                 | (Inr a, st2) \<Rightarrow> (Inr a, st2))))"

section \<open>The identities of a user\<close>

definition myIdentities :: "db \<Rightarrow> id \<Rightarrow> (identity_row \<times> provider_row option) list" where
  "myIdentities s userId = map (\<lambda>x. (x, provider_by_id s (xi_providerId x))) (filter (\<lambda>x. xi_userId x = userId) (identities s))"

definition unlink :: "id \<Rightarrow> id \<Rightarrow> string option \<Rightarrow> db \<Rightarrow> unit result \<times> db" where
  "unlink userId identityId ip s = (case find_row (\<lambda>x. xi_id x = identityId \<and> xi_userId x = userId) (identities s) of
     None \<Rightarrow> (Inl (NotFound ''Linked identity not found''), s)
   | Some x \<Rightarrow> (Inr (), sso_audit ''SSO_UNLINKED'' (Some userId) None ip (xi_providerId x)
       (s\<lparr>identities := delete_rows (\<lambda>y. xi_id y = xi_id x) (identities s)\<rparr>)))"

end
