(* ===== verification/SsoProofs.thy ===== *)
theory SsoProofs
  imports Sso
begin

text \<open>
  Properties of single sign-on: a session needs a linked or freshly provisioned identity, a round trip counts once,
  a provisioned account holds what its mapping says, and an identity of a provider belongs to one account.
\<close>

section \<open>What the steps touch\<close>

lemma sso_audit_tables [simp]:
  "users (sso_audit a u c ip i s) = users s" "memberships (sso_audit a u c ip i s) = memberships s"
  "identities (sso_audit a u c ip i s) = identities s" "oidcProviders (sso_audit a u c ip i s) = oidcProviders s"
  "loginStates (sso_audit a u c ip i s) = loginStates s" "mfaMethods (sso_audit a u c ip i s) = mfaMethods s"
  "groupMappings (sso_audit a u c ip i s) = groupMappings s"
  by (simp_all add: sso_audit_def)

lemma provider_audit_tables [simp]:
  "identities (provider_audit a i s) = identities s" "oidcProviders (provider_audit a i s) = oidcProviders s"
  by (simp_all add: provider_audit_def)

lemma startSession_tables:
  assumes "startSession now user ip m s = (ans, s1)"
  shows "users s1 = users s" "memberships s1 = memberships s" "identities s1 = identities s" "oidcProviders s1 = oidcProviders s"
    "loginStates s1 = loginStates s" "mfaMethods s1 = mfaMethods s" "groupMappings s1 = groupMappings s"
  using assms by (auto simp: startSession_eq Let_def split: prod.splits if_splits)

lemma signInVerifiedUser_tables:
  assumes "signInVerifiedUser now i ip m st = (r, st1)"
  shows "users (as_db st1) = users (as_db st)" "memberships (as_db st1) = memberships (as_db st)"
    "identities (as_db st1) = identities (as_db st)" "oidcProviders (as_db st1) = oidcProviders (as_db st)"
    "loginStates (as_db st1) = loginStates (as_db st)" "mfaMethods (as_db st1) = mfaMethods (as_db st)"
    "groupMappings (as_db st1) = groupMappings (as_db st)"
  using assms by (auto simp: signInVerifiedUser_def startSession_tables split: option.splits sum.splits if_splits prod.splits)

text \<open>Whose session a sign-in is.\<close>

fun signed_in_as :: "sign_in \<Rightarrow> id" where
  "signed_in_as (NeedsMfa e tok) = jp_sub tok"
| "signed_in_as (SignedIn tok) = jp_sub tok"

fun needs_mfa :: "sign_in \<Rightarrow> bool" where
  "needs_mfa (NeedsMfa e tok) = True"
| "needs_mfa (SignedIn tok) = False"

lemma signInVerifiedUser_proved:
  assumes "signInVerifiedUser now i ip m st = (Inr ans, st1)"
  obtains u where "user_by_id (as_db st) i = Some u" "u_status u = U_ACTIVE" "signed_in_as ans = i"
    "active_totp (as_db st) i \<noteq> None \<Longrightarrow> \<not> m \<Longrightarrow> needs_mfa ans"
proof -
  obtain u where u: "user_by_id (as_db st) i = Some u" using assms by (auto simp: signInVerifiedUser_def split: option.splits)
  then have i: "u_id u = i" by (auto simp: user_by_id_def dest: find_row_Some)
  have "u_status u = U_ACTIVE"
    using assms u by (auto simp: signInVerifiedUser_def assertMaySignIn_def split: if_splits)
  moreover have "fst (startSession now u ip m (as_db st)) = ans"
    using assms u by (auto simp: signInVerifiedUser_def split: sum.splits if_splits prod.splits)
  then have "signed_in_as ans = i" "active_totp (as_db st) i \<noteq> None \<Longrightarrow> \<not> m \<Longrightarrow> needs_mfa ans"
    by (auto simp: startSession_eq issueFullToken_def partial_token_def i Let_def split: prod.splits if_splits)
  ultimately show thesis using that u by blast
qed

lemma active_totp_frame: "mfaMethods s1 = mfaMethods s \<Longrightarrow> active_totp s1 i = active_totp s i"
  by (simp add: active_totp_def)

section \<open>How the identity of a sign-in is found\<close>

lemma provision_tables:
  assumes "provision ids p t email s = (r, s1)"
  shows "oidcProviders s1 = oidcProviders s" "loginStates s1 = loginStates s" "mfaMethods s1 = mfaMethods s" "groupMappings s1 = groupMappings s"
    "users s1 = users s @ [provisioned_user ids t email]"
    "identities s1 = identities s @ [new_identity (si_identity ids) (si_user ids) p (it_sub t) (Some email)]"
    "memberships s1 = memberships s @ (case mapped_place s (mapping_for s p t) of None \<Rightarrow> [] | Some x \<Rightarrow> [mapped_membership ids x])"
  using assms by (auto simp: provision_def Let_def)

lemma login_identity_cases:
  assumes "login_identity ids p t email ip s = (r, s1)"
  obtains (linked) x where "identity_for s (op_issuer p) (it_sub t) = Some x" "r = Inr x" "s1 = s"
    | (refused) c where "r = Inl (Sso c False)" "s1 = sso_audit ''SSO_LOGIN_DENIED'' None None (Some ip) (op_id p) s"
        "identity_for s (op_issuer p) (it_sub t) = None"
    | (provisioned) r1 where "identity_for s (op_issuer p) (it_sub t) = None" "op_allowProvisioning p" "truthy email"
        "it_claims t ''email_verified'' = JBool True" "find_row (\<lambda>u. u_email u = the email) (users s) = None"
        "provision ids p t (the email) s = (r1, s1)" "r = (case r1 of None \<Rightarrow> Inl (Sso ''provisioned_no_access'' False) | Some x \<Rightarrow> Inr x)"
proof (cases "identity_for s (op_issuer p) (it_sub t)")
  case (Some x)
  then show thesis using assms by (intro linked[of x]) (auto simp: login_identity_def)
next
  case None
  show thesis
  proof (cases "op_allowProvisioning p \<and> truthy email \<and> it_claims t ''email_verified'' = JBool True \<and> find_row (\<lambda>u. u_email u = the email) (users s) = None")
    case True
    then show thesis using assms None
      by (intro provisioned[of "fst (provision ids p t (the email) s)"])
        (auto simp: login_identity_def Let_def split: prod.splits option.splits)
  next
    case False
    then show thesis using assms None
      by (intro refused[of "case r of Inl (Sso c b) \<Rightarrow> c | _ \<Rightarrow> []"]) (auto simp: login_identity_def Let_def split: if_splits)
  qed
qed

lemma login_identity_frame:
  assumes "login_identity ids p t email ip s = (r, s1)"
  shows "oidcProviders s1 = oidcProviders s" "loginStates s1 = loginStates s" "mfaMethods s1 = mfaMethods s" "groupMappings s1 = groupMappings s"
  using assms by (cases rule: login_identity_cases; auto dest: provision_tables)+

lemma provision_Some: "provision ids p t email s = (Some x, s1) \<Longrightarrow> x = new_identity (si_identity ids) (si_user ids) p (it_sub t) (Some email)"
  by (auto simp: provision_def Let_def split: if_splits)

lemma touch_identity_tables [simp]:
  "users (touch_identity now e i s) = users s" "memberships (touch_identity now e i s) = memberships s"
  "oidcProviders (touch_identity now e i s) = oidcProviders s" "loginStates (touch_identity now e i s) = loginStates s"
  "mfaMethods (touch_identity now e i s) = mfaMethods s" "groupMappings (touch_identity now e i s) = groupMappings s"
  "identities (touch_identity now e i s) = update_rows (\<lambda>x. xi_id x = i) (\<lambda>x. x\<lparr>xi_lastLoginAt := Some now, xi_email := e\<rparr>) (identities s)"
  by (simp_all add: touch_identity_def)

section \<open>How a round trip ends\<close>

text \<open>The state of a round trip as the callback finds it, and the database after it is consumed.\<close>

definition state_row :: "sso_env \<Rightarrow> query \<Rightarrow> db \<Rightarrow> login_state_row option" where
  "state_row env q s = find_row (\<lambda>r. ls_stateHash r = se_sha env (the (q ''state''))) (loginStates s)"

definition consumed :: "time \<Rightarrow> login_state_row \<Rightarrow> db \<Rightarrow> db" where
  "consumed now row s = s\<lparr>loginStates := delete_rows (\<lambda>r. ls_id r = ls_id row \<and> ls_expiresAt r > now) (loginStates s)\<rparr>"

lemma consumed_tables [simp]:
  "users (consumed now row s) = users s" "memberships (consumed now row s) = memberships s" "identities (consumed now row s) = identities s"
  "oidcProviders (consumed now row s) = oidcProviders s" "mfaMethods (consumed now row s) = mfaMethods s"
  "groupMappings (consumed now row s) = groupMappings s"
  "loginStates (consumed now row s) = delete_rows (\<lambda>r. ls_id r = ls_id row \<and> ls_expiresAt r > now) (loginStates s)"
  by (simp_all add: consumed_def)

lemma callback_cases:
  assumes "callback env now f ids q cookieState ip st = (r, st1)"
  obtains (early) e where "r = Inl e" "st1 = st \<or> (\<exists>row. st1 = st\<lparr>as_db := consumed now row (f (as_db st))\<rparr>)"
    | (finished) row r0 where "state_row env q (as_db st) = Some row" "q ''state'' = cookieState" "truthy cookieState"
        "count_rows (\<lambda>x. ls_id x = ls_id row \<and> ls_expiresAt x > now) (loginStates (f (as_db st))) = 1"
        "finish env now ids row q (the (q ''state'')) ip (st\<lparr>as_db := consumed now row (f (as_db st))\<rparr>) = (r0, st1)"
        "\<And>a. r = Inr a \<Longrightarrow> r0 = Inr a"
proof (cases "truthy (q ''state'') \<and> truthy cookieState \<and> q ''state'' = cookieState")
  case False
  then show thesis using assms early by (auto simp: callback_def)
next
  case True
  show thesis
  proof (cases "state_row env q (as_db st)")
    case None
    then show thesis using assms early by (auto simp: callback_def state_row_def split: if_splits)
  next
    case (Some row)
    let ?P = "\<lambda>x. ls_id x = ls_id row \<and> ls_expiresAt x > now"
    show thesis
    proof (cases "count_rows ?P (loginStates (f (as_db st))) = 1")
      case False
      then have "r = Inl (Sso ''expired'' False)" "st1 = st\<lparr>as_db := consumed now row (f (as_db st))\<rparr>"
        using assms True Some by (auto simp: callback_def state_row_def consumed_def Let_def)
      then show thesis using early by blast
    next
      case n: True
      obtain r0 st2 where fin: "finish env now ids row q (the (q ''state'')) ip (st\<lparr>as_db := consumed now row (f (as_db st))\<rparr>) = (r0, st2)"
        by (rule prod.exhaust)
      have "r = (case r0 of Inl e \<Rightarrow> Inl (linking_failure (ls_purpose row) e) | Inr a \<Rightarrow> Inr a)" "st1 = st2"
        using assms True Some n fin by (auto simp: callback_def state_row_def consumed_def Let_def split: sum.splits)
      then show thesis using finished[OF Some _ _ n] True fin by (auto split: sum.splits)
    qed
  qed
qed

lemma finish_cases:
  assumes "finish env now ids row q state ip st = (r, st1)"
  obtains (stopped) e where "r = Inl e" "st1 = st \<or> (\<exists>i. st1 = set_db (sso_audit ''SSO_LOGIN_DENIED'' None None (Some ip) i) st)"
    | (reached) p t where "provider_by_id (as_db st) (ls_providerId row) = Some p" "op_enabled p" "verified_token env p row q state = Some t"
        "(r, st1) = (if ls_purpose row = SSO_LINK
           then (case finishLink ids p (ls_userId row) (it_sub t) (claimed_email t) ip (ls_returnTo row) (as_db st) of (ans, s1) \<Rightarrow> (ans, st\<lparr>as_db := s1\<rparr>))
           else finishLogin now ids p t (claimed_email t) ip (ls_returnTo row) st)"
proof (cases "provider_by_id (as_db st) (ls_providerId row)")
  case None
  then show thesis using assms stopped by (auto simp: finish_def)
next
  case (Some p)
  show thesis
  proof (cases "op_enabled p \<and> \<not> truthy (q ''error'') \<and> is_ok (configuration env p) \<and> se_url env (op_redirectUri p) \<noteq> None \<and> verified_token env p row q state \<noteq> None")
    case True
    then obtain t where t: "verified_token env p row q state = Some t" by blast
    obtain u where "configuration env p = Inr u" using True by (auto simp: is_ok_iff)
    with True t Some assms show thesis by (intro reached[of p t]) (auto simp: finish_def split: sum.splits)
  next
    case False
    then show thesis using assms Some
      by (auto simp: finish_def Let_def is_ok_def split: if_splits sum.splits option.splits intro: stopped)
  qed
qed

lemma finishLogin_cases:
  assumes "finishLogin now ids p t email ip returnTo st = (r, st1)"
  obtains (refused) e s1 where "login_identity ids p t email ip (as_db st) = (Inl e, s1)" "r = Inl e" "st1 = st\<lparr>as_db := s1\<rparr>"
    | (found) x s1 ans st2 a where "login_identity ids p t email ip (as_db st) = (Inr x, s1)"
        "signInVerifiedUser now (xi_userId x) ip False (st\<lparr>as_db := touch_identity now email (xi_id x) s1\<rparr>) = (ans, st2)"
        "st1 = set_db (sso_audit a (Some (xi_userId x)) None (Some ip) (op_id p)) st2"
        "r = (case ans of Inl e \<Rightarrow> Inl (Sso ''account'' False) | Inr y \<Rightarrow> Inr (Sso_session y (return_or ''/dashboard'' returnTo)))"
proof -
  obtain li s1 where li: "login_identity ids p t email ip (as_db st) = (li, s1)" by (rule prod.exhaust)
  show thesis
  proof (cases li)
    case (Inl e)
    then show thesis using refused assms li by (auto simp: finishLogin_def)
  next
    case (Inr x)
    obtain ans st2 where si: "signInVerifiedUser now (xi_userId x) ip False (st\<lparr>as_db := touch_identity now email (xi_id x) s1\<rparr>) = (ans, st2)"
      by (rule prod.exhaust)
    show thesis
      by (cases ans; rule found[OF li[unfolded Inr] si]) (use assms li Inr si in \<open>auto simp: finishLogin_def\<close>)
  qed
qed

section \<open>A session needs an identity\<close>

text \<open>The account a verified token leads to: the linked one, or a new one where the provider may create accounts.\<close>

definition entitled :: "sso_ids \<Rightarrow> provider_row \<Rightarrow> id_token \<Rightarrow> db \<Rightarrow> id \<Rightarrow> bool" where
  "entitled ids p t s i = (case identity_for s (op_issuer p) (it_sub t) of
     Some x \<Rightarrow> xi_userId x = i
   | None \<Rightarrow> op_allowProvisioning p \<and> it_claims t ''email_verified'' = JBool True \<and> i = si_user ids
       \<and> find_row (\<lambda>u. Some (u_email u) = claimed_email t) (users s) = None)"

lemma login_identity_entitled:
  assumes "login_identity ids p t (claimed_email t) ip s = (Inr x, s1)"
  shows "entitled ids p t s (xi_userId x)"
  using assms
proof (cases rule: login_identity_cases)
  case (provisioned r1)
  then obtain y where y: "r1 = Some y" "y = x" by (auto split: option.splits)
  with provisioned have x: "xi_userId x = si_user ids" by (auto dest!: provision_Some simp: new_identity_def)
  have "find_row (\<lambda>u. Some (u_email u) = claimed_email t) (users s) = None"
    using provisioned(3,5) by (auto simp: find_row_None truthy_iff)
  with provisioned x show ?thesis by (simp add: entitled_def)
qed (auto simp: entitled_def)

text \<open>
  C27: A session through single sign-on goes only to the account linked to the issuer and subject of a token that the
  enabled provider vouched for in the round trip this browser started, or to a new account of a provider that may create
  them, whose verified address no account has. The account is active, and with an active authenticator the session
  still needs its second factor. An address alone never leads to an existing account.
\<close>

theorem sso_session_needs_identity:
  assumes "callback env now f ids q cookieState ip st = (Inr (Sso_session ans ret), st1)"
  shows "\<exists>row p t u. state_row env q (as_db st) = Some row \<and> q ''state'' = cookieState
    \<and> provider_by_id (f (as_db st)) (ls_providerId row) = Some p \<and> op_enabled p
    \<and> verified_token env p row q (the cookieState) = Some t
    \<and> entitled ids p t (f (as_db st)) (signed_in_as ans)
    \<and> user_by_id (as_db st1) (signed_in_as ans) = Some u \<and> u_status u = U_ACTIVE
    \<and> (active_totp (f (as_db st)) (signed_in_as ans) = None \<or> needs_mfa ans)"
proof -
  obtain row where row: "state_row env q (as_db st) = Some row" "q ''state'' = cookieState"
      and fin: "finish env now ids row q (the cookieState) ip (st\<lparr>as_db := consumed now row (f (as_db st))\<rparr>) = (Inr (Sso_session ans ret), st1)"
    using assms by (cases rule: callback_cases) auto
  from fin obtain p t where p: "provider_by_id (f (as_db st)) (ls_providerId row) = Some p" "op_enabled p"
      "verified_token env p row q (the cookieState) = Some t"
      and log: "finishLogin now ids p t (claimed_email t) ip (ls_returnTo row) (st\<lparr>as_db := consumed now row (f (as_db st))\<rparr>) = (Inr (Sso_session ans ret), st1)"
  proof (cases rule: finish_cases)
    case (reached p t)
    then have "ls_purpose row \<noteq> SSO_LINK" by (auto simp: finishLink_def split: if_splits option.splits)
    with reached show ?thesis by (intro that[of p t]) (simp_all add: provider_by_id_def)
  qed auto
  from log obtain x s1 st2 a where x: "login_identity ids p t (claimed_email t) ip (consumed now row (f (as_db st))) = (Inr x, s1)"
      and si: "signInVerifiedUser now (xi_userId x) ip False (st\<lparr>as_db := touch_identity now (claimed_email t) (xi_id x) s1\<rparr>) = (Inr ans, st2)"
      and st1: "st1 = set_db (sso_audit a (Some (xi_userId x)) None (Some ip) (op_id p)) st2"
    by (cases rule: finishLogin_cases) (auto split: sum.splits)
  have mfa: "active_totp s1 i = active_totp (f (as_db st)) i" for i
    using login_identity_frame(3)[OF x] by (simp add: active_totp_def)
  obtain u where u: "user_by_id s1 (xi_userId x) = Some u" "u_status u = U_ACTIVE" "signed_in_as ans = xi_userId x"
      "active_totp s1 (xi_userId x) \<noteq> None \<Longrightarrow> needs_mfa ans"
    using signInVerifiedUser_proved[OF si] by (auto simp: user_by_id_def active_totp_def)
  have "user_by_id (as_db st1) (signed_in_as ans) = Some u"
    using u(1,3) signInVerifiedUser_tables(1)[OF si] by (simp add: st1 set_db_def user_by_id_def)
  moreover have "entitled ids p t (f (as_db st)) (signed_in_as ans)"
    using login_identity_entitled[OF x] u(3) by (simp add: entitled_def identity_for_def cong: option.case_cong)
  ultimately show ?thesis using row p u mfa by metis
qed

section \<open>A round trip counts once\<close>

lemma finishLogin_states:
  assumes "finishLogin now ids p t email ip returnTo st = (r, st1)"
  shows "loginStates (as_db st1) = loginStates (as_db st)" "oidcProviders (as_db st1) = oidcProviders (as_db st)"
    "groupMappings (as_db st1) = groupMappings (as_db st)"
proof -
  have "loginStates (as_db st1) = loginStates (as_db st) \<and> oidcProviders (as_db st1) = oidcProviders (as_db st)
      \<and> groupMappings (as_db st1) = groupMappings (as_db st)"
    using assms
  proof (cases rule: finishLogin_cases)
    case (refused e s1)
    then show ?thesis by (simp add: login_identity_frame[OF refused(1)])
  next
    case (found x s1 ans st2 a)
    then show ?thesis by (simp add: login_identity_frame[OF found(1)] signInVerifiedUser_tables[OF found(2)] set_db_def)
  qed
  then show "loginStates (as_db st1) = loginStates (as_db st)" "oidcProviders (as_db st1) = oidcProviders (as_db st)"
    "groupMappings (as_db st1) = groupMappings (as_db st)" by simp_all
qed

lemma finishLink_tables:
  assumes "finishLink ids p userId subject email ip returnTo s = (r, s1)"
  shows "loginStates s1 = loginStates s" "oidcProviders s1 = oidcProviders s" "groupMappings s1 = groupMappings s"
    "users s1 = users s" "memberships s1 = memberships s"
  using assms by (auto simp: finishLink_def split: if_splits option.splits)

lemma finish_states:
  assumes "finish env now ids row q state ip st = (r, st1)"
  shows "loginStates (as_db st1) = loginStates (as_db st)" "oidcProviders (as_db st1) = oidcProviders (as_db st)"
    "groupMappings (as_db st1) = groupMappings (as_db st)"
proof -
  have "loginStates (as_db st1) = loginStates (as_db st) \<and> oidcProviders (as_db st1) = oidcProviders (as_db st)
      \<and> groupMappings (as_db st1) = groupMappings (as_db st)"
    using assms
  proof (cases rule: finish_cases)
    case (stopped e)
    then show ?thesis by (auto simp: set_db_def)
  next
    case (reached p t)
    then show ?thesis
      by (cases "ls_purpose row = SSO_LINK") (auto simp: finishLink_tables finishLogin_states[OF sym] split: prod.splits)
  qed
  then show "loginStates (as_db st1) = loginStates (as_db st)" "oidcProviders (as_db st1) = oidcProviders (as_db st)"
    "groupMappings (as_db st1) = groupMappings (as_db st)" by simp_all
qed

text \<open>
  Of two requests with the same state, which both looked it up before either consumed it, at most one gets an
  answer: once one has, the other is refused, whatever else was written in between.
\<close>

theorem sso_round_trip_once:
  assumes "callback env now f ids q cookieState ip st = (Inr a, st1)" and "now \<le> later"
    and "set (loginStates s2) \<subseteq> set (loginStates (as_db st1))"
  shows "fst (callback env later (\<lambda>_. s2) ids2 q cookieState ip2 st) = Inl (Sso ''expired'' False)"
proof -
  from assms(1) obtain row r0 where row: "state_row env q (as_db st) = Some row" "q ''state'' = cookieState" "truthy cookieState"
      and fin: "finish env now ids row q (the (q ''state'')) ip (st\<lparr>as_db := consumed now row (f (as_db st))\<rparr>) = (r0, st1)"
    by (cases rule: callback_cases) auto
  have "\<forall>x \<in> set (loginStates s2). \<not> (ls_id x = ls_id row \<and> ls_expiresAt x > later)"
    using assms(2,3) finish_states(1)[OF fin] by force
  then have "count_rows (\<lambda>x. ls_id x = ls_id row \<and> ls_expiresAt x > later) (loginStates s2) = 0" by simp
  with row show ?thesis by (simp add: callback_def state_row_def Let_def del: count_rows_zero)
qed

section \<open>What a round trip may add\<close>

text \<open>An identity added for a verified token of a provider, whose issuer and subject no identity has.\<close>

definition identity_write :: "db \<Rightarrow> identity_row list \<Rightarrow> bool" where
  "identity_write s t = (map (\<lambda>x. (xi_providerId x, xi_issuer x, xi_subject x)) t = map (\<lambda>x. (xi_providerId x, xi_issuer x, xi_subject x)) (identities s)
     \<or> (\<exists>p subject. p \<in> set (oidcProviders s) \<and> identity_for s (op_issuer p) subject = None
         \<and> map (\<lambda>x. (xi_providerId x, xi_issuer x, xi_subject x)) t
           = map (\<lambda>x. (xi_providerId x, xi_issuer x, xi_subject x)) (identities s) @ [(op_id p, op_issuer p, subject)]))"

lemma identity_write_same: "identities s1 = identities s \<Longrightarrow> identity_write s (identities s1)"
  by (simp add: identity_write_def)

lemma identity_write_touch:
  "identity_write s t \<Longrightarrow> identity_write s (update_rows (\<lambda>x. xi_id x = i) (\<lambda>x. x\<lparr>xi_lastLoginAt := Some now, xi_email := e\<rparr>) t)"
  by (simp add: identity_write_def map_update_rows)

lemma identity_write_new:
  "p \<in> set (oidcProviders s) \<Longrightarrow> identity_for s (op_issuer p) subject = None \<Longrightarrow> identity_write s (identities s @ [new_identity i u p subject e])"
  by (auto simp: identity_write_def new_identity_def)

lemma login_identity_write:
  assumes "login_identity ids p t email ip s = (r, s1)" "p \<in> set (oidcProviders s)"
  shows "identity_write s (identities s1)"
  using assms(1)
proof (cases rule: login_identity_cases)
  case (provisioned r1)
  show ?thesis
    by (simp add: provision_tables[OF provisioned(6)] identity_write_new[OF assms(2) provisioned(1)])
qed (simp_all add: identity_write_same)

lemma finishLink_write:
  assumes "finishLink ids p userId subject email ip returnTo s = (r, s1)" "p \<in> set (oidcProviders s)"
  shows "identity_write s (identities s1)"
  using assms
  by (auto simp: finishLink_def identity_write_new intro: identity_write_same split: if_splits option.splits)

lemma finish_write:
  assumes "finish env now ids row q state ip st = (r, st1)"
  shows "identity_write (as_db st) (identities (as_db st1))"
  using assms
proof (cases rule: finish_cases)
  case (stopped e)
  then show ?thesis by (auto simp: set_db_def intro!: identity_write_same)
next
  case (reached p t)
  then have p: "p \<in> set (oidcProviders (as_db st))" by (auto simp: provider_by_id_def dest: find_row_Some)
  show ?thesis
  proof (cases "ls_purpose row = SSO_LINK")
    case True
    then show ?thesis using reached(4) finishLink_write[OF _ p] by (auto split: prod.splits)
  next
    case False
    then have "finishLogin now ids p t (claimed_email t) ip (ls_returnTo row) st = (r, st1)" using reached(4) by simp
    then show ?thesis
    proof (cases rule: finishLogin_cases)
      case (refused e s1)
      then show ?thesis using login_identity_write[OF refused(1) p] by simp
    next
      case (found x s1 ans st2 a)
      have "identities (as_db st1) = identities (touch_identity now (claimed_email t) (xi_id x) s1)"
        using found(3) signInVerifiedUser_tables(3)[OF found(2)] by (simp add: set_db_def)
      then show ?thesis using identity_write_touch[OF login_identity_write[OF found(1) p]] by simp
    qed
  qed
qed

lemma callback_write:
  assumes "callback env now (\<lambda>d. d) ids q cookieState ip st = (r, st1)"
  shows "identity_write (as_db st) (identities (as_db st1))" "oidcProviders (as_db st1) = oidcProviders (as_db st)"
proof -
  have "identity_write (as_db st) (identities (as_db st1)) \<and> oidcProviders (as_db st1) = oidcProviders (as_db st)"
    using assms
  proof (cases rule: callback_cases)
    case (early e)
    then show ?thesis by (auto intro: identity_write_same)
  next
    case (finished row r0)
    have "identity_for (consumed now row s) = identity_for s" for s by (simp add: identity_for_def fun_eq_iff)
    then show ?thesis using finish_write[OF finished(5)] finish_states(2)[OF finished(5)] by (simp add: identity_write_def)
  qed
  then show "identity_write (as_db st) (identities (as_db st1))" "oidcProviders (as_db st1) = oidcProviders (as_db st)" by simp_all
qed

section \<open>One account per identity\<close>

datatype sso_event =
    Sso_start time sso_random id login_purpose "id option" "string option"
  | Sso_callback time sso_ids query "string option" string
  | Sso_unlink id id "string option"
  | Sso_create id actor provider_input
  | Sso_update actor id provider_input
  | Sso_delete actor id
  | Sso_expire time

text \<open>A generated provider id is new.\<close>

fun sso_step :: "sso_env \<Rightarrow> auth_state \<Rightarrow> sso_event \<Rightarrow> auth_state" where
  "sso_step env st (Sso_start now rnd p purpose u ret) = set_db (\<lambda>s. snd (start_sso env now rnd p purpose u ret s)) st"
| "sso_step env st (Sso_callback now ids q cookieState ip) = snd (callback env now (\<lambda>d. d) ids q cookieState ip st)"
| "sso_step env st (Sso_unlink u i ip) = set_db (\<lambda>s. snd (unlink u i ip s)) st"
| "sso_step env st (Sso_create i a dto) =
     (if i \<in> op_id ` set (oidcProviders (as_db st)) then st else set_db (\<lambda>s. snd (createProvider env i a dto s)) st)"
| "sso_step env st (Sso_update a i dto) = set_db (\<lambda>s. snd (updateProvider env a i dto s)) st"
| "sso_step env st (Sso_delete a i) = set_db (\<lambda>s. snd (deleteProvider a i s)) st"
| "sso_step env st (Sso_expire now) = set_db (expire_states now) st"

definition identity_key :: "identity_row \<Rightarrow> string \<times> string" where
  "identity_key x = (xi_issuer x, xi_subject x)"

definition identity_inv :: "auth_state \<Rightarrow> bool" where
  "identity_inv st = (distinct (map identity_key (identities (as_db st))) \<and> distinct (map op_id (oidcProviders (as_db st)))
     \<and> (\<lambda>x. (xi_providerId x, xi_issuer x)) ` set (identities (as_db st)) \<subseteq> (\<lambda>p. (op_id p, op_issuer p)) ` set (oidcProviders (as_db st)))"

lemma identity_inv_write:
  assumes "identity_inv st" "identity_write (as_db st) (identities (as_db st1))" "oidcProviders (as_db st1) = oidcProviders (as_db st)"
  shows "identity_inv st1"
proof -
  let ?k = "\<lambda>x. (xi_providerId x, xi_issuer x, xi_subject x)"
  let ?old = "identities (as_db st)" and ?new = "identities (as_db st1)"
  have keys: "map identity_key t = map snd (map ?k t)" for t by (simp add: identity_key_def[abs_def] comp_def)
  have places: "(\<lambda>x. (xi_providerId x, xi_issuer x)) ` set t = (\<lambda>(a, b, c). (a, b)) ` set (map ?k t)" for t by (force simp: image_image)
  consider (same) "map ?k ?new = map ?k ?old"
    | (added) p subject where "p \<in> set (oidcProviders (as_db st))" "identity_for (as_db st) (op_issuer p) subject = None"
        "map ?k ?new = map ?k ?old @ [(op_id p, op_issuer p, subject)]"
    using assms(2) unfolding identity_write_def by blast
  then show ?thesis
  proof cases
    case same
    then show ?thesis using assms(1,3) by (simp only: identity_inv_def keys places)
  next
    case added
    have "(op_issuer p, subject) \<notin> set (map identity_key ?old)"
      using added(2) by (auto simp: identity_for_def find_row_None identity_key_def)
    moreover have "(op_id p, op_issuer p) \<in> (\<lambda>p. (op_id p, op_issuer p)) ` set (oidcProviders (as_db st))" using added(1) by (rule imageI)
    ultimately show ?thesis using assms(1,3) unfolding identity_inv_def keys places added(3) by simp
  qed
qed

lemma identity_inv_subset:
  assumes "identity_inv st" "identities (as_db st1) = filter P (identities (as_db st))" "oidcProviders (as_db st1) = oidcProviders (as_db st)"
  shows "identity_inv st1"
  using assms by (auto simp: identity_inv_def distinct_map_filter)

lemma identity_inv_frame:
  assumes "identity_inv st" "identities (as_db st1) = identities (as_db st)"
    "map (\<lambda>p. (op_id p, op_issuer p)) (oidcProviders (as_db st1)) = map (\<lambda>p. (op_id p, op_issuer p)) (oidcProviders (as_db st))"
  shows "identity_inv st1"
proof -
  have ids: "map op_id t = map fst (map (\<lambda>p. (op_id p, op_issuer p)) t)" for t by (simp add: comp_def)
  have places: "(\<lambda>p. (op_id p, op_issuer p)) ` set t = set (map (\<lambda>p. (op_id p, op_issuer p)) t)" for t by simp
  show ?thesis using assms unfolding identity_inv_def ids places by simp
qed

lemma identity_inv_deleted:
  assumes "identity_inv st" "identities (as_db st1) = delete_rows (\<lambda>x. xi_providerId x = i) (identities (as_db st))"
    "oidcProviders (as_db st1) = delete_rows (\<lambda>p. op_id p = i) (oidcProviders (as_db st))"
  shows "identity_inv st1"
  using assms by (auto simp: identity_inv_def delete_rows_def distinct_map_filter image_iff subset_iff)

lemma identity_inv_created:
  assumes "identity_inv st" "op_id p \<notin> op_id ` set (oidcProviders (as_db st))" "identities (as_db st1) = identities (as_db st)"
    "oidcProviders (as_db st1) = oidcProviders (as_db st) @ [p]"
  shows "identity_inv st1"
  using assms by (auto simp: identity_inv_def)

lemma provider_ops_tables:
  "snd (createProvider env i a dto s) = s \<or> identities (snd (createProvider env i a dto s)) = identities s
     \<and> (\<exists>p. op_id p = i \<and> oidcProviders (snd (createProvider env i a dto s)) = oidcProviders s @ [p])"
  "identities (snd (updateProvider env a i dto s)) = identities s"
  "map (\<lambda>p. (op_id p, op_issuer p)) (oidcProviders (snd (updateProvider env a i dto s))) = map (\<lambda>p. (op_id p, op_issuer p)) (oidcProviders s)"
  "snd (deleteProvider a i s) = s \<or> identities (snd (deleteProvider a i s)) = delete_rows (\<lambda>x. xi_providerId x = i) (identities s)
     \<and> oidcProviders (snd (deleteProvider a i s)) = delete_rows (\<lambda>p. op_id p = i) (oidcProviders s)"
  by (auto simp: createProvider_def Let_def new_provider_def split: sum.splits)
    (auto simp: updateProvider_def deleteProvider_def Let_def map_update_rows updated_provider_def split: sum.splits option.splits)

lemma sso_step_inv: "identity_inv st \<Longrightarrow> identity_inv (sso_step env st e)"
proof (cases e)
  case (Sso_start now rnd p purpose u ret)
  assume "identity_inv st"
  then show ?thesis unfolding Sso_start
    by (rule identity_inv_frame) (simp_all add: set_db_def start_sso_def Let_def split: option.split sum.split)
next
  case (Sso_callback now ids q cookieState ip)
  assume "identity_inv st"
  then show ?thesis unfolding Sso_callback
    by (cases "callback env now (\<lambda>d. d) ids q cookieState ip st") (simp add: identity_inv_write callback_write)
next
  case (Sso_unlink u i ip)
  assume inv: "identity_inv st"
  have "snd (unlink u i ip s) = s \<or> (\<exists>P. identities (snd (unlink u i ip s)) = filter P (identities s) \<and> oidcProviders (snd (unlink u i ip s)) = oidcProviders s)" for s
    by (auto simp: unlink_def delete_rows_def split: option.splits)
  from this[of "as_db st"] show ?thesis unfolding Sso_unlink
    using inv identity_inv_subset[OF inv] by (auto simp: set_db_def)
next
  case (Sso_create i a dto)
  assume inv: "identity_inv st"
  show ?thesis
    using inv identity_inv_created[OF inv] provider_ops_tables(1)[of env i a dto "as_db st"] by (auto simp: Sso_create set_db_def)
next
  case (Sso_update a i dto)
  assume "identity_inv st"
  then show ?thesis unfolding Sso_update by (rule identity_inv_frame) (simp_all add: set_db_def provider_ops_tables)
next
  case (Sso_delete a i)
  assume inv: "identity_inv st"
  show ?thesis
    using inv identity_inv_deleted[OF inv] provider_ops_tables(4)[of a i "as_db st"] by (auto simp: Sso_delete set_db_def)
next
  case (Sso_expire now)
  assume "identity_inv st"
  then show ?thesis unfolding Sso_expire by (rule identity_inv_frame) (simp_all add: set_db_def expire_states_def)
qed

interpretation sso: machine "sso_step env" identity_inv for env
  by unfold_locales (rule sso_step_inv)

text \<open>
  Over any sequence of provider changes, round trips and unlinkings, one issuer and subject belong to one account,
  and every identity carries the issuer its provider was created with.
\<close>

theorem identity_links_stay_unique:
  assumes "identity_inv st"
  shows "identity_inv (foldl (sso_step env) st es)"
  by (rule sso.inv_run[OF assms])

text \<open>What a round trip may add to the accounts.\<close>

definition confined_account :: "sso_ids \<Rightarrow> user_row \<Rightarrow> bool" where
  "confined_account ids u = (u_id u = si_user ids \<and> \<not> has_password u \<and> \<not> u_isPlatformAdmin u \<and> u_platformPermissions u = [])"

definition confined_membership :: "sso_ids \<Rightarrow> mapping_row table \<Rightarrow> membership_row \<Rightarrow> bool" where
  "confined_membership ids gs m = (m_userId m = si_user ids \<and> m_roleType m = BUSINESS_USER
     \<and> list_ex (\<lambda>g. m_customerId m = Some (gp_customerId g) \<and> set (m_capabilities m) \<subseteq> set (gp_capabilities g)) gs)"

definition accounts_added :: "sso_ids \<Rightarrow> db \<Rightarrow> db \<Rightarrow> bool" where
  "accounts_added ids s s1 = (\<exists>us ms. users s1 = users s @ us \<and> memberships s1 = memberships s @ ms
     \<and> list_all (confined_account ids) us \<and> list_all (confined_membership ids (groupMappings s)) ms)"

lemma accounts_same: "users s1 = users s \<Longrightarrow> memberships s1 = memberships s \<Longrightarrow> accounts_added ids s s1"
  unfolding accounts_added_def by (intro exI[of _ "[]"]) simp

lemma provision_confined:
  assumes "provision ids p t email s = (r, s1)"
  shows "accounts_added ids s s1"
proof -
  have "confined_account ids (provisioned_user ids t email)" by (simp add: confined_account_def provisioned_user_def has_password_def)
  moreover have "confined_membership ids (groupMappings s) (mapped_membership ids x)"
    if x: "mapped_place s (mapping_for s p t) = Some x" for x
  proof -
    obtain g biz role where g: "mapping_for s p t = Some g" "business_of s (gp_customerId g) = Some biz" "x = (biz, role, g)"
        "find_row (\<lambda>r. rl_tenantId r = c_tenantId biz \<and> rl_type r = BUSINESS_USER) (roles s) = Some role"
      using x by (auto simp: mapped_place_def split: option.splits)
    have "g \<in> set (groupMappings s)" using g(1) by (auto simp: mapping_for_def dest: find_row_Some)
    moreover have "c_id biz = gp_customerId g" using g(2) by (auto simp: business_of_def dest: find_row_Some)
    moreover have "rl_type role = BUSINESS_USER" using find_row_Some[OF g(4)] by simp
    ultimately show ?thesis
      by (auto simp: confined_membership_def mapped_membership_def g(3) list_ex_iff json_strings_def set_sanitize_strings)
  qed
  ultimately show ?thesis
    unfolding accounts_added_def provision_tables[OF assms] by (auto split: option.split)
qed

lemma finish_confined:
  assumes "finish env now ids row q state ip st = (r, st1)"
  shows "accounts_added ids (as_db st) (as_db st1)"
  using assms
proof (cases rule: finish_cases)
  case (stopped e)
  then show ?thesis by (auto simp: set_db_def intro!: accounts_same)
next
  case (reached p t)
  show ?thesis
  proof (cases "ls_purpose row = SSO_LINK")
    case True
    then show ?thesis using reached(4) by (auto simp: finishLink_tables intro!: accounts_same split: prod.splits)
  next
    case False
    then have log: "finishLogin now ids p t (claimed_email t) ip (ls_returnTo row) st = (r, st1)" using reached(4) by simp
    have acc: "accounts_added ids (as_db st) s1" if "login_identity ids p t (claimed_email t) ip (as_db st) = (r1, s1)" for r1 s1
      using that by (cases rule: login_identity_cases) (auto intro: provision_confined accounts_same)
    with log show ?thesis
    proof (cases rule: finishLogin_cases)
      case (found x s1 ans st2 a)
      then have "users (as_db st1) = users s1" "memberships (as_db st1) = memberships s1"
        using signInVerifiedUser_tables[OF found(2)] by (simp_all add: set_db_def)
      then show ?thesis using acc[OF found(1)] by (simp add: accounts_added_def)
    next
      case (refused e s1)
      then show ?thesis using acc by simp
    qed
  qed
qed

text \<open>
  A round trip changes no existing account. It adds at most one, without password and without platform rights, and to
  that account at most the membership in the business of one of the group mappings, as a Business User with the
  capabilities of the mapping.
\<close>

theorem provisioning_confined:
  assumes "callback env now (\<lambda>d. d) ids q cookieState ip st = (r, st1)"
  shows "\<exists>us ms. users (as_db st1) = users (as_db st) @ us \<and> memberships (as_db st1) = memberships (as_db st) @ ms
    \<and> list_all (confined_account ids) us \<and> list_all (confined_membership ids (groupMappings (as_db st))) ms"
  using assms
proof (cases rule: callback_cases)
  case (early e)
  then show ?thesis by (intro exI[of _ "[]"]) auto
next
  case (finished row r0)
  show ?thesis using finish_confined[OF finished(5)] by (simp add: accounts_added_def)
qed

section \<open>Witnesses\<close>

text \<open>A first sign-in through a provider that creates accounts and maps a group to a business.\<close>

definition sample_url :: url where
  "sample_url = \<lparr>ur_protocol = ''https:'', ur_hostname = ''idp'', ur_username = [], ur_password = [], ur_hash = []\<rparr>"

definition sample_token :: id_token where
  "sample_token = \<lparr>it_sub = ''s1'', it_iss = ''https://idp'', it_claims = (\<lambda>k.
     if k = ''email'' then JStr ''N@x'' else if k = ''email_verified'' then JBool True
     else if k = ''groups'' then JArr [JStr ''staff''] else JUndefined)\<rparr>"

definition sample_env :: sso_env where
  "sample_env = \<lparr>se_url = (\<lambda>v. Some sample_url), se_insecure = False, se_sha = (\<lambda>x. x), se_enc = (\<lambda>x. x), se_challenge = (\<lambda>x. x),
     se_discovery = (\<lambda>p. True), se_exchange = (\<lambda>p q v state nonce. if q ''code'' = Some ''ok'' then Some (Some sample_token) else None)\<rparr>"

definition sample_provider :: provider_row where
  "sample_provider = \<lparr>op_id = ''p1'', op_name = ''IdP'', op_issuer = ''https://idp'', op_clientId = ''c'', op_clientSecretEnc = None,
     op_redirectUri = ''https://r'', op_scopes = ''openid'', op_enabled = True, op_allowProvisioning = True, op_groupsClaim = Some ''groups''\<rparr>"

definition sample_state :: login_state_row where
  "sample_state = \<lparr>ls_id = ''l1'', ls_stateHash = ''st'', ls_providerId = ''p1'', ls_nonce = ''n'', ls_codeVerifier = ''v'',
     ls_purpose = SSO_LOGIN, ls_userId = None, ls_returnTo = Some ''/dashboard'', ls_expiresAt = 600000\<rparr>"

definition sample_sso :: auth_state where
  "sample_sso = \<lparr>as_db = empty_db\<lparr>users := [plain_user ''u1''], oidcProviders := [sample_provider], loginStates := [sample_state],
     businesses := [one_business ''b1''],
     roles := [\<lparr>rl_id = ''r1'', rl_tenantId = ''t1'', rl_type = BUSINESS_USER\<rparr>],
     groupMappings := [\<lparr>gp_id = ''g1'', gp_providerId = ''p1'', gp_groupValue = ''staff'', gp_customerId = ''b1'', gp_capabilities = []\<rparr>]\<rparr>,
     as_failures = Map.empty, as_totp = Map.empty, as_recovery = Map.empty\<rparr>"

definition sample_query :: query where
  "sample_query = [''state'' \<mapsto> ''st'', ''code'' \<mapsto> ''ok'']"

definition sample_sso_ids :: sso_ids where
  "sample_sso_ids = \<lparr>si_user = ''u9'', si_identity = ''x9'', si_membership = ''m9'', si_random = ''r''\<rparr>"

definition sample_callback :: "(sso_failure + sso_answer) \<times> auth_state" where
  "sample_callback = callback sample_env 0 (\<lambda>d. d) sample_sso_ids sample_query (Some ''st'') ''ip'' sample_sso"

lemma sample_session: "fst sample_callback = Inr (Sso_session (SignedIn (issueFullToken 0 (provisioned_user sample_sso_ids sample_token ''n@x'') (Some ''t1'') (Some BUSINESS_USER) (Some ''b1'') [])) ''/dashboard'')"
  by code_simp

lemma sample_session_run:
  "callback sample_env 0 (\<lambda>d. d) sample_sso_ids sample_query (Some ''st'') ''ip'' sample_sso
    = (Inr (Sso_session (SignedIn (issueFullToken 0 (provisioned_user sample_sso_ids sample_token ''n@x'') (Some ''t1'') (Some BUSINESS_USER) (Some ''b1'') [])) ''/dashboard''),
       snd sample_callback)"
  using sample_session by (simp add: prod_eq_iff sample_callback_def)

theorem sso_session_needs_identity_witness:
  "\<exists>row p t u. state_row sample_env sample_query (as_db sample_sso) = Some row \<and> sample_query ''state'' = Some ''st''
    \<and> provider_by_id (as_db sample_sso) (ls_providerId row) = Some p \<and> op_enabled p
    \<and> verified_token sample_env p row sample_query ''st'' = Some t
    \<and> entitled sample_sso_ids p t (as_db sample_sso) ''u9''
    \<and> user_by_id (as_db (snd sample_callback)) ''u9'' = Some u \<and> u_status u = U_ACTIVE"
  using sso_session_needs_identity[OF sample_session_run] by (auto simp: issueFullToken_def provisioned_user_def sample_sso_ids_def)

theorem sso_round_trip_once_witness:
  "fst (callback sample_env 5 (\<lambda>_. as_db (snd sample_callback)) sample_sso_ids sample_query (Some ''st'') ''ip'' sample_sso) = Inl (Sso ''expired'' False)"
  by (rule sso_round_trip_once[OF sample_session_run]) simp_all

theorem identity_links_stay_unique_witness:
  "identity_inv (foldl (sso_step sample_env) sample_sso [Sso_callback 0 sample_sso_ids sample_query (Some ''st'') ''ip''])"
  by (rule identity_links_stay_unique) (simp add: identity_inv_def sample_sso_def empty_db_def)

theorem provisioning_confined_witness:
  "\<exists>us ms. users (as_db (snd sample_callback)) = users (as_db sample_sso) @ us
    \<and> memberships (as_db (snd sample_callback)) = memberships (as_db sample_sso) @ ms
    \<and> list_all (confined_account sample_sso_ids) us \<and> list_all (confined_membership sample_sso_ids (groupMappings (as_db sample_sso))) ms"
  by (rule provisioning_confined[OF sample_session_run])

end
