(* ===== verification/Passkeys.thy ===== *)
theory Passkeys
  imports Auth
begin

text \<open>
  Passkeys for sign-in and step-up (\<open>passkeys/passkeys.service.ts\<close>): challenges, registration, assertion and the list of
  a user. What is not in the repository is the parameter \<open>webauthn\<close>: the challenge in the client data (\<open>None\<close> when it
  cannot be decoded), the decoding of a user handle, and the two verifications of \<open>@simplewebauthn/server\<close>. The options a
  browser gets are the challenge and the listed credentials.
\<close>

definition CHALLENGE_TTL_MS :: int where "CHALLENGE_TTL_MS = 5 * minute_ms"
definition MAX_PASSKEYS :: nat where "MAX_PASSKEYS = 10"

record passkey_response =
  pk_clientData :: string
  pk_id :: "string option"
  pk_handle :: "string option"

record passkey_credential =
  pc_id :: string
  pc_publicKey :: string
  pc_counter :: int

text \<open>A verification throws, answers no, or answers yes with what it found.\<close>

datatype 'a verdict = Threw | Unverified | Verified 'a

record webauthn =
  wa_challenge :: "string \<Rightarrow> string option"
  wa_handle :: "string \<Rightarrow> string"
  wa_register :: "passkey_response \<Rightarrow> string \<Rightarrow> passkey_credential verdict"
  wa_assert :: "passkey_response \<Rightarrow> string \<Rightarrow> mfa_row \<Rightarrow> int verdict"

section \<open>Challenges\<close>

definition saveChallenge :: "time \<Rightarrow> string \<Rightarrow> ceremony \<Rightarrow> id option \<Rightarrow> db \<Rightarrow> db" where
  "saveChallenge now challenge purpose userId s = s\<lparr>challenges := challenges s @
     [\<lparr>wc_challenge = challenge, wc_purpose = purpose, wc_userId = userId, wc_expiresAt = now + CHALLENGE_TTL_MS\<rparr>]\<rparr>"

definition challenge_open :: "time \<Rightarrow> string \<Rightarrow> ceremony \<Rightarrow> id option \<Rightarrow> challenge_row \<Rightarrow> bool" where
  "challenge_open now challenge purpose userId r = (wc_challenge r = challenge \<and> wc_purpose r = purpose \<and> wc_expiresAt r > now
     \<and> wc_userId r = or_null userId)"

definition consume_challenge :: "webauthn \<Rightarrow> time \<Rightarrow> string \<Rightarrow> ceremony \<Rightarrow> id option \<Rightarrow> db \<Rightarrow> string result \<times> db" where
  "consume_challenge w now clientData purpose userId s = (case wa_challenge w clientData of
     None \<Rightarrow> (Inl (BadRequest ''Malformed passkey response''), s)
   | Some challenge \<Rightarrow>
       if challenge = [] \<or> length challenge > 200 then (Inl (BadRequest ''Malformed passkey response''), s)
       else let P = challenge_open now challenge purpose userId; s1 = s\<lparr>challenges := delete_rows P (challenges s)\<rparr>
            in if count_rows P (challenges s) \<noteq> 1 then (Inl (Unauthorized ''This passkey request has expired. Try again.''), s1)
               else (Inr challenge, s1))"

definition expire_challenges :: "time \<Rightarrow> db \<Rightarrow> db" where
  "expire_challenges now s = s\<lparr>challenges := delete_rows (\<lambda>r. wc_expiresAt r < now) (challenges s)\<rparr>"

definition credentials :: "db \<Rightarrow> id \<Rightarrow> mfa_row list" where
  "credentials s userId = filter (\<lambda>m. mm_userId m = userId \<and> mm_type m = WEBAUTHN \<and> mm_isActive m) (mfaMethods s)"

definition credential_ids :: "db \<Rightarrow> id \<Rightarrow> string list" where
  "credential_ids s userId = map (\<lambda>m. the (mm_credentialId m)) (filter (\<lambda>m. truthy (mm_credentialId m)) (credentials s userId))"

section \<open>Registration\<close>

definition registrationOptions :: "time \<Rightarrow> string \<Rightarrow> id \<Rightarrow> db \<Rightarrow> string list result \<times> db" where
  "registrationOptions now challenge userId s =
     (if user_by_id s userId = None then (Inl (NotFound ''User not found''), s)
      else if length (credentials s userId) \<ge> MAX_PASSKEYS then (Inl (BadRequest ''An account can hold at most 10 passkeys''), s)
      else (Inr (credential_ids s userId), saveChallenge now challenge REGISTER (Some userId) s))"

definition new_passkey :: "id \<Rightarrow> id \<Rightarrow> passkey_credential \<Rightarrow> string option \<Rightarrow> mfa_row" where
  "new_passkey i userId cred name = \<lparr>mm_id = i, mm_userId = userId, mm_type = WEBAUTHN, mm_isActive = True, mm_totpSecret = None,
     mm_lastTotpStep = None, mm_codeHash = None, mm_usedAt = None, mm_credentialId = Some (pc_id cred), mm_publicKey = Some (pc_publicKey cred),
     mm_signCount = Some (pc_counter cred),
     mm_name = Some (take 60 (case or_null (map_option js_trim name) of None \<Rightarrow> ''Passkey'' | Some n \<Rightarrow> n)), mm_lastUsedAt = None\<rparr>"

definition register_passkey ::
  "webauthn \<Rightarrow> time \<Rightarrow> id \<Rightarrow> id \<Rightarrow> passkey_response \<Rightarrow> string option \<Rightarrow> string option \<Rightarrow> db \<Rightarrow> mfa_row result \<times> db" where
  "register_passkey w now i userId r name ip s = (case consume_challenge w now (pk_clientData r) REGISTER (Some userId) s of
     (Inl e, s1) \<Rightarrow> (Inl e, s1)
   | (Inr challenge, s1) \<Rightarrow> (case wa_register w r challenge of
       Threw \<Rightarrow> (Inl (BadRequest ''Passkey could not be verified''), s1)
     | Unverified \<Rightarrow> (Inl (BadRequest ''Passkey could not be verified''), s1)
     | Verified cred \<Rightarrow>
         if find_row (\<lambda>m. mm_type m = WEBAUTHN \<and> mm_credentialId m = Some (pc_id cred)) (mfaMethods s1) \<noteq> None
         then (Inl (BadRequest ''This passkey is already registered''), s1)
         else let row = new_passkey i userId cred name
              in (Inr row, audit_log ''PASSKEY_REGISTERED'' (Some userId) None None ip (Some ''user'') (Some userId) False
                    (s1\<lparr>mfaMethods := mfaMethods s1 @ [row]\<rparr>))))"

definition list_passkeys :: "db \<Rightarrow> id \<Rightarrow> (id \<times> string option \<times> time option) list" where
  "list_passkeys s userId = map (\<lambda>m. (mm_id m, mm_name m, mm_lastUsedAt m)) (credentials s userId)"

definition remove_passkey :: "id \<Rightarrow> id \<Rightarrow> string option \<Rightarrow> db \<Rightarrow> unit result \<times> db" where
  "remove_passkey userId i ip s =
     (let P = (\<lambda>m. mm_id m = i \<and> mm_userId m = userId \<and> mm_type m = WEBAUTHN) in
      if count_rows P (mfaMethods s) = 0 then (Inl (NotFound ''Passkey not found''), s)
      else (Inr (), audit_log ''PASSKEY_REMOVED'' (Some userId) None None ip (Some ''user'') (Some userId) False
              (s\<lparr>mfaMethods := delete_rows P (mfaMethods s)\<rparr>)))"

section \<open>Assertion\<close>

definition loginOptions :: "time \<Rightarrow> string \<Rightarrow> db \<Rightarrow> db" where
  "loginOptions now challenge s = saveChallenge now challenge LOGIN None s"

definition stepUpOptions :: "time \<Rightarrow> string \<Rightarrow> id \<Rightarrow> db \<Rightarrow> string list result \<times> db" where
  "stepUpOptions now challenge userId s =
     (if credentials s userId = [] then (Inl (BadRequest ''You have no passkeys''), s)
      else (Inr (credential_ids s userId), saveChallenge now challenge STEP_UP (Some userId) s))"

definition passkey_of :: "db \<Rightarrow> string option \<Rightarrow> id option \<Rightarrow> mfa_row option" where
  "passkey_of s credentialId userId = (case credentialId of
     None \<Rightarrow> None
   | Some c \<Rightarrow> find_row (\<lambda>m. mm_type m = WEBAUTHN \<and> mm_isActive m \<and> mm_credentialId m = Some c
       \<and> (truthy userId \<longrightarrow> Some (mm_userId m) = userId)) (mfaMethods s))"

definition failed_ceremony :: "ceremony \<Rightarrow> id option \<Rightarrow> string option \<Rightarrow> db \<Rightarrow> db" where
  "failed_ceremony purpose userId ip = audit_log (if purpose = LOGIN then ''LOGIN_FAILURE'' else ''STEP_UP_FAILED'') userId None None ip None None False"

text \<open>The account an assertion proves.\<close>

definition assert_passkey ::
  "webauthn \<Rightarrow> time \<Rightarrow> passkey_response \<Rightarrow> ceremony \<Rightarrow> id option \<Rightarrow> string option \<Rightarrow> db \<Rightarrow> id result \<times> db" where
  "assert_passkey w now r purpose userId ip s = (case consume_challenge w now (pk_clientData r) purpose userId s of
     (Inl e, s1) \<Rightarrow> (Inl e, s1)
   | (Inr challenge, s1) \<Rightarrow> (case passkey_of s1 (pk_id r) userId of
       None \<Rightarrow> (Inl (Unauthorized ''That passkey is not registered here''), failed_ceremony purpose userId ip s1)
     | Some m \<Rightarrow>
         if mm_publicKey m = None \<or> \<not> truthy (mm_credentialId m)
         then (Inl (Unauthorized ''That passkey is not registered here''), failed_ceremony purpose userId ip s1)
         else if truthy (pk_handle r) \<and> wa_handle w (the (pk_handle r)) \<noteq> mm_userId m
         then (Inl (Unauthorized ''That passkey is not registered here''), s1)
         else (case wa_assert w r challenge m of
             Threw \<Rightarrow> (Inl (Unauthorized ''The passkey could not be verified''), failed_ceremony purpose (Some (mm_userId m)) ip s1)
           | Unverified \<Rightarrow> (Inl (Unauthorized ''The passkey could not be verified''), s1)
           | Verified counter \<Rightarrow> (Inr (mm_userId m), s1\<lparr>mfaMethods := update_rows (\<lambda>q. mm_id q = mm_id m)
               (\<lambda>q. q\<lparr>mm_signCount := Some counter, mm_lastUsedAt := Some now\<rparr>) (mfaMethods s1)\<rparr>))))"

definition passkey_login :: "webauthn \<Rightarrow> time \<Rightarrow> passkey_response \<Rightarrow> string \<Rightarrow> auth_state \<Rightarrow> sign_in result \<times> auth_state" where
  "passkey_login w now r ip st = (case assert_passkey w now r LOGIN None (Some ip) (as_db st) of
     (Inl e, s1) \<Rightarrow> (Inl e, st\<lparr>as_db := s1\<rparr>)
   | (Inr userId, s1) \<Rightarrow> (case signInVerifiedUser now userId ip True (st\<lparr>as_db := s1\<rparr>) of
       (Inl e, st2) \<Rightarrow> (Inl e, st2)
     | (Inr ans, st2) \<Rightarrow> (Inr ans, set_db (audit_log ''PASSKEY_LOGIN'' (Some userId) None None (Some ip) (Some ''user'') (Some userId) False) st2)))"

definition passkey_step_up :: "webauthn \<Rightarrow> time \<Rightarrow> id \<Rightarrow> passkey_response \<Rightarrow> string option \<Rightarrow> db \<Rightarrow> string result \<times> db" where
  "passkey_step_up w now userId r ip s = (case assert_passkey w now r STEP_UP (Some userId) ip s of
     (Inl e, s1) \<Rightarrow> (Inl e, s1)
   | (Inr _, s1) \<Rightarrow> (Inr ''passkey'', audit_log ''STEP_UP_VERIFIED'' (Some userId) None None ip None None False s1))"

end
