(* ===== verification/PasskeyProofs.thy ===== *)
theory PasskeyProofs
  imports Passkeys SsoProofs
begin

text \<open>
  Properties of passkeys: a sign-in proves a registered key and a fresh challenge, a challenge counts once, and the
  limit on passkeys is checked too early.
\<close>

section \<open>Consuming a challenge\<close>

lemma consume_challenge_Inr:
  assumes "consume_challenge w now cd purpose userId s = (Inr ch, s1)"
  shows "wa_challenge w cd = Some ch" "count_rows (challenge_open now ch purpose userId) (challenges s) = 1"
    "s1 = s\<lparr>challenges := delete_rows (challenge_open now ch purpose userId) (challenges s)\<rparr>"
  using assms by (auto simp: consume_challenge_def Let_def split: option.splits if_splits)

lemma consume_challenge_Inl:
  assumes "consume_challenge w now cd purpose userId s = (Inl e, s1)"
  obtains P where "s1 = s\<lparr>challenges := delete_rows P (challenges s)\<rparr>"
proof (cases "s1 = s")
  case True
  then have "s1 = s\<lparr>challenges := delete_rows (\<lambda>_. False) (challenges s)\<rparr>" by (simp add: delete_rows_def)
  then show thesis by (rule that)
next
  case False
  then show thesis using assms that by (auto simp: consume_challenge_def Let_def split: option.splits if_splits)
qed

lemma assert_passkey_Inr:
  assumes "assert_passkey w now r purpose userId ip s = (Inr u, s1)"
  obtains ch m counter where "wa_challenge w (pk_clientData r) = Some ch" "count_rows (challenge_open now ch purpose userId) (challenges s) = 1"
    "m \<in> set (mfaMethods s)" "mm_type m = WEBAUTHN" "mm_isActive m" "mm_credentialId m = pk_id r"
    "\<not> truthy (pk_handle r) \<or> wa_handle w (the (pk_handle r)) = mm_userId m"
    "wa_assert w r ch m = Verified counter" "u = mm_userId m" "users s1 = users s"
    "challenges s1 = delete_rows (challenge_open now ch purpose userId) (challenges s)"
proof -
  obtain c s2 where c: "consume_challenge w now (pk_clientData r) purpose userId s = (c, s2)" by (rule prod.exhaust)
  obtain ch where ch: "c = Inr ch" using assms c by (auto simp: assert_passkey_def split: sum.splits)
  note s2 = consume_challenge_Inr[OF c[unfolded ch]]
  obtain m where m: "passkey_of s2 (pk_id r) userId = Some m" using assms c ch by (auto simp: assert_passkey_def split: option.splits)
  have "m \<in> set (mfaMethods s)" "mm_type m = WEBAUTHN" "mm_isActive m" "mm_credentialId m = pk_id r"
    using m by (auto simp: passkey_of_def s2(3) split: option.splits dest: find_row_Some)
  moreover obtain counter where "wa_assert w r ch m = Verified counter" "u = mm_userId m" "users s1 = users s2" "challenges s1 = challenges s2"
      "\<not> truthy (pk_handle r) \<or> wa_handle w (the (pk_handle r)) = mm_userId m"
    using assms c ch m by (auto simp: assert_passkey_def split: if_splits verdict.splits)
  ultimately show thesis using that[of ch m counter] s2 by simp
qed

lemma signInVerifiedUser_challenges: "challenges (as_db (snd (signInVerifiedUser now i ip m st))) = challenges (as_db st)"
  by (simp add: signInVerifiedUser_def startSession_eq Let_def split: option.split sum.split prod.split)

lemma login_challenges:
  assumes "assert_passkey w now r LOGIN None (Some ip) (as_db st) = (a, s1)"
  shows "challenges (as_db (snd (passkey_login w now r ip st))) = challenges s1"
proof (cases a)
  case (Inr i)
  show ?thesis using assms Inr signInVerifiedUser_challenges[of now i ip True "st\<lparr>as_db := s1\<rparr>"]
    by (cases "signInVerifiedUser now i ip True (st\<lparr>as_db := s1\<rparr>)") (auto simp: passkey_login_def set_db_def split: sum.split)
qed (use assms in \<open>simp add: passkey_login_def\<close>)

text \<open>
  C28: A passkey sign-in consumes exactly one open challenge that was issued for signing in, which is gone afterwards
  while every other challenge stays, and signs in the owner of an active passkey of this installation whose key the
  library verified against that challenge; the account is active.
\<close>

theorem passkey_login_proves_key:
  assumes "passkey_login w now r ip st = (Inr ans, st1)"
  shows "\<exists>ch m counter u. wa_challenge w (pk_clientData r) = Some ch
    \<and> count_rows (challenge_open now ch LOGIN None) (challenges (as_db st)) = 1
    \<and> challenges (as_db st1) = delete_rows (challenge_open now ch LOGIN None) (challenges (as_db st))
    \<and> count_rows (challenge_open now ch LOGIN None) (challenges (as_db st1)) = 0
    \<and> m \<in> set (mfaMethods (as_db st)) \<and> mm_type m = WEBAUTHN \<and> mm_isActive m \<and> mm_credentialId m = pk_id r
    \<and> wa_assert w r ch m = Verified counter \<and> (\<not> truthy (pk_handle r) \<or> wa_handle w (the (pk_handle r)) = mm_userId m)
    \<and> signed_in_as ans = mm_userId m \<and> user_by_id (as_db st) (mm_userId m) = Some u \<and> u_status u = U_ACTIVE"
proof -
  obtain a s1 where a: "assert_passkey w now r LOGIN None (Some ip) (as_db st) = (a, s1)" by (rule prod.exhaust)
  obtain i st2 where i: "a = Inr i" "signInVerifiedUser now i ip True (st\<lparr>as_db := s1\<rparr>) = (Inr ans, st2)"
    using assms a by (auto simp: passkey_login_def split: sum.splits prod.splits)
  from a[unfolded i(1)] show ?thesis
  proof (rule assert_passkey_Inr)
    fix ch m counter
    assume m: "wa_challenge w (pk_clientData r) = Some ch" "count_rows (challenge_open now ch LOGIN None) (challenges (as_db st)) = 1"
      "m \<in> set (mfaMethods (as_db st))" "mm_type m = WEBAUTHN" "mm_isActive m" "mm_credentialId m = pk_id r"
      "\<not> truthy (pk_handle r) \<or> wa_handle w (the (pk_handle r)) = mm_userId m" "wa_assert w r ch m = Verified counter" "i = mm_userId m"
      "users s1 = users (as_db st)" "challenges s1 = delete_rows (challenge_open now ch LOGIN None) (challenges (as_db st))"
    have gone: "challenges (as_db st1) = delete_rows (challenge_open now ch LOGIN None) (challenges (as_db st))"
      using login_challenges[OF a] assms m(11) by simp
    then have none: "count_rows (challenge_open now ch LOGIN None) (challenges (as_db st1)) = 0"
      by (simp add: count_rows_def delete_rows_def)
    obtain u where "user_by_id s1 i = Some u" "u_status u = U_ACTIVE" "signed_in_as ans = i" using signInVerifiedUser_proved[OF i(2)] by auto
    then have "user_by_id (as_db st) (mm_userId m) = Some u" "u_status u = U_ACTIVE" "signed_in_as ans = mm_userId m"
      using m(9,10) by (simp_all add: user_by_id_def)
    with m(1-8) gone none show ?thesis by blast
  qed
qed

section \<open>A challenge counts once\<close>

datatype passkey_event =
    Options_register string id
  | Options_login string
  | Options_step_up string id
  | Ceremony_register id id passkey_response "string option" "string option"
  | Ceremony_login passkey_response string
  | Ceremony_step_up id passkey_response "string option"
  | Passkey_remove id id "string option"
  | Challenges_expire

text \<open>A step says whether a ceremony was accepted.\<close>

fun passkey_step :: "webauthn \<Rightarrow> time \<Rightarrow> passkey_event \<Rightarrow> auth_state \<Rightarrow> bool \<times> auth_state" where
  "passkey_step w now (Options_register ch u) st = (False, set_db (\<lambda>s. snd (registrationOptions now ch u s)) st)"
| "passkey_step w now (Options_login ch) st = (False, set_db (loginOptions now ch) st)"
| "passkey_step w now (Options_step_up ch u) st = (False, set_db (\<lambda>s. snd (stepUpOptions now ch u s)) st)"
| "passkey_step w now (Ceremony_register i u r name ip) st =
     (is_ok (fst (register_passkey w now i u r name ip (as_db st))), set_db (\<lambda>s. snd (register_passkey w now i u r name ip s)) st)"
| "passkey_step w now (Ceremony_login r ip) st = (is_ok (fst (passkey_login w now r ip st)), snd (passkey_login w now r ip st))"
| "passkey_step w now (Ceremony_step_up u r ip) st =
     (is_ok (fst (passkey_step_up w now u r ip (as_db st))), set_db (\<lambda>s. snd (passkey_step_up w now u r ip s)) st)"
| "passkey_step w now (Passkey_remove u i ip) st = (False, set_db (\<lambda>s. snd (remove_passkey u i ip s)) st)"
| "passkey_step w now Challenges_expire st = (False, set_db (expire_challenges now) st)"

definition issues :: "string \<Rightarrow> passkey_event \<Rightarrow> bool" where
  "issues ch e = (case e of Options_register c u \<Rightarrow> c = ch | Options_login c \<Rightarrow> c = ch | Options_step_up c u \<Rightarrow> c = ch | _ \<Rightarrow> False)"

definition answers :: "webauthn \<Rightarrow> string \<Rightarrow> passkey_event \<Rightarrow> bool" where
  "answers w ch e = (case e of
       Ceremony_register i u r name ip \<Rightarrow> wa_challenge w (pk_clientData r) = Some ch
     | Ceremony_login r ip \<Rightarrow> wa_challenge w (pk_clientData r) = Some ch
     | Ceremony_step_up u r ip \<Rightarrow> wa_challenge w (pk_clientData r) = Some ch
     | _ \<Rightarrow> False)"

text \<open>How many ceremonies that answer a challenge are accepted in a run.\<close>

fun accepted :: "webauthn \<Rightarrow> string \<Rightarrow> (time \<times> passkey_event) list \<Rightarrow> auth_state \<Rightarrow> nat" where
  "accepted w ch [] st = 0"
| "accepted w ch (e # es) st = (case passkey_step w (fst e) (snd e) st of
     (ok, st1) \<Rightarrow> (if ok \<and> answers w ch (snd e) then 1 else 0) + accepted w ch es st1)"

definition stored :: "string \<Rightarrow> db \<Rightarrow> nat" where
  "stored ch s = count_rows (\<lambda>r. wc_challenge r = ch) (challenges s)"

lemma stored_frame: "challenges s1 = challenges s \<Longrightarrow> stored ch s1 = stored ch s"
  by (simp add: stored_def)

lemma stored_save: "stored ch (saveChallenge now c p u s) = stored ch s + (if c = ch then 1 else 0)"
  by (simp add: stored_def saveChallenge_def count_rows_def)

lemma stored_delete: "challenges s1 = delete_rows P (challenges s) \<Longrightarrow> stored ch s1 \<le> stored ch s"
proof -
  assume *: "challenges s1 = delete_rows P (challenges s)"
  have "length (filter Q (filter R t)) \<le> length (filter Q t)" for Q R and t :: "challenge_row list" by (induction t) auto
  then show ?thesis by (simp only: stored_def count_rows_def delete_rows_def *)
qed

lemma expire_challenges_challenges: "challenges (expire_challenges now s) = delete_rows (\<lambda>r. wc_expiresAt r < now) (challenges s)"
  by (simp add: expire_challenges_def)

lemma stored_taken:
  assumes "challenges s1 = delete_rows (challenge_open now ch purpose userId) (challenges s)" "count_rows (challenge_open now ch purpose userId) (challenges s) = 1"
  shows "stored ch s1 + 1 \<le> stored ch s"
proof -
  let ?Q = "challenge_open now ch purpose userId" and ?t = "challenges s"
  have "length (filter (\<lambda>r. wc_challenge r = ch) t) = length (filter (\<lambda>r. wc_challenge r = ch \<and> ?Q r) t) + length (filter (\<lambda>r. wc_challenge r = ch \<and> \<not> ?Q r) t)" for t
    by (induction t) auto
  moreover have "filter (\<lambda>r. wc_challenge r = ch \<and> ?Q r) ?t = filter ?Q ?t" by (rule filter_cong) (auto simp: challenge_open_def)
  ultimately show ?thesis using assms by (simp add: stored_def count_rows_def delete_rows_def conj_commute)
qed

lemma consumed_at_most:
  assumes "consume_challenge w now cd purpose userId s = (c, s1)"
  shows "stored ch s1 + (if is_ok c \<and> wa_challenge w cd = Some ch then 1 else 0) \<le> stored ch s"
proof (cases c)
  case (Inl e)
  then obtain P where "s1 = s\<lparr>challenges := delete_rows P (challenges s)\<rparr>" using assms consume_challenge_Inl by blast
  then show ?thesis using stored_delete[of s1 P s ch] Inl by simp
next
  case (Inr c1)
  note c1 = consume_challenge_Inr[OF assms[unfolded Inr]]
  show ?thesis
  proof (cases "c1 = ch")
    case True
    then show ?thesis using stored_taken[of s1 now ch purpose userId s] c1 Inr by simp
  next
    case False
    then show ?thesis using stored_delete[of s1 _ s ch] c1 Inr by simp
  qed
qed

lemma register_at_most:
  "stored ch (snd (register_passkey w now i u r name ip s))
     + (if is_ok (fst (register_passkey w now i u r name ip s)) \<and> wa_challenge w (pk_clientData r) = Some ch then 1 else 0) \<le> stored ch s"
proof -
  obtain c s1 where c: "consume_challenge w now (pk_clientData r) REGISTER (Some u) s = (c, s1)" by (rule prod.exhaust)
  have "challenges (snd (register_passkey w now i u r name ip s)) = challenges s1"
    using c by (auto simp: register_passkey_def Let_def split: sum.split verdict.split)
  moreover have "is_ok (fst (register_passkey w now i u r name ip s)) \<Longrightarrow> is_ok c"
    using c by (cases c) (simp_all add: register_passkey_def)
  ultimately show ?thesis using consumed_at_most[OF c, of ch] by (auto simp: stored_def split: if_splits)
qed

lemma assert_at_most:
  "stored ch (snd (assert_passkey w now r purpose u ip s))
     + (if is_ok (fst (assert_passkey w now r purpose u ip s)) \<and> wa_challenge w (pk_clientData r) = Some ch then 1 else 0) \<le> stored ch s"
proof -
  obtain c s1 where c: "consume_challenge w now (pk_clientData r) purpose u s = (c, s1)" by (rule prod.exhaust)
  have "challenges (snd (assert_passkey w now r purpose u ip s)) = challenges s1"
    using c by (auto simp: assert_passkey_def failed_ceremony_def split: sum.split verdict.split option.split)
  moreover have "is_ok (fst (assert_passkey w now r purpose u ip s)) \<Longrightarrow> is_ok c"
    using c by (cases c) (simp_all add: assert_passkey_def)
  ultimately show ?thesis using consumed_at_most[OF c, of ch] by (auto simp: stored_def split: if_splits)
qed

lemma login_at_most:
  "stored ch (as_db (snd (passkey_login w now r ip st)))
     + (if is_ok (fst (passkey_login w now r ip st)) \<and> wa_challenge w (pk_clientData r) = Some ch then 1 else 0) \<le> stored ch (as_db st)"
proof -
  obtain a s1 where a: "assert_passkey w now r LOGIN None (Some ip) (as_db st) = (a, s1)" by (rule prod.exhaust)
  note login_challenges[OF a]
  moreover have "is_ok (fst (passkey_login w now r ip st)) \<Longrightarrow> is_ok a"
    using a by (cases a) (simp_all add: passkey_login_def)
  ultimately show ?thesis using assert_at_most[of ch w now r LOGIN None "Some ip" "as_db st"] a by (auto simp: stored_def split: if_splits)
qed

lemma step_up_at_most:
  "stored ch (snd (passkey_step_up w now u r ip s))
     + (if is_ok (fst (passkey_step_up w now u r ip s)) \<and> wa_challenge w (pk_clientData r) = Some ch then 1 else 0) \<le> stored ch s"
proof -
  obtain a s1 where a: "assert_passkey w now r STEP_UP (Some u) ip s = (a, s1)" by (rule prod.exhaust)
  then show ?thesis using assert_at_most[of ch w now r STEP_UP "Some u" ip s]
    by (cases a) (simp_all add: passkey_step_up_def stored_def)
qed

lemma step_at_most:
  "stored ch (as_db (snd (passkey_step w now e st))) + (if fst (passkey_step w now e st) \<and> answers w ch e then 1 else 0)
     \<le> stored ch (as_db st) + (if issues ch e then 1 else 0)"
proof (cases e)
  case (Ceremony_register i u r name ip)
  then show ?thesis using register_at_most[of ch w now i u r name ip "as_db st"] by (simp add: answers_def set_db_def)
next
  case (Ceremony_login r ip)
  then show ?thesis using login_at_most[of ch w now r ip st] by (simp add: answers_def)
next
  case (Ceremony_step_up u r ip)
  then show ?thesis using step_up_at_most[of ch w now u r ip "as_db st"] by (simp add: answers_def set_db_def)
next
  case Challenges_expire
  then show ?thesis by (simp add: set_db_def issues_def answers_def stored_delete[OF expire_challenges_challenges])
next
  case (Options_register c u)
  have "snd (registrationOptions now c u s) = s \<or> snd (registrationOptions now c u s) = saveChallenge now c REGISTER (Some u) s" for s
    by (simp add: registrationOptions_def)
  from this[of "as_db st"] show ?thesis by (auto simp: Options_register issues_def answers_def set_db_def stored_save)
next
  case (Options_login c)
  then show ?thesis by (simp add: issues_def answers_def set_db_def loginOptions_def stored_save)
next
  case (Options_step_up c u)
  have "snd (stepUpOptions now c u s) = s \<or> snd (stepUpOptions now c u s) = saveChallenge now c STEP_UP (Some u) s" for s
    by (simp add: stepUpOptions_def)
  from this[of "as_db st"] show ?thesis by (auto simp: Options_step_up issues_def answers_def set_db_def stored_save)
next
  case (Passkey_remove u i ip)
  have "challenges (snd (remove_passkey u i ip s)) = challenges s" for s by (simp add: remove_passkey_def Let_def)
  then show ?thesis by (simp add: Passkey_remove issues_def answers_def set_db_def stored_def)
qed

text \<open>
  In any run of issued challenges, ceremonies, removals and sweeps, by whoever and at whatever times, a challenge is
  answered successfully at most as often as it was issued: once, as the server draws a fresh one each time.
\<close>

theorem challenge_answered_once:
  "accepted w ch es st \<le> stored ch (as_db st) + length (filter (\<lambda>e. issues ch (snd e)) es)"
proof (induction es arbitrary: st)
  case (Cons e es)
  obtain ok st1 where p: "passkey_step w (fst e) (snd e) st = (ok, st1)" by (rule prod.exhaust)
  show ?case using Cons[of st1] step_at_most[of ch w "fst e" "snd e" st] p by (auto split: if_splits)
qed simp

section \<open>The limit on passkeys\<close>

lemma registered:
  assumes "wa_challenge w (pk_clientData r) = Some ch" "ch \<noteq> []" "length ch \<le> 200"
    "count_rows (challenge_open now ch REGISTER (Some u)) (challenges s) = 1" "wa_register w r ch = Verified k"
    "find_row (\<lambda>m. mm_type m = WEBAUTHN \<and> mm_credentialId m = Some (pc_id k)) (mfaMethods s) = None"
  shows "mfaMethods (snd (register_passkey w now i u r name ip s)) = mfaMethods s @ [new_passkey i u k name]"
    "challenges (snd (register_passkey w now i u r name ip s)) = delete_rows (challenge_open now ch REGISTER (Some u)) (challenges s)"
  using assms by (simp_all add: register_passkey_def consume_challenge_def Let_def)

lemma options_saved:
  assumes "user_by_id s u \<noteq> None" "length (credentials s u) < MAX_PASSKEYS"
  shows "snd (registrationOptions now ch u s) = saveChallenge now ch REGISTER (Some u) s"
  using assms by (auto simp: registrationOptions_def)

lemma save_frame [simp]:
  "user_by_id (saveChallenge now ch p v s) u = user_by_id s u" "credentials (saveChallenge now ch p v s) u = credentials s u"
  "mfaMethods (saveChallenge now ch p v s) = mfaMethods s"
  by (simp_all add: saveChallenge_def user_by_id_def credentials_def)

lemma none_open: "list_all (\<lambda>r. wc_challenge r \<noteq> ch) t \<Longrightarrow> filter (challenge_open now ch p v) t = []"
  by (auto simp: filter_empty_conv list_all_iff challenge_open_def)

lemma keep_open: "list_all (\<lambda>r. wc_challenge r \<noteq> ch) t \<Longrightarrow> filter (\<lambda>r. \<not> challenge_open now ch p v r) t = t"
  by (auto simp: filter_id_conv list_all_iff challenge_open_def)

lemma row_open:
  "u \<noteq> [] \<Longrightarrow> challenge_open now ch REGISTER (Some u)
     \<lparr>wc_challenge = c, wc_purpose = REGISTER, wc_userId = Some u, wc_expiresAt = now + CHALLENGE_TTL_MS\<rparr> = (c = ch)"
  by (auto simp: challenge_open_def or_null_def CHALLENGE_TTL_MS_def)

text \<open>
  The limit of ten passkeys is checked when a registration starts, not when it ends: two registrations started with
  nine passkeys both succeed and leave eleven.
\<close>

theorem passkey_limit_overrun:
  assumes "user_by_id s u \<noteq> None" "length (credentials s u) = 9" "u \<noteq> []"
    and "list_all (\<lambda>r. wc_challenge r \<notin> {ch1, ch2}) (challenges s)" "ch1 \<noteq> ch2"
    and "list_all (\<lambda>ch. ch \<noteq> [] \<and> length ch \<le> 200) [ch1, ch2]"
    and "wa_challenge w (pk_clientData r1) = Some ch1" "wa_register w r1 ch1 = Verified k1"
    and "wa_challenge w (pk_clientData r2) = Some ch2" "wa_register w r2 ch2 = Verified k2"
    and "list_all (\<lambda>m. mm_credentialId m \<notin> {Some (pc_id k1), Some (pc_id k2)}) (mfaMethods s)" "pc_id k1 \<noteq> pc_id k2"
  shows "length (credentials (snd (register_passkey w now i2 u r2 n2 ip (snd (register_passkey w now i1 u r1 n1 ip
    (snd (registrationOptions now ch2 u (snd (registrationOptions now ch1 u s)))))))) u) = 11"
proof -
  let ?row = "\<lambda>ch. \<lparr>wc_challenge = ch, wc_purpose = REGISTER, wc_userId = Some u, wc_expiresAt = now + CHALLENGE_TTL_MS\<rparr>"
  define s2 where "s2 = snd (registrationOptions now ch2 u (snd (registrationOptions now ch1 u s)))"
  have s2: "s2 = saveChallenge now ch2 REGISTER (Some u) (saveChallenge now ch1 REGISTER (Some u) s)"
    using assms(1,2) by (simp add: s2_def options_saved MAX_PASSKEYS_def)
  then have ch: "challenges s2 = challenges s @ [?row ch1, ?row ch2]" "mfaMethods s2 = mfaMethods s" by (simp_all add: saveChallenge_def)
  have fresh: "list_all (\<lambda>r. wc_challenge r \<noteq> ch1) (challenges s)" "list_all (\<lambda>r. wc_challenge r \<noteq> ch2) (challenges s)"
    using assms(4) by (auto simp: list_all_iff)
  have "count_rows (challenge_open now ch1 REGISTER (Some u)) (challenges s2) = 1"
    using assms(5) by (simp add: ch count_rows_def none_open[OF fresh(1)] row_open[OF assms(3)])
  note reg1 = registered[OF assms(7) _ _ this assms(8), of i1 n1 ip]
  define s3 where "s3 = snd (register_passkey w now i1 u r1 n1 ip s2)"
  have s3: "mfaMethods s3 = mfaMethods s @ [new_passkey i1 u k1 n1]" "challenges s3 = delete_rows (challenge_open now ch1 REGISTER (Some u)) (challenges s2)"
    using reg1 assms(6,11) unfolding s3_def by (simp_all add: ch find_row_None list_all_iff)
  have "challenges s3 = challenges s @ [?row ch2]"
    using assms(5) by (simp add: s3 ch delete_rows_def row_open[OF assms(3)] keep_open[OF fresh(1)])
  then have "count_rows (challenge_open now ch2 REGISTER (Some u)) (challenges s3) = 1"
    by (simp add: count_rows_def none_open[OF fresh(2)] row_open[OF assms(3)])
  note reg2 = registered[OF assms(9) _ _ this assms(10), of i2 n2 ip]
  have "mfaMethods (snd (register_passkey w now i2 u r2 n2 ip s3)) = mfaMethods s3 @ [new_passkey i2 u k2 n2]"
    by (rule reg2(1)) (use assms(6,11,12) in \<open>auto simp: s3 find_row_None list_all_iff new_passkey_def\<close>)
  then show ?thesis using assms(2) unfolding s2_def[symmetric] s3_def[symmetric]
    by (simp add: credentials_def s3 new_passkey_def)
qed

section \<open>Witnesses\<close>

definition sample_webauthn :: webauthn where
  "sample_webauthn = \<lparr>wa_challenge = (\<lambda>x. Some x), wa_handle = (\<lambda>x. x),
     wa_register = (\<lambda>r ch. Verified \<lparr>pc_id = ch, pc_publicKey = ''key'', pc_counter = 0\<rparr>), wa_assert = (\<lambda>r ch m. Verified 1)\<rparr>"

definition sample_response :: "string \<Rightarrow> passkey_response" where
  "sample_response ch = \<lparr>pk_clientData = ch, pk_id = Some ''k1'', pk_handle = Some ''u1''\<rparr>"

definition sample_passkey :: "string \<Rightarrow> mfa_row" where
  "sample_passkey k = new_passkey k ''u1'' \<lparr>pc_id = k, pc_publicKey = ''key'', pc_counter = 0\<rparr> None"

definition passkey_db :: db where
  "passkey_db = loginOptions 0 ''c1'' (empty_db\<lparr>users := [plain_user ''u1''], mfaMethods := [sample_passkey ''k1'']\<rparr>)"

definition passkey_state :: auth_state where
  "passkey_state = \<lparr>as_db = passkey_db, as_failures = Map.empty, as_totp = Map.empty, as_recovery = Map.empty\<rparr>"

lemma sample_passkey_login: "fst (passkey_login sample_webauthn 0 (sample_response ''c1'') ''ip'' passkey_state)
    = Inr (SignedIn (issueFullToken 0 (plain_user ''u1'') None None None []))"
  by code_simp

theorem passkey_login_proves_key_witness:
  "\<exists>ch m counter u. wa_challenge sample_webauthn ''c1'' = Some ch
    \<and> count_rows (challenge_open 0 ch LOGIN None) (challenges passkey_db) = 1
    \<and> m \<in> set (mfaMethods passkey_db) \<and> mm_type m = WEBAUTHN \<and> mm_isActive m \<and> mm_credentialId m = Some ''k1''
    \<and> wa_assert sample_webauthn (sample_response ''c1'') ch m = Verified counter
    \<and> user_by_id passkey_db (mm_userId m) = Some u \<and> u_status u = U_ACTIVE"
proof -
  have "passkey_login sample_webauthn 0 (sample_response ''c1'') ''ip'' passkey_state
      = (Inr (SignedIn (issueFullToken 0 (plain_user ''u1'') None None None [])), snd (passkey_login sample_webauthn 0 (sample_response ''c1'') ''ip'' passkey_state))"
    using sample_passkey_login by (simp add: prod_eq_iff)
  from passkey_login_proves_key[OF this] show ?thesis
    by (simp add: passkey_state_def) (auto simp: sample_response_def)
qed

definition nine_passkeys :: db where
  "nine_passkeys = empty_db\<lparr>users := [plain_user ''u1''], mfaMethods := map (\<lambda>c. sample_passkey [c]) ''abcdefghi''\<rparr>"

theorem passkey_limit_overrun_witness:
  "length (credentials (snd (register_passkey sample_webauthn 0 ''m2'' ''u1'' (sample_response ''c2'') None None
    (snd (register_passkey sample_webauthn 0 ''m1'' ''u1'' (sample_response ''c1'') None None
    (snd (registrationOptions 0 ''c2'' ''u1'' (snd (registrationOptions 0 ''c1'' ''u1'' nine_passkeys)))))))) ''u1'') = 11"
  by (rule passkey_limit_overrun[where ?ch1.0 = "''c1''" and ?ch2.0 = "''c2''"
        and ?k1.0 = "\<lparr>pc_id = ''c1'', pc_publicKey = ''key'', pc_counter = 0\<rparr>" and ?k2.0 = "\<lparr>pc_id = ''c2'', pc_publicKey = ''key'', pc_counter = 0\<rparr>"])
    (simp_all add: nine_passkeys_def sample_webauthn_def sample_response_def sample_passkey_def new_passkey_def empty_db_def user_by_id_def plain_user_def credentials_def)

end
