(* ===== verification/Computers.thy ===== *)
theory Computers
  imports Endpoints Inventory Versions
begin

text \<open>
  The rest of \<open>endpoints/endpoints.service.ts\<close>: tags and aliases, fingerprints of the stored passwords, and the reads and
  requests of a computer's report and its command queue. A constraint of the database that refuses a row is an error
  of the operation.
\<close>

section \<open>Tags and aliases\<close>

text \<open>The computer, if it is in scope and the capability is held.\<close>

definition endpoint_for :: "db \<Rightarrow> actor \<Rightarrow> id \<Rightarrow> capability \<Rightarrow> endpoint_row result" where
  "endpoint_for s actor i cap = (case assertEndpointInScope s actor i of
     Inl e \<Rightarrow> Inl e
   | Inr e \<Rightarrow> map_sum id (\<lambda>_. e) (assertCapability actor [cap]))"

definition addTag :: "actor \<Rightarrow> id \<Rightarrow> string \<Rightarrow> db \<Rightarrow> unit result \<times> db" where
  "addTag actor i tag s = (case endpoint_for s actor i CAP_COMPUTERS_EDIT of
     Inl e \<Rightarrow> (Inl e, s)
   | Inr _ \<Rightarrow>
       if find_row (\<lambda>t. et_endpointId t = i \<and> et_tag t = tag) (endpointTags s) \<noteq> None then (Inl (Conflict ''Tag already exists''), s)
       else (Inr (), s\<lparr>endpointTags := endpointTags s @ [\<lparr>et_endpointId = i, et_tag = tag\<rparr>]\<rparr>))"

definition removeTag :: "actor \<Rightarrow> id \<Rightarrow> string \<Rightarrow> db \<Rightarrow> unit result \<times> db" where
  "removeTag actor i tag s = (case endpoint_for s actor i CAP_COMPUTERS_EDIT of
     Inl e \<Rightarrow> (Inl e, s)
   | Inr _ \<Rightarrow> (Inr (), s\<lparr>endpointTags := delete_rows (\<lambda>t. et_endpointId t = i \<and> et_tag t = tag) (endpointTags s)\<rparr>))"

definition addAlias :: "actor \<Rightarrow> id \<Rightarrow> id \<Rightarrow> string \<Rightarrow> bool \<Rightarrow> db \<Rightarrow> alias_row result \<times> db" where
  "addAlias actor aliasId i alias isPrimary s = (case endpoint_for s actor i CAP_COMPUTERS_EDIT of
     Inl e \<Rightarrow> (Inl e, s)
   | Inr _ \<Rightarrow>
       let s1 = (if isPrimary then s\<lparr>endpointAliases := update_rows (\<lambda>a. ea_endpointId a = i \<and> ea_isPrimary a)
                   (\<lambda>a. a\<lparr>ea_isPrimary := False\<rparr>) (endpointAliases s)\<rparr> else s);
           row = \<lparr>ea_id = aliasId, ea_endpointId = i, ea_alias = alias, ea_isPrimary = isPrimary\<rparr>
       in if find_row (\<lambda>a. ea_endpointId a = i \<and> ea_alias a = alias) (endpointAliases s) \<noteq> None
          then (Inl (ServerError ''Unique constraint failed''), s1)
          else (Inr row, s1\<lparr>endpointAliases := endpointAliases s1 @ [row]\<rparr>))"

definition removeAlias :: "actor \<Rightarrow> id \<Rightarrow> id \<Rightarrow> db \<Rightarrow> unit result \<times> db" where
  "removeAlias actor i aliasId s = (case endpoint_for s actor i CAP_COMPUTERS_EDIT of
     Inl e \<Rightarrow> (Inl e, s)
   | Inr _ \<Rightarrow> (Inr (), s\<lparr>endpointAliases := delete_rows (\<lambda>a. ea_id a = aliasId \<and> ea_endpointId a = i) (endpointAliases s)\<rparr>))"

section \<open>Fingerprints\<close>

text \<open>\<open>dec\<close> is \<open>None\<close> where decryption throws.\<close>

definition credentialFingerprints :: "(string \<Rightarrow> string option) \<Rightarrow> (string \<Rightarrow> string) \<Rightarrow> db \<Rightarrow> id list \<Rightarrow> (id \<times> string) list" where
  "credentialFingerprints dec sha s ids = concat (map (\<lambda>n.
       if n_endpointId n \<in> set ids \<and> n_endpointId n \<noteq> [] \<and> truthy (n_permanentPassword n)
       then (case dec (the (n_permanentPassword n)) of None \<Rightarrow> [] | Some p \<Rightarrow> [(n_endpointId n, sha p)])
       else []) (nodes s))"

section \<open>Reports and commands\<close>

record secret_mismatch =
  sx_firstSeenAt :: "time option"
  sx_lastSeenAt :: time
  sx_fromIp :: "string option"
  sx_conflict :: bool
  sx_acceptable :: bool

record inventory_view =
  iv_inventory :: "inventory_row option"
  iv_installedVersion :: "string option"
  iv_stagedVersion :: "string option"
  iv_stagedAt :: "time option"
  iv_agentVersion :: "string option"
  iv_agentOutdated :: bool
  iv_reinstallPending :: bool
  iv_reinstallDispatched :: bool
  iv_agentBound :: bool
  iv_secretMismatch :: "secret_mismatch option"
  iv_commands :: "command_summary list"

definition mismatch_view :: "time \<Rightarrow> node_row \<Rightarrow> secret_mismatch option" where
  "mismatch_view now n = (case n_candidateSecretSeenAt n of
     None \<Rightarrow> None
   | Some seen \<Rightarrow> Some \<lparr>sx_firstSeenAt = n_candidateSecretFirstAt n, sx_lastSeenAt = seen, sx_fromIp = n_candidateSecretIp n,
       sx_conflict = n_candidateSecretConflict n, sx_acceptable = (\<not> n_candidateSecretConflict n \<and> now - seen < CANDIDATE_LIVE_MS)\<rparr>)"

definition getInventory :: "time \<Rightarrow> actor \<Rightarrow> id \<Rightarrow> db \<Rightarrow> inventory_view result \<times> db" where
  "getInventory now actor i s = (case endpoint_for s actor i CAP_COMPUTERS_VIEW of
     Inl e \<Rightarrow> (Inl e, s)
   | Inr endpoint \<Rightarrow> (case listCommands now i 10 s of (cmds, s1) \<Rightarrow>
       let node = node_of s i in
       (Inr \<lparr>iv_inventory = get_inventory s i, iv_installedVersion = Option.bind node n_version,
          iv_stagedVersion = Option.bind node n_updateTargetVersion, iv_stagedAt = Option.bind node n_updateRequestedAt,
          iv_agentVersion = e_agentVersion endpoint, iv_agentOutdated = (\<not> agentMeetsContract (e_agentVersion endpoint)),
          iv_reinstallPending = (Option.bind node n_reinstallRequestedAt \<noteq> None),
          iv_reinstallDispatched = (Option.bind node n_reinstallDispatchedAt \<noteq> None),
          iv_agentBound = (case node of None \<Rightarrow> False | Some n \<Rightarrow> truthy (n_agentSecretHash n)),
          iv_secretMismatch = Option.bind node (mismatch_view now), iv_commands = cmds\<rparr>, s1)))"

definition stage_for :: "actor \<Rightarrow> endpoint_row \<Rightarrow> command_type \<Rightarrow> json \<Rightarrow> stage_args" where
  "stage_for actor endpoint ty params = \<lparr>sg_endpointId = e_id endpoint, sg_tenantId = e_tenantId endpoint, sg_customerId = e_customerId endpoint,
     sg_type = ty, sg_params = params, sg_requestedById = Some (a_userId actor)\<rparr>"

definition staged_ids :: "command_row option result \<Rightarrow> (id \<times> command_type) list" where
  "staged_ids r = (case r of Inr (Some c) \<Rightarrow> [(cm_id c, cm_type c)] | _ \<Rightarrow> [])"

definition requestInventoryRefresh :: "time \<Rightarrow> id \<times> id \<Rightarrow> actor \<Rightarrow> id \<Rightarrow> db \<Rightarrow> (id \<times> command_type) list result \<times> db" where
  "requestInventoryRefresh now ids actor i s = (case endpoint_for s actor i CAP_COMPUTERS_VIEW of
     Inl e \<Rightarrow> (Inl e, s)
   | Inr endpoint \<Rightarrow> (case stage now (fst ids) (stage_for actor endpoint INVENTORY_REFRESH JUndefined) s of
       (r1, s1) \<Rightarrow> (case stage now (snd ids) (stage_for actor endpoint UPDATE_SCAN JUndefined) s1 of
         (r2, s2) \<Rightarrow> (Inr (staged_ids r1 @ staged_ids r2),
           audit_endpoint ''ENDPOINT_INVENTORY_REFRESH_REQUESTED'' actor endpoint s2))))"

definition requestEventLog :: "time \<Rightarrow> id \<Rightarrow> actor \<Rightarrow> id \<Rightarrow> json \<Rightarrow> db \<Rightarrow> (id \<times> command_status) result \<times> db" where
  "requestEventLog now cmdId actor i params s = (case endpoint_for s actor i CAP_COMPUTERS_EVENT_LOGS of
     Inl e \<Rightarrow> (Inl e, s)
   | Inr endpoint \<Rightarrow> (case validateParams EVENT_LOG_QUERY params of
       Inl e \<Rightarrow> (Inl e, s)
     | Inr _ \<Rightarrow> (case stage now cmdId (stage_for actor endpoint EVENT_LOG_QUERY params) s of
         (Inl e, s1) \<Rightarrow> (Inl e, s1)
       | (Inr c, s1) \<Rightarrow>
           let s2 = audit_endpoint ''ENDPOINT_EVENT_LOG_REQUESTED'' actor endpoint s1 in
           (case c of None \<Rightarrow> (Inl (ServerError ''Could not queue the request''), s2) | Some q \<Rightarrow> (Inr (cm_id q, cm_status q), s2)))))"

definition latest_event_log :: "time \<Rightarrow> actor \<Rightarrow> id \<Rightarrow> db \<Rightarrow> command_row option result \<times> db" where
  "latest_event_log now actor i s = (case endpoint_for s actor i CAP_COMPUTERS_EVENT_LOGS of
     Inl e \<Rightarrow> (Inl e, s)
   | Inr _ \<Rightarrow> (case latestEventLog now i s of (c, s1) \<Rightarrow> (Inr c, s1)))"

definition get_command :: "time \<Rightarrow> actor \<Rightarrow> id \<Rightarrow> id \<Rightarrow> db \<Rightarrow> command_row result \<times> db" where
  "get_command now actor i commandId s = (case endpoint_for s actor i CAP_COMPUTERS_VIEW of
     Inl e \<Rightarrow> (Inl e, s)
   | Inr _ \<Rightarrow> (case getCommand now i commandId s of (c, s1) \<Rightarrow> (case c of
       None \<Rightarrow> (Inl (NotFound ''Request not found''), s1)
     | Some q \<Rightarrow>
         if cm_type q = EVENT_LOG_QUERY
         then (map_sum id (\<lambda>_. q) (assertCapability actor [CAP_COMPUTERS_EVENT_LOGS]), s1)
         else (Inr q, s1))))"

end
