(* ===== verification/AuditLog.thy ===== *)
theory AuditLog
  imports AccessControl "HOL-Library.Multiset"
begin

text \<open>
  Reading the audit log (\<open>audit/audit.service.ts\<close> and its controller). The rows of the log are in the order they were
  written; their creation times are the parameter \<open>stamp\<close>, the time of the \<open>n\<close>-th row. Dates and numbers of the
  query are parsed already; a number that is none makes the query fail in the database client and is left out. The
  query asks the database for the newest rows first and says nothing of rows with one creation time: their order is the
  database's, and need not be the same in two queries, so each query has an \<open>order\<close> of its own, of which only
  \<open>newest_on_top\<close> is known.
\<close>

text \<open>All that \<open>orderBy: createdAt desc\<close> promises of an order.\<close>

type_synonym log_order = "(time \<times> audit_row) list \<Rightarrow> (time \<times> audit_row) list"

definition newest_on_top :: "log_order \<Rightarrow> bool" where
  "newest_on_top order \<longleftrightarrow> (\<forall>rows. mset (order rows) = mset rows \<and> sorted (rev (map fst (order rows))))"

text \<open>One such order: rows of one instant in the reverse order of their writing. The lists that need no paging use it.\<close>

definition latest_first :: "('r \<Rightarrow> time) \<Rightarrow> 'r list \<Rightarrow> 'r list" where
  "latest_first key rows = rev (sort_key key rows)"

definition stamped_log :: "(nat \<Rightarrow> time) \<Rightarrow> db \<Rightarrow> (time \<times> audit_row) list" where
  "stamped_log stamp s = zip (map stamp [0..<length (activityLog s)]) (activityLog s)"

record audit_query =
  aq_tenantId :: "id option"
  aq_customerId :: "id option"
  aq_action :: "string option"
  aq_actorId :: "id option"
  aq_resource :: "string option"
  aq_fromDate :: "time option"
  aq_toDate :: "time option"
  aq_page :: "int option"
  aq_limit :: "int option"

text \<open>An absent or empty filter does not filter.\<close>

definition filter_by :: "string option \<Rightarrow> string option \<Rightarrow> bool" where
  "filter_by wanted x = (truthy wanted \<longrightarrow> x = wanted)"

definition audit_where :: "audit_query \<Rightarrow> time \<times> audit_row \<Rightarrow> bool" where
  "audit_where q x = (case x of (t, r) \<Rightarrow>
     filter_by (aq_tenantId q) (al_tenantId r) \<and> filter_by (aq_customerId q) (al_customerId r)
     \<and> filter_by (aq_action q) (Some (al_action r)) \<and> filter_by (aq_actorId q) (al_actorId r)
     \<and> filter_by (aq_resource q) (al_resource r)
     \<and> (case aq_fromDate q of None \<Rightarrow> True | Some d \<Rightarrow> d \<le> t) \<and> (case aq_toDate q of None \<Rightarrow> True | Some d \<Rightarrow> t \<le> d))"

text \<open>The database client refuses a negative \<open>skip\<close>; a negative \<open>take\<close> counts from the end.\<close>

definition skip_take :: "int \<Rightarrow> int \<Rightarrow> 'a list \<Rightarrow> 'a list result" where
  "skip_take skip limit rows =
     (if skip < 0 then Inl (ServerError ''Invalid value for skip argument'')
      else if 0 \<le> limit then Inr (take (nat limit) (drop (nat skip) rows))
      else Inr (rev (take (nat (- limit)) (drop (nat skip) (rev rows)))))"

record audit_page =
  ap_logs :: "(time \<times> audit_row) list"
  ap_total :: nat
  ap_page :: int
  ap_limit :: int
  ap_pages :: "int option"

text \<open>The number of pages, rounded up; a limit of 0 makes it infinite or not a number.\<close>

definition query :: "log_order \<Rightarrow> (nat \<Rightarrow> time) \<Rightarrow> db \<Rightarrow> audit_query \<Rightarrow> audit_page result" where
  "query order stamp s q =
     (let page = given_or (aq_page q) 1; limit = min (given_or (aq_limit q) 50) 200;
          rows = filter (audit_where q) (stamped_log stamp s); total = length rows
      in map_sum id (\<lambda>logs. \<lparr>ap_logs = logs, ap_total = total, ap_page = page, ap_limit = limit,
           ap_pages = (if limit = 0 then None else Some (- ((- int total) div limit)))\<rparr>)
         (skip_take ((page - 1) * limit) limit (order rows)))"

text \<open>The endpoint: the business of the query is the actor's.\<close>

definition getLogs :: "log_order \<Rightarrow> (nat \<Rightarrow> time) \<Rightarrow> db \<Rightarrow> actor \<Rightarrow> id option \<Rightarrow> audit_query \<Rightarrow> audit_page result" where
  "getLogs order stamp s actor businessId q = (case resolveScope actor businessId of
     Inl e \<Rightarrow> Inl e
   | Inr sc \<Rightarrow> query order stamp s (q\<lparr>aq_tenantId := None, aq_customerId := sc,
       aq_page := Some (given_or (aq_page q) 1), aq_limit := Some (given_or (aq_limit q) 50)\<rparr>))"

section \<open>Lemmas\<close>

lemma latest_first_set [simp]: "set (latest_first k xs) = set xs" "length (latest_first k xs) = length xs"
  by (simp_all add: latest_first_def)

lemma skip_take_subset: "skip_take a b xs = Inr ys \<Longrightarrow> set ys \<subseteq> set xs"
  unfolding skip_take_def
  by (auto split: if_splits dest: in_set_takeD in_set_dropD) (metis in_set_takeD in_set_dropD set_rev)

lemma pages_take: "concat (map (\<lambda>k. take l (drop (k * l) xs)) [0..<n]) = take (n * l) xs"
proof (induction n)
  case (Suc n)
  have "take (Suc n * l) xs = take (n * l) xs @ take l (drop (n * l) xs)" by (simp add: take_add[symmetric] add.commute)
  with Suc show ?case by simp
qed simp

lemma query_Inr:
  assumes "query order stamp s q = Inr p"
  obtains "ap_total p = length (filter (audit_where q) (stamped_log stamp s))"
    "skip_take ((given_or (aq_page q) 1 - 1) * min (given_or (aq_limit q) 50) 200) (min (given_or (aq_limit q) 50) 200)
       (order (filter (audit_where q) (stamped_log stamp s))) = Inr (ap_logs p)"
  using assms
  by (cases "skip_take ((given_or (aq_page q) 1 - 1) * min (given_or (aq_limit q) 50) 200) (min (given_or (aq_limit q) 50) 200)
       (order (filter (audit_where q) (stamped_log stamp s)))") (auto simp: query_def Let_def)

lemma stamped_log_row: "(t, r) \<in> set (stamped_log stamp s) \<Longrightarrow> r \<in> set (activityLog s)"
  unfolding stamped_log_def by (rule set_zip_rightD)

lemma newest_on_top_set:
  assumes "newest_on_top order"
  shows "set (order rows) = set rows" "length (order rows) = length rows"
proof -
  have "mset (order rows) = mset rows" using assms by (simp add: newest_on_top_def)
  then show "set (order rows) = set rows" "length (order rows) = length rows" by (metis set_mset_mset, metis size_mset)
qed

lemma latest_first_is_newest_on_top: "newest_on_top (latest_first fst)"
  by (simp add: newest_on_top_def latest_first_def rev_map[symmetric])

text \<open>With distinct creation times there is only one order.\<close>

lemma newest_on_top_unique:
  assumes "newest_on_top order" "newest_on_top other" "distinct (map fst rows)"
  shows "order rows = other rows"
proof -
  have m: "mset (order rows) = mset rows" "mset (other rows) = mset rows"
    and o: "sorted (rev (map fst (order rows)))" "sorted (rev (map fst (other rows)))"
    using assms(1,2) by (auto simp: newest_on_top_def)
  have "mset (map fst (order rows)) = mset (map fst rows)" "mset (map fst (other rows)) = mset (map fst rows)"
    using m by simp_all
  with assms(3) have d: "distinct (map fst (order rows))" "distinct (map fst (other rows))"
    by (metis mset_eq_imp_distinct_iff)+
  have "inj_on fst (set (rev (order rows)) \<union> set (rev (other rows)))"
    using assms(3) newest_on_top_set(1)[OF assms(1)] newest_on_top_set(1)[OF assms(2)] by (simp add: distinct_map)
  moreover have "map fst (rev (order rows)) = map fst (rev (other rows))"
    by (rule sorted_distinct_set_unique) (use o d newest_on_top_set(1)[OF assms(1)] newest_on_top_set(1)[OF assms(2)] in \<open>simp_all add: rev_map[symmetric]\<close>)
  ultimately have "rev (order rows) = rev (other rows)" by (rule map_inj_on[rotated])
  then show ?thesis by simp
qed

lemma query_rows:
  assumes "newest_on_top order" "query order stamp s q = Inr p" "x \<in> set (ap_logs p)"
  shows "x \<in> set (stamped_log stamp s)" "audit_where q x"
proof -
  from assms(2) have "set (ap_logs p) \<subseteq> set (order (filter (audit_where q) (stamped_log stamp s)))"
    by (rule query_Inr) (use skip_take_subset in fastforce)
  with assms(3) show "x \<in> set (stamped_log stamp s)" "audit_where q x" by (auto simp: newest_on_top_set[OF assms(1)])
qed

section \<open>Properties\<close>

text \<open>Whoever is no platform admin reads only rows of the own business, whatever the query asks.\<close>

theorem audit_log_confined:
  assumes "newest_on_top order" "getLogs order stamp s a b q = Inr p" "\<not> a_isPlatformAdmin a"
  shows "list_all (\<lambda>x. al_customerId (snd x) = a_businessId a \<and> snd x \<in> set (activityLog s)) (ap_logs p)"
proof -
  obtain sc where sc: "resolveScope a b = Inr sc" using assms(2) by (auto simp: getLogs_def split: sum.splits)
  note own = resolveScope_pinned[OF assms(3) sc]
  let ?q = "q\<lparr>aq_tenantId := None, aq_customerId := sc, aq_page := Some (given_or (aq_page q) 1), aq_limit := Some (given_or (aq_limit q) 50)\<rparr>"
  have p: "query order stamp s ?q = Inr p" using assms(2) sc by (simp add: getLogs_def)
  have "al_customerId (snd x) = a_businessId a \<and> snd x \<in> set (activityLog s)" if "x \<in> set (ap_logs p)" for x
  proof -
    obtain t r where x: "x = (t, r)" by (cases x)
    from query_rows(1)[OF assms(1) p that] have "r \<in> set (activityLog s)" unfolding x by (rule stamped_log_row)
    moreover have "al_customerId r = a_businessId a"
      using query_rows(2)[OF assms(1) p that] own by (simp add: x audit_where_def filter_by_def)
    ultimately show ?thesis by (simp add: x)
  qed
  then show ?thesis by (simp add: list_all_iff)
qed

text \<open>The pages of a query of the log, each with the order of its own query.\<close>

definition logs_page :: "(nat \<Rightarrow> log_order) \<Rightarrow> (nat \<Rightarrow> time) \<Rightarrow> db \<Rightarrow> audit_query \<Rightarrow> nat \<Rightarrow> (time \<times> audit_row) list" where
  "logs_page orders stamp s q k =
     (case query (orders k) stamp s (q\<lparr>aq_page := Some (int k + 1)\<rparr>) of Inl _ \<Rightarrow> [] | Inr p \<Rightarrow> ap_logs p)"

lemma audit_where_page [simp]: "audit_where (q\<lparr>aq_page := x\<rparr>) = audit_where q"
  by (simp add: fun_eq_iff audit_where_def)

lemma logs_page_is:
  assumes "aq_limit q = Some (int l)" "0 < l" "l \<le> 200"
  shows "logs_page orders stamp s q k = take l (drop (k * l) (orders k (filter (audit_where q) (stamped_log stamp s))))"
proof -
  have "nat (int k * int l) = k * l" by (metis nat_int of_nat_mult)
  moreover have "\<not> int k * int l < 0" by (simp add: not_less)
  ultimately show ?thesis using assms by (simp add: logs_page_def query_def given_or_def skip_take_def Let_def)
qed

lemma audit_pages_cover:
  assumes "aq_limit q = Some (int l)" "0 < l" "l \<le> 200" "query order stamp s (q\<lparr>aq_page := Some 1\<rparr>) = Inr p" "ap_pages p = Some n"
  shows "length (filter (audit_where q) (stamped_log stamp s)) \<le> nat n * l"
proof -
  let ?xs = "filter (audit_where q) (stamped_log stamp s)"
  have n: "n = - ((- int (length ?xs)) div int l)"
    using assms by (auto simp: query_def given_or_def skip_take_def Let_def)
  have "int (length ?xs) \<le> n * int l"
  proof -
    have "(- int (length ?xs)) div int l * int l \<le> - int (length ?xs)"
      using assms(2) by (metis minus_mod_eq_div_mult pos_mod_sign of_nat_0_less_iff diff_le_eq le_add_same_cancel1)
    then show ?thesis by (simp add: n)
  qed
  also have "n * int l \<le> int (nat n) * int l" by (rule mult_right_mono) simp_all
  finally show ?thesis unfolding of_nat_mult[symmetric] of_nat_le_iff .
qed

text \<open>
  C12: Turning the pages of a log that does not change meanwhile shows every row of the query once, as long as no two
  matching rows were created at one instant: whatever order the database gives each page's query among rows of one instant,
  the pages of a limit between 1 and 200, as many as the answer says there are, are together the rows that match, each once,
  newest first.
\<close>

theorem audit_pages_are_the_log:
  assumes "aq_limit q = Some (int l)" "0 < l" "l \<le> 200" "query order stamp s (q\<lparr>aq_page := Some 1\<rparr>) = Inr p" "ap_pages p = Some n"
    and "\<And>k. newest_on_top (orders k)" "distinct (map fst (filter (audit_where q) (stamped_log stamp s)))"
  shows "mset (concat (map (logs_page orders stamp s q) [0..<nat n])) = mset (filter (audit_where q) (stamped_log stamp s))
    \<and> sorted (rev (map fst (concat (map (logs_page orders stamp s q) [0..<nat n]))))"
proof -
  let ?xs = "filter (audit_where q) (stamped_log stamp s)"
  have same: "orders k ?xs = orders 0 ?xs" for k by (rule newest_on_top_unique[OF assms(6) assms(6) assms(7)])
  have "logs_page orders stamp s q k = take l (drop (k * l) (orders 0 ?xs))" for k
    unfolding logs_page_is[OF assms(1-3)] same[of k] ..
  then have "concat (map (logs_page orders stamp s q) [0..<nat n]) = take (nat n * l) (orders 0 ?xs)"
    by (simp add: pages_take cong: map_cong)
  also have "\<dots> = orders 0 ?xs"
    using audit_pages_cover[OF assms(1-5)] by (simp add: newest_on_top_set[OF assms(6)])
  finally show ?thesis using assms(6)[of 0] by (simp add: newest_on_top_def)
qed

definition audit_row_of :: "string \<Rightarrow> id option \<Rightarrow> audit_row" where
  "audit_row_of action b = \<lparr>al_action = action, al_actorId = None, al_tenantId = None, al_customerId = b, al_actorIp = None,
     al_resource = None, al_resourceId = None, al_denied = False\<rparr>"

definition audit_sample :: db where
  "audit_sample = empty_db\<lparr>activityLog := [audit_row_of ''A'' (Some ''b1''), audit_row_of ''B'' (Some ''b2''), audit_row_of ''C'' (Some ''b1'')]\<rparr>"

definition any_query :: audit_query where
  "any_query = \<lparr>aq_tenantId = None, aq_customerId = None, aq_action = None, aq_actorId = None, aq_resource = None,
     aq_fromDate = None, aq_toDate = None, aq_page = None, aq_limit = Some 2\<rparr>"

theorem audit_log_confined_witness:
  "\<exists>p. getLogs (latest_first fst) int audit_sample (plain_actor ''u1'' (Some ''b1'') None []) None any_query = Inr p
     \<and> list_all (\<lambda>x. al_customerId (snd x) = Some ''b1'' \<and> snd x \<in> set (activityLog audit_sample)) (ap_logs p)"
proof -
  let ?a = "plain_actor ''u1'' (Some ''b1'') None []"
  have "is_ok (getLogs (latest_first fst) int audit_sample ?a None any_query)" by code_simp
  then obtain p where p: "getLogs (latest_first fst) int audit_sample ?a None any_query = Inr p" by (auto simp: is_ok_iff)
  from audit_log_confined[OF latest_first_is_newest_on_top this] p show ?thesis by (auto simp: plain_actor_def)
qed

theorem audit_pages_are_the_log_witness:
  "mset (concat (map (logs_page (\<lambda>_. latest_first fst) int audit_sample any_query) [0..<2]))
     = mset [(2, audit_row_of ''C'' (Some ''b1'')), (1, audit_row_of ''B'' (Some ''b2'')), (0, audit_row_of ''A'' (Some ''b1''))]"
proof -
  have "case query (latest_first fst) int audit_sample (any_query\<lparr>aq_page := Some 1\<rparr>) of Inl _ \<Rightarrow> False | Inr p \<Rightarrow> ap_pages p = Some 2"
    by code_simp
  then obtain p where p: "query (latest_first fst) int audit_sample (any_query\<lparr>aq_page := Some 1\<rparr>) = Inr p" "ap_pages p = Some 2"
    by (auto split: sum.splits)
  have rows: "filter (audit_where any_query) (stamped_log int audit_sample)
      = [(0, audit_row_of ''A'' (Some ''b1'')), (1, audit_row_of ''B'' (Some ''b2'')), (2, audit_row_of ''C'' (Some ''b1''))]"
    by code_simp
  have "mset (concat (map (logs_page (\<lambda>_. latest_first fst) int audit_sample any_query) [0..<nat 2]))
      = mset (filter (audit_where any_query) (stamped_log int audit_sample))"
    by (rule audit_pages_are_the_log[of any_query 2, OF _ _ _ p, THEN conjunct1])
      (simp_all add: any_query_def latest_first_is_newest_on_top rows[unfolded any_query_def])
  then show ?thesis unfolding rows by (simp add: add_mset_commute)
qed

text \<open>
  With rows of one instant the pages can miss a row and show another twice: the order of equal creation times is free in each
  page's query.
\<close>

definition other_way :: log_order where
  "other_way rows = rev (sort_key fst (rev rows))"

lemma other_way_is_newest_on_top: "newest_on_top other_way"
  by (simp add: newest_on_top_def other_way_def rev_map[symmetric])

theorem pages_can_miss_a_row:
  "\<exists>orders stamp s q. (\<forall>k. newest_on_top (orders k)) \<and> aq_limit q = Some 1
     \<and> concat (map (logs_page orders stamp s q) [0..<2]) = [(0, audit_row_of ''B'' None), (0, audit_row_of ''B'' None)]
     \<and> (0, audit_row_of ''A'' None) \<in> set (filter (audit_where q) (stamped_log stamp s)) \<and> length (activityLog s) = 2"
proof -
  let ?o = "\<lambda>k::nat. if k = 0 then latest_first fst else other_way"
  let ?s = "empty_db\<lparr>activityLog := [audit_row_of ''A'' None, audit_row_of ''B'' None]\<rparr>"
  let ?q = "any_query\<lparr>aq_limit := Some 1\<rparr>"
  have "newest_on_top (?o k)" for k by (simp add: latest_first_is_newest_on_top other_way_is_newest_on_top)
  moreover have "concat (map (logs_page ?o (\<lambda>_. 0) ?s ?q) [0..<2]) = [(0, audit_row_of ''B'' None), (0, audit_row_of ''B'' None)]"
    by code_simp
  moreover have "filter (audit_where ?q) (stamped_log (\<lambda>_. 0) ?s) = [(0, audit_row_of ''A'' None), (0, audit_row_of ''B'' None)]"
    by code_simp
  ultimately have "(\<forall>k. newest_on_top (?o k)) \<and> aq_limit ?q = Some 1
     \<and> concat (map (logs_page ?o (\<lambda>_. 0) ?s ?q) [0..<2]) = [(0, audit_row_of ''B'' None), (0, audit_row_of ''B'' None)]
     \<and> (0, audit_row_of ''A'' None) \<in> set (filter (audit_where ?q) (stamped_log (\<lambda>_. 0) ?s)) \<and> length (activityLog ?s) = 2"
    by simp
  then show ?thesis by (intro exI)
qed

end
