(* ===== verification/Offboarding.thy ===== *)
theory Offboarding
  imports Computers AuditLog
begin

text \<open>
  Offboarding (\<open>offboarding/offboarding.service.ts\<close>): who may take a person's access away, what the person obtained,
  the steps of a case, and the live status of its rotations. Rows of the audit log carry no time of their own;
  \<open>stamp n\<close> is the creation time of the \<open>n\<close>-th one. Labels, counts and explanations of steps are texts for the screen.
\<close>

section \<open>Authorization\<close>

definition membership_at :: "db \<Rightarrow> id \<Rightarrow> id \<Rightarrow> membership_row option" where
  "membership_at s userId b = find_row (\<lambda>m. m_userId m = userId \<and> m_customerId m = Some b) (memberships s)"

definition in_group_of :: "db \<Rightarrow> id \<Rightarrow> assignment_row \<Rightarrow> bool" where
  "in_group_of s userId a = (case ta_groupId a of None \<Rightarrow> False | Some g \<Rightarrow> is_member s g userId)"

definition at_business :: "db \<Rightarrow> id \<Rightarrow> id \<Rightarrow> bool" where
  "at_business s b endpointId = (case endpoint_by_id s endpointId of None \<Rightarrow> False | Some e \<Rightarrow> e_customerId e = Some b)"

definition may_offboard_member :: "db \<Rightarrow> actor \<Rightarrow> user_row \<Rightarrow> id \<Rightarrow> unit result" where
  "may_offboard_member s actor subject sc = (case membership_at s (u_id subject) sc of
     Some m \<Rightarrow> assertMayManage actor \<lparr>mt_roleType = Some (m_roleType m), mt_isPlatformAdmin = u_isPlatformAdmin subject, mt_userId = u_id subject\<rparr>
   | None \<Rightarrow>
       let assigned = count_rows (\<lambda>a. ta_customerId a = sc \<and> (ta_userId a = Some (u_id subject) \<or> in_group_of s (u_id subject) a)) (assignments s);
           grants = count_rows (\<lambda>r. ca_userId r = u_id subject \<and> at_business s sc (ca_endpointId r)) (accesses s)
       in if assigned = 0 \<and> grants = 0 then Inl (NotFound ''That person has no access to this business'') else Inr ())"

text \<open>The subject, and the business the case is confined to (none: the whole platform).\<close>

definition authorize :: "db \<Rightarrow> actor \<Rightarrow> id \<Rightarrow> id option \<Rightarrow> (user_row \<times> id option) result" where
  "authorize s actor subjectUserId businessId =
     (if a_technician actor \<noteq> None then Inl (Forbidden ''Switch back to your own business to offboard people'')
      else if a_userId actor = subjectUserId then Inl (Forbidden ''You cannot offboard yourself'')
      else (case user_by_id s subjectUserId of
        None \<Rightarrow> Inl (NotFound ''User not found'')
      | Some subject \<Rightarrow>
        if u_isPlatformAdmin subject \<and> \<not> a_isPlatformAdmin actor
        then Inl (Forbidden ''Only a Platform Admin can offboard a Platform Admin'')
        else if truthy businessId then
          (case requireScope actor businessId of
             Inl e \<Rightarrow> Inl e
           | Inr sc \<Rightarrow>
             if \<not> a_isPlatformAdmin actor \<and> \<not> isBusinessOwner actor
             then Inl (Forbidden ''Only a Business Owner can offboard people from this business'')
             else map_sum id (\<lambda>_. (subject, Some sc)) (may_offboard_member s actor subject sc))
        else
          let isTechAccount = list_all (\<lambda>m. m_userId m \<noteq> u_id subject) (memberships s) in
          if \<not> a_isPlatformAdmin actor \<and> \<not> (isTechAccount \<and> hasPlatformPermission actor TECHNICIANS_MANAGE)
          then Inl (Forbidden ''Offboarding across every business needs a Platform Admin'')
          else Inr (subject, None)))"

section \<open>What the person obtained\<close>

text \<open>A JavaScript map from a computer to the last time and the ways.\<close>

type_synonym obtained = "(id \<times> (time \<times> string list)) list"

definition add_obtained :: "string \<Rightarrow> id option \<times> time option \<Rightarrow> obtained \<Rightarrow> obtained" where
  "add_obtained how x seen = (case x of
     (Some i, Some t) \<Rightarrow>
       if i = [] then seen
       else (case (case map_of seen i of None \<Rightarrow> (t, []) | Some cur \<Rightarrow> cur) of (t0, hows) \<Rightarrow>
         AList.update i (max t0 t, js_set (hows @ [how])) seen)
   | _ \<Rightarrow> seen)"

definition reveals_by :: "(nat \<Rightarrow> time) \<Rightarrow> db \<Rightarrow> id \<Rightarrow> (time \<times> audit_row) list" where
  "reveals_by stamp s userId = take 1000 (latest_first fst (filter (\<lambda>x. al_actorId (snd x) = Some userId
     \<and> al_action (snd x) = ''ENDPOINT_PASSWORD_REVEALED'' \<and> al_resource (snd x) = Some ''endpoint'') (stamped_log stamp s)))"

definition used_grants :: "db \<Rightarrow> id \<Rightarrow> id option \<Rightarrow> connection_grant_row list" where
  "used_grants s userId businessId = take 1000 (latest_first (\<lambda>g. case cg_usedAt g of None \<Rightarrow> 0 | Some t \<Rightarrow> t)
     (filter (\<lambda>g. cg_userId g = userId \<and> cg_usedAt g \<noteq> None
        \<and> (truthy businessId \<longrightarrow> at_business s (the businessId) (cg_endpointId g))) (connectionGrants s)))"

definition used_launches :: "db \<Rightarrow> id \<Rightarrow> launcher_token_row list" where
  "used_launches s userId = take 1000 (latest_first (\<lambda>l. case lt_usedAt l of None \<Rightarrow> 0 | Some t \<Rightarrow> t)
     (filter (\<lambda>l. lt_userId l = userId \<and> lt_usedAt l \<noteq> None \<and> lt_targetEndpointId l \<noteq> None) (launcherTokens s)))"

definition obtained_by :: "(nat \<Rightarrow> time) \<Rightarrow> db \<Rightarrow> id \<Rightarrow> id option \<Rightarrow> obtained" where
  "obtained_by stamp s userId businessId =
     (let l1 = fold (add_obtained ''revealed the password'')
            (map (\<lambda>(t, r). (al_resourceId r, Some t)) (filter (\<lambda>x. \<not> al_denied (snd x)) (reveals_by stamp s userId))) [];
          l2 = fold (add_obtained ''connected (credential released)'')
            (map (\<lambda>g. (Some (cg_endpointId g), cg_usedAt g)) (used_grants s userId businessId)) l1
      in fold (add_obtained ''connected through the launcher'') (map (\<lambda>l. (lt_targetEndpointId l, lt_usedAt l)) (used_launches s userId)) l2)"

record credential_view =
  cv_endpointId :: id
  cv_name :: string
  cv_businessId :: "id option"
  cv_businessName :: "string option"
  cv_lastObtainedAt :: time
  cv_how :: "string list"
  cv_online :: bool
  cv_lastSeenAt :: "time option"
  cv_canRotate :: bool
  cv_rotationAlreadyPending :: bool

definition view_credential :: "db \<Rightarrow> obtained \<Rightarrow> endpoint_row \<Rightarrow> credential_view list" where
  "view_credential s seen e = (case map_of seen (e_id e) of
     None \<Rightarrow> []
   | Some (t, how) \<Rightarrow> [\<lparr>cv_endpointId = e_id e, cv_name = e_name e, cv_businessId = e_customerId e,
       cv_businessName = map_option c_name (Option.bind (e_customerId e) (business_of s)),
       cv_lastObtainedAt = t, cv_how = how, cv_online = e_isOnline e, cv_lastSeenAt = e_lastSeenAt e,
       cv_canRotate = (case node_of s (e_id e) of None \<Rightarrow> False | Some n \<Rightarrow> truthy (n_agentSecretHash n)),
       cv_rotationAlreadyPending = (Option.bind (node_of s (e_id e)) n_pendingPasswordAt \<noteq> None)\<rparr>])"

definition credentialsObtained :: "(nat \<Rightarrow> time) \<Rightarrow> db \<Rightarrow> id \<Rightarrow> id option \<Rightarrow> credential_view list" where
  "credentialsObtained stamp s subjectUserId businessId =
     concat (map (view_credential s (obtained_by stamp s subjectUserId businessId))
       (filter (\<lambda>e. (truthy businessId \<longrightarrow> e_customerId e = businessId) \<and> e_status e \<noteq> EP_ARCHIVED) (endpoints s)))"

text \<open>Groups of computers with one password, in the order the fingerprints list them.\<close>

definition by_hash :: "(id \<times> string) list \<Rightarrow> (string \<times> id list) list" where
  "by_hash fp = fold (\<lambda>(i, h) acc. AList.update h ((case map_of acc h of None \<Rightarrow> [] | Some ids \<Rightarrow> ids) @ [i]) acc) fp []"

definition shared_pool :: "db \<Rightarrow> id list \<Rightarrow> id option \<Rightarrow> endpoint_row list" where
  "shared_pool s ids businessId = filter (\<lambda>e. e_status e \<noteq> EP_ARCHIVED \<and>
     (if truthy businessId then e_customerId e = businessId
      else (case e_customerId e of None \<Rightarrow> False
            | Some b \<Rightarrow> b \<noteq> [] \<and> list_ex (\<lambda>x. e_id x \<in> set ids \<and> e_customerId x = Some b) (endpoints s)))) (endpoints s)"

definition sharedPasswordGroups ::
  "(string \<Rightarrow> string option) \<Rightarrow> (string \<Rightarrow> string) \<Rightarrow> db \<Rightarrow> id list \<Rightarrow> id option \<Rightarrow> (id \<times> string) list list" where
  "sharedPasswordGroups dec sha s ids businessId =
     (if ids = [] then []
      else let pool = shared_pool s ids businessId;
               groups = map snd (by_hash (credentialFingerprints dec sha s (map e_id pool)))
           in map (map (\<lambda>i. (i, case find_row (\<lambda>e. e_id e = i) pool of None \<Rightarrow> i | Some e \<Rightarrow> e_name e)))
                (filter (\<lambda>g. length g > 1 \<and> list_ex (\<lambda>i. i \<in> set ids) g) groups))"

definition endpointIdsOf :: "db \<Rightarrow> id \<Rightarrow> id list" where
  "endpointIdsOf s businessId = map e_id (filter (\<lambda>e. e_customerId e = Some businessId) (endpoints s))"

section \<open>Preview\<close>

text \<open>The conditions the preview counts with and the execution writes with.\<close>

definition open_token :: "time \<Rightarrow> id \<Rightarrow> launcher_token_row \<Rightarrow> bool" where
  "open_token now userId l = (lt_userId l = userId \<and> lt_usedAt l = None \<and> lt_revokedAt l = None \<and> lt_expiresAt l > now)"

definition token_in_scope :: "db \<Rightarrow> id option \<Rightarrow> launcher_token_row \<Rightarrow> bool" where
  "token_in_scope s scope l = (case scope of
     None \<Rightarrow> True
   | Some b \<Rightarrow> (case lt_targetEndpointId l of None \<Rightarrow> False | Some i \<Rightarrow> i \<in> set (endpointIdsOf s b))
       \<or> (case lt_supportSessionId l of None \<Rightarrow> False
          | Some sid \<Rightarrow> list_ex (\<lambda>x. ss_id x = sid \<and> ss_customerId x = Some b) (sessions s)))"

definition in_scope :: "db \<Rightarrow> id option \<Rightarrow> id \<Rightarrow> bool" where
  "in_scope s scope endpointId = (case scope of None \<Rightarrow> True | Some b \<Rightarrow> at_business s b endpointId)"

definition open_grant :: "time \<Rightarrow> id \<Rightarrow> connection_grant_row \<Rightarrow> bool" where
  "open_grant now userId g = (cg_userId g = userId \<and> cg_usedAt g = None \<and> cg_expiresAt g > now)"

definition member_in_scope :: "id option \<Rightarrow> id \<Rightarrow> membership_row \<Rightarrow> bool" where
  "member_in_scope scope userId m = (m_userId m = userId \<and> m_isActive m \<and> (scope \<noteq> None \<longrightarrow> m_customerId m = scope))"

definition assigned_in_scope :: "id option \<Rightarrow> id \<Rightarrow> assignment_row \<Rightarrow> bool" where
  "assigned_in_scope scope userId a = (ta_userId a = Some userId \<and> ta_revokedAt a = None \<and> (scope \<noteq> None \<longrightarrow> Some (ta_customerId a) = scope))"

record offboard_preview =
  pv_subject :: user_row
  pv_scope :: "id option"
  pv_membership :: bool
  pv_computerGrants :: nat
  pv_technicianAssignments :: nat
  pv_groupMemberships :: nat
  pv_launcherTokens :: nat
  pv_connectionGrants :: nat
  pv_canSuspendAccount :: bool
  pv_credentials :: "credential_view list"
  pv_sharedPasswords :: "(id \<times> string) list list"

definition other_memberships :: "db \<Rightarrow> id \<Rightarrow> id option \<Rightarrow> nat" where
  "other_memberships s userId scope = (case scope of None \<Rightarrow> 0 | Some b \<Rightarrow>
     count_rows (\<lambda>m. m_userId m = userId \<and> m_isActive m \<and> (case m_customerId m of None \<Rightarrow> False | Some x \<Rightarrow> x \<noteq> b)) (memberships s))"

definition other_assignments :: "db \<Rightarrow> id \<Rightarrow> id option \<Rightarrow> nat" where
  "other_assignments s userId scope = (case scope of None \<Rightarrow> 0 | Some b \<Rightarrow>
     count_rows (\<lambda>a. ta_userId a = Some userId \<and> ta_revokedAt a = None \<and> ta_customerId a \<noteq> b) (assignments s))"

definition preview ::
  "(string \<Rightarrow> string option) \<Rightarrow> (string \<Rightarrow> string) \<Rightarrow> (nat \<Rightarrow> time) \<Rightarrow> time \<Rightarrow> actor \<Rightarrow> id \<Rightarrow> id option \<Rightarrow> db \<Rightarrow> offboard_preview result" where
  "preview dec sha stamp now actor subjectUserId businessId s = (case authorize s actor subjectUserId businessId of
     Inl e \<Rightarrow> Inl e
   | Inr (subject, scope) \<Rightarrow>
       let u = u_id subject; creds = credentialsObtained stamp s u scope in
       Inr \<lparr>pv_subject = subject, pv_scope = scope,
         pv_membership = list_ex (member_in_scope scope u) (memberships s),
         pv_computerGrants = count_rows (\<lambda>r. ca_userId r = u \<and> in_scope s scope (ca_endpointId r)) (accesses s),
         pv_technicianAssignments = count_rows (assigned_in_scope scope u) (assignments s),
         pv_groupMemberships = (if scope = None then count_rows (\<lambda>g. gm_userId g = u) (groupMembers s) else 0),
         pv_launcherTokens = count_rows (\<lambda>l. open_token now u l \<and> token_in_scope s scope l) (launcherTokens s),
         pv_connectionGrants = count_rows (\<lambda>g. open_grant now u g \<and> in_scope s scope (cg_endpointId g)) (connectionGrants s),
         pv_canSuspendAccount = (a_isPlatformAdmin actor \<or> scope = None
           \<or> other_memberships s u scope = 0 \<and> other_assignments s u scope = 0),
         pv_credentials = creds,
         pv_sharedPasswords = sharedPasswordGroups dec sha s (map cv_endpointId creds) scope\<rparr>)"

section \<open>Live status\<close>

datatype rotation_state = RotationFailed | RotationConfirmed | RotationPending

record rotation_item =
  rt_endpointId :: id
  rt_state :: rotation_state
  rt_confirmedAt :: "time option"
  rt_online :: bool
  rt_lastSeenAt :: "time option"

text \<open>The last of several confirmations stays in the map.\<close>

definition confirmed_at :: "(nat \<Rightarrow> time) \<Rightarrow> db \<Rightarrow> offboarding_row \<Rightarrow> id \<Rightarrow> time option" where
  "confirmed_at stamp s r i = map_of (rev (map (\<lambda>(t, l). (the (al_resourceId l), t)) (filter (\<lambda>(t, l).
     al_action l = ''ENDPOINT_CREDENTIAL_ROTATED'' \<and> ob_startedAt r \<le> t
       \<and> (case al_resourceId l of None \<Rightarrow> False | Some x \<Rightarrow> (x, True) \<in> set (ob_rotations r))) (stamped_log stamp s)))) i"

definition rotation_item_of :: "(nat \<Rightarrow> time) \<Rightarrow> db \<Rightarrow> offboarding_row \<Rightarrow> id \<times> bool \<Rightarrow> rotation_item" where
  "rotation_item_of stamp s r x = (case x of (i, staged) \<Rightarrow>
     let n = (if (i, True) \<in> set (ob_rotations r) then endpoint_by_id s i else None); t = confirmed_at stamp s r i in
     \<lparr>rt_endpointId = i, rt_state = (if \<not> staged then RotationFailed else if t \<noteq> None then RotationConfirmed else RotationPending),
      rt_confirmedAt = t, rt_online = (case n of None \<Rightarrow> False | Some e \<Rightarrow> e_isOnline e),
      rt_lastSeenAt = Option.bind n e_lastSeenAt\<rparr>)"

record rotation_summary =
  rs_total :: nat
  rs_confirmed :: nat
  rs_pending :: nat
  rs_failed :: nat
  rs_offlinePending :: nat

definition rotationStatus :: "(nat \<Rightarrow> time) \<Rightarrow> db \<Rightarrow> offboarding_row \<Rightarrow> rotation_item list \<times> rotation_summary" where
  "rotationStatus stamp s r =
     (let items = map (rotation_item_of stamp s r) (ob_rotations r) in
      (items, \<lparr>rs_total = length items,
        rs_confirmed = count_rows (\<lambda>i. rt_state i = RotationConfirmed) items,
        rs_pending = count_rows (\<lambda>i. rt_state i = RotationPending) items,
        rs_failed = count_rows (\<lambda>i. rt_state i = RotationFailed) items,
        rs_offlinePending = count_rows (\<lambda>i. rt_state i = RotationPending \<and> \<not> rt_online i) items\<rparr>))"

record case_view =
  cw_id :: id
  cw_subject :: "user_row option"
  cw_businessId :: "id option"
  cw_startedAt :: time
  cw_completedAt :: "time option"
  cw_steps :: "(string \<times> step_state) list"
  cw_rotations :: "rotation_item list"
  cw_summary :: rotation_summary

definition live_step :: "rotation_item list \<times> rotation_summary \<Rightarrow> string \<times> step_state \<Rightarrow> string \<times> step_state" where
  "live_step rot st = (if fst st = ''rotation'' \<and> fst rot \<noteq> []
     then (fst st, if rs_failed (snd rot) > 0 then step_failed else if rs_pending (snd rot) > 0 then step_pending else step_done)
     else st)"

definition may_see_case :: "actor \<Rightarrow> offboarding_row \<Rightarrow> bool" where
  "may_see_case actor r = (a_isPlatformAdmin actor
     \<or> truthy (ob_customerId r) \<and> isBusinessOwner actor \<and> a_technician actor = None \<and> a_businessId actor = ob_customerId r
     \<or> \<not> truthy (ob_customerId r) \<and> hasPlatformPermission actor TECHNICIANS_MANAGE)"

definition get_case :: "(nat \<Rightarrow> time) \<Rightarrow> time \<Rightarrow> actor \<Rightarrow> id \<Rightarrow> db \<Rightarrow> case_view result \<times> db" where
  "get_case stamp now actor i s = (case find_row (\<lambda>r. ob_id r = i) (offboardings s) of
     None \<Rightarrow> (Inl (NotFound ''Offboarding case not found''), s)
   | Some r \<Rightarrow>
     if \<not> may_see_case actor r then (Inl (NotFound ''Offboarding case not found''), s)
     else
       let rot = rotationStatus stamp s r;
           steps = map (live_step rot) (ob_steps r);
           s1 = (if ob_completedAt r = None \<and> list_all (\<lambda>x. snd x = step_done \<or> snd x = step_skipped) steps
                 then s\<lparr>offboardings := update_rows (\<lambda>q. ob_id q = i \<and> ob_completedAt q = None)
                   (\<lambda>q. q\<lparr>ob_completedAt := Some now\<rparr>) (offboardings s)\<rparr>
                 else s)
       in (Inr \<lparr>cw_id = ob_id r, cw_subject = user_by_id s (ob_subjectUserId r), cw_businessId = ob_customerId r,
             cw_startedAt = ob_startedAt r, cw_completedAt = ob_completedAt r, cw_steps = steps,
             cw_rotations = fst rot, cw_summary = snd rot\<rparr>, s1))"

record case_line =
  cl_id :: id
  cl_subjectEmail :: "string option"
  cl_businessId :: "id option"
  cl_startedAt :: time
  cl_completedAt :: "time option"
  cl_rotation :: rotation_summary

definition cases_where :: "actor \<Rightarrow> id option \<Rightarrow> (offboarding_row \<Rightarrow> bool) result" where
  "cases_where actor businessId =
     (if a_technician actor \<noteq> None then Inl (Forbidden ''Switch back to your own business'')
      else if a_isPlatformAdmin actor then Inr (\<lambda>r. truthy businessId \<longrightarrow> ob_customerId r = businessId)
      else if isBusinessOwner actor then map_sum id (\<lambda>sc r. ob_customerId r = Some sc) (requireScope actor businessId)
      else if hasPlatformPermission actor TECHNICIANS_MANAGE then Inr (\<lambda>r. ob_customerId r = None)
      else Inr (\<lambda>r. ob_id r = ''__none__''))"

definition list_cases :: "(nat \<Rightarrow> time) \<Rightarrow> actor \<Rightarrow> id option \<Rightarrow> db \<Rightarrow> case_line list result" where
  "list_cases stamp actor businessId s = map_sum id (\<lambda>P.
     map (\<lambda>r. \<lparr>cl_id = ob_id r, cl_subjectEmail = map_option u_email (user_by_id s (ob_subjectUserId r)),
         cl_businessId = ob_customerId r, cl_startedAt = ob_startedAt r, cl_completedAt = ob_completedAt r,
         cl_rotation = snd (rotationStatus stamp s r)\<rparr>)
       (take 100 (latest_first ob_startedAt (filter P (offboardings s))))) (cases_where actor businessId)"

text \<open>Computers whose staged rotation is not acknowledged; the order by name is left out.\<close>

definition unresolvedRotations :: "actor \<Rightarrow> id option \<Rightarrow> db \<Rightarrow> endpoint_row list result" where
  "unresolvedRotations actor businessId s = map_sum id (\<lambda>sc. filter (\<lambda>e. scope_where e_customerId sc e \<and> e_status e \<noteq> EP_ARCHIVED
       \<and> Option.bind (node_of s (e_id e)) n_pendingPasswordAt \<noteq> None) (endpoints s)) (resolveScope actor businessId)"

section \<open>Execution\<close>

record offboard_input =
  oi_userId :: id
  oi_businessId :: "id option"
  oi_suspendAccount :: bool
  oi_rotateEndpointIds :: "id list"

definition step_of :: "string \<Rightarrow> nat \<Rightarrow> string \<times> step_state" where
  "step_of key n = (key, if n > 0 then step_done else step_skipped)"

text \<open>Memberships, account, grants, assignments, groups; then tokens. Each gives its step.\<close>

definition end_memberships :: "id option \<Rightarrow> id \<Rightarrow> db \<Rightarrow> (string \<times> step_state) \<times> db" where
  "end_memberships scope u s = (case claim_rows (member_in_scope scope u) (\<lambda>m. m\<lparr>m_isActive := False\<rparr>) (memberships s) of
     (n, t) \<Rightarrow> (step_of ''membership'' n, s\<lparr>memberships := t\<rparr>))"

definition end_account :: "time \<Rightarrow> bool \<Rightarrow> id \<Rightarrow> db \<Rightarrow> (string \<times> step_state) \<times> db" where
  "end_account now suspend u s = (if suspend
     then ((''account'', step_done), s\<lparr>users := update_rows (\<lambda>x. u_id x = u)
            (\<lambda>x. x\<lparr>u_status := U_SUSPENDED, u_sessionsValidAfter := Some now\<rparr>) (users s)\<rparr>)
     else ((''account'', step_skipped), s))"

definition end_grants :: "id option \<Rightarrow> id \<Rightarrow> db \<Rightarrow> (string \<times> step_state) \<times> db" where
  "end_grants scope u s = (let P = (\<lambda>r. ca_userId r = u \<and> in_scope s scope (ca_endpointId r)) in
     (step_of ''computer_grants'' (count_rows P (accesses s)), s\<lparr>accesses := delete_rows P (accesses s)\<rparr>))"

definition end_assignments :: "time \<Rightarrow> id \<Rightarrow> id option \<Rightarrow> id \<Rightarrow> db \<Rightarrow> (string \<times> step_state) \<times> db" where
  "end_assignments now by scope u s = (case claim_rows (assigned_in_scope scope u)
       (\<lambda>a. a\<lparr>ta_revokedAt := Some now, ta_revokedById := Some by, ta_revokeReason := Some ''offboarding''\<rparr>) (assignments s) of
     (n, t) \<Rightarrow> (step_of ''assignments'' n, s\<lparr>assignments := t\<rparr>))"

definition end_groups :: "id option \<Rightarrow> id \<Rightarrow> db \<Rightarrow> (string \<times> step_state) \<times> db" where
  "end_groups scope u s = (case scope of
     None \<Rightarrow> (let P = (\<lambda>g. gm_userId g = u) in
       (step_of ''groups'' (count_rows P (groupMembers s)), s\<lparr>groupMembers := delete_rows P (groupMembers s)\<rparr>))
   | Some b \<Rightarrow>
       let viaGroup = count_rows (\<lambda>a. ta_customerId a = b \<and> ta_revokedAt a = None \<and> in_group_of s u a) (assignments s)
       in ((''groups'', if viaGroup > 0 then step_pending else step_skipped), s))"

definition end_tokens :: "time \<Rightarrow> id option \<Rightarrow> id \<Rightarrow> db \<Rightarrow> (string \<times> step_state) \<times> db" where
  "end_tokens now scope u s =
     (case claim_rows (\<lambda>l. open_token now u l \<and> token_in_scope s scope l) (\<lambda>l. l\<lparr>lt_revokedAt := Some now\<rparr>) (launcherTokens s) of
        (n, t) \<Rightarrow> (case claim_rows (\<lambda>g. open_grant now u g \<and> in_scope s scope (cg_endpointId g)) (\<lambda>g. g\<lparr>cg_expiresAt := now\<rparr>) (connectionGrants s) of
          (n', t') \<Rightarrow> (step_of ''tokens'' (n + n'), s\<lparr>launcherTokens := t, connectionGrants := t'\<rparr>)))"

text \<open>A rotation that fails is noted, and the next one goes on.\<close>

definition rotate_one ::
  "cipher \<Rightarrow> zone_db \<Rightarrow> time \<Rightarrow> (id \<Rightarrow> string) \<Rightarrow> actor \<Rightarrow> credential_view \<Rightarrow> (id \<times> bool) list \<times> db \<Rightarrow> (id \<times> bool) list \<times> db" where
  "rotate_one c tz now rnd actor v acc = (case acc of (done', s) \<Rightarrow>
     (case rotateCredential c tz now (rnd (cv_endpointId v)) actor (cv_endpointId v) s of
        (r, s1) \<Rightarrow> (done' @ [(cv_endpointId v, is_ok r)], s1)))"

definition rotation_step :: "(id \<times> bool) list \<Rightarrow> nat \<Rightarrow> string \<times> step_state" where
  "rotation_step rotations notChosen = (''rotation'',
     if length rotations = 0 then (if notChosen > 0 then step_pending else step_skipped)
     else if list_ex (\<lambda>x. \<not> snd x) rotations then step_failed else step_pending)"

text \<open>Everything is checked before the first write.\<close>

definition checked_offboard :: "offboard_preview \<Rightarrow> offboard_input \<Rightarrow> credential_view list result" where
  "checked_offboard pre inp =
     (if oi_suspendAccount inp \<and> \<not> pv_canSuspendAccount pre
      then Inl (Forbidden ''This person also has access to other businesses; only a Platform Admin can suspend the whole account.'')
      else let eligible = filter (\<lambda>v. cv_endpointId v \<in> set (oi_rotateEndpointIds inp)) (pv_credentials pre) in
        if list_ex (\<lambda>i. i \<notin> set (map cv_endpointId eligible)) (oi_rotateEndpointIds inp)
        then Inl (BadRequest ''Only computers this person obtained a credential for can be rotated here'')
        else Inr eligible)"

definition end_access :: "time \<Rightarrow> bool \<Rightarrow> id \<Rightarrow> id option \<Rightarrow> id \<Rightarrow> db \<Rightarrow> (string \<times> step_state) list \<times> db" where
  "end_access now suspend by scope u s =
     (case end_memberships scope u s of (st1, s1) \<Rightarrow>
      (case end_account now suspend u s1 of (st2, s2) \<Rightarrow>
      (case end_grants scope u s2 of (st3, s3) \<Rightarrow>
      (case end_assignments now by scope u s3 of (st4, s4) \<Rightarrow>
      (case end_groups scope u s4 of (st5, s5) \<Rightarrow>
      (case end_tokens now scope u s5 of (st6, s6) \<Rightarrow> ([st1, st2, st3, st4, st5, st6], s6)))))))"

record offboard_env =
  oe_cipher :: cipher
  oe_dec :: "string \<Rightarrow> string option"
  oe_sha :: "string \<Rightarrow> string"
  oe_zones :: zone_db
  oe_stamp :: "nat \<Rightarrow> time"
  oe_rnd :: "id \<Rightarrow> string"

definition execute :: "offboard_env \<Rightarrow> time \<Rightarrow> id \<Rightarrow> actor \<Rightarrow> offboard_input \<Rightarrow> db \<Rightarrow> case_view result \<times> db" where
  "execute v now i actor inp s = (case preview (oe_dec v) (oe_sha v) (oe_stamp v) now actor (oi_userId inp) (oi_businessId inp) s of
     Inl e \<Rightarrow> (Inl e, s)
   | Inr pre \<Rightarrow> (case authorize s actor (oi_userId inp) (oi_businessId inp) of
       Inl e \<Rightarrow> (Inl e, s)
     | Inr (subject, scope) \<Rightarrow> (case checked_offboard pre inp of
         Inl e \<Rightarrow> (Inl e, s)
       | Inr eligible \<Rightarrow> (case end_access now (oi_suspendAccount inp) (a_userId actor) scope (u_id subject) s of
           (steps, s1) \<Rightarrow> (case fold (rotate_one (oe_cipher v) (oe_zones v) now (oe_rnd v) actor) eligible ([], s1) of
             (rotations, s2) \<Rightarrow>
               let notChosen = length (filter (\<lambda>x. cv_endpointId x \<notin> set (oi_rotateEndpointIds inp)) (pv_credentials pre));
                   rec = \<lparr>ob_id = i, ob_tenantId = a_tenantId actor, ob_subjectUserId = u_id subject, ob_customerId = scope,
                     ob_startedById = a_userId actor, ob_startedAt = now, ob_completedAt = None,
                     ob_steps = steps @ [rotation_step rotations notChosen], ob_rotations = rotations\<rparr>;
                   s3 = audit_log ''OFFBOARDING_STARTED'' (Some (a_userId actor)) (a_tenantId actor) scope (a_ip actor)
                     (Some ''user'') (Some (u_id subject)) False (s2\<lparr>offboardings := offboardings s2 @ [rec]\<rparr>)
               in get_case (oe_stamp v) now actor i s3)))))"

end
