(* ===== verification/OffboardingProofs.thy ===== *)
theory OffboardingProofs
  imports Offboarding
begin

text \<open>
  What a finished offboarding leaves: no standing of the person in the business unless through a technician group the
  case names, and no token or grant that still opens a computer there; and the suspension a Business Owner should not
  be offered.
\<close>

section \<open>The specification\<close>

definition access_ended :: "time \<Rightarrow> id \<Rightarrow> id \<Rightarrow> db \<Rightarrow> bool" where
  "access_ended now b u s \<longleftrightarrow>
     list_all (\<lambda>m. \<not> member_in_scope (Some b) u m) (memberships s)
     \<and> list_all (\<lambda>r. \<not> (ca_userId r = u \<and> in_scope s (Some b) (ca_endpointId r))) (accesses s)
     \<and> list_all (\<lambda>a. \<not> assigned_in_scope (Some b) u a) (assignments s)
     \<and> list_all (\<lambda>l. \<not> (open_token now u l \<and> token_in_scope s (Some b) l)) (launcherTokens s)
     \<and> list_all (\<lambda>g. \<not> (open_grant now u g \<and> in_scope s (Some b) (cg_endpointId g))) (connectionGrants s)"

definition reached_by_group :: "db \<Rightarrow> id \<Rightarrow> id \<Rightarrow> bool" where
  "reached_by_group s u b = list_ex (\<lambda>a. ta_customerId a = b \<and> ta_revokedAt a = None \<and> in_group_of s u a) (assignments s)"

section \<open>Lemmas\<close>

lemma update_none_left:
  "(\<And>r. P r \<Longrightarrow> \<not> Q (f r)) \<Longrightarrow> (\<And>r. \<not> P r \<Longrightarrow> \<not> Q r) \<Longrightarrow> list_all (\<lambda>r. \<not> Q r) (update_rows P f t)"
  by (induction t) auto

text \<open>What the scope conditions read.\<close>

lemma endpointIdsOf_frame: "endpoints s = endpoints s' \<Longrightarrow> endpointIdsOf s = endpointIdsOf s'"
  by (auto simp: fun_eq_iff endpointIdsOf_def)

lemma in_scope_frame: "endpoints s = endpoints s' \<Longrightarrow> in_scope s = in_scope s'"
  by (auto simp: fun_eq_iff in_scope_def at_business_def endpoint_by_id_def split: option.splits)

lemma token_in_scope_frame: "endpoints s = endpoints s' \<Longrightarrow> sessions s = sessions s' \<Longrightarrow> token_in_scope s = token_in_scope s'"
  using endpointIdsOf_frame[of s s'] by (auto simp: fun_eq_iff token_in_scope_def split: option.splits)

lemma in_group_of_frame: "groupMembers s = groupMembers s' \<Longrightarrow> in_group_of s = in_group_of s'"
  by (auto simp: fun_eq_iff in_group_of_def is_member_def split: option.splits)

lemma scope_of_updated [simp]:
  "in_scope (s\<lparr>accesses := x, assignments := y\<rparr>) = in_scope s"
  "token_in_scope (s\<lparr>accesses := x, assignments := y\<rparr>) = token_in_scope s"
  "in_group_of (s\<lparr>accesses := x, assignments := y\<rparr>) = in_group_of s"
  by (rule in_scope_frame token_in_scope_frame in_group_of_frame; simp)+

lemma end_account_frame:
  assumes "end_account now suspend u s = (st, s1)"
  shows "fst st = ''account''" "memberships s1 = memberships s" "accesses s1 = accesses s" "assignments s1 = assignments s"
    "launcherTokens s1 = launcherTokens s" "connectionGrants s1 = connectionGrants s" "endpoints s1 = endpoints s"
    "sessions s1 = sessions s" "groupMembers s1 = groupMembers s"
  using assms by (auto simp: end_account_def split: if_splits)

lemma end_access_parts:
  assumes "end_access now suspend by (Some b) u s = (steps, s1)"
  shows "list_all (\<lambda>m. \<not> member_in_scope (Some b) u m) (memberships s1)"
    "list_all (\<lambda>r. \<not> (ca_userId r = u \<and> in_scope s1 (Some b) (ca_endpointId r))) (accesses s1)"
    "list_all (\<lambda>a. \<not> assigned_in_scope (Some b) u a) (assignments s1)"
    "list_all (\<lambda>l. \<not> (open_token now u l \<and> token_in_scope s1 (Some b) l)) (launcherTokens s1)"
    "list_all (\<lambda>g. \<not> (open_grant now u g \<and> in_scope s1 (Some b) (cg_endpointId g))) (connectionGrants s1)"
    "(''groups'', step_pending) \<in> set steps \<longleftrightarrow> reached_by_group s1 u b"
proof -
  let ?s = "s\<lparr>memberships := update_rows (member_in_scope (Some b) u) (\<lambda>m. m\<lparr>m_isActive := False\<rparr>) (memberships s)\<rparr>"
  obtain st2 s2 where e2: "end_account now suspend u ?s = (st2, s2)" by (rule prod.exhaust)
  note f2 = end_account_frame[OF e2]
  have d: "(case (end_account now suspend u ?s) of (st2, s2) \<Rightarrow>
      (case end_grants (Some b) u s2 of (st3, s3) \<Rightarrow> (case end_assignments now by (Some b) u s3 of (st4, s4) \<Rightarrow>
      (case end_groups (Some b) u s4 of (st5, s5) \<Rightarrow> (case end_tokens now (Some b) u s5 of (st6, s6) \<Rightarrow>
        ([step_of ''membership'' (count_rows (member_in_scope (Some b) u) (memberships s)), st2, st3, st4, st5, st6], s6)))))) = (steps, s1)"
    using assms by (simp add: end_access_def end_memberships_def claim_rows_def)
  note d = d[unfolded e2 end_grants_def end_assignments_def end_groups_def end_tokens_def claim_rows_def Let_def prod.case option.case prod.inject]
  note st = d[THEN conjunct1, symmetric] and s1 = d[THEN conjunct2, symmetric]
  have es: "endpoints s1 = endpoints s2" "sessions s1 = sessions s2" "groupMembers s1 = groupMembers s2" by (simp_all add: s1)
  note sc = in_scope_frame[OF es(1)] token_in_scope_frame[OF es(1,2)] in_group_of_frame[OF es(3)]
  have ms: "memberships s1 = update_rows (member_in_scope (Some b) u) (\<lambda>m. m\<lparr>m_isActive := False\<rparr>) (memberships s)"
    by (simp add: s1 f2)
  have acs: "accesses s1 = delete_rows (\<lambda>r. ca_userId r = u \<and> in_scope s1 (Some b) (ca_endpointId r)) (accesses s)"
    unfolding sc(1) by (simp add: s1 f2)
  have as: "assignments s1 = update_rows (assigned_in_scope (Some b) u)
       (\<lambda>a. a\<lparr>ta_revokedAt := Some now, ta_revokedById := Some by, ta_revokeReason := Some ''offboarding''\<rparr>) (assignments s2)"
    by (simp add: s1)
  have ls: "launcherTokens s1 = update_rows (\<lambda>l. open_token now u l \<and> token_in_scope s1 (Some b) l) (\<lambda>l. l\<lparr>lt_revokedAt := Some now\<rparr>) (launcherTokens s)"
    unfolding sc(2) by (simp add: s1 f2)
  have gs: "connectionGrants s1 = update_rows (\<lambda>g. open_grant now u g \<and> in_scope s1 (Some b) (cg_endpointId g)) (\<lambda>g. g\<lparr>cg_expiresAt := now\<rparr>) (connectionGrants s)"
    unfolding sc(1) by (simp add: s1 f2)
  show "list_all (\<lambda>m. \<not> member_in_scope (Some b) u m) (memberships s1)"
    unfolding ms by (rule update_none_left) (auto simp: member_in_scope_def)
  show "list_all (\<lambda>r. \<not> (ca_userId r = u \<and> in_scope s1 (Some b) (ca_endpointId r))) (accesses s1)"
    unfolding acs by (simp add: list_all_iff)
  show "list_all (\<lambda>a. \<not> assigned_in_scope (Some b) u a) (assignments s1)"
    unfolding as by (rule update_none_left) (auto simp: assigned_in_scope_def)
  show "list_all (\<lambda>l. \<not> (open_token now u l \<and> token_in_scope s1 (Some b) l)) (launcherTokens s1)"
    unfolding ls by (rule update_none_left) (auto simp: open_token_def)
  show "list_all (\<lambda>g. \<not> (open_grant now u g \<and> in_scope s1 (Some b) (cg_endpointId g))) (connectionGrants s1)"
    unfolding gs by (rule update_none_left) (auto simp: open_grant_def)
  show "(''groups'', step_pending) \<in> set steps \<longleftrightarrow> reached_by_group s1 u b"
    unfolding reached_by_group_def sc(3) list_ex_iff using f2(1)
    by (cases st2) (simp add: st step_of_def s1)
qed

lemma rotate_one_frame:
  assumes "rotate_one c tz now rnd actor v (xs, s) = (ys, s1)"
  shows "memberships s1 = memberships s" "accesses s1 = accesses s" "assignments s1 = assignments s"
    "launcherTokens s1 = launcherTokens s" "connectionGrants s1 = connectionGrants s" "endpoints s1 = endpoints s"
    "sessions s1 = sessions s" "groupMembers s1 = groupMembers s" "users s1 = users s" "offboardings s1 = offboardings s"
  using assms by (auto simp: rotate_one_def rotateCredential_def audit_endpoint_def write_node_def split: sum.splits option.splits if_splits)

lemma rotations_frame:
  assumes "fold (rotate_one c tz now rnd actor) vs (xs, s) = (ys, s1)"
  shows "memberships s1 = memberships s \<and> accesses s1 = accesses s \<and> assignments s1 = assignments s
    \<and> launcherTokens s1 = launcherTokens s \<and> connectionGrants s1 = connectionGrants s \<and> endpoints s1 = endpoints s
    \<and> sessions s1 = sessions s \<and> groupMembers s1 = groupMembers s \<and> users s1 = users s \<and> offboardings s1 = offboardings s"
  using assms
proof (induction vs arbitrary: xs s)
  case Nil
  then show ?case by simp
next
  case (Cons v vs)
  obtain zs s2 where z: "rotate_one c tz now rnd actor v (xs, s) = (zs, s2)" by (rule prod.exhaust)
  have f: "fold (rotate_one c tz now rnd actor) vs (zs, s2) = (ys, s1)" using Cons.prems z by simp
  show ?case using Cons.IH[OF f] rotate_one_frame[OF z] by simp
qed

lemma get_case_frame:
  "memberships (snd (get_case st now a i s)) = memberships s" "accesses (snd (get_case st now a i s)) = accesses s"
  "assignments (snd (get_case st now a i s)) = assignments s" "launcherTokens (snd (get_case st now a i s)) = launcherTokens s"
  "connectionGrants (snd (get_case st now a i s)) = connectionGrants s" "endpoints (snd (get_case st now a i s)) = endpoints s"
  "sessions (snd (get_case st now a i s)) = sessions s" "groupMembers (snd (get_case st now a i s)) = groupMembers s"
  "users (snd (get_case st now a i s)) = users s"
  by (simp_all add: get_case_def Let_def split: option.split)

lemma get_case_steps:
  assumes "get_case st now a i s = (Inr r, s1)" "find_row (\<lambda>q. ob_id q = i) (offboardings s) = Some q"
  shows "(''groups'', x) \<in> set (cw_steps r) \<longleftrightarrow> (''groups'', x) \<in> set (ob_steps q)" "cw_businessId r = ob_customerId q"
  using assms by (force simp: get_case_def Let_def live_step_def split: if_splits)+

lemma end_access_offboardings: "offboardings (snd (end_access now suspend by scope u s)) = offboardings s"
  by (cases scope; cases suspend) (simp_all add: end_access_def end_memberships_def end_account_def end_grants_def
      end_assignments_def end_groups_def end_tokens_def claim_rows_def Let_def)

text \<open>A case that was just opened, taken apart.\<close>

lemma execute_Inr:
  assumes "execute v now i actor inp s = (Inr r, s1)" "find_row (\<lambda>q. ob_id q = i) (offboardings s) = None"
    "cw_businessId r = Some b"
  obtains u steps s2 where "user_by_id s (oi_userId inp) = Some u"
    "end_access now (oi_suspendAccount inp) (a_userId actor) (Some b) (u_id u) s = (steps, s2)"
    "(''groups'', step_pending) \<in> set (cw_steps r) \<longleftrightarrow> (''groups'', step_pending) \<in> set steps"
    "memberships s1 = memberships s2" "accesses s1 = accesses s2" "assignments s1 = assignments s2"
    "launcherTokens s1 = launcherTokens s2" "connectionGrants s1 = connectionGrants s2" "endpoints s1 = endpoints s2"
    "sessions s1 = sessions s2" "groupMembers s1 = groupMembers s2"
proof -
  obtain pre u scope where pre: "preview (oe_dec v) (oe_sha v) (oe_stamp v) now actor (oi_userId inp) (oi_businessId inp) s = Inr pre"
    and au: "authorize s actor (oi_userId inp) (oi_businessId inp) = Inr (u, scope)"
    using assms(1) by (auto simp: execute_def split: sum.splits)
  obtain eligible where el: "checked_offboard pre inp = Inr eligible"
    using assms(1) pre au by (auto simp: execute_def split: sum.splits)
  obtain steps s2 where ea: "end_access now (oi_suspendAccount inp) (a_userId actor) scope (u_id u) s = (steps, s2)" by (rule prod.exhaust)
  obtain rots s3 where ro: "fold (rotate_one (oe_cipher v) (oe_zones v) now (oe_rnd v) actor) eligible ([], s2) = (rots, s3)" by (rule prod.exhaust)
  note fr = rotations_frame[OF ro]
  have "offboardings s2 = offboardings s"
    using end_access_offboardings[of now "oi_suspendAccount inp" "a_userId actor" scope "u_id u" s] ea by simp
  then have none: "find_row (\<lambda>q. ob_id q = i) (offboardings s3) = None" using assms(2) fr by simp
  define row where "row = \<lparr>ob_id = i, ob_tenantId = a_tenantId actor, ob_subjectUserId = u_id u, ob_customerId = scope,
      ob_startedById = a_userId actor, ob_startedAt = now, ob_completedAt = None,
      ob_steps = steps @ [rotation_step rots (length (filter (\<lambda>x. cv_endpointId x \<notin> set (oi_rotateEndpointIds inp)) (pv_credentials pre)))],
      ob_rotations = rots\<rparr>"
  define s4 where "s4 = audit_log ''OFFBOARDING_STARTED'' (Some (a_userId actor)) (a_tenantId actor) scope (a_ip actor)
      (Some ''user'') (Some (u_id u)) False (s3\<lparr>offboardings := offboardings s3 @ [row]\<rparr>)"
  have g: "get_case (oe_stamp v) now actor i s4 = (Inr r, s1)"
    using assms(1) pre au el ea ro by (simp add: execute_def Let_def s4_def row_def)
  have row: "find_row (\<lambda>q. ob_id q = i) (offboardings s4) = Some row"
    using none by (simp add: s4_def find_row_append row_def)
  note gs = get_case_steps[OF g row]
  have sc: "scope = Some b" using gs(2) assms(3) by (simp add: row_def)
  have u: "user_by_id s (oi_userId inp) = Some u"
    using au by (auto simp: authorize_def Let_def map_sum_Inr split: if_splits option.splits sum.splits)
  have st: "(''groups'', step_pending) \<in> set (cw_steps r) \<longleftrightarrow> (''groups'', step_pending) \<in> set steps"
    using gs(1) by (simp add: row_def rotation_step_def)
  have t: "s1 = snd (get_case (oe_stamp v) now actor i s4)" by (simp add: g)
  show thesis
    by (rule that[OF u ea[unfolded sc] st]) (simp_all add: t get_case_frame, simp_all add: s4_def fr)
qed

lemma offboarded:
  assumes "execute v now i actor inp s = (Inr r, s1)" "find_row (\<lambda>q. ob_id q = i) (offboardings s) = None"
    "cw_businessId r = Some b"
  shows "access_ended now b (oi_userId inp) s1
     \<and> ((''groups'', step_pending) \<in> set (cw_steps r) \<longleftrightarrow> reached_by_group s1 (oi_userId inp) b)"
proof -
  obtain u steps s2 where u: "user_by_id s (oi_userId inp) = Some u"
    and ea: "end_access now (oi_suspendAccount inp) (a_userId actor) (Some b) (u_id u) s = (steps, s2)"
    and st: "(''groups'', step_pending) \<in> set (cw_steps r) \<longleftrightarrow> (''groups'', step_pending) \<in> set steps"
    and f: "memberships s1 = memberships s2" "accesses s1 = accesses s2" "assignments s1 = assignments s2"
    "launcherTokens s1 = launcherTokens s2" "connectionGrants s1 = connectionGrants s2" "endpoints s1 = endpoints s2"
    "sessions s1 = sessions s2" "groupMembers s1 = groupMembers s2"
    by (rule execute_Inr[OF assms])
  have i: "u_id u = oi_userId inp" using u by (auto simp: user_by_id_def dest: find_row_Some)
  have sc: "in_scope s1 = in_scope s2" "token_in_scope s1 = token_in_scope s2" "in_group_of s1 = in_group_of s2"
    using f by (auto intro!: in_scope_frame token_in_scope_frame in_group_of_frame)
  note p = end_access_parts[OF ea, unfolded i]
  show ?thesis using p st by (simp add: access_ended_def reached_by_group_def f sc)
qed

text \<open>Without a membership, a direct assignment or a group's, nobody but a platform admin connects.\<close>

lemma ended_cannot_connect:
  assumes "access_ended now b (u_id u) s" "\<not> reached_by_group s (u_id u) b" "\<not> u_isPlatformAdmin u" "e_customerId e = Some b"
  shows "\<not> may_connect tz s t u e"
proof -
  have m: "\<not> member_may_connect tz s t u e"
  proof (cases "active_membership s (u_id u)")
    case (Some m)
    then have "m \<in> set (memberships s)" "m_userId m = u_id u" "m_isActive m"
      by (auto simp: active_membership_def dest: find_row_Some)
    then have "m_customerId m \<noteq> Some b" using assms(1) by (auto simp: access_ended_def list_all_iff member_in_scope_def)
    with Some assms(4) show ?thesis by (simp add: member_may_connect_def)
  qed (simp add: member_may_connect_def)
  have "\<not> counts tz s (u_id u) b t a" for a
    using assms(1,2) by (auto simp: counts_def holds_assignment_def access_ended_def list_all_iff list_ex_iff
        assigned_in_scope_def reached_by_group_def in_group_of_def split: option.splits)
  then have "scopeFor tz s (u_id u) b t = None" by (simp add: scopeFor_None_iff)
  then have "\<not> technician_may_connect tz s t u e" using assms(4) by (simp add: technician_may_connect_def)
  with m assms(3) show ?thesis by (simp add: may_connect_def)
qed

section \<open>Properties\<close>

text \<open>
  C10: An offboarding from a business that came through, run as one step under a fresh case number, leaves the person
  without any standing there: no active membership, no per-computer grant, no direct assignment, no launcher token and no
  connection grant that would still open one of its computers. And for a person who is no platform admin the case says the
  truth about the one way left: unless it shows the group step as pending, that person may connect to no computer of the
  business, at any time, in the database as it is then.
\<close>

theorem offboarding_ends_standing:
  assumes "execute v now i actor inp s = (Inr r, s1)" "find_row (\<lambda>q. ob_id q = i) (offboardings s) = None"
    "cw_businessId r = Some b"
  shows "access_ended now b (oi_userId inp) s1
     \<and> ((''groups'', step_pending) \<in> set (cw_steps r)
        \<or> (\<forall>tz t u e. user_by_id s1 (oi_userId inp) = Some u \<and> \<not> u_isPlatformAdmin u \<and> e_customerId e = Some b
             \<longrightarrow> \<not> may_connect tz s1 t u e))"
proof -
  note o = offboarded[OF assms]
  have id: "u_id u = oi_userId inp" if "user_by_id s1 (oi_userId inp) = Some u" for u
    using that by (auto simp: user_by_id_def dest: find_row_Some)
  show ?thesis
  proof (cases "(''groups'', step_pending) \<in> set (cw_steps r)")
    case False
    then have n: "\<not> reached_by_group s1 (oi_userId inp) b" using o by blast
    have "\<not> may_connect tz s1 t u e"
      if "user_by_id s1 (oi_userId inp) = Some u" "\<not> u_isPlatformAdmin u" "e_customerId e = Some b" for tz t u e
      using ended_cannot_connect[of now b u s1] o n id[OF that(1)] that by simp
    then show ?thesis using o by blast
  qed (use o in blast)
qed

text \<open>A member with a grant and a token, and a technician who also works elsewhere.\<close>

definition off_owner :: actor where
  "off_owner = plain_actor ''owner'' (Some ''b1'') (Some BUSINESS_OWNER) [CAP_COMPUTERS_EDIT]"

definition off_group_assignment :: assignment_row where
  "off_group_assignment = one_assignment\<lparr>ta_id := ''a2'', ta_customerId := ''b2'', ta_userId := None, ta_groupId := Some ''g1''\<rparr>"

definition off_db :: db where
  "off_db = empty_db\<lparr>users := [plain_user ''u1''], businesses := [one_business ''b1'', one_business ''b2''],
     endpoints := [shared_pc, shared_pc\<lparr>e_id := ''e2'', e_customerId := Some ''b2''\<rparr>],
     assignments := [one_assignment\<lparr>ta_revokedAt := Some 0\<rparr>, off_group_assignment],
     techGroups := [\<lparr>tg_id = ''g1'', tg_tenantId = ''t1'', tg_name = ''team'', tg_description = None, tg_capabilities = [CAP_COMPUTERS_CONNECT], tg_createdById = None\<rparr>],
     groupMembers := [\<lparr>gm_groupId = ''g1'', gm_userId = ''u1'', gm_addedById = None\<rparr>]\<rparr>"

definition off_input :: offboard_input where
  "off_input = \<lparr>oi_userId = ''u1'', oi_businessId = Some ''b1'', oi_suspendAccount = True, oi_rotateEndpointIds = []\<rparr>"

definition off_env :: offboard_env where
  "off_env = \<lparr>oe_cipher = \<lparr>ci_enc = id, ci_dec = id, ci_sha = id\<rparr>, oe_dec = Some, oe_sha = id, oe_zones = \<lambda>z. None,
     oe_stamp = int, oe_rnd = id\<rparr>"

lemma off_result:
  "case fst (execute off_env 5 ''c1'' off_owner off_input off_db) of
     Inl _ \<Rightarrow> False | Inr r \<Rightarrow> cw_businessId r = Some ''b1'' \<and> (''groups'', step_pending) \<notin> set (cw_steps r)"
  "map u_status (users (snd (execute off_env 5 ''c1'' off_owner off_input off_db))) = [U_SUSPENDED]"
  by code_simp+

lemma off_execution:
  obtains r s1 where "execute off_env 5 ''c1'' off_owner off_input off_db = (Inr r, s1)" "cw_businessId r = Some ''b1''"
    "(''groups'', step_pending) \<notin> set (cw_steps r)" "map u_status (users s1) = [U_SUSPENDED]"
proof (cases "execute off_env 5 ''c1'' off_owner off_input off_db")
  case (Pair x s1)
  with off_result that show thesis by (cases x) auto
qed

theorem offboarding_ends_standing_witness:
  "\<exists>r s1. execute off_env 5 ''c1'' off_owner off_input off_db = (Inr r, s1) \<and> access_ended 5 ''b1'' ''u1'' s1"
proof -
  obtain r s1 where r: "execute off_env 5 ''c1'' off_owner off_input off_db = (Inr r, s1)" "cw_businessId r = Some ''b1''"
    by (rule off_execution)
  have "find_row (\<lambda>q. ob_id q = ''c1'') (offboardings off_db) = None" by (simp add: off_db_def empty_db_def)
  from offboarding_ends_standing[OF r(1) this r(2)] r(1) show ?thesis by (auto simp: off_input_def)
qed

text \<open>
  A Business Owner may suspend the whole account of a technician of the platform who can reach nothing in the
  owner's business and works for another one through a technician group: a revoked assignment is enough to be allowed
  the offboarding, and only direct assignments elsewhere stand against the suspension.
\<close>

theorem owner_suspends_foreign_technician:
  "\<exists>s actor inp subject e r s1. \<not> a_isPlatformAdmin actor \<and> user_by_id s (oi_userId inp) = Some subject
     \<and> list_all (\<lambda>x. \<not> (e_customerId x = a_businessId actor \<and> may_connect (\<lambda>z. None) s 5 subject x)) (endpoints s)
     \<and> e \<in> set (endpoints s) \<and> may_connect (\<lambda>z. None) s 5 subject e
     \<and> execute off_env 5 ''c1'' actor inp s = (Inr r, s1) \<and> map u_status (users s1) = [U_SUSPENDED]"
proof -
  obtain r s1 where r: "execute off_env 5 ''c1'' off_owner off_input off_db = (Inr r, s1)" "map u_status (users s1) = [U_SUSPENDED]"
    by (rule off_execution)
  let ?e = "shared_pc\<lparr>e_id := ''e2'', e_customerId := Some ''b2''\<rparr>"
  have a: "\<not> a_isPlatformAdmin off_owner" "user_by_id off_db (oi_userId off_input) = Some (plain_user ''u1'')" "?e \<in> set (endpoints off_db)"
    by (simp_all add: off_owner_def plain_actor_def off_input_def off_db_def user_by_id_def plain_user_def empty_db_def)
  have b: "list_all (\<lambda>x. \<not> (e_customerId x = a_businessId off_owner \<and> may_connect (\<lambda>z. None) off_db 5 (plain_user ''u1'') x)) (endpoints off_db)"
    "may_connect (\<lambda>z. None) off_db 5 (plain_user ''u1'') ?e"
    by code_simp+
  show ?thesis using a(1,2) b(1) a(3) b(2) r by (intro exI conjI)
qed

end
