(* ===== verification/AccessReview.thy ===== *)
theory AccessReview
  imports Endpoints
begin

text \<open>
  The access review of one computer (\<open>offboarding/access-review.service.ts\<close>): everyone who can reach it and why, against
  the decision the connect path takes (\<open>may_connect\<close>). The explanations are texts for the screen, and so is the order
  by name among the active and among the inactive entries; a schedule is the one its text renders.
\<close>

datatype review_via =
  PLATFORM_ADMIN | BUSINESS_OWNER_OF | COMPUTER_GRANT | COMPANY_WIDE_MEMBER | TECHNICIAN_DIRECT | TECHNICIAN_GROUP

datatype review_reason = Why string | WhyGrant inactive_reason

record access_entry =
  ae_userId :: id
  ae_name :: string
  ae_email :: string
  ae_via :: review_via
  ae_activeNow :: bool
  ae_inactiveReason :: "review_reason option"
  ae_startsAt :: "time option"
  ae_expiresAt :: "time option"
  ae_schedule :: schedule_view
  ae_temporary :: bool

text \<open>\<open>[first, last].filter(Boolean).join(' ') || email\<close>.\<close>

definition person_name :: "user_row \<Rightarrow> string" where
  "person_name u = (case filter (\<lambda>x. x \<noteq> []) [u_firstName u, u_lastName u] of
     [] \<Rightarrow> u_email u | [x] \<Rightarrow> x | x # y # _ \<Rightarrow> x @ '' '' @ y)"

definition plain_entry :: "user_row \<Rightarrow> review_via \<Rightarrow> review_reason option \<Rightarrow> access_entry" where
  "plain_entry u via reason = \<lparr>ae_userId = u_id u, ae_name = person_name u, ae_email = u_email u, ae_via = via,
     ae_activeNow = (reason = None), ae_inactiveReason = reason, ae_startsAt = None, ae_expiresAt = None,
     ae_schedule = NoSchedule, ae_temporary = False\<rparr>"

definition schedule_of :: "zone_db \<Rightarrow> json \<Rightarrow> schedule_view" where
  "schedule_of tz j = (case parseSchedule tz j of
     Inl _ \<Rightarrow> InvalidSchedule | Inr None \<Rightarrow> NoSchedule | Inr (Some sc) \<Rightarrow> ValidSchedule sc)"

definition grant_reason :: "zone_db \<Rightarrow> time \<Rightarrow> bool \<Rightarrow> bool \<Rightarrow> access_row \<Rightarrow> review_reason option" where
  "grant_reason tz now accountOk connects g =
     (if \<not> accountOk then Some (Why ''account or membership disabled'')
      else if \<not> connects then Some (Why ''no \"connect\" permission'')
      else if \<not> computerAccessActive tz (Some g) now then Some (Why
        (if (case ca_startsAt g of None \<Rightarrow> False | Some t \<Rightarrow> t > now) then ''not started yet''
         else if (case ca_expiresAt g of None \<Rightarrow> False | Some t \<Rightarrow> t \<le> now) then ''expired''
         else ''outside its schedule''))
      else None)"

text \<open>Of several grants to one user the last one stays in the map.\<close>

definition grant_by :: "db \<Rightarrow> id \<Rightarrow> id \<Rightarrow> access_row option" where
  "grant_by s endpointId userId =
     find_row (\<lambda>r. ca_endpointId r = endpointId \<and> ca_userId r = userId) (rev (accesses s))"

definition member_entries :: "zone_db \<Rightarrow> time \<Rightarrow> db \<Rightarrow> endpoint_row \<Rightarrow> membership_row \<Rightarrow> access_entry list" where
  "member_entries tz now s e m = (case user_by_id s (m_userId m) of
     None \<Rightarrow> []
   | Some u \<Rightarrow>
     if u_isPlatformAdmin u then []
     else
       let accountOk = (m_isActive m \<and> u_status u = U_ACTIVE);
           connects = (CAP_COMPUTERS_CONNECT \<in> set (effectiveCapabilities \<lparr>p_isPlatformAdmin = False,
             p_roleType = Some (m_roleType m), p_capabilities = Some (m_capabilities m)\<rparr>));
           why = (if accountOk then None else Some (Why ''account or membership disabled''))
       in if isOwnerRole (Some (m_roleType m)) then [plain_entry u BUSINESS_OWNER_OF why]
          else (case grant_by s (e_id e) (u_id u) of
              Some g \<Rightarrow> [(plain_entry u COMPUTER_GRANT (grant_reason tz now accountOk connects g))\<lparr>
                  ae_startsAt := ca_startsAt g, ae_expiresAt := ca_expiresAt g, ae_schedule := schedule_of tz (ca_schedule g),
                  ae_temporary := (ca_expiresAt g \<noteq> None)\<rparr>]
            | None \<Rightarrow> if e_accessMode e = COMPANY_WIDE \<and> connects then [plain_entry u COMPANY_WIDE_MEMBER why] else []))"

definition covers_computer :: "id \<Rightarrow> id list option \<Rightarrow> bool" where
  "covers_computer endpointId ids = (case ids of None \<Rightarrow> True | Some xs \<Rightarrow> endpointId \<in> set xs)"

definition source_entry :: "user_row \<Rightarrow> grant_source \<Rightarrow> review_reason option \<Rightarrow> access_entry" where
  "source_entry u src reason = (plain_entry u (if gs_via src = GROUP then TECHNICIAN_GROUP else TECHNICIAN_DIRECT) reason)\<lparr>
     ae_startsAt := gs_startsAt src, ae_expiresAt := gs_expiresAt src, ae_schedule := gs_schedule src, ae_temporary := gs_temporary src\<rparr>"

definition source_reason :: "user_row \<Rightarrow> grant_source \<Rightarrow> review_reason option" where
  "source_reason u src = (if u_status u \<noteq> U_ACTIVE then Some (Why ''account disabled'')
     else if CAP_COMPUTERS_CONNECT \<in> set (gs_capabilities src) then None
     else Some (Why ''assignment does not include \"connect\"''))"

definition technician_entries :: "zone_db \<Rightarrow> time \<Rightarrow> db \<Rightarrow> endpoint_row \<Rightarrow> user_row \<Rightarrow> access_entry list" where
  "technician_entries tz now s e u =
     (if u_isPlatformAdmin u then []
      else
        (case scopeFor tz s (u_id u) (case e_customerId e of None \<Rightarrow> [] | Some b \<Rightarrow> b) now of
           None \<Rightarrow> []
         | Some sc \<Rightarrow> if covers_computer (e_id e) (bs_endpointIds sc)
             then map (\<lambda>src. source_entry u src (source_reason u src)) (filter (\<lambda>src. covers_computer (e_id e) (gs_endpointIds src)) (bs_sources sc))
             else [])
        @ map (\<lambda>i. source_entry u (ig_source i) (Some (WhyGrant (ig_reason i))))
            (filter (\<lambda>i. Some (ig_businessId i) = e_customerId e \<and> covers_computer (e_id e) (gs_endpointIds (ig_source i)))
              (snd (resolve tz s (u_id u) now))))"

text \<open>Everyone with any assignment into the business that is not revoked.\<close>

definition tech_users :: "db \<Rightarrow> id \<Rightarrow> user_row list" where
  "tech_users s businessId = filter (\<lambda>u. list_ex (\<lambda>a. ta_customerId a = businessId \<and> ta_revokedAt a = None
     \<and> holds_assignment s (u_id u) a) (assignments s)) (users s)"

definition review_entries :: "zone_db \<Rightarrow> time \<Rightarrow> db \<Rightarrow> endpoint_row \<Rightarrow> access_entry list" where
  "review_entries tz now s e =
     (let b = (case e_customerId e of None \<Rightarrow> ''__none__'' | Some b \<Rightarrow> b) in
      map (\<lambda>u. plain_entry u PLATFORM_ADMIN None) (filter (\<lambda>u. u_isPlatformAdmin u \<and> u_status u = U_ACTIVE) (users s))
      @ concat (map (member_entries tz now s e) (filter (\<lambda>m. m_customerId m = Some b) (memberships s)))
      @ concat (map (technician_entries tz now s e) (tech_users s b)))"

definition review :: "zone_db \<Rightarrow> time \<Rightarrow> db \<Rightarrow> actor \<Rightarrow> id \<Rightarrow> access_entry list result" where
  "review tz now s actor endpointId = (case assertEndpointInScope s actor endpointId of
     Inl x \<Rightarrow> Inl x
   | Inr e \<Rightarrow> (case assertCapability actor [CAP_USERS_VIEW] of
       Inl x \<Rightarrow> Inl x
     | Inr _ \<Rightarrow> let entries = review_entries tz now s e
         in Inr (filter ae_activeNow entries @ filter (\<lambda>x. \<not> ae_activeNow x) entries)))"

section \<open>Lemmas: the sources of a scope\<close>








section \<open>Lemmas: entries\<close>

lemma plain_entry_simps [simp]:
  "ae_userId (plain_entry u via r) = u_id u" "ae_activeNow (plain_entry u via r) \<longleftrightarrow> r = None"
  by (simp_all add: plain_entry_def)

lemma source_entry_simps [simp]:
  "ae_userId (source_entry u src r) = u_id u" "ae_activeNow (source_entry u src r) \<longleftrightarrow> r = None"
  by (simp_all add: source_entry_def)










lemma review_Inr:
  assumes "review tz now s actor i = Inr xs"
  obtains e where "assertEndpointInScope s actor i = Inr e" "set xs = set (review_entries tz now s e)"
proof -
  have sp: "set (filter P ys @ filter (\<lambda>x. \<not> P x) ys) = set ys" for P and ys :: "access_entry list" by auto
  show thesis using assms that by (auto simp: review_def Let_def simp del: set_append set_filter simp: sp split: sum.splits)
qed



section \<open>Properties\<close>


definition review_member :: membership_row where
  "review_member = \<lparr>m_id = ''m1'', m_userId = ''u1'', m_tenantId = ''t1'', m_roleId = ''r1'', m_roleType = BUSINESS_USER,
     m_isActive = True, m_customerId = Some ''b1'', m_capabilities = [CAP_COMPUTERS_CONNECT]\<rparr>"

definition expired_access :: access_row where
  "expired_access = \<lparr>ca_id = ''x1'', ca_tenantId = ''t1'', ca_endpointId = ''e1'', ca_userId = ''u1'', ca_grantedBy = None,
     ca_startsAt = None, ca_expiresAt = Some 1, ca_schedule = JNull, ca_expiryAuditedAt = None\<rparr>"

definition review_db :: db where
  "review_db = empty_db\<lparr>users := [plain_user ''u1''], memberships := [review_member], businesses := [one_business ''b1''],
     endpoints := [shared_pc], accesses := [expired_access]\<rparr>"

definition review_owner :: actor where
  "review_owner = plain_actor ''o'' (Some ''b1'') (Some BUSINESS_OWNER) [CAP_USERS_VIEW]"

lemma review_db_facts:
  "is_ok (review (\<lambda>z. None) 5 review_db review_owner ''e1'')" "endpoint_by_id review_db ''e1'' = Some shared_pc"
  "\<not> business_closed review_db (Some ''b1'')" "may_connect (\<lambda>z. None) review_db 5 (plain_user ''u1'') shared_pc"
  "case review (\<lambda>z. None) 5 review_db review_owner ''e1'' of Inl _ \<Rightarrow> False
   | Inr xs \<Rightarrow> list_all (\<lambda>x. \<not> (ae_userId x = ''u1'' \<and> ae_activeNow x)) xs"
  by code_simp+



text \<open>
  The review can drift from what happens: a member who reaches a company-wide computer like everyone else, and holds
  an old grant to it that expired, is shown with that grant alone, as not active.
\<close>

theorem reachable_but_reviewed_inactive:
  "\<exists>s actor u e xs. review (\<lambda>z. None) 5 s actor (e_id e) = Inr xs \<and> endpoint_by_id s (e_id e) = Some e
     \<and> may_connect (\<lambda>z. None) s 5 u e \<and> list_all (\<lambda>x. \<not> (ae_userId x = u_id u \<and> ae_activeNow x)) xs"
proof -
  obtain xs where xs: "review (\<lambda>z. None) 5 review_db review_owner ''e1'' = Inr xs" using review_db_facts(1) by (auto simp: is_ok_iff)
  have i: "u_id (plain_user ''u1'') = ''u1''" "e_id shared_pc = ''e1''" by (simp_all add: plain_user_def shared_pc_def)
  have "list_all (\<lambda>x. \<not> (ae_userId x = ''u1'' \<and> ae_activeNow x)) xs" using review_db_facts(5) by (simp add: xs)
  with xs review_db_facts(2,4)
  have "review (\<lambda>z. None) 5 review_db review_owner (e_id shared_pc) = Inr xs \<and> endpoint_by_id review_db (e_id shared_pc) = Some shared_pc
     \<and> may_connect (\<lambda>z. None) review_db 5 (plain_user ''u1'') shared_pc
     \<and> list_all (\<lambda>x. \<not> (ae_userId x = u_id (plain_user ''u1'') \<and> ae_activeNow x)) xs"
    unfolding i by blast
  then show ?thesis by (intro exI)
qed

text \<open>
  The review does not look at the computer's status or at its business: a platform admin is shown as active on an archived
  computer, and the owner of a disabled business on its computers, although neither may connect.
\<close>

theorem archived_reviewed_active:
  assumes "review tz now s actor i = Inr xs" "endpoint_by_id s i = Some e" "e_status e = EP_ARCHIVED"
    and "u \<in> set (users s)" "u_isPlatformAdmin u" "u_status u = U_ACTIVE"
  shows "list_ex (\<lambda>x. ae_userId x = u_id u \<and> ae_activeNow x) xs \<and> \<not> may_connect tz s now u e"
proof -
  obtain e' where e': "assertEndpointInScope s actor i = Inr e'" "set xs = set (review_entries tz now s e')"
    by (rule review_Inr[OF assms(1)])
  have "plain_entry u PLATFORM_ADMIN None \<in> set xs" using assms(4-6) unfolding e'(2) by (auto simp: review_entries_def Let_def)
  moreover have "ae_userId (plain_entry u PLATFORM_ADMIN None) = u_id u \<and> ae_activeNow (plain_entry u PLATFORM_ADMIN None)"
    by (simp add: plain_entry_def)
  ultimately have "list_ex (\<lambda>x. ae_userId x = u_id u \<and> ae_activeNow x) xs" unfolding list_ex_iff by blast
  then show ?thesis using assms(3) by (simp add: may_connect_def)
qed

theorem archived_reviewed_active_witness:
  "\<exists>xs. review (\<lambda>z. None) 5 (review_db\<lparr>endpoints := [shared_pc\<lparr>e_status := EP_ARCHIVED\<rparr>], users := [(plain_user ''u1'')\<lparr>u_isPlatformAdmin := True\<rparr>]\<rparr>)
       review_owner ''e1'' = Inr xs \<and> list_ex (\<lambda>x. ae_userId x = ''u1'' \<and> ae_activeNow x) xs"
proof -
  let ?e = "shared_pc\<lparr>e_status := EP_ARCHIVED\<rparr>" and ?u = "(plain_user ''u1'')\<lparr>u_isPlatformAdmin := True\<rparr>"
  let ?s = "review_db\<lparr>endpoints := [?e], users := [?u]\<rparr>"
  have "is_ok (review (\<lambda>z. None) 5 ?s review_owner ''e1'')" by code_simp
  then obtain xs where xs: "review (\<lambda>z. None) 5 ?s review_owner ''e1'' = Inr xs" by (auto simp: is_ok_iff)
  have "endpoint_by_id ?s ''e1'' = Some ?e" by (simp add: endpoint_by_id_def shared_pc_def)
  from archived_reviewed_active[OF xs this, of ?u] xs show ?thesis by (simp add: plain_user_def)
qed

theorem closed_business_reviewed_active:
  assumes "review tz now s actor i = Inr xs" "endpoint_by_id s i = Some e" "e_customerId e = Some b" "business_closed s (Some b)"
    and "m \<in> set (memberships s)" "m_customerId m = Some b" "m_isActive m" "isOwnerRole (Some (m_roleType m))"
    and "user_by_id s (m_userId m) = Some u" "\<not> u_isPlatformAdmin u" "u_status u = U_ACTIVE"
  shows "list_ex (\<lambda>x. ae_userId x = u_id u \<and> ae_activeNow x) xs \<and> \<not> may_connect tz s now u e"
proof -
  obtain e' where e': "assertEndpointInScope s actor i = Inr e'" "set xs = set (review_entries tz now s e')"
    by (rule review_Inr[OF assms(1)])
  have ee: "e' = e" using e'(1) assms(2) by (auto simp: assertEndpointInScope_def endpoint_by_id_def split: option.splits if_splits)
  have "plain_entry u BUSINESS_OWNER_OF None \<in> set (member_entries tz now s e m)"
    using assms(7-11) by (simp add: member_entries_def)
  then have "plain_entry u BUSINESS_OWNER_OF None \<in> set xs"
    using assms(3,5,6) unfolding e'(2) ee by (auto simp: review_entries_def)
  moreover have "ae_userId (plain_entry u BUSINESS_OWNER_OF None) = u_id u \<and> ae_activeNow (plain_entry u BUSINESS_OWNER_OF None)"
    by (simp add: plain_entry_def)
  ultimately have "list_ex (\<lambda>x. ae_userId x = u_id u \<and> ae_activeNow x) xs" unfolding list_ex_iff by blast
  then show ?thesis using assms(3,4,10) by (simp add: may_connect_def)
qed

theorem closed_business_reviewed_active_witness:
  "\<exists>xs. review (\<lambda>z. None) 5 (review_db\<lparr>businesses := [(one_business ''b1'')\<lparr>c_isActive := False\<rparr>],
       memberships := [review_member\<lparr>m_roleType := BUSINESS_OWNER\<rparr>]\<rparr>) review_owner ''e1'' = Inr xs
     \<and> list_ex (\<lambda>x. ae_userId x = ''u1'' \<and> ae_activeNow x) xs"
proof -
  let ?m = "review_member\<lparr>m_roleType := BUSINESS_OWNER\<rparr>" and ?u = "plain_user ''u1''"
  let ?s = "review_db\<lparr>businesses := [(one_business ''b1'')\<lparr>c_isActive := False\<rparr>], memberships := [?m]\<rparr>"
  have "is_ok (review (\<lambda>z. None) 5 ?s review_owner ''e1'')" by code_simp
  then obtain xs where xs: "review (\<lambda>z. None) 5 ?s review_owner ''e1'' = Inr xs" by (auto simp: is_ok_iff)
  have e: "endpoint_by_id ?s ''e1'' = Some shared_pc" by (simp add: endpoint_by_id_def shared_pc_def review_db_def)
  have c: "business_closed ?s (Some ''b1'')" by code_simp
  have u: "user_by_id ?s (m_userId ?m) = Some ?u" by (simp add: user_by_id_def review_db_def review_member_def plain_user_def)
  have b: "e_customerId shared_pc = Some ''b1''" by (simp add: shared_pc_def)
  have "m_customerId ?m = Some ''b1''" "m_isActive ?m" "isOwnerRole (Some (m_roleType ?m))"
    by (simp_all add: review_member_def isOwnerRole_def)
  note m = this
  from closed_business_reviewed_active[OF xs e b c _ m u] xs show ?thesis by (simp add: plain_user_def)
qed

end
