(* ===== verification/Notes.thy ===== *)
theory Notes
  imports AccessControl
begin

text \<open>
  Notes on computers, businesses and sessions, and their comments (\<open>notes/notes.service.ts\<close>). The table is in the
  order of creation, so newest first is its reverse; a page is counted from 1. Authors are shown by a join that is left
  out.
\<close>

section \<open>Scope\<close>

text \<open>A session, if the actor's business holds it.\<close>

definition assertSessionInScope :: "db \<Rightarrow> actor \<Rightarrow> id \<Rightarrow> session_row result" where
  "assertSessionInScope s actor sessionId = (case find_row (\<lambda>x. ss_id x = sessionId) (sessions s) of
     None \<Rightarrow> Inl (NotFound ''Session not found'')
   | Some x \<Rightarrow> if \<not> a_isPlatformAdmin actor \<and> ss_customerId x \<noteq> a_businessId actor
       then Inl (NotFound ''Session not found'') else Inr x)"

definition assertNoteInScope :: "db \<Rightarrow> actor \<Rightarrow> id \<Rightarrow> note_row result" where
  "assertNoteInScope s actor i = (case find_row (\<lambda>n. nt_id n = i) (noteRows s) of
     None \<Rightarrow> Inl (NotFound ''Note not found'')
   | Some n \<Rightarrow>
     if a_isPlatformAdmin actor then Inr n
     else if truthy (nt_endpointId n) then map_sum id (\<lambda>_. n) (assertEndpointInScope s actor (the (nt_endpointId n)))
     else if \<not> truthy (nt_customerId n) \<or> nt_customerId n \<noteq> a_businessId actor then Inl (NotFound ''Note not found'')
     else Inr n)"

section \<open>Reads\<close>

definition with_comments :: "db \<Rightarrow> note_row \<Rightarrow> note_row \<times> comment_row list" where
  "with_comments s n = (n, filter (\<lambda>k. nc_noteId k = nt_id n) (noteComments s))"

text \<open>Pinned notes first, then the newest.\<close>

definition sorted_notes :: "(note_row \<Rightarrow> bool) \<Rightarrow> db \<Rightarrow> (note_row \<times> comment_row list) list" where
  "sorted_notes P s = (let rows = rev (filter P (noteRows s)) in
     map (with_comments s) (filter nt_isPinned rows @ filter (\<lambda>n. \<not> nt_isPinned n) rows))"

definition page_of :: "nat \<Rightarrow> nat \<Rightarrow> 'a list \<Rightarrow> 'a list" where
  "page_of page limit rows = take limit (drop ((page - 1) * limit) rows)"

definition findByEndpoint :: "db \<Rightarrow> actor \<Rightarrow> id \<Rightarrow> nat \<Rightarrow> nat \<Rightarrow> ((note_row \<times> comment_row list) list \<times> nat) result" where
  "findByEndpoint s actor endpointId page limit = map_sum id (\<lambda>_.
     (page_of page limit (sorted_notes (\<lambda>n. nt_endpointId n = Some endpointId) s),
      count_rows (\<lambda>n. nt_endpointId n = Some endpointId) (noteRows s))) (assertEndpointInScope s actor endpointId)"

definition findByBusiness :: "db \<Rightarrow> actor \<Rightarrow> id \<Rightarrow> nat \<Rightarrow> nat \<Rightarrow> ((note_row \<times> comment_row list) list \<times> nat) result" where
  "findByBusiness s actor businessId page limit = map_sum id (\<lambda>_.
     (page_of page limit (sorted_notes (\<lambda>n. nt_customerId n = Some businessId) s),
      count_rows (\<lambda>n. nt_customerId n = Some businessId) (noteRows s))) (assertBusinessInScope s actor businessId)"

definition findBySession :: "db \<Rightarrow> actor \<Rightarrow> id \<Rightarrow> (note_row \<times> comment_row list) list result" where
  "findBySession s actor sessionId = map_sum id (\<lambda>_. sorted_notes (\<lambda>n. nt_sessionId n = Some sessionId) s)
     (assertSessionInScope s actor sessionId)"

section \<open>Writes\<close>

record note_input =
  ni_content :: string
  ni_endpointId :: "id option"
  ni_businessId :: "id option"
  ni_customerId :: "id option"
  ni_sessionId :: "id option"
  ni_isInternal :: "bool option"
  ni_isPinned :: "bool option"

text \<open>The container and the business of what a note hangs off: a computer, else a business, else a session.\<close>

definition note_parent :: "db \<Rightarrow> actor \<Rightarrow> note_input \<Rightarrow> (id option \<times> id option) result" where
  "note_parent s actor inp =
     (if truthy (ni_endpointId inp) then map_sum id (\<lambda>e. (e_tenantId e, e_customerId e)) (assertEndpointInScope s actor (the (ni_endpointId inp)))
      else if truthy (nullish (ni_businessId inp) (ni_customerId inp))
      then map_sum id (\<lambda>c. (Some (c_tenantId c), Some (c_id c))) (assertBusinessInScope s actor (the (nullish (ni_businessId inp) (ni_customerId inp))))
      else if truthy (ni_sessionId inp) then map_sum id (\<lambda>x. (Some (ss_tenantId x), ss_customerId x)) (assertSessionInScope s actor (the (ni_sessionId inp)))
      else Inl (BadRequest ''A note must be attached to a computer, a business or a session''))"

definition checked_session :: "db \<Rightarrow> actor \<Rightarrow> id option \<Rightarrow> id option \<Rightarrow> unit result" where
  "checked_session s actor sessionId businessId =
     (if \<not> truthy sessionId then Inr ()
      else (case assertSessionInScope s actor (the sessionId) of
          Inl e \<Rightarrow> Inl e
        | Inr x \<Rightarrow> if ss_customerId x \<noteq> businessId then Inl (BadRequest ''That session belongs to a different business'') else Inr ()))"

definition note_audit :: "string \<Rightarrow> actor \<Rightarrow> id \<Rightarrow> id option \<Rightarrow> id \<Rightarrow> db \<Rightarrow> db" where
  "note_audit action actor tenantId businessId i =
     audit_log action (Some (a_userId actor)) (Some tenantId) businessId (a_ip actor) (Some ''note'') (Some i) False"

definition create_note :: "id \<Rightarrow> actor \<Rightarrow> note_input \<Rightarrow> db \<Rightarrow> note_row result \<times> db" where
  "create_note i actor inp s = (case note_parent s actor inp of
     Inl e \<Rightarrow> (Inl e, s)
   | Inr (tenantId, businessId) \<Rightarrow>
     if \<not> truthy tenantId then (Inl (BadRequest ''No platform context''), s)
     else (case checked_session s actor (ni_sessionId inp) businessId of
       Inl e \<Rightarrow> (Inl e, s)
     | Inr _ \<Rightarrow>
       let n = \<lparr>nt_id = i, nt_tenantId = the tenantId, nt_authorId = a_userId actor, nt_endpointId = ni_endpointId inp,
             nt_customerId = businessId, nt_sessionId = ni_sessionId inp, nt_content = ni_content inp,
             nt_isInternal = given_or (ni_isInternal inp) True, nt_isPinned = given_or (ni_isPinned inp) False\<rparr>
       in (Inr n, note_audit ''NOTE_CREATED'' actor (the tenantId) businessId i (s\<lparr>noteRows := noteRows s @ [n]\<rparr>))))"

text \<open>One's own note, or any in scope for an owner.\<close>

definition note_for_change :: "db \<Rightarrow> actor \<Rightarrow> id \<Rightarrow> string \<Rightarrow> note_row result" where
  "note_for_change s actor i refusal = (case assertNoteInScope s actor i of
     Inl e \<Rightarrow> Inl e
   | Inr n \<Rightarrow> if \<not> isBusinessOwner actor \<and> nt_authorId n \<noteq> a_userId actor then Inl (Forbidden refusal) else Inr n)"

definition update_note :: "actor \<Rightarrow> id \<Rightarrow> string option \<Rightarrow> bool option \<Rightarrow> db \<Rightarrow> unit result \<times> db" where
  "update_note actor i content isPinned s = (case note_for_change s actor i ''You can only edit your own notes'' of
     Inl e \<Rightarrow> (Inl e, s)
   | Inr n \<Rightarrow> (Inr (), note_audit ''NOTE_UPDATED'' actor (nt_tenantId n) (nt_customerId n) i
       (s\<lparr>noteRows := update_rows (\<lambda>q. nt_id q = i)
         (\<lambda>q. q\<lparr>nt_content := given_or content (nt_content q), nt_isPinned := given_or isPinned (nt_isPinned q)\<rparr>) (noteRows s)\<rparr>)))"

definition delete_note :: "actor \<Rightarrow> id \<Rightarrow> db \<Rightarrow> unit result \<times> db" where
  "delete_note actor i s = (case note_for_change s actor i ''You can only delete your own notes'' of
     Inl e \<Rightarrow> (Inl e, s)
   | Inr n \<Rightarrow> (Inr (), note_audit ''NOTE_DELETED'' actor (nt_tenantId n) (nt_customerId n) i
       (s\<lparr>noteRows := delete_rows (\<lambda>q. nt_id q = i) (noteRows s),
          noteComments := delete_rows (\<lambda>k. nc_noteId k = i) (noteComments s)\<rparr>)))"

definition addComment :: "id \<Rightarrow> actor \<Rightarrow> id \<Rightarrow> string \<Rightarrow> db \<Rightarrow> comment_row result \<times> db" where
  "addComment commentId actor noteId content s = (case assertNoteInScope s actor noteId of
     Inl e \<Rightarrow> (Inl e, s)
   | Inr n \<Rightarrow>
     let k = \<lparr>nc_id = commentId, nc_noteId = noteId, nc_authorId = a_userId actor, nc_content = content\<rparr>
     in (Inr k, note_audit ''NOTE_COMMENT_ADDED'' actor (nt_tenantId n) (nt_customerId n) noteId
          (s\<lparr>noteComments := noteComments s @ [k]\<rparr>)))"

section \<open>Where notes hang\<close>

lemma assertSessionInScope_Inr:
  "assertSessionInScope s a i = Inr x \<Longrightarrow> find_row (\<lambda>q. ss_id q = i) (sessions s) = Some x
     \<and> (a_isPlatformAdmin a \<or> ss_customerId x = a_businessId a)"
  by (auto simp: assertSessionInScope_def split: option.splits if_splits)

text \<open>Everything a note refers to is of the note's business.\<close>

definition note_coherent :: "db \<Rightarrow> note_row \<Rightarrow> bool" where
  "note_coherent s n \<longleftrightarrow>
     (truthy (nt_endpointId n) \<longrightarrow> (\<exists>e \<in> set (endpoints s). Some (e_id e) = nt_endpointId n \<and> e_customerId e = nt_customerId n))
     \<and> (truthy (nt_sessionId n) \<longrightarrow> (\<exists>x \<in> set (sessions s). Some (ss_id x) = nt_sessionId n \<and> ss_customerId x = nt_customerId n))"

lemma created_note_coherent:
  assumes "create_note i a inp s = (Inr n, s1)"
  shows "note_coherent s n \<and> (a_isPlatformAdmin a \<or> nt_customerId n = a_businessId a) \<and> nt_authorId n = a_userId a
    \<and> noteRows s1 = noteRows s @ [n]"
proof -
  obtain tenantId b where p: "note_parent s a inp = Inr (tenantId, b)"
    using assms by (auto simp: create_note_def split: sum.splits)
  have c: "checked_session s a (ni_sessionId inp) b = Inr ()"
    using assms p by (auto simp: create_note_def split: sum.splits if_splits)
  have n: "nt_endpointId n = ni_endpointId inp" "nt_sessionId n = ni_sessionId inp" "nt_customerId n = b" "nt_authorId n = a_userId a"
    "noteRows s1 = noteRows s @ [n]"
    using assms p c by (auto simp: create_note_def Let_def note_audit_def split: if_splits)
  have "\<exists>e \<in> set (endpoints s). Some (e_id e) = ni_endpointId inp \<and> e_customerId e = b" if "truthy (ni_endpointId inp)"
    using that p by (auto simp: note_parent_def map_sum_Inr truthy_iff dest!: assertEndpointInScope_Inr)
  moreover have "\<exists>x \<in> set (sessions s). Some (ss_id x) = ni_sessionId inp \<and> ss_customerId x = b" if "truthy (ni_sessionId inp)"
    using that c by (auto simp: checked_session_def truthy_iff split: sum.splits if_splits
        dest!: assertSessionInScope_Inr find_row_Some)
  moreover have "a_isPlatformAdmin a \<or> b = a_businessId a"
  proof (cases "a_isPlatformAdmin a")
    case False
    show ?thesis
    proof (cases "truthy (ni_endpointId inp) \<or> \<not> truthy (nullish (ni_businessId inp) (ni_customerId inp))")
      case True
      then show ?thesis using p False
        by (auto simp: note_parent_def map_sum_Inr split: if_splits dest: assertEndpointInScope_own assertSessionInScope_Inr)
    next
      case False2: False
      let ?r = "the (nullish (ni_businessId inp) (ni_customerId inp))"
      obtain c where bc: "assertBusinessInScope s a ?r = Inr c" "b = Some (c_id c)"
        using p False2 by (auto simp: note_parent_def map_sum_Inr)
      obtain sc where sc: "resolveScope a (Some ?r) = Inr sc" using bc(1) by (auto simp: assertBusinessInScope_def split: sum.splits)
      note own = resolveScope_pinned[OF False sc]
      with bc sc have "c_id c = the (a_businessId a)"
        by (auto simp: assertBusinessInScope_def split: option.splits dest!: find_row_Some)
      with own bc(2) show ?thesis by (cases "a_businessId a") auto
    qed
  qed simp
  ultimately show ?thesis by (simp add: note_coherent_def n)
qed

text \<open>
  A note that is written hangs off computers and sessions of one business, which for anyone but a platform admin is the
  own one.
\<close>

theorem notes_stay_in_business:
  assumes "create_note i a inp s = (Inr n, s1)" "\<not> a_isPlatformAdmin a"
  shows "nt_customerId n = a_businessId a \<and> note_coherent s n"
  using created_note_coherent[OF assms(1)] assms(2) by blast

text \<open>Notes change by their author or an owner only, whatever the operation.\<close>

datatype note_op = NUpdate id "string option" "bool option" | NDelete id

definition note_step :: "actor \<Rightarrow> note_op \<Rightarrow> db \<Rightarrow> unit result \<times> db" where
  "note_step a x s = (case x of NUpdate i content pinned \<Rightarrow> update_note a i content pinned s | NDelete i \<Rightarrow> delete_note a i s)"

theorem foreign_notes_unchanged:
  assumes "\<not> isBusinessOwner a" "n \<in> set (noteRows s)" "distinct (map nt_id (noteRows s))" "nt_authorId n \<noteq> a_userId a"
  shows "n \<in> set (noteRows (snd (note_step a x s)))"
proof -
  have i: "nt_id n \<noteq> i" if "note_for_change s a i m = Inr q" for i m q
  proof
    assume e: "nt_id n = i"
    have "find_row (\<lambda>q. nt_id q = i) (noteRows s) = Some n" using find_unique[OF assms(3,2)] e by simp
    with that assms(1,4) show False
      by (auto simp: note_for_change_def assertNoteInScope_def map_sum_Inr split: sum.splits if_splits)
  qed
  show ?thesis
  proof (cases x)
    case (NUpdate k c p)
    show ?thesis
    proof (cases "note_for_change s a k ''You can only edit your own notes''")
      case (Inr q)
      with i[OF Inr] assms(2) NUpdate show ?thesis by (auto simp: note_step_def update_note_def note_audit_def set_update_rows)
    qed (use NUpdate assms(2) in \<open>simp add: note_step_def update_note_def\<close>)
  next
    case (NDelete k)
    show ?thesis
    proof (cases "note_for_change s a k ''You can only delete your own notes''")
      case (Inr q)
      with i[OF Inr] assms(2) NDelete show ?thesis by (auto simp: note_step_def delete_note_def note_audit_def)
    qed (use NDelete assms(2) in \<open>simp add: note_step_def delete_note_def\<close>)
  qed
qed

section \<open>Notes of computers out of reach\<close>

definition limited_technician :: actor where
  "limited_technician = (plain_actor ''u1'' (Some ''b1'') None [CAP_COMPUTERS_VIEW])\<lparr>a_technician :=
     Some \<lparr>tc_businessId = ''b1'', tc_businessName = ''b1'', tc_capabilities = [CAP_COMPUTERS_VIEW], tc_endpointIds = Some [''e9''], tc_sources = []\<rparr>\<rparr>"

definition note_business :: business_row where
  "note_business = \<lparr>c_id = ''b1'', c_tenantId = ''t1'', c_name = ''b1'', c_isActive = True, c_isArchived = False,
     c_quickConnectEnabled = True, c_technicianApprovalRequired = False, c_supportIntakeEnabled = True,
     c_supportIntakeSlug = None, c_profile = Map.empty\<rparr>"

definition hidden_note :: note_row where
  "hidden_note = \<lparr>nt_id = ''n1'', nt_tenantId = ''t1'', nt_authorId = ''o'', nt_endpointId = Some ''e1'', nt_customerId = Some ''b1'',
     nt_sessionId = None, nt_content = ''secret'', nt_isInternal = True, nt_isPinned = False\<rparr>"

definition hidden_note_db :: db where
  "hidden_note_db = empty_db\<lparr>businesses := [note_business], endpoints := [shared_pc], noteRows := [hidden_note]\<rparr>"

text \<open>
  A technician who may see only some computers of a business gets the notes of the others through the list of the
  business, though not through the computer.
\<close>

theorem hidden_computer_notes_listed:
  "\<exists>s a n. nt_endpointId n = Some ''e1'' \<and> \<not> is_ok (findByEndpoint s a ''e1'' 1 20)
     \<and> findByBusiness s a ''b1'' 1 20 = Inr ([(n, [])], 1)"
proof -
  have "\<not> is_ok (findByEndpoint hidden_note_db limited_technician ''e1'' 1 20)"
    "findByBusiness hidden_note_db limited_technician ''b1'' 1 20 = Inr ([(hidden_note, [])], 1)"
    by code_simp+
  moreover have "nt_endpointId hidden_note = Some ''e1''" by (simp add: hidden_note_def)
  ultimately show ?thesis by blast
qed

end
