(* ===== verification/Sites.thy ===== *)
theory Sites
  imports Notes
begin

text \<open>
  Sites of a business (\<open>sites/sites.service.ts\<close>). The order by name and counts shown with the rows are left out.
\<close>

definition SITE_COLUMNS :: "string list" where
  "SITE_COLUMNS = [''address'', ''city'', ''state'', ''country'', ''postalCode'', ''contactName'', ''contactEmail'', ''contactPhone'', ''notes'']"

record site_input =
  si_businessId :: "id option"
  si_customerId :: "id option"
  si_name :: "string option"
  si_columns :: columns
  si_isActive :: "bool option"

text \<open>A site is reachable only through the business that owns it.\<close>

definition site_in_scope :: "db \<Rightarrow> actor \<Rightarrow> id \<Rightarrow> site_row result" where
  "site_in_scope s actor i = (case find_row (\<lambda>x. st_id x = i) (sites s) of
     None \<Rightarrow> Inl (NotFound ''Site not found'')
   | Some x \<Rightarrow> if \<not> a_isPlatformAdmin actor \<and> Some (st_customerId x) \<noteq> a_businessId actor
       then Inl (NotFound ''Site not found'') else Inr x)"

definition find_sites :: "db \<Rightarrow> actor \<Rightarrow> id option \<Rightarrow> site_row list result" where
  "find_sites s actor businessId = map_sum id (\<lambda>sc. filter (\<lambda>x. scope_where (\<lambda>q. Some (st_customerId q)) sc x \<and> st_isActive x) (sites s))
     (resolveScope actor businessId)"

text \<open>A site with its computers.\<close>

definition find_site :: "db \<Rightarrow> actor \<Rightarrow> id \<Rightarrow> (site_row \<times> endpoint_row list) result" where
  "find_site s actor i = map_sum id (\<lambda>x. (x, filter (\<lambda>e. e_siteId e = Some (st_id x)) (endpoints s))) (site_in_scope s actor i)"

definition site_audit :: "string \<Rightarrow> actor \<Rightarrow> site_row \<Rightarrow> db \<Rightarrow> db" where
  "site_audit action actor x = audit_log action (Some (a_userId actor)) (Some (st_tenantId x)) (Some (st_customerId x)) (a_ip actor)
     (Some ''site'') (Some (st_id x)) False"

definition create_site :: "id \<Rightarrow> actor \<Rightarrow> site_input \<Rightarrow> db \<Rightarrow> site_row result \<times> db" where
  "create_site i actor inp s = (case assertCapability actor [CAP_COMPUTERS_EDIT] of
     Inl e \<Rightarrow> (Inl e, s)
   | Inr _ \<Rightarrow> (case requireScope actor (nullish (si_businessId inp) (si_customerId inp)) of
       Inl e \<Rightarrow> (Inl e, s)
     | Inr b \<Rightarrow> (case find_row (\<lambda>c. c_id c = b \<and> \<not> c_isArchived c) (businesses s) of
         None \<Rightarrow> (Inl (BadRequest ''Business not found''), s)
       | Some c \<Rightarrow>
         let x = \<lparr>st_id = i, st_tenantId = c_tenantId c, st_customerId = c_id c, st_name = given_or (si_name inp) [],
               st_isActive = True, st_profile = set_columns SITE_COLUMNS (si_columns inp) Map.empty\<rparr>
         in (Inr x, site_audit ''SITE_CREATED'' actor x (s\<lparr>sites := sites s @ [x]\<rparr>)))))"

text \<open>Capability first, then scope; the written row.\<close>

definition change_site :: "capability \<Rightarrow> string \<Rightarrow> (site_row \<Rightarrow> site_row) \<Rightarrow> actor \<Rightarrow> id \<Rightarrow> db \<Rightarrow> unit result \<times> db" where
  "change_site cap action f actor i s = (case assertCapability actor [cap] of
     Inl e \<Rightarrow> (Inl e, s)
   | Inr _ \<Rightarrow> (case site_in_scope s actor i of
       Inl e \<Rightarrow> (Inl e, s)
     | Inr x \<Rightarrow> (Inr (), site_audit action actor x (s\<lparr>sites := update_rows (\<lambda>q. st_id q = i) f (sites s)\<rparr>))))"

definition update_site :: "actor \<Rightarrow> id \<Rightarrow> site_input \<Rightarrow> db \<Rightarrow> unit result \<times> db" where
  "update_site actor i inp s = change_site CAP_COMPUTERS_EDIT ''SITE_UPDATED'' (\<lambda>x.
     x\<lparr>st_name := given_or (si_name inp) (st_name x), st_isActive := given_or (si_isActive inp) (st_isActive x),
       st_profile := set_columns SITE_COLUMNS (si_columns inp) (st_profile x)\<rparr>) actor i s"

definition delete_site :: "actor \<Rightarrow> id \<Rightarrow> db \<Rightarrow> unit result \<times> db" where
  "delete_site actor i s = change_site CAP_COMPUTERS_REMOVE ''SITE_DELETED'' (\<lambda>x. x\<lparr>st_isActive := False\<rparr>) actor i s"

section \<open>Confinement\<close>

datatype site_op = StCreate id site_input | StUpdate id site_input | StDelete id

definition site_step :: "actor \<Rightarrow> site_op \<Rightarrow> db \<Rightarrow> db" where
  "site_step a x s = (case x of StCreate i inp \<Rightarrow> snd (create_site i a inp s) | StUpdate i inp \<Rightarrow> snd (update_site a i inp s)
     | StDelete i \<Rightarrow> snd (delete_site a i s))"

lemma change_site_sites:
  assumes "\<not> a_isPlatformAdmin a" "\<And>x. st_customerId (f x) = st_customerId x" "distinct (map st_id (sites s))"
  shows "filter (\<lambda>x. Some (st_customerId x) \<noteq> a_businessId a) (sites (snd (change_site cap action f a i s)))
       = filter (\<lambda>x. Some (st_customerId x) \<noteq> a_businessId a) (sites s)"
proof (cases "site_in_scope s a i")
  case (Inl e)
  then show ?thesis by (cases "assertCapability a [cap]") (simp_all add: change_site_def)
next
  case (Inr x)
  then have x: "find_row (\<lambda>x. st_id x = i) (sites s) = Some x" "Some (st_customerId x) = a_businessId a"
    using assms(1) by (auto simp: site_in_scope_def split: option.splits if_splits)
  have own: "Some (st_customerId q) = a_businessId a" if "q \<in> set (sites s)" "st_id q = i" for q
    using find_unique[OF assms(3) that(1)] x that(2) by simp
  have "filter (\<lambda>x. Some (st_customerId x) \<noteq> a_businessId a) (update_rows (\<lambda>q. st_id q = i) f (sites s))
      = filter (\<lambda>x. Some (st_customerId x) \<noteq> a_businessId a) (sites s)"
    by (rule filter_update_rows) (simp add: assms(2) own)
  then show ?thesis using Inr by (cases "assertCapability a [cap]") (simp_all add: change_site_def site_audit_def)
qed

text \<open>No operation of anyone but a platform admin adds, changes or removes a site of another business.\<close>

theorem foreign_sites_unchanged:
  assumes "\<not> a_isPlatformAdmin a" "distinct (map st_id (sites s))"
  shows "filter (\<lambda>x. Some (st_customerId x) \<noteq> a_businessId a) (sites (site_step a op s))
       = filter (\<lambda>x. Some (st_customerId x) \<noteq> a_businessId a) (sites s)"
proof (cases op)
  case (StCreate i inp)
  show ?thesis
  proof (cases "assertCapability a [CAP_COMPUTERS_EDIT]")
    case r1: (Inr u)
    show ?thesis
    proof (cases "requireScope a (nullish (si_businessId inp) (si_customerId inp))")
      case r2: (Inr b)
      have own: "a_businessId a = Some b" using requireScope_own[OF assms(1) r2] by blast
      show ?thesis
      proof (cases "find_row (\<lambda>c. c_id c = b \<and> \<not> c_isArchived c) (businesses s)")
        case (Some c)
        then have "c_id c = b" by (auto dest: find_row_Some)
        with r1 r2 Some own show ?thesis by (simp add: StCreate site_step_def create_site_def site_audit_def Let_def)
      qed (use r1 r2 in \<open>simp add: StCreate site_step_def create_site_def\<close>)
    qed (use r1 in \<open>simp add: StCreate site_step_def create_site_def\<close>)
  qed (simp add: StCreate site_step_def create_site_def)
next
  case (StUpdate i inp)
  show ?thesis unfolding StUpdate site_step_def site_op.case update_site_def by (rule change_site_sites[OF assms(1) _ assms(2)]) simp
next
  case (StDelete i)
  show ?thesis unfolding StDelete site_step_def site_op.case delete_site_def by (rule change_site_sites[OF assms(1) _ assms(2)]) simp
qed

text \<open>A technician who may see only some computers of a business gets all the computers of a site.\<close>

theorem hidden_computer_shown_by_site:
  "\<exists>s a e x. \<not> is_ok (assertEndpointInScope s a (e_id e)) \<and> find_site s a ''s1'' = Inr (x, [e])"
proof -
  let ?x = "\<lparr>st_id = ''s1'', st_tenantId = ''t1'', st_customerId = ''b1'', st_name = ''hq'', st_isActive = True, st_profile = Map.empty\<rparr>"
  let ?e = "shared_pc\<lparr>e_siteId := Some ''s1''\<rparr>"
  let ?s = "empty_db\<lparr>sites := [?x], endpoints := [?e]\<rparr>"
  have "\<not> is_ok (assertEndpointInScope ?s limited_technician (e_id ?e))"
    by (simp add: assertEndpointInScope_def limited_technician_def plain_actor_def shared_pc_def)
  moreover have "find_site ?s limited_technician ''s1'' = Inr (?x, [?e])"
    by (simp add: find_site_def site_in_scope_def limited_technician_def plain_actor_def)
  ultimately show ?thesis by blast
qed

end
