(* ===== verification/Redaction.thy ===== *)
theory Redaction
  imports Prelude
begin

text \<open>
  What leaves the server in a troubleshooting report (\<open>redactForReport\<close> of \<open>diagnostics/diagnostics.service.ts\<close>):
  values of keys that name a secret, long opaque strings, and \<open>password=...\<close> in texts are replaced.
\<close>

section \<open>The rules\<close>

text \<open>\<open>[A-Za-z0-9+/_=-]{32,}\<close>, not all digits.\<close>

definition opaque_char :: "char \<Rightarrow> bool" where
  "opaque_char c = (is_url_char c \<or> c = CHR ''+'' \<or> c = CHR ''/'' \<or> c = CHR ''='')"

definition opaque_string :: "string \<Rightarrow> bool" where
  "opaque_string s = (32 \<le> length s \<and> list_all opaque_char s \<and> \<not> list_all is_digit s)"

definition REDACTED :: string where "REDACTED = ''[redacted]''"

definition secret_words :: "string list" where "secret_words = [''password'', ''token'', ''secret'']"

text \<open>\<open>[^\s&,]\<close>.\<close>

definition value_char :: "char \<Rightarrow> bool" where
  "value_char c = (\<not> js_space c \<and> c \<noteq> CHR ''&'' \<and> c \<noteq> CHR '','')"

text \<open>A labelled value at the start of the text: the label as written, and what follows the value.\<close>

definition labelled :: "string \<Rightarrow> (string \<times> string) option" where
  "labelled s = (case find_row (\<lambda>w. starts_with (w @ ''='') (map lower s)) secret_words of
     None \<Rightarrow> None
   | Some w \<Rightarrow> let rest = drop (Suc (length w)) s in
       if takeWhile value_char rest = [] then None else Some (take (length w) s, dropWhile value_char rest))"

lemma labelled_shorter: "labelled s = Some (w, rest) \<Longrightarrow> length rest < length s"
proof -
  assume l: "labelled s = Some (w, rest)"
  obtain v :: string where r: "rest = dropWhile value_char (drop (Suc (length v)) s)" "takeWhile value_char (drop (Suc (length v)) s) \<noteq> []"
  proof (cases "find_row (\<lambda>w. starts_with (w @ ''='') (map lower s)) secret_words")
    case (Some v)
    with l show thesis by (intro that[of v]) (simp_all add: labelled_def Let_def split: if_splits)
  qed (use l in \<open>simp add: labelled_def\<close>)
  then have "length rest \<le> length s - Suc (length v)" "drop (Suc (length v)) s \<noteq> []"
    using length_dropWhile_le[of value_char "drop (Suc (length v)) s"] by auto
  then show ?thesis by simp
qed

function mask_values :: "string \<Rightarrow> string" where
  "mask_values s = (case labelled s of
     Some (w, rest) \<Rightarrow> w @ ''='' @ REDACTED @ mask_values rest
   | None \<Rightarrow> (case s of [] \<Rightarrow> [] | c # cs \<Rightarrow> c # mask_values cs))"
  by pat_completeness auto

termination
  by (relation "measure length") (auto dest: labelled_shorter)

declare mask_values.simps [simp del]

definition redact_text :: "string \<Rightarrow> string" where
  "redact_text s = (if opaque_string s then REDACTED else mask_values s)"

text \<open>A key that names a secret, unless it only tells about one.\<close>

definition ends_with :: "string \<Rightarrow> string \<Rightarrow> bool" where
  "ends_with p s = starts_with (rev p) (rev s)"

definition secret_key :: "string \<Rightarrow> bool" where
  "secret_key k = (let l = map lower k in
     list_ex (\<lambda>w. has_substring w l) [''pass'', ''secret'', ''token'', ''nonce'', ''cookie'', ''authorization'', ''credential'', ''privatekey'', ''apikey'']
     \<and> \<not> (starts_with ''has'' l \<or> ends_with ''matches'' l \<or> ends_with ''present'' l \<or> ends_with ''status'' l \<or> l = ''passcount''))"

function redactForReport :: "nat \<Rightarrow> json \<Rightarrow> json" where
  "redactForReport depth v =
     (if depth > 8 then JStr ''[truncated]''
      else (case v of
          JStr s \<Rightarrow> JStr (redact_text s)
        | JArr vs \<Rightarrow> JArr (map (redactForReport (depth + 1)) vs)
        | JObj kvs \<Rightarrow> JObj (map (\<lambda>(k, x). (k, if secret_key k then JStr REDACTED else redactForReport (depth + 1) x)) kvs)
        | _ \<Rightarrow> v))"
  by pat_completeness auto

termination by (relation "measure (\<lambda>(depth, v). 9 - depth)") auto

declare redactForReport.simps [simp del]

lemma redact_simps:
  "d > 8 \<Longrightarrow> redactForReport d v = JStr ''[truncated]''"
  "\<not> d > 8 \<Longrightarrow> redactForReport d (JStr s) = JStr (redact_text s)"
  "\<not> d > 8 \<Longrightarrow> redactForReport d (JArr vs) = JArr (map (redactForReport (d + 1)) vs)"
  "\<not> d > 8 \<Longrightarrow> redactForReport d (JObj kvs) = JObj (map (\<lambda>(k, x). (k, if secret_key k then JStr REDACTED else redactForReport (d + 1) x)) kvs)"
  "\<not> d > 8 \<Longrightarrow> redactForReport d JUndefined = JUndefined"
  "\<not> d > 8 \<Longrightarrow> redactForReport d JNull = JNull"
  "\<not> d > 8 \<Longrightarrow> redactForReport d (JBool b) = JBool b"
  "\<not> d > 8 \<Longrightarrow> redactForReport d (JNum q) = JNum q"
  by (subst redactForReport.simps, simp)+

section \<open>What a report may hold\<close>

text \<open>No opaque string at any depth, and nothing but the mark under a key that names a secret.\<close>

fun clean_report :: "json \<Rightarrow> bool" where
  "clean_report (JStr s) = (\<not> opaque_string s)"
| "clean_report (JArr vs) = list_all clean_report vs"
| "clean_report (JObj kvs) = list_all (\<lambda>kx. (if secret_key (fst kx) then snd kx = JStr REDACTED else True) \<and> clean_report (snd kx)) kvs"
| "clean_report _ = True"

fun nesting :: "json \<Rightarrow> nat" where
  "nesting (JArr vs) = Suc (foldr max (map nesting vs) 0)"
| "nesting (JObj kvs) = Suc (foldr max (map (\<lambda>kx. nesting (snd kx)) kvs) 0)"
| "nesting _ = 0"

lemma foldr_max_le: "(\<And>x. x \<in> set xs \<Longrightarrow> x \<le> n) \<Longrightarrow> foldr max xs (0::nat) \<le> n"
  by (induction xs) auto

lemma mark_not_opaque [simp]: "\<not> opaque_string REDACTED" "\<not> opaque_string ''[truncated]''"
  by (simp_all add: opaque_string_def REDACTED_def)

lemma bracket_not_opaque: "CHR ''['' \<in> set s \<Longrightarrow> \<not> opaque_string s"
proof
  assume "CHR ''['' \<in> set s" "opaque_string s"
  then have "opaque_char (CHR ''['')" by (simp add: opaque_string_def list_all_iff)
  then show False by (simp add: opaque_char_def is_url_char_def is_digit_def)
qed

lemma mask_unmarked: "CHR ''['' \<notin> set (mask_values s) \<Longrightarrow> mask_values s = s"
proof (induction s rule: mask_values.induct)
  case (1 s)
  show ?case
  proof (cases "labelled s")
    case (Some wr)
    then have "CHR ''['' \<in> set (mask_values s)" by (cases wr) (simp add: mask_values.simps[of s] REDACTED_def)
    with "1.prems" show ?thesis by blast
  next
    case None
    show ?thesis
    proof (cases s)
      case Nil
      with None show ?thesis by (simp add: mask_values.simps[of "[]"])
    next
      case (Cons c cs)
      then have m: "mask_values s = c # mask_values cs" using None by (simp add: mask_values.simps[of "c # cs"])
      from "1.IH"(1)[OF None Cons] "1.prems" m Cons show ?thesis by simp
    qed
  qed
qed

lemma redact_text_clean: "\<not> opaque_string (redact_text s)"
proof (cases "CHR ''['' \<in> set (mask_values s)")
  case True
  from bracket_not_opaque[OF this] show ?thesis by (simp add: redact_text_def)
next
  case False
  from mask_unmarked[OF this] show ?thesis by (simp add: redact_text_def)
qed

lemma redact_clean: "clean_report (redactForReport d v)"
proof (induction d v rule: redactForReport.induct)
  case (1 d v)
  show ?case
  proof (cases "d > 8")
    case True
    then show ?thesis by (simp add: redact_simps)
  next
    case False
    show ?thesis
    proof (cases v)
      case (JArr vs)
      have "redactForReport d v = JArr (map (redactForReport (d + 1)) vs)" using False JArr by (simp add: redact_simps)
      then show ?thesis using "1.IH"(1)[OF False JArr] by (simp add: list_all_iff)
    next
      case (JObj kvs)
      have "clean_report (redactForReport (d + 1) x)" if "(k, x) \<in> set kvs" "\<not> secret_key k" for k x
        using "1.IH"(2)[OF False JObj that(1) refl that(2)] .
      with False JObj show ?thesis by (auto simp: redact_simps list_all_iff)
    qed (use False in \<open>simp_all add: redact_simps redact_text_clean\<close>)
  qed
qed

lemma redact_nesting: "nesting (redactForReport d v) \<le> 9 - d"
proof (induction d v rule: redactForReport.induct)
  case (1 d v)
  show ?case
  proof (cases "d > 8")
    case True
    then show ?thesis by (simp add: redact_simps)
  next
    case False
    show ?thesis
    proof (cases v)
      case (JArr vs)
      have "foldr max (map nesting (map (redactForReport (d + 1)) vs)) 0 \<le> 8 - d"
        by (rule foldr_max_le) (use "1.IH"(1)[OF False JArr] False in fastforce)
      then show ?thesis using False JArr by (simp add: redact_simps)
    next
      case (JObj kvs)
      have "nesting (redactForReport (d + 1) x) \<le> 8 - d" if "(k, x) \<in> set kvs" "\<not> secret_key k" for k x
        using "1.IH"(2)[OF False JObj that(1) refl that(2)] by simp
      then have "foldr max (map (\<lambda>kx. nesting (snd kx)) (map (\<lambda>(k, x). (k, if secret_key k then JStr REDACTED else redactForReport (d + 1) x)) kvs)) 0 \<le> 8 - d"
        by (intro foldr_max_le) auto
      then show ?thesis using False JObj by (simp add: redact_simps)
    qed (use False in \<open>simp_all add: redact_simps\<close>)
  qed
qed

text \<open>
  C14: Whatever is put into a report, in what leaves the server no string at any depth consists entirely of 32 or more
  letters, digits and characters of +/_=- without being a mere number, nothing but the mark stands under a key that the
  redactor counts as secret, and nothing is nested more than nine deep. (A long secret with any other character in it, such
  as a signed token with its dots, is not such a string.)
\<close>

theorem report_is_clean: "clean_report (redactForReport 0 v) \<and> nesting (redactForReport 0 v) \<le> 9"
  using redact_clean[of 0 v] redact_nesting[of 0 v] by simp

section \<open>Labelled values\<close>

lemma starts_with_append: "starts_with p (p @ t)"
  by (induction p) auto

lemma starts_with_iff: "starts_with p t \<longleftrightarrow> (\<exists>u. t = p @ u)"
  by (induction p t rule: starts_with.induct) auto

lemma lower_eq_sign: "lower c = CHR ''='' \<longleftrightarrow> c = CHR ''=''"
proof
  assume h: "lower c = CHR ''=''"
  show "c = CHR ''=''"
  proof (cases "65 \<le> (of_char c :: nat) \<and> (of_char c :: nat) \<le> 90")
    case True
    then have "(of_char (lower c) :: nat) = of_char c + 32" by (simp add: lower_def)
    with h True show ?thesis by simp
  next
    case False
    then have "lower c = c" unfolding lower_def by (rule if_not_P)
    with h show ?thesis by simp
  qed
qed (simp add: lower_def)

lemma lower_eq_const [simp]: "lower (CHR ''='') = CHR ''=''"
  by (simp add: lower_def)

lemma map_lower_eq: "CHR ''='' \<in> set (map lower s) \<longleftrightarrow> CHR ''='' \<in> set s"
  by (induction s) (simp_all add: lower_eq_sign eq_commute[of "CHR ''=''"])

lemma labelled_value:
  assumes "map lower w \<in> set secret_words" "v \<noteq> []" "list_all value_char v"
    "rest = [] \<or> \<not> value_char (hd rest)"
  shows "labelled (w @ CHR ''='' # v @ rest) = Some (w, rest)"
proof -
  let ?s = "w @ CHR ''='' # v @ rest"
  have m: "map lower ?s = map lower w @ ''='' @ map lower (v @ rest)" by (simp add: lower_eq_sign)
  have "find_row (\<lambda>x. starts_with (x @ ''='') (map lower ?s)) secret_words = Some (map lower w)"
    using assms(1) unfolding m by (auto simp: secret_words_def starts_with_append)
  moreover have "takeWhile value_char (v @ rest) = v" "dropWhile value_char (v @ rest) = rest"
    using assms(3,4) by (cases rest; simp add: list_all_iff)+
  ultimately show ?thesis using assms(2) by (simp add: labelled_def)
qed

lemma split_at_eq: "CHR ''='' \<notin> set a \<Longrightarrow> CHR ''='' \<notin> set b \<Longrightarrow> a @ CHR ''='' # s = b @ CHR ''='' # t \<Longrightarrow> a = b"
proof (induction a arbitrary: b)
  case Nil
  then show ?case by (cases b) auto
next
  case (Cons x a)
  then show ?case by (cases b) auto
qed

lemma secret_word_eq: "w \<in> set secret_words \<Longrightarrow> CHR ''='' \<notin> set w"
  by (auto simp: secret_words_def)

lemma secret_word_suffix:
  assumes "u @ w = x" "w \<in> set secret_words" "x \<in> set secret_words"
  shows "u = []"
proof -
  have "w \<noteq> []" using assms(2) by (auto simp: secret_words_def)
  then have "last x = last w" using assms(1) by auto
  then have "x = w" using assms(2,3) by (auto simp: secret_words_def)
  with assms(1) show ?thesis by simp
qed

text \<open>A word that ends before the first equals sign of a text ends right there.\<close>

lemma no_label_before:
  assumes "CHR ''='' \<notin> set u" "u \<noteq> []" "map lower w \<in> set secret_words"
  shows "labelled (u @ w @ CHR ''='' # t) = None"
proof -
  have "CHR ''='' \<notin> set (map lower u)" "CHR ''='' \<notin> set (map lower w)"
    using assms(1) secret_word_eq[OF assms(3)] unfolding map_lower_eq by auto
  then have eq: "CHR ''='' \<notin> set (map lower u @ map lower w)" by simp
  have "\<not> starts_with (x @ ''='') (map lower (u @ w @ CHR ''='' # t))" if x: "x \<in> set secret_words" for x
  proof
    assume "starts_with (x @ ''='') (map lower (u @ w @ CHR ''='' # t))"
    then obtain r where r: "(map lower u @ map lower w) @ CHR ''='' # map lower t = x @ CHR ''='' # r"
      by (auto simp: starts_with_iff lower_eq_sign)
    have "map lower u @ map lower w = x"
      by (rule split_at_eq[OF eq secret_word_eq[OF x] r])
    from secret_word_suffix[OF this assms(3) x] assms(2) show False by simp
  qed
  then have "find_row (\<lambda>x. starts_with (x @ ''='') (map lower (u @ w @ CHR ''='' # t))) secret_words = None"
    by (simp add: find_row_None)
  then show ?thesis by (simp add: labelled_def)
qed

text \<open>The first value after a label is replaced up to the next separator, and the search goes on after it.\<close>

theorem labelled_value_masked:
  assumes "CHR ''='' \<notin> set u" "map lower w \<in> set secret_words" "v \<noteq> []" "list_all value_char v"
    "rest = [] \<or> \<not> value_char (hd rest)"
  shows "mask_values (u @ w @ CHR ''='' # v @ rest) = u @ w @ ''='' @ REDACTED @ mask_values rest"
  using assms(1)
proof (induction u)
  case Nil
  then show ?case using labelled_value[OF assms(2-5)] by (simp add: mask_values.simps[of "w @ CHR ''='' # v @ rest"])
next
  case (Cons c u)
  have "labelled ((c # u) @ w @ CHR ''='' # v @ rest) = None"
    by (rule no_label_before) (use Cons.prems assms(2) in simp_all)
  with Cons show ?case by (simp add: mask_values.simps[of "c # u @ w @ CHR ''='' # v @ rest"])
qed

section \<open>Signed tokens\<close>

text \<open>
  The comment calls long opaque strings masked anywhere; the three parts of a signed token are joined by dots, which the
  class lacks, so a token of any length leaves as it is.
\<close>

lemma unlabelled: "CHR ''='' \<notin> set s \<Longrightarrow> labelled s = None"
proof -
  assume "CHR ''='' \<notin> set s"
  then have n: "CHR ''='' \<notin> set (map lower s)" unfolding map_lower_eq .
  have "\<not> starts_with (w @ ''='') (map lower s)" for w
  proof
    assume "starts_with (w @ ''='') (map lower s)"
    then obtain u where "map lower s = (w @ ''='') @ u" by (auto simp: starts_with_iff)
    then have "CHR ''='' \<in> set (map lower s)" by (simp del: set_map)
    with n show False by simp
  qed
  then have "find_row (\<lambda>w. starts_with (w @ ''='') (map lower s)) secret_words = None" by (simp add: find_row_None)
  then show ?thesis by (simp add: labelled_def)
qed

lemma mask_unlabelled: "CHR ''='' \<notin> set s \<Longrightarrow> mask_values s = s"
proof (induction s)
  case Nil
  then show ?case using unlabelled[of "[]"] by (simp add: mask_values.simps[of "[]"])
next
  case (Cons c s)
  then show ?case using unlabelled[of "c # s"] by (simp add: mask_values.simps[of "c # s"])
qed

theorem signed_token_survives:
  assumes "list_all is_url_char a" "list_all is_url_char b" "list_all is_url_char c"
  shows "redactForReport 0 (JStr (a @ ''.'' @ b @ ''.'' @ c)) = JStr (a @ ''.'' @ b @ ''.'' @ c)"
proof -
  have n: "CHR ''='' \<notin> set (a @ ''.'' @ b @ ''.'' @ c)"
    using assms by (auto simp: list_all_iff is_url_char_def is_digit_def)
  have "\<not> opaque_string (a @ ''.'' @ b @ ''.'' @ c)"
    by (simp add: opaque_string_def opaque_char_def is_url_char_def is_digit_def)
  then show ?thesis using mask_unlabelled[OF n] by (simp add: redact_simps redact_text_def)
qed

end
