(* ===== verification/RustdeskConfig.thy ===== *)
theory RustdeskConfig
  imports Database
begin

text \<open>
  The server's RustDesk coordinates and what carries them: the settings checked before any use, the supported client
  version and its cache, the file names and scripts built from them (\<open>common/rustdesk.service.ts\<close>,
  \<open>common/rustdesk-release.ts\<close>), and the gate of the Quick Connect download
  (\<open>quick-connect/quick-connect-public.controller.ts\<close>). The bodies of the scripts are PowerShell and are arguments here.
\<close>

section \<open>Characters\<close>

definition is_alnum :: "char \<Rightarrow> bool" where
  "is_alnum c = (is_digit c \<or> (65 \<le> (of_char c :: nat) \<and> (of_char c :: nat) \<le> 90) \<or> (97 \<le> (of_char c :: nat) \<and> (of_char c :: nat) \<le> 122))"

definition hostname_ok :: "string \<Rightarrow> bool" where
  "hostname_ok h = (1 \<le> length h \<and> length h \<le> 253 \<and> list_all (\<lambda>c. is_alnum c \<or> c \<in> set ''._-'') h)"

text \<open>\<open>[A-Za-z0-9+/]{16,512}={0,2}\<close>.\<close>

definition base64_char :: "char \<Rightarrow> bool" where "base64_char c = (is_alnum c \<or> c = CHR ''+'' \<or> c = CHR ''/'')"

definition base64_key_ok :: "string \<Rightarrow> bool" where
  "base64_key_ok k = (let b = takeWhile base64_char k; r = dropWhile base64_char k in
     16 \<le> length b \<and> length b \<le> 512 \<and> length r \<le> 2 \<and> list_all (\<lambda>c. c = CHR ''='') r)"

text \<open>\<open>\d+\.\d+\.\d+\<close>.\<close>

definition release_tag_ok :: "string \<Rightarrow> bool" where
  "release_tag_ok t = (case split_on (CHR ''.'') t of [a, b, c] \<Rightarrow> list_all (\<lambda>p. p \<noteq> [] \<and> list_all is_digit p) [a, b, c] | _ \<Rightarrow> False)"

section \<open>The server's coordinates\<close>

record server_config =
  sv_host :: string
  sv_key :: string

definition config_arg :: "server_config \<Rightarrow> string" where
  "config_arg c = ''host='' @ sv_host c @ '',key='' @ sv_key c @ '',api=,relay='' @ sv_host c @ '',''"

definition configuredExeName :: "string \<Rightarrow> string \<Rightarrow> string" where
  "configuredExeName host key = ''rustdesk-host='' @ host @ '',key='' @ key @ '',.exe''"

text \<open>The oldest settings row; the container of the platform is the first one of the table.\<close>

definition setting_text :: "db \<Rightarrow> string \<Rightarrow> string" where
  "setting_text s k = (case find_row (\<lambda>t. t_settings t \<noteq> None) (tenants s) of
     None \<Rightarrow> []
   | Some t \<Rightarrow> (case the (t_settings t) k of Some (C_string v) \<Rightarrow> v | _ \<Rightarrow> []))"

definition serverConfig :: "db \<Rightarrow> server_config option" where
  "serverConfig s = (let host = setting_text s ''rustdeskRelayHost''; key = setting_text s ''rustdeskPublicKey'' in
     if \<not> hostname_ok host then None
     else if key \<noteq> [] \<and> \<not> base64_key_ok key then None
     else Some \<lparr>sv_host = host, sv_key = key\<rparr>)"

section \<open>The client version\<close>

definition RUSTDESK_FALLBACK_VERSION :: string where "RUSTDESK_FALLBACK_VERSION = ''1.4.9''"
definition CACHE_TTL_MS :: int where "CACHE_TTL_MS = 3600000"

text \<open>
  The cached release: its tag and when it was fetched. \<open>tag\<close> is the answer of the release server, without a leading v,
  \<open>None\<close> when it did not answer in time or not with a tag.
\<close>

type_synonym release_cache = "(string \<times> time) option"

definition latestRustdeskVersion :: "time \<Rightarrow> string option \<Rightarrow> release_cache \<Rightarrow> string option \<times> release_cache" where
  "latestRustdeskVersion now tag cache =
     (if (case cache of None \<Rightarrow> False | Some (v, t) \<Rightarrow> now - t < CACHE_TTL_MS) then (map_option fst cache, cache)
      else (case tag of
          Some v \<Rightarrow> if release_tag_ok v then (Some v, Some (v, now)) else (map_option fst cache, cache)
        | None \<Rightarrow> (map_option fst cache, cache)))"

definition latestRustdeskVersionOr :: "time \<Rightarrow> string option \<Rightarrow> release_cache \<Rightarrow> string \<times> release_cache" where
  "latestRustdeskVersionOr now tag cache = (case latestRustdeskVersion now tag cache of
     (v, c) \<Rightarrow> (given_or v RUSTDESK_FALLBACK_VERSION, c))"

definition pinnedOrLatestVersion :: "time \<Rightarrow> string option \<Rightarrow> db \<Rightarrow> release_cache \<Rightarrow> string \<times> release_cache" where
  "pinnedOrLatestVersion now tag s cache = (case ps_rustdeskPinnedVersion (platform s) of
     Some p \<Rightarrow> if release_tag_ok p then (p, cache) else latestRustdeskVersionOr now tag cache
   | None \<Rightarrow> latestRustdeskVersionOr now tag cache)"

section \<open>Scripts\<close>

text \<open>A statement that starts with a continuation keyword would be orphaned by the joining semicolon.\<close>

definition word_char :: "char \<Rightarrow> bool" where "word_char c = (is_alnum c \<or> c = CHR ''_'')"

definition continuation :: "string \<Rightarrow> bool" where
  "continuation stmt = (takeWhile word_char (js_trim stmt) \<in> set [''else'', ''elseif'', ''catch'', ''finally'', ''until''])"

fun join_with :: "string \<Rightarrow> string list \<Rightarrow> string" where
  "join_with sep [] = []"
| "join_with sep [x] = x"
| "join_with sep (x # y # xs) = x @ sep @ join_with sep (y # xs)"

definition joinPs :: "string list \<Rightarrow> string option" where
  "joinPs statements = (if list_ex continuation statements then None else Some (join_with ''; '' statements))"

text \<open>\<open>replace(/[^A-Za-z0-9._ -]/g, '-').slice(0, 60)\<close>.\<close>

definition inert_char :: "char \<Rightarrow> bool" where "inert_char c = (is_alnum c \<or> c \<in> set ''._ -'')"

definition cmdSafe :: "string \<Rightarrow> string" where
  "cmdSafe v = take 60 (map (\<lambda>c. if inert_char c then c else CHR ''-'') v)"

definition peer_id_ok :: "string \<Rightarrow> bool" where
  "peer_id_ok p = (6 \<le> length p \<and> length p \<le> 32 \<and> list_all is_url_char p)"

text \<open>What reaches a Connect script of what a computer reported: a name and an ID without metacharacters.\<close>

definition connect_values :: "string \<Rightarrow> string \<Rightarrow> (string \<times> string) result" where
  "connect_values endpointName peerId =
     (let name = (case cmdSafe endpointName of [] \<Rightarrow> ''computer'' | n \<Rightarrow> n);
          peer = filter (\<lambda>c. c \<noteq> CHR '' '') (cmdSafe peerId)
      in if \<not> peer_id_ok peer then Inl (BadRequest ''This computer has no valid RustDesk ID to connect to.'') else Inr (name, peer))"

definition crlf :: string where "crlf = [CHR 0x0D, CHR 0x0A]"

definition PS_MARKER :: string where "PS_MARKER = ''::REM0TE-PS-BODY::''"

definition ps_char :: "char \<Rightarrow> bool" where
  "ps_char c = ((of_char c :: nat) \<le> 0x7e \<and> (0x20 \<le> (of_char c :: nat) \<or> c \<in> {CHR 0x09, CHR 0x0D, CHR 0x0A}))"

definition ps_loader :: string where
  "ps_loader = ''$t = [IO.File]::ReadAllText($env:REM0TE_SELF); $m = '' @ [CHR 0x27] @ take 9 PS_MARKER @ [CHR 0x27] @ '' + '' @ [CHR 0x27]
     @ drop 9 PS_MARKER @ [CHR 0x27] @ ''; $i = $t.LastIndexOf($m); if ($i -lt 0) { Write-Host '' @ [CHR 0x27]
     @ ''Script body missing from this file.'' @ [CHR 0x27] @ ''; exit 1 }; Invoke-Expression $t.Substring($i + $m.Length)''"

definition batch_lines :: "string \<Rightarrow> string list \<Rightarrow> bool \<Rightarrow> string list" where
  "batch_lines title comments selfDelete =
     [''@echo off'', ''title '' @ title, ''rem''] @ map (\<lambda>c. if c \<noteq> [] then ''rem  '' @ c else ''rem'') comments
     @ [''rem'', ''set \"REM0TE_SELF=%~f0\"'', ''powershell -NoProfile -ExecutionPolicy Bypass -Command \"'' @ ps_loader @ ''\"'', [],
        ''rem  Hold the window open on failure. Without this the script reports an'',
        ''rem  error and closes in the same instant, which is indistinguishable'',
        ''rem  from it doing nothing at all.'', ''if errorlevel 1 ('', ''  echo.'', ''  pause'', '')'', []]
     @ (if selfDelete then [''rem  Self-delete. (goto) closes the batch context first so the file is'',
          ''rem  no longer held open by cmd.exe.'', ''(goto) 2>nul & del \"%~f0\"'', []] else [])"

definition wrapCmd :: "string \<Rightarrow> string list \<Rightarrow> string \<Rightarrow> bool \<Rightarrow> string option" where
  "wrapCmd title comments ps selfDelete =
     (if list_ex (\<lambda>c. \<not> ps_char c) ps then None
      else if has_substring PS_MARKER ps then None
      else let ls = batch_lines title comments selfDelete in
        if list_ex (\<lambda>l. length l > 2000) ls then None
        else Some (join_with crlf (ls @ [''exit /b'', PS_MARKER, ps, []])))"

section \<open>The Quick Connect download\<close>

datatype download_gate = Served string | NotAvailable | UnknownPlatform | PlatformOff | NotConfigured

text \<open>\<open>os in enabled\<close> also finds what every object inherits, and all of that is truthy.\<close>

definition inherited_names :: "string list" where
  "inherited_names = [''constructor'', ''toString'', ''toLocaleString'', ''valueOf'', ''hasOwnProperty'', ''isPrototypeOf'',
     ''propertyIsEnumerable'', ''__proto__'', ''__defineGetter__'', ''__defineSetter__'', ''__lookupGetter__'', ''__lookupSetter__'']"

definition client_enabled :: "platform_row \<Rightarrow> string \<Rightarrow> bool option" where
  "client_enabled p os = (if os = ''windows'' then Some (ps_quickConnectWindows p)
     else if os = ''macos'' then Some (ps_quickConnectMacos p)
     else if os = ''linux'' then Some (ps_quickConnectLinux p)
     else if os \<in> set inherited_names then Some True else None)"

definition windows_illegal :: "char \<Rightarrow> bool" where
  "windows_illegal c = (c \<in> set ''<>:/|?*'' \<or> c = CHR 0x22 \<or> c = CHR 0x5C \<or> (of_char c :: nat) < 0x20)"

definition packaged_config :: "db \<Rightarrow> server_config option" where
  "packaged_config s = (case serverConfig s of
     None \<Rightarrow> None
   | Some c \<Rightarrow> if sv_key c = [] \<or> list_ex windows_illegal (sv_host c) \<or> list_ex windows_illegal (sv_key c) then None else Some c)"

text \<open>The platform whose client is sent.\<close>

definition download_client :: "db \<Rightarrow> string \<Rightarrow> download_gate" where
  "download_client s os =
     (if \<not> quickConnectPlatform s then NotAvailable
      else (case client_enabled (platform s) os of
          None \<Rightarrow> UnknownPlatform
        | Some False \<Rightarrow> PlatformOff
        | Some True \<Rightarrow> (case packaged_config s of
            None \<Rightarrow> NotConfigured
          | Some c \<Rightarrow> Served (if os = ''windows'' then ''windows'' else if os = ''macos'' then ''macos'' else ''linux''))))"

section \<open>Lemmas\<close>

text \<open>A character that neither ends a quoted string of either shell nor is an operator in one.\<close>

definition harmless_char :: "char \<Rightarrow> bool" where
  "harmless_char c = (is_alnum c \<or> c \<in> set ''._ -+/='')"

lemma inert_harmless: "inert_char c \<Longrightarrow> harmless_char c"
  by (auto simp: inert_char_def harmless_char_def)

lemma cmdSafe_inert: "list_all inert_char (cmdSafe v)"
  by (auto simp: cmdSafe_def list_all_iff inert_char_def dest!: in_set_takeD)

lemma connect_values_inert:
  assumes "connect_values n p = Inr (name, peer)"
  shows "list_all inert_char name" "name \<noteq> []" "peer_id_ok peer"
proof -
  have "name = (case cmdSafe n of [] \<Rightarrow> ''computer'' | n \<Rightarrow> n)" and ok: "peer_id_ok peer"
    using assms by (auto simp: connect_values_def Let_def split: if_splits)
  moreover have "list_all inert_char ''computer''" by code_simp
  ultimately show "list_all inert_char name" "name \<noteq> []" "peer_id_ok peer"
    using cmdSafe_inert[of n] by (cases "cmdSafe n"; simp)+
qed

lemma base64_key_chars: "base64_key_ok k \<Longrightarrow> list_all (\<lambda>c. base64_char c \<or> c = CHR ''='') k"
proof -
  assume k: "base64_key_ok k"
  let ?P = "\<lambda>c. base64_char c \<or> c = CHR ''=''"
  have "list_all (\<lambda>c. c = CHR ''='') (dropWhile base64_char k)" using k unfolding base64_key_ok_def Let_def by blast
  then have "list_all ?P (dropWhile base64_char k)" by (rule list.pred_mono_strong) blast
  moreover have "list_all ?P (takeWhile base64_char k)" unfolding list_all_iff using set_takeWhileD by fast
  ultimately have "list_all ?P (takeWhile base64_char k @ dropWhile base64_char k)" unfolding list_all_append by blast
  then show ?thesis unfolding takeWhile_dropWhile_id .
qed

lemma serverConfig_ok:
  assumes "serverConfig s = Some c"
  shows "hostname_ok (sv_host c)" "sv_key c = [] \<or> base64_key_ok (sv_key c)"
  using assms by (auto simp: serverConfig_def Let_def split: if_splits)

text \<open>Whatever is configured, the coordinates that reach a script or a file name are harmless.\<close>

theorem server_values_harmless:
  assumes "serverConfig s = Some c"
  shows "list_all harmless_char (sv_host c @ sv_key c)"
proof -
  have "list_all harmless_char (sv_host c)" using serverConfig_ok(1)[OF assms]
    by (auto simp: hostname_ok_def list_all_iff harmless_char_def)
  moreover have "list_all harmless_char (sv_key c)" using serverConfig_ok(2)[OF assms] base64_key_chars[of "sv_key c"]
    by (auto simp: list_all_iff harmless_char_def base64_char_def)
  ultimately show ?thesis by simp
qed

text \<open>The cache only ever holds release tags, so a version that is no pin is one too.\<close>

definition cache_ok :: "release_cache \<Rightarrow> bool" where
  "cache_ok c = (case c of None \<Rightarrow> True | Some (v, _) \<Rightarrow> release_tag_ok v)"

lemma latest_ok:
  "cache_ok c \<Longrightarrow> latestRustdeskVersion now tag c = (v, c') \<Longrightarrow> cache_ok c' \<and> (case v of None \<Rightarrow> True | Some x \<Rightarrow> release_tag_ok x)"
  by (auto simp: latestRustdeskVersion_def cache_ok_def split: if_splits option.splits)

lemma fallback_ok: "release_tag_ok RUSTDESK_FALLBACK_VERSION"
  by (simp add: RUSTDESK_FALLBACK_VERSION_def release_tag_ok_def is_digit_def)

theorem served_version_is_a_release:
  assumes "cache_ok c" "pinnedOrLatestVersion now tag s c = (v, c')"
  shows "release_tag_ok v \<and> cache_ok c'"
proof -
  obtain x y where l: "latestRustdeskVersion now tag c = (x, y)" by (rule prod.exhaust)
  have "release_tag_ok (given_or x RUSTDESK_FALLBACK_VERSION) \<and> cache_ok y"
    using latest_ok[OF assms(1) l] fallback_ok by (auto simp: given_or_def split: option.splits)
  then show ?thesis using assms l
    by (auto simp: pinnedOrLatestVersion_def latestRustdeskVersionOr_def split: option.splits if_splits)
qed

section \<open>The loader finds the script\<close>

text \<open>What follows the last occurrence, as the loader computes it with \<open>LastIndexOf\<close> and \<open>Substring\<close>.\<close>

fun after_last :: "string \<Rightarrow> string \<Rightarrow> string option" where
  "after_last m [] = None"
| "after_last m (c # cs) = (case after_last m cs of
     Some r \<Rightarrow> Some r
   | None \<Rightarrow> if starts_with m (c # cs) then Some (drop (length m) (c # cs)) else None)"

lemma starts_with_prefix: "starts_with p t \<longleftrightarrow> (\<exists>u. t = p @ u)"
  by (induction p t rule: starts_with.induct) auto

lemma after_last_none: "m \<noteq> [] \<Longrightarrow> \<not> has_substring m t \<Longrightarrow> after_last m t = None"
  by (induction t) auto

lemma after_last_append: "after_last m t = Some r \<Longrightarrow> after_last m (u @ t) = Some r"
  by (induction u) auto

lemma has_substring_split: "m \<noteq> [] \<Longrightarrow> has_substring m t \<longleftrightarrow> (\<exists>a b. t = a @ m @ b)"
proof (induction t)
  case (Cons c t)
  have "(\<exists>a b. c # t = a @ m @ b) \<longleftrightarrow> (\<exists>b. c # t = m @ b) \<or> (\<exists>a b. t = a @ m @ b)"
    by (metis append_Cons append_Nil list.sel(3) neq_Nil_conv tl_append2)
  with Cons show ?case by (simp add: starts_with_prefix)
qed simp

lemma has_substring_tail:
  assumes "m \<noteq> []" "list_all (\<lambda>c. c \<notin> set m) u" "has_substring m (t @ u)"
  shows "has_substring m t"
proof -
  obtain a b where e: "t @ u = a @ m @ b" using assms(1,3) has_substring_split by blast
  have "length (a @ m) \<le> length t"
  proof (rule ccontr)
    assume "\<not> ?thesis"
    then have far: "length t \<le> length a + (length m - 1)" using assms(1) by (cases m) simp_all
    have m: "length m - 1 < length m" using assms(1) by (cases m) simp_all
    let ?n = "length a + (length m - 1)"
    have "(t @ u) ! ?n = last m" using e m assms(1) by (simp add: nth_append last_conv_nth)
    then have "u ! (?n - length t) = last m" using far by (simp add: nth_append)
    moreover have "?n < length (t @ u)" using m unfolding e length_append by linarith
    then have "?n - length t < length u" using far by simp
    ultimately have "last m \<in> set u" by (metis nth_mem)
    then show False using assms(2) last_in_set[OF assms(1)] unfolding list_all_iff by blast
  qed
  then have "take (length (a @ m)) t = a @ m" using arg_cong[OF e, of "take (length (a @ m))"] by simp
  then have "t = a @ m @ drop (length (a @ m)) t" by (metis append_assoc append_take_drop_id)
  then show ?thesis using assms(1) has_substring_split by blast
qed

lemma join_with_last4: "join_with sep (xs @ [a, b, c, d]) = join_with sep (xs @ [a]) @ sep @ b @ sep @ c @ sep @ d"
  by (induction xs rule: induct_list012) (simp_all add: neq_Nil_conv)

lemma marker_then:
  assumes "\<not> has_substring PS_MARKER t"
  shows "after_last PS_MARKER (PS_MARKER @ CHR 0x0D # t) = Some (CHR 0x0D # t)"
proof -
  have "after_last PS_MARKER (CHR 0x0D # t) = None"
    using after_last_none[OF _ assms] by (simp add: PS_MARKER_def)
  then show ?thesis by (simp add: PS_MARKER_def)
qed

text \<open>
  C13: The script that is wrapped into a batch file is exactly what the loader line of that file reads back out of it:
  whatever title, comments and script, if a file is built, the text after its last marker is the script between line
  breaks, and no line of the batch part is longer than the shell accepts.
\<close>

theorem loader_reads_script_back:
  assumes "wrapCmd title comments ps selfDelete = Some batch"
  shows "after_last PS_MARKER batch = Some (crlf @ ps @ crlf) \<and> list_all (\<lambda>l. length l \<le> 2000) (batch_lines title comments selfDelete)"
proof -
  let ?ls = "batch_lines title comments selfDelete"
  have f: "batch = join_with crlf (?ls @ [''exit /b'', PS_MARKER, ps, []])" and n: "\<not> has_substring PS_MARKER ps"
    and l: "\<not> list_ex (\<lambda>l. length l > 2000) ?ls"
    using assms by (auto simp: wrapCmd_def Let_def split: if_splits)
  have "\<not> has_substring PS_MARKER (ps @ crlf)"
    using has_substring_tail[of PS_MARKER crlf ps] n by (auto simp: PS_MARKER_def crlf_def)
  then have "\<not> has_substring PS_MARKER (CHR 0x0A # ps @ crlf)" by (simp add: PS_MARKER_def)
  from marker_then[OF this] have "after_last PS_MARKER (PS_MARKER @ crlf @ ps @ crlf) = Some (crlf @ ps @ crlf)"
    by (simp add: crlf_def)
  from after_last_append[OF this, of "join_with crlf (?ls @ [''exit /b'']) @ crlf"]
  have "after_last PS_MARKER batch = Some (crlf @ ps @ crlf)" by (simp add: f join_with_last4)
  moreover have "list_all (\<lambda>l. length l \<le> 2000) ?ls" using l by (auto simp: list_ex_iff list_all_iff)
  ultimately show ?thesis by blast
qed

theorem loader_reads_script_back_witness:
  "\<exists>batch. wrapCmd ''t'' [''a'', []] ''exit 0'' True = Some batch \<and> after_last PS_MARKER batch = Some (crlf @ ''exit 0'' @ crlf)"
proof -
  have "wrapCmd ''t'' [''a'', []] ''exit 0'' True \<noteq> None" by code_simp
  then obtain batch where f: "wrapCmd ''t'' [''a'', []] ''exit 0'' True = Some batch" by blast
  from loader_reads_script_back[OF f] f show ?thesis by blast
qed

section \<open>The gate of the download\<close>

text \<open>
  A platform that is switched off is still served under a name every JavaScript object inherits: the membership test
  finds it and the function behind it is truthy.
\<close>

theorem inherited_name_opens_gate:
  assumes "quickConnectPlatform s" "packaged_config s = Some c"
  shows "download_client s ''constructor'' = Served ''linux''"
  using assms by (simp add: download_client_def client_enabled_def inherited_names_def)

text \<open>A key with a slash is accepted as the server's, but no client can be packaged with it.\<close>

theorem slash_key_unpackaged:
  assumes "serverConfig s = Some c" "CHR ''/'' \<in> set (sv_key c)"
  shows "packaged_config s = None"
  using assms by (auto simp: packaged_config_def list_ex_iff windows_illegal_def)

end
