(* ===== verification/Platform.thy ===== *)
theory Platform
  imports StepUp Identity RustdeskConfig
begin

text \<open>
  The platform's own configuration: the switches of the single settings row (\<open>platform/platform-settings.service.ts\<close>),
  the container with its branding and settings (\<open>tenants/tenants.service.ts\<close> behind its controller), the supported
  client version (\<open>admin/rollouts.controller.ts\<close>), the public address (\<open>platform/public-url.service.ts\<close> and
  its controller), the landing page of Quick Connect, and the recovery tool of the server
  (\<open>cli/auth-recovery.ts\<close>). The URL parser and the answer of the probed address are arguments.
\<close>

section \<open>Switches\<close>

record platform_input =
  pi_enabled :: "bool option"
  pi_windows :: "bool option"
  pi_macos :: "bool option"
  pi_linux :: "bool option"

definition platform_audit :: "actor \<Rightarrow> string \<Rightarrow> db \<Rightarrow> db" where
  "platform_audit actor action = audit_log action (Some (a_userId actor)) None None (a_ip actor)
     (Some ''platform_settings'') (Some ''singleton'') False"

definition update_platform :: "actor \<Rightarrow> platform_input \<Rightarrow> db \<Rightarrow> db" where
  "update_platform actor dto s =
     (let before = quickConnectPlatform s; p = platform s;
          s1 = s\<lparr>quickConnectPlatform := given_or (pi_enabled dto) before,
            platform := p\<lparr>ps_quickConnectWindows := given_or (pi_windows dto) (ps_quickConnectWindows p),
              ps_quickConnectMacos := given_or (pi_macos dto) (ps_quickConnectMacos p),
              ps_quickConnectLinux := given_or (pi_linux dto) (ps_quickConnectLinux p)\<rparr>\<rparr>;
          s2 = (if given_or (pi_enabled dto) before \<noteq> before then platform_audit actor ''QUICK_CONNECT_SETTING_CHANGED'' s1 else s1)
      in platform_audit actor ''PLATFORM_SETTINGS_UPDATED'' s2)"

definition updatePlatformSettings :: "actor \<Rightarrow> platform_input \<Rightarrow> db \<Rightarrow> unit result \<times> db" where
  "updatePlatformSettings actor dto s = (case assertPlatformAdmin actor of
     Inl e \<Rightarrow> (Inl e, s) | Inr _ \<Rightarrow> (Inr (), update_platform actor dto s))"

text \<open>Key, label and path of the clients on offer.\<close>

definition availableClients :: "platform_row \<Rightarrow> (string \<times> string \<times> string) list" where
  "availableClients p =
     (if ps_quickConnectWindows p then [(''windows'', ''Windows'', ''/api/v1/public/quick-connect/download/windows'')] else [])
     @ (if ps_quickConnectMacos p then [(''macos'', ''macOS'', ''/api/v1/public/quick-connect/download/macos'')] else [])
     @ (if ps_quickConnectLinux p then [(''linux'', ''Linux'', ''/api/v1/public/quick-connect/download/linux'')] else [])"

record landing =
  la_enabled :: bool
  la_configured :: bool
  la_downloads :: "(string \<times> string \<times> string) list"
  la_branding :: "(string \<rightharpoonup> string) option"

definition oldest_branding :: "db \<Rightarrow> (string \<rightharpoonup> string) option" where
  "oldest_branding s = (case find_row (\<lambda>t. t_branding t \<noteq> None) (tenants s) of None \<Rightarrow> None
     | Some t \<Rightarrow> map_option (\<lambda>b. b |` set [''portalTitle'', ''logoUrl'', ''accentColor'', ''supportEmail'', ''supportPhone'']) (t_branding t))"

definition landing_info :: "db \<Rightarrow> landing" where
  "landing_info s = (if \<not> quickConnectPlatform s
     then \<lparr>la_enabled = False, la_configured = False, la_downloads = [], la_branding = None\<rparr>
     else \<lparr>la_enabled = True, la_configured = packaged_config s \<noteq> None,
       la_downloads = (if packaged_config s \<noteq> None then availableClients (platform s) else []),
       la_branding = oldest_branding s\<rparr>)"

section \<open>The container\<close>

definition tenant_by_id :: "db \<Rightarrow> id \<Rightarrow> tenant_row result" where
  "tenant_by_id s i = (case find_row (\<lambda>t. t_id t = i) (tenants s) of
     None \<Rightarrow> Inl (NotFound ''Platform configuration not found'') | Some t \<Rightarrow> Inr t)"

definition tenant_by_slug :: "db \<Rightarrow> string \<Rightarrow> tenant_row result" where
  "tenant_by_slug s slug = (case find_row (\<lambda>t. t_slug t = slug) (tenants s) of
     None \<Rightarrow> Inl (NotFound ''Platform configuration not found'') | Some t \<Rightarrow> Inr t)"

text \<open>What every change shares: the guard, the row, the write and the entry in the log.\<close>

definition change_tenant :: "string \<Rightarrow> string \<Rightarrow> (tenant_row \<Rightarrow> tenant_row) \<Rightarrow> actor \<Rightarrow> id \<Rightarrow> db \<Rightarrow> unit result \<times> db" where
  "change_tenant action resource f actor i s = (case assertPlatformAdmin actor of
     Inl e \<Rightarrow> (Inl e, s)
   | Inr _ \<Rightarrow> (case tenant_by_id s i of
       Inl e \<Rightarrow> (Inl e, s)
     | Inr _ \<Rightarrow> (Inr (), audit_log action (Some (a_userId actor)) (Some i) None None (Some resource) (Some i) False
         (s\<lparr>tenants := update_rows (\<lambda>t. t_id t = i) f (tenants s)\<rparr>))))"

definition update_tenant :: "actor \<Rightarrow> id \<Rightarrow> string option \<Rightarrow> db \<Rightarrow> unit result \<times> db" where
  "update_tenant actor i name s = change_tenant ''TENANT_UPDATED'' ''tenant'' (\<lambda>t. t\<lparr>t_name := given_or name (t_name t)\<rparr>) actor i s"

definition BRANDING_DEFAULTS :: "(string \<times> string option) list" where
  "BRANDING_DEFAULTS = [(''portalTitle'', Some ''Remote Support Portal''), (''logoUrl'', None), (''accentColor'', Some ''#3B82F6''),
     (''supportEmail'', None), (''supportPhone'', None), (''footerText'', None)]"

definition new_branding :: "columns \<Rightarrow> string \<rightharpoonup> string" where
  "new_branding dto k = (case map_of BRANDING_DEFAULTS k of None \<Rightarrow> None
     | Some d \<Rightarrow> (case dto k of Some (Some v) \<Rightarrow> Some v | _ \<Rightarrow> d))"

definition updateBranding :: "actor \<Rightarrow> id \<Rightarrow> columns \<Rightarrow> db \<Rightarrow> unit result \<times> db" where
  "updateBranding actor i dto s = change_tenant ''BRANDING_UPDATED'' ''tenant_branding''
     (\<lambda>t. t\<lparr>t_branding := Some (case t_branding t of None \<Rightarrow> new_branding dto
        | Some b \<Rightarrow> set_columns (map fst BRANDING_DEFAULTS) dto b)\<rparr>) actor i s"

definition SETTING_DEFAULTS :: "(string \<times> cell) list" where
  "SETTING_DEFAULTS = [(''sessionTimeoutMinutes'', C_int 480), (''passwordMinLength'', C_int 12), (''allowPasswordReset'', C_bool True),
     (''rustdeskRelayHost'', C_null), (''rustdeskPublicKey'', C_null), (''showDownloadPage'', C_bool True), (''allowCustomerPortal'', C_bool False)]"

record settings_input =
  sg_requireMfa :: "bool option"
  sg_columns :: "string \<rightharpoonup> cell"

definition new_settings :: "(string \<rightharpoonup> cell) \<Rightarrow> string \<rightharpoonup> cell" where
  "new_settings dto k = (case map_of SETTING_DEFAULTS k of None \<Rightarrow> None
     | Some d \<Rightarrow> Some (case dto k of None \<Rightarrow> d | Some v \<Rightarrow> if v = C_null then d else v))"

definition changed_settings :: "(string \<rightharpoonup> cell) \<Rightarrow> (string \<rightharpoonup> cell) \<Rightarrow> string \<rightharpoonup> cell" where
  "changed_settings dto old k = (if k \<in> set (map fst SETTING_DEFAULTS) \<and> dto k \<noteq> None then dto k else old k)"

definition updateSettings :: "actor \<Rightarrow> id \<Rightarrow> settings_input \<Rightarrow> db \<Rightarrow> unit result \<times> db" where
  "updateSettings actor i dto s = change_tenant ''SETTINGS_UPDATED'' ''tenant_settings''
     (\<lambda>t. case t_settings t of
        None \<Rightarrow> t\<lparr>t_requireMfa := given_or (sg_requireMfa dto) False, t_settings := Some (new_settings (sg_columns dto))\<rparr>
      | Some old \<Rightarrow> t\<lparr>t_requireMfa := given_or (sg_requireMfa dto) (t_requireMfa t), t_settings := Some (changed_settings (sg_columns dto) old)\<rparr>) actor i s"

section \<open>The supported version\<close>

definition setPin :: "actor \<Rightarrow> string option \<Rightarrow> db \<Rightarrow> unit result \<times> db" where
  "setPin actor version s = (case assertPlatformAdmin actor of
     Inl e \<Rightarrow> (Inl e, s)
   | Inr _ \<Rightarrow> (Inr (), platform_audit actor ''PLATFORM_SETTINGS_UPDATED'' (s\<lparr>platform := (platform s)\<lparr>ps_rustdeskPinnedVersion := version\<rparr>\<rparr>)))"

section \<open>The public address\<close>

text \<open>A parsed address, as the URL parser of the platform gives it.\<close>

record url_parts =
  up_protocol :: string
  up_username :: string
  up_password :: string
  up_pathname :: string
  up_search :: string
  up_hash :: string
  up_hostname :: string
  up_origin :: string

record url_env =
  en_parse :: "string \<Rightarrow> url_parts option"
  en_frontend :: "string option"
  en_api :: "string option"
  en_production :: bool

text \<open>The copy in memory and the open nonces of the reachability check.\<close>

record url_state =
  us_setting :: "string option"
  us_probes :: "(string \<times> time) list"

definition refresh_url :: "db \<Rightarrow> url_state \<Rightarrow> url_state" where
  "refresh_url s st = st\<lparr>us_setting := (if truthy (ps_publicUrl (platform s)) then ps_publicUrl (platform s) else None)\<rparr>"

definition url_trim :: "string option \<Rightarrow> string option" where
  "url_trim v = (case rev (dropWhile (\<lambda>c. c = CHR ''/'') (rev (js_trim (given_or v [])))) of [] \<Rightarrow> None | t \<Rightarrow> Some t)"

definition webConfigured :: "url_env \<Rightarrow> url_state \<Rightarrow> string option" where
  "webConfigured en st = nullish (us_setting st) (url_trim (en_frontend en))"

definition apiConfigured :: "url_env \<Rightarrow> url_state \<Rightarrow> string option" where
  "apiConfigured en st = nullish (us_setting st) (url_trim (en_api en))"

definition web_base :: "url_env \<Rightarrow> url_state \<Rightarrow> string" where
  "web_base en st = given_or (webConfigured en st) ''http://localhost:3000''"

definition api_base :: "url_env \<Rightarrow> url_state \<Rightarrow> string" where
  "api_base en st = given_or (apiConfigured en st) ''http://localhost:3001''"

definition corsOrigins :: "url_env \<Rightarrow> url_state \<Rightarrow> string list" where
  "corsOrigins en st = js_set (concat (map (\<lambda>v. case v of None \<Rightarrow> []
     | Some x \<Rightarrow> if x = [] then [] else (case en_parse en x of None \<Rightarrow> [] | Some u \<Rightarrow> [up_origin u]))
     [us_setting st, url_trim (en_frontend en), Some (web_base en st)]))"

definition normalize :: "url_env \<Rightarrow> string \<Rightarrow> string result" where
  "normalize en input =
     (let raw = js_trim input in
      if raw = [] then Inl (BadRequest ''Enter an address, such as https://remote.example.com'')
      else if length raw > 200 then Inl (BadRequest ''That address is too long'')
      else (case en_parse en raw of
          None \<Rightarrow> Inl (BadRequest ''Enter a full address starting with https://'')
        | Some u \<Rightarrow>
          if up_protocol u \<noteq> ''https:'' \<and> up_protocol u \<noteq> ''http:'' then Inl (BadRequest ''The address must start with https://'')
          else if en_production en \<and> up_protocol u \<noteq> ''https:'' then Inl (BadRequest ''The address must use https://. Installers and passkeys refuse plain http.'')
          else if up_username u \<noteq> [] \<or> up_password u \<noteq> [] then Inl (BadRequest ''The address must not contain a user name or password'')
          else if (up_pathname u \<noteq> [] \<and> up_pathname u \<noteq> ''/'') \<or> up_search u \<noteq> [] \<or> up_hash u \<noteq> []
          then Inl (BadRequest ''Enter only the address, with no path: for example https://remote.example.com'')
          else if up_hostname u = [] \<or> \<not> list_all (\<lambda>c. is_alnum c \<or> c = CHR ''.'' \<or> c = CHR ''-'') (up_hostname u)
            \<or> hd (up_hostname u) = CHR ''.'' \<or> last (up_hostname u) = CHR ''.''
          then Inl (BadRequest ''The host name contains characters that are not allowed'')
          else Inr (up_origin u)))"

text \<open>The probe answers a nonce that this process issued and has not seen answered.\<close>

definition answerProbe :: "time \<Rightarrow> string \<Rightarrow> url_state \<Rightarrow> bool \<times> url_state" where
  "answerProbe now nonce st = (case map_of (us_probes st) nonce of
     None \<Rightarrow> (False, st)
   | Some expiry \<Rightarrow> if expiry = 0 then (False, st)
       else (expiry > now, st\<lparr>us_probes := filter (\<lambda>x. fst x \<noteq> nonce) (us_probes st)\<rparr>))"

definition probe_route :: "time \<Rightarrow> string \<Rightarrow> url_state \<Rightarrow> bool \<times> url_state" where
  "probe_route now nonce st = (if length nonce = 24 \<and> list_all is_url_char nonce then answerProbe now nonce st else (False, st))"

datatype probe_answer = Redirects string | Answers json | NoAnswer string

record address_check =
  ac_address :: string
  ac_reachable :: bool
  ac_sameServer :: bool

definition open_probe :: "time \<Rightarrow> string \<Rightarrow> url_state \<Rightarrow> url_state" where
  "open_probe now nonce st = st\<lparr>us_probes := AList.update nonce (now + 30000) (filter (\<lambda>x. \<not> snd x < now) (us_probes st))\<rparr>"

definition close_probe :: "string \<Rightarrow> url_state \<Rightarrow> url_state" where
  "close_probe nonce st = st\<lparr>us_probes := filter (\<lambda>x. fst x \<noteq> nonce) (us_probes st)\<rparr>"

text \<open>\<open>fetch\<close> is what happens on the network: it sees the open nonce and the state, and other requests may be answered.\<close>

definition checkAddress ::
  "url_env \<Rightarrow> time \<Rightarrow> string \<Rightarrow> (string \<Rightarrow> string \<Rightarrow> url_state \<Rightarrow> probe_answer \<times> url_state) \<Rightarrow> string \<Rightarrow> url_state \<Rightarrow> address_check result \<times> url_state" where
  "checkAddress en now nonce fetch address st = (case normalize en address of
     Inl e \<Rightarrow> (Inl e, st)
   | Inr origin \<Rightarrow> (case fetch origin nonce (open_probe now nonce st) of
       (r, st1) \<Rightarrow> (Inr (case r of
            Redirects _ \<Rightarrow> \<lparr>ac_address = origin, ac_reachable = True, ac_sameServer = False\<rparr>
          | Answers v \<Rightarrow> \<lparr>ac_address = origin, ac_reachable = True, ac_sameServer = (json_get (json_get v ''data'') ''ok'' = JBool True)\<rparr>
          | NoAnswer _ \<Rightarrow> \<lparr>ac_address = origin, ac_reachable = False, ac_sameServer = False\<rparr>), close_probe nonce st1)))"

text \<open>What the request carries as its step-up proof.\<close>

record step_up_proof =
  sp_codec :: proof_codec
  sp_settings :: "string list option"
  sp_raw :: "string option"
  sp_user :: "jwt_payload option"

record address_input =
  ad_url :: "string option"
  ad_saveUnverified :: bool

definition setAddress ::
  "url_env \<Rightarrow> time \<Rightarrow> string \<Rightarrow> (string \<Rightarrow> string \<Rightarrow> url_state \<Rightarrow> probe_answer \<times> url_state) \<Rightarrow> step_up_proof \<Rightarrow> actor \<Rightarrow> address_input
     \<Rightarrow> url_state \<Rightarrow> db \<Rightarrow> unit result \<times> url_state \<times> db" where
  "setAddress en now nonce fetch pf actor dto st s = (case assertPlatformAdmin actor of
     Inl e \<Rightarrow> (Inl e, st, s)
   | Inr _ \<Rightarrow> (case (case ad_url dto of None \<Rightarrow> Inr None | Some u \<Rightarrow> map_sum id Some (normalize en u)) of
       Inl e \<Rightarrow> (Inl e, st, s)
     | Inr next_url \<Rightarrow> (case assert_step_up (sp_codec pf) (sp_settings pf) now (sp_raw pf) (sp_user pf) ''platform.configure'' of
         Inl e \<Rightarrow> (Inl e, st, s)
       | Inr _ \<Rightarrow>
         (case (if truthy next_url then checkAddress en now nonce fetch (the next_url) st
                else (Inr \<lparr>ac_address = [], ac_reachable = False, ac_sameServer = True\<rparr>, st)) of
           (Inl e, st1) \<Rightarrow> (Inl e, st1, s)
         | (Inr c, st1) \<Rightarrow>
             if \<not> ac_sameServer c \<and> \<not> ad_saveUnverified dto then (Inl (Conflict ''ADDRESS_UNVERIFIED''), st1, s)
             else let s1 = s\<lparr>platform := (platform s)\<lparr>ps_publicUrl := next_url\<rparr>\<rparr>;
                      s2 = (if us_setting st1 \<noteq> next_url then platform_audit actor ''PLATFORM_SETTINGS_UPDATED'' s1 else s1)
               in (Inr (), st1\<lparr>us_setting := next_url\<rparr>, s2)))))"

section \<open>Recovery on the server\<close>

definition RECOVERY_ACTIONS :: "string list" where
  "RECOVERY_ACTIONS = [''--status'', ''--disable-sso'', ''--remove-passkeys'', ''--unlink-sso'', ''--sign-out'', ''--clear-public-url'']"

definition flag_value :: "string list \<Rightarrow> string \<Rightarrow> string option" where
  "flag_value argv f = (case dropWhile (\<lambda>x. x \<noteq> f) argv of _ # v # _ \<Rightarrow> Some v | _ \<Rightarrow> None)"

text \<open>The account a flag names, or the exit code of the usage error.\<close>

definition recovery_user :: "string list \<Rightarrow> string \<Rightarrow> db \<Rightarrow> int + user_row" where
  "recovery_user argv f s = (case map_option (map lower) (flag_value argv f) of
     None \<Rightarrow> Inl 2
   | Some email \<Rightarrow> if email = [] \<or> starts_with ''--'' email then Inl 2
       else (case find_row (\<lambda>u. u_email u = email) (users s) of None \<Rightarrow> Inl 1 | Some u \<Rightarrow> Inr u))"

definition recovery_audit :: "string \<Rightarrow> string \<Rightarrow> id option \<Rightarrow> db \<Rightarrow> db" where
  "recovery_audit action resource i = audit_log action None None None None (Some resource) i False"

type_synonym recovery_step = "bool \<Rightarrow> db \<Rightarrow> int option \<times> db"

definition disable_sso :: recovery_step where
  "disable_sso doit s = (let n = count_rows op_enabled (oidcProviders s) in
     (None, if doit \<and> n > 0 then recovery_audit ''SSO_PROVIDER_CHANGED'' ''oidc_provider'' None
       (s\<lparr>oidcProviders := update_rows op_enabled (\<lambda>p. p\<lparr>op_enabled := False\<rparr>) (oidcProviders s)\<rparr>) else s))"

definition remove_passkeys :: "string list \<Rightarrow> recovery_step" where
  "remove_passkeys argv doit s = (case recovery_user argv ''--remove-passkeys'' s of
     Inl code \<Rightarrow> (Some code, s)
   | Inr u \<Rightarrow> (let P = (\<lambda>m. mm_userId m = u_id u \<and> mm_type m = WEBAUTHN) in
       (None, if doit \<and> count_rows P (mfaMethods s) > 0 then recovery_audit ''PASSKEY_REMOVED'' ''user'' (Some (u_id u))
         (s\<lparr>mfaMethods := delete_rows P (mfaMethods s)\<rparr>) else s)))"

definition unlink_sso :: "string list \<Rightarrow> recovery_step" where
  "unlink_sso argv doit s = (case recovery_user argv ''--unlink-sso'' s of
     Inl code \<Rightarrow> (Some code, s)
   | Inr u \<Rightarrow> (let P = (\<lambda>x. xi_userId x = u_id u) in
       (None, if doit \<and> count_rows P (identities s) > 0 then recovery_audit ''SSO_UNLINKED'' ''user'' (Some (u_id u))
         (s\<lparr>identities := delete_rows P (identities s)\<rparr>) else s)))"

definition sign_out_all :: "string list \<Rightarrow> time \<Rightarrow> recovery_step" where
  "sign_out_all argv now doit s = (case recovery_user argv ''--sign-out'' s of
     Inl code \<Rightarrow> (Some code, s)
   | Inr u \<Rightarrow> (None, if doit then recovery_audit ''USER_UPDATED'' ''user'' (Some (u_id u))
         (s\<lparr>users := update_rows (\<lambda>x. u_id x = u_id u) (\<lambda>x. x\<lparr>u_sessionsValidAfter := Some (ceil_sec now * 1000)\<rparr>) (users s)\<rparr>) else s))"

definition clear_public_url :: recovery_step where
  "clear_public_url doit s = (None, if truthy (ps_publicUrl (platform s)) \<and> doit
     then recovery_audit ''PLATFORM_SETTINGS_UPDATED'' ''platform_settings'' (Some ''singleton'')
       (s\<lparr>platform := (platform s)\<lparr>ps_publicUrl := None\<rparr>\<rparr>) else s)"

text \<open>The steps that were asked for, in the order of the program, up to the first usage error.\<close>

fun run_recovery :: "bool \<Rightarrow> recovery_step list \<Rightarrow> db \<Rightarrow> int \<times> db" where
  "run_recovery doit [] s = (0, s)"
| "run_recovery doit (f # fs) s = (case f doit s of (None, s1) \<Rightarrow> run_recovery doit fs s1 | (Some code, s1) \<Rightarrow> (code, s1))"

definition recovery_steps :: "string list \<Rightarrow> time \<Rightarrow> recovery_step list" where
  "recovery_steps argv now = map snd (filter (\<lambda>x. fst x \<in> set argv)
     [(''--disable-sso'', disable_sso), (''--remove-passkeys'', remove_passkeys argv), (''--unlink-sso'', unlink_sso argv),
      (''--sign-out'', sign_out_all argv now), (''--clear-public-url'', clear_public_url)])"

definition recovery_main :: "bool \<Rightarrow> time \<Rightarrow> string list \<Rightarrow> db \<Rightarrow> int \<times> db" where
  "recovery_main database_set now argv s =
     (let actions = filter (\<lambda>f. f \<in> set argv) RECOVERY_ACTIONS in
      if actions = [] \<or> ''--help'' \<in> set argv then (if actions \<noteq> [] then 0 else 2, s)
      else if \<not> database_set then (2, s)
      else run_recovery (''--yes'' \<in> set argv) (recovery_steps argv now) s)"

section \<open>Lemmas\<close>

lemma client_enabled_names:
  "client_enabled p ''windows'' = Some (ps_quickConnectWindows p)" "client_enabled p ''macos'' = Some (ps_quickConnectMacos p)"
  "client_enabled p ''linux'' = Some (ps_quickConnectLinux p)"
  by (simp_all add: client_enabled_def)

text \<open>
  The landing page offers exactly the clients the download hands out.
\<close>

theorem offered_is_served:
  assumes "os \<in> {''windows'', ''macos'', ''linux''}"
  shows "(\<exists>label path. (os, label, path) \<in> set (la_downloads (landing_info s))) \<longleftrightarrow> download_client s os = Served os"
proof (cases "packaged_config s")
  case None
  then have "download_client s os \<noteq> Served os" by (simp add: download_client_def split: option.splits bool.splits)
  with None show ?thesis by (simp add: landing_info_def)
next
  case (Some c)
  then show ?thesis using assms
    by (elim insertE emptyE) (simp_all add: landing_info_def download_client_def availableClients_def client_enabled_names Some split: bool.splits)
qed

section \<open>Nonces of the reachability check\<close>

datatype probe_event = Opened time string | Asked time string | Closed string

fun probe_step :: "string \<Rightarrow> nat \<times> url_state \<Rightarrow> probe_event \<Rightarrow> nat \<times> url_state" where
  "probe_step n (k, st) (Opened t m) = (k, open_probe t m st)"
| "probe_step n (k, st) (Asked t m) = (case probe_route t m st of (ok, st1) \<Rightarrow> (if ok \<and> m = n then Suc k else k, st1))"
| "probe_step n (k, st) (Closed m) = (k, close_probe m st)"

definition opened_times :: "string \<Rightarrow> probe_event list \<Rightarrow> nat" where
  "opened_times n es = length (filter (\<lambda>e. case e of Opened t m \<Rightarrow> m = n | _ \<Rightarrow> False) es)"

text \<open>One for an open nonce: what it may still be answered.\<close>

definition pending_probe :: "string \<Rightarrow> url_state \<Rightarrow> nat" where
  "pending_probe n st = (if n \<in> fst ` set (us_probes st) then 1 else 0)"

lemma probe_keys_opened: "fst ` set (AList.update m x (filter P ps)) \<subseteq> insert m (fst ` set ps)"
proof -
  have "fst ` set (AList.update m x (filter P ps)) = insert m (fst ` set (filter P ps))"
    using arg_cong[OF AList.update_keys[of m x "filter P ps"], of set] by (auto split: if_splits)
  then show ?thesis by auto
qed

lemma probe_step_budget:
  "fst (probe_step n (k, st) e) + pending_probe n (snd (probe_step n (k, st) e)) \<le> k + pending_probe n st + opened_times n [e]"
proof (cases e)
  case (Opened t m)
  then show ?thesis
    using probe_keys_opened[of m "t + 30000" "\<lambda>x. \<not> snd x < t" "us_probes st"] by (auto simp: pending_probe_def open_probe_def opened_times_def)
next
  case (Asked t m)
  have "fst ` set (filter (\<lambda>x. fst x \<noteq> m) xs) = fst ` set xs - {m}" for xs :: "(string \<times> time) list" by auto
  moreover have "map_of (us_probes st) m = Some x \<Longrightarrow> m \<in> fst ` set (us_probes st)" for x by (force dest: map_of_SomeD)
  ultimately show ?thesis using Asked
    by (auto simp: probe_route_def answerProbe_def pending_probe_def opened_times_def split: option.splits if_splits)
next
  case (Closed m)
  then show ?thesis by (auto simp: pending_probe_def close_probe_def opened_times_def)
qed

theorem probe_answered_once:
  "fst (foldl (probe_step n) (0, st) es) \<le> pending_probe n st + opened_times n es"
proof -
  have "fst (foldl (probe_step n) (k, st) es) + pending_probe n (snd (foldl (probe_step n) (k, st) es))
      \<le> k + pending_probe n st + opened_times n es" for k st
  proof (induction es arbitrary: k st)
    case (Cons e es)
    obtain k1 st1 where e: "probe_step n (k, st) e = (k1, st1)" by (rule prod.exhaust)
    have "opened_times n (e # es) = opened_times n [e] + opened_times n es" by (simp add: opened_times_def)
    moreover have "k1 + pending_probe n st1 \<le> k + pending_probe n st + opened_times n [e]"
      using probe_step_budget[of n k st e] by (simp add: e)
    ultimately show ?case using Cons[of k1 st1] by (simp add: e)
  qed (simp add: opened_times_def)
  from this[of 0 st] show ?thesis by simp
qed

section \<open>Recovery\<close>

text \<open>
  What the recovery tool cannot touch: everything but the sessions of accounts, the providers, the linked identities, the
  passkeys and the public address. Password hashes, accounts, authenticators and memberships are all part of it.
\<close>

definition no_passkey :: "mfa_row \<Rightarrow> bool" where "no_passkey m = (mm_type m \<noteq> WEBAUTHN)"

definition recovery_view :: "db \<Rightarrow> db" where
  "recovery_view s = s\<lparr>users := map (\<lambda>u. u\<lparr>u_sessionsValidAfter := None\<rparr>) (users s), oidcProviders := [], identities := [],
     mfaMethods := filter no_passkey (mfaMethods s), platform := (platform s)\<lparr>ps_publicUrl := None\<rparr>, activityLog := []\<rparr>"

definition recovery_ok :: "recovery_step \<Rightarrow> bool" where
  "recovery_ok f \<longleftrightarrow> (\<forall>s. snd (f False s) = s \<and> recovery_view (snd (f True s)) = recovery_view s)"

lemma recovery_view_audit [simp]: "recovery_view (recovery_audit a r i s) = recovery_view s"
  by (simp add: recovery_view_def recovery_audit_def audit_log_def)

lemma recovery_view_tables [simp]:
  "recovery_view (s\<lparr>oidcProviders := x\<rparr>) = recovery_view s"
  "recovery_view (s\<lparr>identities := y\<rparr>) = recovery_view s"
  "recovery_view (s\<lparr>platform := (platform s)\<lparr>ps_publicUrl := z\<rparr>\<rparr>) = recovery_view s"
  by (simp_all add: recovery_view_def)

lemma recovery_view_passkeys [simp]:
  "recovery_view (s\<lparr>mfaMethods := delete_rows (\<lambda>m. mm_userId m = u \<and> mm_type m = WEBAUTHN) (mfaMethods s)\<rparr>) = recovery_view s"
proof -
  have "filter no_passkey (delete_rows (\<lambda>m. mm_userId m = u \<and> mm_type m = WEBAUTHN) xs) = filter no_passkey xs" for xs
    by (induction xs) (simp_all add: delete_rows_def no_passkey_def)
  then show ?thesis by (simp add: recovery_view_def)
qed

lemma recovery_view_sessions [simp]:
  "recovery_view (s\<lparr>users := update_rows (\<lambda>x. u_id x = u) (\<lambda>x. x\<lparr>u_sessionsValidAfter := t\<rparr>) (users s)\<rparr>) = recovery_view s"
  by (simp add: recovery_view_def update_rows_def o_def if_distrib cong: map_cong)

lemma recovery_steps_ok: "list_all recovery_ok (recovery_steps argv now)"
  by (auto simp: recovery_steps_def recovery_ok_def list_all_iff disable_sso_def remove_passkeys_def unlink_sso_def
      sign_out_all_def clear_public_url_def Let_def split: sum.splits)

lemma run_recovery_ok:
  "list_all recovery_ok fs \<Longrightarrow>
     (\<not> doit \<longrightarrow> snd (run_recovery doit fs s) = s) \<and> recovery_view (snd (run_recovery doit fs s)) = recovery_view s"
proof (induction fs arbitrary: s)
  case (Cons f fs)
  obtain r s1 where f: "f doit s = (r, s1)" by (rule prod.exhaust)
  have ok: "recovery_ok f" using Cons.prems by simp
  have run: "snd (run_recovery doit (f # fs) s) = (case r of None \<Rightarrow> snd (run_recovery doit fs s1) | Some _ \<Rightarrow> s1)"
    by (simp add: f split: option.splits)
  have "recovery_view s1 = recovery_view s \<and> (\<not> doit \<longrightarrow> s1 = s)"
    using ok f unfolding recovery_ok_def by (cases doit) (metis snd_conv)+
  moreover have "(\<not> doit \<longrightarrow> snd (run_recovery doit fs s1) = s1) \<and> recovery_view (snd (run_recovery doit fs s1)) = recovery_view s1"
    using Cons.IH Cons.prems by simp
  ultimately show ?case unfolding run by (cases r) auto
qed simp

text \<open>
  The recovery tool leaves the way back in: whatever it is called with, without \<open>--yes\<close> nothing changes, and
  with it nothing but sessions, providers, identities, passkeys and the public address does.
\<close>

theorem recovery_keeps_passwords:
  "(''--yes'' \<notin> set argv \<longrightarrow> snd (recovery_main set_up now argv s) = s)
     \<and> recovery_view (snd (recovery_main set_up now argv s)) = recovery_view s"
  using run_recovery_ok[OF recovery_steps_ok, of "''--yes'' \<in> set argv" argv now s] by (auto simp: recovery_main_def Let_def)

end
