(* ===== verification/Dashboard.thy ===== *)
theory Dashboard
  imports Businesses AuditLog "HOL-Library.Multiset"
begin

text \<open>
  Counts and lists over the whole platform or one business: the search and the unassigned computers of
  \<open>admin/admin.service.ts\<close>, and the numbers and the map of \<open>dashboard/dashboard.service.ts\<close>. The database
  of places is an argument; the state of the host (disk, services) is not modelled.
\<close>

section \<open>Unassigned computers\<close>

definition unassigned :: "endpoint_row \<Rightarrow> bool" where
  "unassigned e = (e_tenantId e = None \<or> e_customerId e = None)"

definition getUnassignedDevices :: "db \<Rightarrow> actor \<Rightarrow> endpoint_row list result" where
  "getUnassignedDevices s actor = map_sum id (\<lambda>_. filter unassigned (endpoints s)) (assertPlatformAdmin actor)"

definition assignDevice :: "actor \<Rightarrow> id \<Rightarrow> id \<Rightarrow> db \<Rightarrow> unit result \<times> db" where
  "assignDevice actor i businessId s = (case assertPlatformAdmin actor of
     Inl e \<Rightarrow> (Inl e, s)
   | Inr _ \<Rightarrow> (case find_row (\<lambda>e. e_id e = i \<and> unassigned e) (endpoints s) of
       None \<Rightarrow> (Inl (NotFound ''That computer is not unassigned''), s)
     | Some e \<Rightarrow> (case find_row (\<lambda>c. c_id c = businessId) (businesses s) of
         None \<Rightarrow> (Inl (NotFound ''Business not found''), s)
       | Some c \<Rightarrow> if c_isArchived c then (Inl (NotFound ''Business not found''), s) else
           let s1 = s\<lparr>endpoints := update_rows (\<lambda>x. e_id x = i)
                 (\<lambda>x. x\<lparr>e_tenantId := Some (c_tenantId c), e_customerId := Some (c_id c), e_status := EP_ACTIVE\<rparr>) (endpoints s)\<rparr>;
               s2 = (case node_of s i of None \<Rightarrow> s1
                 | Some n \<Rightarrow> s1\<lparr>nodes := update_rows (\<lambda>x. n_id x = n_id n) (\<lambda>x. x\<lparr>n_tenantId := Some (c_tenantId c)\<rparr>) (nodes s1)\<rparr>)
           in (Inr (), audit_log ''ENDPOINT_UPDATED'' (Some (a_userId actor)) (Some (c_tenantId c)) (Some (c_id c)) (a_ip actor)
                 (Some ''endpoint'') (Some i) False s2))))"

section \<open>Search\<close>

definition like :: "string \<Rightarrow> string option \<Rightarrow> bool" where
  "like q x = (case x of None \<Rightarrow> False | Some v \<Rightarrow> contains_ci q v)"

record found =
  fo_query :: string
  fo_businesses :: "business_row list"
  fo_users :: "(user_row \<times> membership_row) list"
  fo_computers :: "endpoint_row list"

definition business_matches :: "string \<Rightarrow> business_row \<Rightarrow> bool" where
  "business_matches q c = (contains_ci q (c_name c) \<or> list_ex (\<lambda>k. like q (c_profile c k)) [''code'', ''email'', ''city''])"

definition user_matches :: "string \<Rightarrow> user_row \<Rightarrow> bool" where
  "user_matches q u = (contains_ci q (u_email u) \<or> contains_ci q (u_firstName u) \<or> contains_ci q (u_lastName u))"

definition computer_matches :: "db \<Rightarrow> string \<Rightarrow> endpoint_row \<Rightarrow> bool" where
  "computer_matches s q e = (contains_ci q (e_name e) \<or> like q (e_hostname e) \<or> like q (e_ipAddress e) \<or> like q (e_platform e)
     \<or> like q (e_osVersion e) \<or> list_ex (\<lambda>a. ea_endpointId a = e_id e \<and> contains_ci q (ea_alias a)) (endpointAliases s)
     \<or> like q (map_option n_rustdeskId (node_of s (e_id e))))"

text \<open>A member with the account.\<close>

definition member_hits :: "db \<Rightarrow> id option \<Rightarrow> string \<Rightarrow> (user_row \<times> membership_row) list" where
  "member_hits s sc q = concat (map (\<lambda>m. case user_by_id s (m_userId m) of None \<Rightarrow> []
      | Some u \<Rightarrow> if user_matches q u then [(u, m)] else []) (filter (scope_where m_customerId sc) (memberships s)))"

definition search :: "db \<Rightarrow> actor \<Rightarrow> string \<Rightarrow> found result" where
  "search s actor query_text =
     (let q = js_trim query_text in
      if length q < 2 then Inr \<lparr>fo_query = q, fo_businesses = [], fo_users = [], fo_computers = []\<rparr>
      else (case resolveScope actor None of
          Inl e \<Rightarrow> Inl e
        | Inr sc \<Rightarrow> Inr \<lparr>fo_query = q,
            fo_businesses = take 10 (filter (\<lambda>c. \<not> c_isArchived c \<and> scope_where (\<lambda>c. Some (c_id c)) sc c \<and> business_matches q c) (businesses s)),
            fo_users = (if a_isPlatformAdmin actor \<or> can actor CAP_USERS_VIEW then take 10 (member_hits s sc q) else []),
            fo_computers = (if a_isPlatformAdmin actor \<or> can actor CAP_COMPUTERS_VIEW
              then take 20 (filter (\<lambda>e. scope_where e_customerId sc e \<and> computer_matches s q e) (endpoints s)) else [])\<rparr>))"

section \<open>Numbers\<close>

definition DAY_MS :: int where "DAY_MS = 24 * hour_ms"
definition day_of :: "time \<Rightarrow> int" where "day_of t = t div DAY_MS"

text \<open>Sessions per calendar day of the last days, zero-filled, oldest first.\<close>

definition sessionsPerDay :: "time \<Rightarrow> db \<Rightarrow> id option \<Rightarrow> int \<Rightarrow> (int \<times> nat) list" where
  "sessionsPerDay now s sc days =
     (let span = max 1 (min days 90) - 1 in
      map (\<lambda>k. (day_of now - (span - int k),
             count_rows (\<lambda>x. scope_where ss_customerId sc x \<and> day_of (ss_createdAt x) = day_of now - (span - int k)) (sessions s)))
        [0..<nat (span + 1)])"

record stats =
  ds_total :: nat
  ds_online :: nat
  ds_onlinePercent :: int
  ds_businesses :: nat
  ds_users :: nat
  ds_sessions30 :: nat
  ds_sessions7 :: nat
  ds_active :: nat
  ds_pending :: nat
  ds_recent :: "session_row list"
  ds_activity :: "(time \<times> audit_row) list"
  ds_perDay :: "(int \<times> nat) list"

definition own_session_filter :: "actor \<Rightarrow> id option \<Rightarrow> session_row \<Rightarrow> bool" where
  "own_session_filter actor sc x = (scope_where ss_customerId sc x
     \<and> (isBusinessOwner actor \<or> can actor CAP_HISTORY_VIEW \<or> ss_technicianId x = a_userId actor))"

definition counted_computer :: "actor \<Rightarrow> id option \<Rightarrow> endpoint_row \<Rightarrow> bool" where
  "counted_computer actor sc e = (scope_where e_customerId sc e \<and> endpointRestrictionWhere actor e \<and> e_status e = EP_ACTIVE)"

definition if_can :: "bool \<Rightarrow> nat \<Rightarrow> nat" where "if_can b n = (if b then n else 0)"

definition dashboardStats :: "(nat \<Rightarrow> time) \<Rightarrow> time \<Rightarrow> db \<Rightarrow> actor \<Rightarrow> id option \<Rightarrow> stats result" where
  "dashboardStats stamp now s actor businessId = (case resolveScope actor businessId of
     Inl e \<Rightarrow> Inl e
   | Inr sc \<Rightarrow>
     let canSeeSessions = can actor CAP_SESSIONS_VIEW; F = own_session_filter actor sc;
         total = if_can (can actor CAP_COMPUTERS_VIEW) (count_rows (counted_computer actor sc) (endpoints s));
         online = if_can (can actor CAP_COMPUTERS_VIEW) (count_rows (\<lambda>e. counted_computer actor sc e \<and> e_isOnline e) (endpoints s))
     in Inr \<lparr>ds_total = total, ds_online = online,
       ds_onlinePercent = (if total > 0 then (200 * int online + int total) div (2 * int total) else 0),
       ds_businesses = (if a_isPlatformAdmin actor then count_rows (\<lambda>c. \<not> c_isArchived c) (businesses s) else 1),
       ds_users = if_can (can actor CAP_USERS_VIEW) (count_rows (\<lambda>m. scope_where m_customerId sc m \<and> m_isActive m
          \<and> (case user_by_id s (m_userId m) of None \<Rightarrow> False | Some u \<Rightarrow> u_status u = U_ACTIVE)) (memberships s)),
       ds_sessions30 = if_can canSeeSessions (count_rows (\<lambda>x. F x \<and> ss_createdAt x \<ge> now - 30 * DAY_MS) (sessions s)),
       ds_sessions7 = if_can canSeeSessions (count_rows (\<lambda>x. F x \<and> ss_createdAt x \<ge> now - 7 * DAY_MS) (sessions s)),
       ds_active = if_can canSeeSessions (count_rows (\<lambda>x. F x \<and> ss_status x \<notin> {SESSION_COMPLETED, S_FAILED, S_CANCELED}) (sessions s)),
       ds_pending = if_can canSeeSessions (count_rows (\<lambda>x. F x \<and> ss_status x = S_PENDING) (sessions s)),
       ds_recent = (if canSeeSessions then take 5 (latest_first ss_createdAt (filter F (sessions s))) else []),
       ds_activity = (if can actor CAP_AUDIT_VIEW then take 20 (latest_first fst (filter (\<lambda>(t, r).
          scope_where al_customerId sc r \<and> t \<ge> now - 7 * DAY_MS) (stamped_log stamp s))) else []),
       ds_perDay = (if canSeeSessions then sessionsPerDay now s sc 7 else [])\<rparr>)"

record platform_stats =
  pl_businesses :: nat
  pl_activeBusinesses :: nat
  pl_users :: nat
  pl_endpoints :: nat
  pl_unassigned :: nat
  pl_sessions :: nat
  pl_quickConnect :: nat

definition getPlatformStats :: "db \<Rightarrow> actor \<Rightarrow> platform_stats result" where
  "getPlatformStats s actor = (case assertPlatformAdmin actor of
     Inl e \<Rightarrow> Inl e
   | Inr _ \<Rightarrow> Inr \<lparr>pl_businesses = count_rows (\<lambda>c. \<not> c_isArchived c) (businesses s),
       pl_activeBusinesses = count_rows (\<lambda>c. \<not> c_isArchived c \<and> c_isActive c) (businesses s),
       pl_users = count_rows (\<lambda>u. u_status u = U_ACTIVE) (users s),
       pl_endpoints = count_rows (\<lambda>e. e_status e = EP_ACTIVE) (endpoints s),
       pl_unassigned = count_rows (\<lambda>e. e_customerId e = None) (endpoints s),
       pl_sessions = length (sessions s), pl_quickConnect = count_rows ss_isAdHoc (sessions s)\<rparr>)"

section \<open>The map\<close>

record geo =
  ge_lat :: int
  ge_lon :: int
  ge_city :: "string option"
  ge_region :: "string option"
  ge_country :: string
  ge_byCountry :: bool

record map_point =
  mp_key :: string
  mp_geo :: geo
  mp_city :: "string option"
  mp_total :: nat
  mp_online :: nat
  mp_endpoints :: "id list"

text \<open>\<open>replace(/\s*\([^)]*\)\s*$/, '')\<close>: a neighbourhood in brackets at the end is dropped.\<close>

definition rtrim :: "string \<Rightarrow> string" where "rtrim c = rev (dropWhile js_space (rev c))"

definition drop_neighbourhood :: "string \<Rightarrow> string" where
  "drop_neighbourhood c = (case dropWhile js_space (rev c) of
     d # rest \<Rightarrow>
       if d \<noteq> CHR '')'' then c
       else let tail = rev (takeWhile (\<lambda>x. x \<noteq> CHR '')'') rest) in
         if CHR ''('' \<notin> set tail then c
         else rtrim (rev (dropWhile (\<lambda>x. x \<noteq> CHR '')'') rest) @ takeWhile (\<lambda>x. x \<noteq> CHR ''('') tail)
   | [] \<Rightarrow> c)"

definition point_city :: "geo \<Rightarrow> string option" where
  "point_city g = or_null (map_option (\<lambda>c. js_trim (drop_neighbourhood c)) (ge_city g))"

definition point_key :: "geo \<Rightarrow> string" where
  "point_key g = ge_country g @ ''|'' @ given_or (ge_region g) [] @ ''|'' @ given_or (point_city g) []"

definition add_pin :: "geo \<Rightarrow> endpoint_row \<Rightarrow> map_point \<Rightarrow> map_point" where
  "add_pin g e p = p\<lparr>mp_total := Suc (mp_total p), mp_online := (if e_isOnline e then Suc (mp_online p) else mp_online p),
     mp_endpoints := mp_endpoints p @ [e_id e]\<rparr>"

definition fresh_point :: "geo \<Rightarrow> map_point" where
  "fresh_point g = \<lparr>mp_key = point_key g, mp_geo = g, mp_city = point_city g, mp_total = 0, mp_online = 0, mp_endpoints = []\<rparr>"

fun place_pin :: "geo \<Rightarrow> endpoint_row \<Rightarrow> map_point list \<Rightarrow> map_point list" where
  "place_pin g e [] = [add_pin g e (fresh_point g)]"
| "place_pin g e (p # ps) = (if mp_key p = point_key g then add_pin g e p # ps else p # place_pin g e ps)"

definition pin_one :: "(string option \<Rightarrow> geo option) \<Rightarrow> endpoint_row \<Rightarrow> map_point list \<times> nat \<Rightarrow> map_point list \<times> nat" where
  "pin_one lookup e acc = (case lookup (e_ipAddress e) of
     None \<Rightarrow> (fst acc, Suc (snd acc))
   | Some g \<Rightarrow> (place_pin g e (fst acc), snd acc))"

record endpoint_map =
  em_points :: "map_point list"
  em_located :: nat
  em_unlocatable :: nat
  em_total :: nat
  em_approximate :: nat

definition map_of_rows :: "(string option \<Rightarrow> geo option) \<Rightarrow> endpoint_row list \<Rightarrow> endpoint_map" where
  "map_of_rows lookup rows = (case fold (pin_one lookup) rows ([], 0) of
     (points, unlocatable) \<Rightarrow> \<lparr>em_points = sort_key (\<lambda>p. - int (mp_total p)) points, em_located = length rows - unlocatable,
       em_unlocatable = unlocatable, em_total = length rows, em_approximate = length (filter (\<lambda>p. ge_byCountry (mp_geo p)) points)\<rparr>)"

text \<open>Without the right to see computers there is no map at all.\<close>

definition getEndpointMap :: "(string option \<Rightarrow> geo option) \<Rightarrow> time \<Rightarrow> db \<Rightarrow> actor \<Rightarrow> id option \<Rightarrow> endpoint_map option result" where
  "getEndpointMap lookup now s actor businessId =
     (if \<not> can actor CAP_COMPUTERS_VIEW then Inr None
      else map_sum id (\<lambda>P. Some (map_of_rows lookup (filter (\<lambda>e. P e \<and> e_status e = EP_ACTIVE) (endpoints s))))
        (endpointVisibilityWhere now s actor businessId))"

section \<open>Lemmas: the map\<close>

definition pins :: "map_point list \<Rightarrow> id list" where "pins ps = concat (map mp_endpoints ps)"

definition point_ok :: "map_point \<Rightarrow> bool" where
  "point_ok p \<longleftrightarrow> mp_total p = length (mp_endpoints p) \<and> mp_online p \<le> mp_total p"

lemma point_ok_pin [simp]: "point_ok p \<Longrightarrow> point_ok (add_pin g e p)" "point_ok (fresh_point g)"
  by (simp_all add: point_ok_def add_pin_def fresh_point_def)

lemma add_pin_key [simp]: "mp_key (add_pin g e p) = mp_key p" "mp_key (fresh_point g) = point_key g"
  by (simp_all add: add_pin_def fresh_point_def)

definition points_ok :: "map_point list \<Rightarrow> bool" where
  "points_ok ps \<longleftrightarrow> distinct (map mp_key ps) \<and> list_all point_ok ps"

lemma place_pin_keys: "set (map mp_key (place_pin g e ps)) = insert (point_key g) (set (map mp_key ps))"
  by (induction ps) auto

lemma place_pin_ok: "points_ok ps \<Longrightarrow> points_ok (place_pin g e ps)"
proof (induction ps)
  case (Cons p ps)
  have ok: "points_ok ps" "mp_key p \<notin> set (map mp_key ps)" "point_ok p" using Cons.prems by (simp_all add: points_ok_def)
  then have "mp_key p \<notin> set (map mp_key (place_pin g e ps))" if "mp_key p \<noteq> point_key g"
    using that unfolding place_pin_keys by simp
  then show ?case using ok Cons.IH by (cases "mp_key p = point_key g") (simp_all add: points_ok_def)
qed (simp add: points_ok_def)

lemma place_pin_pins: "mset (pins (place_pin g e ps)) = add_mset (e_id e) (mset (pins ps))"
  by (induction ps) (auto simp: pins_def add_pin_def fresh_point_def)

definition pinned :: "(string option \<Rightarrow> geo option) \<Rightarrow> endpoint_row \<Rightarrow> bool" where
  "pinned lookup e = (lookup (e_ipAddress e) \<noteq> None)"

lemma fold_pins:
  assumes "points_ok ps" "fold (pin_one lookup) rows (ps, n) = (qs, k)"
  shows "points_ok qs \<and> mset (pins qs) = mset (pins ps) + mset (map e_id (filter (pinned lookup) rows))
    \<and> k = n + length (filter (\<lambda>e. \<not> pinned lookup e) rows)"
  using assms
proof (induction rows arbitrary: ps n)
  case (Cons e rows)
  show ?case
  proof (cases "lookup (e_ipAddress e)")
    case None
    then show ?thesis using Cons.IH[of ps "Suc n"] Cons.prems by (simp add: pin_one_def pinned_def)
  next
    case (Some g)
    then show ?thesis using Cons.IH[of "place_pin g e ps" n] Cons.prems place_pin_ok[of ps g e]
      by (simp add: pin_one_def pinned_def place_pin_pins)
  qed
qed simp

text \<open>
  Every computer the actor may see is on the map once or counted as not locatable: nothing is dropped and nothing is
  shown twice, and the numbers at the pins add up.
\<close>

theorem map_shows_the_fleet:
  assumes "getEndpointMap lookup now s actor b = Inr (Some m)" "endpointVisibilityWhere now s actor b = Inr P"
    "rows = filter (\<lambda>e. P e \<and> e_status e = EP_ACTIVE) (endpoints s)"
  shows "mset (pins (em_points m)) = mset (map e_id (filter (pinned lookup) rows))
    \<and> em_located m + em_unlocatable m = length rows \<and> em_located m = sum_list (map mp_total (em_points m))
    \<and> distinct (map mp_key (em_points m))"
proof -
  obtain qs k where f: "fold (pin_one lookup) rows ([], 0) = (qs, k)" by (rule prod.exhaust)
  have m: "m = map_of_rows lookup rows" using assms by (auto simp: getEndpointMap_def split: if_splits)
  have q: "points_ok qs" "mset (pins qs) = mset (map e_id (filter (pinned lookup) rows))" "k = length (filter (\<lambda>e. \<not> pinned lookup e) rows)"
    using fold_pins[OF _ f] by (simp_all add: points_ok_def pins_def del: mset_map mset_filter)
  let ?ps = "sort_key (\<lambda>p. - int (mp_total p)) qs"
  have e: "em_points m = ?ps" "em_located m = length rows - k" "em_unlocatable m = k" by (simp_all add: m map_of_rows_def f)
  have ms: "mset ?ps = mset qs" by simp
  have "mset (pins xs) = sum_list (map (\<lambda>p. mset (mp_endpoints p)) xs)" for xs by (induction xs) (simp_all add: pins_def)
  then have "mset (pins xs) = sum_mset (image_mset (\<lambda>p. mset (mp_endpoints p)) (mset xs))" for xs
    by (metis mset_map sum_mset_sum_list)
  then have p: "mset (pins ?ps) = mset (pins qs)" using ms by simp
  have l: "length (filter (pinned lookup) rows) + k = length rows" unfolding q(3) by (rule sum_length_filter_compl)
  have "list_all point_ok xs \<Longrightarrow> sum_list (map mp_total xs) = length (pins xs)" for xs
    by (induction xs) (simp_all add: point_ok_def pins_def)
  then have "sum_list (map mp_total qs) = length (pins qs)" using q(1) by (simp add: points_ok_def)
  moreover have "length (pins qs) = length (filter (pinned lookup) rows)" using arg_cong[OF q(2), of size] unfolding size_mset length_map .
  moreover have "sum_mset (mset (map mp_total ?ps)) = sum_mset (mset (map mp_total qs))" unfolding mset_map ms ..
  then have "sum_list (map mp_total ?ps) = sum_list (map mp_total qs)" unfolding sum_mset_sum_list .
  ultimately have "sum_list (map mp_total ?ps) = length rows - k" using l by simp
  moreover have "distinct (map mp_key ?ps)" using q(1) ms unfolding points_ok_def
    by (metis mset_eq_imp_distinct_iff mset_map)
  ultimately show ?thesis using e p q(2) l by simp
qed

definition sample_geo :: "string option \<Rightarrow> geo option" where
  "sample_geo ip = map_option (\<lambda>_. \<lparr>ge_lat = 48, ge_lon = 11, ge_city = Some ''Munich'', ge_region = None, ge_country = ''DE'', ge_byCountry = False\<rparr>) ip"

definition map_db :: db where
  "map_db = empty_db\<lparr>endpoints := [shared_pc, shared_pc\<lparr>e_id := ''e2'', e_ipAddress := Some ''198.51.100.7''\<rparr>]\<rparr>"

theorem map_shows_the_fleet_witness:
  "\<exists>m. getEndpointMap sample_geo 0 map_db (plain_actor ''u1'' (Some ''b1'') (Some BUSINESS_USER) [CAP_COMPUTERS_VIEW]) None = Inr (Some m)
    \<and> mset (pins (em_points m)) = {#''e2''#} \<and> em_located m = 1 \<and> em_unlocatable m = 1"
proof -
  let ?a = "plain_actor ''u1'' (Some ''b1'') (Some BUSINESS_USER) [CAP_COMPUTERS_VIEW]"
  obtain P where P: "endpointVisibilityWhere 0 map_db ?a None = Inr P" "P shared_pc" "P (shared_pc\<lparr>e_id := ''e2'', e_ipAddress := Some ''198.51.100.7''\<rparr>)"
  proof -
    have "case endpointVisibilityWhere 0 map_db ?a None of Inl _ \<Rightarrow> False
        | Inr P \<Rightarrow> P shared_pc \<and> P (shared_pc\<lparr>e_id := ''e2'', e_ipAddress := Some ''198.51.100.7''\<rparr>)" by code_simp
    then show ?thesis using that by (auto split: sum.splits)
  qed
  let ?rows = "filter (\<lambda>e. P e \<and> e_status e = EP_ACTIVE) (endpoints map_db)"
  have r: "?rows = endpoints map_db" using P(2,3) by (simp add: map_db_def empty_db_def shared_pc_def)
  have "can ?a CAP_COMPUTERS_VIEW" by code_simp
  then have m: "getEndpointMap sample_geo 0 map_db ?a None = Inr (Some (map_of_rows sample_geo ?rows))"
    by (simp add: getEndpointMap_def P(1))
  have k: "em_unlocatable (map_of_rows sample_geo (endpoints map_db)) = 1" by code_simp
  have p: "map e_id (filter (pinned sample_geo) (endpoints map_db)) = [''e2'']" "length (endpoints map_db) = 2" by code_simp+
  show ?thesis using map_shows_the_fleet[OF m P(1) refl] m k p unfolding r by simp
qed

section \<open>Confinement\<close>

theorem search_confined:
  assumes "\<not> a_isPlatformAdmin actor" "search s actor q = Inr r"
  shows "(\<forall>c \<in> set (fo_businesses r). Some (c_id c) = a_businessId actor)
    \<and> (\<forall>x \<in> set (fo_users r). m_customerId (snd x) = a_businessId actor)
    \<and> (\<forall>e \<in> set (fo_computers r). e_customerId e = a_businessId actor)"
proof (cases "length (js_trim q) < 2")
  case True
  then show ?thesis using assms(2) by (auto simp: search_def Let_def)
next
  case False
  then obtain sc where sc: "resolveScope actor None = Inr sc" using assms(2) by (auto simp: search_def Let_def split: sum.splits)
  then have b: "truthy (a_businessId actor)" "sc = a_businessId actor"
    using actor_scope.pinned[OF assms(1) sc] by blast+
  have w: "scope_where key sc x \<Longrightarrow> key x = a_businessId actor" for key :: "'x \<Rightarrow> id option" and x
    using b by (simp add: scope_where_def)
  have r: "r = \<lparr>fo_query = js_trim q,
      fo_businesses = take 10 (filter (\<lambda>c. \<not> c_isArchived c \<and> scope_where (\<lambda>c. Some (c_id c)) sc c \<and> business_matches (js_trim q) c) (businesses s)),
      fo_users = (if can actor CAP_USERS_VIEW then take 10 (member_hits s sc (js_trim q)) else []),
      fo_computers = (if can actor CAP_COMPUTERS_VIEW
        then take 20 (filter (\<lambda>e. scope_where e_customerId sc e \<and> computer_matches s (js_trim q) e) (endpoints s)) else [])\<rparr>"
    using assms False sc by (simp add: search_def Let_def)
  have "m_customerId (snd x) = a_businessId actor" if "x \<in> set (member_hits s sc q')" for x q'
    using that w[of m_customerId] by (auto simp: member_hits_def split: option.splits if_splits)
  then show ?thesis unfolding r using w[of "\<lambda>c. Some (c_id c)"] w[of e_customerId] by (auto dest!: in_set_takeD split: if_splits)
qed

lemma sessionsPerDay_days:
  "map fst (sessionsPerDay now s sc days) = [day_of now - (max 1 (min days 90) - 1)..day_of now]"
proof -
  let ?n = "max 1 (min days 90) - 1 :: int"
  have "[a..a + int k] = map (\<lambda>i. a + int i) [0..<Suc k]" for a k
    by (induction k) (simp_all add: upto_rec2 add.assoc[symmetric])
  from this[of "day_of now - ?n" "nat ?n"] show ?thesis
    by (simp add: sessionsPerDay_def Let_def Suc_nat_eq_nat_zadd1 add.commute algebra_simps)
qed

text \<open>The days of the chart are consecutive and end today, whether there were sessions or not.\<close>

theorem chart_has_every_day:
  assumes "dashboardStats stamp now s actor b = Inr r" "can actor CAP_SESSIONS_VIEW"
  shows "map fst (ds_perDay r) = [day_of now - 6..day_of now]"
proof -
  obtain sc where "resolveScope actor b = Inr sc" using assms(1) by (auto simp: dashboardStats_def split: sum.splits)
  then have "ds_perDay r = sessionsPerDay now s sc 7" using assms by (auto simp: dashboardStats_def Let_def)
  then show ?thesis using sessionsPerDay_days[of now s sc 7] by simp
qed

section \<open>Where the numbers and the lists part\<close>

text \<open>
  A business user with the right to see sessions, but not the history, is shown only the own sessions as a number, while
  the chart below counts those of all colleagues.
\<close>

definition colleague_session :: session_row where
  "colleague_session = \<lparr>ss_id = ''s1'', ss_tenantId = ''t1'', ss_customerId = Some ''b1'', ss_technicianId = ''other'', ss_endpointId = None,
     ss_contactName = None, ss_contactEmail = None, ss_isAdHoc = False, ss_adHocRustdeskId = None, ss_issueDescription = None,
     ss_status = S_PENDING, ss_startedAt = None, ss_completedAt = None, ss_duration = None, ss_launchRequestedAt = None,
     ss_launcherAckAt = None, ss_clientOpenedAt = None, ss_connectionConfirmedAt = None, ss_endedAt = None, ss_endReason = None,
     ss_endInferred = False, ss_statusSource = None, ss_statusChangedAt = None, ss_lastSignalAt = None, ss_timingQuality = ''NONE'',
     ss_manualWorkMinutes = None, ss_telemetryTokenHash = None, ss_supportRequestId = None, ss_notes = None, ss_disposition = None,
     ss_createdAt = 0\<rparr>"

theorem chart_counts_colleagues:
  "case dashboardStats int 0 (empty_db\<lparr>sessions := [colleague_session]\<rparr>) (plain_actor ''u1'' (Some ''b1'') (Some BUSINESS_USER) [CAP_SESSIONS_VIEW]) None of
     Inl _ \<Rightarrow> False
   | Inr r \<Rightarrow> ds_sessions7 r = 0 \<and> ds_recent r = [] \<and> map snd (ds_perDay r) = [0, 0, 0, 0, 0, 0, 1]"
  by code_simp

text \<open>The search finds a computer that no list shows the same person.\<close>

theorem search_finds_hidden_computer:
  "(case search (empty_db\<lparr>endpoints := [shared_pc\<lparr>e_accessMode := ASSIGNED_USERS\<rparr>]\<rparr>)
      (plain_actor ''u1'' (Some ''b1'') (Some BUSINESS_USER) [CAP_COMPUTERS_VIEW]) ''pc'' of
     Inl _ \<Rightarrow> False | Inr r \<Rightarrow> map e_id (fo_computers r) = [''e1''])
   \<and> (case endpointVisibilityWhere 0 (empty_db\<lparr>endpoints := [shared_pc\<lparr>e_accessMode := ASSIGNED_USERS\<rparr>]\<rparr>)
      (plain_actor ''u1'' (Some ''b1'') (Some BUSINESS_USER) [CAP_COMPUTERS_VIEW]) None of
     Inl _ \<Rightarrow> False | Inr P \<Rightarrow> \<not> P (shared_pc\<lparr>e_accessMode := ASSIGNED_USERS\<rparr>))"
  by code_simp

end
