(* ===== verification/Diagnostics.thy ===== *)
theory Diagnostics
  imports Enrollment AuditLog Redaction Platform
begin

text \<open>
  Test Connection (\<open>diagnostics/diagnostics.service.ts\<close>): the separate checks of the server, the computer and the
  technician's own machine, their worst state by location, and the single-use report of the technician's helper. The TCP
  probes and the presence answer of the registration server are arguments; the summaries and next steps in words and the
  layout of the text report are left out.
\<close>

section \<open>Checks\<close>

datatype check_status = CK_pass | CK_fail | CK_warn | CK_stale | CK_unavailable | CK_info
datatype check_location = AtTechnician | AtEndpoint | AtServer

fun check_rank :: "check_status \<Rightarrow> nat" where
  "check_rank CK_fail = 5" | "check_rank CK_warn = 4" | "check_rank CK_stale = 3"
| "check_rank CK_unavailable = 2" | "check_rank CK_info = 1" | "check_rank CK_pass = 0"

text \<open>An offered action: its id and whether it changes configuration.\<close>

record check =
  ck_key :: string
  ck_location :: check_location
  ck_status :: check_status
  ck_observedAt :: "time option"
  ck_actions :: "(string \<times> bool) list"

definition HEARTBEAT_FRESH_MIN :: int where "HEARTBEAT_FRESH_MIN = 10"
definition TECH_REPORT_FRESH_MIN :: int where "TECH_REPORT_FRESH_MIN = 60"
definition TECH_REPORT_MAX_H :: int where "TECH_REPORT_MAX_H = 24"

abbreviation chk :: "string \<Rightarrow> check_location \<Rightarrow> check_status \<Rightarrow> time option \<Rightarrow> (string \<times> bool) list \<Rightarrow> check" where
  "chk k l st t acts \<equiv> \<lparr>ck_key = k, ck_location = l, ck_status = st, ck_observedAt = t, ck_actions = acts\<rparr>"

text \<open>
  What the checks ask outside the database: a TCP connect, the presence query for one id (\<open>None\<close> when it could not be
  asked), the newest release tag and the cached one.
\<close>

record diag_env =
  de_tcp :: "string \<Rightarrow> int \<Rightarrow> bool"
  de_online :: "string \<Rightarrow> bool option"
  de_tag :: "string option"
  de_cache :: release_cache
  de_stamp :: "nat \<Rightarrow> time"

definition supported_version :: "diag_env \<Rightarrow> time \<Rightarrow> db \<Rightarrow> string" where
  "supported_version v now s = fst (pinnedOrLatestVersion now (de_tag v) s (de_cache v))"

definition server_checks :: "diag_env \<Rightarrow> time \<Rightarrow> server_config option \<Rightarrow> check list" where
  "server_checks v now config = (case config of
     None \<Rightarrow> [chk ''server_config'' AtServer CK_fail (Some now) []]
   | Some c \<Rightarrow> chk ''server_config'' AtServer CK_pass (Some now) []
       # map (\<lambda>(k, port). chk k AtServer (if de_tcp v (sv_host c) port then CK_pass else CK_fail) (Some now) [])
           [(''server_rendezvous'', 21116), (''server_relay'', 21117), (''server_nat'', 21115)])"

definition heartbeat_check :: "time \<Rightarrow> endpoint_row \<Rightarrow> check" where
  "heartbeat_check now e = (case e_lastSeenAt e of
     None \<Rightarrow> chk ''agent_heartbeat'' AtEndpoint CK_unavailable None []
   | Some hb \<Rightarrow> let fresh = now - hb \<le> HEARTBEAT_FRESH_MIN * 60000 in
       chk ''agent_heartbeat'' AtEndpoint (if fresh then CK_pass else CK_fail) (Some hb)
         (if fresh then [] else [(''reinstall_agent'', True)]))"

definition identity_check :: "time \<Rightarrow> node_row \<Rightarrow> check" where
  "identity_check now n =
     (if \<not> truthy (n_agentSecretHash n) then chk ''agent_identity'' AtEndpoint CK_fail (Some now) []
      else (case (if truthy (n_candidateSecretHash n) then n_candidateSecretSeenAt n else None) of
          Some seen \<Rightarrow>
            if now - seen < CANDIDATE_LIVE_MS
            then chk ''agent_identity'' AtEndpoint CK_fail (Some seen)
              (if n_candidateSecretConflict n then [] else [(''accept_device_secret'', True)])
            else chk ''agent_identity'' AtEndpoint CK_pass (Some now) []
        | None \<Rightarrow> chk ''agent_identity'' AtEndpoint CK_pass (Some now) []))"

definition agent_check :: "endpoint_row \<Rightarrow> check" where
  "agent_check e = (let agentOk = agentMeetsContract (e_agentVersion e) in
     chk ''agent_version'' AtEndpoint (if truthy (e_agentVersion e) then (if agentOk then CK_pass else CK_warn) else CK_unavailable)
       (e_lastSeenAt e) (if agentOk then [] else [(''reinstall_agent'', True)]))"

definition presence_check :: "diag_env \<Rightarrow> time \<Rightarrow> node_row \<Rightarrow> check" where
  "presence_check v now n = (case de_online v (n_rustdeskId n) of
     None \<Rightarrow> chk ''rustdesk_presence'' AtServer CK_unavailable (Some now) []
   | Some on \<Rightarrow> chk ''rustdesk_presence'' AtEndpoint (if on then CK_pass else CK_fail) (Some now) [])"

definition version_check :: "diag_env \<Rightarrow> time \<Rightarrow> db \<Rightarrow> node_row \<Rightarrow> check" where
  "version_check v now s n = chk ''rustdesk_version'' AtEndpoint
     (if \<not> truthy (n_version n) then CK_unavailable
      else if compareVersions (the (n_version n)) (supported_version v now s) \<ge> 0 then CK_pass else CK_warn) (n_lastSeenAt n) []"

definition last_rotation :: "(nat \<Rightarrow> time) \<Rightarrow> db \<Rightarrow> id \<Rightarrow> time option" where
  "last_rotation stamp s i = map_option fst (find_row (\<lambda>x. al_action (snd x) = ''ENDPOINT_CREDENTIAL_ROTATED''
     \<and> al_resourceId (snd x) = Some i) (latest_first fst (stamped_log stamp s)))"

text \<open>Facts only: a stored password is never reported as working.\<close>

definition credential_check :: "diag_env \<Rightarrow> db \<Rightarrow> endpoint_row \<Rightarrow> node_row \<Rightarrow> check" where
  "credential_check v s e n = chk ''credential_sync'' AtEndpoint
     (if n_pendingPasswordAt n \<noteq> None then CK_warn else if truthy (n_permanentPassword n) then CK_info else CK_warn)
     (nullish (n_pendingPasswordAt n) (last_rotation (de_stamp v) s (e_id e)))
     (if truthy (n_agentSecretHash n) \<and> n_pendingPasswordAt n = None then [(''rotate_credential'', True)] else [])"

definition session_checks :: "time \<Rightarrow> node_row \<Rightarrow> check list" where
  "session_checks now n = (case n_rdSessionsObservedAt n of
     None \<Rightarrow> []
   | Some t \<Rightarrow> [chk ''endpoint_sessions'' AtEndpoint (if now - t \<le> HEARTBEAT_FRESH_MIN * 60000 then CK_info else CK_stale) (Some t) []])"

definition endpoint_checks :: "diag_env \<Rightarrow> time \<Rightarrow> db \<Rightarrow> endpoint_row \<Rightarrow> check list" where
  "endpoint_checks v now s e = heartbeat_check now e # (case node_of s (e_id e) of
     None \<Rightarrow> [chk ''rustdesk_presence'' AtEndpoint CK_unavailable None []]
   | Some n \<Rightarrow> [identity_check now n, agent_check e, presence_check v now n, version_check v now s n, credential_check v s e n]
       @ session_checks now n)"

text \<open>The last report of the technician's helper.\<close>

definition last_report :: "db \<Rightarrow> id \<Rightarrow> diagnostic_row option" where
  "last_report s userId = (case latest_first (\<lambda>d. given_or (td_submittedAt d) 0)
       (filter (\<lambda>d. td_userId d = userId \<and> td_submittedAt d \<noteq> None) (diagnostics s)) of [] \<Rightarrow> None | d # _ \<Rightarrow> Some d)"

definition run_helper :: "string \<times> bool" where "run_helper = (''run_technician_check'', False)"

definition json_is_true :: "json \<Rightarrow> bool" where "json_is_true v = (v = JBool True)"

definition json_text :: "json \<Rightarrow> string" where "json_text v = (case v of JStr t \<Rightarrow> t | _ \<Rightarrow> [])"

definition reported_checks :: "string \<Rightarrow> bool \<Rightarrow> time \<Rightarrow> json \<Rightarrow> check list" where
  "reported_checks want stale at_time r =
     (let st = (\<lambda>ok bad. if stale then CK_stale else if ok then CK_pass else bad);
          more = (if stale then [run_helper] else []);
          installed = json_truthy (json_get r ''installed'');
          ver = (case json_text (json_get r ''installedVersion'') of [] \<Rightarrow> json_text (json_get r ''portableVersion'') | x \<Rightarrow> x);
          config_ok = json_is_true (json_get r ''hostMatches'') \<and> json_is_true (json_get r ''keyMatches'');
          reach = json_is_true (json_get r ''tcp21116'') \<and> json_is_true (json_get r ''tcp21117'')
      in chk ''tech_install'' AtTechnician (st (installed \<or> json_truthy (json_get r ''portableCached'')) CK_warn) (Some at_time) more
         # (if installed then chk ''tech_config'' AtTechnician (st config_ok CK_fail) (Some at_time)
                ((if config_ok then [] else [(''technician_setup'', True)]) @ more)
              # (if ver \<noteq> [] then [chk ''tech_version'' AtTechnician (st (compareVersions ver want \<ge> 0) CK_warn) (Some at_time) more] else [])
            else [])
         @ [chk ''tech_network'' AtTechnician (st reach CK_fail) (Some at_time) more])"

definition technicianChecks :: "diag_env \<Rightarrow> time \<Rightarrow> db \<Rightarrow> id \<Rightarrow> check list" where
  "technicianChecks v now s userId =
     (let missing = (\<lambda>t. [chk ''tech_report'' AtTechnician CK_unavailable t [run_helper]]) in
      case last_report s userId of
        None \<Rightarrow> missing None
      | Some d \<Rightarrow> (case td_submittedAt d of
          None \<Rightarrow> missing None
        | Some t \<Rightarrow> if now - t > TECH_REPORT_MAX_H * hour_ms then missing (Some t)
            else reported_checks (supported_version v now s) (now - t > TECH_REPORT_FRESH_MIN * 60000) t (given_or (td_report d) (JObj []))))"

record location_view =
  lv_location :: check_location
  lv_worst :: check_status
  lv_failing :: "string list"

definition worse :: "check_status \<Rightarrow> check \<Rightarrow> check_status" where
  "worse w c = (if check_rank (ck_status c) > check_rank w then ck_status c else w)"

definition by_location :: "check list \<Rightarrow> location_view list" where
  "by_location checks = map (\<lambda>loc. let cs = filter (\<lambda>c. ck_location c = loc) checks in
      \<lparr>lv_location = loc, lv_worst = (if cs \<noteq> [] then foldl worse CK_pass cs else CK_unavailable),
       lv_failing = map ck_key (filter (\<lambda>c. ck_status c = CK_fail) cs)\<rparr>) [AtTechnician, AtEndpoint, AtServer]"

record diagnosis =
  dg_endpoint :: endpoint_row
  dg_rustdeskId :: "string option"
  dg_checks :: "check list"
  dg_byLocation :: "location_view list"

definition run_diagnostics :: "diag_env \<Rightarrow> time \<Rightarrow> actor \<Rightarrow> id \<Rightarrow> db \<Rightarrow> diagnosis result \<times> db" where
  "run_diagnostics v now actor i s = (case assertEndpointInScope s actor i of
     Inl e \<Rightarrow> (Inl e, s)
   | Inr e \<Rightarrow>
     let checks = server_checks v now (serverConfig s) @ endpoint_checks v now s e @ technicianChecks v now s (a_userId actor)
     in (Inr \<lparr>dg_endpoint = e, dg_rustdeskId = map_option n_rustdeskId (node_of s (e_id e)), dg_checks = checks, dg_byLocation = by_location checks\<rparr>,
         audit_log ''DIAGNOSTICS_RUN'' (Some (a_userId actor)) (e_tenantId e) (e_customerId e) (a_ip actor) (Some ''endpoint'') (Some i) False s))"

text \<open>The downloaded report: the run, an entry of its own, and the redacted result.\<close>

definition status_word :: "check_status \<Rightarrow> string" where
  "status_word st = (case st of CK_pass \<Rightarrow> ''pass'' | CK_fail \<Rightarrow> ''fail'' | CK_warn \<Rightarrow> ''warn'' | CK_stale \<Rightarrow> ''stale''
     | CK_unavailable \<Rightarrow> ''unavailable'' | CK_info \<Rightarrow> ''info'')"

definition check_json :: "check \<Rightarrow> json" where
  "check_json c = JObj [(''key'', JStr (ck_key c)), (''status'', JStr (status_word (ck_status c))),
     (''observedAt'', case ck_observedAt c of None \<Rightarrow> JNull | Some t \<Rightarrow> JNum (of_int t))]"

definition diagnosis_json :: "diagnosis \<Rightarrow> json" where
  "diagnosis_json d = JObj [(''endpoint'', JObj [(''id'', JStr (e_id (dg_endpoint d))), (''name'', JStr (e_name (dg_endpoint d))),
       (''hostname'', jstr (e_hostname (dg_endpoint d))), (''rustdeskId'', jstr (dg_rustdeskId d))]),
     (''checks'', JArr (map check_json (dg_checks d)))]"

definition diagnostics_report :: "diag_env \<Rightarrow> time \<Rightarrow> actor \<Rightarrow> id \<Rightarrow> db \<Rightarrow> json result \<times> db" where
  "diagnostics_report v now actor i s = (case run_diagnostics v now actor i s of
     (Inl e, s1) \<Rightarrow> (Inl e, s1)
   | (Inr d, s1) \<Rightarrow> (Inr (redactForReport 0 (diagnosis_json d)),
       audit_log ''DIAGNOSTICS_REPORT_DOWNLOADED'' (Some (a_userId actor)) (a_tenantId actor) (a_businessId actor) (a_ip actor)
         (Some ''endpoint'') (Some i) False s1))"

section \<open>The helper of the technician\<close>

definition is_hex :: "char \<Rightarrow> bool" where "is_hex c = (is_digit c \<or> c \<in> set ''abcdef'')"

text \<open>The token that goes into the script, or why there is none.\<close>

definition technicianHelper ::
  "(string \<Rightarrow> string) \<Rightarrow> url_env \<Rightarrow> url_state \<Rightarrow> time \<Rightarrow> id \<Rightarrow> string \<Rightarrow> actor \<Rightarrow> id option \<Rightarrow> db \<Rightarrow> string result \<times> db" where
  "technicianHelper sha en st now i token actor endpointId s =
     (if serverConfig s = None then (Inl (BadRequest ''No RustDesk server is configured yet''), s)
      else if \<not> truthy (apiConfigured en st) then (Inl (BadRequest ''The public address is not set, so the helper has nowhere to report''), s)
      else (Inr token, s\<lparr>diagnostics := diagnostics s @ [\<lparr>td_id = i, td_userId = a_userId actor, td_endpointId = endpointId,
        td_tokenHash = sha token, td_expiresAt = now + 2 * hour_ms, td_submittedAt = None, td_submittedIp = None, td_report = None\<rparr>]\<rparr>))"

definition report_str :: "json \<Rightarrow> string \<Rightarrow> nat \<Rightarrow> string \<times> json" where
  "report_str r k n = (k, JStr (case json_get r k of
     JStr t \<Rightarrow> take n (filter (\<lambda>c. 0x20 \<le> (of_char c :: nat) \<and> (of_char c :: nat) \<le> 0x7e) t) | _ \<Rightarrow> []))"

definition report_bool :: "json \<Rightarrow> string \<Rightarrow> string \<times> json" where
  "report_bool r k = (k, JBool (json_get r k = JBool True))"

definition report_count :: "json \<Rightarrow> string \<Rightarrow> string \<times> json" where
  "report_count r k = (k, case json_get r k of JNum q \<Rightarrow> JNum (of_int (min 99 (max 0 \<lfloor>q + 1 / 2\<rfloor>))) | _ \<Rightarrow> JNull)"

definition clean_technician_report :: "json \<Rightarrow> json" where
  "clean_technician_report r = JObj [report_str r ''collectedAt'' 40, report_str r ''os'' 120,
     report_bool r ''installed'', report_str r ''installedPath'' 260, report_str r ''installedVersion'' 32,
     report_bool r ''portableCached'', report_str r ''portableVersion'' 32, report_str r ''serviceStatus'' 32, report_count r ''runningProcesses'',
     report_bool r ''configFound'', report_str r ''configHost'' 253, report_bool r ''hostMatches'', report_bool r ''keyPresent'',
     report_bool r ''keyMatches'', report_bool r ''protocolHandler'', report_bool r ''tcp21116'', report_bool r ''tcp21117'']"

definition report_open :: "diagnostic_row \<Rightarrow> bool" where "report_open d = (td_submittedAt d = None)"

definition take_report :: "time \<times> string option \<times> json \<Rightarrow> diagnostic_row \<Rightarrow> diagnostic_row" where
  "take_report p d = d\<lparr>td_submittedAt := Some (fst p), td_submittedIp := fst (snd p), td_report := Some (snd (snd p))\<rparr>"

text \<open>\<open>f\<close> is what other requests write between the read and the conditional update.\<close>

definition submitTechnicianReport ::
  "(string \<Rightarrow> string) \<Rightarrow> (db \<Rightarrow> db) \<Rightarrow> time \<Rightarrow> string \<Rightarrow> json \<Rightarrow> string option \<Rightarrow> db \<Rightarrow> bool \<times> db" where
  "submitTechnicianReport sha f now token report ip s =
     (if length token \<noteq> 48 \<or> \<not> list_all is_hex token then (False, s)
      else (case find_row (\<lambda>d. td_tokenHash d = sha token) (diagnostics s) of
          None \<Rightarrow> (False, s)
        | Some d \<Rightarrow>
          if td_submittedAt d \<noteq> None \<or> td_expiresAt d < now then (False, s)
          else let s1 = f s in
            (case claim_rows (\<lambda>x. td_id x = td_id d \<and> report_open x) (take_report (now, ip, clean_technician_report report)) (diagnostics s1) of
              (n, t) \<Rightarrow> if n = 0 then (False, s1\<lparr>diagnostics := t\<rparr>)
                else (True, audit_log ''TECHNICIAN_DIAGNOSTIC_SUBMITTED'' (Some (td_userId d)) None None ip
                  (Some ''technician_diagnostic'') (Some (td_id d)) False (s1\<lparr>diagnostics := t\<rparr>)))))"

interpretation helper_reports: single_use td_id "\<lambda>(_::time \<times> string option \<times> json) d. report_open d" take_report
  by unfold_locales (simp_all add: take_report_def report_open_def)

section \<open>Properties\<close>

lemma worse_rank: "check_rank (worse w c) = max (check_rank w) (check_rank (ck_status c))"
  by (simp add: worse_def)

lemma worst_rank: "check_rank (foldl worse w cs) = fold max (map (\<lambda>c. check_rank (ck_status c)) cs) (check_rank w)"
  by (induction cs arbitrary: w) (simp_all add: worse_rank max.commute)

lemma fold_max_start: "(w :: nat) \<le> fold max xs w"
proof (induction xs arbitrary: w)
  case (Cons y ys)
  have "w \<le> max y w" by simp
  also have "\<dots> \<le> fold max ys (max y w)" by (rule Cons.IH)
  finally show ?case by simp
qed simp

lemma fold_max_ge: "(x :: nat) \<in> set xs \<Longrightarrow> x \<le> fold max xs w"
proof (induction xs arbitrary: w)
  case (Cons y ys)
  have "y \<le> max y w" by simp
  also have "\<dots> \<le> fold max ys (max y w)" by (rule fold_max_start)
  finally show ?case using Cons by auto
qed simp

lemma worst_among: "foldl worse w cs \<in> insert w (ck_status ` set cs)"
proof (induction cs arbitrary: w)
  case (Cons c cs)
  have "worse w c \<in> {w, ck_status c}" by (simp add: worse_def)
  with Cons[of "worse w c"] show ?case by auto
qed simp

text \<open>
  The light of a place hides nothing: it is the state of one of its checks (or pass), no check of the place is worse,
  and a place without any check shows as unavailable, never as passed.
\<close>

theorem light_hides_nothing:
  "list_all (\<lambda>l. let cs = filter (\<lambda>c. ck_location c = lv_location l) checks in
      (cs = [] \<longrightarrow> lv_worst l = CK_unavailable)
      \<and> (cs \<noteq> [] \<longrightarrow> lv_worst l \<in> insert CK_pass (set (map ck_status cs)) \<and> list_all (\<lambda>c. check_rank (ck_status c) \<le> check_rank (lv_worst l)) cs))
    (by_location checks)"
proof -
  have "list_all (\<lambda>c. check_rank (ck_status c) \<le> check_rank (foldl worse CK_pass cs)) cs" for cs
    unfolding worst_rank list_all_iff by (auto intro: fold_max_ge)
  moreover have "foldl worse CK_pass cs \<in> insert CK_pass (set (map ck_status cs))" for cs
    using worst_among[of CK_pass cs] by simp
  ultimately show ?thesis by (simp add: by_location_def Let_def del: set_map set_filter)
qed

text \<open>
  An old report of the technician's machine is never shown as current: more than an hour after it was taken none of
  its checks passes, warns or fails, and after a day it is not shown at all.
\<close>

theorem old_report_never_current:
  assumes "last_report s userId = Some d" "td_submittedAt d = Some t" "now - t > 60 * minute_ms" "c \<in> set (technicianChecks v now s userId)"
  shows "ck_status c \<in> {CK_stale, CK_unavailable} \<and> (now - t > 24 * hour_ms \<longrightarrow> ck_key c = ''tech_report'')"
proof -
  have stale: "TECH_REPORT_FRESH_MIN * 60000 < now - t" using assms(3) by (simp add: TECH_REPORT_FRESH_MIN_def)
  have "ck_status x = CK_stale" if "x \<in> set (reported_checks want True t r)" for x want r
    using that by (auto simp: reported_checks_def Let_def split: if_splits)
  then show ?thesis using assms(1,2,4) stale
    by (auto simp: technicianChecks_def Let_def TECH_REPORT_MAX_H_def split: if_splits)
qed

text \<open>Test Connection changes nothing but the log.\<close>

theorem test_connection_is_passive:
  "\<exists>l. snd (diagnostics_report v now actor i s) = s\<lparr>activityLog := activityLog s @ l\<rparr>
    \<and> snd (run_diagnostics v now actor i s) = s\<lparr>activityLog := activityLog s @ take 1 l\<rparr>"
proof (cases "assertEndpointInScope s actor i")
  case (Inl e)
  then show ?thesis by (intro exI[of _ "[]"]) (simp add: diagnostics_report_def run_diagnostics_def)
next
  case (Inr e)
  show ?thesis
    by (intro exI[of _ "[\<lparr>al_action = ''DIAGNOSTICS_RUN'', al_actorId = Some (a_userId actor), al_tenantId = e_tenantId e, al_customerId = e_customerId e,
        al_actorIp = a_ip actor, al_resource = Some ''endpoint'', al_resourceId = Some i, al_denied = False\<rparr>,
        \<lparr>al_action = ''DIAGNOSTICS_REPORT_DOWNLOADED'', al_actorId = Some (a_userId actor), al_tenantId = a_tenantId actor, al_customerId = a_businessId actor,
        al_actorIp = a_ip actor, al_resource = Some ''endpoint'', al_resourceId = Some i, al_denied = False\<rparr>]"])
      (simp add: diagnostics_report_def run_diagnostics_def Inr Let_def audit_log_def)
qed

text \<open>
  A helper's report counts once: a second submission with the same token is refused, also one that passed its checks
  before the first was written.
\<close>

theorem helper_report_once:
  assumes "submitTechnicianReport sha f now token r ip s = (True, s1)" "distinct (map td_tokenHash (diagnostics s))"
    "distinct (map td_id (diagnostics s))" "map td_id (diagnostics (f s)) = map td_id (diagnostics s)"
    "submitTechnicianReport sha (\<lambda>_. s1) now' token r' ip' s = (b, s2)"
  shows "\<not> b"
proof -
  obtain d where d: "find_row (\<lambda>d. td_tokenHash d = sha token) (diagnostics s) = Some d" and l: "length token = 48" "list_all is_hex token"
    and "td_submittedAt d = None"
    and t: "diagnostics s1 = update_rows (\<lambda>x. td_id x = td_id d \<and> report_open x) (take_report (now, ip, clean_technician_report r)) (diagnostics (f s))"
      "0 < count_rows (\<lambda>x. td_id x = td_id d \<and> report_open x) (diagnostics (f s))"
    using assms(1) by (auto simp: submitTechnicianReport_def claim_rows_def Let_def split: if_splits option.splits)
  have "helper_reports.spent (td_id d) (diagnostics s1)"
    unfolding t(1) by (rule helper_reports.win_spends) (use t(2) assms(3,4) in simp_all)
  from helper_reports.spent_none[OF this] have n: "count_rows (\<lambda>x. td_id x = td_id d \<and> report_open x) (diagnostics s1) = 0" by simp
  show ?thesis
  proof (cases "td_submittedAt d \<noteq> None \<or> td_expiresAt d < now'")
    case True
    then show ?thesis using assms(5) d l by (auto simp: submitTechnicianReport_def)
  next
    case False
    then show ?thesis using assms(5) d l n by (auto simp: submitTechnicianReport_def claim_rows_def Let_def)
  qed
qed

end
