(* ===== verification/Updates.thy ===== *)
theory Updates
  imports RustdeskConfig Versions
begin

text \<open>
  Updating the server itself, the RustDesk server beside it and the clients on computers (\<open>admin/update.service.ts\<close>
  behind its controller). What the release servers answer and whether a started program succeeds are arguments; what is
  modelled is which programs are started, with which arguments and in which order. Progress messages are left out.
\<close>

section \<open>Versions of the server\<close>

text \<open>\<open>v.split(/[.+-]/)\<close>.\<close>

definition version_sep :: "char \<Rightarrow> bool" where "version_sep c = (c \<in> set ''.+-'')"

fun split_by :: "(char \<Rightarrow> bool) \<Rightarrow> string \<Rightarrow> string list" where
  "split_by P [] = [[]]"
| "split_by P (x # xs) = (if P x then [] # split_by P xs
     else (case split_by P xs of [] \<Rightarrow> [[x]] | p # ps \<Rightarrow> (x # p) # ps))"

definition release_parts :: "string \<Rightarrow> int option list" where
  "release_parts v = (let ps = map js_parseInt (take 3 (split_by version_sep v)) in ps @ replicate (3 - length ps) (Some 0))"

fun first_greater :: "int list \<Rightarrow> int list \<Rightarrow> bool" where
  "first_greater (x # xs) (y # ys) = (if x \<noteq> y then x > y else first_greater xs ys)"
| "first_greater _ _ = False"

definition isNewer :: "string \<Rightarrow> string \<Rightarrow> bool" where
  "isNewer a b = (if list_ex (\<lambda>x. x = None) (release_parts a) \<or> list_ex (\<lambda>x. x = None) (release_parts b) then False
     else first_greater (map the (release_parts a)) (map the (release_parts b)))"

text \<open>\<open>^[0-9]{1,5}\.[0-9]{1,5}\.[0-9]{1,5}(?:[-.+][A-Za-z0-9._-]{1,32})?$\<close>, at most 64 characters.\<close>

definition eat_number :: "string \<Rightarrow> string option" where
  "eat_number s = (let d = takeWhile is_digit s in if d \<noteq> [] \<and> length d \<le> 5 then Some (dropWhile is_digit s) else None)"

definition eat_dot :: "string \<Rightarrow> string option" where
  "eat_dot s = (case s of c # r \<Rightarrow> if c = CHR ''.'' then Some r else None | [] \<Rightarrow> None)"

definition suffix_ok :: "string \<Rightarrow> bool" where
  "suffix_ok s = (case s of [] \<Rightarrow> True
     | c # r \<Rightarrow> version_sep c \<and> r \<noteq> [] \<and> length r \<le> 32 \<and> list_all (\<lambda>x. is_alnum x \<or> x \<in> set ''._-'') r)"

definition isValidVersion :: "string \<Rightarrow> bool" where
  "isValidVersion v = (length v \<le> 64
     \<and> (case Option.bind (Option.bind (Option.bind (Option.bind (eat_number v) eat_dot) eat_number) eat_dot) eat_number of
          None \<Rightarrow> False | Some r \<Rightarrow> suffix_ok r))"

section \<open>Updating the server\<close>

text \<open>A started program and its arguments; no shell is involved.\<close>

type_synonym command = "string \<times> string list"

record updater_env =
  ue_allowed :: bool
  ue_sourceDir :: "string option"
  ue_isCheckout :: bool
  ue_current :: "string option"
  ue_releaseTag :: "string option"

datatype readiness = Ready | Disabled | NoSourceDir | NotACheckout

definition updaterReadiness :: "updater_env \<Rightarrow> readiness" where
  "updaterReadiness v = (if \<not> ue_allowed v then Disabled
     else if \<not> truthy (ue_sourceDir v) then NoSourceDir
     else if \<not> ue_isCheckout v then NotACheckout else Ready)"

definition getCurrentVersion :: "updater_env \<Rightarrow> string" where
  "getCurrentVersion v = given_or (ue_current v) ''0.1.0''"

record update_info =
  ui_current :: string
  ui_latest :: string
  ui_hasUpdate :: bool

definition checkForUpdate :: "updater_env \<Rightarrow> update_info" where
  "checkForUpdate v = (let current = getCurrentVersion v in (case ue_releaseTag v of
     None \<Rightarrow> \<lparr>ui_current = current, ui_latest = current, ui_hasUpdate = False\<rparr>
   | Some tag \<Rightarrow> let latest = strip_v tag in
       \<lparr>ui_current = current, ui_latest = (if latest = [] then current else latest),
        ui_hasUpdate = (if latest = [] then False else isNewer latest current)\<rparr>))"

text \<open>Programs one after the other, up to the first that fails: what was started, and whether all succeeded.\<close>

fun run_procs :: "(command \<Rightarrow> bool) \<Rightarrow> command list \<Rightarrow> command list \<times> bool" where
  "run_procs ok [] = ([], True)"
| "run_procs ok (c # cs) = (if ok c then (case run_procs ok cs of (t, r) \<Rightarrow> (c # t, r)) else ([c], False))"

definition fetch_tag :: "string \<Rightarrow> command" where
  "fetch_tag tag = (''git'', [''fetch'', ''origin'', ''tag'', tag, ''--no-tags''])"

definition verify_tag :: "string \<Rightarrow> command" where "verify_tag tag = (''git'', [''tag'', ''--verify'', tag])"

definition build_commands :: "string \<Rightarrow> command list" where
  "build_commands tag = [(''git'', [''checkout'', tag]), (''pnpm'', [''install'', ''--frozen-lockfile'']),
     (''pnpm'', [''--filter'', ''@reboot-remote/api'', ''build'']), (''pnpm'', [''--filter'', ''@reboot-remote/web'', ''build'']),
     (''rsync'', [''-a'', ''--delete'', ''--exclude'', ''apps/web/.next/static/'', ''apps/web/.next/standalone/'', ''/opt/reboot-remote/web/standalone/'']),
     (''rsync'', [''-a'', ''apps/web/.next/static/'', ''/opt/reboot-remote/web/standalone/apps/web/.next/static/'']),
     (''cp'', [''version.json'', ''/opt/reboot-remote/version.json'']), (''cp'', [''CHANGELOG.md'', ''/opt/reboot-remote/CHANGELOG.md'']),
     (''sudo'', [''-n'', ''systemctl'', ''restart'', ''reboot-remote-api'', ''reboot-remote-web''])]"

datatype update_outcome = Unavailable readiness | AlreadyLatest | InvalidTag | Downgrade | FetchFailed | Unverified | BuildFailed | UpdatedTo string

text \<open>The outcome and every program that was started.\<close>

definition applyUpdate :: "updater_env \<Rightarrow> (command \<Rightarrow> bool) \<Rightarrow> update_outcome \<times> command list" where
  "applyUpdate v ok =
     (if updaterReadiness v \<noteq> Ready then (Unavailable (updaterReadiness v), [])
      else let info = checkForUpdate v; tag = CHR ''v'' # ui_latest info in
        if \<not> ui_hasUpdate info then (AlreadyLatest, [])
        else if \<not> isValidVersion (ui_latest info) then (InvalidTag, [])
        else if \<not> isNewer (ui_latest info) (ui_current info) then (Downgrade, [])
        else if \<not> ok (fetch_tag tag) then (FetchFailed, [fetch_tag tag])
        else if \<not> ok (verify_tag tag) then (Unverified, [fetch_tag tag, verify_tag tag])
        else (case run_procs ok (build_commands tag) of
            (t, r) \<Rightarrow> (if r then UpdatedTo (ui_latest info) else BuildFailed, fetch_tag tag # verify_tag tag # t)))"

section \<open>The release notes\<close>

text \<open>A heading \<open>## [1.2.3] ...\<close> and what follows it on its line.\<close>

definition blank :: "char \<Rightarrow> bool" where "blank c = (c = CHR '' '' \<or> c = CHR 0x09)"

definition heading_of :: "string \<Rightarrow> (string \<times> string) option" where
  "heading_of l = (if \<not> starts_with ''##'' l then None
     else (case dropWhile blank (drop 2 l) of
         c # r \<Rightarrow> if c \<noteq> CHR ''['' then None
           else (case dropWhile (\<lambda>x. x \<noteq> CHR '']'') r of
               _ # rest \<Rightarrow> let ver = takeWhile (\<lambda>x. x \<noteq> CHR '']'') r in
                 if release_tag_ok ver then Some (ver, dropWhile blank rest) else None
             | [] \<Rightarrow> None)
       | [] \<Rightarrow> None))"

record release_note =
  rn_version :: string
  rn_heading :: string
  rn_lines :: "string list"

text \<open>What stands before the first heading belongs to no version.\<close>

fun note_sections :: "string list \<Rightarrow> release_note list" where
  "note_sections [] = []"
| "note_sections (l # ls) = (case heading_of l of
     None \<Rightarrow> note_sections ls
   | Some (v, h) \<Rightarrow> \<lparr>rn_version = v, rn_heading = h, rn_lines = takeWhile (\<lambda>x. heading_of x = None) ls\<rparr> # note_sections ls)"

definition parseChangelog :: "string \<Rightarrow> release_note list" where
  "parseChangelog raw = note_sections (split_on (CHR 0x0A) raw)"

section \<open>The RustDesk server\<close>

record asset =
  as_name :: string
  as_url :: string
  as_sha256 :: string

record server_release =
  rl_version :: string
  rl_assets :: "asset list"

text \<open>An asset as the release server lists it; any of its fields may be missing.\<close>

record listed_asset =
  la_name :: "string option"
  la_url :: "string option"
  la_digest :: "string option"

definition hex_digit :: "char \<Rightarrow> bool" where "hex_digit c = (is_digit c \<or> c \<in> set ''abcdef'')"

definition sha256_of_digest :: "string option \<Rightarrow> string option" where
  "sha256_of_digest d = (case d of None \<Rightarrow> None
     | Some x \<Rightarrow> let h = drop 7 x in if starts_with ''sha256:'' x \<and> length h = 64 \<and> list_all hex_digit h then Some h else None)"

definition release_url_ok :: "string \<Rightarrow> bool" where
  "release_url_ok u = (starts_with ''https://github.com/'' u \<or> starts_with ''https://objects.githubusercontent.com/'' u)"

definition usable_asset :: "listed_asset \<Rightarrow> asset option" where
  "usable_asset a = (if \<not> truthy (la_name a) \<or> \<not> truthy (la_url a) then None
     else (case sha256_of_digest (la_digest a) of
         None \<Rightarrow> None
       | Some h \<Rightarrow> if release_url_ok (the (la_url a)) then Some \<lparr>as_name = the (la_name a), as_url = the (la_url a), as_sha256 = h\<rparr> else None))"

definition rustdeskServerRelease ::
  "time \<Rightarrow> (string \<times> listed_asset list) option \<Rightarrow> (server_release \<times> time) option \<Rightarrow> server_release option \<times> (server_release \<times> time) option" where
  "rustdeskServerRelease now answer cache =
     (if (case cache of None \<Rightarrow> False | Some (_, t) \<Rightarrow> now - t < 3600000) then (map_option fst cache, cache)
      else (case answer of
          None \<Rightarrow> (map_option fst cache, cache)
        | Some (tag, listed) \<Rightarrow> let version = strip_v tag in
            if \<not> release_tag_ok version then (map_option fst cache, cache)
            else let r = \<lparr>rl_version = version, rl_assets = map the (filter (\<lambda>x. x \<noteq> None) (map usable_asset listed))\<rparr>
              in (Some r, Some (r, now))))"

record server_status =
  sv_latest :: "string option"
  sv_mismatched :: bool
  sv_upToDate :: "bool option"
  sv_websocketCapable :: "bool option"

definition rustdeskServerStatus :: "string option \<Rightarrow> string option \<Rightarrow> string option \<Rightarrow> server_status" where
  "rustdeskServerStatus latest hbbs hbbr =
     \<lparr>sv_latest = latest, sv_mismatched = (truthy hbbs \<and> truthy hbbr \<and> hbbs \<noteq> hbbr),
      sv_upToDate = (if truthy latest \<and> truthy hbbs \<and> truthy hbbr
        then Some (compareVersions (the hbbs) (the latest) \<ge> 0 \<and> compareVersions (the hbbr) (the latest) \<ge> 0) else None),
      sv_websocketCapable = (if truthy hbbs then Some (compareVersions (the hbbs) ''1.1.16'' \<ge> 0) else None)\<rparr>"

definition server_asset :: "server_release \<Rightarrow> string \<Rightarrow> string \<Rightarrow> asset option" where
  "server_asset r which arch = find_row (\<lambda>a. as_name a = ''rustdesk-server-'' @ which @ ''_'' @ rl_version r @ ''_'' @ arch @ ''.deb'') (rl_assets r)"

definition RUSTDESK_SERVER_UPGRADER :: string where "RUSTDESK_SERVER_UPGRADER = ''/usr/local/sbin/rem0te-rustdesk-server-upgrade''"

definition no_checksum :: http_error where "no_checksum = NotFound ''The release does not publish that file with a checksum. Refusing to install it.''"

definition server_commands :: "server_release \<Rightarrow> string \<Rightarrow> asset \<Rightarrow> asset \<Rightarrow> command list" where
  "server_commands r arch a b = [(''sudo'', [''-n'', RUSTDESK_SERVER_UPGRADER, rl_version r, arch, as_sha256 a, as_sha256 b]),
     (''sudo'', [''-n'', ''/usr/bin/systemctl'', ''restart'', ''rustdesk-hbbs'', ''rustdesk-hbbr''])]"

text \<open>The result (whether anything was updated), the programs that were started and the log.\<close>

definition updateRustdeskServer ::
  "(command \<Rightarrow> bool) \<Rightarrow> bool \<Rightarrow> server_release option \<Rightarrow> string option \<Rightarrow> string option \<Rightarrow> bool \<Rightarrow> id \<Rightarrow> string option \<Rightarrow> db
     \<Rightarrow> (bool result \<times> command list) \<times> db" where
  "updateRustdeskServer ok arm release hbbs hbbr installed userId ip s = (case release of
     None \<Rightarrow> ((Inl (NotFound ''The latest rustdesk-server version is unavailable right now''), []), s)
   | Some r \<Rightarrow>
     let status = rustdeskServerStatus (Some (rl_version r)) hbbs hbbr; arch = (if arm then ''arm64'' else ''amd64'') in
     if sv_upToDate status = Some True \<and> \<not> sv_mismatched status then ((Inr False, []), s)
     else (case (server_asset r ''hbbs'' arch, server_asset r ''hbbr'' arch) of
         (Some a, Some b) \<Rightarrow>
           if \<not> installed then ((Inl (NotFound ''The upgrader is not installed''), []), s)
           else (case run_procs ok (server_commands r arch a b) of
               (t, done_ok) \<Rightarrow> if \<not> done_ok then ((Inl (ServerError ''Command failed''), t), s)
                 else ((Inr True, t), audit_log ''SETTINGS_UPDATED'' (Some userId) None None ip (Some ''rustdesk_server'') (Some ''hbbs+hbbr'') False s))
       | _ \<Rightarrow> ((Inl no_checksum, []), s)))"

section \<open>The clients on computers\<close>

record client_line =
  cl_endpointId :: id
  cl_rustdeskId :: string
  cl_version :: "string option"
  cl_updatePending :: bool
  cl_upToDate :: "bool option"

definition client_line_of :: "string option \<Rightarrow> node_row \<Rightarrow> client_line" where
  "client_line_of latest n = \<lparr>cl_endpointId = n_endpointId n, cl_rustdeskId = n_rustdeskId n, cl_version = n_version n,
     cl_updatePending = (n_updateRequestedAt n \<noteq> None),
     cl_upToDate = (if truthy latest \<and> truthy (n_version n) then Some (compareVersions (the (n_version n)) (the latest) \<ge> 0) else None)\<rparr>"

record client_status =
  cs_total :: nat
  cs_outdated :: nat
  cs_unknown :: nat
  cs_lines :: "client_line list"

definition rustdeskStatus :: "string option \<Rightarrow> db \<Rightarrow> client_status" where
  "rustdeskStatus latest s = (let ls = map (client_line_of latest) (nodes s) in
     \<lparr>cs_total = length ls, cs_outdated = length (filter (\<lambda>l. cl_upToDate l = Some False) ls),
      cs_unknown = length (filter (\<lambda>l. cl_upToDate l = None) ls), cs_lines = ls\<rparr>)"

definition platform_admin_required :: http_error where "platform_admin_required = Forbidden ''Platform admin required''"

definition wanted_node :: "id list option \<Rightarrow> db \<Rightarrow> node_row \<Rightarrow> bool" where
  "wanted_node ids s n = ((case ids of None \<Rightarrow> True | Some xs \<Rightarrow> xs = [] \<or> n_endpointId n \<in> set xs)
     \<and> (case find_row (\<lambda>e. e_id e = n_endpointId n) (endpoints s) of None \<Rightarrow> False | Some e \<Rightarrow> e_status e \<noteq> EP_ARCHIVED))"

definition behind :: "string \<Rightarrow> node_row \<Rightarrow> bool" where
  "behind target n = (\<not> truthy (n_version n) \<or> compareVersions (the (n_version n)) target < 0)"

record update_request =
  ur_requested :: nat
  ur_skipped :: nat
  ur_target :: string

text \<open>\<open>latest\<close> is the newest release, when it is known; a pinned version goes before it.\<close>

definition requestRustdeskUpdate ::
  "time \<Rightarrow> string option \<Rightarrow> bool \<Rightarrow> id \<Rightarrow> string option \<Rightarrow> id list option \<Rightarrow> db \<Rightarrow> update_request result \<times> db" where
  "requestRustdeskUpdate now latest isAdmin userId ip ids s =
     (if \<not> isAdmin then (Inl platform_admin_required, s)
      else let goal = (case ps_rustdeskPinnedVersion (platform s) of Some p \<Rightarrow> Some p | None \<Rightarrow> latest) in
        if \<not> truthy goal then (Inl (NotFound ''Latest RustDesk version is unavailable right now''), s)
        else let found = filter (wanted_node ids s) (nodes s); targets = filter (behind (the goal)) found in
          if found = [] then (Inl (NotFound ''No matching endpoints''), s)
          else let s1 = s\<lparr>nodes := update_rows (\<lambda>n. n_id n \<in> set (map n_id targets))
                     (\<lambda>n. n\<lparr>n_updateRequestedAt := Some now, n_updateTargetVersion := goal\<rparr>) (nodes s)\<rparr>
            in (Inr \<lparr>ur_requested = length targets, ur_skipped = length found - length targets, ur_target = the goal\<rparr>,
                fold (\<lambda>t. audit_log ''ENDPOINT_UPDATED'' (Some userId) (n_tenantId t) None ip (Some ''endpoint'') (Some (n_endpointId t)) False) targets s1))"

definition cancelRustdeskUpdate :: "bool \<Rightarrow> id \<Rightarrow> db \<Rightarrow> nat result \<times> db" where
  "cancelRustdeskUpdate isAdmin i s = (if \<not> isAdmin then (Inl platform_admin_required, s)
     else (Inr (count_rows (\<lambda>n. n_endpointId n = i) (nodes s)),
       s\<lparr>nodes := update_rows (\<lambda>n. n_endpointId n = i) (\<lambda>n. n\<lparr>n_updateRequestedAt := None, n_updateTargetVersion := None\<rparr>) (nodes s)\<rparr>))"

section \<open>Versions that are accepted\<close>

definition version_char :: "char \<Rightarrow> bool" where "version_char c = (is_alnum c \<or> c \<in> set ''._+-'')"

lemma eat_number_split:
  "eat_number s = Some r \<Longrightarrow> \<exists>d. s = d @ r \<and> d \<noteq> [] \<and> list_all is_digit d"
  by (rule exI[of _ "takeWhile is_digit s"]) (auto simp: eat_number_def Let_def list_all_iff dest: set_takeWhileD split: if_splits)

lemma eat_dot_split: "eat_dot s = Some r \<Longrightarrow> s = CHR ''.'' # r"
  by (auto simp: eat_dot_def split: list.splits if_splits)

lemma digits_version_chars: "list_all is_digit d \<Longrightarrow> list_all version_char d"
  by (auto simp: list_all_iff version_char_def is_alnum_def)

lemma suffix_version_chars: "suffix_ok r \<Longrightarrow> list_all version_char r"
  by (cases r) (auto simp: suffix_ok_def version_char_def version_sep_def list_all_iff)

lemma valid_version_chars:
  assumes "isValidVersion v"
  shows "list_all version_char v" "v \<noteq> []" "is_digit (hd v)" "length v \<le> 64"
proof -
  obtain r1 r2 r3 r4 r5 where r: "eat_number v = Some r1" "eat_dot r1 = Some r2" "eat_number r2 = Some r3" "eat_dot r3 = Some r4"
      "eat_number r4 = Some r5" "suffix_ok r5" and l: "length v \<le> 64"
    using assms by (auto simp: isValidVersion_def bind_eq_Some_conv split: option.splits)
  obtain d1 where d1: "v = d1 @ r1" "d1 \<noteq> []" "list_all is_digit d1" using eat_number_split[OF r(1)] by blast
  obtain d2 where d2: "r2 = d2 @ r3" "list_all is_digit d2" using eat_number_split[OF r(3)] by blast
  obtain d3 where d3: "r4 = d3 @ r5" "list_all is_digit d3" using eat_number_split[OF r(5)] by blast
  have v: "v = d1 @ CHR ''.'' # d2 @ CHR ''.'' # d3 @ r5" using d1(1) d2(1) d3(1) eat_dot_split[OF r(2)] eat_dot_split[OF r(4)] by simp
  have dot: "version_char (CHR ''.'')" by (simp add: version_char_def)
  show "list_all version_char v" unfolding v
    using digits_version_chars[OF d1(3)] digits_version_chars[OF d2(2)] digits_version_chars[OF d3(2)] suffix_version_chars[OF r(6)] dot by simp
  show "v \<noteq> []" "length v \<le> 64" using d1(2) l by (auto simp: v)
  show "is_digit (hd v)" unfolding v using d1(2,3) by (cases d1) simp_all
qed

lemma first_greater_irrefl: "\<not> first_greater xs xs"
  by (induction xs) simp_all

lemma first_greater_asym: "first_greater xs ys \<Longrightarrow> \<not> first_greater ys xs"
  by (induction xs ys rule: first_greater.induct) (auto split: if_splits)

text \<open>An update never goes back: no version is newer than itself, and two versions are not newer than each other.\<close>

theorem newer_is_strict: "\<not> isNewer a a \<and> (isNewer a b \<longrightarrow> \<not> isNewer b a)"
  using first_greater_irrefl first_greater_asym by (auto simp: isNewer_def split: if_splits)

section \<open>Nothing unverified runs\<close>

lemma run_procs_prefix: "run_procs ok cs = (t, r) \<Longrightarrow> \<exists>n. t = take n cs"
proof (induction cs arbitrary: t r)
  case (Cons c cs)
  obtain t1 r1 where p: "run_procs ok cs = (t1, r1)" by (rule prod.exhaust)
  then obtain n where "t1 = take n cs" using Cons.IH by blast
  show ?case
  proof (cases "ok c")
    case True
    with Cons.prems p have "t = take (Suc n) (c # cs)" using \<open>t1 = take n cs\<close> by simp
    then show ?thesis by blast
  next
    case False
    with Cons.prems have "t = take 1 (c # cs)" by simp
    then show ?thesis by blast
  qed
qed simp

lemma run_procs_all: "run_procs ok cs = (t, True) \<Longrightarrow> t = cs \<and> list_all ok cs"
  by (induction cs arbitrary: t) (auto split: if_splits prod.splits)

lemma started_update:
  assumes "applyUpdate v ok = (r, t)" "t \<noteq> []"
  defines "tag \<equiv> CHR ''v'' # ui_latest (checkForUpdate v)"
  shows "list_all version_char (tl tag) \<and> is_digit (hd (tl tag)) \<and> isNewer (tl tag) (getCurrentVersion v)"
    and "t = [fetch_tag tag] \<or> t = [fetch_tag tag, verify_tag tag]
      \<or> ok (verify_tag tag) \<and> (\<exists>n. t = fetch_tag tag # verify_tag tag # take n (build_commands tag))"
    and "r = UpdatedTo x \<Longrightarrow> tag = CHR ''v'' # x \<and> t = fetch_tag tag # verify_tag tag # build_commands tag \<and> list_all ok t"
proof -
  let ?i = "checkForUpdate v"
  have g: "isValidVersion (ui_latest ?i)" "isNewer (ui_latest ?i) (ui_current ?i)"
    using assms(1,2) by (auto simp: applyUpdate_def Let_def split: if_splits)
  have "ui_current ?i = getCurrentVersion v" by (simp add: checkForUpdate_def Let_def split: option.splits)
  then show "list_all version_char (tl tag) \<and> is_digit (hd (tl tag)) \<and> isNewer (tl tag) (getCurrentVersion v)"
    using valid_version_chars[OF g(1)] g(2) by (simp add: tag_def)
  obtain t1 r1 where p: "run_procs ok (build_commands tag) = (t1, r1)" by (rule prod.exhaust)
  obtain k where k: "t1 = take k (build_commands tag)" using run_procs_prefix[OF p] by blast
  consider "\<not> ok (fetch_tag tag)" "t = [fetch_tag tag]" "r = FetchFailed"
    | "ok (fetch_tag tag)" "\<not> ok (verify_tag tag)" "t = [fetch_tag tag, verify_tag tag]" "r = Unverified"
    | "ok (fetch_tag tag)" "ok (verify_tag tag)" "t = fetch_tag tag # verify_tag tag # t1" "r = (if r1 then UpdatedTo (ui_latest ?i) else BuildFailed)"
    using assms(1,2) p unfolding tag_def by (auto simp: applyUpdate_def Let_def split: if_splits)
  note cases = this
  then show "t = [fetch_tag tag] \<or> t = [fetch_tag tag, verify_tag tag]
      \<or> ok (verify_tag tag) \<and> (\<exists>n. t = fetch_tag tag # verify_tag tag # take n (build_commands tag))"
    by cases (use k in blast)+
  show "tag = CHR ''v'' # x \<and> t = fetch_tag tag # verify_tag tag # build_commands tag \<and> list_all ok t" if r: "r = UpdatedTo x"
    using cases
  proof cases
    case 3
    with r have "r1" "x = ui_latest ?i" by (simp_all split: if_splits)
    then show ?thesis using 3 run_procs_all[of ok "build_commands tag" t1] p by (simp add: tag_def)
  qed (use r in simp_all)
qed

text \<open>
  The server only ever builds and installs a release whose tag it verified: any update starts with fetching one tag
  of a harmless name, newer than what runs; nothing but the check of that tag's signature may follow, and whatever is
  started after that is a prefix of building and installing that very tag, and the check succeeded.
\<close>

theorem update_only_verified:
  assumes "applyUpdate v ok = (r, t)" "t \<noteq> []"
  shows "\<exists>ver. list_all version_char ver \<and> is_digit (hd ver) \<and> isNewer ver (getCurrentVersion v)
    \<and> (let tag = CHR ''v'' # ver in t = [fetch_tag tag] \<or> t = [fetch_tag tag, verify_tag tag]
        \<or> ok (verify_tag tag) \<and> (\<exists>n. t = fetch_tag tag # verify_tag tag # take n (build_commands tag)))"
  using started_update(1,2)[OF assms] by (intro exI[of _ "ui_latest (checkForUpdate v)"]) (simp add: Let_def)

definition sample_updater :: updater_env where
  "sample_updater = \<lparr>ue_allowed = True, ue_sourceDir = Some ''/src'', ue_isCheckout = True, ue_current = Some ''0.9.1'', ue_releaseTag = Some ''v0.10.0''\<rparr>"

lemma sample_update:
  "applyUpdate sample_updater (\<lambda>_. True) = (UpdatedTo ''0.10.0'', fetch_tag ''v0.10.0'' # verify_tag ''v0.10.0'' # build_commands ''v0.10.0'')"
  by code_simp

theorem update_only_verified_witness:
  "\<exists>ver. list_all version_char ver \<and> isNewer ver ''0.9.1''
    \<and> length (snd (applyUpdate sample_updater (\<lambda>_. True))) = 11"
proof -
  obtain t where t: "applyUpdate sample_updater (\<lambda>_. True) = (UpdatedTo ''0.10.0'', t)" "t \<noteq> []" "length t = 11"
    using sample_update by (simp add: build_commands_def)
  have "getCurrentVersion sample_updater = ''0.9.1''" by (simp add: getCurrentVersion_def sample_updater_def given_or_def)
  with update_only_verified[OF t(1,2)] t show ?thesis by auto
qed

text \<open>An update is only reported as done when every program succeeded, the check of the signature among them.\<close>

theorem updated_means_everything_succeeded:
  "applyUpdate v ok = (UpdatedTo x, t) \<Longrightarrow>
     t = fetch_tag (CHR ''v'' # x) # verify_tag (CHR ''v'' # x) # build_commands (CHR ''v'' # x) \<and> list_all ok t"
proof -
  assume a: "applyUpdate v ok = (UpdatedTo x, t)"
  then have "t \<noteq> []" by (auto simp: applyUpdate_def Let_def split: if_splits prod.splits)
  from started_update(3)[OF a this refl] show ?thesis by (metis list.inject)
qed

section \<open>Checksums of the RustDesk server\<close>

lemma usable_asset_checked: "usable_asset a = Some x \<Longrightarrow> length (as_sha256 x) = 64 \<and> list_all hex_digit (as_sha256 x) \<and> release_url_ok (as_url x)"
  by (auto simp: usable_asset_def sha256_of_digest_def Let_def split: if_splits option.splits)

definition release_checked :: "server_release \<Rightarrow> bool" where
  "release_checked r = (release_tag_ok (rl_version r) \<and> list_all (\<lambda>a. length (as_sha256 a) = 64 \<and> list_all hex_digit (as_sha256 a)) (rl_assets r))"

lemma fetched_release_checked:
  assumes "rustdeskServerRelease now answer cache = (Some r, c)" "case cache of None \<Rightarrow> True | Some (x, _) \<Rightarrow> release_checked x"
  shows "release_checked r"
proof -
  have "release_checked \<lparr>rl_version = strip_v tag, rl_assets = map the (filter (\<lambda>x. x \<noteq> None) (map usable_asset listed))\<rparr>"
    if "release_tag_ok (strip_v tag)" for tag listed
    using that usable_asset_checked by (fastforce simp: release_checked_def list_all_iff)
  then show ?thesis using assms
    by (auto simp: rustdeskServerRelease_def Let_def split: if_splits option.splits prod.splits)
qed

text \<open>
  Root is only ever asked to install the RustDesk server with the version of a release and two digests that release
  published for exactly these files.
\<close>

theorem server_upgrade_checksummed:
  assumes "release_checked r" "updateRustdeskServer ok arm (Some r) hbbs hbbr inst u ip s = ((x, t), s1)" "t \<noteq> []"
  shows "\<exists>a b. hd t = (''sudo'', [''-n'', RUSTDESK_SERVER_UPGRADER, rl_version r, if arm then ''arm64'' else ''amd64'', as_sha256 a, as_sha256 b])
    \<and> a \<in> set (rl_assets r) \<and> b \<in> set (rl_assets r) \<and> release_tag_ok (rl_version r)
    \<and> length (as_sha256 a) = 64 \<and> length (as_sha256 b) = 64 \<and> list_all hex_digit (as_sha256 a @ as_sha256 b)"
proof -
  obtain a b where f: "server_asset r ''hbbs'' (if arm then ''arm64'' else ''amd64'') = Some a"
      "server_asset r ''hbbr'' (if arm then ''arm64'' else ''amd64'') = Some b"
    and t: "t = fst (run_procs ok (server_commands r (if arm then ''arm64'' else ''amd64'') a b))"
    using assms(2,3) by (auto simp: updateRustdeskServer_def Let_def split: if_splits option.splits prod.splits)
  have "a \<in> set (rl_assets r)" "b \<in> set (rl_assets r)" using f by (auto simp: server_asset_def dest!: find_row_Some)
  moreover have "hd t = (''sudo'', [''-n'', RUSTDESK_SERVER_UPGRADER, rl_version r, if arm then ''arm64'' else ''amd64'', as_sha256 a, as_sha256 b])"
    by (simp add: t server_commands_def split: prod.splits)
  ultimately show ?thesis using assms(1) by (auto simp: release_checked_def list_all_iff)
qed

section \<open>Staged client updates\<close>

lemma fold_audit_nodes: "nodes (fold (\<lambda>t. audit_log a (u t) (f t) c ip r (g t) d) ts s) = nodes s"
  by (induction ts arbitrary: s) simp_all

text \<open>
  Staging updates is exact: a computer is given a new target only when a platform admin asked, it is not archived and
  runs something older than the target or nothing known, and the target is the pinned version whenever there is one.
\<close>

theorem staged_updates_are_due:
  assumes "requestRustdeskUpdate now latest adm u ip ids s = (x, s1)" "distinct (map n_id (nodes s))"
    "n \<in> set (nodes s1)" "n \<notin> set (nodes s)"
  shows "adm \<and> (\<exists>m goal. m \<in> set (nodes s) \<and> n = m\<lparr>n_updateRequestedAt := Some now, n_updateTargetVersion := Some goal\<rparr>
    \<and> wanted_node ids s m \<and> behind goal m \<and> (case ps_rustdeskPinnedVersion (platform s) of Some p \<Rightarrow> goal = p | None \<Rightarrow> latest = Some goal))"
proof -
  let ?goal = "case ps_rustdeskPinnedVersion (platform s) of Some p \<Rightarrow> Some p | None \<Rightarrow> latest"
  let ?T = "filter (behind (the ?goal)) (filter (wanted_node ids s) (nodes s))"
  have a: "adm" and g: "truthy ?goal"
    and n1: "nodes s1 = update_rows (\<lambda>n. n_id n \<in> set (map n_id ?T)) (\<lambda>n. n\<lparr>n_updateRequestedAt := Some now, n_updateTargetVersion := ?goal\<rparr>) (nodes s)"
    using assms(1,3,4) by (auto simp: requestRustdeskUpdate_def Let_def fold_audit_nodes split: if_splits)
  from g obtain goal where goal: "?goal = Some goal" by (cases ?goal) auto
  from assms(3,4) obtain m where m: "m \<in> set (nodes s)" "n_id m \<in> set (map n_id ?T)"
      "n = m\<lparr>n_updateRequestedAt := Some now, n_updateTargetVersion := ?goal\<rparr>"
    unfolding n1 by (auto simp: update_rows_def split: if_splits)
  from m(2) obtain k where k: "k \<in> set ?T" "n_id k = n_id m" by auto
  then have "k = m" using assms(2) m(1) by (auto simp: distinct_map dest: inj_onD)
  with k m goal a show ?thesis by (auto split: option.splits)
qed

text \<open>A selection that is given but empty updates every computer.\<close>

theorem empty_selection_updates_all: "requestRustdeskUpdate now latest adm u ip (Some []) s = requestRustdeskUpdate now latest adm u ip None s"
proof -
  have w: "wanted_node (Some []) s = wanted_node None s" by (rule ext) (simp add: wanted_node_def)
  show ?thesis unfolding requestRustdeskUpdate_def w ..
qed

end
