(* ===== verification/Installers.thy ===== *)
theory Installers
  imports RolloutHeartbeat Platform
begin

text \<open>
  The public installers (\<open>public/public.controller.ts\<close>): which version, digest, nonce and token reach the script of a
  platform, the address that is patched into the Windows installer, and the reading side of that installer
  (\<open>tools/windows-installer/main.go\<close>). The bodies of the scripts are PowerShell and shell text and are not modelled:
  a script is the values that are embedded in it. Bytes are characters.
\<close>

section \<open>Values that may be embedded\<close>

definition bad_host :: http_error where "bad_host = BadRequest ''Server relay host is not a valid hostname''"
definition bad_key :: http_error where "bad_key = BadRequest ''Server public key is not a valid base64 value''"
definition bad_token :: http_error where "bad_token = BadRequest ''Enrollment token is not a valid hex value''"

definition safeHost :: "string option \<Rightarrow> string result" where
  "safeHost h = (if \<not> truthy h then Inr [] else if \<not> hostname_ok (the h) then Inl bad_host else Inr (the h))"

definition safeKey :: "string option \<Rightarrow> string result" where
  "safeKey k = (if \<not> truthy k then Inr [] else if \<not> base64_key_ok (the k) then Inl bad_key else Inr (the k))"

definition any_hex :: "char \<Rightarrow> bool" where "any_hex c = (is_digit c \<or> c \<in> set ''abcdefABCDEF'')"

definition hex_token_ok :: "string \<Rightarrow> bool" where "hex_token_ok t = (16 \<le> length t \<and> length t \<le> 128 \<and> list_all any_hex t)"

definition safeToken :: "string option \<Rightarrow> string result" where
  "safeToken t = (if \<not> truthy t then Inr [] else if \<not> hex_token_ok (the t) then Inl bad_token else Inr (the t))"

definition version_text_ok :: "string \<Rightarrow> bool" where
  "version_text_ok v = (1 \<le> length v \<and> length v \<le> 32 \<and> list_all (\<lambda>c. is_alnum c \<or> c \<in> set ''._+-'') v)"

definition safeVersion :: "string \<Rightarrow> string" where
  "safeVersion v = (if version_text_ok v then v else RUSTDESK_FALLBACK_VERSION)"

text \<open>The version in \<open>version.json\<close>, when it can be read.\<close>

definition agentVersion :: "string option \<Rightarrow> string" where
  "agentVersion v = (if truthy v \<and> version_text_ok (the v) then the v else ''unknown'')"

definition sha_text :: "string option \<Rightarrow> string" where
  "sha_text h = (let x = given_or h [] in if length x = 64 \<and> list_all (\<lambda>c. is_digit c \<or> c \<in> set ''abcdef'') x then x else [])"

definition nonce_text :: "string option \<Rightarrow> string" where
  "nonce_text n = (let x = given_or n [] in if 16 \<le> length x \<and> length x \<le> 64 \<and> list_all is_url_char x then x else [])"

record script_values =
  sc_host :: string
  sc_key :: string
  sc_config :: string
  sc_token :: string
  sc_version :: string
  sc_sha :: string
  sc_agent :: string
  sc_nonce :: string

definition unix_values :: "string \<Rightarrow> string option \<Rightarrow> string option \<Rightarrow> string option \<Rightarrow> script_values result" where
  "unix_values version host key token = (case safeHost host of Inl e \<Rightarrow> Inl e
     | Inr h \<Rightarrow> (case safeKey key of Inl e \<Rightarrow> Inl e
     | Inr k \<Rightarrow> (case safeToken token of Inl e \<Rightarrow> Inl e
     | Inr t \<Rightarrow> Inr \<lparr>sc_host = h, sc_key = k, sc_config = [], sc_token = t, sc_version = safeVersion version, sc_sha = [],
         sc_agent = [], sc_nonce = []\<rparr>)))"

definition windows_values ::
  "string option \<Rightarrow> string \<Rightarrow> string option \<Rightarrow> string option \<Rightarrow> string option \<Rightarrow> string option \<Rightarrow> string option \<Rightarrow> script_values result" where
  "windows_values running version host key token sha nonce = map_sum id (\<lambda>x. x\<lparr>
       sc_config := ''host='' @ sc_host x @ '',key='' @ sc_key x @ '',api=,relay='' @ sc_host x @ '','',
       sc_sha := sha_text sha, sc_agent := agentVersion running, sc_nonce := nonce_text nonce\<rparr>)
     (unix_values version host key token)"

section \<open>Which installer\<close>

record install_env =
  ie_sha :: "string \<Rightarrow> string"
  ie_encode :: "string \<Rightarrow> string"
  ie_version :: string
  ie_digest :: "string \<Rightarrow> string option"
  ie_running :: "string option"
  ie_url :: url_env
  ie_state :: url_state

record install_request =
  iq_platform :: string
  iq_token :: "string option"
  iq_nonce :: "string option"
  iq_forwardedProto :: "string option"
  iq_forwardedHost :: "string option"
  iq_host :: "string option"

datatype installer = WindowsScript script_values | LinuxScript script_values | MacScript script_values | WindowsExe string

definition text_setting :: "db \<Rightarrow> string \<Rightarrow> string option" where
  "text_setting s k = or_null (Some (setting_text s k))"

text \<open>An enrollment token is embedded only while it is open.\<close>

definition validated_token :: "(string \<Rightarrow> string) \<Rightarrow> time \<Rightarrow> db \<Rightarrow> string option \<Rightarrow> string option" where
  "validated_token sha now s token = (if \<not> truthy token then None
     else (case find_row (\<lambda>t. ct_token t = sha (the token)) (claimTokens s) of
         None \<Rightarrow> None
       | Some t \<Rightarrow> if ct_claimedAt t = None \<and> ct_expiresAt t \<ge> now then token else None))"

definition address_char :: "char \<Rightarrow> bool" where "address_char c = (is_alnum c \<or> c \<in> set ''.:_-'')"

text \<open>\<open>^https:\/\/[a-zA-Z0-9.:_-]+\<close>, or also \<open>http\<close> outside production; the pattern has no end.\<close>

definition scheme_ok :: "bool \<Rightarrow> string \<Rightarrow> bool" where
  "scheme_ok production u =
     ((starts_with ''https://'' u \<and> (case drop 8 u of [] \<Rightarrow> False | c # _ \<Rightarrow> address_char c))
      \<or> (\<not> production \<and> starts_with ''http://'' u \<and> (case drop 7 u of [] \<Rightarrow> False | c # _ \<Rightarrow> address_char c)))"

text \<open>The address the Windows installer is given: the configured one, else that of the request; \<open>None\<close> is the answer 400.\<close>

definition installer_base :: "install_env \<Rightarrow> install_request \<Rightarrow> string option" where
  "installer_base v q =
     (let production = en_production (ie_url v) in
      case (case apiConfigured (ie_url v) (ie_state v) of Some b \<Rightarrow> if b \<noteq> [] \<and> scheme_ok production b then Some b else None | None \<Rightarrow> None) of
        Some b \<Rightarrow> Some b
      | None \<Rightarrow>
        let proto = (if production then ''https'' else given_or (iq_forwardedProto q) ''https'');
            reqHost = given_or (nullish (iq_forwardedHost q) (iq_host q)) ''localhost''
        in if \<not> hostname_ok (takeWhile (\<lambda>c. c \<noteq> CHR '':'') reqHost) then None else Some (proto @ ''://'' @ reqHost))"

definition script_url :: "install_env \<Rightarrow> string \<Rightarrow> string option \<Rightarrow> string" where
  "script_url v base token = base @ ''/api/v1/public/install/windows.ps1''
     @ (case token of None \<Rightarrow> [] | Some t \<Rightarrow> ''?token='' @ ie_encode v t)"

definition getInstallScript :: "install_env \<Rightarrow> time \<Rightarrow> install_request \<Rightarrow> db \<Rightarrow> installer result \<times> db" where
  "getInstallScript v now q s =
     (let host = text_setting s ''rustdeskRelayHost''; key = text_setting s ''rustdeskPublicKey'' in
      case (if iq_platform q = ''windows.ps1'' \<and> truthy (iq_nonce q) then installerFetched now (iq_nonce q) s else (None, s)) of
        (job, s1) \<Rightarrow>
        let jobNonce = (if job = None then None else iq_nonce q);
            version = (case job of Some p \<Rightarrow> if ip_component p = RUSTDESK then ip_version p else ie_version v | None \<Rightarrow> ie_version v);
            sha = (case job of Some p \<Rightarrow> if ip_component p = RUSTDESK then ip_sha256 p else ie_digest v version | None \<Rightarrow> ie_digest v version);
            token = validated_token (ie_sha v) now s1 (iq_token q)
        in (if iq_platform q = ''windows.ps1'' then map_sum id WindowsScript (windows_values (ie_running v) version host key token sha jobNonce)
            else if iq_platform q = ''linux.sh'' then map_sum id LinuxScript (unix_values version host key token)
            else if iq_platform q = ''macos.sh'' then map_sum id MacScript (unix_values version host key token)
            else if iq_platform q = ''windows.exe'' then (case installer_base v q of
                None \<Rightarrow> Inl (BadRequest ''Invalid host'')
              | Some base \<Rightarrow> Inr (WindowsExe (script_url v base token)))
            else Inl (NotFound ''Unknown platform''), s1))"

section \<open>The slot of the Windows installer\<close>

definition INSTALLER_MAGIC :: string where "INSTALLER_MAGIC = ''REM0TE_INST_URL:''"
definition INSTALLER_SLOT_SIZE :: nat where "INSTALLER_SLOT_SIZE = 256"

text \<open>\<open>indexOf\<close>: what stands before the first occurrence, and what after it.\<close>

fun split_at_first :: "string \<Rightarrow> string \<Rightarrow> (string \<times> string) option" where
  "split_at_first m [] = (if m = [] then Some ([], []) else None)"
| "split_at_first m (c # cs) = (if starts_with m (c # cs) then Some ([], drop (length m) (c # cs))
     else map_option (\<lambda>(a, b). (c # a, b)) (split_at_first m cs))"

definition nul :: char where "nul = CHR 0x00"

text \<open>Zero the field, then the address, with at least one zero after it; a field past the end of the file is refused.\<close>

definition patch_installer :: "string \<Rightarrow> string \<Rightarrow> string result" where
  "patch_installer binary url = (case split_at_first INSTALLER_MAGIC binary of
     None \<Rightarrow> Inl (ServerError ''Installer binary is corrupt (magic not found)'')
   | Some (pre, post) \<Rightarrow> let room = INSTALLER_SLOT_SIZE - length INSTALLER_MAGIC; u = take (room - 1) url in
       if length post < room then Inl (ServerError ''The value of end is out of range'')
       else Inr (pre @ INSTALLER_MAGIC @ u @ replicate (room - length u) nul @ drop room post))"

definition serveWindowsExe :: "string option \<Rightarrow> string \<Rightarrow> string result" where
  "serveWindowsExe file_text url = (case file_text of
     None \<Rightarrow> Inl (ServerError ''Windows installer binary not available'')
   | Some binary \<Rightarrow> patch_installer binary url)"

text \<open>The installer's own side: the slot starts at the magic; the address ends at the first zero.\<close>

definition getScriptURL :: "string \<Rightarrow> string" where
  "getScriptURL slot = (let data = drop (length INSTALLER_MAGIC) slot in
     if nul \<in> set data then takeWhile (\<lambda>c. c \<noteq> nul) data else [])"

definition isSafeScriptURL :: "string \<Rightarrow> bool" where
  "isSafeScriptURL u = (starts_with ''https://'' u \<and> length u \<le> 512
     \<and> list_all (\<lambda>c. c \<notin> set [CHR 0x27, CHR 0x22, CHR 0x60, CHR '';'', CHR ''|'', CHR ''&'', CHR '' '', CHR 0x09, CHR 0x0D, CHR 0x0A]) u)"

text \<open>The slot of a binary, as the compiled variable holds it.\<close>

definition url_slot :: "string \<Rightarrow> string option" where
  "url_slot binary = map_option (\<lambda>(pre, post). INSTALLER_MAGIC @ take (INSTALLER_SLOT_SIZE - length INSTALLER_MAGIC) post)
     (split_at_first INSTALLER_MAGIC binary)"

section \<open>Properties\<close>

lemma split_at_first_parts: "split_at_first m xs = Some (a, b) \<Longrightarrow> xs = a @ m @ b"
proof (induction xs arbitrary: a)
  case (Cons c cs)
  show ?case
  proof (cases "starts_with m (c # cs)")
    case True
    then obtain u where "c # cs = m @ u" by (auto simp: starts_with_prefix)
    have "a = []" "b = drop (length m) (c # cs)" using True Cons.prems by simp_all
    then show ?thesis unfolding \<open>c # cs = m @ u\<close> by simp
  next
    case False
    with Cons show ?thesis by auto
  qed
qed (simp split: if_splits)

lemma starts_with_append_long: "length m \<le> length t \<Longrightarrow> starts_with m (t @ u) = starts_with m t"
  by (induction m t rule: starts_with.induct) auto

text \<open>Replacing what follows the first magic moves no occurrence in front of it.\<close>

lemma split_at_first_replace:
  "split_at_first m xs = Some (a, b) \<Longrightarrow> split_at_first m (a @ m @ c) = Some (a, c)"
proof (induction xs arbitrary: a)
  case Nil
  then show ?case by (cases c) (auto split: if_splits)
next
  case (Cons x xs)
  show ?case
  proof (cases "starts_with m (x # xs)")
    case True
    with Cons.prems have a: "a = []" by auto
    show ?thesis
    proof (cases "m @ c")
      case Nil
      then show ?thesis using a by simp
    next
      case (Cons y ys)
      have "starts_with m (m @ c)" by (auto simp: starts_with_prefix)
      then show ?thesis using a Cons by (metis append_eq_conv_conj append_self_conv2 split_at_first.simps(2))
    qed
  next
    case False
    then obtain a' where a: "a = x # a'" "split_at_first m xs = Some (a', b)" using Cons.prems by auto
    have "\<not> starts_with m (x # a' @ m @ c)"
    proof
      assume "starts_with m (x # a' @ m @ c)"
      then have "starts_with m ((x # a' @ m) @ c)" by simp
      then have "starts_with m (x # a' @ m)" by (subst (asm) starts_with_append_long) simp_all
      then have "starts_with m ((x # a' @ m) @ b)" by (subst starts_with_append_long) simp_all
      then show False using False split_at_first_parts[OF a(2)] by simp
    qed
    then show ?thesis using a Cons.IH by simp
  qed
qed

lemma patched_slot:
  assumes "serveWindowsExe (Some binary) url = Inr patched"
  shows "map_option getScriptURL (url_slot patched) = Some (takeWhile (\<lambda>c. c \<noteq> nul) (take 239 url)) \<and> length patched = length binary
    \<and> (\<exists>pre post. binary = pre @ INSTALLER_MAGIC @ post \<and> (\<exists>field. length field = 240 \<and> patched = pre @ INSTALLER_MAGIC @ field @ drop 240 post))"
proof -
  obtain pre post where sp: "split_at_first INSTALLER_MAGIC binary = Some (pre, post)"
    using assms(1) by (auto simp: serveWindowsExe_def patch_installer_def split: option.splits)
  have m: "length INSTALLER_MAGIC = 16" by (simp add: INSTALLER_MAGIC_def)
  let ?u = "take 239 url"
  let ?f = "?u @ replicate (240 - length ?u) nul"
  have len: "240 \<le> length post" and p: "patched = pre @ INSTALLER_MAGIC @ ?f @ drop 240 post"
    using assms sp by (auto simp: serveWindowsExe_def patch_installer_def Let_def m INSTALLER_SLOT_SIZE_def split: if_splits)
  have l: "length ?u \<le> 239" by simp
  have f: "length ?f = 240" by simp
  have "split_at_first INSTALLER_MAGIC patched = Some (pre, ?f @ drop 240 post)"
    unfolding p by (rule split_at_first_replace[OF sp])
  then have "url_slot patched = Some (INSTALLER_MAGIC @ ?f)" using f by (simp add: url_slot_def m INSTALLER_SLOT_SIZE_def)
  moreover have "getScriptURL (INSTALLER_MAGIC @ ?f) = takeWhile (\<lambda>c. c \<noteq> nul) ?u"
  proof -
    have "240 - length ?u = Suc (239 - length ?u)" using l by simp
    then have z: "replicate (240 - length ?u) nul = nul # replicate (239 - length ?u) nul" by simp
    have "takeWhile (\<lambda>c. c \<noteq> nul) (xs @ nul # ys) = takeWhile (\<lambda>c. c \<noteq> nul) xs" for xs ys
      by (induction xs) auto
    then have "takeWhile (\<lambda>c. c \<noteq> nul) ?f = takeWhile (\<lambda>c. c \<noteq> nul) ?u" unfolding z .
    moreover have "nul \<in> set ?f" unfolding z by simp
    ultimately show ?thesis by (simp add: getScriptURL_def Let_def)
  qed
  ultimately have "map_option getScriptURL (url_slot patched) = Some (takeWhile (\<lambda>c. c \<noteq> nul) ?u)" by simp
  moreover have "binary = pre @ INSTALLER_MAGIC @ post" by (rule split_at_first_parts[OF sp])
  moreover from this have "length patched = length binary" using p f len m by simp
  ultimately show ?thesis using p f by blast
qed

text \<open>
  C17: The address that is patched into the Windows installer is the address that installer reads, cut at 239 bytes: for any
  file that holds the magic and any address, the served file has the same length, is unchanged outside the field, and its
  slot gives back the first 239 bytes of the address, up to its first zero byte if it has one.
\<close>

theorem installer_reads_its_address:
  assumes "serveWindowsExe (Some binary) url = Inr patched"
  shows "map_option getScriptURL (url_slot patched) = Some (takeWhile (\<lambda>c. c \<noteq> nul) (take 239 url)) \<and> length patched = length binary
    \<and> (\<exists>pre post. binary = pre @ INSTALLER_MAGIC @ post \<and> (\<exists>field. length field = 240 \<and> patched = pre @ INSTALLER_MAGIC @ field @ drop 240 post))"
  by (rule patched_slot[OF assms])

theorem installer_reads_its_address_witness:
  "\<exists>patched. serveWindowsExe (Some (''MZ'' @ INSTALLER_MAGIC @ replicate 300 nul)) ''https://r.example/x'' = Inr patched
     \<and> map_option getScriptURL (url_slot patched) = Some ''https://r.example/x''"
proof -
  have "case serveWindowsExe (Some (''MZ'' @ INSTALLER_MAGIC @ replicate 300 nul)) ''https://r.example/x'' of Inl _ \<Rightarrow> False | Inr _ \<Rightarrow> True" by code_simp
  then obtain patched where p: "serveWindowsExe (Some (''MZ'' @ INSTALLER_MAGIC @ replicate 300 nul)) ''https://r.example/x'' = Inr patched"
    by (auto split: sum.splits)
  have "takeWhile (\<lambda>c. c \<noteq> nul) (take 239 ''https://r.example/x'') = ''https://r.example/x''" by code_simp
  with installer_reads_its_address[OF p, THEN conjunct1] have "map_option getScriptURL (url_slot patched) = Some ''https://r.example/x''"
    by (simp only:)
  with p show ?thesis by blast
qed

text \<open>
  A public address the settings accept can be too long for the slot: the token at the end of the script's address is cut
  off without an error, and the installer then asks for a script without a valid token.
\<close>

lemma patched_prefix:
  assumes "serveWindowsExe (Some binary) url = Inr patched" "nul \<notin> set url"
  shows "map_option getScriptURL (url_slot patched) = Some (take 239 url)"
proof -
  have "c \<noteq> nul" if "c \<in> set (take 239 url)" for c using that assms(2) by (auto dest: in_set_takeD)
  then have t: "takeWhile (\<lambda>c. c \<noteq> nul) (take 239 url) = take 239 url" by (simp add: takeWhile_eq_all_conv)
  show ?thesis using patched_slot[OF assms(1), THEN conjunct1] unfolding t .
qed

theorem long_address_loses_token:
  assumes "serveWindowsExe (Some binary) (script_url v base (Some token)) = Inr patched" "nul \<notin> set (script_url v base (Some token))"
    "length (ie_encode v token) = 64" "135 \<le> length base" "length base \<le> 200"
  shows "map_option getScriptURL (url_slot patched) \<noteq> Some (script_url v base (Some token))
    \<and> map_option getScriptURL (url_slot patched) = Some (take 239 (script_url v base (Some token)))"
proof -
  have l: "length (script_url v base (Some token)) = length base + 105" using assms(3) by (simp add: script_url_def)
  then have "239 < length (script_url v base (Some token))" using assms(4) by simp
  moreover from this have "take 239 (script_url v base (Some token)) \<noteq> script_url v base (Some token)"
    by (metis length_take min_def nat_less_le not_less)
  moreover have "map_option getScriptURL (url_slot patched) = Some (take 239 (script_url v base (Some token)))"
    by (rule patched_prefix[OF assms(1,2)])
  ultimately show ?thesis by (simp only: option.inject simp_thms)
qed

section \<open>What scripts embed\<close>

definition embedded_char :: "char \<Rightarrow> bool" where
  "embedded_char c = (harmless_char c \<or> c = CHR '','' )"

abbreviation embedded :: "string \<Rightarrow> bool" where "embedded t \<equiv> list_all embedded_char t"

lemma alnum_embedded: "is_alnum c \<Longrightarrow> embedded_char c"
  by (simp add: embedded_char_def harmless_char_def)

lemma any_hex_alnum: "any_hex c \<Longrightarrow> is_alnum c"
proof -
  have "list_all is_alnum ''abcdefABCDEF''" by code_simp
  then show "any_hex c \<Longrightarrow> is_alnum c" unfolding any_hex_def list_all_iff by (auto simp only: is_alnum_def)
qed

lemma embedded_mono: "list_all p t \<Longrightarrow> (\<And>c. p c \<Longrightarrow> embedded_char c) \<Longrightarrow> embedded t"
  by (simp add: list_all_iff)

lemma hex_embedded: "list_all any_hex t \<Longrightarrow> embedded t"
  by (erule embedded_mono) (rule alnum_embedded, erule any_hex_alnum)

lemma lower_hex_embedded: "list_all (\<lambda>c. is_digit c \<or> c \<in> set ''abcdef'') t \<Longrightarrow> embedded t"
  by (rule hex_embedded, erule list.pred_mono_strong) (auto simp: any_hex_def)

lemma version_embedded: "version_text_ok t \<Longrightarrow> embedded t"
  unfolding version_text_ok_def
  by (elim conjE, erule embedded_mono) (auto simp: embedded_char_def harmless_char_def)

lemma safe_embedded:
  "safeHost y = Inr h \<Longrightarrow> embedded h" "safeKey y = Inr h \<Longrightarrow> embedded h" "safeToken y = Inr h \<Longrightarrow> embedded h"
proof -
  have "embedded h" if "hostname_ok h"
  proof (rule embedded_mono)
    show "list_all (\<lambda>c. is_alnum c \<or> c \<in> set ''._-'') h" using that by (simp only: hostname_ok_def simp_thms)
  qed (auto simp: embedded_char_def harmless_char_def)
  then show "safeHost y = Inr h \<Longrightarrow> embedded h" by (auto simp only: safeHost_def list.pred_inject split: if_splits)
  have "embedded h" if "base64_key_ok h"
    using base64_key_chars[OF that] by (rule embedded_mono) (auto simp: base64_char_def embedded_char_def harmless_char_def)
  then show "safeKey y = Inr h \<Longrightarrow> embedded h" by (auto simp only: safeKey_def list.pred_inject split: if_splits)
  show "safeToken y = Inr h \<Longrightarrow> embedded h"
    using hex_embedded by (auto simp only: safeToken_def hex_token_ok_def list.pred_inject split: if_splits)
qed

lemma text_embedded: "embedded (safeVersion v)" "embedded (agentVersion r)" "embedded (sha_text x)" "embedded (nonce_text n)"
proof -
  have "embedded RUSTDESK_FALLBACK_VERSION" "embedded ''unknown''" by code_simp+
  then show "embedded (safeVersion v)" "embedded (agentVersion r)" using version_embedded by (simp_all add: safeVersion_def agentVersion_def)
  show "embedded (sha_text x)" using lower_hex_embedded[of "given_or x []"] by (simp add: sha_text_def Let_def)
  have "embedded (given_or n [])" if "list_all is_url_char (given_or n [])"
    using that by (rule embedded_mono) (auto simp: is_url_char_def is_alnum_def embedded_char_def harmless_char_def)
  then show "embedded (nonce_text n)" by (simp add: nonce_text_def Let_def)
qed

lemma unix_embedded:
  assumes "unix_values ver host key token = Inr x"
  shows "embedded (sc_host x @ sc_key x @ sc_token x @ sc_version x) \<and> sc_config x = [] \<and> sc_sha x = [] \<and> sc_agent x = [] \<and> sc_nonce x = []"
proof -
  obtain h k t where "safeHost host = Inr h" "safeKey key = Inr k" "safeToken token = Inr t"
    and x: "x = \<lparr>sc_host = h, sc_key = k, sc_config = [], sc_token = t, sc_version = safeVersion ver, sc_sha = [], sc_agent = [], sc_nonce = []\<rparr>"
    using assms by (auto simp: unix_values_def split: sum.splits)
  then show ?thesis using safe_embedded text_embedded(1) by simp
qed

lemma windows_embedded:
  assumes "windows_values running ver host key token sha nonce = Inr x"
  shows "embedded (sc_host x @ sc_key x @ sc_config x @ sc_token x @ sc_version x @ sc_sha x @ sc_agent x @ sc_nonce x)"
proof -
  obtain y where y: "unix_values ver host key token = Inr y" using assms by (cases "unix_values ver host key token") (auto simp: windows_values_def)
  have words: "embedded ''host=''" "embedded '',key=''" "embedded '',api=,relay=''" "embedded '',''" by code_simp+
  have x: "x = y\<lparr>sc_config := ''host='' @ sc_host y @ '',key='' @ sc_key y @ '',api=,relay='' @ sc_host y @ '','',
      sc_sha := sha_text sha, sc_agent := agentVersion running, sc_nonce := nonce_text nonce\<rparr>"
    using assms by (simp add: windows_values_def y)
  show ?thesis unfolding x using unix_embedded[OF y] words text_embedded by simp
qed

text \<open>
  Whatever is configured, requested and released: no value that is embedded in an installer script can end a quoted
  string of its shell.
\<close>

theorem embedded_values_harmless:
  assumes "getInstallScript v now q s = (Inr r, s1)" "r \<in> {WindowsScript x, LinuxScript x, MacScript x}"
  shows "embedded (sc_host x @ sc_key x @ sc_config x @ sc_token x @ sc_version x @ sc_sha x @ sc_agent x @ sc_nonce x)"
proof -
  have "(\<exists>ver host key token. unix_values ver host key token = Inr x)
      \<or> (\<exists>running ver host key token sha nonce. windows_values running ver host key token sha nonce = Inr x)"
    using assms by (auto simp: getInstallScript_def Let_def map_sum_Inr split: if_splits prod.splits sum.splits option.splits)
  then show ?thesis using unix_embedded windows_embedded by fastforce
qed

definition sample_install :: install_env where
  "sample_install = \<lparr>ie_sha = (\<lambda>x. x), ie_encode = (\<lambda>x. x), ie_version = ''1.4.2'', ie_digest = (\<lambda>_. None), ie_running = Some ''0.9.1'',
     ie_url = \<lparr>en_parse = (\<lambda>_. None), en_frontend = None, en_api = None, en_production = True\<rparr>,
     ie_state = \<lparr>us_setting = None, us_probes = []\<rparr>\<rparr>"

definition sample_fetch :: install_request where
  "sample_fetch = \<lparr>iq_platform = ''windows.ps1'', iq_token = Some ''ab'', iq_nonce = None, iq_forwardedProto = None, iq_forwardedHost = None, iq_host = None\<rparr>"

theorem embedded_values_harmless_witness:
  "\<exists>x. fst (getInstallScript sample_install 7 sample_fetch empty_db) = Inr (WindowsScript x) \<and> embedded (sc_config x @ sc_agent x)"
proof -
  have "case fst (getInstallScript sample_install 7 sample_fetch empty_db) of Inr (WindowsScript _) \<Rightarrow> True | _ \<Rightarrow> False" by code_simp
  then obtain x s1 where x: "getInstallScript sample_install 7 sample_fetch empty_db = (Inr (WindowsScript x), s1)"
    by (cases "getInstallScript sample_install 7 sample_fetch empty_db") (auto split: sum.splits installer.splits)
  from embedded_values_harmless[OF this, of x] show ?thesis by (intro exI[of _ x]) (simp add: x)
qed

text \<open>
  The check of the requested host looks only at what stands before the first colon, so a host with user information
  passes it, and the served installer fetches its script from somewhere else.
\<close>

theorem forwarded_host_escapes:
  assumes "en_production (ie_url v)" "apiConfigured (ie_url v) (ie_state v) = None" "iq_forwardedHost q = Some ''a.b:@evil.example''"
  shows "installer_base v q = Some ''https://a.b:@evil.example''"
proof -
  have "hostname_ok (takeWhile (\<lambda>c. c \<noteq> CHR '':'') ''a.b:@evil.example'')" by code_simp
  then show ?thesis using assms by (simp add: installer_base_def Let_def nullish_def given_or_def)
qed

end
