(* ===== verification/Resolver.thy ===== *)
theory Resolver
  imports Computers Businesses
begin

text \<open>
  Matching an agent of Tactical RMM to a computer (\<open>endpoints/trmm-resolver.service.ts\<close>): by the agent id that was
  remembered as an alias, else by the name, with the client's name to tell computers of the same name apart.
\<close>

section \<open>Names of companies\<close>

definition word_letter :: "char \<Rightarrow> bool" where "word_letter c = ((is_url_char c \<and> c \<noteq> CHR ''-''))"

definition COMPANY_SUFFIXES :: "string list" where
  "COMPANY_SUFFIXES = [''ltd'', ''limited'', ''llc'', ''inc'', ''incorporated'', ''corp'', ''corporation'', ''plc'', ''gmbh'', ''pty'', ''co'']"

definition flush_word :: "string \<Rightarrow> string" where
  "flush_word w = (if w \<in> set COMPANY_SUFFIXES then '' '' else w)"

text \<open>\<open>\b(ltd|...)\b\<close>: a whole word of the list becomes a blank; the first argument is the word read so far.\<close>

fun drop_suffixes :: "string \<Rightarrow> string \<Rightarrow> string" where
  "drop_suffixes w [] = flush_word w"
| "drop_suffixes w (c # cs) = (if word_letter c then drop_suffixes (w @ [c]) cs else flush_word w @ c # drop_suffixes [] cs)"

text \<open>\<open>replace(/\s+/g, ' ')\<close>; the flag tells that the character before was white space.\<close>

fun squeeze :: "bool \<Rightarrow> string \<Rightarrow> string" where
  "squeeze b [] = []"
| "squeeze b (c # cs) = (if js_space c then (if b then squeeze True cs else CHR '' '' # squeeze True cs) else c # squeeze False cs)"

definition company_punctuation :: "char \<Rightarrow> char" where
  "company_punctuation c = (if c \<in> set [CHR ''.'', CHR '','', CHR 0x27, CHR 0x22, CHR ''('', CHR '')'', CHR ''-''] then CHR '' '' else c)"

definition clean_company :: "string \<Rightarrow> string" where
  "clean_company t = js_trim (squeeze False (drop_suffixes [] (map company_punctuation (map lower t))))"

definition businessesLookAlike :: "string option \<Rightarrow> string \<Rightarrow> bool" where
  "businessesLookAlike a b = (let x = clean_company (given_or a []); y = clean_company b in
     if x = [] \<or> y = [] then False else x = y \<or> has_substring y x \<or> has_substring x y)"

section \<open>Resolving\<close>

definition TRMM_ALIAS_PREFIX :: string where "TRMM_ALIAS_PREFIX = ''trmm:''"

datatype match_kind = ByAgentId | ByHostnameAndClient | ByHostname | Ambiguous | NoMatch

record resolve_query =
  tq_hostname :: "string option"
  tq_clientName :: "string option"
  tq_agentId :: "string option"

record resolution =
  rs_kind :: match_kind
  rs_endpoint :: "endpoint_row option"
  rs_candidates :: "endpoint_row list"

definition norm_text :: "string option \<Rightarrow> string" where "norm_text v = js_trim (given_or v [])"

definition same_ci :: "string \<Rightarrow> string \<Rightarrow> bool" where "same_ci a b = (map lower a = map lower b)"

definition has_alias :: "db \<Rightarrow> string \<Rightarrow> endpoint_row \<Rightarrow> bool" where
  "has_alias s alias e = list_ex (\<lambda>a. ea_endpointId a = e_id e \<and> ea_alias a = alias) (endpointAliases s)"

text \<open>The computers that answer to a name: as host name, as name or as alias.\<close>

definition answers_to :: "db \<Rightarrow> string \<Rightarrow> endpoint_row \<Rightarrow> bool" where
  "answers_to s h e = (e_status e \<noteq> EP_ARCHIVED
     \<and> ((case e_hostname e of None \<Rightarrow> False | Some x \<Rightarrow> same_ci x h) \<or> same_ci (e_name e) h
        \<or> list_ex (\<lambda>a. ea_endpointId a = e_id e \<and> same_ci (ea_alias a) h) (endpointAliases s)))"

definition business_name :: "db \<Rightarrow> endpoint_row \<Rightarrow> string option" where
  "business_name s e = map_option c_name (find_row (\<lambda>c. Some (c_id c) = e_customerId e) (businesses s))"

text \<open>
  The filter of the query by name. It spreads the actor's visibility filter and then sets an \<open>OR\<close> of its own for the three
  ways to carry the name, which takes the place of the \<open>OR\<close> of the visibility filter: for a plain business user only
  the scope is left of it. Owners and technicians have no \<open>OR\<close> there and keep their filter.
\<close>

definition without_or :: "actor \<Rightarrow> (endpoint_row \<Rightarrow> bool) result" where
  "without_or actor = map_sum id (\<lambda>sc e.
     if isBusinessOwner actor then scope_where e_customerId sc e
     else case a_technician actor of
         Some t \<Rightarrow> e_customerId e = Some (tc_businessId t) \<and> endpointRestrictionWhere actor e
       | None \<Rightarrow> scope_where e_customerId sc e) (resolveScope actor None)"

definition match_name :: "db \<Rightarrow> (endpoint_row \<Rightarrow> bool) \<Rightarrow> string \<Rightarrow> string \<Rightarrow> resolution" where
  "match_name s P hostname clientName =
     (let candidates = take 25 (filter (\<lambda>e. P e \<and> answers_to s hostname e) (endpoints s));
          narrowed = filter (\<lambda>e. businessesLookAlike (business_name s e) clientName) candidates
      in case candidates of
           [] \<Rightarrow> \<lparr>rs_kind = NoMatch, rs_endpoint = None, rs_candidates = []\<rparr>
         | [e] \<Rightarrow> \<lparr>rs_kind = ByHostname, rs_endpoint = Some e, rs_candidates = candidates\<rparr>
         | _ \<Rightarrow> if clientName \<noteq> [] \<and> length narrowed = 1
             then \<lparr>rs_kind = ByHostnameAndClient, rs_endpoint = Some (hd narrowed), rs_candidates = candidates\<rparr>
             else if clientName \<noteq> [] \<and> length narrowed > 1
             then \<lparr>rs_kind = Ambiguous, rs_endpoint = None, rs_candidates = narrowed\<rparr>
             else \<lparr>rs_kind = Ambiguous, rs_endpoint = None, rs_candidates = candidates\<rparr>)"

definition resolve_agent :: "time \<Rightarrow> db \<Rightarrow> actor \<Rightarrow> resolve_query \<Rightarrow> resolution result" where
  "resolve_agent now s actor q = (case (endpointVisibilityWhere now s actor None, without_or actor) of
     (Inr P, Inr Q) \<Rightarrow> Inr (
       let hostname = norm_text (tq_hostname q); agentId = norm_text (tq_agentId q) in
       case (if agentId = [] then None else find_row (\<lambda>e. P e \<and> has_alias s (TRMM_ALIAS_PREFIX @ agentId) e) (endpoints s)) of
         Some e \<Rightarrow> \<lparr>rs_kind = ByAgentId, rs_endpoint = Some e, rs_candidates = []\<rparr>
       | None \<Rightarrow> if hostname = [] then \<lparr>rs_kind = NoMatch, rs_endpoint = None, rs_candidates = []\<rparr>
           else match_name s Q hostname (norm_text (tq_clientName q)))
   | (Inl e, _) \<Rightarrow> Inl e
   | (_, Inl e) \<Rightarrow> Inl e)"

definition trmmResolve :: "time \<Rightarrow> db \<Rightarrow> actor \<Rightarrow> resolve_query \<Rightarrow> resolution result" where
  "trmmResolve now s actor q =
     (if \<not> can actor CAP_COMPUTERS_VIEW then Inl (Forbidden ''You do not have permission to do that'') else resolve_agent now s actor q)"

text \<open>
  Remembering: the alias leaves every other computer the actor sees and is given to the one that was picked. The guard of
  the route asks for the right to edit computers.
\<close>

definition remember :: "time \<Rightarrow> actor \<Rightarrow> id \<Rightarrow> id \<Rightarrow> string \<Rightarrow> db \<Rightarrow> bool result \<times> db" where
  "remember now actor aliasId i agentId s = (case assertEndpointInScope s actor i of
     Inl e \<Rightarrow> (Inl e, s)
   | Inr _ \<Rightarrow> let alias = TRMM_ALIAS_PREFIX @ js_trim agentId in
       if alias = TRMM_ALIAS_PREFIX then (Inr False, s)
       else (case endpointVisibilityWhere now s actor None of
           Inl e \<Rightarrow> (Inl e, s)
         | Inr P \<Rightarrow>
           let kept = delete_rows (\<lambda>a. ea_alias a = alias \<and> ea_endpointId a \<noteq> i
                 \<and> list_ex (\<lambda>e. e_id e = ea_endpointId a \<and> P e) (endpoints s)) (endpointAliases s);
               linked = (if list_ex (\<lambda>a. ea_endpointId a = i \<and> ea_alias a = alias) kept then kept
                 else kept @ [\<lparr>ea_id = aliasId, ea_endpointId = i, ea_alias = alias, ea_isPrimary = False\<rparr>])
           in (Inr True, s\<lparr>endpointAliases := linked\<rparr>)))"

definition trmmLink :: "time \<Rightarrow> actor \<Rightarrow> id \<Rightarrow> string option \<Rightarrow> string option \<Rightarrow> db \<Rightarrow> bool result \<times> db" where
  "trmmLink now actor aliasId endpointId agentId s =
     (if \<not> can actor CAP_COMPUTERS_EDIT then (Inl (Forbidden ''You do not have permission to do that''), s)
      else if \<not> truthy endpointId \<or> \<not> truthy agentId then (Inl (BadRequest ''endpointId and agentId are required''), s)
      else remember now actor aliasId (the endpointId) (the agentId) s)"

section \<open>Properties\<close>

text \<open>Both filters stand on the same scope, and the first is the narrower one.\<close>

lemma without_or_of_visible:
  assumes "endpointVisibilityWhere now s actor None = Inr P"
  obtains Q where "without_or actor = Inr Q" "\<And>e. P e \<Longrightarrow> Q e"
proof -
  obtain sc where sc: "resolveScope actor None = Inr sc"
    using assms by (auto simp: endpointVisibilityWhere_def split: sum.splits)
  have "P e \<Longrightarrow> (if isBusinessOwner actor then scope_where e_customerId sc e
      else case a_technician actor of Some t \<Rightarrow> e_customerId e = Some (tc_businessId t) \<and> endpointRestrictionWhere actor e
         | None \<Rightarrow> scope_where e_customerId sc e)" for e
    using assms sc by (auto simp: endpointVisibilityWhere_def split: option.splits if_splits)
  then show thesis using that sc by (simp add: without_or_def)
qed

lemma resolve_agent_Inr:
  "resolve_agent now s actor q = Inr r \<longleftrightarrow> (\<exists>P Q. endpointVisibilityWhere now s actor None = Inr P \<and> without_or actor = Inr Q
     \<and> r = (let hostname = norm_text (tq_hostname q); agentId = norm_text (tq_agentId q) in
       case (if agentId = [] then None else find_row (\<lambda>e. P e \<and> has_alias s (TRMM_ALIAS_PREFIX @ agentId) e) (endpoints s)) of
         Some e \<Rightarrow> \<lparr>rs_kind = ByAgentId, rs_endpoint = Some e, rs_candidates = []\<rparr>
       | None \<Rightarrow> if hostname = [] then \<lparr>rs_kind = NoMatch, rs_endpoint = None, rs_candidates = []\<rparr>
           else match_name s Q hostname (norm_text (tq_clientName q))))"
  by (cases "endpointVisibilityWhere now s actor None"; cases "without_or actor") (auto simp: resolve_agent_def)

lemma visibility_ignores_aliases: "endpointVisibilityWhere now (s\<lparr>endpointAliases := t\<rparr>) actor b = endpointVisibilityWhere now s actor b"
proof -
  have "visible_grant now (s\<lparr>endpointAliases := t\<rparr>) = visible_grant now s" by (intro ext) (simp add: visible_grant_def)
  then show ?thesis by (simp only: endpointVisibilityWhere_def)
qed

lemma match_name_candidate:
  assumes "rs_endpoint (match_name s P h c) = Some e"
  shows "P e \<and> answers_to s h e \<and> e \<in> set (endpoints s)"
proof -
  let ?C = "take 25 (filter (\<lambda>e. P e \<and> answers_to s h e) (endpoints s))"
  let ?N = "filter (\<lambda>e. businessesLookAlike (business_name s e) c) ?C"
  have b: "match_name s P h c = (case ?C of
           [] \<Rightarrow> \<lparr>rs_kind = NoMatch, rs_endpoint = None, rs_candidates = []\<rparr>
         | [e] \<Rightarrow> \<lparr>rs_kind = ByHostname, rs_endpoint = Some e, rs_candidates = ?C\<rparr>
         | _ \<Rightarrow> if c \<noteq> [] \<and> length ?N = 1 then \<lparr>rs_kind = ByHostnameAndClient, rs_endpoint = Some (hd ?N), rs_candidates = ?C\<rparr>
             else if c \<noteq> [] \<and> length ?N > 1 then \<lparr>rs_kind = Ambiguous, rs_endpoint = None, rs_candidates = ?N\<rparr>
             else \<lparr>rs_kind = Ambiguous, rs_endpoint = None, rs_candidates = ?C\<rparr>)"
    unfolding match_name_def Let_def ..
  have "e \<in> set ?C"
  proof -
    consider "?C = []" | x where "?C = [x]" | x y zs where "?C = x # y # zs" by (metis list.exhaust)
    then show ?thesis
    proof cases
      case 1
      then show ?thesis using assms unfolding b by simp
    next
      case (2 x)
      then show ?thesis using assms unfolding b by simp
    next
      case (3 x y zs)
      have "length ?N = 1 \<and> hd ?N = e" using assms unfolding b 3 list.case by (simp split: if_splits)
      then have "?N = [e]" by (cases ?N) auto
      then have "e \<in> set ?N" by simp
      then show ?thesis by simp
    qed
  qed
  then show ?thesis by (auto dest: in_set_takeD)
qed

lemma match_name_choice:
  assumes "rs_endpoint (match_name s P h c) = Some e" "length (filter (\<lambda>e. P e \<and> answers_to s h e) (endpoints s)) \<le> 25"
  shows "P e \<and> answers_to s h e \<and> e \<in> set (endpoints s)
    \<and> (\<forall>x \<in> set (endpoints s). P x \<and> answers_to s h x \<longrightarrow> x = e \<or> \<not> businessesLookAlike (business_name s x) c)"
proof -
  let ?C = "filter (\<lambda>e. P e \<and> answers_to s h e) (endpoints s)"
  let ?N = "filter (\<lambda>e. businessesLookAlike (business_name s e) c) ?C"
  have t: "take 25 ?C = ?C" using assms(2) by simp
  have b: "match_name s P h c = (case ?C of
           [] \<Rightarrow> \<lparr>rs_kind = NoMatch, rs_endpoint = None, rs_candidates = []\<rparr>
         | [e] \<Rightarrow> \<lparr>rs_kind = ByHostname, rs_endpoint = Some e, rs_candidates = ?C\<rparr>
         | _ \<Rightarrow> if c \<noteq> [] \<and> length ?N = 1 then \<lparr>rs_kind = ByHostnameAndClient, rs_endpoint = Some (hd ?N), rs_candidates = ?C\<rparr>
             else if c \<noteq> [] \<and> length ?N > 1 then \<lparr>rs_kind = Ambiguous, rs_endpoint = None, rs_candidates = ?N\<rparr>
             else \<lparr>rs_kind = Ambiguous, rs_endpoint = None, rs_candidates = ?C\<rparr>)"
    unfolding match_name_def Let_def t ..
  consider "?C = [e]" | "?N = [e]"
  proof -
    consider "?C = []" | x where "?C = [x]" | x y zs where "?C = x # y # zs" by (metis list.exhaust)
    then show ?thesis
    proof cases
      case 1
      then show ?thesis using assms(1) unfolding b by simp
    next
      case (2 x)
      then show ?thesis using assms(1) that(1) unfolding b by simp
    next
      case (3 x y zs)
      have "length ?N = 1 \<and> hd ?N = e"
        using assms(1) unfolding b 3 list.case by (simp split: if_splits)
      then have "?N = [e]" by (cases ?N) auto
      then show ?thesis by (rule that(2))
    qed
  qed
  then show ?thesis
  proof cases
    case 1
    then have "set ?C = {e}" by simp
    then show ?thesis by auto
  next
    case 2
    then have "set ?N = {e}" by simp
    then show ?thesis by auto
  qed
qed

text \<open>
  C19: The resolver never guesses: when it names a computer, either the actor sees it and its recorded agent id is the one that
  was sent, or it lies in the actor's scope (for a plain business user that is the whole business, seen or not; for a technician
  the assigned computers) and answers to the name that was sent, and, as long as at most 25 computers of the scope share that
  name, every other one belongs to a business whose name does not look like the client's.
\<close>

theorem resolver_never_guesses:
  assumes "resolve_agent now s actor q = Inr r" "rs_endpoint r = Some e"
    and "endpointVisibilityWhere now s actor None = Inr P" "without_or actor = Inr Q"
  shows "e \<in> set (endpoints s)
    \<and> (P e \<and> norm_text (tq_agentId q) \<noteq> [] \<and> has_alias s (TRMM_ALIAS_PREFIX @ norm_text (tq_agentId q)) e
      \<or> Q e \<and> answers_to s (norm_text (tq_hostname q)) e
        \<and> (length (filter (\<lambda>x. Q x \<and> answers_to s (norm_text (tq_hostname q)) x) (endpoints s)) \<le> 25 \<longrightarrow>
            (\<forall>x \<in> set (endpoints s). Q x \<and> answers_to s (norm_text (tq_hostname q)) x
              \<longrightarrow> x = e \<or> \<not> businessesLookAlike (business_name s x) (norm_text (tq_clientName q)))))"
proof -
  let ?a = "TRMM_ALIAS_PREFIX @ norm_text (tq_agentId q)"
  let ?f = "if norm_text (tq_agentId q) = [] then None else find_row (\<lambda>e. P e \<and> has_alias s ?a e) (endpoints s)"
  have r: "r = (case ?f of Some e \<Rightarrow> \<lparr>rs_kind = ByAgentId, rs_endpoint = Some e, rs_candidates = []\<rparr>
       | None \<Rightarrow> if norm_text (tq_hostname q) = [] then \<lparr>rs_kind = NoMatch, rs_endpoint = None, rs_candidates = []\<rparr>
           else match_name s Q (norm_text (tq_hostname q)) (norm_text (tq_clientName q)))"
    using assms(1,3,4) by (simp add: resolve_agent_Inr Let_def)
  show ?thesis
  proof (cases ?f)
    case None
    then have m: "rs_endpoint (match_name s Q (norm_text (tq_hostname q)) (norm_text (tq_clientName q))) = Some e"
      using r assms(2) by (simp split: if_splits)
    from match_name_candidate[OF m] match_name_choice[OF m] show ?thesis by blast
  next
    case (Some x)
    then have "x = e" using r assms(2) by simp
    with Some have "norm_text (tq_agentId q) \<noteq> []" "P e \<and> has_alias s ?a e" "e \<in> set (endpoints s)"
      by (auto split: if_splits dest: find_row_Some)
    then show ?thesis by blast
  qed
qed

text \<open>
  What is remembered is found: after a computer the actor sees was picked for an agent id, a query with that id (however
  it is padded) gives exactly that computer, whatever else it asks and whatever was remembered before.
\<close>

theorem remembered_agent_resolves:
  assumes "remember now actor aliasId i agentId s = (Inr True, s1)" "endpointVisibilityWhere now s actor None = Inr P"
    "e \<in> set (endpoints s)" "e_id e = i" "P e" "distinct (map e_id (endpoints s))"
    "norm_text (tq_agentId q) = js_trim agentId"
  shows "resolve_agent now s1 actor q = Inr \<lparr>rs_kind = ByAgentId, rs_endpoint = Some e, rs_candidates = []\<rparr>"
proof -
  let ?a = "TRMM_ALIAS_PREFIX @ js_trim agentId"
  let ?moved = "\<lambda>a. ea_alias a = ?a \<and> ea_endpointId a \<noteq> i \<and> list_ex (\<lambda>e. e_id e = ea_endpointId a \<and> P e) (endpoints s)"
  let ?kept = "delete_rows ?moved (endpointAliases s)"
  let ?new = "\<lparr>ea_id = aliasId, ea_endpointId = i, ea_alias = ?a, ea_isPrimary = False\<rparr>"
  obtain E where E: "assertEndpointInScope s actor i = Inr E"
    using assms(1) by (cases "assertEndpointInScope s actor i") (auto simp: remember_def)
  have ne: "?a \<noteq> TRMM_ALIAS_PREFIX" and s1: "s1 = s\<lparr>endpointAliases := if list_ex (\<lambda>a. ea_endpointId a = i \<and> ea_alias a = ?a) ?kept then ?kept else ?kept @ [?new]\<rparr>"
    using assms(1,2) E by (simp_all add: remember_def Let_def split: if_splits)
  then have n: "norm_text (tq_agentId q) \<noteq> []" using assms(7) by auto
  have al: "has_alias s1 ?a x \<longleftrightarrow> x = e" if "x \<in> set (endpoints s)" "P x" for x
  proof
    assume "has_alias s1 ?a x"
    then obtain a where a: "a \<in> set (endpointAliases s1)" "ea_endpointId a = e_id x" "ea_alias a = ?a"
      by (auto simp: has_alias_def list_ex_iff)
    have "e_id x = i"
    proof (rule ccontr)
      assume "e_id x \<noteq> i"
      with a that have "?moved a" by (auto simp: list_ex_iff)
      then have "a \<notin> set ?kept" by (simp add: delete_rows_def)
      moreover have "a \<noteq> ?new" using \<open>e_id x \<noteq> i\<close> a(2) by auto
      ultimately show False using a(1) unfolding s1 by (auto split: if_splits)
    qed
    then show "x = e" using that(1) assms(3,4,6) by (metis distinct_map inj_onD)
  next
    assume "x = e"
    then show "has_alias s1 ?a x" using assms(4) by (auto simp: s1 has_alias_def list_ex_iff)
  qed
  have vis: "endpointVisibilityWhere now s1 actor None = Inr P"
    using assms(2) unfolding s1 by (simp only: visibility_ignores_aliases)
  have ep: "endpoints s1 = endpoints s" by (simp add: s1)
  have "find_row (\<lambda>x. P x \<and> has_alias s1 ?a x) (endpoints s) = find_row (\<lambda>x. x = e) (endpoints s)"
    using al assms(5) by (intro find_row_cong) auto
  also have "\<dots> = Some e"
  proof (cases "find_row (\<lambda>x. x = e) (endpoints s)")
    case None
    then show ?thesis using assms(3) by (auto simp: find_row_def find_None_iff)
  qed (auto dest: find_row_Some)
  finally have f: "find_row (\<lambda>x. P x \<and> has_alias s1 ?a x) (endpoints s) = Some e" .
  obtain Q where "without_or actor = Inr Q" by (rule without_or_of_visible[OF assms(2)])
  then show ?thesis using vis n ep f by (simp add: resolve_agent_def Let_def assms(7))
qed

definition namesake :: "id \<Rightarrow> id \<Rightarrow> endpoint_row" where
  "namesake i b = shared_pc\<lparr>e_id := i, e_name := ''SERVER01'', e_customerId := Some b\<rparr>"

definition namesakes_db :: db where
  "namesakes_db = empty_db\<lparr>businesses := [(one_business ''b1'')\<lparr>c_name := ''Harbor Logistics Ltd.''\<rparr>, (one_business ''b2'')\<lparr>c_name := ''Acme Co''\<rparr>],
     endpoints := [namesake ''e1'' ''b1'', namesake ''e2'' ''b2'']\<rparr>"

abbreviation operator_actor :: actor where "operator_actor \<equiv> (plain_actor ''u1'' None None [])\<lparr>a_isPlatformAdmin := True\<rparr>"

definition harbor_query :: resolve_query where
  "harbor_query = \<lparr>tq_hostname = Some ''server01'', tq_clientName = Some ''Harbor-Logistics'', tq_agentId = Some '' A1 ''\<rparr>"

lemma operator_scope: "without_or operator_actor = Inr (\<lambda>e. True)"
  by (simp add: without_or_def isBusinessOwner_def resolveScope_def scope_where_def plain_actor_def)

lemma operator_sees: "endpointVisibilityWhere now s operator_actor None = Inr (\<lambda>e. True)"
  by (simp add: endpointVisibilityWhere_def isBusinessOwner_def resolveScope_def scope_where_def plain_actor_def)

theorem resolver_never_guesses_witness:
  "list_all (\<lambda>x. e_id x = ''e1'' \<or> \<not> businessesLookAlike (business_name namesakes_db x) ''Harbor-Logistics'') (endpoints namesakes_db)
    \<and> map_sum id (\<lambda>r. map_option e_id (rs_endpoint r)) (resolve_agent 0 namesakes_db operator_actor harbor_query) = Inr (Some ''e1'')"
proof -
  have w: "map_sum id (\<lambda>r. map_option e_id (rs_endpoint r)) (resolve_agent 0 namesakes_db operator_actor harbor_query) = Inr (Some ''e1'')"
    by code_simp
  then obtain r e where r: "resolve_agent 0 namesakes_db operator_actor harbor_query = Inr r" "rs_endpoint r = Some e" "e_id e = ''e1''"
    by (cases "resolve_agent 0 namesakes_db operator_actor harbor_query") auto
  have n: "norm_text (tq_hostname harbor_query) = ''server01''" "norm_text (tq_clientName harbor_query) = ''Harbor-Logistics''"
    "norm_text (tq_agentId harbor_query) = ''A1''" by code_simp+
  have l: "length (filter (\<lambda>x. True \<and> answers_to namesakes_db ''server01'' x) (endpoints namesakes_db)) \<le> 25" by code_simp
  from resolver_never_guesses[OF r(1,2) operator_sees operator_scope, unfolded n] l
  have c: "has_alias namesakes_db (TRMM_ALIAS_PREFIX @ ''A1'') e
      \<or> (\<forall>x \<in> set (endpoints namesakes_db). answers_to namesakes_db ''server01'' x
          \<longrightarrow> x = e \<or> \<not> businessesLookAlike (business_name namesakes_db x) ''Harbor-Logistics'')" by blast
  have "\<not> has_alias namesakes_db (TRMM_ALIAS_PREFIX @ ''A1'') e" by (simp add: has_alias_def namesakes_db_def empty_db_def)
  moreover have "list_all (answers_to namesakes_db ''server01'') (endpoints namesakes_db)" by code_simp
  ultimately have "\<forall>x \<in> set (endpoints namesakes_db). x = e \<or> \<not> businessesLookAlike (business_name namesakes_db x) ''Harbor-Logistics''"
    using c by (auto simp: list_all_iff)
  with w r(3) show ?thesis by (auto simp: list_all_iff)
qed

theorem remembered_agent_resolves_witness:
  "\<exists>s1. remember 0 operator_actor ''a1'' ''e2'' ''A1'' namesakes_db = (Inr True, s1)
    \<and> resolve_agent 0 s1 operator_actor harbor_query = Inr \<lparr>rs_kind = ByAgentId, rs_endpoint = Some (namesake ''e2'' ''b2''), rs_candidates = []\<rparr>"
proof -
  have "fst (remember 0 operator_actor ''a1'' ''e2'' ''A1'' namesakes_db) = Inr True" by code_simp
  then obtain s1 where m: "remember 0 operator_actor ''a1'' ''e2'' ''A1'' namesakes_db = (Inr True, s1)" by (metis prod.collapse)
  have e: "namesake ''e2'' ''b2'' \<in> set (endpoints namesakes_db)" "e_id (namesake ''e2'' ''b2'') = ''e2''" "distinct (map e_id (endpoints namesakes_db))"
    by (simp_all add: namesakes_db_def namesake_def)
  have n: "norm_text (tq_agentId harbor_query) = js_trim ''A1''" by code_simp
  have "resolve_agent 0 s1 operator_actor harbor_query = Inr \<lparr>rs_kind = ByAgentId, rs_endpoint = Some (namesake ''e2'' ''b2''), rs_candidates = []\<rparr>"
    by (rule remembered_agent_resolves[OF m operator_sees e(1,2) _ e(3) n]) simp
  with m show ?thesis by blast
qed

text \<open>
  A computer that is alone with its name among those the actor sees is opened whatever the client's name says, also when
  that name belongs to another business.
\<close>

theorem lone_hostname_ignores_client:
  "map_sum id (\<lambda>r. (rs_kind r, map_option e_id (rs_endpoint r)))
     (resolve_agent 0 (namesakes_db\<lparr>endpoints := [namesake ''e2'' ''b2'']\<rparr>) operator_actor harbor_query) = Inr (ByHostname, Some ''e2'')
   \<and> \<not> businessesLookAlike (Some ''Acme Co'') ''Harbor-Logistics''"
  by (rule conjI; code_simp)

text \<open>
  The query by name leaves out the grants: a member without a grant or an assignment, for whom the computer does not exist
  elsewhere, gets it from the resolver, name, business and online state included, as soon as its name is known.
\<close>

definition hidden_pc :: endpoint_row where
  "hidden_pc = (namesake ''e1'' ''b1'')\<lparr>e_accessMode := ASSIGNED_USERS\<rparr>"

theorem name_lookup_finds_hidden_computer:
  "(case endpointVisibilityWhere 0 (namesakes_db\<lparr>endpoints := [hidden_pc]\<rparr>) (plain_actor ''u1'' (Some ''b1'') (Some BUSINESS_USER) [CAP_COMPUTERS_VIEW]) None of
      Inl _ \<Rightarrow> False | Inr P \<Rightarrow> \<not> P hidden_pc)
   \<and> map_sum id (\<lambda>r. (rs_kind r, map_option e_id (rs_endpoint r)))
     (trmmResolve 0 (namesakes_db\<lparr>endpoints := [hidden_pc]\<rparr>) (plain_actor ''u1'' (Some ''b1'') (Some BUSINESS_USER) [CAP_COMPUTERS_VIEW]) harbor_query)
     = Inr (ByHostname, Some ''e1'')"
  by (rule conjI; code_simp)

text \<open>The recorded id also opens an archived computer, which the name no longer does.\<close>

theorem archived_found_by_agent:
  "map_sum id (\<lambda>r. (rs_kind r, map_option e_id (rs_endpoint r)))
     (resolve_agent 0 (namesakes_db\<lparr>endpoints := [(namesake ''e1'' ''b1'')\<lparr>e_status := EP_ARCHIVED\<rparr>],
        endpointAliases := [\<lparr>ea_id = ''a1'', ea_endpointId = ''e1'', ea_alias = ''trmm:A1'', ea_isPrimary = False\<rparr>]\<rparr>) operator_actor harbor_query)
   = Inr (ByAgentId, Some ''e1'')"
  by code_simp

text \<open>
  Only the first 25 computers of a name are compared, so the client's name can look unique although a later computer
  belongs to a business that looks alike too.
\<close>

theorem later_namesake_ignored:
  assumes "list_all (answers_to s h) (a # b # cs)" "\<not> businessesLookAlike (business_name s b) c" "c \<noteq> []"
    "businessesLookAlike (business_name s a) c" "businessesLookAlike (business_name s z) c" "endpoints s = a # replicate 24 b @ [z]"
  shows "rs_endpoint (match_name s (\<lambda>_. True) h c) = Some a"
proof -
  have f: "filter (answers_to s h) (a # replicate 24 b @ [z]) = a # replicate 24 b @ filter (answers_to s h) [z]"
    using assms(1) by (simp add: filter_replicate)
  have t: "take 25 (filter (\<lambda>e. True \<and> answers_to s h e) (endpoints s)) = a # replicate 24 b"
    unfolding simp_thms assms(6) f by simp
  have n: "filter (\<lambda>e. businessesLookAlike (business_name s e) c) (a # replicate 24 b) = [a]"
    using assms(2,4) by (simp add: filter_replicate)
  have r: "replicate 24 b = b # replicate 23 b" by (simp add: numeral_eq_Suc)
  show ?thesis using assms(3) unfolding match_name_def Let_def t n unfolding r by simp
qed

end
