(* ===== verification/Console.thy ===== *)
theory Console
  imports Sso RustdeskConfig TechnicianAccess SessionState Versions People
begin

text \<open>
  What the web console (\<open>apps/web\<close>) decides by itself: which paths need a session (\<open>middleware.ts\<close>), where a
  sign-in leads (\<open>login/page.tsx\<close>, \<open>mfa/page.tsx\<close>, the redirects of \<open>sso/sso.controller.ts\<close>), the status
  of an assignment (\<open>admin/technicians/page.tsx\<close>), sessions and their durations, versions
  (\<open>rustdesk-updates.tsx\<close>), and the words for failures of single sign-on. The layout of the pages is not modelled. The URL parser of the browser and its time-zone database are
  arguments.
\<close>

section \<open>The gate of the console\<close>

definition PUBLIC_PREFIXES :: "string list" where
  "PUBLIC_PREFIXES = [''/login'', ''/mfa'', ''/api/'', ''/_next/'', ''/favicon.ico'', ''/support/'']"

definition PUBLIC_EXACT :: "string list" where "PUBLIC_EXACT = [''/quick'', ''/download'']"

datatype gate_answer = GateNext | ToLogin string

definition console_gate :: "string \<Rightarrow> string \<Rightarrow> string option \<Rightarrow> gate_answer" where
  "console_gate pathname query_part token =
     (if pathname \<in> set PUBLIC_EXACT \<or> list_ex (\<lambda>p. starts_with p pathname) PUBLIC_PREFIXES then GateNext
      else if \<not> truthy token then ToLogin (pathname @ query_part) else GateNext)"

text \<open>An answer 401 leads to the sign-in page, except on the pages of the sign-in itself.\<close>

definition on_unauthorized :: "int \<Rightarrow> string \<Rightarrow> string \<Rightarrow> string option" where
  "on_unauthorized status pathname query_part =
     (if status = 401 \<and> pathname \<notin> set [''/login'', ''/mfa''] then Some (pathname @ query_part) else None)"

section \<open>Where a sign-in leads\<close>

record resolved_url =
  ru_origin :: string
  ru_pathname :: string
  ru_search :: string
  ru_hash :: string

definition backslash :: char where "backslash = CHR 0x5C"
definition control_char :: "char \<Rightarrow> bool" where "control_char c = ((of_char c :: nat) \<le> 0x1f \<or> (of_char c :: nat) = 0x7f)"

definition double_slash :: "string \<Rightarrow> bool" where
  "double_slash p = (case p of a # b # _ \<Rightarrow> a = CHR ''/'' \<and> (b = CHR ''/'' \<or> b = backslash) | _ \<Rightarrow> False)"

definition DASHBOARD :: string where "DASHBOARD = ''/dashboard''"

text \<open>\<open>resolve_url\<close> resolves a reference against the origin of the page.\<close>

definition safe_landing :: "(string \<Rightarrow> resolved_url option) \<Rightarrow> string \<Rightarrow> string \<Rightarrow> string" where
  "safe_landing resolve_url origin requested =
     (if \<not> starts_with ''/'' requested \<or> double_slash requested \<or> backslash \<in> set requested then DASHBOARD
      else if list_ex control_char requested then DASHBOARD
      else (case resolve_url requested of
          None \<Rightarrow> DASHBOARD
        | Some u \<Rightarrow> if ru_origin u \<noteq> origin then DASHBOARD
            else if double_slash (ru_pathname u) then DASHBOARD
            else ru_pathname u @ ru_search u @ ru_hash u))"

text \<open>After the password or the passkey: the second factor first, without the landing page; and after it the dashboard.\<close>

definition after_sign_in :: "(string \<Rightarrow> resolved_url option) \<Rightarrow> string \<Rightarrow> string option \<Rightarrow> bool \<Rightarrow> string" where
  "after_sign_in resolve_url origin requested requiresMfa =
     (if requiresMfa then ''/mfa'' else safe_landing resolve_url origin (given_or requested []))"

definition after_mfa :: string where "after_mfa = ''/dashboard''"

text \<open>The redirects of the server at the end of a round trip of single sign-on.\<close>

definition sso_redirect :: "(string \<Rightarrow> string) \<Rightarrow> (sso_failure + sso_answer) \<Rightarrow> string" where
  "sso_redirect encode r = (case r of
     Inl (Sso code linkFlow) \<Rightarrow> (if linkFlow then ''/account'' else ''/login'') @ ''?sso_error='' @ encode code
   | Inl (Sso_other e) \<Rightarrow> ''/login?sso_error='' @ encode ''failed''
   | Inr (Sso_linked returnTo) \<Rightarrow> safeReturnTo (Some returnTo) @ (if CHR ''?'' \<in> set returnTo then ''&'' else ''?'') @ ''sso=linked''
   | Inr (Sso_session r returnTo) \<Rightarrow> (case r of
         NeedsMfa _ _ \<Rightarrow> ''/mfa''
       | SignedIn _ \<Rightarrow> safeReturnTo (Some returnTo)))"

section \<open>Words for failures of single sign-on\<close>

definition SSO_MESSAGE_CODES :: "string list" where
  "SSO_MESSAGE_CODES = [''unavailable'', ''state_mismatch'', ''expired'', ''disabled'', ''provider_error'', ''exchange_failed'',
     ''not_linked'', ''email_unverified'', ''email_in_use'', ''provisioned_no_access'', ''account'', ''linked_elsewhere'',
     ''already_linked'', ''failed'']"

text \<open>
  The code whose message is shown. A name every object inherits finds a function instead of a text.
\<close>

datatype sso_words = NoWords | Words string | NotText

definition ssoErrorMessage :: "string option \<Rightarrow> sso_words" where
  "ssoErrorMessage code = (if \<not> truthy code then NoWords
     else if the code \<in> set SSO_MESSAGE_CODES then Words (the code)
     else if the code \<in> set inherited_names then NotText else Words ''failed'')"

section \<open>Assignments of technicians\<close>

definition DAY_NAMES :: "string list" where
  "DAY_NAMES = [''Sun'', ''Mon'', ''Tue'', ''Wed'', ''Thu'', ''Fri'', ''Sat'']"

definition day_index :: "string \<Rightarrow> int" where
  "day_index d = (case map_of (zip DAY_NAMES [0..<7]) d of None \<Rightarrow> -1 | Some i \<Rightarrow> int i)"

text \<open>\<open>None\<close> is NaN: every comparison with it is false.\<close>

definition to_min :: "string \<Rightarrow> int option" where
  "to_min hhmm = (case map js_parseInt (split_on (CHR '':'') hhmm) of
       Some h # Some m # _ \<Rightarrow> Some (h * 60 + m)
     | _ \<Rightarrow> None)"

definition console_window :: "int \<Rightarrow> int \<Rightarrow> schedule_window \<Rightarrow> bool" where
  "console_window day minutes w =
     (let yesterday = (day + 6) mod 7; a = to_min (sw_start w); b = to_min (sw_end w);
          from_start = (case a of None \<Rightarrow> False | Some x \<Rightarrow> x \<le> minutes);
          before_end = (case b of None \<Rightarrow> False | Some y \<Rightarrow> minutes < y)
      in if (case (a, b) of (Some x, Some y) \<Rightarrow> x < y | _ \<Rightarrow> False) then day \<in> set (sw_days w) \<and> from_start \<and> before_end
         else (day \<in> set (sw_days w) \<and> from_start) \<or> (yesterday \<in> set (sw_days w) \<and> before_end))"

text \<open>A zone the formatter refuses throws, which is caught.\<close>

definition insideSchedule :: "zone_db \<Rightarrow> access_schedule option \<Rightarrow> time \<Rightarrow> bool" where
  "insideSchedule tz s now = (case s of
     None \<Rightarrow> True
   | Some sc \<Rightarrow> (case tz (as_timeZone sc) of
       None \<Rightarrow> False
     | Some fmt \<Rightarrow> (case fmt now of (weekday, h, minute) \<Rightarrow>
         list_ex (console_window (day_index weekday) ((h mod 24) * 60 + minute)) (as_windows sc))))"

text \<open>The stored schedule as the console reads it out of the answer.\<close>

definition read_window :: "json \<Rightarrow> schedule_window" where
  "read_window w = \<lparr>sw_days = map json_int (json_elems (json_get w ''days'')), sw_start = json_str (json_get w ''start''),
     sw_end = json_str (json_get w ''end'')\<rparr>"

definition read_schedule :: "json \<Rightarrow> access_schedule option" where
  "read_schedule j = (if json_nullish j then None
     else Some \<lparr>as_timeZone = json_str (json_get j ''timeZone''), as_windows = map read_window (json_elems (json_get j ''windows''))\<rparr>)"

datatype assignment_label = L_revoked | L_awaiting | L_denied | L_not_started | L_expired | L_outside | L_active

definition assignmentStatus :: "zone_db \<Rightarrow> time \<Rightarrow> assignment_row \<Rightarrow> assignment_label" where
  "assignmentStatus tz now a =
     (if ta_revokedAt a \<noteq> None then L_revoked
      else if ta_approvalStatus a = AP_PENDING then L_awaiting
      else if ta_approvalStatus a = AP_DENIED then L_denied
      else if (case ta_startsAt a of Some t \<Rightarrow> now < t | None \<Rightarrow> False) then L_not_started
      else if (case ta_expiresAt a of Some t \<Rightarrow> t \<le> now | None \<Rightarrow> False) then L_expired
      else if \<not> insideSchedule tz (read_schedule (ta_schedule a)) now then L_outside
      else L_active)"

text \<open>What the form checks before it saves a schedule.\<close>

definition two_digits_colon :: "string \<Rightarrow> bool" where
  "two_digits_colon t = (case t of [a, b, c, d, e] \<Rightarrow> is_digit a \<and> is_digit b \<and> c = CHR '':'' \<and> is_digit d \<and> is_digit e | _ \<Rightarrow> False)"

definition window_problem :: "schedule_window \<Rightarrow> bool" where
  "window_problem w = (sw_days w = [] \<or> \<not> two_digits_colon (sw_start w) \<or> \<not> two_digits_colon (sw_end w) \<or> sw_start w = sw_end w)"

definition scheduleProblem :: "zone_db \<Rightarrow> access_schedule \<Rightarrow> bool" where
  "scheduleProblem tz s = (as_timeZone s = [] \<or> tz (as_timeZone s) = None \<or> as_windows s = [] \<or> list_ex window_problem (as_windows s))"

section \<open>Sessions\<close>

fun session_status_name :: "session_status \<Rightarrow> string" where
  "session_status_name S_PENDING = ''PENDING''"
| "session_status_name LAUNCH_REQUESTED = ''LAUNCH_REQUESTED''"
| "session_status_name LAUNCHER_ACKNOWLEDGED = ''LAUNCHER_ACKNOWLEDGED''"
| "session_status_name CLIENT_OPENED = ''CLIENT_OPENED''"
| "session_status_name SESSION_STARTED = ''SESSION_STARTED''"
| "session_status_name SESSION_COMPLETED = ''SESSION_COMPLETED''"
| "session_status_name S_FAILED = ''FAILED''"
| "session_status_name S_CANCELED = ''CANCELED''"
| "session_status_name STATUS_UNKNOWN = ''STATUS_UNKNOWN''"

text \<open>The words of the server (\<open>STATUS_LABEL\<close>) and those of the console.\<close>

fun STATUS_LABEL :: "session_status \<Rightarrow> string" where
  "STATUS_LABEL S_PENDING = ''Recorded''"
| "STATUS_LABEL LAUNCH_REQUESTED = ''Launch requested''"
| "STATUS_LABEL LAUNCHER_ACKNOWLEDGED = ''Launcher acknowledged''"
| "STATUS_LABEL CLIENT_OPENED = ''Client opened''"
| "STATUS_LABEL SESSION_STARTED = ''Connection confirmed''"
| "STATUS_LABEL SESSION_COMPLETED = ''Disconnected''"
| "STATUS_LABEL S_FAILED = ''Failed''"
| "STATUS_LABEL S_CANCELED = ''Canceled''"
| "STATUS_LABEL STATUS_UNKNOWN = ''Status unknown''"

definition SESSION_STATUS_LABEL :: "(string \<times> string) list" where
  "SESSION_STATUS_LABEL = [(''PENDING'', ''Recorded''), (''LAUNCH_REQUESTED'', ''Launch requested''),
     (''LAUNCHER_ACKNOWLEDGED'', ''Launcher acknowledged''), (''CLIENT_OPENED'', ''Client opened''),
     (''SESSION_STARTED'', ''Connection confirmed''), (''SESSION_COMPLETED'', ''Disconnected''), (''FAILED'', ''Failed''),
     (''CANCELED'', ''Canceled''), (''STATUS_UNKNOWN'', ''Status unknown'')]"

definition status_words :: "string \<Rightarrow> string" where
  "status_words status = (case map_of SESSION_STATUS_LABEL (map upper status) of None \<Rightarrow> status | Some w \<Rightarrow> w)"

definition TERMINAL_SESSION_STATUSES :: "string list" where
  "TERMINAL_SESSION_STATUSES = [''SESSION_COMPLETED'', ''FAILED'', ''CANCELED'', ''STATUS_UNKNOWN'']"

definition isTerminalSessionStatus :: "string option \<Rightarrow> bool" where
  "isTerminalSessionStatus status = (truthy status \<and> map upper (the status) \<in> set TERMINAL_SESSION_STATUSES)"

text \<open>A duration is shown only when it was measured; otherwise the reason is a key of the table, or that the session is open.\<close>

datatype duration_view = RealDuration int | StillOpen | WhyUnknown string

definition durationInfo :: "session_row \<Rightarrow> duration_view" where
  "durationInfo s = (case (ss_timingQuality s = ''MEASURED'', ss_duration s) of
     (True, Some d) \<Rightarrow> RealDuration d
   | _ \<Rightarrow> if \<not> isTerminalSessionStatus (Some (session_status_name (ss_status s))) then StillOpen
       else WhyUnknown (if ss_timingQuality s \<in> set [''REPORTED'', ''INFERRED'', ''LEGACY''] then ss_timingQuality s else ''UNKNOWN''))"

section \<open>Versions\<close>

text \<open>The loop by index, with \<open>?? 0\<close> past the end of either list.\<close>

definition at_or_zero :: "int list \<Rightarrow> nat \<Rightarrow> int" where "at_or_zero xs i = (if i < length xs then xs ! i else 0)"

function cmp_from :: "nat \<Rightarrow> int list \<Rightarrow> int list \<Rightarrow> int" where
  "cmp_from i pa pb =
     (if i < max (length pa) (length pb)
      then let d = at_or_zero pa i - at_or_zero pb i in if d \<noteq> 0 then (if d < 0 then -1 else 1) else cmp_from (Suc i) pa pb
      else 0)"
  by auto

termination cmp_from
  by (relation "measure (\<lambda>(i, pa, pb). max (length pa) (length pb) - i)") auto

declare cmp_from.simps [simp del]

definition console_cmp :: "string \<Rightarrow> string \<Rightarrow> int" where
  "console_cmp a b = cmp_from 0 (map segment_val (split_on (CHR ''.'') (strip_v a))) (map segment_val (split_on (CHR ''.'') (strip_v b)))"

end
