(* ===== verification/ConsoleProofs.thy ===== *)
theory ConsoleProofs
  imports Console
begin

text \<open>
  What the console decides agrees with what the server decides: the status of an assignment, the statuses of sessions,
  the order of versions, and the codes of single sign-on. A landing page never leaves the site.
\<close>

section \<open>Assignments\<close>

definition weekday_db :: "zone_db \<Rightarrow> bool" where
  "weekday_db tz \<longleftrightarrow> (\<forall>z fmt t. tz z = Some fmt \<longrightarrow> fst (fmt t) \<in> set DAY_NAMES)"

lemma day_index_DAY_INDEX: "d \<in> set DAY_NAMES \<Longrightarrow> Some (day_index d) = map_of DAY_INDEX d"
  by (auto simp: DAY_NAMES_def day_index_def DAY_INDEX_def upt_conv_Cons)

lemma to_min_toMinutes: "HHMM t \<Longrightarrow> to_min t = Some (toMinutes t)"
proof -
  assume "HHMM t"
  then obtain a b d e where s: "t = [a, b, CHR '':'', d, e]"
    and dig: "is_digit a" "is_digit b" "is_digit d" "is_digit e" by (rule HHMM_shape)
  have "split_on (CHR '':'') t = [[a, b], [d, e]]"
    using digit_not_sign[OF dig(1)] digit_not_sign[OF dig(2)] digit_not_sign[OF dig(3)] digit_not_sign[OF dig(4)]
    by (simp add: s)
  then show ?thesis using dig by (simp add: to_min_def toMinutes_def parseInt_two)
qed

lemma console_window_agrees:
  assumes "HHMM (sw_start w)" "HHMM (sw_end w)"
  shows "console_window day minutes w = window_open day minutes w"
  using assms by (simp add: console_window_def window_open_def to_min_toMinutes Let_def)

text \<open>The console reads the days as they are stored, the server without duplicates and sorted.\<close>

lemma read_window_agrees:
  assumes "parse_window j = Inr w"
  shows "console_window day minutes (read_window j) = window_open day minutes w"
proof -
  from assms obtain a b where hh: "HHMM a" "HHMM b"
    and st: "json_get j ''start'' = JStr a" "json_get j ''end'' = JStr b"
    and w: "w = \<lparr>sw_days = sort (js_set (map json_int (json_elems (json_get j ''days'')))), sw_start = a, sw_end = b\<rparr>"
    by (auto simp: parse_window_def Let_def split: if_splits json.splits)
  have "console_window day minutes (read_window j) = window_open day minutes (read_window j)"
    by (rule console_window_agrees) (simp_all add: read_window_def st hh)
  also have "\<dots> = window_open day minutes w"
    by (simp add: window_open_def read_window_def w st)
  finally show ?thesis .
qed

lemma read_windows_agree:
  "parse_windows js = Inr ws \<Longrightarrow>
   list_ex (console_window day minutes) (map read_window js) = list_ex (window_open day minutes) ws"
  by (induction js arbitrary: ws) (auto simp: read_window_agrees split: sum.splits)

lemma insideSchedule_agrees:
  assumes "weekday_db tz" "parseSchedule tz j = Inr v"
  shows "insideSchedule tz (read_schedule j) now = storedScheduleAllows tz j now"
proof (cases "json_nullish j")
  case True
  then show ?thesis by (simp add: insideSchedule_def read_schedule_def storedScheduleAllows_def)
next
  case False
  with assms(2) obtain ws where z: "isValidTimeZone tz (json_get j ''timeZone'')"
    and p: "parse_windows (json_elems (json_get j ''windows'')) = Inr ws"
    and v: "v = Some \<lparr>as_timeZone = json_str (json_get j ''timeZone''), as_windows = ws\<rparr>"
    by (auto simp: parseSchedule_def Let_def split: if_splits sum.splits)
  from z obtain zone fmt where zone: "json_str (json_get j ''timeZone'') = zone" "tz zone = Some fmt"
    by (cases "json_get j ''timeZone''") (auto simp: isValidTimeZone_def)
  obtain weekday h minute where f: "fmt now = (weekday, h, minute)" by (cases "fmt now")
  with assms(1) zone(2) have "weekday \<in> set DAY_NAMES" by (metis weekday_db_def fst_conv)
  then have d: "map_of DAY_INDEX weekday = Some (day_index weekday)" by (simp add: day_index_DAY_INDEX)
  show ?thesis
    using False read_windows_agree[OF p]
    by (simp add: insideSchedule_def read_schedule_def storedScheduleAllows_def assms(2) v isWithinSchedule_def
        localClock_def zone f d)
qed

lemma label_active_iff:
  "assignmentStatus tz now a = L_active \<longleftrightarrow> ta_revokedAt a = None \<and> ta_approvalStatus a \<notin> {AP_PENDING, AP_DENIED}
     \<and> isWithinDates (ta_startsAt a) (ta_expiresAt a) now \<and> insideSchedule tz (read_schedule (ta_schedule a)) now"
  by (auto simp: assignmentStatus_def isWithinDates_def)

text \<open>
  C18: The status the administrator sees of an assignment is the one the server acts on as far as the assignment goes: for every
  schedule the server accepts, also across midnight, with duplicate or unsorted days, in every zone whose clock names the
  weekdays, it says ``Active now'' exactly when the assignment is not revoked and the server would find no reason against it if
  its business were open. A business that is not open, against which the server always has a reason, the page does not look at.
\<close>

theorem console_agrees_on_assignments:
  assumes "weekday_db tz" "parseSchedule tz (ta_schedule a) = Inr v"
  shows "(assignmentStatus tz now a = L_active
       \<longleftrightarrow> ta_revokedAt a = None \<and> inactive_because tz a (c\<lparr>c_isActive := True, c_isArchived := False\<rparr>) now = None)
    \<and> (inactive_because tz a c now = None
       \<longleftrightarrow> c_isActive c \<and> \<not> c_isArchived c \<and> inactive_because tz a (c\<lparr>c_isActive := True, c_isArchived := False\<rparr>) now = None)"
proof -
  have "inactive_because tz a (c\<lparr>c_isActive := True, c_isArchived := False\<rparr>) now = None \<longleftrightarrow> ta_approvalStatus a \<notin> {AP_PENDING, AP_DENIED}
     \<and> isWithinDates (ta_startsAt a) (ta_expiresAt a) now \<and> storedScheduleAllows tz (ta_schedule a) now"
    by (auto simp: inactive_because_def isWithinDates_def)
  moreover have "inactive_because tz a c now = None
     \<longleftrightarrow> c_isActive c \<and> \<not> c_isArchived c \<and> inactive_because tz a (c\<lparr>c_isActive := True, c_isArchived := False\<rparr>) now = None"
    by (auto simp: inactive_because_def)
  ultimately show ?thesis using insideSchedule_agrees[OF assms(1,2)] by (simp add: label_active_iff)
qed

text \<open>A clock that stands at Sunday 01:30, and a window of Saturday night whose days are stored twice.\<close>

definition sunday_night :: zone_db where
  "sunday_night z = (if z = ''UTC'' then Some (\<lambda>_. (''Sun'', 1, 30)) else None)"

definition night_json :: json where
  "night_json = JObj [(''timeZone'', JStr ''UTC''), (''windows'', JArr [JObj [(''days'', JArr [JNum 6, JNum 2, JNum 6]),
     (''start'', JStr ''22:00''), (''end'', JStr ''06:00'')]])]"

theorem console_agrees_on_assignments_witness:
  "assignmentStatus sunday_night 5 (one_assignment\<lparr>ta_schedule := night_json\<rparr>) = L_active
   \<and> inactive_because sunday_night (one_assignment\<lparr>ta_schedule := night_json\<rparr>) (one_business ''b1'') 5 = None"
proof -
  let ?a = "one_assignment\<lparr>ta_schedule := night_json\<rparr>"
  have tz: "weekday_db sunday_night" by (simp add: weekday_db_def sunday_night_def DAY_NAMES_def)
  have p: "parseSchedule sunday_night (ta_schedule ?a)
      = Inr (Some \<lparr>as_timeZone = ''UTC'', as_windows = [\<lparr>sw_days = [2, 6], sw_start = ''22:00'', sw_end = ''06:00''\<rparr>]\<rparr>)"
    by code_simp
  have b: "c_isActive (one_business ''b1'')" "\<not> c_isArchived (one_business ''b1'')" by (simp_all add: one_business_def)
  have l: "assignmentStatus sunday_night 5 ?a = L_active" by code_simp
  with console_agrees_on_assignments[OF tz p, of 5 "one_business ''b1''"] b show ?thesis by blast
qed

text \<open>The page says ``Active now'' of an assignment to a business that is disabled, which the server refuses.\<close>

theorem console_shows_disabled_business_active:
  "assignmentStatus sunday_night 5 (one_assignment\<lparr>ta_schedule := night_json\<rparr>) = L_active
   \<and> inactive_because sunday_night (one_assignment\<lparr>ta_schedule := night_json\<rparr>) ((one_business ''b1'')\<lparr>c_isActive := False\<rparr>) 5
     = Some inactive_reason.business_disabled"
  by (rule conjI; code_simp)

text \<open>The form saves a schedule whose times the server refuses, \<open>24:00\<close> for one; every schedule of the server passes the form.\<close>

lemma server_schedule_passes_form:
  assumes "wf_schedule tz sc" shows "\<not> scheduleProblem tz sc"
proof -
  have two: "two_digits_colon t" if "HHMM t" for t
    using that by (rule HHMM_shape) (simp add: two_digits_colon_def)
  from assms show ?thesis
    by (auto simp: wf_schedule_def scheduleProblem_def isValidTimeZone_def list_ex_iff list_all_iff wf_window_def
        window_problem_def two)
qed

lemma form_lets_24_hours_pass:
  "\<not> window_problem \<lparr>sw_days = [1], sw_start = ''08:00'', sw_end = ''24:00''\<rparr>
   \<and> parse_window (window_json \<lparr>sw_days = [1], sw_start = ''08:00'', sw_end = ''24:00''\<rparr>)
     = Inl ''start and end must be HH:MM (24-hour)''"
  by (rule conjI; code_simp)

section \<open>Sessions and versions\<close>

theorem console_statuses_agree:
  "status_words (session_status_name st) = STATUS_LABEL st
   \<and> (isTerminalSessionStatus (Some (session_status_name st)) \<longleftrightarrow> st \<in> set TERMINAL)"
  by (cases st; simp only:; code_simp)

lemma at_or_zero_seg: "at_or_zero xs i = seg xs i"
  by (simp add: at_or_zero_def seg_def)

lemma cmp_from_Suc:
  "cmp_from (Suc i) (x # xs) (y # ys) = cmp_from i xs ys"
  "cmp_from (Suc i) (x # xs) [] = cmp_from i xs []"
  "cmp_from (Suc i) [] (y # ys) = cmp_from i [] ys"
proof -
  show "cmp_from (Suc i) (x # xs) (y # ys) = cmp_from i xs ys"
  proof (induction i xs ys rule: cmp_from.induct)
    case (1 i pa pb)
    then show ?case
      by (subst (1 2) cmp_from.simps) (simp add: at_or_zero_seg Let_def)
  qed
  show "cmp_from (Suc i) (x # xs) [] = cmp_from i xs []"
  proof (induction "length xs - i" arbitrary: i)
    case 0
    then show ?case by (subst (1 2) cmp_from.simps) simp
  next
    case (Suc n)
    then show ?case by (subst (1 2) cmp_from.simps) (simp add: at_or_zero_seg Let_def)
  qed
  show "cmp_from (Suc i) [] (y # ys) = cmp_from i [] ys"
  proof (induction "length ys - i" arbitrary: i)
    case 0
    then show ?case by (subst (1 2) cmp_from.simps) simp
  next
    case (Suc n)
    then show ?case by (subst (1 2) cmp_from.simps) (simp add: at_or_zero_seg Let_def)
  qed
qed

lemma cmp_from_segments: "cmp_from 0 xs ys = cmp_segments xs ys"
proof (induction xs ys rule: cmp_segments.induct)
  case 1
  then show ?case by (subst cmp_from.simps) simp
next
  case (2 x xs)
  then show ?case by (subst cmp_from.simps) (simp add: at_or_zero_seg cmp_from_Suc Let_def)
next
  case (3 y ys)
  then show ?case by (subst cmp_from.simps) (simp add: at_or_zero_seg cmp_from_Suc Let_def)
next
  case (4 x xs y ys)
  then show ?case by (subst cmp_from.simps) (simp add: at_or_zero_seg cmp_from_Suc Let_def)
qed

text \<open>The order of versions on the page is the order of the server.\<close>

theorem console_versions_agree: "console_cmp a b = compareVersions a b"
  by (simp add: console_cmp_def compareVersions_def parse_version_def cmp_from_segments)

section \<open>The gate and the landing page\<close>

theorem gate_closed_without_token:
  assumes "pathname \<notin> set PUBLIC_EXACT" "\<not> list_ex (\<lambda>p. starts_with p pathname) PUBLIC_PREFIXES" "\<not> truthy token"
  shows "console_gate pathname query_part token = ToLogin (pathname @ query_part)"
  using assms by (simp add: console_gate_def)

text \<open>
  A landing page stays on the site: it is a path that starts with one slash, followed by neither another slash nor a
  backslash, however the parser of the browser resolves the reference.
\<close>

theorem landing_stays_on_site:
  assumes "\<And>u. resolve_url requested = Some u \<Longrightarrow> starts_with ''/'' (ru_pathname u)"
    "\<And>u. resolve_url requested = Some u \<Longrightarrow> ru_search u = [] \<or> starts_with ''?'' (ru_search u)"
    "\<And>u. resolve_url requested = Some u \<Longrightarrow> ru_hash u = [] \<or> starts_with ''#'' (ru_hash u)"
  shows "starts_with ''/'' (safe_landing resolve_url origin requested) \<and> \<not> double_slash (safe_landing resolve_url origin requested)"
proof -
  have d: "starts_with ''/'' DASHBOARD \<and> \<not> double_slash DASHBOARD" by code_simp
  have u: "starts_with ''/'' (ru_pathname u @ ru_search u @ ru_hash u) \<and> \<not> double_slash (ru_pathname u @ ru_search u @ ru_hash u)"
    if "resolve_url requested = Some u" "\<not> double_slash (ru_pathname u)" for u
  proof -
    note path = assms(1)[OF that(1)]
    obtain p where p: "ru_pathname u = CHR ''/'' # p"
      using path by (cases "ru_pathname u") auto
    show ?thesis
    proof (cases p)
      case Nil
      have "ru_search u = [] \<or> hd (ru_search u) = CHR ''?'' \<and> ru_search u \<noteq> []"
        using assms(2)[OF that(1)] by (cases "ru_search u") auto
      moreover have "ru_hash u = [] \<or> hd (ru_hash u) = CHR ''#'' \<and> ru_hash u \<noteq> []"
        using assms(3)[OF that(1)] by (cases "ru_hash u") auto
      ultimately show ?thesis
        by (cases "ru_search u"; cases "ru_hash u") (auto simp: p Nil double_slash_def backslash_def)
    next
      case (Cons a q)
      then show ?thesis using that(2) by (simp add: p double_slash_def)
    qed
  qed
  show ?thesis
    using d u unfolding safe_landing_def by (simp split: option.split)
qed

text \<open>
  The page the user asked for is dropped when a second factor is needed: after the password and after single sign-on
  alike the browser ends at the dashboard.
\<close>

theorem second_factor_loses_landing:
  "after_sign_in resolve_url origin requested True = ''/mfa'' \<and> sso_redirect encode (Inr (Sso_session (NeedsMfa x y) returnTo)) = ''/mfa''
   \<and> after_mfa = DASHBOARD"
  by (simp add: after_sign_in_def sso_redirect_def after_mfa_def DASHBOARD_def)

section \<open>Every failure has words\<close>

definition known_failure :: "sso_failure \<Rightarrow> bool" where
  "known_failure e = (case e of Sso code _ \<Rightarrow> code \<in> set SSO_MESSAGE_CODES | Sso_other _ \<Rightarrow> True)"

lemmas known_simps = known_failure_def SSO_MESSAGE_CODES_def Let_def

lemma finishLink_known: "finishLink ids p userId sub email ip returnTo s = (Inl e, s1) \<Longrightarrow> known_failure e"
  by (auto simp: finishLink_def known_simps split: if_splits option.splits)

lemma login_identity_known: "login_identity ids p t email ip s = (Inl e, s1) \<Longrightarrow> known_failure e"
  by (auto simp: login_identity_def known_simps split: if_splits option.splits prod.splits)

lemma finishLogin_known:
  assumes "finishLogin now ids p t email ip returnTo st = (Inl e, st1)" shows "known_failure e"
proof (cases "login_identity ids p t email ip (as_db st)")
  case (Pair r s1)
  then show ?thesis
  proof (cases r)
    case (Inl e1)
    then have "e1 = e" using assms Pair by (simp add: finishLogin_def)
    with Pair Inl show ?thesis using login_identity_known by blast
  next
    case (Inr x)
    then show ?thesis using assms Pair
      by (cases "signInVerifiedUser now (xi_userId x) ip False (st\<lparr>as_db := touch_identity now email (xi_id x) s1\<rparr>)")
        (auto simp: finishLogin_def known_simps split: sum.splits)
  qed
qed

lemma finish_known:
  assumes "finish env now ids row q state ip st = (Inl e, st1)" shows "known_failure e"
proof (cases "provider_by_id (as_db st) (ls_providerId row)")
  case None
  then show ?thesis using assms by (auto simp: finish_def known_simps)
next
  case (Some p)
  show ?thesis
  proof (cases "\<not> op_enabled p \<or> truthy (q ''error'') \<or> isl (configuration env p) \<or> se_url env (op_redirectUri p) = None
      \<or> verified_token env p row q state = None")
    case True
    then show ?thesis using assms Some by (cases "configuration env p") (auto simp: finish_def known_simps split: if_splits option.splits)
  next
    case False
    then obtain t where t: "verified_token env p row q state = Some t" by auto
    then consider "finishLink ids p (ls_userId row) (it_sub t) (claimed_email t) ip (ls_returnTo row) (as_db st) = (Inl e, as_db st1)"
      | "finishLogin now ids p t (claimed_email t) ip (ls_returnTo row) st = (Inl e, st1)"
      using assms Some False by (cases "configuration env p") (auto simp: finish_def Let_def split: if_splits prod.splits)
    then show ?thesis by cases (rule finishLink_known, assumption, rule finishLogin_known, assumption)
  qed
qed

text \<open>
  Every failure of a round trip of single sign-on leads to a page that has words for it: the code the server puts into
  the redirect is one of those the console translates.
\<close>

theorem sso_failures_have_words:
  assumes "callback env now f ids q cookieState ip st = (Inl e, st1)"
  shows "\<exists>code. sso_redirect encode (Inl e) \<in> {''/account?sso_error='' @ encode code, ''/login?sso_error='' @ encode code}
    \<and> ssoErrorMessage (Some code) = Words code"
proof -
  have k: "known_failure e"
  proof -
    have inner: "known_failure (linking_failure p e1)" if "known_failure e1" for p e1
      using that by (cases e1) (auto simp: linking_failure_def known_simps)
    have fin: "known_failure e" if "(case finish env now ids x2 q c ip st2 of
         (Inl e, st2) \<Rightarrow> (Inl (linking_failure (ls_purpose x2) e), st2) | (Inr a, st2) \<Rightarrow> (Inr a, st2)) = (Inl e, st1)" for x2 c st2
    proof -
      obtain r st3 where r: "finish env now ids x2 q c ip st2 = (r, st3)" by (rule prod.exhaust)
      with that obtain e1 where "r = Inl e1" "e = linking_failure (ls_purpose x2) e1" by (cases r) auto
      then show ?thesis using r finish_known inner by blast
    qed
    have lit: "known_failure (Sso ''expired'' False)" "known_failure (Sso ''state_mismatch'' False)"
      by (simp_all add: known_simps)
    show ?thesis
      using assms lit by (auto simp: callback_def Let_def dest: fin split: if_splits option.splits)
  qed
  have w: "ssoErrorMessage (Some c) = Words c" if "c \<in> set SSO_MESSAGE_CODES" for c
    using that by (auto simp: ssoErrorMessage_def SSO_MESSAGE_CODES_def)
  show ?thesis
  proof (cases e)
    case (Sso code linkFlow)
    then have "code \<in> set SSO_MESSAGE_CODES" using k by (simp add: known_failure_def)
    then show ?thesis using Sso w[of code] by (intro exI[of _ code]) (simp add: sso_redirect_def)
  next
    case (Sso_other x)
    have "''failed'' \<in> set SSO_MESSAGE_CODES" by (simp add: SSO_MESSAGE_CODES_def)
    then show ?thesis using Sso_other w[of "''failed''"] by (intro exI[of _ "''failed''"]) (simp add: sso_redirect_def)
  qed
qed

end
