(* ===== verification/Host.thy ===== *)
theory Host
  imports Installers
begin

text \<open>
  The administration of the host (\<open>admin/security.service.ts\<close>, \<open>admin/security.controller.ts\<close>): the cache of answers,
  fail2ban behind the wrapper that checks its arguments (\<open>deploy/sbin/rem0te-f2b\<close>), the list of updates of the operating
  system and the one job that installs them. The programs of the host are an argument: what each prints and how it ends.
\<close>

section \<open>The cache of answers\<close>

text \<open>Promises are numbered; a call returns its promise and whether it started the work.\<close>

record cache_entry =
  ce_promise :: nat
  ce_at :: time

type_synonym promise_cache = "string \<rightharpoonup> cache_entry"

definition cachedAsync :: "string \<Rightarrow> int \<Rightarrow> time \<Rightarrow> nat \<Rightarrow> promise_cache \<Rightarrow> (nat \<times> bool) \<times> promise_cache" where
  "cachedAsync key ttlMs now fresh cache =
     (case cache key of
        Some e \<Rightarrow> if now - ce_at e < ttlMs then ((ce_promise e, False), cache)
          else ((fresh, True), cache(key \<mapsto> \<lparr>ce_promise = fresh, ce_at = now\<rparr>))
      | None \<Rightarrow> ((fresh, True), cache(key \<mapsto> \<lparr>ce_promise = fresh, ce_at = now\<rparr>)))"

text \<open>A failure forgets the entry, if it is still that of the promise that failed.\<close>

definition promise_failed :: "string \<Rightarrow> nat \<Rightarrow> promise_cache \<Rightarrow> promise_cache" where
  "promise_failed key p cache = (if map_option ce_promise (cache key) = Some p then cache(key := None) else cache)"

definition bustCache :: "string \<Rightarrow> promise_cache \<Rightarrow> promise_cache" where "bustCache key cache = cache(key := None)"

section \<open>fail2ban\<close>

record proc_result =
  pr_out :: string
  pr_err :: string
  pr_status :: int

record host_env =
  he_wrapper :: bool
  he_run :: "string list \<Rightarrow> proc_result"

definition F2B_WRAPPER :: string where "F2B_WRAPPER = ''/usr/local/sbin/rem0te-f2b''"

definition f2b :: "host_env \<Rightarrow> string list \<Rightarrow> string list" where
  "f2b env args = ''sudo'' # (if he_wrapper env then [''-n'', F2B_WRAPPER] else [''fail2ban-client'']) @ args"

definition address_text_char :: "char \<Rightarrow> bool" where "address_text_char c = (any_hex c \<or> c \<in> set ''.:/'')"

definition safe_jail :: "string \<Rightarrow> string" where "safe_jail jail = filter is_url_char jail"
definition safe_ip :: "string \<Rightarrow> string" where "safe_ip ip = filter address_text_char ip"

text \<open>Reading what the client prints: the text behind a label, by the regular expressions of the code.\<close>

definition line_end :: "char \<Rightarrow> bool" where "line_end c = (c = CHR 0x0A \<or> c = CHR 0x0D)"

text \<open>The first place where the label stands and the rest matches.\<close>

fun after_label :: "string \<Rightarrow> (string \<Rightarrow> string option) \<Rightarrow> string \<Rightarrow> string option" where
  "after_label label rest [] = (if label = [] then rest [] else None)"
| "after_label label rest (c # cs) =
     (case (if starts_with label (c # cs) then rest (drop (length label) (c # cs)) else None) of
        Some x \<Rightarrow> Some x
      | None \<Rightarrow> after_label label rest cs)"

text \<open>\<open>\s+(.+)\<close>: where only white space follows, the match gives some of it back.\<close>

definition some_text :: "string \<Rightarrow> string option" where
  "some_text r = (let w = takeWhile js_space r; t = dropWhile js_space r in
     if w = [] then None
     else if t \<noteq> [] then Some (takeWhile (\<lambda>c. \<not> line_end c) t)
     else (case filter (\<lambda>c. \<not> line_end c) (tl w) of [] \<Rightarrow> None | cs \<Rightarrow> Some [last cs]))"

definition some_digits :: "string \<Rightarrow> string option" where
  "some_digits r = (let w = takeWhile js_space r; ds = takeWhile is_digit (dropWhile js_space r) in
     if w = [] \<or> ds = [] then None else Some ds)"

definition rest_of_line :: "string \<Rightarrow> string option" where
  "rest_of_line r = Some (takeWhile (\<lambda>c. \<not> line_end c) (dropWhile js_space r))"

text \<open>\<open>split(/\s+/)\<close>.\<close>

function split_space :: "string \<Rightarrow> string list" where
  "split_space s = (let w = takeWhile (\<lambda>c. \<not> js_space c) s; r = dropWhile (\<lambda>c. \<not> js_space c) s in
     if r = [] then [w] else w # split_space (dropWhile js_space r))"
  by auto

termination split_space
proof (relation "measure length")
  fix s w r :: string
  assume def: "r = dropWhile (\<lambda>c. \<not> js_space c) s" and "r \<noteq> []"
  then have "js_space (hd r)" using def hd_dropWhile[of "\<lambda>c. \<not> js_space c" s] by simp
  then obtain c cs where r: "r = c # cs" "js_space c" using \<open>r \<noteq> []\<close> by (cases r) auto
  then have "length (dropWhile js_space r) \<le> length cs" by (simp add: length_dropWhile_le)
  moreover have "length r \<le> length s" using def by (simp add: length_dropWhile_le)
  ultimately show "(dropWhile js_space r, s) \<in> measure length" using r by simp
qed simp

declare split_space.simps [simp del]

definition jail_names :: "string list \<Rightarrow> string \<Rightarrow> string list" where
  "jail_names dflt out = (case after_label ''Jail list:'' some_text out of
     None \<Rightarrow> dflt
   | Some t \<Rightarrow> filter (\<lambda>j. j \<noteq> []) (map js_trim (split_on (CHR '','') t)))"

record jail_view =
  jv_jail :: string
  jv_total :: int
  jv_current :: int
  jv_banned :: "string list"

definition number_of_text :: "string option \<Rightarrow> int" where
  "number_of_text t = (case t of None \<Rightarrow> 0 | Some ds \<Rightarrow> digits_val ds)"

definition read_jail :: "string \<Rightarrow> string \<Rightarrow> jail_view" where
  "read_jail name out = \<lparr>jv_jail = name,
     jv_total = number_of_text (after_label ''Total banned:'' some_digits out),
     jv_current = number_of_text (after_label ''Currently banned:'' some_digits out),
     jv_banned = (case after_label ''Banned IP list:'' rest_of_line out of
         None \<Rightarrow> []
       | Some t \<Rightarrow> filter (\<lambda>w. w \<noteq> []) (split_space (js_trim t)))\<rparr>"

text \<open>An operation: its answer, the programs it starts, and whether it forgets the cached view.\<close>

type_synonym 'a host_op = "'a \<times> string list list \<times> bool"

definition view_fail2ban :: "host_env \<Rightarrow> (bool \<times> jail_view list) host_op" where
  "view_fail2ban env =
     (let active = [''systemctl'', ''is-active'', ''fail2ban''] in
      if js_trim (pr_out (he_run env active)) \<noteq> ''active'' then ((False, []), [active], False)
      else let st = f2b env [''status'']; r = he_run env st; out = js_trim (pr_out r) in
        if pr_status r \<noteq> 0 \<or> out = [] then ((True, []), [active, st], False)
        else let names = map safe_jail (jail_names [] out); asks = map (\<lambda>j. f2b env [''status'', j]) names
          in ((True, map (\<lambda>j. read_jail j (pr_out (he_run env (f2b env [''status'', j])))) names), [active, st] @ asks, False))"

record ban_answer =
  ba_success :: bool
  ba_error :: "string option"

abbreviation refused_input :: "string \<Rightarrow> ban_answer" where "refused_input t \<equiv> \<lparr>ba_success = False, ba_error = Some t\<rparr>"

definition ban_op :: "string \<Rightarrow> bool \<Rightarrow> host_env \<Rightarrow> string \<Rightarrow> string \<Rightarrow> ban_answer host_op" where
  "ban_op verb tells env jail ip =
     (let j = safe_jail jail; a = safe_ip ip; cmd = f2b env [''set'', j, verb, a]; r = he_run env cmd; ok = (pr_status r = 0) in
      if j = [] \<or> a = [] then (refused_input ''Invalid input'', [], False)
      else (\<lparr>ba_success = ok, ba_error = (if ok \<or> \<not> tells then None else Some (js_trim (pr_err r)))\<rparr>, [cmd], ok))"

definition banIp :: "host_env \<Rightarrow> string \<Rightarrow> string \<Rightarrow> ban_answer host_op" where "banIp = ban_op ''banip'' True"
definition unbanIp :: "host_env \<Rightarrow> string \<Rightarrow> string \<Rightarrow> ban_answer host_op" where "unbanIp = ban_op ''unbanip'' False"

text \<open>A line is an address or a network once its mark is gone.\<close>

definition strip_mark :: "string \<Rightarrow> string" where
  "strip_mark l = (if starts_with [CHR 0x60, CHR ''-''] l then dropWhile js_space (drop 2 l) else l)"

definition ignored_address :: "string \<Rightarrow> bool" where
  "ignored_address l = (case l of [] \<Rightarrow> False | c # cs \<Rightarrow> (any_hex c \<or> c = CHR '':'') \<and> list_all address_text_char cs)"

definition parseIgnoreIps :: "string \<Rightarrow> string list" where
  "parseIgnoreIps out = filter ignored_address (map (\<lambda>l. js_trim (strip_mark l)) (split_on (CHR 0x0A) out))"

definition jail_asks :: "host_env \<Rightarrow> string list \<Rightarrow> (string \<Rightarrow> string list) \<Rightarrow> string list list" where
  "jail_asks env names args = map (\<lambda>j. f2b env (args (safe_jail j))) names"

definition getIgnoreList :: "host_env \<Rightarrow> string list host_op" where
  "getIgnoreList env =
     (let st = f2b env [''status''];
          asks = jail_asks env (jail_names [''www''] (pr_out (he_run env st))) (\<lambda>j. [''get'', j, ''ignoreip''])
      in (js_set (concat (map (\<lambda>c. parseIgnoreIps (pr_out (he_run env c))) asks)), st # asks, False))"

definition addIgnoreIp :: "host_env \<Rightarrow> string \<Rightarrow> ban_answer host_op" where
  "addIgnoreIp env ip =
     (let a = safe_ip ip; st = f2b env [''status''];
          asks = jail_asks env (jail_names [] (pr_out (he_run env st))) (\<lambda>j. [''set'', j, ''addignoreip'', a]);
          anyOk = list_ex (\<lambda>c. pr_status (he_run env c) = 0) asks
      in if a = [] then (refused_input ''Invalid IP'', [], False)
         else (\<lparr>ba_success = anyOk, ba_error = None\<rparr>, st # asks, anyOk))"

definition removeIgnoreIp :: "host_env \<Rightarrow> string \<Rightarrow> ban_answer host_op" where
  "removeIgnoreIp env ip =
     (let a = safe_ip ip; st = f2b env [''status''];
          asks = jail_asks env (jail_names [] (pr_out (he_run env st))) (\<lambda>j. [''set'', j, ''delignoreip'', a])
      in if a = [] then (refused_input ''Invalid IP'', [], False)
         else (\<lparr>ba_success = True, ba_error = None\<rparr>, st # asks, True))"

definition getJailConfig :: "host_env \<Rightarrow> string \<Rightarrow> (string + string list) host_op" where
  "getJailConfig env jail =
     (let j = safe_jail jail; asks = map (\<lambda>k. f2b env [''get'', j, k]) [''bantime'', ''findtime'', ''maxretry''] in
      if j = [] then (Inl ''Invalid jail name'', [], False)
      else (Inr (map (\<lambda>c. js_trim (pr_out (he_run env c))) asks), asks, False))"

text \<open>The values are the texts \<open>String(value)\<close> of whatever the body held.\<close>

definition updateJailConfig :: "host_env \<Rightarrow> string \<Rightarrow> string option \<Rightarrow> string option \<Rightarrow> string option \<Rightarrow> ban_answer host_op" where
  "updateJailConfig env jail bantime findtime maxretry =
     (let j = safe_jail jail;
          given = concat (map (\<lambda>(k, v). case v of None \<Rightarrow> [] | Some t \<Rightarrow> [(k, t)])
            [(''bantime'', bantime), (''findtime'', findtime), (''maxretry'', maxretry)])
      in if j = [] then (refused_input ''Invalid jail name'', [], False)
         else (\<lparr>ba_success = True, ba_error = None\<rparr>, map (\<lambda>(k, t). f2b env [''set'', j, k, t]) given, True))"

text \<open>Installing it, whatever the programs answer.\<close>

definition FAIL2BAN_INSTALL :: "string list list" where
  "FAIL2BAN_INSTALL = [[''sudo'', ''apt-get'', ''install'', ''-y'', ''fail2ban''], [''sudo'', ''systemctl'', ''enable'', ''fail2ban''],
     [''sudo'', ''systemctl'', ''start'', ''fail2ban'']]"

definition installFail2ban :: "bool host_op" where
  "installFail2ban = (True, FAIL2BAN_INSTALL, False)"

text \<open>The wrapper: which argument lists it lets through.\<close>

definition wrapper_jail :: "string \<Rightarrow> bool" where
  "wrapper_jail j = (1 \<le> length j \<and> length j \<le> 64 \<and> list_all is_url_char j)"
definition wrapper_addr :: "string \<Rightarrow> bool" where
  "wrapper_addr a = (1 \<le> length a \<and> length a \<le> 64 \<and> list_all address_text_char a)"
definition wrapper_num :: "string \<Rightarrow> bool" where
  "wrapper_num n = (1 \<le> length n \<and> length n \<le> 9 \<and> list_all is_digit n)"

definition wrapper_accepts :: "string list \<Rightarrow> bool" where
  "wrapper_accepts args = (case args of
       [a] \<Rightarrow> a = ''status''
     | [a, j] \<Rightarrow> a = ''status'' \<and> wrapper_jail j
     | [a, j, k] \<Rightarrow> a = ''get'' \<and> wrapper_jail j \<and> k \<in> set [''ignoreip'', ''bantime'', ''findtime'', ''maxretry'']
     | [a, j, k, v] \<Rightarrow> a = ''set'' \<and> wrapper_jail j
         \<and> (if k \<in> set [''banip'', ''unbanip'', ''addignoreip'', ''delignoreip''] then wrapper_addr v
            else k \<in> set [''bantime'', ''findtime'', ''maxretry''] \<and> wrapper_num v)
     | _ \<Rightarrow> False)"

text \<open>Every route asks for a platform admin before it calls the service.\<close>

definition security_route :: "bool \<Rightarrow> 'a host_op \<Rightarrow> 'a result \<times> string list list \<times> bool" where
  "security_route isPlatformAdmin op =
     (if \<not> isPlatformAdmin then (Inl (Forbidden ''Platform admin access required''), [], False)
      else (Inr (fst op), snd op))"

section \<open>Updates of the operating system\<close>

record os_package =
  pk_name :: string
  pk_version :: string
  pk_security :: bool

definition read_package :: "string \<Rightarrow> os_package" where
  "read_package line = (let parts = split_space line in
     \<lparr>pk_name = hd (split_on (CHR ''/'') (hd parts)),
      pk_version = (case parts of _ # v # _ \<Rightarrow> v | _ \<Rightarrow> []),
      pk_security = has_substring ''security'' (map lower line)\<rparr>)"

definition upgradable :: "string \<Rightarrow> os_package list" where
  "upgradable out = map read_package
     (filter (\<lambda>l. CHR ''/'' \<in> set l \<and> \<not> starts_with ''Listing'' l) (split_on (CHR 0x0A) out))"

definition getOsUpdates :: "host_env \<Rightarrow> (nat \<times> os_package list \<times> nat) host_op" where
  "getOsUpdates env = (let cmd = [''apt'', ''list'', ''--upgradable'']; ps = upgradable (pr_out (he_run env cmd)) in
     ((length ps, ps, length (filter pk_security ps)), [cmd], False))"

record update_job =
  uj_running :: bool
  uj_lines :: "string list"
  uj_exitCode :: "int option"
  uj_startedAt :: time

definition runOsUpdate :: "time \<Rightarrow> update_job option \<Rightarrow> bool \<times> update_job option" where
  "runOsUpdate now job = (case job of
     Some j \<Rightarrow> if uj_running j then (False, job)
       else (True, Some \<lparr>uj_running = True, uj_lines = [], uj_exitCode = None, uj_startedAt = now\<rparr>)
   | None \<Rightarrow> (True, Some \<lparr>uj_running = True, uj_lines = [], uj_exitCode = None, uj_startedAt = now\<rparr>))"

text \<open>The process that a start spawns.\<close>

definition OS_UPGRADE :: "string list" where
  "OS_UPGRADE = [''sudo'', ''apt-get'', ''upgrade'', ''-y'', ''--allow-downgrades'', ''-o'', ''Dpkg::Options::=--force-confold'']"

definition update_programs :: "time \<Rightarrow> update_job option \<Rightarrow> string list list" where
  "update_programs now job = (if fst (runOsUpdate now job) then [OS_UPGRADE] else [])"

definition pushLines :: "string \<Rightarrow> update_job \<Rightarrow> update_job" where
  "pushLines chunk j = (let all = uj_lines j @ filter (\<lambda>l. js_trim l \<noteq> []) (split_on (CHR 0x0A) chunk) in
     j\<lparr>uj_lines := (if length all > 1000 then drop 200 all else all)\<rparr>)"

definition update_closed :: "int option \<Rightarrow> update_job \<Rightarrow> update_job" where
  "update_closed code j = j\<lparr>uj_running := False, uj_exitCode := code\<rparr>"

definition update_error :: "string \<Rightarrow> update_job \<Rightarrow> update_job" where
  "update_error message j = j\<lparr>uj_running := False, uj_exitCode := Some (-1), uj_lines := uj_lines j @ [''Error: '' @ message]\<rparr>"

definition getOsUpdateStatus :: "update_job option \<Rightarrow> bool \<times> string list \<times> int option \<times> time option" where
  "getOsUpdateStatus job = (case job of
     None \<Rightarrow> (False, [], None, None)
   | Some j \<Rightarrow> (uj_running j, uj_lines j, uj_exitCode j, Some (uj_startedAt j)))"

text \<open>
  The job and its processes. A process that started prints and ends by closing. One that could not be started
  is told of by an error and then closes all the same, at some later time; the handlers write into whatever job there is by then.
\<close>

record update_world =
  uw_job :: "update_job option"
  uw_alive :: nat
  uw_failing :: nat
  uw_closing :: nat
  uw_failed :: nat

definition no_update :: update_world where
  "no_update = \<lparr>uw_job = None, uw_alive = 0, uw_failing = 0, uw_closing = 0, uw_failed = 0\<rparr>"

inductive update_step :: "update_world \<Rightarrow> update_world \<Rightarrow> bool" where
  us_refused: "runOsUpdate now (uw_job w) = (False, job) \<Longrightarrow> update_step w (w\<lparr>uw_job := job\<rparr>)"
| us_run: "runOsUpdate now (uw_job w) = (True, job) \<Longrightarrow> update_step w (w\<lparr>uw_job := job, uw_alive := Suc (uw_alive w)\<rparr>)"
| us_run_fails: "runOsUpdate now (uw_job w) = (True, job) \<Longrightarrow>
    update_step w (w\<lparr>uw_job := job, uw_failing := Suc (uw_failing w), uw_failed := Suc (uw_failed w)\<rparr>)"
| us_print: "uw_alive w = Suc n \<Longrightarrow> update_step w (w\<lparr>uw_job := map_option (pushLines chunk) (uw_job w)\<rparr>)"
| us_close: "uw_alive w = Suc n \<Longrightarrow> update_step w (w\<lparr>uw_job := map_option (update_closed code) (uw_job w), uw_alive := n\<rparr>)"
| us_error: "uw_failing w = Suc n \<Longrightarrow>
    update_step w (w\<lparr>uw_job := map_option (update_error message) (uw_job w), uw_failing := n, uw_closing := Suc (uw_closing w)\<rparr>)"
| us_late_close: "uw_closing w = Suc n \<Longrightarrow>
    update_step w (w\<lparr>uw_job := map_option (update_closed code) (uw_job w), uw_closing := n\<rparr>)"

inductive_cases update_stepE: "update_step s t"

section \<open>Properties\<close>

text \<open>Within the time to live the work is started once, and a late failure does not evict a newer answer.\<close>

lemma cached_answer_is_shared:
  assumes "cachedAsync key ttl now p cache = ((r, started), cache1)" "now \<le> now'" "now' - now < ttl" "started"
  shows "cachedAsync key ttl now' p' cache1 = ((r, False), cache1)"
  using assms by (auto simp: cachedAsync_def split: option.splits if_splits)

lemma stale_failure_keeps_answer:
  "map_option ce_promise (cache key) \<noteq> Some p \<Longrightarrow> promise_failed key p cache = cache"
  by (simp only: promise_failed_def if_False)

lemma failure_is_not_cached:
  assumes "cachedAsync key ttl now p cache = ((p, True), cache1)"
  shows "cachedAsync key ttl now' p' (promise_failed key p cache1) = ((p', True), cache1(key \<mapsto> \<lparr>ce_promise = p', ce_at = now'\<rparr>))"
  using assms by (auto simp: cachedAsync_def promise_failed_def split: option.splits if_splits)

lemma read_after_ban_starts_anew: "snd (fst (cachedAsync key ttl now p (bustCache key cache)))"
  by (simp add: cachedAsync_def bustCache_def)

text \<open>The characters an accepted argument may hold.\<close>

definition inert_argument :: "string \<Rightarrow> bool" where
  "inert_argument a = list_all (\<lambda>c. is_url_char c \<or> c \<in> set ''.:/'') a"

lemma hex_is_url_char: "any_hex c \<Longrightarrow> is_url_char c"
proof -
  assume "any_hex c"
  then consider "is_digit c" | "c \<in> set ''abcdefABCDEF''" unfolding any_hex_def by blast
  then show ?thesis
  proof cases
    case 2
    moreover have "list_all is_url_char ''abcdefABCDEF''" by code_simp
    ultimately show ?thesis unfolding list_all_iff by blast
  qed (simp add: is_url_char_def)
qed

lemma inert_from:
  "list_all is_url_char a \<Longrightarrow> inert_argument a" "list_all address_text_char a \<Longrightarrow> inert_argument a" "list_all is_digit a \<Longrightarrow> inert_argument a"
proof -
  have "is_digit c \<Longrightarrow> is_url_char c" for c by (simp add: is_url_char_def)
  moreover have "address_text_char c \<Longrightarrow> is_url_char c \<or> c \<in> set ''.:/''" for c
    unfolding address_text_char_def using hex_is_url_char by blast
  ultimately show "list_all is_url_char a \<Longrightarrow> inert_argument a" "list_all address_text_char a \<Longrightarrow> inert_argument a"
    "list_all is_digit a \<Longrightarrow> inert_argument a"
    unfolding inert_argument_def list_all_iff by blast+
qed

lemma literal_arguments_inert:
  "list_all inert_argument [''status'', ''get'', ''set'', ''ignoreip'', ''bantime'', ''findtime'', ''maxretry'', ''banip'', ''unbanip'',
     ''addignoreip'', ''delignoreip'']"
  by code_simp

lemma accepted_arguments_inert:
  assumes "wrapper_accepts args" shows "length args \<le> 4 \<and> list_all inert_argument args"
proof -
  note lit = literal_arguments_inert[unfolded list.pred_inject]
  note defs = wrapper_accepts_def wrapper_jail_def
  show ?thesis
  proof (cases args)
    case Nil
    then show ?thesis by simp
  next
    case (Cons a t1)
    note c1 = this
    show ?thesis
    proof (cases t1)
      case Nil
      then show ?thesis using assms lit c1 by (simp add: defs)
    next
      case (Cons j t2)
      note c2 = this
      show ?thesis
      proof (cases t2)
        case Nil
        then show ?thesis using assms lit c1 c2 inert_from(1) by (simp add: defs)
      next
        case (Cons k t3)
        note c3 = this
        show ?thesis
        proof (cases t3)
          case Nil
          then show ?thesis using assms lit c1 c2 c3 inert_from(1) by (auto simp: defs)
        next
          case (Cons v t4)
          then have t4: "t4 = []" using assms c1 c2 c3 by (cases t4) (simp_all add: wrapper_accepts_def)
          then have "a = ''set''" "list_all is_url_char j" using assms c1 c2 c3 Cons by (simp_all add: defs)
          moreover have "inert_argument k"
            using assms c1 c2 c3 Cons t4 lit by (auto simp: defs split: if_splits)
          moreover have "list_all address_text_char v \<or> list_all is_digit v"
            using assms c1 c2 c3 Cons t4 by (simp add: defs wrapper_addr_def wrapper_num_def split: if_splits)
          ultimately show ?thesis using lit inert_from c1 c2 c3 Cons t4 by auto
        qed
      qed
    qed
  qed
qed

text \<open>All programs the pages of fail2ban start, for whatever input.\<close>

definition fail2ban_programs :: "host_env \<Rightarrow> string \<Rightarrow> string \<Rightarrow> string option \<Rightarrow> string option \<Rightarrow> string option \<Rightarrow> string list list" where
  "fail2ban_programs env jail ip bantime findtime maxretry =
     fst (snd (view_fail2ban env)) @ fst (snd (banIp env jail ip)) @ fst (snd (unbanIp env jail ip)) @ fst (snd (getIgnoreList env))
     @ fst (snd (addIgnoreIp env ip)) @ fst (snd (removeIgnoreIp env ip)) @ fst (snd (getJailConfig env jail))
     @ fst (snd (updateJailConfig env jail bantime findtime maxretry))"

text \<open>All programs of the service that may run as root: those of fail2ban, its installation and the upgrade.\<close>

definition root_programs ::
  "host_env \<Rightarrow> string \<Rightarrow> string \<Rightarrow> string option \<Rightarrow> string option \<Rightarrow> string option \<Rightarrow> time \<Rightarrow> update_job option \<Rightarrow> string list list" where
  "root_programs env jail ip bantime findtime maxretry now job =
     fail2ban_programs env jail ip bantime findtime maxretry @ fst (snd installFail2ban) @ update_programs now job"

definition wrapped :: "host_env \<Rightarrow> string list \<Rightarrow> bool" where
  "wrapped env c = (c = [''systemctl'', ''is-active'', ''fail2ban''] \<or> (\<exists>args. c = f2b env args \<and> length args \<le> 4))"

lemma ban_op_wrapped: "list_all (wrapped env) (fst (snd (ban_op verb tells env jail ip)))"
  by (auto simp: ban_op_def wrapped_def Let_def)

lemma asks_wrapped: "(\<And>j. length (args j) \<le> 4) \<Longrightarrow> list_all (wrapped env) (jail_asks env names args)"
  by (auto simp: jail_asks_def list_all_iff wrapped_def)

lemma status_wrapped: "wrapped env (f2b env [''status''])" "wrapped env (f2b env [''status'', j])"
  by (auto simp: wrapped_def)

lemma programs_wrapped: "list_all (wrapped env) (fail2ban_programs env jail ip bantime findtime maxretry)"
proof -
  have "list_all (wrapped env) (fst (snd (view_fail2ban env)))"
    using status_wrapped by (auto simp: view_fail2ban_def Let_def list_all_iff wrapped_def)
  moreover have "list_all (wrapped env) (fst (snd (getIgnoreList env)))"
    using status_wrapped by (simp add: getIgnoreList_def Let_def asks_wrapped)
  moreover have "list_all (wrapped env) (fst (snd (addIgnoreIp env ip)))"
    using status_wrapped by (simp add: addIgnoreIp_def Let_def asks_wrapped)
  moreover have "list_all (wrapped env) (fst (snd (removeIgnoreIp env ip)))"
    using status_wrapped by (simp add: removeIgnoreIp_def Let_def asks_wrapped)
  moreover have "list_all (wrapped env) (fst (snd (getJailConfig env jail)))"
    by (auto simp: getJailConfig_def Let_def wrapped_def)
  moreover have "list_all (wrapped env) (fst (snd (updateJailConfig env jail bantime findtime maxretry)))"
    by (auto simp: updateJailConfig_def Let_def list_all_iff wrapped_def)
  ultimately show ?thesis
    by (simp add: fail2ban_programs_def banIp_def unbanIp_def ban_op_wrapped)
qed

text \<open>
  C20: Whatever a platform admin sends and whatever fail2ban prints, the service of the Security page runs nothing as root but four
  fixed commands (installing fail2ban, enabling and starting it, upgrading the packages) and fail2ban with at most four
  arguments: through the wrapper, where it is installed, which lets through only arguments made of
  letters, digits and the characters \<open>_ - . : /\<close>, no blank, quote, bracket or sign of a shell; by
  \<open>fail2ban-client\<close> itself, where it is not.
\<close>

theorem root_commands_confined:
  assumes "c \<in> set (root_programs env jail ip bantime findtime maxretry now job)" "hd c = ''sudo''"
  shows "c \<in> set (OS_UPGRADE # FAIL2BAN_INSTALL)
    \<or> (\<exists>args. length args \<le> 4
        \<and> (if he_wrapper env then c = [''sudo'', ''-n'', F2B_WRAPPER] @ args \<and> (wrapper_accepts args \<longrightarrow> list_all inert_argument args)
           else c = [''sudo'', ''fail2ban-client''] @ args))"
proof -
  consider "c \<in> set (fail2ban_programs env jail ip bantime findtime maxretry)" | "c \<in> set (OS_UPGRADE # FAIL2BAN_INSTALL)"
    using assms(1) by (auto simp: root_programs_def installFail2ban_def update_programs_def split: if_splits)
  then show ?thesis
  proof cases
    case 1
    then have "wrapped env c" using programs_wrapped by (auto simp: list_all_iff)
    then obtain args where a: "c = f2b env args" "length args \<le> 4" using assms(2) by (auto simp: wrapped_def)
    have "if he_wrapper env then c = [''sudo'', ''-n'', F2B_WRAPPER] @ args \<and> (wrapper_accepts args \<longrightarrow> list_all inert_argument args)
           else c = [''sudo'', ''fail2ban-client''] @ args"
      using a(1) accepted_arguments_inert[of args] by (simp add: f2b_def)
    with a(2) show ?thesis by blast
  qed blast
qed

text \<open>And what the pages are for gets through: a name and an address of ordinary length are not refused.\<close>

theorem ban_passes_wrapper:
  assumes "he_wrapper env" "safe_jail jail \<noteq> []" "length (safe_jail jail) \<le> 64" "safe_ip ip \<noteq> []" "length (safe_ip ip) \<le> 64"
  shows "fst (snd (banIp env jail ip)) = [[''sudo'', ''-n'', F2B_WRAPPER] @ [''set'', safe_jail jail, ''banip'', safe_ip ip]]
    \<and> wrapper_accepts [''set'', safe_jail jail, ''banip'', safe_ip ip]"
proof -
  have "list_all is_url_char (safe_jail jail)" "list_all address_text_char (safe_ip ip)"
    by (auto simp: safe_jail_def safe_ip_def list_all_iff)
  with assms show ?thesis
    by (simp add: banIp_def ban_op_def f2b_def wrapper_accepts_def wrapper_jail_def wrapper_addr_def Suc_le_eq Let_def)
qed

definition quiet_host :: host_env where
  "quiet_host = \<lparr>he_wrapper = True, he_run = (\<lambda>c. \<lparr>pr_out = (if c = [''systemctl'', ''is-active'', ''fail2ban''] then ''active'' else
     if last c = ''status'' then ''Jail list: sshd, www'' else []), pr_err = [], pr_status = (if last c = ''-1'' then 64 else 0)\<rparr>)\<rparr>"

theorem root_commands_confined_witness:
  "\<exists>args. f2b quiet_host [''set'', ''sshd'', ''banip'', ''1.2.3.4''] = [''sudo'', ''-n'', F2B_WRAPPER] @ args \<and> length args \<le> 4
    \<and> list_all inert_argument args"
proof -
  let ?c = "f2b quiet_host [''set'', ''sshd'', ''banip'', ''1.2.3.4'']"
  have "?c \<in> set (root_programs quiet_host ''sshd'' ''1.2.3.4'' None None None 5 None)"
  proof -
    have "fst (snd (banIp quiet_host ''sshd'' ''1.2.3.4'')) = [?c]" by code_simp
    then show ?thesis by (simp add: root_programs_def fail2ban_programs_def)
  qed
  moreover have "hd ?c = ''sudo''" by (simp add: f2b_def)
  moreover have "he_wrapper quiet_host" by (simp add: quiet_host_def)
  moreover have "?c \<notin> set (OS_UPGRADE # FAIL2BAN_INSTALL)" by code_simp
  ultimately obtain args where a: "?c = [''sudo'', ''-n'', F2B_WRAPPER] @ args" "length args \<le> 4"
    "wrapper_accepts args \<longrightarrow> list_all inert_argument args"
    using root_commands_confined[of ?c quiet_host "''sshd''" "''1.2.3.4''" None None None 5 None] by auto
  then have "args = [''set'', ''sshd'', ''banip'', ''1.2.3.4'']" by (simp add: f2b_def quiet_host_def)
  moreover have "wrapper_accepts [''set'', ''sshd'', ''banip'', ''1.2.3.4'']" by code_simp
  ultimately show ?thesis using a by blast
qed

text \<open>A mistyped address is not refused but repaired into another one, which is banned.\<close>

theorem mistyped_address_bans_another:
  "banIp quiet_host ''sshd'' ''192.168.1.1 0'' = (\<lparr>ba_success = True, ba_error = None\<rparr>, [f2b quiet_host [''set'', ''sshd'', ''banip'', ''192.168.1.10'']], True)"
  by code_simp

text \<open>A change of a jail that the wrapper refuses, as a permanent ban time, is reported as done.\<close>

theorem refused_change_reported_done:
  "updateJailConfig quiet_host ''sshd'' (Some ''-1'') None None = (\<lparr>ba_success = True, ba_error = None\<rparr>, [f2b quiet_host [''set'', ''sshd'', ''bantime'', ''-1'']], True)
   \<and> \<not> wrapper_accepts [''set'', ''sshd'', ''bantime'', ''-1''] \<and> pr_status (he_run quiet_host (f2b quiet_host [''set'', ''sshd'', ''bantime'', ''-1''])) = 64"
  by (intro conjI; code_simp)

lemma jails_are_read: "jail_names [] ''Number of jail: 2 Jail list: sshd, www'' = [''sshd'', ''www'']"
  by code_simp

section \<open>The one job\<close>

definition says_running :: "update_job option \<Rightarrow> nat" where
  "says_running job = (case job of Some j \<Rightarrow> if uj_running j then 1 else 0 | None \<Rightarrow> 0)"

lemma says_running_simps [simp]:
  "says_running (map_option (update_closed code) job) = 0" "says_running (map_option (update_error message) job) = 0"
  "says_running (map_option (pushLines chunk) job) = says_running job" "says_running None = 0" "says_running job \<le> 1"
  by (cases job; simp add: says_running_def update_closed_def update_error_def pushLines_def Let_def)+

lemma runOsUpdate_says:
  "runOsUpdate now job = (True, job1) \<Longrightarrow> says_running job = 0 \<and> says_running job1 = 1"
  "runOsUpdate now job = (False, job1) \<Longrightarrow> job1 = job"
  by (auto simp: runOsUpdate_def says_running_def split: option.splits if_splits)

text \<open>A failed start makes up for at most one process more than the page tells of; without one the page is exact.\<close>

definition job_consistent :: "update_world \<Rightarrow> bool" where
  "job_consistent w = (uw_alive w + 2 * uw_failing w + uw_closing w \<le> says_running (uw_job w) + uw_failed w
     \<and> (uw_failed w = 0 \<longrightarrow> uw_alive w = says_running (uw_job w) \<and> uw_failing w = 0 \<and> uw_closing w = 0))"

lemma update_step_consistent: "update_step w v \<Longrightarrow> job_consistent w \<Longrightarrow> job_consistent v"
proof (induction rule: update_step.induct)
  case (us_refused now w job)
  then show ?case using runOsUpdate_says(2)[OF us_refused(1)] by simp
next
  case (us_run now w job)
  then show ?case using runOsUpdate_says(1)[OF us_run(1)] by (simp add: job_consistent_def)
next
  case (us_run_fails now w job)
  then show ?case using runOsUpdate_says(1)[OF us_run_fails(1)] by (simp add: job_consistent_def)
next
  case (us_print w n chunk)
  then show ?case by (simp add: job_consistent_def)
next
  case (us_close w n code)
  have "says_running (uw_job w) \<le> 1" by (rule says_running_simps(5))
  with us_close show ?case unfolding job_consistent_def by auto
next
  case (us_error w n message)
  have "says_running (uw_job w) \<le> 1" by (rule says_running_simps(5))
  with us_error show ?case unfolding job_consistent_def by auto
next
  case (us_late_close w n code)
  have "says_running (uw_job w) \<le> 1" by (rule says_running_simps(5))
  with us_late_close show ?case unfolding job_consistent_def by auto
qed

text \<open>
  C21: However often the update of the operating system is started, whatever it prints and however it ends: as long as
  no start has failed, at most one process is alive at any time, and the page says that one is running exactly while it is;
  and each start that failed (its late close can end a newer job) adds at most one process.
\<close>

theorem one_update_at_a_time:
  assumes "update_step\<^sup>*\<^sup>* no_update w"
  shows "uw_alive w \<le> Suc (uw_failed w) \<and> (uw_failed w = 0 \<longrightarrow> (fst (getOsUpdateStatus (uw_job w)) \<longleftrightarrow> uw_alive w = 1))"
proof -
  have start: "job_consistent no_update" by (simp add: job_consistent_def no_update_def)
  have c: "job_consistent w" using assms
    by (induction rule: rtranclp_induct) (auto intro: update_step_consistent simp: start)
  have "says_running (uw_job w) \<le> 1" by (rule says_running_simps(5))
  with c have "uw_alive w \<le> Suc (uw_failed w)" by (simp add: job_consistent_def)
  moreover have "fst (getOsUpdateStatus (uw_job w)) \<longleftrightarrow> says_running (uw_job w) = 1"
    by (simp add: getOsUpdateStatus_def says_running_def split: option.split)
  ultimately show ?thesis using c by (simp add: job_consistent_def)
qed

lemma first_update:
  "runOsUpdate now None = (True, Some \<lparr>uj_running = True, uj_lines = [], uj_exitCode = None, uj_startedAt = now\<rparr>)"
  by (simp add: runOsUpdate_def)

theorem one_update_at_a_time_witness:
  "\<exists>w. update_step\<^sup>*\<^sup>* no_update w \<and> uw_alive w = 1 \<and> fst (getOsUpdateStatus (uw_job w)) \<and> \<not> fst (runOsUpdate 9 (uw_job w))"
proof -
  let ?w = "no_update\<lparr>uw_job := Some \<lparr>uj_running = True, uj_lines = [], uj_exitCode = None, uj_startedAt = 5\<rparr>, uw_alive := Suc (uw_alive no_update)\<rparr>"
  have "runOsUpdate 5 (uw_job no_update) = (True, Some \<lparr>uj_running = True, uj_lines = [], uj_exitCode = None, uj_startedAt = 5\<rparr>)"
    by (simp add: no_update_def first_update)
  then have r: "update_step\<^sup>*\<^sup>* no_update ?w" by (intro r_into_rtranclp us_run)
  moreover have w: "uw_alive ?w = 1" "uw_failed ?w = 0" by (simp_all add: no_update_def)
  moreover from one_update_at_a_time[OF r] w have "fst (getOsUpdateStatus (uw_job ?w))" by blast
  moreover have "\<not> fst (runOsUpdate 9 (uw_job ?w))" by (simp add: runOsUpdate_def)
  ultimately show ?thesis by blast
qed

text \<open>
  After one failed start its close can come while a second update runs: the page then says that none is running, and a third
  one starts beside the second.
\<close>

theorem late_close_admits_second_update:
  "\<exists>w. update_step\<^sup>*\<^sup>* no_update w \<and> uw_alive w = 1 \<and> \<not> fst (getOsUpdateStatus (uw_job w))
     \<and> (\<exists>v. update_step w v \<and> uw_alive v = 2)"
proof -
  define j where "j = \<lparr>uj_running = True, uj_lines = [], uj_exitCode = None, uj_startedAt = 5\<rparr>"
  define a where "a = \<lparr>uw_job = Some j, uw_alive = 0, uw_failing = 1, uw_closing = 0, uw_failed = 1\<rparr>"
  define b where "b = \<lparr>uw_job = Some (update_error ''spawn sudo EAGAIN'' j), uw_alive = 0, uw_failing = 0, uw_closing = 1, uw_failed = 1\<rparr>"
  define c where "c = \<lparr>uw_job = Some j, uw_alive = 1, uw_failing = 0, uw_closing = 1, uw_failed = 1\<rparr>"
  define d where "d = \<lparr>uw_job = Some (update_closed (Some (-2)) j), uw_alive = 1, uw_failing = 0, uw_closing = 0, uw_failed = 1\<rparr>"
  define e where "e = \<lparr>uw_job = Some j, uw_alive = 2, uw_failing = 0, uw_closing = 0, uw_failed = 1\<rparr>"
  note defs = a_def b_def c_def d_def e_def
  have "runOsUpdate 5 (uw_job no_update) = (True, Some j)" by (simp add: no_update_def first_update j_def)
  from us_run_fails[OF this] have 1: "update_step no_update a" by (simp add: defs no_update_def)
  have "uw_failing a = Suc 0" by (simp add: defs)
  from us_error[OF this, of "''spawn sudo EAGAIN''"] have 2: "update_step a b" by (simp add: defs)
  have "runOsUpdate 5 (uw_job b) = (True, Some j)" by (simp add: defs runOsUpdate_def update_error_def j_def)
  from us_run[OF this] have 3: "update_step b c" by (simp add: defs)
  have "uw_closing c = Suc 0" by (simp add: defs)
  from us_late_close[OF this, of "Some (-2)"] have 4: "update_step c d" by (simp add: defs)
  have "runOsUpdate 5 (uw_job d) = (True, Some j)" by (simp add: defs runOsUpdate_def update_closed_def j_def)
  from us_run[OF this] have 5: "update_step d e" by (simp add: defs numeral_2_eq_2)
  from 1 2 3 4 have "update_step\<^sup>*\<^sup>* no_update d" by (meson rtranclp.rtrancl_into_rtrancl rtranclp.rtrancl_refl)
  moreover have "uw_alive d = 1" "\<not> fst (getOsUpdateStatus (uw_job d))" "uw_alive e = 2"
    by (simp_all add: defs getOsUpdateStatus_def update_closed_def)
  ultimately show ?thesis using 5 by blast
qed

end
