(* ===== verification/HostMetrics.thy ===== *)
theory HostMetrics
  imports Host
begin

text \<open>
  The load of the host (\<open>admin/host-metrics.service.ts\<close>), the place of an address (\<open>geoip/geoip.service.ts\<close>), and the
  answer to an exception (\<open>common/filters/global-exception.filter.ts\<close>). The files under \<open>/proc\<close> and the database of
  places are arguments.
\<close>

section \<open>Reading the counters\<close>

text \<open>
  \<open>Number(x) || 0\<close>. Of the notations \<open>Number\<close> reads these are the digits, which is all the kernel prints there;
  a missing field gives zero.
\<close>

definition number_or_zero :: "string \<Rightarrow> int" where
  "number_or_zero t = (if list_all is_digit t then digits_val t else 0)"

definition field_number :: "string list \<Rightarrow> nat \<Rightarrow> int" where
  "field_number fs i = (if i < length fs then number_or_zero (fs ! i) else 0)"

definition VIRTUAL_PREFIXES :: "string list" where
  "VIRTUAL_PREFIXES = [''docker'', ''br-'', ''veth'', ''virbr'', ''tap'', ''tun'']"

record net_counters =
  nc_rx :: int
  nc_tx :: int
  nc_at :: time

record cpu_counters =
  cc_idle :: int
  cc_total :: int

definition net_line :: "string \<Rightarrow> (int \<times> int) option" where
  "net_line line = (case split_on (CHR '':'') line of
     namePart # rest # _ \<Rightarrow>
       let name = js_trim namePart; fs = split_space (js_trim rest) in
       if rest = [] \<or> name = [] \<or> name = ''lo'' \<or> list_ex (\<lambda>p. starts_with p name) VIRTUAL_PREFIXES then None
       else Some (field_number fs 0, field_number fs 8)
   | _ \<Rightarrow> None)"

definition readNet :: "time \<Rightarrow> string option \<Rightarrow> net_counters option" where
  "readNet now raw = map_option (\<lambda>t.
     let fs = List.map_filter net_line (drop 2 (split_on (CHR 0x0A) t))
     in \<lparr>nc_rx = sum_list (map fst fs), nc_tx = sum_list (map snd fs), nc_at = now\<rparr>) raw"

definition readCpu :: "string option \<Rightarrow> cpu_counters option" where
  "readCpu raw = (case raw of None \<Rightarrow> None
   | Some t \<Rightarrow> map_option (\<lambda>line.
       let f = map number_or_zero (tl (split_space (js_trim line)));
           jiffies = (\<lambda>i. if i < length f then f ! i else 0)
       in \<lparr>cc_idle = jiffies 3 + jiffies 4, cc_total = sum_list f\<rparr>) (find (starts_with ''cpu '') (split_on (CHR 0x0A) t)))"

text \<open>The port 21117 as \<open>/proc/net/tcp\<close> writes it, and the mark of an established connection.\<close>

definition RELAY_PORT_HEX :: string where "RELAY_PORT_HEX = ''527D''"
definition TCP_ESTABLISHED :: string where "TCP_ESTABLISHED = ''01''"

definition relay_line :: "string \<Rightarrow> bool" where
  "relay_line line = (let c = split_space (js_trim line) in
     4 \<le> length c \<and> (case split_on (CHR '':'') (c ! 1) of _ # p # _ \<Rightarrow> p = RELAY_PORT_HEX | _ \<Rightarrow> False) \<and> c ! 3 = TCP_ESTABLISHED)"

definition readRelay :: "string option list \<Rightarrow> nat \<times> nat" where
  "readRelay files = (let n = sum_list (map (\<lambda>raw. case raw of None \<Rightarrow> 0
       | Some t \<Rightarrow> length (filter relay_line (tl (split_on (CHR 0x0A) t)))) files)
     in (n, n div 2))"

section \<open>Sampling\<close>

definition HISTORY :: nat where "HISTORY = 30"
definition SAMPLE_MS :: int where "SAMPLE_MS = 2000"

type_synonym load_point = "rat \<times> rat \<times> rat"

record sampler =
  sm_lastNet :: "net_counters option"
  sm_lastCpu :: "cpu_counters option"
  sm_rxBps :: rat
  sm_txBps :: rat
  sm_cpuPercent :: rat
  sm_history :: "load_point list"

text \<open>What a sample reads: the time, \<open>/proc/net/dev\<close> and \<open>/proc/stat\<close>.\<close>

type_synonym proc_files = "time \<times> string option \<times> string option"

definition prime :: "proc_files \<Rightarrow> sampler" where
  "prime r = (case r of (now, net, stat) \<Rightarrow> \<lparr>sm_lastNet = readNet now net, sm_lastCpu = readCpu stat, sm_rxBps = 0, sm_txBps = 0,
     sm_cpuPercent = 0, sm_history = []\<rparr>)"

definition per_second :: "int \<Rightarrow> int \<Rightarrow> int \<Rightarrow> rat" where
  "per_second now before dt = max 0 (of_int (now - before) / (of_int dt / 1000))"

definition sample_net :: "net_counters option \<Rightarrow> sampler \<Rightarrow> sampler" where
  "sample_net net s = (case net of
     None \<Rightarrow> s
   | Some n \<Rightarrow> (case sm_lastNet s of
       None \<Rightarrow> s
     | Some l \<Rightarrow> let dt = nc_at n - nc_at l in
         if dt > 0 then s\<lparr>sm_rxBps := per_second (nc_rx n) (nc_rx l) dt, sm_txBps := per_second (nc_tx n) (nc_tx l) dt\<rparr> else s)
       \<lparr>sm_lastNet := net\<rparr>)"

definition sample_cpu :: "cpu_counters option \<Rightarrow> sampler \<Rightarrow> sampler" where
  "sample_cpu cpu s = (case cpu of
     None \<Rightarrow> s
   | Some c \<Rightarrow> (case sm_lastCpu s of
       None \<Rightarrow> s
     | Some l \<Rightarrow> let dTotal = cc_total c - cc_total l; dIdle = cc_idle c - cc_idle l in
         if dTotal > 0 then s\<lparr>sm_cpuPercent := min 100 (max 0 (of_int (dTotal - dIdle) / of_int dTotal * 100))\<rparr> else s)
       \<lparr>sm_lastCpu := cpu\<rparr>)"

definition push_history :: "sampler \<Rightarrow> sampler" where
  "push_history s = (let h = sm_history s @ [(sm_rxBps s, sm_txBps s, sm_cpuPercent s)] in
     s\<lparr>sm_history := (if length h > HISTORY then tl h else h)\<rparr>)"

definition sample :: "proc_files \<Rightarrow> sampler \<Rightarrow> sampler" where
  "sample r s = (case r of (now, net, stat) \<Rightarrow> push_history (sample_cpu (readCpu stat) (sample_net (readNet now net) s)))"

definition js_round :: "rat \<Rightarrow> int" where "js_round x = \<lfloor>x + 1 / 2\<rfloor>"

record load_view =
  lv_percent :: int
  lv_rx :: int
  lv_tx :: int
  lv_history :: "(int \<times> int \<times> int) list"
  lv_relay :: "nat \<times> nat"

definition snapshot :: "string option list \<Rightarrow> sampler \<Rightarrow> load_view" where
  "snapshot tcp s = \<lparr>lv_percent = js_round (sm_cpuPercent s), lv_rx = js_round (sm_rxBps s), lv_tx = js_round (sm_txBps s),
     lv_history = map (\<lambda>(r, t, c). (js_round r, js_round t, js_round c)) (sm_history s), lv_relay = readRelay tcp\<rparr>"

section \<open>Places\<close>

record geo_record =
  gr_location :: "(rat \<times> rat) option"
  gr_city :: "string option"
  gr_region :: "string option"
  gr_country :: "string option"
  gr_registered :: "string option"
  gr_countryName :: "string option"

record geo_location =
  gl_place :: "rat \<times> rat"
  gl_city :: "string option"
  gl_region :: "string option"
  gl_country :: string
  gl_countryName :: "string option"
  gl_exact :: bool

text \<open>A prefix, then a number without leading zero between the bounds, then a dot.\<close>

definition octet_after :: "string \<Rightarrow> int \<Rightarrow> int \<Rightarrow> string \<Rightarrow> bool" where
  "octet_after prefix lo hi ip = (starts_with prefix ip \<and> (let r = drop (length prefix) ip; ds = takeWhile is_digit r in
     starts_with ''.'' (drop (length ds) r) \<and> (case ds of c # _ \<Rightarrow> c \<noteq> CHR ''0'' | [] \<Rightarrow> False) \<and> lo \<le> digits_val ds \<and> digits_val ds \<le> hi))"

definition unique_local :: "string \<Rightarrow> bool" where
  "unique_local ip = (case map lower ip of
     f # c # a # b # d # _ \<Rightarrow> f = CHR ''f'' \<and> (c = CHR ''c'' \<or> c = CHR ''d'') \<and> any_hex a \<and> any_hex b \<and> d = CHR '':''
   | _ \<Rightarrow> False)"

definition isPrivate :: "string \<Rightarrow> bool" where
  "isPrivate ip = (starts_with ''10.'' ip \<or> starts_with ''192.168.'' ip \<or> octet_after ''172.'' 16 31 ip \<or> starts_with ''127.'' ip
     \<or> starts_with ''169.254.'' ip \<or> octet_after ''100.'' 64 127 ip \<or> ip = ''::1'' \<or> unique_local ip)"

definition unmapped :: "string \<Rightarrow> string" where
  "unmapped ip = (if starts_with ''::ffff:'' (map lower ip) then drop 7 ip else ip)"

definition trimmed_or_null :: "string option \<Rightarrow> string option" where
  "trimmed_or_null t = or_null (map_option js_trim t)"

text \<open>The reader: \<open>None\<close> when no database is loaded; its answer is \<open>None\<close> when it throws or finds nothing.\<close>

definition geo_lookup :: "(string \<Rightarrow> geo_record option) option \<Rightarrow> string option \<Rightarrow> geo_location option" where
  "geo_lookup reader ip = (case reader of
     None \<Rightarrow> None
   | Some get \<Rightarrow>
       if \<not> truthy ip then None
       else let addr = js_trim (unmapped (the ip)) in
         if addr = [] \<or> isPrivate addr then None
         else (case get addr of
             None \<Rightarrow> None
           | Some r \<Rightarrow> (case gr_location r of
               None \<Rightarrow> None
             | Some place \<Rightarrow>
                 let city = trimmed_or_null (gr_city r); country = (case gr_country r of Some c \<Rightarrow> Some c | None \<Rightarrow> gr_registered r) in
                 if \<not> truthy country then None
                 else Some \<lparr>gl_place = place, gl_city = city, gl_region = trimmed_or_null (gr_region r), gl_country = the country,
                        gl_countryName = gr_countryName r, gl_exact = (city \<noteq> None)\<rparr>)))"

section \<open>Exceptions\<close>

datatype exception_body = BodyText string | BodyFields json
datatype thrown = HttpError int exception_body | PrismaError string | AnyError

record error_view =
  ev_status :: int
  ev_code :: json
  ev_message :: json
  ev_action :: "string option"

fun statusToCode :: "int \<Rightarrow> string" where
  "statusToCode s = (case map_of [(400, ''BAD_REQUEST''), (401, ''UNAUTHORIZED''), (403, ''FORBIDDEN''), (404, ''NOT_FOUND''),
     (409, ''CONFLICT''), (422, ''UNPROCESSABLE''), (429, ''TOO_MANY_REQUESTS''), (500, ''INTERNAL_ERROR'')] s of
       None \<Rightarrow> ''ERROR'' | Some c \<Rightarrow> c)"

definition small_letter :: "char \<Rightarrow> bool" where "small_letter c = (97 \<le> (of_char c :: nat) \<and> (of_char c :: nat) \<le> 122)"

definition action_name :: "string \<Rightarrow> bool" where
  "action_name a = (case split_on (CHR ''.'') a of
     [x, y] \<Rightarrow> x \<noteq> [] \<and> y \<noteq> [] \<and> list_all small_letter x \<and> list_all small_letter y
   | _ \<Rightarrow> False)"

text \<open>Messages of an array are strings, which is what the validation pipe gives.\<close>

definition shown_message :: "json \<Rightarrow> json" where
  "shown_message m = (case m of
     JArr xs \<Rightarrow> JStr (join_with ''; '' (map json_str xs))
   | _ \<Rightarrow> if json_nullish m then JStr ''Internal server error'' else m)"

definition catch_exception :: "thrown \<Rightarrow> error_view" where
  "catch_exception e = (case e of
     HttpError status (BodyText t) \<Rightarrow> \<lparr>ev_status = status, ev_code = JStr ''INTERNAL_ERROR'', ev_message = JStr t, ev_action = None\<rparr>
   | HttpError status (BodyFields r) \<Rightarrow>
       \<lparr>ev_status = status,
        ev_code = (if json_nullish (json_get r ''code'') then JStr (statusToCode status) else json_get r ''code''),
        ev_message = shown_message (json_get r ''message''),
        ev_action = (case json_get r ''action'' of JStr a \<Rightarrow> if action_name a then Some a else None | _ \<Rightarrow> None)\<rparr>
   | PrismaError c \<Rightarrow>
       if c = ''P2002'' then \<lparr>ev_status = 409, ev_code = JStr ''CONFLICT'', ev_message = JStr ''A record with this value already exists'', ev_action = None\<rparr>
       else if c = ''P2025'' then \<lparr>ev_status = 404, ev_code = JStr ''NOT_FOUND'', ev_message = JStr ''Record not found'', ev_action = None\<rparr>
       else \<lparr>ev_status = 500, ev_code = JStr ''INTERNAL_ERROR'', ev_message = JStr ''Internal server error'', ev_action = None\<rparr>
   | AnyError \<Rightarrow> \<lparr>ev_status = 500, ev_code = JStr ''INTERNAL_ERROR'', ev_message = JStr ''Internal server error'', ev_action = None\<rparr>)"

section \<open>Properties\<close>

definition in_range :: "load_point \<Rightarrow> bool" where
  "in_range p = (case p of (r, t, c) \<Rightarrow> 0 \<le> r \<and> 0 \<le> t \<and> 0 \<le> c \<and> c \<le> 100)"

definition sampler_ok :: "sampler \<Rightarrow> bool" where
  "sampler_ok s = (in_range (sm_rxBps s, sm_txBps s, sm_cpuPercent s) \<and> length (sm_history s) \<le> HISTORY \<and> list_all in_range (sm_history s))"

lemma sample_net_ok: "sampler_ok s \<Longrightarrow> sampler_ok (sample_net net s)"
  by (simp add: sampler_ok_def in_range_def sample_net_def per_second_def Let_def split: option.split)

lemma sample_cpu_ok: "sampler_ok s \<Longrightarrow> sampler_ok (sample_cpu cpu s)"
  by (simp add: sampler_ok_def in_range_def sample_cpu_def Let_def split: option.split)

lemma push_history_ok: "sampler_ok s \<Longrightarrow> sampler_ok (push_history s)"
  by (cases "sm_history s") (auto simp: sampler_ok_def push_history_def Let_def HISTORY_def)

lemma sample_ok: "sampler_ok s \<Longrightarrow> sampler_ok (sample r s)"
  by (cases r) (simp add: sample_def push_history_ok sample_cpu_ok sample_net_ok)

lemma samples_ok: "sampler_ok s \<Longrightarrow> sampler_ok (fold sample rs s)"
  by (induction rs arbitrary: s) (simp_all add: sample_ok)

text \<open>
  Whatever the files of the host say and however their counters jump or wrap, after any number of samples the load is
  between 0 and 100 percent, no rate is negative, and the history holds at most thirty points, all of them in range.
\<close>

theorem load_stays_in_range:
  "sampler_ok (fold sample rs (prime r))"
proof (rule samples_ok)
  show "sampler_ok (prime r)" by (cases r) (simp add: prime_def sampler_ok_def in_range_def)
qed

text \<open>What the dashboard is told is in range as well.\<close>

lemma snapshot_in_range:
  assumes "sampler_ok s"
  shows "0 \<le> lv_percent (snapshot tcp s) \<and> lv_percent (snapshot tcp s) \<le> 100 \<and> length (lv_history (snapshot tcp s)) \<le> HISTORY"
proof -
  have "0 \<le> sm_cpuPercent s" "sm_cpuPercent s \<le> 100" using assms by (simp_all add: sampler_ok_def in_range_def)
  then have "0 \<le> \<lfloor>sm_cpuPercent s + 1 / 2\<rfloor>" "\<lfloor>sm_cpuPercent s + 1 / 2\<rfloor> \<le> 100" by linarith+
  then show ?thesis using assms by (simp add: snapshot_def js_round_def sampler_ok_def)
qed

text \<open>A counter that wrapped gives no rate, and loopback is no traffic.\<close>

lemma wrapped_counter_is_no_rate: "now \<le> before \<Longrightarrow> 0 < dt \<Longrightarrow> per_second now before dt = 0"
  by (simp add: per_second_def divide_nonpos_pos)

lemma loopback_is_no_traffic: "net_line ''    lo: 100 1 0 0 0 0 0 0 200 2'' = None"
  by code_simp

text \<open>A place is exact only with a city, and a private address has none.\<close>

lemma private_has_no_place: "isPrivate (js_trim (unmapped ip)) \<Longrightarrow> geo_lookup reader (Some ip) = None"
  by (simp add: geo_lookup_def Let_def split: option.split)

lemma exact_needs_city: "geo_lookup reader ip = Some l \<Longrightarrow> gl_exact l \<longleftrightarrow> gl_city l \<noteq> None"
  by (auto simp: geo_lookup_def Let_def split: option.splits if_splits)

text \<open>The check of private addresses names link-local ones, but those of IPv6 pass.\<close>

theorem link_local_is_looked_up: "\<not> isPrivate ''fe80::1'' \<and> isPrivate ''169.254.10.1''"
  by (rule conjI; code_simp)

text \<open>An exception that is none of the framework tells the client nothing about itself.\<close>

lemma unexpected_error_is_opaque:
  "catch_exception AnyError = \<lparr>ev_status = 500, ev_code = JStr ''INTERNAL_ERROR'', ev_message = JStr ''Internal server error'', ev_action = None\<rparr>"
  by (simp add: catch_exception_def)

lemma action_is_short_identifier:
  "ev_action (catch_exception e) = Some a \<Longrightarrow> action_name a"
  by (auto simp: catch_exception_def split: thrown.splits exception_body.splits json.splits if_splits)

text \<open>A refusal whose body is a text, as that of the rate limit, is reported with the code of an internal error.\<close>

theorem rate_limit_reported_as_internal:
  "ev_code (catch_exception (HttpError 429 (BodyText t))) = JStr ''INTERNAL_ERROR'' \<and> statusToCode 429 = ''TOO_MANY_REQUESTS''"
  by (simp add: catch_exception_def)

end
