(* ===== verification/Routes.thy ===== *)
theory Routes
  imports Identity ApiKeys StepUp
begin

text \<open>
  The routes of the server with their decorators (\<open>*.controller.ts\<close>), and the chain of guards a request passes before a
  handler runs (\<open>app.module.ts\<close>): the token, the permissions, the capabilities, the guards of the controller and of the
  route, and then the checks a handler makes itself, that the caller is a platform admin and that a recent proof of
  identity is at hand. What a handler does after that, with the scope it asks for, belongs to the theory of its service.
\<close>

section \<open>Routes\<close>

datatype http_method = GET | POST | PATCH | DELETE | PUT

datatype guard = JwtG | PermissionsG | CapabilitiesG | AdminG | KeyG

datatype handler_check = Operator | StepUp string

record route =
  rt_method :: http_method
  rt_paths :: "string list"
  rt_handler :: string
  rt_public :: bool
  rt_permissions :: "string list option"
  rt_capabilities :: "capability list option"
  rt_guards :: "guard list"
  rt_scopes :: "string list option"
  rt_checks :: "handler_check list"
  rt_limit :: "nat option"

definition endpoint :: "http_method \<Rightarrow> string list \<Rightarrow> string \<Rightarrow> route" where
  "endpoint m paths handler = \<lparr>rt_method = m, rt_paths = paths, rt_handler = handler, rt_public = False, rt_permissions = None,
     rt_capabilities = None, rt_guards = [], rt_scopes = None, rt_checks = [], rt_limit = None\<rparr>"

definition join_path :: "string \<Rightarrow> string \<Rightarrow> string" where
  "join_path a b = (if a = [] then b else if b = [] then a else a @ ''/'' @ b)"

text \<open>The routes of a controller: its prefixes before every path, its guards before those of the route.\<close>

definition under :: "string list \<Rightarrow> guard list \<Rightarrow> route list \<Rightarrow> route list" where
  "under prefixes guards rs = map (\<lambda>r. r\<lparr>rt_paths := concat (map (\<lambda>p. map (join_path p) (rt_paths r)) prefixes),
     rt_guards := guards @ rt_guards r\<rparr>) rs"

section \<open>The chain of guards\<close>

text \<open>
  A caller: what the token strategy says of the request, what the key guard says of its key for a list of scopes, and
  whether a recent proof of identity is accepted for an action.
\<close>

record caller =
  cl_token :: "jwt_payload result"
  cl_key :: "string list option \<Rightarrow> jwt_payload result"
  cl_proof :: "jwt_payload option \<Rightarrow> string \<Rightarrow> unit result"

fun run_guard :: "caller \<Rightarrow> route \<Rightarrow> guard \<Rightarrow> jwt_payload option \<Rightarrow> jwt_payload option result" where
  "run_guard c r JwtG user = (if rt_public r then Inr user else map_sum id Some (cl_token c))"
| "run_guard c r PermissionsG user = map_sum id (\<lambda>_. user) (permissions_guard (rt_permissions r) user)"
| "run_guard c r CapabilitiesG user = map_sum id (\<lambda>_. user) (capabilities_guard (rt_capabilities r) user)"
| "run_guard c r AdminG user = map_sum id (\<lambda>_. user) (platform_admin_guard user)"
| "run_guard c r KeyG user = map_sum id Some (cl_key c (rt_scopes r))"

fun run_guards :: "caller \<Rightarrow> route \<Rightarrow> guard list \<Rightarrow> jwt_payload option \<Rightarrow> jwt_payload option result" where
  "run_guards c r [] user = Inr user"
| "run_guards c r (g # gs) user = (case run_guard c r g user of Inl e \<Rightarrow> Inl e | Inr u \<Rightarrow> run_guards c r gs u)"

fun run_check :: "caller \<Rightarrow> jwt_payload option \<Rightarrow> handler_check \<Rightarrow> unit result" where
  "run_check c user Operator = platform_admin_guard user"
| "run_check c user (StepUp action) = cl_proof c user action"

fun run_checks :: "caller \<Rightarrow> jwt_payload option \<Rightarrow> handler_check list \<Rightarrow> unit result" where
  "run_checks c user [] = Inr ()"
| "run_checks c user (k # ks) = (case run_check c user k of Inl e \<Rightarrow> Inl e | Inr _ \<Rightarrow> run_checks c user ks)"

text \<open>The guards of the module come first. The answer is who the handler sees.\<close>

definition APP_GUARDS :: "guard list" where "APP_GUARDS = [JwtG, PermissionsG, CapabilitiesG]"

definition admit :: "caller \<Rightarrow> route \<Rightarrow> jwt_payload option result" where
  "admit c r = (case run_guards c r (APP_GUARDS @ rt_guards r) None of
     Inl e \<Rightarrow> Inl e
   | Inr user \<Rightarrow> (case run_checks c user (rt_checks r) of Inl e \<Rightarrow> Inl e | Inr _ \<Rightarrow> Inr user))"

definition THROTTLER_MAIN_LIMIT :: nat where "THROTTLER_MAIN_LIMIT = 300"

definition rate_limit :: "route \<Rightarrow> nat" where "rate_limit r = given_or (rt_limit r) THROTTLER_MAIN_LIMIT"

section \<open>The table\<close>

definition AdminController_routes :: "route list" where
  "AdminController_routes = under [''admin''] [JwtG] [
      (endpoint GET [''status''] ''getStatus'')\<lparr>rt_checks := [Operator]\<rparr>,
      (endpoint GET [''platform-settings''] ''getPlatformSettings'')\<lparr>rt_checks := [Operator]\<rparr>,
      (endpoint PATCH [''platform-settings''] ''updatePlatformSettings'')\<lparr>rt_checks := [Operator]\<rparr>,
      (endpoint GET [''unassigned-devices''] ''listUnassigned'')\<lparr>rt_checks := [Operator]\<rparr>,
      (endpoint POST [''unassigned-devices/:id/assign''] ''assignDevice'')\<lparr>rt_checks := [Operator]\<rparr>,
      endpoint GET [''search''] ''search'']"

definition RolloutsController_routes :: "route list" where
  "RolloutsController_routes = under [''admin/rollouts''] [JwtG, AdminG] [
      endpoint GET [[]] ''list'',
      endpoint POST [[]] ''create'',
      endpoint GET [''pilot-groups''] ''pilotGroups'',
      endpoint POST [''pilot-groups''] ''savePilotGroup'',
      endpoint GET [''pin''] ''pin'',
      endpoint PATCH [''pin''] ''setPin'',
      endpoint GET [''endpoints/:endpointId/history''] ''history'',
      endpoint POST [''jobs/:jobId/cancel''] ''cancelJob'',
      endpoint GET ['':id''] ''detail'',
      endpoint POST ['':id/start''] ''start'',
      endpoint POST ['':id/pause''] ''pause'',
      endpoint POST ['':id/cancel''] ''cancel'']"

definition SecurityController_routes :: "route list" where
  "SecurityController_routes = under [''admin/security''] [JwtG] [
      (endpoint GET [''config''] ''getConfig'')\<lparr>rt_checks := [Operator]\<rparr>,
      (endpoint PATCH [''config''] ''updateConfig'')\<lparr>rt_checks := [Operator]\<rparr>,
      (endpoint GET [''fail2ban''] ''getFail2ban'')\<lparr>rt_checks := [Operator]\<rparr>,
      (endpoint POST [''fail2ban/unban''] ''unbanIp'')\<lparr>rt_checks := [Operator]\<rparr>,
      (endpoint POST [''fail2ban/ban''] ''banIp'')\<lparr>rt_checks := [Operator]\<rparr>,
      (endpoint GET [''fail2ban/ignore''] ''getIgnoreList'')\<lparr>rt_checks := [Operator]\<rparr>,
      (endpoint POST [''fail2ban/ignore''] ''addIgnoreIp'')\<lparr>rt_checks := [Operator]\<rparr>,
      (endpoint DELETE [''fail2ban/ignore/:ip''] ''removeIgnoreIp'')\<lparr>rt_checks := [Operator]\<rparr>,
      (endpoint GET [''fail2ban/jail/:jail/config''] ''getJailConfig'')\<lparr>rt_checks := [Operator]\<rparr>,
      (endpoint PATCH [''fail2ban/jail/:jail/config''] ''updateJailConfig'')\<lparr>rt_checks := [Operator]\<rparr>,
      (endpoint POST [''fail2ban/install''] ''installFail2ban'')\<lparr>rt_checks := [Operator]\<rparr>,
      (endpoint GET [''os-updates''] ''getOsUpdates'')\<lparr>rt_checks := [Operator]\<rparr>,
      (endpoint POST [''os-updates/run''] ''runOsUpdate'')\<lparr>rt_checks := [Operator]\<rparr>,
      (endpoint GET [''os-updates/status''] ''getOsUpdateStatus'')\<lparr>rt_checks := [Operator]\<rparr>,
      (endpoint GET [''audit''] ''runAudit'')\<lparr>rt_checks := [Operator]\<rparr>,
      (endpoint POST [''audit/fix''] ''runAuditFix'')\<lparr>rt_checks := [Operator]\<rparr>,
      (endpoint GET [''tls''] ''getTls'')\<lparr>rt_checks := [Operator]\<rparr>,
      (endpoint POST [''tls/renew''] ''renewTls'')\<lparr>rt_checks := [Operator]\<rparr>]"

definition UpdateController_routes :: "route list" where
  "UpdateController_routes = under [''admin/update''] [JwtG] [
      endpoint GET [''app-version''] ''appVersion'',
      (endpoint GET [''version''] ''getVersion'')\<lparr>rt_checks := [Operator]\<rparr>,
      (endpoint GET [''check''] ''checkUpdate'')\<lparr>rt_checks := [Operator]\<rparr>,
      (endpoint GET [''changelog''] ''getChangelog'')\<lparr>rt_checks := [Operator]\<rparr>,
      (endpoint GET [''progress''] ''streamProgress'')\<lparr>rt_checks := [Operator]\<rparr>,
      (endpoint GET [''rustdesk-server''] ''rustdeskServerStatus'')\<lparr>rt_checks := [Operator]\<rparr>,
      (endpoint POST [''rustdesk-server''] ''updateRustdeskServer'')\<lparr>rt_checks := [Operator]\<rparr>,
      (endpoint GET [''rustdesk''] ''rustdeskStatus'')\<lparr>rt_checks := [Operator]\<rparr>,
      (endpoint POST [''rustdesk''] ''requestRustdeskUpdate'')\<lparr>rt_checks := [Operator]\<rparr>,
      (endpoint POST [''rustdesk/:endpointId/cancel''] ''cancelRustdeskUpdate'')\<lparr>rt_checks := [Operator]\<rparr>]"

definition ApiKeysController_routes :: "route list" where
  "ApiKeysController_routes = under [''apikeys''] [JwtG, PermissionsG] [
      (endpoint GET [[]] ''list'')\<lparr>rt_permissions := Some [''api_keys:read'']\<rparr>,
      (endpoint POST [[]] ''create'')\<lparr>rt_permissions := Some [''api_keys:write'']\<rparr>,
      (endpoint DELETE ['':id''] ''revoke'')\<lparr>rt_permissions := Some [''api_keys:write'']\<rparr>]"

definition AuditController_routes :: "route list" where
  "AuditController_routes = under [''audit''] [JwtG, PermissionsG] [
      (endpoint GET [[]] ''getLogs'')\<lparr>rt_capabilities := Some [CAP_AUDIT_VIEW]\<rparr>]"

definition AuthController_routes :: "route list" where
  "AuthController_routes = under [''auth''] [] [
      (endpoint POST [''login''] ''login'')\<lparr>rt_public := True, rt_limit := Some 10\<rparr>,
      (endpoint POST [''mfa/verify''] ''verifyMfa'')\<lparr>rt_public := True, rt_limit := Some 10\<rparr>,
      (endpoint GET [''me''] ''me'')\<lparr>rt_guards := [JwtG, JwtG]\<rparr>,
      (endpoint GET [''profile''] ''profile'')\<lparr>rt_guards := [JwtG]\<rparr>,
      (endpoint PATCH [''profile''] ''updateProfile'')\<lparr>rt_guards := [JwtG]\<rparr>,
      (endpoint POST [''change-password''] ''changePassword'')\<lparr>rt_guards := [JwtG], rt_limit := Some 10\<rparr>,
      (endpoint POST [''logout''] ''logout'')\<lparr>rt_guards := [JwtG]\<rparr>,
      (endpoint POST [''step-up''] ''stepUpVerify'')\<lparr>rt_guards := [JwtG], rt_limit := Some 10\<rparr>,
      (endpoint GET [''step-up''] ''stepUpStatus'')\<lparr>rt_guards := [JwtG]\<rparr>]"

definition BusinessesController_routes :: "route list" where
  "BusinessesController_routes = under [''businesses'', ''customers''] [JwtG, PermissionsG, CapabilitiesG] [
      endpoint GET [''capability-catalog''] ''capabilityCatalog'',
      endpoint GET [[]] ''list'',
      endpoint GET ['':id''] ''get'',
      endpoint POST [[]] ''create'',
      endpoint PATCH ['':id''] ''update'',
      endpoint PATCH ['':id/archive''] ''archive'',
      endpoint DELETE ['':id''] ''remove'',
      (endpoint GET ['':id/users''] ''listUsers'')\<lparr>rt_capabilities := Some [CAP_USERS_VIEW]\<rparr>,
      (endpoint POST ['':id/users''] ''addUser'')\<lparr>rt_capabilities := Some [CAP_USERS_MANAGE]\<rparr>,
      (endpoint PATCH ['':id/users/:userId/capabilities''] ''setCapabilities'')\<lparr>rt_capabilities := Some [CAP_USERS_MANAGE]\<rparr>,
      (endpoint PATCH ['':id/users/:userId/active''] ''setActive'')\<lparr>rt_capabilities := Some [CAP_USERS_MANAGE]\<rparr>,
      (endpoint POST ['':id/users/:userId/reset-access''] ''resetAccess'')\<lparr>rt_capabilities := Some [CAP_USERS_MANAGE]\<rparr>,
      (endpoint DELETE ['':id/users/:userId''] ''removeUser'')\<lparr>rt_capabilities := Some [CAP_USERS_MANAGE]\<rparr>]"

definition DashboardController_routes :: "route list" where
  "DashboardController_routes = under [''dashboard''] [JwtG, CapabilitiesG] [
      endpoint GET [[]] ''getStats'',
      endpoint GET [''map''] ''getMap'',
      endpoint GET [''platform''] ''getPlatformStats'']"

definition DiagnosticsController_routes :: "route list" where
  "DiagnosticsController_routes = under [[]] [JwtG, CapabilitiesG] [
      (endpoint GET [''endpoints/:id/diagnostics''] ''run'')\<lparr>rt_capabilities := Some [CAP_COMPUTERS_VIEW]\<rparr>,
      (endpoint GET [''endpoints/:id/diagnostics/report''] ''report'')\<lparr>rt_capabilities := Some [CAP_COMPUTERS_VIEW]\<rparr>,
      (endpoint GET [''diagnostics/technician/helper.cmd''] ''helper'')\<lparr>rt_capabilities := Some [CAP_COMPUTERS_CONNECT]\<rparr>,
      (endpoint POST [''diagnostics/technician/report''] ''submit'')\<lparr>rt_public := True, rt_limit := Some 10\<rparr>,
      (endpoint GET [''diagnostics/technician/latest''] ''latest'')\<lparr>rt_capabilities := Some [CAP_COMPUTERS_CONNECT]\<rparr>]"

definition DownloadsController_routes :: "route list" where
  "DownloadsController_routes = under [''downloads''] [] [
      endpoint GET [[]] ''manifest'',
      endpoint GET [''rustdesk/plain''] ''plain'',
      endpoint GET [''rustdesk/configured''] ''configured'',
      endpoint GET [''rustdesk/setup.cmd''] ''setupCmd'']"

definition EndpointsController_routes :: "route list" where
  "EndpointsController_routes = under [''endpoints''] [JwtG, CapabilitiesG] [
      (endpoint GET [''connected''] ''connected'')\<lparr>rt_capabilities := Some [CAP_COMPUTERS_VIEW]\<rparr>,
      endpoint GET [''mine''] ''mine'',
      (endpoint POST ['':id/connect''] ''connect'')\<lparr>rt_capabilities := Some [CAP_COMPUTERS_CONNECT], rt_limit := Some 30\<rparr>,
      (endpoint GET ['':id/connect.cmd''] ''connectScript'')\<lparr>rt_capabilities := Some [CAP_COMPUTERS_CONNECT], rt_limit := Some 30\<rparr>,
      (endpoint POST [''grants/redeem''] ''redeemGrant'')\<lparr>rt_public := True, rt_limit := Some 60\<rparr>,
      (endpoint GET ['':id/access''] ''listAccess'')\<lparr>rt_capabilities := Some [CAP_USERS_VIEW]\<rparr>,
      (endpoint POST ['':id/access''] ''grantAccess'')\<lparr>rt_capabilities := Some [CAP_USERS_MANAGE]\<rparr>,
      (endpoint DELETE ['':id/access/:userId''] ''revokeAccess'')\<lparr>rt_capabilities := Some [CAP_USERS_MANAGE]\<rparr>,
      (endpoint PATCH ['':id/access-mode''] ''setAccessMode'')\<lparr>rt_capabilities := Some [CAP_COMPUTERS_EDIT]\<rparr>,
      (endpoint POST ['':id/rotate-credential''] ''rotateCredential'')\<lparr>rt_capabilities := Some [CAP_COMPUTERS_EDIT]\<rparr>,
      (endpoint GET ['':id/password''] ''getPassword'')\<lparr>rt_capabilities := Some [CAP_COMPUTERS_EDIT], rt_limit := Some 10,
        rt_checks := [StepUp ''credential.reveal'']\<rparr>,
      (endpoint PATCH ['':id/password''] ''setPassword'')\<lparr>rt_capabilities := Some [CAP_COMPUTERS_EDIT]\<rparr>,
      (endpoint GET [''trmm/resolve''] ''trmmResolve'')\<lparr>rt_capabilities := Some [CAP_COMPUTERS_VIEW], rt_limit := Some 60\<rparr>,
      (endpoint POST [''trmm/link''] ''trmmLink'')\<lparr>rt_capabilities := Some [CAP_COMPUTERS_EDIT], rt_limit := Some 30\<rparr>,
      (endpoint GET ['':id/inventory''] ''inventory'')\<lparr>rt_capabilities := Some [CAP_COMPUTERS_VIEW]\<rparr>,
      (endpoint POST ['':id/inventory/refresh''] ''refreshInventory'')\<lparr>rt_capabilities := Some [CAP_COMPUTERS_VIEW], rt_limit := Some 20\<rparr>,
      (endpoint POST ['':id/reinstall-agent''] ''reinstallAgent'')\<lparr>rt_capabilities := Some [CAP_COMPUTERS_EDIT], rt_limit := Some 10\<rparr>,
      (endpoint POST ['':id/accept-device-secret''] ''acceptDeviceSecret'')\<lparr>rt_capabilities := Some [CAP_COMPUTERS_EDIT],
        rt_limit := Some 10\<rparr>,
      (endpoint GET ['':id/event-log/latest''] ''latestEventLog'')\<lparr>rt_capabilities := Some [CAP_COMPUTERS_EVENT_LOGS]\<rparr>,
      (endpoint POST ['':id/event-log''] ''requestEventLog'')\<lparr>rt_capabilities := Some [CAP_COMPUTERS_EVENT_LOGS], rt_limit := Some 20\<rparr>,
      (endpoint GET ['':id/commands/:commandId''] ''command'')\<lparr>rt_capabilities := Some [CAP_COMPUTERS_VIEW]\<rparr>,
      (endpoint GET [[]] ''list'')\<lparr>rt_capabilities := Some [CAP_COMPUTERS_VIEW]\<rparr>,
      (endpoint GET ['':id''] ''get'')\<lparr>rt_capabilities := Some [CAP_COMPUTERS_VIEW]\<rparr>,
      (endpoint POST [[]] ''create'')\<lparr>rt_capabilities := Some [CAP_COMPUTERS_ADD]\<rparr>,
      (endpoint PATCH ['':id''] ''update'')\<lparr>rt_capabilities := Some [CAP_COMPUTERS_EDIT]\<rparr>,
      (endpoint PATCH ['':id/archive''] ''archive'')\<lparr>rt_capabilities := Some [CAP_COMPUTERS_REMOVE]\<rparr>,
      (endpoint PATCH ['':id/restore''] ''restore'')\<lparr>rt_capabilities := Some [CAP_COMPUTERS_REMOVE]\<rparr>,
      (endpoint POST ['':id/tags''] ''addTag'')\<lparr>rt_capabilities := Some [CAP_COMPUTERS_EDIT]\<rparr>,
      (endpoint DELETE ['':id/tags/:tag''] ''removeTag'')\<lparr>rt_capabilities := Some [CAP_COMPUTERS_EDIT]\<rparr>,
      (endpoint POST ['':id/aliases''] ''addAlias'')\<lparr>rt_capabilities := Some [CAP_COMPUTERS_EDIT]\<rparr>,
      (endpoint DELETE ['':id/aliases/:aliasId''] ''removeAlias'')\<lparr>rt_capabilities := Some [CAP_COMPUTERS_EDIT]\<rparr>,
      (endpoint POST ['':id/timeline/generate''] ''generateTimeline'')\<lparr>rt_capabilities := Some [CAP_COMPUTERS_EDIT]\<rparr>]"

definition EnrollmentController_routes :: "route list" where
  "EnrollmentController_routes = under [''enrollment''] [] [
      (endpoint GET [''tokens''] ''listTokens'')\<lparr>rt_capabilities := Some [CAP_COMPUTERS_VIEW], rt_guards := [JwtG, CapabilitiesG]\<rparr>,
      (endpoint POST [''tokens''] ''createToken'')\<lparr>rt_capabilities := Some [CAP_COMPUTERS_ADD], rt_guards := [JwtG, CapabilitiesG]\<rparr>,
      (endpoint DELETE [''tokens/:id''] ''revokeToken'')\<lparr>rt_capabilities := Some [CAP_COMPUTERS_REMOVE],
        rt_guards := [JwtG, CapabilitiesG]\<rparr>,
      (endpoint POST [''claim''] ''claimEndpoint'')\<lparr>rt_public := True, rt_limit := Some 10\<rparr>,
      (endpoint POST [''heartbeat''] ''heartbeat'')\<lparr>rt_public := True, rt_limit := Some 60\<rparr>,
      (endpoint POST [''command-result''] ''commandResult'')\<lparr>rt_public := True, rt_limit := Some 60\<rparr>,
      (endpoint POST [''confirm-rotation''] ''confirmRotation'')\<lparr>rt_public := True, rt_limit := Some 30\<rparr>]"

definition LauncherController_routes :: "route list" where
  "LauncherController_routes = under [''launcher''] [] [
      (endpoint POST [''token''] ''issueToken'')\<lparr>rt_capabilities := Some [CAP_COMPUTERS_CONNECT], rt_guards := [JwtG, CapabilitiesG]\<rparr>,
      (endpoint GET [''validate''] ''validateToken'')\<lparr>rt_public := True, rt_limit := Some 20\<rparr>,
      (endpoint PATCH [''token/:id/revoke''] ''revokeToken'')\<lparr>rt_capabilities := Some [CAP_COMPUTERS_CONNECT],
        rt_guards := [JwtG, CapabilitiesG]\<rparr>]"

definition MfaController_routes :: "route list" where
  "MfaController_routes = under [''mfa''] [JwtG] [
      endpoint GET [''status''] ''status'',
      endpoint POST [''totp/setup''] ''setupTotp'',
      (endpoint POST [''totp/confirm''] ''confirmTotp'')\<lparr>rt_limit := Some 10\<rparr>,
      (endpoint POST [''recovery/verify''] ''verifyRecovery'')\<lparr>rt_limit := Some 5\<rparr>,
      (endpoint DELETE [''totp''] ''disableTotp'')\<lparr>rt_limit := Some 5\<rparr>]"

definition NotesController_routes :: "route list" where
  "NotesController_routes = under [''notes''] [JwtG, CapabilitiesG] [
      (endpoint GET [[]] ''list'')\<lparr>rt_capabilities := Some [CAP_COMPUTERS_VIEW]\<rparr>,
      (endpoint POST [[]] ''create'')\<lparr>rt_capabilities := Some [CAP_COMPUTERS_EDIT]\<rparr>,
      (endpoint PATCH ['':id''] ''update'')\<lparr>rt_capabilities := Some [CAP_COMPUTERS_EDIT]\<rparr>,
      (endpoint DELETE ['':id''] ''delete'')\<lparr>rt_capabilities := Some [CAP_COMPUTERS_EDIT]\<rparr>,
      (endpoint POST ['':id/comments''] ''addComment'')\<lparr>rt_capabilities := Some [CAP_COMPUTERS_EDIT]\<rparr>]"

definition OffboardingController_routes :: "route list" where
  "OffboardingController_routes = under [[]] [JwtG, CapabilitiesG] [
      (endpoint GET [''endpoints/:id/access-review''] ''accessReview'')\<lparr>rt_capabilities := Some [CAP_COMPUTERS_VIEW]\<rparr>,
      endpoint GET [''offboarding/preview''] ''preview'',
      (endpoint GET [''offboarding/pending-rotations''] ''pendingRotations'')\<lparr>rt_capabilities := Some [CAP_COMPUTERS_VIEW]\<rparr>,
      endpoint GET [''offboarding''] ''list'',
      endpoint GET [''offboarding/:id''] ''get'',
      (endpoint POST [''offboarding''] ''execute'')\<lparr>rt_checks := [StepUp ''permissions.change'']\<rparr>]"

definition PasskeysController_routes :: "route list" where
  "PasskeysController_routes = under [''auth''] [] [
      endpoint GET [''passkeys''] ''list'',
      (endpoint POST [''passkeys/register/options''] ''registerOptions'')\<lparr>rt_limit := Some 10, rt_checks := [StepUp ''passkey.manage'']\<rparr>,
      (endpoint POST [''passkeys/register''] ''register'')\<lparr>rt_limit := Some 10, rt_checks := [StepUp ''passkey.manage'']\<rparr>,
      (endpoint DELETE [''passkeys/:id''] ''remove'')\<lparr>rt_checks := [StepUp ''passkey.manage'']\<rparr>,
      (endpoint POST [''passkeys/login/options''] ''loginOptions'')\<lparr>rt_public := True, rt_limit := Some 20\<rparr>,
      (endpoint POST [''passkeys/login''] ''login'')\<lparr>rt_public := True, rt_limit := Some 10\<rparr>,
      (endpoint POST [''step-up/passkey/options''] ''stepUpOptions'')\<lparr>rt_limit := Some 10\<rparr>,
      (endpoint POST [''step-up/passkey''] ''stepUpVerify'')\<lparr>rt_limit := Some 10\<rparr>]"

definition PublicAddressController_routes :: "route list" where
  "PublicAddressController_routes = under [''admin/public-address''] [] [
      (endpoint GET [[]] ''get'')\<lparr>rt_checks := [Operator]\<rparr>,
      (endpoint POST [''check''] ''check'')\<lparr>rt_limit := Some 10, rt_checks := [Operator]\<rparr>,
      (endpoint PUT [[]] ''set'')\<lparr>rt_limit := Some 30, rt_checks := [Operator, StepUp ''platform.configure'']\<rparr>]"

definition AddressProbeController_routes :: "route list" where
  "AddressProbeController_routes = under [''public/address-probe''] [] [
      (endpoint GET ['':nonce''] ''probe'')\<lparr>rt_public := True, rt_limit := Some 30\<rparr>]"

definition PublicApiController_routes :: "route list" where
  "PublicApiController_routes = under [''pub/v1''] [KeyG] [
      (endpoint GET [''whoami''] ''whoami'')\<lparr>rt_public := True, rt_limit := Some 300\<rparr>,
      (endpoint GET [''businesses'', ''companies''] ''listBusinesses'')\<lparr>rt_public := True, rt_scopes := Some [''companies:read''],
        rt_limit := Some 300\<rparr>,
      (endpoint GET [''businesses/:id'', ''companies/:id''] ''getBusiness'')\<lparr>rt_public := True, rt_scopes := Some [''companies:read''],
        rt_limit := Some 300\<rparr>,
      (endpoint POST [''businesses'', ''companies''] ''createBusiness'')\<lparr>rt_public := True, rt_scopes := Some [''companies:write''],
        rt_limit := Some 300\<rparr>,
      (endpoint GET [''users''] ''listUsers'')\<lparr>rt_public := True, rt_scopes := Some [''users:read''], rt_limit := Some 300\<rparr>,
      (endpoint POST [''users/invite''] ''inviteUser'')\<lparr>rt_public := True, rt_scopes := Some [''users:write''], rt_limit := Some 300\<rparr>,
      (endpoint GET [''computers''] ''listComputers'')\<lparr>rt_public := True, rt_scopes := Some [''computers:read''], rt_limit := Some 300\<rparr>,
      (endpoint GET [''computers/:id''] ''getComputer'')\<lparr>rt_public := True, rt_scopes := Some [''computers:read''], rt_limit := Some 300\<rparr>,
      (endpoint POST [''enrollment/tokens''] ''mintEnrollment'')\<lparr>rt_public := True, rt_scopes := Some [''enrollment:write''],
        rt_limit := Some 300\<rparr>,
      (endpoint GET [''enrollment/tokens''] ''listEnrollment'')\<lparr>rt_public := True, rt_scopes := Some [''enrollment:write''],
        rt_limit := Some 300\<rparr>]"

definition PublicController_routes :: "route list" where
  "PublicController_routes = under [''public''] [] [
      (endpoint GET [''rustdesk-config''] ''getRustdeskConfig'')\<lparr>rt_public := True\<rparr>,
      (endpoint GET [''install/win/:token''] ''getWindowsInstallScript'')\<lparr>rt_public := True\<rparr>,
      (endpoint GET [''install/linux/:token''] ''getLinuxInstallScript'')\<lparr>rt_public := True\<rparr>,
      (endpoint GET [''install/mac/:token''] ''getMacInstallScript'')\<lparr>rt_public := True\<rparr>,
      (endpoint GET [''install/:platform''] ''getInstallScript'')\<lparr>rt_public := True\<rparr>]"

definition QuickConnectPublicController_routes :: "route list" where
  "QuickConnectPublicController_routes = under [''public/quick-connect''] [] [
      (endpoint GET [[]] ''info'')\<lparr>rt_public := True\<rparr>,
      (endpoint GET [''download/:os''] ''download'')\<lparr>rt_public := True\<rparr>]"

definition QuickConnectController_routes :: "route list" where
  "QuickConnectController_routes = under [''quick-connect''] [JwtG, CapabilitiesG] [
      endpoint GET [''status''] ''status'',
      (endpoint POST [''connect''] ''connect'')\<lparr>rt_capabilities := Some [CAP_QUICK_CONNECT]\<rparr>,
      (endpoint POST [''sessions/:id/end''] ''end'')\<lparr>rt_capabilities := Some [CAP_QUICK_CONNECT]\<rparr>,
      (endpoint GET [''sessions''] ''sessions'')\<lparr>rt_capabilities := Some [CAP_QUICK_CONNECT]\<rparr>]"

definition SessionsController_routes :: "route list" where
  "SessionsController_routes = under [''sessions''] [JwtG, CapabilitiesG] [
      (endpoint POST [''telemetry''] ''telemetry'')\<lparr>rt_public := True, rt_limit := Some 30\<rparr>,
      (endpoint GET [[]] ''findAll'')\<lparr>rt_capabilities := Some [CAP_SESSIONS_VIEW]\<rparr>,
      (endpoint GET [''stats''] ''getStats'')\<lparr>rt_capabilities := Some [CAP_SESSIONS_VIEW]\<rparr>,
      (endpoint GET ['':id''] ''findOne'')\<lparr>rt_capabilities := Some [CAP_SESSIONS_VIEW]\<rparr>,
      (endpoint POST [[]] ''create'')\<lparr>rt_capabilities := Some [CAP_COMPUTERS_CONNECT]\<rparr>,
      (endpoint PATCH ['':id/complete''] ''complete'')\<lparr>rt_capabilities := Some [CAP_COMPUTERS_CONNECT]\<rparr>,
      (endpoint PATCH ['':id/cancel''] ''cancel'')\<lparr>rt_capabilities := Some [CAP_COMPUTERS_CONNECT]\<rparr>,
      (endpoint POST ['':id/events''] ''addEvent'')\<lparr>rt_capabilities := Some [CAP_COMPUTERS_CONNECT]\<rparr>]"

definition BusinessSitesController_routes :: "route list" where
  "BusinessSitesController_routes = under [''businesses/:businessId/sites'', ''customers/:businessId/sites''] [JwtG, CapabilitiesG] [
      (endpoint GET [[]] ''list'')\<lparr>rt_capabilities := Some [CAP_COMPUTERS_VIEW]\<rparr>,
      (endpoint GET ['':id''] ''get'')\<lparr>rt_capabilities := Some [CAP_COMPUTERS_VIEW]\<rparr>,
      (endpoint POST [[]] ''create'')\<lparr>rt_capabilities := Some [CAP_COMPUTERS_EDIT]\<rparr>,
      (endpoint PATCH ['':id''] ''update'')\<lparr>rt_capabilities := Some [CAP_COMPUTERS_EDIT]\<rparr>,
      (endpoint DELETE ['':id''] ''remove'')\<lparr>rt_capabilities := Some [CAP_COMPUTERS_REMOVE]\<rparr>]"

definition SitesController_routes :: "route list" where
  "SitesController_routes = under [''sites''] [JwtG, CapabilitiesG] [
      (endpoint GET [[]] ''list'')\<lparr>rt_capabilities := Some [CAP_COMPUTERS_VIEW]\<rparr>,
      (endpoint GET ['':id''] ''get'')\<lparr>rt_capabilities := Some [CAP_COMPUTERS_VIEW]\<rparr>,
      (endpoint PATCH ['':id''] ''update'')\<lparr>rt_capabilities := Some [CAP_COMPUTERS_EDIT]\<rparr>,
      (endpoint DELETE ['':id''] ''remove'')\<lparr>rt_capabilities := Some [CAP_COMPUTERS_REMOVE]\<rparr>]"

definition SsoAdminController_routes :: "route list" where
  "SsoAdminController_routes = under [''sso/providers''] [] [
      endpoint GET [[]] ''list'',
      (endpoint POST [[]] ''create'')\<lparr>rt_checks := [StepUp ''sso.configure'']\<rparr>,
      (endpoint PATCH ['':id''] ''update'')\<lparr>rt_checks := [StepUp ''sso.configure'']\<rparr>,
      (endpoint DELETE ['':id''] ''remove'')\<lparr>rt_checks := [StepUp ''sso.configure'']\<rparr>,
      (endpoint POST ['':id/test''] ''test'')\<lparr>rt_limit := Some 10\<rparr>,
      (endpoint POST ['':id/mappings''] ''addMapping'')\<lparr>rt_checks := [StepUp ''sso.configure'']\<rparr>,
      (endpoint DELETE ['':id/mappings/:mappingId''] ''removeMapping'')\<lparr>rt_checks := [StepUp ''sso.configure'']\<rparr>]"

definition SsoAuthController_routes :: "route list" where
  "SsoAuthController_routes = under [''auth/sso''] [] [
      (endpoint GET [''providers''] ''providers'')\<lparr>rt_public := True, rt_limit := Some 30\<rparr>,
      (endpoint GET ['':id/start''] ''start'')\<lparr>rt_public := True, rt_limit := Some 20\<rparr>,
      (endpoint GET [''callback''] ''callback'')\<lparr>rt_public := True, rt_limit := Some 20\<rparr>,
      (endpoint POST ['':id/link''] ''link'')\<lparr>rt_limit := Some 10, rt_checks := [StepUp ''sso.configure'']\<rparr>,
      endpoint GET [''identities''] ''identities'',
      (endpoint DELETE [''identities/:id''] ''unlink'')\<lparr>rt_checks := [StepUp ''sso.configure'']\<rparr>]"

definition SupportRequestsController_routes :: "route list" where
  "SupportRequestsController_routes = under [''support-requests''] [JwtG, CapabilitiesG] [
      endpoint GET [''intake''] ''getIntake'',
      endpoint PATCH [''intake''] ''setIntake'',
      (endpoint POST [[]] ''submit'')\<lparr>rt_limit := Some 10\<rparr>,
      (endpoint GET [[]] ''list'')\<lparr>rt_capabilities := Some [CAP_SUPPORT_REQUESTS]\<rparr>,
      (endpoint GET ['':id''] ''detail'')\<lparr>rt_capabilities := Some [CAP_SUPPORT_REQUESTS]\<rparr>,
      (endpoint GET ['':id/handoff-candidates''] ''candidates'')\<lparr>rt_capabilities := Some [CAP_SUPPORT_REQUESTS]\<rparr>,
      (endpoint POST ['':id/claim''] ''claim'')\<lparr>rt_capabilities := Some [CAP_SUPPORT_REQUESTS]\<rparr>,
      (endpoint POST ['':id/handoff''] ''handoff'')\<lparr>rt_capabilities := Some [CAP_SUPPORT_REQUESTS]\<rparr>,
      (endpoint POST ['':id/release''] ''release'')\<lparr>rt_capabilities := Some [CAP_SUPPORT_REQUESTS]\<rparr>,
      (endpoint POST ['':id/complete''] ''complete'')\<lparr>rt_capabilities := Some [CAP_SUPPORT_REQUESTS]\<rparr>,
      (endpoint POST ['':id/cancel''] ''cancel'')\<lparr>rt_capabilities := Some [CAP_SUPPORT_REQUESTS]\<rparr>]"

definition PublicSupportController_routes :: "route list" where
  "PublicSupportController_routes = under [''public/support''] [] [
      (endpoint GET [''intake/:slug''] ''intake'')\<lparr>rt_public := True, rt_limit := Some 30\<rparr>,
      (endpoint POST [''intake/:slug''] ''submit'')\<lparr>rt_public := True, rt_limit := Some 5\<rparr>,
      (endpoint GET [''status/:token''] ''status'')\<lparr>rt_public := True, rt_limit := Some 30\<rparr>,
      (endpoint POST [''status/:token/cancel''] ''cancel'')\<lparr>rt_public := True, rt_limit := Some 5\<rparr>]"

definition TechniciansController_routes :: "route list" where
  "TechniciansController_routes = under [''technicians''] [JwtG] [
      endpoint GET [''vocabulary''] ''vocabulary'',
      endpoint GET [''me''] ''mine'',
      endpoint GET [''overview''] ''overview'',
      endpoint POST [''access-requests''] ''requestAccess'',
      endpoint GET [''approvals''] ''approvals'',
      (endpoint POST [''approvals/:id''] ''decide'')\<lparr>rt_checks := [StepUp ''permissions.change'']\<rparr>,

             (endpoint PATCH [''businesses/:businessId/approval-required''] ''setApprovalRequired'')\<lparr>rt_checks := [StepUp ''permissions.change'']\<rparr>,
      endpoint GET [''people''] ''people'',
      endpoint GET [''people/:userId/effective''] ''effective'',
      (endpoint PATCH [''people/:userId/platform-permissions''] ''setPlatformPermissions'')\<lparr>rt_checks := [StepUp ''technicians.manage'']\<rparr>,
      endpoint GET [''assignments''] ''listAssignments'',
      (endpoint POST [''assignments''] ''createAssignment'')\<lparr>rt_checks := [StepUp ''technicians.manage'']\<rparr>,
      endpoint POST [''assignments/:id/revoke''] ''revokeAssignment'',
      endpoint GET [''groups''] ''groups'',
      (endpoint POST [''groups''] ''createGroup'')\<lparr>rt_checks := [StepUp ''technicians.manage'']\<rparr>,
      (endpoint PATCH [''groups/:id''] ''updateGroup'')\<lparr>rt_checks := [StepUp ''technicians.manage'']\<rparr>,
      endpoint DELETE [''groups/:id''] ''deleteGroup'',
      (endpoint POST [''groups/:id/members''] ''addMember'')\<lparr>rt_checks := [StepUp ''technicians.manage'']\<rparr>,
      endpoint DELETE [''groups/:id/members/:userId''] ''removeMember'']"

definition TenantsController_routes :: "route list" where
  "TenantsController_routes = under [''platform'', ''tenants''] [JwtG] [
      (endpoint GET [[]] ''findAll'')\<lparr>rt_checks := [Operator]\<rparr>,
      (endpoint GET ['':id''] ''findOne'')\<lparr>rt_checks := [Operator]\<rparr>,
      (endpoint PATCH ['':id''] ''update'')\<lparr>rt_checks := [Operator]\<rparr>,
      (endpoint PATCH ['':id/branding''] ''updateBranding'')\<lparr>rt_checks := [Operator]\<rparr>,
      (endpoint PATCH ['':id/settings''] ''updateSettings'')\<lparr>rt_checks := [Operator]\<rparr>,
      (endpoint PATCH ['':id/branding/logo''] ''uploadLogo'')\<lparr>rt_guards := [AdminG], rt_checks := [Operator]\<rparr>]"

definition UsersController_routes :: "route list" where
  "UsersController_routes = under [''users''] [JwtG, CapabilitiesG] [
      endpoint GET [''me/mfa-status''] ''myMfaStatus'',
      endpoint GET [''platform-admins''] ''listPlatformAdmins'',
      endpoint GET [''find''] ''find'',
      (endpoint PATCH ['':userId/platform-admin''] ''setPlatformAdmin'')\<lparr>rt_checks := [StepUp ''permissions.change'']\<rparr>,
      (endpoint GET [[]] ''list'')\<lparr>rt_capabilities := Some [CAP_USERS_VIEW]\<rparr>,
      (endpoint PATCH ['':userId''] ''updateProfile'')\<lparr>rt_capabilities := Some [CAP_USERS_MANAGE]\<rparr>,
      (endpoint POST ['':userId/reset-password''] ''resetPassword'')\<lparr>rt_capabilities := Some [CAP_USERS_MANAGE]\<rparr>,
      (endpoint PATCH ['':userId/suspend''] ''suspend'')\<lparr>rt_capabilities := Some [CAP_USERS_MANAGE]\<rparr>,
      (endpoint PATCH ['':userId/activate''] ''activate'')\<lparr>rt_capabilities := Some [CAP_USERS_MANAGE]\<rparr>,
      (endpoint PATCH ['':userId/level''] ''setLevel'')\<lparr>rt_capabilities := Some [CAP_USERS_MANAGE],
        rt_checks := [StepUp ''permissions.change'']\<rparr>,
      (endpoint PATCH ['':userId/capabilities''] ''setCapabilities'')\<lparr>rt_capabilities := Some [CAP_USERS_MANAGE],
        rt_checks := [StepUp ''permissions.change'']\<rparr>,
      (endpoint PATCH ['':userId/business''] ''setBusiness'')\<lparr>rt_capabilities := Some [CAP_USERS_MANAGE],
        rt_checks := [StepUp ''permissions.change'']\<rparr>,
      (endpoint POST ['':userId/mfa/reset''] ''resetMfa'')\<lparr>rt_capabilities := Some [CAP_USERS_MANAGE]\<rparr>,
      (endpoint DELETE ['':userId''] ''remove'')\<lparr>rt_capabilities := Some [CAP_USERS_MANAGE]\<rparr>]"

definition api_routes :: "route list" where
  "api_routes =
    AdminController_routes @ RolloutsController_routes @ SecurityController_routes @ UpdateController_routes @
     ApiKeysController_routes @ AuditController_routes @ AuthController_routes @ BusinessesController_routes @
     DashboardController_routes @ DiagnosticsController_routes @ DownloadsController_routes @
     EndpointsController_routes @ EnrollmentController_routes @ LauncherController_routes @ MfaController_routes @
     NotesController_routes @ OffboardingController_routes @ PasskeysController_routes @
     PublicAddressController_routes @ AddressProbeController_routes @ PublicApiController_routes @
     PublicController_routes @ QuickConnectPublicController_routes @ QuickConnectController_routes @
     SessionsController_routes @ BusinessSitesController_routes @ SitesController_routes @ SsoAdminController_routes @
     SsoAuthController_routes @ SupportRequestsController_routes @ PublicSupportController_routes @
     TechniciansController_routes @ TenantsController_routes @ UsersController_routes"

section \<open>Who gets in\<close>

text \<open>A route as it is called: its method and its first path.\<close>

definition key_of :: "route \<Rightarrow> http_method \<times> string" where "key_of r = (rt_method r, hd (rt_paths r))"

text \<open>The routes without any credential: public ones without the key guard.\<close>

definition open_route :: "route \<Rightarrow> bool" where "open_route r = (rt_public r \<and> KeyG \<notin> set (rt_guards r))"

definition undemanding :: "route \<Rightarrow> bool" where
  "undemanding r = (list_all (\<lambda>g. g \<in> set APP_GUARDS) (rt_guards r) \<and> rt_permissions r = None \<and> rt_capabilities r = None \<and> rt_checks r = [])"

section \<open>The table at a glance\<close>

definition OPEN_ROUTES :: "(http_method \<times> string) list" where
  "OPEN_ROUTES = [(POST, ''auth/login''), (POST, ''auth/mfa/verify''), (POST, ''diagnostics/technician/report''),
     (POST, ''endpoints/grants/redeem''), (POST, ''enrollment/claim''), (POST, ''enrollment/heartbeat''),
     (POST, ''enrollment/command-result''), (POST, ''enrollment/confirm-rotation''), (GET, ''launcher/validate''),
     (POST, ''auth/passkeys/login/options''), (POST, ''auth/passkeys/login''), (GET, ''public/address-probe/:nonce''),
     (GET, ''public/rustdesk-config''), (GET, ''public/install/win/:token''), (GET, ''public/install/linux/:token''),
     (GET, ''public/install/mac/:token''), (GET, ''public/install/:platform''), (GET, ''public/quick-connect''),
     (GET, ''public/quick-connect/download/:os''), (POST, ''sessions/telemetry''), (GET, ''auth/sso/providers''),
     (GET, ''auth/sso/:id/start''), (GET, ''auth/sso/callback''), (GET, ''public/support/intake/:slug''),
     (POST, ''public/support/intake/:slug''), (GET, ''public/support/status/:token''), (POST, ''public/support/status/:token/cancel'')]"

definition operator_only :: "route \<Rightarrow> bool" where
  "operator_only r = (AdminG \<in> set (rt_guards r) \<or> Operator \<in> set (rt_checks r))"

text \<open>The administration of the platform: everything under these paths but the search and the version of the server.\<close>

definition platform_path :: "string \<Rightarrow> bool" where
  "platform_path p = (hd (split_on (CHR ''/'') p) \<in> set [''admin'', ''platform'', ''tenants''])"

definition platform_route :: "route \<Rightarrow> bool" where
  "platform_route r = (list_ex platform_path (rt_paths r) \<and> rt_handler r \<notin> set [''search'', ''appVersion''])"

fun asked_action :: "handler_check \<Rightarrow> string list" where
  "asked_action (StepUp a) = [a]"
| "asked_action Operator = []"

definition anonymous :: caller where
  "anonymous = \<lparr>cl_token = Inl (Unauthorized []), cl_key = (\<lambda>_. Inl (Unauthorized [])), cl_proof = (\<lambda>_ _. Inl (Forbidden []))\<rparr>"

definition operator_payload :: jwt_payload where
  "operator_payload = (plain_payload ''u1'')\<lparr>jp_isPlatformAdmin := True\<rparr>"

definition operator_caller :: caller where
  "operator_caller = anonymous\<lparr>cl_token := Inr operator_payload\<rparr>"

text \<open>What the proofs below read off the table, evaluated controller by controller.\<close>

lemmas by_controller = api_routes_def filter_append map_append list_all_append concat_append

lemma open_in_table: "map key_of (filter open_route api_routes) = OPEN_ROUTES"
  unfolding by_controller by code_simp

lemma open_undemanding_in_table: "list_all undemanding (filter open_route api_routes)"
  unfolding by_controller by code_simp

text \<open>Open routes that change something have a budget of their own.\<close>

lemma open_changes_are_limited:
  "filter (\<lambda>r. open_route r \<and> rt_method r \<noteq> GET \<and> rate_limit r > 60) api_routes = []"
  unfolding by_controller by code_simp

lemma platform_in_table:
  "list_all (\<lambda>r. operator_only r \<and> \<not> rt_public r \<and> KeyG \<notin> set (rt_guards r)) (filter platform_route api_routes)"
  unfolding by_controller by code_simp

text \<open>Every action of the vocabulary is asked for somewhere.\<close>

lemma every_action_is_asked_for:
  "remdups (concat (map (\<lambda>r. concat (map asked_action (rt_checks r))) api_routes))
   = [''credential.reveal'', ''passkey.manage'', ''platform.configure'', ''sso.configure'', ''technicians.manage'', ''permissions.change'']"
  unfolding by_controller by code_simp

section \<open>Anonymous callers\<close>

lemma run_guards_refused:
  assumes "g \<in> set gs" "\<And>user. \<exists>e. run_guard c r g user = Inl e"
  shows "\<exists>e. run_guards c r gs user = Inl e"
  using assms(1)
proof (induction gs arbitrary: user)
  case (Cons h gs)
  show ?case
  proof (cases "run_guard c r h user")
    case (Inr u)
    then have "g \<in> set gs" using Cons.prems assms(2)[of user] by auto
    then show ?thesis using Inr Cons.IH by simp
  qed simp
qed simp

lemma admit_refused:
  assumes "g \<in> set (APP_GUARDS @ rt_guards r)" "\<And>user. \<exists>e. run_guard c r g user = Inl e"
  shows "\<not> is_ok (admit c r)"
  using run_guards_refused[OF assms, of None] by (auto simp: admit_def is_ok_def)

lemma private_refused: "\<not> rt_public r \<Longrightarrow> cl_token c = Inl e \<Longrightarrow> \<not> is_ok (admit c r)"
  by (rule admit_refused[of JwtG]) (auto simp: APP_GUARDS_def)

lemma keyless_refused:
  assumes "KeyG \<in> set (rt_guards r)" "\<And>req. \<exists>e. cl_key c req = Inl e"
  shows "\<not> is_ok (admit c r)"
proof (rule admit_refused[of KeyG])
  show "\<exists>e. run_guard c r KeyG user = Inl e" for user using assms(2)[of "rt_scopes r"] by auto
qed (use assms(1) in simp)

lemma app_guards_pass:
  assumes "rt_public r" "rt_permissions r = None" "rt_capabilities r = None" "list_all (\<lambda>g. g \<in> set APP_GUARDS) gs"
  shows "run_guards c r gs None = Inr None"
  using assms(4) by (induction gs) (auto simp: APP_GUARDS_def assms(1-3) permissions_guard_def capabilities_guard_def)

lemma undemanding_admitted: "rt_public r \<Longrightarrow> undemanding r \<Longrightarrow> admit c r = Inr None"
proof -
  assume p: "rt_public r" and u: "undemanding r"
  have "list_all (\<lambda>g. g \<in> set APP_GUARDS) (APP_GUARDS @ rt_guards r)"
    using u by (simp add: undemanding_def) (simp add: list_all_iff)
  with p u have "run_guards c r (APP_GUARDS @ rt_guards r) None = Inr None"
    by (intro app_guards_pass) (simp_all add: undemanding_def)
  then show ?thesis using u by (simp add: admit_def undemanding_def)
qed

text \<open>
  C2: Without a session and without an API key exactly these routes of the whole server can be reached, whatever else the
  request carries.
\<close>

theorem only_these_routes_are_open:
  assumes "cl_token c = Inl e" "\<And>req. \<exists>e. cl_key c req = Inl e"
  shows "map key_of (filter (\<lambda>r. is_ok (admit c r)) api_routes) = OPEN_ROUTES"
proof -
  have "is_ok (admit c r) = open_route r" if "r \<in> set api_routes" for r
  proof (cases "open_route r")
    case True
    then have "undemanding r" using that open_undemanding_in_table by (simp add: list_all_iff)
    then show ?thesis using True undemanding_admitted[of r c] by (simp add: open_route_def is_ok_def)
  next
    case False
    then show ?thesis using private_refused[OF _ assms(1)] keyless_refused[OF _ assms(2)] by (auto simp: open_route_def)
  qed
  then have "filter (\<lambda>r. is_ok (admit c r)) api_routes = filter open_route api_routes" by (rule filter_cong[OF refl])
  then show ?thesis using open_in_table by simp
qed

theorem only_these_routes_are_open_witness:
  "map key_of (filter (\<lambda>r. is_ok (admit anonymous r)) api_routes) = OPEN_ROUTES \<and> (POST, ''auth/login'') \<in> set OPEN_ROUTES
   \<and> (POST, ''users/:userId/reset-password'') \<notin> set OPEN_ROUTES"
proof (intro conjI)
  show "map key_of (filter (\<lambda>r. is_ok (admit anonymous r)) api_routes) = OPEN_ROUTES"
    by (rule only_these_routes_are_open) (simp_all add: anonymous_def)
qed (simp_all add: OPEN_ROUTES_def)


section \<open>Operators\<close>

lemma admin_guard_passed: "platform_admin_guard u = Inr x \<Longrightarrow> \<exists>p. u = Some p \<and> jp_isPlatformAdmin p"
  by (auto simp: platform_admin_guard_def split: option.splits if_splits)

lemma checks_operator: "run_checks c u ks = Inr x \<Longrightarrow> Operator \<in> set ks \<Longrightarrow> \<exists>p. u = Some p \<and> jp_isPlatformAdmin p"
  by (induction ks) (auto dest: admin_guard_passed split: sum.splits)

text \<open>What the guards of the module leave is the user of the token, or nobody on a public route.\<close>

lemma module_guards_user:
  assumes "run_guards c r (APP_GUARDS @ gs) None = Inr u" "\<not> rt_public r"
  shows "\<exists>p. cl_token c = Inr p \<and> run_guards c r gs (Some p) = Inr u"
  using assms by (auto simp: APP_GUARDS_def map_sum_Inr split: sum.splits)

text \<open>The guards of a private route without the key guard: the token's user all the way.\<close>

lemma guards_user:
  assumes "run_guards c r gs (Some p) = Inr u" "KeyG \<notin> set gs" "\<not> rt_public r" "cl_token c = Inr p"
  shows "u = Some p \<and> (AdminG \<in> set gs \<longrightarrow> jp_isPlatformAdmin p)"
  using assms(1,2)
proof (induction gs)
  case (Cons g gs)
  then obtain v where v: "run_guard c r g (Some p) = Inr v" "run_guards c r gs v = Inr u" by (auto split: sum.splits)
  have "v = Some p" using v(1) Cons.prems(2) assms(3,4) by (cases g) (auto simp: map_sum_Inr)
  moreover have "g = AdminG \<Longrightarrow> jp_isPlatformAdmin p" using v(1) by (auto simp: map_sum_Inr dest: admin_guard_passed)
  ultimately show ?case using Cons.IH v(2) Cons.prems(2) by auto
qed simp

lemma admitted_user:
  assumes "admit c r = Inr u" "\<not> rt_public r" "KeyG \<notin> set (rt_guards r)"
  shows "\<exists>p. cl_token c = Inr p \<and> u = Some p \<and> (operator_only r \<longrightarrow> jp_isPlatformAdmin p)
    \<and> run_checks c u (rt_checks r) = Inr ()"
proof -
  have g: "run_guards c r (APP_GUARDS @ rt_guards r) None = Inr u" and k: "run_checks c u (rt_checks r) = Inr ()"
    using assms(1) by (auto simp: admit_def split: sum.splits)
  from module_guards_user[OF g assms(2)] obtain p where p: "cl_token c = Inr p" "run_guards c r (rt_guards r) (Some p) = Inr u" by blast
  from guards_user[OF p(2) assms(3,2) p(1)] have u: "u = Some p" "AdminG \<in> set (rt_guards r) \<longrightarrow> jp_isPlatformAdmin p" by simp_all
  have "Operator \<in> set (rt_checks r) \<Longrightarrow> jp_isPlatformAdmin p" using checks_operator[OF k] u(1) by auto
  with p(1) u k show ?thesis unfolding operator_only_def by blast
qed

text \<open>
  C3: Whoever gets through to a handler of the administration of the platform, its settings, updates, roll-outs, host and
  public address, is a platform admin by the token of that very request; the search, which narrows itself, and the version
  of the server are the only routes there that are not theirs alone.
\<close>

theorem platform_routes_need_operator:
  assumes "r \<in> set api_routes" "platform_route r" "admit c r = Inr u"
  shows "\<exists>p. cl_token c = Inr p \<and> u = Some p \<and> jp_isPlatformAdmin p"
proof -
  have "operator_only r" "\<not> rt_public r" "KeyG \<notin> set (rt_guards r)"
    using assms(1,2) platform_in_table by (simp_all add: list_all_iff)
  with admitted_user[OF assms(3)] show ?thesis by blast
qed

theorem platform_routes_need_operator_witness:
  "\<exists>r p. r \<in> set api_routes \<and> key_of r = (POST, ''admin/security/os-updates/run'') \<and> admit operator_caller r = Inr (Some p) \<and> jp_isPlatformAdmin p"
proof -
  have "map (\<lambda>r. (key_of r, platform_route r, is_ok (admit operator_caller r))) (filter (\<lambda>r. rt_handler r = ''runOsUpdate'') SecurityController_routes)
      = [((POST, ''admin/security/os-updates/run''), True, True)]" by code_simp
  then obtain r where f: "filter (\<lambda>r. rt_handler r = ''runOsUpdate'') SecurityController_routes = [r]"
    and r: "key_of r = (POST, ''admin/security/os-updates/run'')" "platform_route r" "is_ok (admit operator_caller r)"
    by (auto simp: map_eq_Cons_conv)
  have "r \<in> set (filter (\<lambda>r. rt_handler r = ''runOsUpdate'') SecurityController_routes)" unfolding f by simp
  then have "r \<in> set SecurityController_routes" by simp
  then have m: "r \<in> set api_routes" unfolding api_routes_def set_append by blast
  from r(3) obtain u where a: "admit operator_caller r = Inr u" by (auto simp: is_ok_iff)
  from platform_routes_need_operator[OF m r(2) a] show ?thesis using m r(1) a by blast
qed

section \<open>Fresh proofs\<close>

text \<open>A handler that asks for a recent proof of identity runs only with one that was accepted for its action.\<close>

lemma checks_proof: "run_checks c u ks = Inr x \<Longrightarrow> StepUp a \<in> set ks \<Longrightarrow> cl_proof c u a = Inr ()"
  by (induction ks) (auto split: sum.splits)

lemma admitted_with_proof: "admit c r = Inr u \<Longrightarrow> StepUp a \<in> set (rt_checks r) \<Longrightarrow> cl_proof c u a = Inr ()"
  by (auto simp: admit_def dest: checks_proof split: sum.splits)

text \<open>
  The capabilities of a member can be changed on two routes, and only one of them asks for the proof.
\<close>

theorem capabilities_change_without_proof:
  "map (\<lambda>r. (rt_method r, rt_paths r, rt_checks r)) (filter (\<lambda>r. rt_handler r = ''setCapabilities'') api_routes)
   = [(PATCH, [''businesses/:id/users/:userId/capabilities'', ''customers/:id/users/:userId/capabilities''], []),
      (PATCH, [''users/:userId/capabilities''], [StepUp ''permissions.change''])]"
  unfolding by_controller by code_simp

end
