(* ===== verification/Spec2Isabelle.thy ===== *)
theory Spec2Isabelle
  imports Prelude Auth StepUp ApiKeys Launcher Sessions Identity RolloutProofs SupportRequestProofs Technicians Presence EnrollmentProofs PeopleProperties SsoProofs PasskeyProofs Computers OffboardingProofs AccessReview Notes Sites AuditLog Redaction RustdeskConfig
    Platform Dashboard Diagnostics Updates Installers Resolver ConsoleProofs HostMetrics Routes
begin

text \<open>
  A model of Rem0te, a self-hosted service for remote support: a server (\<open>src/apps/api\<close>, NestJS over PostgreSQL) that
  knows businesses, people and computers and hands out the credentials with which RustDesk connects, and a web console
  (\<open>src/apps/web\<close>, Next.js). The paths named below are relative to \<open>src/apps/api/src\<close> unless they start with \<open>apps/\<close> or
  \<open>tools/\<close>.

  \<^bold>\<open>How the parts interact.\<close> A request carries a session token, an API key, a device secret or a one-time token. A session
  token is turned into an actor from the database on every request (\<open>Identity\<close>), the guards of its route are run
  (\<open>Routes\<close>), and the service narrows everything it reads and writes to the scope of that actor (\<open>AccessControl\<close>, with the
  standing of technicians from \<open>TechnicianAccess\<close> and \<open>Schedule\<close>). A computer enrolls with a claim token, then sends
  heartbeats under its device secret; a heartbeat answers commands, takes part in updates and is a signal of sessions. A
  connection starts with a decision at that instant, leaves a one-time grant or launcher token, and a session row that moves
  only through the session state machine.

  \<^bold>\<open>The state.\<close> \<open>Database\<close> holds the rows of \<open>prisma/schema.prisma\<close> as records, one table each as a list in the order of
  creation, and \<open>db\<close> as the record of all tables. An operation takes the time, the actor, its input and the database and
  returns a result beside the new database; what the process itself keeps (counters, caches) is a record of its own. Requests
  interleave where the code awaits, and part of the operations say so: what other requests do between a check and the write
  that follows is an argument of the password sign-in and the step-up (between the lock and the judgement), the public
  submission of a support request, the hand-out of commands to a heartbeat, the recording of a session event and what calls
  it, a claim, the acceptance of an offered secret, the redemption of grants and launcher tokens, the callback of single
  sign-on, the report of the helper and the platform-admin switch; for
  them races are statements about every such function. Every other operation is one step: a theorem about it speaks of
  a run in which nothing happens within it, whatever comes before and after. Sign-in with its lockout, the
  intake of support requests, the command queue, rollouts and the update of the operating system are also run as machines
  over any order of their steps. \<open>Prelude\<close> has errors (\<open>http_error\<close>, a result is a sum), the parts of
  JavaScript the code leans on (strings, \<open>parseInt\<close>, sets in insertion order, JSON) and the operations on tables.

  \<^bold>\<open>Interfaces.\<close> \<open>Contracts\<close> and \<open>Lockout\<close> state as locales what several components promise: \<open>single_use\<close> (a row a
  conditional update consumes: grants, launcher and claim tokens, jobs, approvals, codes, reports), \<open>machine\<close> and
  \<open>ranked_machine\<close> (an invariant over every run), \<open>pinned_scope\<close> and \<open>lockout\<close> (codes judged one after another). Each is
  interpreted on the definitions of the components, in their theories.

  \<^bold>\<open>Theories and sources.\<close>
  \<^item> Rights: \<open>Capabilities\<close> (\<open>rbac/capabilities.ts\<close>, \<open>platform-permissions.ts\<close>, \<open>permissions.map.ts\<close>), \<open>Schedule\<close>
    (\<open>rbac/schedule.ts\<close>), \<open>TechnicianAccess\<close> (\<open>rbac/technician-access.service.ts\<close>), \<open>AccessControl\<close>
    (\<open>rbac/access-control.service.ts\<close>), \<open>Identity\<close> (\<open>rbac/actor-resolver.service.ts\<close>, \<open>auth/strategies\<close>, \<open>common/guards\<close>),
    \<open>Routes\<close> (the controllers and \<open>app.module.ts\<close>). Shown: the scope of a technician is the union of the grants that count;
    a token claims nothing the database does not say; a schedule allows exactly the minutes of a reference calendar; which
    routes are open to anyone, to operators only, or need a fresh proof.
  \<^item> Signing in: \<open>Auth\<close>, \<open>Mfa\<close>, \<open>StepUp\<close> (\<open>auth\<close>, \<open>mfa\<close>), \<open>Passkeys\<close> and \<open>PasskeyProofs\<close>, \<open>Sso\<close> and \<open>SsoProofs\<close>,
    \<open>ApiKeys\<close>. Shown: guesses are bounded, also when they overlap, an authenticator is enforced, codes and challenges
    count once, a session through a provider needs a linked identity.
  \<^item> People: \<open>Businesses\<close>, \<open>Users\<close>, \<open>People\<close>, \<open>UserProofs\<close>, \<open>PeopleProperties\<close>, \<open>Technicians\<close>, \<open>Offboarding\<close> and
    \<open>OffboardingProofs\<close>, \<open>AccessReview\<close>, \<open>Sites\<close>, \<open>Notes\<close>. Shown: the platform keeps an operator, an offboarding ends all
    standing, the access review agrees with the connect path for computers in use of open businesses.
  \<^item> Computers: \<open>Endpoints\<close>, \<open>Computers\<close> (\<open>endpoints/endpoints.service.ts\<close>), \<open>Enrollment\<close> and \<open>EnrollmentProofs\<close>, \<open>Presence\<close>
    (\<open>enrollment/hbbs-presence.ts\<close>), \<open>Inventory\<close> and \<open>CommandQueue\<close> (\<open>endpoint-inventory\<close>), \<open>Resolver\<close>
    (\<open>endpoints/trmm-resolver.service.ts\<close>). Shown: what a computer without its secret can change, what a claim token
    enrolls, what is stored of a report, how often a command is handed out, that a presence reply is
    read back whatever pieces it comes in.
  \<^item> Sessions: \<open>SessionState\<close>, \<open>SessionEvents\<close>, \<open>Sessions\<close>, \<open>Launcher\<close>, \<open>QuickConnect\<close>, \<open>SupportRequests\<close> and
    \<open>SupportRequestProofs\<close>. Shown: the invariant of a session row over every run, that recording refines the machine, that
    requests have a life cycle with a bound on the open ones, up to the submissions in flight.
  \<^item> Updates: \<open>Versions\<close>, \<open>Rollout\<close>, \<open>RolloutHeartbeat\<close>, \<open>RolloutProofs\<close> (\<open>admin/update-rollout.service.ts\<close>), \<open>Updates\<close>
    (\<open>admin/update.service.ts\<close>), \<open>Installers\<close> (\<open>public/public.controller.ts\<close>, \<open>tools/windows-installer\<close>),
    \<open>RustdeskConfig\<close>. Shown: attempts are bounded in every order of events, only verified releases are built, embedded
    values are harmless, scripts and addresses are read back as they were written.
  \<^item> The platform: \<open>Platform\<close>, \<open>Dashboard\<close>, \<open>Diagnostics\<close>, \<open>Redaction\<close>, \<open>AuditLog\<close>, \<open>Host\<close>, \<open>HostMetrics\<close>. Shown: pages of
    the log are the log when creation times differ, what a report never holds, which programs run as root and when two updates
    of the operating system can overlap.
  \<^item> The console: \<open>Console\<close> and \<open>ConsoleProofs\<close> (\<open>apps/web\<close>). Shown: what a page decides agrees with the server as far as it
    looks; where it does not is a finding.

  \<^bold>\<open>Bounds and fuel.\<close> Loops over data are structural or have a measure: the presence reply ends after at most as many
  rounds as it has bytes (\<open>getField_rounds\<close>), which is proved as termination, not assumed. A varint is exact here and a
  double in the code, which agree below \<open>2 ^ 53\<close>; the ids and lengths of the protocol are far below. Recording an event
  retries a bounded number of times, which is the recursion on a natural number of the code's own counter. Redaction stops
  at the depth the code stops at. Limits the code puts on what it reads (500 rows of retention, 25 namesakes, 1000 lines)
  are kept in the definitions. Among rows of one instant the pages of the log may come
  in any order; single lists sorted by time (recent activity, the newest of a kind) put the row written last first, one of the
  orders the database may choose. Times are integers of milliseconds; the code's are doubles, exact at this size. Characters
  are bytes.

  \<^bold>\<open>Parameters.\<close> What is not in the repository is an argument: hashes, encryption, signing and checking of tokens, password
  hashing, the libraries for passkeys and OpenID Connect, the URL parser, the time-zone database and date parsing, the
  network, the files and programs of the host, and all random or generated values. Assumptions about them are stated in the
  theorems that need them, each of which has an instance.

  \<^bold>\<open>Not modelled.\<close> The layout, forms and data fetching of the web pages, and texts and orders for the screen; the bodies of
  PowerShell and shell scripts (only the values embedded in them); the launcher for the technician's computer and the tools
  written in Rust and Go, but for the reading side of the Windows installer; log output; reading the configuration
  at start; the wiring of modules; the code audit, certificates and state of disks, which only start programs and forward
  what they print; and the rejection of ill-formed bodies by the validation pipe, so that inputs are typed already except
  where a service receives raw JSON.
\<close>

end
